(* ===== verification/Prelude.thy ===== *)
theory Prelude
  imports Complex_Main "HOL-Library.Word"
begin

text \<open>
  What every component of the development shares: the collections the proofs draw on, the
  result type of fallible functions with the \<open>anyhow::ensure!\<close> chains of the source, the
  integers of Rust, and a few facts on options and lists. An \<open>i64\<close> is an \<^typ>\<open>int\<close>
  with the saturation or wrap-around of the operation written out; an unsigned counter is
  a word.
\<close>

named_theorems f64_eval \<open>definitions that evaluate f64 expressions on literals\<close>
named_theorems text_eval \<open>definitions that evaluate string functions on literals\<close>
named_theorems model_defs \<open>definitions of the small predicates of the model\<close>

type_synonym u32 = "32 word"
type_synonym u64 = "64 word"
type_synonym i64 = int

text \<open>The cast \<open>as i32\<close> keeps the low 32 bits.\<close>

definition i64_as_i32 :: "i64 \<Rightarrow> int" where
  "i64_as_i32 n = (n + 2 ^ 31) mod 2 ^ 32 - 2 ^ 31"

section \<open>Fallible functions\<close>

type_synonym ('e, 'a) result = "'e + 'a"

text \<open>
  A function whose body is a sequence of \<open>anyhow::ensure!\<close> lines returns the message of the
  first check that fails, and unit when none does.
\<close>

definition ensure_all :: "(bool \<times> 'e) list \<Rightarrow> ('e, unit) result" where
  "ensure_all cs = (case find (\<lambda>(c, _). \<not> c) cs of None \<Rightarrow> Inr () | Some (_, e) \<Rightarrow> Inl e)"

lemma ensure_all_Nil [simp]: "ensure_all [] = Inr ()"
  by (simp add: ensure_all_def)

lemma ensure_all_Cons [simp]: "ensure_all ((c, e) # cs) = (if c then ensure_all cs else Inl e)"
  by (simp add: ensure_all_def)

lemma ensure_all_append: "ensure_all (as @ bs) =
    (case ensure_all as of Inl e \<Rightarrow> Inl e | Inr _ \<Rightarrow> ensure_all bs)"
  by (induction as) auto

lemma ensure_all_ok: "ensure_all cs = Inr () \<longleftrightarrow> (\<forall>(c, _) \<in> set cs. c)"
  by (induction cs) (auto split: if_splits)

lemma ensure_all_err: "ensure_all cs = Inl e \<Longrightarrow> (False, e) \<in> set cs"
  by (induction cs) (auto split: if_splits)

text \<open>One \<open>anyhow::ensure!\<close>, a sequence of fallible steps that return nothing, the operator \<open>?\<close>
  on a value, and \<open>with_context\<close>, whose message is the one displayed.\<close>

definition ensure :: "bool \<Rightarrow> 'e \<Rightarrow> ('e, unit) result" where
  "ensure c e = (if c then Inr () else Inl e)"

fun first_err :: "('e, unit) result list \<Rightarrow> ('e, unit) result" where
  "first_err [] = Inr ()"
| "first_err (Inl e # rs) = Inl e"
| "first_err (Inr _ # rs) = first_err rs"

definition res_bind :: "('e, 'a) result \<Rightarrow> ('a \<Rightarrow> ('e, 'b) result) \<Rightarrow> ('e, 'b) result" where
  "res_bind r f = (case r of Inl e \<Rightarrow> Inl e | Inr x \<Rightarrow> f x)"

definition with_context :: "'e \<Rightarrow> ('d, 'a) result \<Rightarrow> ('e, 'a) result" where
  "with_context e r = (case r of Inl _ \<Rightarrow> Inl e | Inr x \<Rightarrow> Inr x)"

definition ok_or :: "'e \<Rightarrow> 'a option \<Rightarrow> ('e, 'a) result" where
  "ok_or e a = (case a of None \<Rightarrow> Inl e | Some x \<Rightarrow> Inr x)"

lemma ensure_ok [simp]: "ensure c e = Inr u \<longleftrightarrow> c" "ensure c e = Inl d \<longleftrightarrow> \<not> c \<and> d = e"
  by (auto simp: ensure_def)

lemma first_err_ok: "first_err rs = Inr u \<longleftrightarrow> list_all (\<lambda>r. r = Inr ()) rs"
  by (induction rs rule: first_err.induct) auto

lemma first_err_append: "first_err (xs @ ys) = (case first_err xs of Inl e \<Rightarrow> Inl e | Inr _ \<Rightarrow> first_err ys)"
  by (induction xs rule: first_err.induct) auto

lemma res_bind_ok [simp]: "res_bind r f = Inr y \<longleftrightarrow> (\<exists>x. r = Inr x \<and> f x = Inr y)"
  and res_bind_simps [simp]: "res_bind (Inl e) f = Inl e" "res_bind (Inr x) f = f x"
  by (auto simp: res_bind_def split: sum.split)

lemma with_context_ok [simp]: "with_context e r = Inr y \<longleftrightarrow> r = Inr y"
  by (auto simp: with_context_def split: sum.split)

lemma ok_or_ok [simp]: "ok_or e a = Inr y \<longleftrightarrow> a = Some y"
  by (auto simp: ok_or_def split: option.split)

definition is_ok :: "('e, 'a) result \<Rightarrow> bool" where
  "is_ok r = (case r of Inl _ \<Rightarrow> False | Inr _ \<Rightarrow> True)"

lemma is_ok_simps [simp]: "\<not> is_ok (Inl e)" "is_ok (Inr x)"
  by (simp_all add: is_ok_def)

section \<open>Options\<close>

text \<open>\<open>Option::or\<close>, \<open>Option::filter\<close> and \<open>unwrap_or\<close>.\<close>

definition or_opt :: "'a option \<Rightarrow> 'a option \<Rightarrow> 'a option" where
  "or_opt a b = (case a of Some _ \<Rightarrow> a | None \<Rightarrow> b)"

definition filter_opt :: "('a \<Rightarrow> bool) \<Rightarrow> 'a option \<Rightarrow> 'a option" where
  "filter_opt p a = (case a of Some x \<Rightarrow> if p x then Some x else None | None \<Rightarrow> None)"

definition unwrap_or :: "'a \<Rightarrow> 'a option \<Rightarrow> 'a" where
  "unwrap_or d a = (case a of Some x \<Rightarrow> x | None \<Rightarrow> d)"

definition then_some :: "bool \<Rightarrow> 'a \<Rightarrow> 'a option" where
  "then_some c x = (if c then Some x else None)"

lemma or_opt_simps [simp]: "or_opt (Some x) b = Some x" "or_opt None b = b"
  by (simp_all add: or_opt_def)

lemma filter_opt_simps [simp]:
  "filter_opt p None = None" "filter_opt p (Some x) = (if p x then Some x else None)"
  by (simp_all add: filter_opt_def)

lemma filter_opt_Some: "filter_opt p a = Some x \<longleftrightarrow> a = Some x \<and> p x"
  by (auto simp: filter_opt_def split: option.splits)

lemma unwrap_or_simps [simp]: "unwrap_or d None = d" "unwrap_or d (Some x) = x"
  by (simp_all add: unwrap_or_def)

lemma then_some_simps [simp]: "then_some c x = Some y \<longleftrightarrow> c \<and> x = y" "then_some c x = None \<longleftrightarrow> \<not> c"
  by (simp_all add: then_some_def)

section \<open>Machine integers\<close>

definition i64_min :: int where "i64_min = - (2 ^ 63)"
definition i64_max :: int where "i64_max = 2 ^ 63 - 1"

definition is_i64 :: "int \<Rightarrow> bool" where
  "is_i64 n \<longleftrightarrow> i64_min \<le> n \<and> n \<le> i64_max"

text \<open>\<open>i64::saturating_sub\<close>, the cast \<open>as u64\<close>, and \<open>u64::saturating_add\<close>, \<open>saturating_sub\<close>.\<close>

definition sat_i64 :: "int \<Rightarrow> i64" where
  "sat_i64 n = max i64_min (min i64_max n)"

definition sat_sub_i64 :: "i64 \<Rightarrow> i64 \<Rightarrow> i64" where
  "sat_sub_i64 a b = sat_i64 (a - b)"

definition i64_as_u64 :: "i64 \<Rightarrow> u64" where
  "i64_as_u64 n = word_of_int n"

definition sat_add_u64 :: "u64 \<Rightarrow> u64 \<Rightarrow> u64" where
  "sat_add_u64 a b = (if unat a + unat b < 2 ^ 64 then a + b else - 1)"

definition sat_sub_u64 :: "u64 \<Rightarrow> u64 \<Rightarrow> u64" where
  "sat_sub_u64 a b = (if b \<le> a then a - b else 0)"

definition sat_add_u32 :: "u32 \<Rightarrow> u32 \<Rightarrow> u32" where
  "sat_add_u32 a b = (if unat a + unat b < 2 ^ 32 then a + b else - 1)"

text \<open>Rust's division and remainder truncate towards zero.\<close>

definition rust_div :: "int \<Rightarrow> int \<Rightarrow> int" where
  "rust_div a b = sgn a * sgn b * (\<bar>a\<bar> div \<bar>b\<bar>)"

definition rust_rem :: "int \<Rightarrow> int \<Rightarrow> int" where
  "rust_rem a b = sgn a * (\<bar>a\<bar> mod \<bar>b\<bar>)"

lemma unat_sat_add_u64: "unat (sat_add_u64 a b) = min (2 ^ 64 - 1) (unat a + unat b)"
  using unsigned_less [of a, where 'a = nat] unsigned_less [of b, where 'a = nat]
  by (auto simp: sat_add_u64_def unat_word_ariths unsigned_minus_1_eq_mask mask_eq_exp_minus_1)

lemma unat_sat_sub_u64: "unat (sat_sub_u64 a b) = unat a - unat b"
  by (auto simp: sat_sub_u64_def unat_sub word_le_nat_alt)

lemma unat_sat_add_u32: "unat (sat_add_u32 a b) = min (2 ^ 32 - 1) (unat a + unat b)"
  using unsigned_less [of a, where 'a = nat] unsigned_less [of b, where 'a = nat]
  by (auto simp: sat_add_u32_def unat_word_ariths unsigned_minus_1_eq_mask mask_eq_exp_minus_1)

lemma sat_i64_is_i64: "is_i64 (sat_i64 n)"
  by (auto simp: sat_i64_def is_i64_def i64_min_def i64_max_def)

lemma sat_i64_id: "is_i64 n \<Longrightarrow> sat_i64 n = n"
  by (auto simp: sat_i64_def is_i64_def)

lemma uint_i64_as_u64: "uint (i64_as_u64 n) = n mod 2 ^ 64"
  by (simp add: i64_as_u64_def uint_word_of_int)

end
