(* ===== verification/F64.thy ===== *)
theory F64
  imports Prelude
begin

text \<open>
  IEEE-754 binary64, the Rust type \<open>f64\<close>, as an executable HOL type. A value is not a
  number, an infinity, the negative zero, or a finite rational. Every arithmetic
  operation computes the exact rational result and rounds it to nearest, ties to even,
  into the format (53 bits of significand, exponents down to -1074, overflow from
  \<open>2 ^ 1024\<close>), so the results are the ones the machine computes. The comparison
  operators are IEEE's: every comparison with a NaN is false, the two zeros are equal.
  The lemmas give what the component proofs need: rounding is monotone, is the identity
  on representable values, and has relative error \<open>2 powi -53\<close>.
\<close>

section \<open>Rounding a rational to the format\<close>

text \<open>The position of the leading bit of a positive integer, and of a positive rational.\<close>

function ilog :: "int \<Rightarrow> int" where
  "ilog n = (if n < 2 then 0 else 1 + ilog (n div 2))"
  by pat_completeness auto
termination by (relation "measure nat") auto
declare ilog.simps [simp del]

definition expo :: "rat \<Rightarrow> int" where
  "expo q = (if 1 \<le> q then ilog \<lfloor>q\<rfloor> else - (ilog (\<lceil>1 / q\<rceil> - 1) + 1))"

text \<open>The exponent of one unit in the last place, bounded below by the subnormals.\<close>

definition ulp_exp :: "rat \<Rightarrow> int" where
  "ulp_exp q = max (expo q - 52) (- 1074)"

definition half_even :: "rat \<Rightarrow> int" where
  "half_even x = (let n = \<lfloor>x\<rfloor>; f = x - of_int n
     in if f < 1 / 2 then n else if 1 / 2 < f then n + 1 else if even n then n else n + 1)"

definition rmag :: "rat \<Rightarrow> rat" where
  "rmag q = (let u = 2 powi ulp_exp q in of_int (half_even (q / u)) * u)"

definition rr :: "rat \<Rightarrow> rat" where
  "rr q = (if q < 0 then - rmag (- q) else rmag q)"

lemma ilog_bounds:
  "1 \<le> n \<Longrightarrow> 0 \<le> ilog n \<and> 2 ^ nat (ilog n) \<le> n \<and> n < 2 ^ nat (ilog n + 1)"
proof (induction n rule: ilog.induct)
  case (1 n)
  show ?case
  proof (cases "n < 2")
    case True
    with "1.prems" show ?thesis by (simp add: ilog.simps [of n])
  next
    case False
    then have IH: "0 \<le> ilog (n div 2)" "2 ^ nat (ilog (n div 2)) \<le> n div 2"
        "n div 2 < 2 ^ nat (ilog (n div 2) + 1)"
      using "1.IH" by auto
    have "nat (1 + ilog (n div 2)) = Suc (nat (ilog (n div 2)))"
      "nat (1 + ilog (n div 2) + 1) = Suc (nat (ilog (n div 2) + 1))"
      using IH(1) by auto
    moreover have "2 * (n div 2) \<le> n" "n < 2 * (n div 2 + 1)" by presburger+
    moreover have "2 * 2 ^ nat (ilog (n div 2)) \<le> 2 * (n div 2)"
      "2 * (n div 2 + 1) \<le> 2 * 2 ^ nat (ilog (n div 2) + 1)"
      using IH(2,3) by (intro mult_left_mono; simp)+
    ultimately show ?thesis using IH(1) False by (simp add: ilog.simps [of n])
  qed
qed

lemma powi2_nat: "0 \<le> k \<Longrightarrow> (2::rat) powi k = of_int (2 ^ nat k)"
  by (simp add: power_int_nonneg_exp)

lemma expo_bounds:
  assumes "0 < q"
  shows "2 powi expo q \<le> q \<and> q < 2 powi (expo q + 1)"
proof (cases "1 \<le> q")
  case True
  let ?a = "\<lfloor>q\<rfloor>"
  have "1 \<le> ?a" using True by simp
  note b = ilog_bounds [OF this]
  have "of_int (2 ^ nat (ilog ?a)) \<le> q" using b by (simp only: le_floor_iff [symmetric])
  moreover have "q < of_int (2 ^ nat (ilog ?a + 1))" using b by (simp only: floor_less_iff [symmetric])
  ultimately show ?thesis using True b by (simp add: expo_def powi2_nat)
next
  case False
  let ?n = "\<lceil>1 / q\<rceil>"
  have r: "1 < 1 / q" using assms False by (simp add: field_simps)
  then have n: "1 \<le> ?n - 1" by linarith
  note b = ilog_bounds [OF this]
  let ?j = "ilog (?n - 1)"
  have "?n \<le> 2 ^ nat (?j + 1)" using b by linarith
  then have "1 / q \<le> of_int (2 ^ nat (?j + 1))" by (simp only: ceiling_le_iff)
  then have up: "1 / q \<le> 2 powi (?j + 1)" using b by (subst powi2_nat) auto
  have "of_int (?n - 1) < 1 / q" by linarith
  moreover have "(of_int (2 ^ nat ?j) :: rat) \<le> of_int (?n - 1)" using b by (simp only: of_int_le_iff)
  ultimately have lo: "2 powi ?j < 1 / q" using b by (simp only: powi2_nat)
  have "2 powi (- (?j + 1)) \<le> q"
    using up assms by (simp only: power_int_minus inverse_eq_divide) (simp add: field_simps)
  moreover have "q < 2 powi (- ?j)"
    using lo assms by (simp only: power_int_minus inverse_eq_divide) (simp add: field_simps)
  ultimately show ?thesis using False by (simp add: expo_def)
qed

lemma powi2_less_iff: "(2::rat) powi a < 2 powi b \<longleftrightarrow> a < b"
proof
  show "(2::rat) powi a < 2 powi b" if "a < b"
    using that by (intro power_int_strict_increasing) auto
  show "a < b" if "(2::rat) powi a < 2 powi b"
    using that power_int_increasing [of b a "2::rat"] by (cases "a < b") auto
qed

lemma expo_mono:
  assumes "0 < p" "p \<le> q"
  shows "expo p \<le> expo q"
proof -
  have "(2::rat) powi expo p < 2 powi (expo q + 1)"
    using expo_bounds [OF assms(1)] expo_bounds [of q] assms by linarith
  then show ?thesis by (simp add: powi2_less_iff)
qed

lemma half_even_ge: "of_int k \<le> x \<Longrightarrow> k \<le> half_even x"
  by (simp add: half_even_def Let_def le_floor_iff [symmetric])

lemma half_even_le:
  assumes "x \<le> of_int k"
  shows "half_even x \<le> k"
proof (cases "x = of_int k")
  case True
  then show ?thesis by (simp add: half_even_def)
next
  case False
  with assms have "\<lfloor>x\<rfloor> + 1 \<le> k" by linarith
  then show ?thesis by (auto simp: half_even_def Let_def)
qed

lemma half_even_mono:
  assumes "x \<le> y"
  shows "half_even x \<le> half_even y"
proof (cases "\<lfloor>x\<rfloor> = \<lfloor>y\<rfloor>")
  case True
  with assms show ?thesis by (auto simp: half_even_def Let_def)
next
  case False
  then have "\<lfloor>x\<rfloor> + 1 \<le> \<lfloor>y\<rfloor>" using floor_mono [OF assms] by linarith
  then show ?thesis by (auto simp: half_even_def Let_def)
qed

lemma half_even_err: "\<bar>of_int (half_even x) - x\<bar> \<le> 1 / 2"
  unfolding half_even_def Let_def abs_le_iff by (auto split: if_splits; linarith)

lemma rmag_nonneg: "0 \<le> q \<Longrightarrow> 0 \<le> rmag q"
proof -
  assume "0 \<le> q"
  then have "0 \<le> half_even (q / 2 powi ulp_exp q)" by (intro half_even_ge) simp
  then show ?thesis by (simp add: rmag_def Let_def)
qed

lemma rmag_zero [simp]: "rmag 0 = 0"
  by (simp add: rmag_def half_even_def)

lemma rmag_ge: "of_int k * 2 powi ulp_exp q \<le> q \<Longrightarrow> of_int k * 2 powi ulp_exp q \<le> rmag q"
  using half_even_ge [of k "q / 2 powi ulp_exp q"]
  by (simp add: rmag_def Let_def pos_le_divide_eq)

lemma rmag_le: "q \<le> of_int k * 2 powi ulp_exp q \<Longrightarrow> rmag q \<le> of_int k * 2 powi ulp_exp q"
  using half_even_le [of "q / 2 powi ulp_exp q" k]
  by (simp add: rmag_def Let_def pos_divide_le_eq)

lemma rmag_exact: "q = of_int k * 2 powi ulp_exp q \<Longrightarrow> rmag q = q"
  using rmag_ge [of k q] rmag_le [of q k] by simp

lemma powi2_split: "b \<le> a \<Longrightarrow> (2::rat) powi a = of_int (2 ^ nat (a - b)) * 2 powi b"
  using power_int_add [of "2::rat" "a - b" b] by (simp add: powi2_nat)

lemma ulp_exp_le_expo: "- 1074 < ulp_exp q \<Longrightarrow> ulp_exp q = expo q - 52"
  by (simp add: ulp_exp_def split: if_splits)

lemma rmag_mono:
  assumes "0 \<le> p" "p \<le> q"
  shows "rmag p \<le> rmag q"
proof (cases "p = 0")
  case True
  with assms show ?thesis by (simp add: rmag_nonneg)
next
  case False
  with assms have p: "0 < p" and q: "0 < q" by auto
  note e = expo_mono [OF p assms(2)]
  show ?thesis
  proof (cases "ulp_exp p = ulp_exp q")
    case True
    have "half_even (p / 2 powi ulp_exp q) \<le> half_even (q / 2 powi ulp_exp q)"
      using assms by (intro half_even_mono divide_right_mono) auto
    with True show ?thesis by (simp add: rmag_def Let_def mult_right_mono)
  next
    case False
    with e have lt: "ulp_exp p < ulp_exp q" and "expo p < expo q"
      by (auto simp: ulp_exp_def split: if_splits) 
    then have uq: "ulp_exp q = expo q - 52"
      by (intro ulp_exp_le_expo) (auto simp: ulp_exp_def)
    have "(2::rat) powi (expo p + 1) \<le> 2 powi expo q"
      using \<open>expo p < expo q\<close> by (intro power_int_increasing) auto
    then have le: "p \<le> 2 powi expo q" using expo_bounds [OF p] by linarith
    have "rmag p \<le> 2 powi expo q"
      using rmag_le [of p "2 ^ nat (expo q - ulp_exp p)"] le lt uq
      by (simp add: powi2_split [of "ulp_exp p" "expo q"])
    also have "\<dots> \<le> rmag q"
      using rmag_ge [of "2 ^ nat (expo q - ulp_exp q)" q] expo_bounds [OF q] uq
      by (simp add: powi2_split [of "ulp_exp q" "expo q"])
    finally show ?thesis .
  qed
qed

text \<open>The rounding error, and the values rounding leaves alone.\<close>

lemma powi2_pos [simp]: "0 < (2::rat) powi k"
  by simp

lemma rmag_err_ulp: "\<bar>rmag q - q\<bar> \<le> 2 powi ulp_exp q / 2"
proof -
  let ?u = "(2::rat) powi ulp_exp q"
  have "rmag q - q = (of_int (half_even (q / ?u)) - q / ?u) * ?u"
    by (simp add: rmag_def Let_def left_diff_distrib)
  then have "\<bar>rmag q - q\<bar> = \<bar>of_int (half_even (q / ?u)) - q / ?u\<bar> * ?u"
    by (simp add: abs_mult)
  also have "\<dots> \<le> (1 / 2) * ?u"
    by (intro mult_right_mono half_even_err) simp
  finally show ?thesis by simp
qed

definition eps :: rat where "eps = 1 / 2 ^ 53"
definition tiny :: rat where "tiny = 1 / 2 ^ 1075"

lemma eps_pos: "0 < eps" and tiny_pos: "0 < tiny"
  by (simp_all add: eps_def tiny_def)

lemma rmag_err:
  assumes "0 \<le> q"
  shows "\<bar>rmag q - q\<bar> \<le> eps * q + tiny"
proof (cases "q = 0")
  case True
  then show ?thesis using tiny_pos by simp
next
  case False
  with assms have q: "0 < q" by simp
  have "2 powi ulp_exp q / 2 \<le> eps * q + tiny"
  proof (cases "ulp_exp q = - 1074")
    case True
    then have "(2::rat) powi ulp_exp q / 2 = tiny"
      by (simp add: tiny_def power_int_minus field_simps)
    then show ?thesis using q eps_pos by simp
  next
    case False
    then have u: "ulp_exp q = expo q - 52" by (intro ulp_exp_le_expo) (auto simp: ulp_exp_def)
    have "(2::rat) powi expo q = of_int (2 ^ 52) * 2 powi ulp_exp q"
      using powi2_split [of "ulp_exp q" "expo q"] by (simp add: u)
    then have "2 powi ulp_exp q / 2 \<le> eps * q"
      using expo_bounds [OF q] by (simp add: eps_def)
    then show ?thesis using tiny_pos by linarith
  qed
  with rmag_err_ulp [of q] show ?thesis by linarith
qed

definition repr :: "rat \<Rightarrow> bool" where
  "repr q \<longleftrightarrow> (\<exists>k e. q = of_int k * 2 powi e \<and> \<bar>k\<bar> \<le> 2 ^ 53 \<and> - 1074 \<le> e)"

lemma repr_uminus: "repr q \<Longrightarrow> repr (- q)"
proof -
  assume "repr q"
  then obtain k e where "q = of_int k * 2 powi e" "\<bar>k\<bar> \<le> 2 ^ 53" "- 1074 \<le> e"
    unfolding repr_def by blast
  then show ?thesis unfolding repr_def by (intro exI [of _ "- k"] exI [of _ e]) simp
qed

lemma repr_int: "\<bar>k\<bar> \<le> 2 ^ 53 \<Longrightarrow> repr (of_int k)"
  unfolding repr_def by (rule exI [of _ k], rule exI [of _ 0]) simp

lemma repr_pow: "- 1074 \<le> e \<Longrightarrow> repr (2 powi e)"
  unfolding repr_def by (rule exI [of _ 1], rule exI [of _ e]) simp

lemma rmag_repr:
  assumes "0 \<le> q"
  shows "repr (rmag q)"
proof (cases "q = 0")
  case True
  then show ?thesis using repr_int [of 0] by simp
next
  case False
  with assms have q: "0 < q" by simp
  let ?u = "(2::rat) powi ulp_exp q" and ?h = "half_even (q / 2 powi ulp_exp q)"
  have "(2::rat) powi (expo q + 1) \<le> 2 powi (53 + ulp_exp q)"
    by (intro power_int_increasing) (auto simp: ulp_exp_def)
  also have "\<dots> = of_int (2 ^ 53) * ?u"
    using powi2_split [of "ulp_exp q" "53 + ulp_exp q"] by simp
  finally have "q \<le> of_int (2 ^ 53) * ?u" using expo_bounds [OF q] by linarith
  then have "?h \<le> 2 ^ 53" by (intro half_even_le) (simp add: pos_divide_le_eq)
  moreover have "0 \<le> ?h" using q by (intro half_even_ge) simp
  ultimately show ?thesis unfolding repr_def
    by (intro exI [of _ ?h] exI [of _ "ulp_exp q"]) (simp add: rmag_def Let_def ulp_exp_def)
qed

lemma rmag_of_repr:
  assumes "0 \<le> q" "repr q"
  shows "rmag q = q"
proof (cases "q = 0")
  case False
  with assms have q: "0 < q" by simp
  from assms(2) obtain k e where k: "q = of_int k * 2 powi e" "\<bar>k\<bar> \<le> 2 ^ 53" and e: "- 1074 \<le> e"
    unfolding repr_def by blast
  show ?thesis
  proof (cases "ulp_exp q \<le> e")
    case True
    then show ?thesis
      by (intro rmag_exact [of _ "k * 2 ^ nat (e - ulp_exp q)"])
        (subst k(1), subst powi2_split [OF True], simp only: of_int_mult mult.assoc)
  next
    case False
    with e have u: "ulp_exp q = expo q - 52" by (intro ulp_exp_le_expo) linarith
    have "(of_int k :: rat) \<le> of_int (2 ^ 53)" using k(2) by (simp only: of_int_le_iff)
    then have "q \<le> of_int (2 ^ 53) * 2 powi e" using k(1) by (simp add: mult_right_mono)
    also have "\<dots> = 2 powi (e + 53)" using powi2_split [of e "e + 53"] by simp
    also have "\<dots> \<le> 2 powi expo q"
      using False u by (intro power_int_increasing) auto
    finally have "q = 2 powi expo q" using expo_bounds [OF q] by linarith
    also have "\<dots> = of_int (2 ^ 52) * 2 powi ulp_exp q"
      using powi2_split [of "ulp_exp q" "expo q"] u by simp
    finally show ?thesis by (rule rmag_exact)
  qed
qed simp

section \<open>Signed rounding\<close>

lemma rr_zero [simp]: "rr 0 = 0"
  by (simp add: rr_def)

lemma rr_uminus: "rr (- q) = - rr q"
  by (cases q "0::rat" rule: linorder_cases) (auto simp: rr_def)

lemma rr_nonneg: "0 \<le> q \<Longrightarrow> 0 \<le> rr q"
  by (simp add: rr_def rmag_nonneg)

lemma rr_mono: "p \<le> q \<Longrightarrow> rr p \<le> rr q"
proof -
  assume "p \<le> q"
  consider "0 \<le> p" | "p < 0" "0 \<le> q" | "q < 0" using \<open>p \<le> q\<close> by linarith
  then show ?thesis
  proof cases
    case 2
    then have "0 \<le> rmag (- p)" "0 \<le> rmag q" by (simp_all add: rmag_nonneg)
    with 2 show ?thesis by (simp add: rr_def)
  qed (use \<open>p \<le> q\<close> in \<open>auto simp: rr_def rmag_mono\<close>)
qed

lemma rr_err: "\<bar>rr q - q\<bar> \<le> eps * \<bar>q\<bar> + tiny"
  using rmag_err [of q] rmag_err [of "- q"] by (auto simp: rr_def abs_if split: if_splits)

lemma rr_repr: "repr (rr q)"
  by (simp add: rr_def rmag_repr repr_uminus)

lemma rr_exact: "repr q \<Longrightarrow> rr q = q"
  using rmag_of_repr [of q] rmag_of_repr [of "- q"] repr_uminus [of q] by (auto simp: rr_def)

lemma rr_int: "\<bar>k\<bar> \<le> 2 ^ 53 \<Longrightarrow> rr (of_int k) = of_int k"
  by (intro rr_exact repr_int)

lemma rr_numeral: "(numeral n :: int) \<le> 2 ^ 53 \<Longrightarrow> rr (numeral n) = numeral n"
  using rr_int [of "numeral n"] by simp

lemma rr_one [simp]: "rr 1 = 1"
  using rr_int [of 1] by simp

lemma rr_idem [simp]: "rr (rr q) = rr q"
  by (simp add: rr_exact rr_repr)

section \<open>The type and its operations\<close>

datatype f64 = NaN | PInf | NInf | NegZero | Fin rat

fun fval :: "f64 \<Rightarrow> rat" where
  "fval (Fin q) = q"
| "fval _ = 0"

fun is_finite :: "f64 \<Rightarrow> bool" where
  "is_finite NegZero = True"
| "is_finite (Fin q) = True"
| "is_finite _ = False"

definition is_nan :: "f64 \<Rightarrow> bool" where
  "is_nan x \<longleftrightarrow> x = NaN"

definition sign_neg :: "f64 \<Rightarrow> bool" where
  "sign_neg x = (case x of NegZero \<Rightarrow> True | NInf \<Rightarrow> True | Fin q \<Rightarrow> q < 0 | _ \<Rightarrow> False)"

definition zero_of :: "bool \<Rightarrow> f64" where
  "zero_of s = (if s then NegZero else Fin 0)"

definition inf_of :: "bool \<Rightarrow> f64" where
  "inf_of s = (if s then NInf else PInf)"

definition huge :: rat where "huge = 2 ^ 1024"
definition big :: rat where "big = 2 ^ 1023"

definition rnd :: "rat \<Rightarrow> f64" where
  "rnd q = (let r = rr q in
     if huge \<le> \<bar>r\<bar> then inf_of (q < 0) else if r = 0 then zero_of (q < 0) else Fin r)"

text \<open>A decimal literal of the source is the value nearest to it.\<close>

definition lit :: "rat \<Rightarrow> f64" where "lit q = rnd q"

fun f64_neg :: "f64 \<Rightarrow> f64" where
  "f64_neg NaN = NaN"
| "f64_neg PInf = NInf"
| "f64_neg NInf = PInf"
| "f64_neg NegZero = Fin 0"
| "f64_neg (Fin q) = (if q = 0 then NegZero else Fin (- q))"

definition f64_add :: "f64 \<Rightarrow> f64 \<Rightarrow> f64" where
  "f64_add x y =
    (if x = NaN \<or> y = NaN \<or> (x = PInf \<and> y = NInf) \<or> (x = NInf \<and> y = PInf) then NaN
     else if \<not> is_finite x then x else if \<not> is_finite y then y
     else if x = NegZero \<and> y = NegZero then NegZero
     else rnd (fval x + fval y))"

definition f64_mul :: "f64 \<Rightarrow> f64 \<Rightarrow> f64" where
  "f64_mul x y = (let s = (sign_neg x \<noteq> sign_neg y) in
     if x = NaN \<or> y = NaN then NaN
     else if \<not> is_finite x \<or> \<not> is_finite y
       then (if is_finite x \<and> fval x = 0 \<or> is_finite y \<and> fval y = 0 then NaN else inf_of s)
     else if fval x * fval y = 0 then zero_of s
     else rnd (fval x * fval y))"

definition f64_div :: "f64 \<Rightarrow> f64 \<Rightarrow> f64" where
  "f64_div x y = (let s = (sign_neg x \<noteq> sign_neg y) in
     if x = NaN \<or> y = NaN then NaN
     else if \<not> is_finite x then (if is_finite y then inf_of s else NaN)
     else if \<not> is_finite y then zero_of s
     else if fval y = 0 then (if fval x = 0 then NaN else inf_of s)
     else if fval x = 0 then zero_of s
     else rnd (fval x / fval y))"

definition f64_lt :: "f64 \<Rightarrow> f64 \<Rightarrow> bool" where
  "f64_lt x y \<longleftrightarrow> x \<noteq> NaN \<and> y \<noteq> NaN \<and>
     (if x = NInf then y \<noteq> NInf else if y = PInf then x \<noteq> PInf
      else x \<noteq> PInf \<and> y \<noteq> NInf \<and> fval x < fval y)"

definition f64_le :: "f64 \<Rightarrow> f64 \<Rightarrow> bool" where
  "f64_le x y \<longleftrightarrow> x \<noteq> NaN \<and> y \<noteq> NaN \<and>
     (x = NInf \<or> y = PInf \<or> (x \<noteq> PInf \<and> y \<noteq> NInf \<and> fval x \<le> fval y))"

instantiation f64 :: "{zero, one, plus, minus, uminus, times, inverse, ord, abs}"
begin
definition "0 = Fin 0"
definition "1 = Fin 1"
definition "x + y = f64_add x y"
definition "- x = f64_neg x"
definition "x - y = f64_add x (f64_neg y)"
definition "x * y = f64_mul x y"
definition "x div y = f64_div x y"
definition "inverse x = f64_div (Fin 1) x"
definition "x < y \<longleftrightarrow> f64_lt x y"
definition "x \<le> y \<longleftrightarrow> f64_le x y"
definition "\<bar>x\<bar> = (if sign_neg x then f64_neg x else x)"
instance ..
end

text \<open>IEEE equality: false on NaN, true on the two zeros.\<close>

definition feq :: "f64 \<Rightarrow> f64 \<Rightarrow> bool" where
  "feq x y \<longleftrightarrow> x \<le> y \<and> y \<le> x"

text \<open>
  \<open>f64::max\<close>, \<open>min\<close> return the other argument when one is NaN; \<open>clamp\<close> keeps a NaN and
  is called by the source with constant bounds only; \<open>round\<close> rounds halves away from
  zero; \<open>round\<close>, \<open>floor\<close> and \<open>ceil\<close> keep the sign of a zero result.
\<close>

definition fmax :: "f64 \<Rightarrow> f64 \<Rightarrow> f64" where
  "fmax x y = (if x = NaN then y else if y = NaN then x else if x < y then y else x)"

definition fmin :: "f64 \<Rightarrow> f64 \<Rightarrow> f64" where
  "fmin x y = (if x = NaN then y else if y = NaN then x else if y < x then y else x)"

definition fclamp :: "f64 \<Rightarrow> f64 \<Rightarrow> f64 \<Rightarrow> f64" where
  "fclamp x lo hi = (if x < lo then lo else if hi < x then hi else x)"

definition to_int_with :: "(rat \<Rightarrow> int) \<Rightarrow> f64 \<Rightarrow> f64" where
  "to_int_with f x = (case x of Fin q \<Rightarrow>
      (if f q = 0 then zero_of (q < 0) else Fin (of_int (f q))) | _ \<Rightarrow> x)"

definition half_away :: "rat \<Rightarrow> int" where
  "half_away q = (if q < 0 then - \<lfloor>- q + 1 / 2\<rfloor> else \<lfloor>q + 1 / 2\<rfloor>)"

definition fround :: "f64 \<Rightarrow> f64" where "fround = to_int_with half_away"
definition ffloor :: "f64 \<Rightarrow> f64" where "ffloor = to_int_with floor"
definition fceil :: "f64 \<Rightarrow> f64" where "fceil = to_int_with ceiling"

section \<open>Comparisons\<close>

lemmas f64_ops = plus_f64_def minus_f64_def times_f64_def divide_f64_def uminus_f64_def
  less_f64_def less_eq_f64_def zero_f64_def one_f64_def abs_f64_def

lemma nan_lt [simp]: "\<not> NaN < x" "\<not> x < NaN" and nan_le [simp]: "\<not> NaN \<le> x" "\<not> x \<le> NaN"
  by (simp_all add: less_f64_def less_eq_f64_def f64_lt_def f64_le_def)

lemma inf_cmp [simp]:
  "x < PInf \<longleftrightarrow> x \<noteq> NaN \<and> x \<noteq> PInf" "\<not> PInf < x" "x \<le> PInf \<longleftrightarrow> x \<noteq> NaN" "PInf \<le> x \<longleftrightarrow> x = PInf"
  "NInf < x \<longleftrightarrow> x \<noteq> NaN \<and> x \<noteq> NInf" "\<not> x < NInf" "NInf \<le> x \<longleftrightarrow> x \<noteq> NaN" "x \<le> NInf \<longleftrightarrow> x = NInf"
  by (cases x; auto simp: less_f64_def less_eq_f64_def f64_lt_def f64_le_def)+

lemma finite_lt: "is_finite x \<Longrightarrow> is_finite y \<Longrightarrow> x < y \<longleftrightarrow> fval x < fval y"
  and finite_le: "is_finite x \<Longrightarrow> is_finite y \<Longrightarrow> x \<le> y \<longleftrightarrow> fval x \<le> fval y"
  by (cases x; cases y; simp add: less_f64_def less_eq_f64_def f64_lt_def f64_le_def)+

lemma Fin_cmp [simp]:
  "Fin a < Fin b \<longleftrightarrow> a < b" "Fin a \<le> Fin b \<longleftrightarrow> a \<le> b"
  "Fin a < NegZero \<longleftrightarrow> a < 0" "Fin a \<le> NegZero \<longleftrightarrow> a \<le> 0"
  "NegZero < Fin a \<longleftrightarrow> 0 < a" "NegZero \<le> Fin a \<longleftrightarrow> 0 \<le> a"
  "\<not> NegZero < NegZero" "NegZero \<le> NegZero"
  by (simp_all add: finite_lt finite_le)

lemma is_finite_not [simp]: "is_finite x \<Longrightarrow> x \<noteq> NaN" "is_finite x \<Longrightarrow> x \<noteq> PInf" "is_finite x \<Longrightarrow> x \<noteq> NInf"
  by auto

lemma f64_not_lt: "x \<noteq> NaN \<Longrightarrow> y \<noteq> NaN \<Longrightarrow> \<not> x < y \<longleftrightarrow> y \<le> x"
  by (cases x; cases y) auto

lemma f64_lt_imp_le: "(x::f64) < y \<Longrightarrow> x \<le> y"
  by (cases x; cases y) auto

lemma f64_le_refl [simp]: "(x::f64) \<le> x \<longleftrightarrow> x \<noteq> NaN"
  by (cases x) auto

lemma f64_lt_irrefl [simp]: "\<not> (x::f64) < x"
  by (cases x) auto

lemma f64_le_trans: "(x::f64) \<le> y \<Longrightarrow> y \<le> z \<Longrightarrow> x \<le> z"
  and f64_lt_le_trans: "(x::f64) < y \<Longrightarrow> y \<le> z \<Longrightarrow> x < z"
  and f64_le_lt_trans: "(x::f64) \<le> y \<Longrightarrow> y < z \<Longrightarrow> x < z"
  by (cases x; cases y; cases z; auto)+

lemma f64_le_not_nan: "(x::f64) \<le> y \<Longrightarrow> x \<noteq> NaN \<and> y \<noteq> NaN"
  and f64_lt_not_nan: "(x::f64) < y \<Longrightarrow> x \<noteq> NaN \<and> y \<noteq> NaN"
  by auto

lemma f64_le_lt_contra: "(x::f64) \<le> y \<Longrightarrow> \<not> y < x"
  by (cases x; cases y) auto

lemma is_finite_sandwich: "is_finite a \<Longrightarrow> is_finite b \<Longrightarrow> a \<le> x \<Longrightarrow> x \<le> b \<Longrightarrow> is_finite x"
  by (cases x) auto

lemma zero_cmp [simp]:
  "0 < Fin a \<longleftrightarrow> 0 < a" "0 \<le> Fin a \<longleftrightarrow> 0 \<le> a" "Fin a < 0 \<longleftrightarrow> a < 0" "Fin a \<le> 0 \<longleftrightarrow> a \<le> 0"
  "\<not> 0 < NegZero" "0 \<le> NegZero" "\<not> NegZero < 0" "NegZero \<le> 0"
  by (simp_all add: zero_f64_def)

lemma f64_zero_simps [simp]: "fval 0 = 0" "is_finite 0" "fval 1 = 1" "is_finite 1" "(0::f64) \<noteq> NaN" "(1::f64) \<noteq> NaN"
  by (simp_all add: zero_f64_def one_f64_def)

section \<open>Rounding of results\<close>

lemma zero_of_simps [simp]: "fval (zero_of s) = 0" "is_finite (zero_of s)" "zero_of s \<noteq> NaN"
  by (simp_all add: zero_of_def)

lemma inf_of_simps [simp]: "\<not> is_finite (inf_of s)" "inf_of s \<noteq> NaN"
  by (simp_all add: inf_of_def)

lemma huge_pos: "0 < huge" and big_lt_huge: "big < huge"
  unfolding huge_def big_def by (intro zero_less_power power_strict_increasing; simp)+

lemma le_big: "q \<le> 2 ^ 200 \<Longrightarrow> q \<le> big"
  unfolding big_def by (rule order_trans [of _ "2 ^ 200"], assumption, intro power_increasing) simp_all

lemma one_le_big: "1 \<le> big"
  by (simp add: big_def)

lemma rr_neg_iff: "huge \<le> \<bar>rr q\<bar> \<Longrightarrow> (q < 0 \<longleftrightarrow> rr q \<le> - (huge)) \<and> (\<not> q < 0 \<longleftrightarrow> huge \<le> rr q)"
  using rr_nonneg [of q] rr_nonneg [of "- q"] huge_pos unfolding rr_uminus
  by (cases "q < 0"; linarith)

lemma rnd_cases:
  obtains (pinf) "rnd q = PInf" "huge \<le> rr q"
  | (ninf) "rnd q = NInf" "rr q \<le> - (huge)"
  | (fin) "is_finite (rnd q)" "fval (rnd q) = rr q" "\<bar>rr q\<bar> < huge"
proof (cases "huge \<le> \<bar>rr q\<bar>")
  case True
  then show ?thesis
    using rr_neg_iff [OF True] pinf ninf by (cases "q < 0") (auto simp: rnd_def Let_def inf_of_def)
next
  case False
  then show ?thesis using fin by (auto simp: rnd_def Let_def)
qed

lemma rnd_not_nan [simp]: "rnd q \<noteq> NaN"
  by (auto simp: rnd_def Let_def inf_of_def zero_of_def)

lemma fval_rnd: "is_finite (rnd q) \<Longrightarrow> fval (rnd q) = rr q"
  by (cases rule: rnd_cases [of q]) auto

lemma rnd_mono:
  assumes "p \<le> q"
  shows "rnd p \<le> rnd q"
proof -
  have m: "rr p \<le> rr q" by (rule rr_mono [OF assms])
  show ?thesis
    by (cases rule: rnd_cases [of p]; cases rule: rnd_cases [of q]) (use m huge_pos in \<open>auto simp: finite_le\<close>)
qed

lemma rr_abs_le:
  assumes "\<bar>q\<bar> \<le> b" "repr b"
  shows "\<bar>rr q\<bar> \<le> b"
proof -
  have "rr q \<le> rr b" "rr (- b) \<le> rr q" using assms(1) by (auto intro!: rr_mono)
  then show ?thesis using rr_exact [OF assms(2)] by (simp add: rr_uminus abs_le_iff)
qed

lemma rnd_finite: "\<bar>q\<bar> \<le> big \<Longrightarrow> is_finite (rnd q)"
proof -
  assume "\<bar>q\<bar> \<le> big"
  moreover have "repr (big)" using repr_pow [of 1023] by (simp only: big_def power_int_numeral)
  ultimately have "\<bar>rr q\<bar> \<le> big" by (rule rr_abs_le)
  then have "\<bar>rr q\<bar> < huge" using big_lt_huge by linarith
  then show ?thesis by (auto simp: rnd_def Let_def)
qed

lemma rnd_zero [simp]: "rnd 0 = Fin 0"
  using huge_pos by (auto simp: rnd_def zero_of_def)

lemma rnd_repr:
  assumes "repr q" "\<bar>q\<bar> < huge"
  shows "rnd q = Fin q"
  using assms by (auto simp: rnd_def rr_exact Let_def zero_of_def)

lemma pow_lt: "\<bar>k\<bar> \<le> 2 ^ 53 \<Longrightarrow> \<bar>rat_of_int k\<bar> < huge"
proof -
  assume "\<bar>k\<bar> \<le> 2 ^ 53"
  then have "rat_of_int \<bar>k\<bar> \<le> of_int (2 ^ 53)" by (simp only: of_int_le_iff)
  also have "\<dots> \<le> big" by (intro le_big) simp
  finally show ?thesis using big_lt_huge by simp
qed

lemma rnd_int: "\<bar>k\<bar> \<le> 2 ^ 53 \<Longrightarrow> rnd (of_int k) = Fin (of_int k)"
  by (intro rnd_repr repr_int pow_lt)

lemma lit_numeral [simp]: "(numeral n :: int) \<le> 2 ^ 53 \<Longrightarrow> lit (numeral n) = Fin (numeral n)"
  using rnd_int [of "numeral n"] by (simp add: lit_def)

lemma lit_neg_numeral [simp]: "(numeral n :: int) \<le> 2 ^ 53 \<Longrightarrow> lit (- numeral n) = Fin (- numeral n)"
  using rnd_int [of "- numeral n"] by (simp add: lit_def)

lemma lit_0 [simp]: "lit 0 = Fin 0" and lit_1 [simp]: "lit 1 = Fin 1"
  using rnd_int [of 0] rnd_int [of 1] by (simp_all add: lit_def)

section \<open>Arithmetic on finite values\<close>

lemma add_finite: "is_finite x \<Longrightarrow> is_finite y \<Longrightarrow> \<bar>fval x + fval y\<bar> \<le> big \<Longrightarrow>
    is_finite (x + y) \<and> fval (x + y) = rr (fval x + fval y)"
  by (auto simp: plus_f64_def f64_add_def fval_rnd rnd_finite)

lemma neg_finite [simp]: "is_finite (- x) = is_finite x" "fval (- x) = - fval x"
  by (cases x; simp add: uminus_f64_def)+

lemma f64_diff: "(x::f64) - y = x + (- y)"
  by (simp add: minus_f64_def plus_f64_def uminus_f64_def)

lemma sub_finite: "is_finite x \<Longrightarrow> is_finite y \<Longrightarrow> \<bar>fval x - fval y\<bar> \<le> big \<Longrightarrow>
    is_finite (x - y) \<and> fval (x - y) = rr (fval x - fval y)"
  using add_finite [of x "- y"] by (simp add: f64_diff)

lemma mul_finite: "is_finite x \<Longrightarrow> is_finite y \<Longrightarrow> \<bar>fval x * fval y\<bar> \<le> big \<Longrightarrow>
    is_finite (x * y) \<and> fval (x * y) = rr (fval x * fval y)"
  by (auto simp: times_f64_def f64_mul_def Let_def fval_rnd rnd_finite)

lemma div_finite: "is_finite x \<Longrightarrow> is_finite y \<Longrightarrow> fval y \<noteq> 0 \<Longrightarrow> \<bar>fval x / fval y\<bar> \<le> big \<Longrightarrow>
    is_finite (x / y) \<and> fval (x / y) = rr (fval x / fval y)"
  by (auto simp: divide_f64_def f64_div_def Let_def fval_rnd rnd_finite)

lemma abs_finite [simp]: "is_finite \<bar>x :: f64\<bar> = is_finite x" "is_finite x \<Longrightarrow> fval \<bar>x\<bar> = \<bar>fval x\<bar>"
  by (cases x; auto simp: abs_f64_def sign_neg_def)+

section \<open>Monotone operations\<close>

text \<open>The numbers of the machine, of which the positive ones: infinite, or a rational that needs no rounding.\<close>

definition is_value :: "f64 \<Rightarrow> bool" where
  "is_value c \<longleftrightarrow> c = PInf \<or> c = rnd (fval c)"

lemma le_zero_of [simp]: "x \<le> zero_of s \<longleftrightarrow> x \<le> 0" "zero_of s \<le> x \<longleftrightarrow> 0 \<le> x"
  by (cases x; simp add: zero_of_def zero_f64_def)+

lemma rnd_nonneg: "0 \<le> q \<Longrightarrow> 0 \<le> rnd q" and rnd_nonpos: "q \<le> 0 \<Longrightarrow> rnd q \<le> 0"
  using rnd_mono [of 0 q] rnd_mono [of q 0] by (simp_all add: zero_f64_def)

lemma mul_pos_cases:
  "0 < c \<Longrightarrow> x * Fin c = (case x of Fin q \<Rightarrow> rnd (q * c) | _ \<Rightarrow> x)"
  "0 < c \<Longrightarrow> x / Fin c = (case x of Fin q \<Rightarrow> rnd (q / c) | _ \<Rightarrow> x)"
  by (auto simp: times_f64_def f64_mul_def divide_f64_def f64_div_def Let_def sign_neg_def
      inf_of_def zero_of_def split: f64.splits)

lemma NegZero_cmp:
  "NegZero \<le> x \<longleftrightarrow> 0 \<le> x" "x \<le> NegZero \<longleftrightarrow> x \<le> 0" "NegZero < x \<longleftrightarrow> 0 < x" "x < NegZero \<longleftrightarrow> x < 0"
  by (cases x; simp add: zero_f64_def)+

lemma Fin0_cmp:
  "Fin 0 \<le> x \<longleftrightarrow> 0 \<le> x" "x \<le> Fin 0 \<longleftrightarrow> x \<le> 0" "Fin 0 < x \<longleftrightarrow> 0 < x" "x < Fin 0 \<longleftrightarrow> x < 0"
  by (simp_all add: zero_f64_def)

lemma mul_pos_mono:
  assumes "0 < c" "x \<le> y"
  shows "x * Fin c \<le> y * Fin c"
  using assms unfolding mul_pos_cases [OF assms(1)]
  by (cases x; cases y) (auto intro!: rnd_mono rnd_nonneg rnd_nonpos simp: mult_nonpos_nonneg NegZero_cmp)

lemma div_pos_mono:
  assumes "0 < c" "x \<le> y"
  shows "x / Fin c \<le> y / Fin c"
  using assms unfolding mul_pos_cases [OF assms(1)]
  by (cases x; cases y)
    (auto intro!: rnd_mono rnd_nonneg rnd_nonpos divide_right_mono divide_nonpos_nonneg simp: NegZero_cmp)

lemma to_int_with_mono:
  assumes f: "\<And>p q. p \<le> q \<Longrightarrow> f p \<le> f q" and f0: "f 0 = 0" and "x \<le> y"
  shows "to_int_with f x \<le> to_int_with f y"
proof (cases "\<exists>p q. x = Fin p \<and> y = Fin q")
  case True
  then obtain p q where xy: "x = Fin p" "y = Fin q" by blast
  with assms(3) have "f p \<le> f q" by (intro f) simp
  then show ?thesis by (auto simp: to_int_with_def xy)
next
  case False
  have "0 \<le> q \<Longrightarrow> 0 \<le> f q" "q \<le> 0 \<Longrightarrow> f q \<le> 0" for q using f f0 by fastforce+
  with False \<open>x \<le> y\<close> show ?thesis
    by (cases x; cases y) (auto simp: to_int_with_def NegZero_cmp)
qed

lemma half_away_mono: "p \<le> q \<Longrightarrow> half_away p \<le> half_away q"
proof -
  assume le: "p \<le> q"
  consider "0 \<le> p" | "p < 0" "0 \<le> q" | "q < 0" using le by linarith
  then show ?thesis
  proof cases
    case 2
    then have "0 \<le> \<lfloor>- p + 1 / 2\<rfloor>" "0 \<le> \<lfloor>q + 1 / 2\<rfloor>" by linarith+
    then have "- \<lfloor>- p + 1 / 2\<rfloor> \<le> \<lfloor>q + 1 / 2\<rfloor>" by linarith
    with 2 show ?thesis by (simp only: half_away_def if_True if_False not_le [symmetric]) simp
  qed (use le in \<open>auto simp: half_away_def intro!: floor_mono\<close>)
qed

lemma half_away_0 [simp]: "half_away 0 = 0"
  by (simp add: half_away_def floor_eq_iff)

lemma fround_mono: "x \<le> y \<Longrightarrow> fround x \<le> fround y"
  unfolding fround_def by (rule to_int_with_mono) (auto intro: half_away_mono)

lemma ffloor_mono: "x \<le> y \<Longrightarrow> ffloor x \<le> ffloor y"
  unfolding ffloor_def by (rule to_int_with_mono) (auto intro: floor_mono)

lemma fceil_mono: "x \<le> y \<Longrightarrow> fceil x \<le> fceil y"
  unfolding fceil_def by (rule to_int_with_mono) (auto intro: ceiling_mono)

lemma fmax_mono: "x \<le> y \<Longrightarrow> fmax x a \<le> fmax y a"
  by (cases x; cases y; cases a) (auto simp: fmax_def NegZero_cmp)

lemma fmin_mono: "x \<le> y \<Longrightarrow> fmin x a \<le> fmin y a"
  by (cases x; cases y; cases a) (auto simp: fmin_def NegZero_cmp)

lemma fmax_bounds: "a \<noteq> NaN \<Longrightarrow> a \<le> fmax x a" "x \<noteq> NaN \<Longrightarrow> x \<le> fmax x a"
  by (cases x; cases a; auto simp: fmax_def NegZero_cmp)+

lemma fmin_bounds: "a \<noteq> NaN \<Longrightarrow> fmin x a \<le> a" "x \<noteq> NaN \<Longrightarrow> fmin x a \<le> x"
  by (cases x; cases a; auto simp: fmin_def NegZero_cmp)+

lemma fmax_not_nan: "a \<noteq> NaN \<Longrightarrow> fmax x a \<noteq> NaN" "x \<noteq> NaN \<Longrightarrow> fmax x a \<noteq> NaN"
  and fmin_not_nan: "a \<noteq> NaN \<Longrightarrow> fmin x a \<noteq> NaN" "x \<noteq> NaN \<Longrightarrow> fmin x a \<noteq> NaN"
  by (auto simp: fmax_def fmin_def)

lemma fmax_in: "fmax x a = x \<or> fmax x a = a" and fmin_in: "fmin x a = x \<or> fmin x a = a"
  by (auto simp: fmax_def fmin_def)

lemma fclamp_bounds:
  assumes "lo \<le> hi" "x \<noteq> NaN"
  shows "lo \<le> fclamp x lo hi \<and> fclamp x lo hi \<le> hi"
  using assms by (auto simp: fclamp_def f64_not_lt dest: f64_le_not_nan)

lemma fclamp_nan [simp]: "fclamp NaN lo hi = NaN"
  by (simp add: fclamp_def)

section \<open>Evaluation\<close>

lemma rat_floor_num:
  "\<lfloor>(numeral a / numeral b :: rat)\<rfloor> = numeral a div numeral b"
  "\<lfloor>(1 / numeral b :: rat)\<rfloor> = 1 div numeral b"
  "\<lfloor>(- numeral a / numeral b :: rat)\<rfloor> = (- numeral a) div numeral b"
  "\<lfloor>(- 1 / numeral b :: rat)\<rfloor> = (- 1) div numeral b"
  "\<lfloor>- (numeral a / numeral b :: rat)\<rfloor> = (- numeral a) div numeral b"
  "\<lfloor>- (1 / numeral b :: rat)\<rfloor> = (- 1) div numeral b"
  using floor_divide_of_int_eq [of "numeral a" "numeral b", where 'a = rat]
    floor_divide_of_int_eq [of 1 "numeral b", where 'a = rat]
    floor_divide_of_int_eq [of "- numeral a" "numeral b", where 'a = rat]
    floor_divide_of_int_eq [of "- 1" "numeral b", where 'a = rat] by simp_all

lemmas f64_rnd_eval [f64_eval] = rnd_def rr_def rmag_def half_even_def ulp_exp_def expo_def ilog.simps
  huge_def Let_def rat_floor_num ceiling_def zero_of_def inf_of_def lit_def

lemmas f64_op_eval [f64_eval] = f64_add_def f64_mul_def f64_div_def sign_neg_def f64_ops feq_def
  fmax_def fmin_def fclamp_def fround_def ffloor_def fceil_def to_int_with_def half_away_def
  f64_lt_def f64_le_def

end
