(* ===== verification/Rust_Text.thy ===== *)
theory Rust_Text
  imports Prelude
begin

text \<open>
  Rust strings as the list of their UTF-8 bytes, with the functions of the standard
  library the source calls on them. \<open>str::trim\<close> removes the characters with the Unicode
  property White_Space, whose encodings are listed here; \<open>str::to_lowercase\<close> is exact on
  what the source asks of its result, whether it contains an ASCII keyword: the only
  characters beyond ASCII whose lower case has ASCII letters are the Kelvin sign and the
  capital dotted I.
\<close>

definition ascii_lower :: "char \<Rightarrow> char" where
  "ascii_lower c =
     unwrap_or c (map_of (zip ''ABCDEFGHIJKLMNOPQRSTUVWXYZ'' ''abcdefghijklmnopqrstuvwxyz'') c)"

definition to_ascii_lowercase :: "string \<Rightarrow> string" where
  "to_ascii_lowercase s = map ascii_lower s"

definition eq_ignore_ascii_case :: "string \<Rightarrow> string \<Rightarrow> bool" where
  "eq_ignore_ascii_case a b \<longleftrightarrow> to_ascii_lowercase a = to_ascii_lowercase b"

fun starts_with :: "'a list \<Rightarrow> 'a list \<Rightarrow> bool" where
  "starts_with xs [] = True"
| "starts_with [] (p # ps) = False"
| "starts_with (x # xs) (p # ps) = (x = p \<and> starts_with xs ps)"

fun contains :: "'a list \<Rightarrow> 'a list \<Rightarrow> bool" where
  "contains [] pat = (pat = [])"
| "contains (x # xs) pat = (starts_with (x # xs) pat \<or> contains xs pat)"

text \<open>The White_Space characters: the ASCII ones, then the encodings of the others.\<close>

definition white_space :: "string list" where
  "white_space = [[CHR 0x09], [CHR 0x0A], [CHR 0x0B], [CHR 0x0C], [CHR 0x0D], [CHR 0x20],
     [CHR 0xC2, CHR 0x85], [CHR 0xC2, CHR 0xA0], [CHR 0xE1, CHR 0x9A, CHR 0x80],
     [CHR 0xE2, CHR 0x81, CHR 0x9F], [CHR 0xE3, CHR 0x80, CHR 0x80]]
     @ map (\<lambda>c. [CHR 0xE2, CHR 0x80, c])
         [CHR 0x80, CHR 0x81, CHR 0x82, CHR 0x83, CHR 0x84, CHR 0x85, CHR 0x86, CHR 0x87, CHR 0x88,
          CHR 0x89, CHR 0x8A, CHR 0xA8, CHR 0xA9, CHR 0xAF]"

function trim_with :: "'a list list \<Rightarrow> 'a list \<Rightarrow> 'a list" where
  "trim_with ws s = (case find (\<lambda>w. w \<noteq> [] \<and> starts_with s w) ws of
      None \<Rightarrow> s | Some w \<Rightarrow> trim_with ws (drop (length w) s))"
  by pat_completeness auto

lemma starts_with_length: "starts_with s w \<Longrightarrow> length w \<le> length s"
  by (induction s w rule: starts_with.induct) auto

lemma starts_with_drop_less: "w \<noteq> [] \<Longrightarrow> starts_with s w \<Longrightarrow> length (drop (length w) s) < length s"
  by (cases w; cases s) auto

termination trim_with
  by (relation "measure (\<lambda>(_, s). length s)")
    (auto simp: find_Some_iff simp del: length_drop intro: starts_with_drop_less)

declare trim_with.simps [simp del]

definition trim :: "string \<Rightarrow> string" where
  "trim s = rev (trim_with (map rev white_space) (rev (trim_with white_space s)))"

text \<open>\<open>str::to_lowercase\<close>, up to characters that no ASCII keyword can match.\<close>

fun to_lowercase :: "string \<Rightarrow> string" where
  "to_lowercase [] = []"
| "to_lowercase (c # cs) =
     (if starts_with (c # cs) [CHR 0xE2, CHR 0x84, CHR 0xAA] then CHR ''k'' # to_lowercase (drop 2 cs)
      else if starts_with (c # cs) [CHR 0xC4, CHR 0xB0]
        then CHR ''i'' # CHR 0xCC # CHR 0x87 # to_lowercase (drop 1 cs)
      else ascii_lower c # to_lowercase cs)"

lemma starts_with_iff: "starts_with s p \<longleftrightarrow> (\<exists>t. s = p @ t)"
  by (induction s p rule: starts_with.induct) auto

lemma contains_iff: "contains s p \<longleftrightarrow> (\<exists>a b. s = a @ p @ b)"
proof (induction s)
  case (Cons x xs)
  have "(\<exists>a b. x # xs = a @ p @ b) \<longleftrightarrow> (\<exists>b. x # xs = p @ b) \<or> (\<exists>a b. xs = a @ p @ b)"
    by (auto simp: Cons_eq_append_conv; metis append_Cons)
  with Cons show ?case by (simp add: starts_with_iff)
qed simp

lemma contains_append: "contains s p \<Longrightarrow> contains (a @ s @ b) p"
  unfolding contains_iff by (metis append_assoc)

lemma contains_self [simp]: "contains (a @ p @ b) p"
  unfolding contains_iff by blast

lemma trim_with_starts: "w \<in> set ws \<Longrightarrow> w \<noteq> [] \<Longrightarrow> \<not> starts_with (trim_with ws s) w"
proof (induction ws s rule: trim_with.induct)
  case (1 ws s)
  show ?case
  proof (cases "find (\<lambda>w. w \<noteq> [] \<and> starts_with s w) ws")
    case None
    then have "trim_with ws s = s" by (subst trim_with.simps) simp
    with None "1.prems" show ?thesis by (auto simp: find_None_iff)
  next
    case (Some v)
    with 1 show ?thesis by (subst trim_with.simps) simp
  qed
qed

text \<open>Text of printable ASCII characters has nothing to trim.\<close>

definition graphic :: "char \<Rightarrow> bool" where
  "graphic c \<longleftrightarrow> (33::nat) \<le> of_char c \<and> of_char c \<le> (126::nat)"

lemma trim_with_id:
  assumes "\<And>w. w \<in> set ws \<Longrightarrow> w \<noteq> [] \<Longrightarrow> \<not> P (hd w)" "list_all P s"
  shows "trim_with ws s = s"
proof -
  have "\<not> (w \<noteq> [] \<and> starts_with s w)" if "w \<in> set ws" for w
    using assms(1) [OF that] assms(2) by (cases w; cases s) auto
  then have "find (\<lambda>w. w \<noteq> [] \<and> starts_with s w) ws = None" by (auto simp: find_None_iff)
  then show ?thesis by (subst trim_with.simps) simp
qed

lemma trim_graphic [simp]:
  assumes "list_all graphic s" shows "trim s = s"
proof -
  have "trim_with white_space s = s"
    by (rule trim_with_id [where P = graphic]) (auto simp: white_space_def graphic_def assms)
  moreover have "trim_with (map rev white_space) (rev s) = rev s"
    by (rule trim_with_id [where P = graphic]) (auto simp: white_space_def graphic_def assms)
  ultimately show ?thesis by (simp add: trim_def)
qed

lemmas [text_eval] = trim_def trim_with.simps white_space_def to_ascii_lowercase_def
  eq_ignore_ascii_case_def ascii_lower_def

end
