(* ===== verification/Bot_Core.thy ===== *)
theory Bot_Core
  imports F64 Rust_Text
begin

text \<open>
  The crate \<open>bot-core\<close>: the shared domain types of \<open>types.rs\<close>, the trade state machine of
  \<open>state_machine.rs\<close>, the risk gate of \<open>risk.rs\<close>, the strategies of \<open>strategy.rs\<close> and the
  market cycle identifiers of \<open>market_cycle.rs\<close>.
\<close>

section \<open>Domain types\<close>

datatype execution_mode = Paper | Live

datatype trade_state = Idle | WaitingEntry | EntryPlaced | EntryPartiallyFilled | EntryFilled
  | TpPlaced | SlArmed | ExitPartiallyFilled | ExitFilled | Settled | Halted

datatype order_intent = IntentEntry | IntentTp | IntentSl | IntentRenewal

datatype execution_intent = ExecEntry | ExecTakeProfit | ExecAggressiveStop | ExecCancelReplace

datatype order_status = Pending | Open | PartiallyFilled | Filled | Canceled | Rejected | Expired

datatype exchange_reject_class = NonceDrift | SignatureInvalid | InsufficientBalance
  | PolicyRejected | RateLimited | UnknownReject

datatype reconnect_state = Healthy | Reconnecting | BackfillRequired

datatype kill_switch_mode = KsDisabled | ManualOnly | ManualOrPolicy

datatype risk_decision = Allow | Block | Halt

datatype leg_side = Yes | No

record leg_runtime =
  lr_side :: leg_side
  lr_token_id :: string
  lr_qty :: f64
  lr_avg_entry :: f64
  lr_levels_filled :: u32
  lr_last_fill_price :: "f64 option"

record basket_runtime =
  br_market_slug :: string
  br_yes_leg :: leg_runtime
  br_no_leg :: leg_runtime
  br_basket_pnl_usdc :: f64

section \<open>The trade state machine\<close>

datatype transition_error = InvalidTransition trade_state trade_state

definition transition_table :: "(trade_state \<times> trade_state) list" where
  "transition_table =
    [(Idle, WaitingEntry), (WaitingEntry, EntryPlaced), (EntryPlaced, EntryPartiallyFilled),
     (EntryPlaced, EntryFilled), (EntryPartiallyFilled, EntryFilled), (EntryFilled, TpPlaced),
     (TpPlaced, SlArmed), (TpPlaced, ExitFilled), (SlArmed, ExitPartiallyFilled),
     (SlArmed, ExitFilled), (ExitPartiallyFilled, ExitFilled), (ExitFilled, Settled),
     (Settled, Idle)]"

definition can_transition :: "trade_state \<Rightarrow> trade_state \<Rightarrow> (transition_error, unit) result" where
  "can_transition from to =
    (let valid = ((from, to) \<in> set transition_table \<or> to = Halted)
     in if valid then Inr () else Inl (InvalidTransition from to))"

text \<open>The runs the machine allows, from the idle state.\<close>

inductive tstep :: "trade_state \<Rightarrow> trade_state \<Rightarrow> bool" where
  tstep: "can_transition s t = Inr () \<Longrightarrow> tstep s t"

inductive_cases tstepE: "tstep s t"
inductive_simps tstep_iff: "tstep s t"

section \<open>The risk gate\<close>

record risk_limits =
  max_daily_loss_usdc :: f64
  max_consecutive_losses :: u32
  max_notional_per_market_usdc :: f64
  max_open_orders :: u32
  max_stale_data_ms :: u64
  limits_kill_switch_mode :: kill_switch_mode

record risk_input =
  proposed_notional_usdc :: f64
  open_orders :: u32
  stale_data_ms :: u64
  daily_realized_pnl_usdc :: f64
  consecutive_losses :: u32
  manual_kill_switch_active :: bool

record risk_evaluation =
  decision :: risk_decision
  reason :: string

definition evaluate_risk :: "risk_limits \<Rightarrow> risk_input \<Rightarrow> risk_evaluation" where
  "evaluate_risk limits inp =
    (if manual_kill_switch_active inp \<and> limits_kill_switch_mode limits \<in> {ManualOnly, ManualOrPolicy}
       then \<lparr>decision = Halt, reason = ''manual_kill_switch_active''\<rparr>
     else if max_stale_data_ms limits < stale_data_ms inp
       then \<lparr>decision = Block, reason = ''stale_data''\<rparr>
     else if daily_realized_pnl_usdc inp \<le> - max_daily_loss_usdc limits
       then (if limits_kill_switch_mode limits = ManualOrPolicy
             then \<lparr>decision = Halt, reason = ''daily_loss_limit_breached''\<rparr>
             else \<lparr>decision = Block, reason = ''daily_loss_limit_blocked''\<rparr>)
     else if max_consecutive_losses limits \<le> consecutive_losses inp
       then (if limits_kill_switch_mode limits = ManualOrPolicy
             then \<lparr>decision = Halt, reason = ''consecutive_loss_limit_breached''\<rparr>
             else \<lparr>decision = Block, reason = ''consecutive_loss_limit_blocked''\<rparr>)
     else if max_notional_per_market_usdc limits < proposed_notional_usdc inp
       then \<lparr>decision = Block, reason = ''market_notional_limit_breached''\<rparr>
     else if max_open_orders limits \<le> open_orders inp
       then \<lparr>decision = Block, reason = ''open_order_limit_breached''\<rparr>
     else \<lparr>decision = Allow, reason = ''allow''\<rparr>)"

section \<open>Strategies\<close>

text \<open>\<open>PriceThresholdStrategy\<close>: one leg, entered above a price.\<close>

definition entry_signal :: "f64 \<Rightarrow> f64 \<Rightarrow> bool" where
  "entry_signal current_price entry_price \<longleftrightarrow> entry_price \<le> current_price"

definition take_profit_price :: "f64 \<Rightarrow> f64 \<Rightarrow> f64" where
  "take_profit_price entry_price tp_pct =
     fround (entry_price * (1 + tp_pct) * lit 100) / lit 100"

definition aggressive_stop_price :: "f64 \<Rightarrow> f64 \<Rightarrow> f64" where
  "aggressive_stop_price entry_price aggressive_sl_pct = entry_price * (1 - aggressive_sl_pct)"

text \<open>\<open>SymmetricDualDcaStrategy\<close>: both legs, averaged down level by level.\<close>

definition should_dca_leg :: "f64 \<Rightarrow> f64 option \<Rightarrow> f64 \<Rightarrow> u32 \<Rightarrow> u32 \<Rightarrow> bool" where
  "should_dca_leg current_price last_fill_price step_pct levels_filled max_levels =
    (if max_levels \<le> levels_filled then False
     else case last_fill_price of
         None \<Rightarrow> True
       | Some last_price \<Rightarrow>
           if last_price \<le> 0 then False
           else step_pct \<le> \<bar>current_price - last_price\<bar> / last_price)"

definition leg_take_profit_price :: "f64 \<Rightarrow> f64 \<Rightarrow> f64" where
  "leg_take_profit_price avg_entry leg_tp_pct =
     fround (avg_entry * (1 + leg_tp_pct) * lit 10000) / lit 10000"

definition should_flatten_basket :: "f64 \<Rightarrow> f64 \<Rightarrow> f64 \<Rightarrow> bool" where
  "should_flatten_basket basket_pnl_usdc tp_usdc sl_usdc \<longleftrightarrow>
     tp_usdc \<le> basket_pnl_usdc \<or> basket_pnl_usdc \<le> sl_usdc"

section \<open>Market cycle identifiers\<close>

text \<open>The decimal form of an \<open>i64\<close>, and \<open>str::parse::<i64>\<close>.\<close>

definition digit :: "nat \<Rightarrow> char" where
  "digit d = ''0123456789'' ! d"

fun show_nat :: "nat \<Rightarrow> string" where
  "show_nat n = (if n < 10 then [digit n] else show_nat (n div 10) @ [digit (n mod 10)])"
declare show_nat.simps [simp del]

definition show_i64 :: "i64 \<Rightarrow> string" where
  "show_i64 n = (if n < 0 then CHR ''-'' # show_nat (nat (- n)) else show_nat (nat n))"

definition digit_val :: "char \<Rightarrow> nat option" where
  "digit_val c = map_of (zip ''0123456789'' [0..<10]) c"

fun parse_digits :: "nat \<Rightarrow> string \<Rightarrow> nat option" where
  "parse_digits acc [] = Some acc"
| "parse_digits acc (c # cs) =
    (case digit_val c of None \<Rightarrow> None | Some d \<Rightarrow> parse_digits (10 * acc + d) cs)"

definition parse_nat :: "string \<Rightarrow> nat option" where
  "parse_nat s = (if s = [] then None else parse_digits 0 s)"

definition parse_i64 :: "string \<Rightarrow> i64 option" where
  "parse_i64 s = (let v = (case s of
        [] \<Rightarrow> None
      | c # cs \<Rightarrow> if c = CHR ''-'' then map_option (\<lambda>n. - int n) (parse_nat cs)
                 else if c = CHR ''+'' then map_option int (parse_nat cs)
                 else map_option int (parse_nat s))
     in filter_opt is_i64 v)"

text \<open>\<open>rsplit('-').next()\<close>: what follows the last dash, the whole string when there is none.\<close>

fun after_last :: "char \<Rightarrow> string \<Rightarrow> string" where
  "after_last d s = rev (takeWhile (\<lambda>c. c \<noteq> d) (rev s))"

type_synonym market_cycle_id = string

definition from_unix_start :: "i64 \<Rightarrow> market_cycle_id" where
  "from_unix_start ts = ''btc-updown-5m-'' @ show_i64 ts"

definition parse_unix_start :: "market_cycle_id \<Rightarrow> i64 option" where
  "parse_unix_start s = parse_i64 (after_last (CHR ''-'') s)"

text \<open>\<open>now\<close> is the timestamp chrono gives for the current time, in seconds.\<close>

definition from_now_rounded_5m :: "i64 \<Rightarrow> market_cycle_id" where
  "from_now_rounded_5m now = (let cycle_start = now - rust_rem now 300 in from_unix_start cycle_start)"

text \<open>\<open>timestamp_opt\<close> stands for chrono's conversion of seconds to a date.\<close>

definition start_time :: "(i64 \<Rightarrow> 'dt option) \<Rightarrow> market_cycle_id \<Rightarrow> 'dt option" where
  "start_time timestamp_opt s = Option.bind (parse_unix_start s) timestamp_opt"

section \<open>The state machine: rank, absorption and the order of a trade's states\<close>

fun state_rank :: "trade_state \<Rightarrow> nat" where
  "state_rank Idle = 0" | "state_rank WaitingEntry = 1" | "state_rank EntryPlaced = 2"
| "state_rank EntryPartiallyFilled = 3" | "state_rank EntryFilled = 4" | "state_rank TpPlaced = 5"
| "state_rank SlArmed = 6" | "state_rank ExitPartiallyFilled = 7" | "state_rank ExitFilled = 8"
| "state_rank Settled = 9" | "state_rank Halted = 10"

lemma can_transition_iff:
  "can_transition s t = Inr () \<longleftrightarrow> (s, t) \<in> set transition_table \<or> t = Halted"
  by (simp add: can_transition_def)

lemma tstep_table: "tstep s t \<longleftrightarrow> (s, t) \<in> set transition_table \<or> t = Halted"
  by (simp add: tstep_iff can_transition_iff)

lemma tstep_rank: "tstep s t \<Longrightarrow> s \<noteq> Halted \<Longrightarrow> t \<noteq> Idle \<Longrightarrow> state_rank s < state_rank t"
  by (cases s) (auto simp: tstep_table transition_table_def)

lemma tstep_halted: "tstep Halted t \<longleftrightarrow> t = Halted"
  by (auto simp: tstep_table transition_table_def)

text \<open>Histories of a trade, the current state first: what the machine has allowed so far.\<close>

inductive trade_history :: "trade_state list \<Rightarrow> bool" where
  start: "trade_history [Idle]"
| step: "trade_history (s # h) \<Longrightarrow> tstep s t \<Longrightarrow> trade_history (t # s # h)"

inductive_cases trade_historyE: "trade_history (t # h)"

lemma trade_history_nonempty: "trade_history h \<Longrightarrow> h \<noteq> []"
  by (cases rule: trade_history.cases) auto

lemma trade_history_pred:
  assumes "trade_history (t # h)" "t \<noteq> Idle"
  obtains s h' where "h = s # h'" "tstep s t" "trade_history (s # h')"
  using assms by (auto elim: trade_historyE)

text \<open>Each state of a trade but the failure state has the entry states behind it.\<close>

lemma trade_history_needs:
  "trade_history h \<Longrightarrow> h = t # k \<Longrightarrow>
    (t \<in> {EntryFilled, TpPlaced, SlArmed, ExitPartiallyFilled, ExitFilled, Settled} \<longrightarrow>
       {WaitingEntry, EntryPlaced, EntryFilled} \<subseteq> set h) \<and>
    (t \<in> {WaitingEntry, EntryPlaced, EntryPartiallyFilled} \<longrightarrow> WaitingEntry \<in> set h) \<and>
    (t \<in> {EntryPlaced, EntryPartiallyFilled} \<longrightarrow> EntryPlaced \<in> set h) \<and>
    (t \<in> {TpPlaced, SlArmed, ExitPartiallyFilled, ExitFilled, Settled} \<longrightarrow> TpPlaced \<in> set h) \<and>
    (t \<in> {ExitFilled, Settled} \<longrightarrow> ExitFilled \<in> set h)"
proof (induction arbitrary: t k rule: trade_history.induct)
  case start
  then show ?case by simp
next
  case (step s h t')
  then have t: "t = t'" and st: "tstep s t'" by auto
  note IH = step.IH [of s h, OF refl]
  show ?case
    using IH st unfolding t tstep_table transition_table_def by (cases t') auto
qed

section \<open>The risk gate as a policy\<close>

text \<open>
  The trait \<open>RiskPolicy\<close>: what the runtime may rely on, whichever policy it is given. The
  default policy is \<open>evaluate_risk\<close>.
\<close>

locale risk_policy =
  fixes evaluate :: "risk_limits \<Rightarrow> risk_input \<Rightarrow> risk_evaluation"
  assumes kill_halts: "manual_kill_switch_active i \<Longrightarrow> limits_kill_switch_mode l \<noteq> KsDisabled \<Longrightarrow>
      decision (evaluate l i) = Halt"
    and allow_fresh: "decision (evaluate l i) = Allow \<Longrightarrow> stale_data_ms i \<le> max_stale_data_ms l"
    and allow_loss: "decision (evaluate l i) = Allow \<Longrightarrow>
      \<not> daily_realized_pnl_usdc i \<le> - max_daily_loss_usdc l"
    and allow_streak: "decision (evaluate l i) = Allow \<Longrightarrow>
      consecutive_losses i < max_consecutive_losses l"
    and allow_notional: "decision (evaluate l i) = Allow \<Longrightarrow>
      \<not> max_notional_per_market_usdc l < proposed_notional_usdc i"
    and allow_orders: "decision (evaluate l i) = Allow \<Longrightarrow> open_orders i < max_open_orders l"
begin

lemma allow_not_killed:
  "decision (evaluate l i) = Allow \<Longrightarrow> limits_kill_switch_mode l \<noteq> KsDisabled \<Longrightarrow>
    \<not> manual_kill_switch_active i"
  using kill_halts by fastforce

lemmas allow_all = allow_fresh allow_loss allow_streak allow_notional allow_orders

end

lemma kill_switch_modes: "m \<in> {ManualOnly, ManualOrPolicy} \<longleftrightarrow> m \<noteq> KsDisabled"
  by (cases m) auto

lemma evaluate_risk_allow:
  "decision (evaluate_risk l i) = Allow \<longleftrightarrow>
     \<not> (manual_kill_switch_active i \<and> limits_kill_switch_mode l \<noteq> KsDisabled) \<and>
     stale_data_ms i \<le> max_stale_data_ms l \<and>
     \<not> daily_realized_pnl_usdc i \<le> - max_daily_loss_usdc l \<and>
     consecutive_losses i < max_consecutive_losses l \<and>
     \<not> max_notional_per_market_usdc l < proposed_notional_usdc i \<and>
     open_orders i < max_open_orders l"
  unfolding evaluate_risk_def kill_switch_modes by (auto simp: not_less not_le)

interpretation default_policy: risk_policy evaluate_risk
proof unfold_locales
  show "decision (evaluate_risk l i) = Halt"
    if "manual_kill_switch_active i" "limits_kill_switch_mode l \<noteq> KsDisabled" for i l
    using that by (cases "limits_kill_switch_mode l") (auto simp: evaluate_risk_def)
qed (auto simp: evaluate_risk_allow)

lemma f64_neg_antimono: "(x::f64) \<le> y \<Longrightarrow> - y \<le> - x"
  by (cases x; cases y) (auto simp: uminus_f64_def NegZero_cmp)

definition limits_at_least :: "risk_limits \<Rightarrow> risk_limits \<Rightarrow> bool" where
  "limits_at_least l l' \<longleftrightarrow> limits_kill_switch_mode l' = limits_kill_switch_mode l \<and>
     max_daily_loss_usdc l \<le> max_daily_loss_usdc l' \<and>
     max_consecutive_losses l \<le> max_consecutive_losses l' \<and>
     max_notional_per_market_usdc l \<le> max_notional_per_market_usdc l' \<and>
     max_open_orders l \<le> max_open_orders l' \<and> max_stale_data_ms l \<le> max_stale_data_ms l'"

definition input_no_riskier :: "risk_input \<Rightarrow> risk_input \<Rightarrow> bool" where
  "input_no_riskier i i' \<longleftrightarrow> (manual_kill_switch_active i' \<longrightarrow> manual_kill_switch_active i) \<and>
     stale_data_ms i' \<le> stale_data_ms i \<and>
     daily_realized_pnl_usdc i \<le> daily_realized_pnl_usdc i' \<and>
     consecutive_losses i' \<le> consecutive_losses i \<and>
     proposed_notional_usdc i' \<le> proposed_notional_usdc i \<and> open_orders i' \<le> open_orders i"

lemma risk_allow_mono:
  assumes "decision (evaluate_risk l i) = Allow" "limits_at_least l l'" "input_no_riskier i i'"
  shows "decision (evaluate_risk l' i') = Allow"
proof -
  note a = assms(1) [unfolded evaluate_risk_allow]
  note l = assms(2) [unfolded limits_at_least_def] and i = assms(3) [unfolded input_no_riskier_def]
  have "\<not> daily_realized_pnl_usdc i' \<le> - max_daily_loss_usdc l'"
    using a l i f64_neg_antimono f64_le_trans by meson
  moreover have "\<not> max_notional_per_market_usdc l' < proposed_notional_usdc i'"
    using a l i f64_le_lt_trans f64_lt_le_trans by meson
  ultimately show ?thesis using a l i unfolding evaluate_risk_allow
    by (auto intro: order_trans order.strict_trans1 order.strict_trans2)
qed

section \<open>Cycle identifiers survive printing and parsing\<close>

lemma digit_val_digit: "d < 10 \<Longrightarrow> digit_val (digit d) = Some d"
proof -
  assume "d < 10"
  then have "d \<in> set [0..<10]" by simp
  then show ?thesis by (auto simp: digit_val_def digit_def upt_rec numeral_nat)
qed

lemma digit_not_sign: "d < 10 \<Longrightarrow> digit d \<noteq> CHR ''-'' \<and> digit d \<noteq> CHR ''+''"
proof -
  assume "d < 10"
  then have "d \<in> set [0..<10]" by simp
  then show ?thesis by (auto simp: digit_def upt_rec numeral_nat)
qed

lemma parse_digits_append: "parse_digits acc (a @ b) =
    (case parse_digits acc a of None \<Rightarrow> None | Some v \<Rightarrow> parse_digits v b)"
  by (induction a arbitrary: acc) (auto split: option.splits)

lemma parse_show_nat: "parse_digits 0 (show_nat n) = Some n"
proof (induction n rule: show_nat.induct)
  case (1 n)
  show ?case
  proof (cases "n < 10")
    case True
    then show ?thesis by (subst show_nat.simps) (simp add: digit_val_digit)
  next
    case False
    with "1.IH" show ?thesis
      by (subst show_nat.simps) (simp add: parse_digits_append digit_val_digit)
  qed
qed

lemma show_nat_nonempty: "show_nat n \<noteq> []"
  by (subst show_nat.simps) simp

lemma show_nat_chars: "c \<in> set (show_nat n) \<Longrightarrow> c \<noteq> CHR ''-'' \<and> c \<noteq> CHR ''+''"
proof (induction n rule: show_nat.induct)
  case (1 n)
  have "n mod 10 < 10" by simp
  with 1 show ?case
    by (subst (asm) (2) show_nat.simps) (auto simp: digit_not_sign split: if_splits)
qed

lemma parse_i64_show_nat: "is_i64 (int n) \<Longrightarrow> parse_i64 (show_nat n) = Some (int n)"
  using show_nat_nonempty [of n] show_nat_chars [of _ n] parse_show_nat [of n]
  by (cases "show_nat n") (auto simp: parse_i64_def parse_nat_def simp del: parse_digits.simps)

lemma takeWhile_rev_append:
  "(\<forall>c \<in> set b. c \<noteq> d) \<Longrightarrow> rev (takeWhile (\<lambda>c. c \<noteq> d) (rev (a @ d # b))) = b"
  by (simp add: takeWhile_append)

lemma parse_from_unix_start:
  assumes "is_i64 \<bar>ts\<bar>"
  shows "parse_unix_start (from_unix_start ts) = Some \<bar>ts\<bar>"
proof -
  let ?n = "nat \<bar>ts\<bar>" and ?d = "CHR ''-''"
  have nd: "\<forall>c \<in> set (show_nat ?n). c \<noteq> ?d" using show_nat_chars by blast
  have "\<exists>a. from_unix_start ts = a @ ?d # show_nat ?n"
  proof (cases "ts < 0")
    case True
    then have "from_unix_start ts = ''btc-updown-5m-'' @ ?d # show_nat ?n"
      by (simp add: from_unix_start_def show_i64_def)
    then show ?thesis by blast
  next
    case False
    then have "from_unix_start ts = ''btc-updown-5m'' @ ?d # show_nat ?n"
      by (simp add: from_unix_start_def show_i64_def)
    then show ?thesis by blast
  qed
  then obtain a where "from_unix_start ts = a @ ?d # show_nat ?n" by blast
  then have "after_last ?d (from_unix_start ts) = show_nat ?n"
    using takeWhile_rev_append [OF nd, of a] by (simp only: after_last.simps)
  then show ?thesis
    using assms parse_i64_show_nat [of ?n] by (simp add: parse_unix_start_def del: after_last.simps)
qed

lemma cycle_start_bounds:
  "0 \<le> now \<Longrightarrow> let t = now - rust_rem now 300 in 0 \<le> t \<and> t \<le> now \<and> now < t + 300 \<and> 300 dvd t"
proof -
  assume "0 \<le> now"
  then have "rust_rem now 300 = now mod 300" by (cases "now = 0") (auto simp: rust_rem_def)
  moreover have "now - now mod 300 = 300 * (now div 300)" by (simp add: minus_mod_eq_mult_div)
  moreover have "300 * (now div 300) \<le> now" "now < 300 * (now div 300) + 300" by presburger+
  ultimately show ?thesis using \<open>0 \<le> now\<close> by (simp add: Let_def)
qed

section \<open>Prices of the strategies\<close>

text \<open>A discount never raises a price: what rounding does to a product with a factor below one.\<close>

lemma rr_mul_le_one:
  assumes "0 \<le> e" "repr e" "0 \<le> c" "c \<le> 1"
  shows "0 \<le> rr (e * c) \<and> rr (e * c) \<le> e"
proof -
  have "e * c \<le> e" using assms mult_left_mono [of c 1 e] by simp
  then have "rr (e * c) \<le> rr e" by (rule rr_mono)
  with assms show ?thesis by (simp add: rr_exact rr_nonneg)
qed

lemma one_minus_finite:
  assumes "0 \<le> s" "s \<le> 1"
  shows "is_finite (1 - Fin s) \<and> fval (1 - Fin s) = rr (1 - s) \<and> 0 \<le> rr (1 - s) \<and> rr (1 - s) \<le> 1"
proof -
  have "\<bar>1 - s\<bar> \<le> big" using assms one_le_big by linarith
  moreover have "rr (1 - s) \<le> rr 1" using assms by (intro rr_mono) simp
  ultimately show ?thesis
    using assms sub_finite [of 1 "Fin s"] by (simp add: rr_nonneg)
qed

section \<open>Properties\<close>

text \<open>The risk gate is monotone. An order that the gate lets through is let through again
  when no limit is tightened and no input is riskier: fresher data, a daily profit at least as
  high, a shorter losing streak, a smaller notional, fewer open orders.\<close>

lemma risk_gate_monotone:
  assumes "decision (evaluate_risk l i) = Allow" "limits_at_least l l'" "input_no_riskier i i'"
  shows "decision (evaluate_risk l' i') = Allow"
  by (rule risk_allow_mono [OF assms])

theorem risk_gate_monotone_witness:
  "decision (evaluate_risk \<lparr>max_daily_loss_usdc = Fin 30, max_consecutive_losses = 3,
     max_notional_per_market_usdc = Fin 100, max_open_orders = 4, max_stale_data_ms = 3000,
     limits_kill_switch_mode = ManualOrPolicy\<rparr>
    \<lparr>proposed_notional_usdc = Fin 5, open_orders = 1, stale_data_ms = 100,
     daily_realized_pnl_usdc = 0, consecutive_losses = 0, manual_kill_switch_active = False\<rparr>) = Allow"
  by (rule risk_gate_monotone
      [of "\<lparr>max_daily_loss_usdc = Fin 30, max_consecutive_losses = 3,
         max_notional_per_market_usdc = Fin 10, max_open_orders = 4, max_stale_data_ms = 3000,
         limits_kill_switch_mode = ManualOrPolicy\<rparr>"
        "\<lparr>proposed_notional_usdc = Fin 5, open_orders = 2, stale_data_ms = 200,
         daily_realized_pnl_usdc = Fin (- 1), consecutive_losses = 1, manual_kill_switch_active = False\<rparr>"])
    (simp_all add: evaluate_risk_def limits_at_least_def input_no_riskier_def uminus_f64_def word_le_def word_less_def)

text \<open>What the gate decides. It allows exactly when no check fires; it halts exactly on an
  armed kill switch, or, under the mode \<open>manual_or_policy\<close>, when data is fresh and the daily
  loss or the losing streak is at its limit. Everything else is a block. The loss and notional
  checks are IEEE comparisons, so a NaN never fires one.\<close>

lemma risk_gate_decides:
  fixes l :: risk_limits and i :: risk_input
  defines "killed \<equiv> manual_kill_switch_active i \<and> limits_kill_switch_mode l \<noteq> KsDisabled"
    and "stale \<equiv> max_stale_data_ms l < stale_data_ms i"
    and "losing \<equiv> daily_realized_pnl_usdc i \<le> - max_daily_loss_usdc l \<or>
           max_consecutive_losses l \<le> consecutive_losses i"
    and "full \<equiv> max_notional_per_market_usdc l < proposed_notional_usdc i \<or>
           max_open_orders l \<le> open_orders i"
  shows "decision (evaluate_risk l i) =
    (if killed \<or> (\<not> stale \<and> losing \<and> limits_kill_switch_mode l = ManualOrPolicy) then Halt
     else if stale \<or> losing \<or> full then Block else Allow)"
  unfolding killed_def stale_def losing_def full_def
  by (cases "limits_kill_switch_mode l") (simp_all add: evaluate_risk_def)

text \<open>A trade exits only what it entered. In every history the state machine allows, the
  exit states are preceded by the order placed, its entry filled and the take profit placed,
  and a settled trade by its filled exit; the only state reached otherwise is \<open>Halted\<close>.\<close>

lemma trade_history_order:
  assumes "trade_history (t # h)"
  shows "(t \<in> {SlArmed, ExitPartiallyFilled, ExitFilled, Settled} \<longrightarrow>
      {WaitingEntry, EntryPlaced, EntryFilled, TpPlaced} \<subseteq> set h \<union> {t}) \<and>
    (t = Settled \<longrightarrow> ExitFilled \<in> set h)"
  using trade_history_needs [OF assms refl] by auto

theorem trade_history_order_witness:
  "{WaitingEntry, EntryPlaced, EntryFilled, TpPlaced}
     \<subseteq> set [TpPlaced, EntryFilled, EntryPlaced, WaitingEntry, Idle] \<union> {ExitFilled}"
proof -
  have "trade_history [ExitFilled, TpPlaced, EntryFilled, EntryPlaced, WaitingEntry, Idle]"
    by (intro trade_history.intros) (simp_all add: tstep_table transition_table_def)
  from trade_history_order [OF this] show ?thesis by simp
qed

text \<open>The round trip of a cycle identifier. For a timestamp from 1970 on, the identifier of
  the current five minutes parses to a start that is a multiple of 300 seconds, not after the
  timestamp and less than 300 seconds before it.\<close>

lemma cycle_roundtrip:
  assumes "0 \<le> now" "is_i64 now"
  shows "\<exists>t. parse_unix_start (from_now_rounded_5m now) = Some t \<and>
    300 dvd t \<and> 0 \<le> t \<and> t \<le> now \<and> now < t + 300"
proof -
  let ?t = "now - rust_rem now 300"
  have b: "0 \<le> ?t" "?t \<le> now" "now < ?t + 300" "300 dvd ?t"
    using cycle_start_bounds [OF assms(1)] by (auto simp: Let_def)
  then have "is_i64 \<bar>?t\<bar>" using assms(2) by (simp add: is_i64_def i64_min_def)
  from parse_from_unix_start [OF this] b show ?thesis
    by (auto simp: from_now_rounded_5m_def Let_def)
qed

theorem cycle_roundtrip_witness:
  "\<exists>t. parse_unix_start (from_now_rounded_5m 1700000123) = Some t \<and>
    300 dvd t \<and> 0 \<le> t \<and> t \<le> 1700000123 \<and> 1700000123 < t + 300"
  by (rule cycle_roundtrip) (simp_all add: is_i64_def i64_min_def i64_max_def)

text \<open>The aggressive stop is below the entry: for a price that is a binary64 value and a
  stop percentage between zero and one the stop price is a non-negative number not above the
  entry price, rounding included.\<close>

lemma aggressive_stop_below_entry:
  assumes "0 \<le> e" "e \<le> 1" "repr e" "0 \<le> s" "s \<le> 1"
  shows "0 \<le> aggressive_stop_price (Fin e) (Fin s) \<and> aggressive_stop_price (Fin e) (Fin s) \<le> Fin e"
proof -
  note o = one_minus_finite [OF assms(4,5)]
  have c: "0 \<le> e * rr (1 - s)" "e * rr (1 - s) \<le> 1"
    using o assms(1,2) by (simp_all add: mult_le_one)
  then have "\<bar>e * rr (1 - s)\<bar> \<le> big" using one_le_big by linarith
  then have "is_finite (Fin e * (1 - Fin s)) \<and> fval (Fin e * (1 - Fin s)) = rr (e * rr (1 - s))"
    using o mul_finite [of "Fin e" "1 - Fin s"] by simp
  then show ?thesis
    using rr_mul_le_one [OF assms(1,3), of "rr (1 - s)"] o
    by (simp add: aggressive_stop_price_def finite_le)
qed

lemma aggressive_stop_at_half:
  "0 \<le> aggressive_stop_price (Fin (1 / 2)) (Fin (1 / 4)) \<and>
   aggressive_stop_price (Fin (1 / 2)) (Fin (1 / 4)) \<le> Fin (1 / 2)"
  by (rule aggressive_stop_below_entry)
    (use repr_pow [of "- 1"] in \<open>simp_all add: power_int_minus inverse_eq_divide\<close>)

end
