(* ===== verification/Share_Qty.thy ===== *)
theory Share_Qty
  imports F64 Rust_Text
begin

text \<open>
  Share quantities. The trade builder keeps quantities on a grid of hundredths of a share:
  \<open>round_trade_builder_share_qty\<close> and \<open>floor_trade_builder_share_qty\<close> of
  \<open>trade_builder/exit_math.rs\<close>, and \<open>clamp_probability\<close> of \<open>lib_parts/part_009.rs\<close> for prices.
  A grid value is the binary64 number nearest to a number of cents; up to \<open>2 ^ 40\<close> cents the
  lemmas compute the rounding of sums, differences and minima of grid values in integers, so
  the planners that work on quantities refine integer algorithms.
\<close>

section \<open>The operations\<close>

definition round_trade_builder_share_qty :: "f64 \<Rightarrow> f64" where
  "round_trade_builder_share_qty value = fround (fmax value 0 * lit 100) / lit 100"

definition floor_trade_builder_share_qty :: "f64 \<Rightarrow> f64" where
  "floor_trade_builder_share_qty value = ffloor (fmax value 0 * lit 100) / lit 100"

definition clamp_probability :: "f64 \<Rightarrow> f64" where
  "clamp_probability value = fclamp value (lit (1 / 100)) (lit (99 / 100))"

section \<open>Grid values\<close>

definition cents :: "int \<Rightarrow> f64" where
  "cents k = Fin (rr (of_int k / 100))"

definition max_cents :: int where "max_cents = 1000000000000"

definition on_grid :: "f64 \<Rightarrow> bool" where
  "on_grid x \<longleftrightarrow> (\<exists>k. 0 \<le> k \<and> k \<le> max_cents \<and> x = cents k)"

lemma cents_simps [simp]: "is_finite (cents k)" "fval (cents k) = rr (of_int k / 100)" "cents k \<noteq> NaN"
  by (simp_all add: cents_def)

lemma cents_0 [simp]: "cents 0 = Fin 0"
  by (simp add: cents_def)

lemma cents_nonneg [simp]: "0 \<le> k \<Longrightarrow> 0 \<le> rr (of_int k / 100)"
  by (intro rr_nonneg) simp

lemma cents_le: "i \<le> j \<Longrightarrow> cents i \<le> cents j"
  by (simp add: cents_def rr_mono divide_right_mono)

text \<open>The absolute error of a value in range is far below a hundredth.\<close>

lemma rr_near:
  assumes "0 \<le> q" "q \<le> 5000000000000"
  shows "rr q \<le> q + 1 / 1000" "q - 1 / 1000 \<le> rr q" "0 \<le> rr q"
proof -
  have "eps * \<bar>q\<bar> \<le> eps * 5000000000000" using assms eps_pos by (intro mult_left_mono) auto
  moreover have "eps * 5000000000000 + tiny \<le> 1 / 1000"
    unfolding eps_def tiny_def by (rule order_trans [of _ "5000000000000 / 2 ^ 53 + 1 / 2 ^ 53"])
      (simp_all add: frac_le)
  ultimately show "rr q \<le> q + 1 / 1000" "q - 1 / 1000 \<le> rr q"
    using rr_err [of q] by (simp_all only: abs_le_iff) linarith+
  show "0 \<le> rr q" using assms by (rule_tac rr_nonneg)
qed

lemma rr_close:
  assumes "0 \<le> q" "q \<le> 40000000000"
  shows "rr q \<le> q + 1 / 100000" "q - 1 / 100000 \<le> rr q" "0 \<le> rr q"
proof -
  have "eps * \<bar>q\<bar> \<le> eps * 40000000000" using assms eps_pos by (intro mult_left_mono) auto
  moreover have "eps * 40000000000 + tiny \<le> 1 / 100000"
    unfolding eps_def tiny_def by (rule order_trans [of _ "40000000000 / 2 ^ 53 + 1 / 2 ^ 53"])
      (simp_all add: frac_le)
  ultimately show "rr q \<le> q + 1 / 100000" "q - 1 / 100000 \<le> rr q"
    using rr_err [of q] by (simp_all only: abs_le_iff) linarith+
  show "0 \<le> rr q" using assms by (rule_tac rr_nonneg)
qed

lemma of_int_cents: "k \<le> 2 * max_cents \<Longrightarrow> rat_of_int k \<le> 2000000000000"
  using of_int_le_iff [of k "2000000000000", where 'a = rat] by (simp add: max_cents_def)

lemma cents_near:
  assumes "0 \<le> k" "k \<le> 2 * max_cents"
  shows "rr (of_int k / 100) \<le> of_int k / 100 + 1 / 100000" "of_int k / 100 - 1 / 100000 \<le> rr (of_int k / 100)"
    "0 \<le> rr (of_int k / 100)" "rr (of_int k / 100) \<le> 20000000001"
proof -
  have k: "0 \<le> rat_of_int k" "rat_of_int k \<le> 2000000000000"
    using assms of_int_cents by auto
  then have "eps * \<bar>rat_of_int k / 100\<bar> \<le> eps * 20000000000"
    using eps_pos by (intro mult_left_mono) auto
  moreover have "eps * 20000000000 + tiny \<le> 1 / 100000"
    unfolding eps_def tiny_def by (rule order_trans [of _ "20000000000 / 2 ^ 53 + 1 / 2 ^ 53"])
      (simp_all add: frac_le)
  ultimately show u: "rr (of_int k / 100) \<le> of_int k / 100 + 1 / 100000"
    and "of_int k / 100 - 1 / 100000 \<le> rr (of_int k / 100)"
    using rr_err [of "of_int k / 100"] by (simp_all only: abs_le_iff) linarith+
  show "0 \<le> rr (of_int k / 100)" using assms by simp
  show "rr (of_int k / 100) \<le> 20000000001" using u k by linarith
qed

lemma le_big_num: "q \<le> 100000000000000 \<Longrightarrow> q \<le> big"
  by (rule le_big) simp

section \<open>Rounding to the grid\<close>

lemma half_away_near:
  assumes "0 \<le> q" "q < of_int k + 1 / 2" "of_int k - 1 / 2 < q"
  shows "half_away q = k"
proof -
  have "\<lfloor>q + 1 / 2\<rfloor> = k" using assms by (intro floor_unique) linarith+
  with assms(1) show ?thesis by (simp add: half_away_def)
qed

text \<open>A non-negative finite result that is not zero is its rounded rational.\<close>

lemma rnd_Fin: "0 \<le> q \<Longrightarrow> q \<le> 100000000000000 \<Longrightarrow> rnd q = Fin (rr q)"
proof -
  assume q: "0 \<le> q" "q \<le> 100000000000000"
  then have "is_finite (rnd q)" using le_big_num [of q] by (intro rnd_finite) simp
  moreover from this have "fval (rnd q) = rr q" by (rule fval_rnd)
  moreover have "rnd q \<noteq> NegZero" using q by (auto simp: rnd_def Let_def zero_of_def inf_of_def)
  ultimately show ?thesis by (cases "rnd q") auto
qed

lemma Fin_int_div_100: "0 \<le> k \<Longrightarrow> k \<le> 2 * max_cents \<Longrightarrow> Fin (of_int k) / Fin 100 = cents k"
  using of_int_cents [of k] by (simp add: mul_pos_cases cents_def rnd_Fin)

lemma fmax_nonneg: "0 \<le> v \<Longrightarrow> fmax (Fin v) 0 = Fin v"
  by (auto simp: fmax_def)

text \<open>Scaling to cents, rounding by an integer function and scaling back.\<close>

lemma scaled:
  assumes "0 \<le> v" "v \<le> 20000000002" "f (rr (v * 100)) = k" "f 0 = 0" "0 \<le> k" "k \<le> 2 * max_cents"
  shows "to_int_with f (fmax (Fin v) 0 * lit 100) / lit 100 = cents k"
proof -
  have "Fin v * Fin 100 = Fin (rr (v * 100))" using assms by (simp add: mul_pos_cases rnd_Fin)
  moreover have "to_int_with f (Fin (rr (v * 100))) = Fin (of_int k)"
    using assms rr_nonneg [of "v * 100"] by (auto simp: to_int_with_def zero_of_def)
  ultimately show ?thesis using assms by (simp add: fmax_nonneg Fin_int_div_100)
qed

lemma round_cents_near:
  assumes "0 \<le> v" "v \<le> 20000000002" "v * 100 \<le> of_int k + 2 / 5" "of_int k - 2 / 5 \<le> v * 100"
    "0 \<le> k" "k \<le> 2 * max_cents"
  shows "round_trade_builder_share_qty (Fin v) = cents k"
proof -
  note e = rr_near [of "v * 100"]
  have "half_away (rr (v * 100)) = k" using e assms by (intro half_away_near) linarith+
  then show ?thesis unfolding round_trade_builder_share_qty_def fround_def
    using assms by (intro scaled) auto
qed

text \<open>Every quantity in range rounds to the grid, at most half a cent away (and a hair).\<close>

lemma round_on_grid:
  assumes "0 \<le> v" "v \<le> 9999999999"
  obtains k where "0 \<le> k" "k \<le> max_cents" "round_trade_builder_share_qty (Fin v) = cents k"
    "v * 100 \<le> of_int k + 501 / 1000" "of_int k - 501 / 1000 \<le> v * 100"
proof -
  note e = rr_near [of "v * 100"]
  have r: "0 \<le> rr (v * 100)" using assms by (intro rr_nonneg) simp
  let ?k = "\<lfloor>rr (v * 100) + 1 / 2\<rfloor>"
  have ke: "half_away (rr (v * 100)) = ?k" using r by (simp add: half_away_def)
  have k: "0 \<le> ?k" using r by simp
  have d: "v * 100 \<le> of_int ?k + 501 / 1000" "of_int ?k - 501 / 1000 \<le> v * 100"
    using e assms by linarith+
  have "rat_of_int ?k \<le> 1000000000000" using d assms by linarith
  then have kb: "?k \<le> max_cents" using of_int_le_iff [of ?k "1000000000000", where 'a = rat] by (simp add: max_cents_def)
  have "round_trade_builder_share_qty (Fin v) = cents ?k"
    unfolding round_trade_builder_share_qty_def fround_def
    using assms k kb ke by (intro scaled) (auto simp: max_cents_def)
  with that k kb d show ?thesis by blast
qed

section \<open>Arithmetic on the grid is arithmetic on cents\<close>

lemma round_cents:
  assumes "0 \<le> k" "k \<le> 2 * max_cents"
  shows "round_trade_builder_share_qty (cents k) = cents k"
proof -
  note n = cents_near [OF assms]
  have "rat_of_int k \<le> 2000000000000" using of_int_cents [OF assms(2)] .
  then have "round_trade_builder_share_qty (Fin (rr (of_int k / 100))) = cents k"
    by (intro round_cents_near; use n assms in linarith)
  then show ?thesis by (simp add: cents_def)
qed

lemma cents_lt:
  assumes "i < j" "0 \<le> i" "j \<le> 2 * max_cents"
  shows "rr (of_int i / 100) < rr (of_int j / 100)"
proof -
  have "rat_of_int i + 1 \<le> of_int j" using assms of_int_le_iff [of "i + 1" j, where 'a = rat] by simp
  then show ?thesis using cents_near(1) [of i] cents_near(2) [of j] assms by linarith
qed

lemma cents_less_iff:
  assumes "0 \<le> i" "i \<le> 2 * max_cents" "0 \<le> j" "j \<le> 2 * max_cents"
  shows "cents i < cents j \<longleftrightarrow> i < j" "cents i \<le> cents j \<longleftrightarrow> i \<le> j"
  using cents_lt [of i j] cents_lt [of j i] assms
  by (cases i j rule: linorder_cases; simp add: finite_lt finite_le)+

lemma cents_inj:
  assumes "0 \<le> i" "i \<le> 2 * max_cents" "0 \<le> j" "j \<le> 2 * max_cents"
  shows "cents i = cents j \<longleftrightarrow> i = j"
  using cents_less_iff(1) [OF assms] cents_less_iff(1) [OF assms(3,4,1,2)] by (metis f64_lt_irrefl linorder_neqE)

lemma cents_pos:
  assumes "0 \<le> k" "k \<le> 2 * max_cents"
  shows "0 < cents k \<longleftrightarrow> 0 < k" "cents k \<le> 0 \<longleftrightarrow> k = 0"
  using cents_less_iff [of 0 k] cents_less_iff [of k 0] assms by (auto simp: Fin0_cmp max_cents_def)

lemma fmin_cents:
  assumes "0 \<le> i" "i \<le> 2 * max_cents" "0 \<le> j" "j \<le> 2 * max_cents"
  shows "fmin (cents i) (cents j) = cents (min i j)"
  using cents_less_iff [OF assms] cents_less_iff [OF assms(3,4,1,2)] by (auto simp: fmin_def min_def)

lemma fmax_cents:
  assumes "0 \<le> i" "i \<le> 2 * max_cents" "0 \<le> j" "j \<le> 2 * max_cents"
  shows "fmax (cents i) (cents j) = cents (max i j)"
  using cents_less_iff [OF assms] cents_less_iff [OF assms(3,4,1,2)] by (auto simp: fmax_def max_def)

text \<open>Sums and differences of grid values round to the grid value of the integer result.\<close>

lemma round_cents_add:
  assumes "0 \<le> a" "0 \<le> b" "a + b \<le> 2 * max_cents"
  shows "round_trade_builder_share_qty (cents a + cents b) = cents (a + b)"
proof -
  let ?v = "rr (of_int a / 100) + rr (of_int b / 100)"
  have a: "a \<le> 2 * max_cents" and b: "b \<le> 2 * max_cents" using assms by auto
  note na = cents_near [OF assms(1) a] and nb = cents_near [OF assms(2) b]
  have k: "rat_of_int a + of_int b \<le> 2000000000000" using of_int_cents [OF assms(3)] by simp
  have v: "0 \<le> ?v" "?v \<le> 20000000001" using na nb k by linarith+
  have v': "?v \<le> 5000000000000" using v by linarith
  note e = rr_near [OF v(1) v']
  have "cents a + cents b = rnd ?v" by (simp add: cents_def plus_f64_def f64_add_def)
  then have "cents a + cents b = Fin (rr ?v)" using v by (simp add: rnd_Fin)
  moreover have "round_trade_builder_share_qty (Fin (rr ?v)) = cents (a + b)"
    by (rule round_cents_near; use v e na nb k assms of_int_add [of a b, where 'a = rat] in linarith)
  ultimately show ?thesis by simp
qed

lemma cents_sub_pos:
  assumes "0 \<le> b" "b < a" "a \<le> 2 * max_cents"
  defines "x \<equiv> rr (of_int a / 100)" and "y \<equiv> rr (of_int b / 100)"
  shows "fmax (cents a - cents b) 0 = Fin (rr (x - y))" "cents a - cents b = Fin (rr (x - y))"
    "0 < rr (x - y)" "rr (x - y) \<le> 20000000002" "1 / 200 \<le> x - y" "x - y \<le> 20000000001"
proof -
  have a: "0 \<le> a" "a \<le> 2 * max_cents" and b: "b \<le> 2 * max_cents" using assms by auto
  note na = cents_near [OF a, folded x_def] and nb = cents_near [OF assms(1) b, folded y_def]
  have "rat_of_int b + 1 \<le> of_int a" using assms of_int_le_iff [of "b + 1" a, where 'a = rat] by simp
  then show v: "1 / 200 \<le> x - y" "x - y \<le> 20000000001" using na nb by linarith+
  then have v': "0 \<le> x - y" "x - y \<le> 5000000000000" by linarith+
  note e = rr_near [OF v']
  show r: "0 < rr (x - y)" "rr (x - y) \<le> 20000000002" using v e by linarith+
  have "cents a - cents b = rnd (x - y)"
    using nb unfolding x_def y_def by (auto simp: cents_def minus_f64_def f64_add_def)
  then show d: "cents a - cents b = Fin (rr (x - y))" using v by (simp add: rnd_Fin)
  show "fmax (cents a - cents b) 0 = Fin (rr (x - y))" using r d by (simp add: fmax_nonneg)
qed

lemma round_cents_sub:
  assumes "0 \<le> b" "b < a" "a \<le> 2 * max_cents"
  shows "round_trade_builder_share_qty (fmax (cents a - cents b) 0) = cents (a - b)"
    "round_trade_builder_share_qty (cents a - cents b) = cents (a - b)" "0 < cents a - cents b"
proof -
  let ?x = "rr (of_int a / 100)" and ?y = "rr (of_int b / 100)"
  note d = cents_sub_pos [OF assms]
  have a: "0 \<le> a" "a \<le> 2 * max_cents" and b: "b \<le> 2 * max_cents" using assms by auto
  note na = cents_near [OF a] and nb = cents_near [OF assms(1) b]
  have v': "0 \<le> ?x - ?y" "?x - ?y \<le> 5000000000000" using d(5,6) by linarith+
  note e = rr_near [OF v']
  have "round_trade_builder_share_qty (Fin (rr (?x - ?y))) = cents (a - b)"
    by (rule round_cents_near; use d(3-6) e na nb assms of_int_diff [of a b, where 'a = rat] in linarith)
  then show "round_trade_builder_share_qty (fmax (cents a - cents b) 0) = cents (a - b)"
    "round_trade_builder_share_qty (cents a - cents b) = cents (a - b)" using d by simp_all
  show "0 < cents a - cents b" using d by simp
qed

lemma lit_cents: "0 \<le> k \<Longrightarrow> k \<le> 2 * max_cents \<Longrightarrow> lit (of_int k / 100) = cents k"
  using of_int_cents [of k] by (simp add: lit_def cents_def rnd_Fin)

lemma cents_sub_le:
  assumes "0 \<le> a" "a \<le> b" "b \<le> 2 * max_cents"
  shows "fmax (cents a - cents b) 0 = Fin 0" "\<not> 0 < cents a - cents b"
proof -
  let ?x = "rr (of_int a / 100)" and ?y = "rr (of_int b / 100)"
  have "0 \<le> ?y" using assms by simp
  have e: "cents a - cents b = rnd (?x - ?y)"
    using \<open>0 \<le> ?y\<close> by (auto simp: cents_def minus_f64_def f64_add_def)
  have "?x \<le> ?y" using assms by (intro rr_mono divide_right_mono) auto
  then have n: "rnd (?x - ?y) \<le> 0" by (intro rnd_nonpos) simp
  have z: "rnd (?x - ?y) \<noteq> NegZero"
  proof (cases "a = b")
    case False
    then have "rat_of_int a + 1 \<le> of_int b" using assms of_int_le_iff [of "a + 1" b, where 'a = rat] by simp
    then have d: "1 / 200 \<le> ?y - ?x" "?y - ?x \<le> 20000000002"
      using cents_near [of a] cents_near [of b] assms by linarith+
    have "0 < rr (?y - ?x)" using rr_near(2) [of "?y - ?x"] d by linarith
    moreover have "rr (?x - ?y) = - rr (?y - ?x)" using rr_uminus [of "?y - ?x"] by simp
    ultimately show ?thesis by (auto simp: rnd_def Let_def zero_of_def inf_of_def)
  qed simp
  show "fmax (cents a - cents b) 0 = Fin 0" unfolding e
    using n z by (cases "rnd (?x - ?y)") (auto simp: fmax_def zero_f64_def)
  show "\<not> 0 < cents a - cents b" unfolding e using n f64_le_lt_contra by blast
qed

lemma round_cents_monus:
  assumes "0 \<le> a" "a \<le> 2 * max_cents" "0 \<le> b" "b \<le> 2 * max_cents"
  shows "round_trade_builder_share_qty (fmax (cents a - cents b) 0) = cents (max 0 (a - b))"
proof (cases "b < a")
  case True
  then show ?thesis using round_cents_sub(1) [of b a] assms by simp
next
  case False
  then have "a \<le> b" by simp
  then have "fmax (cents a - cents b) 0 = cents 0" using cents_sub_le(1) [of a b] assms by simp
  moreover have "round_trade_builder_share_qty (cents 0) = cents 0" by (rule round_cents) (simp_all add: max_cents_def)
  ultimately show ?thesis using False by simp
qed

text \<open>Flooring a grid value may lose a cent: the product with 100 can fall just below the integer.\<close>

lemma floor_near:
  assumes "0 \<le> v" "v \<le> 20000000002" "v * 100 \<le> of_int k + 2 / 5" "of_int k - 2 / 5 \<le> v * 100"
    "0 \<le> k" "k \<le> 2 * max_cents"
  shows "floor_trade_builder_share_qty (Fin v) = cents k \<or>
    0 < k \<and> floor_trade_builder_share_qty (Fin v) = cents (k - 1)"
proof -
  have v: "0 \<le> v * 100" "v * 100 \<le> 5000000000000" using assms by linarith+
  note e = rr_near [OF v]
  have "rat_of_int k - 1 < rr (v * 100)" "rr (v * 100) < of_int k + 1" using assms e by linarith+
  then have f: "\<lfloor>rr (v * 100)\<rfloor> = k \<or> \<lfloor>rr (v * 100)\<rfloor> = k - 1" by linarith
  have n: "0 \<le> \<lfloor>rr (v * 100)\<rfloor>" using e by simp
  have "floor_trade_builder_share_qty (Fin v) = cents \<lfloor>rr (v * 100)\<rfloor>"
    unfolding floor_trade_builder_share_qty_def ffloor_def
    using n f assms by (intro scaled) auto
  with f n show ?thesis by fastforce
qed

lemma floor_cents:
  assumes "0 \<le> k" "k \<le> 2 * max_cents"
  shows "floor_trade_builder_share_qty (cents k) = cents k \<or>
    0 < k \<and> floor_trade_builder_share_qty (cents k) = cents (k - 1)"
proof -
  note n = cents_near [OF assms]
  have "rat_of_int k \<le> 2000000000000" using of_int_cents [OF assms(2)] .
  then have "floor_trade_builder_share_qty (Fin (rr (of_int k / 100))) = cents k \<or>
    0 < k \<and> floor_trade_builder_share_qty (Fin (rr (of_int k / 100))) = cents (k - 1)"
    by (intro floor_near; use n assms in linarith)
  then show ?thesis by (simp add: cents_def)
qed

lemma floor_cents_sub:
  assumes "0 \<le> b" "b < a" "a \<le> 2 * max_cents"
  shows "floor_trade_builder_share_qty (fmax (cents a - cents b) 0) = cents (a - b) \<or>
    floor_trade_builder_share_qty (fmax (cents a - cents b) 0) = cents (a - b - 1)"
proof -
  let ?x = "rr (of_int a / 100)" and ?y = "rr (of_int b / 100)"
  note d = cents_sub_pos [OF assms]
  have a: "0 \<le> a" "a \<le> 2 * max_cents" and b: "b \<le> 2 * max_cents" using assms by auto
  note na = cents_near [OF a] and nb = cents_near [OF assms(1) b]
  have v': "0 \<le> ?x - ?y" "?x - ?y \<le> 5000000000000" using d(5,6) by linarith+
  note e = rr_near [OF v']
  have "floor_trade_builder_share_qty (Fin (rr (?x - ?y))) = cents (a - b) \<or>
    0 < a - b \<and> floor_trade_builder_share_qty (Fin (rr (?x - ?y))) = cents (a - b - 1)"
    by (rule floor_near; use d(3-6) e na nb assms of_int_diff [of a b, where 'a = rat] in linarith)
  then show ?thesis using d by auto
qed

text \<open>What holds of every argument: the result is a non-negative number or infinite, and the two
  roundings are monotone.\<close>

lemma round_share_mono: "x \<le> y \<Longrightarrow> round_trade_builder_share_qty x \<le> round_trade_builder_share_qty y"
  by (simp add: round_trade_builder_share_qty_def div_pos_mono fround_mono mul_pos_mono fmax_mono)

lemma floor_share_mono: "x \<le> y \<Longrightarrow> floor_trade_builder_share_qty x \<le> floor_trade_builder_share_qty y"
  by (simp add: floor_trade_builder_share_qty_def div_pos_mono ffloor_mono mul_pos_mono fmax_mono)

lemma round_share_0 [simp]: "round_trade_builder_share_qty 0 = Fin 0"
  using round_cents [of 0] by (simp add: max_cents_def zero_f64_def)

lemma fmax_0_nonneg: "0 \<le> fmax x 0"
  using fmax_bounds(1) [of 0 x] by simp

lemma fmax_0_idem: "0 \<le> x \<Longrightarrow> fmax x 0 = x"
  by (cases x) (auto simp: fmax_def)

lemma mul_100_nonneg: "0 \<le> x \<Longrightarrow> 0 \<le> x * Fin 100"
  using mul_pos_mono [of 100 0 x] by (simp add: mul_pos_cases zero_f64_def)

lemma round_share_nonneg: "0 \<le> round_trade_builder_share_qty x"
proof -
  have "fround 0 \<le> fround (fmax x 0 * Fin 100)" by (intro fround_mono mul_100_nonneg fmax_0_nonneg)
  then have "fround 0 / Fin 100 \<le> round_trade_builder_share_qty x"
    unfolding round_trade_builder_share_qty_def by (simp add: div_pos_mono)
  moreover have "fround 0 / Fin 100 = 0"
    by (simp add: fround_def to_int_with_def zero_f64_def zero_of_def mul_pos_cases)
  ultimately show ?thesis by simp
qed

lemma clamp_probability_bounds:
  "x \<noteq> NaN \<Longrightarrow> lit (1 / 100) \<le> clamp_probability x \<and> clamp_probability x \<le> lit (99 / 100)"
  unfolding clamp_probability_def
  by (rule fclamp_bounds) (simp_all add: lit_def rnd_mono)

lemma clamp_probability_mono: "x \<le> y \<Longrightarrow> clamp_probability x \<le> clamp_probability y"
proof -
  have c: "lit (1 / 100) \<le> lit (99 / 100)" by (simp add: lit_def rnd_mono)
  show "x \<le> y \<Longrightarrow> clamp_probability x \<le> clamp_probability y"
    using c f64_le_trans f64_le_lt_contra f64_not_lt f64_le_not_nan
    unfolding clamp_probability_def fclamp_def by (smt (verit) f64_le_refl)
qed

end
