(* ===== verification/Orders.thy ===== *)
theory Orders
  imports Share_Qty
begin

text \<open>
  The trade builder's order record (\<open>TradeBuilderOrder\<close> of \<open>bot-infra/src/db/models.rs\<close>), the
  exchange's order information, and the predicates that classify an order: child exits, fast
  entries, latched stop losses, size basis, the texts of exchange errors
  (\<open>exit_math.rs\<close>, \<open>part_021.rs\<close>, \<open>part_022.rs\<close>, \<open>part_027.rs\<close>), and the market minimum size rules of
  \<open>min_size_guard.rs\<close>. The type of timestamps \<open>'ts\<close> is chrono's; the JSON snapshot \<open>'j\<close> is
  serde_json's, read through the parameter \<open>get_str\<close> (the string at a key of an object).
\<close>

section \<open>Records\<close>

record price_exit_rule =
  per_price :: f64
  per_size_pct :: f64

record time_exit_rule =
  ter_elapsed_minutes :: int
  ter_remaining_pct :: f64

record ptb_stop_loss_rule =
  psl_gap_usd :: f64
  psl_size_pct :: f64

record ('ts, 'j) trade_builder_order =
  o_id :: i64
  o_trade_id :: i64
  o_user_id :: i64
  o_kind :: string
  o_status :: string
  o_market_slug :: string
  o_token_id :: string
  o_outcome_label :: string
  o_side :: string
  o_execution_mode :: string
  o_trigger_condition :: "string option"
  o_trigger_price :: "f64 option"
  o_max_price :: "f64 option"
  o_size_basis :: string
  o_size_usdc :: f64
  o_target_qty :: "f64 option"
  o_min_price_distance_cent :: f64
  o_expires_at :: "'ts option"
  o_eligible_after_at :: "'ts option"
  o_eligible_before_at :: "'ts option"
  o_max_triggers :: int
  o_triggers_fired :: int
  o_active_exchange_order_id :: "string option"
  o_remaining_size :: "f64 option"
  o_remaining_qty :: "f64 option"
  o_working_price :: "f64 option"
  o_last_seen_price :: "f64 option"
  o_last_error :: "string option"
  o_created_at :: "'ts"
  o_updated_at :: "'ts"
  o_parent_order_id :: "i64 option"
  o_origin_flow_definition_id :: "i64 option"
  o_origin_flow_run_id :: "i64 option"
  o_origin_flow_node_key :: "string option"
  o_pair_session_id :: "i64 option"
  o_pair_leg_role :: "string option"
  o_tp_enabled :: bool
  o_tp_price :: "f64 option"
  o_tp_rules_json :: "price_exit_rule list"
  o_sl_enabled :: bool
  o_sl_price :: "f64 option"
  o_sl_rules_json :: "price_exit_rule list"
  o_time_exit_rules_json :: "time_exit_rule list"
  o_filled_qty :: f64
  o_fee_rate_bps :: i64
  o_trigger_latched :: bool
  o_trigger_latched_reason :: "string option"
  o_trigger_latched_at :: "'ts option"
  o_submitted_dynamic_qty :: "f64 option"
  o_submitted_dynamic_price :: "f64 option"
  o_runtime_snapshot_json :: "'j option"
  o_fresh_submit_lease_until :: "'ts option"
  o_guard_trigger_price :: "f64 option"
  o_best_ask_floor_price :: "f64 option"
  o_retry_on_trigger_guard_block :: bool
  o_retry_on_execution_floor_guard_block :: bool
  o_retry_on_max_price_block :: bool
  o_ptb_stop_loss_gap_usd :: "f64 option"
  o_ptb_reference_price :: "f64 option"
  o_ptb_stop_loss_rules_json :: "ptb_stop_loss_rule list"
  o_ptb_stop_loss_time_decay_mode :: "string option"
  o_ptb_current_price_source :: string
  o_staged_sl_retry_only_dust :: bool
  o_staged_sl_retry_dust_metric :: "string option"
  o_staged_sl_retry_dust_value :: "f64 option"
  o_staged_sl_reentry_use_sold_notional :: bool
  o_staged_sl_reentry_only_after_all_stages :: bool
  o_sl_trigger_price_mode :: "string option"
  o_reenter_on_sl_hit :: bool
  o_reentry_max_attempts :: int
  o_reentry_trigger_node_key :: "string option"
  o_notify_on_order_submitted :: bool
  o_notify_on_fill :: bool
  o_notify_on_order_not_filled :: bool
  o_notify_on_trigger_guard_blocked :: bool
  o_notify_on_execution_floor_blocked :: bool
  o_notify_on_tp_hit :: bool
  o_notify_on_sl_hit :: bool
  o_notify_on_max_price_blocked :: bool
  o_last_guard_notification_reason :: "string option"
  o_exit_ladder_kind :: "string option"
  o_exit_ladder_index :: "int option"
  o_exit_ladder_size_pct :: "f64 option"
record order_info =
  oi_order_id :: string
  oi_client_order_id :: "string option"
  oi_status :: string
  oi_price :: "f64 option"
  oi_size :: "f64 option"
  oi_filled_size :: "f64 option"
  oi_associated_trade_ids :: "string list"

section \<open>Constants\<close>

definition exit_qty_tolerance :: f64 where "exit_qty_tolerance = lit (11 / 1000)"
definition exit_tp_slack :: f64 where "exit_tp_slack = lit (5 / 100)"
definition exit_trigger_buffer :: f64 where "exit_trigger_buffer = lit (5 / 100)"
definition local_exit_qty_buffer :: f64 where "local_exit_qty_buffer = lit (3 / 100)"
definition local_exit_qty_buffer_rate :: f64 where "local_exit_qty_buffer_rate = lit (1 / 100)"
definition exit_retry_min_decrement :: f64 where "exit_retry_min_decrement = lit (1 / 100)"
definition exit_stage_marker_prefix :: string where "exit_stage_marker_prefix = ''[exit_submit_stage=''"
definition size_basis_notional_usdc :: string where "size_basis_notional_usdc = ''notional_usdc''"
definition size_basis_shares :: string where "size_basis_shares = ''shares''"
definition default_fee_rate_bps :: u64 where "default_fee_rate_bps = 1000"

lemmas exit_consts [f64_eval] = exit_qty_tolerance_def exit_tp_slack_def exit_trigger_buffer_def
  local_exit_qty_buffer_def local_exit_qty_buffer_rate_def exit_retry_min_decrement_def
lemmas text_consts [text_eval] = exit_stage_marker_prefix_def size_basis_notional_usdc_def size_basis_shares_def

section \<open>Classification of orders\<close>

definition normalize_trade_builder_size_basis :: "string \<Rightarrow> string" where
  "normalize_trade_builder_size_basis raw =
    (if eq_ignore_ascii_case (trim raw) size_basis_shares then size_basis_shares
     else size_basis_notional_usdc)"

definition trade_builder_is_child_exit_sell :: "('ts, 'j) trade_builder_order \<Rightarrow> bool" where
  "trade_builder_is_child_exit_sell order \<longleftrightarrow>
     o_parent_order_id order \<noteq> None \<and> o_side order = ''sell'' \<and> o_kind order = ''conditional''"

definition trade_builder_is_fast_entry_buy :: "('ts, 'j) trade_builder_order \<Rightarrow> bool" where
  "trade_builder_is_fast_entry_buy order \<longleftrightarrow>
     o_parent_order_id order = None \<and> o_kind order = ''conditional'' \<and> o_side order = ''buy''"

definition trade_builder_uses_fast_runtime_pricing :: "('ts, 'j) trade_builder_order \<Rightarrow> bool" where
  "trade_builder_uses_fast_runtime_pricing order \<longleftrightarrow>
     trade_builder_is_child_exit_sell order \<or> trade_builder_is_fast_entry_buy order"

definition trade_builder_is_take_profit_child :: "('ts, 'j) trade_builder_order \<Rightarrow> bool" where
  "trade_builder_is_take_profit_child order \<longleftrightarrow>
     trade_builder_is_child_exit_sell order \<and> o_trigger_condition order = Some ''cross_above''"

definition trade_builder_is_stop_loss_child :: "('ts, 'j) trade_builder_order \<Rightarrow> bool" where
  "trade_builder_is_stop_loss_child order \<longleftrightarrow>
     o_parent_order_id order \<noteq> None \<and> o_side order = ''sell'' \<and> o_kind order = ''conditional'' \<and>
     o_trigger_condition order = Some ''cross_below''"

definition trade_builder_stop_loss_latched :: "('ts, 'j) trade_builder_order \<Rightarrow> bool" where
  "trade_builder_stop_loss_latched order \<longleftrightarrow>
     o_trigger_latched order \<and> o_trigger_latched_reason order = Some ''stop_loss''"

definition should_request_trade_builder_oco_cancel :: "('ts, 'j) trade_builder_order \<Rightarrow> string \<Rightarrow> bool" where
  "should_request_trade_builder_oco_cancel order normalized_status \<longleftrightarrow>
     trade_builder_is_child_exit_sell order \<and> o_exit_ladder_kind order = None \<and>
     normalized_status \<in> {''open'', ''partially_filled'', ''filled''}"

definition trade_builder_is_terminal_status :: "string \<Rightarrow> bool" where
  "trade_builder_is_terminal_status status \<longleftrightarrow>
     status \<in> {''completed'', ''canceled'', ''expired'', ''filled'', ''canceled_requested''}"

definition trade_builder_should_use_optimistic_exit_submit :: "('ts, 'j) trade_builder_order \<Rightarrow> bool" where
  "trade_builder_should_use_optimistic_exit_submit order =
    (if normalize_trade_builder_size_basis (o_size_basis order) \<noteq> size_basis_shares then False
     else if trade_builder_is_child_exit_sell order then True
     else o_side order = ''sell'' \<and> o_kind order = ''immediate'' \<and> o_origin_flow_run_id order \<noteq> None)"

section \<open>Texts of exchange errors\<close>

definition cancel_error_indicates_terminal_match :: "string \<Rightarrow> bool" where
  "cancel_error_indicates_terminal_match error_text =
    (let normalized = to_ascii_lowercase error_text
     in contains normalized ''matched orders can't be canceled'' \<or>
        (contains normalized ''matched'' \<and> contains normalized ''cancel'') \<or>
        (contains normalized ''filled'' \<and> contains normalized ''cancel''))"

definition trade_builder_error_indicates_balance_or_allowance :: "string \<Rightarrow> bool" where
  "trade_builder_error_indicates_balance_or_allowance error_text =
     contains (to_ascii_lowercase error_text) ''not enough balance / allowance''"

definition trade_builder_error_indicates_midpoint_not_found :: "string \<Rightarrow> bool" where
  "trade_builder_error_indicates_midpoint_not_found error_text =
    (let normalized = to_ascii_lowercase error_text
     in contains normalized ''/midpoint'' \<and> contains normalized ''404'')"

definition trade_builder_error_is_fatal_exchange_rejection :: "string \<Rightarrow> bool" where
  "trade_builder_error_is_fatal_exchange_rejection error_text =
    (let normalized = to_ascii_lowercase error_text
     in contains normalized ''invalid signature'' \<or>
        contains normalized ''signature verification failed'' \<or>
        contains normalized ''invalid api key'' \<or>
        contains normalized ''api key not found'' \<or>
        contains normalized ''unauthorized'' \<or>
        contains normalized ''forbidden'' \<or>
        contains normalized ''market not found'' \<or>
        contains normalized ''market closed'' \<or>
        contains normalized ''market resolved'' \<or>
        (contains normalized ''orderbook'' \<and> contains normalized ''does not exist''))"

definition is_some_and :: "('a \<Rightarrow> bool) \<Rightarrow> 'a option \<Rightarrow> bool" where
  "is_some_and p a = (case a of None \<Rightarrow> False | Some x \<Rightarrow> p x)"

lemma is_some_and_simps [simp]: "\<not> is_some_and p None" "is_some_and p (Some x) = p x"
  by (simp_all add: is_some_and_def)

definition trade_builder_should_retry_exit_sell :: "('ts, 'j) trade_builder_order \<Rightarrow> bool" where
  "trade_builder_should_retry_exit_sell order \<longleftrightarrow>
     o_side order = ''sell'' \<and>
     normalize_trade_builder_size_basis (o_size_basis order) = size_basis_shares \<and>
     \<not> is_some_and trade_builder_error_is_fatal_exchange_rejection (o_last_error order)"

definition revenge_flip_runtime_intent_key :: string where
  "revenge_flip_runtime_intent_key = ''revenge_flip_intent''"

definition trade_builder_order_revenge_flip_intent ::
    "('j \<Rightarrow> string \<Rightarrow> string option) \<Rightarrow> ('ts, 'j) trade_builder_order \<Rightarrow> string option" where
  "trade_builder_order_revenge_flip_intent get_str order =
     filter_opt (\<lambda>value. value \<noteq> []) (map_option trim
       (Option.bind (o_runtime_snapshot_json order)
         (\<lambda>snapshot. get_str snapshot revenge_flip_runtime_intent_key)))"

definition trade_builder_order_is_revenge_flip_stop_loss_sell ::
    "('j \<Rightarrow> string \<Rightarrow> string option) \<Rightarrow> ('ts, 'j) trade_builder_order \<Rightarrow> bool" where
  "trade_builder_order_is_revenge_flip_stop_loss_sell get_str order \<longleftrightarrow>
     o_side order = ''sell'' \<and> o_kind order = ''immediate'' \<and>
     trade_builder_order_revenge_flip_intent get_str order = Some ''stop_loss_sell''"

definition trade_builder_should_retry_after_processing_error ::
    "('j \<Rightarrow> string \<Rightarrow> string option) \<Rightarrow> ('ts, 'j) trade_builder_order \<Rightarrow> bool" where
  "trade_builder_should_retry_after_processing_error get_str order =
    (if is_some_and trade_builder_error_is_fatal_exchange_rejection (o_last_error order) then False
     else trade_builder_should_retry_exit_sell order \<and>
       (trade_builder_stop_loss_latched order \<or>
        trade_builder_order_is_revenge_flip_stop_loss_sell get_str order \<or>
        is_some_and trade_builder_error_indicates_midpoint_not_found (o_last_error order)))"

section \<open>Execution mode, order type, exchange status\<close>

definition normalize_exchange_status :: "string \<Rightarrow> string" where
  "normalize_exchange_status status =
    (let normalized = to_lowercase status
     in if contains normalized ''partial'' then ''partially_filled''
        else if contains normalized ''match'' then ''filled''
        else if contains normalized ''fill'' then ''filled''
        else if contains normalized ''cancel'' then ''canceled''
        else if contains normalized ''reject'' then ''rejected''
        else if contains normalized ''expir'' then ''expired''
        else if contains normalized ''open'' \<or> contains normalized ''live'' \<or> contains normalized ''book''
          then ''open''
        else ''open'')"

definition min_price_distance_to_probability :: "f64 \<Rightarrow> f64" where
  "min_price_distance_to_probability min_price_distance_cent =
     fmax (min_price_distance_cent / lit 100) (lit (1 / 10000))"

definition normalize_trade_builder_execution_mode :: "string \<Rightarrow> string" where
  "normalize_trade_builder_execution_mode raw =
    (if eq_ignore_ascii_case (trim raw) ''market'' then ''market'' else ''market'')"

definition clob_order_type_for_execution_mode :: "string \<Rightarrow> string" where
  "clob_order_type_for_execution_mode mode =
    (if eq_ignore_ascii_case mode ''market'' then ''IOC'' else ''GTC'')"

definition aggressive_price_for_side :: "string \<Rightarrow> f64 \<Rightarrow> f64 \<Rightarrow> f64" where
  "aggressive_price_for_side side current_price min_price_distance_cent =
    (let distance = min_price_distance_to_probability min_price_distance_cent
     in if side = ''sell'' then clamp_probability (current_price - distance)
        else clamp_probability (current_price + distance))"

section \<open>Fees and reference prices\<close>

definition trade_builder_fee_rate_bps_or_default :: "i64 \<Rightarrow> u64" where
  "trade_builder_fee_rate_bps_or_default raw = (if 0 < raw then i64_as_u64 raw else default_fee_rate_bps)"

definition u64_as_f64 :: "u64 \<Rightarrow> f64" where
  "u64_as_f64 n = rnd (of_nat (unat n))"

definition estimate_trade_builder_buy_fee_shares :: "f64 \<Rightarrow> f64 \<Rightarrow> u64 \<Rightarrow> f64" where
  "estimate_trade_builder_buy_fee_shares execution_price gross_qty fee_rate_bps =
    (if execution_price \<le> 0 \<or> gross_qty \<le> 0 \<or> fee_rate_bps = 0 then 0
     else let fee_curve_rate = u64_as_f64 fee_rate_bps / lit 4000;
              curve_input = fclamp (execution_price * (1 - execution_price)) 0 1;
              fee_quote = gross_qty * fee_curve_rate * (curve_input * curve_input)
          in fmax (fee_quote / execution_price) 0)"

definition normalize_trade_builder_reference_price :: "f64 option \<Rightarrow> f64 option" where
  "normalize_trade_builder_reference_price value = Option.bind value (\<lambda>value.
     if \<not> is_finite value \<or> value \<le> 0 then None else Some value)"

definition normalize_trade_builder_visible_inventory_qty :: "f64 option \<Rightarrow> f64 option" where
  "normalize_trade_builder_visible_inventory_qty value = Option.bind value (\<lambda>value.
     if \<not> is_finite value \<or> value < 0 then None else Some (round_trade_builder_share_qty value))"

definition normalize_trade_builder_visible_inventory_read :: "f64 option \<Rightarrow> f64 option" where
  "normalize_trade_builder_visible_inventory_read value = (case value of
      Some raw \<Rightarrow> if is_finite raw \<and> 0 \<le> raw then Some (round_trade_builder_share_qty raw) else None
    | None \<Rightarrow> Some 0)"

section \<open>Market specification and minimum sizes\<close>

datatype share_submit_min_size_decision = MinSizeRetry | MinSizeBlock

record trade_builder_market_spec =
  ms_neg_risk :: bool
  ms_order_price_min_tick_size :: "f64 option"
  ms_order_min_size :: "f64 option"

definition normalize_trade_builder_market_spec_number :: "f64 option \<Rightarrow> f64 option" where
  "normalize_trade_builder_market_spec_number value = filter_opt (\<lambda>value. is_finite value \<and> 0 < value) value"

text \<open>\<open>rsplit_once\<close>: the part before the last separator, and the part after it.\<close>

definition rsplit_once :: "char \<Rightarrow> string \<Rightarrow> (string \<times> string) option" where
  "rsplit_once d s = (let after = rev (takeWhile (\<lambda>c. c \<noteq> d) (rev s))
     in if d \<in> set s then Some (take (length s - length after - 1) s, after) else None)"

text \<open>The loop runs at most four times; \<open>n\<close> counts the iterations left.\<close>

fun market_spec_slug_parents :: "nat \<Rightarrow> string \<Rightarrow> string list \<Rightarrow> string list" where
  "market_spec_slug_parents 0 current candidates = candidates"
| "market_spec_slug_parents (Suc n) current candidates = (case rsplit_once (CHR ''-'') current of
      None \<Rightarrow> candidates
    | Some (parent, _) \<Rightarrow>
        if length parent < 3 then candidates
        else market_spec_slug_parents n parent
          (if parent \<in> set candidates then candidates else candidates @ [parent]))"

definition trade_builder_market_spec_slug_candidates :: "string \<Rightarrow> string list" where
  "trade_builder_market_spec_slug_candidates market_slug =
    (let normalized = to_ascii_lowercase (trim market_slug)
     in if normalized = [] then [] else market_spec_slug_parents 4 normalized [normalized])"

definition trade_builder_market_min_size :: "trade_builder_market_spec option \<Rightarrow> f64 option" where
  "trade_builder_market_min_size spec =
     Option.bind spec (\<lambda>spec. normalize_trade_builder_market_spec_number (ms_order_min_size spec))"

definition trade_builder_share_submit_min_size_decision ::
    "f64 option \<Rightarrow> f64 \<Rightarrow> f64 option \<Rightarrow> share_submit_min_size_decision option" where
  "trade_builder_share_submit_min_size_decision requested_qty submit_qty order_min_size =
     Option.bind (normalize_trade_builder_market_spec_number order_min_size) (\<lambda>order_min_size.
       if \<not> is_finite submit_qty \<or> submit_qty \<le> 0 \<or> order_min_size \<le> submit_qty then None
       else let requested_qty = unwrap_or 0 (Option.bind requested_qty
                  (\<lambda>qty. normalize_trade_builder_visible_inventory_qty (Some qty)))
            in Some (if order_min_size \<le> requested_qty then MinSizeRetry else MinSizeBlock))"

definition trade_builder_should_allow_latched_stop_loss_below_market_min ::
    "('ts, 'j) trade_builder_order \<Rightarrow> bool" where
  "trade_builder_should_allow_latched_stop_loss_below_market_min order \<longleftrightarrow>
     trade_builder_is_child_exit_sell order \<and> trade_builder_stop_loss_latched order"

definition trade_builder_should_allow_stop_loss_below_market_min ::
    "('j \<Rightarrow> string \<Rightarrow> string option) \<Rightarrow> ('ts, 'j) trade_builder_order \<Rightarrow> bool" where
  "trade_builder_should_allow_stop_loss_below_market_min get_str order \<longleftrightarrow>
     trade_builder_should_allow_latched_stop_loss_below_market_min order \<or>
     trade_builder_order_is_revenge_flip_stop_loss_sell get_str order"

section \<open>Facts the components share\<close>

lemma size_basis_cases: "normalize_trade_builder_size_basis raw \<in> {size_basis_shares, size_basis_notional_usdc}"
  by (simp add: normalize_trade_builder_size_basis_def)

lemma size_basis_differ [simp]: "size_basis_notional_usdc \<noteq> size_basis_shares" "size_basis_shares \<noteq> size_basis_notional_usdc"
  by (simp_all add: size_basis_notional_usdc_def size_basis_shares_def)

lemma stop_loss_child_exit: "trade_builder_is_stop_loss_child order \<Longrightarrow> trade_builder_is_child_exit_sell order"
  by (simp add: trade_builder_is_stop_loss_child_def trade_builder_is_child_exit_sell_def)

lemma child_exit_not_entry: "trade_builder_is_child_exit_sell order \<Longrightarrow> \<not> trade_builder_is_fast_entry_buy order"
  by (simp add: trade_builder_is_child_exit_sell_def trade_builder_is_fast_entry_buy_def)

lemma exit_children_exclusive:
  "\<not> (trade_builder_is_take_profit_child order \<and> trade_builder_is_stop_loss_child order)"
  by (auto simp: trade_builder_is_take_profit_child_def trade_builder_is_stop_loss_child_def)

lemma reference_price_Some: "normalize_trade_builder_reference_price v = Some p \<longleftrightarrow>
    v = Some p \<and> is_finite p \<and> \<not> p \<le> 0"
  by (cases v) (auto simp: normalize_trade_builder_reference_price_def)

lemma add_not_nan: "is_finite p \<Longrightarrow> y \<noteq> NaN \<Longrightarrow> p + y \<noteq> NaN \<and> p - y \<noteq> NaN"
  by (cases p; cases y) (auto simp: f64_diff plus_f64_def f64_add_def uminus_f64_def)

lemma min_distance_not_nan: "min_price_distance_to_probability d \<noteq> NaN"
  unfolding min_price_distance_to_probability_def by (rule fmax_not_nan(1)) (simp add: lit_def)

lemma aggressive_price_bounds:
  assumes "is_finite p"
  shows "lit (1 / 100) \<le> aggressive_price_for_side side p d \<and> aggressive_price_for_side side p d \<le> lit (99 / 100)"
proof -
  let ?d = "min_price_distance_to_probability d"
  have "p + ?d \<noteq> NaN" "p - ?d \<noteq> NaN" using add_not_nan [OF assms min_distance_not_nan] by blast+
  note b = this [THEN clamp_probability_bounds]
  show ?thesis unfolding aggressive_price_for_side_def Let_def
    using b by presburger
qed

text \<open>A child take profit of ten shares, for concrete evaluations.\<close>

definition sample_order :: "(nat, nat) trade_builder_order" where
  "sample_order = \<lparr>
    o_id = 7, o_trade_id = 1, o_user_id = 1, o_kind = ''conditional'', o_status = ''open'',
    o_market_slug = '''', o_token_id = '''', o_outcome_label = '''', o_side = ''sell'',
    o_execution_mode = ''market'', o_trigger_condition = Some ''cross_above'',
    o_trigger_price = Some (lit (3 / 5)), o_max_price = None, o_size_basis = ''shares'',
    o_size_usdc = Fin 5, o_target_qty = Some (Fin 10), o_min_price_distance_cent = 0,
    o_expires_at = None, o_eligible_after_at = None, o_eligible_before_at = None, o_max_triggers = 1,
    o_triggers_fired = 0, o_active_exchange_order_id = None, o_remaining_size = None,
    o_remaining_qty = None, o_working_price = None, o_last_seen_price = None, o_last_error = None,
    o_created_at = 0, o_updated_at = 0, o_parent_order_id = Some 3,
    o_origin_flow_definition_id = None, o_origin_flow_run_id = None, o_origin_flow_node_key = None,
    o_pair_session_id = None, o_pair_leg_role = None, o_tp_enabled = False, o_tp_price = None,
    o_tp_rules_json = [], o_sl_enabled = False, o_sl_price = None, o_sl_rules_json = [],
    o_time_exit_rules_json = [], o_filled_qty = 0, o_fee_rate_bps = 0, o_trigger_latched = False,
    o_trigger_latched_reason = None, o_trigger_latched_at = None, o_submitted_dynamic_qty = None,
    o_submitted_dynamic_price = None, o_runtime_snapshot_json = None,
    o_fresh_submit_lease_until = None, o_guard_trigger_price = None, o_best_ask_floor_price = None,
    o_retry_on_trigger_guard_block = False, o_retry_on_execution_floor_guard_block = False,
    o_retry_on_max_price_block = False, o_ptb_stop_loss_gap_usd = None, o_ptb_reference_price = None,
    o_ptb_stop_loss_rules_json = [], o_ptb_stop_loss_time_decay_mode = None,
    o_ptb_current_price_source = '''', o_staged_sl_retry_only_dust = False,
    o_staged_sl_retry_dust_metric = None, o_staged_sl_retry_dust_value = None,
    o_staged_sl_reentry_use_sold_notional = False, o_staged_sl_reentry_only_after_all_stages = False,
    o_sl_trigger_price_mode = None, o_reenter_on_sl_hit = False, o_reentry_max_attempts = 0,
    o_reentry_trigger_node_key = None, o_notify_on_order_submitted = False, o_notify_on_fill = False,
    o_notify_on_order_not_filled = False, o_notify_on_trigger_guard_blocked = False,
    o_notify_on_execution_floor_blocked = False, o_notify_on_tp_hit = False,
    o_notify_on_sl_hit = False, o_notify_on_max_price_blocked = False,
    o_last_guard_notification_reason = None, o_exit_ladder_kind = None, o_exit_ladder_index = None,
    o_exit_ladder_size_pct = None\<rparr>"

end
