(* ===== verification/Exit_Math.thy ===== *)
theory Exit_Math
  imports Orders
begin

text \<open>
  The exit arithmetic of the trade builder, \<open>trade_builder/exit_math.rs\<close>: how many shares an exit
  sells when the inventory is only partly visible, how it retries with smaller quantities,
  which price it submits, which price triggers it, and which quantity a terminal fill
  reports. Definitions follow the file from top to bottom; the functions compiled only for
  its tests are left out.
\<close>

section \<open>Submit stages\<close>

datatype exit_submit_stage = DynamicGross | EstimatedVisible | VisibleInventory

fun stage_as_str :: "exit_submit_stage \<Rightarrow> string" where
  "stage_as_str DynamicGross = ''dynamic_gross''"
| "stage_as_str EstimatedVisible = ''estimated_visible''"
| "stage_as_str VisibleInventory = ''visible_inventory''"

definition trade_builder_exit_submit_stage_from_last_error :: "string option \<Rightarrow> exit_submit_stage option" where
  "trade_builder_exit_submit_stage_from_last_error last_error = Option.bind last_error (\<lambda>error_text.
     if contains error_text ''[exit_submit_stage=visible_inventory]'' then Some VisibleInventory
     else if contains error_text ''[exit_submit_stage=estimated_visible]'' then Some EstimatedVisible
     else if contains error_text ''[exit_submit_stage=dynamic_gross]'' then Some DynamicGross
     else None)"

definition trade_builder_retry_error_text :: "string \<Rightarrow> exit_submit_stage option \<Rightarrow> string" where
  "trade_builder_retry_error_text error_text next_stage =
    (let trimmed = trim error_text
     in case next_stage of
          Some stage \<Rightarrow> trimmed @ '' '' @ exit_stage_marker_prefix @ stage_as_str stage @ '']''
        | None \<Rightarrow> trimmed)"

definition trade_builder_current_exit_submit_stage :: "('ts, 'j) trade_builder_order \<Rightarrow> exit_submit_stage" where
  "trade_builder_current_exit_submit_stage order =
    (if \<not> trade_builder_should_use_optimistic_exit_submit order then DynamicGross
     else unwrap_or DynamicGross (trade_builder_exit_submit_stage_from_last_error (o_last_error order)))"

definition trade_builder_next_optimistic_exit_stage_after_balance_reject ::
    "exit_submit_stage \<Rightarrow> exit_submit_stage" where
  "trade_builder_next_optimistic_exit_stage_after_balance_reject current_attempt_stage = VisibleInventory"

section \<open>Quantities of an exit\<close>

record local_inventory_fallback =
  lf_submit_qty :: f64
  lf_estimated_fee_qty :: f64
  lf_execution_price :: f64
  lf_fee_rate_bps :: u64

definition trade_builder_exit_qty_buffer :: "f64 \<Rightarrow> f64" where
  "trade_builder_exit_qty_buffer gross_qty =
     fmax (gross_qty * local_exit_qty_buffer_rate) local_exit_qty_buffer"

definition trade_builder_estimated_visible_exit_qty ::
    "('ts, 'j) trade_builder_order \<Rightarrow> f64 \<Rightarrow> local_inventory_fallback option" where
  "trade_builder_estimated_visible_exit_qty order requested_qty =
    (if \<not> trade_builder_is_child_exit_sell order \<or>
        normalize_trade_builder_size_basis (o_size_basis order) \<noteq> size_basis_shares then None
     else Option.bind (filter_opt (\<lambda>qty. 0 < qty) (o_target_qty order)) (\<lambda>gross_qty.
       let execution_price = fclamp (o_size_usdc order / gross_qty) 0 1
       in if execution_price \<le> 0 then None
          else let fee_rate_bps = trade_builder_fee_rate_bps_or_default (o_fee_rate_bps order);
                   estimated_fee_qty =
                     estimate_trade_builder_buy_fee_shares execution_price gross_qty fee_rate_bps;
                   estimated_visible_qty = round_trade_builder_share_qty
                     (fmax (gross_qty - estimated_fee_qty - trade_builder_exit_qty_buffer gross_qty) 0);
                   submit_qty = round_trade_builder_share_qty (fmin estimated_visible_qty requested_qty)
               in then_some (0 < submit_qty)
                    \<lparr>lf_submit_qty = submit_qty, lf_estimated_fee_qty = estimated_fee_qty,
                     lf_execution_price = execution_price, lf_fee_rate_bps = fee_rate_bps\<rparr>))"

definition trade_builder_local_inventory_fallback ::
    "('ts, 'j) trade_builder_order \<Rightarrow> f64 \<Rightarrow> local_inventory_fallback option" where
  "trade_builder_local_inventory_fallback order requested_qty =
    (if \<not> trade_builder_stop_loss_latched order then None
     else trade_builder_estimated_visible_exit_qty order requested_qty)"

definition clamp_trade_builder_visible_share_qty :: "f64 \<Rightarrow> f64 option \<Rightarrow> f64 option" where
  "clamp_trade_builder_visible_share_qty requested_qty available_qty =
    (let effective_qty = (case available_qty of Some quantity \<Rightarrow> fmin requested_qty quantity
                          | None \<Rightarrow> requested_qty);
         clamped = floor_trade_builder_share_qty effective_qty
     in then_some (0 < clamped) clamped)"

record exit_inventory_resolution =
  er_submit_qty :: f64
  er_submit_partial_visible_inventory :: bool
  er_visible_qty :: "f64 option"
  er_local_fallback_qty :: "f64 option"
  er_local_fallback_fee_qty :: "f64 option"
  er_local_fallback_entry_price :: "f64 option"
  er_local_fallback_fee_rate_bps :: "u64 option"

definition resolve_trade_builder_exit_inventory ::
    "('ts, 'j) trade_builder_order \<Rightarrow> f64 \<Rightarrow> f64 option \<Rightarrow> exit_inventory_resolution option" where
  "resolve_trade_builder_exit_inventory order requested_qty visible_qty =
    (let clamped_visible_qty = clamp_trade_builder_visible_share_qty requested_qty visible_qty;
         local_fallback = trade_builder_local_inventory_fallback order requested_qty
     in Option.bind (or_opt clamped_visible_qty (map_option lf_submit_qty local_fallback)) (\<lambda>submit_qty.
       Some \<lparr>er_submit_qty = submit_qty,
         er_submit_partial_visible_inventory = (submit_qty + exit_qty_tolerance < requested_qty),
         er_visible_qty = visible_qty,
         er_local_fallback_qty = map_option lf_submit_qty local_fallback,
         er_local_fallback_fee_qty = map_option lf_estimated_fee_qty local_fallback,
         er_local_fallback_entry_price = map_option lf_execution_price local_fallback,
         er_local_fallback_fee_rate_bps = map_option lf_fee_rate_bps local_fallback\<rparr>))"

definition trade_builder_retry_qty_is_lower :: "f64 \<Rightarrow> f64 \<Rightarrow> bool" where
  "trade_builder_retry_qty_is_lower previous_qty next_qty \<longleftrightarrow>
     0 < next_qty \<and> next_qty < previous_qty \<and>
     exit_retry_min_decrement \<le> round_trade_builder_share_qty (previous_qty - next_qty)"

definition trade_builder_forced_retry_tick_qty :: "f64 \<Rightarrow> f64 option" where
  "trade_builder_forced_retry_tick_qty requested_qty =
    (let shaved = floor_trade_builder_share_qty (fmax (requested_qty - exit_retry_min_decrement) 0)
     in then_some (trade_builder_retry_qty_is_lower requested_qty shaved) shaved)"

definition trade_builder_next_retry_share_qty :: "f64 \<Rightarrow> f64 option" where
  "trade_builder_next_retry_share_qty requested_qty = trade_builder_forced_retry_tick_qty requested_qty"

record visible_inventory_submit_resolution =
  vi_submit_qty :: f64
  vi_submit_partial_visible_inventory :: bool

definition resolve_trade_builder_visible_inventory_submit ::
    "f64 \<Rightarrow> f64 option \<Rightarrow> visible_inventory_submit_resolution option" where
  "resolve_trade_builder_visible_inventory_submit requested_qty available_qty =
     Option.bind (clamp_trade_builder_visible_share_qty requested_qty available_qty) (\<lambda>submit_qty.
       Some \<lparr>vi_submit_qty = submit_qty,
         vi_submit_partial_visible_inventory = (submit_qty + exit_qty_tolerance < requested_qty)\<rparr>)"

section \<open>Share targets and sizes\<close>

definition trade_builder_share_target_qty :: "('ts, 'j) trade_builder_order \<Rightarrow> f64 option" where
  "trade_builder_share_target_qty order =
    (if normalize_trade_builder_size_basis (o_size_basis order) \<noteq> size_basis_shares then None
     else map_option round_trade_builder_share_qty (o_target_qty order))"

definition trade_builder_share_remaining_qty :: "('ts, 'j) trade_builder_order \<Rightarrow> f64 option" where
  "trade_builder_share_remaining_qty order =
    (if normalize_trade_builder_size_basis (o_size_basis order) \<noteq> size_basis_shares then None
     else map_option round_trade_builder_share_qty (or_opt (o_remaining_qty order) (o_target_qty order)))"

definition trade_builder_scaled_size_usdc :: "('ts, 'j) trade_builder_order \<Rightarrow> f64 \<Rightarrow> f64" where
  "trade_builder_scaled_size_usdc order next_qty =
    (let next_qty = fmax (round_trade_builder_share_qty next_qty) 0;
         current_target_qty = unwrap_or 0 (trade_builder_share_target_qty order)
     in if 0 < current_target_qty \<and> 0 < o_size_usdc order
        then fmax ((o_size_usdc order / current_target_qty) * next_qty) 0
        else let fallback_price = unwrap_or 0 (or_opt (or_opt (o_working_price order)
                   (o_submitted_dynamic_price order)) (o_trigger_price order))
             in fmax (next_qty * fallback_price) 0)"

definition trade_builder_share_request_qty :: "('ts, 'j) trade_builder_order \<Rightarrow> f64 option" where
  "trade_builder_share_request_qty order =
     Option.bind (or_opt (o_remaining_qty order) (o_target_qty order)) (\<lambda>qty.
       let rounded = round_trade_builder_share_qty qty in then_some (0 < rounded) rounded)"

definition estimate_remaining_trade_builder_sizing ::
    "('ts, 'j) trade_builder_order \<Rightarrow> order_info \<Rightarrow> f64 \<Rightarrow> f64 option \<times> f64 option" where
  "estimate_remaining_trade_builder_sizing order order_info fallback_price =
    (let size_basis = normalize_trade_builder_size_basis (o_size_basis order)
     in case (oi_size order_info, oi_filled_size order_info) of
          (Some order_size, Some filled_size) \<Rightarrow>
            let remaining_qty = round_trade_builder_share_qty (fmax (order_size - filled_size) 0);
                price = unwrap_or fallback_price (or_opt (oi_price order_info) (o_working_price order));
                remaining_usdc = fmax (remaining_qty * price) 0
            in (Some remaining_usdc, if size_basis = size_basis_shares then Some remaining_qty else None)
        | _ \<Rightarrow>
            if size_basis = size_basis_shares
            then let remaining_qty = trade_builder_share_request_qty order;
                     remaining_usdc = map_option (\<lambda>qty. qty * fallback_price) remaining_qty
                 in (remaining_usdc, remaining_qty)
            else (Some (fmax (unwrap_or (o_size_usdc order) (o_remaining_size order)) 0), None))"

section \<open>Prices submitted\<close>

definition trade_builder_exit_sell_price_floor :: "('ts, 'j) trade_builder_order \<Rightarrow> f64 option" where
  "trade_builder_exit_sell_price_floor order =
    (if \<not> trade_builder_is_child_exit_sell order then None
     else if o_trigger_condition order = Some ''cross_below'' then None
     else Option.bind (o_trigger_price order) (\<lambda>trigger_price.
       let floored = fround (fmax (trigger_price - exit_trigger_buffer) 0 * lit 100) / lit 100
       in Some (clamp_probability floored)))"

definition trade_builder_cap_exit_sell_price :: "('ts, 'j) trade_builder_order \<Rightarrow> f64 \<Rightarrow> f64" where
  "trade_builder_cap_exit_sell_price order desired_price =
    (if o_side order \<noteq> ''sell'' then desired_price
     else unwrap_or desired_price
       (map_option (\<lambda>floor. fmax desired_price floor) (trade_builder_exit_sell_price_floor order)))"

definition trade_builder_is_market_buy :: "('ts, 'j) trade_builder_order \<Rightarrow> bool" where
  "trade_builder_is_market_buy order \<longleftrightarrow>
     o_side order = ''buy'' \<and> normalize_trade_builder_execution_mode (o_execution_mode order) = ''market''"

definition trade_builder_is_immediate_notional_buy :: "('ts, 'j) trade_builder_order \<Rightarrow> bool" where
  "trade_builder_is_immediate_notional_buy order \<longleftrightarrow>
     trade_builder_is_market_buy order \<and> o_kind order = ''immediate'' \<and>
     normalize_trade_builder_size_basis (o_size_basis order) = size_basis_notional_usdc"

definition trade_builder_market_buy_anchor_price :: "('ts, 'j) trade_builder_order \<Rightarrow> f64 option" where
  "trade_builder_market_buy_anchor_price order =
    (if \<not> trade_builder_is_market_buy order then None
     else map_option clamp_probability (normalize_trade_builder_reference_price (o_trigger_price order)))"

record market_buy_execution_price =
  mb_price :: f64
  mb_source :: string
  mb_trigger_reference_price :: "f64 option"

definition clamped_reference_or_price :: "f64 \<Rightarrow> f64" where
  "clamped_reference_or_price current_price = unwrap_or (clamp_probability current_price)
     (map_option clamp_probability (normalize_trade_builder_reference_price (Some current_price)))"

definition clamped_best_ask :: "f64 option \<Rightarrow> f64 option" where
  "clamped_best_ask best_ask = map_option clamp_probability
     (Option.bind best_ask (\<lambda>value. normalize_trade_builder_reference_price (Some value)))"

definition trade_builder_market_buy_execution_price ::
    "('ts, 'j) trade_builder_order \<Rightarrow> f64 \<Rightarrow> f64 option \<Rightarrow> market_buy_execution_price option" where
  "trade_builder_market_buy_execution_price order current_price best_ask =
    (if \<not> trade_builder_is_market_buy order then None
     else let trigger_reference_price = trade_builder_market_buy_anchor_price order
          in case clamped_best_ask best_ask of
               Some best_ask \<Rightarrow> Some \<lparr>mb_price = best_ask, mb_source = ''best_ask'',
                 mb_trigger_reference_price = trigger_reference_price\<rparr>
             | None \<Rightarrow>
                 if \<not> trade_builder_is_immediate_notional_buy order then None
                 else Some \<lparr>mb_price = clamped_reference_or_price current_price,
                   mb_source = ''current_price_fallback'',
                   mb_trigger_reference_price = trigger_reference_price\<rparr>)"

definition marketable_buy_min_notional_usdc :: f64 where "marketable_buy_min_notional_usdc = 1"
definition marketable_buy_min_notional_cap_tolerance_usdc :: f64 where
  "marketable_buy_min_notional_cap_tolerance_usdc = lit (1 / 100)"

record min_notional_top_up =
  tu_original_qty :: f64
  tu_adjusted_qty :: f64
  tu_original_notional_usdc :: f64
  tu_adjusted_notional_usdc :: f64
  tu_min_notional_usdc :: f64
  tu_cap_usdc :: f64
  tu_cap_tolerance_usdc :: f64
  tu_blocked_by_cap :: bool

definition trade_builder_marketable_buy_min_notional_top_up ::
    "string \<Rightarrow> string \<Rightarrow> string \<Rightarrow> f64 \<Rightarrow> f64 \<Rightarrow> f64 \<Rightarrow> min_notional_top_up option" where
  "trade_builder_marketable_buy_min_notional_top_up side order_type size_basis desired_price submit_qty cap_usdc =
    (if side \<noteq> ''buy'' \<or> size_basis \<noteq> size_basis_shares \<or> order_type \<notin> {''FAK'', ''FOK''} \<or>
        \<not> is_finite desired_price \<or> desired_price \<le> 0 \<or> \<not> is_finite submit_qty \<or> submit_qty \<le> 0
     then None
     else let original_notional_usdc = submit_qty * desired_price
          in if marketable_buy_min_notional_usdc \<le> original_notional_usdc + lit (1 / 1000000) then None
             else let adjusted_qty = round_trade_builder_share_qty
                        (fceil ((marketable_buy_min_notional_usdc / desired_price) * lit 100) / lit 100);
                      adjusted_notional_usdc = adjusted_qty * desired_price
                  in Some \<lparr>tu_original_qty = submit_qty, tu_adjusted_qty = adjusted_qty,
                       tu_original_notional_usdc = original_notional_usdc,
                       tu_adjusted_notional_usdc = adjusted_notional_usdc,
                       tu_min_notional_usdc = marketable_buy_min_notional_usdc, tu_cap_usdc = cap_usdc,
                       tu_cap_tolerance_usdc = marketable_buy_min_notional_cap_tolerance_usdc,
                       tu_blocked_by_cap =
                         (cap_usdc + marketable_buy_min_notional_cap_tolerance_usdc < adjusted_notional_usdc)\<rparr>)"

definition trade_builder_submit_desired_price :: "('ts, 'j) trade_builder_order \<Rightarrow> f64 \<Rightarrow> f64" where
  "trade_builder_submit_desired_price order current_price =
    (let uncapped_desired_price =
       aggressive_price_for_side (o_side order) current_price (o_min_price_distance_cent order)
     in trade_builder_cap_exit_sell_price order uncapped_desired_price)"

definition trade_builder_clamp_buy_limit_price :: "('ts, 'j) trade_builder_order \<Rightarrow> f64 \<Rightarrow> f64" where
  "trade_builder_clamp_buy_limit_price order desired_price =
    (if o_side order = ''buy''
     then unwrap_or desired_price (map_option (\<lambda>max_price. fmin desired_price max_price)
       (filter_opt (\<lambda>max_price. is_finite max_price \<and> 0 < max_price \<and> max_price \<le> 1) (o_max_price order)))
     else desired_price)"

section \<open>Price guards\<close>

definition trade_builder_price_exceeds_max_price :: "('ts, 'j) trade_builder_order \<Rightarrow> f64 \<Rightarrow> bool" where
  "trade_builder_price_exceeds_max_price order desired_price =
     unwrap_or False (map_option (\<lambda>max_price. is_finite desired_price \<and> max_price < desired_price)
       (o_max_price order))"

definition valid_ask :: "f64 option \<Rightarrow> f64 option" where
  "valid_ask best_ask = filter_opt (\<lambda>value. is_finite value \<and> 0 < value \<and> value \<le> 1) best_ask"

definition trade_builder_resolve_max_price_reference ::
    "('ts, 'j) trade_builder_order \<Rightarrow> f64 option \<Rightarrow> f64 \<Rightarrow> f64 \<times> string" where
  "trade_builder_resolve_max_price_reference order best_ask desired_price =
    (if o_side order \<noteq> ''buy'' then (desired_price, ''desired_price'')
     else case valid_ask best_ask of
            Some best_ask \<Rightarrow> (best_ask, ''best_ask'')
          | None \<Rightarrow> (desired_price, ''desired_price_fallback''))"

definition trade_builder_resolve_trigger_guard_reference_price ::
    "('ts, 'j) trade_builder_order \<Rightarrow> f64 \<Rightarrow> f64 option \<Rightarrow> f64 \<times> string" where
  "trade_builder_resolve_trigger_guard_reference_price order current_price best_ask =
    (if o_side order \<noteq> ''buy'' then (current_price, ''current_price'')
     else case clamped_best_ask best_ask of
            Some best_ask \<Rightarrow> (best_ask, ''best_ask'')
          | None \<Rightarrow> (clamped_reference_or_price current_price, ''current_price_fallback''))"

definition trade_builder_price_below_guard_trigger :: "('ts, 'j) trade_builder_order \<Rightarrow> f64 \<Rightarrow> bool" where
  "trade_builder_price_below_guard_trigger order reference_price =
    (if o_side order \<noteq> ''buy'' then False
     else unwrap_or False (map_option (\<lambda>guard. is_finite reference_price \<and> reference_price < guard)
       (o_guard_trigger_price order)))"

definition trade_builder_execution_floor_block_reason ::
    "('ts, 'j) trade_builder_order \<Rightarrow> f64 option \<Rightarrow> string option" where
  "trade_builder_execution_floor_block_reason order best_ask =
    (if o_side order \<noteq> ''buy'' then None
     else Option.bind (o_best_ask_floor_price order) (\<lambda>floor_price.
       Option.bind (valid_ask best_ask) (\<lambda>best_ask.
         if best_ask < floor_price then Some ''below_best_ask_floor'' else None)))"

definition trade_builder_execution_floor_should_wait :: "('ts, 'j) trade_builder_order \<Rightarrow> string \<Rightarrow> bool" where
  "trade_builder_execution_floor_should_wait order reason_code \<longleftrightarrow>
     reason_code = ''best_ask_unavailable'' \<or> o_retry_on_execution_floor_guard_block order"

section \<open>Runtime prices\<close>

record trade_builder_runtime_price =
  rp_price :: f64
  rp_source :: string
  rp_runtime_warning :: "string option"
  rp_best_bid :: "f64 option"
  rp_best_ask :: "f64 option"
  rp_last_trade_price :: "f64 option"

definition build_trade_builder_fast_runtime_price :: "string \<Rightarrow> string option \<Rightarrow> f64 option \<Rightarrow> f64 option \<Rightarrow>
    f64 option \<Rightarrow> trade_builder_runtime_price option" where
  "build_trade_builder_fast_runtime_price source runtime_warning best_bid best_ask last_trade_price =
    (let best_bid = map_option clamp_probability best_bid;
         best_ask = map_option clamp_probability best_ask;
         last_trade_price = map_option clamp_probability last_trade_price
     in Option.bind (or_opt best_bid last_trade_price) (\<lambda>price.
       Some \<lparr>rp_price = price, rp_source = source, rp_runtime_warning = runtime_warning,
         rp_best_bid = best_bid, rp_best_ask = best_ask, rp_last_trade_price = last_trade_price\<rparr>))"

definition sl_composite_divergence_keep_ratio :: f64 where
  "sl_composite_divergence_keep_ratio = lit (70 / 100)"

definition fast_trigger_eval_price :: "trade_builder_runtime_price \<Rightarrow> string option \<Rightarrow> f64" where
  "fast_trigger_eval_price runtime_price trigger_condition =
    (case (rp_best_bid runtime_price, rp_last_trade_price runtime_price) of
       (Some best_bid, Some last_trade_price) \<Rightarrow>
         if trigger_condition = Some ''cross_above''
         then clamp_probability (fmax best_bid last_trade_price)
         else if trigger_condition = Some ''cross_below''
         then let filtered = (if 0 < best_bid \<and>
                     last_trade_price < best_bid * sl_composite_divergence_keep_ratio
                    then best_bid else fmin best_bid last_trade_price)
              in clamp_probability filtered
         else rp_price runtime_price
     | (Some best_bid, None) \<Rightarrow> clamp_probability best_bid
     | (None, Some last_trade_price) \<Rightarrow> clamp_probability last_trade_price
     | (None, None) \<Rightarrow> rp_price runtime_price)"

definition sl_trigger_eval_price_for_mode :: "string \<Rightarrow> trade_builder_runtime_price \<Rightarrow> f64 option" where
  "sl_trigger_eval_price_for_mode mode runtime_price =
    (if mode = ''best_bid'' then map_option clamp_probability (rp_best_bid runtime_price)
     else if mode = ''last_trade'' then map_option clamp_probability (rp_last_trade_price runtime_price)
     else if mode = ''composite_fast'' then Some
       (case (rp_best_bid runtime_price, rp_last_trade_price runtime_price) of
          (Some best_bid, Some last_trade_price) \<Rightarrow> clamp_probability (fmin best_bid last_trade_price)
        | (Some best_bid, None) \<Rightarrow> clamp_probability best_bid
        | (None, Some last_trade_price) \<Rightarrow> clamp_probability last_trade_price
        | (None, None) \<Rightarrow> rp_price runtime_price)
     else Some (fast_trigger_eval_price runtime_price (Some ''cross_below'')))"

definition fast_execution_price_for_sell :: "trade_builder_runtime_price \<Rightarrow> f64" where
  "fast_execution_price_for_sell runtime_price = unwrap_or (rp_price runtime_price)
     (map_option clamp_probability (or_opt (or_opt (rp_best_bid runtime_price)
        (rp_last_trade_price runtime_price)) (Some (rp_price runtime_price))))"

definition fast_execution_price_for_buy :: "trade_builder_runtime_price \<Rightarrow> f64" where
  "fast_execution_price_for_buy runtime_price = unwrap_or (rp_price runtime_price)
     (map_option clamp_probability (or_opt (or_opt (or_opt (rp_best_ask runtime_price)
        (rp_last_trade_price runtime_price)) (rp_best_bid runtime_price)) (Some (rp_price runtime_price))))"

definition trade_builder_trigger_eval_price_for_order ::
    "('ts, 'j) trade_builder_order \<Rightarrow> trade_builder_runtime_price \<Rightarrow> f64" where
  "trade_builder_trigger_eval_price_for_order order runtime_price =
    (if \<not> trade_builder_uses_fast_runtime_pricing order then rp_price runtime_price
     else case (if trade_builder_is_stop_loss_child order then o_sl_trigger_price_mode order else None) of
         Some mode \<Rightarrow> unwrap_or (rp_price runtime_price) (sl_trigger_eval_price_for_mode mode runtime_price)
       | None \<Rightarrow> fast_trigger_eval_price runtime_price (o_trigger_condition order))"

definition trade_builder_execution_price_for_order ::
    "('ts, 'j) trade_builder_order \<Rightarrow> trade_builder_runtime_price \<Rightarrow> f64" where
  "trade_builder_execution_price_for_order order runtime_price =
    (if \<not> trade_builder_uses_fast_runtime_pricing order then rp_price runtime_price
     else if o_side order = ''sell'' then fast_execution_price_for_sell runtime_price
     else fast_execution_price_for_buy runtime_price)"

definition trade_builder_last_seen_price_for_order ::
    "('ts, 'j) trade_builder_order \<Rightarrow> f64 \<Rightarrow> f64 \<Rightarrow> f64" where
  "trade_builder_last_seen_price_for_order order trigger_eval_price execution_price =
    (if trade_builder_is_child_exit_sell order then execution_price
     else if trade_builder_is_fast_entry_buy order then trigger_eval_price
     else execution_price)"

definition trade_builder_inventory_pending_tp_trigger_price ::
    "('ts, 'j) trade_builder_order \<Rightarrow> f64 option" where
  "trade_builder_inventory_pending_tp_trigger_price order =
     Option.bind (o_trigger_price order) (\<lambda>trigger_price.
       if o_status order = ''inventory_pending'' \<and> o_side order = ''sell'' \<and>
          o_parent_order_id order \<noteq> None \<and> o_trigger_condition order = Some ''cross_above''
       then let adjusted = fround (fmax (trigger_price - exit_tp_slack) 0 * lit 100) / lit 100
            in Some (clamp_probability adjusted)
       else Some trigger_price)"

section \<open>The quantity of a terminal fill\<close>

record terminal_fill_qty_candidates =
  tf_order_info_filled_size :: "f64 option"
  tf_synced_db_fill_qty :: "f64 option"
  tf_order_info_size :: "f64 option"
  tf_stored_order_size :: "f64 option"

datatype terminal_fill_qty_source = OrderInfoFilledSize | OrderInfoSize | StoredOrderSize

fun fill_source_as_str :: "terminal_fill_qty_source \<Rightarrow> string" where
  "fill_source_as_str OrderInfoFilledSize = ''order_info_filled_size''"
| "fill_source_as_str OrderInfoSize = ''order_info_size''"
| "fill_source_as_str StoredOrderSize = ''stored_order_size''"

record resolved_terminal_fill_qty =
  rt_qty :: f64
  rt_source :: terminal_fill_qty_source
  rt_candidates :: terminal_fill_qty_candidates

definition normalize_trade_builder_terminal_fill_qty_candidate :: "f64 option \<Rightarrow> f64 option" where
  "normalize_trade_builder_terminal_fill_qty_candidate value = Option.bind value (\<lambda>value.
     if \<not> is_finite value \<or> value \<le> 0 then None
     else let rounded = round_trade_builder_share_qty value
          in then_some (is_finite rounded \<and> 0 < rounded) rounded)"

text \<open>\<open>find_map\<close>: the first result that is not None.\<close>

fun find_map :: "('a \<Rightarrow> 'b option) \<Rightarrow> 'a list \<Rightarrow> 'b option" where
  "find_map f [] = None"
| "find_map f (x # xs) = or_opt (f x) (find_map f xs)"

definition select_trade_builder_terminal_fill_qty ::
    "terminal_fill_qty_candidates \<Rightarrow> resolved_terminal_fill_qty option" where
  "select_trade_builder_terminal_fill_qty candidates =
     Option.bind (find_map (\<lambda>(source, value).
         map_option (\<lambda>qty. (source, qty)) (normalize_trade_builder_terminal_fill_qty_candidate value))
       [(OrderInfoFilledSize, tf_order_info_filled_size candidates),
        (OrderInfoSize, tf_order_info_size candidates),
        (StoredOrderSize, tf_stored_order_size candidates)])
     (\<lambda>selected. Some \<lparr>rt_qty = snd selected, rt_source = fst selected, rt_candidates = candidates\<rparr>)"

section \<open>Quantities on the grid\<close>

lemma min_decrement_cents: "exit_retry_min_decrement = cents 1"
  unfolding exit_retry_min_decrement_def using lit_cents [of 1] by (simp add: max_cents_def)

lemma floor_one: "floor_trade_builder_share_qty (cents 1) = cents 1"
  by (simp add: floor_trade_builder_share_qty_def cents_def f64_eval)

lemma floor_cents_pos:
  assumes "0 \<le> k" "k \<le> max_cents"
  shows "\<exists>j. floor_trade_builder_share_qty (cents k) = cents j \<and> 0 \<le> j \<and> j \<le> k \<and> k - 1 \<le> j \<and> (0 < k \<longrightarrow> 0 < j)"
proof (cases "k = 1")
  case True
  then show ?thesis using floor_one by auto
next
  case False
  with floor_cents [of k] assms show ?thesis by fastforce
qed

text \<open>A quantity on the grid is short of another by more than the tolerance exactly when at least
  two cents are missing.\<close>

lemma tolerance_cents:
  assumes "0 \<le> j" "j \<le> max_cents" "0 \<le> k" "k \<le> max_cents"
  shows "cents j + exit_qty_tolerance < cents k \<longleftrightarrow> j + 2 \<le> k"
proof -
  let ?t = "rr (11 / 1000)" and ?x = "rr (of_int j / 100)" and ?y = "rr (of_int k / 100)"
  have t: "?t \<le> 11 / 1000 + 1 / 100000" "11 / 1000 - 1 / 100000 \<le> ?t" "0 \<le> ?t"
    using rr_close [of "11 / 1000"] by simp_all
  have jb: "j \<le> 2 * max_cents" and kb: "k \<le> 2 * max_cents" using assms by auto
  note nj = cents_near [OF assms(1) jb] and nk = cents_near [OF assms(3) kb]
  have v: "0 \<le> ?x + ?t" "?x + ?t \<le> 40000000000" using nj t by linarith+
  note e = rr_close [OF v]
  have tl: "exit_qty_tolerance = Fin ?t" by (simp add: exit_qty_tolerance_def lit_def rnd_Fin)
  have "cents j + exit_qty_tolerance = rnd (?x + ?t)" unfolding tl cents_def plus_f64_def f64_add_def by simp
  then have s: "cents j + exit_qty_tolerance = Fin (rr (?x + ?t))" using v by (simp add: rnd_Fin)
  have "rr (?x + ?t) < ?y \<longleftrightarrow> j + 2 \<le> k"
  proof
    assume "rr (?x + ?t) < ?y"
    then have "rat_of_int j + 1 < of_int k" using e t nj nk by linarith
    then show "j + 2 \<le> k" using of_int_less_iff [of "j + 1" k, where 'a = rat] by simp
  next
    assume "j + 2 \<le> k"
    then have "rat_of_int j + 2 \<le> of_int k" using of_int_le_iff [of "j + 2" k, where 'a = rat] by simp
    then show "rr (?x + ?t) < ?y" using e t nj nk by linarith
  qed
  then show ?thesis unfolding s by (simp add: cents_def)
qed

lemma clamp_visible_cents:
  assumes "0 \<le> r" "r \<le> max_cents" "0 \<le> v" "v \<le> max_cents"
  obtains k where "clamp_trade_builder_visible_share_qty (cents r) (Some (cents v)) =
      (if min r v = 0 then None else Some (cents k))"
    "0 \<le> k" "k \<le> min r v" "min r v - 1 \<le> k" "min r v \<noteq> 0 \<longrightarrow> 0 < k"
proof -
  have m: "0 \<le> min r v" "min r v \<le> max_cents" using assms by auto
  obtain k where k: "floor_trade_builder_share_qty (cents (min r v)) = cents k" "0 \<le> k" "k \<le> min r v"
      "min r v - 1 \<le> k" "0 < min r v \<longrightarrow> 0 < k"
    using floor_cents_pos [OF m] by blast
  have "0 < cents k \<longleftrightarrow> 0 < k" using k m by (intro cents_pos) auto
  moreover have "fmin (cents r) (cents v) = cents (min r v)" using assms by (intro fmin_cents) auto
  ultimately have "clamp_trade_builder_visible_share_qty (cents r) (Some (cents v)) =
      (if 0 < k then Some (cents k) else None)"
    by (simp add: clamp_trade_builder_visible_share_qty_def then_some_def k(1) del: cents_0)
  moreover have "0 < k \<longleftrightarrow> min r v \<noteq> 0" using k m by linarith
  ultimately show ?thesis using k that [of k] by auto
qed

text \<open>One retry takes one or two cents off; below two cents there is none.\<close>

lemma forced_retry_cents:
  assumes "2 \<le> k" "k \<le> max_cents"
  obtains j where "trade_builder_forced_retry_tick_qty (cents k) = Some (cents j)"
    "0 < j" "j < k" "k - 2 \<le> j"
proof -
  have f: "floor_trade_builder_share_qty (fmax (cents k - cents 1) 0) = cents (k - 1) \<or>
      floor_trade_builder_share_qty (fmax (cents k - cents 1) 0) = cents (k - 2)"
    using floor_cents_sub [of 1 k] assms by simp
  have two: "floor_trade_builder_share_qty (fmax (cents 2 - cents 1) 0) = cents 1"
    by (simp add: floor_trade_builder_share_qty_def cents_def f64_eval)
  obtain j where j: "floor_trade_builder_share_qty (fmax (cents k - cents 1) 0) = cents j"
      "0 < j" "j < k" "k - 2 \<le> j"
  proof (cases "k = 2")
    case True
    with two that [of 1] show ?thesis by simp
  next
    case False
    with f assms that [of "k - 1"] that [of "k - 2"] show ?thesis by auto
  qed
  have lt: "cents j < cents k" and pos: "0 < cents j"
    using j assms cents_less_iff(1) [of j k] cents_pos(1) [of j] by auto
  have "round_trade_builder_share_qty (cents k - cents j) = cents (k - j)"
    using j assms by (intro round_cents_sub) auto
  moreover have "cents 1 \<le> cents (k - j)" using j by (intro cents_le) simp
  ultimately have "trade_builder_retry_qty_is_lower (cents k) (cents j)"
    using lt pos by (simp add: trade_builder_retry_qty_is_lower_def min_decrement_cents)
  then have "trade_builder_forced_retry_tick_qty (cents k) = Some (cents j)"
    by (simp add: trade_builder_forced_retry_tick_qty_def min_decrement_cents j Let_def)
  with j that show ?thesis by blast
qed

lemma forced_retry_end:
  assumes "0 \<le> k" "k \<le> 1"
  shows "trade_builder_forced_retry_tick_qty (cents k) = None"
proof -
  have "fmax (cents k - cents 1) 0 = Fin 0" using assms by (intro cents_sub_le(1)) (auto simp: max_cents_def)
  moreover have "floor_trade_builder_share_qty (cents 0) = cents 0"
    using floor_cents [of 0] by (simp add: max_cents_def)
  ultimately have "floor_trade_builder_share_qty (fmax (cents k - cents 1) 0) = Fin 0" by simp
  then show ?thesis
    by (simp add: trade_builder_forced_retry_tick_qty_def min_decrement_cents trade_builder_retry_qty_is_lower_def)
qed

text \<open>What an exchange order has left, in cents.\<close>

lemma remaining_cents:
  assumes "0 \<le> s" "s \<le> max_cents" "0 \<le> f" "f \<le> max_cents"
    "oi_size i = Some (cents s)" "oi_filled_size i = Some (cents f)"
    "normalize_trade_builder_size_basis (o_size_basis order) = size_basis_shares"
  shows "snd (estimate_remaining_trade_builder_sizing order i p) = Some (cents (max 0 (s - f)))"
  using assms round_cents_monus [of s f]
  by (simp add: estimate_remaining_trade_builder_sizing_def Let_def)

section \<open>Markers of the submit stage\<close>

lemma starts_with_across:
  assumes "starts_with (a @ c # r) (c' # t)" "c \<notin> set t"
  shows "starts_with a (c' # t) \<or> a = [] \<and> c = c' \<and> starts_with r t"
proof (cases a)
  case Nil
  with assms show ?thesis by simp
next
  case (Cons x a')
  then obtain u where u: "x = c'" "a' @ c # r = t @ u" using assms(1) by (auto simp: starts_with_iff)
  then obtain w where "a' = t @ w \<or> a' @ w = t \<and> c # r = w @ u"
    using append_eq_append_conv2 [of a' "c # r" t u] by blast
  then have "\<exists>w. a' = t @ w" using assms(2) by (cases w) auto
  with Cons u(1) show ?thesis by (auto simp: starts_with_iff)
qed

lemma contains_cons_split:
  "contains (a @ c # r) (c # t) \<Longrightarrow> c \<notin> set t \<Longrightarrow> \<not> contains a (c # t) \<Longrightarrow>
    starts_with r t \<or> contains r (c # t)"
proof (induction a)
  case (Cons x a)
  then show ?case using starts_with_across [of "x # a" c r c t] by auto
qed auto

definition stage_marker :: "exit_submit_stage \<Rightarrow> string" where
  "stage_marker s = exit_stage_marker_prefix @ stage_as_str s @ '']''"

lemma stage_of_text: "trade_builder_exit_submit_stage_from_last_error (Some e) =
   (if contains e (stage_marker VisibleInventory) then Some VisibleInventory
    else if contains e (stage_marker EstimatedVisible) then Some EstimatedVisible
    else if contains e (stage_marker DynamicGross) then Some DynamicGross else None)"
  by (simp add: trade_builder_exit_submit_stage_from_last_error_def stage_marker_def exit_stage_marker_prefix_def
      del: contains.simps)

lemma stage_marker_distinct: "contains (e @ '' '' @ stage_marker s) (stage_marker s') \<Longrightarrow>
    \<not> contains (e @ '' '') (stage_marker s') \<Longrightarrow> s = s'"
proof -
  assume c: "contains (e @ '' '' @ stage_marker s) (stage_marker s')" and n: "\<not> contains (e @ '' '') (stage_marker s')"
  define r t where "r = tl (stage_marker s)" and "t = tl (stage_marker s')"
  have m: "stage_marker s = CHR ''['' # r" "stage_marker s' = CHR ''['' # t" "CHR ''['' \<notin> set t"
    by (cases s; cases s'; simp add: r_def t_def stage_marker_def exit_stage_marker_prefix_def)+
  have "starts_with r t \<or> contains r (CHR ''['' # t)"
    using contains_cons_split [of "e @ '' ''" _ r t] c n m by simp
  moreover have "\<not> contains r (CHR ''['' # t)"
    by (cases s; simp add: r_def stage_marker_def exit_stage_marker_prefix_def)
  ultimately have "starts_with r t" by blast
  then show "s = s'"
    by (cases s; cases s'; simp add: r_def t_def stage_marker_def exit_stage_marker_prefix_def)
qed

lemma contains_snoc_space: "contains (e @ '' '') (stage_marker s) \<Longrightarrow> contains e (stage_marker s)"
proof -
  assume "contains (e @ '' '') (stage_marker s)"
  then obtain a b where ab: "e @ '' '' = a @ stage_marker s @ b" by (auto simp: contains_iff)
  have "b \<noteq> []"
  proof
    assume "b = []"
    with ab have "last (e @ '' '') = last (stage_marker s)" by (simp add: stage_marker_def)
    then show False by (simp add: stage_marker_def)
  qed
  then have "e = a @ stage_marker s @ butlast b" using arg_cong [OF ab, of butlast] by (simp add: butlast_append)
  then show ?thesis by (simp only: contains_self)
qed

section \<open>Prices stay between one and ninety-nine cents\<close>

definition prob_range :: "f64 \<Rightarrow> bool" where
  "prob_range p \<longleftrightarrow> lit (1 / 100) \<le> p \<and> p \<le> lit (99 / 100)"

lemma prob_range_clamp: "p \<noteq> NaN \<Longrightarrow> prob_range (clamp_probability p)"
  using clamp_probability_bounds by (simp add: prob_range_def)

lemma prob_range_not_nan: "prob_range p \<Longrightarrow> p \<noteq> NaN"
  by (auto simp: prob_range_def)

lemma lit_finite: "\<bar>q\<bar> \<le> 1 \<Longrightarrow> is_finite (lit q)"
  unfolding lit_def using one_le_big by (intro rnd_finite) linarith

lemma prob_range_finite: "prob_range p \<Longrightarrow> is_finite p"
proof -
  have "is_finite (lit (1 / 100))" "is_finite (lit (99 / 100))" by (simp_all add: lit_finite)
  then show "prob_range p \<Longrightarrow> is_finite p" using is_finite_sandwich unfolding prob_range_def by blast
qed

lemma prob_range_fmax: "prob_range p \<Longrightarrow> prob_range q \<Longrightarrow> prob_range (fmax p q)"
  and prob_range_fmin: "prob_range p \<Longrightarrow> prob_range q \<Longrightarrow> prob_range (fmin p q)"
  using fmax_in [of p q] fmin_in [of p q] by auto

text \<open>The quotes a runtime price was built from are numbers.\<close>

definition quotes_ok :: "trade_builder_runtime_price \<Rightarrow> bool" where
  "quotes_ok r \<longleftrightarrow> prob_range (rp_price r) \<and> (\<forall>q \<in> set_option (rp_best_bid r) \<union> set_option (rp_best_ask r)
     \<union> set_option (rp_last_trade_price r). prob_range q)"

lemma build_quotes_ok:
  assumes "build_trade_builder_fast_runtime_price src w bid ask ltp = Some r"
    "\<forall>q \<in> set_option bid \<union> set_option ask \<union> set_option ltp. q \<noteq> NaN"
  shows "quotes_ok r"
  using assms prob_range_clamp
  by (cases bid; cases ask; cases ltp)
    (auto simp: build_trade_builder_fast_runtime_price_def quotes_ok_def Let_def)

lemma clamp_range: "prob_range p \<Longrightarrow> prob_range (clamp_probability p)"
  by (intro prob_range_clamp prob_range_not_nan)

lemma quotes_okD: "quotes_ok r \<Longrightarrow> prob_range (rp_price r)"
  "quotes_ok r \<Longrightarrow> rp_best_bid r = Some b \<Longrightarrow> prob_range b"
  "quotes_ok r \<Longrightarrow> rp_best_ask r = Some a \<Longrightarrow> prob_range a"
  "quotes_ok r \<Longrightarrow> rp_last_trade_price r = Some l \<Longrightarrow> prob_range l"
  by (simp_all add: quotes_ok_def)

lemma fast_trigger_eval_range: "quotes_ok r \<Longrightarrow> prob_range (fast_trigger_eval_price r c)"
  unfolding fast_trigger_eval_price_def Let_def
  by (simp split: option.split) (blast intro: clamp_range prob_range_fmax prob_range_fmin dest: quotes_okD)

lemma sl_trigger_eval_range:
  "quotes_ok r \<Longrightarrow> sl_trigger_eval_price_for_mode m r = Some p \<Longrightarrow> prob_range p"
  unfolding sl_trigger_eval_price_for_mode_def
  by (auto split: if_splits option.splits
      intro: clamp_range prob_range_fmin fast_trigger_eval_range dest: quotes_okD)

lemma execution_price_range: "quotes_ok r \<Longrightarrow> prob_range (trade_builder_execution_price_for_order order r)"
  unfolding trade_builder_execution_price_for_order_def fast_execution_price_for_sell_def
    fast_execution_price_for_buy_def or_opt_def
  by (auto split: option.split intro: clamp_range dest: quotes_okD)

lemma trigger_eval_range: "quotes_ok r \<Longrightarrow> prob_range (trade_builder_trigger_eval_price_for_order order r)"
proof -
  assume q: "quotes_ok r"
  then have p: "prob_range (rp_price r)" by (simp add: quotes_ok_def)
  show ?thesis
    using fast_trigger_eval_range [OF q] sl_trigger_eval_range [OF q] p
    by (auto simp: trade_builder_trigger_eval_price_for_order_def unwrap_or_def split: option.split)
qed

text \<open>The price floor of an exit is the share rounding of the lowered trigger price.\<close>

lemma floor_range: "prob_range (clamp_probability (round_trade_builder_share_qty x))"
  using round_share_nonneg [of x] by (intro prob_range_clamp) auto

lemma exit_floor_eq: "trade_builder_exit_sell_price_floor order =
   (if trade_builder_is_child_exit_sell order \<and> o_trigger_condition order \<noteq> Some ''cross_below''
    then map_option (\<lambda>t. clamp_probability (round_trade_builder_share_qty (t - exit_trigger_buffer)))
      (o_trigger_price order) else None)"
  by (cases "o_trigger_price order")
    (auto simp: trade_builder_exit_sell_price_floor_def round_trade_builder_share_qty_def Let_def)

lemma submit_price_range: "is_finite p \<Longrightarrow> prob_range (trade_builder_submit_desired_price order p)"
proof -
  assume "is_finite p"
  then have "prob_range (aggressive_price_for_side (o_side order) p (o_min_price_distance_cent order))"
    using aggressive_price_bounds by (simp add: prob_range_def)
  then show ?thesis
    using prob_range_fmax floor_range
    by (auto simp: trade_builder_submit_desired_price_def trade_builder_cap_exit_sell_price_def Let_def
        exit_floor_eq unwrap_or_def split: option.split)
qed

section \<open>The one dollar minimum of marketable buys\<close>

text \<open>The quantity of the top-up for a price \<open>p\<close> between one cent and one dollar is on the grid,
  and its value is a dollar, up to the cent of shares the ceiling adds.\<close>

lemma top_up_qty:
  assumes "1 / 200 \<le> p" "p \<le> 1"
  obtains k where "round_trade_builder_share_qty (fceil ((1 / Fin p) * lit 100) / lit 100) = cents k"
    "0 \<le> k" "k \<le> max_cents" "100 / p \<le> of_int k + 1 / 100" "of_int k \<le> 100 / p + 101 / 100"
proof -
  have p: "0 < p" using assms by simp
  have i: "1 \<le> 1 / p" "1 / p \<le> 200" using assms by (simp_all add: field_simps)
  then have x: "0 \<le> 1 / p" "1 / p \<le> 40000000000" by linarith+
  note e = rr_close [OF x]
  let ?x = "rr (1 / p)"
  have y: "0 \<le> ?x * 100" "?x * 100 \<le> 40000000000" using e i by linarith+
  note f = rr_close [OF y]
  let ?y = "rr (?x * 100)"
  have "1 / Fin p = rnd (1 / p)"
    using p by (simp add: one_f64_def divide_f64_def f64_div_def Let_def)
  then have "1 / Fin p = Fin ?x" using x by (simp add: rnd_Fin)
  then have m: "(1 / Fin p) * lit 100 = Fin ?y" using y by (simp add: mul_pos_cases rnd_Fin)
  have k: "99 \<le> \<lceil>?y\<rceil>" "\<lceil>?y\<rceil> \<le> 20002" using e f i by linarith+
  then have c: "fceil (Fin ?y) = Fin (of_int \<lceil>?y\<rceil>)" by (simp add: fceil_def to_int_with_def zero_of_def)
  have "Fin (of_int \<lceil>?y\<rceil>) / Fin 100 = cents \<lceil>?y\<rceil>"
    using k by (intro Fin_int_div_100) (auto simp: max_cents_def)
  moreover have "round_trade_builder_share_qty (cents \<lceil>?y\<rceil>) = cents \<lceil>?y\<rceil>"
    using k by (intro round_cents) (auto simp: max_cents_def)
  ultimately have "round_trade_builder_share_qty (fceil ((1 / Fin p) * lit 100) / lit 100) = cents \<lceil>?y\<rceil>"
    unfolding m c by simp
  moreover have "100 / p = 100 * (1 / p)" by simp
  moreover have "?y \<le> of_int \<lceil>?y\<rceil>" "of_int \<lceil>?y\<rceil> \<le> ?y + 1" by linarith+
  ultimately have h: "round_trade_builder_share_qty (fceil ((1 / Fin p) * lit 100) / lit 100) = cents \<lceil>?y\<rceil>"
    "100 / p \<le> of_int \<lceil>?y\<rceil> + 1 / 100" "of_int \<lceil>?y\<rceil> \<le> 100 / p + 101 / 100"
    using e f by (assumption | linarith)+
  then show ?thesis using that [of "\<lceil>?y\<rceil>"] k by (simp add: max_cents_def)
qed

lemma top_up_notional:
  assumes "1 / 200 \<le> p" "p \<le> 1" "0 \<le> k" "k \<le> max_cents"
    "100 / p \<le> of_int k + 1 / 100" "of_int k \<le> 100 / p + 101 / 100"
  shows "is_finite (cents k * Fin p)" "999 / 1000 \<le> fval (cents k * Fin p)"
    "fval (cents k * Fin p) \<le> 1012 / 1000"
proof -
  have p: "0 < p" using assms by simp
  let ?c = "rr (of_int k / 100)"
  have kb: "k \<le> 2 * max_cents" using assms by simp
  note n = cents_near [OF assms(3) kb]
  have lo: "100 - p / 100 \<le> of_int k * p" using assms(5) p by (simp add: field_simps)
  have hi: "of_int k * p \<le> 100 + p * 101 / 100" using assms(6) p by (simp add: field_simps)
  have b: "?c * p \<le> (of_int k / 100 + 1 / 100000) * p" "(of_int k / 100 - 1 / 100000) * p \<le> ?c * p"
    using n p by (intro mult_right_mono; simp)+
  have q: "9995 / 10000 \<le> ?c * p" "?c * p \<le> 10111 / 10000"
    using b lo hi assms(2) p by (simp_all add: field_simps)
  then have q': "0 \<le> ?c * p" "?c * p \<le> 40000000000" by linarith+
  note e = rr_close [OF q']
  have "\<bar>fval (cents k) * fval (Fin p)\<bar> \<le> big" using q one_le_big le_big_num [of "?c * p"] by simp
  then have "is_finite (cents k * Fin p) \<and> fval (cents k * Fin p) = rr (?c * p)"
    using mul_finite [of "cents k" "Fin p"] by simp
  then have f: "is_finite (cents k * Fin p)" "fval (cents k * Fin p) = rr (?c * p)" by blast+
  show "is_finite (cents k * Fin p)" by (rule f)
  show "999 / 1000 \<le> fval (cents k * Fin p)" "fval (cents k * Fin p) \<le> 1012 / 1000"
    unfolding f using e q by linarith+
qed

section \<open>Properties\<close>

text \<open>C26: an exit never submits more than requested nor more than is visible. For a requested
  and a visible quantity on the grid of cents there is nothing to submit exactly when one of
  them is zero; otherwise the submitted quantity is positive, at most the smaller one and at
  most one cent below it, and it counts as partial exactly when at least two cents of the
  request are missing.\<close>

theorem visible_inventory_submit_safe:
  assumes "0 \<le> r" "r \<le> max_cents" "0 \<le> v" "v \<le> max_cents"
  shows "\<exists>k. resolve_trade_builder_visible_inventory_submit (cents r) (Some (cents v)) =
    (if min r v = 0 then None
     else Some \<lparr>vi_submit_qty = cents k, vi_submit_partial_visible_inventory = (k + 2 \<le> r)\<rparr>) \<and>
    0 \<le> k \<and> k \<le> min r v \<and> min r v - 1 \<le> k \<and> (min r v \<noteq> 0 \<longrightarrow> 0 < k)"
proof -
  obtain k where k: "clamp_trade_builder_visible_share_qty (cents r) (Some (cents v)) =
      (if min r v = 0 then None else Some (cents k))"
    "0 \<le> k" "k \<le> min r v" "min r v - 1 \<le> k" "min r v \<noteq> 0 \<longrightarrow> 0 < k"
    using clamp_visible_cents [OF assms] by metis
  then show ?thesis
    using assms by (intro exI [of _ k])
      (simp add: resolve_trade_builder_visible_inventory_submit_def tolerance_cents)
qed

theorem visible_inventory_submit_safe_witness:
  "\<exists>k. resolve_trade_builder_visible_inventory_submit (cents 500) (Some (cents 123)) =
     Some \<lparr>vi_submit_qty = cents k, vi_submit_partial_visible_inventory = (k + 2 \<le> 500)\<rparr> \<and> 0 < k \<and> k \<le> 123"
  using visible_inventory_submit_safe [of 500 123] by (auto simp: max_cents_def)

text \<open>The submit stage survives the round trip through the error text: a stage written
  behind an error text that carries no marker is read back.\<close>

lemma submit_stage_roundtrip:
  assumes "\<forall>s'. \<not> contains (trim e) (stage_marker s')"
  shows "trade_builder_exit_submit_stage_from_last_error (Some (trade_builder_retry_error_text e (Some s))) = Some s"
proof -
  let ?e = "trim e @ '' '' @ stage_marker s"
  have t: "trade_builder_retry_error_text e (Some s) = ?e"
    by (simp add: trade_builder_retry_error_text_def stage_marker_def Let_def)
  have "contains ?e (stage_marker s') \<longleftrightarrow> s' = s" for s'
    using stage_marker_distinct [of "trim e" s s'] assms contains_snoc_space [of "trim e" s']
      contains_append [of "stage_marker s" "stage_marker s" "trim e @ '' ''" "[]"] contains_self [of "[]" "stage_marker s" "[]"]
    by auto
  then show ?thesis unfolding t stage_of_text by (cases s) simp_all
qed

theorem submit_stage_roundtrip_witness:
  "trade_builder_exit_submit_stage_from_last_error
     (Some (trade_builder_retry_error_text '' not enough balance '' (Some EstimatedVisible))) = Some EstimatedVisible"
proof (rule submit_stage_roundtrip, rule allI)
  fix s' show "\<not> contains (trim '' not enough balance '') (stage_marker s')"
    by (cases s'; simp add: trim_def trim_with.simps white_space_def stage_marker_def exit_stage_marker_prefix_def)
qed

text \<open>Every price the trigger evaluation, the execution and the submission of an order use is
  between one and ninety-nine cents, whatever quotes (as long as they are numbers) the runtime
  price was built from.\<close>

lemma runtime_prices_in_range:
  assumes "build_trade_builder_fast_runtime_price src w bid ask ltp = Some r"
    "\<forall>q \<in> set_option bid \<union> set_option ask \<union> set_option ltp. q \<noteq> NaN"
  shows "prob_range (trade_builder_trigger_eval_price_for_order order r) \<and>
    prob_range (trade_builder_execution_price_for_order order r) \<and>
    prob_range (trade_builder_submit_desired_price order (trade_builder_execution_price_for_order order r))"
proof -
  note q = build_quotes_ok [OF assms]
  note e = execution_price_range [OF q]
  show ?thesis using trigger_eval_range [OF q] e submit_price_range [OF prob_range_finite [OF e]] by blast
qed

theorem runtime_prices_in_range_witness:
  "\<exists>r. build_trade_builder_fast_runtime_price ''ws'' None (Some (Fin 2)) None (Some (Fin (1 / 4))) = Some r \<and>
    (\<forall>order :: (nat, nat) trade_builder_order.
      prob_range (trade_builder_submit_desired_price order (trade_builder_execution_price_for_order order r)))"
proof -
  obtain r where r: "build_trade_builder_fast_runtime_price ''ws'' None (Some (Fin 2)) None (Some (Fin (1 / 4))) = Some r"
    by (simp add: build_trade_builder_fast_runtime_price_def)
  then show ?thesis using runtime_prices_in_range [OF r] by auto
qed

text \<open>A take profit is not sold far below its trigger: whatever the market price, the
  submitted price is at least the floor, the trigger price less five cents rounded to cents;
  a stop loss has no floor and is submitted at the aggressive price.\<close>

lemma exit_price_floor:
  fixes order :: "('ts, 'j) trade_builder_order"
  assumes "trade_builder_is_child_exit_sell order" "o_trigger_price order = Some t" "is_finite p"
  shows "(trade_builder_is_stop_loss_child order \<longrightarrow> trade_builder_submit_desired_price order p =
      aggressive_price_for_side ''sell'' p (o_min_price_distance_cent order)) \<and>
    (trade_builder_is_take_profit_child order \<longrightarrow>
      clamp_probability (round_trade_builder_share_qty (t - exit_trigger_buffer))
        \<le> trade_builder_submit_desired_price order p)"
proof -
  have side: "o_side order = ''sell''" using assms(1) by (simp add: trade_builder_is_child_exit_sell_def)
  have "aggressive_price_for_side ''sell'' p (o_min_price_distance_cent order) \<noteq> NaN"
    using aggressive_price_bounds [OF assms(3)] f64_le_not_nan by blast
  note b = fmax_bounds(1) [OF prob_range_not_nan [OF floor_range]]
  show ?thesis using assms side b
    by (auto simp: trade_builder_submit_desired_price_def trade_builder_cap_exit_sell_price_def Let_def
        exit_floor_eq trade_builder_is_stop_loss_child_def trade_builder_is_take_profit_child_def)
qed

theorem exit_price_floor_witness:
  "clamp_probability (round_trade_builder_share_qty (lit (3 / 5) - exit_trigger_buffer))
     \<le> trade_builder_submit_desired_price sample_order (Fin (1 / 4))"
  using exit_price_floor [of sample_order "lit (3 / 5)" "Fin (1 / 4)"]
  by (simp add: sample_order_def trade_builder_is_child_exit_sell_def trade_builder_is_take_profit_child_def)

text \<open>What an exchange order has left refines the subtraction of integers: with the size and the
  filled size on the grid of cents, an order sized in shares has exactly the difference left,
  and nothing when more was filled than ordered.\<close>

lemma remaining_sizing_refines:
  assumes "0 \<le> s" "s \<le> max_cents" "0 \<le> f" "f \<le> max_cents"
    "oi_size i = Some (cents s)" "oi_filled_size i = Some (cents f)"
    "normalize_trade_builder_size_basis (o_size_basis order) = size_basis_shares"
  shows "snd (estimate_remaining_trade_builder_sizing order i p) = Some (cents (max 0 (s - f)))"
  by (rule remaining_cents [OF assms])

theorem remaining_sizing_refines_witness:
  "snd (estimate_remaining_trade_builder_sizing sample_order
     \<lparr>oi_order_id = ''a'', oi_client_order_id = None, oi_status = ''live'', oi_price = None,
      oi_size = Some (cents 1000), oi_filled_size = Some (cents 29), oi_associated_trade_ids = []\<rparr> 0)
   = Some (cents (max 0 (1000 - 29)))"
  by (rule remaining_sizing_refines)
    (simp_all add: max_cents_def sample_order_def normalize_trade_builder_size_basis_def
      size_basis_shares_def eq_ignore_ascii_case_def trim_def trim_with.simps white_space_def)

text \<open>A terminal fill takes the first usable candidate in the order filled size of the
  exchange, size of the exchange, stored size: a candidate before the chosen one is unusable,
  the quantity is its rounding and positive, and the fill synced to the database plays no
  part.\<close>

lemma terminal_fill_selection:
  assumes "select_trade_builder_terminal_fill_qty c = Some r"
  shows "0 < rt_qty r \<and> rt_candidates r = c \<and>
    normalize_trade_builder_terminal_fill_qty_candidate (case rt_source r of
        OrderInfoFilledSize \<Rightarrow> tf_order_info_filled_size c
      | OrderInfoSize \<Rightarrow> tf_order_info_size c
      | StoredOrderSize \<Rightarrow> tf_stored_order_size c) = Some (rt_qty r) \<and>
    (rt_source r \<noteq> OrderInfoFilledSize \<longrightarrow>
      normalize_trade_builder_terminal_fill_qty_candidate (tf_order_info_filled_size c) = None) \<and>
    (rt_source r = StoredOrderSize \<longrightarrow>
      normalize_trade_builder_terminal_fill_qty_candidate (tf_order_info_size c) = None) \<and>
    select_trade_builder_terminal_fill_qty (c\<lparr>tf_synced_db_fill_qty := q\<rparr>) =
      Some (r\<lparr>rt_candidates := c\<lparr>tf_synced_db_fill_qty := q\<rparr>\<rparr>)"
proof -
  have pos: "normalize_trade_builder_terminal_fill_qty_candidate v = Some x \<Longrightarrow> 0 < x" for v x
    by (auto simp: normalize_trade_builder_terminal_fill_qty_candidate_def bind_eq_Some_conv Let_def split: if_splits)
  show ?thesis
    using assms pos unfolding select_trade_builder_terminal_fill_qty_def
    by (auto simp: or_opt_def split: option.splits)
qed

theorem terminal_fill_selection_witness:
  "normalize_trade_builder_terminal_fill_qty_candidate (Some (Fin 4)) = Some (Fin 4) \<and>
   normalize_trade_builder_terminal_fill_qty_candidate (Some NaN) = None"
proof -
  let ?c = "\<lparr>tf_order_info_filled_size = Some NaN, tf_synced_db_fill_qty = Some (Fin 3),
    tf_order_info_size = Some (Fin 4), tf_stored_order_size = Some (Fin 5)\<rparr>"
  have "round_trade_builder_share_qty (Fin 4) = Fin 4"
    using round_cents [of 400] rr_int [of 4] by (simp add: cents_def max_cents_def)
  then have "select_trade_builder_terminal_fill_qty ?c =
      Some \<lparr>rt_qty = Fin 4, rt_source = OrderInfoSize, rt_candidates = ?c\<rparr>"
    by (simp add: select_trade_builder_terminal_fill_qty_def normalize_trade_builder_terminal_fill_qty_candidate_def
        then_some_def)
  from terminal_fill_selection [OF this] show ?thesis by simp
qed

text \<open>The top-up of a marketable buy below one dollar. For a price between half a cent and one dollar
  the adjusted quantity is a whole number of cents of a share, it is worth at least 99.9 cents
  and at most 101.2 cents (the last bound is one cent of shares at the highest price), and the
  top-up is refused exactly when that value exceeds the cap by more than a cent.\<close>

lemma min_notional_top_up:
  assumes "trade_builder_marketable_buy_min_notional_top_up side ty basis (Fin p) q cap = Some t"
    "1 / 200 \<le> p" "p \<le> 1"
  shows "on_grid (tu_adjusted_qty t) \<and> is_finite (tu_adjusted_notional_usdc t) \<and>
    999 / 1000 \<le> fval (tu_adjusted_notional_usdc t) \<and> fval (tu_adjusted_notional_usdc t) \<le> 1012 / 1000 \<and>
    (tu_blocked_by_cap t \<longleftrightarrow> cap + lit (1 / 100) < tu_adjusted_notional_usdc t)"
proof -
  obtain k where k: "round_trade_builder_share_qty (fceil ((1 / Fin p) * lit 100) / lit 100) = cents k"
    "0 \<le> k" "k \<le> max_cents" "100 / p \<le> of_int k + 1 / 100" "of_int k \<le> 100 / p + 101 / 100"
    using top_up_qty [OF assms(2,3)] by metis
  have "on_grid (cents k)" using k by (auto simp: on_grid_def)
  with top_up_notional [OF assms(2,3) k(2-5)] assms(1) show ?thesis
    by (auto simp: trade_builder_marketable_buy_min_notional_top_up_def Let_def k(1) [simplified]
        marketable_buy_min_notional_usdc_def marketable_buy_min_notional_cap_tolerance_usdc_def split: if_splits)
qed

theorem min_notional_top_up_witness:
  "\<exists>t. trade_builder_marketable_buy_min_notional_top_up ''buy'' ''FAK'' size_basis_shares (Fin (1 / 4)) (Fin 1) (Fin 2) = Some t
    \<and> 999 / 1000 \<le> fval (tu_adjusted_notional_usdc t)"
proof -
  have "\<exists>t. trade_builder_marketable_buy_min_notional_top_up ''buy'' ''FAK'' size_basis_shares (Fin (1 / 4)) (Fin 1) (Fin 2) = Some t"
  proof -
    have r: "rr (1 / 4) = 1 / 4"
      using rr_exact [OF repr_pow [of "- 2"]] by (simp add: power_int_minus inverse_eq_divide)
    have l: "lit (1 / 1000000) = Fin (rr (1 / 1000000))" "0 \<le> rr (1 / 1000000)" "rr (1 / 1000000) \<le> 1 / 10"
      using rr_close [of "1 / 1000000"] by (simp_all add: lit_def rnd_Fin)
    have o: "Fin 1 * Fin (1 / 4) = Fin (1 / 4)" using r by (simp add: mul_pos_cases rnd_Fin)
    have "Fin (1 / 4) + lit (1 / 1000000) = Fin (rr (1 / 4 + rr (1 / 1000000)))"
      using l by (simp add: plus_f64_def f64_add_def rnd_Fin)
    moreover have "rr (1 / 4 + rr (1 / 1000000)) < 1"
      using l rr_close(1) [of "1 / 4 + rr (1 / 1000000)"] by simp
    ultimately have "\<not> 1 \<le> Fin 1 * Fin (1 / 4) + lit (1 / 1000000)" by (simp add: o one_f64_def)
    then show ?thesis
      by (simp add: trade_builder_marketable_buy_min_notional_top_up_def marketable_buy_min_notional_usdc_def Let_def)
  qed
  then obtain t where t: "trade_builder_marketable_buy_min_notional_top_up ''buy'' ''FAK'' size_basis_shares (Fin (1 / 4)) (Fin 1) (Fin 2) = Some t"
    by blast
  from min_notional_top_up [OF this] t show ?thesis by simp
qed

end
