(* ===== verification/Exit_Ladders.thy ===== *)
theory Exit_Ladders
  imports Bot_Core Exit_Math "HOL-Library.Product_Lexorder" "HOL-Library.Sublist"
begin

text \<open>
  Exit ladders, the pure part of \<open>trade_builder/exit_ladders.rs\<close>: the validation of the price and
  time rules of a parent order, the classification of its exit children, and the planner that
  splits the quantity of the parent over the rungs of a ladder. Deserialising the rules is
  serde_json's work, so the parsers take the deserialised rules, or its error, from a
  parameter.
\<close>

section \<open>Kinds, modes and rules\<close>

definition ladder_kind_tp :: string where "ladder_kind_tp = ''tp''"
definition ladder_kind_sl :: string where "ladder_kind_sl = ''sl''"
definition ladder_kind_ptb_sl :: string where "ladder_kind_ptb_sl = ''ptb_sl''"
definition ladder_max_rules :: nat where "ladder_max_rules = 5"
definition exit_mode_hard :: string where "exit_mode_hard = ''hard''"
definition exit_mode_staged :: string where "exit_mode_staged = ''staged''"
definition sibling_policy_cancel_all :: string where "sibling_policy_cancel_all = ''cancel_all''"
definition sibling_policy_resize_remaining :: string where
  "sibling_policy_resize_remaining = ''resize_remaining''"

record price_exit_rule_config =
  pc_price_cent :: f64
  pc_size_pct :: f64

record time_exit_rule_config =
  tc_elapsed_minutes :: i64
  tc_remaining_pct :: f64

definition trade_builder_exit_ladder_kind :: "('ts, 'j) trade_builder_order \<Rightarrow> string option" where
  "trade_builder_exit_ladder_kind order =
     filter_opt (\<lambda>value. value \<noteq> []) (map_option trim (o_exit_ladder_kind order))"

definition trade_builder_is_price_exit_ladder_child :: "('ts, 'j) trade_builder_order \<Rightarrow> bool" where
  "trade_builder_is_price_exit_ladder_child order = is_some_and
     (\<lambda>value. value \<in> {ladder_kind_tp, ladder_kind_sl, ladder_kind_ptb_sl}) (trade_builder_exit_ladder_kind order)"

definition trade_builder_price_exit_rule_from_legacy :: "bool \<Rightarrow> f64 option \<Rightarrow> price_exit_rule list" where
  "trade_builder_price_exit_rule_from_legacy enabled raw_price =
    (if \<not> enabled then []
     else unwrap_or [] (map_option (\<lambda>price. [\<lparr>per_price = price, per_size_pct = lit 100\<rparr>])
       (filter_opt (\<lambda>value. is_finite value \<and> 0 < value \<and> value \<le> 1) raw_price)))"

definition trade_builder_hard_price_exit_rule :: "bool \<Rightarrow> f64 option \<Rightarrow> price_exit_rule option" where
  "trade_builder_hard_price_exit_rule enabled raw_price =
    (case trade_builder_price_exit_rule_from_legacy enabled raw_price of [] \<Rightarrow> None | r # _ \<Rightarrow> Some r)"

section \<open>Validation\<close>

definition rules_prefix :: "string \<Rightarrow> string" where
  "rules_prefix family = ''action.place_order '' @ family @ ''Rules''"

text \<open>The loop over the rules; it returns the total of the sizes.\<close>

fun price_rule_checks :: "string \<Rightarrow> nat \<Rightarrow> f64 option \<Rightarrow> f64 \<Rightarrow> price_exit_rule list \<Rightarrow> (string, f64) result" where
  "price_rule_checks family index previous_price total_size_pct [] = Inr total_size_pct"
| "price_rule_checks family index previous_price total_size_pct (rule # rules) =
    (case ensure_all
       ([(is_finite (per_price rule) \<and> 0 < per_price rule \<and> per_price rule \<le> 1,
          rules_prefix family @ ''['' @ show_nat index @ ''].priceCent must be in (0, 100]''),
         (is_finite (per_size_pct rule) \<and> 0 < per_size_pct rule \<and> per_size_pct rule \<le> lit 100,
          rules_prefix family @ ''['' @ show_nat index @ ''].sizePct must be in (0, 100]'')]
        @ (case previous_price of
             None \<Rightarrow> []
           | Some previous_price \<Rightarrow>
               if family = ladder_kind_tp
               then [(previous_price < per_price rule,
                      ''action.place_order tpRules prices must be strictly increasing'')]
               else [(per_price rule < previous_price,
                      ''action.place_order slRules prices must be strictly decreasing'')])) of
       Inl e \<Rightarrow> Inl e
     | Inr _ \<Rightarrow> price_rule_checks family (index + 1) (Some (per_price rule))
         (total_size_pct + per_size_pct rule) rules)"

definition validate_trade_builder_price_exit_rules ::
    "price_exit_rule list \<Rightarrow> string \<Rightarrow> (string, unit) result" where
  "validate_trade_builder_price_exit_rules rules family =
    (if \<not> length rules \<le> ladder_max_rules
     then Inl (rules_prefix family @ '' supports at most 5 rules'')
     else case price_rule_checks family 0 None 0 rules of
         Inl e \<Rightarrow> Inl e
       | Inr total_size_pct \<Rightarrow> ensure_all
           [(\<bar>total_size_pct - lit 100\<bar> \<le> lit (1 / 1000000) \<or> rules = [],
             rules_prefix family @ '' sizePct total must equal 100'')])"

fun time_rule_checks :: "nat \<Rightarrow> int option \<Rightarrow> time_exit_rule list \<Rightarrow> (string, unit) result" where
  "time_rule_checks index previous_elapsed_minutes [] = Inr ()"
| "time_rule_checks index previous_elapsed_minutes (rule # rules) =
    (case ensure_all
       ([(0 < ter_elapsed_minutes rule,
          ''action.place_order timeExitRules['' @ show_nat index @ ''].elapsedMinutes must be > 0''),
         (is_finite (ter_remaining_pct rule) \<and> 0 < ter_remaining_pct rule \<and> ter_remaining_pct rule \<le> lit 100,
          ''action.place_order timeExitRules['' @ show_nat index @ ''].remainingPct must be in (0, 100]'')]
        @ (case previous_elapsed_minutes of
             None \<Rightarrow> []
           | Some previous_elapsed_minutes \<Rightarrow>
               [(previous_elapsed_minutes < ter_elapsed_minutes rule,
                 ''action.place_order timeExitRules elapsedMinutes must be strictly increasing'')])) of
       Inl e \<Rightarrow> Inl e
     | Inr _ \<Rightarrow> time_rule_checks (index + 1) (Some (ter_elapsed_minutes rule)) rules)"

definition validate_trade_builder_time_exit_rules :: "time_exit_rule list \<Rightarrow> (string, unit) result" where
  "validate_trade_builder_time_exit_rules rules =
    (if \<not> length rules \<le> ladder_max_rules
     then Inl ''action.place_order timeExitRules supports at most 5 rules''
     else time_rule_checks 0 None rules)"

text \<open>\<open>serde\<close> is the deserialisation of the rules from their JSON; a failure of it is reported by
  the context message. The cast \<open>as i32\<close> is \<open>i64_as_i32\<close>.\<close>

definition parse_trade_builder_price_exit_rules :: "('v \<Rightarrow> price_exit_rule_config list option) \<Rightarrow>
    'v option \<Rightarrow> string \<Rightarrow> (string, price_exit_rule list) result" where
  "parse_trade_builder_price_exit_rules serde raw_value family = (case raw_value of
      None \<Rightarrow> Inr []
    | Some raw_value \<Rightarrow> (case serde raw_value of
        None \<Rightarrow> Inl (rules_prefix family @ '' must be an array'')
      | Some raw_rules \<Rightarrow>
          let rules = map (\<lambda>rule. \<lparr>per_price = fclamp (pc_price_cent rule / lit 100) 0 1,
                per_size_pct = pc_size_pct rule\<rparr>) raw_rules
          in (case validate_trade_builder_price_exit_rules rules family of
                Inl e \<Rightarrow> Inl e | Inr _ \<Rightarrow> Inr rules)))"

definition parse_trade_builder_time_exit_rules :: "('v \<Rightarrow> time_exit_rule_config list option) \<Rightarrow>
    'v option \<Rightarrow> (string, time_exit_rule list) result" where
  "parse_trade_builder_time_exit_rules serde raw_value = (case raw_value of
      None \<Rightarrow> Inr []
    | Some raw_value \<Rightarrow> (case serde raw_value of
        None \<Rightarrow> Inl ''action.place_order timeExitRules must be an array''
      | Some raw_rules \<Rightarrow>
          let rules = map (\<lambda>rule. \<lparr>ter_elapsed_minutes = i64_as_i32 (tc_elapsed_minutes rule),
                ter_remaining_pct = tc_remaining_pct rule\<rparr>) raw_rules
          in (case validate_trade_builder_time_exit_rules rules of
                Inl e \<Rightarrow> Inl e | Inr _ \<Rightarrow> Inr rules)))"

section \<open>Children of a parent order\<close>

definition trade_builder_normalized_tp_rules :: "('ts, 'j) trade_builder_order \<Rightarrow> price_exit_rule list" where
  "trade_builder_normalized_tp_rules order = o_tp_rules_json order"

definition trade_builder_normalized_sl_rules :: "('ts, 'j) trade_builder_order \<Rightarrow> price_exit_rule list" where
  "trade_builder_normalized_sl_rules order = o_sl_rules_json order"

definition trade_builder_normalized_time_exit_rules :: "('ts, 'j) trade_builder_order \<Rightarrow> time_exit_rule list" where
  "trade_builder_normalized_time_exit_rules order = o_time_exit_rules_json order"

definition trade_builder_hard_tp_rule :: "('ts, 'j) trade_builder_order \<Rightarrow> price_exit_rule option" where
  "trade_builder_hard_tp_rule order = trade_builder_hard_price_exit_rule (o_tp_enabled order) (o_tp_price order)"

definition trade_builder_hard_sl_rule :: "('ts, 'j) trade_builder_order \<Rightarrow> price_exit_rule option" where
  "trade_builder_hard_sl_rule order = trade_builder_hard_price_exit_rule (o_sl_enabled order) (o_sl_price order)"

definition trade_builder_is_hard_exit_child :: "('ts, 'j) trade_builder_order \<Rightarrow> bool" where
  "trade_builder_is_hard_exit_child order \<longleftrightarrow>
     trade_builder_is_child_exit_sell order \<and> trade_builder_exit_ladder_kind order = None"

definition trade_builder_exit_mode :: "('ts, 'j) trade_builder_order \<Rightarrow> string" where
  "trade_builder_exit_mode order =
    (if trade_builder_is_price_exit_ladder_child order then exit_mode_staged else exit_mode_hard)"

definition trade_builder_exit_family :: "('ts, 'j) trade_builder_order \<Rightarrow> string option" where
  "trade_builder_exit_family order =
    (if trade_builder_exit_ladder_kind order = Some ladder_kind_ptb_sl then Some ladder_kind_ptb_sl
     else if trade_builder_is_take_profit_child order then Some ladder_kind_tp
     else if trade_builder_is_stop_loss_child order then Some ladder_kind_sl
     else None)"

definition trade_builder_exit_sibling_policy :: "('ts, 'j) trade_builder_order \<Rightarrow> string" where
  "trade_builder_exit_sibling_policy order =
    (if trade_builder_is_hard_exit_child order then sibling_policy_cancel_all
     else sibling_policy_resize_remaining)"

definition trade_builder_order_has_exit_ladders :: "('ts, 'j) trade_builder_order \<Rightarrow> bool" where
  "trade_builder_order_has_exit_ladders order \<longleftrightarrow>
     trade_builder_hard_tp_rule order \<noteq> None \<or> trade_builder_hard_sl_rule order \<noteq> None \<or>
     trade_builder_normalized_tp_rules order \<noteq> [] \<or> trade_builder_normalized_sl_rules order \<noteq> [] \<or>
     o_ptb_stop_loss_rules_json order \<noteq> [] \<or> trade_builder_normalized_time_exit_rules order \<noteq> []"

definition trade_builder_child_rule_price :: "price_exit_rule \<Rightarrow> f64" where
  "trade_builder_child_rule_price rule = fclamp (per_price rule) 0 1"

record exit_child_sizing =
  cs_size_usdc :: f64
  cs_target_qty :: f64
  cs_remaining_qty :: f64

definition trade_builder_ladder_child_qty :: "f64 \<Rightarrow> f64 \<Rightarrow> exit_child_sizing option" where
  "trade_builder_ladder_child_qty canonical_entry_qty size_pct =
    (let qty = round_trade_builder_share_qty (canonical_entry_qty * (size_pct / lit 100))
     in then_some (0 < qty) \<lparr>cs_size_usdc = 0, cs_target_qty = qty, cs_remaining_qty = qty\<rparr>)"

definition trade_builder_live_ladder_children ::
    "('ts, 'j) trade_builder_order list \<Rightarrow> string \<Rightarrow> ('ts, 'j) trade_builder_order list" where
  "trade_builder_live_ladder_children children family =
     filter (\<lambda>order. trade_builder_exit_ladder_kind order = Some family \<and>
       \<not> trade_builder_is_terminal_status (o_status order)) children"

definition trade_builder_live_hard_exit_children ::
    "('ts, 'j) trade_builder_order list \<Rightarrow> ('ts, 'j) trade_builder_order list" where
  "trade_builder_live_hard_exit_children children =
     filter (\<lambda>order. trade_builder_is_hard_exit_child order \<and>
       \<not> trade_builder_is_terminal_status (o_status order)) children"

section \<open>The planner\<close>

record 'k ladder_target_plan =
  requested_targets :: "('k \<times> f64) list"
  targets :: "('k \<times> f64) list"
  skipped_keys :: "'k list"
  consolidation_target :: "'k option"

text \<open>The first loop: every rung gets its share of the parent, the last one what is left.\<close>

fun requested_loop :: "f64 \<Rightarrow> f64 \<Rightarrow> f64 \<Rightarrow> ('k \<times> f64) list \<Rightarrow> ('k \<times> f64) list" where
  "requested_loop current_parent_qty family_weight_sum assigned_qty [] = []"
| "requested_loop current_parent_qty family_weight_sum assigned_qty ((key, weight_pct) # rest) =
    (let desired_qty = (if rest = []
           then round_trade_builder_share_qty (fmax (current_parent_qty - assigned_qty) 0)
           else round_trade_builder_share_qty (current_parent_qty * (weight_pct / family_weight_sum)))
     in if desired_qty \<le> 0
        then requested_loop current_parent_qty family_weight_sum assigned_qty rest
        else (key, desired_qty) # requested_loop current_parent_qty family_weight_sum
          (round_trade_builder_share_qty (fmax (assigned_qty + desired_qty) 0)) rest)"

text \<open>The second loop: the rungs that reach the minimum size keep their quantity, the deepest one
  gets what is left.\<close>

fun kept_loop :: "f64 \<Rightarrow> 'k option \<Rightarrow> f64 \<Rightarrow> ('k \<times> f64) list \<Rightarrow> ('k \<times> f64) list" where
  "kept_loop current_parent_qty deepest_kept_key assigned_kept_qty [] = []"
| "kept_loop current_parent_qty deepest_kept_key assigned_kept_qty ((key, qty) # rest) =
    (let desired_qty = (if Some key = deepest_kept_key
           then round_trade_builder_share_qty (fmax (current_parent_qty - assigned_kept_qty) 0)
           else qty)
     in if desired_qty \<le> 0
        then kept_loop current_parent_qty deepest_kept_key assigned_kept_qty rest
        else (key, desired_qty) # kept_loop current_parent_qty deepest_kept_key
          (round_trade_builder_share_qty (fmax (assigned_kept_qty + desired_qty) 0)) rest)"

definition last_opt :: "'a list \<Rightarrow> 'a option" where
  "last_opt xs = (if xs = [] then None else Some (last xs))"

definition fsum :: "f64 list \<Rightarrow> f64" where
  "fsum xs = foldl (+) 0 xs"

definition trade_builder_plan_weighted_ladder_targets ::
    "('k \<times> f64) list \<Rightarrow> f64 \<Rightarrow> f64 option \<Rightarrow> 'k ladder_target_plan" where
  "trade_builder_plan_weighted_ladder_targets weighted_keys current_parent_qty order_min_size =
    (let current_parent_qty = round_trade_builder_share_qty (fmax current_parent_qty 0);
         empty_plan = \<lparr>requested_targets = [], targets = [], skipped_keys = [], consolidation_target = None\<rparr>
     in if current_parent_qty \<le> exit_qty_tolerance \<or> weighted_keys = [] then empty_plan
        else let family_weight_sum = fsum (map snd weighted_keys)
        in if family_weight_sum \<le> 0 then empty_plan
        else let requested = requested_loop current_parent_qty family_weight_sum 0 weighted_keys
        in case normalize_trade_builder_market_spec_number order_min_size of
             None \<Rightarrow> \<lparr>requested_targets = requested, targets = requested, skipped_keys = [],
               consolidation_target = None\<rparr>
           | Some order_min_size \<Rightarrow>
               let kept_targets = filter (\<lambda>(_, qty). order_min_size \<le> qty) requested
               in if kept_targets = []
                  then (if current_parent_qty < order_min_size
                        then \<lparr>requested_targets = requested, targets = [],
                          skipped_keys = map fst requested, consolidation_target = None\<rparr>
                        else case last_opt requested of
                            None \<Rightarrow> \<lparr>requested_targets = requested, targets = [], skipped_keys = [],
                              consolidation_target = None\<rparr>
                          | Some (target_key, _) \<Rightarrow>
                              \<lparr>requested_targets = requested, targets = [(target_key, current_parent_qty)],
                               skipped_keys = filter (\<lambda>key. key \<noteq> target_key) (map fst requested),
                               consolidation_target = Some target_key\<rparr>)
                  else let deepest_kept_key = map_option fst (last_opt kept_targets);
                           targets = kept_loop current_parent_qty deepest_kept_key 0 kept_targets;
                           skipped = filter (\<lambda>key. \<not> list_ex (\<lambda>(target_key, _). target_key = key) targets)
                             (map fst requested)
                       in \<lparr>requested_targets = requested, targets = targets, skipped_keys = skipped,
                            consolidation_target = (if skipped \<noteq> [] then deepest_kept_key else None)\<rparr>)"

definition trade_builder_ladder_rule_weight :: "('ts, 'j) trade_builder_order \<Rightarrow> f64 option" where
  "trade_builder_ladder_rule_weight order =
     filter_opt (\<lambda>value. is_finite value \<and> 0 < value) (o_exit_ladder_size_pct order)"

definition trade_builder_ladder_rule_target_plan ::
    "price_exit_rule list \<Rightarrow> f64 \<Rightarrow> f64 option \<Rightarrow> nat ladder_target_plan" where
  "trade_builder_ladder_rule_target_plan rules canonical_entry_qty order_min_size =
    (let weighted_rules = zip [0..<length rules] (map per_size_pct rules)
     in trade_builder_plan_weighted_ladder_targets weighted_rules canonical_entry_qty order_min_size)"

definition i32_max :: int where "i32_max = 2 ^ 31 - 1"

text \<open>Rust sorts stably by the key, as does \<^const>\<open>sort_key\<close>.\<close>

definition trade_builder_ladder_family_target_plan ::
    "('ts, 'j) trade_builder_order list \<Rightarrow> f64 \<Rightarrow> f64 option \<Rightarrow> i64 ladder_target_plan" where
  "trade_builder_ladder_family_target_plan family_children current_parent_qty order_min_size =
    (let weighted_children = List.map_filter (\<lambda>child.
           map_option (\<lambda>weight_pct. (o_id child, weight_pct)) (trade_builder_ladder_rule_weight child)) family_children;
         weighted_children = sort_key (\<lambda>(order_id, _).
           case find (\<lambda>child. o_id child = order_id) family_children of
             Some child \<Rightarrow> (unwrap_or i32_max (o_exit_ladder_index child), o_id child)
           | None \<Rightarrow> (i32_max, order_id)) weighted_children
     in trade_builder_plan_weighted_ladder_targets weighted_children current_parent_qty order_min_size)"

definition trade_builder_ladder_family_target_qtys ::
    "('ts, 'j) trade_builder_order list \<Rightarrow> f64 \<Rightarrow> f64 option \<Rightarrow> (i64 \<times> f64) list" where
  "trade_builder_ladder_family_target_qtys family_children current_parent_qty order_min_size =
     targets (trade_builder_ladder_family_target_plan family_children current_parent_qty order_min_size)"

section \<open>Keys: every requested rung is kept or skipped\<close>

lemma subseq_set: "subseq xs ys \<Longrightarrow> set xs \<subseteq> set ys"
  by (induction rule: list_emb.induct) auto

lemma subseq_distinct: "subseq xs ys \<Longrightarrow> distinct ys \<Longrightarrow> distinct xs"
  by (induction rule: list_emb.induct) (auto dest: subseq_set)

lemma requested_loop_subseq: "subseq (map fst (requested_loop P W a ws)) (map fst ws)"
proof (induction ws arbitrary: a)
  case (Cons kw rest)
  obtain key w where kw: "kw = (key, w)" by force
  show ?case unfolding kw requested_loop.simps Let_def list.map fst_conv if_distrib [of "map fst"]
    by (rule if_split [THEN iffD2, OF conjI, OF impI impI]) (rule list_emb_Cons list_emb_Cons2 [where P = "(=)", OF refl], rule Cons.IH)+
qed simp

lemma kept_loop_subseq: "subseq (map fst (kept_loop P d a ws)) (map fst ws)"
proof (induction ws arbitrary: a)
  case (Cons kw rest)
  obtain key w where kw: "kw = (key, w)" by force
  show ?case unfolding kw kept_loop.simps Let_def list.map fst_conv if_distrib [of "map fst"]
    by (rule if_split [THEN iffD2, OF conjI, OF impI impI]) (rule list_emb_Cons list_emb_Cons2 [where P = "(=)", OF refl], rule Cons.IH)+
qed simp

lemmas requested_loop_keys = subsetD [OF subseq_set [OF requested_loop_subseq]]
lemmas kept_loop_keys = subsetD [OF subseq_set [OF kept_loop_subseq]]
lemmas requested_loop_distinct = subseq_distinct [OF requested_loop_subseq]
lemmas kept_loop_distinct = subseq_distinct [OF kept_loop_subseq]

lemma distinct_filter_keys: "distinct (map fst xs) \<Longrightarrow> distinct (map fst (filter f xs))"
  by (induction xs) auto

lemma list_ex_key: "list_ex (\<lambda>(k', _). k' = k) xs \<longleftrightarrow> k \<in> fst ` set xs"
  by (induction xs) auto

section \<open>Relative rounding errors\<close>

definition delta :: rat where "delta = 1 / 2 ^ 52"

lemma rr_rel:
  assumes "1 / 2 ^ 100 \<le> q"
  shows "rr q \<le> (1 + delta) * q" "(1 - delta) * q \<le> rr q"
proof -
  have q: "0 < q" using assms by (rule less_le_trans [rotated]) simp
  have "tiny \<le> eps * (1 / 2 ^ 100)" unfolding tiny_def eps_def by simp
  also have "\<dots> \<le> eps * q" using assms eps_pos by (intro mult_left_mono) auto
  finally have "eps * \<bar>q\<bar> + tiny \<le> 2 * (eps * q)" using q by simp
  also have "\<dots> = delta * q" by (simp add: eps_def delta_def)
  finally have "\<bar>rr q - q\<bar> \<le> delta * q" using rr_err [of q] by linarith
  then show "rr q \<le> (1 + delta) * q" "(1 - delta) * q \<le> rr q" by (simp_all add: abs_le_iff algebra_simps)
qed

lemma delta_pos: "0 < delta" "delta < 1"
  by (simp_all add: delta_def)

text \<open>Weights are percentages from a thousandth of a percent on; the parent has at most a
  billion shares.\<close>

definition weight_ok :: "rat \<Rightarrow> bool" where
  "weight_ok w \<longleftrightarrow> 1 / 1000 \<le> w \<and> w \<le> 100"

definition max_parent :: int where "max_parent = 100000000000"

definition facc :: "rat list \<Rightarrow> rat" where
  "facc ws = foldl (\<lambda>a w. rr (a + w)) 0 ws"

lemma facc_snoc: "facc (ws @ [w]) = rr (facc ws + w)"
  by (simp add: facc_def)

lemma facc_ge:
  assumes "\<forall>w \<in> set ws. weight_ok w"
  shows "0 \<le> facc ws \<and> (1 - delta) ^ length ws * sum_list ws \<le> facc ws"
  using assms
proof (induction ws rule: rev_induct)
  case (snoc w ws)
  then have IH: "0 \<le> facc ws" "(1 - delta) ^ length ws * sum_list ws \<le> facc ws" and w: "weight_ok w" by auto
  have "1 / 2 ^ 100 \<le> (1 / 1000 :: rat)" by simp
  then have "1 / 2 ^ 100 \<le> facc ws + w" using IH(1) w unfolding weight_ok_def by linarith
  note r = rr_rel(2) [OF this]
  have le1: "(1 - delta) ^ length ws \<le> 1" using delta_pos by (simp add: power_le_one)
  have "(1 - delta) ^ length ws * w \<le> w" using mult_right_mono [OF le1, of w] w by (simp add: weight_ok_def)
  then have "(1 - delta) ^ length ws * sum_list (ws @ [w]) \<le> facc ws + w"
    using IH by (simp add: distrib_left)
  then have "(1 - delta) * ((1 - delta) ^ length ws * sum_list (ws @ [w])) \<le> (1 - delta) * (facc ws + w)"
    using delta_pos by (intro mult_left_mono) auto
  moreover have "0 \<le> rr (facc ws + w)" using IH w by (intro rr_nonneg) (simp add: weight_ok_def)
  ultimately show ?case using r by (simp add: facc_snoc mult.assoc)
qed (simp add: facc_def)

lemma facc_le:
  assumes "\<forall>w \<in> set ws. weight_ok w" "length ws \<le> 5"
  shows "facc ws \<le> 101 * of_nat (length ws)"
  using assms
proof (induction ws rule: rev_induct)
  case (snoc w ws)
  then have IH: "facc ws \<le> 101 * of_nat (length ws)" and w: "0 \<le> w" "w \<le> 100"
    and n: "rat_of_nat (length ws) \<le> 5" by (auto simp: weight_ok_def)
  have "0 \<le> facc ws" using facc_ge [of ws] snoc.prems by simp
  then have x: "0 \<le> facc ws + w" "facc ws + w \<le> 40000000000" using IH w n by linarith+
  then have "rr (facc ws + w) \<le> facc ws + w + 1 / 100000" by (rule rr_close)
  then show ?case using IH w by (simp add: facc_snoc distrib_left)
qed (simp add: facc_def)

lemma fsum_facc:
  assumes "\<forall>w \<in> set ws. weight_ok w" "length ws \<le> 5"
  shows "fsum (map Fin ws) = Fin (facc ws)"
  using assms
proof (induction ws rule: rev_induct)
  case Nil
  then show ?case by (simp add: fsum_def facc_def zero_f64_def)
next
  case (snoc w ws)
  then have IH: "fsum (map Fin ws) = Fin (facc ws)" and w: "0 \<le> w" "w \<le> 100"
    and n: "rat_of_nat (length ws) \<le> 5" by (auto simp: weight_ok_def)
  have f: "0 \<le> facc ws" "facc ws \<le> 101 * of_nat (length ws)"
    using facc_ge [of ws] facc_le [of ws] snoc.prems by auto
  have x: "0 \<le> facc ws + w" "facc ws + w \<le> 100000000000000" using f w n by linarith+
  have "fsum (map Fin (ws @ [w])) = Fin (facc ws) + Fin w" using IH by (simp add: fsum_def)
  also have "\<dots> = Fin (rr (facc ws + w))" using x by (simp add: plus_f64_def f64_add_def rnd_Fin)
  finally show ?case by (simp add: facc_snoc)
qed

text \<open>The sum of all weights is at least the sum without the last, up to rounding.\<close>

lemma facc_prefix:
  assumes "\<forall>w \<in> set ws. weight_ok w" "length ws \<le> 5" "ws \<noteq> []"
  shows "(1 - delta) ^ 4 * sum_list (butlast ws) \<le> facc ws" "1 / 2000 \<le> facc ws" "facc ws \<le> 505"
proof -
  let ?p = "butlast ws"
  have p: "\<forall>w \<in> set ?p. weight_ok w" using assms by (auto dest: in_set_butlastD)
  have l: "weight_ok (last ws)" using assms by simp
  have ws: "ws = ?p @ [last ws]" using assms by simp
  have n: "length ?p \<le> 4" using assms by simp
  have f: "0 \<le> facc ?p" "(1 - delta) ^ length ?p * sum_list ?p \<le> facc ?p" using facc_ge [OF p] by auto
  have "facc ?p = rr (facc ?p)"
    by (cases "?p" rule: rev_cases) (simp_all add: facc_snoc facc_def)
  also have "\<dots> \<le> rr (facc ?p + last ws)" using l by (intro rr_mono) (simp add: weight_ok_def)
  also have e: "\<dots> = facc ws" using facc_snoc [of ?p "last ws"] ws by simp
  finally have "facc ?p \<le> facc ws" .
  moreover have "(1 - delta) ^ 4 * sum_list ?p \<le> (1 - delta) ^ length ?p * sum_list ?p"
    using p n delta_pos by (intro mult_right_mono power_decreasing sum_list_nonneg) (auto simp: weight_ok_def)
  ultimately show "(1 - delta) ^ 4 * sum_list ?p \<le> facc ws" using f by linarith
  have "1 / 2 ^ 100 \<le> (1 / 1000 :: rat)" by simp
  then have "1 / 2 ^ 100 \<le> facc ?p + last ws" using f l unfolding weight_ok_def by linarith
  from rr_rel(2) [OF this] have "(1 - delta) * (facc ?p + last ws) \<le> facc ws" using e by simp
  moreover have "1 / 2 * (facc ?p + last ws) \<le> (1 - delta) * (facc ?p + last ws)"
    using f l by (intro mult_right_mono) (simp_all add: delta_def weight_ok_def)
  ultimately have h: "1 / 2 * (facc ?p + last ws) \<le> facc ws" by (rule order_trans [rotated])
  have "1 / 1000 \<le> facc ?p + last ws" using f(1) l by (simp add: weight_ok_def)
  then have "1 / 2000 \<le> 1 / 2 * (facc ?p + last ws)" by simp
  then show "1 / 2000 \<le> facc ws" using h by (rule order_trans)
  have "rat_of_nat (length ws) \<le> 5" using assms(2) by simp
  then show "facc ws \<le> 505" using facc_le [OF assms(1,2)] by linarith
qed

text \<open>One rung of the first loop, in cents.\<close>

lemma rung_cents:
  assumes P: "1 \<le> P" "P \<le> max_parent" and W: "1 / 2000 \<le> W" "W \<le> 505" and w: "weight_ok w" "w \<le> 2 * W"
  obtains k where "round_trade_builder_share_qty (cents P * (Fin w / Fin W)) = cents k" "0 \<le> k"
    "of_int k \<le> of_int P * (w / W) * (1 + delta) ^ 3 + 501 / 1000"
proof -
  let ?p = "rr (of_int P / 100)" and ?q = "rr (w / W)"
  have Wp: "0 < W" and wp: "0 < w" using W w by (auto simp: weight_ok_def)
  have Pr: "1 \<le> rat_of_int P" "rat_of_int P \<le> 100000000000"
    using P of_int_le_iff [of P 100000000000, where 'a = rat] by (auto simp: max_parent_def)
  have "1 / 1000 * (1 / 505) \<le> w * (1 / W)"
    using W w Wp by (intro mult_mono) (auto simp: weight_ok_def frac_le)
  then have lo: "1 / 505000 \<le> w / W" by simp
  have w0: "0 \<le> w / W" using lo by linarith
  have hi: "w / W \<le> 2" using w Wp by (simp add: pos_divide_le_eq)
  have d: "delta \<le> 1" by (simp add: delta_def)
  have t: "(1 / 2 ^ 100 :: rat) \<le> 1 / 505000" "(1 / 2 ^ 100 :: rat) \<le> 1 / 100" "(1 / 2 ^ 100 :: rat) \<le> 1 / 101010000"
    by simp_all
  have p: "?p \<le> (1 + delta) * (of_int P / 100)" "1 / 200 \<le> ?p"
    using rr_rel [of "of_int P / 100"] rr_mono [of "1 / 100" "of_int P / 100"] rr_close [of "1 / 100"] Pr t by simp_all
  have q: "?q \<le> (1 + delta) * (w / W)" "?q \<le> 4" "1 / 1010000 \<le> ?q"
  proof -
    have r: "1 / 2 ^ 100 \<le> w / W" using t lo by linarith
    show qq: "?q \<le> (1 + delta) * (w / W)" by (rule rr_rel [OF r])
    have "(1 + delta) * (w / W) \<le> 2 * 2" using d hi lo delta_pos by (intro mult_mono) linarith+
    with qq show "?q \<le> 4" by simp
    have "1 / 2 * (w / W) \<le> (1 - delta) * (w / W)" by (rule mult_right_mono [OF _ w0]) (simp add: delta_def)
    with rr_rel(2) [OF r] lo show "1 / 1010000 \<le> ?q" by linarith
  qed
  have "(1 + delta) * (of_int P / 100) \<le> 2 * 1000000000" using d Pr by (intro mult_mono) auto
  then have pp: "?p \<le> 2000000000" using p by linarith
  have x: "?p * ?q \<le> 2000000000 * 4" using pp q p by (intro mult_mono) auto
  have "1 / 200 * (1 / 1010000) \<le> ?p * ?q" using p q by (intro mult_mono) auto
  then have x0: "1 / 202000000 \<le> ?p * ?q" by simp
  have xr: "1 / 2 ^ 100 \<le> ?p * ?q" using x0 by (rule order_trans [rotated]) simp
  have wW: "Fin w / Fin W = Fin ?q"
    using Wp hi lo by (simp add: mul_pos_cases rnd_Fin)
  have mul: "cents P * (Fin w / Fin W) = Fin (rr (?p * ?q))"
  proof -
    have "0 < ?q" using q by linarith
    then show ?thesis unfolding wW cents_def using x x0 by (simp add: mul_pos_cases rnd_Fin)
  qed
  have v: "0 \<le> rr (?p * ?q)" "rr (?p * ?q) \<le> 9999999999"
    using rr_close [of "?p * ?q"] x x0 by linarith+
  obtain k where k: "0 \<le> k" "round_trade_builder_share_qty (Fin (rr (?p * ?q))) = cents k"
    "of_int k - 501 / 1000 \<le> rr (?p * ?q) * 100"
    using round_on_grid [OF v] by metis
  have "rr (?p * ?q) \<le> (1 + delta) * (?p * ?q)" by (rule rr_rel [OF xr])
  also have "\<dots> \<le> (1 + delta) * (((1 + delta) * (of_int P / 100)) * ((1 + delta) * (w / W)))"
    using p q Pr delta_pos lo by (intro mult_left_mono mult_mono) auto
  also have "\<dots> = of_int P * (w / W) * (1 + delta) ^ 3 / 100" by (simp add: power3_eq_cube mult_ac)
  finally have "rr (?p * ?q) * 100 \<le> of_int P * (w / W) * (1 + delta) ^ 3" by (simp only: pos_le_divide_eq zero_less_numeral)
  then have "of_int k - 501 / 1000 \<le> of_int P * (w / W) * (1 + delta) ^ 3" using k(3) by (rule order_trans [rotated])
  then have "of_int k \<le> of_int P * (w / W) * (1 + delta) ^ 3 + 501 / 1000" by (simp only: diff_le_eq)
  with k that show ?thesis unfolding mul by blast
qed

section \<open>The loops in cents\<close>

definition in_cents :: "('k \<times> int) list \<Rightarrow> ('k \<times> f64) list" where
  "in_cents ts = map (\<lambda>(k, t). (k, cents t)) ts"

lemma in_cents_simps [simp]: "in_cents [] = []" "in_cents ((k, t) # ts) = (k, cents t) # in_cents ts"
  "in_cents ts = [] \<longleftrightarrow> ts = []" "map fst (in_cents ts) = map fst ts"
  by (auto simp: in_cents_def)

definition qty_sum :: "('k \<times> int) list \<Rightarrow> int" where "qty_sum ts = sum_list (map snd ts)"

lemma qty_sum_simps [simp]: "qty_sum [] = 0" "qty_sum ((k, t) # ts) = t + qty_sum ts"
  "qty_sum (xs @ ys) = qty_sum xs + qty_sum ys"
  by (simp_all add: qty_sum_def)

definition positive_qtys :: "('k \<times> int) list \<Rightarrow> bool" where
  "positive_qtys ts \<longleftrightarrow> (\<forall>(k, t) \<in> set ts. 0 < t)"

lemma positive_qtys_simps [simp]: "positive_qtys []" "positive_qtys ((k, t) # ts) \<longleftrightarrow> 0 < t \<and> positive_qtys ts"
  by (simp_all add: positive_qtys_def)

lemma qty_sum_nonneg: "positive_qtys ts \<Longrightarrow> 0 \<le> qty_sum ts"
  by (induction ts) auto

lemma qty_sum_filter: "positive_qtys ts \<Longrightarrow> qty_sum (filter f ts) \<le> qty_sum ts \<and> positive_qtys (filter f ts)"
  by (induction ts) auto

lemma round_fmax: "round_trade_builder_share_qty (fmax x 0) = round_trade_builder_share_qty x"
  using fmax_0_idem [OF fmax_0_nonneg [of x]] by (simp add: round_trade_builder_share_qty_def)

definition rung_max :: int where "rung_max = 200000000010"

text \<open>The first loop: \<open>A\<close> is what the rungs before the last one got.\<close>

definition weights :: "('k \<times> rat) list \<Rightarrow> ('k \<times> f64) list" where
  "weights us = map (\<lambda>(k, w). (k, Fin w)) us"

lemma weights_Nil [simp]: "weights us = [] \<longleftrightarrow> us = []"
  by (simp add: weights_def)

definition rungs_bound :: "int \<Rightarrow> rat \<Rightarrow> rat list \<Rightarrow> rat" where
  "rungs_bound P W ws = of_int P * (sum_list ws / W) * (1 + delta) ^ 3 + 501 / 1000 * of_nat (length ws)"

lemma rungs_bound_Cons: "rungs_bound P W (w # ws) = (of_int P * (w / W) * (1 + delta) ^ 3 + 501 / 1000) + rungs_bound P W ws"
  by (simp add: rungs_bound_def add_divide_distrib algebra_simps)

lemma rung_term_nonneg: "1 \<le> P \<Longrightarrow> 0 < W \<Longrightarrow> 0 \<le> w \<Longrightarrow> 0 \<le> of_int P * (w / W) * (1 + delta) ^ 3 + 501 / 1000"
  using delta_pos by (intro add_nonneg_nonneg mult_nonneg_nonneg zero_le_power) auto

lemma rung_le_max:
  assumes "1 \<le> P" "P \<le> max_parent" "0 < W" "0 \<le> w" "w \<le> 2 * W"
    "of_int k \<le> of_int P * (w / W) * (1 + delta) ^ 3 + 501 / 1000"
  shows "k \<le> rung_max"
proof -
  have P: "0 \<le> rat_of_int P" "rat_of_int P \<le> 100000000000"
    using assms of_int_le_iff [of P 100000000000, where 'a = rat] by (auto simp: max_parent_def)
  have w: "0 \<le> w / W" "w / W \<le> 2" using assms by (simp_all add: pos_divide_le_eq)
  define x where "x = of_int P * (w / W) * (1 + delta) ^ 3"
  have "x \<le> 100000000000 * 2 * (1 + 1 / 100000000000)"
    unfolding x_def using P w by (intro mult_mono) (simp_all add: delta_def power3_eq_cube)
  then have "x \<le> 200000000002" by simp
  then have "rat_of_int k \<le> 200000000010" using assms(6) [folded x_def] by linarith
  then show ?thesis using of_int_le_iff [of k 200000000010, where 'a = rat] by (simp add: rung_max_def)
qed

lemma requested_loop_cents:
  assumes "1 \<le> P" "P \<le> max_parent" "1 / 2000 \<le> W" "W \<le> 505"
    and "\<forall>(k, w) \<in> set us. weight_ok w \<and> w \<le> 2 * W"
    and "us \<noteq> []" "0 \<le> a" "a + int (length us) * rung_max \<le> 2 * max_cents"
  shows "\<exists>ts A. requested_loop (cents P) (Fin W) (cents a) (weights us) = in_cents ts \<and> positive_qtys ts \<and>
    0 \<le> A \<and> of_int A \<le> rungs_bound P W (butlast (map snd us)) \<and>
    qty_sum ts = A + max 0 (P - (a + A)) \<and>
    (a + A < P \<longrightarrow> ts \<noteq> [] \<and> snd (last ts) = P - (a + A))"
  using assms(5-8)
proof (induction us arbitrary: a)
  case (Cons u us)
  obtain key w where u: "u = (key, w)" by force
  have w: "weight_ok w" "w \<le> 2 * W" "0 \<le> w" using Cons.prems(1) by (auto simp: u weight_ok_def)
  have W0: "0 < W" using assms(3) by simp
  have rm: "0 \<le> rung_max" by (simp add: rung_max_def)
  have PM: "P \<le> 2 * max_cents" using assms(2) by (simp add: max_parent_def max_cents_def)
  show ?case
  proof (cases "us = []")
    case True
    have am: "a \<le> 2 * max_cents" using Cons.prems(4) rm True by simp
    have r: "round_trade_builder_share_qty (fmax (cents P - cents a) 0) = cents (max 0 (P - a))"
      using assms(1) PM Cons.prems(3) am by (intro round_cents_monus) auto
    have pos: "cents (max 0 (P - a)) \<le> 0 \<longleftrightarrow> max 0 (P - a) = 0"
      using PM Cons.prems(3) by (intro cents_pos(2)) (auto simp: max_cents_def)
    let ?ts = "if P - a \<le> 0 then [] else [(key, P - a)]"
    have "requested_loop (cents P) (Fin W) (cents a) (weights (u # us)) = in_cents ?ts"
      using True r pos by (simp add: u weights_def)
    then show ?thesis using True by (intro exI [of _ ?ts] exI [of _ "0::int"]) (auto simp: rungs_bound_def)
  next
    case False
    obtain k where k: "round_trade_builder_share_qty (cents P * (Fin w / Fin W)) = cents k" "0 \<le> k"
      "of_int k \<le> of_int P * (w / W) * (1 + delta) ^ 3 + 501 / 1000"
      using rung_cents [OF assms(1-4) w(1,2)] by metis
    have kr: "k \<le> rung_max" by (rule rung_le_max [OF assms(1,2) W0 w(3,2) k(3)])
    have len: "int (length (u # us)) * rung_max = rung_max + int (length us) * rung_max"
      by (simp add: distrib_right)
    have "0 \<le> int (length us) * rung_max" using rm by simp
    then have ak: "a + k + int (length us) * rung_max \<le> 2 * max_cents" "a + k \<le> 2 * max_cents" "k \<le> 2 * max_cents"
      using Cons.prems(3,4) kr k(2) len by linarith+
    have "cents k \<le> 0 \<longleftrightarrow> k = 0" using k ak by (intro cents_pos(2)) auto
    moreover have "round_trade_builder_share_qty (fmax (cents a + cents k) 0) = cents (a + k)"
      unfolding round_fmax using Cons.prems(3) k ak by (intro round_cents_add) auto
    ultimately have step: "requested_loop (cents P) (Fin W) (cents a) (weights (u # us)) =
        (if k = 0 then requested_loop (cents P) (Fin W) (cents (a + k)) (weights us)
         else (key, cents k) # requested_loop (cents P) (Fin W) (cents (a + k)) (weights us))"
      using False k(1) by (simp add: u weights_def)
    obtain ts A where IH: "requested_loop (cents P) (Fin W) (cents (a + k)) (weights us) = in_cents ts"
        "positive_qtys ts" "0 \<le> A" "of_int A \<le> rungs_bound P W (butlast (map snd us))"
        "qty_sum ts = A + max 0 (P - (a + k + A))"
        "a + k + A < P \<longrightarrow> ts \<noteq> [] \<and> snd (last ts) = P - (a + k + A)"
      using Cons.IH [of "a + k"] Cons.prems False k(2) ak by auto
    have "rat_of_int (k + A) \<le> rungs_bound P W (butlast (map snd (u # us)))"
      using k(3) IH(4) False by (simp add: u rungs_bound_Cons)
    moreover have "k \<noteq> 0 \<Longrightarrow> 0 < k" using k by simp
    ultimately show ?thesis unfolding step
      using IH k(2) by (intro exI [of _ "if k = 0 then ts else (key, k) # ts"] exI [of _ "k + A"])
        (auto simp: algebra_simps)
  qed
qed simp

text \<open>The second loop: with distinct keys only the last rung changes.\<close>

lemma kept_loop_cents:
  assumes "distinct (map fst (ts @ [(d, t)]))" "positive_qtys (ts @ [(d, t)])" "0 \<le> a"
    "a + qty_sum ts \<le> 2 * max_cents" "0 \<le> P" "P \<le> max_parent"
  shows "kept_loop (cents P) (Some d) (cents a) (in_cents (ts @ [(d, t)])) =
    in_cents (ts @ (if a + qty_sum ts < P then [(d, P - (a + qty_sum ts))] else []))"
  using assms
proof (induction ts arbitrary: a)
  case Nil
  have P: "P \<le> 2 * max_cents" using Nil.prems by (simp add: max_parent_def max_cents_def)
  have r: "round_trade_builder_share_qty (fmax (cents P - cents a) 0) = cents (max 0 (P - a))"
    using Nil.prems P by (intro round_cents_monus) auto
  have "cents (max 0 (P - a)) \<le> 0 \<longleftrightarrow> max 0 (P - a) = 0" using P Nil.prems by (intro cents_pos(2)) (auto simp: max_cents_def)
  with r show ?case by auto
next
  case (Cons x ts)
  obtain key k where x: "x = (key, k)" by force
  have k: "0 < k" "key \<noteq> d" using Cons.prems(1,2) by (auto simp: x positive_qtys_def)
  have p: "positive_qtys ts" using Cons.prems(2) by (auto simp: x positive_qtys_def)
  have ak: "a + k \<le> 2 * max_cents" "k \<le> 2 * max_cents"
    using Cons.prems(3,4) qty_sum_nonneg [OF p] k by (simp_all add: x)
  have "\<not> cents k \<le> 0" using k ak cents_pos(2) [of k] by auto
  moreover have "round_trade_builder_share_qty (fmax (cents a + cents k) 0) = cents (a + k)"
    unfolding round_fmax using Cons.prems(3) k ak by (intro round_cents_add) auto
  ultimately have "kept_loop (cents P) (Some d) (cents a) (in_cents ((x # ts) @ [(d, t)])) =
      (key, cents k) # kept_loop (cents P) (Some d) (cents (a + k)) (in_cents (ts @ [(d, t)]))"
    using k(2) by (simp add: x)
  also have "\<dots> = in_cents ((x # ts) @ (if a + qty_sum (x # ts) < P then [(d, P - (a + qty_sum (x # ts)))] else []))"
    using Cons.IH [of "a + k"] Cons.prems k by (simp add: x add.assoc)
  finally show ?case .
qed

section \<open>Conservation of the parent quantity\<close>

lemma rungs_total:
  assumes "1 \<le> P" "P \<le> max_parent" "\<forall>w \<in> set ws. weight_ok w" "length ws \<le> 5" "ws \<noteq> []"
    and "of_int A \<le> rungs_bound P (facc ws) (butlast ws)"
  shows "A \<le> P + 2"
proof -
  let ?s = "sum_list (butlast ws)" and ?W = "facc ws"
  note f = facc_prefix [OF assms(3-5)]
  have W: "0 < ?W" using f(2) by simp
  have d: "1 / (1 - delta) ^ 4 * (1 + delta) ^ 3 \<le> 1 + 1 / 100000000000000" "0 < (1 - delta) ^ 4"
    by (simp_all add: delta_def eval_nat_numeral)
  have "?s / ?W \<le> 1 / (1 - delta) ^ 4" using f(1) W d(2) by (simp add: field_simps)
  moreover have "0 \<le> (1 + delta) ^ 3" using delta_pos by simp
  ultimately have "?s / ?W * (1 + delta) ^ 3 \<le> 1 / (1 - delta) ^ 4 * (1 + delta) ^ 3" by (rule mult_right_mono)
  then have q: "?s / ?W * (1 + delta) ^ 3 \<le> 1 + 1 / 100000000000000" using d(1) by (rule order_trans)
  have P: "0 \<le> rat_of_int P" "rat_of_int P \<le> 100000000000"
    using assms of_int_le_iff [of P 100000000000, where 'a = rat] by (auto simp: max_parent_def)
  define y where "y = of_int P * (?s / ?W * (1 + delta) ^ 3)"
  have "y \<le> of_int P * (1 + 1 / 100000000000000)"
    unfolding y_def using q P(1) by (rule mult_left_mono)
  moreover have "of_int P * (1 + 1 / 100000000000000) \<le> rat_of_int P + 1 / 100" using P by (simp add: distrib_left)
  moreover have "rat_of_nat (length (butlast ws)) \<le> 4" using assms(4) by simp
  ultimately have "y + 501 / 1000 * of_nat (length (butlast ws)) < of_int P + 3" by linarith
  moreover have "rungs_bound P ?W (butlast ws) = y + 501 / 1000 * of_nat (length (butlast ws))"
    unfolding rungs_bound_def y_def by (simp only: mult.assoc)
  ultimately have "rat_of_int A < of_int P + 3" using assms(6) by linarith
  then show ?thesis using of_int_less_iff [of A "P + 3", where 'a = rat] by simp
qed

text \<open>The rungs that keep their quantity, all but the deepest, got no more than the first loop
  assigned before its last rung.\<close>

lemma filter_butlast_sum:
  assumes "positive_qtys ts" "qty_sum ts = A + max 0 (P - A)" "A < P \<longrightarrow> ts \<noteq> [] \<and> snd (last ts) = P - A"
    "filter f ts = ks @ [(d, t)]"
  shows "qty_sum ks \<le> A" "positive_qtys (ks @ [(d, t)])"
proof -
  have sf: "qty_sum (ks @ [(d, t)]) \<le> qty_sum ts" "positive_qtys (ks @ [(d, t)])"
    using qty_sum_filter [OF assms(1), of f] assms(4) by auto
  show "positive_qtys (ks @ [(d, t)])" by (rule sf)
  have t: "0 < t" using sf(2) by (auto simp: positive_qtys_def)
  show "qty_sum ks \<le> A"
  proof (cases "A < P")
    case False
    then show ?thesis using sf(1) t assms(2) by simp
  next
    case True
    then obtain us l where ts: "ts = us @ [l]" and l: "snd l = P - A"
      using assms(3) by (cases ts rule: rev_cases) auto
    have us: "qty_sum us = A" "positive_qtys us"
      using assms(1,2) True ts l by (auto simp: qty_sum_def positive_qtys_def)
    show ?thesis
    proof (cases "f l")
      case True
      then have "ks = filter f us" using assms(4) ts by simp
      then show ?thesis using qty_sum_filter [OF us(2), of f] us(1) by simp
    next
      case False
      then have "filter f us = ks @ [(d, t)]" using assms(4) ts by simp
      then show ?thesis using qty_sum_filter [OF us(2), of f] us(1) t by simp
    qed
  qed
qed

lemma filter_in_cents: "filter (\<lambda>(_, q). m \<le> q) (in_cents ts) = in_cents (filter (\<lambda>(_, t). m \<le> cents t) ts)"
  by (induction ts) auto

lemma last_opt_in_cents: "last_opt (in_cents ts) = map_option (\<lambda>(k, t). (k, cents t)) (last_opt ts)"
  by (simp add: last_opt_def in_cents_def last_map)

lemma in_cents_snoc [simp]: "in_cents (ts @ [(d, t)]) = in_cents ts @ [(d, cents t)]"
  by (simp add: in_cents_def)

text \<open>What a plan promises: the targets are positive grid quantities that add up to the parent, or
  to one or two cents more when the shares of the rungs were rounded up.\<close>

definition conserves :: "int \<Rightarrow> ('k \<times> f64) list \<Rightarrow> bool" where
  "conserves P xs \<longleftrightarrow> (\<exists>ts. xs = in_cents ts \<and> positive_qtys ts \<and>
     (xs \<noteq> [] \<longrightarrow> P \<le> qty_sum ts \<and> qty_sum ts \<le> P + 2))"

lemma conservesI: "positive_qtys ts \<Longrightarrow> (ts \<noteq> [] \<Longrightarrow> P \<le> qty_sum ts \<and> qty_sum ts \<le> P + 2) \<Longrightarrow> conserves P (in_cents ts)"
  unfolding conserves_def by (intro exI [of _ ts]) auto

lemma conserves_Nil [simp]: "conserves P []"
  using conservesI [of "[]" P] by simp

lemma cents_tolerance: "0 \<le> P \<Longrightarrow> \<not> cents P \<le> exit_qty_tolerance \<Longrightarrow> 1 \<le> P"
proof (rule ccontr)
  assume "0 \<le> P" "\<not> cents P \<le> exit_qty_tolerance" "\<not> 1 \<le> P"
  then have "P = 0" by simp
  with \<open>\<not> cents P \<le> exit_qty_tolerance\<close> show False
    by (simp add: exit_qty_tolerance_def Fin0_cmp lit_def rnd_nonneg)
qed

lemma weight_le_facc:
  assumes "\<forall>w \<in> set ws. weight_ok w" "length ws \<le> 5" "w \<in> set ws"
  shows "w \<le> 2 * facc ws"
proof -
  have "(1 - delta) ^ 5 \<le> (1 - delta) ^ length ws"
    using assms(2) delta_pos by (intro power_decreasing) auto
  moreover have "1 / 2 \<le> (1 - delta) ^ 5" by (simp add: delta_def eval_nat_numeral)
  ultimately have h: "1 / 2 \<le> (1 - delta) ^ length ws" by linarith
  have s: "0 \<le> sum_list ws" "w \<le> sum_list ws"
    using assms by (auto intro!: sum_list_nonneg member_le_sum_list simp: weight_ok_def)
  have "1 / 2 * sum_list ws \<le> (1 - delta) ^ length ws * sum_list ws" using h s(1) by (rule mult_right_mono)
  then show ?thesis using facc_ge [OF assms(1)] s by linarith
qed

lemma plan_conserves:
  assumes P: "0 \<le> P" "P \<le> max_parent" and us: "distinct (map fst us)" "length us \<le> 5"
    "\<forall>(k, w) \<in> set us. weight_ok w"
  shows "conserves P (targets (trade_builder_plan_weighted_ladder_targets (weights us) (cents P) m))"
proof -
  let ?ws = "map snd us" and ?W = "facc (map snd us)"
  have ws: "\<forall>w \<in> set ?ws. weight_ok w" "length ?ws \<le> 5" using us by auto
  have PM: "P \<le> 2 * max_cents" using P by (simp add: max_parent_def max_cents_def)
  have rP: "round_trade_builder_share_qty (fmax (cents P) 0) = cents P"
    unfolding round_fmax by (rule round_cents [OF P(1) PM])
  have fs: "fsum (map snd (weights us)) = Fin ?W"
    using fsum_facc [OF ws] by (simp add: weights_def comp_def case_prod_unfold)
  show ?thesis
  proof (cases "cents P \<le> exit_qty_tolerance \<or> us = []")
    case True
    then show ?thesis
      by (auto simp: trade_builder_plan_weighted_ladder_targets_def rP weights_def)
  next
    case False
    then have ne: "us \<noteq> []" "?ws \<noteq> []" and P1: "1 \<le> P" using cents_tolerance [OF P(1)] by auto
    note f = facc_prefix [OF ws ne(2)]
    have w2: "\<forall>(k, w) \<in> set us. weight_ok w \<and> w \<le> 2 * ?W"
      using us(3) weight_le_facc [OF ws] by force
    have "int (length us) * rung_max \<le> 5 * rung_max" using us(2) by (intro mult_right_mono) (auto simp: rung_max_def)
    then have "0 + int (length us) * rung_max \<le> 2 * max_cents" by (simp add: rung_max_def max_cents_def)
    from requested_loop_cents [OF P1 P(2) f(2,3) w2 ne(1) order_refl this]
    obtain ts A where r: "requested_loop (cents P) (Fin ?W) 0 (weights us) = in_cents ts" "positive_qtys ts" "0 \<le> A"
        "of_int A \<le> rungs_bound P ?W (butlast ?ws)" "qty_sum ts = A + max 0 (P - A)"
        "A < P \<longrightarrow> ts \<noteq> [] \<and> snd (last ts) = P - A"
      by (auto simp: zero_f64_def)
    have A2: "A \<le> P + 2" using rungs_total [OF P1 P(2) ws ne(2) r(4)] .
    have dts: "distinct (map fst ts)"
      using requested_loop_distinct [of "weights us" "cents P" "Fin ?W" 0] us(1) r(1)
      by (simp add: weights_def comp_def case_prod_unfold)
    have kept: "conserves P (kept_loop (cents P) (map_option fst (last_opt (in_cents (filter g ts)))) 0 (in_cents (filter g ts)))"
      for g
    proof (cases "filter g ts" rule: rev_cases)
      case (snoc ks l)
      obtain d t where l: "l = (d, t)" by force
      note fb = filter_butlast_sum [OF r(2,5,6) snoc [unfolded l]]
      have "distinct (map fst (ks @ [(d, t)]))"
        using distinct_filter_keys [OF dts, of g] snoc l by metis
      moreover have "0 + qty_sum ks \<le> 2 * max_cents"
        using fb(1) A2 P(2) by (simp add: max_parent_def max_cents_def)
      ultimately have k: "kept_loop (cents P) (Some d) (cents 0) (in_cents (ks @ [(d, t)])) =
          in_cents (ks @ (if 0 + qty_sum ks < P then [(d, P - (0 + qty_sum ks))] else []))"
        using fb(2) P by (intro kept_loop_cents) auto
      have "positive_qtys ks" using fb(2) by (simp add: positive_qtys_def)
      then have "conserves P (in_cents (ks @ (if 0 + qty_sum ks < P then [(d, P - (0 + qty_sum ks))] else [])))"
        using fb(1) A2 by (intro conservesI) (auto simp: positive_qtys_def)
      then show ?thesis using k by (simp add: snoc l last_opt_def zero_f64_def)
    qed simp
    have all: "conserves P (in_cents ts)" using r(2,3,5) A2 by (intro conservesI) auto
    have one: "conserves P [(key, cents P)]" for key
      using conservesI [of "[(key, P)]" P] P1 by simp
    have "\<not> Fin ?W \<le> 0" using f(2) by simp
    with False ne(1) show ?thesis
      using all kept one
      by (auto simp: trade_builder_plan_weighted_ladder_targets_def rP weights_def [symmetric] fs r(1)
          filter_in_cents Let_def split: option.split)
  qed
qed

section \<open>Validation, exactly\<close>

definition price_rule_ok :: "price_exit_rule \<Rightarrow> bool" where
  "price_rule_ok r \<longleftrightarrow> is_finite (per_price r) \<and> 0 < per_price r \<and> per_price r \<le> 1 \<and>
     is_finite (per_size_pct r) \<and> 0 < per_size_pct r \<and> per_size_pct r \<le> lit 100"

definition price_before :: "string \<Rightarrow> f64 \<Rightarrow> f64 \<Rightarrow> bool" where
  "price_before family p q \<longleftrightarrow> (if family = ladder_kind_tp then p < q else q < p)"

lemma price_before_trans: "transp (price_before family)"
  unfolding transp_def price_before_def using f64_lt_le_trans f64_lt_imp_le by metis

lemma price_rule_checks_ok: "price_rule_checks family i prev tot rules = Inr t \<longleftrightarrow>
    (\<forall>r \<in> set rules. price_rule_ok r) \<and>
    sorted_wrt (price_before family) (case prev of None \<Rightarrow> map per_price rules | Some p \<Rightarrow> p # map per_price rules) \<and>
    t = foldl (+) tot (map per_size_pct rules)"
proof (induction family i prev tot rules rule: price_rule_checks.induct)
  case (2 family i prev tot rule rules)
  have e: "price_rule_checks family i prev tot (rule # rules) = Inr t \<longleftrightarrow>
      price_rule_ok rule \<and> (case prev of None \<Rightarrow> True | Some p \<Rightarrow> price_before family p (per_price rule)) \<and>
      price_rule_checks family (i + 1) (Some (per_price rule)) (tot + per_size_pct rule) rules = Inr t"
    by (cases "family = ladder_kind_tp") (auto simp: price_rule_ok_def price_before_def split: option.split)
  show ?case
  proof (cases "price_rule_ok rule \<and> (case prev of None \<Rightarrow> True | Some p \<Rightarrow> price_before family p (per_price rule))")
    case True
    then have "price_rule_checks family (i + 1) (Some (per_price rule)) (tot + per_size_pct rule) rules = Inr t \<longleftrightarrow>
        (\<forall>r \<in> set rules. price_rule_ok r) \<and> sorted_wrt (price_before family) (map per_price (rule # rules)) \<and>
        t = foldl (+) (tot + per_size_pct rule) (map per_size_pct rules)"
      by (subst "2.IH"; cases "family = ladder_kind_tp")
        (auto simp: price_rule_ok_def price_before_def split: option.splits)
    with True show ?thesis unfolding e
      by (cases prev) (auto intro: transpD [OF price_before_trans])
  next
    case False
    then show ?thesis unfolding e by (auto split: option.splits)
  qed
qed (auto split: option.splits)

section \<open>Properties\<close>

text \<open>C10: the ladder planner conserves the quantity of the parent. For a parent of up to a billion
  shares on the grid of cents and at most five rungs with distinct keys and weights between a
  thousandth and a hundred, whatever the minimum size: the targets are positive grid
  quantities, and when there are any they add up to at least the parent and at most two cents
  more.\<close>

theorem ladder_plan_conserves:
  assumes "0 \<le> P" "P \<le> max_parent" "distinct (map fst us)" "length us \<le> 5"
    "\<forall>(k, w) \<in> set us. weight_ok w"
  shows "conserves P (targets (trade_builder_plan_weighted_ladder_targets (weights us) (cents P) m))"
  by (rule plan_conserves [OF assms])

theorem ladder_plan_conserves_witness:
  "conserves 3 (targets (trade_builder_plan_weighted_ladder_targets
     (weights [(0, 20), (1, 20), (2, 20), (3, 20), (4::nat, 20)]) (cents 3) (Some (Fin 5))))"
  by (rule ladder_plan_conserves) (simp_all add: max_parent_def weight_ok_def)

text \<open>No rung is lost. Whatever the quantities, with distinct keys every rung the plan requested
  is either a target or skipped, never both, and no target has a key that was not requested.\<close>

lemma ladder_plan_partitions:
  fixes ws :: "('k \<times> f64) list" and q :: f64 and m :: "f64 option"
  assumes "distinct (map fst ws)"
  defines "p \<equiv> trade_builder_plan_weighted_ladder_targets ws q m"
  shows "set (map fst (requested_targets p)) = set (map fst (targets p)) \<union> set (skipped_keys p) \<and>
    set (map fst (targets p)) \<inter> set (skipped_keys p) = {} \<and> distinct (map fst (targets p))"
proof -
  define r where "r = requested_loop (round_trade_builder_share_qty (fmax q 0)) (fsum (map snd ws)) 0 ws"
  have d: "distinct (map fst r)" unfolding r_def by (rule requested_loop_distinct [OF assms(1)])
  have k: "fst ` set (kept_loop P o' 0 (filter g r)) \<subseteq> fst ` set r" for P o' g
    using kept_loop_keys [of _ P o' 0 "filter g r"] by force
  have kd: "distinct (map fst (kept_loop P o' 0 (filter g r)))" for P o' g
    by (rule kept_loop_distinct [OF distinct_filter_keys [OF d]])
  have l: "last_opt r = Some (a, b) \<Longrightarrow> a \<in> fst ` set r" for a b
    by (auto simp: last_opt_def split: if_splits) (metis fst_conv image_eqI last_in_set)
  have n: "last_opt r = None \<longleftrightarrow> r = []" by (simp add: last_opt_def)
  have diff: "fst ` set r = A \<union> {x \<in> fst ` set r. x \<notin> A}" if "A \<subseteq> fst ` set r" for A
    using that by blast
  show ?thesis
    unfolding p_def trade_builder_plan_weighted_ladder_targets_def Let_def r_def [symmetric]
    using d kd k diff [OF k] by (auto split: option.split prod.split simp: list_ex_key n dest: l)
qed

theorem ladder_plan_partitions_witness:
  "distinct (map fst (targets (trade_builder_plan_weighted_ladder_targets
     [(0::nat, Fin 40), (1, Fin 60)] (Fin 7) (Some (Fin 5)))))"
  using ladder_plan_partitions [of "[(0::nat, Fin 40), (1, Fin 60)]" "Fin 7" "Some (Fin 5)"] by simp

text \<open>The price rules accepted are exactly these: at most five, each with a price in (0, 1] and
  a size in (0, 100], prices strictly increasing for a take profit and strictly decreasing
  otherwise, and sizes that add up to 100 within a millionth unless there are none.\<close>

lemma price_rules_accepted:
  "validate_trade_builder_price_exit_rules rules family = Inr () \<longleftrightarrow>
    length rules \<le> 5 \<and> list_all price_rule_ok rules \<and>
    sorted_wrt (price_before family) (map per_price rules) \<and>
    (rules = [] \<or> \<bar>fsum (map per_size_pct rules) - lit 100\<bar> \<le> lit (1 / 1000000))"
proof (cases "price_rule_checks family 0 None 0 rules")
  case (Inl e)
  then show ?thesis
    using price_rule_checks_ok [of family 0 None 0 rules "foldl (+) 0 (map per_size_pct rules)"]
    by (auto simp: validate_trade_builder_price_exit_rules_def list_all_iff)
next
  case (Inr t)
  then show ?thesis
    using price_rule_checks_ok [of family 0 None 0 rules t]
    by (auto simp: validate_trade_builder_price_exit_rules_def ladder_max_rules_def fsum_def list_all_iff)
qed

end
