(* ===== verification/Effects.thy ===== *)
theory Effects
  imports F64
begin

text \<open>
  Functions with effects. An \<open>async\<close> function that writes to the database and may fail is a
  function from a state to a result and the next state; the operator \<open>?\<close> of the source is
  \<open>st_bind\<close>. The usual state is the list of operations sent to the database so far, and what the
  database answers is a parameter \<open>db\<close> that may depend on all of them: None is success, a
  message an error. \<open>emits P m\<close> says that \<open>m\<close> only appends operations that satisfy \<open>P\<close>,
  \<open>keeps I m\<close> that \<open>m\<close> preserves the invariant \<open>I\<close>, on success and on failure.
\<close>

type_synonym ('s, 'e, 'a) stm = "'s \<Rightarrow> ('e + 'a) \<times> 's"

definition st_return :: "'a \<Rightarrow> ('s, 'e, 'a) stm" where
  "st_return x = (\<lambda>s. (Inr x, s))"

definition st_raise :: "'e \<Rightarrow> ('s, 'e, 'a) stm" where
  "st_raise e = (\<lambda>s. (Inl e, s))"

definition st_bind :: "('s, 'e, 'a) stm \<Rightarrow> ('a \<Rightarrow> ('s, 'e, 'b) stm) \<Rightarrow> ('s, 'e, 'b) stm" where
  "st_bind m f = (\<lambda>s. case m s of (Inl e, s') \<Rightarrow> (Inl e, s') | (Inr x, s') \<Rightarrow> f x s')"

definition st_then :: "('s, 'e, 'a) stm \<Rightarrow> ('s, 'e, 'b) stm \<Rightarrow> ('s, 'e, 'b) stm" where
  "st_then m n = st_bind m (\<lambda>_. n)"

text \<open>A value that is a result already.\<close>

definition st_result :: "('e, 'a) result \<Rightarrow> ('s, 'e, 'a) stm" where
  "st_result r = (\<lambda>s. (r, s))"

text \<open>A loop that collects what its iterations return.\<close>

primrec st_collect :: "('a \<Rightarrow> ('s, 'e, 'b list) stm) \<Rightarrow> 'a list \<Rightarrow> ('s, 'e, 'b list) stm" where
  "st_collect f [] = st_return []"
| "st_collect f (x # xs) = st_bind (f x) (\<lambda>ys. st_bind (st_collect f xs) (\<lambda>zs. st_return (ys @ zs)))"

type_synonym 'op database = "'op list \<Rightarrow> 'op \<Rightarrow> string option"

definition send :: "'op database \<Rightarrow> 'op \<Rightarrow> ('op list, string, unit) stm" where
  "send db op = (\<lambda>ops. (case db ops op of None \<Rightarrow> Inr () | Some e \<Rightarrow> Inl e, ops @ [op]))"

text \<open>The values of the JSON objects that accompany an operation.\<close>

datatype event_value = EvStr string | EvOptStr "string option" | EvNum f64 | EvOptNum "f64 option"
  | EvId i64 | EvOptId "i64 option" | EvIds "i64 list" | EvCount nat | EvBool bool
  | EvNull | EvList "event_value list" | EvObj "(string \<times> event_value) list"

text \<open>Reading the state, a change of it that cannot fail, a query whose answer may depend on the state,
  and a call whose failure is dropped.\<close>

definition st_get :: "('s \<Rightarrow> ('s, 'e, 'a) stm) \<Rightarrow> ('s, 'e, 'a) stm" where
  "st_get f = (\<lambda>s. f s s)"

definition st_modify :: "('s \<Rightarrow> 's) \<Rightarrow> ('s, 'e, unit) stm" where
  "st_modify f = (\<lambda>s. (Inr (), f s))"

definition st_try :: "('s, 'e, 'a) stm \<Rightarrow> ('s, 'e, ('e, 'a) result) stm" where
  "st_try m = (\<lambda>s. case m s of (r, s') \<Rightarrow> (Inr r, s'))"

text \<open>A loop that carries an accumulator.\<close>

primrec st_fold :: "('a \<Rightarrow> 'b \<Rightarrow> ('s, 'e, 'b) stm) \<Rightarrow> 'a list \<Rightarrow> 'b \<Rightarrow> ('s, 'e, 'b) stm" where
  "st_fold f [] acc = st_return acc"
| "st_fold f (x # xs) acc = st_bind (f x acc) (st_fold f xs)"

section \<open>Emitted operations\<close>

definition emits :: "('op \<Rightarrow> bool) \<Rightarrow> ('op list, 'e, 'a) stm \<Rightarrow> bool" where
  "emits P m \<longleftrightarrow> (\<forall>s. \<exists>new. snd (m s) = s @ new \<and> list_all P new)"

lemma emitsI: "(\<And>s. \<exists>new. snd (m s) = s @ new \<and> list_all P new) \<Longrightarrow> emits P m"
  by (simp add: emits_def)

lemma emits_return [simp, intro]: "emits P (st_return x)" "emits P (st_raise e)" "emits P (st_result r)"
  by (simp_all add: emits_def st_return_def st_raise_def st_result_def)

lemma emits_send [intro]: "P op \<Longrightarrow> emits P (send db op)"
  by (simp add: emits_def send_def)

lemma emits_bind [intro]:
  assumes "emits P m" "\<And>x. emits P (f x)"
  shows "emits P (st_bind m f)"
proof (rule emitsI)
  fix s
  obtain r s' where m: "m s = (r, s')" by force
  obtain new where n: "s' = s @ new" "list_all P new" using assms(1) m unfolding emits_def by (metis snd_conv)
  show "\<exists>new. snd (st_bind m f s) = s @ new \<and> list_all P new"
  proof (cases r)
    case (Inr x)
    obtain new' where "snd (f x s') = s' @ new'" "list_all P new'" using assms(2) unfolding emits_def by blast
    with n m Inr show ?thesis by (auto simp: st_bind_def intro!: exI [of _ "new @ new'"])
  qed (use m n in \<open>auto simp: st_bind_def\<close>)
qed

lemma emits_then [intro]: "emits P m \<Longrightarrow> emits P n \<Longrightarrow> emits P (st_then m n)"
  unfolding st_then_def by blast

lemma emits_collect [intro]: "(\<And>x. x \<in> set xs \<Longrightarrow> emits P (f x)) \<Longrightarrow> emits P (st_collect f xs)"
proof (induction xs)
  case (Cons x xs)
  then show ?case by (simp, intro emits_bind) auto
qed simp

lemma emits_mono: "emits P m \<Longrightarrow> (\<And>op. P op \<Longrightarrow> Q op) \<Longrightarrow> emits Q m"
  unfolding emits_def by (metis list.pred_mono_strong)

text \<open>What a run from the empty log satisfies.\<close>

lemma emits_run: "emits P m \<Longrightarrow> list_all P (snd (m []))"
  unfolding emits_def by (metis append_Nil)

section \<open>Invariants\<close>

definition keeps :: "('s \<Rightarrow> bool) \<Rightarrow> ('s, 'e, 'a) stm \<Rightarrow> bool" where
  "keeps I m \<longleftrightarrow> (\<forall>s. I s \<longrightarrow> I (snd (m s)))"

lemma keeps_return [simp, intro]: "keeps I (st_return x)" "keeps I (st_raise e)" "keeps I (st_result r)"
  by (simp_all add: keeps_def st_return_def st_raise_def st_result_def)

lemma keeps_bind [intro]: "keeps I m \<Longrightarrow> (\<And>x. keeps I (f x)) \<Longrightarrow> keeps I (st_bind m f)"
  unfolding keeps_def st_bind_def by (auto split: prod.split sum.split)

lemma keeps_then [intro]: "keeps I m \<Longrightarrow> keeps I n \<Longrightarrow> keeps I (st_then m n)"
  unfolding st_then_def by blast

lemma keeps_if [intro]: "(c \<Longrightarrow> keeps I m) \<Longrightarrow> (\<not> c \<Longrightarrow> keeps I n) \<Longrightarrow> keeps I (if c then m else n)"
  by simp

lemma keeps_get [intro]: "(\<And>s. keeps I (f s)) \<Longrightarrow> keeps I (st_get f)"
  unfolding keeps_def st_get_def by blast

lemma keeps_fold [intro]: "(\<And>x acc. x \<in> set xs \<Longrightarrow> keeps I (f x acc)) \<Longrightarrow> keeps I (st_fold f xs acc)"
  by (induction xs arbitrary: acc) auto

lemma keeps_option [intro]: "keeps I m \<Longrightarrow> (\<And>x. keeps I (f x)) \<Longrightarrow> keeps I (case a of None \<Rightarrow> m | Some x \<Rightarrow> f x)"
  by (cases a) auto

lemma keeps_sum [intro]: "(\<And>x. keeps I (f x)) \<Longrightarrow> (\<And>x. keeps I (g x)) \<Longrightarrow> keeps I (case a of Inl x \<Rightarrow> f x | Inr x \<Rightarrow> g x)"
  by (cases a) auto

lemma keeps_try [intro]: "keeps I m \<Longrightarrow> keeps I (st_try m)"
  by (auto simp: keeps_def st_try_def split: prod.split)

lemma emits_if [intro]: "(c \<Longrightarrow> emits P m) \<Longrightarrow> (\<not> c \<Longrightarrow> emits P n) \<Longrightarrow> emits P (if c then m else n)"
  by simp

section \<open>Successful runs\<close>

lemma st_bind_Inr: "st_bind m f s = (Inr y, s'') \<longleftrightarrow> (\<exists>x s'. m s = (Inr x, s') \<and> f x s' = (Inr y, s''))"
  by (auto simp: st_bind_def split: prod.split sum.split)

lemma st_then_Inr: "st_then m n s = (Inr y, s'') \<longleftrightarrow> (\<exists>x s'. m s = (Inr x, s') \<and> n s' = (Inr y, s''))"
  by (simp add: st_then_def st_bind_Inr)

lemma st_return_Inr [simp]: "st_return x s = (Inr y, s') \<longleftrightarrow> x = y \<and> s = s'"
  by (simp add: st_return_def)

lemma send_Inr: "send db op s = (Inr u, s') \<longleftrightarrow> db s op = None \<and> s' = s @ [op]"
  by (auto simp: send_def split: option.split)

lemma st_collect_Inr: "st_collect f xs s = (Inr ys, s') \<Longrightarrow>
    (\<And>x s y s'. x \<in> set xs \<Longrightarrow> f x s = (Inr y, s') \<Longrightarrow> y = g x) \<Longrightarrow> ys = concat (map g xs)"
proof (induction xs arbitrary: s ys s')
  case (Cons x xs)
  from Cons.prems(1) obtain a s1 zs where "f x s = (Inr a, s1)" "st_collect f xs s1 = (Inr zs, s')" "ys = a @ zs"
    by (auto simp: st_bind_Inr)
  with Cons show ?case by auto
qed simp

section \<open>Triples\<close>

text \<open>Started where \<open>P\<close> holds, \<open>m\<close> ends where \<open>Q\<close> holds of its value, or fails where \<open>E\<close> holds.\<close>

definition hoare :: "('s \<Rightarrow> bool) \<Rightarrow> ('s, 'e, 'a) stm \<Rightarrow> ('a \<Rightarrow> 's \<Rightarrow> bool) \<Rightarrow> ('s \<Rightarrow> bool) \<Rightarrow> bool" where
  "hoare P m Q E \<longleftrightarrow> (\<forall>s. P s \<longrightarrow> (case m s of (Inl _, s') \<Rightarrow> E s' | (Inr x, s') \<Rightarrow> Q x s'))"

lemma hoareI: "(\<And>s. P s \<Longrightarrow> case m s of (Inl _, s') \<Rightarrow> E s' | (Inr x, s') \<Rightarrow> Q x s') \<Longrightarrow> hoare P m Q E"
  by (simp add: hoare_def)

lemma hoareD: "hoare P m Q E \<Longrightarrow> P s \<Longrightarrow> m s = (Inr x, s') \<Longrightarrow> Q x s'"
  "hoare P m Q E \<Longrightarrow> P s \<Longrightarrow> m s = (Inl e, s') \<Longrightarrow> E s'"
  by (fastforce simp: hoare_def)+

lemma hoare_any: "hoare P m Q E \<Longrightarrow> P s \<Longrightarrow> (\<And>x s'. Q x s' \<Longrightarrow> E s') \<Longrightarrow> E (snd (m s))"
  by (cases "m s"; cases "fst (m s)") (auto simp: hoare_def)

lemma hoare_pre: "hoare P m Q E \<Longrightarrow> (\<And>s. P' s \<Longrightarrow> P s) \<Longrightarrow> hoare P' m Q E"
  by (simp add: hoare_def)

lemma hoare_post: "hoare P m Q E \<Longrightarrow> (\<And>x s. Q x s \<Longrightarrow> Q' x s) \<Longrightarrow> (\<And>s. E s \<Longrightarrow> E' s) \<Longrightarrow> hoare P m Q' E'"
  by (fastforce simp: hoare_def split: prod.splits sum.splits)

lemma hoare_return: "(\<And>s. P s \<Longrightarrow> Q x s) \<Longrightarrow> hoare P (st_return x) Q E"
  by (simp add: hoare_def st_return_def)

lemma hoare_modify: "(\<And>s. P s \<Longrightarrow> Q () (f s)) \<Longrightarrow> hoare P (st_modify f) Q E"
  by (simp add: hoare_def st_modify_def)

lemma hoare_bind: "hoare P m R E \<Longrightarrow> (\<And>x. hoare (R x) (f x) Q E) \<Longrightarrow> hoare P (st_bind m f) Q E"
  by (fastforce simp: hoare_def st_bind_def split: prod.splits sum.splits)

lemma hoare_then: "hoare P m (\<lambda>_. R) E \<Longrightarrow> hoare R n Q E \<Longrightarrow> hoare P (st_then m n) Q E"
  unfolding st_then_def by (rule hoare_bind)

lemma hoare_if: "(c \<Longrightarrow> hoare P m Q E) \<Longrightarrow> (\<not> c \<Longrightarrow> hoare P n Q E) \<Longrightarrow> hoare P (if c then m else n) Q E"
  by simp

lemma hoare_sum: "(\<And>x. hoare P (f x) Q E) \<Longrightarrow> (\<And>x. hoare P (g x) Q E) \<Longrightarrow>
    hoare P (case a of Inl x \<Rightarrow> f x | Inr x \<Rightarrow> g x) Q E"
  and hoare_option: "hoare P m Q E \<Longrightarrow> (\<And>x. hoare P (f x) Q E) \<Longrightarrow>
    hoare P (case b of None \<Rightarrow> m | Some x \<Rightarrow> f x) Q E"
  by (cases a; simp) (cases b; simp)

lemma hoare_prod: "(\<And>a b. hoare P (f a b) Q E) \<Longrightarrow> hoare P (case x of (a, b) \<Rightarrow> f a b) Q E"
  by (cases x) simp

lemma hoare_get: "(\<And>s. P s \<Longrightarrow> hoare (\<lambda>t. t = s) (f s) Q E) \<Longrightarrow> hoare P (st_get f) Q E"
  by (simp add: hoare_def st_get_def)

text \<open>Reading the state when the precondition fixes what is read.\<close>

lemma hoare_get_pre: "(\<And>s. P s \<Longrightarrow> hoare P (f s) Q E) \<Longrightarrow> hoare P (st_get f) Q E"
  by (simp add: hoare_def st_get_def)

lemma hoare_or: "hoare P m Q E \<Longrightarrow> hoare P' m Q E \<Longrightarrow> hoare (\<lambda>s. P s \<or> P' s) m Q E"
  by (simp add: hoare_def)

lemma hoare_ex:
  assumes "\<And>x. hoare (P x) m Q E"
  shows "hoare (\<lambda>s. \<exists>x. P x s) m Q E"
proof (rule hoareI)
  fix s assume "\<exists>x. P x s"
  then obtain x where "P x s" by blast
  with assms [of x] show "case m s of (Inl _, s') \<Rightarrow> E s' | (Inr x, s') \<Rightarrow> Q x s'"
    by (simp add: hoare_def)
qed

lemma hoare_conj_pure: "(c \<Longrightarrow> hoare P m Q E) \<Longrightarrow> hoare (\<lambda>s. P s \<and> c) m Q E"
  "(c \<Longrightarrow> hoare P m Q E) \<Longrightarrow> hoare (\<lambda>s. c \<and> P s) m Q E"
  by (auto simp: hoare_def)

text \<open>A loop whose invariant speaks of the elements done so far.\<close>

lemma hoare_fold_list:
  "(\<And>ys x acc. hoare (I ys acc) (f x acc) (I (ys @ [x])) E) \<Longrightarrow> hoare (I zs acc) (st_fold f xs acc) (I (zs @ xs)) E"
proof (induction xs arbitrary: zs acc)
  case (Cons x xs)
  have "hoare (I (zs @ [x]) acc') (st_fold f xs acc') (I (zs @ x # xs)) E" for acc'
    using Cons.IH [OF Cons.prems, of "zs @ [x]" acc'] by simp
  then show ?case by (simp add: hoare_bind [OF Cons.prems])
qed (simp add: hoare_return)

lemma hoare_try:
  assumes "hoare P m (\<lambda>x. Q (Inr x)) (\<lambda>s. \<forall>e. Q (Inl e) s)"
  shows "hoare P (st_try m) Q E"
proof (rule hoareI)
  fix s assume "P s"
  with assms show "case st_try m s of (Inl _, s') \<Rightarrow> E s' | (Inr x, s') \<Rightarrow> Q x s'"
    by (cases "m s"; cases "fst (m s)") (auto simp: hoare_def st_try_def)
qed

lemma hoare_fold: "(\<And>x acc. x \<in> set xs \<Longrightarrow> hoare (I acc) (f x acc) I E) \<Longrightarrow> hoare (I acc) (st_fold f xs acc) I E"
  by (induction xs arbitrary: acc) (auto intro: hoare_return hoare_bind)

section \<open>Relations between states\<close>

text \<open>Whatever \<open>m\<close> returns, it leaves a state related to the one it started in. A relation that is reflexive and
  transitive passes through every combinator.\<close>

definition preserves :: "('s \<Rightarrow> 's \<Rightarrow> bool) \<Rightarrow> ('s, 'e, 'a) stm \<Rightarrow> bool" where
  "preserves R m \<longleftrightarrow> (\<forall>s. R s (snd (m s)))"

locale closed_relation =
  fixes R :: "'s \<Rightarrow> 's \<Rightarrow> bool"
  assumes R_refl: "R s s" and R_trans: "R s t \<Longrightarrow> R t u \<Longrightarrow> R s u"
begin

lemma return: "preserves R (st_return x)" and raise: "preserves R (st_raise e)" and result: "preserves R (st_result r)"
  by (simp_all add: preserves_def st_return_def st_raise_def st_result_def R_refl)

lemma bind: "preserves R m \<Longrightarrow> (\<And>x. preserves R (f x)) \<Longrightarrow> preserves R (st_bind m f)"
  unfolding preserves_def st_bind_def by (auto split: prod.split sum.split) (metis R_trans snd_conv)+

lemma andthen: "preserves R m \<Longrightarrow> preserves R n \<Longrightarrow> preserves R (st_then m n)"
  unfolding st_then_def by (rule bind)

lemma get: "(\<And>s. preserves R (f s)) \<Longrightarrow> preserves R (st_get f)"
  by (simp add: preserves_def st_get_def)

lemma attempt: "preserves R m \<Longrightarrow> preserves R (st_try m)"
  by (simp add: preserves_def st_try_def split: prod.split) (metis snd_conv)

lemma branch: "(c \<Longrightarrow> preserves R m) \<Longrightarrow> (\<not> c \<Longrightarrow> preserves R n) \<Longrightarrow> preserves R (if c then m else n)"
  by simp

lemma option: "preserves R m \<Longrightarrow> (\<And>x. preserves R (f x)) \<Longrightarrow> preserves R (case a of None \<Rightarrow> m | Some x \<Rightarrow> f x)"
  by (cases a) auto

lemma either: "(\<And>e. preserves R (g e)) \<Longrightarrow> (\<And>x. preserves R (f x)) \<Longrightarrow> preserves R (case a of Inl e \<Rightarrow> g e | Inr x \<Rightarrow> f x)"
  by (cases a) auto

lemma pair: "(\<And>x y. preserves R (f x y)) \<Longrightarrow> preserves R (case a of (x, y) \<Rightarrow> f x y)"
  by (cases a) auto

lemma fold_loop: "(\<And>x acc. preserves R (f x acc)) \<Longrightarrow> preserves R (st_fold f xs acc)"
  by (induction xs arbitrary: acc) (auto intro: return bind)

lemmas combinators = bind andthen get attempt branch option either pair fold_loop return raise result

end

end
