(* ===== verification/Exit_Sync.thy ===== *)
theory Exit_Sync
  imports Exit_Ladders Effects
begin

text \<open>
  The synchronisation of exit children with the inventory of their parent, the functions of
  \<open>trade_builder/exit_ladders.rs\<close> that write to the database. Every function is a state
  transformer over the list of operations sent; what the database answers is the parameter
  \<open>db\<close>. The inventory of the parent is resolved by another file and is a parameter here.
\<close>

section \<open>Operations on the database\<close>

datatype 'ts exit_op =
    SetTradeBuilderOrderStatus i64 string "string option"
  | SetTradeBuilderOrderWorkingState i64 "string option" "f64 option" "f64 option" "f64 option" string
  | UpdateTradeBuilderOrderSizingAndState i64 string f64 "f64 option" "f64 option" "f64 option" string
      "string option" "'ts option" "'ts option" "i64 option" "i64 option" "string option"
  | SetTradeBuilderOrderTriggerLatched i64 bool "string option"
  | AppendTradeBuilderOrderEvent i64 string "(string \<times> event_value) list"

fun op_order_id :: "'ts exit_op \<Rightarrow> i64" where
  "op_order_id (SetTradeBuilderOrderStatus i _ _) = i"
| "op_order_id (SetTradeBuilderOrderWorkingState i _ _ _ _ _) = i"
| "op_order_id (UpdateTradeBuilderOrderSizingAndState i _ _ _ _ _ _ _ _ _ _ _ _) = i"
| "op_order_id (SetTradeBuilderOrderTriggerLatched i _ _) = i"
| "op_order_id (AppendTradeBuilderOrderEvent i _ _) = i"

section \<open>A ladder family\<close>

definition cancel_status :: "('ts, 'j) trade_builder_order \<Rightarrow> string" where
  "cancel_status child =
    (if o_active_exchange_order_id child \<noteq> None then ''canceled_requested'' else ''canceled'')"

definition resize_op :: "('ts, 'j) trade_builder_order \<Rightarrow> f64 \<Rightarrow> f64 \<Rightarrow> 'ts exit_op" where
  "resize_op child desired_size_usdc desired_qty =
     UpdateTradeBuilderOrderSizingAndState (o_id child) (o_size_basis child) desired_size_usdc
       (Some desired_qty) (Some desired_size_usdc) (Some desired_qty) (o_status child)
       (o_last_error child) (o_eligible_after_at child) (o_eligible_before_at child) None None None"

definition sync_ladder_child :: "'ts exit_op database \<Rightarrow> i64 ladder_target_plan \<Rightarrow> f64 \<Rightarrow> f64 \<Rightarrow> f64 option \<Rightarrow>
    string \<Rightarrow> ('ts, 'j) trade_builder_order \<Rightarrow> ('ts exit_op list, string, i64 list) stm" where
  "sync_ladder_child db target_plan family_weight_sum current_parent_qty order_min_size event_reason child =
    (let target_qtys = targets target_plan;
         remainder_close_order_id = map_option fst (last_opt target_qtys)
     in if o_id child \<in> set (skipped_keys target_plan)
        then let status_after = cancel_status child;
                 requested_target_qty = map_option snd
                   (find (\<lambda>(order_id, _). order_id = o_id child) (requested_targets target_plan))
             in st_then (send db (SetTradeBuilderOrderStatus (o_id child) status_after
                    (Some ''staged_child_skipped_due_to_min_size'')))
                (st_then (send db (AppendTradeBuilderOrderEvent (o_id child) ''staged_child_skipped_due_to_min_size''
                    [(''reason'', EvStr event_reason), (''current_parent_qty'', EvNum current_parent_qty),
                     (''order_min_size'', EvOptNum order_min_size),
                     (''requested_target_qty'', EvOptNum requested_target_qty),
                     (''status_before'', EvStr (o_status child)), (''status_after'', EvStr status_after),
                     (''family'', EvOptStr (trade_builder_exit_family child)),
                     (''exit_mode'', EvStr (trade_builder_exit_mode child)),
                     (''sibling_policy'', EvStr (trade_builder_exit_sibling_policy child)),
                     (''active_exchange_order_id'', EvOptStr (o_active_exchange_order_id child))]))
                (st_return [o_id child]))
        else case trade_builder_ladder_rule_weight child of
          None \<Rightarrow> st_return []
        | Some weight_pct \<Rightarrow>
          (case find (\<lambda>(order_id, _). order_id = o_id child) target_qtys of
            None \<Rightarrow> st_return []
          | Some (_, desired_qty) \<Rightarrow>
            let desired_size_usdc = trade_builder_scaled_size_usdc child desired_qty
            in st_then
                (if o_active_exchange_order_id child \<noteq> None
                 then send db (SetTradeBuilderOrderWorkingState (o_id child) (o_active_exchange_order_id child)
                        (o_working_price child) (Some desired_size_usdc) (Some desired_qty) (o_status child))
                 else send db (resize_op child desired_size_usdc desired_qty))
               (st_then (send db (AppendTradeBuilderOrderEvent (o_id child) ''ladder_sibling_resized''
                   [(''reason'', EvStr event_reason), (''current_parent_qty'', EvNum current_parent_qty),
                    (''weight_pct'', EvNum weight_pct), (''family_weight_sum'', EvNum family_weight_sum),
                    (''next_target_qty'', EvNum desired_qty),
                    (''remaining_qty_source'', EvStr (if Some (o_id child) = remainder_close_order_id
                       then ''remainder_close'' else ''family_weight_sync'')),
                    (''status_after'', EvStr (o_status child))]))
               (st_then (if Some (o_id child) = consolidation_target target_plan
                   then send db (AppendTradeBuilderOrderEvent (o_id child) ''staged_family_consolidated_due_to_min_size''
                     [(''reason'', EvStr event_reason), (''current_parent_qty'', EvNum current_parent_qty),
                      (''order_min_size'', EvOptNum order_min_size), (''next_target_qty'', EvNum desired_qty),
                      (''skipped_order_ids'',
                       EvIds (filter (\<lambda>order_id. order_id \<noteq> o_id child) (skipped_keys target_plan))),
                      (''family'', EvOptStr (trade_builder_exit_family child)),
                      (''exit_mode'', EvStr (trade_builder_exit_mode child)),
                      (''sibling_policy'', EvStr (trade_builder_exit_sibling_policy child))])
                   else st_return ())
               (st_return [o_id child])))))"

definition trade_builder_sync_ladder_family_remaining_qty :: "'ts exit_op database \<Rightarrow>
    ('ts, 'j) trade_builder_order list \<Rightarrow> f64 \<Rightarrow> f64 option \<Rightarrow> string \<Rightarrow>
    ('ts exit_op list, string, i64 list) stm" where
  "trade_builder_sync_ladder_family_remaining_qty db family_children current_parent_qty order_min_size event_reason =
    (let target_plan = trade_builder_ladder_family_target_plan family_children current_parent_qty order_min_size;
         family_weight_sum = fsum (List.map_filter trade_builder_ladder_rule_weight family_children)
     in if family_weight_sum \<le> 0 \<or> (targets target_plan = [] \<and> skipped_keys target_plan = [])
        then st_return []
        else st_collect (sync_ladder_child db target_plan family_weight_sum current_parent_qty
               order_min_size event_reason) family_children)"

section \<open>Hard exits and cancellation\<close>

definition sync_hard_child :: "'ts exit_op database \<Rightarrow> f64 \<Rightarrow> string \<Rightarrow> ('ts, 'j) trade_builder_order \<Rightarrow>
    ('ts exit_op list, string, i64 list) stm" where
  "sync_hard_child db current_parent_qty event_reason child =
    (if o_active_exchange_order_id child \<noteq> None then st_return []
     else let current_qty = unwrap_or 0 (trade_builder_share_remaining_qty child);
              desired_qty = round_trade_builder_share_qty current_parent_qty
          in if desired_qty \<le> 0 \<or> \<bar>current_qty - desired_qty\<bar> < exit_qty_tolerance then st_return []
             else let desired_size_usdc = trade_builder_scaled_size_usdc child desired_qty
                  in st_then (send db (resize_op child desired_size_usdc desired_qty))
                    (st_then (send db (AppendTradeBuilderOrderEvent (o_id child) ''hard_exit_resized''
                       [(''reason'', EvStr event_reason),
                        (''family'', EvOptStr (trade_builder_exit_family child)),
                        (''exit_mode'', EvStr (trade_builder_exit_mode child)),
                        (''sibling_policy'', EvStr (trade_builder_exit_sibling_policy child)),
                        (''current_parent_qty'', EvNum current_parent_qty),
                        (''next_target_qty'', EvNum desired_qty), (''status_after'', EvStr (o_status child))]))
                    (st_return [o_id child])))"

definition trade_builder_sync_hard_exit_remaining_qty :: "'ts exit_op database \<Rightarrow>
    ('ts, 'j) trade_builder_order list \<Rightarrow> f64 \<Rightarrow> string \<Rightarrow> ('ts exit_op list, string, i64 list) stm" where
  "trade_builder_sync_hard_exit_remaining_qty db hard_children current_parent_qty event_reason =
     st_collect (sync_hard_child db current_parent_qty event_reason) hard_children"

definition cancel_exit_child :: "'ts exit_op database \<Rightarrow> i64 \<Rightarrow> string \<Rightarrow> ('ts, 'j) trade_builder_order \<Rightarrow>
    ('ts exit_op list, string, i64 list) stm" where
  "cancel_exit_child db parent_order_id event_reason child =
    (if \<not> trade_builder_is_child_exit_sell child \<or> trade_builder_is_terminal_status (o_status child) \<or>
        o_status child = ''canceled_requested'' then st_return []
     else let status_after = cancel_status child
          in st_then (send db (SetTradeBuilderOrderStatus (o_id child) status_after (Some ''parent_inventory_depleted'')))
            (st_then (send db (AppendTradeBuilderOrderEvent (o_id child) ''exit_canceled_no_inventory''
               [(''reason'', EvStr event_reason), (''parent_order_id'', EvId parent_order_id),
                (''status_before'', EvStr (o_status child)), (''status_after'', EvStr status_after),
                (''family'', EvOptStr (trade_builder_exit_family child)),
                (''exit_mode'', EvStr (trade_builder_exit_mode child)),
                (''sibling_policy'', EvStr (trade_builder_exit_sibling_policy child)),
                (''active_exchange_order_id'', EvOptStr (o_active_exchange_order_id child))]))
            (st_return [o_id child])))"

definition trade_builder_cancel_exit_children_without_inventory :: "'ts exit_op database \<Rightarrow> i64 \<Rightarrow>
    ('ts, 'j) trade_builder_order list \<Rightarrow> string \<Rightarrow> ('ts exit_op list, string, i64 list) stm" where
  "trade_builder_cancel_exit_children_without_inventory db parent_order_id children event_reason =
     st_collect (cancel_exit_child db parent_order_id event_reason) children"

section \<open>All children of a parent\<close>

text \<open>The children as the database lists them, the inventory and the minimum size of the market are
  what the functions called first return.\<close>

definition trade_builder_sync_parent_exit_children :: "'ts exit_op database \<Rightarrow>
    (string, ('ts, 'j) trade_builder_order list) result \<Rightarrow>
    ('ts exit_op list, string, (f64 \<times> string) option) stm \<Rightarrow> f64 option \<Rightarrow>
    ('ts, 'j) trade_builder_order \<Rightarrow> string \<Rightarrow> ('ts exit_op list, string, i64 list) stm" where
  "trade_builder_sync_parent_exit_children db list_children resolve_inventory order_min_size parent_order event_reason =
     st_bind (st_result list_children) (\<lambda>children.
     st_bind resolve_inventory (\<lambda>inventory.
       let current_parent_qty = unwrap_or 0 (map_option fst inventory)
       in if current_parent_qty \<le> exit_qty_tolerance
          then trade_builder_cancel_exit_children_without_inventory db (o_id parent_order) children event_reason
          else let live_hard_children = trade_builder_live_hard_exit_children children;
                   family = (\<lambda>kind. trade_builder_sync_ladder_family_remaining_qty db
                     (trade_builder_live_ladder_children children kind) current_parent_qty order_min_size event_reason)
               in st_bind (trade_builder_sync_hard_exit_remaining_qty db live_hard_children current_parent_qty event_reason)
                   (\<lambda>hard. st_bind (family ladder_kind_tp) (\<lambda>tp. st_bind (family ladder_kind_sl)
                   (\<lambda>sl. st_bind (family ladder_kind_ptb_sl) (\<lambda>ptb_sl.
                   st_return (hard @ tp @ sl @ ptb_sl)))))))"

lemma st_bind_result: "st_bind (st_result (Inr x)) f = f x"
  by (simp add: st_bind_def st_result_def)

section \<open>What an operation may do to a child\<close>

text \<open>An operation on one of the children. A child that has an order on the exchange is never given
  a new size in the database, only a new working state, and it is never marked canceled, only
  asked to cancel.\<close>

definition op_respects :: "('ts, 'j) trade_builder_order list \<Rightarrow> 'ts exit_op \<Rightarrow> bool" where
  "op_respects children op \<longleftrightarrow> (\<exists>child \<in> set children. o_id child = op_order_id op \<and>
     (case op of
        SetTradeBuilderOrderStatus _ st _ \<Rightarrow>
          st = (if o_active_exchange_order_id child = None then ''canceled'' else ''canceled_requested'')
      | SetTradeBuilderOrderWorkingState _ ex _ _ _ st \<Rightarrow>
          o_active_exchange_order_id child \<noteq> None \<and> ex = o_active_exchange_order_id child \<and> st = o_status child
      | UpdateTradeBuilderOrderSizingAndState _ _ _ _ _ _ st _ _ _ _ _ _ \<Rightarrow>
          o_active_exchange_order_id child = None \<and> st = o_status child
      | SetTradeBuilderOrderTriggerLatched _ _ _ \<Rightarrow> False
      | AppendTradeBuilderOrderEvent _ _ _ \<Rightarrow> True))"

lemma op_respects_mono: "op_respects xs op \<Longrightarrow> set xs \<subseteq> set ys \<Longrightarrow> op_respects ys op"
  unfolding op_respects_def by blast

lemma respects_status: "c \<in> set cs \<Longrightarrow> op_respects cs (SetTradeBuilderOrderStatus (o_id c) (cancel_status c) e)"
  and respects_working: "c \<in> set cs \<Longrightarrow> o_active_exchange_order_id c \<noteq> None \<Longrightarrow> op_respects cs
    (SetTradeBuilderOrderWorkingState (o_id c) (o_active_exchange_order_id c) p s q (o_status c))"
  and respects_resize: "c \<in> set cs \<Longrightarrow> \<not> o_active_exchange_order_id c \<noteq> None \<Longrightarrow> op_respects cs (resize_op c u v)"
  and respects_event: "c \<in> set cs \<Longrightarrow> op_respects cs (AppendTradeBuilderOrderEvent (o_id c) k d)"
  unfolding op_respects_def resize_op_def cancel_status_def by (intro bexI [of _ c]; simp)+

lemmas respects = respects_status respects_working respects_resize respects_event

lemma emits_option [intro]: "emits P m \<Longrightarrow> (\<And>x. emits P (f x)) \<Longrightarrow> emits P (case a of None \<Rightarrow> m | Some x \<Rightarrow> f x)"
  by (cases a) auto

lemma emits_prod [intro]: "(\<And>x y. emits P (f x y)) \<Longrightarrow> emits P (case a of (x, y) \<Rightarrow> f x y)"
  by (cases a) auto

lemma sync_ladder_child_emits:
  "child \<in> set cs \<Longrightarrow> emits (op_respects cs) (sync_ladder_child db plan w q m r child)"
  unfolding sync_ladder_child_def Let_def
  by (intro emits_if emits_then emits_option emits_prod emits_send emits_return respects) assumption+

lemma sync_hard_child_emits:
  "child \<in> set cs \<Longrightarrow> emits (op_respects cs) (sync_hard_child db q r child)"
  unfolding sync_hard_child_def Let_def
  by (intro emits_if emits_then emits_send emits_return respects) assumption+

lemma cancel_exit_child_emits:
  "child \<in> set cs \<Longrightarrow> emits (op_respects cs) (cancel_exit_child db p r child)"
  unfolding cancel_exit_child_def Let_def
  by (intro emits_if emits_then emits_send emits_return respects) assumption+

lemma family_emits: "emits (op_respects cs) (trade_builder_sync_ladder_family_remaining_qty db cs q m r)"
  unfolding trade_builder_sync_ladder_family_remaining_qty_def Let_def
  by (intro emits_if emits_collect sync_ladder_child_emits) auto

lemma live_ladder_subset: "set (trade_builder_live_ladder_children cs k) \<subseteq> set cs"
  and live_hard_subset: "set (trade_builder_live_hard_exit_children cs) \<subseteq> set cs"
  by (auto simp: trade_builder_live_ladder_children_def trade_builder_live_hard_exit_children_def)

lemma live_not_terminal:
  "c \<in> set (trade_builder_live_ladder_children cs k) \<Longrightarrow> \<not> trade_builder_is_terminal_status (o_status c)"
  "c \<in> set (trade_builder_live_hard_exit_children cs) \<Longrightarrow> \<not> trade_builder_is_terminal_status (o_status c)"
  by (auto simp: trade_builder_live_ladder_children_def trade_builder_live_hard_exit_children_def)

text \<open>The children a synchronisation may touch: those that are not over.\<close>

definition live_children :: "('ts, 'j) trade_builder_order list \<Rightarrow> ('ts, 'j) trade_builder_order list" where
  "live_children cs = filter (\<lambda>c. \<not> trade_builder_is_terminal_status (o_status c)) cs"

lemma family_emits_live:
  "emits (op_respects (live_children cs)) (trade_builder_sync_ladder_family_remaining_qty db
     (trade_builder_live_ladder_children cs k) q m r)"
  by (rule emits_mono [OF family_emits]) (rule op_respects_mono,
    auto simp: live_children_def trade_builder_live_ladder_children_def)

lemma hard_emits_live:
  "emits (op_respects (live_children cs)) (trade_builder_sync_hard_exit_remaining_qty db
     (trade_builder_live_hard_exit_children cs) q r)"
  unfolding trade_builder_sync_hard_exit_remaining_qty_def
  by (intro emits_collect sync_hard_child_emits)
    (auto simp: live_children_def trade_builder_live_hard_exit_children_def)

lemma cancel_emits_live:
  "emits (op_respects (live_children cs)) (trade_builder_cancel_exit_children_without_inventory db p cs r)"
  unfolding trade_builder_cancel_exit_children_without_inventory_def
proof (intro emits_collect)
  fix c assume "c \<in> set cs"
  then show "emits (op_respects (live_children cs)) (cancel_exit_child db p r c)"
  proof (cases "trade_builder_is_terminal_status (o_status c)")
    case True
    then show ?thesis by (simp add: cancel_exit_child_def)
  next
    case False
    with \<open>c \<in> set cs\<close> show ?thesis by (intro cancel_exit_child_emits) (simp add: live_children_def)
  qed
qed

text \<open>What a successful cancellation reports: the live exit children, each told to cancel.\<close>

lemma cancel_exit_child_Inr: "cancel_exit_child db p r c s = (Inr ids, s') \<Longrightarrow>
   ids = (if trade_builder_is_child_exit_sell c \<and> \<not> trade_builder_is_terminal_status (o_status c) then [o_id c] else [])"
  by (auto simp: cancel_exit_child_def Let_def st_then_Inr trade_builder_is_terminal_status_def split: if_splits)

section \<open>Properties\<close>

text \<open>C29: a synchronisation of the exit children of a parent only touches live children, each
  according to where its order is: one with an order on the exchange keeps its size row and is
  only asked to cancel, one without is resized in place or canceled; no status changes but to
  the two cancel states. It holds whatever the database answers, also when it fails midway.\<close>

theorem sync_parent_respects_children:
  assumes "emits (\<lambda>op. False) resolve_inventory"
  shows "list_all (op_respects (live_children children))
    (snd (trade_builder_sync_parent_exit_children db (Inr children) resolve_inventory m parent r []))"
  unfolding trade_builder_sync_parent_exit_children_def Let_def st_bind_result
  by (rule emits_run)
    (intro emits_bind emits_if emits_return family_emits_live hard_emits_live cancel_emits_live
      emits_mono [OF assms]; simp)

theorem sync_parent_respects_children_witness:
  "list_all (op_respects (live_children [sample_order]))
    (snd (trade_builder_sync_parent_exit_children (\<lambda>_ _. None) (Inr [sample_order])
      (st_return (Some (Fin 0, ''trade_builder_parent_positions''))) None sample_order ''fill'' []))"
  by (rule sync_parent_respects_children) simp

text \<open>Without inventory every exit is withdrawn: when the parent holds at most the tolerance and
  the database answers, the ids returned are those of all live child exit sells, in order.\<close>

lemma sync_parent_without_inventory:
  assumes "resolve_inventory [] = (Inr pos, ops)" "unwrap_or 0 (map_option fst pos) \<le> exit_qty_tolerance"
    "trade_builder_sync_parent_exit_children db (Inr children) resolve_inventory m parent r [] = (Inr ids, ops')"
  shows "ids = map o_id (filter (\<lambda>c. trade_builder_is_child_exit_sell c \<and>
    \<not> trade_builder_is_terminal_status (o_status c)) children)"
proof -
  have "trade_builder_cancel_exit_children_without_inventory db (o_id parent) children r ops = (Inr ids, ops')"
    using assms by (simp add: trade_builder_sync_parent_exit_children_def st_bind_def st_result_def Let_def)
  then have "ids = concat (map (\<lambda>c. if trade_builder_is_child_exit_sell c \<and>
      \<not> trade_builder_is_terminal_status (o_status c) then [o_id c] else []) children)"
    unfolding trade_builder_cancel_exit_children_without_inventory_def
    by (rule st_collect_Inr) (rule cancel_exit_child_Inr)
  then show ?thesis by (induction children arbitrary: ids) auto
qed

theorem sync_parent_without_inventory_witness:
  "fst (trade_builder_sync_parent_exit_children (\<lambda>_ _. None) (Inr [sample_order])
      (st_return None) None sample_order ''fill'' []) = Inr [7]"
proof -
  obtain ids ops where r: "trade_builder_sync_parent_exit_children (\<lambda>_ _. None) (Inr [sample_order])
      (st_return None) None sample_order ''fill'' [] = (Inr ids, ops)"
    by (simp add: trade_builder_sync_parent_exit_children_def st_bind_result st_bind_def st_return_def
        trade_builder_cancel_exit_children_without_inventory_def cancel_exit_child_def st_then_def send_def
        exit_qty_tolerance_def lit_def rnd_nonneg st_result_def sample_order_def
        trade_builder_is_child_exit_sell_def trade_builder_is_terminal_status_def Let_def)
  have "ids = map o_id (filter (\<lambda>c. trade_builder_is_child_exit_sell c \<and>
      \<not> trade_builder_is_terminal_status (o_status c)) [sample_order])"
    by (rule sync_parent_without_inventory [OF _ _ r, of None "[]"])
      (simp_all add: st_return_def exit_qty_tolerance_def lit_def rnd_nonneg)
  then show ?thesis using r
    by (simp add: sample_order_def trade_builder_is_child_exit_sell_def trade_builder_is_terminal_status_def)
qed

end
