(* ===== verification/Config.thy ===== *)
theory Config
  imports Bot_Core
begin

text \<open>
  The configuration of \<open>bot-infra/src/config\<close>: the structs, their defaults, and how a value
  that may be encrypted or come from the environment is resolved (\<open>models.rs\<close>, \<open>defaults.rs\<close>,
  \<open>crypto.rs\<close>). The environment, the base64 decoder and the AES-GCM cipher are the fields of
  \<open>config_env\<close>; reading TOML and JSON is serde's and toml's work and is not modelled.
\<close>

section \<open>Defaults\<close>

definition config_enc_prefix :: string where "config_enc_prefix = ''enc:v1:''"
definition config_enc_nonce_len :: nat where "config_enc_nonce_len = 12"
definition config_enc_tag_len :: nat where "config_enc_tag_len = 16"

definition supported_market_scope_slug_prefixes :: "(string \<times> string) list" where
  "supported_market_scope_slug_prefixes =
    [(''btc_5m_updown'', ''btc-updown-5m-''), (''btc_15m_updown'', ''btc-updown-15m-''),
     (''eth_5m_updown'', ''eth-updown-5m-''), (''eth_15m_updown'', ''eth-updown-15m-''),
     (''sol_5m_updown'', ''sol-updown-5m-''), (''sol_15m_updown'', ''sol-updown-15m-''),
     (''xrp_5m_updown'', ''xrp-updown-5m-''), (''xrp_15m_updown'', ''xrp-updown-15m-''),
     (''doge_5m_updown'', ''doge-updown-5m-''), (''bnb_5m_updown'', ''bnb-updown-5m-''),
     (''hype_5m_updown'', ''hype-updown-5m-'')]"

definition default_min_balance_usdc :: f64 where "default_min_balance_usdc = lit 5"
definition default_entry_price :: f64 where "default_entry_price = lit (3 / 5)"
definition default_market_scope :: string where "default_market_scope = ''btc_5m_updown''"
definition default_market_slug_override :: string where "default_market_slug_override = []"
definition default_loop_interval_ms :: u64 where "default_loop_interval_ms = 1000"
definition default_market_discovery_retry_interval_ms :: u64 where "default_market_discovery_retry_interval_ms = 5000"
definition default_market_discovery_timeout_sec :: u64 where "default_market_discovery_timeout_sec = 0"
definition default_market_selection :: string where "default_market_selection = ''latest_by_slug''"
definition default_exchange_gamma_base_url :: string where "default_exchange_gamma_base_url = ''https://gamma-api.polymarket.com''"
definition default_exchange_clob_base_url :: string where "default_exchange_clob_base_url = ''https://clob.polymarket.com''"
definition default_exchange_clob_ws_url :: string where "default_exchange_clob_ws_url = ''wss://ws-subscriptions-clob.polymarket.com/ws/''"
definition default_clob_order_warmup_enabled :: bool where "default_clob_order_warmup_enabled = True"
definition default_clob_order_warmup_interval_ms :: u64 where "default_clob_order_warmup_interval_ms = 25000"
definition default_clob_order_warmup_cooldown_ms :: u64 where "default_clob_order_warmup_cooldown_ms = 120000"
definition default_exchange_chain_id :: u64 where "default_exchange_chain_id = 137"
definition default_exchange_ctf_exchange_address :: string where "default_exchange_ctf_exchange_address = ''0xE111180000d2663C0091e4f400237545B87B996B''"
definition default_neg_risk_ctf_exchange_address :: string where "default_neg_risk_ctf_exchange_address = ''0xe2222d279d744050d28e00520010520000310F59''"
definition default_tp_pct :: f64 where "default_tp_pct = lit (3 / 25)"
definition default_base_sl_pct :: f64 where "default_base_sl_pct = lit (2 / 25)"
definition default_aggressive_sl_pct :: f64 where "default_aggressive_sl_pct = lit (3 / 10)"
definition default_entry_window_sec :: u64 where "default_entry_window_sec = 180"
definition default_max_hold_sec :: u64 where "default_max_hold_sec = 240"
definition default_sl_renew_interval_ms :: u64 where "default_sl_renew_interval_ms = 2000"
definition default_max_price_relax_enabled :: bool where "default_max_price_relax_enabled = True"
definition default_total_notional_usdc :: f64 where "default_total_notional_usdc = lit 10"
definition default_per_leg_initial_notional_usdc :: f64 where "default_per_leg_initial_notional_usdc = lit 5"
definition default_dca_interval_sec :: u64 where "default_dca_interval_sec = 20"
definition default_dca_step_pct :: f64 where "default_dca_step_pct = lit (1 / 50)"
definition default_max_dca_levels_per_leg :: u32 where "default_max_dca_levels_per_leg = 3"
definition default_leg_tp_pct :: f64 where "default_leg_tp_pct = lit (7 / 200)"
definition default_basket_tp_usdc :: f64 where "default_basket_tp_usdc = lit (7 / 20)"
definition default_basket_sl_usdc :: f64 where "default_basket_sl_usdc = - lit (3 / 5)"
definition default_force_flatten_sec_before_close :: u64 where "default_force_flatten_sec_before_close = 45"
definition default_sl_bid_confirm_timeout_ms :: u64 where "default_sl_bid_confirm_timeout_ms = 5000"
definition default_claim_rpc_url :: string where "default_claim_rpc_url = ''https://polygon-rpc.com''"
definition default_claim_data_api_base_url :: string where "default_claim_data_api_base_url = ''https://data-api.polymarket.com''"
definition default_claim_execution_mode :: string where "default_claim_execution_mode = ''direct''"
definition default_claim_rpc_url_env :: string where "default_claim_rpc_url_env = ''CLAIM_RPC_URL''"
definition default_claim_user_address_env :: string where "default_claim_user_address_env = ''POLYMARKET_ADDRESS''"
definition default_claim_private_key_env :: string where "default_claim_private_key_env = ''CLAIMER_PRIVATE_KEY''"
definition default_claim_chain_id :: u64 where "default_claim_chain_id = 137"
definition default_claim_ctf_contract_address :: string where "default_claim_ctf_contract_address = ''0x4D97DCd97eC945f40cF65F87097ACe5EA0476045''"
definition default_claim_collateral_token_address :: string where "default_claim_collateral_token_address = ''0x2791Bca1f2de4661ED88A30C99A7a9449Aa84174''"
definition default_claim_auto_activate_funds :: bool where "default_claim_auto_activate_funds = True"
definition default_claim_activate_min_usdc :: f64 where "default_claim_activate_min_usdc = lit (1 / 100)"
definition default_claim_usdce_token_address :: string where "default_claim_usdce_token_address = ''0x2791Bca1f2de4661ED88A30C99A7a9449Aa84174''"
definition default_claim_pusd_token_address :: string where "default_claim_pusd_token_address = ''0xC011a7E12a19f7B1f670d46F03B03f3342E82DFB''"
definition default_claim_collateral_onramp_address :: string where "default_claim_collateral_onramp_address = ''0x93070a847efEf7F70739046A929D47a521F5B8ee''"
definition default_claim_discovery_interval_sec :: u64 where "default_claim_discovery_interval_sec = 30"
definition default_claim_positions_page_size :: i64 where "default_claim_positions_page_size = 200"
definition default_claim_positions_max_pages :: i64 where "default_claim_positions_max_pages = 5"
definition default_claim_process_batch_size :: i64 where "default_claim_process_batch_size = 10"
definition default_claim_max_attempts :: int where "default_claim_max_attempts = 5"
definition default_claim_retry_backoff_ms :: u64 where "default_claim_retry_backoff_ms = 10000"
definition default_claim_min_claim_usdc :: f64 where "default_claim_min_claim_usdc = 0"

definition join_with :: "string \<Rightarrow> string list \<Rightarrow> string" where
  "join_with sep xs = (case xs of [] \<Rightarrow> [] | x # rest \<Rightarrow> x @ concat (map (\<lambda>y. sep @ y) rest))"

definition supported_market_scope_names_csv :: string where
  "supported_market_scope_names_csv =
     join_with '', '' (map (\<lambda>(scope, _). scope) supported_market_scope_slug_prefixes)"

section \<open>Configuration structs\<close>

datatype claim_execution_mode = Direct | BuilderRelayer | RelayerApiKey

record bot_config =
  b_mode :: execution_mode
  b_market_scope :: string
  b_market_scopes :: "string list"
  b_market_slug_override :: string
  b_loop_interval_ms :: u64
  b_market_discovery_retry_interval_ms :: u64
  b_market_discovery_timeout_sec :: u64
  b_market_selection :: string

record strategy_config =
  s_entry_price :: f64
  s_tp_pct :: f64
  s_base_sl_pct :: f64
  s_aggressive_sl_pct :: f64
  s_entry_window_sec :: u64
  s_max_hold_sec :: u64
  s_sl_renew_interval_ms :: u64
  s_flow_only :: bool
  s_dual_side_enabled :: bool
  s_max_price_relax_enabled :: bool
  s_total_notional_usdc :: f64
  s_per_leg_initial_notional_usdc :: f64
  s_dca_interval_sec :: u64
  s_dca_step_pct :: f64
  s_max_dca_levels_per_leg :: u32
  s_leg_tp_pct :: f64
  s_basket_tp_usdc :: f64
  s_basket_sl_usdc :: f64
  s_force_flatten_sec_before_close :: u64
  s_sl_bid_confirm_timeout_ms :: u64

record risk_config =
  rk_max_daily_loss_usdc :: f64
  rk_max_consecutive_losses :: u32
  rk_max_notional_per_market_usdc :: f64
  rk_max_open_orders :: u32
  rk_max_stale_data_ms :: u64
  rk_kill_switch_mode :: kill_switch_mode
  rk_manual_kill_switch_active :: bool
  rk_min_balance_usdc :: f64

record execution_config =
  x_order_type :: string
  x_time_in_force :: string
  x_retry_count :: u32
  x_retry_backoff_ms :: u64
  x_reconcile_interval_ms :: u64

record exchange_config =
  e_gamma_base_url :: string
  e_clob_base_url :: string
  e_clob_ws_url :: string
  e_clob_order_warmup_enabled :: bool
  e_clob_order_warmup_interval_ms :: u64
  e_clob_order_warmup_cooldown_ms :: u64
  e_chain_id :: u64
  e_api_address :: string
  e_api_key :: string
  e_api_secret :: string
  e_api_passphrase :: string
  e_api_address_env :: string
  e_api_key_env :: string
  e_api_secret_env :: string
  e_api_passphrase_env :: string
  e_builder_api_key_env :: string
  e_builder_api_secret_env :: string
  e_builder_api_passphrase_env :: string
  e_builder_code_env :: string
  e_ctf_exchange_address :: string
  e_neg_risk_ctf_exchange_address :: string
  e_signer_private_key :: string
  e_signer_private_key_env :: string
  e_gnosis_safe_address :: string
  e_gnosis_safe_address_env :: string
  e_builder_api_key :: string
  e_builder_api_secret :: string
  e_builder_api_passphrase :: string
  e_builder_code :: string

record claim_config =
  c_enabled :: bool
  c_rpc_url :: string
  c_rpc_url_env :: string
  c_data_api_base_url :: string
  c_user_address :: string
  c_user_address_env :: string
  c_private_key :: string
  c_private_key_env :: string
  c_execution_mode :: string
  c_chain_id :: u64
  c_ctf_contract_address :: string
  c_collateral_token_address :: string
  c_auto_activate_funds :: bool
  c_activate_min_usdc :: f64
  c_usdce_token_address :: string
  c_pusd_token_address :: string
  c_collateral_onramp_address :: string
  c_discovery_interval_sec :: u64
  c_positions_page_size :: i64
  c_positions_max_pages :: i64
  c_process_batch_size :: i64
  c_max_attempts :: int
  c_retry_backoff_ms :: u64
  c_min_claim_usdc :: f64

record telegram_config =
  t_bot_token :: string
  t_chat_id :: string

record app_config =
  cfg_bot :: bot_config
  cfg_strategy :: strategy_config
  cfg_risk :: risk_config
  cfg_execution :: execution_config
  cfg_exchange :: exchange_config
  cfg_claim :: claim_config
  cfg_telegram :: telegram_config

definition default_exchange_config :: exchange_config where
  "default_exchange_config = \<lparr>
     e_gamma_base_url = default_exchange_gamma_base_url,
     e_clob_base_url = default_exchange_clob_base_url,
     e_clob_ws_url = default_exchange_clob_ws_url,
     e_clob_order_warmup_enabled = default_clob_order_warmup_enabled,
     e_clob_order_warmup_interval_ms = default_clob_order_warmup_interval_ms,
     e_clob_order_warmup_cooldown_ms = default_clob_order_warmup_cooldown_ms,
     e_chain_id = default_exchange_chain_id,
     e_api_address = [],
     e_api_key = [],
     e_api_secret = [],
     e_api_passphrase = [],
     e_api_address_env = [],
     e_api_key_env = [],
     e_api_secret_env = [],
     e_api_passphrase_env = [],
     e_builder_api_key_env = [],
     e_builder_api_secret_env = [],
     e_builder_api_passphrase_env = [],
     e_builder_code_env = [],
     e_ctf_exchange_address = default_exchange_ctf_exchange_address,
     e_neg_risk_ctf_exchange_address = default_neg_risk_ctf_exchange_address,
     e_signer_private_key = [],
     e_signer_private_key_env = [],
     e_gnosis_safe_address = [],
     e_gnosis_safe_address_env = [],
     e_builder_api_key = [],
     e_builder_api_secret = [],
     e_builder_api_passphrase = [],
     e_builder_code = []\<rparr>"

definition default_claim_config :: claim_config where
  "default_claim_config = \<lparr>
     c_enabled = False,
     c_rpc_url = default_claim_rpc_url,
     c_rpc_url_env = default_claim_rpc_url_env,
     c_data_api_base_url = default_claim_data_api_base_url,
     c_user_address = [],
     c_user_address_env = default_claim_user_address_env,
     c_private_key = [],
     c_private_key_env = default_claim_private_key_env,
     c_execution_mode = default_claim_execution_mode,
     c_chain_id = default_claim_chain_id,
     c_ctf_contract_address = default_claim_ctf_contract_address,
     c_collateral_token_address = default_claim_collateral_token_address,
     c_auto_activate_funds = default_claim_auto_activate_funds,
     c_activate_min_usdc = default_claim_activate_min_usdc,
     c_usdce_token_address = default_claim_usdce_token_address,
     c_pusd_token_address = default_claim_pusd_token_address,
     c_collateral_onramp_address = default_claim_collateral_onramp_address,
     c_discovery_interval_sec = default_claim_discovery_interval_sec,
     c_positions_page_size = default_claim_positions_page_size,
     c_positions_max_pages = default_claim_positions_max_pages,
     c_process_batch_size = default_claim_process_batch_size,
     c_max_attempts = default_claim_max_attempts,
     c_retry_backoff_ms = default_claim_retry_backoff_ms,
     c_min_claim_usdc = default_claim_min_claim_usdc\<rparr>"

definition claim_mode_as_str :: "claim_execution_mode \<Rightarrow> string" where
  "claim_mode_as_str m = (case m of Direct \<Rightarrow> ''direct'' | BuilderRelayer \<Rightarrow> ''builder_relayer''
     | RelayerApiKey \<Rightarrow> ''relayer_api_key'')"

definition from_config_value :: "string \<Rightarrow> (string, claim_execution_mode) result" where
  "from_config_value raw =
    (let other = to_ascii_lowercase (trim raw)
     in if other = [] \<or> other = ''direct'' then Inr Direct
        else if other = ''builder_relayer'' then Inr BuilderRelayer
        else if other = ''relayer_api_key'' then Inr RelayerApiKey
        else Inl (''claim.execution_mode must be one of: direct, builder_relayer, relayer_api_key (got ''
          @ other @ '')''))"

definition claim_config_execution_mode :: "claim_config \<Rightarrow> (string, claim_execution_mode) result" where
  "claim_config_execution_mode cfg = from_config_value (c_execution_mode cfg)"

definition resolve_scopes :: "bot_config \<Rightarrow> string list" where
  "resolve_scopes cfg = (if b_market_scopes cfg \<noteq> [] then b_market_scopes cfg else [b_market_scope cfg])"

section \<open>Encrypted values\<close>

text \<open>What the code takes from outside: \<open>std::env::var\<close>, the standard base64 decoder, and AES-256-GCM
  with a key, a nonce and a ciphertext.\<close>

record config_env =
  env_var :: "string \<Rightarrow> string option"
  base64_decode :: "string \<Rightarrow> string option"
  aes_gcm_decrypt :: "string \<Rightarrow> string \<Rightarrow> string \<Rightarrow> string option"

text \<open>The byte sequences \<open>String::from_utf8\<close> accepts.\<close>

definition byte_in :: "nat \<Rightarrow> nat \<Rightarrow> char \<Rightarrow> bool" where
  "byte_in lo hi c \<longleftrightarrow> lo \<le> of_char c \<and> of_char c \<le> hi"

fun utf8_valid :: "string \<Rightarrow> bool" where
  "utf8_valid [] = True"
| "utf8_valid (a # s) =
    (if byte_in 0 0x7F a then utf8_valid s
     else if byte_in 0xC2 0xDF a
       then (case s of b # s' \<Rightarrow> byte_in 0x80 0xBF b \<and> utf8_valid s' | _ \<Rightarrow> False)
     else if byte_in 0xE0 0xEF a
       then (case s of b # c # s' \<Rightarrow>
           byte_in (if byte_in 0xE0 0xE0 a then 0xA0 else 0x80) (if byte_in 0xED 0xED a then 0x9F else 0xBF) b \<and>
           byte_in 0x80 0xBF c \<and> utf8_valid s' | _ \<Rightarrow> False)
     else if byte_in 0xF0 0xF4 a
       then (case s of b # c # d # s' \<Rightarrow>
           byte_in (if byte_in 0xF0 0xF0 a then 0x90 else 0x80) (if byte_in 0xF4 0xF4 a then 0x8F else 0xBF) b \<and>
           byte_in 0x80 0xBF c \<and> byte_in 0x80 0xBF d \<and> utf8_valid s' | _ \<Rightarrow> False)
     else False)"

definition load_config_encryption_key :: "config_env \<Rightarrow> (string, string) result" where
  "load_config_encryption_key env =
    res_bind (ok_or ''CONFIG_ENCRYPTION_KEY is required to decrypt stored config values''
      (env_var env ''CONFIG_ENCRYPTION_KEY'')) (\<lambda>encoded.
    let trimmed = trim encoded
    in res_bind (ensure (trimmed \<noteq> []) ''CONFIG_ENCRYPTION_KEY is required to decrypt stored config values'') (\<lambda>_.
    res_bind (ok_or ''CONFIG_ENCRYPTION_KEY must be valid base64'' (base64_decode env trimmed)) (\<lambda>decoded.
    res_bind (ensure (length decoded = 32) ''CONFIG_ENCRYPTION_KEY must decode to exactly 32 bytes'') (\<lambda>_.
    Inr decoded))))"

definition decrypt_config_string_if_needed :: "config_env \<Rightarrow> string \<Rightarrow> string \<Rightarrow> (string, string) result" where
  "decrypt_config_string_if_needed env field_name raw_value =
    (let trimmed = trim raw_value
     in if trimmed = [] then Inr []
        else if \<not> starts_with trimmed config_enc_prefix then Inr trimmed
        else let payload = drop (length config_enc_prefix) trimmed
        in res_bind (ok_or (''decoding encrypted config value for '' @ field_name) (base64_decode env payload)) (\<lambda>decoded.
           res_bind (ensure (config_enc_nonce_len + config_enc_tag_len < length decoded)
             (''encrypted config value too short for '' @ field_name)) (\<lambda>_.
           res_bind (load_config_encryption_key env) (\<lambda>key_material.
           let nonce = take config_enc_nonce_len decoded;
               ciphertext = drop config_enc_nonce_len decoded
           in res_bind (ok_or (''decrypting encrypted config value for '' @ field_name)
                (aes_gcm_decrypt env key_material nonce ciphertext)) (\<lambda>plaintext.
              res_bind (ensure (utf8_valid plaintext)
                (''encrypted config value is not valid utf-8 for '' @ field_name)) (\<lambda>_.
              Inr (trim plaintext)))))))"

section \<open>Resolved values\<close>

text \<open>The step \<open>if !name.is_empty() { if let Ok(val) = env::var(name) { if !val.is_empty() { .. } } }\<close>
  that the resolvers repeat.\<close>

definition nonempty_env :: "config_env \<Rightarrow> string \<Rightarrow> string option" where
  "nonempty_env env name = (if name \<noteq> [] then filter_opt (\<lambda>val. val \<noteq> []) (env_var env name) else None)"

definition resolve_signer_private_key :: "config_env \<Rightarrow> exchange_config \<Rightarrow> (string, string) result" where
  "resolve_signer_private_key env cfg =
    (if e_signer_private_key cfg \<noteq> []
       then decrypt_config_string_if_needed env ''exchange.signer_private_key'' (e_signer_private_key cfg)
     else case nonempty_env env (e_signer_private_key_env cfg) of Some val \<Rightarrow> Inr val
     | None \<Rightarrow> Inl ''signer_private_key not configured'')"

definition resolve_gnosis_safe_address :: "config_env \<Rightarrow> exchange_config \<Rightarrow> string option" where
  "resolve_gnosis_safe_address env cfg =
    (if e_gnosis_safe_address cfg \<noteq> []
       then (case decrypt_config_string_if_needed env ''exchange.gnosis_safe_address'' (e_gnosis_safe_address cfg) of
           Inl _ \<Rightarrow> None | Inr value \<Rightarrow> filter_opt (\<lambda>value. value \<noteq> []) (Some value))
     else nonempty_env env (e_gnosis_safe_address_env cfg))"

definition resolve_builder_api_key :: "config_env \<Rightarrow> exchange_config \<Rightarrow> (string, string) result" where
  "resolve_builder_api_key env cfg =
    (if trim (e_builder_api_key cfg) \<noteq> []
       then decrypt_config_string_if_needed env ''exchange.builder_api_key'' (e_builder_api_key cfg)
     else case nonempty_env env (e_builder_api_key_env cfg) of Some val \<Rightarrow> Inr val
     | None \<Rightarrow>
       if trim (e_api_key cfg) \<noteq> []
         then decrypt_config_string_if_needed env ''exchange.api_key'' (e_api_key cfg)
       else case nonempty_env env (e_api_key_env cfg) of Some val \<Rightarrow> Inr val
       | None \<Rightarrow> Inl ''builder_api_key not configured'')"

definition resolve_builder_api_secret :: "config_env \<Rightarrow> exchange_config \<Rightarrow> (string, string) result" where
  "resolve_builder_api_secret env cfg =
    (if trim (e_builder_api_secret cfg) \<noteq> []
       then decrypt_config_string_if_needed env ''exchange.builder_api_secret'' (e_builder_api_secret cfg)
     else case nonempty_env env (e_builder_api_secret_env cfg) of Some val \<Rightarrow> Inr val
     | None \<Rightarrow>
       if trim (e_api_secret cfg) \<noteq> []
         then decrypt_config_string_if_needed env ''exchange.api_secret'' (e_api_secret cfg)
       else case nonempty_env env (e_api_secret_env cfg) of Some val \<Rightarrow> Inr val
       | None \<Rightarrow> Inl ''builder_api_secret not configured'')"

definition resolve_builder_api_passphrase :: "config_env \<Rightarrow> exchange_config \<Rightarrow> (string, string) result" where
  "resolve_builder_api_passphrase env cfg =
    (if trim (e_builder_api_passphrase cfg) \<noteq> []
       then decrypt_config_string_if_needed env ''exchange.builder_api_passphrase'' (e_builder_api_passphrase cfg)
     else case nonempty_env env (e_builder_api_passphrase_env cfg) of Some val \<Rightarrow> Inr val
     | None \<Rightarrow>
       if trim (e_api_passphrase cfg) \<noteq> []
         then decrypt_config_string_if_needed env ''exchange.api_passphrase'' (e_api_passphrase cfg)
       else case nonempty_env env (e_api_passphrase_env cfg) of Some val \<Rightarrow> Inr val
       | None \<Rightarrow> Inl ''builder_api_passphrase not configured'')"

definition is_ascii_hexdigit :: "char \<Rightarrow> bool" where
  "is_ascii_hexdigit c \<longleftrightarrow> c \<in> set ''0123456789abcdefABCDEF''"

definition resolve_builder_code :: "config_env \<Rightarrow> exchange_config \<Rightarrow> (string, string option) result" where
  "resolve_builder_code env cfg =
    res_bind (if trim (e_builder_code cfg) \<noteq> []
        then decrypt_config_string_if_needed env ''exchange.builder_code'' (e_builder_code cfg)
      else if trim (e_builder_code_env cfg) \<noteq> [] then Inr (unwrap_or [] (env_var env (e_builder_code_env cfg)))
      else Inr []) (\<lambda>value.
    let value = trim value
    in if value = [] then Inr None
       else res_bind (ensure (starts_with value ''0x'' \<and> length value = 66 \<and>
           list_all is_ascii_hexdigit (drop 2 value)) ''builder_code must be a bytes32 0x hex value'') (\<lambda>_.
         Inr (Some value)))"

definition resolve_user_address :: "config_env \<Rightarrow> claim_config \<Rightarrow> (string, string) result" where
  "resolve_user_address env cfg =
    (if trim (c_user_address cfg) \<noteq> []
       then decrypt_config_string_if_needed env ''claim.user_address'' (c_user_address cfg)
     else if trim (c_user_address_env cfg) \<noteq> []
       then ok_or (''missing env '' @ c_user_address_env cfg @ '' required for auto-claim user address'')
         (env_var env (c_user_address_env cfg))
     else Inl ''claim.user_address not configured'')"

definition resolve_private_key :: "config_env \<Rightarrow> claim_config \<Rightarrow> (string, string) result" where
  "resolve_private_key env cfg =
    (if trim (c_private_key cfg) \<noteq> []
       then decrypt_config_string_if_needed env ''claim.private_key'' (c_private_key cfg)
     else if trim (c_private_key_env cfg) \<noteq> []
       then ok_or (''missing env '' @ c_private_key_env cfg @ '' required for auto-claim signer private key'')
         (env_var env (c_private_key_env cfg))
     else Inl ''claim.private_key not configured'')"

definition resolve_rpc_url :: "config_env \<Rightarrow> claim_config \<Rightarrow> (string, string) result" where
  "resolve_rpc_url env cfg =
    (if trim (c_rpc_url cfg) \<noteq> [] then Inr (trim (c_rpc_url cfg))
     else if trim (c_rpc_url_env cfg) \<noteq> []
       then ok_or (''missing env '' @ c_rpc_url_env cfg @ '' required for claim rpc url'')
         (env_var env (c_rpc_url_env cfg))
     else Inl ''claim.rpc_url not configured'')"

section \<open>Properties\<close>

text \<open>An encrypted configuration value is read back. When the payload decodes to a twelve byte
  nonce followed by a sealed text, the key in the environment decodes to 32 bytes, and the cipher
  opens the sealed text under that key and nonce, the value read is the trimmed plain text; a
  value without the prefix is read as it is, whatever the environment.\<close>

lemma encrypted_value_roundtrip:
  assumes "env_var env ''CONFIG_ENCRYPTION_KEY'' = Some encoded_key" "trim encoded_key \<noteq> []"
    "base64_decode env (trim encoded_key) = Some key" "length key = 32"
    "list_all graphic payload" "base64_decode env payload = Some (nonce @ sealed)"
    "length nonce = 12" "16 < length sealed"
    "aes_gcm_decrypt env key nonce sealed = Some plain" "utf8_valid plain"
    "list_all graphic value" "\<not> starts_with value config_enc_prefix"
  shows "decrypt_config_string_if_needed env field (config_enc_prefix @ payload) = Inr (trim plain) \<and>
    decrypt_config_string_if_needed env' field value = Inr value"
proof -
  have t: "trim (config_enc_prefix @ payload) = config_enc_prefix @ payload"
    using assms(5) by (intro trim_graphic) (simp add: config_enc_prefix_def graphic_def)
  have k: "load_config_encryption_key env = Inr key"
    using assms(1-4) by (simp add: load_config_encryption_key_def ok_or_def ensure_def)
  have "starts_with (config_enc_prefix @ payload) config_enc_prefix" by (auto simp: starts_with_iff)
  with assms k show ?thesis
    by (simp add: decrypt_config_string_if_needed_def t Let_def ok_or_def ensure_def
        config_enc_nonce_len_def config_enc_tag_len_def) (simp add: config_enc_prefix_def)
qed

definition sample_env :: config_env where
  "sample_env = \<lparr>env_var = (\<lambda>name. if name = ''CONFIG_ENCRYPTION_KEY'' then Some (replicate 32 CHR ''k'') else None),
     base64_decode = Some,
     aes_gcm_decrypt = (\<lambda>key nonce sealed. if key = replicate 32 CHR ''k'' then Some (drop 16 sealed) else None)\<rparr>"

theorem encrypted_value_roundtrip_witness:
  "decrypt_config_string_if_needed sample_env ''claim.private_key''
     (config_enc_prefix @ (replicate 12 CHR ''n'' @ replicate 16 CHR ''t'' @ ''0xab'')) = Inr ''0xab''"
proof -
  have "decrypt_config_string_if_needed sample_env ''claim.private_key''
       (config_enc_prefix @ (replicate 12 CHR ''n'' @ (replicate 16 CHR ''t'' @ ''0xab''))) = Inr (trim ''0xab'') \<and>
     decrypt_config_string_if_needed sample_env ''claim.private_key'' ''plain'' = Inr ''plain''"
    by (rule encrypted_value_roundtrip [where key = "replicate 32 CHR ''k''" and encoded_key = "replicate 32 CHR ''k''"
          and nonce = "replicate 12 CHR ''n''" and sealed = "replicate 16 CHR ''t'' @ ''0xab''"])
      (simp_all add: sample_env_def graphic_def list_all_iff byte_in_def config_enc_prefix_def)
  then show ?thesis by (simp add: graphic_def)
qed

text \<open>A source of a credential: an inline value, or an environment variable.\<close>

definition credential_source :: "config_env \<Rightarrow> string \<Rightarrow> string \<Rightarrow> string \<Rightarrow> (string, string) result option" where
  "credential_source env field value name =
     or_opt (then_some (trim value \<noteq> []) (decrypt_config_string_if_needed env field value))
       (map_option Inr (nonempty_env env name))"

text \<open>The credentials of the builder relayer come from the first source that is configured: the
  builder's inline value, its environment variable, the exchange's inline value, its
  environment variable; an inline value that does not decrypt is an error, never skipped, and
  without any source the resolution fails. It is the same rule for the three credentials.\<close>

lemma builder_credentials_precedence:
  "resolve_builder_api_key env cfg = unwrap_or (Inl ''builder_api_key not configured'')
     (or_opt (credential_source env ''exchange.builder_api_key'' (e_builder_api_key cfg) (e_builder_api_key_env cfg))
       (credential_source env ''exchange.api_key'' (e_api_key cfg) (e_api_key_env cfg))) \<and>
   resolve_builder_api_secret env cfg = unwrap_or (Inl ''builder_api_secret not configured'')
     (or_opt (credential_source env ''exchange.builder_api_secret'' (e_builder_api_secret cfg) (e_builder_api_secret_env cfg))
       (credential_source env ''exchange.api_secret'' (e_api_secret cfg) (e_api_secret_env cfg))) \<and>
   resolve_builder_api_passphrase env cfg = unwrap_or (Inl ''builder_api_passphrase not configured'')
     (or_opt (credential_source env ''exchange.builder_api_passphrase'' (e_builder_api_passphrase cfg) (e_builder_api_passphrase_env cfg))
       (credential_source env ''exchange.api_passphrase'' (e_api_passphrase cfg) (e_api_passphrase_env cfg)))"
  unfolding resolve_builder_api_key_def resolve_builder_api_secret_def resolve_builder_api_passphrase_def
    credential_source_def
  by (simp add: then_some_def split: option.split)

end
