(* ===== verification/Config_Validate.thy ===== *)
theory Config_Validate
  imports Config
begin

text \<open>
  The validation of a configuration, \<open>bot-infra/src/config/validate.rs\<close>. The function \<open>validate\<close> of
  the source is one sequence of checks; it is split here where the source turns to another
  struct, in the order of the source: \<open>validate_strategy\<close>, \<open>validate_market\<close>, \<open>validate_exchange\<close>,
  \<open>validate_claim\<close>, and the kill switch at the end.
\<close>

definition is_hex_address :: "string \<Rightarrow> bool" where
  "is_hex_address raw =
    (let trimmed = trim raw
     in starts_with trimmed ''0x'' \<and> length trimmed = 42 \<and> list_all is_ascii_hexdigit (drop 2 trimmed))"

definition is_hex_private_key :: "string \<Rightarrow> bool" where
  "is_hex_private_key raw =
    (let trimmed = trim raw
     in starts_with trimmed ''0x'' \<and> length trimmed = 66 \<and> list_all is_ascii_hexdigit (drop 2 trimmed))"

definition is_hex_bytes32 :: "string \<Rightarrow> bool" where
  "is_hex_bytes32 raw =
    (let trimmed = trim raw
     in starts_with trimmed ''0x'' \<and> length trimmed = 66 \<and> list_all is_ascii_hexdigit (drop 2 trimmed))"

definition validate_claim_user_address :: "config_env \<Rightarrow> claim_config \<Rightarrow> (string, unit) result" where
  "validate_claim_user_address env claim =
    (if \<not> c_enabled claim then Inr ()
     else res_bind (resolve_user_address env claim) (\<lambda>user_address.
       ensure (is_hex_address user_address) ''claim.user_address must be a valid 0x address when provided''))"

definition validate_claim_private_key :: "config_env \<Rightarrow> claim_config \<Rightarrow> (string, unit) result" where
  "validate_claim_private_key env claim =
    (if \<not> c_enabled claim then Inr ()
     else res_bind (resolve_private_key env claim) (\<lambda>private_key.
       ensure (is_hex_private_key private_key) ''claim.private_key must be a valid 0x private key when provided''))"

definition unit_interval :: "f64 \<Rightarrow> bool" where
  "unit_interval x \<longleftrightarrow> 0 \<le> x \<and> x \<le> 1"

definition validate_strategy :: "strategy_config \<Rightarrow> (string, unit) result" where
  "validate_strategy strategy = first_err
    [ensure (unit_interval (s_entry_price strategy)) ''entry_price must be in [0,1]'',
     ensure (0 < s_tp_pct strategy) ''tp_pct must be > 0'',
     ensure (0 < s_aggressive_sl_pct strategy) ''aggressive_sl_pct must be > 0'',
     if s_dual_side_enabled strategy then first_err
      [ensure (0 < s_total_notional_usdc strategy) ''total_notional_usdc must be > 0 in dual_side mode'',
       ensure (0 < s_per_leg_initial_notional_usdc strategy)
         ''per_leg_initial_notional_usdc must be > 0 in dual_side mode'',
       ensure (s_per_leg_initial_notional_usdc strategy * lit 2 \<le> s_total_notional_usdc strategy)
         ''per_leg_initial_notional_usdc * 2 must be <= total_notional_usdc'',
       ensure (0 < s_dca_interval_sec strategy) ''dca_interval_sec must be > 0 in dual_side mode'',
       ensure (0 < s_max_dca_levels_per_leg strategy) ''max_dca_levels_per_leg must be > 0 in dual_side mode'',
       ensure (unit_interval (s_dca_step_pct strategy) \<and> 0 < s_dca_step_pct strategy)
         ''dca_step_pct must be in (0,1]'',
       ensure (unit_interval (s_leg_tp_pct strategy) \<and> 0 < s_leg_tp_pct strategy)
         ''leg_tp_pct must be in (0,1]'',
       ensure (0 < s_basket_tp_usdc strategy) ''basket_tp_usdc must be > 0 in dual_side mode'',
       ensure (s_basket_sl_usdc strategy < 0) ''basket_sl_usdc must be < 0 in dual_side mode'',
       ensure (0 < s_force_flatten_sec_before_close strategy)
         ''force_flatten_sec_before_close must be > 0 in dual_side mode'']
     else Inr ()]"

definition validate_market :: "bot_config \<Rightarrow> strategy_config \<Rightarrow> risk_config \<Rightarrow> execution_config \<Rightarrow> (string, unit) result" where
  "validate_market bot_cfg strategy risk execution = first_err
    [ensure (0 < rk_max_notional_per_market_usdc risk) ''max_notional_per_market_usdc must be > 0'',
     if \<not> s_flow_only strategy
       then first_err (map (\<lambda>scope.
         ensure (list_ex (\<lambda>(s, _). s = scope) supported_market_scope_slug_prefixes)
           (''market_scope '' @ CHR 0x27 # scope @ CHR 0x27 # '' must be one of: '' @ supported_market_scope_names_csv))
         (resolve_scopes bot_cfg))
       else Inr (),
     if trim (b_market_slug_override bot_cfg) \<noteq> []
       then let override_lower = to_ascii_lowercase (b_market_slug_override bot_cfg)
         in ensure (list_ex (\<lambda>(_, slug_prefix). contains override_lower slug_prefix) supported_market_scope_slug_prefixes)
           ''market_slug_override must contain a supported slug prefix (e.g. btc-updown-5m-, doge-updown-5m-)''
       else Inr (),
     ensure (b_market_selection bot_cfg = ''latest_by_slug'') ''market_selection must be one of: latest_by_slug'',
     ensure (500 \<le> b_market_discovery_retry_interval_ms bot_cfg) ''market_discovery_retry_interval_ms must be >= 500'',
     ensure (100 \<le> b_loop_interval_ms bot_cfg) ''loop_interval_ms too low'',
     ensure (x_order_type execution \<noteq> []) ''order_type required'']"

definition validate_exchange :: "config_env \<Rightarrow> exchange_config \<Rightarrow> (string, unit) result" where
  "validate_exchange env exchange =
    (let inline_address = trim (e_api_address exchange);
         inline_key = trim (e_api_key exchange);
         inline_secret = trim (e_api_secret exchange);
         inline_passphrase = trim (e_api_passphrase exchange);
         inline_any = (inline_address \<noteq> [] \<or> inline_key \<noteq> [] \<or> inline_secret \<noteq> [] \<or> inline_passphrase \<noteq> [])
     in first_err
    [ensure (starts_with (e_gamma_base_url exchange) ''http'') ''gamma_base_url must start with http'',
     ensure (starts_with (e_clob_base_url exchange) ''http'') ''clob_base_url must start with http'',
     ensure (starts_with (e_clob_ws_url exchange) ''ws'') ''clob_ws_url must start with ws'',
     ensure (0 < e_chain_id exchange) ''chain_id must be > 0'',
     ensure (e_ctf_exchange_address exchange \<noteq> []) ''ctf_exchange_address required'',
     ensure (e_neg_risk_ctf_exchange_address exchange \<noteq> []) ''neg_risk_ctf_exchange_address required'',
     ensure (is_hex_address (e_ctf_exchange_address exchange))
       ''ctf_exchange_address must be a valid 0x address'',
     ensure (is_hex_address (e_neg_risk_ctf_exchange_address exchange))
       ''neg_risk_ctf_exchange_address must be a valid 0x address'',
     if trim (e_builder_code exchange) \<noteq> []
       then ensure (is_hex_bytes32 (e_builder_code exchange)) ''builder_code must be a bytes32 0x hex value''
       else Inr (),
     ensure (is_ok (resolve_signer_private_key env exchange)) ''signer_private_key required'',
     if inline_any
       then ensure (inline_address \<noteq> [] \<and> inline_key \<noteq> [] \<and> inline_secret \<noteq> [] \<and> inline_passphrase \<noteq> [])
         ''api_address, api_key, api_secret, api_passphrase must all be set when using direct credentials''
       else first_err
        [ensure (e_api_address_env exchange \<noteq> []) ''api_address_env is required when direct api_address is empty'',
         ensure (e_api_key_env exchange \<noteq> []) ''api_key_env is required when direct api_key is empty'',
         ensure (e_api_secret_env exchange \<noteq> []) ''api_secret_env is required when direct api_secret is empty'',
         ensure (e_api_passphrase_env exchange \<noteq> [])
           ''api_passphrase_env is required when direct api_passphrase is empty'']])"

definition drop_value :: "('e, 'a) result \<Rightarrow> ('e, unit) result" where
  "drop_value r = res_bind r (\<lambda>_. Inr ())"

definition validate_claim :: "config_env \<Rightarrow> exchange_config \<Rightarrow> claim_config \<Rightarrow> (string, unit) result" where
  "validate_claim env exchange claim = first_err
    [ensure (starts_with (c_data_api_base_url claim) ''http'') ''claim.data_api_base_url must start with http'',
     if trim (c_rpc_url claim) \<noteq> []
       then ensure (starts_with (c_rpc_url claim) ''http'') ''claim.rpc_url must start with http'' else Inr (),
     res_bind (claim_config_execution_mode claim) (\<lambda>claim_execution_mode. first_err
      [ensure (0 < c_chain_id claim) ''claim.chain_id must be > 0'',
       ensure (5 \<le> c_discovery_interval_sec claim) ''claim.discovery_interval_sec must be >= 5'',
       ensure (0 < c_positions_page_size claim) ''claim.positions_page_size must be > 0'',
       ensure (0 < c_positions_max_pages claim) ''claim.positions_max_pages must be > 0'',
       ensure (0 < c_process_batch_size claim) ''claim.process_batch_size must be > 0'',
       ensure (0 < c_max_attempts claim) ''claim.max_attempts must be > 0'',
       ensure (1000 \<le> c_retry_backoff_ms claim) ''claim.retry_backoff_ms must be >= 1000'',
       ensure (is_hex_address (c_ctf_contract_address claim)) ''claim.ctf_contract_address must be a valid 0x address'',
       ensure (is_hex_address (c_collateral_token_address claim))
         ''claim.collateral_token_address must be a valid 0x address'',
       ensure (0 \<le> c_activate_min_usdc claim) ''claim.activate_min_usdc must be >= 0'',
       ensure (is_hex_address (c_usdce_token_address claim)) ''claim.usdce_token_address must be a valid 0x address'',
       ensure (is_hex_address (c_pusd_token_address claim)) ''claim.pusd_token_address must be a valid 0x address'',
       ensure (is_hex_address (c_collateral_onramp_address claim))
         ''claim.collateral_onramp_address must be a valid 0x address'',
       if c_enabled claim then first_err
        [ensure (trim (c_rpc_url claim) \<noteq> [] \<or> trim (c_rpc_url_env claim) \<noteq> [])
           ''claim.rpc_url or claim.rpc_url_env is required when claim.enabled=true'',
         ensure (trim (c_user_address claim) \<noteq> [] \<or> trim (c_user_address_env claim) \<noteq> [])
           ''claim.user_address or claim.user_address_env is required when claim.enabled=true'',
         ensure (trim (c_private_key claim) \<noteq> [] \<or> trim (c_private_key_env claim) \<noteq> [])
           ''claim.private_key or claim.private_key_env is required when claim.enabled=true'',
         validate_claim_user_address env claim,
         validate_claim_private_key env claim,
         if claim_execution_mode \<in> {BuilderRelayer, RelayerApiKey}
           then ensure (resolve_gnosis_safe_address env exchange \<noteq> None)
             ''exchange.gnosis_safe_address is required when claim.execution_mode=builder_relayer or relayer_api_key''
           else Inr (),
         if claim_execution_mode = BuilderRelayer then first_err
          [drop_value (with_context
             ''exchange.builder_api_key is required when claim.execution_mode=builder_relayer''
             (resolve_builder_api_key env exchange)),
           drop_value (with_context
             ''exchange.builder_api_secret is required when claim.execution_mode=builder_relayer''
             (resolve_builder_api_secret env exchange)),
           drop_value (with_context
             ''exchange.builder_api_passphrase is required when claim.execution_mode=builder_relayer''
             (resolve_builder_api_passphrase env exchange))]
         else Inr ()]
       else Inr ()])]"

definition validate :: "config_env \<Rightarrow> bot_config \<Rightarrow> strategy_config \<Rightarrow> risk_config \<Rightarrow> execution_config \<Rightarrow>
    exchange_config \<Rightarrow> claim_config \<Rightarrow> telegram_config \<Rightarrow> (string, unit) result" where
  "validate env bot_cfg strategy risk execution exchange claim telegram = first_err
    [validate_strategy strategy, validate_market bot_cfg strategy risk execution,
     validate_exchange env exchange, validate_claim env exchange claim,
     ensure (rk_kill_switch_mode risk \<noteq> KsDisabled \<or> \<not> rk_manual_kill_switch_active risk)
       ''manual_kill_switch_active cannot be true when kill_switch_mode is disabled'']"

definition validate_app :: "config_env \<Rightarrow> app_config \<Rightarrow> (string, unit) result" where
  "validate_app env cfg = validate env (cfg_bot cfg) (cfg_strategy cfg) (cfg_risk cfg) (cfg_execution cfg)
     (cfg_exchange cfg) (cfg_claim cfg) (cfg_telegram cfg)"

section \<open>What a validated configuration guarantees\<close>

definition hex_digits_of :: "nat \<Rightarrow> string \<Rightarrow> bool" where
  "hex_digits_of n s \<longleftrightarrow> (\<exists>ds. trim s = ''0x'' @ ds \<and> length ds = n \<and> list_all is_ascii_hexdigit ds)"

lemma hex_split: "starts_with s ''0x'' \<and> length s = n + 2 \<and> list_all is_ascii_hexdigit (drop 2 s) \<longleftrightarrow>
   (\<exists>ds. s = ''0x'' @ ds \<and> length ds = n \<and> list_all is_ascii_hexdigit ds)"
  by (auto simp: starts_with_iff)

lemma is_hex_digits: "is_hex_address s = hex_digits_of 40 s" "is_hex_private_key s = hex_digits_of 64 s"
  "is_hex_bytes32 s = hex_digits_of 64 s"
  using hex_split [of "trim s" 40] hex_split [of "trim s" 64]
  by (simp_all add: is_hex_address_def is_hex_private_key_def is_hex_bytes32_def hex_digits_of_def)

lemma hexdigit_graphic: "is_ascii_hexdigit c \<Longrightarrow> graphic c"
  by (auto simp: is_ascii_hexdigit_def graphic_def)

lemma hex_literal: "length ds = n \<Longrightarrow> list_all is_ascii_hexdigit ds \<Longrightarrow> hex_digits_of n (''0x'' @ ds)"
proof -
  assume "length ds = n" and h: "list_all is_ascii_hexdigit ds"
  moreover have "trim (''0x'' @ ds) = ''0x'' @ ds"
    using h by (intro trim_graphic) (simp add: list_all_iff graphic_def hexdigit_graphic [unfolded graphic_def])
  ultimately show ?thesis by (simp add: hex_digits_of_def)
qed

lemma drop_value_ok: "drop_value r = Inr u \<longleftrightarrow> (\<exists>x. r = Inr x)"
  by (cases r) (simp_all add: drop_value_def)

lemma validate_parts:
  assumes "validate env bot_cfg strategy risk execution exchange claim telegram = Inr ()"
  shows "validate_strategy strategy = Inr ()" "validate_market bot_cfg strategy risk execution = Inr ()"
    "validate_exchange env exchange = Inr ()" "validate_claim env exchange claim = Inr ()"
    "rk_manual_kill_switch_active risk \<Longrightarrow> rk_kill_switch_mode risk \<noteq> KsDisabled"
  using assms by (auto simp: validate_def first_err_ok)

text \<open>A configuration made of the defaults, with the values that have none filled in.\<close>

definition sample_strategy :: strategy_config where
  "sample_strategy = \<lparr>
     s_entry_price = default_entry_price, s_tp_pct = default_tp_pct, s_base_sl_pct = default_base_sl_pct,
     s_aggressive_sl_pct = default_aggressive_sl_pct, s_entry_window_sec = default_entry_window_sec,
     s_max_hold_sec = default_max_hold_sec, s_sl_renew_interval_ms = default_sl_renew_interval_ms,
     s_flow_only = False, s_dual_side_enabled = True,
     s_max_price_relax_enabled = default_max_price_relax_enabled,
     s_total_notional_usdc = default_total_notional_usdc,
     s_per_leg_initial_notional_usdc = default_per_leg_initial_notional_usdc,
     s_dca_interval_sec = default_dca_interval_sec, s_dca_step_pct = default_dca_step_pct,
     s_max_dca_levels_per_leg = default_max_dca_levels_per_leg, s_leg_tp_pct = default_leg_tp_pct,
     s_basket_tp_usdc = default_basket_tp_usdc, s_basket_sl_usdc = default_basket_sl_usdc,
     s_force_flatten_sec_before_close = default_force_flatten_sec_before_close,
     s_sl_bid_confirm_timeout_ms = default_sl_bid_confirm_timeout_ms\<rparr>"

definition sample_bot :: bot_config where
  "sample_bot = \<lparr>b_mode = Live, b_market_scope = default_market_scope, b_market_scopes = [],
     b_market_slug_override = default_market_slug_override, b_loop_interval_ms = default_loop_interval_ms,
     b_market_discovery_retry_interval_ms = default_market_discovery_retry_interval_ms,
     b_market_discovery_timeout_sec = default_market_discovery_timeout_sec,
     b_market_selection = default_market_selection\<rparr>"

definition sample_risk :: risk_config where
  "sample_risk = \<lparr>rk_max_daily_loss_usdc = Fin 20, rk_max_consecutive_losses = 3,
     rk_max_notional_per_market_usdc = Fin 10, rk_max_open_orders = 4, rk_max_stale_data_ms = 3000,
     rk_kill_switch_mode = ManualOrPolicy, rk_manual_kill_switch_active = True,
     rk_min_balance_usdc = default_min_balance_usdc\<rparr>"

definition sample_execution :: execution_config where
  "sample_execution = \<lparr>x_order_type = ''limit'', x_time_in_force = ''gtc'', x_retry_count = 3,
     x_retry_backoff_ms = 250, x_reconcile_interval_ms = 1000\<rparr>"

definition sample_exchange :: exchange_config where
  "sample_exchange = default_exchange_config\<lparr>e_api_address_env := ''POLYMARKET_ADDRESS'',
     e_api_key_env := ''POLYMARKET_API_KEY'', e_api_secret_env := ''POLYMARKET_API_SECRET'',
     e_api_passphrase_env := ''POLYMARKET_API_PASSPHRASE'', e_signer_private_key := ''0x01''\<rparr>"

definition sample_claim :: claim_config where
  "sample_claim = default_claim_config\<lparr>c_enabled := True,
     c_user_address := ''0x'' @ replicate 40 CHR ''a'', c_private_key := ''0x'' @ replicate 64 CHR ''1''\<rparr>"

definition sample_telegram :: telegram_config where
  "sample_telegram = \<lparr>t_bot_token = [], t_chat_id = []\<rparr>"

lemma hex_eval: "list_all graphic s \<Longrightarrow> hex_digits_of n s \<longleftrightarrow>
    starts_with s ''0x'' \<and> length s = n + 2 \<and> list_all is_ascii_hexdigit (drop 2 s)"
  using hex_split [of s n] by (simp add: hex_digits_of_def)

lemma Fin_unit: "Fin (1 / 1024) \<le> v \<Longrightarrow> v \<le> Fin 1 \<Longrightarrow> 0 < v \<and> 0 \<le> v \<and> v \<le> 1 \<and> - v < 0"
  by (cases v) (simp_all add: uminus_f64_def one_f64_def)

lemma lit_unit:
  assumes "1 / 1024 \<le> q" "q \<le> 1"
  shows "0 < lit q" "0 \<le> lit q" "lit q \<le> 1" "- lit q < 0"
proof -
  have p: "(2::rat) powi (- 10) = 1 / 1024" by (simp add: power_int_def power_divide)
  have r: "repr (1 / 1024)" using repr_pow [of "- 10"] unfolding p by simp
  have h: "\<bar>1 / 1024 :: rat\<bar> < huge" using big_lt_huge one_le_big by linarith
  have "Fin (1 / 1024) \<le> lit q"
    using rnd_mono [OF assms(1)] unfolding rnd_repr [OF r h] by (simp add: lit_def)
  moreover have "lit q \<le> Fin 1" using rnd_mono [OF assms(2)] by (simp flip: lit_def)
  ultimately show "0 < lit q" "0 \<le> lit q" "lit q \<le> 1" "- lit q < 0"
    using Fin_unit by blast+
qed

lemma five_twice: "Fin 5 * Fin 2 \<le> Fin 10"
  by (simp add: times_f64_def f64_mul_def sign_neg_def) (simp add: rnd_int [of 10, simplified])

lemma default_addresses: "is_hex_address default_claim_ctf_contract_address"
  "is_hex_address default_claim_collateral_token_address" "is_hex_address default_claim_usdce_token_address"
  "is_hex_address default_claim_pusd_token_address" "is_hex_address default_claim_collateral_onramp_address"
  "is_hex_address default_exchange_ctf_exchange_address" "is_hex_address default_neg_risk_ctf_exchange_address"
  by (simp_all add: is_hex_digits hex_eval graphic_def is_ascii_hexdigit_def
    default_claim_ctf_contract_address_def default_claim_collateral_token_address_def
    default_claim_usdce_token_address_def default_claim_pusd_token_address_def
    default_claim_collateral_onramp_address_def default_exchange_ctf_exchange_address_def
    default_neg_risk_ctf_exchange_address_def)

lemma sample_keys:
  "validate_claim_user_address env sample_claim = Inr ()" "validate_claim_private_key env sample_claim = Inr ()"
  "trim (c_user_address sample_claim) \<noteq> []" "trim (c_private_key sample_claim) \<noteq> []"
proof -
  have g: "trim (''0x'' @ replicate n CHR ''a'') = ''0x'' @ replicate n CHR ''a''"
    "trim (''0x'' @ replicate n CHR ''1'') = ''0x'' @ replicate n CHR ''1''" for n
    by (rule trim_graphic; simp add: list_all_iff graphic_def)+
  have h: "hex_digits_of n (''0x'' @ replicate n CHR ''a'')" "hex_digits_of n (''0x'' @ replicate n CHR ''1'')" for n
    by (rule hex_literal; simp add: list_all_iff is_ascii_hexdigit_def)+
  show "validate_claim_user_address env sample_claim = Inr ()"
    using g(1) [of 40] h(1) [of 40]
    by (simp add: validate_claim_user_address_def sample_claim_def resolve_user_address_def is_hex_digits
        decrypt_config_string_if_needed_def config_enc_prefix_def)
  show "validate_claim_private_key env sample_claim = Inr ()"
    using g(2) [of 64] h(2) [of 64]
    by (simp add: validate_claim_private_key_def sample_claim_def resolve_private_key_def is_hex_digits
        decrypt_config_string_if_needed_def config_enc_prefix_def)
  show "trim (c_user_address sample_claim) \<noteq> []" "trim (c_private_key sample_claim) \<noteq> []"
    using g(1) [of 40] g(2) [of 64] by (simp_all add: sample_claim_def)
qed

lemma sample_strategy_ok: "validate_strategy sample_strategy = Inr ()"
  by (simp add: validate_strategy_def sample_strategy_def first_err_ok unit_interval_def
   default_entry_price_def default_tp_pct_def default_aggressive_sl_pct_def default_total_notional_usdc_def
   default_per_leg_initial_notional_usdc_def default_dca_interval_sec_def default_dca_step_pct_def
   default_max_dca_levels_per_leg_def default_leg_tp_pct_def default_basket_tp_usdc_def default_basket_sl_usdc_def
   default_force_flatten_sec_before_close_def lit_unit five_twice)

lemma sample_market_ok: "validate_market sample_bot sample_strategy sample_risk sample_execution = Inr ()"
  by (simp add: validate_market_def sample_bot_def sample_strategy_def sample_risk_def sample_execution_def first_err_ok
   resolve_scopes_def default_market_scope_def default_market_slug_override_def default_market_selection_def
   default_market_discovery_retry_interval_ms_def default_loop_interval_ms_def supported_market_scope_slug_prefixes_def)

lemma sample_exchange_ok: "validate_exchange env sample_exchange = Inr ()"
  by (simp add: validate_exchange_def sample_exchange_def default_exchange_config_def first_err_ok
    default_exchange_gamma_base_url_def default_exchange_clob_base_url_def default_exchange_clob_ws_url_def
    default_exchange_chain_id_def is_hex_digits hex_eval graphic_def is_ascii_hexdigit_def
    default_exchange_ctf_exchange_address_def default_neg_risk_ctf_exchange_address_def
    resolve_signer_private_key_def decrypt_config_string_if_needed_def config_enc_prefix_def)

lemma sample_claim_fields:
  "c_enabled sample_claim" "c_data_api_base_url sample_claim = default_claim_data_api_base_url"
  "c_rpc_url sample_claim = default_claim_rpc_url" "c_execution_mode sample_claim = default_claim_execution_mode"
  "c_chain_id sample_claim = default_claim_chain_id"
  "c_discovery_interval_sec sample_claim = default_claim_discovery_interval_sec"
  "c_positions_page_size sample_claim = default_claim_positions_page_size"
  "c_positions_max_pages sample_claim = default_claim_positions_max_pages"
  "c_process_batch_size sample_claim = default_claim_process_batch_size"
  "c_max_attempts sample_claim = default_claim_max_attempts"
  "c_retry_backoff_ms sample_claim = default_claim_retry_backoff_ms"
  "c_activate_min_usdc sample_claim = default_claim_activate_min_usdc"
  "c_ctf_contract_address sample_claim = default_claim_ctf_contract_address"
  "c_collateral_token_address sample_claim = default_claim_collateral_token_address"
  "c_usdce_token_address sample_claim = default_claim_usdce_token_address"
  "c_pusd_token_address sample_claim = default_claim_pusd_token_address"
  "c_collateral_onramp_address sample_claim = default_claim_collateral_onramp_address"
  by (simp_all add: sample_claim_def default_claim_config_def)

lemma default_min_usdc: "0 \<le> default_claim_activate_min_usdc"
  unfolding default_claim_activate_min_usdc_def by (rule lit_unit) simp_all

lemma default_mode: "from_config_value default_claim_execution_mode = Inr Direct"
  by (simp add: from_config_value_def default_claim_execution_mode_def graphic_def to_ascii_lowercase_def
      ascii_lower_def)

lemma default_urls: "starts_with default_claim_data_api_base_url ''http''" "starts_with default_claim_rpc_url ''http''"
  "trim default_claim_rpc_url \<noteq> []"
  by (simp_all add: default_claim_data_api_base_url_def default_claim_rpc_url_def graphic_def)

lemma sample_claim_ok: "validate_claim env sample_exchange sample_claim = Inr ()"
  by (simp add: validate_claim_def first_err_ok sample_keys sample_claim_fields default_addresses
    claim_config_execution_mode_def default_mode default_urls default_min_usdc
    default_claim_chain_id_def default_claim_discovery_interval_sec_def default_claim_positions_page_size_def
    default_claim_positions_max_pages_def default_claim_process_batch_size_def default_claim_max_attempts_def
    default_claim_retry_backoff_ms_def)

lemma sample_validates: "validate env sample_bot sample_strategy sample_risk sample_execution sample_exchange
    sample_claim sample_telegram = Inr ()"
  by (simp add: validate_def first_err_ok sample_strategy_ok sample_market_ok sample_exchange_ok sample_claim_ok)
    (simp add: sample_risk_def)

section \<open>Properties\<close>

text \<open>A validated two-sided strategy is sound. The entry price is a number between zero and one,
  both opening legs together stay within the total budget, and the band in which a basket is kept
  contains its opening: a basket with no profit and no loss is not flattened, and no profit is at
  once a reason to take the profit and to stop the loss.\<close>

lemma validated_strategy_sound:
  assumes "validate env bot_cfg strategy risk execution exchange claim telegram = Inr ()"
    "s_dual_side_enabled strategy"
  shows "is_finite (s_entry_price strategy) \<and> 0 \<le> s_entry_price strategy \<and> s_entry_price strategy \<le> 1 \<and>
    0 < s_per_leg_initial_notional_usdc strategy \<and>
    s_per_leg_initial_notional_usdc strategy * lit 2 \<le> s_total_notional_usdc strategy \<and>
    \<not> should_flatten_basket 0 (s_basket_tp_usdc strategy) (s_basket_sl_usdc strategy) \<and>
    (\<forall>pnl. \<not> (s_basket_tp_usdc strategy \<le> pnl \<and> pnl \<le> s_basket_sl_usdc strategy))"
proof -
  note v = validate_parts(1) [OF assms(1), unfolded validate_strategy_def first_err_ok]
  have e: "0 \<le> s_entry_price strategy" "s_entry_price strategy \<le> 1"
    and b: "0 < s_basket_tp_usdc strategy" "s_basket_sl_usdc strategy < 0"
    and l: "0 < s_per_leg_initial_notional_usdc strategy"
      "s_per_leg_initial_notional_usdc strategy * lit 2 \<le> s_total_notional_usdc strategy"
    using v assms(2) by (simp_all add: unit_interval_def first_err_ok)
  have "is_finite (s_entry_price strategy)" by (rule is_finite_sandwich [OF _ _ e]) simp_all
  moreover have "\<not> (s_basket_tp_usdc strategy \<le> pnl \<and> pnl \<le> s_basket_sl_usdc strategy)" for pnl
    using b by (meson f64_le_trans f64_lt_imp_le f64_le_lt_contra)
  ultimately show ?thesis
    using e b l by (simp add: should_flatten_basket_def f64_le_lt_contra)
      (meson f64_le_lt_contra)
qed

theorem validated_strategy_sound_witness:
  "s_per_leg_initial_notional_usdc sample_strategy * lit 2 \<le> s_total_notional_usdc sample_strategy"
  using validated_strategy_sound [OF sample_validates] by (simp add: sample_strategy_def)

text \<open>A validated configuration with claiming enabled can claim. The user address and the private
  key resolve to hexadecimal texts of 40 and 64 digits, the execution mode is one of the three,
  with either relayer there is a safe address, and with the builder relayer its three credentials
  resolve.\<close>

lemma validated_claim_resolves:
  assumes "validate env bot_cfg strategy risk execution exchange claim telegram = Inr ()" "c_enabled claim"
  shows "\<exists>addr key mode. resolve_user_address env claim = Inr addr \<and> hex_digits_of 40 addr \<and>
    resolve_private_key env claim = Inr key \<and> hex_digits_of 64 key \<and>
    claim_config_execution_mode claim = Inr mode \<and>
    (mode = Direct \<or> resolve_gnosis_safe_address env exchange \<noteq> None) \<and>
    (mode \<noteq> BuilderRelayer \<or> is_ok (resolve_builder_api_key env exchange) \<and>
      is_ok (resolve_builder_api_secret env exchange) \<and> is_ok (resolve_builder_api_passphrase env exchange))"
proof -
  note v = validate_parts(4) [OF assms(1), unfolded validate_claim_def first_err_ok]
  obtain mode where m: "claim_config_execution_mode claim = Inr mode"
    using v by (auto simp: res_bind_def split: sum.splits)
  have a: "validate_claim_user_address env claim = Inr ()" and k: "validate_claim_private_key env claim = Inr ()"
    and g: "mode \<in> {BuilderRelayer, RelayerApiKey} \<Longrightarrow> resolve_gnosis_safe_address env exchange \<noteq> None"
    and b: "mode = BuilderRelayer \<Longrightarrow> is_ok (resolve_builder_api_key env exchange) \<and>
      is_ok (resolve_builder_api_secret env exchange) \<and> is_ok (resolve_builder_api_passphrase env exchange)"
    using v assms(2) unfolding m by (auto simp: first_err_ok drop_value_ok)
  obtain addr where "resolve_user_address env claim = Inr addr" "hex_digits_of 40 addr"
    using a assms(2) by (auto simp: validate_claim_user_address_def is_hex_digits)
  moreover obtain key where "resolve_private_key env claim = Inr key" "hex_digits_of 64 key"
    using k assms(2) by (auto simp: validate_claim_private_key_def is_hex_digits)
  moreover have "mode = Direct \<or> resolve_gnosis_safe_address env exchange \<noteq> None"
    using g by (cases mode) auto
  ultimately show ?thesis using m b by blast
qed

theorem validated_claim_resolves_witness:
  "\<exists>addr. resolve_user_address sample_env sample_claim = Inr addr \<and> hex_digits_of 40 addr"
  using validated_claim_resolves [OF sample_validates [of sample_env] sample_claim_fields(1)] by blast

end
