(* ===== verification/Reconcile.thy ===== *)
theory Reconcile
  imports F64
begin

text \<open>
  The choice between the last websocket tick and a REST snapshot, \<open>bot-infra/src/reconcile.rs\<close>.
  Chrono's timestamps are the type \<open>'ts\<close> with their order, and \<open>timestamp_millis\<close> is a parameter.
\<close>

record 'ts price_tick =
  tk_market_slug :: string
  tk_side :: string
  tk_price :: f64
  tk_ts :: 'ts

record 'ts snapshot_price =
  sp_market_slug :: string
  sp_price :: f64
  sp_ts :: 'ts

record reconcile_result =
  rc_chosen_price :: f64
  rc_source :: string
  rc_stale_data_ms :: u64

definition reconcile_tick_and_snapshot :: "('ts::linorder \<Rightarrow> i64) \<Rightarrow> 'ts price_tick option \<Rightarrow> 'ts snapshot_price \<Rightarrow>
    i64 \<Rightarrow> reconcile_result" where
  "reconcile_tick_and_snapshot timestamp_millis tick snapshot now_ms =
    (case tick of
      Some t \<Rightarrow>
        let tick_ms = timestamp_millis (tk_ts t);
            stale = i64_as_u64 (sat_sub_i64 now_ms tick_ms)
        in if sp_ts snapshot \<le> tk_ts t
           then \<lparr>rc_chosen_price = tk_price t, rc_source = ''ws'', rc_stale_data_ms = stale\<rparr>
           else let snap_stale = i64_as_u64 (sat_sub_i64 now_ms (timestamp_millis (sp_ts snapshot)))
                in \<lparr>rc_chosen_price = sp_price snapshot, rc_source = ''rest'', rc_stale_data_ms = snap_stale\<rparr>
    | None \<Rightarrow>
        let snap_stale = i64_as_u64 (sat_sub_i64 now_ms (timestamp_millis (sp_ts snapshot)))
        in \<lparr>rc_chosen_price = sp_price snapshot, rc_source = ''rest'', rc_stale_data_ms = snap_stale\<rparr>)"

section \<open>Staleness\<close>

lemma stale_past: "0 \<le> t \<Longrightarrow> t \<le> now \<Longrightarrow> is_i64 now \<Longrightarrow> uint (i64_as_u64 (sat_sub_i64 now t)) = now - t"
  by (simp add: uint_i64_as_u64 sat_sub_i64_def sat_i64_def is_i64_def i64_min_def i64_max_def)

lemma stale_future:
  assumes "0 \<le> now" "now < t" "is_i64 t"
  shows "uint (i64_as_u64 (sat_sub_i64 now t)) = 2 ^ 64 - (t - now)"
proof -
  have "sat_sub_i64 now t = now - t" using assms by (simp add: sat_sub_i64_def sat_i64_def is_i64_def i64_min_def i64_max_def)
  moreover have "(now - t + 2 ^ 64) mod 2 ^ 64 = now - t + 2 ^ 64"
    using assms by (intro mod_pos_pos_trivial) (simp_all add: is_i64_def i64_max_def)
  then have "(now - t) mod 2 ^ 64 = now - t + 2 ^ 64" by simp
  ultimately show ?thesis by (simp add: uint_i64_as_u64)
qed

section \<open>Properties\<close>

text \<open>The reconciled price is the freshest one. With clocks that agree (neither timestamp lies in the
  future) and a millisecond reading that follows the order of the timestamps, the price is the
  tick's exactly when there is a tick that is not older than the snapshot, and the staleness
  reported is the age of the newest of the two.\<close>

lemma reconcile_freshest:
  assumes "mono timestamp_millis" "is_i64 now"
    "0 \<le> timestamp_millis (sp_ts snap)" "timestamp_millis (sp_ts snap) \<le> now"
    "0 \<le> timestamp_millis (tk_ts t)" "timestamp_millis (tk_ts t) \<le> now"
  shows "rc_source (reconcile_tick_and_snapshot timestamp_millis (Some t) snap now) =
      (if sp_ts snap \<le> tk_ts t then ''ws'' else ''rest'') \<and>
    rc_chosen_price (reconcile_tick_and_snapshot timestamp_millis (Some t) snap now) =
      (if sp_ts snap \<le> tk_ts t then tk_price t else sp_price snap) \<and>
    uint (rc_stale_data_ms (reconcile_tick_and_snapshot timestamp_millis (Some t) snap now)) =
      now - max (timestamp_millis (tk_ts t)) (timestamp_millis (sp_ts snap)) \<and>
    rc_chosen_price (reconcile_tick_and_snapshot timestamp_millis None snap now) = sp_price snap \<and>
    uint (rc_stale_data_ms (reconcile_tick_and_snapshot timestamp_millis None snap now)) =
      now - timestamp_millis (sp_ts snap)"
proof -
  have "sp_ts snap \<le> tk_ts t \<Longrightarrow> timestamp_millis (sp_ts snap) \<le> timestamp_millis (tk_ts t)"
    and "\<not> sp_ts snap \<le> tk_ts t \<Longrightarrow> timestamp_millis (tk_ts t) \<le> timestamp_millis (sp_ts snap)"
    using assms(1) by (auto simp: mono_def)
  then show ?thesis
    using stale_past [OF assms(5,6,2)] stale_past [OF assms(3,4,2)]
    by (auto simp: reconcile_tick_and_snapshot_def Let_def)
qed

theorem reconcile_freshest_witness:
  "uint (rc_stale_data_ms (reconcile_tick_and_snapshot (\<lambda>t::int. t)
     (Some \<lparr>tk_market_slug = [], tk_side = [], tk_price = Fin 1, tk_ts = 970\<rparr>)
     \<lparr>sp_market_slug = [], sp_price = Fin 0, sp_ts = 900\<rparr> 1000)) = 30"
  using reconcile_freshest [of "\<lambda>t::int. t" 1000 "\<lparr>sp_market_slug = [], sp_price = Fin 0, sp_ts = 900\<rparr>"
    "\<lparr>tk_market_slug = [], tk_side = [], tk_price = Fin 1, tk_ts = 970\<rparr>"]
  by (simp add: mono_def is_i64_def i64_min_def i64_max_def)

text \<open>A timestamp in the future, even by a millisecond, is reported as enormously stale.\<close>

lemma reconcile_future_tick:
  assumes "0 \<le> now" "now < timestamp_millis (tk_ts t)" "is_i64 (timestamp_millis (tk_ts t))" "sp_ts snap \<le> tk_ts t"
  shows "2 ^ 63 < uint (rc_stale_data_ms (reconcile_tick_and_snapshot timestamp_millis (Some t) snap now))"
  using stale_future [OF assms(1-3)] assms by (simp add: reconcile_tick_and_snapshot_def Let_def is_i64_def i64_max_def)

end
