(* ===== verification/Repository.thy ===== *)
theory Repository
  imports Orders Config_Validate Reconcile Effects
begin

text \<open>
  The database and the exchange as the runtimes see them: the operations of the repository
  (\<open>bot-infra/src/db\<close>) the trade runtimes call, the exchange client and the risk gates of
  \<open>part_027.rs\<close>. The state is the part of the database the runtimes read back (the state of the
  trade and the idempotency keys) with the log of all writes and of the cancellations asked of the
  exchange; a runtime extends the record with
  its memory. Every write is answered by the environment, which may accept it, refuse it, or carry
  it out and still report an error (a lost answer), in any pattern. Queries and the exchange answer
  with what the environment says.
\<close>

section \<open>The world\<close>

record fill_info =
  fi_fill_id :: string
  fi_order_id :: string
  fi_price :: f64
  fi_size :: f64
  fi_fee :: "f64 option"
  fi_ts :: "i64 option"

datatype ws_channel = WsMarket | WsUser

datatype ws_event_type = WsUnknown | WsSubscribed | WsPriceChange | WsOrder | WsFill

record 'j ws_event =
  we_channel :: ws_channel
  we_payload :: 'j
  we_event_type :: ws_event_type
  we_market :: "string option"
  we_order_id :: "string option"
  we_fill_id :: "string option"
  we_status :: "string option"
  we_price :: "f64 option"
  we_size :: "f64 option"
  we_ts :: "i64 option"

record place_order_request =
  po_market :: string
  po_token_id :: "string option"
  po_side :: string
  po_price :: f64
  po_size :: f64
  po_intent :: string
  po_order_type :: string
  po_post_only :: bool
  po_client_order_id :: string
  po_leg_side :: "string option"
  po_fee_rate_bps :: u64
  po_neg_risk :: bool

record order_ack =
  ak_client_order_id :: string
  ak_exchange_order_id :: "string option"
  ak_status :: string
  ak_reject_reason :: "string option"
  ak_raw_status :: "string option"
  ak_exchange_ts :: "i64 option"

record position_exit_rule =
  pe_leg_side :: leg_side
  pe_drop_sell_pct :: f64
  pe_enabled :: bool

text \<open>The writes, in the order they reach the database.\<close>

datatype db_op =
    RiskEvent "i64 option" string string string
  | TradeStateSet i64 trade_state
  | OrderEvent i64 string string f64 f64 string "string option" "string option" "string option"
  | FillEvent i64 f64 f64 f64
  | TradeClosed i64 f64 f64
  | IdempotencyKey string
  | ReconcileRun i64 string string "(string \<times> event_value) list"
  | OrderUpsert i64 string "string option" string string f64 f64 string "i64 option" "string option"
      "(string \<times> event_value) list" "string option" "string option"
  | LegPosition i64 leg_side string f64 f64 int "f64 option"
  | PressureSnapshot i64 f64 "f64 option" "f64 option" "f64 option" "f64 option" "string option" bool
  | DualTradeCreated i64 f64 string f64 f64
  | ExitRuleDefault i64 leg_side f64
  | FillUpsert i64 string f64 f64 f64 "i64 option" "(string \<times> event_value) list"
  | OrderStatusMarked string string
  | RescueSessionCreated i64 string
  | RescueStatusMarked i64 string
  | RescueOrderCreated i64 string string
  | RescueFillRow i64 i64 string f64 f64 f64
  | BuilderOrderEvent i64 string "(string \<times> event_value) list"

record db =
  w_db_state :: trade_state
  w_keys :: "string list"
  w_ops :: "db_op list"
  w_cancels :: "string list"
  w_calls :: nat

datatype answer = Done | Refused string | Lost string

text \<open>What surrounds the program: the answer to the n-th call, the queries, the exchange, and how the
  standard library prints a float (with \<open>{}\<close> and with \<open>{:.4}\<close>) and serde a JSON value.\<close>

record 'j run_env =
  env_answer :: "nat \<Rightarrow> answer"
  env_new_id :: "nat \<Rightarrow> i64"
  env_uuid :: "nat \<Rightarrow> string"
  q_open_order_count :: "i64 option \<Rightarrow> nat \<Rightarrow> (string, u32) result"
  q_daily_realized_pnl :: "i64 option \<Rightarrow> nat \<Rightarrow> (string, f64) result"
  q_recent_pnls :: "i64 option \<Rightarrow> i64 \<Rightarrow> nat \<Rightarrow> (string, f64 option list) result"
  q_internal_order_id :: "string \<Rightarrow> nat \<Rightarrow> (string, i64 option) result"
  q_open_exchange_order_ids :: "i64 \<Rightarrow> nat \<Rightarrow> (string, string list) result"
  ex_list_open :: "string \<Rightarrow> nat \<Rightarrow> (string, order_info list) result"
  ex_list_fills :: "nat \<Rightarrow> (string, fill_info list) result"
  q_position_exit_rules :: "i64 \<Rightarrow> nat \<Rightarrow> (string, position_exit_rule list) result"
  ex_midpoint :: "string \<Rightarrow> nat \<Rightarrow> (string, f64) result"
  ex_place :: "place_order_request \<Rightarrow> nat \<Rightarrow> (string, order_ack) result"
  ex_cancel :: "string \<Rightarrow> nat \<Rightarrow> (string, unit) result"
  show_f64 :: "f64 \<Rightarrow> string"
  show_f64_4 :: "f64 \<Rightarrow> string"
  show_json :: "'j \<Rightarrow> string"

type_synonym ('m, 'a) dbstep = "('m db_scheme, string, 'a) stm"

definition tick :: "'m db_scheme \<Rightarrow> 'm db_scheme" where
  "tick w = w\<lparr>w_calls := Suc (w_calls w)\<rparr>"

definition commit :: "'j run_env \<Rightarrow> db_op \<Rightarrow> ('m db_scheme \<Rightarrow> 'm db_scheme) \<Rightarrow> ('m, unit) dbstep" where
  "commit env op eff = (\<lambda>w.
     let after = eff (tick w\<lparr>w_ops := w_ops w @ [op]\<rparr>)
     in case env_answer env (w_calls w) of
          Done \<Rightarrow> (Inr (), after)
        | Refused e \<Rightarrow> (Inl e, tick w)
        | Lost e \<Rightarrow> (Inl e, after))"

definition query :: "(nat \<Rightarrow> (string, 'a) result) \<Rightarrow> ('m, 'a) dbstep" where
  "query f = (\<lambda>w. (f (w_calls w), tick w))"

section \<open>The repository\<close>

definition record_risk_event :: "'j run_env \<Rightarrow> i64 option \<Rightarrow> string \<Rightarrow> string \<Rightarrow> string \<Rightarrow> ('m, unit) dbstep" where
  "record_risk_event env trade_id event_type dec details =
     commit env (RiskEvent trade_id event_type dec details) (\<lambda>w. w)"

definition show_trade_state :: "trade_state \<Rightarrow> string" where
  "show_trade_state s = (case s of Idle \<Rightarrow> ''Idle'' | WaitingEntry \<Rightarrow> ''WaitingEntry''
     | EntryPlaced \<Rightarrow> ''EntryPlaced'' | EntryPartiallyFilled \<Rightarrow> ''EntryPartiallyFilled''
     | EntryFilled \<Rightarrow> ''EntryFilled'' | TpPlaced \<Rightarrow> ''TpPlaced'' | SlArmed \<Rightarrow> ''SlArmed''
     | ExitPartiallyFilled \<Rightarrow> ''ExitPartiallyFilled'' | ExitFilled \<Rightarrow> ''ExitFilled''
     | Settled \<Rightarrow> ''Settled'' | Halted \<Rightarrow> ''Halted'')"

definition parse_state :: "string \<Rightarrow> trade_state option" where
  "parse_state raw = map_of (map (\<lambda>s. (show_trade_state s, s))
     [Idle, WaitingEntry, EntryPlaced, EntryPartiallyFilled, EntryFilled, TpPlaced, SlArmed,
      ExitPartiallyFilled, ExitFilled, Settled, Halted]) raw"

definition transition_error_text :: "transition_error \<Rightarrow> string" where
  "transition_error_text e = (case e of InvalidTransition s t \<Rightarrow>
     ''invalid state transition: '' @ show_trade_state s @ '' -> '' @ show_trade_state t)"

definition transition_trade_state :: "'j run_env \<Rightarrow> i64 \<Rightarrow> trade_state \<Rightarrow> trade_state \<Rightarrow> string \<Rightarrow> ('m, unit) dbstep" where
  "transition_trade_state env trade_id from to why =
     (case can_transition from to of
        Inl e \<Rightarrow> st_raise (transition_error_text e)
      | Inr _ \<Rightarrow> st_then (commit env (TradeStateSet trade_id to) (\<lambda>w. w\<lparr>w_db_state := to\<rparr>))
          (record_risk_event env (Some trade_id) ''state_transition'' ''allow'' why))"

definition close_trade :: "'j run_env \<Rightarrow> i64 \<Rightarrow> f64 \<Rightarrow> f64 \<Rightarrow> ('m, unit) dbstep" where
  "close_trade env trade_id exit_price realized_pnl =
     commit env (TradeClosed trade_id exit_price realized_pnl) (\<lambda>w. w\<lparr>w_db_state := Settled\<rparr>)"

definition append_order_event_with_meta :: "'j run_env \<Rightarrow> i64 \<Rightarrow> string \<Rightarrow> string \<Rightarrow> f64 \<Rightarrow> f64 \<Rightarrow> string \<Rightarrow>
    string option \<Rightarrow> string option \<Rightarrow> string option \<Rightarrow> ('m, i64) dbstep" where
  "append_order_event_with_meta env trade_id intent side price qty status client_order_id leg_side token_id =
     st_get (\<lambda>w. st_then (commit env (OrderEvent trade_id intent side price qty status client_order_id leg_side token_id) (\<lambda>w. w))
       (st_return (env_new_id env (w_calls w))))"

definition append_order_event :: "'j run_env \<Rightarrow> i64 \<Rightarrow> string \<Rightarrow> string \<Rightarrow> f64 \<Rightarrow> f64 \<Rightarrow> string \<Rightarrow> ('m, i64) dbstep" where
  "append_order_event env trade_id intent side price qty status =
     append_order_event_with_meta env trade_id intent side price qty status None None None"

definition append_fill_event :: "'j run_env \<Rightarrow> i64 \<Rightarrow> f64 \<Rightarrow> f64 \<Rightarrow> f64 \<Rightarrow> ('m, unit) dbstep" where
  "append_fill_event env order_id price qty fee = commit env (FillEvent order_id price qty fee) (\<lambda>w. w)"

text \<open>\<open>INSERT .. ON CONFLICT DO NOTHING\<close>; true when the key was new.\<close>

definition try_record_idempotency_key :: "'j run_env \<Rightarrow> string \<Rightarrow> ('m, bool) dbstep" where
  "try_record_idempotency_key env event_key =
     st_get (\<lambda>w. st_then (commit env (IdempotencyKey event_key)
         (\<lambda>w. w\<lparr>w_keys := List.insert event_key (w_keys w)\<rparr>))
       (st_return (event_key \<notin> set (w_keys w))))"

definition record_reconcile_run :: "'j run_env \<Rightarrow> i64 \<Rightarrow> string \<Rightarrow> string \<Rightarrow> (string \<times> event_value) list \<Rightarrow> ('m, unit) dbstep" where
  "record_reconcile_run env run_id market_slug status details =
     commit env (ReconcileRun run_id market_slug status details) (\<lambda>w. w)"

definition mark_order_status :: "'j run_env \<Rightarrow> string \<Rightarrow> string \<Rightarrow> ('m, unit) dbstep" where
  "mark_order_status env exchange_order_id status = commit env (OrderStatusMarked exchange_order_id status) (\<lambda>w. w)"

definition upsert_order_by_exchange_id_with_meta :: "'j run_env \<Rightarrow> i64 \<Rightarrow> string \<Rightarrow> string option \<Rightarrow> string \<Rightarrow> string \<Rightarrow>
    f64 \<Rightarrow> f64 \<Rightarrow> string \<Rightarrow> i64 option \<Rightarrow> string option \<Rightarrow> (string \<times> event_value) list \<Rightarrow> string option \<Rightarrow> string option \<Rightarrow>
    ('m, i64) dbstep" where
  "upsert_order_by_exchange_id_with_meta env trade_id exchange_order_id client_order_id intent side price qty status ts reject raw
       leg_side token_id =
     st_get (\<lambda>w. st_then (commit env (OrderUpsert trade_id exchange_order_id client_order_id intent side price qty
         status ts reject raw leg_side token_id) (\<lambda>w. w))
       (st_return (env_new_id env (w_calls w))))"

definition upsert_order_by_exchange_id :: "'j run_env \<Rightarrow> i64 \<Rightarrow> string \<Rightarrow> string option \<Rightarrow> string \<Rightarrow> string \<Rightarrow> f64 \<Rightarrow> f64 \<Rightarrow>
    string \<Rightarrow> i64 option \<Rightarrow> string option \<Rightarrow> (string \<times> event_value) list \<Rightarrow> ('m, i64) dbstep" where
  "upsert_order_by_exchange_id env trade_id exchange_order_id client_order_id intent side price qty status ts reject raw =
     upsert_order_by_exchange_id_with_meta env trade_id exchange_order_id client_order_id intent side price qty status ts reject
       raw None None"

definition upsert_fill_by_exchange_fill_id :: "'j run_env \<Rightarrow> i64 \<Rightarrow> string \<Rightarrow> f64 \<Rightarrow> f64 \<Rightarrow> f64 \<Rightarrow> i64 option \<Rightarrow>
    (string \<times> event_value) list \<Rightarrow> ('m, unit) dbstep" where
  "upsert_fill_by_exchange_fill_id env order_id fill_id price qty fee ts raw =
     commit env (FillUpsert order_id fill_id price qty fee ts raw) (\<lambda>w. w)"

definition create_trade_stub_dual :: "'j run_env \<Rightarrow> i64 \<Rightarrow> f64 \<Rightarrow> string \<Rightarrow> f64 \<Rightarrow> f64 \<Rightarrow> ('m, i64) dbstep" where
  "create_trade_stub_dual env market_id notional strategy_mode basket_tp basket_sl =
     st_get (\<lambda>w. st_then (commit env (DualTradeCreated market_id notional strategy_mode basket_tp basket_sl)
         (\<lambda>w. w\<lparr>w_db_state := Idle\<rparr>))
       (st_return (env_new_id env (w_calls w))))"

text \<open>The position of a leg is stored with its level count \<open>as i32\<close>.\<close>

definition upsert_leg_position :: "'j run_env \<Rightarrow> i64 \<Rightarrow> leg_side \<Rightarrow> string \<Rightarrow> f64 \<Rightarrow> f64 \<Rightarrow> int \<Rightarrow> f64 option \<Rightarrow> ('m, unit) dbstep" where
  "upsert_leg_position env trade_id leg token_id qty avg_entry levels last_fill_price =
     commit env (LegPosition trade_id leg token_id qty avg_entry levels last_fill_price) (\<lambda>w. w)"

definition ensure_position_exit_rule_defaults :: "'j run_env \<Rightarrow> i64 \<Rightarrow> f64 \<Rightarrow> ('m, unit) dbstep" where
  "ensure_position_exit_rule_defaults env trade_id default_drop_sell_pct =
     st_fold (\<lambda>leg _. commit env (ExitRuleDefault trade_id leg default_drop_sell_pct) (\<lambda>w. w)) [Yes, No] ()"

definition upsert_pressure_snapshot :: "'j run_env \<Rightarrow> i64 \<Rightarrow> f64 \<Rightarrow> f64 option \<Rightarrow> f64 option \<Rightarrow> f64 option \<Rightarrow> f64 option \<Rightarrow>
    string option \<Rightarrow> bool \<Rightarrow> ('m, unit) dbstep" where
  "upsert_pressure_snapshot env trade_id score imbalance ratio yes_price no_price trigger_reason triggered =
     commit env (PressureSnapshot trade_id score imbalance ratio yes_price no_price trigger_reason triggered) (\<lambda>w. w)"

text \<open>The latest closed trades that lost, counted up to the first that did not.\<close>

fun leading_losses :: "f64 option list \<Rightarrow> u32" where
  "leading_losses [] = 0"
| "leading_losses (pnl # rows) = (if unwrap_or 0 pnl < 0 then leading_losses rows + 1 else 0)"

definition query_consecutive_losses :: "'j run_env \<Rightarrow> i64 option \<Rightarrow> i64 \<Rightarrow> ('m, u32) dbstep" where
  "query_consecutive_losses env user_id limit =
     st_bind (query (q_recent_pnls env user_id limit)) (\<lambda>rows. st_return (leading_losses rows))"

section \<open>Strategies and limits\<close>

text \<open>The trait \<open>Strategy\<close> of \<open>bot-core\<close>, and its implementation for one leg.\<close>

record strategy =
  str_entry_signal :: "f64 \<Rightarrow> f64 \<Rightarrow> bool"
  str_take_profit_price :: "f64 \<Rightarrow> f64 \<Rightarrow> f64"
  str_aggressive_stop_price :: "f64 \<Rightarrow> f64 \<Rightarrow> f64"

definition price_threshold_strategy :: strategy where
  "price_threshold_strategy = \<lparr>str_entry_signal = entry_signal, str_take_profit_price = take_profit_price,
     str_aggressive_stop_price = aggressive_stop_price\<rparr>"

definition to_risk_limits :: "app_config \<Rightarrow> risk_limits" where
  "to_risk_limits cfg = \<lparr>
     max_daily_loss_usdc = rk_max_daily_loss_usdc (cfg_risk cfg),
     max_consecutive_losses = rk_max_consecutive_losses (cfg_risk cfg),
     max_notional_per_market_usdc = rk_max_notional_per_market_usdc (cfg_risk cfg),
     max_open_orders = rk_max_open_orders (cfg_risk cfg),
     max_stale_data_ms = rk_max_stale_data_ms (cfg_risk cfg),
     limits_kill_switch_mode = rk_kill_switch_mode (cfg_risk cfg)\<rparr>"

text \<open>\<open>format!("{:?}", decision).to_lowercase()\<close>.\<close>

definition decision_text :: "risk_decision \<Rightarrow> string" where
  "decision_text d = (case d of Allow \<Rightarrow> ''allow'' | Block \<Rightarrow> ''block'' | Halt \<Rightarrow> ''halt'')"

section \<open>The risk gates\<close>

text \<open>The three counts a gate reads first, for the user of the trade or for all users.\<close>

definition risk_counts :: "'j run_env \<Rightarrow> app_config \<Rightarrow> i64 option \<Rightarrow> ('m, u32 \<times> f64 \<times> u32) dbstep" where
  "risk_counts env cfg user_id =
     st_bind (query (q_open_order_count env user_id)) (\<lambda>open_count.
     st_bind (query (q_daily_realized_pnl env user_id)) (\<lambda>daily_pnl.
     st_bind (query_consecutive_losses env user_id (int (unat (rk_max_consecutive_losses (cfg_risk cfg)))))
       (\<lambda>consec_losses. st_return (open_count, daily_pnl, consec_losses))))"

definition risk_gate_dual :: "'j run_env \<Rightarrow> app_config \<Rightarrow> i64 option \<Rightarrow> i64 \<Rightarrow> risk_limits \<Rightarrow> u64 \<Rightarrow> ('m, risk_decision) dbstep" where
  "risk_gate_dual env cfg user_id trade_id limits stale =
     st_bind (risk_counts env cfg user_id) (\<lambda>(open_count, daily_pnl, consec_losses).
     let risk = evaluate_risk limits \<lparr>
           proposed_notional_usdc = s_total_notional_usdc (cfg_strategy cfg),
           open_orders = open_count, stale_data_ms = stale, daily_realized_pnl_usdc = daily_pnl,
           consecutive_losses = consec_losses,
           manual_kill_switch_active = rk_manual_kill_switch_active (cfg_risk cfg)\<rparr>
     in st_then (record_risk_event env (Some trade_id) ''risk_check_dual'' (decision_text (decision risk)) (reason risk))
          (st_return (decision risk)))"

text \<open>The manual gate writes the event of an allowed order from a spawned task whose failure is only
  logged; it is taken here at the point where the task is spawned.\<close>

definition risk_gate_manual_order :: "'j run_env \<Rightarrow> app_config \<Rightarrow> i64 option \<Rightarrow> i64 \<Rightarrow> f64 \<Rightarrow> risk_limits \<Rightarrow> ('m, risk_decision) dbstep" where
  "risk_gate_manual_order env cfg user_id trade_id notional limits =
     st_bind (risk_counts env cfg user_id) (\<lambda>(open_count, daily_pnl, consec_losses).
     let risk = evaluate_risk limits \<lparr>
           proposed_notional_usdc = notional,
           open_orders = open_count, stale_data_ms = 0, daily_realized_pnl_usdc = daily_pnl,
           consecutive_losses = consec_losses,
           manual_kill_switch_active = rk_manual_kill_switch_active (cfg_risk cfg)\<rparr>;
         event = record_risk_event env (Some trade_id) ''risk_check_manual_order''
           (decision_text (decision risk)) (reason risk)
     in st_then (if decision risk = Allow then st_then (st_try event) (st_return ()) else event)
          (st_return (decision risk)))"

section \<open>User events\<close>

definition show_event_type :: "ws_event_type \<Rightarrow> string" where
  "show_event_type t = (case t of WsUnknown \<Rightarrow> ''Unknown'' | WsSubscribed \<Rightarrow> ''Subscribed''
     | WsPriceChange \<Rightarrow> ''PriceChange'' | WsOrder \<Rightarrow> ''Order'' | WsFill \<Rightarrow> ''Fill'')"

definition apply_user_event :: "'j run_env \<Rightarrow> i64 \<Rightarrow> 'j ws_event \<Rightarrow> nat \<Rightarrow> ('m, nat) dbstep" where
  "apply_user_event env trade_id event applied =
    (if we_channel event \<noteq> WsUser then st_return applied
     else if we_event_type event \<notin> {WsFill, WsOrder} then st_return applied
     else let key = ''ws:'' @ unwrap_or ''na'' (or_opt (we_fill_id event) (we_order_id event)) @ '':''
                @ show_event_type (we_event_type event)
       in st_bind (try_record_idempotency_key env key) (\<lambda>fresh.
         if \<not> fresh then st_return applied
         else st_then (record_risk_event env (Some trade_id) ''user_stream_event'' ''allow'' (show_json env (we_payload event)))
           (st_return (applied + 1))))"

definition apply_user_stream_events :: "'j run_env \<Rightarrow> i64 \<Rightarrow> 'j ws_event list \<Rightarrow> ('m, nat) dbstep" where
  "apply_user_stream_events env trade_id events = st_fold (apply_user_event env trade_id) events 0"

section \<open>Triples\<close>

lemma commit_hoare:
  assumes "\<And>w. P w \<Longrightarrow> E (tick w)" "\<And>w. P w \<Longrightarrow> E (eff (tick w\<lparr>w_ops := w_ops w @ [op]\<rparr>))"
    "\<And>w. P w \<Longrightarrow> Q (eff (tick w\<lparr>w_ops := w_ops w @ [op]\<rparr>))"
  shows "hoare P (commit env op eff) (\<lambda>_. Q) E"
  unfolding hoare_def commit_def using assms by (auto simp: Let_def split: answer.split)

lemma query_hoare: "(\<And>w. P w \<Longrightarrow> P (tick w)) \<Longrightarrow> (\<And>w. P w \<Longrightarrow> E w) \<Longrightarrow> hoare P (query f) (\<lambda>_. P) E"
  unfolding hoare_def query_def by (auto split: sum.split)

lemma raise_hoare: "(\<And>w. P w \<Longrightarrow> E w) \<Longrightarrow> hoare P (st_raise e) Q E"
  by (simp add: hoare_def st_raise_def)

section \<open>Sample environments\<close>

text \<open>An environment where everything works, and one whose calls fail in turn after taking effect.\<close>

definition calm_env :: "string run_env" where
  "calm_env = \<lparr>env_answer = (\<lambda>_. Done), env_new_id = int, env_uuid = (\<lambda>n. replicate n CHR ''u''), q_open_order_count = (\<lambda>_ _. Inr 0),
     q_daily_realized_pnl = (\<lambda>_ _. Inr 0), q_recent_pnls = (\<lambda>_ _ _. Inr []), q_internal_order_id = (\<lambda>_ _. Inr None),
     q_open_exchange_order_ids = (\<lambda>_ _. Inr [''0xold'']), ex_list_open = (\<lambda>_ _. Inr []), ex_list_fills = (\<lambda>_. Inr []),
     q_position_exit_rules = (\<lambda>_ _. Inr []), ex_midpoint = (\<lambda>_ _. Inr (Fin (1 / 2))),
     ex_place = (\<lambda>req _. Inr \<lparr>ak_client_order_id = po_client_order_id req, ak_exchange_order_id = None, ak_status = ''live'',
       ak_reject_reason = None, ak_raw_status = None, ak_exchange_ts = None\<rparr>),
     ex_cancel = (\<lambda>_ _. Inr ()), show_f64 = (\<lambda>_. ''p''), show_f64_4 = (\<lambda>_. ''q''), show_json = (\<lambda>s. s)\<rparr>"

definition stormy_env :: "string run_env" where
  "stormy_env = calm_env\<lparr>env_answer := (\<lambda>n. if n mod 5 = 4 then Lost ''timeout'' else Done)\<rparr>"

end
