(* ===== verification/Trade_Runtime.thy ===== *)
theory Trade_Runtime
  imports Repository "HOL-Library.Char_ord" "HOL-Library.List_Lexorder" "HOL-Library.Sublist"
begin

text \<open>
  The trade runtime of \<open>bot-runner/src/lib_parts/part_027.rs\<close> with the loop of \<open>part_004.rs\<close> that
  drives it: one trade with its state in memory, beside the database of \<open>Repository\<close> and the
  exchange.
\<close>

section \<open>The world\<close>

record trade_runtime =
  t_trade_id :: i64
  t_user_id :: "i64 option"
  t_market_slug :: string
  t_entry_price :: f64
  t_tp_price :: f64
  t_position_size :: f64
  t_state :: trade_state

datatype reconcile_outcome = ReconcileOk | ReconcileWarning | ReconcileError

record world = db +
  w_trade :: trade_runtime

type_synonym 'a step = "(world, string, 'a) stm"

section \<open>The risk gate\<close>

definition risk_gate :: "'j run_env \<Rightarrow> app_config \<Rightarrow> trade_runtime \<Rightarrow> risk_limits \<Rightarrow> u64 \<Rightarrow> risk_decision step" where
  "risk_gate env cfg trade limits stale =
     st_bind (risk_counts env cfg (t_user_id trade)) (\<lambda>(open_count, daily_pnl, consec_losses).
     let risk = evaluate_risk limits \<lparr>
           proposed_notional_usdc = rk_max_notional_per_market_usdc (cfg_risk cfg),
           open_orders = open_count, stale_data_ms = stale, daily_realized_pnl_usdc = daily_pnl,
           consecutive_losses = consec_losses,
           manual_kill_switch_active = rk_manual_kill_switch_active (cfg_risk cfg)\<rparr>
     in st_then (record_risk_event env (Some (t_trade_id trade)) ''risk_check'' (decision_text (decision risk)) (reason risk))
          (st_return (decision risk)))"

section \<open>One step of the trade\<close>

definition set_state :: "trade_state \<Rightarrow> world \<Rightarrow> world" where
  "set_state s w = w\<lparr>w_trade := (w_trade w)\<lparr>t_state := s\<rparr>\<rparr>"

definition transition :: "'j run_env \<Rightarrow> trade_state \<Rightarrow> string \<Rightarrow> unit step" where
  "transition env to why = st_get (\<lambda>w.
     st_then (transition_trade_state env (t_trade_id (w_trade w)) (t_state (w_trade w)) to why)
       (st_modify (set_state to)))"

definition entry_step :: "'j run_env \<Rightarrow> strategy \<Rightarrow> f64 \<Rightarrow> bool \<Rightarrow> unit step" where
  "entry_step env strat current_price auto_fill = st_get (\<lambda>w.
     let trade = w_trade w
     in if t_state trade = WaitingEntry \<and> str_entry_signal strat current_price (t_entry_price trade)
        then st_then (transition env EntryPlaced ''entry-threshold-hit'')
          (st_bind (append_order_event env (t_trade_id trade) ''entry'' ''buy'' (t_entry_price trade)
              (t_position_size trade) (if auto_fill then ''filled'' else ''open''))
            (\<lambda>entry_order_id.
              if auto_fill
              then st_then (append_fill_event env entry_order_id (t_entry_price trade) (t_position_size trade) 0)
                (st_then (transition env EntryFilled ''entry-filled'')
                  (transition env TpPlaced ''tp-placed''))
              else st_return ()))
        else st_return ())"

definition sell_and_close :: "'j run_env \<Rightarrow> trade_runtime \<Rightarrow> string \<Rightarrow> f64 \<Rightarrow> string \<Rightarrow> unit step" where
  "sell_and_close env trade intent price why =
     st_bind (append_order_event env (t_trade_id trade) intent ''sell'' price (t_position_size trade) ''filled'')
       (\<lambda>exit_order_id.
     st_then (append_fill_event env exit_order_id price (t_position_size trade) 0)
    (st_then (transition env ExitFilled why)
       (close_trade env (t_trade_id trade) price ((price - t_entry_price trade) * t_position_size trade))))"

definition exit_step :: "'j run_env \<Rightarrow> app_config \<Rightarrow> strategy \<Rightarrow> f64 \<Rightarrow> unit step" where
  "exit_step env cfg strat current_price = st_get (\<lambda>w.
     let trade = w_trade w
     in if t_state trade = TpPlaced
        then if t_tp_price trade \<le> current_price
          then let key = ''trade:'' @ show_i64 (t_trade_id trade) @ '':tp:'' @ show_f64 env (t_tp_price trade)
            in st_bind (try_record_idempotency_key env key) (\<lambda>fresh.
                 if fresh then sell_and_close env trade ''tp'' (t_tp_price trade) ''tp-hit'' else st_return ())
          else let aggressive_sl = str_aggressive_stop_price strat (t_entry_price trade)
                     (s_aggressive_sl_pct (cfg_strategy cfg))
            in if current_price \<le> aggressive_sl
               then let key = ''trade:'' @ show_i64 (t_trade_id trade) @ '':sl:'' @ show_f64_4 env aggressive_sl
                 in st_bind (try_record_idempotency_key env key) (\<lambda>fresh.
                      if fresh
                      then st_then (transition env SlArmed ''aggressive-sl-armed'')
                             (sell_and_close env trade ''sl'' aggressive_sl ''sl-hit'')
                      else st_return ())
               else st_return ()
        else st_return ())"

definition process_trade_step :: "'j run_env \<Rightarrow> app_config \<Rightarrow> strategy \<Rightarrow> f64 \<Rightarrow> bool \<Rightarrow> unit step" where
  "process_trade_step env cfg strat current_price auto_fill =
     st_then (entry_step env strat current_price auto_fill) (exit_step env cfg strat current_price)"

section \<open>Reconciliation with the exchange\<close>

definition record_reconcile_error :: "'j run_env \<Rightarrow> i64 \<Rightarrow> string \<Rightarrow> string \<Rightarrow> ('m, unit) dbstep" where
  "record_reconcile_error env run_id market_slug details =
     record_reconcile_run env run_id market_slug ''error'' [(''kind'', EvStr ''Network''), (''details'', EvStr details)]"

definition apply_order :: "'j run_env \<Rightarrow> i64 \<Rightarrow> order_info \<Rightarrow> unit \<Rightarrow> unit step" where
  "apply_order env trade_id order u =
    (if oi_order_id order = [] then st_return ()
     else st_then (upsert_order_by_exchange_id env trade_id (oi_order_id order) (oi_client_order_id order)
         ''reconcile'' ''unknown'' (unwrap_or 0 (oi_price order)) (unwrap_or 0 (oi_size order)) (oi_status order)
         None None [(''order_id'', EvStr (oi_order_id order)), (''client_order_id'', EvOptStr (oi_client_order_id order)),
           (''status'', EvStr (oi_status order)), (''price'', EvOptNum (oi_price order)),
           (''size'', EvOptNum (oi_size order)), (''filled_size'', EvOptNum (oi_filled_size order))])
       (st_return ()))"

definition apply_order_reconcile :: "'j run_env \<Rightarrow> i64 \<Rightarrow> order_info list \<Rightarrow> unit step" where
  "apply_order_reconcile env trade_id orders = st_fold (apply_order env trade_id) orders ()"

definition fill_key :: "fill_info \<Rightarrow> string" where
  "fill_key fill = ''fill:'' @ fi_fill_id fill"

definition apply_fill :: "'j run_env \<Rightarrow> i64 \<Rightarrow> fill_info \<Rightarrow> nat \<times> nat \<times> nat \<Rightarrow> (nat \<times> nat \<times> nat) step" where
  "apply_fill env trade_id fill = (\<lambda>(applied, duplicates, skipped).
     if fi_fill_id fill = [] \<or> fi_order_id fill = [] then st_return (applied, duplicates, skipped + 1)
     else st_bind (try_record_idempotency_key env (fill_key fill)) (\<lambda>fresh.
       if \<not> fresh then st_return (applied, duplicates + 1, skipped)
       else st_bind (st_bind (query (q_internal_order_id env (fi_order_id fill))) (\<lambda>found.
           case found of Some order_id \<Rightarrow> st_return order_id
           | None \<Rightarrow> upsert_order_by_exchange_id env trade_id (fi_order_id fill) None ''reconcile'' ''unknown''
               (fi_price fill) (fi_size fill) ''filled'' (fi_ts fill) None
               [(''from_fill'', EvBool True), (''exchange_order_id'', EvStr (fi_order_id fill)),
                (''trade_id'', EvId trade_id)]))
         (\<lambda>internal_order_id.
           st_then (upsert_fill_by_exchange_fill_id env internal_order_id (fi_fill_id fill) (fi_price fill)
               (fi_size fill) (unwrap_or 0 (fi_fee fill)) (fi_ts fill)
               [(''fill_id'', EvStr (fi_fill_id fill)), (''order_id'', EvStr (fi_order_id fill)),
                (''price'', EvNum (fi_price fill)), (''size'', EvNum (fi_size fill)),
                (''fee'', EvOptNum (fi_fee fill)), (''timestamp'', EvOptId (fi_ts fill))])
             (st_return (applied + 1, duplicates, skipped)))))"

definition apply_fill_reconcile :: "'j run_env \<Rightarrow> i64 \<Rightarrow> fill_info list \<Rightarrow> (nat \<times> nat \<times> nat) step" where
  "apply_fill_reconcile env trade_id fills = st_fold (apply_fill env trade_id) fills (0, 0, 0)"

text \<open>The counts of a reconciliation, as they are recorded.\<close>

definition reconcile_details :: "order_info list \<Rightarrow> fill_info list \<Rightarrow> nat \<times> nat \<times> nat \<Rightarrow> nat \<Rightarrow> (string \<times> event_value) list" where
  "reconcile_details orders fills counts user_applied = (case counts of (applied, duplicates, skipped) \<Rightarrow>
     [(''open_orders_count'', EvCount (length orders)), (''fills_count'', EvCount (length fills)),
      (''applied_fills'', EvCount applied), (''duplicate_fills'', EvCount duplicates),
      (''skipped_fills'', EvCount skipped), (''user_events_applied'', EvCount user_applied)])"

text \<open>What a reconciliation does once the exchange has answered.\<close>

definition reconcile_apply :: "'j run_env \<Rightarrow> i64 \<Rightarrow> trade_runtime \<Rightarrow> 'j ws_event list \<Rightarrow> order_info list \<Rightarrow> fill_info list \<Rightarrow>
    reconcile_outcome step" where
  "reconcile_apply env run_id trade user_events orders fills =
     st_then (apply_order_reconcile env (t_trade_id trade) orders)
    (st_bind (apply_fill_reconcile env (t_trade_id trade) fills) (\<lambda>(applied, duplicates, skipped).
     st_bind (apply_user_stream_events env (t_trade_id trade) user_events) (\<lambda>user_applied.
     st_then
       (if t_state trade \<in> {EntryPlaced, EntryPartiallyFilled} \<and> (0 < applied \<or> 0 < user_applied)
        then st_then (transition env EntryFilled ''reconcile-entry-filled'')
               (transition env TpPlaced ''reconcile-tp-placed'')
        else st_return ())
    (st_then (record_reconcile_run env run_id (t_market_slug trade) (if 0 < skipped then ''warning'' else ''ok'')
        (reconcile_details orders fills (applied, duplicates, skipped) user_applied))
     (st_return (if 0 < skipped then ReconcileWarning else ReconcileOk))))))"

definition reconcile_live :: "'j run_env \<Rightarrow> i64 \<Rightarrow> 'j ws_event list \<Rightarrow> reconcile_outcome step" where
  "reconcile_live env run_id user_events = st_get (\<lambda>w.
     let trade = w_trade w;
         failed = (\<lambda>e. st_then (record_reconcile_error env run_id (t_market_slug trade) e) (st_return ReconcileError))
     in st_bind (st_try (query (ex_list_open env (t_market_slug trade)))) (\<lambda>listed. case listed of
          Inl e \<Rightarrow> failed e
        | Inr orders \<Rightarrow> st_bind (st_try (query (ex_list_fills env))) (\<lambda>filled. case filled of
            Inl e \<Rightarrow> failed e
          | Inr fills \<Rightarrow> reconcile_apply env run_id trade user_events orders fills)))"

section \<open>Halting\<close>

text \<open>A \<open>BTreeSet\<close> of strings is its sorted list without duplicates.\<close>

definition btree_set :: "string list \<Rightarrow> string list" where
  "btree_set xs = sort (remdups xs)"

definition cancel_on_exchange :: "'j run_env \<Rightarrow> string \<Rightarrow> ('m, unit) dbstep" where
  "cancel_on_exchange env exchange_order_id =
     st_then (st_modify (\<lambda>w. w\<lparr>w_cancels := w_cancels w @ [exchange_order_id]\<rparr>))
       (query (ex_cancel env exchange_order_id))"

definition halt_cancel :: "'j run_env \<Rightarrow> i64 \<Rightarrow> trade_runtime \<Rightarrow> string \<Rightarrow> nat \<times> nat \<Rightarrow> ('m, (nat \<times> nat)) dbstep" where
  "halt_cancel env run_id trade exchange_order_id = (\<lambda>(canceled, failed).
     st_bind (st_try (cancel_on_exchange env exchange_order_id)) (\<lambda>ack. case ack of
       Inr _ \<Rightarrow>
         st_then (mark_order_status env exchange_order_id ''canceled'')
        (st_then (record_risk_event env (Some (t_trade_id trade)) ''halt_cancel_order'' ''allow''
            (''exchange_order_id='' @ exchange_order_id))
         (st_return (canceled + 1, failed)))
     | Inl e \<Rightarrow>
         st_then (record_reconcile_error env run_id (t_market_slug trade)
            (''halt-cancel failed order_id='' @ exchange_order_id @ '' err='' @ e))
        (st_then (record_risk_event env (Some (t_trade_id trade)) ''halt_cancel_order'' ''block''
            (''exchange_order_id='' @ exchange_order_id @ '' err='' @ e))
         (st_return (canceled, failed + 1)))))"

definition halt_candidates :: "'j run_env \<Rightarrow> i64 \<Rightarrow> trade_runtime \<Rightarrow> ('m, string list) dbstep" where
  "halt_candidates env run_id trade =
     st_bind (query (q_open_exchange_order_ids env (t_trade_id trade))) (\<lambda>listed_in_db.
     let db_open_order_ids = btree_set (filter (\<lambda>id. id \<noteq> []) listed_in_db)
     in st_bind (st_try (query (ex_list_open env (t_market_slug trade)))) (\<lambda>listed. case listed of
       Inr orders \<Rightarrow>
         let open_order_ids = btree_set (filter (\<lambda>id. id \<noteq> []) (map oi_order_id orders))
         in st_return (if open_order_ids = [] then db_open_order_ids else open_order_ids)
     | Inl e \<Rightarrow> st_then (record_reconcile_error env run_id (t_market_slug trade) (''halt-cancel list_open failed: '' @ e))
         (st_return db_open_order_ids)))"

definition enforce_halt_open_order_safety :: "'j run_env \<Rightarrow> i64 \<Rightarrow> trade_runtime \<Rightarrow> ('m, unit) dbstep" where
  "enforce_halt_open_order_safety env run_id trade =
     st_bind (halt_candidates env run_id trade) (\<lambda>open_order_ids.
     st_bind (st_fold (halt_cancel env run_id trade) open_order_ids (0, 0)) (\<lambda>(canceled, failed).
       record_reconcile_run env run_id (t_market_slug trade) (if 0 < failed then ''error'' else ''ok'')
         [(''reason'', EvStr ''halt_open_order_safety''), (''trade_id'', EvId (t_trade_id trade)),
          (''candidates'', EvCount (length open_order_ids)), (''canceled'', EvCount canceled),
          (''failed'', EvCount failed)]))"

text \<open>Without an executor, as in a paper run, the trade is only marked halted.\<close>

definition halt_trade :: "'j run_env \<Rightarrow> i64 \<Rightarrow> string \<Rightarrow> bool \<Rightarrow> unit step" where
  "halt_trade env run_id why has_executor = st_get (\<lambda>w.
     st_then (if has_executor then enforce_halt_open_order_safety env run_id (w_trade w) else st_return ())
       (transition env Halted why))"

section \<open>The loops\<close>

definition create_runtime :: "app_config \<Rightarrow> i64 \<Rightarrow> string \<Rightarrow> strategy \<Rightarrow> trade_runtime" where
  "create_runtime cfg trade_id market_slug strat =
    (let position_size = fround (rk_max_notional_per_market_usdc (cfg_risk cfg) / s_entry_price (cfg_strategy cfg) * lit 100)
           / lit 100
     in \<lparr>t_trade_id = trade_id, t_user_id = None, t_market_slug = market_slug,
        t_entry_price = s_entry_price (cfg_strategy cfg),
        t_tp_price = str_take_profit_price strat (s_entry_price (cfg_strategy cfg)) (s_tp_pct (cfg_strategy cfg)),
        t_position_size = position_size, t_state = Idle\<rparr>)"

text \<open>An iteration of the paper loop on a price and its staleness; true means the loop ends. The loop is
  the recursion over the prices it sees, and stops at the first error.\<close>

definition paper_iteration :: "'j run_env \<Rightarrow> app_config \<Rightarrow> i64 \<Rightarrow> strategy \<Rightarrow> reconcile_result \<Rightarrow> bool step" where
  "paper_iteration env cfg run_id strat merged = st_get (\<lambda>w.
     st_bind (risk_gate env cfg (w_trade w) (to_risk_limits cfg) (rc_stale_data_ms merged)) (\<lambda>d. case d of
       Halt \<Rightarrow> st_then (halt_trade env run_id ''risk-halt'' False) (st_return True)
     | Block \<Rightarrow> st_return False
     | Allow \<Rightarrow> st_then (process_trade_step env cfg strat (rc_chosen_price merged) True)
         (st_get (\<lambda>w'. st_return (t_state (w_trade w') \<in> {Settled, Halted})))))"

primrec paper_iterations :: "'j run_env \<Rightarrow> app_config \<Rightarrow> i64 \<Rightarrow> strategy \<Rightarrow> reconcile_result list \<Rightarrow> unit step" where
  "paper_iterations env cfg run_id strat [] = st_return ()"
| "paper_iterations env cfg run_id strat (m # ms) =
     st_bind (paper_iteration env cfg run_id strat m) (\<lambda>over.
       if over then st_return () else paper_iterations env cfg run_id strat ms)"

definition paper_loop :: "'j run_env \<Rightarrow> app_config \<Rightarrow> i64 \<Rightarrow> strategy \<Rightarrow> reconcile_result list \<Rightarrow> unit step" where
  "paper_loop env cfg run_id strat ms =
     st_then (transition env WaitingEntry ''cycle-start'')
    (st_then (paper_iterations env cfg run_id strat ms)
       (st_get (\<lambda>w. if is_ok (can_transition (t_state (w_trade w)) Settled)
          then transition env Settled ''paper-loop-end'' else st_return ())))"

end
