(* ===== verification/Log_Invariants.thy ===== *)
theory Log_Invariants
  imports Trade_Runtime
begin

text \<open>
  Invariants of a runtime that only orders and fills can break. The locale states what such an
  invariant has to promise (it ignores the number of calls, the keys, the state of the trade in the
  database, the cancellations and every write that is neither an order nor a fill) and what may be
  left after a failure; inside it every operation of the repository, the risk gates, the user events
  and the halt are shown to keep the invariant, whatever the environment answers.
\<close>

fun bookkeeping :: "db_op \<Rightarrow> bool" where
  "bookkeeping (OrderEvent _ _ _ _ _ _ _ _ _) = False"
| "bookkeeping (FillEvent _ _ _ _) = False"
| "bookkeeping (OrderUpsert _ _ _ _ _ _ _ _ _ _ _ _ _) = False"
| "bookkeeping (FillUpsert _ _ _ _ _ _ _) = False"
| "bookkeeping (RescueOrderCreated _ _ _) = False"
| "bookkeeping (RescueFillRow _ _ _ _ _ _) = False"
| "bookkeeping _ = True"

locale log_invariant =
  fixes J E :: "'m db_scheme \<Rightarrow> bool"
  assumes weaken: "J w \<Longrightarrow> E w"
    and called: "J w \<Longrightarrow> J (w\<lparr>w_calls := n\<rparr>)"
    and logged: "J w \<Longrightarrow> bookkeeping op \<Longrightarrow> J (w\<lparr>w_ops := w_ops w @ [op]\<rparr>)"
    and keyed: "J w \<Longrightarrow> J (w\<lparr>w_keys := ks\<rparr>)"
    and stored: "J w \<Longrightarrow> J (w\<lparr>w_db_state := s\<rparr>)"
    and cancelled: "J w \<Longrightarrow> J (w\<lparr>w_cancels := cs\<rparr>)"
begin

lemma ticked: "J w \<Longrightarrow> J (tick w)"
  unfolding tick_def by (rule called)

lemma raised: "hoare J (st_raise e) Q E"
  by (rule raise_hoare) (rule weaken)

lemma asked: "hoare J (query f) (\<lambda>_. J) E"
  by (rule query_hoare) (auto intro: ticked weaken)

lemma kept_commit:
  assumes "bookkeeping op" "\<And>w. J w \<Longrightarrow> J (eff w)"
  shows "hoare J (commit env op eff) (\<lambda>_. J) E"
proof (rule commit_hoare)
  fix w assume w: "J w"
  have "J (eff (tick w\<lparr>w_ops := w_ops w @ [op]\<rparr>))"
    using logged [OF ticked [OF w] assms(1)] by (intro assms(2)) (simp add: tick_def)
  then show "J (eff (tick w\<lparr>w_ops := w_ops w @ [op]\<rparr>))" "E (eff (tick w\<lparr>w_ops := w_ops w @ [op]\<rparr>))"
    by (simp_all add: weaken)
qed (blast intro: weaken ticked)

lemma kept_plain: "bookkeeping op \<Longrightarrow> hoare J (commit env op (\<lambda>w. w)) (\<lambda>_. J) E"
  by (rule kept_commit)

lemma kept_get: "(\<And>w. J w \<Longrightarrow> hoare J (f w) Q E) \<Longrightarrow> hoare J (st_get f) Q E"
  by (rule hoare_get_pre)

lemma kept_try: "(\<And>w. E w \<Longrightarrow> J w) \<Longrightarrow> hoare J m (\<lambda>_. J) E \<Longrightarrow> hoare J (st_try m) (\<lambda>_. J) E"
  by (rule hoare_try) (auto elim: hoare_post)

lemma risk_event_kept: "hoare J (record_risk_event env i t d x) (\<lambda>_. J) E"
  unfolding record_risk_event_def by (rule kept_plain) simp

lemma trade_state_kept: "hoare J (transition_trade_state env i from to why) (\<lambda>_. J) E"
  unfolding transition_trade_state_def
  by (intro hoare_sum raised hoare_then [OF kept_commit risk_event_kept]) (auto intro: stored)

lemma close_trade_kept: "hoare J (close_trade env i p q) (\<lambda>_. J) E"
  unfolding close_trade_def by (rule kept_commit) (auto intro: stored)

lemma key_kept: "hoare J (try_record_idempotency_key env key) (\<lambda>_. J) E"
  unfolding try_record_idempotency_key_def
  by (intro kept_get hoare_then [OF kept_commit] hoare_return) (auto intro: keyed)

lemma reconcile_run_kept: "hoare J (record_reconcile_run env r m s d) (\<lambda>_. J) E"
  unfolding record_reconcile_run_def by (rule kept_plain) simp

lemma order_status_kept: "hoare J (mark_order_status env i s) (\<lambda>_. J) E"
  unfolding mark_order_status_def by (rule kept_plain) simp

lemma leg_position_kept: "hoare J (upsert_leg_position env i l t q a n p) (\<lambda>_. J) E"
  unfolding upsert_leg_position_def by (rule kept_plain) simp

lemma pressure_kept: "hoare J (upsert_pressure_snapshot env i a b c d e f g) (\<lambda>_. J) E"
  unfolding upsert_pressure_snapshot_def by (rule kept_plain) simp

lemma created_kept: "hoare J (create_trade_stub_dual env m n s a b) (\<lambda>_. J) E"
  unfolding create_trade_stub_dual_def
  by (intro kept_get hoare_then [OF kept_commit] hoare_return) (auto intro: stored)

lemma exit_rules_kept: "hoare J (ensure_position_exit_rule_defaults env i d) (\<lambda>_. J) E"
  unfolding ensure_position_exit_rule_defaults_def
  by (rule hoare_fold [where I = "\<lambda>_. J"]) (rule kept_plain, simp)

lemma risk_counts_kept: "hoare J (risk_counts env cfg u) (\<lambda>_. J) E"
  unfolding risk_counts_def query_consecutive_losses_def
  by (intro hoare_bind [OF asked] hoare_bind [OF hoare_bind [OF asked]] hoare_return)

lemma risk_gate_dual_kept: "hoare J (risk_gate_dual env cfg u i limits stale) (\<lambda>_. J) E"
  unfolding risk_gate_dual_def Let_def
  by (rule hoare_bind [OF risk_counts_kept], clarsimp, rule hoare_then [OF risk_event_kept hoare_return])

lemma user_events_kept: "hoare J (apply_user_stream_events env i events) (\<lambda>_. J) E"
  unfolding apply_user_stream_events_def
proof (rule hoare_fold [where I = "\<lambda>_. J"])
  fix event n
  show "hoare J (apply_user_event env i event n) (\<lambda>_. J) E"
    unfolding apply_user_event_def Let_def
    by (intro hoare_if hoare_return hoare_bind [OF key_kept] hoare_then [OF risk_event_kept])
qed

lemma reconcile_error_kept: "hoare J (record_reconcile_error env r m d) (\<lambda>_. J) E"
  unfolding record_reconcile_error_def by (rule reconcile_run_kept)

lemma halt_cancel_kept: "hoare J (halt_cancel env r t i acc) (\<lambda>_. J) E"
proof (cases acc)
  case (Pair canceled failed)
  have q: "hoare J (st_try (cancel_on_exchange env i)) (\<lambda>_. J) E"
    unfolding cancel_on_exchange_def
    by (rule hoare_try, rule hoare_then [OF hoare_modify [where Q = "\<lambda>_. J"] query_hoare]) (auto intro: cancelled ticked)
  show ?thesis
    unfolding Pair halt_cancel_def
    by (simp, rule hoare_bind [OF q])
      (intro hoare_sum hoare_then [OF reconcile_error_kept] hoare_then [OF order_status_kept]
        hoare_then [OF risk_event_kept] hoare_return)
qed

lemma halt_kept: "hoare J (enforce_halt_open_order_safety env r t) (\<lambda>_. J) E"
proof -
  have q: "hoare J (st_try (query f)) (\<lambda>_. J) E" for f :: "nat \<Rightarrow> (string, 'x) result"
    by (rule hoare_try, rule query_hoare) (auto intro: ticked)
  have c: "hoare J (halt_candidates env r t) (\<lambda>_. J) E"
    unfolding halt_candidates_def Let_def
    by (intro hoare_bind [OF asked] hoare_bind [OF q] hoare_sum hoare_return hoare_then [OF reconcile_error_kept])
  show ?thesis
    unfolding enforce_halt_open_order_safety_def
    by (rule hoare_bind [OF c], rule hoare_bind [OF hoare_fold [where I = "\<lambda>_. J"]], rule halt_cancel_kept)
      (rule hoare_prod, rule reconcile_run_kept)
qed

end

end
