(* ===== verification/Trade_Safety.thy ===== *)
theory Trade_Safety
  imports Log_Invariants
begin

text \<open>
  What a run of the paper loop can trade, proved with triples over the operations of
  \<open>Trade_Runtime\<close>: whatever the environment answers, the orders and fills written are the
  beginning of one round trip, and the state in the database is the state in memory or one
  step ahead of it.
\<close>

section \<open>What a paper run trades\<close>

text \<open>The orders and fills of a log, in order, without the ids the database gives.\<close>

fun executions :: "db_op list \<Rightarrow> (string \<times> f64 \<times> f64) list" where
  "executions [] = []"
| "executions (OrderEvent _ intent _ price qty _ _ _ _ # ops) = (intent, price, qty) # executions ops"
| "executions (FillEvent _ price qty _ # ops) = (''fill'', price, qty) # executions ops"
| "executions (_ # ops) = executions ops"

lemma executions_append: "executions (xs @ ys) = executions xs @ executions ys"
  by (induction xs rule: executions.induct) simp_all

definition round_trip :: "trade_runtime \<Rightarrow> string \<Rightarrow> f64 \<Rightarrow> (string \<times> f64 \<times> f64) list" where
  "round_trip tr intent price =
    [(''entry'', t_entry_price tr, t_position_size tr), (''fill'', t_entry_price tr, t_position_size tr),
     (intent, price, t_position_size tr), (''fill'', price, t_position_size tr)]"

definition traded :: "trade_runtime \<Rightarrow> f64 \<Rightarrow> (string \<times> f64 \<times> f64) list \<Rightarrow> bool" where
  "traded tr stop xs \<longleftrightarrow> prefix xs (round_trip tr ''tp'' (t_tp_price tr)) \<or> prefix xs (round_trip tr ''sl'' stop)"

text \<open>The trade is in one state, in memory and in the database, and this was traded; and what holds after
  a failure: the database is at the state in memory or one step ahead.\<close>

definition at_state :: "trade_runtime \<Rightarrow> trade_state \<Rightarrow> (string \<times> f64 \<times> f64) list \<Rightarrow> world \<Rightarrow> bool" where
  "at_state tr s xs w \<longleftrightarrow> w_trade w = tr\<lparr>t_state := s\<rparr> \<and> w_db_state w = s \<and> executions (w_ops w) = xs"

definition in_step :: "world \<Rightarrow> bool" where
  "in_step w \<longleftrightarrow> w_db_state w = t_state (w_trade w) \<or> tstep (t_state (w_trade w)) (w_db_state w)"

definition sound :: "trade_runtime \<Rightarrow> f64 \<Rightarrow> world \<Rightarrow> bool" where
  "sound tr stop w \<longleftrightarrow> in_step w \<and> traded tr stop (executions (w_ops w))"

lemma at_sound: "at_state tr s xs w \<Longrightarrow> traded tr stop xs \<Longrightarrow> sound tr stop w"
  by (simp add: at_state_def sound_def in_step_def)

lemma at_state_tick [simp]: "at_state tr s xs (tick w) = at_state tr s xs w"
  by (simp add: at_state_def tick_def)

lemma sound_tick [simp]: "sound tr stop (tick w) = sound tr stop w"
  by (simp add: sound_def in_step_def tick_def)

lemma event_hoare:
  assumes "traded tr stop xs"
  shows "hoare (at_state tr s xs) (record_risk_event env i t d x) (\<lambda>_. at_state tr s xs) (sound tr stop)"
  unfolding record_risk_event_def
  by (rule commit_hoare) (use assms in \<open>auto simp: at_state_def sound_def in_step_def tick_def executions_append\<close>)

lemma order_hoare:
  assumes "traded tr stop xs" "traded tr stop (xs @ [(intent, price, qty)])"
  shows "hoare (at_state tr s xs) (append_order_event env i intent side price qty st)
    (\<lambda>_. at_state tr s (xs @ [(intent, price, qty)])) (sound tr stop)"
  unfolding append_order_event_def append_order_event_with_meta_def
  by (intro hoare_get_pre hoare_then hoare_return commit_hoare)
    (use assms in \<open>auto simp: at_state_def sound_def in_step_def tick_def executions_append\<close>)

lemma fill_hoare:
  assumes "traded tr stop xs" "traded tr stop (xs @ [(''fill'', price, qty)])"
  shows "hoare (at_state tr s xs) (append_fill_event env i price qty fee)
    (\<lambda>_. at_state tr s (xs @ [(''fill'', price, qty)])) (sound tr stop)"
  unfolding append_fill_event_def
  by (rule commit_hoare) (use assms in \<open>auto simp: at_state_def sound_def in_step_def tick_def executions_append\<close>)

lemma key_hoare:
  assumes "traded tr stop xs"
  shows "hoare (at_state tr s xs) (try_record_idempotency_key env key) (\<lambda>_. at_state tr s xs) (sound tr stop)"
  unfolding try_record_idempotency_key_def
  by (intro hoare_get_pre hoare_then hoare_return commit_hoare)
    (use assms in \<open>auto simp: at_state_def sound_def in_step_def tick_def executions_append\<close>)

lemma transition_hoare:
  assumes "traded tr stop xs"
  shows "hoare (at_state tr s xs) (transition env to why) (\<lambda>_. at_state tr to xs) (sound tr stop)"
proof (cases "can_transition s to")
  case (Inl e)
  then show ?thesis
    by (auto simp: hoare_def transition_def transition_trade_state_def st_get_def st_then_def st_bind_def
        st_raise_def at_state_def sound_def in_step_def assms)
next
  case (Inr u)
  then have t: "tstep s to" by (simp add: tstep_iff)
  define mid where "mid = (\<lambda>w :: world. w_trade w = tr\<lparr>t_state := s\<rparr> \<and> w_db_state w = to \<and> executions (w_ops w) = xs)"
  have a: "hoare (at_state tr s xs) (commit env (TradeStateSet i to) (\<lambda>w. w\<lparr>w_db_state := to\<rparr>))
      (\<lambda>_. mid) (sound tr stop)" for i
    by (rule commit_hoare) (use assms t in \<open>auto simp: at_state_def sound_def in_step_def tick_def executions_append mid_def\<close>)
  have b: "hoare mid (record_risk_event env i y d x) (\<lambda>_. mid) (sound tr stop)" for i y d x
    unfolding record_risk_event_def
    by (rule commit_hoare) (use assms t in \<open>auto simp: sound_def in_step_def tick_def executions_append mid_def\<close>)
  show ?thesis
    unfolding transition_def
  proof (rule hoare_get_pre)
    fix w assume "at_state tr s xs w"
    then have "t_state (w_trade w) = s" by (simp add: at_state_def)
    with Inr show "hoare (at_state tr s xs) (st_then (transition_trade_state env (t_trade_id (w_trade w)) (t_state (w_trade w)) to why)
        (st_modify (set_state to))) (\<lambda>_. at_state tr to xs) (sound tr stop)"
      unfolding transition_trade_state_def
      by (simp, intro hoare_then [OF hoare_then [OF a b]] hoare_modify)
        (auto simp: mid_def at_state_def set_state_def)
  qed
qed

definition entered :: "trade_runtime \<Rightarrow> (string \<times> f64 \<times> f64) list" where
  "entered tr = [(''entry'', t_entry_price tr, t_position_size tr), (''fill'', t_entry_price tr, t_position_size tr)]"

lemma traded_prefixes:
  "traded tr stop []" "traded tr stop [(''entry'', t_entry_price tr, t_position_size tr)]" "traded tr stop (entered tr)"
  "traded tr stop (entered tr @ [(''tp'', t_tp_price tr, t_position_size tr)])"
  "traded tr stop (entered tr @ [(''sl'', stop, t_position_size tr)])"
  "traded tr stop (round_trip tr ''tp'' (t_tp_price tr))" "traded tr stop (round_trip tr ''sl'' stop)"
  by (simp_all add: traded_def round_trip_def entered_def)

lemma entry_step_hoare:
  "hoare (at_state tr WaitingEntry []) (entry_step env strat price True)
    (\<lambda>_ w. at_state tr WaitingEntry [] w \<or> at_state tr TpPlaced (entered tr) w) (sound tr stop)"
proof -
  have o1: "hoare (at_state tr EntryPlaced []) (append_order_event env i ''entry'' ''buy'' (t_entry_price tr) (t_position_size tr) f)
      (\<lambda>_. at_state tr EntryPlaced [(''entry'', t_entry_price tr, t_position_size tr)]) (sound tr stop)" for i f
    by (rule order_hoare [where xs = "[]", simplified]) (rule traded_prefixes)+
  have o2: "hoare (at_state tr EntryPlaced [(''entry'', t_entry_price tr, t_position_size tr)])
      (append_fill_event env k (t_entry_price tr) (t_position_size tr) fee)
      (\<lambda>_. at_state tr EntryPlaced (entered tr)) (sound tr stop)" for k fee
    unfolding entered_def
    by (rule fill_hoare [where xs = "[(''entry'', t_entry_price tr, t_position_size tr)]", simplified])
      (use traded_prefixes(2,3) [of tr stop] in \<open>simp_all add: entered_def\<close>)
  note t = transition_hoare [OF traded_prefixes(1)] transition_hoare [OF traded_prefixes(3)]
  have run: "hoare (at_state tr WaitingEntry []) (st_then (transition env EntryPlaced why)
      (st_bind (append_order_event env i ''entry'' ''buy'' (t_entry_price tr) (t_position_size tr) f) (\<lambda>k.
        st_then (append_fill_event env k (t_entry_price tr) (t_position_size tr) fee)
        (st_then (transition env EntryFilled why') (transition env TpPlaced why'')))))
      (\<lambda>_ w. at_state tr WaitingEntry [] w \<or> at_state tr TpPlaced (entered tr) w) (sound tr stop)" for why i f fee why' why''
    by (rule hoare_post [OF hoare_then [OF t(1) hoare_bind [OF o1 hoare_then [OF o2 hoare_then [OF t(2) t(2)]]]]]) auto
  show ?thesis
    unfolding entry_step_def
  proof (rule hoare_get_pre)
    fix w assume "at_state tr WaitingEntry [] w"
    then have w: "w_trade w = tr\<lparr>t_state := WaitingEntry\<rparr>" by (simp add: at_state_def)
    show "hoare (at_state tr WaitingEntry []) (let trade = w_trade w in
        if t_state trade = WaitingEntry \<and> str_entry_signal strat price (t_entry_price trade)
        then st_then (transition env EntryPlaced ''entry-threshold-hit'')
          (st_bind (append_order_event env (t_trade_id trade) ''entry'' ''buy'' (t_entry_price trade)
              (t_position_size trade) (if True then ''filled'' else ''open''))
            (\<lambda>entry_order_id. if True
              then st_then (append_fill_event env entry_order_id (t_entry_price trade) (t_position_size trade) 0)
                (st_then (transition env EntryFilled ''entry-filled'') (transition env TpPlaced ''tp-placed''))
              else st_return ()))
        else st_return ())
      (\<lambda>_ w. at_state tr WaitingEntry [] w \<or> at_state tr TpPlaced (entered tr) w) (sound tr stop)"
      unfolding Let_def w by (rule hoare_if) (use run in \<open>auto intro: hoare_return\<close>)
  qed
qed

text \<open>A closed trade: sold and filled, settled in the database, still at its exit in memory.\<close>

definition sold :: "trade_runtime \<Rightarrow> f64 \<Rightarrow> world \<Rightarrow> bool" where
  "sold tr stop w \<longleftrightarrow> w_trade w = tr\<lparr>t_state := ExitFilled\<rparr> \<and> w_db_state w = Settled \<and>
    executions (w_ops w) \<in> {round_trip tr ''tp'' (t_tp_price tr), round_trip tr ''sl'' stop}"

lemma sold_sound: "sold tr stop w \<Longrightarrow> sound tr stop w"
  by (auto simp: sold_def sound_def in_step_def tstep_table transition_table_def intro: traded_prefixes)

lemma sell_hoare:
  assumes "s \<in> {TpPlaced, SlArmed}" "(intent, price) \<in> {(''tp'', t_tp_price tr), (''sl'', stop)}"
    "t_trade_id trade = t_trade_id tr" "t_entry_price trade = t_entry_price tr" "t_position_size trade = t_position_size tr"
  shows "hoare (at_state tr s (entered tr)) (sell_and_close env trade intent price why) (\<lambda>_. sold tr stop) (sound tr stop)"
proof -
  have k: "traded tr stop (entered tr @ [(intent, price, t_position_size tr)])"
    "traded tr stop (round_trip tr intent price)"
    using assms(2) traded_prefixes [of tr stop] by auto
  have r: "(entered tr @ [(intent, price, t_position_size tr)]) @ [(''fill'', price, t_position_size tr)] = round_trip tr intent price"
    by (simp add: entered_def round_trip_def)
  have c: "hoare (at_state tr ExitFilled (round_trip tr intent price)) (close_trade env i price pnl) (\<lambda>_. sold tr stop) (sound tr stop)"
    for i pnl unfolding close_trade_def
    by (rule commit_hoare) (use k assms(2) in \<open>auto simp: at_state_def sold_def sound_def in_step_def tick_def
      executions_append tstep_table transition_table_def\<close>)
  show ?thesis
    unfolding sell_and_close_def assms(5)
    by (rule hoare_bind [OF order_hoare [OF traded_prefixes(3) k(1)]])
      (rule hoare_then [OF fill_hoare [where price = price and qty = "t_position_size tr", OF k(1), unfolded r, OF k(2)] hoare_then [OF transition_hoare [OF k(2)] c]])
qed

definition resting :: "trade_runtime \<Rightarrow> f64 \<Rightarrow> world \<Rightarrow> bool" where
  "resting tr stop w \<longleftrightarrow> at_state tr WaitingEntry [] w \<or> at_state tr TpPlaced (entered tr) w \<or> sold tr stop w"

lemma exit_step_other: "t_state (w_trade w) \<noteq> TpPlaced \<Longrightarrow> exit_step env cfg strat price w = (Inr (), w)"
  by (simp add: exit_step_def st_get_def Let_def st_return_def)

lemma exit_step_hoare:
  assumes "stop = str_aggressive_stop_price strat (t_entry_price tr) (s_aggressive_sl_pct (cfg_strategy cfg))"
  shows "hoare (at_state tr TpPlaced (entered tr)) (exit_step env cfg strat price) (\<lambda>_. resting tr stop) (sound tr stop)"
  unfolding exit_step_def
proof (rule hoare_get_pre, unfold Let_def)
  fix w assume "at_state tr TpPlaced (entered tr) w"
  then have w: "w_trade w = tr\<lparr>t_state := TpPlaced\<rparr>" by (simp add: at_state_def)
  note key = key_hoare [OF traded_prefixes(3)] and t = transition_hoare [OF traded_prefixes(3)]
  have stay: "hoare (at_state tr TpPlaced (entered tr)) (st_return ()) (\<lambda>_. resting tr stop) (sound tr stop)"
    by (rule hoare_return) (simp add: resting_def)
  have f: "t_state (w_trade w) = TpPlaced" "t_tp_price (w_trade w) = t_tp_price tr"
    "str_aggressive_stop_price strat (t_entry_price (w_trade w)) (s_aggressive_sl_pct (cfg_strategy cfg)) = stop"
    by (simp_all add: w assms)
  have tp: "hoare (at_state tr TpPlaced (entered tr)) (sell_and_close env (w_trade w) ''tp'' (t_tp_price tr) why)
      (\<lambda>_. resting tr stop) (sound tr stop)" for why
    by (rule hoare_post [OF sell_hoare]) (auto simp: resting_def w)
  have sl: "hoare (at_state tr SlArmed (entered tr)) (sell_and_close env (w_trade w) ''sl'' stop why)
      (\<lambda>_. resting tr stop) (sound tr stop)" for why
    by (rule hoare_post [OF sell_hoare]) (auto simp: resting_def w)
  show "hoare (at_state tr TpPlaced (entered tr))
     (if t_state (w_trade w) = TpPlaced
      then if t_tp_price (w_trade w) \<le> price
        then st_bind (try_record_idempotency_key env
            (''trade:'' @ show_i64 (t_trade_id (w_trade w)) @ '':tp:'' @ show_f64 env (t_tp_price (w_trade w))))
          (\<lambda>fresh. if fresh then sell_and_close env (w_trade w) ''tp'' (t_tp_price (w_trade w)) ''tp-hit'' else st_return ())
        else if price \<le> str_aggressive_stop_price strat (t_entry_price (w_trade w)) (s_aggressive_sl_pct (cfg_strategy cfg))
          then st_bind (try_record_idempotency_key env (''trade:'' @ show_i64 (t_trade_id (w_trade w)) @ '':sl:'' @
              show_f64_4 env (str_aggressive_stop_price strat (t_entry_price (w_trade w)) (s_aggressive_sl_pct (cfg_strategy cfg)))))
            (\<lambda>fresh. if fresh
              then st_then (transition env SlArmed ''aggressive-sl-armed'') (sell_and_close env (w_trade w) ''sl''
                (str_aggressive_stop_price strat (t_entry_price (w_trade w)) (s_aggressive_sl_pct (cfg_strategy cfg))) ''sl-hit'')
              else st_return ())
          else st_return ()
      else st_return ()) (\<lambda>_. resting tr stop) (sound tr stop)"
    unfolding f by (intro hoare_bind [OF key] hoare_if hoare_then [OF t] tp sl stay)
qed

lemma process_step_hoare:
  assumes "stop = str_aggressive_stop_price strat (t_entry_price tr) (s_aggressive_sl_pct (cfg_strategy cfg))"
  shows "hoare (resting tr stop) (process_trade_step env cfg strat price True) (\<lambda>_. resting tr stop) (sound tr stop)"
proof -
  note e = exit_step_hoare [OF assms]
  have idle: "hoare (\<lambda>w. P w \<and> t_state (w_trade w) \<noteq> TpPlaced) (exit_step env cfg strat price) (\<lambda>_. P) E" for P E
    by (rule hoareI) (simp add: exit_step_other)
  have idle': "hoare (\<lambda>w. P w \<and> t_state (w_trade w) \<noteq> WaitingEntry) (entry_step env strat price True) (\<lambda>_. P) E" for P E
    by (rule hoareI) (simp add: entry_step_def st_get_def Let_def st_return_def)
  have "hoare (\<lambda>w. at_state tr WaitingEntry [] w \<or> at_state tr TpPlaced (entered tr) w) (exit_step env cfg strat price)
      (\<lambda>_. resting tr stop) (sound tr stop)"
    by (rule hoare_or [OF hoare_pre [OF hoare_post [OF idle [where P = "at_state tr WaitingEntry []"]]] e]) (auto simp: at_state_def resting_def)
  then have a: "hoare (at_state tr WaitingEntry []) (process_trade_step env cfg strat price True)
      (\<lambda>_. resting tr stop) (sound tr stop)"
    unfolding process_trade_step_def by (rule hoare_then [OF entry_step_hoare])
  have b: "hoare (at_state tr TpPlaced (entered tr)) (process_trade_step env cfg strat price True)
      (\<lambda>_. resting tr stop) (sound tr stop)"
    unfolding process_trade_step_def
    by (rule hoare_then [OF hoare_pre [OF idle'] e]) (simp add: at_state_def)
  have c: "hoare (sold tr stop) (process_trade_step env cfg strat price True) (\<lambda>_. resting tr stop) (sound tr stop)"
    unfolding process_trade_step_def
    by (rule hoare_then [OF hoare_pre [OF idle' [where P = "sold tr stop"]] hoare_pre [OF hoare_post [OF idle [where P = "sold tr stop"]]]])
      (auto simp: sold_def resting_def)
  show ?thesis
    unfolding resting_def [abs_def]
    by (intro hoare_or hoare_post [OF a] hoare_post [OF b] hoare_post [OF c])
      (simp_all add: resting_def)
qed

lemma resting_sound: "resting tr stop w \<Longrightarrow> sound tr stop w"
  by (auto simp: resting_def intro: at_sound sold_sound traded_prefixes)

text \<open>The counts and the event of a risk gate change nothing of this.\<close>

lemma in_step_simps: "in_step (tick w) = in_step w" "in_step (w\<lparr>w_ops := ops\<rparr>) = in_step w"
  "in_step (tick w\<lparr>w_ops := ops\<rparr>) = in_step w"
  by (simp_all add: in_step_def tick_def)

lemma resting_event:
  "resting tr stop (tick w) = resting tr stop w"
  "resting tr stop (tick w\<lparr>w_ops := w_ops w @ [RiskEvent i y d x]\<rparr>) = resting tr stop w"
  by (simp_all add: resting_def at_state_def sold_def tick_def executions_append)

lemma risk_gate_hoare:
  "hoare (resting tr stop) (risk_gate env cfg trade limits stale) (\<lambda>_. resting tr stop) (sound tr stop)"
proof -
  have q: "hoare (resting tr stop) (query f) (\<lambda>_. resting tr stop) (sound tr stop)" for f :: "nat \<Rightarrow> (string, 'x) result"
    by (rule query_hoare) (simp_all add: resting_event resting_sound)
  have e: "hoare (resting tr stop) (record_risk_event env i y d x) (\<lambda>_. resting tr stop) (sound tr stop)" for i y d x
    unfolding record_risk_event_def
    by (rule commit_hoare) (simp_all add: resting_event resting_sound)
  have "hoare (resting tr stop) (risk_counts env cfg u) (\<lambda>_. resting tr stop) (sound tr stop)" for u
    unfolding risk_counts_def query_consecutive_losses_def
    by (intro hoare_bind [OF q] hoare_bind [OF hoare_bind [OF q]] hoare_return)
  then show ?thesis
    unfolding risk_gate_def Let_def
    by (rule hoare_bind) (auto split: prod.split intro!: hoare_then [OF e] hoare_return)
qed

text \<open>Ending a run: halting or settling moves the trade to its last state, with what was traded.\<close>

definition ended :: "trade_runtime \<Rightarrow> f64 \<Rightarrow> world \<Rightarrow> bool" where
  "ended tr stop w \<longleftrightarrow> (\<exists>s xs. at_state tr s xs w \<and> s \<in> {Halted, Settled} \<and> traded tr stop xs)"

lemma ended_sound: "ended tr stop w \<Longrightarrow> sound tr stop w"
  by (auto simp: ended_def intro: at_sound)

lemma sold_transition:
  assumes "s \<in> {Halted, Settled}"
  shows "hoare (sold tr stop) (transition env s why) (\<lambda>_. ended tr stop) (sound tr stop)"
proof -
  define mid where "mid = (\<lambda>w :: world. w_trade w = tr\<lparr>t_state := ExitFilled\<rparr> \<and> w_db_state w = s \<and>
    executions (w_ops w) \<in> {round_trip tr ''tp'' (t_tp_price tr), round_trip tr ''sl'' stop})"
  have step: "tstep ExitFilled s" using assms by (auto simp: tstep_table transition_table_def)
  have a: "hoare (sold tr stop) (commit env (TradeStateSet i s) (\<lambda>w. w\<lparr>w_db_state := s\<rparr>)) (\<lambda>_. mid) (sound tr stop)" for i
    by (rule commit_hoare) (use step in \<open>auto simp: mid_def sold_def sound_def in_step_def tick_def executions_append
      tstep_table transition_table_def intro: traded_prefixes\<close>)
  have b: "hoare mid (record_risk_event env i y d x) (\<lambda>_. mid) (sound tr stop)" for i y d x
    unfolding record_risk_event_def
    by (rule commit_hoare) (use step in \<open>auto simp: mid_def sound_def in_step_def tick_def executions_append
      intro: traded_prefixes\<close>)
  have ok: "can_transition ExitFilled s = Inr ()" using assms by (auto simp: can_transition_iff transition_table_def)
  show ?thesis
    unfolding transition_def
  proof (rule hoare_get_pre)
    fix w assume "sold tr stop w"
    then have "t_state (w_trade w) = ExitFilled" by (simp add: sold_def)
    with ok show "hoare (sold tr stop) (st_then (transition_trade_state env (t_trade_id (w_trade w)) (t_state (w_trade w)) s why)
        (st_modify (set_state s))) (\<lambda>_. ended tr stop) (sound tr stop)"
      unfolding transition_trade_state_def
      by (simp, intro hoare_then [OF hoare_then [OF a b]] hoare_modify)
        (use assms in \<open>auto simp: mid_def ended_def at_state_def set_state_def intro: traded_prefixes\<close>)
  qed
qed

lemma resting_transition:
  assumes "s \<in> {Halted, Settled}"
  shows "hoare (resting tr stop) (transition env s why) (\<lambda>_. ended tr stop) (sound tr stop)"
  unfolding resting_def [abs_def]
  by (intro hoare_or sold_transition [OF assms] hoare_post [OF transition_hoare])
    (use assms in \<open>auto simp: ended_def intro: traded_prefixes\<close>)

lemma paper_iteration_hoare:
  assumes "stop = str_aggressive_stop_price strat (t_entry_price tr) (s_aggressive_sl_pct (cfg_strategy cfg))"
  shows "hoare (resting tr stop) (paper_iteration env cfg run_id strat m)
    (\<lambda>over w. (over \<and> ended tr stop w) \<or> resting tr stop w) (sound tr stop)"
proof -
  have halt: "hoare (resting tr stop) (st_then (halt_trade env run_id why False) (st_return True))
      (\<lambda>over w. (over \<and> ended tr stop w) \<or> resting tr stop w) (sound tr stop)" for why
    unfolding halt_trade_def
    by (rule hoare_then [OF hoare_get_pre, where R = "ended tr stop"])
      (simp_all add: hoare_then [OF hoare_return resting_transition] hoare_return)
  have go: "hoare (resting tr stop) (st_then (process_trade_step env cfg strat p True)
        (st_get (\<lambda>w'. st_return (t_state (w_trade w') \<in> {Settled, Halted}))))
      (\<lambda>over w. (over \<and> ended tr stop w) \<or> resting tr stop w) (sound tr stop)" for p
    by (rule hoare_then [OF process_step_hoare [OF assms]]) (auto intro!: hoare_get_pre hoare_return)
  show ?thesis
    unfolding paper_iteration_def
  proof (rule hoare_get_pre, rule hoare_bind [OF risk_gate_hoare])
    fix d
    have block: "hoare (resting tr stop) (st_return False) (\<lambda>over w. (over \<and> ended tr stop w) \<or> resting tr stop w) (sound tr stop)"
      by (rule hoare_return) simp
    show "hoare (resting tr stop) (case d of
         Halt \<Rightarrow> st_then (halt_trade env run_id ''risk-halt'' False) (st_return True)
       | Block \<Rightarrow> st_return False
       | Allow \<Rightarrow> st_then (process_trade_step env cfg strat (rc_chosen_price m) True)
           (st_get (\<lambda>w'. st_return (t_state (w_trade w') \<in> {Settled, Halted}))))
      (\<lambda>over w. (over \<and> ended tr stop w) \<or> resting tr stop w) (sound tr stop)"
      by (cases d) (simp_all only: risk_decision.case halt go block)
  qed
qed

lemma paper_iterations_hoare:
  assumes "stop = str_aggressive_stop_price strat (t_entry_price tr) (s_aggressive_sl_pct (cfg_strategy cfg))"
  shows "hoare (resting tr stop) (paper_iterations env cfg run_id strat ms)
    (\<lambda>_ w. ended tr stop w \<or> resting tr stop w) (sound tr stop)"
proof (induction ms)
  case Nil
  then show ?case by (simp add: hoare_return)
next
  case (Cons m ms)
  have "hoare (\<lambda>w. (over \<and> ended tr stop w) \<or> resting tr stop w)
      (if over then st_return () else paper_iterations env cfg run_id strat ms)
      (\<lambda>_ w. ended tr stop w \<or> resting tr stop w) (sound tr stop)" for over
    by (cases over) (auto intro: hoare_return hoare_pre [OF Cons])
  then show ?case by (simp add: hoare_bind [OF paper_iteration_hoare [OF assms]])
qed

lemma ended_final: "hoare (ended tr stop) (if c then transition env Settled why else st_return ()) (\<lambda>_. sound tr stop) (sound tr stop)"
proof (rule hoare_if)
  have "hoare (at_state tr s xs) (transition env Settled why) (\<lambda>_. sound tr stop) (sound tr stop)" if "traded tr stop xs" for s xs
    by (rule hoare_post [OF transition_hoare [OF that]]) (auto intro: at_sound that)
  note t = this
  show "hoare (ended tr stop) (transition env Settled why) (\<lambda>_. sound tr stop) (sound tr stop)"
  proof (rule hoareI)
    fix w assume "ended tr stop w"
    then obtain s xs where "at_state tr s xs w" "traded tr stop xs" by (auto simp: ended_def)
    with t [of xs s] show "case transition env Settled why w of (Inl _, s') \<Rightarrow> sound tr stop s' | (Inr x, s') \<Rightarrow> sound tr stop s'"
      unfolding hoare_def by simp
  qed
qed (auto intro: hoare_return ended_sound)

lemma paper_loop_sound:
  assumes "at_state tr Idle [] w"
    "stop = str_aggressive_stop_price strat (t_entry_price tr) (s_aggressive_sl_pct (cfg_strategy cfg))"
  shows "sound tr stop (snd (paper_loop env cfg run_id strat ms w))"
proof -
  have settle: "hoare (resting tr stop) (if c then transition env Settled why else st_return ()) (\<lambda>_. sound tr stop) (sound tr stop)" for c why
    by (intro hoare_if hoare_post [OF resting_transition]) (auto intro: hoare_return ended_sound resting_sound)
  have last: "hoare (\<lambda>w. ended tr stop w \<or> resting tr stop w) (st_get (\<lambda>w. if is_ok (can_transition (t_state (w_trade w)) Settled)
      then transition env Settled why else st_return ())) (\<lambda>_. sound tr stop) (sound tr stop)" for why
    by (rule hoare_get_pre, rule hoare_or [OF ended_final settle])
  have start: "hoare (at_state tr Idle []) (transition env WaitingEntry why) (\<lambda>_. resting tr stop) (sound tr stop)" for why
    by (rule hoare_post [OF transition_hoare [OF traded_prefixes(1)]]) (simp_all add: resting_def)
  have "hoare (at_state tr Idle []) (paper_loop env cfg run_id strat ms) (\<lambda>_. sound tr stop) (sound tr stop)"
    unfolding paper_loop_def
    by (rule hoare_then [OF start hoare_then [OF paper_iterations_hoare [OF assms(2)] last]])
  from hoare_any [OF this assms(1)] show ?thesis by simp
qed

text \<open>Runs that execute nothing.\<close>

definition nothing_executed :: "world \<Rightarrow> bool" where
  "nothing_executed w \<longleftrightarrow> executions (w_ops w) = []"

interpretation quiet: log_invariant nothing_executed nothing_executed
  by unfold_locales (auto simp: nothing_executed_def executions_append elim: bookkeeping.elims)

lemma transition_keeps:
  assumes "\<And>i. hoare P (commit env (TradeStateSet i to) (\<lambda>w. w\<lparr>w_db_state := to\<rparr>)) (\<lambda>_. P) P"
    "\<And>i y d x. hoare P (record_risk_event env i y d x) (\<lambda>_. P) P" "\<And>w. P w \<Longrightarrow> P (set_state to w)"
  shows "hoare P (transition env to why) (\<lambda>_. P) P"
proof -
  have t: "hoare P (transition_trade_state env i s to why) (\<lambda>_. P) P" for i s
  proof (cases "can_transition s to")
    case (Inl e)
    then show ?thesis by (simp add: transition_trade_state_def st_raise_def hoare_def)
  next
    case (Inr u)
    then show ?thesis by (simp add: transition_trade_state_def hoare_then [OF assms(1,2)])
  qed
  show ?thesis
    unfolding transition_def
    by (rule hoare_get_pre, rule hoare_then [OF t hoare_modify]) (rule assms(3))
qed

lemma quiet_transition: "hoare nothing_executed (transition env to why) (\<lambda>_. nothing_executed) nothing_executed"
  by (rule transition_keeps) (simp_all add: quiet.risk_event_kept quiet.kept_commit quiet.stored, simp add: nothing_executed_def set_state_def)

lemma manual_switch_halts:
  assumes "rk_manual_kill_switch_active (cfg_risk cfg)" "rk_kill_switch_mode (cfg_risk cfg) \<noteq> KsDisabled"
  shows "hoare nothing_executed (risk_gate env cfg trade (to_risk_limits cfg) stale)
    (\<lambda>d w. nothing_executed w \<and> d = Halt) nothing_executed"
proof -
  have "rk_kill_switch_mode (cfg_risk cfg) \<in> {ManualOnly, ManualOrPolicy}"
    using assms(2) by (cases "rk_kill_switch_mode (cfg_risk cfg)") auto
  then have d: "decision (evaluate_risk (to_risk_limits cfg) \<lparr>proposed_notional_usdc = p, open_orders = o', stale_data_ms = s,
      daily_realized_pnl_usdc = q, consecutive_losses = l, manual_kill_switch_active = True\<rparr>) = Halt" for p o' s q l
    by (simp add: evaluate_risk_def to_risk_limits_def)
  show ?thesis
    unfolding risk_gate_def
    by (rule hoare_bind [OF quiet.risk_counts_kept])
      (auto simp: Let_def assms(1) d split: prod.split intro!: hoare_then [OF quiet.risk_event_kept] hoare_return)
qed

section \<open>A sample run\<close>

definition sample_app :: app_config where
  "sample_app = \<lparr>cfg_bot = sample_bot, cfg_strategy = sample_strategy, cfg_risk = sample_risk,
     cfg_execution = sample_execution, cfg_exchange = sample_exchange, cfg_claim = sample_claim,
     cfg_telegram = sample_telegram\<rparr>"

definition sample_trade :: trade_runtime where
  "sample_trade = \<lparr>t_trade_id = 7, t_user_id = None, t_market_slug = ''btc-updown-5m-0'', t_entry_price = Fin (1 / 2),
     t_tp_price = Fin (5 / 8), t_position_size = Fin 20, t_state = Idle\<rparr>"

definition world_of :: "trade_runtime \<Rightarrow> world" where
  "world_of trade = \<lparr>w_db_state = t_state trade, w_keys = [], w_ops = [], w_cancels = [], w_calls = 0, w_trade = trade\<rparr>"

section \<open>Properties\<close>

text \<open>C2: a paper run trades at most one round trip. From a fresh trade, whatever prices it sees and
  whatever the database answers (refusals and lost answers at any call included), the orders and
  fills written are the beginning of: the entry at the entry price, its fill, one exit of the same
  quantity at the take profit price or at the stop price, its fill. Nothing is bought or sold
  twice, and nothing is sold before the entry is filled.\<close>

theorem paper_run_one_round_trip:
  assumes "at_state tr Idle [] w"
  shows "traded tr (str_aggressive_stop_price strat (t_entry_price tr) (s_aggressive_sl_pct (cfg_strategy cfg)))
    (executions (w_ops (snd (paper_loop env cfg run_id strat ms w))))"
  using paper_loop_sound [OF assms refl, of strat cfg env run_id ms] by (simp add: sound_def)

theorem paper_run_one_round_trip_witness:
  "traded sample_trade (str_aggressive_stop_price price_threshold_strategy (Fin (1 / 2)) default_aggressive_sl_pct)
    (executions (w_ops (snd (paper_loop stormy_env sample_app 1 price_threshold_strategy
      [\<lparr>rc_chosen_price = Fin (1 / 2), rc_source = ''ws'', rc_stale_data_ms = 0\<rparr>] (world_of sample_trade)))))"
  using paper_run_one_round_trip [of sample_trade "world_of sample_trade" price_threshold_strategy sample_app stormy_env 1
    "[\<lparr>rc_chosen_price = Fin (1 / 2), rc_source = ''ws'', rc_stale_data_ms = 0\<rparr>]"]
  by (simp add: at_state_def world_of_def sample_trade_def sample_app_def sample_strategy_def)

text \<open>The database follows the trade. After a paper run, whatever failed, the state stored is the
  state in memory or one that the state machine allows to follow it.\<close>

lemma paper_run_in_step:
  assumes "at_state tr Idle [] w"
  shows "in_step (snd (paper_loop env cfg run_id strat ms w))"
  using paper_loop_sound [OF assms refl, of strat cfg env run_id ms] by (simp add: sound_def)

theorem paper_run_in_step_witness:
  "in_step (snd (paper_loop stormy_env sample_app 1 price_threshold_strategy
      [\<lparr>rc_chosen_price = Fin (1 / 2), rc_source = ''ws'', rc_stale_data_ms = 0\<rparr>] (world_of sample_trade)))"
  by (rule paper_run_in_step [of sample_trade]) (simp add: at_state_def world_of_def sample_trade_def)

text \<open>C19: the manual kill switch stops trading. With a configuration that validates and the manual kill
  switch on, a paper run writes no order and no fill, whatever prices it sees and whatever the
  database answers.\<close>

theorem manual_kill_switch_stops_trading:
  assumes "validate_app cenv cfg = Inr ()" "rk_manual_kill_switch_active (cfg_risk cfg)" "nothing_executed w"
  shows "nothing_executed (snd (paper_loop env cfg run_id strat ms w))"
proof -
  have "rk_kill_switch_mode (cfg_risk cfg) \<noteq> KsDisabled"
    using validate_parts(5) assms(1,2) unfolding validate_app_def by blast
  note gate = manual_switch_halts [OF assms(2) this]
  have "hoare nothing_executed (paper_iteration env cfg run_id strat m) (\<lambda>_. nothing_executed) nothing_executed" for m
    unfolding paper_iteration_def halt_trade_def
    by (rule hoare_get_pre, rule hoare_bind [OF gate], rule hoare_conj_pure, simp,
        intro hoare_then [OF hoare_get_pre, where R = nothing_executed] hoare_then [OF hoare_return quiet_transition] hoare_return)
  then have "hoare nothing_executed (paper_iterations env cfg run_id strat ms) (\<lambda>_. nothing_executed) nothing_executed"
    by (induction ms) (auto intro!: hoare_return hoare_bind hoare_if)
  then have "hoare nothing_executed (paper_loop env cfg run_id strat ms) (\<lambda>_. nothing_executed) nothing_executed"
    unfolding paper_loop_def
    by (rule hoare_then [OF quiet_transition hoare_then]) (intro hoare_get_pre hoare_if quiet_transition hoare_return)
  from hoare_any [OF this assms(3)] show ?thesis by simp
qed

theorem manual_kill_switch_stops_trading_witness:
  "nothing_executed (snd (paper_loop calm_env sample_app 1 price_threshold_strategy
      [\<lparr>rc_chosen_price = Fin (1 / 2), rc_source = ''ws'', rc_stale_data_ms = 0\<rparr>] (world_of sample_trade)))"
proof (rule manual_kill_switch_stops_trading [of sample_env])
  show "validate_app sample_env sample_app = Inr ()"
    by (simp add: validate_app_def sample_app_def sample_validates)
qed (simp_all add: sample_app_def sample_risk_def nothing_executed_def world_of_def)

text \<open>C22: when nothing fails, a trade completes. An entry signal at a price between the stop and the
  take profit, then a price at or above the take profit, and a trade that waits for its entry is
  bought, filled, sold at the take profit, filled, and closed with the profit of the difference.\<close>

theorem clean_round_trip:
  assumes "\<forall>n. env_answer env n = Done" "at_state tr WaitingEntry [] w"
    "str_entry_signal strat p (t_entry_price tr)" "\<not> t_tp_price tr \<le> p"
    "\<not> p \<le> str_aggressive_stop_price strat (t_entry_price tr) (s_aggressive_sl_pct (cfg_strategy cfg))"
    "t_tp_price tr \<le> q" "w_keys w = []"
  shows "\<exists>w'. st_then (process_trade_step env cfg strat p True) (process_trade_step env cfg strat q True) w = (Inr (), w') \<and>
    w_trade w' = tr\<lparr>t_state := ExitFilled\<rparr> \<and> w_db_state w' = Settled \<and>
    executions (w_ops w') = round_trip tr ''tp'' (t_tp_price tr) \<and>
    TradeClosed (t_trade_id tr) (t_tp_price tr) ((t_tp_price tr - t_entry_price tr) * t_position_size tr) \<in> set (w_ops w')"
  using assms
  by (simp add: process_trade_step_def entry_step_def exit_step_def sell_and_close_def transition_def
    transition_trade_state_def can_transition_def transition_table_def record_risk_event_def append_order_event_def append_order_event_with_meta_def
    append_fill_event_def close_trade_def try_record_idempotency_key_def commit_def tick_def set_state_def
    st_then_def st_bind_def st_get_def st_modify_def st_return_def at_state_def executions_append round_trip_def Let_def)

lemma sample_stop: "aggressive_stop_price (Fin (1 / 2)) (Fin (1 / 2)) = Fin (1 / 4)"
  by (simp add: aggressive_stop_price_def f64_eval)

theorem clean_round_trip_witness:
  "\<exists>w'. st_then (process_trade_step calm_env (sample_app\<lparr>cfg_strategy := sample_strategy\<lparr>s_aggressive_sl_pct := Fin (1 / 2)\<rparr>\<rparr>)
       price_threshold_strategy (Fin (1 / 2)) True)
     (process_trade_step calm_env (sample_app\<lparr>cfg_strategy := sample_strategy\<lparr>s_aggressive_sl_pct := Fin (1 / 2)\<rparr>\<rparr>)
       price_threshold_strategy (Fin (3 / 4)) True) (world_of (sample_trade\<lparr>t_state := WaitingEntry\<rparr>)) = (Inr (), w') \<and>
     w_db_state w' = Settled"
  using clean_round_trip [of calm_env sample_trade "world_of (sample_trade\<lparr>t_state := WaitingEntry\<rparr>)" price_threshold_strategy
    "Fin (1 / 2)" "sample_app\<lparr>cfg_strategy := sample_strategy\<lparr>s_aggressive_sl_pct := Fin (1 / 2)\<rparr>\<rparr>" "Fin (3 / 4)"]
  by (auto simp: calm_env_def at_state_def world_of_def sample_trade_def price_threshold_strategy_def entry_signal_def
    sample_app_def sample_strategy_def sample_stop)

text \<open>A price from the future stops trading. When the last tick is timestamped after the local clock,
  by as little as a millisecond, the staleness it gives exceeds every limit below 2^63 ms and the risk
  gate does not allow the order, although the price is the freshest there is.\<close>

lemma future_tick_blocks_trading:
  assumes "0 \<le> now" "now < timestamp_millis (tk_ts t)" "is_i64 (timestamp_millis (tk_ts t))" "sp_ts snap \<le> tk_ts t"
    "stale_data_ms inp = rc_stale_data_ms (reconcile_tick_and_snapshot timestamp_millis (Some t) snap now)"
    "uint (max_stale_data_ms limits) < 2 ^ 63"
  shows "decision (evaluate_risk limits inp) \<noteq> Allow"
proof -
  have "uint (max_stale_data_ms limits) < uint (stale_data_ms inp)"
    using reconcile_future_tick [where timestamp_millis = timestamp_millis and t = t, OF assms(1-4)] assms(5,6) by simp
  then have "max_stale_data_ms limits < stale_data_ms inp" by (simp add: word_less_def)
  then show ?thesis by (simp add: evaluate_risk_def)
qed

theorem future_tick_blocks_trading_witness:
  "decision (evaluate_risk (to_risk_limits sample_app) \<lparr>proposed_notional_usdc = Fin 5, open_orders = 0,
     stale_data_ms = rc_stale_data_ms (reconcile_tick_and_snapshot (\<lambda>t::int. t)
       (Some \<lparr>tk_market_slug = [], tk_side = [], tk_price = Fin 1, tk_ts = 1001\<rparr>)
       \<lparr>sp_market_slug = [], sp_price = Fin 0, sp_ts = 900\<rparr> 1000),
     daily_realized_pnl_usdc = 0, consecutive_losses = 0, manual_kill_switch_active = False\<rparr>) \<noteq> Allow"
  by (rule future_tick_blocks_trading [of 1000 "\<lambda>t::int. t"
      "\<lparr>tk_market_slug = [], tk_side = [], tk_price = Fin 1, tk_ts = 1001\<rparr>" "\<lparr>sp_market_slug = [], sp_price = Fin 0, sp_ts = 900\<rparr>"])
    (simp_all add: is_i64_def i64_min_def i64_max_def to_risk_limits_def sample_app_def sample_risk_def)

end
