(* ===== verification/Trade_Reconcile.thy ===== *)
theory Trade_Reconcile
  imports Trade_Safety
begin

text \<open>
  The reconciliation of a live trade and its halt: a fill of the exchange reaches the database at
  most once, the counts of a reconciliation account for every fill, a halt asks the exchange to
  cancel every order it lists, and how a failure in the middle of a fill loses it.
\<close>

section \<open>Invariants of a reconciliation\<close>

fun fill_ids :: "db_op list \<Rightarrow> string list" where
  "fill_ids [] = []"
| "fill_ids (FillUpsert _ fill_id _ _ _ _ _ # ops) = fill_id # fill_ids ops"
| "fill_ids (_ # ops) = fill_ids ops"

lemma fill_ids_append: "fill_ids (xs @ ys) = fill_ids xs @ fill_ids ys"
  by (induction xs rule: fill_ids.induct) simp_all

text \<open>What a predicate of the world has to satisfy to hold throughout a reconciliation: writes other than
  fills, which only add keys, keep it, so do queries and state changes in memory, and so does the
  treatment of one fill.\<close>

locale reconcile_invariant =
  fixes env :: "'j run_env" and P :: "world \<Rightarrow> bool"
  assumes other_write: "fill_ids [op] = [] \<Longrightarrow> (\<And>w. w_ops (eff w) = w_ops w) \<Longrightarrow>
      (\<And>w. set (w_keys w) \<subseteq> set (w_keys (eff w))) \<Longrightarrow> hoare P (commit env op eff) (\<lambda>_. P) P"
    and query_keeps: "P w \<Longrightarrow> P (tick w)"
    and memory_keeps: "P w \<Longrightarrow> P (set_state s w)"
    and fill_keeps: "hoare P (apply_fill env i fill acc) (\<lambda>_. P) P"
begin

lemma writes:
  "hoare P (record_risk_event env u y d x) (\<lambda>_. P) P" "hoare P (record_reconcile_run env r m st ds) (\<lambda>_. P) P"
  "hoare P (upsert_order_by_exchange_id env i e c n sd p q st ts rj raw) (\<lambda>_. P) P"
  "hoare P (try_record_idempotency_key env key) (\<lambda>_. P) P"
  unfolding record_risk_event_def record_reconcile_run_def upsert_order_by_exchange_id_def upsert_order_by_exchange_id_with_meta_def try_record_idempotency_key_def
  by (auto intro!: other_write hoare_get_pre hoare_then [OF other_write] hoare_return)

lemma transition: "hoare P (transition env to why) (\<lambda>_. P) P"
  by (rule transition_keeps [OF other_write writes(1)]) (simp_all add: memory_keeps)

lemma user_event: "hoare P (apply_user_event env i ev n) (\<lambda>_. P) P"
  unfolding apply_user_event_def Let_def
  by (intro hoare_if hoare_return hoare_bind [OF writes(4)] hoare_then [OF writes(1)])

lemma order: "hoare P (apply_order env i ord u) (\<lambda>_. P) P"
  unfolding apply_order_def
  by (intro hoare_if hoare_return hoare_then [OF writes(3)])

lemma apply_all: "hoare P (reconcile_apply env run_id trade events orders fills) (\<lambda>_. P) P"
proof -
  have orders: "hoare P (apply_order_reconcile env i orders) (\<lambda>_. P) P" for i
    unfolding apply_order_reconcile_def by (rule hoare_fold) (rule order)
  have fills: "hoare P (apply_fill_reconcile env i fills) (\<lambda>_. P) P" for i
    unfolding apply_fill_reconcile_def by (rule hoare_fold) (rule fill_keeps)
  have events: "hoare P (apply_user_stream_events env i events) (\<lambda>_. P) P" for i
    unfolding apply_user_stream_events_def by (rule hoare_fold) (rule user_event)
  have moved: "hoare P (if c then st_then (Trade_Runtime.transition env s why) (Trade_Runtime.transition env s' why') else st_return ())
      (\<lambda>_. P) P" for c s s' why why'
    by (intro hoare_if hoare_then [OF transition transition] hoare_return)
  show ?thesis
    unfolding reconcile_apply_def split_def
    by (rule hoare_then [OF orders], rule hoare_bind [OF fills], rule hoare_bind [OF events],
        rule hoare_then [OF moved], rule hoare_then [OF writes(2) hoare_return])
qed

lemma live: "hoare P (reconcile_live env run_id events) (\<lambda>_. P) P"
proof -
  have failed: "hoare P (st_then (record_reconcile_error env run_id sl e) (st_return ReconcileError)) (\<lambda>_. P) P" for sl e
    unfolding record_reconcile_error_def by (rule hoare_then [OF writes(2) hoare_return])
  have tried: "hoare P (st_try (query f)) (\<lambda>_. P) P" for f :: "nat \<Rightarrow> (string, 'x) result"
    by (rule hoare_try, rule query_hoare) (simp_all add: query_keeps)
  show ?thesis
    unfolding reconcile_live_def Let_def
    by (rule hoare_get_pre, rule hoare_bind [OF tried], rule hoare_sum [OF failed], rule hoare_bind [OF tried],
        rule hoare_sum [OF failed apply_all])
qed

lemma repeated:
  assumes "P w"
  shows "P (snd (st_fold (\<lambda>events _. st_try (reconcile_live env run_id events)) batches r w))"
proof -
  have "hoare P (st_try (reconcile_live env run_id events)) (\<lambda>_. P) P" for events
    by (rule hoare_try, rule hoare_post [OF live]) simp_all
  then have "hoare P (st_fold (\<lambda>events _. st_try (reconcile_live env run_id events)) batches r) (\<lambda>_. P) P"
    by (intro hoare_fold)
  from hoare_any [OF this assms] show ?thesis by simp
qed

end

section \<open>Fills are stored once\<close>

text \<open>Every fill stored was stored once, and its key is taken.\<close>

definition fills_once :: "world \<Rightarrow> bool" where
  "fills_once w \<longleftrightarrow> distinct (fill_ids (w_ops w)) \<and> (\<forall>f \<in> set (fill_ids (w_ops w)). ''fill:'' @ f \<in> set (w_keys w))"

lemma once_commit:
  assumes "fill_ids [op] = []" "\<And>w. w_ops (eff w) = w_ops w" "\<And>w. set (w_keys w) \<subseteq> set (w_keys (eff w))"
  shows "hoare fills_once (commit env op eff) (\<lambda>_. fills_once) fills_once"
proof (rule commit_hoare)
  fix w assume "fills_once w"
  then show "fills_once (tick w)" by (simp add: fills_once_def tick_def)
  have "set (w_keys w) \<subseteq> set (w_keys (eff (tick w\<lparr>w_ops := w_ops w @ [op]\<rparr>)))"
    using assms(3) [of "tick w\<lparr>w_ops := w_ops w @ [op]\<rparr>"] by (simp add: tick_def)
  with \<open>fills_once w\<close> show "fills_once (eff (tick w\<lparr>w_ops := w_ops w @ [op]\<rparr>))"
    and "fills_once (eff (tick w\<lparr>w_ops := w_ops w @ [op]\<rparr>))"
    using assms(1,2) by (auto simp: fills_once_def fill_ids_append)
qed

text \<open>The key of a fill: after it was taken afresh, the fill itself is not stored yet.\<close>

definition fill_pending :: "string \<Rightarrow> world \<Rightarrow> bool" where
  "fill_pending f w \<longleftrightarrow> fills_once w \<and> ''fill:'' @ f \<in> set (w_keys w) \<and> f \<notin> set (fill_ids (w_ops w))"

lemma fresh_key: "hoare fills_once (try_record_idempotency_key env (''fill:'' @ f))
    (\<lambda>fresh w. fills_once w \<and> (fresh \<longrightarrow> fill_pending f w)) fills_once"
  unfolding try_record_idempotency_key_def hoare_def commit_def st_get_def st_then_def st_bind_def st_return_def tick_def
  by (auto simp: fills_once_def fill_pending_def fill_ids_append Let_def split: answer.split)

lemma pending_commit:
  assumes "fill_ids [op] = []"
  shows "hoare (fill_pending f) (commit env op (\<lambda>w. w)) (\<lambda>_. fill_pending f) fills_once"
  by (rule commit_hoare) (use assms in \<open>auto simp: fill_pending_def fills_once_def tick_def fill_ids_append\<close>)

lemma pending_order: "hoare (fill_pending f) (upsert_order_by_exchange_id env i e c n sd p q st ts rj raw) (\<lambda>_. fill_pending f) fills_once"
  unfolding upsert_order_by_exchange_id_def upsert_order_by_exchange_id_with_meta_def
  by (intro hoare_get_pre hoare_then [OF pending_commit] hoare_return) simp_all

lemma pending_query: "hoare (fill_pending f) (query g) (\<lambda>_. fill_pending f) fills_once"
  by (rule query_hoare) (simp_all add: fill_pending_def fills_once_def tick_def)

lemma pending_upsert: "hoare (fill_pending f) (upsert_fill_by_exchange_fill_id env i f p q fee ts raw) (\<lambda>_. fills_once) fills_once"
  unfolding upsert_fill_by_exchange_fill_id_def
  by (rule commit_hoare) (auto simp: fill_pending_def fills_once_def tick_def fill_ids_append)

lemma apply_fill_once: "hoare fills_once (apply_fill env trade_id fill acc) (\<lambda>_. fills_once) fills_once"
proof -
  obtain a d s where acc: "acc = (a, d, s)" by (cases acc)
  have find: "hoare (fill_pending f) (st_bind (query g) (\<lambda>found. case found of Some order_id \<Rightarrow> st_return order_id
      | None \<Rightarrow> upsert_order_by_exchange_id env i e c n sd p q st ts rj raw)) (\<lambda>_. fill_pending f) fills_once"
    for f g i e c n sd p q st ts rj raw
  proof (rule hoare_bind [OF pending_query])
    fix found
    show "hoare (fill_pending f) (case found of Some order_id \<Rightarrow> st_return order_id
      | None \<Rightarrow> upsert_order_by_exchange_id env i e c n sd p q st ts rj raw) (\<lambda>_. fill_pending f) fills_once"
      by (cases found) (simp_all add: pending_order hoare_return)
  qed
  have rest: "hoare (\<lambda>w. fills_once w \<and> (fresh \<longrightarrow> fill_pending (fi_fill_id fill) w))
      (if \<not> fresh then st_return x else st_bind (st_bind (query g) (\<lambda>found. case found of Some order_id \<Rightarrow> st_return order_id
          | None \<Rightarrow> upsert_order_by_exchange_id env i e c n sd p q st ts rj raw))
        (\<lambda>k. st_then (upsert_fill_by_exchange_fill_id env k (fi_fill_id fill) fp fq fee fts fraw) (st_return y)))
      (\<lambda>_. fills_once) fills_once" for fresh x y g i e c n sd p q st ts rj raw fp fq fee fts fraw
    by (cases fresh) (auto intro!: hoare_return hoare_pre [OF hoare_bind [OF find hoare_then [OF pending_upsert hoare_return]]])
  show ?thesis
    unfolding acc apply_fill_def fill_key_def prod.case
    by (intro hoare_if hoare_return hoare_bind [OF fresh_key rest])
qed

interpretation once: reconcile_invariant env fills_once for env :: "'j run_env"
  by unfold_locales (rule once_commit apply_fill_once; simp | simp add: fills_once_def tick_def set_state_def)+

section \<open>A fill that is lost\<close>

text \<open>The key of a fill is taken before the fill is stored, in separate writes. When the store refuses the
  fill, its key is taken and the fill is not there.\<close>

definition fill_lost :: "string \<Rightarrow> world \<Rightarrow> bool" where
  "fill_lost f w \<longleftrightarrow> ''fill:'' @ f \<in> set (w_keys w) \<and> f \<notin> set (fill_ids (w_ops w))"

lemma lost_commit:
  assumes "f \<notin> set (fill_ids [op])" "\<And>w. w_ops (eff w) = w_ops w" "\<And>w. set (w_keys w) \<subseteq> set (w_keys (eff w))"
  shows "hoare (fill_lost f) (commit env op eff) (\<lambda>_. fill_lost f) (fill_lost f)"
proof (rule commit_hoare)
  fix w assume "fill_lost f w"
  then show "fill_lost f (tick w)" by (simp add: fill_lost_def tick_def)
  have "set (w_keys w) \<subseteq> set (w_keys (eff (tick w\<lparr>w_ops := w_ops w @ [op]\<rparr>)))"
    using assms(3) [of "tick w\<lparr>w_ops := w_ops w @ [op]\<rparr>"] by (simp add: tick_def)
  with \<open>fill_lost f w\<close> show "fill_lost f (eff (tick w\<lparr>w_ops := w_ops w @ [op]\<rparr>))"
    and "fill_lost f (eff (tick w\<lparr>w_ops := w_ops w @ [op]\<rparr>))"
    using assms(1,2) by (auto simp: fill_lost_def fill_ids_append)
qed

lemma lost_key: "hoare (fill_lost f) (try_record_idempotency_key env (''fill:'' @ g))
    (\<lambda>fresh w. fill_lost f w \<and> (fresh \<longrightarrow> g \<noteq> f)) (fill_lost f)"
  unfolding try_record_idempotency_key_def hoare_def commit_def st_get_def st_then_def st_bind_def st_return_def tick_def
  by (auto simp: fill_lost_def fill_ids_append Let_def split: answer.split)

lemma lost_query: "hoare (fill_lost f) (query g) (\<lambda>_. fill_lost f) (fill_lost f)"
  by (rule query_hoare) (simp_all add: fill_lost_def tick_def)

lemma apply_fill_lost: "hoare (fill_lost f) (apply_fill env i fill acc) (\<lambda>_. fill_lost f) (fill_lost f)"
proof -
  have order: "hoare (fill_lost f) (upsert_order_by_exchange_id env j e c n sd p q st ts rj raw) (\<lambda>_. fill_lost f) (fill_lost f)"
    for j e c n sd p q st ts rj raw
    unfolding upsert_order_by_exchange_id_def upsert_order_by_exchange_id_with_meta_def
    by (auto intro!: hoare_get_pre hoare_then [OF lost_commit] hoare_return)
  have store: "hoare (fill_lost f) (upsert_fill_by_exchange_fill_id env k g p q fee ts raw) (\<lambda>_. fill_lost f) (fill_lost f)"
    if "g \<noteq> f" for k g p q fee ts raw
    unfolding upsert_fill_by_exchange_fill_id_def by (rule lost_commit) (use that in simp_all)
  have find: "hoare (fill_lost f) (st_bind (query g) (\<lambda>found. case found of Some order_id \<Rightarrow> st_return order_id
      | None \<Rightarrow> upsert_order_by_exchange_id env i e c n sd p q st ts rj raw)) (\<lambda>_. fill_lost f) (fill_lost f)"
    for g i e c n sd p q st ts rj raw
    by (rule hoare_bind [OF lost_query], rule hoare_option [OF order hoare_return])
  have rest: "hoare (\<lambda>w. fill_lost f w \<and> (fresh \<longrightarrow> fi_fill_id fill \<noteq> f))
      (if \<not> fresh then st_return x else st_bind (st_bind (query g) (\<lambda>found. case found of Some order_id \<Rightarrow> st_return order_id
          | None \<Rightarrow> upsert_order_by_exchange_id env i e c n sd p q st ts rj raw))
        (\<lambda>k. st_then (upsert_fill_by_exchange_fill_id env k (fi_fill_id fill) fp fq fee fts fraw) (st_return y)))
      (\<lambda>_. fill_lost f) (fill_lost f)" for fresh x y g i e c n sd p q st ts rj raw fp fq fee fts fraw
    by (rule hoare_conj_pure, cases fresh)
      (auto intro!: hoare_return hoare_bind [OF find] hoare_then [OF store])
  obtain a d s where acc: "acc = (a, d, s)" by (cases acc)
  show ?thesis
    unfolding acc apply_fill_def fill_key_def prod.case
    by (intro hoare_if hoare_return hoare_bind [OF lost_key rest])
qed

interpretation lost: reconcile_invariant env "fill_lost f" for env :: "'j run_env" and f
  by unfold_locales (rule lost_commit apply_fill_lost; simp | simp add: fill_lost_def tick_def set_state_def)+

section \<open>The counts of a pass over fills\<close>

definition usable_fill :: "fill_info \<Rightarrow> bool" where
  "usable_fill fill \<longleftrightarrow> fi_fill_id fill \<noteq> [] \<and> fi_order_id fill \<noteq> []"

text \<open>After the fills \<open>done\<close>: the counts add up, as many fills were stored as were applied, the keys of the
  usable ones are taken, and when they were all taken before none was applied.\<close>

definition accounted :: "string list \<Rightarrow> string list \<Rightarrow> fill_info list \<Rightarrow> nat \<times> nat \<times> nat \<Rightarrow> world \<Rightarrow> bool" where
  "accounted base keys fills counts w \<longleftrightarrow> (case counts of (a, d, s) \<Rightarrow>
     a + d + s = length fills \<and> s = length (filter (\<lambda>f. \<not> usable_fill f) fills) \<and>
     (\<exists>new. fill_ids (w_ops w) = base @ new \<and> length new = a) \<and>
     (\<forall>k \<in> set keys. k \<in> set (w_keys w)) \<and> (\<forall>f \<in> set fills. usable_fill f \<longrightarrow> fill_key f \<in> set (w_keys w)) \<and>
     ((\<forall>f \<in> set fills. usable_fill f \<longrightarrow> fill_key f \<in> set keys) \<longrightarrow> a = 0))"

lemma commit_run: "commit env op eff w = (Inr u, w') \<longleftrightarrow>
   env_answer env (w_calls w) = Done \<and> w' = eff (tick w\<lparr>w_ops := w_ops w @ [op]\<rparr>)"
  by (auto simp: commit_def Let_def split: answer.splits)

lemma query_run: "query f w = (Inr x, w') \<longleftrightarrow> f (w_calls w) = Inr x \<and> w' = tick w"
  by (auto simp: query_def)

lemma key_run: "try_record_idempotency_key env key w = (Inr fresh, w') \<longleftrightarrow>
   env_answer env (w_calls w) = Done \<and> fresh = (key \<notin> set (w_keys w)) \<and>
   w' = (tick w\<lparr>w_ops := w_ops w @ [IdempotencyKey key]\<rparr>)\<lparr>w_keys := List.insert key (w_keys w)\<rparr>"
  by (auto simp: try_record_idempotency_key_def st_get_def st_then_Inr commit_run tick_def)

lemma order_run: "upsert_order_by_exchange_id env i e c n sd p q st ts rj raw w = (Inr k, w') \<Longrightarrow>
   fill_ids (w_ops w') = fill_ids (w_ops w) \<and> w_keys w' = w_keys w"
  by (auto simp: upsert_order_by_exchange_id_def upsert_order_by_exchange_id_with_meta_def st_get_def st_then_Inr commit_run tick_def fill_ids_append)

lemma apply_fill_accounted:
  assumes "accounted base keys fills acc w" "apply_fill env i fill acc w = (Inr acc', w')"
  shows "accounted base keys (fills @ [fill]) acc' w'"
proof -
  obtain a d s where acc: "acc = (a, d, s)" by (cases acc)
  show ?thesis
  proof (cases "usable_fill fill")
    case False
    with assms show ?thesis
      by (auto simp: acc apply_fill_def accounted_def usable_fill_def)
  next
    case True
    then have r: "st_bind (try_record_idempotency_key env (fill_key fill)) (\<lambda>fresh.
       if \<not> fresh then st_return (a, d + 1, s)
       else st_bind (st_bind (query (q_internal_order_id env (fi_order_id fill))) (\<lambda>found.
           case found of Some order_id \<Rightarrow> st_return order_id
           | None \<Rightarrow> upsert_order_by_exchange_id env i (fi_order_id fill) None ''reconcile'' ''unknown''
               (fi_price fill) (fi_size fill) ''filled'' (fi_ts fill) None
               [(''from_fill'', EvBool True), (''exchange_order_id'', EvStr (fi_order_id fill)),
                (''trade_id'', EvId i)]))
         (\<lambda>internal_order_id.
           st_then (upsert_fill_by_exchange_fill_id env internal_order_id (fi_fill_id fill) (fi_price fill)
               (fi_size fill) (unwrap_or 0 (fi_fee fill)) (fi_ts fill)
               [(''fill_id'', EvStr (fi_fill_id fill)), (''order_id'', EvStr (fi_order_id fill)),
                (''price'', EvNum (fi_price fill)), (''size'', EvNum (fi_size fill)),
                (''fee'', EvOptNum (fi_fee fill)), (''timestamp'', EvOptId (fi_ts fill))])
             (st_return (a + 1, d, s)))) w = (Inr acc', w')"
      using assms(2) by (simp add: acc apply_fill_def usable_fill_def)
    show ?thesis
    proof (cases "fill_key fill \<in> set (w_keys w)")
      case dup: True
      with r assms(1) True show ?thesis
        by (auto simp: acc st_bind_Inr key_run accounted_def tick_def fill_ids_append)
    next
      case fresh: False
      with assms(1) acc True have k: "fill_key fill \<notin> set keys" by (auto simp: accounted_def)
      from r fresh True assms(1) k show ?thesis
        by (auto simp: acc st_bind_Inr st_then_Inr key_run query_run commit_run upsert_fill_by_exchange_fill_id_def
            accounted_def tick_def fill_ids_append split: option.splits dest!: order_run)
    qed
  qed
qed

lemma apply_fills_accounted:
  assumes "apply_fill_reconcile env i fills w = (Inr counts, w')"
  shows "accounted (fill_ids (w_ops w)) (w_keys w) fills counts w'"
proof -
  have step: "hoare (accounted b ks ys acc) (apply_fill env i f acc) (accounted b ks (ys @ [f])) (\<lambda>_. True)" for b ks ys acc f
    by (rule hoareI) (auto split: prod.split sum.split dest: apply_fill_accounted)
  have "hoare (accounted (fill_ids (w_ops w)) (w_keys w) [] (0, 0, 0)) (apply_fill_reconcile env i fills)
     (accounted (fill_ids (w_ops w)) (w_keys w) fills) (\<lambda>_. True)"
    using hoare_fold_list [where I = "accounted (fill_ids (w_ops w)) (w_keys w)" and zs = "[]", OF step]
    unfolding apply_fill_reconcile_def by simp
  from hoareD(1) [OF this _ assms] show ?thesis by (simp add: accounted_def)
qed

section \<open>Halting\<close>

definition asked :: "trade_runtime \<Rightarrow> string list \<Rightarrow> world \<Rightarrow> bool" where
  "asked trade ids w \<longleftrightarrow> w_trade w = trade \<and> w_cancels w = ids"

lemma asked_commit: "(\<And>w. w_trade (eff w) = w_trade w \<and> w_cancels (eff w) = w_cancels w) \<Longrightarrow>
    hoare (asked trade ids) (commit env op eff) (\<lambda>_. asked trade ids) (\<lambda>_. True)"
  by (rule commit_hoare) (simp_all add: asked_def tick_def)

lemma asked_query: "hoare (asked trade ids) (query f) (\<lambda>_. asked trade ids) (\<lambda>_. True)"
  by (rule query_hoare) (simp_all add: asked_def tick_def)

lemma asked_writes:
  "hoare (asked trade ids) (record_risk_event env i y d x) (\<lambda>_. asked trade ids) (\<lambda>_. True)"
  "hoare (asked trade ids) (record_reconcile_run env r m st ds) (\<lambda>_. asked trade ids) (\<lambda>_. True)"
  "hoare (asked trade ids) (record_reconcile_error env r m e) (\<lambda>_. asked trade ids) (\<lambda>_. True)"
  "hoare (asked trade ids) (mark_order_status env e st) (\<lambda>_. asked trade ids) (\<lambda>_. True)"
  unfolding record_risk_event_def record_reconcile_run_def record_reconcile_error_def mark_order_status_def
  by (rule asked_commit; simp)+

lemma halt_cancel_asks:
  "hoare (asked trade ids) (halt_cancel env run_id tr x acc) (\<lambda>_. asked trade (ids @ [x])) (\<lambda>_. True)"
proof -
  have ack: "hoare (asked trade ids) (st_try (cancel_on_exchange env x)) (\<lambda>_. asked trade (ids @ [x])) (\<lambda>_. True)"
    by (rule hoareI) (auto simp: st_try_def cancel_on_exchange_def st_then_def st_bind_def st_modify_def query_def
      asked_def tick_def split: sum.split)
  show ?thesis
    unfolding halt_cancel_def
    by (cases acc) (auto intro!: hoare_bind [OF ack] hoare_sum hoare_then [OF asked_writes(4)]
      hoare_then [OF asked_writes(1)] hoare_then [OF asked_writes(3)] hoare_return)
qed

definition listed_on_exchange :: "order_info list \<Rightarrow> string list" where
  "listed_on_exchange orders = btree_set (filter (\<lambda>id. id \<noteq> []) (map oi_order_id orders))"

text \<open>The candidates of a halt, when the exchange and the database answer at once.\<close>

lemma halt_candidates_listed:
  assumes "\<And>n. ex_list_open env (t_market_slug tr) n = Inr orders" "listed_on_exchange orders \<noteq> []"
  shows "hoare (asked trade ids) (halt_candidates env run_id tr)
    (\<lambda>c w. asked trade ids w \<and> c = listed_on_exchange orders) (\<lambda>_. True)"
proof -
  have "hoare (asked trade ids) (st_try (query (ex_list_open env (t_market_slug tr))))
      (\<lambda>listed w. asked trade ids w \<and> listed = Inr orders) (\<lambda>_. True)"
    by (rule hoareI) (auto simp: st_try_def query_def asked_def tick_def assms(1))
  note l = this
  show ?thesis
    unfolding halt_candidates_def Let_def
    by (rule hoare_bind [OF asked_query], rule hoare_bind [OF l], rule hoare_conj_pure)
      (use assms(2) in \<open>auto simp: listed_on_exchange_def intro!: hoare_return\<close>)
qed

lemma enforce_asks:
  assumes "\<And>n. ex_list_open env (t_market_slug tr) n = Inr orders" "listed_on_exchange orders \<noteq> []"
  shows "hoare (asked trade []) (enforce_halt_open_order_safety env run_id tr)
    (\<lambda>_. asked trade (listed_on_exchange orders)) (\<lambda>_. True)"
proof -
  note fold = hoare_fold_list [where I = "\<lambda>ids _. asked trade ids" and zs = "[]", OF halt_cancel_asks, simplified]
  show ?thesis
    unfolding enforce_halt_open_order_safety_def split_def
    by (rule hoare_bind [OF halt_candidates_listed [OF assms]], rule hoare_conj_pure)
      (simp add: hoare_bind [OF fold asked_writes(2)])
qed

lemma halt_state: "hoare (asked trade ids) (transition env Halted why)
    (\<lambda>_ w. w_cancels w = ids \<and> w_db_state w = Halted \<and> t_state (w_trade w) = Halted) (\<lambda>_. True)"
  unfolding transition_def transition_trade_state_def record_risk_event_def hoare_def
  by (auto simp: st_get_def st_then_def st_bind_def st_modify_def commit_def asked_def set_state_def tick_def can_transition_def
      Let_def split: answer.splits)

section \<open>Properties\<close>

text \<open>C14: a fill is stored at most once. Whatever a sequence of reconciliations sees (the same fills over
  and over, user events, errors of the exchange) and wherever the database refuses or loses an
  answer, no fill id is ever stored twice, and every stored fill has its idempotency key.\<close>

theorem fills_stored_at_most_once:
  assumes "fills_once w"
  shows "fills_once (snd (st_fold (\<lambda>events _. st_try (reconcile_live env run_id events)) batches r w))"
  by (rule once.repeated [OF assms])

theorem fills_stored_at_most_once_witness:
  "fills_once (snd (st_fold (\<lambda>events _. st_try (reconcile_live stormy_env 1 events)) [[], []] (Inr ReconcileOk)
     (world_of sample_trade)))"
  by (rule fills_stored_at_most_once) (simp add: fills_once_def world_of_def)

text \<open>Every fill of a pass is accounted for. When a pass over the fills succeeds, the three counts add
  up to the number of fills, the skipped ones are those without an id, and as many fills were
  stored as were applied; a second pass over the same fills applies none.\<close>

lemma fills_accounted:
  assumes "apply_fill_reconcile env i fills w = (Inr (a, d, s), w')"
    "apply_fill_reconcile env' j fills w' = (Inr (a', d', s'), w'')"
  shows "a + d + s = length fills \<and> s = length (filter (\<lambda>f. \<not> usable_fill f) fills) \<and>
    length (fill_ids (w_ops w')) = length (fill_ids (w_ops w)) + a \<and>
    a' = 0 \<and> d' = a + d \<and> s' = s \<and> fill_ids (w_ops w'') = fill_ids (w_ops w')"
  using apply_fills_accounted [OF assms(1)] apply_fills_accounted [OF assms(2)]
  by (auto simp: accounted_def)

definition sample_fill :: fill_info where
  "sample_fill = \<lparr>fi_fill_id = ''f1'', fi_order_id = ''0x1'', fi_price = Fin 1, fi_size = Fin 2, fi_fee = None, fi_ts = None\<rparr>"

lemmas fill_eval = apply_fill_reconcile_def apply_fill_def try_record_idempotency_key_def st_get_def
  st_then_def st_bind_def commit_def query_def upsert_order_by_exchange_id_def upsert_order_by_exchange_id_with_meta_def
  upsert_fill_by_exchange_fill_id_def st_return_def fill_key_def tick_def

theorem fills_accounted_witness:
  "\<exists>w' w''. apply_fill_reconcile calm_env 7 [sample_fill] (world_of sample_trade) = (Inr (1, 0, 0), w') \<and>
    apply_fill_reconcile calm_env 7 [sample_fill] w' = (Inr (0, 1, 0), w'') \<and> fill_ids (w_ops w'') = fill_ids (w_ops w')"
proof -
  define w' where "w' = snd (apply_fill_reconcile calm_env 7 [sample_fill] (world_of sample_trade))"
  have r: "apply_fill_reconcile calm_env 7 [sample_fill] (world_of sample_trade) = (Inr (1, 0, 0), w')"
    by (simp add: w'_def fill_eval sample_fill_def calm_env_def world_of_def)
  have k: "w_keys w' = [''fill:f1'']"
    by (simp add: w'_def fill_eval sample_fill_def calm_env_def world_of_def)
  obtain w'' where r': "apply_fill_reconcile calm_env 7 [sample_fill] w' = (Inr (0, 1, 0), w'')"
    by (simp add: fill_eval sample_fill_def calm_env_def k)
  show ?thesis using fills_accounted [OF r r'] r r' by blast
qed

text \<open>A halt asks the exchange to cancel every open order. When the exchange lists open orders of the
  market and the halt succeeds, the orders it asked to cancel are exactly those listed that have an
  id, each once, whether or not the exchange agrees, and the trade is halted in memory and in the
  database.\<close>

lemma halt_cancels_every_open_order:
  assumes "\<And>n. ex_list_open env (t_market_slug (w_trade w)) n = Inr orders" "listed_on_exchange orders \<noteq> []"
    "w_cancels w = []" "halt_trade env run_id why True w = (Inr (), w')"
  shows "w_cancels w' = listed_on_exchange orders \<and> set (w_cancels w') = set (map oi_order_id orders) - {[]} \<and>
    distinct (w_cancels w') \<and> t_state (w_trade w') = Halted \<and> w_db_state w' = Halted"
proof -
  have "hoare (asked (w_trade w) []) (st_then (enforce_halt_open_order_safety env run_id (w_trade w)) (transition env Halted why))
     (\<lambda>_ w'. w_cancels w' = listed_on_exchange orders \<and> w_db_state w' = Halted \<and> t_state (w_trade w') = Halted) (\<lambda>_. True)"
    by (rule hoare_then [OF enforce_asks [OF assms(1,2)] halt_state])
  moreover have "asked (w_trade w) [] w" using assms(3) by (simp add: asked_def)
  moreover have "st_then (enforce_halt_open_order_safety env run_id (w_trade w)) (transition env Halted why) w = (Inr (), w')"
    using assms(4) by (simp add: halt_trade_def st_get_def)
  ultimately have "w_cancels w' = listed_on_exchange orders \<and> w_db_state w' = Halted \<and> t_state (w_trade w') = Halted"
    by (rule hoareD(1))
  then show ?thesis by (auto simp: listed_on_exchange_def btree_set_def)
qed

definition open_order :: "string \<Rightarrow> order_info" where
  "open_order i = \<lparr>oi_order_id = i, oi_client_order_id = None, oi_status = ''live'', oi_price = None, oi_size = None,
     oi_filled_size = None, oi_associated_trade_ids = []\<rparr>"

theorem halt_cancels_every_open_order_witness:
  "\<exists>w'. halt_trade (calm_env\<lparr>ex_list_open := (\<lambda>_ _. Inr [open_order ''0xa''])\<rparr>) 1 ''risk-halt'' True (world_of sample_trade)
      = (Inr (), w') \<and> set (w_cancels w') = {''0xa''} \<and> w_db_state w' = Halted"
proof -
  define env where "env = calm_env\<lparr>ex_list_open := (\<lambda>_ _. Inr [open_order ''0xa''])\<rparr>"
  have l: "ex_list_open env sl n = Inr [open_order ''0xa'']" for sl n by (simp add: env_def)
  have ne: "listed_on_exchange [open_order ''0xa''] \<noteq> []" by (simp add: listed_on_exchange_def btree_set_def open_order_def)
  have ans: "env_answer env n = Done" and dbq: "q_open_exchange_order_ids env k n = Inr [''0xold'']"
    and ack: "ex_cancel env x n = Inr ()" for n k x by (simp_all add: env_def calm_env_def)
  have c: "\<exists>w'. halt_candidates env 1 tr w = (Inr [''0xa''], w') \<and> w_trade w' = w_trade w" for tr w
    by (simp add: halt_candidates_def st_bind_def st_try_def query_def st_return_def l dbq btree_set_def open_order_def tick_def)
  have d: "\<exists>w'. halt_cancel env 1 tr x (0, 0) w = (Inr (1, 0), w') \<and> w_trade w' = w_trade w" for tr x w
    by (simp add: halt_cancel_def cancel_on_exchange_def st_then_def st_bind_def st_try_def st_return_def st_modify_def
        query_def ack mark_order_status_def record_risk_event_def commit_def ans tick_def)
  have e: "\<exists>w'. enforce_halt_open_order_safety env 1 tr w = (Inr (), w') \<and> w_trade w' = w_trade w" for tr w
  proof -
    obtain w1 where w1: "halt_candidates env 1 tr w = (Inr [''0xa''], w1)" "w_trade w1 = w_trade w" using c by blast
    obtain w2 where w2: "halt_cancel env 1 tr ''0xa'' (0, 0) w1 = (Inr (1, 0), w2)" "w_trade w2 = w_trade w1" using d by blast
    show ?thesis
      by (simp add: enforce_halt_open_order_safety_def st_bind_def w1 w2 st_return_def record_reconcile_run_def
          commit_def ans tick_def)
  qed
  obtain w' where h: "halt_trade env 1 ''risk-halt'' True (world_of sample_trade) = (Inr (), w')"
    using e [of "w_trade (world_of sample_trade)" "world_of sample_trade"]
    by (auto simp: halt_trade_def st_get_def st_then_def st_bind_def transition_def transition_trade_state_def
        record_risk_event_def commit_def ans tick_def can_transition_def st_modify_def)
  have "w_cancels (world_of sample_trade) = []" by (simp add: world_of_def)
  note halted = halt_cancels_every_open_order [OF l ne this h]
  have "set (map oi_order_id [open_order ''0xa'']) - {[]} = {''0xa''}" by (simp add: open_order_def)
  with halted have "set (w_cancels w') = {''0xa''}" by blast
  with halted h show ?thesis unfolding env_def by blast
qed

text \<open>C38: a fill whose store fails once is lost. When the idempotency key of a fill is taken and the fill is
  not stored, which is what a refused write of the fill leaves behind, no later reconciliation stores
  it, whatever it sees and however the database answers.\<close>

theorem refused_fill_stays_lost:
  assumes "fill_lost f w"
  shows "fill_lost f (snd (st_fold (\<lambda>events _. st_try (reconcile_live env run_id events)) batches r w))"
  by (rule lost.repeated [OF assms])

theorem refused_fill_stays_lost_witness:
  "fst (apply_fill_reconcile (calm_env\<lparr>env_answer := (\<lambda>n. if n = 3 then Refused ''timeout'' else Done)\<rparr>) 7 [sample_fill]
     (world_of sample_trade)) = Inl ''timeout'' \<and>
   fill_lost ''f1'' (snd (st_fold (\<lambda>events _. st_try (reconcile_live calm_env 1 events)) [[], []] (Inr ReconcileOk)
     (snd (apply_fill_reconcile (calm_env\<lparr>env_answer := (\<lambda>n. if n = 3 then Refused ''timeout'' else Done)\<rparr>) 7 [sample_fill]
       (world_of sample_trade)))))"
  by (rule conjI [OF _ refused_fill_stays_lost])
    (simp_all add: fill_lost_def fill_eval sample_fill_def calm_env_def world_of_def)

end
