(* ===== verification/Dual_Runtime.thy ===== *)
theory Dual_Runtime
  imports Trade_Runtime
begin

text \<open>
  The two-sided runtime of \<open>bot-runner/src/lib_parts\<close>: a basket of a yes leg and a no leg, bought in
  levels and sold when a leg takes profit, when the basket has to be flattened, or before the market
  closes. \<open>part_009.rs\<close> has the legs and the helpers, \<open>part_007.rs\<close> the paper loop, \<open>part_008.rs\<close>
  the live loop. The state is the database of \<open>Repository\<close> with the memory of the loop: the basket,
  what it knows of its own orders, the fills it has seen, and the orders it asked the exchange to
  place. Times are nanoseconds.
\<close>

section \<open>The state\<close>

record dual_leg_runtime =
  dl_side :: leg_side
  dl_token_id :: string
  dl_qty :: f64
  dl_avg_entry :: f64
  dl_levels_filled :: u32
  dl_last_fill_price :: "f64 option"
  dl_last_dca_at :: "int option"

record dual_basket_runtime =
  b_trade_id :: i64
  b_user_id :: "i64 option"
  b_market_slug :: string
  b_maker_base_fee :: u64
  b_state :: trade_state
  b_yes_leg :: dual_leg_runtime
  b_no_leg :: dual_leg_runtime
  b_cycle_ends_at :: int

record order_meta =
  om_leg_side :: leg_side
  om_side :: string
  om_intent :: string

text \<open>The map of the orders' metadata is the list of its insertions, the last first.\<close>

record dual_world = db +
  d_basket :: dual_basket_runtime
  d_order_meta :: "(string \<times> order_meta) list"
  d_seen_fill_ids :: "string list"
  d_seen_buy_fill_order_ids :: "string list"
  d_last_yes_price :: "f64 option"
  d_placed :: "place_order_request list"

type_synonym 'a dual_step = "(dual_world, string, 'a) stm"

text \<open>The trait \<open>DualSideStrategy\<close> of \<open>bot-core\<close> and its implementation.\<close>

record dual_strategy =
  ds_should_dca_leg :: "f64 \<Rightarrow> f64 option \<Rightarrow> f64 \<Rightarrow> u32 \<Rightarrow> u32 \<Rightarrow> bool"
  ds_leg_take_profit_price :: "f64 \<Rightarrow> f64 \<Rightarrow> f64"
  ds_should_flatten_basket :: "f64 \<Rightarrow> f64 \<Rightarrow> f64 \<Rightarrow> bool"

definition symmetric_dual_dca_strategy :: dual_strategy where
  "symmetric_dual_dca_strategy = \<lparr>ds_should_dca_leg = should_dca_leg,
     ds_leg_take_profit_price = leg_take_profit_price, ds_should_flatten_basket = should_flatten_basket\<rparr>"

definition default_drop_sell_pct :: f64 where "default_drop_sell_pct = lit 15"
definition pressure_drop_pct_threshold :: f64 where "pressure_drop_pct_threshold = lit (15/10)"

section \<open>Legs\<close>

definition basket_leg :: "dual_basket_runtime \<Rightarrow> leg_side \<Rightarrow> dual_leg_runtime" where
  "basket_leg basket leg = (case leg of Yes \<Rightarrow> b_yes_leg basket | No \<Rightarrow> b_no_leg basket)"

text \<open>The mutable reference \<open>dual_leg_mut\<close> gives, as the change made through it.\<close>

definition dual_leg_mut :: "leg_side \<Rightarrow> (dual_leg_runtime \<Rightarrow> dual_leg_runtime) \<Rightarrow> dual_basket_runtime \<Rightarrow> dual_basket_runtime" where
  "dual_leg_mut leg change basket = (case leg of
     Yes \<Rightarrow> basket\<lparr>b_yes_leg := change (b_yes_leg basket)\<rparr>
   | No \<Rightarrow> basket\<lparr>b_no_leg := change (b_no_leg basket)\<rparr>)"

definition leg_side_label :: "leg_side \<Rightarrow> string" where
  "leg_side_label leg = (case leg of Yes \<Rightarrow> ''yes'' | No \<Rightarrow> ''no'')"

definition apply_fill_to_leg :: "dual_leg_runtime \<Rightarrow> string \<Rightarrow> f64 \<Rightarrow> f64 \<Rightarrow> bool \<Rightarrow> dual_leg_runtime" where
  "apply_fill_to_leg leg side price qty increment_level =
    (let filled =
       (if side = ''buy''
        then let prev_qty = dl_qty leg; new_qty = prev_qty + qty
          in leg\<lparr>dl_avg_entry := (if 0 < new_qty then ((dl_avg_entry leg * prev_qty) + (price * qty)) / new_qty
                                  else dl_avg_entry leg),
                 dl_qty := new_qty,
                 dl_levels_filled := (if increment_level then sat_add_u32 (dl_levels_filled leg) 1 else dl_levels_filled leg)\<rparr>
        else let new_qty = fmax (dl_qty leg - qty) 0
          in leg\<lparr>dl_qty := new_qty, dl_avg_entry := (if new_qty \<le> 0 then 0 else dl_avg_entry leg)\<rparr>)
     in filled\<lparr>dl_last_fill_price := Some price\<rparr>)"

definition basket_unrealized_pnl :: "dual_basket_runtime \<Rightarrow> f64 \<Rightarrow> f64 \<Rightarrow> f64" where
  "basket_unrealized_pnl basket yes_price no_price =
    (let yes = (yes_price - dl_avg_entry (b_yes_leg basket)) * dl_qty (b_yes_leg basket);
         no = (no_price - dl_avg_entry (b_no_leg basket)) * dl_qty (b_no_leg basket)
     in yes + no)"

definition should_leg_take_profit :: "dual_strategy \<Rightarrow> dual_leg_runtime \<Rightarrow> f64 \<Rightarrow> f64 \<Rightarrow> bool" where
  "should_leg_take_profit strat leg current_price leg_tp_pct =
    (if dl_qty leg \<le> 0 \<or> dl_avg_entry leg \<le> 0 then False
     else ds_leg_take_profit_price strat (dl_avg_entry leg) leg_tp_pct \<le> current_price)"

text \<open>\<open>num_seconds\<close> truncates towards zero; the configured interval is cast to a signed integer.\<close>

definition can_dca_now :: "dual_leg_runtime \<Rightarrow> app_config \<Rightarrow> int \<Rightarrow> bool" where
  "can_dca_now leg cfg now = (case dl_last_dca_at leg of
     None \<Rightarrow> True
   | Some last_dca_at \<Rightarrow> sint (s_dca_interval_sec (cfg_strategy cfg)) \<le> rust_div (now - last_dca_at) 1000000000)"

definition calc_level_size :: "f64 \<Rightarrow> f64 \<Rightarrow> f64" where
  "calc_level_size level_notional price =
    (if price \<le> 0 then 0 else fround ((level_notional / price) * lit 100) / lit 100)"

definition compute_pressure_score :: "f64 option \<Rightarrow> f64 \<Rightarrow> f64 \<times> f64 \<times> f64 \<times> bool" where
  "compute_pressure_score previous_yes_price yes_price = (case previous_yes_price of
     None \<Rightarrow> (0, 0, 0, False)
   | Some prev_yes \<Rightarrow>
       if prev_yes \<le> 0 then (0, 0, 0, False)
       else let drop_pct = fmax ((prev_yes - yes_price) / prev_yes * lit 100) 0;
                sell_ratio = (if yes_price < prev_yes then 1 else 0);
                score = drop_pct + (sell_ratio * lit (1/2))
            in (score, drop_pct, sell_ratio, pressure_drop_pct_threshold \<le> drop_pct))"

definition price_dropped_below_threshold :: "f64 \<Rightarrow> f64 \<Rightarrow> f64 \<Rightarrow> bool" where
  "price_dropped_below_threshold reference_price current_price drop_sell_pct =
    (if reference_price \<le> 0 \<or> drop_sell_pct \<le> 0 then False
     else current_price \<le> reference_price * (1 - (drop_sell_pct / lit 100)))"

text \<open>The exit rule of a leg: the last of its rows, or the default.\<close>

definition leg_exit_rule :: "position_exit_rule list \<Rightarrow> leg_side \<Rightarrow> f64 \<times> bool" where
  "leg_exit_rule rules leg = fold (\<lambda>rule acc. if pe_leg_side rule = leg then (pe_drop_sell_pct rule, pe_enabled rule) else acc)
     rules (default_drop_sell_pct, True)"

definition leg_drop_sells :: "position_exit_rule list \<Rightarrow> dual_basket_runtime \<Rightarrow> leg_side \<Rightarrow> f64 \<Rightarrow> bool" where
  "leg_drop_sells rules basket side current_price =
    (let leg = basket_leg basket side; (drop_pct, enabled) = leg_exit_rule rules side
     in enabled \<and> 0 < dl_qty leg
        \<and> price_dropped_below_threshold (unwrap_or (dl_avg_entry leg) (dl_last_fill_price leg)) current_price drop_pct)"

definition detect_drop_sell_reason :: "'j run_env \<Rightarrow> dual_basket_runtime \<Rightarrow> f64 \<Rightarrow> f64 \<Rightarrow> ('m, string option) dbstep" where
  "detect_drop_sell_reason env basket yes_price no_price =
     st_bind (query (q_position_exit_rules env (b_trade_id basket))) (\<lambda>rules.
       if leg_drop_sells rules basket Yes yes_price then st_return (Some ''drop_sell_yes'')
       else if leg_drop_sells rules basket No no_price then st_return (Some ''drop_sell_no'')
       else st_return None)"

section \<open>The basket\<close>

definition create_dual_runtime :: "'j run_env \<Rightarrow> app_config \<Rightarrow> i64 \<Rightarrow> string \<Rightarrow> string \<Rightarrow> string \<Rightarrow> u64 \<Rightarrow> int \<Rightarrow>
    ('m, dual_basket_runtime) dbstep" where
  "create_dual_runtime env cfg market_id market_slug yes_token_id no_token_id maker_base_fee cycle_ends_at =
     st_bind (create_trade_stub_dual env market_id (s_total_notional_usdc (cfg_strategy cfg)) ''dual_side_dca''
         (s_basket_tp_usdc (cfg_strategy cfg)) (s_basket_sl_usdc (cfg_strategy cfg))) (\<lambda>trade_id.
     st_then (ensure_position_exit_rule_defaults env trade_id default_drop_sell_pct)
       (st_return \<lparr>b_trade_id = trade_id, b_user_id = None, b_market_slug = market_slug,
          b_maker_base_fee = maker_base_fee, b_state = Idle,
          b_yes_leg = \<lparr>dl_side = Yes, dl_token_id = yes_token_id, dl_qty = 0, dl_avg_entry = 0, dl_levels_filled = 0,
            dl_last_fill_price = None, dl_last_dca_at = None\<rparr>,
          b_no_leg = \<lparr>dl_side = No, dl_token_id = no_token_id, dl_qty = 0, dl_avg_entry = 0, dl_levels_filled = 0,
            dl_last_fill_price = None, dl_last_dca_at = None\<rparr>,
          b_cycle_ends_at = cycle_ends_at\<rparr>))"

definition change_leg :: "leg_side \<Rightarrow> (dual_leg_runtime \<Rightarrow> dual_leg_runtime) \<Rightarrow> dual_world \<Rightarrow> dual_world" where
  "change_leg leg change w = w\<lparr>d_basket := dual_leg_mut leg change (d_basket w)\<rparr>"

definition transition_dual :: "'j run_env \<Rightarrow> trade_state \<Rightarrow> string \<Rightarrow> unit dual_step" where
  "transition_dual env to why = st_get (\<lambda>w.
     st_then (transition_trade_state env (b_trade_id (d_basket w)) (b_state (d_basket w)) to why)
       (st_modify (\<lambda>w. w\<lparr>d_basket := (d_basket w)\<lparr>b_state := to\<rparr>\<rparr>)))"

definition basket_to_trade_runtime :: "dual_basket_runtime \<Rightarrow> trade_runtime" where
  "basket_to_trade_runtime basket = \<lparr>t_trade_id = b_trade_id basket, t_user_id = b_user_id basket,
     t_market_slug = b_market_slug basket, t_entry_price = lit (1/2), t_tp_price = lit (1/2),
     t_position_size = dl_qty (b_yes_leg basket) + dl_qty (b_no_leg basket), t_state = b_state basket\<rparr>"

definition persist_leg_snapshots :: "'j run_env \<Rightarrow> unit dual_step" where
  "persist_leg_snapshots env = st_get (\<lambda>w. st_fold (\<lambda>side _.
     let leg = basket_leg (d_basket w) side
     in upsert_leg_position env (b_trade_id (d_basket w)) (dl_side leg) (dl_token_id leg) (dl_qty leg) (dl_avg_entry leg)
          (sint (dl_levels_filled leg)) (dl_last_fill_price leg)) [Yes, No] ())"

definition legs_flat :: "dual_basket_runtime \<Rightarrow> bool" where
  "legs_flat basket \<longleftrightarrow> dl_qty (b_yes_leg basket) \<le> 0 \<and> dl_qty (b_no_leg basket) \<le> 0"

text \<open>Leaving the states a flat basket may leave, and closing the trade.\<close>

definition transition_if_allowed :: "'j run_env \<Rightarrow> trade_state \<Rightarrow> string \<Rightarrow> unit dual_step" where
  "transition_if_allowed env to why = st_get (\<lambda>w.
     if is_ok (can_transition (b_state (d_basket w)) to) then transition_dual env to why else st_return ())"

definition settle_basket :: "'j run_env \<Rightarrow> string \<Rightarrow> string \<Rightarrow> f64 \<Rightarrow> unit dual_step" where
  "settle_basket env exit_why settle_why pnl =
     st_then (transition_if_allowed env ExitFilled exit_why)
    (st_then (transition_if_allowed env Settled settle_why)
       (st_get (\<lambda>w. close_trade env (b_trade_id (d_basket w)) (lit (1/2)) pnl)))"

text \<open>When the basket must be flat: some seconds before the market closes.\<close>

definition force_flatten_due :: "app_config \<Rightarrow> dual_basket_runtime \<Rightarrow> int \<Rightarrow> bool" where
  "force_flatten_due cfg basket now \<longleftrightarrow>
     b_cycle_ends_at basket - sint (s_force_flatten_sec_before_close (cfg_strategy cfg)) * 1000000000 \<le> now"

definition level_notional_of :: "app_config \<Rightarrow> f64" where
  "level_notional_of cfg = s_per_leg_initial_notional_usdc (cfg_strategy cfg)
     / lit (of_nat (unat (s_max_dca_levels_per_leg (cfg_strategy cfg))))"

section \<open>The paper loop\<close>

definition record_paper_leg_fill :: "'j run_env \<Rightarrow> leg_side \<Rightarrow> string \<Rightarrow> string \<Rightarrow> f64 \<Rightarrow> f64 \<Rightarrow> unit dual_step" where
  "record_paper_leg_fill env leg intent side price qty = st_get (\<lambda>w.
     let l = basket_leg (d_basket w) leg
     in if qty \<le> 0 then st_return ()
        else st_bind (append_order_event_with_meta env (b_trade_id (d_basket w)) intent side price qty ''filled''
            (Some (env_uuid env (w_calls w))) (Some (leg_side_label (dl_side l))) (Some (dl_token_id l))) (\<lambda>order_id.
          st_then (append_fill_event env order_id price qty 0)
            (st_modify (change_leg leg (\<lambda>l. apply_fill_to_leg l side price qty True)))))"

definition maybe_paper_dca :: "'j run_env \<Rightarrow> app_config \<Rightarrow> dual_strategy \<Rightarrow> leg_side \<Rightarrow> f64 \<Rightarrow> f64 \<Rightarrow> int \<Rightarrow> unit dual_step" where
  "maybe_paper_dca env cfg strat side current_price level_notional now = st_get (\<lambda>w.
     let leg = basket_leg (d_basket w) side
     in if \<not> can_dca_now leg cfg now then st_return ()
        else if ds_should_dca_leg strat current_price (dl_last_fill_price leg) (s_dca_step_pct (cfg_strategy cfg))
            (dl_levels_filled leg) (s_max_dca_levels_per_leg (cfg_strategy cfg))
        then st_then (record_paper_leg_fill env side ''dca'' ''buy'' current_price (calc_level_size level_notional current_price))
               (st_modify (change_leg side (\<lambda>l. l\<lparr>dl_last_dca_at := Some now\<rparr>)))
        else st_return ())"

definition paper_sell_leg :: "'j run_env \<Rightarrow> leg_side \<Rightarrow> string \<Rightarrow> f64 \<Rightarrow> unit dual_step" where
  "paper_sell_leg env side intent price = st_get (\<lambda>w.
     let held = dl_qty (basket_leg (d_basket w) side)
     in if 0 < held then record_paper_leg_fill env side intent ''sell'' price held else st_return ())"

definition paper_leg_tp :: "'j run_env \<Rightarrow> app_config \<Rightarrow> dual_strategy \<Rightarrow> leg_side \<Rightarrow> f64 \<Rightarrow> unit dual_step" where
  "paper_leg_tp env cfg strat side price = st_get (\<lambda>w.
     if should_leg_take_profit strat (basket_leg (d_basket w) side) price (s_leg_tp_pct (cfg_strategy cfg))
     then paper_sell_leg env side ''leg_tp'' price else st_return ())"

definition paper_dual_trade :: "'j run_env \<Rightarrow> app_config \<Rightarrow> dual_strategy \<Rightarrow> f64 \<Rightarrow> f64 \<Rightarrow> f64 \<Rightarrow> int \<Rightarrow> unit dual_step" where
  "paper_dual_trade env cfg strat yes_price no_price basket_pnl now = st_get (\<lambda>w.
     if force_flatten_due cfg (d_basket w) now
        \<or> ds_should_flatten_basket strat basket_pnl (s_basket_tp_usdc (cfg_strategy cfg)) (s_basket_sl_usdc (cfg_strategy cfg))
     then st_then (if basket_pnl \<le> s_basket_sl_usdc (cfg_strategy cfg) \<and> b_state (d_basket w) = TpPlaced
                   then transition_dual env SlArmed ''paper-basket-sl'' else st_return ())
         (st_then (paper_sell_leg env Yes ''basket_exit'' yes_price)
           (paper_sell_leg env No ''basket_exit'' no_price))
     else st_then (paper_leg_tp env cfg strat Yes yes_price)
         (st_then (paper_leg_tp env cfg strat No no_price)
         (st_then (maybe_paper_dca env cfg strat Yes yes_price (level_notional_of cfg) now)
           (maybe_paper_dca env cfg strat No no_price (level_notional_of cfg) now))))"

definition paper_dual_iteration :: "'j run_env \<Rightarrow> app_config \<Rightarrow> dual_strategy \<Rightarrow> reconcile_result \<times> int \<Rightarrow> bool dual_step" where
  "paper_dual_iteration env cfg strat = (\<lambda>(merged, now). st_get (\<lambda>w.
     let yes_price = clamp_probability (rc_chosen_price merged); no_price = clamp_probability (1 - yes_price)
     in st_bind (risk_gate_dual env cfg None (b_trade_id (d_basket w)) (to_risk_limits cfg) (rc_stale_data_ms merged))
       (\<lambda>d. case d of
          Halt \<Rightarrow> st_then (transition_dual env Halted ''risk-halt'') (st_return True)
        | Block \<Rightarrow> st_return False
        | Allow \<Rightarrow>
           let basket_pnl = basket_unrealized_pnl (d_basket w) yes_price no_price
           in st_then (paper_dual_trade env cfg strat yes_price no_price basket_pnl now)
             (st_then (persist_leg_snapshots env)
             (st_get (\<lambda>w'. if legs_flat (d_basket w')
                then st_then (settle_basket env ''paper-dual-exit-filled'' ''paper-dual-settled'' basket_pnl) (st_return True)
                else st_return False))))))"

primrec paper_dual_iterations :: "'j run_env \<Rightarrow> app_config \<Rightarrow> dual_strategy \<Rightarrow> (reconcile_result \<times> int) list \<Rightarrow> unit dual_step" where
  "paper_dual_iterations env cfg strat [] = st_return ()"
| "paper_dual_iterations env cfg strat (m # ms) = st_bind (paper_dual_iteration env cfg strat m) (\<lambda>over.
     if over then st_return () else paper_dual_iterations env cfg strat ms)"

definition paper_dual_entry :: "'j run_env \<Rightarrow> app_config \<Rightarrow> unit dual_step" where
  "paper_dual_entry env cfg =
    (let start_yes = clamp_probability (s_entry_price (cfg_strategy cfg)); start_no = clamp_probability (1 - start_yes)
     in st_then (transition_dual env WaitingEntry ''paper-dual-cycle-start'')
       (st_then (transition_dual env EntryPlaced ''paper-dual-initial-entry'')
       (st_then (record_paper_leg_fill env Yes ''entry'' ''buy'' start_yes (calc_level_size (level_notional_of cfg) start_yes))
       (st_then (record_paper_leg_fill env No ''entry'' ''buy'' start_no (calc_level_size (level_notional_of cfg) start_no))
       (st_then (transition_dual env EntryFilled ''paper-dual-entry-filled'')
          (transition_dual env TpPlaced ''paper-dual-tp-active''))))))"

text \<open>The loop over the merged prices and times it sees, from the creation of the trade.\<close>

definition run_paper_dual_loop :: "'j run_env \<Rightarrow> app_config \<Rightarrow> i64 \<Rightarrow> string \<Rightarrow> int \<Rightarrow> (reconcile_result \<times> int) list \<Rightarrow> unit dual_step" where
  "run_paper_dual_loop env cfg market_id market_slug cycle_ends_at ms =
     st_bind (create_dual_runtime env cfg market_id market_slug ''paper-yes'' ''paper-no'' 0 cycle_ends_at) (\<lambda>basket.
     st_then (st_modify (\<lambda>w. w\<lparr>d_basket := basket\<rparr>))
    (st_then (paper_dual_entry env cfg)
       (paper_dual_iterations env cfg symmetric_dual_dca_strategy ms)))"

section \<open>The live loop\<close>

definition place_live_leg_order :: "'j run_env \<Rightarrow> leg_side \<Rightarrow> string \<Rightarrow> string \<Rightarrow> f64 \<Rightarrow> f64 \<Rightarrow> unit dual_step" where
  "place_live_leg_order env leg side intent price qty = st_get (\<lambda>w.
     let l = basket_leg (d_basket w) leg;
         client_order_id = env_uuid env (w_calls w);
         req = \<lparr>po_market = b_market_slug (d_basket w), po_token_id = Some (dl_token_id l), po_side = side,
           po_price = price, po_size = qty, po_intent = intent, po_order_type = ''GTC'', po_post_only = False,
           po_client_order_id = client_order_id, po_leg_side = Some (leg_side_label (dl_side l)),
           po_fee_rate_bps = b_maker_base_fee (d_basket w), po_neg_risk = False\<rparr>
     in if qty \<le> 0 then st_return ()
        else st_then (st_modify (\<lambda>w. w\<lparr>d_placed := d_placed w @ [req]\<rparr>))
          (st_bind (query (ex_place env req)) (\<lambda>ack.
           let exchange_order_id = unwrap_or (ak_client_order_id ack) (ak_exchange_order_id ack)
           in st_then (upsert_order_by_exchange_id_with_meta env (b_trade_id (d_basket w)) exchange_order_id
                (Some client_order_id) intent side price qty (ak_status ack) (ak_exchange_ts ack) (ak_reject_reason ack)
                [(''client_order_id'', EvStr (ak_client_order_id ack)),
                 (''exchange_order_id'', EvOptStr (ak_exchange_order_id ack)), (''status'', EvStr (ak_status ack)),
                 (''reject_reason'', EvOptStr (ak_reject_reason ack)), (''raw_status'', EvOptStr (ak_raw_status ack)),
                 (''exchange_ts'', EvOptId (ak_exchange_ts ack)), (''intent'', EvStr intent),
                 (''leg_side'', EvStr (leg_side_label (dl_side l))), (''token_id'', EvStr (dl_token_id l))]
                (Some (leg_side_label (dl_side l))) (Some (dl_token_id l)))
              (st_modify (\<lambda>w. w\<lparr>d_order_meta := (exchange_order_id,
                 \<lparr>om_leg_side = dl_side l, om_side = side, om_intent = intent\<rparr>) # d_order_meta w\<rparr>)))))"

text \<open>One fill of the exchange's list; \<open>HashSet::insert\<close> is true for a new element.\<close>

definition live_dual_fill :: "'j run_env \<Rightarrow> fill_info \<Rightarrow> unit \<Rightarrow> unit dual_step" where
  "live_dual_fill env fill u = st_get (\<lambda>w.
     if fi_fill_id fill = [] \<or> fi_order_id fill = [] then st_return ()
     else if fi_fill_id fill \<in> set (d_seen_fill_ids w) then st_return ()
     else st_then (st_modify (\<lambda>w. w\<lparr>d_seen_fill_ids := List.insert (fi_fill_id fill) (d_seen_fill_ids w)\<rparr>))
       (case map_of (d_order_meta w) (fi_order_id fill) of
          None \<Rightarrow> st_return ()
        | Some meta \<Rightarrow> st_bind (query (q_internal_order_id env (fi_order_id fill))) (\<lambda>found. case found of
            None \<Rightarrow> st_return ()
          | Some order_id \<Rightarrow>
              st_then (upsert_fill_by_exchange_fill_id env order_id (fi_fill_id fill) (fi_price fill) (fi_size fill)
                  (unwrap_or 0 (fi_fee fill)) (fi_ts fill)
                  [(''fill_id'', EvStr (fi_fill_id fill)), (''order_id'', EvStr (fi_order_id fill)),
                   (''price'', EvNum (fi_price fill)), (''size'', EvNum (fi_size fill)), (''fee'', EvOptNum (fi_fee fill)),
                   (''timestamp'', EvOptId (fi_ts fill)), (''leg_side'', EvStr (leg_side_label (om_leg_side meta))),
                   (''intent'', EvStr (om_intent meta))])
                (st_modify (\<lambda>w. change_leg (om_leg_side meta)
                    (\<lambda>leg. apply_fill_to_leg leg (om_side meta) (fi_price fill) (fi_size fill) False)
                  (w\<lparr>d_seen_buy_fill_order_ids := List.insert (fi_order_id fill) (d_seen_buy_fill_order_ids w)\<rparr>))))))"

definition process_live_dual_fills :: "'j run_env \<Rightarrow> unit dual_step" where
  "process_live_dual_fills env = st_bind (query (ex_list_fills env)) (\<lambda>fills. st_fold (live_dual_fill env) fills ())"

definition maybe_live_leg_dca :: "'j run_env \<Rightarrow> app_config \<Rightarrow> dual_strategy \<Rightarrow> leg_side \<Rightarrow> f64 \<Rightarrow> f64 \<Rightarrow> int \<Rightarrow> unit dual_step" where
  "maybe_live_leg_dca env cfg strat side current_price level_notional now = st_get (\<lambda>w.
     let leg = basket_leg (d_basket w) side
     in if \<not> can_dca_now leg cfg now then st_return ()
        else if ds_should_dca_leg strat current_price (dl_last_fill_price leg) (s_dca_step_pct (cfg_strategy cfg))
            (dl_levels_filled leg) (s_max_dca_levels_per_leg (cfg_strategy cfg))
        then st_then (place_live_leg_order env side ''buy'' ''dca'' current_price (calc_level_size level_notional current_price))
               (st_modify (change_leg side (\<lambda>l. l\<lparr>dl_last_dca_at := Some now,
                  dl_levels_filled := sat_add_u32 (dl_levels_filled l) 1, dl_last_fill_price := Some current_price\<rparr>)))
        else st_return ())"

definition live_leg_tp :: "'j run_env \<Rightarrow> app_config \<Rightarrow> dual_strategy \<Rightarrow> leg_side \<Rightarrow> f64 \<Rightarrow> unit dual_step" where
  "live_leg_tp env cfg strat side price = st_get (\<lambda>w.
     let leg = basket_leg (d_basket w) side
     in if should_leg_take_profit strat leg price (s_leg_tp_pct (cfg_strategy cfg))
        then st_bind (try_record_idempotency_key env
            (''trade:'' @ show_i64 (b_trade_id (d_basket w)) @ '':leg_tp:'' @ leg_side_label side @ '':'' @ show_f64_4 env price))
          (\<lambda>fresh. if fresh \<and> 0 < dl_qty leg
             then place_live_leg_order env side ''sell'' ''leg_tp'' price (dl_qty leg) else st_return ())
        else st_return ())"

definition maybe_live_leg_tp :: "'j run_env \<Rightarrow> app_config \<Rightarrow> dual_strategy \<Rightarrow> f64 \<Rightarrow> f64 \<Rightarrow> unit dual_step" where
  "maybe_live_leg_tp env cfg strat yes_price no_price =
     st_then (live_leg_tp env cfg strat Yes yes_price) (live_leg_tp env cfg strat No no_price)"

text \<open>A step whose error is only logged.\<close>

definition or_warn :: "unit dual_step \<Rightarrow> unit dual_step" where
  "or_warn m = st_then (st_try m) (st_return ())"

definition live_exit_leg :: "'j run_env \<Rightarrow> leg_side \<Rightarrow> f64 \<Rightarrow> unit dual_step" where
  "live_exit_leg env side price = st_get (\<lambda>w.
     let held = dl_qty (basket_leg (d_basket w) side)
     in if 0 < held then or_warn (place_live_leg_order env side ''sell'' ''basket_exit'' price held) else st_return ())"

definition flatten_reason :: "string option \<Rightarrow> bool \<Rightarrow> f64 \<Rightarrow> app_config \<Rightarrow> string" where
  "flatten_reason custom_reason force_flatten basket_pnl cfg = (case custom_reason of
     Some why \<Rightarrow> why
   | None \<Rightarrow> if force_flatten then ''force_flatten''
       else if basket_pnl \<le> s_basket_sl_usdc (cfg_strategy cfg) then ''basket_sl'' else ''basket_tp'')"

definition live_flatten :: "'j run_env \<Rightarrow> string \<Rightarrow> f64 \<Rightarrow> f64 \<Rightarrow> unit dual_step" where
  "live_flatten env why yes_price no_price = st_get (\<lambda>w.
     st_bind (try_record_idempotency_key env (''trade:'' @ show_i64 (b_trade_id (d_basket w)) @ '':flatten:'' @ why))
       (\<lambda>fresh. if fresh
          then st_then (if why = ''basket_sl'' \<and> b_state (d_basket w) = TpPlaced
                 then transition_dual env SlArmed ''basket-sl'' else st_return ())
               (st_then (live_exit_leg env Yes yes_price) (live_exit_leg env No no_price))
          else st_return ()))"

definition live_legs :: "'j run_env \<Rightarrow> app_config \<Rightarrow> dual_strategy \<Rightarrow> f64 \<Rightarrow> f64 \<Rightarrow> int \<Rightarrow> unit dual_step" where
  "live_legs env cfg strat yes_price no_price now =
     st_then (or_warn (maybe_live_leg_tp env cfg strat yes_price no_price))
    (st_then (or_warn (maybe_live_leg_dca env cfg strat Yes yes_price (level_notional_of cfg) now))
       (or_warn (maybe_live_leg_dca env cfg strat No no_price (level_notional_of cfg) now)))"

definition live_dual_trade :: "'j run_env \<Rightarrow> app_config \<Rightarrow> dual_strategy \<Rightarrow> f64 \<Rightarrow> f64 \<Rightarrow> int \<Rightarrow> unit dual_step" where
  "live_dual_trade env cfg strat yes_price no_price now = st_get (\<lambda>w.
     let basket_pnl = basket_unrealized_pnl (d_basket w) yes_price no_price;
         force_flatten = force_flatten_due cfg (d_basket w) now
     in case compute_pressure_score (d_last_yes_price w) yes_price of
       (pressure_score, bid_ask_imbalance, sell_ratio, pressure_triggered) \<Rightarrow>
         st_bind (detect_drop_sell_reason env (d_basket w) yes_price no_price) (\<lambda>drop_sell_reason.
         let custom_reason = or_opt drop_sell_reason (if pressure_triggered then Some ''pressure_exit'' else None)
         in st_then (upsert_pressure_snapshot env (b_trade_id (d_basket w)) pressure_score (Some bid_ask_imbalance)
                (Some sell_ratio) (Some yes_price) (Some no_price) custom_reason (custom_reason \<noteq> None))
           (st_then (st_modify (\<lambda>w. w\<lparr>d_last_yes_price := Some yes_price\<rparr>))
              (if force_flatten \<or> ds_should_flatten_basket strat basket_pnl (s_basket_tp_usdc (cfg_strategy cfg))
                    (s_basket_sl_usdc (cfg_strategy cfg)) \<or> custom_reason \<noteq> None
               then live_flatten env (flatten_reason custom_reason force_flatten basket_pnl cfg) yes_price no_price
               else live_legs env cfg strat yes_price no_price now))))"

text \<open>\<open>halt_trade\<close> on a copy of the basket as a trade, whose state is copied back.\<close>

definition halt_basket :: "'j run_env \<Rightarrow> i64 \<Rightarrow> string \<Rightarrow> unit dual_step" where
  "halt_basket env run_id why = st_get (\<lambda>w.
     st_then (enforce_halt_open_order_safety env run_id (basket_to_trade_runtime (d_basket w)))
       (transition_dual env Halted why))"

text \<open>The yes price: the midpoint or, when the exchange does not answer, the last one seen.\<close>

definition live_yes_price :: "'j run_env \<Rightarrow> f64 dual_step" where
  "live_yes_price env = st_get (\<lambda>w.
     st_bind (st_try (query (ex_midpoint env (dl_token_id (b_yes_leg (d_basket w)))))) (\<lambda>answer. st_return (case answer of
         Inr price \<Rightarrow> clamp_probability price
       | Inl _ \<Rightarrow> clamp_probability (unwrap_or (lit (1/2)) (d_last_yes_price w)))))"

text \<open>What closes an iteration that the risk gate allowed.\<close>

definition live_dual_close :: "'j run_env \<Rightarrow> f64 \<Rightarrow> f64 \<Rightarrow> bool dual_step" where
  "live_dual_close env yes_price no_price =
     st_then (or_warn (process_live_dual_fills env))
    (st_then (persist_leg_snapshots env)
    (st_get (\<lambda>w. if legs_flat (d_basket w)
       then st_then (settle_basket env ''live-dual-exit-filled'' ''live-dual-settled''
                (basket_unrealized_pnl (d_basket w) yes_price no_price)) (st_return True)
       else st_return False)))"

definition live_dual_iteration :: "'j run_env \<Rightarrow> app_config \<Rightarrow> i64 \<Rightarrow> dual_strategy \<Rightarrow> 'j ws_event list \<Rightarrow> int \<Rightarrow> bool dual_step" where
  "live_dual_iteration env cfg run_id strat user_ws_events now =
     st_bind (live_yes_price env) (\<lambda>yes_price.
     let no_price = clamp_probability (1 - yes_price)
     in st_then (or_warn (process_live_dual_fills env))
       (st_get (\<lambda>w. st_bind (apply_user_stream_events env (b_trade_id (d_basket w)) user_ws_events) (\<lambda>_.
        st_bind (risk_gate_dual env cfg None (b_trade_id (d_basket w)) (to_risk_limits cfg) 0) (\<lambda>d. case d of
            Halt \<Rightarrow> st_then (halt_basket env run_id ''risk-halt'') (st_return True)
          | Block \<Rightarrow> st_return False
          | Allow \<Rightarrow> st_then (live_dual_trade env cfg strat yes_price no_price now)
              (live_dual_close env yes_price no_price))))))"

primrec live_dual_iterations :: "'j run_env \<Rightarrow> app_config \<Rightarrow> i64 \<Rightarrow> dual_strategy \<Rightarrow> 'j ws_event list \<Rightarrow> int list \<Rightarrow> unit dual_step" where
  "live_dual_iterations env cfg run_id strat user_ws_events [] = st_return ()"
| "live_dual_iterations env cfg run_id strat user_ws_events (now # later) =
     st_bind (live_dual_iteration env cfg run_id strat user_ws_events now) (\<lambda>over.
       if over then st_return () else live_dual_iterations env cfg run_id strat user_ws_events later)"

text \<open>The two entry orders; true means that the loop is entered.\<close>

definition live_dual_entry :: "'j run_env \<Rightarrow> app_config \<Rightarrow> bool dual_step" where
  "live_dual_entry env cfg = st_get (\<lambda>w.
     st_bind (st_try (query (ex_midpoint env (dl_token_id (b_yes_leg (d_basket w)))))) (\<lambda>answer.
     let initial_yes = (case answer of Inr price \<Rightarrow> clamp_probability price | Inl _ \<Rightarrow> lit (1/2));
         initial_no = clamp_probability (1 - initial_yes)
     in st_then (transition_dual env EntryPlaced ''live-dual-initial-entry'')
       (st_bind (st_try (place_live_leg_order env Yes ''buy'' ''entry'' initial_yes
            (calc_level_size (level_notional_of cfg) initial_yes))) (\<lambda>yes_placed.
        st_bind (st_try (place_live_leg_order env No ''buy'' ''entry'' initial_no
            (calc_level_size (level_notional_of cfg) initial_no))) (\<lambda>no_placed.
        if is_ok yes_placed \<and> is_ok no_placed
        then st_then (transition_dual env EntryFilled ''live-dual-entry-submitted'')
            (st_then (transition_dual env TpPlaced ''live-dual-tp-active'') (st_return True))
        else st_get (\<lambda>w. if d_order_meta w = []
          then st_then (persist_leg_snapshots env)
              (st_then (settle_basket env ''entry-failed-no-fill'' ''entry-failed-settle'' 0) (st_return False))
          else st_return True))))))"

text \<open>The loop from the creation of the trade on the selected market, over the times of its iterations.\<close>

definition run_live_dual_loop :: "'j run_env \<Rightarrow> app_config \<Rightarrow> i64 \<Rightarrow> i64 \<Rightarrow> string \<Rightarrow> string \<Rightarrow> string \<Rightarrow> u64 \<Rightarrow> int \<Rightarrow>
    'j ws_event list \<Rightarrow> int list \<Rightarrow> unit dual_step" where
  "run_live_dual_loop env cfg run_id market_id market_slug yes_token_id no_token_id maker_base_fee cycle_ends_at user_ws_events nows =
     st_bind (create_dual_runtime env cfg market_id market_slug yes_token_id no_token_id maker_base_fee cycle_ends_at) (\<lambda>basket.
     st_then (st_modify (\<lambda>w. w\<lparr>d_basket := basket, d_order_meta := [], d_seen_fill_ids := [],
         d_seen_buy_fill_order_ids := [], d_last_yes_price := None\<rparr>))
    (st_then (transition_dual env WaitingEntry ''live-dual-cycle-start'')
    (st_bind (live_dual_entry env cfg) (\<lambda>entered.
       if entered then live_dual_iterations env cfg run_id symmetric_dual_dca_strategy user_ws_events nows
       else st_return ()))))"

end
