(* ===== verification/Dual_Safety.thy ===== *)
theory Dual_Safety
  imports Dual_Runtime Trade_Safety
begin

text \<open>
  What a two-sided run can trade. The locale \<open>dual_invariant\<close> extends \<open>log_invariant\<close> to the
  memory of the two-sided loops: what does not touch the legs keeps the invariant. It is
  interpreted for the ledger of a paper run (what its log of orders bought, holds and sold) and for
  the order book of a live run (which orders of its own it knows).
\<close>

section \<open>Invariants of the basket\<close>

locale dual_invariant = log_invariant J E for J E :: "dual_world \<Rightarrow> bool" +
  assumes moved: "J w \<Longrightarrow> J (w\<lparr>d_basket := (d_basket w)\<lparr>b_state := s\<rparr>\<rparr>)"
begin

lemma transition_kept: "hoare J (transition_dual env to why) (\<lambda>_. J) E"
  unfolding transition_dual_def
  by (intro kept_get hoare_then [OF trade_state_kept] hoare_modify) (rule moved)

lemma transition_if_allowed_kept: "hoare J (transition_if_allowed env to why) (\<lambda>_. J) E"
  unfolding transition_if_allowed_def by (intro kept_get hoare_if transition_kept hoare_return)

lemma settle_kept: "hoare J (settle_basket env a b pnl) (\<lambda>_. J) E"
  unfolding settle_basket_def
  by (intro hoare_then [OF transition_if_allowed_kept] kept_get close_trade_kept)

lemma persist_kept: "hoare J (persist_leg_snapshots env) (\<lambda>_. J) E"
  unfolding persist_leg_snapshots_def Let_def
  by (intro kept_get hoare_fold [where I = "\<lambda>_. J"] leg_position_kept)

lemma halt_basket_kept: "hoare J (halt_basket env r why) (\<lambda>_. J) E"
  unfolding halt_basket_def by (intro kept_get hoare_then [OF halt_kept transition_kept])

end

section \<open>The ledger of a paper run\<close>

text \<open>What the orders of a leg in a log amount to: the number of buys, the quantity held, and whether every
  sell was of the whole quantity held, which was positive.\<close>

fun ledger_step :: "leg_side \<Rightarrow> db_op \<Rightarrow> nat \<times> f64 \<times> bool \<Rightarrow> nat \<times> f64 \<times> bool" where
  "ledger_step leg (OrderEvent _ _ side _ qty _ _ label _) (buys, held, ok) =
    (if label \<noteq> Some (leg_side_label leg) then (buys, held, ok)
     else if side = ''buy'' then (Suc buys, held + qty, ok)
     else (buys, fmax (held - qty) 0, ok \<and> qty = held \<and> 0 < held))"
| "ledger_step leg _ acc = acc"

definition ledger :: "leg_side \<Rightarrow> db_op list \<Rightarrow> nat \<times> f64 \<times> bool" where
  "ledger leg ops = fold (ledger_step leg) ops (0, 0, True)"

definition ledger_buys :: "leg_side \<Rightarrow> db_op list \<Rightarrow> nat" where
  "ledger_buys leg ops = fst (ledger leg ops)"

definition sells_covered :: "leg_side \<Rightarrow> db_op list \<Rightarrow> bool" where
  "sells_covered leg ops = snd (snd (ledger leg ops))"

lemma ledger_Nil [simp]: "ledger leg [] = (0, 0, True)"
  by (simp add: ledger_def)

lemma ledger_snoc [simp]: "ledger leg (ops @ [op]) = ledger_step leg op (ledger leg ops)"
  by (simp add: ledger_def)

lemma bookkeeping_ledger: "bookkeeping op \<Longrightarrow> ledger_step leg op acc = acc"
  by (cases op) auto

text \<open>The invariant of the loop, and what is left after a failure.\<close>

definition leg_booked :: "nat \<Rightarrow> leg_side \<Rightarrow> dual_world \<Rightarrow> bool" where
  "leg_booked bound leg w \<longleftrightarrow> (let l = basket_leg (d_basket w) leg in
     ledger leg (w_ops w) = (unat (dl_levels_filled l), dl_qty l, True) \<and> dl_side l = leg
     \<and> unat (dl_levels_filled l) \<le> bound)"

definition booked :: "nat \<Rightarrow> dual_world \<Rightarrow> bool" where
  "booked bound w \<longleftrightarrow> (\<forall>leg. leg_booked bound leg w)"

definition fair_log :: "nat \<Rightarrow> dual_world \<Rightarrow> bool" where
  "fair_log bound w \<longleftrightarrow> (\<forall>leg. ledger_buys leg (w_ops w) \<le> bound \<and> sells_covered leg (w_ops w))"

lemma booked_fair: "booked bound w \<Longrightarrow> fair_log bound w"
  by (simp add: booked_def leg_booked_def fair_log_def ledger_buys_def sells_covered_def Let_def)

lemma booked_moved: "booked bound w \<Longrightarrow> booked bound (w\<lparr>d_basket := (d_basket w)\<lparr>b_state := s\<rparr>\<rparr>)"
  by (simp add: booked_def leg_booked_def basket_leg_def split: leg_side.splits)

interpretation paper: dual_invariant "booked bound" "fair_log bound" for bound
  by unfold_locales
    (simp_all add: booked_fair booked_moved, simp_all add: booked_def leg_booked_def bookkeeping_ledger)

lemma leg_side_all: "(\<forall>leg. P leg) \<longleftrightarrow> P Yes \<and> P No"
  by (metis leg_side.exhaust)

lemma leg_side_label_inj [simp]: "leg_side_label a = leg_side_label b \<longleftrightarrow> a = b"
  by (cases a; cases b) (simp_all add: leg_side_label_def)

lemma basket_leg_change [simp]:
  "basket_leg (dual_leg_mut leg f basket) other = (if other = leg then f (basket_leg basket leg) else basket_leg basket other)"
  by (cases leg; cases other) (simp_all add: basket_leg_def dual_leg_mut_def)

text \<open>A recorded fill books itself when it is a buy below the bound or a sell of all that is held.\<close>

definition may_book :: "nat \<Rightarrow> dual_leg_runtime \<Rightarrow> string \<Rightarrow> f64 \<Rightarrow> bool" where
  "may_book bound l side qty \<longleftrightarrow>
     (if side = ''buy'' then unat (dl_levels_filled l) < bound else qty = dl_qty l \<and> 0 < qty)"

lemma apply_fill_simps [simp]:
  "dl_side (apply_fill_to_leg l side price qty inc) = dl_side l"
  "dl_qty (apply_fill_to_leg l side price qty inc) = (if side = ''buy'' then dl_qty l + qty else fmax (dl_qty l - qty) 0)"
  "dl_levels_filled (apply_fill_to_leg l side price qty inc) =
     (if side = ''buy'' \<and> inc then sat_add_u32 (dl_levels_filled l) 1 else dl_levels_filled l)"
  by (simp_all add: apply_fill_to_leg_def Let_def)

text \<open>Between the order and the change of the leg, the log is one order ahead of the basket.\<close>

definition one_ahead :: "dual_world \<Rightarrow> leg_side \<Rightarrow> string \<Rightarrow> f64 \<Rightarrow> dual_world \<Rightarrow> bool" where
  "one_ahead w0 leg side qty w \<longleftrightarrow> d_basket w = d_basket w0
     \<and> (\<forall>other. ledger other (w_ops w) = (let l = basket_leg (d_basket w0) other; n = unat (dl_levels_filled l); q = dl_qty l in
         if other \<noteq> leg then (n, q, True)
         else if side = ''buy'' then (Suc n, q + qty, True) else (n, fmax (q - qty) 0, True)))"

lemma one_ahead_fair:
  assumes "booked bound w0" "may_book bound (basket_leg (d_basket w0) leg) side qty" "one_ahead w0 leg side qty w"
  shows "fair_log bound w"
  using assms
  by (auto simp: fair_log_def ledger_buys_def sells_covered_def one_ahead_def booked_def leg_booked_def may_book_def Let_def
      split: if_splits)

lemma one_ahead_booked:
  assumes "bound < 2 ^ 32" "booked bound w0" "may_book bound (basket_leg (d_basket w0) leg) side qty" "one_ahead w0 leg side qty w"
  shows "booked bound (change_leg leg (\<lambda>l. apply_fill_to_leg l side price qty True) w)"
  using assms
  by (auto simp: change_leg_def one_ahead_def booked_def leg_booked_def may_book_def Let_def unat_sat_add_u32 split: if_splits)

lemma one_ahead_tick: "one_ahead w0 leg side qty w \<Longrightarrow> one_ahead w0 leg side qty (tick w)"
  by (simp add: one_ahead_def tick_def)

lemma paper_fill_one_leg:
  assumes b: "bound < 2 ^ 32" and w0: "booked bound w0" "may_book bound (basket_leg (d_basket w0) leg) side qty"
  shows "hoare (\<lambda>w. w = w0) (record_paper_leg_fill env leg intent side price qty)
    (\<lambda>_ w. booked bound w \<and> (\<forall>other. other \<noteq> leg \<longrightarrow> basket_leg (d_basket w) other = basket_leg (d_basket w0) other)) (fair_log bound)"
    (is "hoare _ _ (\<lambda>_. ?Q) _")
proof -
  note ahead = one_ahead_fair [OF w0] one_ahead_booked [OF b w0]
  have side: "dl_side (basket_leg (d_basket w0) other) = other" for other
    using w0(1) by (simp add: booked_def leg_booked_def Let_def)
  have led: "ledger other (w_ops w0) = (unat (dl_levels_filled (basket_leg (d_basket w0) other)), dl_qty (basket_leg (d_basket w0) other), True)" for other
    using w0(1) by (simp add: booked_def leg_booked_def Let_def)
  have o': "hoare (\<lambda>w. w = w0) (append_order_event_with_meta env i intent side price qty ''filled'' c
      (Some (leg_side_label leg)) t) (\<lambda>_. one_ahead w0 leg side qty) (fair_log bound)" for i c t
    unfolding append_order_event_with_meta_def
  proof (intro hoare_get_pre hoare_then hoare_return commit_hoare)
    fix w assume "w = w0"
    then show "fair_log bound (tick w)" using paper.weaken [OF paper.ticked [OF w0(1)]] by simp
    show "one_ahead w0 leg side qty (tick w\<lparr>w_ops := w_ops w @ [OrderEvent i intent side price qty ''filled'' c (Some (leg_side_label leg)) t]\<rparr>)"
      using \<open>w = w0\<close> w0(2) by (auto simp: one_ahead_def tick_def led may_book_def Let_def)
    then show "fair_log bound (tick w\<lparr>w_ops := w_ops w @ [OrderEvent i intent side price qty ''filled'' c (Some (leg_side_label leg)) t]\<rparr>)"
      by (rule ahead(1))
  qed simp
  have f: "hoare (one_ahead w0 leg side qty) (append_fill_event env i price qty 0) (\<lambda>_. one_ahead w0 leg side qty) (fair_log bound)" for i
    unfolding append_fill_event_def
    by (rule commit_hoare; (intro ahead(1))?) (auto simp: one_ahead_def tick_def)
  show ?thesis
    unfolding record_paper_leg_fill_def Let_def
  proof (intro hoare_get_pre hoare_if)
    show "hoare (\<lambda>w. w = w0) (st_return ()) (\<lambda>_. ?Q) (fair_log bound)"
      by (rule hoare_return) (simp add: w0)
  qed (simp add: side, intro hoare_bind [OF o'] hoare_then [OF f] hoare_modify conjI ahead(2),
      simp_all add: change_leg_def one_ahead_def)
qed

lemma paper_fill_booked:
  assumes "bound < 2 ^ 32" "booked bound w0" "may_book bound (basket_leg (d_basket w0) leg) side qty"
  shows "hoare (\<lambda>w. w = w0) (record_paper_leg_fill env leg intent side price qty) (\<lambda>_. booked bound) (fair_log bound)"
  by (rule hoare_post [OF paper_fill_one_leg [OF assms]]) simp_all

text \<open>The steps of the loop.\<close>

lemma change_dca_booked: "booked bound w \<Longrightarrow> booked bound (change_leg leg (\<lambda>l. l\<lparr>dl_last_dca_at := t\<rparr>) w)"
  by (auto simp: booked_def leg_booked_def change_leg_def Let_def)

lemma paper_sell_booked:
  assumes "bound < 2 ^ 32"
  shows "hoare (booked bound) (paper_sell_leg env side intent price) (\<lambda>_. booked bound) (fair_log bound)"
  unfolding paper_sell_leg_def Let_def
  by (intro hoare_get hoare_if hoare_return paper_fill_booked assms) (simp_all add: may_book_def)

lemma paper_tp_booked:
  assumes "bound < 2 ^ 32"
  shows "hoare (booked bound) (paper_leg_tp env cfg strat side price) (\<lambda>_. booked bound) (fair_log bound)"
  unfolding paper_leg_tp_def by (intro hoare_get_pre hoare_if hoare_return paper_sell_booked assms)

text \<open>What a two-sided strategy promises of its levels.\<close>

locale level_limit =
  fixes strat :: dual_strategy
  assumes below_limit: "ds_should_dca_leg strat price seen step n limit \<Longrightarrow> unat n < unat limit"
begin

lemma paper_dca_booked:
  assumes "bound < 2 ^ 32" "unat (s_max_dca_levels_per_leg (cfg_strategy cfg)) \<le> bound"
  shows "hoare (booked bound) (maybe_paper_dca env cfg strat side price notional now) (\<lambda>_. booked bound) (fair_log bound)"
  unfolding maybe_paper_dca_def Let_def
proof (intro hoare_get hoare_if)
  fix w assume w: "booked bound w"
  assume "ds_should_dca_leg strat price (dl_last_fill_price (basket_leg (d_basket w) side)) (s_dca_step_pct (cfg_strategy cfg))
      (dl_levels_filled (basket_leg (d_basket w) side)) (s_max_dca_levels_per_leg (cfg_strategy cfg))"
  from below_limit [OF this] assms(2) have "may_book bound (basket_leg (d_basket w) side) ''buy'' q" for q
    by (simp add: may_book_def)
  from paper_fill_booked [OF assms(1) w this]
  show "hoare (\<lambda>t. t = w) (st_then (record_paper_leg_fill env side ''dca'' ''buy'' price (calc_level_size notional price))
      (st_modify (change_leg side (\<lambda>l. l\<lparr>dl_last_dca_at := Some now\<rparr>)))) (\<lambda>_. booked bound) (fair_log bound)"
    by (rule hoare_then) (rule hoare_modify, rule change_dca_booked)
qed (auto intro: hoare_return)

lemma paper_trade_booked:
  assumes "bound < 2 ^ 32" "unat (s_max_dca_levels_per_leg (cfg_strategy cfg)) \<le> bound"
  shows "hoare (booked bound) (paper_dual_trade env cfg strat y n pnl now) (\<lambda>_. booked bound) (fair_log bound)"
  unfolding paper_dual_trade_def
  by (intro hoare_get_pre hoare_if hoare_then [where R = "booked bound"] paper.transition_kept hoare_return
      paper_sell_booked paper_tp_booked paper_dca_booked assms)

lemma paper_iteration_booked:
  assumes "bound < 2 ^ 32" "unat (s_max_dca_levels_per_leg (cfg_strategy cfg)) \<le> bound"
  shows "hoare (booked bound) (paper_dual_iteration env cfg strat m) (\<lambda>_. booked bound) (fair_log bound)"
proof (cases m)
  case (Pair merged now)
  have "hoare (booked bound) (case d of Halt \<Rightarrow> st_then (transition_dual env Halted why) (st_return True)
      | Block \<Rightarrow> st_return False
      | Allow \<Rightarrow> st_then (paper_dual_trade env cfg strat y n pnl now) (st_then (persist_leg_snapshots env)
          (st_get (\<lambda>w'. if legs_flat (d_basket w') then st_then (settle_basket env a b pnl) (st_return True) else st_return False))))
     (\<lambda>_. booked bound) (fair_log bound)" for d why y n pnl a b
    by (cases d; simp)
      (intro hoare_then [OF paper.transition_kept] hoare_then [OF paper_trade_booked [OF assms]]
        hoare_then [OF paper.persist_kept] hoare_then [OF paper.settle_kept] hoare_get_pre hoare_if hoare_return; assumption)+
  then show ?thesis
    unfolding Pair paper_dual_iteration_def Let_def prod.case
    by (intro hoare_get_pre hoare_bind [OF paper.risk_gate_dual_kept])
qed

lemma paper_iterations_booked:
  assumes "bound < 2 ^ 32" "unat (s_max_dca_levels_per_leg (cfg_strategy cfg)) \<le> bound"
  shows "hoare (booked bound) (paper_dual_iterations env cfg strat ms) (\<lambda>_. booked bound) (fair_log bound)"
  by (induction ms) (auto intro!: hoare_return hoare_bind [OF paper_iteration_booked [OF assms]] simp: assms)

end

interpretation symmetric: level_limit symmetric_dual_dca_strategy
  by unfold_locales (auto simp: symmetric_dual_dca_strategy_def should_dca_leg_def word_less_nat_alt word_le_nat_alt split: if_splits)

text \<open>Some legs have not been bought yet.\<close>

definition unbought :: "nat \<Rightarrow> leg_side set \<Rightarrow> dual_world \<Rightarrow> bool" where
  "unbought bound legs w \<longleftrightarrow> booked bound w \<and> (\<forall>leg \<in> legs. dl_levels_filled (basket_leg (d_basket w) leg) = 0)"

lemma basket_leg_moved [simp]: "basket_leg (basket\<lparr>b_state := s\<rparr>) leg = basket_leg basket leg"
  by (cases leg) (simp_all add: basket_leg_def)

interpretation unbought: dual_invariant "unbought bound legs" "fair_log bound" for bound legs
  by unfold_locales
    (use paper.weaken paper.called paper.logged paper.keyed paper.stored paper.cancelled paper.moved in
      \<open>auto simp: unbought_def\<close>)

lemma unbought_fill:
  assumes "bound < 2 ^ 32" "0 < bound" "leg \<in> legs"
  shows "hoare (unbought bound legs) (record_paper_leg_fill env leg intent ''buy'' price qty) (\<lambda>_. unbought bound (legs - {leg}))
    (fair_log bound)"
proof (rule hoareI)
  fix w assume w: "unbought bound legs w"
  then have "booked bound w" "may_book bound (basket_leg (d_basket w) leg) ''buy'' qty"
    using assms by (auto simp: unbought_def may_book_def)
  from paper_fill_one_leg [OF assms(1) this, of env intent price] w
  show "case record_paper_leg_fill env leg intent ''buy'' price qty w of (Inl _, s) \<Rightarrow> fair_log bound s
      | (Inr _, s) \<Rightarrow> unbought bound (legs - {leg}) s"
    by (auto simp: hoare_def unbought_def split: sum.splits prod.splits)
qed

text \<open>Before the basket exists nothing is booked.\<close>

definition unbooked :: "dual_world \<Rightarrow> bool" where
  "unbooked w \<longleftrightarrow> (\<forall>leg. ledger leg (w_ops w) = (0, 0, True))"

interpretation start: log_invariant unbooked "fair_log bound" for bound
  by unfold_locales (simp_all add: unbooked_def fair_log_def ledger_buys_def sells_covered_def bookkeeping_ledger)

lemma paper_create_booked:
  assumes "\<And>basket. hoare (unbought bound UNIV) (m basket) Q (fair_log bound)"
  shows "hoare unbooked (st_bind (create_dual_runtime env cfg market slug y n fee ends) (\<lambda>basket.
    st_then (st_modify (\<lambda>w. w\<lparr>d_basket := basket\<rparr>)) (m basket))) Q (fair_log bound)"
proof -
  define fresh where "fresh = (\<lambda>basket w. unbooked w \<and> (\<forall>leg. let l = basket_leg basket leg in
    dl_side l = leg \<and> dl_qty l = 0 \<and> dl_levels_filled l = 0))"
  have c: "hoare unbooked (create_dual_runtime env cfg market slug y n fee ends) fresh (fair_log bound)"
    unfolding create_dual_runtime_def
    by (intro hoare_bind [OF start.created_kept] hoare_then [OF start.exit_rules_kept] hoare_return)
      (auto simp: fresh_def basket_leg_def split: leg_side.split)
  show ?thesis
    by (intro hoare_bind [OF c] hoare_then [OF hoare_modify assms])
      (auto simp: unbought_def fresh_def booked_def leg_booked_def unbooked_def Let_def)
qed

lemma paper_entry_booked:
  assumes "bound < 2 ^ 32" "0 < bound"
  shows "hoare (unbought bound UNIV) (paper_dual_entry env cfg) (\<lambda>_. booked bound) (fair_log bound)"
proof -
  have fill: "hoare (unbought bound UNIV) (record_paper_leg_fill env Yes i ''buy'' p q) (\<lambda>_. unbought bound {No}) (fair_log bound)"
    "hoare (unbought bound {No}) (record_paper_leg_fill env No i ''buy'' p q) (\<lambda>_. booked bound) (fair_log bound)" for i p q
    by (rule hoare_post [OF unbought_fill [OF assms]], simp, auto simp: unbought_def)
      (rule hoare_post [OF unbought_fill [OF assms]], simp, auto simp: unbought_def)
  show ?thesis
    unfolding paper_dual_entry_def Let_def
    by (rule hoare_then [OF unbought.transition_kept], rule hoare_then [OF unbought.transition_kept],
      rule hoare_then [OF fill(1)], rule hoare_then [OF fill(2)],
      rule hoare_then [OF paper.transition_kept paper.transition_kept])
qed

lemma paper_run_fair:
  fixes cfg :: app_config
  defines "bound \<equiv> max 1 (unat (s_max_dca_levels_per_leg (cfg_strategy cfg)))"
  shows "fair_log bound (snd (run_paper_dual_loop env cfg market slug ends ms (w\<lparr>w_ops := []\<rparr>)))"
proof -
  have b: "bound < 2 ^ 32" "0 < bound" "unat (s_max_dca_levels_per_leg (cfg_strategy cfg)) \<le> bound"
    using unsigned_less [of "s_max_dca_levels_per_leg (cfg_strategy cfg)", where 'a = nat] by (auto simp: bound_def)
  have "hoare unbooked (run_paper_dual_loop env cfg market slug ends ms) (\<lambda>_. booked bound) (fair_log bound)"
    unfolding run_paper_dual_loop_def
    by (rule paper_create_booked, rule hoare_then [OF paper_entry_booked symmetric.paper_iterations_booked]) (rule b)+
  then show ?thesis
    by (rule hoare_any) (auto simp: unbooked_def booked_fair)
qed

section \<open>The order book of a live run\<close>

text \<open>The orders of its own the loop knows that add a level to a leg.\<close>

definition known_levels :: "leg_side \<Rightarrow> dual_world \<Rightarrow> nat" where
  "known_levels leg w = length (filter (\<lambda>(_, meta). om_leg_side meta = leg \<and> om_intent meta = ''dca'') (d_order_meta w))"

definition levels_counted :: "nat \<Rightarrow> dual_world \<Rightarrow> bool" where
  "levels_counted bound w \<longleftrightarrow> (\<forall>leg. let l = basket_leg (d_basket w) leg in
     dl_side l = leg \<and> known_levels leg w \<le> unat (dl_levels_filled l) \<and> unat (dl_levels_filled l) \<le> bound)"

lemma levels_counted_cong:
  "levels_counted bound w \<Longrightarrow> d_basket w' = d_basket w \<Longrightarrow> d_order_meta w' = d_order_meta w \<Longrightarrow> levels_counted bound w'"
  by (simp add: levels_counted_def known_levels_def)

interpretation live: dual_invariant "levels_counted bound" "levels_counted bound" for bound
  by unfold_locales (auto simp: levels_counted_def known_levels_def)

lemma counted_commit:
  assumes "\<And>w. d_basket (eff w) = d_basket w \<and> d_order_meta (eff w) = d_order_meta w"
  shows "hoare (levels_counted bound) (commit env op eff) (\<lambda>_. levels_counted bound) (levels_counted bound)"
  by (rule commit_hoare) (auto simp: tick_def assms elim!: levels_counted_cong)

lemma hoare_start: "(\<And>w0. P w0 \<Longrightarrow> hoare (\<lambda>w. w = w0) m Q E) \<Longrightarrow> hoare P m Q E"
  by (simp add: hoare_def)

text \<open>Placing an order adds it to the known orders once the exchange and the database have taken it.\<close>

lemma place_live_counted:
  assumes w0: "levels_counted bound w0"
  shows "hoare (\<lambda>w. w = w0) (place_live_leg_order env leg side intent price qty)
    (\<lambda>_ w. d_basket w = d_basket w0 \<and> (\<forall>other. known_levels other w
       \<le> known_levels other w0 + (if other = leg \<and> intent = ''dca'' then 1 else 0)))
    (levels_counted bound)"
proof -
  define same where "same = (\<lambda>w :: dual_world. d_basket w = d_basket w0 \<and> d_order_meta w = d_order_meta w0)"
  have same: "same w \<Longrightarrow> levels_counted bound w" for w
    using levels_counted_cong [OF w0] by (simp add: same_def)
  have side: "dl_side (basket_leg (d_basket w0) leg) = leg"
    using w0 by (simp add: levels_counted_def Let_def)
  have q: "hoare same (query f) (\<lambda>_. same) (levels_counted bound)" for f :: "nat \<Rightarrow> (string, 'x) result"
    by (rule query_hoare) (auto simp: same, simp add: same_def tick_def)
  have u: "hoare same (upsert_order_by_exchange_id_with_meta env a b c d e f g h i j k l m) (\<lambda>_. same) (levels_counted bound)"
    for a b c d e f g h i j k l m
    unfolding upsert_order_by_exchange_id_with_meta_def
    by (rule hoare_get_pre, rule hoare_then [where R = same], rule commit_hoare)
      (auto intro!: same hoare_return, auto simp: same_def tick_def)
  show ?thesis
    unfolding place_live_leg_order_def Let_def
    by (intro hoare_get_pre hoare_if, auto intro: hoare_return)
      (rule hoare_then [OF hoare_modify [where Q = "\<lambda>_. same"]], simp add: same_def,
       rule hoare_bind [OF q], rule hoare_then [OF u], rule hoare_modify, simp add: same_def known_levels_def side)
qed

lemma place_live_kept:
  assumes "intent \<noteq> ''dca''"
  shows "hoare (levels_counted bound) (place_live_leg_order env leg side intent price qty) (\<lambda>_. levels_counted bound) (levels_counted bound)"
  by (rule hoare_start, rule hoare_post [OF place_live_counted])
    (use assms in \<open>auto simp: levels_counted_def Let_def intro: order_trans\<close>)

lemma or_warn_kept: "hoare J m (\<lambda>_. J) J \<Longrightarrow> hoare J (or_warn m) (\<lambda>_. J) J"
  unfolding or_warn_def by (rule hoare_then [OF hoare_try]) (auto intro: hoare_return)

lemma live_fills_kept: "hoare (levels_counted bound) (process_live_dual_fills env) (\<lambda>_. levels_counted bound) (levels_counted bound)"
proof -
  have "hoare (levels_counted bound) (live_dual_fill env fill u) (\<lambda>_. levels_counted bound) (levels_counted bound)" for fill u
    unfolding live_dual_fill_def upsert_fill_by_exchange_fill_id_def
    by (intro hoare_get_pre hoare_if hoare_option hoare_return
        hoare_then [OF hoare_modify [where Q = "\<lambda>_. levels_counted bound"]] hoare_bind [OF live.asked]
        hoare_then [OF counted_commit] hoare_modify)
      (auto simp: levels_counted_def known_levels_def change_leg_def Let_def)
  then show ?thesis
    unfolding process_live_dual_fills_def
    by (intro hoare_bind [OF live.asked]) (rule hoare_fold [where I = "\<lambda>_. levels_counted bound"])
qed

context level_limit begin

lemma live_dca_counted:
  assumes "unat (s_max_dca_levels_per_leg (cfg_strategy cfg)) \<le> bound" "bound < 2 ^ 32"
  shows "hoare (levels_counted bound) (maybe_live_leg_dca env cfg strat side price notional now)
    (\<lambda>_. levels_counted bound) (levels_counted bound)"
  unfolding maybe_live_leg_dca_def Let_def
proof (intro hoare_get hoare_if)
  fix w assume w: "levels_counted bound w"
  assume "ds_should_dca_leg strat price (dl_last_fill_price (basket_leg (d_basket w) side)) (s_dca_step_pct (cfg_strategy cfg))
      (dl_levels_filled (basket_leg (d_basket w) side)) (s_max_dca_levels_per_leg (cfg_strategy cfg))"
  from below_limit [OF this] assms(1) have n: "unat (dl_levels_filled (basket_leg (d_basket w) side)) < bound" by simp
  show "hoare (\<lambda>t. t = w) (st_then (place_live_leg_order env side ''buy'' ''dca'' price (calc_level_size notional price))
      (st_modify (change_leg side (\<lambda>l. l\<lparr>dl_last_dca_at := Some now, dl_levels_filled := sat_add_u32 (dl_levels_filled l) 1,
         dl_last_fill_price := Some price\<rparr>)))) (\<lambda>_. levels_counted bound) (levels_counted bound)"
    by (rule hoare_then [OF place_live_counted [OF w] hoare_modify])
      (use w n assms(2) in \<open>auto simp: levels_counted_def change_leg_def known_levels_def Let_def unat_sat_add_u32 intro: order_trans\<close>)
qed (auto intro: hoare_return)

lemma live_trade_counted:
  assumes "unat (s_max_dca_levels_per_leg (cfg_strategy cfg)) \<le> bound" "bound < 2 ^ 32"
  shows "hoare (levels_counted bound) (live_dual_trade env cfg strat y n now) (\<lambda>_. levels_counted bound) (levels_counted bound)"
proof -
  let ?J = "levels_counted bound"
  have tp: "hoare ?J (live_leg_tp env cfg strat side price) (\<lambda>_. ?J) ?J" for side price
    unfolding live_leg_tp_def Let_def
    by (intro hoare_get_pre hoare_if hoare_return hoare_bind [OF live.key_kept] place_live_kept) simp
  have legs: "hoare ?J (live_legs env cfg strat y n now) (\<lambda>_. ?J) ?J"
    unfolding live_legs_def maybe_live_leg_tp_def
    by (intro hoare_then [where R = ?J] or_warn_kept tp live_dca_counted assms)
  have exit: "hoare ?J (live_exit_leg env side price) (\<lambda>_. ?J) ?J" for side price
    unfolding live_exit_leg_def Let_def by (intro hoare_get_pre hoare_if hoare_return or_warn_kept place_live_kept) simp
  have flatten: "hoare ?J (live_flatten env why y n) (\<lambda>_. ?J) ?J" for why
    unfolding live_flatten_def
    by (intro hoare_get_pre hoare_if hoare_return hoare_bind [OF live.key_kept] hoare_then [where R = ?J] exit live.transition_kept)
  have drop: "hoare ?J (detect_drop_sell_reason env b y n) (\<lambda>_. ?J) ?J" for b
    unfolding detect_drop_sell_reason_def by (intro hoare_bind [OF live.asked] hoare_if hoare_return)
  have seen: "hoare ?J (st_modify (\<lambda>w. w\<lparr>d_last_yes_price := Some y\<rparr>)) (\<lambda>_. ?J) ?J"
    by (rule hoare_modify) (auto elim: levels_counted_cong)
  show ?thesis
    unfolding live_dual_trade_def Let_def
    by (intro hoare_get_pre hoare_prod hoare_bind [OF drop] hoare_then [OF live.pressure_kept] hoare_then [OF seen]
        hoare_if legs flatten)
qed

lemma live_iteration_counted:
  assumes "unat (s_max_dca_levels_per_leg (cfg_strategy cfg)) \<le> bound" "bound < 2 ^ 32"
  shows "hoare (levels_counted bound) (live_dual_iteration env cfg r strat events now) (\<lambda>_. levels_counted bound) (levels_counted bound)"
proof -
  let ?J = "levels_counted bound"
  have price: "hoare ?J (live_yes_price env) (\<lambda>_. ?J) ?J"
    unfolding live_yes_price_def by (intro hoare_get_pre hoare_bind [OF live.kept_try] live.asked hoare_return)
  have close: "hoare ?J (live_dual_close env y n) (\<lambda>_. ?J) ?J" for y n
    unfolding live_dual_close_def
    by (intro hoare_then [OF or_warn_kept [OF live_fills_kept]] hoare_then [OF live.persist_kept] hoare_get_pre hoare_if
        hoare_then [OF live.settle_kept] hoare_return)
  have act: "hoare ?J (case d of Halt \<Rightarrow> st_then (halt_basket env r why) (st_return True) | Block \<Rightarrow> st_return False
      | Allow \<Rightarrow> st_then (live_dual_trade env cfg strat y n now) (live_dual_close env y n)) (\<lambda>_. ?J) ?J" for d why y n
    by (cases d) (auto intro!: hoare_return hoare_then [OF live.halt_basket_kept] hoare_then [OF live_trade_counted close] assms)
  show ?thesis
    unfolding live_dual_iteration_def Let_def
    by (intro hoare_bind [OF price] hoare_then [OF or_warn_kept [OF live_fills_kept]] hoare_get_pre
        hoare_bind [OF live.user_events_kept] hoare_bind [OF live.risk_gate_dual_kept] act)
qed

lemma live_iterations_counted:
  assumes "unat (s_max_dca_levels_per_leg (cfg_strategy cfg)) \<le> bound" "bound < 2 ^ 32"
  shows "hoare (levels_counted bound) (live_dual_iterations env cfg r strat events nows) (\<lambda>_. levels_counted bound) (levels_counted bound)"
  by (induction nows) (auto intro!: hoare_return hoare_bind [OF live_iteration_counted [OF assms]])

end

lemma live_entry_counted:
  "hoare (levels_counted bound) (live_dual_entry env cfg) (\<lambda>_. levels_counted bound) (levels_counted bound)"
proof -
  let ?J = "levels_counted bound"
  have place: "hoare ?J (st_try (place_live_leg_order env leg ''buy'' ''entry'' p q)) (\<lambda>_. ?J) ?J" for leg p q
    by (rule live.kept_try) (auto intro: place_live_kept)
  show ?thesis
    unfolding live_dual_entry_def Let_def
    by (intro hoare_get_pre hoare_bind [OF live.kept_try [OF _ live.asked]] hoare_then [OF live.transition_kept]
        hoare_bind [OF place] hoare_if hoare_return hoare_then [OF live.persist_kept] hoare_then [OF live.settle_kept])
qed

text \<open>Before the basket exists the loop knows no order.\<close>

definition no_orders :: "dual_world \<Rightarrow> bool" where
  "no_orders w \<longleftrightarrow> d_order_meta w = []"

definition few_levels :: "nat \<Rightarrow> dual_world \<Rightarrow> bool" where
  "few_levels bound w \<longleftrightarrow> (\<forall>leg. known_levels leg w \<le> bound)"

lemma levels_counted_few: "levels_counted bound w \<Longrightarrow> few_levels bound w"
  by (auto simp: levels_counted_def few_levels_def Let_def intro: order_trans)

interpretation before: log_invariant no_orders "few_levels bound" for bound
  by unfold_locales (auto simp: no_orders_def few_levels_def known_levels_def)

lemma live_run_few:
  fixes cfg :: app_config
  defines "bound \<equiv> unat (s_max_dca_levels_per_leg (cfg_strategy cfg))"
  shows "few_levels bound (snd (run_live_dual_loop env cfg r market slug y n fee ends events nows (w\<lparr>d_order_meta := []\<rparr>)))"
proof -
  have b: "unat (s_max_dca_levels_per_leg (cfg_strategy cfg)) \<le> bound" "bound < 2 ^ 32"
    using unsigned_less [of "s_max_dca_levels_per_leg (cfg_strategy cfg)", where 'a = nat] by (auto simp: bound_def)
  have create: "hoare no_orders (create_dual_runtime env cfg market slug y n fee ends)
      (\<lambda>basket _. \<forall>leg. dl_side (basket_leg basket leg) = leg \<and> dl_levels_filled (basket_leg basket leg) = 0) (few_levels bound)"
    unfolding create_dual_runtime_def
    by (intro hoare_bind [OF before.created_kept] hoare_then [OF before.exit_rules_kept] hoare_return)
      (simp add: basket_leg_def split: leg_side.split)
  have loop: "hoare (levels_counted bound) (st_bind (live_dual_entry env cfg) (\<lambda>entered.
      if entered then live_dual_iterations env cfg r symmetric_dual_dca_strategy events nows else st_return ()))
      (\<lambda>_. levels_counted bound) (levels_counted bound)"
    by (intro hoare_bind [OF live_entry_counted] hoare_if symmetric.live_iterations_counted hoare_return b)
  have "hoare no_orders (run_live_dual_loop env cfg r market slug y n fee ends events nows) (\<lambda>_. few_levels bound) (few_levels bound)"
    unfolding run_live_dual_loop_def
    by (rule hoare_bind [OF create], rule hoare_then [OF hoare_modify [where Q = "\<lambda>_. levels_counted bound"]],
        simp add: levels_counted_def known_levels_def Let_def)
      (rule hoare_post [OF hoare_then [OF live.transition_kept loop]], auto simp: levels_counted_few)
  then show ?thesis by (rule hoare_any) (simp_all add: no_orders_def)
qed

section \<open>Properties\<close>

text \<open>C6: a paper run buys a leg at most as many times as it has levels. Whatever prices and times it
  sees and whatever the database answers, the log of a two-sided paper run has at most
  \<open>max_dca_levels_per_leg\<close> buys of each leg, the entry included (and the entry alone when that
  number is zero).\<close>

theorem paper_dual_buys_bounded:
  "ledger_buys leg (w_ops (snd (run_paper_dual_loop env cfg market_id slug ends ms (w\<lparr>w_ops := []\<rparr>))))
     \<le> max 1 (unat (s_max_dca_levels_per_leg (cfg_strategy cfg)))"
  using paper_run_fair [of cfg env market_id slug ends ms w] unfolding fair_log_def by blast

text \<open>C7: a paper run sells what it holds. Whatever prices and times it sees and whatever the database
  answers, every sell of a leg in the log of a two-sided paper run is of the whole quantity that
  the orders of the leg before it leave, which is positive.\<close>

theorem paper_dual_sells_holdings:
  "sells_covered leg (w_ops (snd (run_paper_dual_loop env cfg market_id slug ends ms (w\<lparr>w_ops := []\<rparr>))))"
  using paper_run_fair [of cfg env market_id slug ends ms w] unfolding fair_log_def by blast

text \<open>A live run knows at most as many level orders of a leg as it has levels, whatever the exchange
  and the database answer and whatever is filled.\<close>

lemma live_dual_levels_bounded:
  "known_levels leg (snd (run_live_dual_loop env cfg run_id market_id slug yes_token no_token fee ends events nows
     (w\<lparr>d_order_meta := []\<rparr>))) \<le> unat (s_max_dca_levels_per_leg (cfg_strategy cfg))"
  using live_run_few [of cfg env run_id market_id slug yes_token no_token fee ends events nows w] unfolding few_levels_def by blast

text \<open>A level order whose write is refused is not counted. While the database refuses writes and the
  exchange accepts orders, each check of a leg that is due for a level places one more order and leaves
  the leg as it was, so that it is due again: after any number of checks as many orders were placed,
  whatever the limit of levels is, and the loop knows none of them.\<close>

lemma uncounted_live_levels:
  assumes "\<And>req n. is_ok (ex_place env req n)" "\<And>n. env_answer env n = Refused e"
    and "can_dca_now (basket_leg (d_basket w) side) cfg now" "\<not> calc_level_size notional price \<le> 0"
    and "ds_should_dca_leg strat price (dl_last_fill_price (basket_leg (d_basket w) side)) (s_dca_step_pct (cfg_strategy cfg))
      (dl_levels_filled (basket_leg (d_basket w) side)) (s_max_dca_levels_per_leg (cfg_strategy cfg))"
    and "w' = ((\<lambda>w. snd (maybe_live_leg_dca env cfg strat side price notional now w)) ^^ k) w"
  shows "d_basket w' = d_basket w \<and> d_order_meta w' = d_order_meta w \<and> length (d_placed w') = length (d_placed w) + k"
  using assms(6)
proof (induction k arbitrary: w')
  case (Suc k)
  define v where "v = ((\<lambda>w. snd (maybe_live_leg_dca env cfg strat side price notional now w)) ^^ k) w"
  have v: "d_basket v = d_basket w" "d_order_meta v = d_order_meta w" "length (d_placed v) = length (d_placed w) + k"
    using Suc.IH [OF v_def] by simp_all
  have p: "\<exists>ack. ex_place env req n = Inr ack" for req n
    using assms(1) [of req n] by (cases "ex_place env req n") (simp_all add: is_ok_def)
  have "w' = snd (maybe_live_leg_dca env cfg strat side price notional now v)"
    using Suc.prems by (simp add: v_def)
  then show ?case
    using v assms(2-5) p
    by (auto simp: maybe_live_leg_dca_def place_live_leg_order_def upsert_order_by_exchange_id_with_meta_def commit_def query_def
        tick_def st_get_def st_then_def st_bind_def st_modify_def st_return_def Let_def split: sum.split prod.split)
qed simp

text \<open>A basket right after its entry orders were accepted.\<close>

definition sample_leg :: "leg_side \<Rightarrow> dual_leg_runtime" where
  "sample_leg leg = \<lparr>dl_side = leg, dl_token_id = leg_side_label leg, dl_qty = 0, dl_avg_entry = 0, dl_levels_filled = 0,
     dl_last_fill_price = None, dl_last_dca_at = None\<rparr>"

definition sample_basket :: dual_basket_runtime where
  "sample_basket = \<lparr>b_trade_id = 7, b_user_id = None, b_market_slug = ''btc-updown-5m-0'', b_maker_base_fee = 0,
     b_state = TpPlaced, b_yes_leg = sample_leg Yes, b_no_leg = sample_leg No, b_cycle_ends_at = 300000000000\<rparr>"

definition dual_world_of :: "dual_basket_runtime \<Rightarrow> dual_world" where
  "dual_world_of basket = \<lparr>w_db_state = b_state basket, w_keys = [], w_ops = [], w_cancels = [], w_calls = 0, d_basket = basket,
     d_order_meta = [(''0xyes'', \<lparr>om_leg_side = Yes, om_side = ''buy'', om_intent = ''entry''\<rparr>),
       (''0xno'', \<lparr>om_leg_side = No, om_side = ''buy'', om_intent = ''entry''\<rparr>)],
     d_seen_fill_ids = [], d_seen_buy_fill_order_ids = [], d_last_yes_price = None, d_placed = []\<rparr>"

theorem uncounted_live_levels_witness:
  "length (d_placed (((\<lambda>w. snd (maybe_live_leg_dca (calm_env\<lparr>env_answer := \<lambda>_. Refused ''down''\<rparr>) sample_app
     symmetric_dual_dca_strategy Yes (Fin (1 / 2)) (Fin 5) 0 w)) ^^ 100) (dual_world_of sample_basket))) = 100"
proof -
  have "\<not> calc_level_size (Fin 5) (Fin (1 / 2)) \<le> 0"
    by (simp add: calc_level_size_def f64_eval)
  moreover have "ds_should_dca_leg symmetric_dual_dca_strategy p None q 0 (s_max_dca_levels_per_leg (cfg_strategy sample_app))" for p q
    by (simp add: symmetric_dual_dca_strategy_def should_dca_leg_def sample_app_def sample_strategy_def default_max_dca_levels_per_leg_def)
  ultimately show ?thesis
    using uncounted_live_levels [of "calm_env\<lparr>env_answer := \<lambda>_. Refused ''down''\<rparr>" "''down''" "dual_world_of sample_basket" Yes
      sample_app 0 "Fin 5" "Fin (1 / 2)" symmetric_dual_dca_strategy _ 100, OF _ _ _ _ _ refl]
    by (simp add: calm_env_def is_ok_def can_dca_now_def dual_world_of_def sample_basket_def sample_leg_def basket_leg_def)
qed

text \<open>Runs in which the database accepts every write. A basket that is flat stays so, and nothing is
  cancelled, while it is persisted and moves through its states.\<close>

definition flat_since :: "dual_world \<Rightarrow> dual_world \<Rightarrow> bool" where
  "flat_since w0 w \<longleftrightarrow> legs_flat (d_basket w) \<and> b_trade_id (d_basket w) = b_trade_id (d_basket w0)
     \<and> w_cancels w = w_cancels w0 \<and> d_order_meta w = d_order_meta w0"

definition closed_since :: "dual_world \<Rightarrow> dual_world \<Rightarrow> bool" where
  "closed_since w0 w \<longleftrightarrow> flat_since w0 w \<and> w_db_state w = Settled
     \<and> (\<exists>pnl. TradeClosed (b_trade_id (d_basket w0)) (lit (1/2)) pnl \<in> set (w_ops w))"

locale calm_database =
  fixes env :: "'j run_env"
  assumes accepts: "env_answer env n = Done"
begin

lemma accepted:
  assumes "\<And>w. P w \<Longrightarrow> Q (eff (tick w\<lparr>w_ops := w_ops w @ [op]\<rparr>))"
  shows "hoare P (commit env op eff) (\<lambda>_. Q) (\<lambda>_. False)"
  using assms by (simp add: hoare_def commit_def accepts)

lemma flat_plain: "hoare (flat_since w0) (commit env op (\<lambda>w. w)) (\<lambda>_. flat_since w0) (\<lambda>_. False)"
  "hoare (flat_since w0) (commit env op (\<lambda>w. w\<lparr>w_db_state := s\<rparr>)) (\<lambda>_. flat_since w0) (\<lambda>_. False)"
  by (rule accepted, simp add: flat_since_def tick_def)+

lemma flat_persisted: "hoare (flat_since w0) (persist_leg_snapshots env) (\<lambda>_. flat_since w0) (\<lambda>_. False)"
  unfolding persist_leg_snapshots_def Let_def upsert_leg_position_def
  by (intro hoare_get_pre hoare_fold [where I = "\<lambda>_. flat_since w0"] flat_plain)

lemma flat_moved: "hoare (flat_since w0) (transition_if_allowed env to why) (\<lambda>_. flat_since w0) (\<lambda>_. False)"
  unfolding transition_if_allowed_def
proof (intro hoare_get hoare_if)
  fix v assume v: "flat_since w0 v" "is_ok (can_transition (b_state (d_basket v)) to)"
  then obtain u where u: "can_transition (b_state (d_basket v)) to = Inr u"
    by (cases "can_transition (b_state (d_basket v)) to") (auto simp: is_ok_def)
  have "hoare (flat_since w0) (st_then (transition_trade_state env (b_trade_id (d_basket v)) (b_state (d_basket v)) to why)
      (st_modify (\<lambda>w. w\<lparr>d_basket := (d_basket w)\<lparr>b_state := to\<rparr>\<rparr>))) (\<lambda>_. flat_since w0) (\<lambda>_. False)"
    unfolding transition_trade_state_def u record_risk_event_def sum.case
    by (intro hoare_then [OF hoare_then [OF flat_plain(2) flat_plain(1)]] hoare_modify) (simp add: flat_since_def legs_flat_def)
  with v(1) show "hoare (\<lambda>t. t = v) (transition_dual env to why) (\<lambda>_. flat_since w0) (\<lambda>_. False)"
    unfolding transition_dual_def by (intro hoare_get) (auto elim: hoare_pre)
qed (auto intro: hoare_return)

lemma flat_closed: "hoare (flat_since w0) (settle_basket env a b pnl) (\<lambda>_. closed_since w0) (\<lambda>_. False)"
  unfolding settle_basket_def
proof (intro hoare_then [OF flat_moved] hoare_get_pre)
  fix w assume "flat_since w0 w"
  then have "b_trade_id (d_basket w) = b_trade_id (d_basket w0)" by (simp add: flat_since_def)
  then show "hoare (flat_since w0) (close_trade env (b_trade_id (d_basket w)) (lit (1/2)) pnl) (\<lambda>_. closed_since w0) (\<lambda>_. False)"
    unfolding close_trade_def by (intro accepted) (auto simp: closed_since_def flat_since_def tick_def)
qed

lemma close_settles:
  assumes "\<And>n. ex_list_fills env n = Inr []"
  shows "hoare (flat_since w0) (live_dual_close env y n) (\<lambda>over w. over \<and> closed_since w0 w) (\<lambda>_. False)"
proof -
  have fills: "hoare (flat_since w0) (or_warn (process_live_dual_fills env)) (\<lambda>_. flat_since w0) (\<lambda>_. False)"
    using assms by (simp add: hoare_def or_warn_def process_live_dual_fills_def query_def st_try_def st_then_def st_bind_def
        st_return_def flat_since_def tick_def)
  show ?thesis
    unfolding live_dual_close_def
  proof (intro hoare_then [OF fills] hoare_then [OF flat_persisted] hoare_get_pre)
    fix w assume "flat_since w0 w"
    then have "legs_flat (d_basket w)" by (simp add: flat_since_def)
    moreover have "hoare (flat_since w0) (st_then (settle_basket env a b pnl) (st_return True))
        (\<lambda>over w. over \<and> closed_since w0 w) (\<lambda>_. False)" for a b pnl
      by (rule hoare_then [OF flat_closed]) (rule hoare_return, simp)
    ultimately show "hoare (flat_since w0) (if legs_flat (d_basket w)
        then st_then (settle_basket env ''live-dual-exit-filled'' ''live-dual-settled''
          (basket_unrealized_pnl (d_basket w) y n)) (st_return True)
        else st_return False) (\<lambda>over w. over \<and> closed_since w0 w) (\<lambda>_. False)"
      by simp
  qed
qed

end

interpretation calm: calm_database calm_env
  by unfold_locales (simp add: calm_env_def)

text \<open>An unfilled basket is settled with its entry orders open. When no fill has been reported yet, an
  iteration the risk gate allows ends with the trade closed, as settled, and the loop over, although
  the orders the loop placed are open: none of them is cancelled, and no later fill will be seen.\<close>

lemma unfilled_basket_settled:
  assumes "\<And>n. env_answer env n = Done" "\<And>n. ex_list_fills env n = Inr []" "legs_flat (d_basket w)"
  shows "\<exists>w'. live_dual_close env yes_price no_price w = (Inr True, w') \<and> w_db_state w' = Settled
    \<and> w_cancels w' = w_cancels w \<and> d_order_meta w' = d_order_meta w
    \<and> (\<exists>pnl. TradeClosed (b_trade_id (d_basket w)) (lit (1/2)) pnl \<in> set (w_ops w'))"
proof -
  note close = calm_database.close_settles [OF calm_database.intro [OF assms(1)] assms(2), of w yes_price no_price]
  have flat: "flat_since w w" using assms(3) by (simp add: flat_since_def)
  obtain r w' where e: "live_dual_close env yes_price no_price w = (r, w')" by force
  show ?thesis
  proof (cases r)
    case (Inl err)
    with hoareD(2) [OF close flat] e show ?thesis by simp
  next
    case (Inr over)
    with hoareD(1) [OF close flat] e have "over \<and> closed_since w w'" by simp
    with e Inr show ?thesis by (auto simp: closed_since_def flat_since_def)
  qed
qed

theorem unfilled_basket_settled_witness:
  "\<exists>w'. live_dual_close calm_env (Fin (1 / 2)) (Fin (1 / 2)) (dual_world_of sample_basket) = (Inr True, w')
    \<and> w_db_state w' = Settled \<and> w_cancels w' = [] \<and> length (d_order_meta w') = 2"
  using unfilled_basket_settled [of calm_env "dual_world_of sample_basket" "Fin (1 / 2)" "Fin (1 / 2)"]
  by (auto simp: calm_env_def dual_world_of_def sample_basket_def sample_leg_def legs_flat_def)

end
