(* ===== verification/Json_Decimal.thy ===== *)
theory Json_Decimal
  imports Bot_Core Rust_Text
begin

text \<open>
  The two libraries the pair-lock strategies compute with: \<open>serde_json\<close> values, as a datatype whose
  numbers carry their text and whose objects are association lists, and \<open>rust_decimal\<close> numbers, as
  rationals. Every decimal operation of the code passes its exact result through the rounding
  \<open>dx_round\<close> of the library, which is a parameter with the laws \<open>decimal_laws\<close>: a decimal has a
  96-bit coefficient and at most 28 fractional digits, so that a result below 79228 that is a
  multiple of 10^-24 is exact, and any result below 79228 is off by at most 10^-23; rounding is monotone; and reading a literal of
  twelve fractional digits gives a number of at most twelve fractional digits and of its sign. The panics of the library beyond 2^96 are not modelled.
\<close>

section \<open>JSON values\<close>

datatype json = JNull | JBool bool | JNum string | JStr string | JArr "json list" | JObj "(string \<times> json) list"

text \<open>\<open>Value::get\<close>, \<open>as_object().get\<close>, \<open>as_array\<close>, \<open>as_str\<close>, \<open>as_bool\<close>.\<close>

fun json_get :: "json \<Rightarrow> string \<Rightarrow> json option" where
  "json_get (JObj kvs) key = map_of kvs key"
| "json_get _ _ = None"

fun json_object :: "json \<Rightarrow> (string \<times> json) list option" where
  "json_object (JObj kvs) = Some kvs"
| "json_object _ = None"

fun json_array :: "json \<Rightarrow> json list option" where
  "json_array (JArr vs) = Some vs"
| "json_array _ = None"

fun json_str :: "json \<Rightarrow> string option" where
  "json_str (JStr s) = Some s"
| "json_str _ = None"

fun json_bool :: "json \<Rightarrow> bool option" where
  "json_bool (JBool b) = Some b"
| "json_bool _ = None"

definition to_ascii_uppercase :: "string \<Rightarrow> string" where
  "to_ascii_uppercase = map (\<lambda>c.
     unwrap_or c (map_of (zip ''abcdefghijklmnopqrstuvwxyz'' ''ABCDEFGHIJKLMNOPQRSTUVWXYZ'') c))"

text \<open>\<open>collect::<Result<Vec<_>>>\<close>: the values, or the first error.\<close>

fun res_list :: "('a \<Rightarrow> ('e, 'b) result) \<Rightarrow> 'a list \<Rightarrow> ('e, 'b list) result" where
  "res_list f [] = Inr []"
| "res_list f (x # xs) = res_bind (f x) (\<lambda>y. res_bind (res_list f xs) (\<lambda>ys. Inr (y # ys)))"

lemma res_list_ok: "res_list f xs = Inr ys \<longleftrightarrow> list_all2 (\<lambda>x y. f x = Inr y) xs ys"
  by (induction xs arbitrary: ys) (auto simp: res_bind_ok list_all2_Cons1)

lemma res_list_all: "res_list f xs = Inr ys \<Longrightarrow> (\<And>x y. f x = Inr y \<Longrightarrow> P y) \<Longrightarrow> list_all P ys"
  unfolding res_list_ok by (induction rule: list_all2_induct) auto

section \<open>Decimals\<close>

type_synonym decimal = rat

record dec_env =
  dx_round :: "rat \<Rightarrow> decimal"
  dx_parse :: "string \<Rightarrow> decimal option"
  dx_read :: "rat \<Rightarrow> decimal option"
  dx_show :: "decimal \<Rightarrow> string"
  dx_to_f64 :: "decimal \<Rightarrow> f64"

definition dadd :: "dec_env \<Rightarrow> decimal \<Rightarrow> decimal \<Rightarrow> decimal" where "dadd dx a b = dx_round dx (a + b)"
definition dsub :: "dec_env \<Rightarrow> decimal \<Rightarrow> decimal \<Rightarrow> decimal" where "dsub dx a b = dx_round dx (a - b)"
definition dmul :: "dec_env \<Rightarrow> decimal \<Rightarrow> decimal \<Rightarrow> decimal" where "dmul dx a b = dx_round dx (a * b)"
definition ddiv :: "dec_env \<Rightarrow> decimal \<Rightarrow> decimal \<Rightarrow> decimal" where "ddiv dx a b = dx_round dx (a / b)"

lemmas decimal_ops = dadd_def dsub_def dmul_def ddiv_def

definition dec_limit :: rat where "dec_limit = 79228"
definition dec_error :: rat where "dec_error = 1 / 10 ^ 23"

text \<open>A rational with at most n fractional digits.\<close>

definition digits :: "nat \<Rightarrow> rat \<Rightarrow> bool" where
  "digits n q \<longleftrightarrow> q * 10 ^ n \<in> \<int>"

definition decimal_laws :: "dec_env \<Rightarrow> bool" where
  "decimal_laws dx \<longleftrightarrow>
     (\<forall>q. digits 24 q \<and> \<bar>q\<bar> \<le> dec_limit \<longrightarrow> dx_round dx q = q)
     \<and> (\<forall>q. \<bar>q\<bar> \<le> dec_limit \<longrightarrow> \<bar>dx_round dx q - q\<bar> \<le> dec_error)
     \<and> (\<forall>p q. p \<le> q \<longrightarrow> dx_round dx p \<le> dx_round dx q)
     \<and> (\<forall>q d. digits 12 q \<and> dx_read dx q = Some d \<longrightarrow> digits 12 d \<and> (0 \<le> q \<longrightarrow> 0 \<le> d))"

lemma digits_int: "digits n (of_int k)"
  by (simp add: digits_def)

lemma digits_add: "digits n a \<Longrightarrow> digits n b \<Longrightarrow> digits n (a + b)"
  by (simp add: digits_def algebra_simps)

lemma digits_diff: "digits n a \<Longrightarrow> digits n b \<Longrightarrow> digits n (a - b)"
  by (simp add: digits_def algebra_simps)

lemma digits_mult: "digits m a \<Longrightarrow> digits n b \<Longrightarrow> digits (m + n) (a * b)"
proof -
  assume "digits m a" "digits n b"
  then have "(a * 10 ^ m) * (b * 10 ^ n) \<in> \<int>" unfolding digits_def by (rule Ints_mult)
  then show ?thesis by (simp add: digits_def power_add algebra_simps)
qed

lemma digits_mono: "digits m a \<Longrightarrow> m \<le> n \<Longrightarrow> digits n a"
  using digits_mult [of m a "n - m" 1] digits_int [of "n - m" 1] by simp

lemma dec_exact: "decimal_laws dx \<Longrightarrow> digits 24 q \<Longrightarrow> \<bar>q\<bar> \<le> dec_limit \<Longrightarrow> dx_round dx q = q"
  and dec_close: "decimal_laws dx \<Longrightarrow> \<bar>q\<bar> \<le> dec_limit \<Longrightarrow> \<bar>dx_round dx q - q\<bar> \<le> dec_error"
  and dec_mono: "decimal_laws dx \<Longrightarrow> p \<le> q \<Longrightarrow> dx_round dx p \<le> dx_round dx q"
  and dec_read: "decimal_laws dx \<Longrightarrow> digits 12 q \<Longrightarrow> dx_read dx q = Some d \<Longrightarrow> digits 12 d \<and> (0 \<le> q \<longrightarrow> 0 \<le> d)"
  by (auto simp: decimal_laws_def)

lemma dec_zero: "decimal_laws dx \<Longrightarrow> dx_round dx 0 = 0"
  by (rule dec_exact) (simp_all add: digits_def dec_limit_def)

lemma dec_nonneg: "decimal_laws dx \<Longrightarrow> 0 \<le> q \<Longrightarrow> 0 \<le> dx_round dx q"
  using dec_mono [of dx 0 q] dec_zero [of dx] by simp

text \<open>A rounding to 24 digits satisfies the laws.\<close>

definition sample_dec :: dec_env where
  "sample_dec = \<lparr>dx_round = \<lambda>q. of_int \<lfloor>q * 10 ^ 24 + 1 / 2\<rfloor> / 10 ^ 24, dx_parse = \<lambda>_. None, dx_read = Some,
     dx_show = \<lambda>q. show_nat (nat \<lfloor>q * 10 ^ 6\<rfloor>), dx_to_f64 = lit\<rparr>"

lemma sample_dec_laws: "decimal_laws sample_dec"
proof -
  let ?r = "\<lambda>q :: rat. of_int \<lfloor>q * 10 ^ 24 + 1 / 2\<rfloor> / 10 ^ 24 :: rat"
  have exact: "?r q = q" if "digits 24 q" for q
  proof -
    from that obtain k where k: "q * 10 ^ 24 = of_int k" unfolding digits_def by (auto elim: Ints_cases)
    have f: "\<lfloor>q * 10 ^ 24 + 1 / 2\<rfloor> = k" unfolding k by linarith
    have "q = of_int k / 10 ^ 24" using k by (simp add: field_simps)
    then show ?thesis unfolding f ..
  qed
  have close: "\<bar>?r q - q\<bar> \<le> dec_error" for q
  proof -
    have "\<bar>of_int \<lfloor>q * 10 ^ 24 + 1 / 2\<rfloor> - q * 10 ^ 24\<bar> \<le> 1 / 2" by linarith
    then have "\<bar>(of_int \<lfloor>q * 10 ^ 24 + 1 / 2\<rfloor> - q * 10 ^ 24) / 10 ^ 24\<bar> \<le> (1 / 2) / 10 ^ 24"
      by (simp add: abs_divide divide_right_mono)
    then show ?thesis by (simp add: dec_error_def diff_divide_distrib)
  qed
  have "?r p \<le> ?r q" if "p \<le> q" for p q
    using that by (intro divide_right_mono) (simp_all add: floor_mono)
  with exact close show ?thesis by (simp add: decimal_laws_def sample_dec_def)
qed

end
