(* ===== verification/Avg_Rebound.thy ===== *)
theory Avg_Rebound
  imports Json_Decimal Exit_Math "HOL-Library.Char_ord" "HOL-Library.List_Lexorder"
begin

text \<open>
  The strategy \<open>avg_rebound_pairlock_rescue_v1\<close> of the trade builder
  (\<open>bot-runner/src/trade_builder/avg_rebound_pairlock_rescue\<close>): a session buys a ladder of tiers of
  one outcome at falling prices and locks pairs by buying the opposite outcome, at a profit when a
  stage's legs allow it, or in rescue once the whole ladder is held. All orders are fill-or-kill. The
  file has the configuration with its resolution from JSON, the execution price over an order book, the
  decisions, and the state the database derives from the fills. Diagnostic JSON is left out;
  a rejection is a value that names its reason and the amounts it reports.
\<close>

section \<open>Configuration\<close>

record avg_tier =
  tier_id :: string
  tier_price_cap :: decimal
  tier_qty :: decimal

record avg_profit_leg =
  leg_id :: string
  leg_opposite_vwap_cap :: decimal
  leg_qty :: decimal

record avg_guard =
  gg_trigger :: decimal
  gg_max_execution_vwap :: decimal

record avg_stage =
  sg_id :: string
  sg_required_primary_tier_ids :: "string list"
  sg_profit_legs :: "avg_profit_leg list"
  sg_giveback_guard :: avg_guard

record avg_rescue =
  rs_enabled_only_after_full_ladder :: bool
  rs_normal_vwap_cap :: decimal
  rs_emergency_vwap_cap :: decimal
  rs_hard_max_vwap_cap :: decimal
  rs_last_chance_vwap_cap :: "decimal option"

record avg_config =
  av_session_budget_usdc :: decimal
  av_reserved_budget_buffer_usdc :: decimal
  av_primary_outcome_label :: string
  av_opposite_outcome_label :: string
  av_primary_side_selection :: string
  av_order_type :: string
  av_execution_mode :: string
  av_vwap_source :: string
  av_extra_vwap_safety_buffer :: decimal
  av_target_profit_usdc :: "decimal option"
  av_allow_primary_after_partial_profit :: bool
  av_pre_full_giveback_guard_enabled :: bool
  av_full_giveback_guard_enabled :: bool
  av_primary_ladder :: "avg_tier list"
  av_stages :: "avg_stage list"
  av_rescue :: avg_rescue

record rescue_node =
  fn_key :: string
  fn_node_type :: string
  fn_config :: json

definition avg_rebound_config_key :: string where "avg_rebound_config_key = ''avgReboundPairlockRescue''"
definition avg_rebound_side_selection_cheapest_eligible :: string where
  "avg_rebound_side_selection_cheapest_eligible = ''cheapest_eligible''"

definition avg_rebound_default_config :: avg_config where
  "avg_rebound_default_config = \<lparr>
     av_session_budget_usdc = 50, av_reserved_budget_buffer_usdc = 75/100,
     av_primary_outcome_label = ''auto'', av_opposite_outcome_label = ''opposite'',
     av_primary_side_selection = avg_rebound_side_selection_cheapest_eligible,
     av_order_type = ''FOK'', av_execution_mode = ''limit'', av_vwap_source = ''rest_book'',
     av_extra_vwap_safety_buffer = 5/1000, av_target_profit_usdc = None,
     av_allow_primary_after_partial_profit = True, av_pre_full_giveback_guard_enabled = False,
     av_full_giveback_guard_enabled = True,
     av_primary_ladder = [
       \<lparr>tier_id = ''p50'', tier_price_cap = 50/100, tier_qty = 8\<rparr>,
       \<lparr>tier_id = ''p30'', tier_price_cap = 30/100, tier_qty = 15\<rparr>,
       \<lparr>tier_id = ''p10'', tier_price_cap = 10/100, tier_qty = 24\<rparr>],
     av_stages = [
       \<lparr>sg_id = ''stage_50'', sg_required_primary_tier_ids = [''p50''],
        sg_profit_legs = [
          \<lparr>leg_id = ''s50_profit_45'', leg_opposite_vwap_cap = 45/100, leg_qty = 4\<rparr>,
          \<lparr>leg_id = ''s50_profit_40'', leg_opposite_vwap_cap = 40/100, leg_qty = 4\<rparr>],
        sg_giveback_guard = \<lparr>gg_trigger = 47/100, gg_max_execution_vwap = 47/100\<rparr>\<rparr>,
       \<lparr>sg_id = ''stage_30'', sg_required_primary_tier_ids = [''p50'', ''p30''],
        sg_profit_legs = [
          \<lparr>leg_id = ''s30_profit_59'', leg_opposite_vwap_cap = 59/100, leg_qty = 8\<rparr>,
          \<lparr>leg_id = ''s30_profit_52'', leg_opposite_vwap_cap = 52/100, leg_qty = 8\<rparr>,
          \<lparr>leg_id = ''s30_profit_45'', leg_opposite_vwap_cap = 45/100, leg_qty = 7\<rparr>],
        sg_giveback_guard = \<lparr>gg_trigger = 63/100, gg_max_execution_vwap = 63/100\<rparr>\<rparr>,
       \<lparr>sg_id = ''stage_full'', sg_required_primary_tier_ids = [''p50'', ''p30'', ''p10''],
        sg_profit_legs = [
          \<lparr>leg_id = ''full_profit_72'', leg_opposite_vwap_cap = 72/100, leg_qty = 15\<rparr>,
          \<lparr>leg_id = ''full_profit_64'', leg_opposite_vwap_cap = 64/100, leg_qty = 16\<rparr>,
          \<lparr>leg_id = ''full_profit_54'', leg_opposite_vwap_cap = 54/100, leg_qty = 16\<rparr>],
        sg_giveback_guard = \<lparr>gg_trigger = 76/100, gg_max_execution_vwap = 78/100\<rparr>\<rparr>],
     av_rescue = \<lparr>rs_enabled_only_after_full_ladder = True, rs_normal_vwap_cap = 78/100,
       rs_emergency_vwap_cap = 81/100, rs_hard_max_vwap_cap = 81/100, rs_last_chance_vwap_cap = None\<rparr>\<rparr>"

definition avg_rebound_config_root :: "rescue_node \<Rightarrow> json option" where
  "avg_rebound_config_root node = json_get (fn_config node) avg_rebound_config_key"

definition avg_rebound_config_value :: "rescue_node \<Rightarrow> string \<Rightarrow> json option" where
  "avg_rebound_config_value node key =
     or_opt (Option.bind (avg_rebound_config_root node) (\<lambda>v. json_get v key)) (json_get (fn_config node) key)"

definition avg_rebound_value_decimal :: "dec_env \<Rightarrow> json \<Rightarrow> (string, decimal) result" where
  "avg_rebound_value_decimal dx v = (case v of
     JStr s \<Rightarrow> ok_or (''invalid decimal: '' @ s) (dx_parse dx (trim s))
   | JNum n \<Rightarrow> ok_or (''invalid decimal: '' @ n) (dx_parse dx n)
   | _ \<Rightarrow> Inl ''expected decimal string or number'')"

definition avg_rebound_config_decimal :: "dec_env \<Rightarrow> rescue_node \<Rightarrow> string \<Rightarrow> (string, decimal option) result" where
  "avg_rebound_config_decimal dx node key = (case avg_rebound_config_value node key of
     None \<Rightarrow> Inr None
   | Some v \<Rightarrow> with_context (''avgReboundPairlockRescue.'' @ key @ '' must be a decimal'')
       (res_bind (avg_rebound_value_decimal dx v) (\<lambda>d. Inr (Some d))))"

definition avg_rebound_value_string :: "json option \<Rightarrow> string \<Rightarrow> string" where
  "avg_rebound_value_string v dflt =
     unwrap_or dflt (filter_opt (\<lambda>s. s \<noteq> []) (map_option trim (Option.bind v json_str)))"

definition avg_rebound_value_bool :: "json option \<Rightarrow> bool \<Rightarrow> bool" where
  "avg_rebound_value_bool v dflt = (case v of
     Some (JBool b) \<Rightarrow> b
   | Some (JStr s) \<Rightarrow>
       let word = to_ascii_lowercase (trim s)
       in if word \<in> {''true'', ''1'', ''yes'', ''on''} then True
          else if word \<in> {''false'', ''0'', ''no'', ''off''} then False
          else dflt
   | _ \<Rightarrow> dflt)"

definition avg_rebound_parse_primary_tier :: "dec_env \<Rightarrow> json \<Rightarrow> (string, avg_tier) result" where
  "avg_rebound_parse_primary_tier dx v =
     res_bind (ok_or ''primaryLadder entries must be objects'' (json_object v)) (\<lambda>kvs.
     let id = avg_rebound_value_string (map_of kvs ''id'') []
     in res_bind (ensure (id \<noteq> []) ''primaryLadder entries require id'') (\<lambda>_.
     res_bind (res_bind (ok_or (''primaryLadder.'' @ id @ ''.priceCap is required'') (map_of kvs ''priceCap''))
         (avg_rebound_value_decimal dx)) (\<lambda>price_cap.
     res_bind (res_bind (ok_or (''primaryLadder.'' @ id @ ''.qty is required'') (map_of kvs ''qty''))
         (avg_rebound_value_decimal dx)) (\<lambda>qty.
     res_bind (ensure (0 < price_cap \<and> price_cap < 1) (''primaryLadder.'' @ id @ ''.priceCap must be in (0, 1)'')) (\<lambda>_.
     res_bind (ensure (0 < qty) (''primaryLadder.'' @ id @ ''.qty must be > 0'')) (\<lambda>_.
       Inr \<lparr>tier_id = id, tier_price_cap = price_cap, tier_qty = qty\<rparr>))))))"

definition avg_rebound_parse_profit_leg :: "dec_env \<Rightarrow> json \<Rightarrow> (string, avg_profit_leg) result" where
  "avg_rebound_parse_profit_leg dx v =
     res_bind (ok_or ''profitLegs entries must be objects'' (json_object v)) (\<lambda>kvs.
     let id = avg_rebound_value_string (map_of kvs ''id'') []
     in res_bind (ensure (id \<noteq> []) ''profitLegs entries require id'') (\<lambda>_.
     res_bind (res_bind (ok_or (''profitLegs.'' @ id @ ''.oppositeVwapCap is required'') (map_of kvs ''oppositeVwapCap''))
         (avg_rebound_value_decimal dx)) (\<lambda>cap.
     res_bind (res_bind (ok_or (''profitLegs.'' @ id @ ''.qty is required'') (map_of kvs ''qty''))
         (avg_rebound_value_decimal dx)) (\<lambda>qty.
     res_bind (ensure (0 < cap \<and> cap < 1) (''profitLegs.'' @ id @ ''.oppositeVwapCap must be in (0, 1)'')) (\<lambda>_.
     res_bind (ensure (0 < qty) (''profitLegs.'' @ id @ ''.qty must be > 0'')) (\<lambda>_.
       Inr \<lparr>leg_id = id, leg_opposite_vwap_cap = cap, leg_qty = qty\<rparr>))))))"

definition avg_rebound_parse_stage :: "dec_env \<Rightarrow> json \<Rightarrow> (string, avg_stage) result" where
  "avg_rebound_parse_stage dx v =
     res_bind (ok_or ''stages entries must be objects'' (json_object v)) (\<lambda>kvs.
     let id = avg_rebound_value_string (map_of kvs ''id'') []
     in res_bind (ensure (id \<noteq> []) ''stages entries require id'') (\<lambda>_.
     res_bind (ok_or (''stage '' @ id @ '' requires requiredPrimaryTierIds'')
         (Option.bind (map_of kvs ''requiredPrimaryTierIds'') json_array)) (\<lambda>ids.
     let required = filter (\<lambda>s. s \<noteq> []) (map trim (List.map_filter json_str ids))
     in res_bind (ensure (required \<noteq> []) (''stage '' @ id @ '' requires at least one primary tier id'')) (\<lambda>_.
     res_bind (res_bind (ok_or (''stage '' @ id @ '' requires profitLegs'') (Option.bind (map_of kvs ''profitLegs'') json_array))
         (res_list (avg_rebound_parse_profit_leg dx))) (\<lambda>legs.
     res_bind (ok_or (''stage '' @ id @ '' requires givebackGuard'') (Option.bind (map_of kvs ''givebackGuard'') json_object)) (\<lambda>guard.
     res_bind (res_bind (ok_or (''stage '' @ id @ '' givebackGuard.trigger is required'') (map_of guard ''trigger''))
         (avg_rebound_value_decimal dx)) (\<lambda>trigger.
     res_bind (res_bind (ok_or (''stage '' @ id @ '' givebackGuard.maxExecutionVwap is required'') (map_of guard ''maxExecutionVwap''))
         (avg_rebound_value_decimal dx)) (\<lambda>max_vwap.
       Inr \<lparr>sg_id = id, sg_required_primary_tier_ids = required, sg_profit_legs = legs,
         sg_giveback_guard = \<lparr>gg_trigger = trigger, gg_max_execution_vwap = max_vwap\<rparr>\<rparr>))))))))"

text \<open>The sides of a binary market.\<close>

definition normalize_pair_lock_binary_outcome :: "string \<Rightarrow> string option" where
  "normalize_pair_lock_binary_outcome label =
    (let word = to_ascii_lowercase (trim label)
     in if word \<in> {''yes'', ''up'', ''true'', ''1''} then Some ''yes''
        else if word \<in> {''no'', ''down'', ''false'', ''0''} then Some ''no''
        else None)"

definition avg_rebound_normalized_side :: "string \<Rightarrow> (string, string) result" where
  "avg_rebound_normalized_side label =
     ok_or ''avg_rebound_pairlock_rescue_v1 supports only binary YES/NO or Up/Down labels''
       (normalize_pair_lock_binary_outcome label)"

definition avg_rebound_primary_outcome_is_auto :: "avg_config \<Rightarrow> bool" where
  "avg_rebound_primary_outcome_is_auto config \<longleftrightarrow>
     eq_ignore_ascii_case (trim (av_primary_outcome_label config)) ''auto''"

text \<open>The rescue caps: each one overwrites its default when it is given.\<close>

definition rescue_cap :: "dec_env \<Rightarrow> (string \<times> json) list \<Rightarrow> string \<Rightarrow> decimal \<Rightarrow> (string, decimal) result" where
  "rescue_cap dx kvs key dflt = (case map_of kvs key of None \<Rightarrow> Inr dflt | Some v \<Rightarrow> avg_rebound_value_decimal dx v)"

definition resolve_avg_rebound_rescue :: "dec_env \<Rightarrow> rescue_node \<Rightarrow> avg_rescue \<Rightarrow> (string, avg_rescue) result" where
  "resolve_avg_rebound_rescue dx node rescue =
    (case Option.bind (avg_rebound_config_value node ''rescue'') json_object of
       None \<Rightarrow> Inr rescue
     | Some kvs \<Rightarrow>
         res_bind (rescue_cap dx kvs ''normalVwapCap'' (rs_normal_vwap_cap rescue)) (\<lambda>normal.
         res_bind (rescue_cap dx kvs ''emergencyVwapCap'' (rs_emergency_vwap_cap rescue)) (\<lambda>emergency.
         res_bind (rescue_cap dx kvs ''hardMaxVwapCap'' (rs_hard_max_vwap_cap rescue)) (\<lambda>hard.
         res_bind (case map_of kvs ''lastChanceVwapCap'' of None \<Rightarrow> Inr (rs_last_chance_vwap_cap rescue)
             | Some v \<Rightarrow> res_bind (avg_rebound_value_decimal dx v) (\<lambda>d. Inr (Some d))) (\<lambda>last_chance.
           Inr \<lparr>rs_enabled_only_after_full_ladder =
                  avg_rebound_value_bool (map_of kvs ''enabledOnlyAfterFullLadder'') (rs_enabled_only_after_full_ladder rescue),
                rs_normal_vwap_cap = normal, rs_emergency_vwap_cap = emergency, rs_hard_max_vwap_cap = hard,
                rs_last_chance_vwap_cap = last_chance\<rparr>)))))"

definition list_or_default :: "rescue_node \<Rightarrow> string \<Rightarrow> (json \<Rightarrow> (string, 'a) result) \<Rightarrow> 'a list \<Rightarrow> (string, 'a list) result" where
  "list_or_default node key parse dflt =
    (case Option.bind (avg_rebound_config_value node key) json_array of None \<Rightarrow> Inr dflt | Some vs \<Rightarrow> res_list parse vs)"

text \<open>The checks at the end, on the whole configuration.\<close>

definition check_avg_rebound_config :: "avg_config \<Rightarrow> (string, avg_config) result" where
  "check_avg_rebound_config config =
     res_bind (first_err [
       ensure (av_order_type config = ''FOK'') ''avg_rebound_pairlock_rescue_v1 supports only orderType=FOK in v1'',
       ensure (av_execution_mode config = ''limit'') ''avg_rebound_pairlock_rescue_v1 supports only executionMode=limit'',
       ensure (av_vwap_source config = ''rest_book'') ''avg_rebound_pairlock_rescue_v1 supports only vwapSource=rest_book'',
       (if avg_rebound_primary_outcome_is_auto config
        then ensure (av_primary_side_selection config = avg_rebound_side_selection_cheapest_eligible)
          ''avg_rebound_pairlock_rescue_v1 primaryOutcomeLabel=auto requires primarySideSelection=cheapest_eligible''
        else res_bind (avg_rebound_normalized_side (av_primary_outcome_label config)) (\<lambda>_. Inr ())),
       ensure (av_primary_side_selection config = avg_rebound_side_selection_cheapest_eligible)
         ''avg_rebound_pairlock_rescue_v1 primarySideSelection must be cheapest_eligible'',
       ensure (0 < av_session_budget_usdc config) ''sessionBudgetUsdc must be > 0'',
       ensure (0 \<le> av_reserved_budget_buffer_usdc config
           \<and> av_reserved_budget_buffer_usdc config < av_session_budget_usdc config)
         ''reservedBudgetBufferUsdc must be >= 0 and less than sessionBudgetUsdc'',
       ensure (av_primary_ladder config \<noteq> []) ''primaryLadder must not be empty'',
       ensure (av_stages config \<noteq> []) ''stages must not be empty'']) (\<lambda>_. Inr config)"

definition resolve_avg_rebound_pairlock_rescue_config :: "dec_env \<Rightarrow> rescue_node \<Rightarrow> (string, avg_config) result" where
  "resolve_avg_rebound_pairlock_rescue_config dx node =
    (let d = avg_rebound_default_config;
         text = (\<lambda>key dflt. avg_rebound_value_string (avg_rebound_config_value node key) dflt);
         flag = (\<lambda>key dflt. avg_rebound_value_bool (avg_rebound_config_value node key) dflt)
     in res_bind (avg_rebound_config_decimal dx node ''sessionBudgetUsdc'') (\<lambda>budget.
        res_bind (avg_rebound_config_decimal dx node ''reservedBudgetBufferUsdc'') (\<lambda>reserved.
        res_bind (avg_rebound_config_decimal dx node ''extraVwapSafetyBuffer'') (\<lambda>safety.
        res_bind (avg_rebound_config_decimal dx node ''targetProfitUsdc'') (\<lambda>profit.
        res_bind (case profit of None \<Rightarrow> Inr () | Some v \<Rightarrow> ensure (0 \<le> v) ''targetProfitUsdc must be >= 0'') (\<lambda>_.
        res_bind (list_or_default node ''primaryLadder'' (avg_rebound_parse_primary_tier dx) (av_primary_ladder d)) (\<lambda>ladder.
        res_bind (list_or_default node ''stages'' (avg_rebound_parse_stage dx) (av_stages d)) (\<lambda>stages.
        res_bind (resolve_avg_rebound_rescue dx node (av_rescue d)) (\<lambda>rescue.
          check_avg_rebound_config \<lparr>
            av_session_budget_usdc = unwrap_or (av_session_budget_usdc d) budget,
            av_reserved_budget_buffer_usdc = unwrap_or (av_reserved_budget_buffer_usdc d) reserved,
            av_primary_outcome_label = text ''primaryOutcomeLabel'' (av_primary_outcome_label d),
            av_opposite_outcome_label = text ''oppositeOutcomeLabel'' (av_opposite_outcome_label d),
            av_primary_side_selection = to_ascii_lowercase (text ''primarySideSelection'' (av_primary_side_selection d)),
            av_order_type = to_ascii_uppercase (text ''orderType'' (av_order_type d)),
            av_execution_mode = to_ascii_lowercase (text ''executionMode'' (av_execution_mode d)),
            av_vwap_source = to_ascii_lowercase (text ''vwapSource'' (av_vwap_source d)),
            av_extra_vwap_safety_buffer = unwrap_or (av_extra_vwap_safety_buffer d) safety,
            av_target_profit_usdc = or_opt profit (av_target_profit_usdc d),
            av_allow_primary_after_partial_profit =
              flag ''allowPrimaryAfterPartialProfit'' (av_allow_primary_after_partial_profit d),
            av_pre_full_giveback_guard_enabled = flag ''preFullGivebackGuardEnabled'' (av_pre_full_giveback_guard_enabled d),
            av_full_giveback_guard_enabled = flag ''fullGivebackGuardEnabled'' (av_full_giveback_guard_enabled d),
            av_primary_ladder = ladder, av_stages = stages, av_rescue = rescue\<rparr>)))))))))"

section \<open>State\<close>

record avg_state =
  as_session_id :: "i64 option"
  as_session_status :: "string option"
  as_primary_total_qty :: decimal
  as_primary_total_cost :: decimal
  as_avg_primary_cost :: "decimal option"
  as_opposite_filled_qty :: decimal
  as_opposite_total_cost :: decimal
  as_open_primary_qty :: decimal
  as_locked_pnl :: decimal
  as_profit_started :: bool
  as_primary_tier_ids :: "string list"
  as_opposite_leg_ids :: "string list"

definition default_avg_state :: avg_state where
  "default_avg_state = \<lparr>as_session_id = None, as_session_status = None, as_primary_total_qty = 0, as_primary_total_cost = 0,
     as_avg_primary_cost = None, as_opposite_filled_qty = 0, as_opposite_total_cost = 0, as_open_primary_qty = 0,
     as_locked_pnl = 0, as_profit_started = False, as_primary_tier_ids = [], as_opposite_leg_ids = []\<rparr>"

text \<open>\<open>format!("{value:.12}")\<close> prints the value rounded half-even to twelve digits.\<close>

definition avg_rebound_decimal_from_f64 :: "dec_env \<Rightarrow> f64 \<Rightarrow> decimal" where
  "avg_rebound_decimal_from_f64 dx v =
    (if \<not> is_finite v then 0 else unwrap_or 0 (dx_read dx (of_int (half_even (fval v * 10 ^ 12)) / 10 ^ 12)))"

definition avg_rebound_has_primary_tier :: "avg_state \<Rightarrow> string \<Rightarrow> bool" where
  "avg_rebound_has_primary_tier state tier \<longleftrightarrow> tier \<in> set (as_primary_tier_ids state)"

definition avg_rebound_has_opposite_leg :: "avg_state \<Rightarrow> string \<Rightarrow> bool" where
  "avg_rebound_has_opposite_leg state leg \<longleftrightarrow> leg \<in> set (as_opposite_leg_ids state)"

definition avg_rebound_stage_is_ready :: "avg_state \<Rightarrow> avg_stage \<Rightarrow> bool" where
  "avg_rebound_stage_is_ready state stage \<longleftrightarrow>
     list_all (avg_rebound_has_primary_tier state) (sg_required_primary_tier_ids stage)"

text \<open>\<open>max_by_key\<close> returns the last of the maximal elements.\<close>

definition max_by_key :: "('a \<Rightarrow> nat) \<Rightarrow> 'a list \<Rightarrow> 'a option" where
  "max_by_key key xs = fold (\<lambda>x best. case best of None \<Rightarrow> Some x
     | Some y \<Rightarrow> if key y \<le> key x then Some x else Some y) xs None"

definition avg_rebound_current_stage :: "avg_config \<Rightarrow> avg_state \<Rightarrow> avg_stage option" where
  "avg_rebound_current_stage config state =
     max_by_key (\<lambda>stage. length (sg_required_primary_tier_ids stage))
       (filter (avg_rebound_stage_is_ready state) (av_stages config))"

definition avg_rebound_full_ladder_filled :: "avg_config \<Rightarrow> avg_state \<Rightarrow> bool" where
  "avg_rebound_full_ladder_filled config state \<longleftrightarrow>
     list_all (\<lambda>tier. avg_rebound_has_primary_tier state (tier_id tier)) (av_primary_ladder config)"

definition avg_rebound_next_primary_tier :: "avg_config \<Rightarrow> avg_state \<Rightarrow> avg_tier option" where
  "avg_rebound_next_primary_tier config state =
     find (\<lambda>tier. \<not> avg_rebound_has_primary_tier state (tier_id tier)) (av_primary_ladder config)"

definition avg_rebound_budget_limit :: "dec_env \<Rightarrow> avg_config \<Rightarrow> decimal" where
  "avg_rebound_budget_limit dx config = dsub dx (av_session_budget_usdc config) (av_reserved_budget_buffer_usdc config)"

definition avg_rebound_projected_spend_allowed :: "dec_env \<Rightarrow> avg_config \<Rightarrow> avg_state \<Rightarrow> decimal \<Rightarrow> bool" where
  "avg_rebound_projected_spend_allowed dx config state additional_notional \<longleftrightarrow>
     dadd dx (dadd dx (as_primary_total_cost state) (as_opposite_total_cost state)) additional_notional
       \<le> avg_rebound_budget_limit dx config"

definition avg_rebound_qty_min :: "decimal \<Rightarrow> decimal \<Rightarrow> decimal" where
  "avg_rebound_qty_min left right = (if left \<le> right then left else right)"

section \<open>Profit and execution price\<close>

definition avg_rebound_pair_pnl :: "dec_env \<Rightarrow> decimal \<Rightarrow> decimal \<Rightarrow> decimal \<Rightarrow> decimal" where
  "avg_rebound_pair_pnl dx avg_primary_cost opposite_vwap qty =
     dmul dx qty (dsub dx (dsub dx 1 avg_primary_cost) opposite_vwap)"

definition avg_rebound_projected_locked_pnl :: "dec_env \<Rightarrow> avg_state \<Rightarrow> decimal \<Rightarrow> decimal \<Rightarrow> decimal" where
  "avg_rebound_projected_locked_pnl dx state opposite_qty opposite_vwap =
     dadd dx (as_locked_pnl state) (case as_avg_primary_cost state of
         None \<Rightarrow> 0 | Some avg \<Rightarrow> avg_rebound_pair_pnl dx avg opposite_vwap opposite_qty)"

record order_book_level =
  bl_price :: f64
  bl_size :: f64

record order_book_snapshot =
  ob_bids :: "order_book_level list"
  ob_asks :: "order_book_level list"

record vwap_level =
  vl_price :: decimal
  vl_size :: decimal

record vwap_quote =
  vq_requested_qty :: decimal
  vq_limit_price :: decimal
  vq_executable_qty :: decimal
  vq_vwap :: decimal
  vq_notional :: decimal
  vq_best_ask :: "decimal option"
  vq_levels :: "vwap_level list"

record vwap_rejection =
  vr_reason :: string
  vr_requested_qty :: decimal
  vr_limit_price :: decimal
  vr_executable_qty :: decimal
  vr_best_ask :: "decimal option"

definition avg_rebound_order_book_best_ask :: "dec_env \<Rightarrow> order_book_snapshot \<Rightarrow> decimal option" where
  "avg_rebound_order_book_best_ask dx book =
    (case map (\<lambda>level. avg_rebound_decimal_from_f64 dx (bl_price level))
        (filter (\<lambda>level. is_finite (bl_price level) \<and> 0 < bl_price level) (ob_asks book)) of
       [] \<Rightarrow> None | p # ps \<Rightarrow> Some (fold min ps p))"

definition ask_levels :: "dec_env \<Rightarrow> order_book_snapshot \<Rightarrow> vwap_level list" where
  "ask_levels dx book = sort_key vl_price
     (map (\<lambda>level. \<lparr>vl_price = avg_rebound_decimal_from_f64 dx (bl_price level),
        vl_size = avg_rebound_decimal_from_f64 dx (bl_size level)\<rparr>)
      (filter (\<lambda>level. is_finite (bl_price level) \<and> is_finite (bl_size level) \<and> 0 < bl_price level \<and> 0 < bl_size level)
        (ob_asks book)))"

text \<open>The loop over the sorted asks: the quantity still wanted, the quantity and the notional taken, the levels
  used.\<close>

fun take_asks :: "dec_env \<Rightarrow> decimal \<Rightarrow> decimal \<Rightarrow> decimal \<Rightarrow> decimal \<Rightarrow> vwap_level list \<Rightarrow>
    decimal \<times> decimal \<times> vwap_level list" where
  "take_asks dx limit_price remaining executable_qty notional [] = (executable_qty, notional, [])"
| "take_asks dx limit_price remaining executable_qty notional (level # levels) =
    (if limit_price < vl_price level \<or> remaining \<le> 0
     then take_asks dx limit_price remaining executable_qty notional levels
     else let taken = avg_rebound_qty_min (vl_size level) remaining
       in if taken \<le> 0 then take_asks dx limit_price remaining executable_qty notional levels
          else case take_asks dx limit_price (dsub dx remaining taken) (dadd dx executable_qty taken)
              (dadd dx notional (dmul dx taken (vl_price level))) levels of
            (qty, spent, used) \<Rightarrow> (qty, spent, \<lparr>vl_price = vl_price level, vl_size = taken\<rparr> # used))"

definition avg_rebound_vwap_for_fok_limit :: "dec_env \<Rightarrow> order_book_snapshot \<Rightarrow> decimal \<Rightarrow> decimal \<Rightarrow> decimal \<Rightarrow>
    (vwap_rejection, vwap_quote) result" where
  "avg_rebound_vwap_for_fok_limit dx book requested_qty configured_cap safety_buffer =
    (let limit_price = dsub dx configured_cap safety_buffer;
         best_ask = avg_rebound_order_book_best_ask dx book;
         reject = (\<lambda>why executable_qty. Inl \<lparr>vr_reason = why, vr_requested_qty = requested_qty, vr_limit_price = limit_price,
           vr_executable_qty = executable_qty, vr_best_ask = best_ask\<rparr>)
     in if requested_qty \<le> 0 then reject ''invalid_requested_qty'' 0
        else if limit_price \<le> 0 then reject ''non_positive_limit_price'' 0
        else case take_asks dx limit_price requested_qty 0 0 (ask_levels dx book) of
          (executable_qty, notional, used_levels) \<Rightarrow>
            if executable_qty < requested_qty then reject ''insufficient_depth_at_or_below_limit'' executable_qty
            else let vwap = ddiv dx notional requested_qty
              in if limit_price < vwap then reject ''vwap_above_limit'' executable_qty
                 else Inr \<lparr>vq_requested_qty = requested_qty, vq_limit_price = limit_price, vq_executable_qty = executable_qty,
                   vq_vwap = vwap, vq_notional = notional, vq_best_ask = best_ask, vq_levels = used_levels\<rparr>)"

section \<open>Decisions\<close>

record avg_decision =
  ad_session_id :: i64
  ad_leg_role :: string
  ad_intent :: string
  ad_session_status :: string
  ad_stage_id :: "string option"
  ad_tier_or_leg_id :: string
  ad_token_id :: string
  ad_outcome_label :: string
  ad_qty :: decimal
  ad_limit_price :: decimal
  ad_vwap :: decimal
  ad_notional :: decimal
  ad_decision_id :: string
  ad_vwap_quote :: vwap_quote

datatype avg_rejection = MissingSession | VwapRejected vwap_rejection
  | BelowMinNotional decimal decimal decimal
  | BudgetExceeded decimal decimal
  | NoNextPrimaryTier string
  | SideVwapRejected string string vwap_rejection
  | SideBelowMinNotional string string decimal

record token_resolution =
  tr_primary_token_id :: string
  tr_primary_outcome_label :: string
  tr_opposite_token_id :: string
  tr_opposite_outcome_label :: string

record resolved_token_pair =
  rp_yes_token_id :: string
  rp_no_token_id :: string

definition intent_primary_ladder :: string where "intent_primary_ladder = ''PRIMARY_LADDER''"
definition intent_profit_pairlock :: string where "intent_profit_pairlock = ''PROFIT_PAIRLOCK''"
definition intent_giveback_guard :: string where "intent_giveback_guard = ''GIVEBACK_GUARD''"
definition intent_normal_rescue :: string where "intent_normal_rescue = ''NORMAL_RESCUE''"
definition intent_emergency_rescue :: string where "intent_emergency_rescue = ''EMERGENCY_RESCUE''"
definition intent_hard_rescue :: string where "intent_hard_rescue = ''HARD_RESCUE''"
definition intent_last_chance_rescue :: string where "intent_last_chance_rescue = ''LAST_CHANCE_RESCUE''"
definition status_building_primary :: string where "status_building_primary = ''BUILDING_PRIMARY''"
definition status_profit_locking :: string where "status_profit_locking = ''PROFIT_LOCKING''"
definition status_guard_exit :: string where "status_guard_exit = ''GUARD_EXIT''"
definition status_rescue_exit :: string where "status_rescue_exit = ''RESCUE_EXIT''"
definition status_locked :: string where "status_locked = ''LOCKED''"

definition avg_rebound_market_min_notional_usdc :: decimal where "avg_rebound_market_min_notional_usdc = 1"

definition pair_lock_monitor_outcome_labels :: "string option \<Rightarrow> string \<times> string" where
  "pair_lock_monitor_outcome_labels market_slug =
    (case market_slug of
       Some slug \<Rightarrow> if contains slug ''-updown-'' then (''Up'', ''Down'') else (''Yes'', ''No'')
     | None \<Rightarrow> (''Yes'', ''No''))"

definition avg_rebound_token_resolution_for_side :: "resolved_token_pair \<Rightarrow> string \<Rightarrow> string \<Rightarrow> token_resolution" where
  "avg_rebound_token_resolution_for_side resolved market_slug primary_side =
    (case pair_lock_monitor_outcome_labels (Some market_slug) of (yes_label, no_label) \<Rightarrow>
       if primary_side = ''no''
       then \<lparr>tr_primary_token_id = rp_no_token_id resolved, tr_primary_outcome_label = no_label,
          tr_opposite_token_id = rp_yes_token_id resolved, tr_opposite_outcome_label = yes_label\<rparr>
       else \<lparr>tr_primary_token_id = rp_yes_token_id resolved, tr_primary_outcome_label = yes_label,
          tr_opposite_token_id = rp_no_token_id resolved, tr_opposite_outcome_label = no_label\<rparr>)"

record side_candidate =
  sc_side :: string
  sc_tokens :: token_resolution
  sc_primary_book :: order_book_snapshot
  sc_opposite_book :: order_book_snapshot
  sc_quote :: vwap_quote

definition avg_rebound_primary_candidate :: "dec_env \<Rightarrow> avg_config \<Rightarrow> avg_state \<Rightarrow> resolved_token_pair \<Rightarrow> string \<Rightarrow> string \<Rightarrow>
    order_book_snapshot \<Rightarrow> order_book_snapshot \<Rightarrow> (avg_rejection, side_candidate) result" where
  "avg_rebound_primary_candidate dx config state resolved market_slug side primary_book opposite_book =
    (case avg_rebound_next_primary_tier config state of
       None \<Rightarrow> Inl (NoNextPrimaryTier side)
     | Some tier \<Rightarrow>
         (case avg_rebound_vwap_for_fok_limit dx primary_book (tier_qty tier) (tier_price_cap tier) 0 of
            Inl rejection \<Rightarrow> Inl (SideVwapRejected side (tier_id tier) rejection)
          | Inr quote \<Rightarrow>
              if vq_notional quote < avg_rebound_market_min_notional_usdc
              then Inl (SideBelowMinNotional side (tier_id tier) (vq_notional quote))
              else Inr \<lparr>sc_side = side, sc_tokens = avg_rebound_token_resolution_for_side resolved market_slug side,
                sc_primary_book = primary_book, sc_opposite_book = opposite_book, sc_quote = quote\<rparr>))"

text \<open>The order in which \<open>min_by\<close> compares two candidates: price, then notional, then side.\<close>

definition candidate_less :: "side_candidate \<Rightarrow> side_candidate \<Rightarrow> bool" where
  "candidate_less a b \<longleftrightarrow> vq_vwap (sc_quote a) < vq_vwap (sc_quote b)
     \<or> (vq_vwap (sc_quote a) = vq_vwap (sc_quote b) \<and> (vq_notional (sc_quote a) < vq_notional (sc_quote b)
       \<or> (vq_notional (sc_quote a) = vq_notional (sc_quote b) \<and> sc_side a < sc_side b)))"

definition avg_rebound_select_cheapest_primary :: "dec_env \<Rightarrow> avg_config \<Rightarrow> avg_state \<Rightarrow> resolved_token_pair \<Rightarrow> string \<Rightarrow>
    order_book_snapshot \<Rightarrow> order_book_snapshot \<Rightarrow> (avg_rejection list, side_candidate \<times> avg_rejection list) result" where
  "avg_rebound_select_cheapest_primary dx config state resolved market_slug yes_book no_book =
    (let up = avg_rebound_primary_candidate dx config state resolved market_slug ''yes'' yes_book no_book;
         down = avg_rebound_primary_candidate dx config state resolved market_slug ''no'' no_book yes_book
     in case (up, down) of
          (Inr a, Inr b) \<Rightarrow> Inr (if candidate_less b a then b else a, [])
        | (Inr a, Inl r) \<Rightarrow> Inr (a, [r])
        | (Inl r, Inr b) \<Rightarrow> Inr (b, [r])
        | (Inl r, Inl s) \<Rightarrow> Inl [r, s])"

definition avg_rebound_decision_id :: "dec_env \<Rightarrow> i64 \<Rightarrow> string \<Rightarrow> string option \<Rightarrow> string \<Rightarrow> decimal \<Rightarrow> decimal \<Rightarrow> string" where
  "avg_rebound_decision_id dx session_id intent stage_id tier_or_leg_id qty limit_price =
     show_i64 session_id @ '':'' @ intent @ '':'' @ unwrap_or ''none'' stage_id @ '':'' @ tier_or_leg_id @ '':''
       @ dx_show dx qty @ '':'' @ dx_show dx limit_price"

definition avg_rebound_build_decision :: "dec_env \<Rightarrow> avg_config \<Rightarrow> avg_state \<Rightarrow> string \<Rightarrow> string \<Rightarrow> string \<Rightarrow> string \<Rightarrow> string \<Rightarrow>
    string option \<Rightarrow> string \<Rightarrow> decimal \<Rightarrow> decimal \<Rightarrow> order_book_snapshot \<Rightarrow> (avg_rejection, avg_decision) result" where
  "avg_rebound_build_decision dx config state token_id outcome_label leg_role intent session_status stage_id tier_or_leg_id qty cap book =
    (case as_session_id state of
       None \<Rightarrow> Inl MissingSession
     | Some session_id \<Rightarrow>
         let safety_buffer = (if leg_role = ''opposite'' then av_extra_vwap_safety_buffer config else 0)
         in case avg_rebound_vwap_for_fok_limit dx book qty cap safety_buffer of
              Inl rejection \<Rightarrow> Inl (VwapRejected rejection)
            | Inr quote \<Rightarrow>
                if vq_notional quote < avg_rebound_market_min_notional_usdc
                then Inl (BelowMinNotional (vq_notional quote) qty cap)
                else if \<not> avg_rebound_projected_spend_allowed dx config state (vq_notional quote)
                then Inl (BudgetExceeded
                  (dadd dx (dadd dx (as_primary_total_cost state) (as_opposite_total_cost state)) (vq_notional quote))
                  (avg_rebound_budget_limit dx config))
                else Inr \<lparr>ad_session_id = session_id, ad_leg_role = leg_role, ad_intent = intent,
                  ad_session_status = session_status, ad_stage_id = stage_id, ad_tier_or_leg_id = tier_or_leg_id,
                  ad_token_id = token_id, ad_outcome_label = outcome_label, ad_qty = qty,
                  ad_limit_price = vq_limit_price quote, ad_vwap = vq_vwap quote, ad_notional = vq_notional quote,
                  ad_decision_id = avg_rebound_decision_id dx session_id intent stage_id tier_or_leg_id qty (vq_limit_price quote),
                  ad_vwap_quote = quote\<rparr>)"

definition avg_rebound_next_profit_leg :: "avg_stage \<Rightarrow> avg_state \<Rightarrow> avg_profit_leg option" where
  "avg_rebound_next_profit_leg stage state =
     find (\<lambda>leg. \<not> avg_rebound_has_opposite_leg state (leg_id leg)) (sg_profit_legs stage)"

definition max_raw_cap :: decimal where "max_raw_cap = 999999/1000000"

definition avg_rebound_dynamic_profit_cap :: "dec_env \<Rightarrow> avg_config \<Rightarrow> avg_state \<Rightarrow> decimal \<Rightarrow> (decimal \<times> decimal) option" where
  "avg_rebound_dynamic_profit_cap dx config state qty =
    (case av_target_profit_usdc config of
       None \<Rightarrow> None
     | Some target_profit \<Rightarrow>
         if qty \<le> 0 \<or> as_primary_total_qty state \<le> 0 then None
         else let redeem_qty = avg_rebound_qty_min (as_primary_total_qty state) (dadd dx (as_opposite_filled_qty state) qty);
                  current_total_cost = dadd dx (as_primary_total_cost state) (as_opposite_total_cost state);
                  max_new_opposite_notional = dsub dx (dsub dx redeem_qty current_total_cost) target_profit
              in if max_new_opposite_notional \<le> 0 then None
                 else let effective_cap = ddiv dx max_new_opposite_notional qty
                   in if effective_cap \<le> 0 then None
                      else let raw_cap = dadd dx effective_cap (av_extra_vwap_safety_buffer config)
                        in Some (if 1 \<le> raw_cap then max_raw_cap else raw_cap,
                                 if 1 \<le> effective_cap then max_raw_cap else effective_cap))"

definition avg_rebound_profit_decision :: "dec_env \<Rightarrow> avg_config \<Rightarrow> avg_state \<Rightarrow> token_resolution \<Rightarrow> order_book_snapshot \<Rightarrow>
    (avg_rejection, avg_decision) result option" where
  "avg_rebound_profit_decision dx config state tokens opposite_book =
     Option.bind (avg_rebound_current_stage config state) (\<lambda>stage.
     Option.bind (avg_rebound_next_profit_leg stage state) (\<lambda>leg.
       if as_open_primary_qty state \<le> 0 then None
       else let qty = avg_rebound_qty_min (leg_qty leg) (as_open_primary_qty state);
                cap = unwrap_or (leg_opposite_vwap_cap leg) (map_option fst (avg_rebound_dynamic_profit_cap dx config state qty))
            in Some (avg_rebound_build_decision dx config state (tr_opposite_token_id tokens) (tr_opposite_outcome_label tokens)
                 ''opposite'' intent_profit_pairlock status_profit_locking (Some (sg_id stage)) (leg_id leg) qty cap opposite_book)))"

definition avg_rebound_guard_decision :: "dec_env \<Rightarrow> avg_config \<Rightarrow> avg_state \<Rightarrow> token_resolution \<Rightarrow> f64 \<Rightarrow> order_book_snapshot \<Rightarrow>
    (avg_rejection, avg_decision) result option" where
  "avg_rebound_guard_decision dx config state tokens opposite_current_price opposite_book =
     Option.bind (avg_rebound_current_stage config state) (\<lambda>stage.
       if \<not> as_profit_started state \<or> as_open_primary_qty state \<le> 0 then None
       else let full = avg_rebound_full_ladder_filled config state
         in if (\<not> full \<and> \<not> av_pre_full_giveback_guard_enabled config) \<or> (full \<and> \<not> av_full_giveback_guard_enabled config)
            then None
            else if avg_rebound_decimal_from_f64 dx opposite_current_price < gg_trigger (sg_giveback_guard stage) then None
            else Some (avg_rebound_build_decision dx config state (tr_opposite_token_id tokens) (tr_opposite_outcome_label tokens)
                 ''opposite'' intent_giveback_guard status_guard_exit (Some (sg_id stage)) ''giveback_guard''
                 (as_open_primary_qty state) (gg_max_execution_vwap (sg_giveback_guard stage)) opposite_book))"

text \<open>The rescue steps in their order; the first whose decision stands is taken.\<close>

definition rescue_steps :: "avg_config \<Rightarrow> (string \<times> decimal \<times> string) list" where
  "rescue_steps config =
     [(intent_normal_rescue, rs_normal_vwap_cap (av_rescue config), ''normal_rescue''),
      (intent_emergency_rescue, rs_emergency_vwap_cap (av_rescue config), ''emergency_rescue''),
      (intent_hard_rescue, rs_hard_max_vwap_cap (av_rescue config), ''hard_rescue'')]
     @ (case rs_last_chance_vwap_cap (av_rescue config) of None \<Rightarrow> []
        | Some cap \<Rightarrow> [(intent_last_chance_rescue, cap, ''last_chance_rescue'')])"

fun first_decision :: "('a \<Rightarrow> (avg_rejection, avg_decision) result) \<Rightarrow> 'a list \<Rightarrow> (avg_rejection, avg_decision) result option" where
  "first_decision f [] = None"
| "first_decision f (x # xs) = (case f x of Inr d \<Rightarrow> Some (Inr d) | Inl _ \<Rightarrow> first_decision f xs)"

definition avg_rebound_rescue_decision :: "dec_env \<Rightarrow> avg_config \<Rightarrow> avg_state \<Rightarrow> token_resolution \<Rightarrow> order_book_snapshot \<Rightarrow>
    (avg_rejection, avg_decision) result option" where
  "avg_rebound_rescue_decision dx config state tokens opposite_book =
    (if rs_enabled_only_after_full_ladder (av_rescue config) \<and> \<not> avg_rebound_full_ladder_filled config state then None
     else if as_open_primary_qty state \<le> 0 then None
     else first_decision (\<lambda>(intent, cap, leg).
         avg_rebound_build_decision dx config state (tr_opposite_token_id tokens) (tr_opposite_outcome_label tokens)
           ''opposite'' intent status_rescue_exit (map_option sg_id (avg_rebound_current_stage config state)) leg
           (as_open_primary_qty state) cap opposite_book)
       (rescue_steps config))"

definition avg_rebound_primary_decision :: "dec_env \<Rightarrow> avg_config \<Rightarrow> avg_state \<Rightarrow> token_resolution \<Rightarrow> order_book_snapshot \<Rightarrow>
    (avg_rejection, avg_decision) result option" where
  "avg_rebound_primary_decision dx config state tokens primary_book =
    (if as_profit_started state \<and> (\<not> av_allow_primary_after_partial_profit config \<or> as_open_primary_qty state \<le> 1/10000)
     then None
     else map_option (\<lambda>tier.
         avg_rebound_build_decision dx config state (tr_primary_token_id tokens) (tr_primary_outcome_label tokens)
           ''primary'' intent_primary_ladder status_building_primary None (tier_id tier) (tier_qty tier) (tier_price_cap tier)
           primary_book)
       (avg_rebound_next_primary_tier config state))"

text \<open>The first of the alternatives that yields a decision, with the rejections before it.\<close>

fun select_first :: "(avg_rejection, avg_decision) result option list \<Rightarrow> avg_decision option \<times> avg_rejection list" where
  "select_first [] = (None, [])"
| "select_first (None # rest) = select_first rest"
| "select_first (Some (Inr d) # rest) = (Some d, [])"
| "select_first (Some (Inl r) # rest) = (case select_first rest of (d, rs) \<Rightarrow> (d, r # rs))"

definition avg_rebound_select_decision :: "dec_env \<Rightarrow> avg_config \<Rightarrow> avg_state \<Rightarrow> token_resolution \<Rightarrow> order_book_snapshot \<Rightarrow> f64 \<Rightarrow>
    order_book_snapshot \<Rightarrow> avg_decision option \<times> avg_rejection list" where
  "avg_rebound_select_decision dx config state tokens primary_book opposite_current_price opposite_book =
     select_first ([avg_rebound_profit_decision dx config state tokens opposite_book]
       @ (if avg_rebound_full_ladder_filled config state
          then [avg_rebound_guard_decision dx config state tokens opposite_current_price opposite_book,
                avg_rebound_rescue_decision dx config state tokens opposite_book]
          else [])
       @ [avg_rebound_primary_decision dx config state tokens primary_book])"

end
