(* ===== verification/Avg_Rebound_Session.thy ===== *)
theory Avg_Rebound_Session
  imports Avg_Rebound Trade_Runtime
begin

text \<open>
  A session of the pair-lock rescue strategy in the database and the attempts that run it
  (\<open>avg_rebound_pairlock_rescue/orders.rs\<close> and \<open>bot-infra/src/db/trade_builder/avg_rebound_pairlock_rescue.rs\<close>):
  an attempt loads the session and its state, decides, and places one fill-or-kill order; a fill is
  recorded once per order and moves the status of the session. The state is the database with the
  session, its orders and its fills; its reads and writes are answered by the environment of
  \<open>Repository\<close>. The execution of the child order node is one write that may be refused or skipped; the
  sums over the fills are taken in the order of their insertion.
\<close>

section \<open>The session in the database\<close>

record avg_session =
  ss_id :: i64
  ss_status :: string
  ss_tokens :: token_resolution

record avg_fill =
  af_session_id :: i64
  af_leg_role :: string
  af_intent :: string
  af_tier_or_leg_id :: string
  af_decision_id :: string
  af_builder_order_id :: i64
  af_quantity :: f64
  af_execution_price :: f64
  af_notional_usdc :: f64

record rescue_order =
  ro_id :: i64
  ro_status :: string
  ro_decision :: avg_decision

record rescue_world = db +
  rw_session :: "avg_session option"
  rw_orders :: "rescue_order list"
  rw_fills :: "avg_fill list"

type_synonym 'a rescue = "(rescue_world, string, 'a) stm"

record avg_db_state =
  ds_session_id :: "i64 option"
  ds_session_status :: "string option"
  ds_primary_total_qty :: f64
  ds_primary_total_cost :: f64
  ds_avg_primary_cost :: "f64 option"
  ds_opposite_filled_qty :: f64
  ds_opposite_total_cost :: f64
  ds_open_primary_qty :: f64
  ds_locked_pnl :: f64
  ds_profit_started :: bool
  ds_primary_tier_ids :: "string list"
  ds_opposite_leg_ids :: "string list"

text \<open>A read that may fail.\<close>

definition ask_db :: "'j run_env \<Rightarrow> (rescue_world \<Rightarrow> 'a) \<Rightarrow> 'a rescue" where
  "ask_db env f = (\<lambda>w. case env_answer env (w_calls w) of
     Done \<Rightarrow> (Inr (f w), tick w) | Refused e \<Rightarrow> (Inl e, tick w) | Lost e \<Rightarrow> (Inl e, tick w))"

definition active_session_statuses :: "string list" where
  "active_session_statuses = [status_building_primary, status_profit_locking, status_guard_exit, status_rescue_exit, status_locked]"

definition active_session :: "rescue_world \<Rightarrow> avg_session option" where
  "active_session w = filter_opt (\<lambda>s. ss_status s \<in> set active_session_statuses) (rw_session w)"

definition order_active :: "rescue_order \<Rightarrow> bool" where
  "order_active ord \<longleftrightarrow> ro_status ord \<in> {''pending'', ''armed'', ''triggered'', ''open'', ''partially_filled''}"

definition order_dead :: "rescue_order \<Rightarrow> bool" where
  "order_dead ord \<longleftrightarrow> ro_status ord \<in> {''error'', ''canceled'', ''expired''}"

definition has_active_order :: "rescue_world \<Rightarrow> bool" where
  "has_active_order w \<longleftrightarrow> list_ex order_active (rw_orders w)"

definition has_decision_order :: "string \<Rightarrow> rescue_world \<Rightarrow> bool" where
  "has_decision_order decision_id w \<longleftrightarrow>
     list_ex (\<lambda>ord. \<not> order_dead ord \<and> ad_decision_id (ro_decision ord) = decision_id) (rw_orders w)"

definition fill_sum :: "(avg_fill \<Rightarrow> bool) \<Rightarrow> (avg_fill \<Rightarrow> f64) \<Rightarrow> avg_fill list \<Rightarrow> f64" where
  "fill_sum sel amount fills = fold (\<lambda>f acc. acc + (if sel f then amount f else 0)) fills 0"

definition default_db_state :: avg_db_state where
  "default_db_state = \<lparr>ds_session_id = None, ds_session_status = None, ds_primary_total_qty = 0, ds_primary_total_cost = 0,
     ds_avg_primary_cost = None, ds_opposite_filled_qty = 0, ds_opposite_total_cost = 0, ds_open_primary_qty = 0,
     ds_locked_pnl = 0, ds_profit_started = False, ds_primary_tier_ids = [], ds_opposite_leg_ids = []\<rparr>"

definition avg_db_state_of :: "rescue_world \<Rightarrow> avg_db_state" where
  "avg_db_state_of w = (case active_session w of
     None \<Rightarrow> default_db_state
   | Some session \<Rightarrow>
       let fills = filter (\<lambda>f. af_session_id f = ss_id session) (rw_fills w);
           primary = (\<lambda>f. af_leg_role f = ''primary''); opposite = (\<lambda>f. af_leg_role f = ''opposite'');
           primary_qty = fill_sum primary af_quantity fills; primary_cost = fill_sum primary af_notional_usdc fills;
           opposite_qty = fill_sum opposite af_quantity fills; opposite_cost = fill_sum opposite af_notional_usdc fills;
           avg_cost = then_some (0 < primary_qty) (primary_cost / primary_qty);
           paired_primary_cost = unwrap_or 0 avg_cost * opposite_qty
       in \<lparr>ds_session_id = Some (ss_id session), ds_session_status = Some (ss_status session),
           ds_primary_total_qty = primary_qty, ds_primary_total_cost = primary_cost, ds_avg_primary_cost = avg_cost,
           ds_opposite_filled_qty = opposite_qty, ds_opposite_total_cost = opposite_cost,
           ds_open_primary_qty = fmax (primary_qty - opposite_qty) 0,
           ds_locked_pnl = opposite_qty - paired_primary_cost - opposite_cost,
           ds_profit_started = list_ex (\<lambda>f. opposite f \<and> af_intent f = intent_profit_pairlock) fills,
           ds_primary_tier_ids = remdups (map af_tier_or_leg_id (filter primary fills)),
           ds_opposite_leg_ids = remdups (map af_tier_or_leg_id (filter opposite fills))\<rparr>)"

definition avg_rebound_state_from_db :: "dec_env \<Rightarrow> avg_db_state \<Rightarrow> avg_state" where
  "avg_rebound_state_from_db dx s = (let d = avg_rebound_decimal_from_f64 dx in
     \<lparr>as_session_id = ds_session_id s, as_session_status = ds_session_status s,
      as_primary_total_qty = d (ds_primary_total_qty s), as_primary_total_cost = d (ds_primary_total_cost s),
      as_avg_primary_cost = map_option d (ds_avg_primary_cost s), as_opposite_filled_qty = d (ds_opposite_filled_qty s),
      as_opposite_total_cost = d (ds_opposite_total_cost s), as_open_primary_qty = d (ds_open_primary_qty s),
      as_locked_pnl = d (ds_locked_pnl s), as_profit_started = ds_profit_started s,
      as_primary_tier_ids = ds_primary_tier_ids s, as_opposite_leg_ids = ds_opposite_leg_ids s\<rparr>)"

definition set_session_status :: "i64 \<Rightarrow> string \<Rightarrow> rescue_world \<Rightarrow> rescue_world" where
  "set_session_status session_id status w = w\<lparr>rw_session :=
     map_option (\<lambda>s. if ss_id s = session_id then s\<lparr>ss_status := status\<rparr> else s) (rw_session w)\<rparr>"

definition mark_session_status :: "'j run_env \<Rightarrow> i64 \<Rightarrow> string \<Rightarrow> unit rescue" where
  "mark_session_status env session_id status =
     commit env (RescueStatusMarked session_id status) (set_session_status session_id status)"

definition get_or_create_session :: "'j run_env \<Rightarrow> token_resolution \<Rightarrow> avg_session rescue" where
  "get_or_create_session env tokens = st_bind (ask_db env active_session) (\<lambda>found. case found of
     Some session \<Rightarrow> st_return session
   | None \<Rightarrow> st_get (\<lambda>w.
       let session = \<lparr>ss_id = env_new_id env (w_calls w), ss_status = status_building_primary, ss_tokens = tokens\<rparr>
       in st_then (commit env (RescueSessionCreated (ss_id session) (tr_primary_token_id tokens))
              (\<lambda>w. w\<lparr>rw_session := Some session\<rparr>))
            (st_return session)))"

section \<open>Attempts\<close>

text \<open>What surrounds an attempt: the lock, the resolved tokens, the number of tokens of the market, the order
  books and prices by token, and whether the order node skips a decision.\<close>

record avg_inputs =
  ai_lock :: "(string, bool) result"
  ai_resolved :: "(string, resolved_token_pair) result"
  ai_market_slug :: string
  ai_market_tokens :: "(string, nat option) result"
  ai_book :: "string \<Rightarrow> (string, order_book_snapshot option) result"
  ai_price :: "string \<Rightarrow> f64"
  ai_child_skips :: "avg_decision \<Rightarrow> bool"

datatype avg_outcome = AvgSkipped string | AvgPlaced avg_decision

definition avg_rebound_resolve_tokens :: "avg_config \<Rightarrow> avg_inputs \<Rightarrow> resolved_token_pair \<Rightarrow> (string, token_resolution) result" where
  "avg_rebound_resolve_tokens config inp resolved =
     res_bind (avg_rebound_normalized_side (av_primary_outcome_label config)) (\<lambda>primary_side.
     let tokens = avg_rebound_token_resolution_for_side resolved (ai_market_slug inp) primary_side
     in if eq_ignore_ascii_case (trim (av_opposite_outcome_label config)) ''opposite''
        then res_bind (ai_market_tokens inp) (\<lambda>count. case count of
            None \<Rightarrow> Inr tokens
          | Some n \<Rightarrow> res_bind (ensure (n = 2) ''avg_rebound_pairlock_rescue_v1 opposite=opposite requires a binary market'')
              (\<lambda>_. Inr tokens))
        else res_bind (avg_rebound_normalized_side (av_opposite_outcome_label config)) (\<lambda>configured_opposite.
          res_bind (ensure (configured_opposite \<noteq> primary_side)
              ''avg_rebound_pairlock_rescue_v1 oppositeOutcomeLabel must be opposite primary side'')
            (\<lambda>_. Inr tokens)))"

text \<open>Reading both books; without one the attempt is skipped.\<close>

definition with_books :: "avg_inputs \<Rightarrow> string \<Rightarrow> string \<Rightarrow> string \<Rightarrow>
    (order_book_snapshot \<Rightarrow> order_book_snapshot \<Rightarrow> avg_outcome rescue) \<Rightarrow> avg_outcome rescue" where
  "with_books inp first_token second_token second_missing k =
     st_bind (st_result (ai_book inp first_token)) (\<lambda>a. case a of
         None \<Rightarrow> st_return (AvgSkipped ''primary_order_book_unavailable'')
       | Some first_book \<Rightarrow> st_bind (st_result (ai_book inp second_token)) (\<lambda>b. case b of
           None \<Rightarrow> st_return (AvgSkipped second_missing)
         | Some second_book \<Rightarrow> k first_book second_book))"

text \<open>From the loaded session on: the state, the decision, the order.\<close>

definition place_decision :: "'j run_env \<Rightarrow> avg_inputs \<Rightarrow> i64 \<Rightarrow> avg_decision \<Rightarrow> avg_outcome rescue" where
  "place_decision env inp session_id dec =
     st_bind (ask_db env (has_decision_order (ad_decision_id dec))) (\<lambda>duplicate.
     if duplicate then st_return (AvgSkipped ''duplicate_decision_order'')
     else st_then (mark_session_status env session_id (ad_session_status dec))
       (if ai_child_skips inp dec then st_return (AvgPlaced dec)
        else st_get (\<lambda>w. let order_id = env_new_id env (w_calls w)
          in st_then (commit env (RescueOrderCreated order_id (ad_token_id dec) (ad_decision_id dec))
                (\<lambda>w. w\<lparr>rw_orders := rw_orders w @ [\<lparr>ro_id = order_id, ro_status = ''pending'', ro_decision = dec\<rparr>]\<rparr>))
              (st_then (commit env (BuilderOrderEvent order_id ''avg_rebound_pairlock_rescue_decision''
                   [(''session_id'', EvId session_id)]) (\<lambda>w. w))
                (st_return (AvgPlaced dec))))))"

definition decide_and_place :: "'j run_env \<Rightarrow> dec_env \<Rightarrow> avg_config \<Rightarrow> avg_inputs \<Rightarrow> avg_session \<Rightarrow> token_resolution \<Rightarrow>
    order_book_snapshot \<Rightarrow> order_book_snapshot \<Rightarrow> avg_outcome rescue" where
  "decide_and_place env dx config inp session tokens primary_book opposite_book =
     st_bind (ask_db env (\<lambda>w. avg_rebound_state_from_db dx (avg_db_state_of w))) (\<lambda>state.
     if as_session_status state \<in> {Some status_locked, Some ''CLOSED''} then st_return (AvgSkipped ''session_terminal'')
     else if 0 < as_primary_total_qty state \<and> as_open_primary_qty state \<le> 1/10000
     then st_then (mark_session_status env (ss_id session) status_locked) (st_return (AvgSkipped ''session_locked''))
     else case fst (avg_rebound_select_decision dx config state tokens primary_book
           (ai_price inp (tr_opposite_token_id tokens)) opposite_book) of
         None \<Rightarrow> st_return (AvgSkipped ''no_eligible_avg_rebound_action'')
       | Some dec \<Rightarrow> place_decision env inp (ss_id session) dec)"

definition execute_avg_rebound :: "'j run_env \<Rightarrow> dec_env \<Rightarrow> avg_config \<Rightarrow> avg_inputs \<Rightarrow> avg_outcome rescue" where
  "execute_avg_rebound env dx config inp =
     st_bind (st_result (ai_lock inp)) (\<lambda>locked.
     if \<not> locked then st_return (AvgSkipped ''execution_lock_busy'')
     else st_bind (ask_db env has_active_order) (\<lambda>busy.
     if busy then st_return (AvgSkipped ''active_order_exists'')
     else st_bind (st_result (ai_resolved inp)) (\<lambda>resolved.
       st_bind (ask_db env active_session) (\<lambda>found. case found of
         Some session \<Rightarrow>
           let tokens = ss_tokens session
           in with_books inp (tr_primary_token_id tokens) (tr_opposite_token_id tokens) ''opposite_order_book_unavailable''
                (decide_and_place env dx config inp session tokens)
       | None \<Rightarrow>
           if avg_rebound_primary_outcome_is_auto config
           then with_books inp (rp_yes_token_id resolved) (rp_no_token_id resolved) ''primary_order_book_unavailable''
             (\<lambda>yes_book no_book.
               case avg_rebound_select_cheapest_primary dx config default_avg_state resolved (ai_market_slug inp) yes_book no_book of
                 Inl rejections \<Rightarrow> st_return (AvgSkipped ''no_eligible_avg_rebound_action'')
               | Inr (best, rejections) \<Rightarrow> st_bind (get_or_create_session env (sc_tokens best)) (\<lambda>session.
                   decide_and_place env dx config inp session (sc_tokens best) (sc_primary_book best) (sc_opposite_book best)))
           else st_bind (st_result (avg_rebound_resolve_tokens config inp resolved)) (\<lambda>tokens.
             st_bind (get_or_create_session env tokens) (\<lambda>session.
               with_books inp (tr_primary_token_id tokens) (tr_opposite_token_id tokens) ''opposite_order_book_unavailable''
                 (decide_and_place env dx config inp session tokens)))))))"

section \<open>Fills\<close>

definition next_session_status :: "avg_db_state \<Rightarrow> string \<Rightarrow> string" where
  "next_session_status s intent =
    (if 0 < ds_primary_total_qty s \<and> ds_open_primary_qty s \<le> lit (1/10000) then status_locked
     else if intent = intent_profit_pairlock then status_profit_locking
     else if intent = intent_giveback_guard then status_guard_exit
     else if intent \<in> {intent_normal_rescue, intent_emergency_rescue, intent_hard_rescue, intent_last_chance_rescue}
     then status_rescue_exit
     else status_building_primary)"

text \<open>\<open>INSERT .. ON CONFLICT (builder_order_id) DO NOTHING\<close>; true when the row was inserted.\<close>

definition record_fill_row :: "'j run_env \<Rightarrow> avg_fill \<Rightarrow> bool rescue" where
  "record_fill_row env f = st_get (\<lambda>w.
     let known = list_ex (\<lambda>g. af_builder_order_id g = af_builder_order_id f) (rw_fills w)
     in st_then (commit env (RescueFillRow (af_session_id f) (af_builder_order_id f) (af_tier_or_leg_id f) (af_quantity f)
            (af_execution_price f) (af_notional_usdc f))
          (\<lambda>w. if known then w else w\<lparr>rw_fills := rw_fills w @ [f]\<rparr>))
        (st_return (\<not> known)))"

definition maybe_record_fill :: "'j run_env \<Rightarrow> rescue_order \<Rightarrow> f64 \<Rightarrow> f64 \<Rightarrow> unit rescue" where
  "maybe_record_fill env ord fill_qty execution_price =
    (let dec = ro_decision ord;
         f = \<lparr>af_session_id = ad_session_id dec, af_leg_role = ad_leg_role dec, af_intent = ad_intent dec,
           af_tier_or_leg_id = ad_tier_or_leg_id dec, af_decision_id = ad_decision_id dec, af_builder_order_id = ro_id ord,
           af_quantity = fmax fill_qty 0, af_execution_price = clamp_probability (fmax execution_price 0),
           af_notional_usdc = fmax (fmax fill_qty 0 * fmax execution_price 0) 0\<rparr>
     in st_bind (record_fill_row env f) (\<lambda>inserted.
        if \<not> inserted then st_return ()
        else st_bind (ask_db env avg_db_state_of) (\<lambda>s.
          let status = next_session_status s (ad_intent dec)
          in st_then (mark_session_status env (ad_session_id dec) status)
             (commit env (BuilderOrderEvent (ro_id ord) ''avg_rebound_pairlock_rescue_fill_recorded''
                [(''session_id'', EvId (ad_session_id dec)), (''status'', EvStr status),
                 (''primary_total_qty'', EvNum (ds_primary_total_qty s)), (''primary_total_cost'', EvNum (ds_primary_total_cost s)),
                 (''avg_primary_cost'', EvOptNum (ds_avg_primary_cost s)), (''opposite_filled_qty'', EvNum (ds_opposite_filled_qty s)),
                 (''open_primary_qty'', EvNum (ds_open_primary_qty s)), (''locked_pnl'', EvNum (ds_locked_pnl s))]) (\<lambda>w. w)))))"

end
