(* ===== verification/Avg_Rebound_Safety.thy ===== *)
theory Avg_Rebound_Safety
  imports Avg_Rebound
begin

text \<open>
  What the pair-lock rescue strategy decides: the quote it computes over an order book is the cheapest
  purchase of the quantity, a profit decision secures the configured profit, and the switches of the
  giveback guard before the full ladder have no effect.
\<close>

section \<open>Reading the book\<close>

lemma decimal_from_f64_ok:
  assumes "decimal_laws dx"
  shows "digits 12 (avg_rebound_decimal_from_f64 dx v)" "0 < v \<Longrightarrow> 0 \<le> avg_rebound_decimal_from_f64 dx v"
proof -
  let ?q = "of_int (half_even (fval v * 10 ^ 12)) / 10 ^ 12 :: rat"
  have q: "digits 12 ?q" by (simp add: digits_def)
  show "digits 12 (avg_rebound_decimal_from_f64 dx v)"
    using dec_read [OF assms q] by (cases "dx_read dx ?q") (simp_all add: avg_rebound_decimal_from_f64_def digits_def)
  assume "0 < v"
  then have "0 \<le> fval v" by (cases v) (auto simp: less_f64_def zero_f64_def f64_lt_def)
  then have "0 \<le> half_even (fval v * 10 ^ 12)" by (intro half_even_ge) simp
  then have "0 \<le> ?q" by simp
  then show "0 \<le> avg_rebound_decimal_from_f64 dx v"
    using dec_read [OF assms q] by (cases "dx_read dx ?q") (simp_all add: avg_rebound_decimal_from_f64_def)
qed

text \<open>Levels as the loop needs them: sorted by price, with non-negative prices and sizes of at most twelve digits.\<close>

definition book_ok :: "vwap_level list \<Rightarrow> bool" where
  "book_ok levels \<longleftrightarrow> sorted (map vl_price levels)
     \<and> (\<forall>l \<in> set levels. digits 12 (vl_price l) \<and> digits 12 (vl_size l) \<and> 0 \<le> vl_price l \<and> 0 \<le> vl_size l)"

lemma ask_levels_ok: "decimal_laws dx \<Longrightarrow> book_ok (ask_levels dx book)"
  by (auto simp: book_ok_def ask_levels_def decimal_from_f64_ok)

lemma book_ok_Cons: "book_ok (l # ls) \<longleftrightarrow> (\<forall>m \<in> set ls. vl_price l \<le> vl_price m) \<and> digits 12 (vl_price l) \<and> digits 12 (vl_size l)
    \<and> 0 \<le> vl_price l \<and> 0 \<le> vl_size l \<and> book_ok ls"
  by (auto simp: book_ok_def)

section \<open>The cheapest purchase\<close>

text \<open>What a purchase costs, and what the purchase from the cheapest level up costs.\<close>

definition purchase_cost :: "decimal list \<Rightarrow> vwap_level list \<Rightarrow> decimal" where
  "purchase_cost qs levels = sum_list (map2 (\<lambda>q l. q * vl_price l) qs levels)"

definition purchase :: "decimal list \<Rightarrow> vwap_level list \<Rightarrow> bool" where
  "purchase qs levels \<longleftrightarrow> list_all2 (\<lambda>q l. 0 \<le> q \<and> q \<le> vl_size l) qs levels"

fun greedy_cost :: "decimal \<Rightarrow> vwap_level list \<Rightarrow> decimal" where
  "greedy_cost r [] = 0"
| "greedy_cost r (l # ls) = min (vl_size l) r * vl_price l + greedy_cost (r - min (vl_size l) r) ls"

lemma greedy_zero: "book_ok ls \<Longrightarrow> greedy_cost 0 ls = 0"
  by (induction ls) (auto simp: book_ok_Cons)

lemma greedy_cheapest:
  assumes "purchase qs ls" "book_ok ls" "\<forall>l \<in> set ls. p \<le> vl_price l" "0 \<le> r" "r \<le> sum_list qs"
  shows "greedy_cost r ls + (sum_list qs - r) * p \<le> purchase_cost qs ls"
  using assms
proof (induction ls arbitrary: qs r p)
  case (Cons l ls)
  then obtain q rest where qs: "qs = q # rest" "0 \<le> q" "q \<le> vl_size l" "purchase rest ls"
    by (auto simp: purchase_def list_all2_Cons2)
  let ?t = "min (vl_size l) r"
  have rest: "0 \<le> sum_list rest"
    using qs(4) by (intro sum_list_nonneg) (auto simp: purchase_def list_all2_conv_all_nth in_set_conv_nth)
  have sum: "r - ?t \<le> sum_list rest"
    using Cons.prems(5) qs rest by (auto simp: min_def)
  have "greedy_cost (r - ?t) ls + (sum_list rest - (r - ?t)) * vl_price l \<le> purchase_cost rest ls"
    by (rule Cons.IH [OF qs(4)]) (use Cons.prems sum in \<open>auto simp: book_ok_Cons\<close>)
  moreover have "(sum_list qs - r) * p \<le> (sum_list qs - r) * vl_price l"
    using Cons.prems by (intro mult_left_mono) auto
  ultimately show ?case
    using qs by (simp add: purchase_cost_def algebra_simps)
qed (simp add: purchase_def purchase_cost_def)

text \<open>The depth of a book up to a price, and what the loop computes when its arithmetic is exact.\<close>

definition depth_at :: "decimal \<Rightarrow> vwap_level list \<Rightarrow> decimal" where
  "depth_at limit levels = sum_list (map vl_size (filter (\<lambda>l. vl_price l \<le> limit) levels))"

definition sizes_of :: "vwap_level list \<Rightarrow> decimal" where
  "sizes_of levels = sum_list (map vl_size levels)"

definition cost_of :: "vwap_level list \<Rightarrow> decimal" where
  "cost_of levels = sum_list (map (\<lambda>l. vl_size l * vl_price l) levels)"

lemma depth_nonneg: "book_ok ls \<Longrightarrow> 0 \<le> depth_at limit ls"
  by (auto simp: depth_at_def book_ok_def intro!: sum_list_nonneg)

lemma depth_expensive: "book_ok (l # ls) \<Longrightarrow> limit < vl_price l \<Longrightarrow> depth_at limit (l # ls) = 0"
proof -
  assume "book_ok (l # ls)" "limit < vl_price l"
  then have "filter (\<lambda>l. vl_price l \<le> limit) (l # ls) = []"
    unfolding filter_empty_conv by (force simp: book_ok_Cons)
  then show ?thesis by (simp only: depth_at_def list.map sum_list.Nil)
qed

lemma take_asks_exact:
  assumes "decimal_laws dx" "book_ok ls" "0 \<le> limit" "limit \<le> 1"
    and "digits 12 r" "0 \<le> r" "digits 12 e" "0 \<le> e" "e + r \<le> dec_limit"
    and "digits 24 n" "0 \<le> n" "n + r \<le> dec_limit"
    and "take_asks dx limit r e n ls = (e', n', used)"
  shows "e' = e + min r (depth_at limit ls) \<and> e' = e + sizes_of used \<and> n' = n + cost_of used
    \<and> (\<forall>l \<in> set used. 0 < vl_size l \<and> vl_price l \<le> limit) \<and> (e' = e + r \<longrightarrow> n' = n + greedy_cost r ls)"
  using assms
proof (induction ls arbitrary: r e n e' n' used)
  case Nil
  then show ?case by (auto simp: depth_at_def sizes_of_def cost_of_def)
next
  case (Cons l ls)
  have ok: "book_ok ls" "0 \<le> vl_price l" "0 \<le> vl_size l" "digits 12 (vl_price l)" "digits 12 (vl_size l)"
    using Cons.prems(2) by (auto simp: book_ok_Cons)
  show ?case
  proof (cases "limit < vl_price l \<or> r \<le> 0 \<or> avg_rebound_qty_min (vl_size l) r \<le> 0")
    case True
    then have t: "take_asks dx limit r e n ls = (e', n', used)"
      using Cons.prems(13) by (auto simp: Let_def split: if_splits)
    have z: "depth_at limit ls = 0 \<and> depth_at limit (l # ls) = 0" if "limit < vl_price l"
      using that Cons.prems(2) depth_expensive [of l ls limit] by (auto simp: depth_at_def book_ok_Cons)
    have s: "vl_size l = 0 \<or> r = 0" if "\<not> limit < vl_price l"
      using True that ok(3) Cons.prems(6) by (auto simp: avg_rebound_qty_min_def split: if_splits)
    have d: "min r (depth_at limit (l # ls)) = min r (depth_at limit ls)"
      using z s Cons.prems(6) depth_nonneg [OF ok(1), of limit] ok(3) by (cases "limit < vl_price l") (auto simp: depth_at_def)
    have g: "greedy_cost r (l # ls) = greedy_cost r ls" if "min r (depth_at limit ls) = r"
      using z s that Cons.prems(6) ok by (cases "limit < vl_price l") (auto simp: greedy_zero)
    show ?thesis using Cons.IH [OF Cons.prems(1) ok(1) Cons.prems(3-12) t] d g by auto
  next
    case False
    then have f: "vl_price l \<le> limit" "0 < r" "0 < vl_size l"
      by (auto simp: avg_rebound_qty_min_def split: if_splits)
    define t where "t = min (vl_size l) r"
    have q: "avg_rebound_qty_min (vl_size l) r = t" by (simp add: t_def avg_rebound_qty_min_def min_def)
    have t: "0 < t" "t \<le> r" "t \<le> vl_size l" "digits 12 t"
      using f ok Cons.prems(5) by (auto simp: t_def min_def)
    have p: "vl_price l \<le> 1" using f(1) Cons.prems(4) by simp
    have tp: "t * vl_price l \<le> t" "0 \<le> t * vl_price l" "digits 24 (t * vl_price l)"
      using t p ok mult_left_mono [of "vl_price l" 1 t] digits_mult [OF t(4) ok(4)] by auto
    have b: "t * vl_price l \<le> dec_limit" "n + t * vl_price l + (r - t) \<le> dec_limit" "n + t * vl_price l \<le> dec_limit"
      using tp(1) t Cons.prems(8,9,12) by linarith+
    have r': "dsub dx r t = r - t"
      unfolding dsub_def using t Cons.prems
      by (intro dec_exact) (auto intro: digits_mono [OF digits_diff])
    have e': "dadd dx e t = e + t"
      unfolding dadd_def using t Cons.prems by (intro dec_exact) (auto intro: digits_mono [OF digits_add])
    have m: "dmul dx t (vl_price l) = t * vl_price l"
      unfolding dmul_def using b(1) tp(2,3) by (intro dec_exact [OF Cons.prems(1)]) auto
    have n': "dadd dx n (dmul dx t (vl_price l)) = n + t * vl_price l"
      unfolding m unfolding dadd_def using b(3) tp(2,3) Cons.prems(10,11) by (intro dec_exact [OF Cons.prems(1)]) (auto intro: digits_add)
    obtain e2 n2 used2 where rest: "take_asks dx limit (r - t) (e + t) (n + t * vl_price l) ls = (e2, n2, used2)"
      by (metis prod_cases3)
    have out: "e' = e2" "n' = n2" "used = \<lparr>vl_price = vl_price l, vl_size = t\<rparr> # used2"
      using Cons.prems(13) False f q rest r' e' n' by (auto simp: Let_def split: if_splits)
    have ih: "e2 = e + t + min (r - t) (depth_at limit ls) \<and> e2 = e + t + sizes_of used2 \<and> n2 = n + t * vl_price l + cost_of used2
      \<and> (\<forall>l \<in> set used2. 0 < vl_size l \<and> vl_price l \<le> limit) \<and> (e2 = e + t + (r - t) \<longrightarrow> n2 = n + t * vl_price l + greedy_cost (r - t) ls)"
      by (rule Cons.IH [OF Cons.prems(1) ok(1) Cons.prems(3,4) _ _ _ _ _ _ _ _ rest])
        (use t tp(2,3) b(2) Cons.prems(5-12) in \<open>auto intro: digits_diff digits_add\<close>)
    have d: "min r (depth_at limit (l # ls)) = t + min (r - t) (depth_at limit ls)"
      using f depth_nonneg [OF ok(1), of limit] by (auto simp: depth_at_def t_def min_def)
    show ?thesis
      using ih out d f t by (auto simp: sizes_of_def cost_of_def t_def)
  qed
qed

lemma vwap_quote_ok:
  assumes "decimal_laws dx" "digits 12 qty" "qty \<le> dec_limit" "dsub dx cap buffer \<le> 1"
  shows "case avg_rebound_vwap_for_fok_limit dx book qty cap buffer of
      Inr quote \<Rightarrow> vq_limit_price quote = dsub dx cap buffer \<and> sizes_of (vq_levels quote) = qty
        \<and> vq_notional quote = cost_of (vq_levels quote) \<and> vq_notional quote = greedy_cost qty (ask_levels dx book)
        \<and> list_all (\<lambda>l. 0 < vl_size l \<and> vl_price l \<le> dsub dx cap buffer) (vq_levels quote)
    | Inl r \<Rightarrow> vr_reason r = ''insufficient_depth_at_or_below_limit''
        \<longrightarrow> depth_at (dsub dx cap buffer) (ask_levels dx book) < qty"
proof (cases "qty \<le> 0 \<or> dsub dx cap buffer \<le> 0")
  case False
  obtain e n used where t: "take_asks dx (dsub dx cap buffer) qty 0 0 (ask_levels dx book) = (e, n, used)"
    by (metis prod_cases3)
  have "e = 0 + min qty (depth_at (dsub dx cap buffer) (ask_levels dx book)) \<and> e = 0 + sizes_of used \<and> n = 0 + cost_of used
    \<and> (\<forall>l \<in> set used. 0 < vl_size l \<and> vl_price l \<le> dsub dx cap buffer)
    \<and> (e = 0 + qty \<longrightarrow> n = 0 + greedy_cost qty (ask_levels dx book))"
    by (rule take_asks_exact [OF assms(1) ask_levels_ok [OF assms(1)] _ assms(4) assms(2) _ _ _ _ _ _ _ t])
      (use assms(3) False in \<open>simp_all add: digits_def\<close>)
  then show ?thesis
    using False t by (auto simp: avg_rebound_vwap_for_fok_limit_def Let_def list_all_iff)
qed (auto simp: avg_rebound_vwap_for_fok_limit_def Let_def)

text \<open>The quote of a decision is the quote over its book.\<close>

lemma build_decision_ok:
  assumes "avg_rebound_build_decision dx config state token outcome role intent status stage leg qty cap book = Inr d"
  shows "as_session_id state = Some (ad_session_id d) \<and> ad_qty d = qty \<and> ad_leg_role d = role \<and> ad_tier_or_leg_id d = leg
    \<and> ad_limit_price d = dsub dx cap (if role = ''opposite'' then av_extra_vwap_safety_buffer config else 0)
    \<and> 0 < qty \<and> 0 < ad_limit_price d \<and> ad_vwap d \<le> ad_limit_price d \<and> 1 \<le> ad_notional d
    \<and> avg_rebound_projected_spend_allowed dx config state (ad_notional d)
    \<and> ad_decision_id d = avg_rebound_decision_id dx (ad_session_id d) intent stage leg qty (ad_limit_price d)"
  using assms
  by (auto simp: avg_rebound_build_decision_def avg_rebound_vwap_for_fok_limit_def Let_def avg_rebound_market_min_notional_usdc_def
      split: option.splits sum.splits if_splits prod.splits)

section \<open>The profit a decision secures\<close>

text \<open>The limit that the dynamic cap leads to, against the notional that is left for the target.\<close>

lemma dynamic_cap_limit:
  assumes laws: "decimal_laws dx" and "avg_rebound_dynamic_profit_cap dx config state qty = Some (cap, eff)"
    and "av_target_profit_usdc config = Some t" "0 \<le> av_extra_vwap_safety_buffer config" "av_extra_vwap_safety_buffer config \<le> 1"
    and m: "m = dsub dx (dsub dx (avg_rebound_qty_min (as_primary_total_qty state) (dadd dx (as_opposite_filled_qty state) qty))
        (dadd dx (as_primary_total_cost state) (as_opposite_total_cost state))) t"
    and "p \<le> dsub dx cap (av_extra_vwap_safety_buffer config)"
  shows "0 < qty \<and> qty * p \<le> m + 3 * qty * dec_error"
proof -
  let ?b = "av_extra_vwap_safety_buffer config"
  have q: "0 < qty" "0 < m" and cap: "cap = (if 1 \<le> dadd dx (ddiv dx m qty) ?b then max_raw_cap else dadd dx (ddiv dx m qty) ?b)"
    using assms(2,3) unfolding avg_rebound_dynamic_profit_cap_def Let_def m by (auto split: if_splits)
  have le: "cap \<le> dadd dx (ddiv dx m qty) ?b" "cap \<le> 1" by (auto simp: cap max_raw_cap_def)
  have one: "dx_round dx 1 = 1" by (rule dec_exact [OF laws]) (simp_all add: digits_def dec_limit_def)
  have err: "0 \<le> dec_error" by (simp add: dec_error_def)
  show ?thesis
  proof (cases "1 \<le> m / qty")
    case True
    have "p \<le> dx_round dx 1"
      using assms(7) dec_mono [OF laws, of "cap - ?b" 1] le(2) assms(4) by (simp add: dsub_def)
    then have "p \<le> m / qty" using True one by linarith
    then have "qty * p \<le> qty * (m / qty)" using q by (intro mult_left_mono) auto
    moreover have "qty * (m / qty) = m" "0 \<le> 3 * qty * dec_error" using q(1) err by simp_all
    ultimately show ?thesis using q(1) by (intro conjI) linarith+
  next
    case False
    have mq: "0 \<le> m / qty" "m / qty < 1" "dec_error \<le> 1" "dec_limit = 79228"
      using q False by (simp_all add: dec_error_def dec_limit_def)
    with False have x: "\<bar>m / qty\<bar> \<le> dec_limit" by (simp add: dec_limit_def del: zero_le_divide_iff le_divide_eq_1)
    have a: "\<bar>ddiv dx m qty - m / qty\<bar> \<le> dec_error" unfolding ddiv_def by (rule dec_close [OF laws x])
    have "\<bar>ddiv dx m qty + ?b\<bar> \<le> dec_limit"
      using a mq assms(4,5) by linarith
    then have b: "\<bar>dadd dx (ddiv dx m qty) ?b - (ddiv dx m qty + ?b)\<bar> \<le> dec_error"
      unfolding dadd_def by (rule dec_close [OF laws])
    have "\<bar>dadd dx (ddiv dx m qty) ?b - ?b\<bar> \<le> dec_limit"
      using a b mq assms(4,5) by linarith
    then have c: "\<bar>dx_round dx (dadd dx (ddiv dx m qty) ?b - ?b) - (dadd dx (ddiv dx m qty) ?b - ?b)\<bar> \<le> dec_error"
      by (rule dec_close [OF laws])
    have "p \<le> dx_round dx (dadd dx (ddiv dx m qty) ?b - ?b)"
      using assms(7) dec_mono [OF laws, of "cap - ?b" "dadd dx (ddiv dx m qty) ?b - ?b"] le(1) by (simp add: dsub_def)
    then have "p \<le> m / qty + 3 * dec_error" using a b c by linarith
    then have "qty * p \<le> qty * (m / qty + 3 * dec_error)" using q by (intro mult_left_mono) auto
    then show ?thesis using q by (simp add: algebra_simps)
  qed
qed

lemma notional_left:
  assumes laws: "decimal_laws dx" and r: "\<And>x. x \<in> {pq, oq, q, pc, oc, t} \<Longrightarrow> 0 \<le> x \<and> x \<le> 10000"
  shows "dsub dx (dsub dx (avg_rebound_qty_min pq (dadd dx oq q)) (dadd dx pc oc)) t \<le> min pq (oq + q) - (pc + oc) - t + 4 * dec_error"
proof -
  have lim: "dec_error \<le> 1" "dec_limit = 79228" by (simp_all add: dec_error_def dec_limit_def)
  have "0 \<le> pq \<and> pq \<le> 10000" "0 \<le> oq \<and> oq \<le> 10000" "0 \<le> q \<and> q \<le> 10000" "0 \<le> pc \<and> pc \<le> 10000" "0 \<le> oc \<and> oc \<le> 10000"
    "0 \<le> t \<and> t \<le> 10000" using r by simp_all
  note b = this
  have a1: "\<bar>dadd dx oq q - (oq + q)\<bar> \<le> dec_error" unfolding dadd_def by (rule dec_close [OF laws]) (use b lim in linarith)
  have a2: "\<bar>dadd dx pc oc - (pc + oc)\<bar> \<le> dec_error" unfolding dadd_def by (rule dec_close [OF laws]) (use b lim in linarith)
  define z where "z = avg_rebound_qty_min pq (dadd dx oq q)"
  have z: "z \<le> min pq (oq + q) + dec_error" "\<bar>z\<bar> \<le> 20001"
    using a1 b lim by (auto simp: z_def avg_rebound_qty_min_def min_def abs_le_iff)
  have a3: "\<bar>dsub dx z (dadd dx pc oc) - (z - dadd dx pc oc)\<bar> \<le> dec_error"
    unfolding dsub_def by (rule dec_close [OF laws]) (use a2 z b lim in linarith)
  have a4: "\<bar>dsub dx (dsub dx z (dadd dx pc oc)) t - (dsub dx z (dadd dx pc oc) - t)\<bar> \<le> dec_error"
    unfolding dsub_def [of dx "dsub dx z (dadd dx pc oc)"] by (rule dec_close [OF laws]) (use a2 a3 z b lim in linarith)
  show ?thesis unfolding z_def [symmetric] using a2 a3 a4 z by linarith
qed

section \<open>Sample inputs\<close>

definition sample_book :: order_book_snapshot where
  "sample_book = \<lparr>ob_bids = [], ob_asks = [\<lparr>bl_price = Fin (3 / 8), bl_size = Fin 5\<rparr>, \<lparr>bl_price = Fin (1 / 4), bl_size = Fin 8\<rparr>]\<rparr>"

lemma sample_asks: "ask_levels sample_dec sample_book = [\<lparr>vl_price = 1/4, vl_size = 8\<rparr>, \<lparr>vl_price = 3/8, vl_size = 5\<rparr>]"
  by (simp add: ask_levels_def sample_book_def avg_rebound_decimal_from_f64_def sample_dec_def f64_eval insort_key.simps)

lemma sample_round: "dx_round sample_dec q = of_int \<lfloor>q * 10 ^ 24 + 1 / 2\<rfloor> / 10 ^ 24"
  by (simp add: sample_dec_def)

lemmas sample_decimal = decimal_ops sample_round avg_rebound_qty_min_def Let_def rat_floor_num

lemma sample_vwap: "\<exists>quote. avg_rebound_vwap_for_fok_limit sample_dec sample_book 8 (1/2) 0 = Inr quote \<and> vq_notional quote = 2"
  by (simp add: avg_rebound_vwap_for_fok_limit_def sample_asks sample_decimal)

definition sample_tokens :: token_resolution where
 "sample_tokens = \<lparr>tr_primary_token_id = ''n'', tr_primary_outcome_label = ''No'', tr_opposite_token_id = ''y'', tr_opposite_outcome_label = ''Yes''\<rparr>"

definition sample_profit_config :: avg_config where
  "sample_profit_config = avg_rebound_default_config\<lparr>av_target_profit_usdc := Some (1 / 2)\<rparr>"

definition sample_profit_state :: avg_state where
  "sample_profit_state = default_avg_state\<lparr>as_session_id := Some 1, as_primary_total_qty := 8, as_primary_total_cost := 2,
     as_open_primary_qty := 8, as_primary_tier_ids := [''p50'']\<rparr>"

lemma sample_profit:
  "\<exists>d. avg_rebound_profit_decision sample_dec sample_profit_config sample_profit_state sample_tokens sample_book = Some (Inr d)
     \<and> ad_qty d = 4 \<and> ad_limit_price d = 375 / 1000
     \<and> avg_rebound_dynamic_profit_cap sample_dec sample_profit_config sample_profit_state 4 \<noteq> None"
  by (simp add: avg_rebound_profit_decision_def avg_rebound_current_stage_def max_by_key_def avg_rebound_stage_is_ready_def
      avg_rebound_has_primary_tier_def avg_rebound_next_profit_leg_def avg_rebound_has_opposite_leg_def sample_profit_config_def
      sample_profit_state_def default_avg_state_def avg_rebound_default_config_def avg_rebound_dynamic_profit_cap_def
      avg_rebound_build_decision_def avg_rebound_vwap_for_fok_limit_def avg_rebound_market_min_notional_usdc_def
      avg_rebound_projected_spend_allowed_def avg_rebound_budget_limit_def sample_asks sample_decimal)

section \<open>Properties\<close>

text \<open>C16: the quote over an order book is the cheapest purchase. With quantities and limits in the exact
  range of the decimals, a quote takes levels at or below the limit whose sizes add up to the
  quantity, its notional is what they cost, and no other way of buying the quantity from the asks costs
  less; and a quantity is rejected for depth only when the asks up to the limit are less than it.\<close>

theorem vwap_quote_cheapest:
  assumes "decimal_laws dx" "digits 12 qty" "qty \<le> dec_limit" "dsub dx cap buffer \<le> 1"
  shows "case avg_rebound_vwap_for_fok_limit dx book qty cap buffer of
      Inr quote \<Rightarrow> sizes_of (vq_levels quote) = qty \<and> vq_notional quote = cost_of (vq_levels quote)
        \<and> list_all (\<lambda>l. 0 < vl_size l \<and> vl_price l \<le> dsub dx cap buffer) (vq_levels quote)
        \<and> (\<forall>qs. purchase qs (ask_levels dx book) \<and> sum_list qs = qty
             \<longrightarrow> vq_notional quote \<le> purchase_cost qs (ask_levels dx book))
    | Inl r \<Rightarrow> vr_reason r = ''insufficient_depth_at_or_below_limit''
        \<longrightarrow> depth_at (dsub dx cap buffer) (ask_levels dx book) < qty"
proof (cases "avg_rebound_vwap_for_fok_limit dx book qty cap buffer")
  case (Inr quote)
  then have "0 < qty" by (auto simp: avg_rebound_vwap_for_fok_limit_def Let_def split: if_splits)
  moreover have "\<forall>l \<in> set (ask_levels dx book). 0 \<le> vl_price l"
    using ask_levels_ok [OF assms(1)] by (auto simp: book_ok_def)
  moreover note ok = vwap_quote_ok [OF assms, of book, unfolded Inr sum.case]
  ultimately have "vq_notional quote \<le> purchase_cost qs (ask_levels dx book)"
    if "purchase qs (ask_levels dx book)" "sum_list qs = qty" for qs
    using greedy_cheapest [OF that(1) ask_levels_ok [OF assms(1)], where p = 0 and r = qty] that(2) by simp
  then show ?thesis unfolding Inr sum.case using ok by blast
qed (use vwap_quote_ok [OF assms, of book] in simp)

theorem vwap_quote_cheapest_witness:
  "\<exists>quote. avg_rebound_vwap_for_fok_limit sample_dec sample_book 10 (45 / 100) (5 / 1000) = Inr quote
     \<and> sizes_of (vq_levels quote) = 10 \<and> vq_notional quote \<le> purchase_cost [8, 2] (ask_levels sample_dec sample_book)"
proof -
  obtain quote where q: "avg_rebound_vwap_for_fok_limit sample_dec sample_book 10 (45 / 100) (5 / 1000) = Inr quote"
    by (simp add: avg_rebound_vwap_for_fok_limit_def sample_asks sample_decimal)
  have "purchase [8, 2] (ask_levels sample_dec sample_book)" by (simp add: sample_asks purchase_def)
  moreover have "digits 12 10" "10 \<le> dec_limit" "dsub sample_dec (45 / 100) (5 / 1000) \<le> 1"
    using digits_int [of 12 10] by (simp_all add: dec_limit_def sample_decimal)
  note vwap_quote_cheapest [OF sample_dec_laws this, of sample_book, unfolded q sum.case]
  ultimately show ?thesis using q by force
qed

text \<open>C20: a profit decision secures the profit. When a target is configured and leaves something to spend,
  filling the decision's order at or below its limit leaves the pairs that can be redeemed worth the
  whole cost and the target, up to the rounding of the decimals.\<close>

theorem profit_target_secured:
  assumes "decimal_laws dx" "av_target_profit_usdc config = Some t"
    and "0 \<le> av_extra_vwap_safety_buffer config" "av_extra_vwap_safety_buffer config \<le> 1"
    and "avg_rebound_profit_decision dx config state tokens book = Some (Inr d)"
    and "avg_rebound_dynamic_profit_cap dx config state (ad_qty d) \<noteq> None"
    and "\<And>x. x \<in> {as_primary_total_qty state, as_opposite_filled_qty state, ad_qty d, as_primary_total_cost state,
        as_opposite_total_cost state, t} \<Longrightarrow> 0 \<le> x \<and> x \<le> 10000"
    and "price \<le> ad_limit_price d"
  shows "t - (4 + 3 * ad_qty d) * dec_error \<le> min (as_primary_total_qty state) (as_opposite_filled_qty state + ad_qty d)
    - (as_primary_total_cost state + as_opposite_total_cost state + ad_qty d * price)"
proof -
  obtain cap eff where c: "avg_rebound_dynamic_profit_cap dx config state (ad_qty d) = Some (cap, eff)"
    using assms(6) by fastforce
  have "ad_limit_price d = dsub dx cap (av_extra_vwap_safety_buffer config)"
    using assms(5) c by (auto simp: avg_rebound_profit_decision_def bind_eq_Some_conv Let_def split: if_splits
        dest!: build_decision_ok)
  then have "price \<le> dsub dx cap (av_extra_vwap_safety_buffer config)" using assms(8) by simp
  from dynamic_cap_limit [OF assms(1) c assms(2-4) refl this]
    notional_left [of dx "as_primary_total_qty state" "as_opposite_filled_qty state" "ad_qty d" "as_primary_total_cost state"
      "as_opposite_total_cost state" t, OF assms(1,7)]
  have "ad_qty d * price \<le> min (as_primary_total_qty state) (as_opposite_filled_qty state + ad_qty d)
      - (as_primary_total_cost state + as_opposite_total_cost state) - t + 4 * dec_error + 3 * ad_qty d * dec_error"
    by linarith
  moreover have "(4 + 3 * ad_qty d) * dec_error = 4 * dec_error + 3 * ad_qty d * dec_error" by (simp add: algebra_simps)
  ultimately show ?thesis by linarith
qed

theorem profit_target_secured_witness:
  "\<exists>d. avg_rebound_profit_decision sample_dec sample_profit_config sample_profit_state sample_tokens sample_book = Some (Inr d)
     \<and> 1 / 2 - 16 * dec_error \<le> min 8 (ad_qty d) - (2 + ad_qty d * ad_limit_price d)"
proof -
  obtain d where d: "avg_rebound_profit_decision sample_dec sample_profit_config sample_profit_state sample_tokens sample_book = Some (Inr d)"
    "ad_qty d = 4" "ad_limit_price d = 375 / 1000"
    "avg_rebound_dynamic_profit_cap sample_dec sample_profit_config sample_profit_state (ad_qty d) \<noteq> None"
    using sample_profit by fastforce
  have s: "as_primary_total_qty sample_profit_state = 8" "as_primary_total_cost sample_profit_state = 2"
    "as_opposite_filled_qty sample_profit_state = 0" "as_opposite_total_cost sample_profit_state = 0"
    by (simp_all add: sample_profit_state_def default_avg_state_def)
  have "1 / 2 - (4 + 3 * ad_qty d) * dec_error \<le> min (as_primary_total_qty sample_profit_state) (as_opposite_filled_qty sample_profit_state + ad_qty d)
    - (as_primary_total_cost sample_profit_state + as_opposite_total_cost sample_profit_state + ad_qty d * ad_limit_price d)"
    by (rule profit_target_secured [OF sample_dec_laws _ _ _ d(1,4)])
      (auto simp: s d(2) sample_profit_config_def avg_rebound_default_config_def)
  then show ?thesis using d by (intro exI [of _ d]) (simp add: s)
qed

text \<open>A target that leaves nothing to spend is not secured. The dynamic cap is then None, and the decision falls back to the
  configured cap of its leg: here a profit order is placed although the pairs are worth less than they cost.\<close>

lemma exhausted_target_falls_back:
  "\<exists>d. avg_rebound_profit_decision sample_dec sample_profit_config (sample_profit_state\<lparr>as_primary_total_cost := 6\<rparr>) sample_tokens sample_book
      = Some (Inr d) \<and> min 8 (ad_qty d) - (6 + ad_qty d * ad_vwap d) < 0
    \<and> avg_rebound_dynamic_profit_cap sample_dec sample_profit_config (sample_profit_state\<lparr>as_primary_total_cost := 6\<rparr>) (ad_qty d) = None"
  by (simp add: avg_rebound_profit_decision_def avg_rebound_current_stage_def max_by_key_def avg_rebound_stage_is_ready_def
      avg_rebound_has_primary_tier_def avg_rebound_next_profit_leg_def avg_rebound_has_opposite_leg_def sample_profit_config_def
      sample_profit_state_def default_avg_state_def avg_rebound_default_config_def avg_rebound_dynamic_profit_cap_def
      avg_rebound_build_decision_def avg_rebound_vwap_for_fok_limit_def avg_rebound_market_min_notional_usdc_def
      avg_rebound_projected_spend_allowed_def avg_rebound_budget_limit_def sample_asks sample_decimal)

text \<open>Two switches of the configuration have no effect. Whatever \<open>preFullGivebackGuardEnabled\<close> and
  the rescue's \<open>enabledOnlyAfterFullLadder\<close> say, the decision is the same: the guard and the rescue are
  only tried when the whole ladder is filled.\<close>

lemma guard_switches_dead:
  "avg_rebound_select_decision dx (config\<lparr>av_pre_full_giveback_guard_enabled := b,
      av_rescue := (av_rescue config)\<lparr>rs_enabled_only_after_full_ladder := c\<rparr>\<rparr>) state tokens primary_book price opposite_book
    = avg_rebound_select_decision dx config state tokens primary_book price opposite_book"
proof -
  let ?config = "config\<lparr>av_pre_full_giveback_guard_enabled := b,
      av_rescue := (av_rescue config)\<lparr>rs_enabled_only_after_full_ladder := c\<rparr>\<rparr>"
  have kept: "av_stages ?config = av_stages config" "av_primary_ladder ?config = av_primary_ladder config"
    "av_extra_vwap_safety_buffer ?config = av_extra_vwap_safety_buffer config"
    "av_session_budget_usdc ?config = av_session_budget_usdc config"
    "av_reserved_budget_buffer_usdc ?config = av_reserved_budget_buffer_usdc config"
    "av_target_profit_usdc ?config = av_target_profit_usdc config"
    "av_allow_primary_after_partial_profit ?config = av_allow_primary_after_partial_profit config"
    "av_full_giveback_guard_enabled ?config = av_full_giveback_guard_enabled config" by simp_all
  have same: "avg_rebound_current_stage ?config = avg_rebound_current_stage config"
    "avg_rebound_full_ladder_filled ?config = avg_rebound_full_ladder_filled config"
    "avg_rebound_next_primary_tier ?config = avg_rebound_next_primary_tier config"
    "avg_rebound_build_decision dx ?config = avg_rebound_build_decision dx config"
    "avg_rebound_dynamic_profit_cap dx ?config = avg_rebound_dynamic_profit_cap dx config"
    unfolding fun_eq_iff avg_rebound_current_stage_def avg_rebound_full_ladder_filled_def avg_rebound_next_primary_tier_def
      avg_rebound_build_decision_def avg_rebound_projected_spend_allowed_def avg_rebound_budget_limit_def
      avg_rebound_dynamic_profit_cap_def kept by (intro allI refl)+
  have "rescue_steps ?config = rescue_steps config" by (simp add: rescue_steps_def)
  note same = same this
  have always: "avg_rebound_profit_decision dx ?config = avg_rebound_profit_decision dx config"
    "avg_rebound_primary_decision dx ?config = avg_rebound_primary_decision dx config"
    unfolding fun_eq_iff avg_rebound_profit_decision_def avg_rebound_primary_decision_def same kept by (intro allI refl)+
  have full: "avg_rebound_guard_decision dx ?config state = avg_rebound_guard_decision dx config state"
    "avg_rebound_rescue_decision dx ?config state = avg_rebound_rescue_decision dx config state"
    if "avg_rebound_full_ladder_filled config state"
    unfolding fun_eq_iff avg_rebound_guard_decision_def avg_rebound_rescue_decision_def same kept using that by (simp_all add: Let_def cong: if_cong)
  show ?thesis
    unfolding avg_rebound_select_decision_def same always
    by (cases "avg_rebound_full_ladder_filled config state") (simp_all add: full)
qed

end
