(* ===== verification/Avg_Rebound_Reach.thy ===== *)
theory Avg_Rebound_Reach
  imports Avg_Rebound_Session Avg_Rebound_Safety
begin

text \<open>
  The reachable states of a rescue session. A step is an attempt of the strategy, whatever the
  environment answers and refuses, or a change of an order by the trade builder: it moves to another
  status, or it is completed and its fill is recorded. An order that is neither active for
  \<open>has_active_trade_builder_avg_rebound_pairlock_rescue_order\<close> nor finished (\<open>guard_blocked\<close>,
  \<open>inventory_pending\<close>, \<open>canceled_requested\<close>, \<open>blocked\<close>) is held: the builder still processes it and may
  resume it, but an attempt does not see it. The relation says whether held orders are resumed.
\<close>

section \<open>Steps\<close>

definition order_held :: "rescue_order \<Rightarrow> bool" where
  "order_held ord \<longleftrightarrow> \<not> order_active ord \<and> \<not> order_dead ord \<and> ro_status ord \<notin> {''completed'', ''filled''}"

definition order_moved :: "nat \<Rightarrow> string \<Rightarrow> rescue_world \<Rightarrow> rescue_world" where
  "order_moved i status w = w\<lparr>rw_orders := (rw_orders w)[i := (rw_orders w ! i)\<lparr>ro_status := status\<rparr>]\<rparr>"

definition started :: "rescue_world \<Rightarrow> bool" where
  "started w \<longleftrightarrow> rw_session w = None \<and> rw_orders w = [] \<and> rw_fills w = []"

text \<open>The orders the builder may change, to any status, when held orders are (not) resumed.\<close>

definition order_free :: "bool \<Rightarrow> nat \<Rightarrow> rescue_world \<Rightarrow> bool" where
  "order_free resumed i w \<longleftrightarrow> i < length (rw_orders w)
     \<and> (order_active (rw_orders w ! i) \<or> resumed \<and> order_held (rw_orders w ! i))"

inductive rescue_reachable :: "bool \<Rightarrow> dec_env \<Rightarrow> avg_config \<Rightarrow> rescue_world \<Rightarrow> bool" for resumed dx config where
  start: "started w \<Longrightarrow> rescue_reachable resumed dx config w"
| attempt: "rescue_reachable resumed dx config w \<Longrightarrow>
    rescue_reachable resumed dx config (snd (execute_avg_rebound (env :: string run_env) dx config inp w))"
| moved: "rescue_reachable resumed dx config w \<Longrightarrow> order_free resumed i w \<Longrightarrow>
    rescue_reachable resumed dx config (order_moved i status w)"
| dropped: "rescue_reachable resumed dx config w \<Longrightarrow> i < length (rw_orders w) \<Longrightarrow> order_held (rw_orders w ! i) \<Longrightarrow>
    status \<in> {''error'', ''canceled'', ''expired''} \<Longrightarrow> rescue_reachable resumed dx config (order_moved i status w)"
| filled: "rescue_reachable resumed dx config w \<Longrightarrow> order_free resumed i w \<Longrightarrow>
    rescue_reachable resumed dx config
      (snd (maybe_record_fill (env :: string run_env) (rw_orders w ! i) qty price (order_moved i ''completed'' w)))"

section \<open>The invariant\<close>

text \<open>The spend recorded in a state, as the budget check reads it.\<close>

definition rescue_spent :: "dec_env \<Rightarrow> rescue_world \<Rightarrow> decimal" where
  "rescue_spent dx w = (let s = avg_rebound_state_from_db dx (avg_db_state_of w)
     in dadd dx (as_primary_total_cost s) (as_opposite_total_cost s))"

definition ladder_decision_id :: "dec_env \<Rightarrow> avg_config \<Rightarrow> i64 \<Rightarrow> string \<Rightarrow> string" where
  "ladder_decision_id dx config session_id tier =
    (case find (\<lambda>t. tier_id t = tier) (av_primary_ladder config) of
       None \<Rightarrow> []
     | Some t \<Rightarrow> avg_rebound_decision_id dx session_id intent_primary_ladder None tier (tier_qty t) (dsub dx (tier_price_cap t) 0))"

definition sessions_ok :: "rescue_world \<Rightarrow> bool" where
  "sessions_ok w \<longleftrightarrow> (case rw_session w of None \<Rightarrow> rw_orders w = [] | Some s \<Rightarrow> ss_status s \<in> set active_session_statuses)"

definition live_ids :: "rescue_world \<Rightarrow> string list" where
  "live_ids w = map (\<lambda>ord. ad_decision_id (ro_decision ord)) (filter (\<lambda>ord. \<not> order_dead ord) (rw_orders w))"

definition ladder_ids_ok :: "dec_env \<Rightarrow> avg_config \<Rightarrow> rescue_world \<Rightarrow> bool" where
  "ladder_ids_ok dx config w \<longleftrightarrow> list_all (\<lambda>ord. ad_leg_role (ro_decision ord) = ''primary'' \<longrightarrow>
     map_option (\<lambda>s. ladder_decision_id dx config (ss_id s) (ad_tier_or_leg_id (ro_decision ord))) (rw_session w)
       = Some (ad_decision_id (ro_decision ord))) (rw_orders w)"

definition active_orders :: "rescue_world \<Rightarrow> rescue_order list" where
  "active_orders w = filter order_active (rw_orders w)"

definition within_budget :: "dec_env \<Rightarrow> avg_config \<Rightarrow> rescue_world \<Rightarrow> bool" where
  "within_budget dx config w \<longleftrightarrow> (case active_orders w of
     [] \<Rightarrow> True
   | [ord] \<Rightarrow> dadd dx (rescue_spent dx w) (ad_notional (ro_decision ord)) \<le> avg_rebound_budget_limit dx config
   | _ \<Rightarrow> False)"

text \<open>The budget is part of the invariant as long as no held order is resumed (\<open>bud\<close>).\<close>

definition rescue_ok :: "bool \<Rightarrow> dec_env \<Rightarrow> avg_config \<Rightarrow> rescue_world \<Rightarrow> bool" where
  "rescue_ok bud dx config w \<longleftrightarrow> sessions_ok w \<and> distinct (live_ids w) \<and> ladder_ids_ok dx config w
     \<and> (bud \<longrightarrow> within_budget dx config w)"

text \<open>What an attempt finds once it has seen no active order.\<close>

definition idle :: "dec_env \<Rightarrow> avg_config \<Rightarrow> rescue_world \<Rightarrow> bool" where
  "idle dx config w \<longleftrightarrow> rescue_ok True dx config w \<and> active_orders w = []"

definition idle_in :: "dec_env \<Rightarrow> avg_config \<Rightarrow> i64 \<Rightarrow> rescue_world \<Rightarrow> bool" where
  "idle_in dx config session_id w \<longleftrightarrow> idle dx config w \<and> map_option ss_id (rw_session w) = Some session_id"

lemmas rescue_parts = sessions_ok_def live_ids_def ladder_ids_ok_def active_orders_def within_budget_def

lemma active_is_session: "sessions_ok w \<Longrightarrow> active_session w = rw_session w"
  by (auto simp: sessions_ok_def active_session_def filter_opt_def split: option.splits)

lemma has_active: "has_active_order w \<longleftrightarrow> active_orders w \<noteq> []"
  by (auto simp: has_active_order_def active_orders_def filter_empty_conv list_ex_iff)

lemma has_decision: "has_decision_order d w \<longleftrightarrow> d \<in> set (live_ids w)"
  by (auto simp: has_decision_order_def live_ids_def list_ex_iff)

lemma idle_ok: "idle dx config w \<longleftrightarrow> sessions_ok w \<and> distinct (live_ids w) \<and> ladder_ids_ok dx config w \<and> active_orders w = []"
  by (auto simp: idle_def rescue_ok_def within_budget_def)

lemma idle_rescue: "idle dx config w \<Longrightarrow> rescue_ok bud dx config w"
  by (auto simp: idle_ok rescue_ok_def within_budget_def)

text \<open>The invariant does not read the calls and the log.\<close>

lemma unread [simp]:
  "rw_session (tick w) = rw_session w" "rw_orders (tick w) = rw_orders w" "rw_fills (tick w) = rw_fills w"
  by (simp_all add: tick_def)

lemma world_eq:
  assumes "rw_session w = rw_session v" "rw_orders w = rw_orders v" "rw_fills w = rw_fills v"
  shows "rescue_ok bud dx config w = rescue_ok bud dx config v" "idle dx config w = idle dx config v"
    "idle_in dx config i w = idle_in dx config i v" "rescue_spent dx w = rescue_spent dx v" "avg_db_state_of w = avg_db_state_of v"
    "active_session w = active_session v" "has_active_order w = has_active_order v" "has_decision_order d w = has_decision_order d v"
  unfolding rescue_ok_def idle_def idle_in_def rescue_parts rescue_spent_def avg_db_state_of_def active_session_def
    has_active_order_def has_decision_order_def assms by (rule refl)+

lemma tick_eq [simp]:
  "rescue_ok bud dx config (tick w) = rescue_ok bud dx config w" "idle dx config (tick w) = idle dx config w"
  "idle_in dx config i (tick w) = idle_in dx config i w" "rescue_spent dx (tick w) = rescue_spent dx w"
  "avg_db_state_of (tick w) = avg_db_state_of w" "active_session (tick w) = active_session w"
  "has_active_order (tick w) = has_active_order w" "has_decision_order d (tick w) = has_decision_order d w"
  by (rule world_eq; simp)+

section \<open>Database calls\<close>

lemma ask_hoare:
  assumes "\<And>w. P w \<Longrightarrow> P (tick w)" "\<And>w. P w \<Longrightarrow> f (tick w) = f w" "\<And>w. P w \<Longrightarrow> E (tick w)"
  shows "hoare P (ask_db env f) (\<lambda>x w. P w \<and> x = f w) E"
  using assms by (auto intro!: hoareI simp: ask_db_def split: answer.splits)

lemma idle_kept:
  assumes "idle_in dx config i w"
  shows "rescue_ok bud dx config w"
  using assms by (simp add: idle_in_def idle_rescue)

text \<open>A commit that keeps the invariant, whether it is applied, refused or lost.\<close>

lemma commit_keeps:
  assumes "\<And>w. P w \<Longrightarrow> P (tick w)" "\<And>w. P w \<Longrightarrow> rescue_ok bud dx config w"
    and "\<And>w. P w \<Longrightarrow> Q (eff (tick w\<lparr>w_ops := w_ops w @ [op]\<rparr>)) \<and> rescue_ok bud dx config (eff (tick w\<lparr>w_ops := w_ops w @ [op]\<rparr>))"
  shows "hoare P (commit env op eff) (\<lambda>_. Q) (rescue_ok bud dx config)"
  by (rule commit_hoare) (use assms in \<open>blast+\<close>)

lemma logged_eq [simp]:
  "rescue_ok bud dx config (w\<lparr>w_ops := x\<rparr>) = rescue_ok bud dx config w" "idle dx config (w\<lparr>w_ops := x\<rparr>) = idle dx config w"
  "idle_in dx config i (w\<lparr>w_ops := x\<rparr>) = idle_in dx config i w" "rescue_spent dx (w\<lparr>w_ops := x\<rparr>) = rescue_spent dx w"
  "avg_db_state_of (w\<lparr>w_ops := x\<rparr>) = avg_db_state_of w" "active_session (w\<lparr>w_ops := x\<rparr>) = active_session w"
  "has_active_order (w\<lparr>w_ops := x\<rparr>) = has_active_order w" "has_decision_order d (w\<lparr>w_ops := x\<rparr>) = has_decision_order d w"
  by (rule world_eq; simp)+

lemma commit_none: "(\<And>w. P w \<Longrightarrow> P (tick w)) \<Longrightarrow> (\<And>w x. P w \<Longrightarrow> P (w\<lparr>w_ops := x\<rparr>)) \<Longrightarrow> (\<And>w. P w \<Longrightarrow> rescue_ok bud dx config w) \<Longrightarrow>
    hoare P (commit env op (\<lambda>w. w)) (\<lambda>_. P) (rescue_ok bud dx config)"
  by (rule commit_keeps) (auto simp: tick_def)

section \<open>The session's status\<close>

definition placing_statuses :: "string set" where
  "placing_statuses = {status_building_primary, status_profit_locking, status_guard_exit, status_rescue_exit, status_locked}"

lemma placing_active: "st \<in> placing_statuses \<Longrightarrow> st \<in> set active_session_statuses"
  by (auto simp: placing_statuses_def active_session_statuses_def)

lemma status_kept:
  assumes "st \<in> placing_statuses" "sessions_ok w"
  shows "sessions_ok (set_session_status i st w)" "map_option ss_id (rw_session (set_session_status i st w)) = map_option ss_id (rw_session w)"
    "rw_orders (set_session_status i st w) = rw_orders w" "rw_fills (set_session_status i st w) = rw_fills w"
  using assms placing_active by (auto simp: sessions_ok_def set_session_status_def split: option.splits)

lemma spent_eq:
  assumes "sessions_ok w" "sessions_ok v" "map_option ss_id (rw_session w) = map_option ss_id (rw_session v)" "rw_fills w = rw_fills v"
  shows "rescue_spent dx w = rescue_spent dx v"
  using assms(3,4) unfolding rescue_spent_def avg_db_state_of_def active_is_session [OF assms(1)] active_is_session [OF assms(2)]
  by (auto simp: avg_rebound_state_from_db_def Let_def split: option.splits)

lemma ladder_ids_eq:
  assumes "map_option ss_id (rw_session w) = map_option ss_id (rw_session v)" "rw_orders w = rw_orders v"
  shows "ladder_ids_ok dx config w = ladder_ids_ok dx config v"
  using assms by (cases "rw_session w"; cases "rw_session v") (simp_all add: ladder_ids_ok_def)

lemma status_ok:
  assumes "st \<in> placing_statuses" "rescue_ok bud dx config w"
  shows "rescue_ok bud dx config (set_session_status i st w)"
proof -
  have s: "sessions_ok w" using assms(2) by (simp add: rescue_ok_def)
  note kept = status_kept [OF assms(1) s, of i]
  show ?thesis
    using assms(2) kept spent_eq [OF kept(1) s kept(2,4)] ladder_ids_eq [OF kept(2,3)]
    by (auto simp: rescue_ok_def live_ids_def active_orders_def within_budget_def split: list.splits)
qed

lemma status_idle:
  assumes "st \<in> placing_statuses" "idle_in dx config i w"
  shows "idle_in dx config i (set_session_status j st w)" "rescue_spent dx (set_session_status j st w) = rescue_spent dx w"
    "has_decision_order d (set_session_status j st w) = has_decision_order d w"
proof -
  have s: "sessions_ok w" using assms(2) by (simp add: idle_in_def idle_ok)
  note kept = status_kept [OF assms(1) s, of j]
  show "idle_in dx config i (set_session_status j st w)"
    using assms(2) status_ok [OF assms(1), of True dx config w j] kept by (simp add: idle_in_def idle_def active_orders_def)
  show "rescue_spent dx (set_session_status j st w) = rescue_spent dx w" by (rule spent_eq [OF kept(1) s kept(2,4)])
  show "has_decision_order d (set_session_status j st w) = has_decision_order d w" using kept by (simp add: has_decision_order_def)
qed

section \<open>The decision\<close>

lemma select_first_in: "fst (select_first ds) = Some d \<Longrightarrow> Some (Inr d) \<in> set ds"
  by (induction ds rule: select_first.induct) (auto split: prod.splits)

lemma first_decision_in: "first_decision f xs = Some (Inr d) \<Longrightarrow> \<exists>x. f x = Inr d"
  by (induction xs) (auto split: sum.splits)

lemma built:
  assumes "avg_rebound_build_decision dx config state token outcome role intent status stage leg qty cap book = Inr d"
  shows "ad_session_status d = status \<and> ad_leg_role d = role \<and> as_session_id state = Some (ad_session_id d)
    \<and> avg_rebound_projected_spend_allowed dx config state (ad_notional d)
    \<and> ad_tier_or_leg_id d = leg \<and> ad_decision_id d = avg_rebound_decision_id dx (ad_session_id d) intent stage leg qty
      (dsub dx cap (if role = ''opposite'' then av_extra_vwap_safety_buffer config else 0))"
proof -
  have "ad_session_status d = status"
    using assms by (auto simp: avg_rebound_build_decision_def Let_def split: option.splits sum.splits if_splits)
  then show ?thesis using build_decision_ok [OF assms] by auto
qed

lemma find_same: "find (\<lambda>x. P (f x)) xs = Some t \<Longrightarrow> find (\<lambda>x. f x = f t) xs = Some t"
  by (induction xs) (auto split: if_splits simp: find_Some_iff)

definition placeable :: "dec_env \<Rightarrow> avg_config \<Rightarrow> avg_decision \<Rightarrow> bool" where
  "placeable dx config d \<longleftrightarrow> ad_session_status d \<in> placing_statuses
     \<and> (ad_leg_role d = ''primary'' \<longrightarrow> ad_decision_id d = ladder_decision_id dx config (ad_session_id d) (ad_tier_or_leg_id d))"

lemma decision_placeable:
  assumes "fst (avg_rebound_select_decision dx config state tokens book price opposite) = Some d"
  shows "placeable dx config d \<and> as_session_id state = Some (ad_session_id d)
    \<and> avg_rebound_projected_spend_allowed dx config state (ad_notional d)"
proof -
  have "Some (Inr d) \<in> {avg_rebound_profit_decision dx config state tokens opposite,
      avg_rebound_guard_decision dx config state tokens price opposite,
      avg_rebound_rescue_decision dx config state tokens opposite, avg_rebound_primary_decision dx config state tokens book}"
    using select_first_in [OF assms [unfolded avg_rebound_select_decision_def]] by (auto split: if_splits)
  then consider (opp) token outcome intent status stage leg qty cap bk where
      "avg_rebound_build_decision dx config state token outcome ''opposite'' intent status stage leg qty cap bk = Inr d"
      "status \<in> placing_statuses"
    | (prim) tier token outcome where "avg_rebound_next_primary_tier config state = Some tier"
      "avg_rebound_build_decision dx config state token outcome ''primary'' intent_primary_ladder status_building_primary None
         (tier_id tier) (tier_qty tier) (tier_price_cap tier) book = Inr d"
    by (auto simp: avg_rebound_profit_decision_def avg_rebound_guard_decision_def avg_rebound_rescue_decision_def
        avg_rebound_primary_decision_def bind_eq_Some_conv Let_def placing_statuses_def split: if_splits
        dest!: sym [of "Some _"] first_decision_in)
  then show ?thesis
  proof cases
    case opp
    then show ?thesis using built [OF opp(1)] by (simp add: placeable_def)
  next
    case prim
    have "find (\<lambda>t. tier_id t = tier_id tier) (av_primary_ladder config) = Some tier"
      using find_same [where f = tier_id, OF prim(1) [unfolded avg_rebound_next_primary_tier_def avg_rebound_has_primary_tier_def]] .
    then show ?thesis using built [OF prim(2)] by (simp add: placeable_def placing_statuses_def ladder_decision_id_def)
  qed
qed

section \<open>Attempts keep the invariant\<close>

definition placing :: "dec_env \<Rightarrow> avg_config \<Rightarrow> avg_decision \<Rightarrow> rescue_world \<Rightarrow> bool" where
  "placing dx config d w \<longleftrightarrow> idle_in dx config (ad_session_id d) w \<and> placeable dx config d
     \<and> dadd dx (rescue_spent dx w) (ad_notional d) \<le> avg_rebound_budget_limit dx config"

lemma placing_eq [simp]:
  "placing dx config d (tick w) = placing dx config d w" "placing dx config d (w\<lparr>w_ops := x\<rparr>) = placing dx config d w"
  by (simp_all add: placing_def)

lemma placing_ok: "placing dx config d w \<Longrightarrow> rescue_ok bud dx config w"
  by (simp add: placing_def idle_in_def idle_rescue)

lemma placing_status:
  assumes "placing dx config d w"
  shows "placing dx config d (set_session_status j (ad_session_status d) w)"
    "has_decision_order x (set_session_status j (ad_session_status d) w) = has_decision_order x w"
proof -
  have "ad_session_status d \<in> placing_statuses" "idle_in dx config (ad_session_id d) w"
    using assms by (simp_all add: placing_def placeable_def)
  note status_idle [OF this, where j = j]
  then show "placing dx config d (set_session_status j (ad_session_status d) w)"
    "has_decision_order x (set_session_status j (ad_session_status d) w) = has_decision_order x w"
    using assms by (simp_all add: placing_def)
qed

lemma order_placed:
  assumes "placing dx config d w" "\<not> has_decision_order (ad_decision_id d) w"
    and v: "rw_session v = rw_session w" "rw_fills v = rw_fills w"
      "rw_orders v = rw_orders w @ [\<lparr>ro_id = i, ro_status = ''pending'', ro_decision = d\<rparr>]"
  shows "rescue_ok bud dx config v"
proof -
  have w: "sessions_ok w" "distinct (live_ids w)" "ladder_ids_ok dx config w" "filter order_active (rw_orders w) = []"
    "map_option ss_id (rw_session w) = Some (ad_session_id d)" "placeable dx config d"
    "dadd dx (rescue_spent dx w) (ad_notional d) \<le> avg_rebound_budget_limit dx config"
    using assms(1) by (simp_all add: placing_def idle_in_def idle_ok active_orders_def)
  have s: "sessions_ok v" using w(1,5) v by (auto simp: sessions_ok_def split: option.splits)
  have "rescue_spent dx v = rescue_spent dx w" by (rule spent_eq [OF s w(1)]) (simp_all add: v)
  then have "within_budget dx config v"
    using w(4,7) by (simp add: within_budget_def active_orders_def order_active_def v)
  moreover have "distinct (live_ids v)"
    using w(2) assms(2) by (auto simp: has_decision live_ids_def v)
  moreover have "ladder_ids_ok dx config v"
    using w(3,5,6) by (auto simp: ladder_ids_ok_def placeable_def v)
  ultimately show ?thesis using s by (simp add: rescue_ok_def)
qed

lemma order_event_ok: "hoare (rescue_ok bud dx config) (commit env op (\<lambda>w. w)) (\<lambda>_. rescue_ok bud dx config) (rescue_ok bud dx config)"
  by (rule commit_none) simp_all

lemma place_hoare:
  "hoare (placing dx config d) (place_decision env inp session_id d) (\<lambda>_. rescue_ok bud dx config) (rescue_ok bud dx config)"
proof -
  let ?P = "\<lambda>w. placing dx config d w \<and> \<not> has_decision_order (ad_decision_id d) w"
  have status: "hoare ?P (mark_session_status env session_id (ad_session_status d)) (\<lambda>_. ?P) (rescue_ok bud dx config)"
    unfolding mark_session_status_def
    by (rule commit_keeps) (auto simp: placing_ok placing_status intro!: placing_ok placing_status)
  have order: "hoare ?P (commit env (RescueOrderCreated i t x)
      (\<lambda>w. w\<lparr>rw_orders := rw_orders w @ [\<lparr>ro_id = i, ro_status = ''pending'', ro_decision = d\<rparr>]\<rparr>))
      (\<lambda>_. rescue_ok bud dx config) (rescue_ok bud dx config)" for i t x
    by (rule commit_keeps) (auto simp: placing_ok intro: order_placed)
  have placed: "hoare ?P (if ai_child_skips inp d then st_return (AvgPlaced d)
        else st_get (\<lambda>w. let order_id = env_new_id env (w_calls w)
          in st_then (commit env (RescueOrderCreated order_id (ad_token_id d) (ad_decision_id d))
                (\<lambda>w. w\<lparr>rw_orders := rw_orders w @ [\<lparr>ro_id = order_id, ro_status = ''pending'', ro_decision = d\<rparr>]\<rparr>))
              (st_then (commit env (BuilderOrderEvent order_id ''avg_rebound_pairlock_rescue_decision''
                   [(''session_id'', EvId session_id)]) (\<lambda>w. w))
                (st_return (AvgPlaced d))))) (\<lambda>_. rescue_ok bud dx config) (rescue_ok bud dx config)"
    unfolding Let_def
    by (intro hoare_if hoare_get_pre hoare_then [OF order hoare_then [OF order_event_ok]] hoare_return) (auto simp: placing_ok)
  have asked: "hoare (placing dx config d) (ask_db env (has_decision_order (ad_decision_id d)))
      (\<lambda>x w. placing dx config d w \<and> x = has_decision_order (ad_decision_id d) w) (rescue_ok bud dx config)"
    by (rule ask_hoare) (auto simp: placing_ok)
  show ?thesis
    unfolding place_decision_def
    by (intro hoare_bind [OF asked] hoare_if hoare_return hoare_then [OF hoare_pre [OF status] placed]) (auto simp: placing_ok)
qed

lemma state_session:
  assumes "sessions_ok w" "as_session_id (avg_rebound_state_from_db dx (avg_db_state_of w)) = Some i"
  shows "map_option ss_id (rw_session w) = Some i"
  using assms(2) unfolding avg_db_state_of_def active_is_session [OF assms(1)]
  by (auto simp: avg_rebound_state_from_db_def default_db_state_def Let_def split: option.splits)

lemma decide_hoare:
  "hoare (idle dx config) (decide_and_place env dx config inp session tokens book opposite) (\<lambda>_. rescue_ok bud dx config)
     (rescue_ok bud dx config)"
proof -
  have asked: "hoare (idle dx config) (ask_db env (\<lambda>w. avg_rebound_state_from_db dx (avg_db_state_of w)))
      (\<lambda>x w. idle dx config w \<and> x = avg_rebound_state_from_db dx (avg_db_state_of w)) (rescue_ok bud dx config)"
    by (rule ask_hoare) (auto simp: idle_rescue)
  have locked: "hoare (rescue_ok bud dx config) (mark_session_status env i status_locked) (\<lambda>_. rescue_ok bud dx config) (rescue_ok bud dx config)" for i
    unfolding mark_session_status_def
    by (rule commit_keeps) (auto intro!: status_ok simp: placing_statuses_def)
  have decided: "hoare (\<lambda>w. idle dx config w \<and> state = avg_rebound_state_from_db dx (avg_db_state_of w))
      (case fst (avg_rebound_select_decision dx config state tokens book p opposite) of
         None \<Rightarrow> st_return (AvgSkipped ''no_eligible_avg_rebound_action'')
       | Some dec \<Rightarrow> place_decision env inp (ss_id session) dec) (\<lambda>_. rescue_ok bud dx config) (rescue_ok bud dx config)" for state p
  proof (cases "fst (avg_rebound_select_decision dx config state tokens book p opposite)")
    case (Some d)
    have "placing dx config d w" if "idle dx config w" "state = avg_rebound_state_from_db dx (avg_db_state_of w)" for w
      using decision_placeable [OF Some] that state_session [of w dx "ad_session_id d"]
      by (simp add: placing_def idle_in_def idle_ok rescue_spent_def avg_rebound_projected_spend_allowed_def Let_def)
    then show ?thesis unfolding Some option.case by (intro hoare_pre [OF place_hoare]) blast
  qed (auto simp: idle_rescue intro: hoare_return)
  show ?thesis
    unfolding decide_and_place_def
    by (intro hoare_bind [OF asked] hoare_if hoare_return hoare_then [OF hoare_pre [OF locked]] decided) (auto simp: idle_rescue)
qed

lemma session_hoare:
  "hoare (idle dx config) (get_or_create_session env tokens) (\<lambda>_. idle dx config) (rescue_ok bud dx config)"
proof -
  have asked: "hoare (idle dx config) (ask_db env active_session) (\<lambda>x w. idle dx config w \<and> x = active_session w) (rescue_ok bud dx config)"
    by (rule ask_hoare) (auto simp: idle_rescue)
  have created: "idle dx config (v\<lparr>rw_session := Some \<lparr>ss_id = i, ss_status = status_building_primary, ss_tokens = tokens\<rparr>\<rparr>)"
    if "idle dx config v" "None = active_session v" for v i
    using that active_is_session [of v]
    by (auto simp: idle_ok sessions_ok_def live_ids_def ladder_ids_ok_def active_orders_def active_session_statuses_def)
  have commit: "hoare (\<lambda>w. idle dx config w \<and> None = active_session w) (commit env op
      (\<lambda>w. w\<lparr>rw_session := Some \<lparr>ss_id = i, ss_status = status_building_primary, ss_tokens = tokens\<rparr>\<rparr>))
      (\<lambda>_. idle dx config) (rescue_ok bud dx config)" for op i
    by (rule commit_keeps) (auto simp: idle_rescue intro: idle_rescue [OF created] created)
  have made: "hoare (\<lambda>w. idle dx config w \<and> found = active_session w) (case found of
       Some session \<Rightarrow> st_return session
     | None \<Rightarrow> st_get (\<lambda>w.
         let session = \<lparr>ss_id = env_new_id env (w_calls w), ss_status = status_building_primary, ss_tokens = tokens\<rparr>
         in st_then (commit env (RescueSessionCreated (ss_id session) (tr_primary_token_id tokens)) (\<lambda>w. w\<lparr>rw_session := Some session\<rparr>))
              (st_return session))) (\<lambda>_. idle dx config) (rescue_ok bud dx config)" for found
    by (cases found) (auto simp: Let_def intro!: hoare_get_pre hoare_then [OF commit] hoare_return)
  show ?thesis
    unfolding get_or_create_session_def by (rule hoare_bind [OF asked made])
qed

lemma books_hoare:
  "(\<And>a b. hoare (idle dx config) (k a b) (\<lambda>_. rescue_ok bud dx config) (rescue_ok bud dx config)) \<Longrightarrow>
    hoare (idle dx config) (with_books inp t u m k) (\<lambda>_. rescue_ok bud dx config) (rescue_ok bud dx config)"
  unfolding with_books_def
  by (auto intro!: hoareI simp: st_bind_def st_result_def st_return_def st_raise_def hoare_def idle_rescue
      split: sum.splits option.splits)

lemma result_hoare: "(\<And>w. P w \<Longrightarrow> rescue_ok bud dx config w) \<Longrightarrow> (\<And>x. hoare P (f x) (\<lambda>_. rescue_ok bud dx config) (rescue_ok bud dx config)) \<Longrightarrow>
    hoare P (st_bind (st_result r) f) (\<lambda>_. rescue_ok bud dx config) (rescue_ok bud dx config)"
  by (cases r) (auto simp: st_bind_def st_result_def st_return_def st_raise_def hoare_def)

lemma execute_hoare:
  "hoare (rescue_ok bud dx config) (execute_avg_rebound env dx config inp) (\<lambda>_. rescue_ok bud dx config) (rescue_ok bud dx config)"
proof -
  have busy: "hoare (rescue_ok bud dx config) (ask_db env has_active_order) (\<lambda>x w. rescue_ok bud dx config w \<and> x = has_active_order w)
      (rescue_ok bud dx config)"
    by (rule ask_hoare) simp_all
  have found: "hoare (idle dx config) (ask_db env active_session) (\<lambda>_. idle dx config) (rescue_ok bud dx config)"
    by (rule hoare_post [OF ask_hoare [where P = "idle dx config" and E = "rescue_ok bud dx config"]]) (auto simp: idle_rescue)
  have run: "hoare (idle dx config) (st_bind (st_result (ai_resolved inp)) (\<lambda>resolved.
       st_bind (ask_db env active_session) (\<lambda>found. case found of
         Some session \<Rightarrow>
           let tokens = ss_tokens session
           in with_books inp (tr_primary_token_id tokens) (tr_opposite_token_id tokens) ''opposite_order_book_unavailable''
                (decide_and_place env dx config inp session tokens)
       | None \<Rightarrow>
           if avg_rebound_primary_outcome_is_auto config
           then with_books inp (rp_yes_token_id resolved) (rp_no_token_id resolved) ''primary_order_book_unavailable''
             (\<lambda>yes_book no_book.
               case avg_rebound_select_cheapest_primary dx config default_avg_state resolved (ai_market_slug inp) yes_book no_book of
                 Inl rejections \<Rightarrow> st_return (AvgSkipped ''no_eligible_avg_rebound_action'')
               | Inr (best, rejections) \<Rightarrow> st_bind (get_or_create_session env (sc_tokens best)) (\<lambda>session.
                   decide_and_place env dx config inp session (sc_tokens best) (sc_primary_book best) (sc_opposite_book best)))
           else st_bind (st_result (avg_rebound_resolve_tokens config inp resolved)) (\<lambda>tokens.
             st_bind (get_or_create_session env tokens) (\<lambda>session.
               with_books inp (tr_primary_token_id tokens) (tr_opposite_token_id tokens) ''opposite_order_book_unavailable''
                 (decide_and_place env dx config inp session tokens))))))
      (\<lambda>_. rescue_ok bud dx config) (rescue_ok bud dx config)"
    unfolding Let_def
    by (intro result_hoare hoare_bind [OF found] hoare_option hoare_if books_hoare hoare_sum hoare_prod hoare_return
        hoare_bind [OF session_hoare] decide_hoare) (auto simp: idle_rescue)
  show ?thesis
    unfolding execute_avg_rebound_def
    by (rule result_hoare, assumption, rule hoare_if, rule hoare_return, assumption, rule hoare_bind [OF busy], rule hoare_if,
        rule hoare_return, simp, rule hoare_pre [OF run], simp add: idle_ok rescue_ok_def has_active)
qed

section \<open>Changes of an order keep the invariant\<close>

lemma order_split:
  assumes "i < length (rw_orders w)"
  obtains xs ord ys where "rw_orders w = xs @ ord # ys" "rw_orders w ! i = ord"
    "\<And>st. rw_orders (order_moved i st w) = xs @ ord\<lparr>ro_status := st\<rparr> # ys"
proof -
  have "rw_orders w = take i (rw_orders w) @ rw_orders w ! i # drop (Suc i) (rw_orders w)"
    using assms by (simp add: id_take_nth_drop)
  moreover have "rw_orders (order_moved i st w) = take i (rw_orders w) @ (rw_orders w ! i)\<lparr>ro_status := st\<rparr> # drop (Suc i) (rw_orders w)" for st
    using assms by (simp add: order_moved_def upd_conv_take_nth_drop)
  ultimately show thesis using that by blast
qed

lemma active_not_dead: "order_active ord \<Longrightarrow> \<not> order_dead ord"
  by (auto simp: order_active_def order_dead_def)

lemma moved_base:
  assumes "rescue_ok bud dx config w" "i < length (rw_orders w)" "\<not> order_dead (rw_orders w ! i)"
  shows "rescue_ok False dx config (order_moved i st w)" "rescue_spent dx (order_moved i st w) = rescue_spent dx w"
proof -
  obtain xs ord ys where o: "rw_orders w = xs @ ord # ys" "rw_orders w ! i = ord"
    "rw_orders (order_moved i st w) = xs @ ord\<lparr>ro_status := st\<rparr> # ys"
    by (rule order_split [OF assms(2)]) blast
  have kept: "rw_session (order_moved i st w) = rw_session w" "rw_fills (order_moved i st w) = rw_fills w"
    by (simp_all add: order_moved_def)
  have w: "sessions_ok w" "distinct (live_ids w)" "ladder_ids_ok dx config w"
    using assms(1) by (simp_all add: rescue_ok_def)
  have s: "sessions_ok (order_moved i st w)" using w(1) kept o by (auto simp: sessions_ok_def split: option.splits)
  have "distinct (live_ids (order_moved i st w))" using w(2) o assms(3) by (auto simp: live_ids_def)
  moreover have "ladder_ids_ok dx config (order_moved i st w)" using w(3) o kept by (simp add: ladder_ids_ok_def)
  ultimately show "rescue_ok False dx config (order_moved i st w)" using s by (simp add: rescue_ok_def)
  show "rescue_spent dx (order_moved i st w) = rescue_spent dx w" by (rule spent_eq [OF s w(1)]) (simp_all add: kept)
qed

lemma moved_budget:
  assumes "rescue_ok True dx config w" "i < length (rw_orders w)" "order_active (rw_orders w ! i)"
  shows "within_budget dx config (order_moved i st w) \<and> (st = ''completed'' \<longrightarrow> active_orders (order_moved i st w) = [])"
proof -
  obtain xs ord ys where o: "rw_orders w = xs @ ord # ys" "rw_orders w ! i = ord"
    "rw_orders (order_moved i st w) = xs @ ord\<lparr>ro_status := st\<rparr> # ys"
    by (rule order_split [OF assms(2)]) blast
  have ord: "order_active ord" using assms(3) o(2) by simp
  have "within_budget dx config w" using assms(1) by (simp add: rescue_ok_def)
  then have only: "filter order_active xs = []" "filter order_active ys = []"
    and fits: "dadd dx (rescue_spent dx w) (ad_notional (ro_decision ord)) \<le> avg_rebound_budget_limit dx config"
    using o(1) ord by (auto simp: within_budget_def active_orders_def split: list.splits) (cases "filter order_active xs"; simp)+
  have "rescue_spent dx (order_moved i st w) = rescue_spent dx w"
    by (rule moved_base(2) [OF assms(1,2)]) (simp add: o(2) active_not_dead ord)
  then show ?thesis
    using only fits o(3) by (cases "st = ''completed''") (simp_all add: within_budget_def active_orders_def order_active_def)
qed

lemma dropped_budget:
  assumes "rescue_ok True dx config w" "i < length (rw_orders w)" "order_held (rw_orders w ! i)"
    and "st \<in> {''error'', ''canceled'', ''expired''}"
  shows "within_budget dx config (order_moved i st w)"
proof -
  obtain xs ord ys where o: "rw_orders w = xs @ ord # ys" "rw_orders w ! i = ord"
    "rw_orders (order_moved i st w) = xs @ ord\<lparr>ro_status := st\<rparr> # ys"
    by (rule order_split [OF assms(2)]) blast
  have held: "\<not> order_active ord" "\<not> order_dead ord" using assms(3) o(2) by (simp_all add: order_held_def)
  have "rescue_spent dx (order_moved i st w) = rescue_spent dx w"
    by (rule moved_base(2) [OF assms(1,2)]) (simp add: o(2) held)
  moreover have "active_orders (order_moved i st w) = active_orders w"
    using o held assms(4) by (auto simp: active_orders_def order_active_def)
  ultimately show ?thesis using assms(1) by (auto simp: rescue_ok_def within_budget_def split: list.splits)
qed

text \<open>The statuses an order leaves are live ones.\<close>

lemma free_not_dead: "order_free b i w \<Longrightarrow> i < length (rw_orders w) \<and> \<not> order_dead (rw_orders w ! i)"
  by (auto simp: order_free_def order_held_def active_not_dead)

lemma moved_ok:
  assumes "rescue_ok (\<not> resumed) dx config w" "order_free resumed i w"
  shows "rescue_ok (\<not> resumed) dx config (order_moved i st w)"
    "\<not> resumed \<Longrightarrow> st = ''completed'' \<Longrightarrow> active_orders (order_moved i st w) = []"
proof -
  note i = free_not_dead [OF assms(2)]
  have "within_budget dx config (order_moved i st w) \<and> (st = ''completed'' \<longrightarrow> active_orders (order_moved i st w) = [])"
    if "\<not> resumed"
    using moved_budget [of dx config w i st] assms that by (simp add: order_free_def)
  then show "rescue_ok (\<not> resumed) dx config (order_moved i st w)"
    "\<not> resumed \<Longrightarrow> st = ''completed'' \<Longrightarrow> active_orders (order_moved i st w) = []"
    using moved_base(1) [OF assms(1), of i st] i by (auto simp: rescue_ok_def)
qed

lemma dropped_ok:
  assumes "rescue_ok bud dx config w" "i < length (rw_orders w)" "order_held (rw_orders w ! i)"
    and "st \<in> {''error'', ''canceled'', ''expired''}"
  shows "rescue_ok bud dx config (order_moved i st w)"
  using moved_base(1) [OF assms(1,2), of st] dropped_budget [of dx config w i st] assms
  by (cases bud) (auto simp: rescue_ok_def order_held_def)

lemma next_status_placing: "next_session_status s intent \<in> placing_statuses"
  by (simp add: next_session_status_def placing_statuses_def)

text \<open>Before a fill is recorded no order is active any more, as far as the budget is kept.\<close>

definition settled :: "bool \<Rightarrow> dec_env \<Rightarrow> avg_config \<Rightarrow> rescue_world \<Rightarrow> bool" where
  "settled bud dx config w \<longleftrightarrow> rescue_ok bud dx config w \<and> (bud \<longrightarrow> active_orders w = [])"

lemma settled_rescue: "settled bud dx config w \<Longrightarrow> rescue_ok bud dx config w"
  by (simp add: settled_def)

lemma moved_settled: "rescue_ok (\<not> resumed) dx config w \<Longrightarrow> order_free resumed i w \<Longrightarrow>
    settled (\<not> resumed) dx config (order_moved i ''completed'' w)"
  unfolding settled_def using moved_ok by blast

lemma settled_eq [simp]:
  "settled bud dx config (tick w) = settled bud dx config w" "settled bud dx config (w\<lparr>w_ops := x\<rparr>) = settled bud dx config w"
  by (simp_all add: settled_def active_orders_def)

lemma settled_fills: "settled bud dx config v \<Longrightarrow> settled bud dx config (v\<lparr>rw_fills := fs\<rparr>)"
  by (auto simp: settled_def rescue_ok_def rescue_parts split: option.splits)

lemma rescue_fill_hoare:
  "hoare (settled bud dx config) (maybe_record_fill env ord qty price) (\<lambda>_. rescue_ok bud dx config) (rescue_ok bud dx config)"
proof -
  have row: "hoare (settled bud dx config) (record_fill_row env f) (\<lambda>_. settled bud dx config) (rescue_ok bud dx config)" for f
    unfolding record_fill_row_def Let_def
    by (intro hoare_get_pre hoare_then [OF commit_keeps] hoare_return)
      (auto simp: settled_rescue intro: settled_fills settled_rescue [OF settled_fills])
  have asked: "hoare (settled bud dx config) (ask_db env avg_db_state_of) (\<lambda>_. rescue_ok bud dx config) (rescue_ok bud dx config)"
    by (rule hoare_post [OF ask_hoare [where P = "settled bud dx config" and E = "rescue_ok bud dx config"]]) (auto simp: settled_rescue)
  have mark: "hoare (rescue_ok bud dx config) (mark_session_status env j (next_session_status s intent)) (\<lambda>_. rescue_ok bud dx config)
      (rescue_ok bud dx config)" for j s intent
    unfolding mark_session_status_def by (rule commit_keeps) (auto intro!: status_ok simp: next_status_placing)
  show ?thesis
    unfolding maybe_record_fill_def Let_def
    by (intro hoare_bind [OF row] hoare_if hoare_return hoare_bind [OF asked] hoare_then [OF mark order_event_ok])
      (auto simp: settled_rescue)
qed

lemma reachable_ok: "rescue_reachable resumed dx config w \<Longrightarrow> rescue_ok (\<not> resumed) dx config w"
proof (induction rule: rescue_reachable.induct)
  case (start w)
  then show ?case by (simp add: started_def rescue_ok_def rescue_parts)
next
  case (attempt w env inp)
  then show ?case using hoare_any [OF execute_hoare] by blast
next
  case (moved w i status)
  then show ?case by (intro moved_ok)
next
  case (dropped w i status)
  then show ?case by (intro dropped_ok)
next
  case (filled w i env qty price)
  then have "settled (\<not> resumed) dx config (order_moved i ''completed'' w)" by (intro moved_settled)
  then show ?case using hoare_any [OF rescue_fill_hoare] by blast
qed

section \<open>A sample run\<close>

text \<open>The default configuration with a session budget of 7 USDC.\<close>

definition tight_config :: avg_config where
  "tight_config = avg_rebound_default_config\<lparr>av_session_budget_usdc := 7\<rparr>"

definition fresh_avg_state :: "i64 => avg_state" where
  "fresh_avg_state i = default_avg_state\<lparr>as_session_id := Some i, as_session_status := Some status_building_primary\<rparr>"

lemma sample_decision: "\<exists>d rs. avg_rebound_select_decision sample_dec tight_config (fresh_avg_state i) sample_tokens sample_book p sample_book = (Some d, rs)
   \<and> ad_session_id d = i \<and> ad_session_status d = status_building_primary \<and> ad_notional d = 2 \<and> ad_leg_role d = ''primary'' \<and> ad_tier_or_leg_id d = ''p50''
   \<and> ad_intent d = intent_primary_ladder \<and> ad_decision_id d = avg_rebound_decision_id sample_dec i intent_primary_ladder None ''p50'' 8 (1 / 2)"
proof -
  obtain quote where q: "avg_rebound_vwap_for_fok_limit sample_dec sample_book 8 (1/2) 0 = Inr quote" "vq_notional quote = 2" using sample_vwap by blast
  have l: "vq_limit_price quote = 1 / 2" using q(1) by (auto simp: avg_rebound_vwap_for_fok_limit_def Let_def sample_decimal split: if_splits prod.splits)
  show ?thesis
   by (simp add: l avg_rebound_select_decision_def avg_rebound_profit_decision_def avg_rebound_current_stage_def max_by_key_def 
      avg_rebound_stage_is_ready_def avg_rebound_has_primary_tier_def fresh_avg_state_def default_avg_state_def tight_config_def avg_rebound_default_config_def
      avg_rebound_full_ladder_filled_def avg_rebound_primary_decision_def avg_rebound_next_primary_tier_def avg_rebound_build_decision_def q
      avg_rebound_market_min_notional_usdc_def avg_rebound_projected_spend_allowed_def avg_rebound_budget_limit_def sample_decimal intent_primary_ladder_def)
qed
definition sample_inputs :: avg_inputs where
  "sample_inputs = \<lparr>ai_lock = Inr True, ai_resolved = Inr \<lparr>rp_yes_token_id = ''y'', rp_no_token_id = ''n''\<rparr>, ai_market_slug = ''m'',
     ai_market_tokens = Inr None, ai_book = \<lambda>_. Inr (Some sample_book), ai_price = \<lambda>_. 0, ai_child_skips = \<lambda>_. False\<rparr>"

definition fresh_rescue :: rescue_world where
  "fresh_rescue = \<lparr>w_db_state = Idle, w_keys = [], w_ops = [], w_cancels = [], w_calls = 0, rw_session = None, rw_orders = [], rw_fills = []\<rparr>"

lemma sample_primary: "\<exists>best rs. avg_rebound_select_cheapest_primary sample_dec tight_config default_avg_state
   \<lparr>rp_yes_token_id = ''y'', rp_no_token_id = ''n''\<rparr> ''m'' sample_book sample_book = Inr (best, rs)
   \<and> sc_tokens best = sample_tokens \<and> sc_primary_book best = sample_book \<and> sc_opposite_book best = sample_book"
proof -
  obtain quote where q: "avg_rebound_vwap_for_fok_limit sample_dec sample_book 8 (1/2) 0 = Inr quote" "vq_notional quote = 2" using sample_vwap by blast
  show ?thesis 
   by (simp add: avg_rebound_select_cheapest_primary_def avg_rebound_primary_candidate_def 
      avg_rebound_has_primary_tier_def default_avg_state_def tight_config_def avg_rebound_default_config_def
      avg_rebound_next_primary_tier_def q candidate_less_def sample_tokens_def
      avg_rebound_market_min_notional_usdc_def Let_def avg_rebound_token_resolution_for_side_def pair_lock_monitor_outcome_labels_def contains_def)
qed


lemma zero_sums: "(0::f64) * 0 = 0" "(0::f64) - 0 = 0" "fmax 0 (0::f64) = 0" "\<not> (0::f64) < 0"
  by (simp_all add: f64_ops f64_add_def f64_mul_def zero_f64_def zero_of_def sign_neg_def fmax_def less_f64_def f64_lt_def)

lemma decimal_zero: "avg_rebound_decimal_from_f64 sample_dec 0 = 0"
  by (simp add: avg_rebound_decimal_from_f64_def sample_dec_def half_even_def)

lemma fresh_state: "rw_session w = Some \<lparr>ss_id = i, ss_status = status_building_primary, ss_tokens = t\<rparr> \<Longrightarrow> rw_fills w = [] \<Longrightarrow>
    avg_rebound_state_from_db sample_dec (avg_db_state_of w) = fresh_avg_state i"
  by (simp add: avg_db_state_of_def active_session_def filter_opt_def active_session_statuses_def fill_sum_def Let_def
     avg_rebound_state_from_db_def fresh_avg_state_def default_avg_state_def zero_sums decimal_zero then_some_def)

lemma fresh_fields: "as_session_status (fresh_avg_state i) = Some status_building_primary" "as_primary_total_qty (fresh_avg_state i) = 0"
  "status_building_primary \<noteq> status_locked" "status_building_primary \<noteq> ''CLOSED''"
  by (simp_all add: fresh_avg_state_def default_avg_state_def status_building_primary_def status_locked_def)

lemma sample_attempt:
  "\<exists>d w. execute_avg_rebound calm_env sample_dec tight_config sample_inputs fresh_rescue = (Inr (AvgPlaced d), w)
     \<and> rw_session w = Some \<lparr>ss_id = 3, ss_status = status_building_primary, ss_tokens = sample_tokens\<rparr>
     \<and> rw_orders w = [\<lparr>ro_id = 7, ro_status = ''pending'', ro_decision = d\<rparr>] \<and> rw_fills w = []
     \<and> ad_notional d = 2 \<and> ad_leg_role d = ''primary'' \<and> ad_tier_or_leg_id d = ''p50'' \<and> ad_session_id d = 3
     \<and> ad_intent d = intent_primary_ladder \<and> ad_decision_id d = avg_rebound_decision_id sample_dec 3 intent_primary_ladder None ''p50'' 8 (1 / 2)"
proof -
  obtain d rs where d: "avg_rebound_select_decision sample_dec tight_config (fresh_avg_state 3) sample_tokens sample_book 0 sample_book = (Some d, rs)"
   "ad_session_id d = 3" "ad_session_status d = status_building_primary" "ad_notional d = 2" "ad_leg_role d = ''primary''" "ad_tier_or_leg_id d = ''p50''"
   "ad_intent d = intent_primary_ladder" "ad_decision_id d = avg_rebound_decision_id sample_dec 3 intent_primary_ladder None ''p50'' 8 (1 / 2)"
   using sample_decision by blast
  obtain best rs where b: "avg_rebound_select_cheapest_primary sample_dec tight_config default_avg_state
   \<lparr>rp_yes_token_id = ''y'', rp_no_token_id = ''n''\<rparr> ''m'' sample_book sample_book = Inr (best, rs)"
   "sc_tokens best = sample_tokens" "sc_primary_book best = sample_book" "sc_opposite_book best = sample_book" using sample_primary by blast
  have auto_side: "avg_rebound_primary_outcome_is_auto tight_config" by code_simp
  show ?thesis
    by (simp add: execute_avg_rebound_def sample_inputs_def fresh_rescue_def st_bind_def st_result_def st_return_def ask_db_def calm_env_def tick_def has_active_order_def
    active_session_def filter_opt_def auto_side with_books_def b get_or_create_session_def st_get_def commit_def Let_def st_then_def decide_and_place_def
    fresh_state d place_decision_def mark_session_status_def set_session_status_def has_decision_order_def  fresh_fields)
qed

lemma sample_reachable:
  "\<exists>w d. rescue_reachable resumed sample_dec tight_config w
     \<and> rw_orders w = [\<lparr>ro_id = 7, ro_status = ''pending'', ro_decision = d\<rparr>] \<and> ad_notional d = 2
     \<and> ad_leg_role d = ''primary'' \<and> ad_tier_or_leg_id d = ''p50''"
proof -
  have "rescue_reachable resumed sample_dec tight_config
      (snd (execute_avg_rebound calm_env sample_dec tight_config sample_inputs fresh_rescue))"
    by (intro rescue_reachable.attempt rescue_reachable.start) (simp add: started_def fresh_rescue_def)
  then show ?thesis using sample_attempt by force
qed

section \<open>Properties\<close>

text \<open>C8: a rescue session stays within its budget. In every state reached without resuming a held order,
  at most one order is active, and the spend recorded for the session together with that order is within the
  session's budget less its reserve, whatever the database answered, refused or lost on the way.\<close>

theorem rescue_session_within_budget:
  assumes "rescue_reachable False dx config w"
  shows "case active_orders w of
      [] \<Rightarrow> True
    | [ord] \<Rightarrow> dadd dx (rescue_spent dx w) (ad_notional (ro_decision ord)) \<le> avg_rebound_budget_limit dx config
    | _ \<Rightarrow> False"
  using reachable_ok [OF assms] by (simp add: rescue_ok_def within_budget_def)

theorem rescue_session_within_budget_witness:
  "\<exists>w ord. active_orders w = [ord]
     \<and> dadd sample_dec (rescue_spent sample_dec w) (ad_notional (ro_decision ord)) \<le> avg_rebound_budget_limit sample_dec tight_config"
proof -
  obtain w d where w: "rescue_reachable False sample_dec tight_config w"
    "rw_orders w = [\<lparr>ro_id = 7, ro_status = ''pending'', ro_decision = d\<rparr>]" using sample_reachable by blast
  then have "active_orders w = [\<lparr>ro_id = 7, ro_status = ''pending'', ro_decision = d\<rparr>]"
    by (simp add: active_orders_def order_active_def)
  moreover from this rescue_session_within_budget [OF w(1)]
  have "dadd sample_dec (rescue_spent sample_dec w) (ad_notional d) \<le> avg_rebound_budget_limit sample_dec tight_config"
    by simp
  ultimately show ?thesis by (intro exI [of _ w] exI) auto
qed

text \<open>C9: an attempt places within the budget, whatever the builder did to earlier orders. From a state
  with an active order an attempt changes no order, no fill and no session. From every other reachable
  state, held orders and resumed ones included, it leaves at most one active order, and the recorded
  spend together with that order is within the session's budget less its reserve.\<close>

theorem rescue_attempt_within_budget:
  assumes "rescue_reachable resumed dx config w"
    and "v = snd (execute_avg_rebound (env :: string run_env) dx config inp w)"
  shows "if active_orders w \<noteq> []
    then rw_orders v = rw_orders w \<and> rw_fills v = rw_fills w \<and> rw_session v = rw_session w
    else case active_orders v of
        [] \<Rightarrow> True
      | [ord] \<Rightarrow> dadd dx (rescue_spent dx v) (ad_notional (ro_decision ord)) \<le> avg_rebound_budget_limit dx config
      | _ \<Rightarrow> False"
proof (cases "active_orders w = []")
  case True
  have "rescue_ok True dx config w"
    by (rule idle_rescue) (use reachable_ok [OF assms(1)] True in \<open>simp add: idle_ok rescue_ok_def\<close>)
  then have "rescue_ok True dx config v" unfolding assms(2) by (rule hoare_any [OF execute_hoare])
  then show ?thesis using True by (simp add: rescue_ok_def within_budget_def)
next
  case False
  then have "has_active_order w" by (simp add: has_active)
  then show ?thesis
    using False unfolding assms(2)
    by (auto simp: execute_avg_rebound_def st_bind_def st_result_def st_return_def st_raise_def ask_db_def
        split: sum.splits answer.splits)
qed

theorem rescue_attempt_within_budget_witness:
  "\<exists>v ord. v = snd (execute_avg_rebound calm_env sample_dec tight_config sample_inputs fresh_rescue) \<and> active_orders v = [ord]
     \<and> dadd sample_dec (rescue_spent sample_dec v) (ad_notional (ro_decision ord)) \<le> avg_rebound_budget_limit sample_dec tight_config"
proof -
  obtain d v where v: "execute_avg_rebound calm_env sample_dec tight_config sample_inputs fresh_rescue = (Inr (AvgPlaced d), v)"
    "rw_orders v = [\<lparr>ro_id = 7, ro_status = ''pending'', ro_decision = d\<rparr>]" using sample_attempt by blast
  have "rescue_reachable True sample_dec tight_config fresh_rescue"
    by (rule rescue_reachable.start) (simp add: started_def fresh_rescue_def)
  note rescue_attempt_within_budget [OF this refl, of calm_env sample_inputs, unfolded v(1) snd_conv]
  moreover have "active_orders fresh_rescue = []" by (simp add: active_orders_def fresh_rescue_def)
  moreover have "active_orders v = [\<lparr>ro_id = 7, ro_status = ''pending'', ro_decision = d\<rparr>]"
    using v(2) by (simp add: active_orders_def order_active_def)
  ultimately show ?thesis using v(1) by (intro exI [of _ v] exI) auto
qed

text \<open>C12: no tier of the ladder is bought twice. In every reachable state the orders of the primary ladder
  that are not dead, filled and held ones included, are for different tiers, whether held orders are resumed or not.\<close>

theorem rescue_tiers_bought_once:
  assumes "rescue_reachable resumed dx config w"
  shows "distinct (map (\<lambda>ord. ad_tier_or_leg_id (ro_decision ord))
    (filter (\<lambda>ord. \<not> order_dead ord \<and> ad_leg_role (ro_decision ord) = ''primary'') (rw_orders w)))"
proof -
  let ?live = "filter (\<lambda>ord. \<not> order_dead ord \<and> ad_leg_role (ro_decision ord) = ''primary'') (rw_orders w)"
  have ok: "distinct (live_ids w)" "ladder_ids_ok dx config w" using reachable_ok [OF assms] by (simp_all add: rescue_ok_def)
  have live: "?live = filter (\<lambda>ord. ad_leg_role (ro_decision ord) = ''primary'') (filter (\<lambda>ord. \<not> order_dead ord) (rw_orders w))"
    by simp
  have "distinct (map (\<lambda>ord. ad_decision_id (ro_decision ord)) ?live)"
    unfolding live by (rule distinct_map_filter) (use ok(1) in \<open>simp add: live_ids_def\<close>)
  also have "map (\<lambda>ord. ad_decision_id (ro_decision ord)) ?live
      = map (\<lambda>tier. the (map_option (\<lambda>s. ladder_decision_id dx config (ss_id s) tier) (rw_session w)))
          (map (\<lambda>ord. ad_tier_or_leg_id (ro_decision ord)) ?live)"
    unfolding map_map by (rule map_cong) (use ok(2) in \<open>auto simp: ladder_ids_ok_def list_all_iff\<close>)
  finally show ?thesis by (simp only: distinct_map)
qed

theorem rescue_tiers_bought_once_witness:
  "\<exists>w ord. rescue_reachable True sample_dec tight_config w \<and> rw_orders w = [ord] \<and> ad_tier_or_leg_id (ro_decision ord) = ''p50''
     \<and> distinct (map (\<lambda>ord. ad_tier_or_leg_id (ro_decision ord))
       (filter (\<lambda>ord. \<not> order_dead ord \<and> ad_leg_role (ro_decision ord) = ''primary'') (rw_orders w)))"
proof -
  obtain w d where w: "rescue_reachable True sample_dec tight_config w"
    "rw_orders w = [\<lparr>ro_id = 7, ro_status = ''pending'', ro_decision = d\<rparr>]" "ad_tier_or_leg_id d = ''p50''"
    using sample_reachable by blast
  show ?thesis using rescue_tiers_bought_once [OF w(1)] w by (intro exI [of _ w] exI conjI) (assumption | simp)+
qed

end
