(* ===== verification/Avg_Rebound_Held.thy ===== *)
theory Avg_Rebound_Held
  imports Avg_Rebound_Reach
begin

text \<open>
  A held order that is resumed (\<open>bot-runner/src/trade_builder/avg_rebound_pairlock_rescue/orders.rs\<close>,
  \<open>bot-infra/src/db/trade_builder/avg_rebound_pairlock_rescue.rs\<close>): the first tier is filled, the profit order
  of the stage waits for its price in \<open>guard_blocked\<close>, the next attempt does not count it as active and
  places the second tier; when the profit order comes back two orders are active and the three together
  cost more than the session may spend.
\<close>

section \<open>The first fill\<close>









section \<open>The decisions\<close>









section \<open>The run\<close>



lemma marked_eq: "active_orders (set_session_status i st w) = active_orders w"
  "has_decision_order x (set_session_status i st w) = has_decision_order x w"
  by (simp_all add: set_session_status_def active_orders_def has_decision_order_def)










section \<open>Properties\<close>


end
