(* ===== verification/Trigger.thy ===== *)
theory Trigger
  imports Exit_Math Bot_Core
begin

text \<open>
  When a trigger fires: the price conditions of the flow's market triggers
  (\<open>lib_parts/part_002.rs\<close>), the triggers of builder orders (\<open>trade_builder/runtime_price.rs\<close>)
  and the evaluation of one tick for the orders of a token (\<open>trade_builder/tick_trigger_eval.rs\<close>),
  with the market scopes of \<open>lib_parts/part_006.rs\<close>.
\<close>

section \<open>Conditions of a market trigger\<close>

definition crossed_above_strict :: "f64 option \<Rightarrow> f64 \<Rightarrow> f64 \<Rightarrow> bool" where
  "crossed_above_strict previous_price current_price trigger_price =
    (case previous_price of None \<Rightarrow> False | Some prev \<Rightarrow> prev < trigger_price \<and> trigger_price \<le> current_price)"

definition crossed_below_strict :: "f64 option \<Rightarrow> f64 \<Rightarrow> f64 \<Rightarrow> bool" where
  "crossed_below_strict previous_price current_price trigger_price =
    (case previous_price of None \<Rightarrow> False | Some prev \<Rightarrow> trigger_price < prev \<and> current_price \<le> trigger_price)"

text \<open>The answers when no condition is met and when the price is above the maximum.\<close>

definition above_max :: "f64 option \<Rightarrow> f64 \<Rightarrow> bool" where
  "above_max max_price current_price = (case max_price of None \<Rightarrow> False | Some mp \<Rightarrow> mp < current_price)"

definition within_max :: "f64 option \<Rightarrow> f64 \<Rightarrow> bool" where
  "within_max max_price current_price = (case max_price of None \<Rightarrow> True | Some mp \<Rightarrow> current_price \<le> mp)"

definition not_met :: "string \<Rightarrow> f64 option \<Rightarrow> bool \<Rightarrow> bool \<times> string" where
  "not_met why previous_price allow_first_tick_threshold =
    (False, if previous_price = None \<and> \<not> allow_first_tick_threshold then ''no_previous'' else why)"

definition level_above_condition :: "f64 option \<Rightarrow> f64 \<Rightarrow> f64 \<Rightarrow> bool \<Rightarrow> f64 option \<Rightarrow> bool \<times> string" where
  "level_above_condition previous_price current_price trigger_price allow_first_tick_threshold max_price =
    (if trigger_price \<le> current_price \<and> within_max max_price current_price
     then (case max_price of
             Some mp \<Rightarrow> if mp < current_price then (False, ''above_max_price'') else (True, ''level_in_range'')
           | None \<Rightarrow> (True, ''level_threshold_met''))
     else if above_max max_price current_price then (False, ''above_max_price'')
     else not_met ''level_not_met'' previous_price allow_first_tick_threshold)"

definition level_below_condition :: "f64 option \<Rightarrow> f64 \<Rightarrow> f64 \<Rightarrow> bool \<Rightarrow> f64 option \<Rightarrow> bool \<times> string" where
  "level_below_condition previous_price current_price trigger_price allow_first_tick_threshold max_price =
    (if current_price \<le> trigger_price \<and> within_max max_price current_price then (True, ''level_threshold_met'')
     else if above_max max_price current_price then (False, ''above_max_price'')
     else not_met ''level_not_met'' previous_price allow_first_tick_threshold)"

definition crossed_answer :: "string option \<Rightarrow> f64 option \<Rightarrow> f64 \<Rightarrow> bool \<Rightarrow> f64 option \<Rightarrow> bool \<times> string" where
  "crossed_answer crossed previous_price current_price allow_first_tick_threshold max_price =
    (case crossed of
       Some mode \<Rightarrow> if above_max max_price current_price then (False, ''above_max_price'') else (True, mode)
     | None \<Rightarrow> not_met ''no_cross'' previous_price allow_first_tick_threshold)"

text \<open>Entering the range between trigger and maximum.\<close>

definition range_entry :: "f64 option \<Rightarrow> f64 \<Rightarrow> f64 \<Rightarrow> bool \<Rightarrow> f64 \<Rightarrow> string option" where
  "range_entry previous_price current_price trigger_price allow_first_tick_threshold mp =
    (let in_range = trigger_price \<le> current_price \<and> current_price \<le> mp
     in case previous_price of
          Some prev \<Rightarrow>
            if \<not> (trigger_price \<le> prev \<and> prev \<le> mp) \<and> in_range
            then Some (if prev < trigger_price then ''range_entry_from_below''
              else if mp < prev then ''range_entry_from_above'' else ''cross_detected'')
            else None
        | None \<Rightarrow> then_some (allow_first_tick_threshold \<and> in_range) ''first_tick_in_range'')"

definition cross_above_condition :: "f64 option \<Rightarrow> f64 \<Rightarrow> f64 \<Rightarrow> bool \<Rightarrow> f64 option \<Rightarrow> bool \<times> string" where
  "cross_above_condition previous_price current_price trigger_price allow_first_tick_threshold max_price =
    (case max_price of
       Some mp \<Rightarrow>
         if mp < current_price \<and> (case previous_price of Some prev \<Rightarrow> prev < trigger_price | None \<Rightarrow> allow_first_tick_threshold)
         then (False, ''above_max_price'')
         else crossed_answer (range_entry previous_price current_price trigger_price allow_first_tick_threshold mp)
           previous_price current_price allow_first_tick_threshold max_price
     | None \<Rightarrow>
         crossed_answer (case previous_price of
             Some prev \<Rightarrow> then_some (prev < trigger_price \<and> trigger_price \<le> current_price) ''cross_detected''
           | None \<Rightarrow> then_some (allow_first_tick_threshold \<and> trigger_price \<le> current_price) ''first_tick_threshold'')
           previous_price current_price allow_first_tick_threshold max_price)"

definition cross_below_condition :: "f64 option \<Rightarrow> f64 \<Rightarrow> f64 \<Rightarrow> bool \<Rightarrow> f64 option \<Rightarrow> bool \<times> string" where
  "cross_below_condition previous_price current_price trigger_price allow_first_tick_threshold max_price =
     crossed_answer (case previous_price of
         Some prev \<Rightarrow> then_some (trigger_price < prev \<and> current_price \<le> trigger_price) ''cross_detected''
       | None \<Rightarrow> then_some (allow_first_tick_threshold \<and> current_price \<le> trigger_price) ''first_tick_threshold'')
       previous_price current_price allow_first_tick_threshold max_price"

definition evaluate_trigger_market_price_condition ::
    "f64 option \<Rightarrow> f64 \<Rightarrow> f64 \<Rightarrow> string \<Rightarrow> bool \<Rightarrow> f64 option \<Rightarrow> bool \<times> string" where
  "evaluate_trigger_market_price_condition previous_price current_price trigger_price trigger_condition
      allow_first_tick_threshold max_price =
    (if trigger_condition = ''level_above''
     then level_above_condition previous_price current_price trigger_price allow_first_tick_threshold max_price
     else if trigger_condition = ''level_below''
     then level_below_condition previous_price current_price trigger_price allow_first_tick_threshold max_price
     else if trigger_condition = ''cross_above''
     then cross_above_condition previous_price current_price trigger_price allow_first_tick_threshold max_price
     else if trigger_condition = ''cross_below''
     then cross_below_condition previous_price current_price trigger_price allow_first_tick_threshold max_price
     else (False, ''unsupported_condition''))"

definition is_supported_market_price_trigger_condition :: "string \<Rightarrow> bool" where
  "is_supported_market_price_trigger_condition trigger_condition \<longleftrightarrow>
     trigger_condition \<in> {''cross_above'', ''cross_below'', ''level_above'', ''level_below''}"

definition market_price_trigger_condition_requires_once :: "string \<Rightarrow> bool" where
  "market_price_trigger_condition_requires_once trigger_condition \<longleftrightarrow> trigger_condition \<in> {''level_above'', ''level_below''}"

section \<open>Triggers of builder orders\<close>

record trigger_evaluation =
  te_should_trigger :: bool
  te_first_tick_threshold_used :: bool

definition evaluate_trade_builder_order_trigger ::
    "('ts, 'j) trade_builder_order \<Rightarrow> f64 option \<Rightarrow> f64 \<Rightarrow> trigger_evaluation" where
  "evaluate_trade_builder_order_trigger order previous_price current_price =
    (let answer = (\<lambda>fires first. \<lparr>te_should_trigger = fires, te_first_tick_threshold_used = first\<rparr>);
         retried = o_status order \<in> {''triggered'', ''blocked'', ''guard_blocked'', ''inventory_pending''}
     in if o_kind order = ''immediate''
        then answer (o_status order \<in> {''pending'', ''armed'', ''triggered'', ''blocked'', ''guard_blocked''}) False
        else if trade_builder_stop_loss_latched order then answer True False
        else case (trade_builder_inventory_pending_tp_trigger_price order, o_trigger_condition order) of
          (Some trigger_price, Some trigger_condition) \<Rightarrow>
            if trade_builder_is_child_exit_sell order
            then let fires = (if trigger_condition \<in> {''cross_above'', ''level_above''} then trigger_price \<le> current_price
                   else if trigger_condition \<in> {''cross_below'', ''level_below''} then current_price \<le> trigger_price
                   else False)
                 in answer fires (fires \<and> previous_price = None)
            else let first = (previous_price = None \<and> trade_builder_is_child_exit_sell order);
                     fires = (if trigger_condition = ''level_above'' then trigger_price \<le> current_price
                       else if trigger_condition = ''level_below'' then current_price \<le> trigger_price
                       else if trigger_condition = ''cross_above''
                       then (if first \<or> retried then trigger_price \<le> current_price
                             else crossed_above_strict previous_price current_price trigger_price)
                       else if trigger_condition = ''cross_below''
                       then (if first \<or> retried then current_price \<le> trigger_price
                             else crossed_below_strict previous_price current_price trigger_price)
                       else False)
                 in answer fires (fires \<and> (first \<or> previous_price = None \<and> trigger_condition \<in> {''level_above'', ''level_below''}))
        | _ \<Rightarrow> answer False False)"

definition should_skip_trade_builder_composite_sl_bid_confirmation ::
    "('ts, 'j) trade_builder_order \<Rightarrow> trade_builder_runtime_price \<Rightarrow> bool" where
  "should_skip_trade_builder_composite_sl_bid_confirmation order runtime_price =
    (if \<not> trade_builder_is_stop_loss_child order
        \<or> o_sl_trigger_price_mode order \<notin> {Some ''composite'', Some ''composite_safe''} then False
     else case o_trigger_price order of
         None \<Rightarrow> False
       | Some trigger_price \<Rightarrow> (case rp_best_bid runtime_price of Some best_bid \<Rightarrow> trigger_price < best_bid | None \<Rightarrow> True))"

section \<open>Ticks\<close>

record market_data_snapshot =
  md_best_bid :: "f64 option"
  md_best_ask :: "f64 option"
  md_best_bid_size :: "f64 option"
  md_best_ask_size :: "f64 option"
  md_last_trade_price :: "f64 option"
  md_updated_at_ms :: i64
  md_last_source :: string

definition trade_builder_fast_runtime_price_source ::
    "string \<Rightarrow> f64 option \<Rightarrow> f64 option \<Rightarrow> f64 option \<Rightarrow> string option" where
  "trade_builder_fast_runtime_price_source prefix best_bid best_ask last_trade_price =
    (let has_book = best_bid \<noteq> None \<or> best_ask \<noteq> None; has_last_trade = last_trade_price \<noteq> None
     in if prefix \<in> {''ws'', ''rest''} \<and> (has_book \<or> has_last_trade)
        then Some (prefix @ (if has_book \<and> has_last_trade then ''_fast_book_last_trade''
          else if has_book then ''_fast_book'' else ''_fast_last_trade''))
        else None)"

definition build_trade_builder_runtime_price_from_market_snapshot ::
    "market_data_snapshot \<Rightarrow> trade_builder_runtime_price option" where
  "build_trade_builder_runtime_price_from_market_snapshot snapshot =
     Option.bind (trade_builder_fast_runtime_price_source ''ws'' (md_best_bid snapshot) (md_best_ask snapshot)
         (md_last_trade_price snapshot)) (\<lambda>source.
       build_trade_builder_fast_runtime_price source None (md_best_bid snapshot) (md_best_ask snapshot)
         (md_last_trade_price snapshot))"

record tick_trigger =
  tt_order_id :: i64
  tt_user_id :: i64
  tt_token_id :: string
  tt_trigger_price :: f64
  tt_tick_price :: f64
  tt_trigger_kind :: string

definition tick_trigger_kind :: "('ts, 'j) trade_builder_order \<Rightarrow> string option" where
  "tick_trigger_kind order =
    (case o_trigger_condition order of
       Some condition \<Rightarrow> if condition = ''cross_below'' then Some ''sl''
         else if condition = ''cross_above'' then Some ''tp'' else None
     | None \<Rightarrow> None)"

definition tick_trigger_eval_price :: "('ts, 'j) trade_builder_order \<Rightarrow> market_data_snapshot \<Rightarrow> f64 option" where
  "tick_trigger_eval_price order snapshot =
     Option.bind (build_trade_builder_runtime_price_from_market_snapshot snapshot) (\<lambda>runtime_price.
       case (if trade_builder_is_stop_loss_child order then o_sl_trigger_price_mode order else None) of
         Some mode \<Rightarrow> sl_trigger_eval_price_for_mode mode runtime_price
       | None \<Rightarrow> Some (trade_builder_trigger_eval_price_for_order order runtime_price))"

definition tick_trigger_of :: "string \<Rightarrow> market_data_snapshot \<Rightarrow> ('ts, 'j) trade_builder_order \<Rightarrow> tick_trigger option" where
  "tick_trigger_of token_id snapshot order =
    (if \<not> trade_builder_is_child_exit_sell order then None
     else Option.bind (tick_trigger_kind order) (\<lambda>trigger_kind.
       Option.bind (o_trigger_price order) (\<lambda>trigger_price.
       Option.bind (tick_trigger_eval_price order snapshot) (\<lambda>tick_price.
         if te_should_trigger (evaluate_trade_builder_order_trigger order (o_last_seen_price order) tick_price)
         then Some \<lparr>tt_order_id = o_id order, tt_user_id = o_user_id order, tt_token_id = token_id,
           tt_trigger_price = trigger_price, tt_tick_price = tick_price, tt_trigger_kind = trigger_kind\<rparr>
         else None))))"

definition evaluate_tick_triggers_for_token ::
    "string \<Rightarrow> market_data_snapshot \<Rightarrow> (string \<rightharpoonup> ('ts, 'j) trade_builder_order list) \<Rightarrow> tick_trigger list" where
  "evaluate_tick_triggers_for_token token_id snapshot price_by_token =
    (case price_by_token token_id of
       None \<Rightarrow> []
     | Some orders \<Rightarrow> List.map_filter (tick_trigger_of token_id snapshot) orders)"

section \<open>Market scopes\<close>

record updown_scope_def =
  us_scope :: string
  us_asset :: string
  us_timeframe :: string
  us_slug_prefix :: string

definition updown_scope :: "string \<Rightarrow> string \<Rightarrow> updown_scope_def" where
  "updown_scope asset timeframe = \<lparr>us_scope = asset @ ''_'' @ timeframe @ ''_updown'', us_asset = asset, us_timeframe = timeframe,
     us_slug_prefix = asset @ ''-updown-'' @ timeframe @ ''-''\<rparr>"

definition supported_updown_scope_defs :: "updown_scope_def list" where
  "supported_updown_scope_defs =
     [updown_scope ''btc'' ''5m'', updown_scope ''btc'' ''15m'', updown_scope ''eth'' ''5m'', updown_scope ''eth'' ''15m'',
      updown_scope ''sol'' ''5m'', updown_scope ''sol'' ''15m'', updown_scope ''xrp'' ''5m'', updown_scope ''xrp'' ''15m'',
      updown_scope ''doge'' ''5m'', updown_scope ''bnb'' ''5m'', updown_scope ''hype'' ''5m'']"

definition find_updown_scope_by_scope :: "string \<Rightarrow> updown_scope_def option" where
  "find_updown_scope_by_scope scope =
     (let normalized = to_ascii_lowercase (trim scope) in find (\<lambda>d. us_scope d = normalized) supported_updown_scope_defs)"

definition find_updown_scope_by_asset_timeframe :: "string \<Rightarrow> string \<Rightarrow> updown_scope_def option" where
  "find_updown_scope_by_asset_timeframe asset timeframe =
     (let a = to_ascii_lowercase (trim asset); t = to_ascii_lowercase (trim timeframe)
      in find (\<lambda>d. us_asset d = a \<and> us_timeframe d = t) supported_updown_scope_defs)"

definition find_updown_scope_by_slug :: "string \<Rightarrow> updown_scope_def option" where
  "find_updown_scope_by_slug slug =
     (let normalized = to_ascii_lowercase (trim slug)
      in find (\<lambda>d. starts_with normalized (us_slug_prefix d)) supported_updown_scope_defs)"

definition updown_scope_window_seconds :: "updown_scope_def \<Rightarrow> i64" where
  "updown_scope_window_seconds scope_def = (if us_timeframe scope_def = ''15m'' then 900 else 300)"

definition updown_scope_candidate_slugs :: "updown_scope_def \<Rightarrow> i64 \<Rightarrow> string list" where
  "updown_scope_candidate_slugs scope_def now_ts =
    (let window = updown_scope_window_seconds scope_def; base = now_ts - now_ts mod window
     in map (\<lambda>ts. us_slug_prefix scope_def @ show_i64 ts)
          (filter (\<lambda>ts. 0 < ts) [base - window, base, base + window, base + 2 * window]))"

section \<open>Properties\<close>

text \<open>What the conditions ask of a price: at or above the trigger, at or below it, in both cases at most the maximum; and what
  they ask of the price before it. A rising crossing comes from outside the band, a falling one from above the trigger; a level asks
  nothing.\<close>

definition in_band :: "f64 \<Rightarrow> f64 option \<Rightarrow> f64 \<Rightarrow> bool" where
  "in_band trigger_price max_price p \<longleftrightarrow> trigger_price \<le> p \<and> within_max max_price p"

definition price_asked :: "string \<Rightarrow> f64 \<Rightarrow> f64 option \<Rightarrow> f64 \<Rightarrow> bool" where
  "price_asked trigger_condition trigger_price max_price p \<longleftrightarrow> within_max max_price p \<and>
    (trigger_condition \<in> {''level_above'', ''cross_above''} \<and> trigger_price \<le> p \<or>
     trigger_condition \<in> {''level_below'', ''cross_below''} \<and> p \<le> trigger_price)"

definition previous_asked :: "string \<Rightarrow> f64 \<Rightarrow> f64 option \<Rightarrow> bool \<Rightarrow> f64 option \<Rightarrow> bool" where
  "previous_asked trigger_condition trigger_price max_price allow_first previous_price \<longleftrightarrow>
    (if trigger_condition = ''cross_above'' then (case previous_price of None \<Rightarrow> allow_first | Some q \<Rightarrow> \<not> in_band trigger_price max_price q)
     else if trigger_condition = ''cross_below'' then (case previous_price of None \<Rightarrow> allow_first | Some q \<Rightarrow> trigger_price < q)
     else True)"

lemmas trigger_asks = price_asked_def previous_asked_def in_band_def within_max_def above_max_def

lemma cross_above_fires:
  assumes "previous_price \<noteq> Some NaN" "t \<noteq> NaN"
  shows "fst (cross_above_condition previous_price p t allow mp) \<longleftrightarrow>
    in_band t mp p \<and> (case previous_price of None \<Rightarrow> allow | Some q \<Rightarrow> \<not> in_band t mp q)"
proof -
  have less: "q < t \<longleftrightarrow> \<not> t \<le> q" if "previous_price = Some q" for q using f64_not_lt [of q t] that assms by auto
  show ?thesis
    by (auto simp: cross_above_condition_def crossed_answer_def range_entry_def in_band_def within_max_def above_max_def not_met_def
        Let_def then_some_def less dest: f64_le_lt_contra split: option.split)
qed

lemma cross_below_fires:
  assumes "p \<noteq> NaN" "mp \<noteq> Some NaN"
  shows "fst (cross_below_condition previous_price p t allow mp) \<longleftrightarrow>
    p \<le> t \<and> within_max mp p \<and> (case previous_price of None \<Rightarrow> allow | Some q \<Rightarrow> t < q)"
proof -
  have less: "m < p \<longleftrightarrow> \<not> p \<le> m" if "mp = Some m" for m using f64_not_lt [of m p] that assms by auto
  show ?thesis
    by (auto simp: cross_below_condition_def crossed_answer_def within_max_def above_max_def not_met_def then_some_def less
        split: option.split)
qed

text \<open>When one evaluation of a market trigger fires. For prices that are numbers, whatever the condition, the previous price,
  the maximum and the first-tick flag: it fires exactly when the price is on the condition's side of the trigger price and at most the
  maximum and, for a crossing, the previous price asks for it. A rising crossing is fired by a previous price outside the band from the trigger
  price to the maximum, a falling one by a previous price above the trigger price, both without a previous price only when the first tick is
  allowed. So a falling crossing whose maximum is below its trigger price does not fire when a price at or below the trigger falls
  to the maximum.\<close>

lemma market_trigger_fires:
  assumes "previous_price \<noteq> Some NaN" "p \<noteq> NaN" "t \<noteq> NaN" "max_price \<noteq> Some NaN"
  shows "fst (evaluate_trigger_market_price_condition previous_price p t trigger_condition allow_first max_price)
    \<longleftrightarrow> price_asked trigger_condition t max_price p \<and> previous_asked trigger_condition t max_price allow_first previous_price"
proof -
  have level: "fst (level_above_condition previous_price p t allow_first max_price) \<longleftrightarrow> t \<le> p \<and> within_max max_price p"
    "fst (level_below_condition previous_price p t allow_first max_price) \<longleftrightarrow> p \<le> t \<and> within_max max_price p"
    by (auto simp: level_above_condition_def level_below_condition_def not_met_def within_max_def dest: f64_le_lt_contra split: option.split)
  show ?thesis
    using level cross_above_fires [OF assms(1,3)] cross_below_fires [OF assms(2,4)]
    by (auto simp: evaluate_trigger_market_price_condition_def price_asked_def previous_asked_def in_band_def split: option.split)
qed

lemma market_trigger_fires_witness:
  "fst (evaluate_trigger_market_price_condition (Some (Fin (1 / 4))) (Fin (5 / 8)) (Fin (1 / 2)) ''cross_above'' False (Some (Fin (3 / 4))))
    \<and> fst (evaluate_trigger_market_price_condition (Some (Fin (7 / 8))) (Fin (5 / 8)) (Fin (1 / 2)) ''cross_above'' False (Some (Fin (3 / 4))))
    \<and> \<not> fst (evaluate_trigger_market_price_condition (Some (Fin (3 / 8))) (Fin (1 / 4)) (Fin (1 / 2)) ''cross_below'' False (Some (Fin (5 / 16))))"
  by (simp add: market_trigger_fires trigger_asks)

end
