(* ===== verification/Armed_Cache.thy ===== *)
theory Armed_Cache
  imports Trigger Exit_Ladders "HOL-Library.AList"
begin

text \<open>
  The cache of armed exit orders and the fast paths that fire them (\<open>trade_builder/armed_ws_eval.rs\<close>,
  \<open>take_armed_builder_order_from_cache\<close> of \<open>tick_trigger_eval.rs\<close>, \<open>handle_tick_trigger\<close> of
  \<open>lib_parts/part_007.rs\<close>). The cache is shared: the main loop evaluates it in two phases, a read
  under the read lock and a write under the write lock, and other tasks may synchronise an order or
  replace the cache between the two; the market stream evaluates ticks under the read lock and
  queues what fires. The step relation \<open>armed_step\<close> has one step per critical section.
\<close>

section \<open>The cache and its operations\<close>

type_synonym ('ts, 'j) order_index = "string \<rightharpoonup> ('ts, 'j) trade_builder_order list"

record ('ts, 'j) armed_cache =
  price_by_token :: "('ts, 'j) order_index"
  ptb_by_asset :: "('ts, 'j) order_index"
  ptb_by_market_slug :: "('ts, 'j) order_index"

definition empty_cache :: "('ts, 'j) armed_cache" where
  "empty_cache = \<lparr>price_by_token = Map.empty, ptb_by_asset = Map.empty, ptb_by_market_slug = Map.empty\<rparr>"

definition trade_builder_is_ws_fast_path_price_child :: "('ts, 'j) trade_builder_order \<Rightarrow> bool" where
  "trade_builder_is_ws_fast_path_price_child order \<longleftrightarrow>
     trade_builder_is_child_exit_sell order \<and> o_status order \<in> {''armed'', ''triggered''}
     \<and> o_trigger_condition order \<noteq> None \<and> o_trigger_price order \<noteq> None"

definition trade_builder_is_ws_fast_path_ptb_child :: "('ts, 'j) trade_builder_order \<Rightarrow> bool" where
  "trade_builder_is_ws_fast_path_ptb_child order \<longleftrightarrow>
     trade_builder_is_child_exit_sell order \<and> o_status order \<in> {''armed'', ''triggered''}
     \<and> o_ptb_stop_loss_gap_usd order \<noteq> None"

definition trade_builder_ptb_asset_cache_key :: "('ts, 'j) trade_builder_order \<Rightarrow> string option" where
  "trade_builder_ptb_asset_cache_key order = map_option us_asset (find_updown_scope_by_slug (o_market_slug order))"

definition trade_builder_ptb_market_slug_cache_key :: "('ts, 'j) trade_builder_order \<Rightarrow> string" where
  "trade_builder_ptb_market_slug_cache_key order = to_ascii_lowercase (trim (o_market_slug order))"

definition remove_order_from_armed_builder_bucket :: "i64 \<Rightarrow> ('ts, 'j) order_index \<Rightarrow> ('ts, 'j) order_index" where
  "remove_order_from_armed_builder_bucket order_id buckets = (\<lambda>key.
     case buckets key of
       None \<Rightarrow> None
     | Some bucket \<Rightarrow>
         let kept = filter (\<lambda>existing. o_id existing \<noteq> order_id) bucket
         in if kept = [] then None else Some kept)"

definition push_order_into_armed_builder_bucket ::
    "string \<Rightarrow> ('ts::linorder, 'j) trade_builder_order \<Rightarrow> ('ts, 'j) order_index \<Rightarrow> ('ts, 'j) order_index" where
  "push_order_into_armed_builder_bucket key order buckets =
     buckets(key \<mapsto> sort_key o_created_at (unwrap_or [] (buckets key) @ [order]))"

definition remove_order_from_armed_builder_cache :: "i64 \<Rightarrow> ('ts, 'j) armed_cache \<Rightarrow> ('ts, 'j) armed_cache" where
  "remove_order_from_armed_builder_cache order_id cache =
     \<lparr>price_by_token = remove_order_from_armed_builder_bucket order_id (price_by_token cache),
      ptb_by_asset = remove_order_from_armed_builder_bucket order_id (ptb_by_asset cache),
      ptb_by_market_slug = remove_order_from_armed_builder_bucket order_id (ptb_by_market_slug cache)\<rparr>"

definition sync_armed_builder_order_cache_entry ::
    "('ts::linorder, 'j) trade_builder_order \<Rightarrow> ('ts, 'j) armed_cache \<Rightarrow> ('ts, 'j) armed_cache" where
  "sync_armed_builder_order_cache_entry order cache =
    (let cache = remove_order_from_armed_builder_cache (o_id order) cache;
         cache = (if trade_builder_is_ws_fast_path_price_child order
           then cache\<lparr>price_by_token := push_order_into_armed_builder_bucket (o_token_id order) order (price_by_token cache)\<rparr>
           else cache)
     in if trade_builder_is_ws_fast_path_ptb_child order
        then cache\<lparr>ptb_by_asset := (case trade_builder_ptb_asset_cache_key order of
                       Some asset \<Rightarrow> push_order_into_armed_builder_bucket asset order (ptb_by_asset cache)
                     | None \<Rightarrow> ptb_by_asset cache),
                   ptb_by_market_slug := push_order_into_armed_builder_bucket
                       (trade_builder_ptb_market_slug_cache_key order) order (ptb_by_market_slug cache)\<rparr>
        else cache)"

definition refresh_armed_builder_order_cache ::
    "('ts::linorder, 'j) trade_builder_order list \<Rightarrow> ('ts, 'j) armed_cache" where
  "refresh_armed_builder_order_cache orders = fold sync_armed_builder_order_cache_entry orders empty_cache"

text \<open>After an order was processed: the database's answer is \<open>None\<close> when the order is gone or the read failed.\<close>

definition sync_armed_builder_order_cache_for_order ::
    "i64 \<Rightarrow> ('ts::linorder, 'j) trade_builder_order option \<Rightarrow> ('ts, 'j) armed_cache \<Rightarrow> ('ts, 'j) armed_cache" where
  "sync_armed_builder_order_cache_for_order order_id found cache =
    (let cache = remove_order_from_armed_builder_cache order_id cache
     in case found of Some order \<Rightarrow> sync_armed_builder_order_cache_entry order cache | None \<Rightarrow> cache)"

definition take_armed_builder_order_from_cache ::
    "string \<Rightarrow> i64 \<Rightarrow> ('ts, 'j) armed_cache \<Rightarrow> ('ts, 'j) trade_builder_order option \<times> ('ts, 'j) armed_cache" where
  "take_armed_builder_order_from_cache token_id order_id cache =
    (case price_by_token cache token_id of
       None \<Rightarrow> (None, cache)
     | Some bucket \<Rightarrow> (case List.extract (\<lambda>order. o_id order = order_id) bucket of
         None \<Rightarrow> (None, cache)
       | Some (before, order, after) \<Rightarrow>
           (Some order, cache\<lparr>price_by_token := (price_by_token cache)(token_id :=
              (if before @ after = [] then None else Some (before @ after)))\<rparr>)))"

definition trade_builder_last_seen_price_from_market_snapshot ::
    "('ts, 'j) trade_builder_order \<Rightarrow> market_data_snapshot \<Rightarrow> f64 option" where
  "trade_builder_last_seen_price_from_market_snapshot order snapshot =
     map_option (\<lambda>runtime_price. trade_builder_last_seen_price_for_order order
         (trade_builder_trigger_eval_price_for_order order runtime_price)
         (trade_builder_execution_price_for_order order runtime_price))
       (build_trade_builder_runtime_price_from_market_snapshot snapshot)"

section \<open>The evaluation of price triggers\<close>

text \<open>What the read phase collects; the event lists hold what is written to the order's event log.\<close>

record price_eval =
  pe_tokens :: "string list"
  pe_last_seen :: "i64 \<rightharpoonup> f64"
  pe_triggered :: "i64 list"
  pe_entering :: "(i64 \<times> f64 option \<times> f64 option \<times> f64 option) list"
  pe_releasing :: "(i64 \<times> f64 \<times> f64 option) list"

definition composite_waiting :: string where
  "composite_waiting = ''composite_bid_confirmation_waiting''"

definition price_eval_order :: "trade_builder_runtime_price \<Rightarrow> ('ts, 'j) trade_builder_order \<Rightarrow> price_eval \<Rightarrow> price_eval" where
  "price_eval_order runtime_price order e =
    (if (case o_sl_trigger_price_mode order of
           Some mode \<Rightarrow> sl_trigger_eval_price_for_mode mode runtime_price = None | None \<Rightarrow> False) then e
     else let eval_price = trade_builder_trigger_eval_price_for_order order runtime_price;
              seen = trade_builder_last_seen_price_for_order order eval_price
                (trade_builder_execution_price_for_order order runtime_price);
              evaluation = evaluate_trade_builder_order_trigger order (o_last_seen_price order) eval_price
       in if te_should_trigger evaluation
          then if should_skip_trade_builder_composite_sl_bid_confirmation order runtime_price
            then (let e = e\<lparr>pe_last_seen := (pe_last_seen e)(o_id order \<mapsto> seen)\<rparr>
                  in if o_last_error order \<noteq> Some composite_waiting
                     then e\<lparr>pe_entering := pe_entering e @ [(o_id order, o_trigger_price order,
                            rp_best_bid runtime_price, rp_last_trade_price runtime_price)]\<rparr>
                     else e)
            else e\<lparr>pe_triggered := List.insert (o_id order) (pe_triggered e)\<rparr>
          else (let e = (if o_last_error order = Some composite_waiting
                  then e\<lparr>pe_releasing := pe_releasing e @ [(o_id order, eval_price, rp_best_bid runtime_price)]\<rparr> else e)
                in e\<lparr>pe_last_seen := (pe_last_seen e)(o_id order \<mapsto> seen)\<rparr>))"

definition price_eval_token ::
    "(string \<rightharpoonup> market_data_snapshot) \<Rightarrow> string \<times> ('ts, 'j) trade_builder_order list \<Rightarrow> price_eval \<Rightarrow> price_eval" where
  "price_eval_token snapshots = (\<lambda>(token_id, orders) e.
     let e = e\<lparr>pe_tokens := pe_tokens e @ [token_id]\<rparr>
     in case Option.bind (snapshots token_id) build_trade_builder_runtime_price_from_market_snapshot of
          None \<Rightarrow> e
        | Some runtime_price \<Rightarrow> fold (price_eval_order runtime_price) orders e)"

definition selected_orders :: "string list \<Rightarrow> ('ts, 'j) armed_cache \<Rightarrow> (string \<times> ('ts, 'j) trade_builder_order list) list" where
  "selected_orders dirty cache =
     List.map_filter (\<lambda>token_id. map_option (Pair token_id) (price_by_token cache token_id)) dirty"

definition price_eval_read ::
    "string list \<Rightarrow> (string \<rightharpoonup> market_data_snapshot) \<Rightarrow> ('ts, 'j) armed_cache \<Rightarrow> price_eval" where
  "price_eval_read dirty snapshots cache =
     fold (price_eval_token snapshots) (selected_orders dirty cache)
       \<lparr>pe_tokens = [], pe_last_seen = Map.empty, pe_triggered = [], pe_entering = [], pe_releasing = []\<rparr>"

text \<open>The write phase: a fired order leaves its bucket, another takes over what was seen.\<close>

definition price_eval_update :: "price_eval \<Rightarrow> ('ts, 'j) trade_builder_order \<Rightarrow> ('ts, 'j) trade_builder_order" where
  "price_eval_update e order =
    (let order = (case pe_last_seen e (o_id order) of
           Some last_seen_price \<Rightarrow> order\<lparr>o_last_seen_price := Some last_seen_price\<rparr> | None \<Rightarrow> order);
         order = (if o_id order \<in> set (map fst (pe_entering e)) then order\<lparr>o_last_error := Some composite_waiting\<rparr> else order)
     in if o_id order \<in> set (map fst (pe_releasing e)) then order\<lparr>o_last_error := None\<rparr> else order)"

fun price_eval_bucket :: "price_eval \<Rightarrow> ('ts, 'j) trade_builder_order list
    \<Rightarrow> ('ts, 'j) trade_builder_order list \<times> (i64 \<times> i64) list" where
  "price_eval_bucket e [] = ([], [])"
| "price_eval_bucket e (order # orders) =
    (let (kept, fired) = price_eval_bucket e orders
     in if o_id order \<in> set (pe_triggered e) then (kept, (o_id order, o_user_id order) # fired)
        else (price_eval_update e order # kept, fired))"

fun price_eval_buckets :: "price_eval \<Rightarrow> string list \<Rightarrow> ('ts, 'j) order_index
    \<Rightarrow> ('ts, 'j) order_index \<times> string list \<times> (i64 \<times> i64) list" where
  "price_eval_buckets e [] index = (index, [], [])"
| "price_eval_buckets e (token_id # tokens) index =
    (case index token_id of
       None \<Rightarrow> price_eval_buckets e tokens index
     | Some bucket \<Rightarrow>
         let (kept, fired) = price_eval_bucket e bucket;
             (index, empties, more) = price_eval_buckets e tokens (index(token_id \<mapsto> kept))
         in (index, if kept = [] then token_id # empties else empties, fired @ more))"

definition price_eval_write :: "price_eval \<Rightarrow> ('ts, 'j) armed_cache \<Rightarrow> ('ts, 'j) armed_cache \<times> (i64 \<times> i64) list" where
  "price_eval_write e cache =
    (if pe_triggered e = [] \<and> pe_last_seen e = Map.empty \<and> pe_entering e = [] \<and> pe_releasing e = [] then (cache, [])
     else let (index, empties, fired) = price_eval_buckets e (pe_tokens e) (price_by_token cache)
       in (\<lparr>price_by_token = fold (\<lambda>token_id m. m(token_id := None)) empties index,
            ptb_by_asset = fold remove_order_from_armed_builder_bucket (pe_triggered e) (ptb_by_asset cache),
            ptb_by_market_slug = fold remove_order_from_armed_builder_bucket (pe_triggered e) (ptb_by_market_slug cache)\<rparr>,
           fired))"

section \<open>The evaluation of price-to-beat stop losses\<close>

definition collect_ptb_bucket :: "('ts, 'j) order_index \<Rightarrow> string \<Rightarrow> (i64 \<times> ('ts, 'j) trade_builder_order) list
    \<Rightarrow> (i64 \<times> ('ts, 'j) trade_builder_order) list" where
  "collect_ptb_bucket index key selected =
    (case index (to_ascii_lowercase (trim key)) of
       None \<Rightarrow> selected
     | Some bucket \<Rightarrow> fold (\<lambda>order. AList.update (o_id order) order) bucket selected)"

definition collect_armed_builder_ptb_orders_for_dirty_context ::
    "string list \<Rightarrow> string list \<Rightarrow> ('ts, 'j) armed_cache \<Rightarrow> ('ts, 'j) trade_builder_order list" where
  "collect_armed_builder_ptb_orders_for_dirty_context dirty_assets dirty_market_slugs cache =
     map snd (fold (collect_ptb_bucket (ptb_by_market_slug cache)) dirty_market_slugs
       (fold (collect_ptb_bucket (ptb_by_asset cache)) dirty_assets []))"

fun ptb_eval_write :: "i64 set \<Rightarrow> ('ts, 'j) trade_builder_order list \<Rightarrow> ('ts, 'j) armed_cache
    \<Rightarrow> ('ts, 'j) armed_cache \<times> (i64 \<times> i64) list" where
  "ptb_eval_write triggered [] cache = (cache, [])"
| "ptb_eval_write triggered (order # orders) cache =
    (if o_id order \<in> triggered
     then (let (cache, fired) = ptb_eval_write triggered orders (remove_order_from_armed_builder_cache (o_id order) cache)
           in (cache, (o_id order, o_user_id order) # fired))
     else ptb_eval_write triggered orders cache)"

section \<open>The threads of the program\<close>

text \<open>
  The main loop is idle or between the two phases of an evaluation. Two logs, which the program does
  not keep, record what was armed, that is put into an index of the cache, and what was handed to
  \<open>spawn_armed_order_immediate_processing\<close>.
\<close>

datatype ('ts, 'j) loop_phase =
    Idle
  | Price_phase price_eval
  | Ptb_phase "i64 set" "('ts, 'j) trade_builder_order list"

record ('ts, 'j) armed_world =
  w_cache :: "('ts, 'j) armed_cache"
  w_queue :: "tick_trigger list"
  w_phase :: "('ts, 'j) loop_phase"
  w_armed :: "('ts, 'j) trade_builder_order list"
  w_spawned :: "(i64 \<times> i64) list"

definition armable :: "('ts, 'j) trade_builder_order \<Rightarrow> bool" where
  "armable order \<longleftrightarrow> trade_builder_is_ws_fast_path_price_child order \<or> trade_builder_is_ws_fast_path_ptb_child order"

definition initial_world :: "('ts, 'j) armed_world" where
  "initial_world = \<lparr>w_cache = empty_cache, w_queue = [], w_phase = Idle, w_armed = [], w_spawned = []\<rparr>"

definition sync_step :: "('ts::linorder, 'j) trade_builder_order \<Rightarrow> ('ts, 'j) armed_world \<Rightarrow> ('ts, 'j) armed_world" where
  "sync_step order w = w\<lparr>w_cache := sync_armed_builder_order_cache_entry order (w_cache w),
     w_armed := w_armed w @ filter armable [order]\<rparr>"

definition refresh_step :: "('ts::linorder, 'j) trade_builder_order list \<Rightarrow> ('ts, 'j) armed_world \<Rightarrow> ('ts, 'j) armed_world" where
  "refresh_step orders w = w\<lparr>w_cache := refresh_armed_builder_order_cache orders,
     w_armed := w_armed w @ filter armable orders\<rparr>"

definition resync_step :: "i64 \<Rightarrow> ('ts::linorder, 'j) trade_builder_order option \<Rightarrow> ('ts, 'j) armed_world \<Rightarrow> ('ts, 'j) armed_world" where
  "resync_step order_id found w = w\<lparr>w_cache := sync_armed_builder_order_cache_for_order order_id found (w_cache w),
     w_armed := w_armed w @ (case found of Some order \<Rightarrow> filter armable [order] | None \<Rightarrow> [])\<rparr>"

definition tick_step :: "string \<Rightarrow> market_data_snapshot \<Rightarrow> ('ts, 'j) armed_world \<Rightarrow> ('ts, 'j) armed_world" where
  "tick_step token_id snapshot w =
     w\<lparr>w_queue := w_queue w @ evaluate_tick_triggers_for_token token_id snapshot (price_by_token (w_cache w))\<rparr>"

definition handle_tick_trigger :: "tick_trigger \<Rightarrow> ('ts, 'j) armed_world \<Rightarrow> ('ts, 'j) armed_world" where
  "handle_tick_trigger trigger w =
    (let (order, cache) = take_armed_builder_order_from_cache (tt_token_id trigger) (tt_order_id trigger) (w_cache w)
     in w\<lparr>w_cache := cache, w_spawned := w_spawned w @ (case order of Some order \<Rightarrow> [(o_id order, o_user_id order)] | None \<Rightarrow> [])\<rparr>)"

definition price_write_step :: "price_eval \<Rightarrow> ('ts, 'j) armed_world \<Rightarrow> ('ts, 'j) armed_world" where
  "price_write_step e w =
    (let (cache, fired) = price_eval_write e (w_cache w)
     in w\<lparr>w_cache := cache, w_phase := Idle, w_spawned := w_spawned w @ fired\<rparr>)"

definition ptb_write_step :: "i64 set \<Rightarrow> ('ts, 'j) trade_builder_order list \<Rightarrow> ('ts, 'j) armed_world \<Rightarrow> ('ts, 'j) armed_world" where
  "ptb_write_step triggered orders w =
    (let (cache, fired) = ptb_eval_write triggered orders (w_cache w)
     in w\<lparr>w_cache := cache, w_phase := Idle, w_spawned := w_spawned w @ fired\<rparr>)"

end
