(* ===== verification/Armed_Reach.thy ===== *)
theory Armed_Reach
  imports Armed_Cache
begin

text \<open>
  The interleavings of the armed order cache: one step per critical section of
  \<open>armed_ws_eval.rs\<close> and \<open>tick_trigger_eval.rs\<close>, the invariant of the cache, and that an
  armed order is handed over for submission at most once.
\<close>

section \<open>Steps and reachable states\<close>

text \<open>
  The snapshots, the ticks, the answers of the database and which price-to-beat orders are found to
  trigger are arbitrary.
\<close>

inductive armed_step :: "('ts::linorder, 'j) armed_world \<Rightarrow> ('ts, 'j) armed_world \<Rightarrow> bool" where
  sync: "armed_step w (sync_step order w)"
| refresh: "armed_step w (refresh_step orders w)"
| resync: "(\<forall>order. found = Some order \<longrightarrow> o_id order = order_id) \<Longrightarrow> armed_step w (resync_step order_id found w)"
| tick: "armed_step w (tick_step token_id snapshot w)"
| handle: "w_phase w = Idle \<Longrightarrow> w_queue w = trigger # queue
    \<Longrightarrow> armed_step w (handle_tick_trigger trigger (w\<lparr>w_queue := queue\<rparr>))"
| price_read: "w_phase w = Idle \<Longrightarrow> armed_step w (w\<lparr>w_phase := Price_phase (price_eval_read dirty snapshots (w_cache w))\<rparr>)"
| price_write: "w_phase w = Price_phase e \<Longrightarrow> armed_step w (price_write_step e w)"
| ptb_read: "w_phase w = Idle \<Longrightarrow> armed_step w (w\<lparr>w_phase := Ptb_phase triggered
    (collect_armed_builder_ptb_orders_for_dirty_context assets slugs (w_cache w))\<rparr>)"
| ptb_write: "w_phase w = Ptb_phase triggered orders \<Longrightarrow> armed_step w (ptb_write_step triggered orders w)"

inductive armed_reachable :: "('ts::linorder, 'j) armed_world \<Rightarrow> bool" where
  initial: "armed_reachable initial_world"
| step: "armed_reachable w \<Longrightarrow> armed_step w v \<Longrightarrow> armed_reachable v"

section \<open>Indexes\<close>

definition index_ids :: "('ts, 'j) order_index \<Rightarrow> i64 set" where
  "index_ids index = {o_id order |key bucket order. index key = Some bucket \<and> order \<in> set bucket}"

lemma index_idsI: "index key = Some bucket \<Longrightarrow> order \<in> set bucket \<Longrightarrow> o_id order = i \<Longrightarrow> i \<in> index_ids index"
  by (auto simp: index_ids_def)

lemma index_idsE:
  assumes "i \<in> index_ids index"
  obtains key bucket order where "index key = Some bucket" "order \<in> set bucket" "o_id order = i"
  using assms by (auto simp: index_ids_def)

lemma remove_bucket_Some: "remove_order_from_armed_builder_bucket i index key = Some bucket \<longleftrightarrow>
    (\<exists>full. index key = Some full \<and> bucket = filter (\<lambda>order. o_id order \<noteq> i) full \<and> bucket \<noteq> [])"
  by (auto simp: remove_order_from_armed_builder_bucket_def Let_def split: option.splits if_splits)

lemma remove_bucket_ids [simp]: "index_ids (remove_order_from_armed_builder_bucket i index) = index_ids index - {i}"
proof (intro set_eqI iffI)
  fix j assume "j \<in> index_ids index - {i}"
  then obtain key bucket order where "index key = Some bucket" "order \<in> set bucket" "o_id order = j" "j \<noteq> i"
    by (auto elim: index_idsE)
  then show "j \<in> index_ids (remove_order_from_armed_builder_bucket i index)"
    by (intro index_idsI [where key = key and order = order and bucket = "filter (\<lambda>order. o_id order \<noteq> i) bucket"])
      (auto simp: remove_bucket_Some filter_empty_conv)
next
  fix j assume "j \<in> index_ids (remove_order_from_armed_builder_bucket i index)"
  then show "j \<in> index_ids index - {i}"
    by (elim index_idsE) (auto simp: remove_bucket_Some intro: index_idsI [OF _ _ refl])
qed

lemma fold_remove_ids [simp]: "index_ids (fold remove_order_from_armed_builder_bucket is index) = index_ids index - set is"
  by (induction "is" arbitrary: index) auto

lemma index_ids_upd: "index_ids (index(key \<mapsto> bucket)) = o_id ` set bucket \<union> index_ids (index(key := None))"
  by (auto simp: index_ids_def split: if_splits)

lemma index_ids_upd_None: "index_ids index = o_id ` set (unwrap_or [] (index key)) \<union> index_ids (index(key := None))"
proof (cases "index key")
  case (Some bucket)
  then show ?thesis using index_ids_upd [of index key bucket] by (simp add: map_upd_triv)
qed (simp add: fun_upd_idem unwrap_or_def)

lemma push_bucket_ids [simp]: "index_ids (push_order_into_armed_builder_bucket key order index) = insert (o_id order) (index_ids index)"
  using index_ids_upd_None [of index key] by (auto simp: push_order_into_armed_builder_bucket_def index_ids_upd)

lemma empty_ids [simp]: "index_ids Map.empty = {}"
  by (simp add: index_ids_def)

text \<open>
  A price index is well formed: buckets are not empty and sorted by creation, hold orders of
  their token, and an order is in the index at most once.
\<close>

definition bucket_ok :: "string \<Rightarrow> ('ts::linorder, 'j) trade_builder_order list \<Rightarrow> bool" where
  "bucket_ok key bucket \<longleftrightarrow> sorted (map o_created_at bucket) \<and> distinct (map o_id bucket)
     \<and> (\<forall>order \<in> set bucket. o_token_id order = key)"

definition index_ok :: "('ts::linorder, 'j) order_index \<Rightarrow> bool" where
  "index_ok index \<longleftrightarrow> (\<forall>key bucket. index key = Some bucket \<longrightarrow> bucket_ok key bucket)
     \<and> (\<forall>k1 k2 b1 b2 o1 o2. index k1 = Some b1 \<longrightarrow> index k2 = Some b2 \<longrightarrow> o1 \<in> set b1 \<longrightarrow> o2 \<in> set b2
        \<longrightarrow> o_id o1 = o_id o2 \<longrightarrow> k1 = k2)"

lemma index_ok_empty [simp]: "index_ok Map.empty"
  by (simp add: index_ok_def)

lemma index_okD: "index_ok index \<Longrightarrow> index key = Some bucket \<Longrightarrow> bucket_ok key bucket"
  by (simp add: index_ok_def)

lemma bucket_ok_filter: "bucket_ok key bucket \<Longrightarrow> bucket_ok key (filter P bucket)"
  by (simp add: bucket_ok_def sorted_filter distinct_map_filter)

lemma index_ok_remove [intro]: "index_ok index \<Longrightarrow> index_ok (remove_order_from_armed_builder_bucket i index)"
  unfolding index_ok_def remove_bucket_Some by (auto intro: bucket_ok_filter)

lemma index_ok_shrink:
  assumes "index_ok index"
    and "\<And>key small. smaller key = Some small \<Longrightarrow> bucket_ok key small
      \<and> (\<exists>bucket. index key = Some bucket \<and> o_id ` set small \<subseteq> o_id ` set bucket)"
  shows "index_ok smaller"
  unfolding index_ok_def
proof (intro conjI allI impI)
  fix k1 k2 b1 b2 o1 o2
  assume "smaller k1 = Some b1" "smaller k2 = Some b2" "o1 \<in> set b1" "o2 \<in> set b2" "o_id o1 = o_id o2"
  moreover from this obtain c1 c2 p1 p2 where "index k1 = Some c1" "index k2 = Some c2" "p1 \<in> set c1" "p2 \<in> set c2"
    "o_id p1 = o_id o1" "o_id p2 = o_id o2"
    using assms(2) [of k1 b1] assms(2) [of k2 b2] by (auto simp: subset_iff image_iff) metis
  ultimately show "k1 = k2" using assms(1) unfolding index_ok_def by metis
qed (use assms(2) in blast)

lemma index_ok_push:
  assumes "index_ok index" "o_id order \<notin> index_ids index" "o_token_id order = key"
  shows "index_ok (push_order_into_armed_builder_bucket key order index)"
proof -
  have "bucket_ok key (sort_key o_created_at (unwrap_or [] (index key) @ [order]))"
    using assms by (auto simp: bucket_ok_def index_ok_def unwrap_or_def distinct_map intro: index_idsI split: option.splits)
  then show ?thesis
    using assms unfolding index_ok_def push_order_into_armed_builder_bucket_def
    by (auto simp: unwrap_or_def intro: index_idsI split: option.splits if_splits)
qed

section \<open>What the operations do to the orders of the cache\<close>

abbreviation price_ids :: "('ts, 'j) armed_cache \<Rightarrow> i64 set" where
  "price_ids cache \<equiv> index_ids (price_by_token cache)"

definition ptb_ids :: "('ts, 'j) armed_cache \<Rightarrow> i64 set" where
  "ptb_ids cache = index_ids (ptb_by_asset cache) \<union> index_ids (ptb_by_market_slug cache)"

lemma remove_cache_ids [simp]:
  "price_ids (remove_order_from_armed_builder_cache i cache) = price_ids cache - {i}"
  "ptb_ids (remove_order_from_armed_builder_cache i cache) = ptb_ids cache - {i}"
  by (auto simp: remove_order_from_armed_builder_cache_def ptb_ids_def)

lemma sync_ids:
  "price_ids (sync_armed_builder_order_cache_entry order cache) = price_ids cache - {o_id order}
     \<union> (if trade_builder_is_ws_fast_path_price_child order then {o_id order} else {})"
  "ptb_ids (sync_armed_builder_order_cache_entry order cache) = ptb_ids cache - {o_id order}
     \<union> (if trade_builder_is_ws_fast_path_ptb_child order then {o_id order} else {})"
  by (auto simp: sync_armed_builder_order_cache_entry_def remove_order_from_armed_builder_cache_def ptb_ids_def Let_def
      split: option.splits)

lemma sync_ok:
  assumes "index_ok (price_by_token cache)"
  shows "index_ok (price_by_token (sync_armed_builder_order_cache_entry order cache))"
  using assms
  by (auto simp: sync_armed_builder_order_cache_entry_def remove_order_from_armed_builder_cache_def Let_def
      intro!: index_ok_push)

text \<open>
  An order holds a slot for the price path while it is in the price index, and one for the
  price-to-beat path while it is in one of the other two or selected by the loop.
\<close>

definition slots :: "i64 set \<Rightarrow> ('ts, 'j) armed_cache \<Rightarrow> i64 \<Rightarrow> nat" where
  "slots pending cache i = of_bool (i \<in> price_ids cache) + of_bool (i \<in> ptb_ids cache \<union> pending)"

definition single_path :: "('ts, 'j) trade_builder_order \<Rightarrow> bool" where
  "single_path order \<longleftrightarrow> \<not> (trade_builder_is_ws_fast_path_price_child order \<and> trade_builder_is_ws_fast_path_ptb_child order)"

lemma slots_sync:
  "single_path order \<Longrightarrow> slots pending (sync_armed_builder_order_cache_entry order cache) i
     \<le> slots pending cache i + of_bool (armable order \<and> o_id order = i)"
  by (auto simp: slots_def sync_ids single_path_def armable_def)

lemma slots_remove: "slots pending (remove_order_from_armed_builder_cache j cache) i \<le> slots pending cache i"
  by (simp add: slots_def)

abbreviation count_id :: "i64 list \<Rightarrow> i64 \<Rightarrow> nat" where
  "count_id is i \<equiv> count_list is i"

lemma slots_fold_sync:
  "list_all single_path (filter armable orders) \<Longrightarrow> slots pending (fold sync_armed_builder_order_cache_entry orders cache) i
     \<le> slots pending cache i + count_id (map o_id (filter armable orders)) i"
proof (induction orders arbitrary: cache)
  case (Cons order orders)
  have "single_path order" using Cons.prems by (cases "armable order") (auto simp: single_path_def armable_def)
  from slots_sync [OF this, of pending cache i] Cons.IH [of "sync_armed_builder_order_cache_entry order cache"] Cons.prems
  show ?case by (auto split: if_splits)
qed simp

lemma fold_sync_ok: "index_ok (price_by_token cache) \<Longrightarrow> index_ok (price_by_token (fold sync_armed_builder_order_cache_entry orders cache))"
  by (induction orders arbitrary: cache) (simp_all add: sync_ok)

lemma empty_cache_slots:
  "slots pending (empty_cache :: ('ts, 'j) armed_cache) i \<le> slots pending (cache :: ('ts, 'j) armed_cache) i"
  "index_ok (price_by_token empty_cache)"
  by (simp_all add: slots_def empty_cache_def ptb_ids_def)

lemma take_effect:
  assumes "index_ok (price_by_token cache)" "take_armed_builder_order_from_cache token_id j cache = (Some order, cache')"
  shows "o_id order = j \<and> j \<in> price_ids cache \<and> price_ids cache' = price_ids cache - {j}
    \<and> ptb_ids cache' = ptb_ids cache \<and> index_ok (price_by_token cache')"
proof -
  obtain before after where index: "price_by_token cache token_id = Some (before @ order # after)"
    and id: "o_id order = j"
    and cache': "cache' = cache\<lparr>price_by_token := (price_by_token cache)(token_id :=
              (if before @ after = [] then None else Some (before @ after)))\<rparr>"
    using assms(2) by (auto simp: take_armed_builder_order_from_cache_def extract_Some_iff split: option.splits)
  let ?rest = "(price_by_token cache)(token_id := None)"
  have bucket: "bucket_ok token_id (before @ order # after)" using assms(1) index by (auto simp: index_ok_def)
  then have fresh: "j \<notin> o_id ` set (before @ after)" using id by (auto simp: bucket_ok_def)
  have "j \<notin> index_ids ?rest"
    using assms(1) index id unfolding index_ok_def by (force elim!: index_idsE split: if_splits)
  moreover have "price_ids cache = o_id ` set (before @ order # after) \<union> index_ids ?rest"
    using index_ids_upd_None [of "price_by_token cache" token_id] index by simp
  moreover have "price_ids cache' = o_id ` set (before @ after) \<union> index_ids ?rest"
    using cache' by (auto simp: index_ids_upd)
  ultimately have "price_ids cache' = price_ids cache - {j}" "j \<in> price_ids cache" using fresh id by auto
  moreover have "index_ok (price_by_token cache')"
  proof -
    have "bucket_ok token_id (before @ after)" using bucket by (auto simp: bucket_ok_def sorted_append)
    with assms(1) index show ?thesis
      by (intro index_ok_shrink [OF assms(1)]) (auto simp: cache' index_ok_def split: if_splits)
  qed
  ultimately show ?thesis using id cache' by (simp add: ptb_ids_def)
qed

lemma ptb_write_fired: "map fst (snd (ptb_eval_write triggered orders cache)) = filter (\<lambda>i. i \<in> triggered) (map o_id orders)"
  by (induction triggered orders cache rule: ptb_eval_write.induct) (simp_all add: split_beta Let_def)

lemma ptb_write_cache: "fst (ptb_eval_write triggered orders cache)
    = fold remove_order_from_armed_builder_cache (filter (\<lambda>i. i \<in> triggered) (map o_id orders)) cache"
  by (induction triggered orders cache rule: ptb_eval_write.induct) (simp_all add: split_beta Let_def)

lemma fold_remove_cache_ids:
  "price_ids (fold remove_order_from_armed_builder_cache is cache) = price_ids cache - set is"
  "ptb_ids (fold remove_order_from_armed_builder_cache is cache) = ptb_ids cache - set is"
  by (induction "is" arbitrary: cache) auto

lemma fold_remove_cache_ok:
  "index_ok (price_by_token cache) \<Longrightarrow> index_ok (price_by_token (fold remove_order_from_armed_builder_cache is cache))"
  by (induction "is" arbitrary: cache) (simp_all add: remove_order_from_armed_builder_cache_def index_ok_remove)

section \<open>The price evaluation\<close>

lemma update_keeps [simp]: "o_id (price_eval_update e order) = o_id order"
  "o_token_id (price_eval_update e order) = o_token_id order"
  "o_created_at (price_eval_update e order) = o_created_at order"
  by (simp_all add: price_eval_update_def Let_def split: option.split)

lemma price_eval_bucket_eq: "price_eval_bucket e bucket =
    (map (price_eval_update e) (filter (\<lambda>order. o_id order \<notin> set (pe_triggered e)) bucket),
     map (\<lambda>order. (o_id order, o_user_id order)) (filter (\<lambda>order. o_id order \<in> set (pe_triggered e)) bucket))"
  by (induction bucket) (simp_all add: Let_def)

lemma bucket_ok_kept: "bucket_ok key bucket \<Longrightarrow> bucket_ok key (fst (price_eval_bucket e bucket))"
  by (simp add: price_eval_bucket_eq bucket_ok_def o_def sorted_filter distinct_map_filter)

lemma count_distinct: "distinct xs \<Longrightarrow> count_id xs i = of_bool (i \<in> set xs)"
  by (induction xs) auto

lemma bucket_fired_count: "bucket_ok key bucket \<Longrightarrow>
    count_id (map fst (snd (price_eval_bucket e bucket))) i = of_bool (i \<in> o_id ` set bucket \<and> i \<in> set (pe_triggered e))"
  by (subst count_distinct) (auto simp: bucket_ok_def price_eval_bucket_eq distinct_map_filter o_def)

lemma bucket_kept_ids: "o_id ` set (fst (price_eval_bucket e bucket)) = o_id ` set bucket - set (pe_triggered e)"
  by (auto simp: price_eval_bucket_eq image_image)

lemma index_ok_apart:
  assumes "index_ok index" "index key = Some bucket"
  shows "o_id ` set bucket \<inter> index_ids (index(key := None)) = {}"
  using assms unfolding index_ok_def index_ids_def by (fastforce split: if_splits)

lemma index_ok_kept:
  assumes "index_ok index" "index key = Some bucket"
  shows "index_ok (index(key \<mapsto> fst (price_eval_bucket e bucket)))"
proof (rule index_ok_shrink [OF assms(1)])
  fix k small assume small: "(index(key \<mapsto> fst (price_eval_bucket e bucket))) k = Some small"
  show "bucket_ok k small \<and> (\<exists>bucket. index k = Some bucket \<and> o_id ` set small \<subseteq> o_id ` set bucket)"
  proof (cases "k = key")
    case True
    then show ?thesis using small assms bucket_ok_kept [of key bucket e] bucket_kept_ids [of e bucket]
      by (auto simp: index_ok_def simp del: update_keeps)
  next
    case False
    then show ?thesis using small assms(1) by (auto simp: index_ok_def)
  qed
qed

lemma price_eval_buckets_ok:
  "index_ok index \<Longrightarrow> index_ok (fst (price_eval_buckets e tokens index))"
  by (induction tokens arbitrary: index) (auto simp: split_beta Let_def index_ok_kept split: option.split)

text \<open>In a well-formed index an order is fired at most once, and then it is gone.\<close>

lemma price_eval_buckets_count:
  assumes "index_ok index"
  shows "count_id (map fst (snd (snd (price_eval_buckets e tokens index)))) i
     + of_bool (i \<in> index_ids (fst (price_eval_buckets e tokens index))) = of_bool (i \<in> index_ids index)"
  using assms
proof (induction tokens arbitrary: index)
  case (Cons token_id tokens)
  show ?case
  proof (cases "index token_id")
    case (Some bucket)
    let ?next = "index(token_id \<mapsto> fst (price_eval_bucket e bucket))"
    have ids: "index_ids index = o_id ` set bucket \<union> index_ids (index(token_id := None))"
      "index_ids ?next = (o_id ` set bucket - set (pe_triggered e)) \<union> index_ids (index(token_id := None))"
      using index_ids_upd_None [of index token_id] Some by (simp_all only: index_ids_upd bucket_kept_ids unwrap_or_simps)
    have "bucket_ok token_id bucket" using Cons.prems Some by (auto simp: index_ok_def)
    then have "count_id (map fst (snd (price_eval_bucket e bucket))) i + of_bool (i \<in> index_ids ?next) = of_bool (i \<in> index_ids index)"
      using bucket_fired_count [of token_id bucket e i] index_ok_apart [OF Cons.prems Some] unfolding ids by auto
    moreover have "fst (price_eval_buckets e (token_id # tokens) index) = fst (price_eval_buckets e tokens ?next)"
      "snd (snd (price_eval_buckets e (token_id # tokens) index))
         = snd (price_eval_bucket e bucket) @ snd (snd (price_eval_buckets e tokens ?next))"
      using Some by (simp_all add: split_beta Let_def)
    ultimately show ?thesis using Cons.IH [OF index_ok_kept [OF Cons.prems Some, of e]]
      by (simp only: map_append count_list_append)
  qed (use Cons in simp)
qed simp

lemma price_eval_buckets_none: "fst (price_eval_buckets e tokens index) key = None \<longleftrightarrow> index key = None"
  by (induction tokens arbitrary: index) (auto simp: split_beta Let_def split: option.split)

lemma price_eval_buckets_stays_empty:
  "index key = Some [] \<Longrightarrow> fst (price_eval_buckets e tokens index) key = Some []"
proof (induction tokens arbitrary: index)
  case (Cons token_id tokens)
  show ?case
  proof (cases "index token_id")
    case (Some bucket)
    have "fst (price_eval_buckets e tokens (index(token_id \<mapsto> fst (price_eval_bucket e bucket)))) key = Some []"
      by (rule Cons.IH) (use Cons.prems Some in auto)
    with Some show ?thesis by (simp add: split_beta Let_def)
  qed (use Cons in simp)
qed simp

lemma price_eval_buckets_empties:
  "key \<in> set (fst (snd (price_eval_buckets e tokens index))) \<Longrightarrow> fst (price_eval_buckets e tokens index) key = Some []"
  by (induction tokens arbitrary: index)
    (auto simp: split_beta Let_def price_eval_buckets_stays_empty split: option.splits if_splits)

lemma price_eval_buckets_emptied:
  "fst (price_eval_buckets e tokens index) key = Some [] \<Longrightarrow>
     index key = Some [] \<or> key \<in> set (fst (snd (price_eval_buckets e tokens index)))"
  by (induction tokens arbitrary: index) (fastforce simp: split_beta Let_def split: option.splits if_splits)+

lemma fold_remove_keys: "fold (\<lambda>key m. m(key := None)) keys index = (\<lambda>key. if key \<in> set keys then None else index key)"
  by (induction keys arbitrary: index) (auto simp: fun_eq_iff)

lemma drop_empty_ids:
  assumes "\<forall>key \<in> keys. index key = Some []"
  shows "index_ids (\<lambda>key. if key \<in> keys then None else index key) = index_ids index" (is "index_ids ?dropped = _")
proof (intro set_eqI iffI)
  fix i assume "i \<in> index_ids index"
  then obtain key bucket order where found: "index key = Some bucket" "order \<in> set bucket" "o_id order = i" by (rule index_idsE)
  then have "key \<notin> keys" using assms by auto
  then show "i \<in> index_ids ?dropped" using found by (intro index_idsI [of _ key]) auto
qed (auto elim!: index_idsE intro: index_idsI split: if_splits)

lemma index_ok_drop: "index_ok index \<Longrightarrow> index_ok (\<lambda>key. if key \<in> keys then None else index key)"
  by (rule index_ok_shrink) (auto simp: index_okD split: if_splits)

lemma price_write_effect:
  assumes "index_ok (price_by_token cache)" "price_eval_write e cache = (cache', fired)"
  shows "index_ok (price_by_token cache') \<and> ptb_ids cache' \<subseteq> ptb_ids cache
    \<and> count_id (map fst fired) i + of_bool (i \<in> price_ids cache') = of_bool (i \<in> price_ids cache)"
proof (cases "pe_triggered e = [] \<and> pe_last_seen e = Map.empty \<and> pe_entering e = [] \<and> pe_releasing e = []")
  case False
  let ?r = "price_eval_buckets e (pe_tokens e) (price_by_token cache)"
  have "cache' = \<lparr>price_by_token = fold (\<lambda>token_id m. m(token_id := None)) (fst (snd ?r)) (fst ?r),
       ptb_by_asset = fold remove_order_from_armed_builder_bucket (pe_triggered e) (ptb_by_asset cache),
       ptb_by_market_slug = fold remove_order_from_armed_builder_bucket (pe_triggered e) (ptb_by_market_slug cache)\<rparr>
     \<and> fired = snd (snd ?r)"
    using assms(2) unfolding price_eval_write_def if_not_P [OF False] by (simp add: split_beta Let_def)
  then have index: "price_by_token cache' = (\<lambda>key. if key \<in> set (fst (snd ?r)) then None else fst ?r key)"
    "fired = snd (snd ?r)" "ptb_ids cache' \<subseteq> ptb_ids cache"
    by (simp_all only: armed_cache.simps fold_remove_keys ptb_ids_def fold_remove_ids) auto
  have "price_ids cache' = index_ids (fst ?r)"
    unfolding index(1) by (rule drop_empty_ids) (simp add: price_eval_buckets_empties)
  moreover have "index_ok (price_by_token cache')"
    using price_eval_buckets_ok [OF assms(1), of e "pe_tokens e"] unfolding index(1)
    by (rule index_ok_drop)
  ultimately show ?thesis using price_eval_buckets_count [OF assms(1), of e "pe_tokens e" i] index by simp
next
  case True
  with assms show ?thesis by (simp add: price_eval_write_def)
qed

section \<open>An armed order fires once\<close>

definition pending_ids :: "('ts, 'j) loop_phase \<Rightarrow> i64 set" where
  "pending_ids phase = (case phase of Ptb_phase triggered orders \<Rightarrow> triggered \<inter> o_id ` set orders | _ \<Rightarrow> {})"

definition phase_ok :: "('ts, 'j) loop_phase \<Rightarrow> bool" where
  "phase_ok phase = (case phase of Ptb_phase _ orders \<Rightarrow> distinct (map o_id orders) | _ \<Rightarrow> True)"

definition fired_once :: "('ts, 'j) armed_world \<Rightarrow> bool" where
  "fired_once w \<longleftrightarrow> list_all single_path (w_armed w) \<longrightarrow>
     (\<forall>i. count_id (map fst (w_spawned w)) i + slots (pending_ids (w_phase w)) (w_cache w) i
        \<le> count_id (map o_id (w_armed w)) i)"

definition world_ok :: "('ts::linorder, 'j) armed_world \<Rightarrow> bool" where
  "world_ok w \<longleftrightarrow> index_ok (price_by_token (w_cache w)) \<and> phase_ok (w_phase w) \<and> fired_once w"

lemma slots_mono: "price_ids c \<subseteq> price_ids d \<Longrightarrow> ptb_ids c \<union> p \<subseteq> ptb_ids d \<union> q \<Longrightarrow> slots p c i \<le> slots q d i"
  by (auto simp: slots_def)

definition keyed :: "(i64 \<times> ('ts, 'j) trade_builder_order) list \<Rightarrow> bool" where
  "keyed selected \<longleftrightarrow> distinct (map fst selected) \<and> list_all (\<lambda>(i, order). o_id order = i) selected"

lemma keyed_Nil [simp]: "keyed []"
  by (simp add: keyed_def)

lemma keyed_update: "keyed selected \<Longrightarrow> keyed (AList.update (o_id order) order selected)"
proof -
  have "list_all (\<lambda>(i, order). o_id order = i) xs \<Longrightarrow> list_all (\<lambda>(i, order). o_id order = i) (AList.update (o_id order) order xs)" for xs
    by (induction xs) auto
  then show "keyed selected \<Longrightarrow> ?thesis" by (simp add: keyed_def distinct_update)
qed

lemma keyed_ids: "keyed selected \<Longrightarrow> map o_id (map snd selected) = map fst selected"
  by (auto simp: keyed_def list_all_iff)

lemma collect_bucket:
  "keyed selected \<Longrightarrow> keyed (collect_ptb_bucket index key selected)"
  "fst ` set (collect_ptb_bucket index key selected) \<subseteq> fst ` set selected \<union> index_ids index"
proof -
  have keyed: "keyed selected \<Longrightarrow> keyed (fold (\<lambda>order. AList.update (o_id order) order) bucket selected)" for bucket
    by (induction bucket arbitrary: selected) (auto simp: keyed_update)
  have ids: "fst ` set (fold (\<lambda>order. AList.update (o_id order) order) bucket selected) = fst ` set selected \<union> o_id ` set bucket" for bucket
    by (induction bucket arbitrary: selected) (auto simp: dom_update)
  show "keyed selected \<Longrightarrow> keyed (collect_ptb_bucket index key selected)"
    by (simp add: collect_ptb_bucket_def keyed split: option.split)
  show "fst ` set (collect_ptb_bucket index key selected) \<subseteq> fst ` set selected \<union> index_ids index"
    by (auto simp: collect_ptb_bucket_def ids intro: index_idsI split: option.split)
qed

lemma collect_fold_keyed: "keyed selected \<Longrightarrow> keyed (fold (collect_ptb_bucket index) keys selected)"
  by (induction keys arbitrary: selected) (simp_all add: collect_bucket)

lemma collect_fold_ids: "fst ` set (fold (collect_ptb_bucket index) keys selected) \<subseteq> fst ` set selected \<union> index_ids index"
proof (induction keys arbitrary: selected)
  case (Cons key keys)
  have "fst ` set (fold (collect_ptb_bucket index) (key # keys) selected)
      \<subseteq> fst ` set (collect_ptb_bucket index key selected) \<union> index_ids index"
    using Cons [of "collect_ptb_bucket index key selected"] by (simp only: fold_simps)
  with collect_bucket(2) [of index key selected] show ?case by blast
qed simp

lemma collect_effect:
  "distinct (map o_id (collect_armed_builder_ptb_orders_for_dirty_context assets slugs cache))"
  "o_id ` set (collect_armed_builder_ptb_orders_for_dirty_context assets slugs cache) \<subseteq> ptb_ids cache"
proof -
  let ?assets = "fold (collect_ptb_bucket (ptb_by_asset cache)) assets []"
  let ?all = "fold (collect_ptb_bucket (ptb_by_market_slug cache)) slugs ?assets"
  have keyed: "keyed ?all" by (intro collect_fold_keyed keyed_Nil)
  then have "distinct (map fst ?all)" unfolding keyed_def by (rule conjunct1)
  then show "distinct (map o_id (collect_armed_builder_ptb_orders_for_dirty_context assets slugs cache))"
    by (simp only: collect_armed_builder_ptb_orders_for_dirty_context_def keyed_ids [OF keyed])
  have "fst ` set ?assets \<subseteq> index_ids (ptb_by_asset cache)"
    using collect_fold_ids [of "ptb_by_asset cache" assets "[]"] by simp
  moreover have "fst ` set ?all \<subseteq> fst ` set ?assets \<union> index_ids (ptb_by_market_slug cache)"
    by (rule collect_fold_ids)
  ultimately have "fst ` set ?all \<subseteq> ptb_ids cache" unfolding ptb_ids_def by blast
  moreover have "o_id ` set (map snd ?all) = fst ` set ?all"
    using arg_cong [OF keyed_ids [OF keyed], of set] by (simp only: set_map)
  ultimately show "o_id ` set (collect_armed_builder_ptb_orders_for_dirty_context assets slugs cache) \<subseteq> ptb_ids cache"
    by (simp only: collect_armed_builder_ptb_orders_for_dirty_context_def)
qed

text \<open>Every step keeps the invariant.\<close>

lemma world_ok_step:
  assumes "world_ok w" "index_ok (price_by_token (w_cache v))" "phase_ok (w_phase v)"
    and logs: "w_armed v = w_armed w @ armed" "w_spawned v = w_spawned w @ fired"
    and slots: "\<And>i. list_all single_path armed \<Longrightarrow> count_id (map fst fired) i + slots (pending_ids (w_phase v)) (w_cache v) i
      \<le> slots (pending_ids (w_phase w)) (w_cache w) i + count_id (map o_id armed) i"
  shows "world_ok v"
proof -
  have "count_id (map fst (w_spawned v)) i + slots (pending_ids (w_phase v)) (w_cache v) i \<le> count_id (map o_id (w_armed v)) i"
    if "list_all single_path (w_armed v)" for i
  proof -
    have "count_id (map fst (w_spawned w)) i + slots (pending_ids (w_phase w)) (w_cache w) i \<le> count_id (map o_id (w_armed w)) i"
      using assms(1) that logs by (simp add: world_ok_def fired_once_def)
    with slots [of i] that logs show ?thesis by (simp add: count_list_append)
  qed
  with assms(2,3) show ?thesis by (simp add: world_ok_def fired_once_def)
qed

lemma armed_step_ok:
  assumes "armed_step w v" "world_ok w"
  shows "world_ok v"
  using assms
proof (cases rule: armed_step.cases)
  case (sync order)
  then show ?thesis using assms(2) slots_fold_sync [of "[order]" _ "w_cache w"]
    by (intro world_ok_step [OF assms(2), of _ "filter armable [order]" "[]"])
      (simp_all add: sync_step_def world_ok_def sync_ok)
next
  case (refresh orders)
  have "slots p (refresh_armed_builder_order_cache orders) i \<le> slots p (w_cache w) i + count_id (map o_id (filter armable orders)) i"
    if "list_all single_path (filter armable orders)" for p i
    using slots_fold_sync [OF that, of p empty_cache i] empty_cache_slots(1) [of p i "w_cache w"]
    unfolding refresh_armed_builder_order_cache_def by linarith
  with refresh show ?thesis using assms(2)
    by (intro world_ok_step [OF assms(2), of _ "filter armable orders" "[]"])
      (simp_all add: refresh_step_def world_ok_def refresh_armed_builder_order_cache_def fold_sync_ok empty_cache_slots(2))
next
  case (resync found order_id)
  let ?removed = "remove_order_from_armed_builder_cache order_id (w_cache w)"
  let ?found = "case found of Some order \<Rightarrow> [order] | None \<Rightarrow> []"
  have cache: "w_cache v = fold sync_armed_builder_order_cache_entry ?found ?removed"
    using resync by (simp add: resync_step_def sync_armed_builder_order_cache_for_order_def split: option.split)
  have removed: "index_ok (price_by_token ?removed)"
    using assms(2) by (simp add: world_ok_def remove_order_from_armed_builder_cache_def index_ok_remove)
  have "slots p (w_cache v) i \<le> slots p (w_cache w) i + count_id (map o_id (filter armable ?found)) i"
    if "list_all single_path (filter armable ?found)" for p i
    using slots_fold_sync [OF that, of p ?removed i] slots_remove [of p order_id "w_cache w" i] unfolding cache by linarith
  moreover from removed have "index_ok (price_by_token (w_cache v))" unfolding cache by (rule fold_sync_ok)
  moreover have "w_phase v = w_phase w" "w_spawned v = w_spawned w @ []" "w_armed v = w_armed w @ filter armable ?found"
    using resync by (simp_all add: resync_step_def split: option.split)
  ultimately show ?thesis using assms(2)
    by (intro world_ok_step [OF assms(2), of v "filter armable ?found" "[]"]) (simp_all add: world_ok_def)
next
  case (tick token_id snapshot)
  with assms(2) show ?thesis by (simp add: tick_step_def world_ok_def fired_once_def)
next
  case (handle trigger queue)
  obtain order cache where taken: "take_armed_builder_order_from_cache (tt_token_id trigger) (tt_order_id trigger) (w_cache w) = (order, cache)"
    by fastforce
  have ok: "index_ok (price_by_token (w_cache w))" using assms(2) by (simp add: world_ok_def)
  show ?thesis
  proof (cases order)
    case None
    then have "cache = w_cache w"
      using taken by (auto simp: take_armed_builder_order_from_cache_def split: option.splits)
    then show ?thesis using assms(2) handle taken None by (simp add: handle_tick_trigger_def world_ok_def fired_once_def)
  next
    case (Some taken_order)
    note effect = take_effect [OF ok taken [unfolded Some]]
    then have "count_id [o_id taken_order] i + slots p cache i \<le> slots p (w_cache w) i" for p i
      by (auto simp: slots_def)
    with handle taken Some effect show ?thesis using assms(2)
      by (intro world_ok_step [OF assms(2), of _ "[]" "[(o_id taken_order, o_user_id taken_order)]"])
        (simp_all add: handle_tick_trigger_def world_ok_def)
  qed
next
  case (price_read dirty snapshots)
  with assms(2) show ?thesis by (simp add: world_ok_def fired_once_def phase_ok_def pending_ids_def)
next
  case (price_write e)
  obtain cache fired where written: "price_eval_write e (w_cache w) = (cache, fired)" by fastforce
  have ok: "index_ok (price_by_token (w_cache w))" using assms(2) by (simp add: world_ok_def)
  note effect = price_write_effect [OF ok written]
  have "count_id (map fst fired) i + slots {} cache i \<le> slots {} (w_cache w) i" for i
    using effect [of i] by (auto simp: slots_def of_bool_def split: if_splits)
  with price_write written effect show ?thesis using assms(2)
    by (intro world_ok_step [OF assms(2), of _ "[]" fired])
      (simp_all add: price_write_step_def phase_ok_def pending_ids_def)
next
  case (ptb_read triggered assets slugs)
  let ?orders = "collect_armed_builder_ptb_orders_for_dirty_context assets slugs (w_cache w)"
  have "slots (triggered \<inter> o_id ` set ?orders) (w_cache w) i \<le> slots {} (w_cache w) i" for i
    using collect_effect(2) [of assets slugs "w_cache w"] by (intro slots_mono) auto
  with ptb_read show ?thesis using assms(2)
    by (intro world_ok_step [OF assms(2), of _ "[]" "[]"])
      (simp_all add: phase_ok_def pending_ids_def world_ok_def collect_effect(1))
next
  case (ptb_write triggered orders)
  obtain cache fired where written: "ptb_eval_write triggered orders (w_cache w) = (cache, fired)" by fastforce
  let ?ids = "filter (\<lambda>i. i \<in> triggered) (map o_id orders)"
  have ids: "set ?ids = triggered \<inter> o_id ` set orders" by auto
  have fired: "map fst fired = ?ids" and cache: "cache = fold remove_order_from_armed_builder_cache ?ids (w_cache w)"
    using ptb_write_fired [of triggered orders "w_cache w"] ptb_write_cache [of triggered orders "w_cache w"] written by simp_all
  have "distinct (map o_id orders)" using assms(2) ptb_write by (simp add: world_ok_def phase_ok_def)
  then have "count_id (map fst fired) i = of_bool (i \<in> set ?ids)" for i unfolding fired by (intro count_distinct distinct_filter)
  then have "count_id (map fst fired) i + slots {} cache i \<le> slots (triggered \<inter> o_id ` set orders) (w_cache w) i" for i
    unfolding cache slots_def fold_remove_cache_ids ids by auto
  with ptb_write written show ?thesis using assms(2)
    by (intro world_ok_step [OF assms(2), of _ "[]" fired])
      (simp_all add: ptb_write_step_def phase_ok_def pending_ids_def cache fold_remove_cache_ok world_ok_def)
qed

lemma initial_world_ok: "world_ok initial_world"
  by (simp add: world_ok_def initial_world_def empty_cache_slots(2) phase_ok_def fired_once_def
      slots_def empty_cache_def ptb_ids_def pending_ids_def)

lemma reachable_world_ok: "armed_reachable w \<Longrightarrow> world_ok w"
  by (induction rule: armed_reachable.induct) (auto intro: armed_step_ok initial_world_ok)

section \<open>Properties\<close>

text \<open>C3: an armed exit order is submitted once. In every interleaving of the evaluations of prices and of the
  price to beat, of queued ticks and of the tasks that put orders into the cache or replace it, an
  order that is watched on one path only is handed over for submission at most as often as it was armed, so never
  twice for one arming, and not again while it is cached or selected.\<close>

theorem armed_order_fires_once:
  assumes "armed_reachable w" "list_all single_path (w_armed w)"
  shows "count_list (map fst (w_spawned w)) i \<le> count_list (map o_id (w_armed w)) i
    \<and> (i \<in> price_ids (w_cache w) \<or> i \<in> ptb_ids (w_cache w)
       \<longrightarrow> count_list (map fst (w_spawned w)) i < count_list (map o_id (w_armed w)) i)"
proof -
  have "count_id (map fst (w_spawned w)) i + slots (pending_ids (w_phase w)) (w_cache w) i \<le> count_id (map o_id (w_armed w)) i"
    using reachable_world_ok [OF assms(1)] assms(2) by (simp add: world_ok_def fired_once_def)
  then show ?thesis by (auto simp: slots_def split: if_splits)
qed

definition watched_order :: "(nat, nat) trade_builder_order" where
  "watched_order = sample_order\<lparr>o_status := ''armed'', o_trigger_price := Some (Fin (1 / 2))\<rparr>"

definition bid_snapshot :: market_data_snapshot where
  "bid_snapshot = \<lparr>md_best_bid = Some (Fin (3 / 4)), md_best_ask = None, md_best_bid_size = None, md_best_ask_size = None,
     md_last_trade_price = None, md_updated_at_ms = 0, md_last_source = ''book''\<rparr>"

lemma clamp_three_quarters: "clamp_probability (Fin (3 / 4)) = Fin (3 / 4)"
  by (simp add: clamp_probability_def fclamp_def lit_def f64_eval)

lemma watched_world:
  "price_by_token (w_cache (sync_step watched_order initial_world)) = [[] \<mapsto> [watched_order]]"
  "w_spawned (sync_step watched_order initial_world) = []" "w_armed (sync_step watched_order initial_world) = [watched_order]"
  "w_queue (sync_step watched_order initial_world) = []" "w_phase (sync_step watched_order initial_world) = Idle"
  by (simp_all add: watched_order_def sample_order_def sync_step_def initial_world_def armable_def
      sync_armed_builder_order_cache_entry_def empty_cache_def remove_order_from_armed_builder_cache_def
      remove_order_from_armed_builder_bucket_def push_order_into_armed_builder_bucket_def
      trade_builder_is_ws_fast_path_price_child_def trade_builder_is_ws_fast_path_ptb_child_def
      trade_builder_is_child_exit_sell_def)

lemma watched_order_fires:
  "evaluate_tick_triggers_for_token [] bid_snapshot [[] \<mapsto> [watched_order]]
    = [\<lparr>tt_order_id = 7, tt_user_id = 1, tt_token_id = [], tt_trigger_price = Fin (1 / 2), tt_tick_price = Fin (3 / 4),
        tt_trigger_kind = ''tp''\<rparr>]"
  by (simp add: watched_order_def bid_snapshot_def sample_order_def clamp_three_quarters
      trade_builder_is_child_exit_sell_def evaluate_tick_triggers_for_token_def tick_trigger_of_def tick_trigger_kind_def
      tick_trigger_eval_price_def build_trade_builder_runtime_price_from_market_snapshot_def
      trade_builder_fast_runtime_price_source_def build_trade_builder_fast_runtime_price_def
      trade_builder_is_stop_loss_child_def trade_builder_trigger_eval_price_for_order_def
      trade_builder_uses_fast_runtime_pricing_def fast_trigger_eval_price_def map_filter_simps
      evaluate_trade_builder_order_trigger_def trade_builder_stop_loss_latched_def Let_def
      trade_builder_inventory_pending_tp_trigger_price_def)

definition fired_world :: "(nat, nat) armed_world" where
  "fired_world = (let w = tick_step [] bid_snapshot (sync_step watched_order initial_world)
     in handle_tick_trigger (hd (w_queue w)) (w\<lparr>w_queue := tl (w_queue w)\<rparr>))"

lemma fired_world_reachable: "armed_reachable fired_world"
proof -
  let ?w = "tick_step [] bid_snapshot (sync_step watched_order initial_world)"
  have "armed_reachable ?w" by (rule armed_reachable.step [OF armed_reachable.step [OF armed_reachable.initial armed_step.sync] armed_step.tick])
  moreover have "w_phase ?w = Idle" "w_queue ?w = hd (w_queue ?w) # tl (w_queue ?w)"
    by (simp_all add: tick_step_def watched_world watched_order_fires)
  then have "armed_step ?w fired_world" unfolding fired_world_def Let_def by (rule armed_step.handle)
  ultimately show ?thesis by (rule armed_reachable.step)
qed

lemma fired_world_logs: "w_spawned fired_world = [(7, 1)]" "w_armed fired_world = [watched_order]"
proof -
  have "take_armed_builder_order_from_cache [] 7 \<lparr>price_by_token = [[] \<mapsto> [watched_order]], ptb_by_asset = a, ptb_by_market_slug = b\<rparr>
      = (Some watched_order, \<lparr>price_by_token = Map.empty, ptb_by_asset = a, ptb_by_market_slug = b\<rparr>)" for a b
    by (simp add: take_armed_builder_order_from_cache_def extract_def watched_order_def sample_order_def fun_eq_iff)
  then have "take_armed_builder_order_from_cache [] 7 (w_cache (sync_step watched_order initial_world)) =
      (Some watched_order, w_cache (sync_step watched_order initial_world)\<lparr>price_by_token := Map.empty\<rparr>)"
    using watched_world(1) by (cases "w_cache (sync_step watched_order initial_world)") simp
  then show "w_spawned fired_world = [(7, 1)]" "w_armed fired_world = [watched_order]"
    by (simp_all add: fired_world_def tick_step_def handle_tick_trigger_def Let_def watched_world watched_order_fires)
      (simp add: watched_order_def sample_order_def)
qed

theorem armed_order_fires_once_witness:
  "count_list (map fst (w_spawned fired_world)) 7 = 1 \<and> count_list (map o_id (w_armed fired_world)) 7 = 1
     \<and> 7 \<notin> price_ids (w_cache fired_world)"
proof -
  have "list_all single_path (w_armed fired_world)"
    by (simp add: fired_world_logs single_path_def watched_order_def sample_order_def trade_builder_is_ws_fast_path_ptb_child_def)
  from armed_order_fires_once [OF fired_world_reachable this, of 7]
  show ?thesis by (simp add: fired_world_logs watched_order_def sample_order_def)
qed

section \<open>What one evaluation fires\<close>

text \<open>The condition under which an evaluation fires an order at the runtime price of its token.\<close>

definition fires :: "trade_builder_runtime_price \<Rightarrow> ('ts, 'j) trade_builder_order \<Rightarrow> bool" where
  "fires runtime_price order \<longleftrightarrow>
     (\<forall>mode. o_sl_trigger_price_mode order = Some mode \<longrightarrow> sl_trigger_eval_price_for_mode mode runtime_price \<noteq> None)
     \<and> te_should_trigger (evaluate_trade_builder_order_trigger order (o_last_seen_price order)
         (trade_builder_trigger_eval_price_for_order order runtime_price))
     \<and> \<not> should_skip_trade_builder_composite_sl_bid_confirmation order runtime_price"

definition runtime_price_at :: "(string \<rightharpoonup> market_data_snapshot) \<Rightarrow> string \<Rightarrow> trade_builder_runtime_price option" where
  "runtime_price_at snapshots token_id = Option.bind (snapshots token_id) build_trade_builder_runtime_price_from_market_snapshot"

lemma price_eval_order_triggered [simp]: "set (pe_triggered (price_eval_order r order e))
    = set (pe_triggered e) \<union> (if fires r order then {o_id order} else {})"
  by (auto simp: price_eval_order_def fires_def Let_def split: option.split)

lemma fold_order_triggered: "set (pe_triggered (fold (price_eval_order r) orders e))
    = set (pe_triggered e) \<union> o_id ` set (filter (fires r) orders)"
  by (induction orders arbitrary: e) auto

lemma price_eval_order_tokens [simp]: "pe_tokens (price_eval_order r order e) = pe_tokens e"
  by (simp add: price_eval_order_def Let_def split: option.split)

lemma fold_order_tokens: "pe_tokens (fold (price_eval_order r) orders e) = pe_tokens e"
  by (induction orders arbitrary: e) auto

lemma fold_token_tokens: "pe_tokens (fold (price_eval_token snapshots) selected e) = pe_tokens e @ map fst selected"
  by (induction selected arbitrary: e) (auto simp: price_eval_token_def fold_order_tokens Let_def split: option.split)

definition fired_of :: "(string \<rightharpoonup> market_data_snapshot) \<Rightarrow> string \<times> ('ts, 'j) trade_builder_order list \<Rightarrow> i64 set" where
  "fired_of snapshots = (\<lambda>(token_id, bucket). case runtime_price_at snapshots token_id of
     None \<Rightarrow> {} | Some r \<Rightarrow> o_id ` set (filter (fires r) bucket))"

lemma token_triggered: "set (pe_triggered (price_eval_token snapshots token e)) = set (pe_triggered e) \<union> fired_of snapshots token"
  by (cases token) (simp add: price_eval_token_def fired_of_def runtime_price_at_def fold_order_triggered Let_def split: option.split)

lemma fold_token_triggered: "set (pe_triggered (fold (price_eval_token snapshots) selected e))
    = set (pe_triggered e) \<union> (\<Union>token \<in> set selected. fired_of snapshots token)"
  by (induction selected arbitrary: e) (simp_all add: token_triggered Un_assoc)

lemma selected_orders_set: "(token_id, bucket) \<in> set (selected_orders dirty cache) \<longleftrightarrow>
    token_id \<in> set dirty \<and> price_by_token cache token_id = Some bucket"
  by (induction dirty) (auto simp: selected_orders_def map_filter_simps split: option.splits)

lemma update_user [simp]: "o_user_id (price_eval_update e order) = o_user_id order"
  by (simp add: price_eval_update_def Let_def split: option.split)

definition fired_in :: "price_eval \<Rightarrow> ('ts, 'j) order_index \<Rightarrow> string \<Rightarrow> (i64 \<times> i64) set" where
  "fired_in e index key = (case index key of None \<Rightarrow> {} | Some bucket \<Rightarrow> set (snd (price_eval_bucket e bucket)))"

lemma fired_in_next: "index token_id = Some bucket \<Longrightarrow>
    fired_in e (index(token_id \<mapsto> fst (price_eval_bucket e bucket))) key = (if key = token_id then {} else fired_in e index key)"
  by (simp add: fired_in_def price_eval_bucket_eq)

lemma buckets_fired: "set (snd (snd (price_eval_buckets e tokens index))) = (\<Union>key \<in> set tokens. fired_in e index key)"
proof (induction tokens arbitrary: index)
  case (Cons token_id tokens)
  show ?case
  proof (cases "index token_id")
    case None
    then show ?thesis using Cons by (simp add: fired_in_def)
  next
    case (Some bucket)
    have "(\<Union>key \<in> set tokens. fired_in e (index(token_id \<mapsto> fst (price_eval_bucket e bucket))) key) \<union> fired_in e index token_id
        = (\<Union>key \<in> set (token_id # tokens). fired_in e index key)"
      unfolding fired_in_next [of index token_id bucket, OF Some] by (auto split: if_splits)
    moreover have "snd (snd (price_eval_buckets e (token_id # tokens) index)) = snd (price_eval_bucket e bucket)
        @ snd (snd (price_eval_buckets e tokens (index(token_id \<mapsto> fst (price_eval_bucket e bucket)))))"
      using Some by (simp add: split_beta Let_def)
    moreover have "fired_in e index token_id = set (snd (price_eval_bucket e bucket))" using Some by (simp add: fired_in_def)
    ultimately show ?thesis using Cons by (simp only: set_append Un_commute)
  qed
qed simp

text \<open>The orders an evaluation is to fire, in a well-formed index.\<close>

definition due :: "string list \<Rightarrow> (string \<rightharpoonup> market_data_snapshot) \<Rightarrow> ('ts, 'j) order_index
    \<Rightarrow> string \<Rightarrow> ('ts, 'j) trade_builder_order \<Rightarrow> bool" where
  "due dirty snapshots index token_id order \<longleftrightarrow> token_id \<in> set dirty
     \<and> (\<exists>bucket. index token_id = Some bucket \<and> order \<in> set bucket)
     \<and> (\<exists>r. runtime_price_at snapshots token_id = Some r \<and> fires r order)"

lemma triggered_due:
  "i \<in> set (pe_triggered (price_eval_read dirty snapshots cache))
     \<longleftrightarrow> (\<exists>token_id order. due dirty snapshots (price_by_token cache) token_id order \<and> o_id order = i)"
proof -
  have "i \<in> set (pe_triggered (price_eval_read dirty snapshots cache)) \<longleftrightarrow>
      (\<exists>token \<in> set (selected_orders dirty cache). i \<in> fired_of snapshots token)"
    by (simp add: price_eval_read_def fold_token_triggered)
  also have "\<dots> \<longleftrightarrow> (\<exists>token_id bucket. (token_id, bucket) \<in> set (selected_orders dirty cache) \<and> i \<in> fired_of snapshots (token_id, bucket))"
    by auto
  also have "\<dots> \<longleftrightarrow> (\<exists>token_id order. due dirty snapshots (price_by_token cache) token_id order \<and> o_id order = i)"
    unfolding selected_orders_set fired_of_def due_def by (auto split: option.splits) blast
  finally show ?thesis .
qed

lemma index_ok_same:
  assumes "index_ok index" "index k1 = Some b1" "index k2 = Some b2" "o1 \<in> set b1" "o2 \<in> set b2" "o_id o1 = o_id o2"
  shows "o1 = o2 \<and> k1 = k2"
proof -
  have "k1 = k2" using assms unfolding index_ok_def by blast
  then have "b1 = b2" "inj_on o_id (set b1)" using assms index_okD [of index k1 b1] by (auto simp: bucket_ok_def distinct_map)
  then show ?thesis using assms \<open>k1 = k2\<close> by (auto dest: inj_onD)
qed

lemma read_tokens:
  "key \<in> set (pe_tokens (price_eval_read dirty snapshots cache)) \<longleftrightarrow> key \<in> set dirty \<and> price_by_token cache key \<noteq> None"
proof -
  have "key \<in> set (pe_tokens (price_eval_read dirty snapshots cache)) \<longleftrightarrow> (\<exists>bucket. (key, bucket) \<in> set (selected_orders dirty cache))"
    by (auto simp: price_eval_read_def fold_token_tokens intro: rev_image_eqI)
  then show ?thesis unfolding selected_orders_set by blast
qed

lemma in_fired_in: "x \<in> fired_in e index key \<longleftrightarrow> (\<exists>bucket order. index key = Some bucket \<and> order \<in> set bucket
    \<and> o_id order \<in> set (pe_triggered e) \<and> x = (o_id order, o_user_id order))"
  unfolding fired_in_def price_eval_bucket_eq by (cases "index key") auto

lemma fired_in_due:
  assumes "index_ok (price_by_token cache)" and e_def: "e = price_eval_read dirty snapshots cache"
  shows "(\<Union>key \<in> set (pe_tokens e). fired_in e (price_by_token cache) key)
    = {(o_id order, o_user_id order) |token_id order. due dirty snapshots (price_by_token cache) token_id order}" (is "?fired = ?due")
proof (rule set_eqI)
  fix x
  have "x \<in> ?fired \<longleftrightarrow> (\<exists>key bucket order. key \<in> set dirty \<and> price_by_token cache key = Some bucket \<and> order \<in> set bucket
      \<and> o_id order \<in> set (pe_triggered e) \<and> x = (o_id order, o_user_id order))"
    unfolding UN_iff in_fired_in Bex_def e_def read_tokens by blast
  also have "\<dots> \<longleftrightarrow> (\<exists>key order. due dirty snapshots (price_by_token cache) key order \<and> x = (o_id order, o_user_id order))" (is "?l \<longleftrightarrow> ?r")
  proof
    assume ?l
    then obtain key bucket order where found: "price_by_token cache key = Some bucket" "order \<in> set bucket"
      "o_id order \<in> set (pe_triggered e)" "x = (o_id order, o_user_id order)" by blast
    obtain token_id order' where due: "due dirty snapshots (price_by_token cache) token_id order'" "o_id order' = o_id order"
      using found(3) unfolding e_def triggered_due by blast
    then obtain bucket' where "price_by_token cache token_id = Some bucket'" "order' \<in> set bucket'" unfolding due_def by blast
    with due(2) have "order' = order" using index_ok_same [OF assms(1)] found(1,2) by blast
    then show ?r using due(1) found(4) by blast
  next
    assume ?r
    then obtain key order where due: "due dirty snapshots (price_by_token cache) key order" "x = (o_id order, o_user_id order)" by blast
    then have "o_id order \<in> set (pe_triggered e)" unfolding e_def triggered_due by blast
    then show ?l using due unfolding due_def by blast
  qed
  also have "\<dots> \<longleftrightarrow> x \<in> ?due" by blast
  finally show "x \<in> ?fired \<longleftrightarrow> x \<in> ?due" .
qed

text \<open>C18: an evaluation fires exactly what is due. In every reachable state an evaluation of the tokens with new prices,
  when nothing comes between its phases, hands over exactly the orders cached under one of these tokens whose trigger
  holds at the token's runtime price and is not held back for the confirmation of the bid, takes exactly
  these out of the price index, and leaves every other order in it.\<close>

theorem price_evaluation_exact:
  assumes "armed_reachable w" "price_eval_write (price_eval_read dirty snapshots (w_cache w)) (w_cache w) = (cache, fired)"
  shows "set fired = {(o_id order, o_user_id order) |token_id order. due dirty snapshots (price_by_token (w_cache w)) token_id order}
    \<and> price_ids cache = price_ids (w_cache w) - fst ` set fired"
proof
  let ?e = "price_eval_read dirty snapshots (w_cache w)"
  have ok: "index_ok (price_by_token (w_cache w))" using reachable_world_ok [OF assms(1)] by (simp add: world_ok_def)
  have "set fired = (\<Union>key \<in> set (pe_tokens ?e). fired_in ?e (price_by_token (w_cache w)) key)"
  proof (cases "pe_triggered ?e = [] \<and> pe_last_seen ?e = Map.empty \<and> pe_entering ?e = [] \<and> pe_releasing ?e = []")
    case True
    then show ?thesis using assms(2) by (simp add: price_eval_write_def fired_in_def price_eval_bucket_eq split: option.split)
  next
    case False
    then have "fired = snd (snd (price_eval_buckets ?e (pe_tokens ?e) (price_by_token (w_cache w))))"
      using assms(2) unfolding price_eval_write_def if_not_P [OF False] by (simp add: split_beta Let_def)
    then show ?thesis by (simp only: buckets_fired)
  qed
  then show "set fired = {(o_id order, o_user_id order) |token_id order. due dirty snapshots (price_by_token (w_cache w)) token_id order}"
    by (simp only: fired_in_due [OF ok refl])
  show "price_ids cache = price_ids (w_cache w) - fst ` set fired"
  proof (rule set_eqI)
    fix i
    have "count_id (map fst fired) i + of_bool (i \<in> price_ids cache) = of_bool (i \<in> price_ids (w_cache w))"
      using price_write_effect [OF ok assms(2)] by blast
    moreover have "count_id (map fst fired) i = 0 \<longleftrightarrow> i \<notin> fst ` set fired" by (simp add: count_list_0_iff)
    ultimately show "i \<in> price_ids cache \<longleftrightarrow> i \<in> price_ids (w_cache w) - fst ` set fired"
      by (cases "i \<in> price_ids cache"; cases "i \<in> price_ids (w_cache w)") auto
  qed
qed

lemma watched_price: "runtime_price_at [[] \<mapsto> bid_snapshot] []
    = Some \<lparr>rp_price = Fin (3 / 4), rp_source = ''ws_fast_book'', rp_runtime_warning = None,
        rp_best_bid = Some (Fin (3 / 4)), rp_best_ask = None, rp_last_trade_price = None\<rparr>"
  by (simp add: runtime_price_at_def bid_snapshot_def build_trade_builder_runtime_price_from_market_snapshot_def
      trade_builder_fast_runtime_price_source_def build_trade_builder_fast_runtime_price_def clamp_three_quarters Let_def)

lemma watched_due: "due [[]] [[] \<mapsto> bid_snapshot] [[] \<mapsto> [watched_order]] [] watched_order"
  by (simp add: due_def watched_price fires_def)
      (simp add: watched_order_def sample_order_def trade_builder_trigger_eval_price_for_order_def clamp_three_quarters
      trade_builder_uses_fast_runtime_pricing_def fast_trigger_eval_price_def trade_builder_is_child_exit_sell_def
      evaluate_trade_builder_order_trigger_def trade_builder_stop_loss_latched_def Let_def trade_builder_is_stop_loss_child_def
      trade_builder_inventory_pending_tp_trigger_price_def should_skip_trade_builder_composite_sl_bid_confirmation_def)

theorem price_evaluation_exact_witness:
  "(7, 1) \<in> set (snd (price_eval_write (price_eval_read [[]] [[] \<mapsto> bid_snapshot] (w_cache (sync_step watched_order initial_world)))
      (w_cache (sync_step watched_order initial_world))))"
proof -
  let ?w = "sync_step watched_order initial_world"
  have "armed_reachable ?w" by (rule armed_reachable.step [OF armed_reachable.initial armed_step.sync])
  from price_evaluation_exact [OF this surjective_pairing, of "[[]]" "[[] \<mapsto> bid_snapshot]", THEN conjunct1] watched_due
  have "(o_id watched_order, o_user_id watched_order) \<in> set (snd (price_eval_write
      (price_eval_read [[]] [[] \<mapsto> bid_snapshot] (w_cache ?w)) (w_cache ?w)))"
    unfolding watched_world by blast
  then show ?thesis by (simp add: watched_order_def sample_order_def)
qed

end
