(* ===== verification/Parent_Inventory.thy ===== *)
theory Parent_Inventory
  imports Exit_Math Repository
begin

text \<open>
  The inventory a parent order holds for its exits (\<open>trade_builder/parent_inventory.rs\<close>), with the tables
  behind it (\<open>bot-infra/src/db/trade_builder/positions.rs\<close>): the row is created from the entry fill
  or from the first visible inventory, reduced by every fill of a child exit, and replaced once by
  what the wallet shows. The state is the two tables and the log of order events; the answer to
  every database call is the environment's, as in \<open>Repository\<close>.
\<close>

section \<open>Tables\<close>

record parent_position =
  pp_parent_builder_order_id :: i64
  pp_user_id :: i64
  pp_source_trade_id :: i64
  pp_market_slug :: string
  pp_token_id :: string
  pp_outcome_label :: string
  pp_baseline_qty :: f64
  pp_current_qty :: f64
  pp_last_fill_qty :: "f64 option"
  pp_last_fill_price :: "f64 option"
  pp_qty_source :: string

record parent_position_seed =
  ps_actual_visible_qty :: "f64 option"
  ps_expected_visible_qty :: "f64 option"
  ps_reference_price :: "f64 option"
  ps_qty_source :: "string option"

record leg_position_snapshot =
  lp_leg_side :: leg_side
  lp_token_id :: string
  lp_qty :: f64
  lp_avg_entry :: f64
  lp_levels_filled :: int
  lp_last_fill_price :: "f64 option"

record inventory_db =
  iv_positions :: "i64 \<rightharpoonup> parent_position"
  iv_seeds :: "i64 \<rightharpoonup> parent_position_seed"
  iv_events :: "(i64 \<times> string \<times> (string \<times> event_value) list) list"
  iv_calls :: nat

type_synonym 'a inv = "(inventory_db, string, 'a) stm"

definition iv_read :: "(nat \<Rightarrow> answer) \<Rightarrow> (inventory_db \<Rightarrow> 'a) \<Rightarrow> 'a inv" where
  "iv_read ans f = (\<lambda>w. let w' = w\<lparr>iv_calls := Suc (iv_calls w)\<rparr>
     in case ans (iv_calls w) of Done \<Rightarrow> (Inr (f w), w') | Refused e \<Rightarrow> (Inl e, w') | Lost e \<Rightarrow> (Inl e, w'))"

definition iv_write :: "(nat \<Rightarrow> answer) \<Rightarrow> (inventory_db \<Rightarrow> 'a \<times> inventory_db) \<Rightarrow> 'a inv" where
  "iv_write ans f = (\<lambda>w. let w' = w\<lparr>iv_calls := Suc (iv_calls w)\<rparr>
     in case ans (iv_calls w) of
          Done \<Rightarrow> (case f w' of (x, v) \<Rightarrow> (Inr x, v)) | Refused e \<Rightarrow> (Inl e, w') | Lost e \<Rightarrow> (Inl e, snd (f w')))"

definition get_trade_builder_parent_position :: "(nat \<Rightarrow> answer) \<Rightarrow> i64 \<Rightarrow> parent_position option inv" where
  "get_trade_builder_parent_position ans i = iv_read ans (\<lambda>w. iv_positions w i)"

definition get_trade_builder_parent_position_seed :: "(nat \<Rightarrow> answer) \<Rightarrow> i64 \<Rightarrow> parent_position_seed option inv" where
  "get_trade_builder_parent_position_seed ans i = iv_read ans (\<lambda>w. iv_seeds w i)"

definition upsert_trade_builder_parent_position :: "(nat \<Rightarrow> answer) \<Rightarrow> parent_position \<Rightarrow> parent_position inv" where
  "upsert_trade_builder_parent_position ans input = iv_write ans (\<lambda>w.
     (input, w\<lparr>iv_positions := (iv_positions w)(pp_parent_builder_order_id input \<mapsto> input)\<rparr>))"

text \<open>\<open>GREATEST(0, x)\<close> of PostgreSQL, where NaN is greater than every number.\<close>

definition greatest_0 :: "f64 \<Rightarrow> f64" where
  "greatest_0 x = (if x = NaN then NaN else if 0 < x then x else 0)"

definition filled_position :: "f64 \<Rightarrow> f64 option \<Rightarrow> string \<Rightarrow> parent_position \<Rightarrow> parent_position" where
  "filled_position filled_qty fill_price qty_source p = p
     \<lparr>pp_current_qty := greatest_0 (pp_current_qty p - filled_qty),
      pp_last_fill_qty := Some filled_qty,
      pp_last_fill_price := or_opt fill_price (pp_last_fill_price p),
      pp_qty_source := qty_source\<rparr>"

definition apply_trade_builder_parent_position_fill ::
    "(nat \<Rightarrow> answer) \<Rightarrow> i64 \<Rightarrow> f64 \<Rightarrow> f64 option \<Rightarrow> string \<Rightarrow> parent_position option inv" where
  "apply_trade_builder_parent_position_fill ans i filled_qty fill_price qty_source = iv_write ans (\<lambda>w.
     case iv_positions w i of
       None \<Rightarrow> (None, w)
     | Some p \<Rightarrow> let p = filled_position filled_qty fill_price qty_source p
         in (Some p, w\<lparr>iv_positions := (iv_positions w)(i \<mapsto> p)\<rparr>))"

definition iv_event :: "(nat \<Rightarrow> answer) \<Rightarrow> i64 \<Rightarrow> string \<Rightarrow> (string \<times> event_value) list \<Rightarrow> unit inv" where
  "iv_event ans i kind payload = iv_write ans (\<lambda>w. ((), w\<lparr>iv_events := iv_events w @ [(i, kind, payload)]\<rparr>))"

section \<open>The position of a leg bought by the flow\<close>

definition load_action_place_order_sell_position ::
    "leg_position_snapshot list \<Rightarrow> string \<Rightarrow> (string, f64 \<times> f64 option) result" where
  "load_action_place_order_sell_position positions token_id =
    (let (position_qty, fallback_price) = fold (\<lambda>position (qty, price).
           if lp_token_id position \<noteq> token_id then (qty, price)
           else (qty + fmax (lp_qty position) 0,
             or_opt price (or_opt (filter_opt (\<lambda>v. is_finite v \<and> 0 < v) (lp_last_fill_price position))
               (then_some (is_finite (lp_avg_entry position) \<and> 0 < lp_avg_entry position) (lp_avg_entry position)))))
         positions (0, None)
     in if 0 < position_qty then Inr (position_qty, fallback_price)
        else Inl ''action.place_order sell requires an open position for the selected token'')"

section \<open>Seeding\<close>

definition source_current :: string where "source_current = ''trade_builder_parent_positions''"
definition source_observed_actual :: string where "source_observed_actual = ''inventory_actual_visible_qty''"
definition source_observed_expected :: string where "source_observed_expected = ''inventory_expected_visible_qty''"
definition source_canonical :: string where "source_canonical = ''canonical_entry_qty''"
definition source_legacy :: string where "source_legacy = ''source_trade_leg_position''"

definition trade_builder_parent_position_seed_qty :: "parent_position_seed option \<Rightarrow> f64 \<Rightarrow> f64 \<times> string" where
  "trade_builder_parent_position_seed_qty seed canonical_entry_qty =
    (case Option.bind seed (normalize_trade_builder_visible_inventory_qty \<circ> ps_actual_visible_qty) of
       Some actual_visible_qty \<Rightarrow> (actual_visible_qty, source_observed_actual)
     | None \<Rightarrow>
       (case Option.bind seed (normalize_trade_builder_visible_inventory_qty \<circ> ps_expected_visible_qty) of
          Some expected_visible_qty \<Rightarrow> (expected_visible_qty, source_observed_expected)
        | None \<Rightarrow> (round_trade_builder_share_qty (fmax canonical_entry_qty 0), source_canonical)))"

definition trade_builder_parent_position_fill_source :: "string option \<Rightarrow> string" where
  "trade_builder_parent_position_fill_source actual_fill_qty_source =
    (case actual_fill_qty_source of
       Some source \<Rightarrow> if trim source \<noteq> [] then ''child_fill:'' @ source else ''child_fill:canonical_qty''
     | None \<Rightarrow> ''child_fill:canonical_qty'')"

definition build_trade_builder_parent_position_input ::
    "('ts, 'j) trade_builder_order \<Rightarrow> f64 \<Rightarrow> f64 \<Rightarrow> f64 option \<Rightarrow> f64 option \<Rightarrow> string \<Rightarrow> parent_position" where
  "build_trade_builder_parent_position_input order baseline_qty current_qty last_fill_qty last_fill_price qty_source =
     \<lparr>pp_parent_builder_order_id = o_id order, pp_user_id = o_user_id order, pp_source_trade_id = o_trade_id order,
      pp_market_slug = o_market_slug order, pp_token_id = o_token_id order, pp_outcome_label = o_outcome_label order,
      pp_baseline_qty = baseline_qty, pp_current_qty = current_qty, pp_last_fill_qty = last_fill_qty,
      pp_last_fill_price = last_fill_price, pp_qty_source = qty_source\<rparr>"

definition ensure_trade_builder_parent_position_from_parent_fill ::
    "(nat \<Rightarrow> answer) \<Rightarrow> ('ts, 'j) trade_builder_order \<Rightarrow> f64 \<Rightarrow> f64 \<Rightarrow> string option \<Rightarrow> parent_position inv" where
  "ensure_trade_builder_parent_position_from_parent_fill ans order canonical_entry_qty execution_price actual_fill_qty_source =
     st_bind (get_trade_builder_parent_position ans (o_id order)) (\<lambda>existing. case existing of
       Some existing \<Rightarrow> st_return existing
     | None \<Rightarrow> st_bind (get_trade_builder_parent_position_seed ans (o_id order)) (\<lambda>seed.
         let (seed_qty, qty_source) = trade_builder_parent_position_seed_qty seed canonical_entry_qty;
             fill_qty_source = (if qty_source = source_canonical
               then (case actual_fill_qty_source of Some source \<Rightarrow> ''parent_fill:'' @ source | None \<Rightarrow> qty_source)
               else qty_source);
             last_fill_price = or_opt (Option.bind seed (normalize_trade_builder_reference_price \<circ> ps_reference_price))
               (normalize_trade_builder_reference_price (Some execution_price));
             last_fill_qty = normalize_trade_builder_terminal_fill_qty_candidate (Some canonical_entry_qty)
         in upsert_trade_builder_parent_position ans
              (build_trade_builder_parent_position_input order seed_qty seed_qty last_fill_qty last_fill_price fill_qty_source)))"

section \<open>Resolving\<close>

definition source_event :: "(nat \<Rightarrow> answer) \<Rightarrow> i64 \<Rightarrow> string \<Rightarrow> string \<Rightarrow> f64 option \<Rightarrow> bool \<Rightarrow> unit inv" where
  "source_event ans i why source qty created = iv_event ans i ''exit_inventory_source_selected''
     [(''reason'', EvStr why), (''inventory_source'', EvStr source), (''current_parent_qty'', EvOptNum qty),
      (''created_position'', EvBool created)]"

definition create_position :: "(nat \<Rightarrow> answer) \<Rightarrow> ('ts, 'j) trade_builder_order \<Rightarrow> string \<Rightarrow> f64 \<Rightarrow> f64 option \<Rightarrow> string
    \<Rightarrow> (f64 \<times> string) option inv" where
  "create_position ans parent_order why qty price source =
     st_then (upsert_trade_builder_parent_position ans
       (build_trade_builder_parent_position_input parent_order qty qty None price source))
     (st_then (source_event ans (o_id parent_order) why source (Some qty) True)
     (st_return (Some (qty, source))))"

text \<open>The positions of the source trade are a query of their own, whose failure is the same as no position.\<close>

definition resolve_from_legacy :: "(nat \<Rightarrow> answer) \<Rightarrow> (string, leg_position_snapshot list) result
    \<Rightarrow> ('ts, 'j) trade_builder_order \<Rightarrow> string \<Rightarrow> (f64 \<times> string) option inv" where
  "resolve_from_legacy ans legs parent_order why =
    (let none = st_then (source_event ans (o_id parent_order) why ''none'' None False) (st_return None)
     in case res_bind legs (\<lambda>legs. load_action_place_order_sell_position legs (o_token_id parent_order)) of
          Inr (legacy_qty, legacy_price) \<Rightarrow>
            let legacy_qty = round_trade_builder_share_qty (fmax legacy_qty 0)
            in if exit_qty_tolerance < legacy_qty
               then create_position ans parent_order why legacy_qty legacy_price source_legacy else none
        | Inl _ \<Rightarrow> none)"

definition resolve_trade_builder_parent_exit_inventory ::
    "(nat \<Rightarrow> answer) \<Rightarrow> (string, leg_position_snapshot list) result \<Rightarrow> ('ts, 'j) trade_builder_order \<Rightarrow> string
      \<Rightarrow> (f64 \<times> string) option inv" where
  "resolve_trade_builder_parent_exit_inventory ans legs parent_order why =
     st_bind (get_trade_builder_parent_position ans (o_id parent_order)) (\<lambda>position. case position of
       Some position \<Rightarrow>
         let current_qty = round_trade_builder_share_qty (fmax (pp_current_qty position) 0)
         in st_then (source_event ans (o_id parent_order) why source_current (Some current_qty) False)
           (st_return (Some (current_qty, source_current)))
     | None \<Rightarrow> st_bind (get_trade_builder_parent_position_seed ans (o_id parent_order)) (\<lambda>seed. case seed of
         None \<Rightarrow> resolve_from_legacy ans legs parent_order why
       | Some seed \<Rightarrow>
           let actual_visible_qty = normalize_trade_builder_visible_inventory_qty (ps_actual_visible_qty seed);
               expected_visible_qty = normalize_trade_builder_visible_inventory_qty (ps_expected_visible_qty seed);
               seed_qty = unwrap_or 0 (or_opt actual_visible_qty expected_visible_qty)
           in if exit_qty_tolerance < seed_qty
              then create_position ans parent_order why seed_qty (normalize_trade_builder_reference_price (ps_reference_price seed))
                     (if actual_visible_qty \<noteq> None then source_observed_actual else source_observed_expected)
              else resolve_from_legacy ans legs parent_order why))"

section \<open>Child fills and the rebase\<close>

definition apply_trade_builder_parent_position_child_fill ::
    "(nat \<Rightarrow> answer) \<Rightarrow> (string, leg_position_snapshot list) result \<Rightarrow> ('ts, 'j) trade_builder_order \<Rightarrow> f64 option
      \<Rightarrow> f64 \<Rightarrow> string option \<Rightarrow> parent_position option inv" where
  "apply_trade_builder_parent_position_child_fill ans legs parent_order fill_qty execution_price actual_fill_qty_source =
    (case normalize_trade_builder_terminal_fill_qty_candidate fill_qty of
       None \<Rightarrow> st_return None
     | Some fill_qty \<Rightarrow>
         st_bind (get_trade_builder_parent_position ans (o_id parent_order)) (\<lambda>position.
         st_bind (if position = None
             then st_then (resolve_trade_builder_parent_exit_inventory ans legs parent_order ''child_fill_seed'') (st_return ())
             else st_return ()) (\<lambda>_.
         apply_trade_builder_parent_position_fill ans (o_id parent_order) fill_qty
           (normalize_trade_builder_reference_price (Some execution_price))
           (trade_builder_parent_position_fill_source actual_fill_qty_source))))"

definition can_rebase :: "parent_position option \<Rightarrow> bool" where
  "can_rebase existing = (case existing of
       None \<Rightarrow> True
     | Some position \<Rightarrow> \<bar>pp_current_qty position - pp_baseline_qty position\<bar> < exit_qty_tolerance
         \<and> (pp_qty_source position = source_canonical \<or> starts_with (pp_qty_source position) ''parent_fill:''))"

text \<open>The decision of a rebase from what it read, and the rebase.\<close>

definition rebase_input :: "('ts, 'j) trade_builder_order \<Rightarrow> parent_position_seed \<Rightarrow> parent_position option \<Rightarrow> parent_position option" where
  "rebase_input parent_order seed existing =
    (let (seed_qty, qty_source) = trade_builder_parent_position_seed_qty (Some seed) 0
     in if seed_qty \<le> exit_qty_tolerance \<or> \<not> can_rebase existing then None
        else Some (build_trade_builder_parent_position_input parent_order seed_qty seed_qty
          (Option.bind existing pp_last_fill_qty)
          (or_opt (normalize_trade_builder_reference_price (ps_reference_price seed)) (Option.bind existing pp_last_fill_price))
          qty_source))"

definition maybe_rebase_trade_builder_parent_position_from_first_visible_inventory ::
    "(nat \<Rightarrow> answer) \<Rightarrow> ('ts, 'j) trade_builder_order option \<Rightarrow> i64 \<Rightarrow> unit inv" where
  "maybe_rebase_trade_builder_parent_position_from_first_visible_inventory ans found i =
     st_bind (iv_read ans (\<lambda>_. found)) (\<lambda>found. case found of
       None \<Rightarrow> st_return ()
     | Some parent_order \<Rightarrow> st_bind (get_trade_builder_parent_position_seed ans i) (\<lambda>seed. case seed of
         None \<Rightarrow> st_return ()
       | Some seed \<Rightarrow>
         if fst (trade_builder_parent_position_seed_qty (Some seed) 0) \<le> exit_qty_tolerance then st_return ()
         else st_bind (get_trade_builder_parent_position ans i) (\<lambda>existing.
           case rebase_input parent_order seed existing of
             None \<Rightarrow> st_return ()
           | Some input \<Rightarrow>
               st_then (upsert_trade_builder_parent_position ans input)
               (iv_event ans i ''parent_position_rebased_from_first_visible_inventory''
                 [(''baseline_qty'', EvNum (pp_baseline_qty input)), (''current_qty'', EvNum (pp_current_qty input)),
                  (''qty_source'', EvStr (pp_qty_source input))]))))"

section \<open>Operations over time\<close>

text \<open>What happens to the position of one parent order: its entry fill, an exit that asks for the inventory, a
  fill of a child, the first observation of the wallet (stored if there is none yet) and the rebase that follows it.\<close>

datatype 'o inventory_action =
    Entry_filled f64 f64 "string option"
  | Exit_asks "(string, leg_position_snapshot list) result" string
  | Child_filled "(string, leg_position_snapshot list) result" "f64 option" f64 "string option"
  | Wallet_observed parent_position_seed
  | Rebased "'o option"

definition inventory_step :: "(nat \<Rightarrow> answer) \<Rightarrow> ('ts, 'j) trade_builder_order
    \<Rightarrow> ('ts, 'j) trade_builder_order inventory_action \<Rightarrow> unit inv" where
  "inventory_step ans order action = (case action of
       Entry_filled qty price source \<Rightarrow>
         st_then (ensure_trade_builder_parent_position_from_parent_fill ans order qty price source) (st_return ())
     | Exit_asks legs why \<Rightarrow> st_then (resolve_trade_builder_parent_exit_inventory ans legs order why) (st_return ())
     | Child_filled legs qty price source \<Rightarrow>
         st_then (apply_trade_builder_parent_position_child_fill ans legs order qty price source) (st_return ())
     | Wallet_observed seed \<Rightarrow> iv_write ans (\<lambda>w. ((), case iv_seeds w (o_id order) of
           Some _ \<Rightarrow> w | None \<Rightarrow> w\<lparr>iv_seeds := (iv_seeds w)(o_id order \<mapsto> seed)\<rparr>))
     | Rebased found \<Rightarrow> maybe_rebase_trade_builder_parent_position_from_first_visible_inventory ans
           (map_option (\<lambda>_. order) found) (o_id order))"

text \<open>Every action runs on its own, whatever it returns.\<close>

primrec run_inventory :: "(nat \<Rightarrow> answer) \<Rightarrow> ('ts, 'j) trade_builder_order
    \<Rightarrow> ('ts, 'j) trade_builder_order inventory_action list \<Rightarrow> inventory_db \<Rightarrow> inventory_db" where
  "run_inventory ans order [] w = w"
| "run_inventory ans order (action # actions) w = run_inventory ans order actions (snd (inventory_step ans order action w))"

section \<open>A recorded child fill is kept\<close>

text \<open>The position of \<open>i\<close> has the baseline \<open>b\<close>, at most the quantity \<open>c\<close>, and was last changed by a child fill.\<close>

definition child_filled :: "i64 \<Rightarrow> f64 \<Rightarrow> f64 \<Rightarrow> inventory_db \<Rightarrow> bool" where
  "child_filled i b c w \<longleftrightarrow> (\<exists>p. iv_positions w i = Some p \<and> starts_with (pp_qty_source p) ''child_fill:''
     \<and> pp_baseline_qty p = b \<and> 0 \<le> pp_current_qty p \<and> pp_current_qty p \<le> c)"

lemma starts_with_append [simp]: "starts_with (xs @ ys) xs"
  by (induction xs) auto

lemma fill_source_child: "starts_with (trade_builder_parent_position_fill_source source) ''child_fill:''"
  by (simp add: trade_builder_parent_position_fill_source_def split: option.split)

lemma starts_with_hd: "starts_with s (c # cs) \<Longrightarrow> starts_with s (d # ds) \<Longrightarrow> c = d"
  by (cases s) auto

lemma child_filled_no_rebase: "child_filled i b c w \<Longrightarrow> \<not> can_rebase (iv_positions w i)"
  by (auto simp: child_filled_def can_rebase_def source_canonical_def dest: starts_with_hd)

lemma child_filled_cong: "iv_positions v i = iv_positions w i \<Longrightarrow> child_filled i b c v = child_filled i b c w"
  by (simp add: child_filled_def)

lemma read_position: "hoare (child_filled i b c) (get_trade_builder_parent_position ans i)
    (\<lambda>x w. child_filled i b c w \<and> x \<noteq> None \<and> \<not> can_rebase x) (child_filled i b c)"
proof (rule hoareI)
  fix w assume filled: "child_filled i b c w"
  then have "iv_positions w i \<noteq> None" "\<not> can_rebase (iv_positions w i)"
    using child_filled_no_rebase by (auto simp: child_filled_def)
  with filled show "case get_trade_builder_parent_position ans i w of (Inl _, v) \<Rightarrow> child_filled i b c v
      | (Inr x, v) \<Rightarrow> child_filled i b c v \<and> x \<noteq> None \<and> \<not> can_rebase x"
    by (auto simp: get_trade_builder_parent_position_def iv_read_def Let_def child_filled_cong [of "w\<lparr>iv_calls := n\<rparr>" i w for n]
        split: answer.split)
qed

lemma read_kept: "hoare (child_filled i b c) (iv_read ans f) (\<lambda>_. child_filled i b c) (child_filled i b c)"
  by (auto simp: hoare_def iv_read_def Let_def child_filled_cong [of "w\<lparr>iv_calls := n\<rparr>" i w for w n] split: answer.split)

lemma write_kept:
  assumes "\<And>w. child_filled i b c w \<Longrightarrow> child_filled i b c (snd (f w))"
  shows "hoare (child_filled i b c) (iv_write ans f) (\<lambda>_. child_filled i b c) (child_filled i b c)"
proof (rule hoareI)
  fix w assume "child_filled i b c w"
  then have w: "child_filled i b c (w\<lparr>iv_calls := n\<rparr>)" for n by (simp add: child_filled_cong [of "w\<lparr>iv_calls := n\<rparr>" i w])
  note v = assms [OF w]
  show "case iv_write ans f w of (Inl _, v) \<Rightarrow> child_filled i b c v | (Inr _, v) \<Rightarrow> child_filled i b c v"
    using w v by (simp add: iv_write_def Let_def split_beta split: answer.split)
qed

lemma event_kept: "hoare (child_filled i b c) (iv_event ans j kind payload) (\<lambda>_. child_filled i b c) (child_filled i b c)"
  unfolding iv_event_def by (rule write_kept) (simp add: child_filled_def)

lemma greatest_0_sub:
  assumes "0 \<le> x" "x \<le> c" "is_value c" "is_finite q" "0 < q"
  shows "0 \<le> greatest_0 (x - q)" "greatest_0 (x - q) \<le> c"
proof -
  have "0 < fval q" "q \<noteq> NegZero" using assms(4,5) by (cases q; simp add: zero_f64_def)+
  then have neg: "- q = Fin (- fval q)" using assms(4) by (cases q) (auto simp: uminus_f64_def)
  have diff: "x - q \<noteq> NaN \<and> x - q \<le> c"
  proof (cases "x = PInf")
    case True
    then show ?thesis using assms(2) by (cases c) (auto simp: f64_diff neg plus_f64_def f64_add_def)
  next
    case False
    then have x: "is_finite x" using assms(1) by (cases x) auto
    then have diff: "x - q = rnd (fval x - fval q)" by (simp add: f64_diff neg plus_f64_def f64_add_def)
    show ?thesis
    proof (cases "c = PInf")
      case True
      then show ?thesis unfolding diff by (cases "rnd (fval x - fval q)") (auto simp: rnd_not_nan dest: rnd_not_nan [THEN notE])
    next
      case False
      then have "is_finite c" using assms(1,2) x by (cases c; cases x) auto
      then have "fval x \<le> fval c" using assms(2) x by (simp add: finite_le)
      then have "rnd (fval x - fval q) \<le> rnd (fval c)" using \<open>0 < fval q\<close> by (intro rnd_mono) simp
      then show ?thesis using assms(3) False unfolding diff is_value_def by simp
    qed
  qed
  then show "0 \<le> greatest_0 (x - q)" "greatest_0 (x - q) \<le> c"
    using f64_le_trans [OF assms(1,2)] by (auto simp: greatest_0_def f64_lt_imp_le)
qed

lemma fill_kept:
  assumes "is_value c" "is_finite q" "0 < q"
  shows "hoare (child_filled i b c) (apply_trade_builder_parent_position_fill ans i q price (trade_builder_parent_position_fill_source source))
    (\<lambda>_. child_filled i b c) (child_filled i b c)"
  unfolding apply_trade_builder_parent_position_fill_def
proof (rule write_kept)
  fix w assume "child_filled i b c w"
  then obtain p where "iv_positions w i = Some p" "pp_baseline_qty p = b" "0 \<le> pp_current_qty p" "pp_current_qty p \<le> c"
    by (auto simp: child_filled_def)
  with greatest_0_sub [OF this(3,4) assms] show "child_filled i b c (snd (case iv_positions w i of None \<Rightarrow> (None, w)
       | Some p \<Rightarrow> let p = filled_position q price (trade_builder_parent_position_fill_source source) p
           in (Some p, w\<lparr>iv_positions := (iv_positions w)(i \<mapsto> p)\<rparr>)))"
    by (simp add: child_filled_def filled_position_def fill_source_child Let_def)
qed

lemma candidate_pos: "normalize_trade_builder_terminal_fill_qty_candidate v = Some q \<Longrightarrow> is_finite q \<and> 0 < q"
  by (auto simp: normalize_trade_builder_terminal_fill_qty_candidate_def Let_def bind_eq_Some_conv split: if_splits)

lemma hoare_False [simp, intro]: "hoare (\<lambda>_. False) m Q E"
  by (simp add: hoare_def)

lemma resolve_kept: "hoare (child_filled (o_id order) b c) (resolve_trade_builder_parent_exit_inventory ans legs order why)
    (\<lambda>_. child_filled (o_id order) b c) (child_filled (o_id order) b c)"
  unfolding resolve_trade_builder_parent_exit_inventory_def Let_def source_event_def
  by (rule hoare_bind [OF read_position])
    (auto intro!: hoare_then hoare_return hoare_conj_pure event_kept split: option.split)

lemma step_kept:
  assumes "is_value c"
  shows "hoare (child_filled (o_id order) b c) (inventory_step ans order action)
    (\<lambda>_. child_filled (o_id order) b c) (child_filled (o_id order) b c)"
proof (cases action)
  case (Entry_filled qty price source)
  then show ?thesis
    unfolding inventory_step_def ensure_trade_builder_parent_position_from_parent_fill_def
    by (auto intro!: hoare_then [where R = "child_filled (o_id order) b c"] hoare_bind [OF read_position] hoare_return
      hoare_conj_pure split: option.split)
next
  case (Exit_asks legs why)
  then show ?thesis unfolding inventory_step_def by (auto intro!: hoare_then [OF resolve_kept] hoare_return)
next
  case (Child_filled legs qty price source)
  then show ?thesis
    unfolding inventory_step_def apply_trade_builder_parent_position_child_fill_def
    by (auto intro!: hoare_then [where R = "child_filled (o_id order) b c"] hoare_bind [OF read_position] hoare_return
        hoare_conj_pure hoare_bind [where R = "\<lambda>_. child_filled (o_id order) b c"] fill_kept assms
        split: option.split dest: candidate_pos)
next
  case (Wallet_observed seed)
  then show ?thesis unfolding inventory_step_def by (auto intro!: write_kept simp: child_filled_def split: option.split)
next
  case (Rebased found)
  then show ?thesis
    unfolding inventory_step_def maybe_rebase_trade_builder_parent_position_from_first_visible_inventory_def
      get_trade_builder_parent_position_seed_def
    by (auto intro!: hoare_bind [OF read_kept] hoare_bind [OF read_position] hoare_return hoare_conj_pure
        simp: rebase_input_def split: option.split)
qed

text \<open>C24: a recorded child fill is never taken back. Once the position of a parent was changed by a child fill, no
  later operation, in whatever order they come and whatever the database answers, changes its baseline or
  raises its quantity: a repeated entry fill finds the row, the rebase from the wallet is refused, an exit only reads.\<close>

theorem child_fill_kept:
  assumes "iv_positions w (o_id order) = Some p" "starts_with (pp_qty_source p) ''child_fill:''"
    "0 \<le> pp_current_qty p" "is_value (pp_current_qty p)"
  shows "\<exists>q. iv_positions (run_inventory ans order actions w) (o_id order) = Some q \<and> pp_baseline_qty q = pp_baseline_qty p
    \<and> 0 \<le> pp_current_qty q \<and> pp_current_qty q \<le> pp_current_qty p"
proof -
  let ?I = "child_filled (o_id order) (pp_baseline_qty p) (pp_current_qty p)"
  have "?I v \<Longrightarrow> ?I (run_inventory ans order actions v)" for v
    by (induction actions arbitrary: v) (auto intro: hoare_any [OF step_kept [OF assms(4)]])
  moreover have "?I w" using assms f64_le_not_nan [OF assms(3)] by (simp add: child_filled_def)
  ultimately show ?thesis by (auto simp: child_filled_def)
qed

section \<open>The inventory in cents\<close>

text \<open>The quantity of a row is the integer number of cents, up to the rounding of the subtractions done so far.\<close>

definition tracks :: "nat \<Rightarrow> int \<Rightarrow> f64 \<Rightarrow> bool" where
  "tracks n k x \<longleftrightarrow> (\<exists>v. x = Fin v \<and> 0 \<le> v \<and> \<bar>v - of_int k / 100\<bar> \<le> of_nat (Suc n) * (3 / 1000000000))"

lemma rr_fine:
  assumes "\<bar>q\<bar> \<le> 10000001"
  shows "\<bar>rr q - q\<bar> \<le> 13 / 10000000000"
proof -
  have "eps * \<bar>q\<bar> \<le> eps * 10000001" using assms eps_pos by (intro mult_left_mono) auto
  moreover have "eps * 10000001 + tiny \<le> 13 / 10000000000" by (simp add: eps_def tiny_def)
  ultimately show ?thesis using rr_err [of q] by linarith
qed

lemma tracks_cents: "0 \<le> k \<Longrightarrow> k \<le> 1000000000 \<Longrightarrow> tracks 0 k (cents k)"
  using rr_fine [of "of_int k / 100"] by (simp add: tracks_def cents_def)

lemma tracks_sub:
  assumes "tracks n k x" "0 \<le> k" "k \<le> 1000000000" "0 < q" "q \<le> 1000000000" "n < 1000000"
  shows "tracks (Suc n) (max 0 (k - q)) (greatest_0 (x - cents q))"
proof -
  obtain v where x: "x = Fin v" "0 \<le> v" "\<bar>v - of_int k / 100\<bar> \<le> of_nat (Suc n) * (3 / 1000000000)"
    using assms(1) by (auto simp: tracks_def)
  let ?y = "rr (of_int q / 100)"
  have n: "rat_of_nat (Suc n) * (3 / 1000000000) \<le> 4 / 1000" using assms(6) by simp
  have qk: "rat_of_int k \<le> 1000000000" "rat_of_int q \<le> 1000000000" "0 \<le> rat_of_int k" "1 \<le> rat_of_int q"
    using assms by simp_all
  have y: "\<bar>?y - of_int q / 100\<bar> \<le> 13 / 10000000000" using rr_fine [of "of_int q / 100"] qk by simp
  then have ypos: "0 < ?y" using qk by linarith
  have diff: "x - cents q = rnd (v - ?y)" using x ypos by (simp add: f64_diff cents_def uminus_f64_def plus_f64_def f64_add_def)
  have range: "\<bar>v - ?y\<bar> \<le> 10000001" using x y n qk ypos by linarith
  have "\<bar>rr (v - ?y) - (v - ?y)\<bar> \<le> 13 / 10000000000" by (rule rr_fine [OF range])
  moreover have "rat_of_nat (Suc (Suc n)) * (3 / 1000000000) = of_nat (Suc n) * (3 / 1000000000) + 3 / 1000000000"
    by (simp add: algebra_simps)
  ultimately have err: "\<bar>rr (v - ?y) - (of_int k / 100 - of_int q / 100)\<bar> \<le> of_nat (Suc (Suc n)) * (3 / 1000000000)"
    using x(3) y unfolding abs_le_iff by linarith
  have "is_finite (rnd (v - ?y))" "fval (rnd (v - ?y)) = rr (v - ?y)"
    using range le_big_num [of "\<bar>v - ?y\<bar>"] by (auto intro!: rnd_finite fval_rnd)
  then have result: "greatest_0 (x - cents q) = Fin (max 0 (rr (v - ?y)))"
    unfolding diff greatest_0_def by (cases "rnd (v - ?y)") (auto simp: zero_f64_def max_def)
  have "\<bar>max 0 (rr (v - ?y)) - of_int (max 0 (k - q)) / 100\<bar> \<le> of_nat (Suc (Suc n)) * (3 / 1000000000)"
    using err by (auto simp: max_def abs_if diff_divide_distrib split: if_splits)
  then show ?thesis unfolding tracks_def result by auto
qed

lemma tracks_round:
  assumes "tracks n k x" "0 \<le> k" "k \<le> 1000000000" "n \<le> 1000000"
  shows "round_trade_builder_share_qty (fmax x 0) = cents k"
proof -
  obtain v where x: "x = Fin v" "0 \<le> v" "\<bar>v - of_int k / 100\<bar> \<le> of_nat (Suc n) * (3 / 1000000000)"
    using assms(1) by (auto simp: tracks_def)
  have "rat_of_nat (Suc n) * (3 / 1000000000) \<le> 4 / 1000" using assms(4) by simp
  with x(3) have near: "\<bar>v - of_int k / 100\<bar> \<le> 4 / 1000" by linarith
  have "rat_of_int k \<le> 1000000000" "0 \<le> rat_of_int k" using assms by simp_all
  with near x(2) have "round_trade_builder_share_qty (Fin v) = cents k"
    by (intro round_cents_near; unfold abs_le_iff max_cents_def; (linarith | use assms in simp))
  then show ?thesis using x by (simp add: fmax_nonneg)
qed

text \<open>With a database that answers, fills of whole cents reduce the row.\<close>

definition cent_fill :: "(string, leg_position_snapshot list) result \<Rightarrow> f64 \<Rightarrow> string option \<Rightarrow> int
    \<Rightarrow> ('ts, 'j) trade_builder_order inventory_action" where
  "cent_fill legs price source q = Child_filled legs (Some (cents q)) price source"

lemma candidate_cents:
  assumes "0 < q" "q \<le> 1000000000"
  shows "normalize_trade_builder_terminal_fill_qty_candidate (Some (cents q)) = Some (cents q)"
proof -
  have q: "0 \<le> q" "q \<le> 2 * max_cents" using assms by (simp_all add: max_cents_def)
  show ?thesis using round_cents [OF q] cents_pos [OF q] assms
    by (simp add: normalize_trade_builder_terminal_fill_qty_candidate_def Let_def)
qed

lemma cent_fill_step:
  assumes "iv_positions w (o_id order) = Some p" "\<And>n. ans n = Done" "0 < q" "q \<le> 1000000000"
  shows "\<exists>p'. iv_positions (snd (inventory_step ans order (cent_fill legs price source q) w)) (o_id order) = Some p'
    \<and> pp_baseline_qty p' = pp_baseline_qty p \<and> pp_current_qty p' = greatest_0 (pp_current_qty p - cents q)"
  using assms candidate_cents [OF assms(3,4)]
  by (simp add: inventory_step_def cent_fill_def apply_trade_builder_parent_position_child_fill_def st_then_def st_bind_def
      get_trade_builder_parent_position_def iv_read_def iv_write_def apply_trade_builder_parent_position_fill_def
      st_return_def Let_def filled_position_def)

lemma cent_fills_track:
  assumes "\<And>n. ans n = Done" "list_all (\<lambda>q. 0 < q \<and> q \<le> 1000000000) qs"
    and "iv_positions w (o_id order) = Some p" "tracks n k (pp_current_qty p)" "0 \<le> k" "k \<le> 1000000000" "n + length qs \<le> 1000000"
  shows "\<exists>p'. iv_positions (run_inventory ans order (map (cent_fill legs price source) qs) w) (o_id order) = Some p'
    \<and> pp_baseline_qty p' = pp_baseline_qty p \<and> tracks (n + length qs) (max 0 (k - sum_list qs)) (pp_current_qty p')"
  using assms(2-)
proof (induction qs arbitrary: w p n k)
  case (Cons q qs)
  obtain p1 where step: "iv_positions (snd (inventory_step ans order (cent_fill legs price source q) w)) (o_id order) = Some p1"
    "pp_baseline_qty p1 = pp_baseline_qty p" "pp_current_qty p1 = greatest_0 (pp_current_qty p - cents q)"
    using cent_fill_step [where ans = ans and legs = legs and price = price and source = source and q = q, OF Cons.prems(2) assms(1)] Cons.prems(1) by auto
  have "tracks (Suc n) (max 0 (k - q)) (pp_current_qty p1)"
    unfolding step(3) using Cons.prems by (intro tracks_sub) auto
  moreover have "max 0 (max 0 (k - q) - sum_list qs) = max 0 (k - sum_list (q # qs))"
  proof -
    have "0 \<le> sum_list qs" using Cons.prems(1) by (intro sum_list_nonneg) (auto simp: list_all_iff)
    then show ?thesis using Cons.prems(1) by (auto simp: max_def)
  qed
  ultimately show ?case
    using Cons.IH [OF _ step(1), of "Suc n" "max 0 (k - q)"] Cons.prems step(2) by (auto simp: list_all_iff)
qed auto

text \<open>C30: what the exits are told of the inventory in binary64 is the inventory in cents. From a row of whole cents and at most
  ten million shares, after up to a million child fills of whole cents, each at most ten million shares, applied one after
  the other to a database that answers every call, the answer of \<open>resolve_trade_builder_parent_exit_inventory\<close> is exactly the
  quantity of the row less the fills, never less than zero. It is the rounded answer: the row itself may be off the grid by the
  rounding errors of all subtractions.\<close>

theorem inventory_refines_cents:
  assumes "\<And>n. ans n = Done" "iv_positions w (o_id order) = Some p" "pp_current_qty p = cents k" "0 \<le> k" "k \<le> 1000000000"
    "list_all (\<lambda>q. 0 < q \<and> q \<le> 1000000000) qs" "length qs \<le> 1000000"
  shows "fst (resolve_trade_builder_parent_exit_inventory ans legs' order why
      (run_inventory ans order (map (cent_fill legs price source) qs) w))
    = Inr (Some (cents (max 0 (k - sum_list qs)), source_current))"
proof -
  have "tracks 0 k (pp_current_qty p)" using tracks_cents assms(3-5) by simp
  from cent_fills_track [where ans = ans and legs = legs and price = price and source = source, OF assms(1,6,2) this assms(4,5)] assms(7)
  obtain p' where p': "iv_positions (run_inventory ans order (map (cent_fill legs price source) qs) w) (o_id order) = Some p'"
    "tracks (length qs) (max 0 (k - sum_list qs)) (pp_current_qty p')" by auto
  have "0 \<le> sum_list qs" using assms(6) by (intro sum_list_nonneg) (auto simp: list_all_iff)
  then have "round_trade_builder_share_qty (fmax (pp_current_qty p') 0) = cents (max 0 (k - sum_list qs))"
    using p'(2) assms by (intro tracks_round) auto
  with p'(1) assms(1) show ?thesis
    by (simp add: resolve_trade_builder_parent_exit_inventory_def st_bind_def st_then_def st_return_def
        get_trade_builder_parent_position_def iv_read_def iv_write_def iv_event_def source_event_def Let_def)
qed

text \<open>A row of a hundred shares, an order and a database that answers.\<close>

definition sample_inventory :: "string \<Rightarrow> inventory_db" where
  "sample_inventory source = \<lparr>iv_positions = [7 \<mapsto> build_trade_builder_parent_position_input sample_order (cents 10000) (cents 10000)
     None None source], iv_seeds = Map.empty, iv_events = [], iv_calls = 0\<rparr>"

lemma hundred_shares: "cents 10000 = Fin 100" "is_value (Fin 100)" "0 \<le> Fin 100"
  "\<not> Fin 100 \<le> exit_qty_tolerance" "\<bar>Fin 100 - Fin 100\<bar> < exit_qty_tolerance"
proof -
  have hundred: "rr 100 = 100" "rnd 100 = Fin 100" using rr_int [of 100] lit_numeral [of "num.Bit0 (num.Bit0 (num.Bit1 (num.Bit0 (num.Bit0 (num.Bit1 num.One)))))"]
    by (simp_all add: lit_def)
  show "cents 10000 = Fin 100" "is_value (Fin 100)" "0 \<le> Fin 100"
    by (simp_all add: cents_def is_value_def hundred zero_f64_def)
  have tolerance: "exit_qty_tolerance = Fin (rr (11 / 1000))" by (simp add: exit_qty_tolerance_def lit_def rnd_Fin)
  have "rr (11 / 1000) \<le> 11 / 1000 + 1 / 100000" "11 / 1000 - 1 / 100000 \<le> rr (11 / 1000)" using rr_close [of "11 / 1000"] by simp_all
  then have t: "rr (11 / 1000) < 100" "0 < rr (11 / 1000)" by linarith+
  then show "\<not> Fin 100 \<le> exit_qty_tolerance" unfolding tolerance by simp
  have "\<bar>Fin 100 - Fin 100\<bar> = Fin 0" by (simp add: f64_diff uminus_f64_def plus_f64_def f64_add_def abs_f64_def sign_neg_def)
  then show "\<bar>Fin 100 - Fin 100\<bar> < exit_qty_tolerance" unfolding tolerance using t by simp
qed

lemma sample_inventory_row:
  "iv_positions (sample_inventory source) (o_id sample_order)
     = Some (build_trade_builder_parent_position_input sample_order (cents 10000) (cents 10000) None None source)"
  by (simp add: sample_inventory_def sample_order_def)

theorem inventory_refines_cents_witness:
  "fst (resolve_trade_builder_parent_exit_inventory (\<lambda>_. Done) (Inl []) sample_order ''exit''
      (run_inventory (\<lambda>_. Done) sample_order (map (cent_fill (Inl []) 1 None) [10, 20, 3333]) (sample_inventory source_canonical)))
    = Inr (Some (cents 6637, source_current))"
  using inventory_refines_cents [of "\<lambda>_. Done" "sample_inventory source_canonical" sample_order _ 10000 "[10, 20, 3333]"
      "Inl []" "''exit''" "Inl []" 1 None, OF refl sample_inventory_row]
  by (simp add: build_trade_builder_parent_position_input_def)

theorem child_fill_kept_witness:
  "\<exists>q. iv_positions (run_inventory (\<lambda>_. Done) sample_order [Entry_filled 1 1 None, Rebased None]
      (sample_inventory ''child_fill:canonical_qty'')) (o_id sample_order) = Some q \<and> pp_current_qty q \<le> Fin 100"
  using child_fill_kept [OF sample_inventory_row, of "''child_fill:canonical_qty''" "\<lambda>_. Done" "[Entry_filled 1 1 None, Rebased None]"]
    hundred_shares(1-3) by (auto simp: build_trade_builder_parent_position_input_def)

section \<open>A fill between the read and the write of a rebase\<close>

text \<open>A rebase can take back a fill it has not seen. The rebase decides from the row it read and writes the row
  later, without a condition: when a child fill is applied in between, the row ends with the quantity
  the wallet showed, as if the fill had not been, and the exits are told to sell it again.\<close>

lemma rebase_undoes_concurrent_fill:
  assumes "iv_positions w (o_id order) = Some p" "rebase_input order seed (Some p) = Some input" "\<And>n. ans n = Done"
  shows "iv_positions (snd (st_then (apply_trade_builder_parent_position_fill ans (o_id order) qty price source)
      (upsert_trade_builder_parent_position ans input) w)) (o_id order) = Some input
    \<and> pp_current_qty input = fst (trade_builder_parent_position_seed_qty (Some seed) 0)
    \<and> \<not> starts_with (pp_qty_source input) ''child_fill:''"
proof -
  have input: "input = build_trade_builder_parent_position_input order (fst (trade_builder_parent_position_seed_qty (Some seed) 0))
      (fst (trade_builder_parent_position_seed_qty (Some seed) 0)) (pp_last_fill_qty p)
      (or_opt (normalize_trade_builder_reference_price (ps_reference_price seed)) (pp_last_fill_price p))
      (snd (trade_builder_parent_position_seed_qty (Some seed) 0))"
    using assms(2) by (auto simp: rebase_input_def Let_def split: prod.splits if_splits)
  have "\<not> starts_with (snd (trade_builder_parent_position_seed_qty (Some seed) 0)) ''child_fill:''"
    by (auto simp: trade_builder_parent_position_seed_qty_def source_observed_actual_def source_observed_expected_def
        source_canonical_def split: option.split)
  then show ?thesis using assms(1,3)
    by (simp add: st_then_def st_bind_def apply_trade_builder_parent_position_fill_def upsert_trade_builder_parent_position_def
        iv_write_def Let_def input build_trade_builder_parent_position_input_def)
qed

definition sample_seed :: parent_position_seed where
  "sample_seed = \<lparr>ps_actual_visible_qty = Some (Fin 100), ps_expected_visible_qty = None, ps_reference_price = None, ps_qty_source = None\<rparr>"

theorem rebase_undoes_concurrent_fill_witness:
  "map_option pp_current_qty (iv_positions (snd (st_then
      (apply_trade_builder_parent_position_fill (\<lambda>_. Done) (o_id sample_order) (cents 10000) None ''child_fill:x'')
      (upsert_trade_builder_parent_position (\<lambda>_. Done) (the (rebase_input sample_order sample_seed
        (iv_positions (sample_inventory source_canonical) (o_id sample_order)))))
      (sample_inventory source_canonical))) (o_id sample_order)) = Some (Fin 100)"
proof -
  have "round_trade_builder_share_qty (Fin 100) = Fin 100"
    using round_cents [of 10000] by (simp add: hundred_shares(1) max_cents_def)
  then have seed: "trade_builder_parent_position_seed_qty (Some sample_seed) 0 = (Fin 100, source_observed_actual)"
    by (simp add: trade_builder_parent_position_seed_qty_def sample_seed_def normalize_trade_builder_visible_inventory_qty_def Fin0_cmp)
  obtain input where input: "rebase_input sample_order sample_seed
      (Some (build_trade_builder_parent_position_input sample_order (cents 10000) (cents 10000) None None source_canonical)) = Some input"
    using hundred_shares(4,5) by (simp add: rebase_input_def seed can_rebase_def build_trade_builder_parent_position_input_def hundred_shares(1))
  from rebase_undoes_concurrent_fill [OF sample_inventory_row input, of "\<lambda>_. Done" "cents 10000" None "''child_fill:x''"]
  show ?thesis by (simp add: sample_inventory_row input seed)
qed

end
