(* ===== verification/Cex_Microstructure.thy ===== *)
theory Cex_Microstructure
  imports Exit_Ladders Bot_Core "HOL-Library.Multiset"
begin

text \<open>
  The books and trades of the spot exchanges that the price-to-beat stop losses and guards read
  (\<open>trade_flow/guards/cex_microstructure/\<close>: \<open>types.rs\<close>, \<open>active_venues.rs\<close> and the state of
  \<open>service.rs\<close>). A venue keeps its latest book, the recent books and trades in bounded queues and
  the opening books of its windows; missing openings are fetched by tasks of which at most one
  runs per window, with a pause after a failure. Sockets and HTTP are left out: what they deliver are
  the arguments of the operations, as is the clock.
\<close>

section \<open>The total order of binary64\<close>

text \<open>\<open>f64::total_cmp\<close>, with the one NaN of the model above all numbers.\<close>

datatype total_f64 = Total (untotal: f64)

fun total_rank :: "f64 \<Rightarrow> nat \<times> rat \<times> nat" where
  "total_rank NInf = (0, 0, 0)" | "total_rank NegZero = (1, 0, 0)" | "total_rank (Fin q) = (1, q, 1)"
| "total_rank PInf = (2, 0, 0)" | "total_rank NaN = (3, 0, 0)"

lemma total_rank_inj: "total_rank x = total_rank y \<longleftrightarrow> x = y"
  by (cases x; cases y) auto

fun lex_le :: "nat \<times> rat \<times> nat \<Rightarrow> nat \<times> rat \<times> nat \<Rightarrow> bool" where
  "lex_le (a, p, i) (b, q, j) \<longleftrightarrow> a < b \<or> a = b \<and> (p < q \<or> p = q \<and> i \<le> j)"

instantiation total_f64 :: linorder
begin
definition "x \<le> y \<longleftrightarrow> lex_le (total_rank (untotal x)) (total_rank (untotal y))"
definition "(x::total_f64) < y \<longleftrightarrow> x \<le> y \<and> \<not> y \<le> x"
instance
proof
  fix x y z :: total_f64
  obtain a p i where x: "total_rank (untotal x) = (a, p, i)" by (cases "total_rank (untotal x)") auto
  obtain b q j where y: "total_rank (untotal y) = (b, q, j)" by (cases "total_rank (untotal y)") auto
  obtain c r k where z: "total_rank (untotal z) = (c, r, k)" by (cases "total_rank (untotal z)") auto
  show "x < y \<longleftrightarrow> x \<le> y \<and> \<not> y \<le> x" by (simp add: less_total_f64_def)
  show "x \<le> x" by (simp add: less_eq_total_f64_def x)
  show "x \<le> y \<Longrightarrow> y \<le> z \<Longrightarrow> x \<le> z" by (auto simp: less_eq_total_f64_def x y z)
  show "x \<le> y \<or> y \<le> x" by (auto simp: less_eq_total_f64_def x y)
  assume "x \<le> y" "y \<le> x"
  then have "total_rank (untotal x) = total_rank (untotal y)" by (auto simp: less_eq_total_f64_def x y)
  then show "x = y" by (simp add: total_rank_inj total_f64.expand)
qed
end

definition sort_total :: "f64 list \<Rightarrow> f64 list" where
  "sort_total xs = map untotal (sort (map Total xs))"

lemma sort_total_mset [simp]: "mset (sort_total xs) = mset xs"
  by (simp add: sort_total_def multiset.map_comp comp_def)

lemma length_sort_total [simp]: "length (sort_total xs) = length xs"
  by (simp add: sort_total_def)

section \<open>Samples and snapshots\<close>

datatype cex_venue = Binance | Coinbase | Hyperliquid | Bybit | Okx | Gateio

fun cex_venue_as_str :: "cex_venue \<Rightarrow> string" where
  "cex_venue_as_str Binance = ''binance''" | "cex_venue_as_str Coinbase = ''coinbase''"
| "cex_venue_as_str Hyperliquid = ''hyperliquid''" | "cex_venue_as_str Bybit = ''bybit''"
| "cex_venue_as_str Okx = ''okx''" | "cex_venue_as_str Gateio = ''gateio''"

datatype taker_side = TakerBuy | TakerSell

record cex_trade_sample =
  ct_venue :: cex_venue
  ct_asset :: string
  ct_timestamp_ms :: i64
  ct_price :: f64
  ct_size :: f64
  ct_taker_side :: taker_side

definition notional :: "cex_trade_sample \<Rightarrow> f64" where
  "notional t = fmax (ct_price t * ct_size t) 0"

record cex_book_sample =
  cb_venue :: cex_venue
  cb_asset :: string
  cb_timestamp_ms :: i64
  cb_bid :: f64
  cb_ask :: f64
  cb_bid_size :: "f64 option"
  cb_ask_size :: "f64 option"
  cb_source :: string

definition mid :: "cex_book_sample \<Rightarrow> f64" where
  "mid b = (cb_bid b + cb_ask b) div lit 2"

record cex_impulse_snapshot =
  ci_side :: "string option"
  ci_move_usd :: f64
  ci_velocity_usd_per_sec :: f64
  ci_taker_imbalance :: f64
  ci_trade_count :: nat

record cex_source_snapshot =
  cs_venue :: cex_venue
  cs_mid :: f64
  cs_bid :: f64
  cs_ask :: f64
  cs_book_staleness_ms :: i64
  cs_trade_staleness_ms :: i64
  cs_ticker_staleness_ms :: i64
  cs_impulse :: cex_impulse_snapshot

record cex_current_price_snapshot =
  cp_venue :: cex_venue
  cp_mid :: f64
  cp_bid :: f64
  cp_ask :: f64
  cp_book_staleness_ms :: i64
  cp_ticker_staleness_ms :: i64

record cex_venue_delta_snapshot =
  cv_venue :: cex_venue
  cv_open_mid :: f64
  cv_current_mid :: f64
  cv_delta_usd :: f64
  cv_side :: "string option"
  cv_role :: "string option"
  cv_directional_gap :: "f64 option"
  cv_threshold_hit :: "bool option"
  cv_open_source :: string
  cv_open_timestamp_ms :: i64
  cv_current_timestamp_ms :: i64
  cv_open_lag_ms :: i64
  cv_book_staleness_ms :: i64

record cex_consensus_snapshot =
  cc_asset :: string
  cc_binance :: cex_source_snapshot
  cc_coinbase :: cex_source_snapshot
  cc_consensus_side :: "string option"
  cc_spot_mid :: f64
  cc_source_skew_usd :: f64
  cc_baseline_source_skew_usd :: "f64 option"
  cc_normalized_source_skew_usd :: f64

record cex_microstructure_snapshot_config =
  mc_impulse_window_ms :: i64
  mc_min_move_usd :: f64
  mc_min_velocity_usd_per_sec :: f64
  mc_min_taker_imbalance :: f64
  mc_source_skew_baseline_window_ms :: i64
  mc_max_book_stale_ms :: i64
  mc_max_trade_stale_ms :: i64
  mc_max_ticker_stale_ms :: i64

definition default_snapshot_config :: cex_microstructure_snapshot_config where
  "default_snapshot_config = \<lparr>mc_impulse_window_ms = 15000, mc_min_move_usd = lit 12,
     mc_min_velocity_usd_per_sec = lit (1/2), mc_min_taker_imbalance = lit (58/100),
     mc_source_skew_baseline_window_ms = 60000, mc_max_book_stale_ms = 750, mc_max_trade_stale_ms = 1000,
     mc_max_ticker_stale_ms = 750\<rparr>"

definition active_anchor_venue_for_asset :: "string \<Rightarrow> cex_venue" where
  "active_anchor_venue_for_asset asset =
    (let a = to_ascii_lowercase (trim asset)
     in if a = ''sol'' then Gateio else if a = ''hype'' \<or> a = ''hyperliquid'' then Coinbase else Okx)"

definition active_spot_venues_for_asset :: "string \<Rightarrow> cex_venue list" where
  "active_spot_venues_for_asset asset = [Binance, active_anchor_venue_for_asset asset, Coinbase]"

section \<open>Bounded queues\<close>

definition max_sample_age_ms :: i64 where "max_sample_age_ms = 300000"
definition max_book_samples :: nat where "max_book_samples = 4000"
definition max_trade_samples :: nat where "max_trade_samples = 20000"
definition max_skew_samples :: nat where "max_skew_samples = 4000"
definition max_window_open_book_age_ms :: i64 where "max_window_open_book_age_ms = 10000"
definition open_backfill_fail_cooldown_ms :: i64 where "open_backfill_fail_cooldown_ms = 30000"

text \<open>The back of a queue is the end of the list.\<close>

definition trim_by_timestamp :: "('a \<Rightarrow> i64) \<Rightarrow> nat \<Rightarrow> 'a list \<Rightarrow> 'a list" where
  "trim_by_timestamp timestamp max_samples samples =
    (let latest = (if samples = [] then 0 else timestamp (last samples));
         cutoff = sat_sub_i64 latest max_sample_age_ms;
         recent = dropWhile (\<lambda>sample. timestamp sample < cutoff) samples
     in drop (length recent - max_samples) recent)"

definition trim_books :: "cex_book_sample list \<Rightarrow> cex_book_sample list" where
  "trim_books = trim_by_timestamp cb_timestamp_ms max_book_samples"

definition trim_trades :: "cex_trade_sample list \<Rightarrow> cex_trade_sample list" where
  "trim_trades = trim_by_timestamp ct_timestamp_ms max_trade_samples"

definition trim_skew :: "(i64 \<times> f64) list \<Rightarrow> (i64 \<times> f64) list" where
  "trim_skew = trim_by_timestamp fst max_skew_samples"

section \<open>State\<close>

record venue_state =
  vs_latest_book :: "cex_book_sample option"
  vs_latest_ticker_timestamp_ms :: "i64 option"
  vs_pinned_window_opens :: "i64 \<rightharpoonup> cex_book_sample"
  vs_books :: "cex_book_sample list"
  vs_trades :: "cex_trade_sample list"

definition default_venue_state :: venue_state where
  "default_venue_state = \<lparr>vs_latest_book = None, vs_latest_ticker_timestamp_ms = None,
     vs_pinned_window_opens = Map.empty, vs_books = [], vs_trades = []\<rparr>"

record asset_state =
  as_binance :: venue_state
  as_coinbase :: venue_state
  as_hyperliquid :: venue_state
  as_bybit :: venue_state
  as_okx :: venue_state
  as_gateio :: venue_state
  as_skew_samples :: "(i64 \<times> f64) list"

definition default_asset_state :: asset_state where
  "default_asset_state = \<lparr>as_binance = default_venue_state, as_coinbase = default_venue_state,
     as_hyperliquid = default_venue_state, as_bybit = default_venue_state, as_okx = default_venue_state,
     as_gateio = default_venue_state, as_skew_samples = []\<rparr>"

fun venue_state_of :: "asset_state \<Rightarrow> cex_venue \<Rightarrow> venue_state" where
  "venue_state_of entry Binance = as_binance entry" | "venue_state_of entry Coinbase = as_coinbase entry"
| "venue_state_of entry Hyperliquid = as_hyperliquid entry" | "venue_state_of entry Bybit = as_bybit entry"
| "venue_state_of entry Okx = as_okx entry" | "venue_state_of entry Gateio = as_gateio entry"

fun venue_state_mut :: "cex_venue \<Rightarrow> venue_state \<Rightarrow> asset_state \<Rightarrow> asset_state" where
  "venue_state_mut Binance v entry = entry\<lparr>as_binance := v\<rparr>"
| "venue_state_mut Coinbase v entry = entry\<lparr>as_coinbase := v\<rparr>"
| "venue_state_mut Hyperliquid v entry = entry\<lparr>as_hyperliquid := v\<rparr>"
| "venue_state_mut Bybit v entry = entry\<lparr>as_bybit := v\<rparr>"
| "venue_state_mut Okx v entry = entry\<lparr>as_okx := v\<rparr>"
| "venue_state_mut Gateio v entry = entry\<lparr>as_gateio := v\<rparr>"

lemma venue_state_same [simp]: "venue_state_of (venue_state_mut w v entry) w = v"
  by (cases w) simp_all

lemma venue_state_other [simp]: "u \<noteq> w \<Longrightarrow> venue_state_of (venue_state_mut w v entry) u = venue_state_of entry u"
  by (cases w; cases u) simp_all

lemma venue_state_skew [simp]: "as_skew_samples (venue_state_mut w v entry) = as_skew_samples entry"
  by (cases w) simp_all

record cex_service =
  sv_state :: "string \<rightharpoonup> asset_state"
  sv_open_backfill_inflight :: "string set"
  sv_open_backfill_fail_cooldown_until_ms :: "string \<rightharpoonup> i64"
  sv_dirty_assets :: "string set"

definition new_service :: cex_service where
  "new_service = \<lparr>sv_state = Map.empty, sv_open_backfill_inflight = {},
     sv_open_backfill_fail_cooldown_until_ms = Map.empty, sv_dirty_assets = {}\<rparr>"

definition mark_dirty_asset :: "string \<Rightarrow> cex_service \<Rightarrow> cex_service" where
  "mark_dirty_asset asset s = s\<lparr>sv_dirty_assets := insert asset (sv_dirty_assets s)\<rparr>"

definition take_dirty_assets :: "cex_service \<Rightarrow> string set" where
  "take_dirty_assets s = sv_dirty_assets s"

definition clear_dirty_assets :: "string set \<Rightarrow> cex_service \<Rightarrow> cex_service" where
  "clear_dirty_assets assets s = s\<lparr>sv_dirty_assets := sv_dirty_assets s - assets\<rparr>"

section \<open>Books and trades\<close>

definition merge_book_update :: "cex_book_sample option \<Rightarrow> cex_book_sample \<Rightarrow> cex_book_sample" where
  "merge_book_update previous incoming =
    (if cb_source incoming \<noteq> ''level2'' then incoming
     else case previous of
         None \<Rightarrow> incoming
       | Some p \<Rightarrow>
           if cb_bid_size incoming \<noteq> None \<and> cb_ask_size incoming = None
           then incoming\<lparr>cb_ask := cb_ask p, cb_ask_size := cb_ask_size p\<rparr>
           else if cb_ask_size incoming \<noteq> None \<and> cb_bid_size incoming = None
           then incoming\<lparr>cb_bid := cb_bid p, cb_bid_size := cb_bid_size p\<rparr>
           else incoming)"

definition unseeded_partial_level2_update :: "cex_book_sample option \<Rightarrow> cex_book_sample \<Rightarrow> bool" where
  "unseeded_partial_level2_update previous incoming \<longleftrightarrow>
     cb_source incoming = ''level2'' \<and> previous = None \<and> (cb_bid_size incoming = None \<or> cb_ask_size incoming = None)"

definition non_improving_partial_level2_update :: "cex_book_sample option \<Rightarrow> cex_book_sample \<Rightarrow> bool" where
  "non_improving_partial_level2_update previous incoming =
    (if cb_source incoming \<noteq> ''level2'' then False
     else case previous of
         None \<Rightarrow> False
       | Some p \<Rightarrow>
           (case (cb_bid_size incoming, cb_ask_size incoming) of
              (Some bid_size, None) \<Rightarrow> bid_size \<le> 0 \<or> cb_bid incoming < cb_bid p
            | (None, Some ask_size) \<Rightarrow> ask_size \<le> 0 \<or> cb_ask p < cb_ask incoming
            | _ \<Rightarrow> False))"

definition record_skew_sample :: "asset_state \<Rightarrow> asset_state" where
  "record_skew_sample entry =
    (case (vs_latest_book (as_binance entry), vs_latest_book (as_coinbase entry)) of
       (Some binance, Some coinbase) \<Rightarrow>
         entry\<lparr>as_skew_samples := trim_skew (as_skew_samples entry @
           [(max (cb_timestamp_ms binance) (cb_timestamp_ms coinbase), mid binance - mid coinbase)])\<rparr>
     | _ \<Rightarrow> entry)"

definition entry_of :: "cex_service \<Rightarrow> string \<Rightarrow> asset_state" where
  "entry_of s asset = (case sv_state s asset of None \<Rightarrow> default_asset_state | Some e \<Rightarrow> e)"

definition ticker_sources :: "string list" where
  "ticker_sources = [''bookTicker'', ''ticker'', ''l2Book'', ''orderbook.1'', ''books5'', ''book_ticker'']"

definition apply_book :: "cex_book_sample \<Rightarrow> venue_state \<Rightarrow> venue_state" where
  "apply_book book venue =
    (let merged = merge_book_update (vs_latest_book venue) book
     in venue\<lparr>vs_latest_ticker_timestamp_ms := (if cb_source merged \<in> set ticker_sources
            then Some (cb_timestamp_ms merged) else vs_latest_ticker_timestamp_ms venue),
          vs_latest_book := Some merged, vs_books := trim_books (vs_books venue @ [merged])\<rparr>)"

text \<open>The entry of the asset is created before the update may be dropped.\<close>

definition update_book :: "cex_book_sample \<Rightarrow> cex_service \<Rightarrow> cex_service" where
  "update_book book s =
    (let asset = cb_asset book; entry = entry_of s asset; venue = venue_state_of entry (cb_venue book)
     in if unseeded_partial_level2_update (vs_latest_book venue) book
           \<or> non_improving_partial_level2_update (vs_latest_book venue) book
        then s\<lparr>sv_state := (sv_state s)(asset \<mapsto> entry)\<rparr>
        else mark_dirty_asset asset (s\<lparr>sv_state := (sv_state s)(asset \<mapsto>
          record_skew_sample (venue_state_mut (cb_venue book) (apply_book book venue) entry))\<rparr>))"

definition update_trade :: "cex_trade_sample \<Rightarrow> cex_service \<Rightarrow> cex_service" where
  "update_trade trade s =
    (let asset = ct_asset trade; entry = entry_of s asset; venue = venue_state_of entry (ct_venue trade)
     in s\<lparr>sv_state := (sv_state s)(asset \<mapsto> venue_state_mut (ct_venue trade)
          (venue\<lparr>vs_trades := trim_trades (vs_trades venue @ [trade])\<rparr>) entry)\<rparr>)"

section \<open>Snapshots\<close>

definition stale_error :: "string \<Rightarrow> string \<Rightarrow> i64 \<Rightarrow> i64 \<Rightarrow> string" where
  "stale_error label kind age_ms max_ms =
     label @ '' '' @ kind @ '' stale: age_ms='' @ show_i64 age_ms @ '' max_ms='' @ show_i64 max_ms"

definition ensure_stale :: "string \<Rightarrow> string \<Rightarrow> i64 \<Rightarrow> i64 \<Rightarrow> (string, unit) result" where
  "ensure_stale label kind age_ms max_ms = ensure (age_ms \<le> max_ms) (stale_error label kind age_ms max_ms)"

definition side_notional :: "cex_trade_sample list \<Rightarrow> taker_side \<Rightarrow> f64" where
  "side_notional window side = fsum (map notional (filter (\<lambda>trade. ct_taker_side trade = side) window))"

definition empty_impulse :: "nat \<Rightarrow> cex_impulse_snapshot" where
  "empty_impulse trade_count = \<lparr>ci_side = None, ci_move_usd = 0, ci_velocity_usd_per_sec = 0,
     ci_taker_imbalance = 0, ci_trade_count = trade_count\<rparr>"

definition impulse_side :: "cex_microstructure_snapshot_config \<Rightarrow> f64 \<Rightarrow> f64 \<Rightarrow> f64 \<Rightarrow> f64 \<Rightarrow> string option" where
  "impulse_side config move_usd velocity_usd_per_sec buy_imbalance sell_imbalance =
    (if mc_min_move_usd config \<le> move_usd \<and> mc_min_velocity_usd_per_sec config \<le> velocity_usd_per_sec
        \<and> mc_min_taker_imbalance config \<le> buy_imbalance then Some ''up''
     else if mc_min_move_usd config \<le> - move_usd \<and> mc_min_velocity_usd_per_sec config \<le> - velocity_usd_per_sec
        \<and> mc_min_taker_imbalance config \<le> sell_imbalance then Some ''down''
     else None)"

definition imbalance :: "f64 \<Rightarrow> f64 \<Rightarrow> f64" where
  "imbalance part total_notional = (if 0 < total_notional then part div total_notional else 0)"

definition impulse_snapshot :: "cex_trade_sample list \<Rightarrow> i64 \<Rightarrow> cex_microstructure_snapshot_config \<Rightarrow> cex_impulse_snapshot" where
  "impulse_snapshot trades now_ms config =
    (let cutoff = sat_sub_i64 now_ms (max (mc_impulse_window_ms config) 1);
         window = filter (\<lambda>trade. cutoff \<le> ct_timestamp_ms trade \<and> ct_timestamp_ms trade \<le> now_ms) trades
     in if length window < 2 then empty_impulse (length window)
        else let first = hd window; newest = last window;
                 move_usd = ct_price newest - ct_price first;
                 elapsed_sec = fmax (rnd (of_int (max (ct_timestamp_ms newest - ct_timestamp_ms first) 1)) div lit 1000) (lit (1/1000));
                 velocity_usd_per_sec = move_usd div elapsed_sec;
                 buy_notional = side_notional window TakerBuy;
                 sell_notional = side_notional window TakerSell;
                 total_notional = buy_notional + sell_notional;
                 buy_imbalance = imbalance buy_notional total_notional;
                 sell_imbalance = imbalance sell_notional total_notional;
                 side = impulse_side config move_usd velocity_usd_per_sec buy_imbalance sell_imbalance
             in \<lparr>ci_side = side, ci_move_usd = move_usd, ci_velocity_usd_per_sec = velocity_usd_per_sec,
                  ci_taker_imbalance = (if side = Some ''up'' then buy_imbalance
                    else if side = Some ''down'' then sell_imbalance else fmax buy_imbalance sell_imbalance),
                  ci_trade_count = length window\<rparr>)"

definition source_snapshot :: "cex_venue \<Rightarrow> venue_state \<Rightarrow> i64 \<Rightarrow> cex_microstructure_snapshot_config \<Rightarrow> string
    \<Rightarrow> (string, cex_source_snapshot) result" where
  "source_snapshot venue state now_ms config label =
     res_bind (ok_or (label @ '' book missing'') (vs_latest_book state)) (\<lambda>book.
     res_bind (ok_or (label @ '' trade missing'') (last_opt (vs_trades state))) (\<lambda>latest_trade.
     res_bind (ok_or (label @ '' ticker missing'') (vs_latest_ticker_timestamp_ms state)) (\<lambda>ticker_timestamp.
       let book_staleness_ms = sat_sub_i64 now_ms (cb_timestamp_ms book);
           trade_staleness_ms = sat_sub_i64 now_ms (ct_timestamp_ms latest_trade);
           ticker_staleness_ms = sat_sub_i64 now_ms ticker_timestamp
       in res_bind (ensure_stale label ''book'' book_staleness_ms (mc_max_book_stale_ms config)) (\<lambda>_.
          res_bind (ensure_stale label ''trade'' trade_staleness_ms (mc_max_trade_stale_ms config)) (\<lambda>_.
          res_bind (ensure_stale label ''ticker'' ticker_staleness_ms (mc_max_ticker_stale_ms config)) (\<lambda>_.
          Inr \<lparr>cs_venue = venue, cs_mid = mid book, cs_bid = cb_bid book, cs_ask = cb_ask book,
            cs_book_staleness_ms = book_staleness_ms, cs_trade_staleness_ms = trade_staleness_ms,
            cs_ticker_staleness_ms = ticker_staleness_ms,
            cs_impulse = impulse_snapshot (vs_trades state) now_ms config\<rparr>))))))"

definition current_price_snapshot :: "cex_venue \<Rightarrow> venue_state \<Rightarrow> i64 \<Rightarrow> cex_microstructure_snapshot_config \<Rightarrow> string
    \<Rightarrow> (string, cex_current_price_snapshot) result" where
  "current_price_snapshot venue state now_ms config label =
     res_bind (ok_or (label @ '' book missing'') (vs_latest_book state)) (\<lambda>book.
       let book_staleness_ms = sat_sub_i64 now_ms (cb_timestamp_ms book);
           ticker_timestamp = unwrap_or (cb_timestamp_ms book) (vs_latest_ticker_timestamp_ms state)
       in res_bind (ensure_stale label ''book'' book_staleness_ms (mc_max_book_stale_ms config)) (\<lambda>_.
          Inr \<lparr>cp_venue = venue, cp_mid = mid book, cp_bid = cb_bid book, cp_ask = cb_ask book,
            cp_book_staleness_ms = book_staleness_ms, cp_ticker_staleness_ms = sat_sub_i64 now_ms ticker_timestamp\<rparr>))"

definition venue_requires_rest_open :: "cex_venue \<Rightarrow> bool" where
  "venue_requires_rest_open venue \<longleftrightarrow> venue \<in> {Binance, Bybit, Coinbase, Okx, Gateio}"

definition window_open_sample_is_close_enough :: "cex_book_sample \<Rightarrow> i64 \<Rightarrow> bool" where
  "window_open_sample_is_close_enough sample window_start_ms \<longleftrightarrow>
     cb_timestamp_ms sample \<le> window_start_ms \<and> window_start_ms - cb_timestamp_ms sample \<le> max_window_open_book_age_ms"

definition cex_delta_open_source :: "cex_book_sample \<Rightarrow> string" where
  "cex_delta_open_source open_book = (if cb_source open_book = ''rest_open'' then ''rest_kline_open'' else ''ws_window_open'')"

definition window_open_book :: "cex_venue \<Rightarrow> venue_state \<Rightarrow> i64 \<Rightarrow> cex_book_sample option" where
  "window_open_book venue state window_start_ms =
    (let pinned = vs_pinned_window_opens state window_start_ms
     in if venue_requires_rest_open venue then filter_opt (\<lambda>sample. cb_source sample = ''rest_open'') pinned
        else or_opt pinned (find (\<lambda>sample. window_open_sample_is_close_enough sample window_start_ms) (rev (vs_books state))))"

definition venue_delta_snapshot :: "cex_venue \<Rightarrow> venue_state \<Rightarrow> i64 \<Rightarrow> i64 \<Rightarrow> f64 \<Rightarrow> i64 \<Rightarrow> string
    \<Rightarrow> (string, cex_venue_delta_snapshot) result" where
  "venue_delta_snapshot venue state window_start_ms now_ms min_move_usd max_book_stale_ms label =
     res_bind (ok_or (label @ '' book missing'') (vs_latest_book state)) (\<lambda>current.
     res_bind (ok_or (label @ '' window open book missing'') (window_open_book venue state window_start_ms)) (\<lambda>open_book.
       let book_staleness_ms = sat_sub_i64 now_ms (cb_timestamp_ms current)
       in res_bind (ensure_stale label ''book'' book_staleness_ms max_book_stale_ms) (\<lambda>_.
          let delta_usd = mid current - mid open_book; threshold = \<bar>min_move_usd\<bar>
          in Inr \<lparr>cv_venue = venue, cv_open_mid = mid open_book, cv_current_mid = mid current, cv_delta_usd = delta_usd,
               cv_side = (if threshold \<le> delta_usd then Some ''up'' else if threshold \<le> - delta_usd then Some ''down'' else None),
               cv_role = None, cv_directional_gap = None, cv_threshold_hit = None,
               cv_open_source = cex_delta_open_source open_book, cv_open_timestamp_ms = cb_timestamp_ms open_book,
               cv_current_timestamp_ms = cb_timestamp_ms current,
               cv_open_lag_ms = cb_timestamp_ms open_book - window_start_ms, cv_book_staleness_ms = book_staleness_ms\<rparr>)))"

definition median_recent_skew :: "(i64 \<times> f64) list \<Rightarrow> i64 \<Rightarrow> i64 \<Rightarrow> f64 option" where
  "median_recent_skew samples now_ms baseline_window_ms =
    (let cutoff = sat_sub_i64 now_ms (max baseline_window_ms 1);
         values = sort_total (map snd (filter (\<lambda>(timestamp_ms, skew). cutoff \<le> timestamp_ms \<and> is_finite skew) samples))
     in if values = [] then None else Some (values ! (length values div 2)))"

definition asset_entry :: "cex_service \<Rightarrow> string \<Rightarrow> (string, asset_state) result" where
  "asset_entry s asset = (let normalized_asset = to_ascii_lowercase (trim asset)
     in ok_or (''cex source missing for asset='' @ normalized_asset) (sv_state s normalized_asset))"

definition service_snapshot :: "cex_service \<Rightarrow> string \<Rightarrow> i64 \<Rightarrow> cex_microstructure_snapshot_config
    \<Rightarrow> (string, cex_consensus_snapshot) result" where
  "service_snapshot s asset now_ms config =
     res_bind (asset_entry s asset) (\<lambda>entry.
     res_bind (source_snapshot Binance (as_binance entry) now_ms config ''binance'') (\<lambda>binance.
     res_bind (source_snapshot Coinbase (as_coinbase entry) now_ms config ''coinbase'') (\<lambda>coinbase.
       let consensus_side = (if ci_side (cs_impulse binance) \<noteq> None \<and> ci_side (cs_impulse binance) = ci_side (cs_impulse coinbase)
             then ci_side (cs_impulse binance) else None);
           source_skew_usd = cs_mid binance - cs_mid coinbase;
           baseline = median_recent_skew (as_skew_samples entry) now_ms (mc_source_skew_baseline_window_ms config)
       in Inr \<lparr>cc_asset = to_ascii_lowercase (trim asset), cc_binance = binance, cc_coinbase = coinbase,
            cc_consensus_side = consensus_side, cc_spot_mid = (cs_mid binance + cs_mid coinbase) div lit 2,
            cc_source_skew_usd = source_skew_usd, cc_baseline_source_skew_usd = baseline,
            cc_normalized_source_skew_usd = source_skew_usd - unwrap_or source_skew_usd baseline\<rparr>)))"

definition service_current_price_snapshot :: "cex_service \<Rightarrow> string \<Rightarrow> cex_venue \<Rightarrow> i64
    \<Rightarrow> cex_microstructure_snapshot_config \<Rightarrow> (string, cex_current_price_snapshot) result" where
  "service_current_price_snapshot s asset venue now_ms config =
     res_bind (asset_entry s asset) (\<lambda>entry.
       current_price_snapshot venue (venue_state_of entry venue) now_ms config (cex_venue_as_str venue))"

definition book_samples :: "cex_service \<Rightarrow> string \<Rightarrow> cex_venue \<Rightarrow> i64 \<Rightarrow> i64 \<Rightarrow> i64 \<Rightarrow> (string, cex_book_sample list) result" where
  "book_samples s asset venue window_ms now_ms max_book_stale_ms =
     res_bind (asset_entry s asset) (\<lambda>entry. let v = venue_state_of entry venue in
     res_bind (ok_or (cex_venue_as_str venue @ '' book missing'') (vs_latest_book v)) (\<lambda>latest.
     res_bind (ensure_stale (cex_venue_as_str venue) ''book'' (sat_sub_i64 now_ms (cb_timestamp_ms latest)) max_book_stale_ms) (\<lambda>_.
       let cutoff_ms = sat_sub_i64 now_ms (max window_ms 1)
       in Inr (filter (\<lambda>sample. cutoff_ms \<le> cb_timestamp_ms sample \<and> cb_timestamp_ms sample \<le> now_ms) (vs_books v)))))"

section \<open>Fetching the opening books\<close>

text \<open>A fetch that runs: asset, venue, start of the window and the key it is registered under.\<close>

type_synonym open_fetch = "string \<times> cex_venue \<times> i64 \<times> string"

definition backfill_key :: "string \<Rightarrow> cex_venue \<Rightarrow> i64 \<Rightarrow> string" where
  "backfill_key asset venue window_start_ms = asset @ '':'' @ cex_venue_as_str venue @ '':'' @ show_i64 window_start_ms"

definition has_pinned_rest_window_open :: "cex_service \<Rightarrow> string \<Rightarrow> cex_venue \<Rightarrow> i64 \<Rightarrow> bool" where
  "has_pinned_rest_window_open s asset venue window_start_ms =
    (case sv_state s asset of None \<Rightarrow> False
     | Some entry \<Rightarrow> window_open_book venue (venue_state_of entry venue) window_start_ms \<noteq> None)"

text \<open>The task to spawn and the state after the call, \<open>runtime\<close> telling whether there is a runtime to spawn it on.\<close>

definition schedule_window_open_backfill :: "bool \<Rightarrow> i64 \<Rightarrow> string \<Rightarrow> cex_venue \<Rightarrow> i64 \<Rightarrow> cex_service \<Rightarrow> open_fetch option \<times> cex_service" where
  "schedule_window_open_backfill runtime now_ms asset venue window_start_ms s =
    (let key = backfill_key asset venue window_start_ms
     in if venue = Hyperliquid then (None, s)
        else if has_pinned_rest_window_open s asset venue window_start_ms then (None, s)
        else if (case sv_open_backfill_fail_cooldown_until_ms s key of None \<Rightarrow> False | Some until_ms \<Rightarrow> now_ms < until_ms) then (None, s)
        else if key \<in> sv_open_backfill_inflight s then (None, s)
        else if runtime then (Some (asset, venue, window_start_ms, key),
          s\<lparr>sv_open_backfill_inflight := insert key (sv_open_backfill_inflight s)\<rparr>)
        else (None, s))"

definition finish_window_open_backfill :: "i64 \<Rightarrow> open_fetch \<Rightarrow> cex_book_sample option \<Rightarrow> cex_service \<Rightarrow> cex_service" where
  "finish_window_open_backfill now_ms fetch book s =
    (case fetch of (asset, venue, window_start_ms, key) \<Rightarrow>
     let s1 = s\<lparr>sv_open_backfill_inflight := sv_open_backfill_inflight s - {key},
           sv_open_backfill_fail_cooldown_until_ms := (sv_open_backfill_fail_cooldown_until_ms s)(key := None)\<rparr>
     in case book of
          Some b \<Rightarrow>
            let entry = entry_of s1 asset; v = venue_state_of entry venue
            in mark_dirty_asset asset (s1\<lparr>sv_state := (sv_state s1)(asset \<mapsto> venue_state_mut venue
                 (v\<lparr>vs_pinned_window_opens := (vs_pinned_window_opens v)(window_start_ms \<mapsto> b)\<rparr>) entry)\<rparr>)
        | None \<Rightarrow>
            if has_pinned_rest_window_open s1 asset venue window_start_ms then s1
            else s1\<lparr>sv_open_backfill_fail_cooldown_until_ms :=
              (sv_open_backfill_fail_cooldown_until_ms s1)(key \<mapsto> now_ms + open_backfill_fail_cooldown_ms)\<rparr>)"

text \<open>The clock is read again when a fetch is scheduled.\<close>

definition service_venue_delta_snapshot :: "bool \<Rightarrow> i64 \<Rightarrow> cex_service \<Rightarrow> string \<Rightarrow> cex_venue \<Rightarrow> i64 \<Rightarrow> i64 \<Rightarrow> f64 \<Rightarrow> i64
    \<Rightarrow> (string, cex_venue_delta_snapshot) result \<times> open_fetch option \<times> cex_service" where
  "service_venue_delta_snapshot runtime schedule_ms s asset venue window_start_ms now_ms min_move_usd max_book_stale_ms =
    (case asset_entry s asset of
       Inl e \<Rightarrow> (Inl e, None, s)
     | Inr entry \<Rightarrow>
        let answer = venue_delta_snapshot venue (venue_state_of entry venue) window_start_ms now_ms min_move_usd
              max_book_stale_ms (cex_venue_as_str venue);
            needs_open_backfill = (case answer of Inl err \<Rightarrow> contains err ''window open book missing'' | Inr _ \<Rightarrow> False)
        in (answer, if needs_open_backfill
              then schedule_window_open_backfill runtime schedule_ms (to_ascii_lowercase (trim asset)) venue window_start_ms s
              else (None, s)))"

definition prefetch_cex_window_opens :: "bool \<Rightarrow> i64 \<Rightarrow> string \<Rightarrow> i64 \<Rightarrow> cex_service \<Rightarrow> open_fetch list \<times> cex_service" where
  "prefetch_cex_window_opens runtime now_ms asset window_start_ms s =
    (let normalized_asset = to_ascii_lowercase (trim asset)
     in if normalized_asset = [] then ([], s)
        else foldl (\<lambda>(fs, t) venue.
            case schedule_window_open_backfill runtime now_ms normalized_asset venue window_start_ms t of
              (f, t') \<Rightarrow> (fs @ (case f of None \<Rightarrow> [] | Some x \<Rightarrow> [x]), t'))
          ([], s) (active_spot_venues_for_asset normalized_asset))"

end
