(* ===== verification/Cex_Safety.thy ===== *)
theory Cex_Safety
  imports Cex_Microstructure
begin

text \<open>
  What holds of the exchange books of \<open>Cex_Microstructure\<close>: its queues stay bounded, no window is
  fetched twice at a time nor again soon after a failure, and what a chain of partial updates leaves
  of a book.
\<close>

section \<open>Actions on the service\<close>

text \<open>A fetch that runs is finished by its position in the list of running fetches.\<close>

datatype cex_action =
    BookUpdate cex_book_sample
  | TradeUpdate cex_trade_sample
  | DirtyCleared "string set"
  | DeltaQuery bool i64 string cex_venue i64 i64 f64 i64
  | Prefetch bool i64 string i64
  | FetchDone i64 nat "cex_book_sample option"

fun cex_step :: "cex_action \<Rightarrow> cex_service \<times> open_fetch list \<Rightarrow> cex_service \<times> open_fetch list" where
  "cex_step (BookUpdate b) (s, fs) = (update_book b s, fs)"
| "cex_step (TradeUpdate t) (s, fs) = (update_trade t s, fs)"
| "cex_step (DirtyCleared assets) (s, fs) = (clear_dirty_assets assets s, fs)"
| "cex_step (DeltaQuery runtime schedule_ms asset venue start now_ms m stale) (s, fs) =
    (case service_venue_delta_snapshot runtime schedule_ms s asset venue start now_ms m stale of
       (_, f, s') \<Rightarrow> (s', fs @ (case f of None \<Rightarrow> [] | Some x \<Rightarrow> [x])))"
| "cex_step (Prefetch runtime now_ms asset start) (s, fs) =
    (case prefetch_cex_window_opens runtime now_ms asset start s of (gs, s') \<Rightarrow> (s', fs @ gs))"
| "cex_step (FetchDone now_ms n book) (s, fs) =
    (if n < length fs then (finish_window_open_backfill now_ms (fs ! n) book s, take n fs @ drop (Suc n) fs) else (s, fs))"

primrec run_cex :: "cex_action list \<Rightarrow> cex_service \<times> open_fetch list \<Rightarrow> cex_service \<times> open_fetch list" where
  "run_cex [] x = x"
| "run_cex (a # as) x = run_cex as (cex_step a x)"

lemma run_cex_append: "run_cex (as @ bs) x = run_cex bs (run_cex as x)"
  by (induction as arbitrary: x) auto

definition fetch_key :: "open_fetch \<Rightarrow> string" where
  "fetch_key f = snd (snd (snd f))"

definition fetch_window :: "open_fetch \<Rightarrow> string \<times> cex_venue \<times> i64" where
  "fetch_window f = (case f of (asset, venue, start, _) \<Rightarrow> (asset, venue, start))"

section \<open>Bounded queues\<close>

lemma sat_sub_le: "is_i64 x \<Longrightarrow> 0 \<le> y \<Longrightarrow> sat_sub_i64 x y \<le> x"
  by (simp add: sat_sub_i64_def sat_i64_def is_i64_def)

lemma dropWhile_keeps_last: "xs \<noteq> [] \<Longrightarrow> \<not> P (last xs) \<Longrightarrow> dropWhile P xs \<noteq> [] \<and> last (dropWhile P xs) = last xs"
  by (induction xs) auto

lemma trim_length: "length (trim_by_timestamp ts m xs) \<le> m"
  by (simp add: trim_by_timestamp_def Let_def)

lemma trim_keeps_last:
  assumes "0 < m" "is_i64 (ts x)"
  shows "trim_by_timestamp ts m (xs @ [x]) \<noteq> [] \<and> last (trim_by_timestamp ts m (xs @ [x])) = x"
proof -
  let ?c = "sat_sub_i64 (ts x) max_sample_age_ms"
  have "?c \<le> ts x" using assms(2) by (intro sat_sub_le) (auto simp: max_sample_age_ms_def)
  then have d: "dropWhile (\<lambda>y. ts y < ?c) (xs @ [x]) \<noteq> []" "last (dropWhile (\<lambda>y. ts y < ?c) (xs @ [x])) = x"
    using dropWhile_keeps_last [of "xs @ [x]" "\<lambda>y. ts y < ?c"] by auto
  then have "length (dropWhile (\<lambda>y. ts y < ?c) (xs @ [x])) - m < length (dropWhile (\<lambda>y. ts y < ?c) (xs @ [x]))"
    using assms(1) by (metis diff_less length_greater_0_conv)
  then show ?thesis using d by (simp add: trim_by_timestamp_def Let_def)
qed

definition venue_ok :: "venue_state \<Rightarrow> bool" where
  "venue_ok v \<longleftrightarrow> length (vs_books v) \<le> max_book_samples \<and> length (vs_trades v) \<le> max_trade_samples
     \<and> vs_latest_book v = last_opt (vs_books v)"

definition asset_ok :: "asset_state \<Rightarrow> bool" where
  "asset_ok e \<longleftrightarrow> (\<forall>v. venue_ok (venue_state_of e v)) \<and> length (as_skew_samples e) \<le> max_skew_samples"

definition assets_ok :: "cex_service \<Rightarrow> bool" where
  "assets_ok s \<longleftrightarrow> (\<forall>a e. sv_state s a = Some e \<longrightarrow> asset_ok e)"

definition fetches_ok :: "cex_service \<times> open_fetch list \<Rightarrow> bool" where
  "fetches_ok x \<longleftrightarrow> distinct (map fetch_key (snd x)) \<and> fetch_key ` set (snd x) = sv_open_backfill_inflight (fst x)
     \<and> list_all (\<lambda>(a, v, w, k). k = backfill_key a v w) (snd x)"

text \<open>The timestamp of a book is an \<open>i64\<close>.\<close>

fun action_ok :: "cex_action \<Rightarrow> bool" where
  "action_ok (BookUpdate b) = is_i64 (cb_timestamp_ms b)"
| "action_ok _ = True"

lemma default_ok: "asset_ok default_asset_state"
proof -
  have "venue_ok (venue_state_of default_asset_state v)" for v
    by (cases v) (simp_all add: default_asset_state_def default_venue_state_def venue_ok_def last_opt_def)
  then show ?thesis by (simp add: asset_ok_def default_asset_state_def)
qed

lemma entry_ok: "assets_ok s \<Longrightarrow> asset_ok (entry_of s a)"
  by (auto simp: assets_ok_def entry_of_def default_ok split: option.split)

lemma skew_ok: "asset_ok e \<Longrightarrow> asset_ok (record_skew_sample e)"
proof -
  assume e: "asset_ok e"
  have "venue_state_of (e\<lparr>as_skew_samples := x\<rparr>) v = venue_state_of e v" for x v by (cases v) simp_all
  then show ?thesis using e
    by (auto simp: record_skew_sample_def asset_ok_def trim_skew_def trim_length split: option.split)
qed

lemma set_venue_ok: "asset_ok e \<Longrightarrow> venue_ok v \<Longrightarrow> asset_ok (venue_state_mut w v e)"
  unfolding asset_ok_def by (metis venue_state_same venue_state_other venue_state_skew)

lemma asset_venue_ok: "asset_ok e \<Longrightarrow> venue_ok (venue_state_of e v)"
  by (simp add: asset_ok_def)

lemma merge_timestamp [simp]: "cb_timestamp_ms (merge_book_update p b) = cb_timestamp_ms b"
  by (auto simp: merge_book_update_def split: option.split)

lemma apply_book_ok:
  assumes "is_i64 (cb_timestamp_ms b)" "venue_ok v"
  shows "venue_ok (apply_book b v)"
proof -
  have "trim_by_timestamp cb_timestamp_ms max_book_samples (vs_books v @ [merge_book_update (vs_latest_book v) b]) \<noteq> []
      \<and> last (trim_by_timestamp cb_timestamp_ms max_book_samples (vs_books v @ [merge_book_update (vs_latest_book v) b]))
        = merge_book_update (vs_latest_book v) b"
    by (rule trim_keeps_last) (simp_all add: max_book_samples_def assms)
  then show ?thesis using assms(2)
    by (simp add: venue_ok_def apply_book_def Let_def trim_books_def trim_length last_opt_def)
qed

lemma assets_ok_upd: "assets_ok s \<Longrightarrow> asset_ok e \<Longrightarrow> sv_state t = (sv_state s)(a \<mapsto> e) \<Longrightarrow> assets_ok t"
  by (auto simp: assets_ok_def)

lemma assets_ok_cong: "assets_ok s \<Longrightarrow> sv_state t = sv_state s \<Longrightarrow> assets_ok t"
  by (simp add: assets_ok_def)

lemma update_book_ok:
  assumes "assets_ok s" "is_i64 (cb_timestamp_ms b)"
  shows "assets_ok (update_book b s)"
proof -
  let ?e = "entry_of s (cb_asset b)"
  have e: "asset_ok ?e" by (rule entry_ok [OF assms(1)])
  have "asset_ok (record_skew_sample (venue_state_mut (cb_venue b) (apply_book b (venue_state_of ?e (cb_venue b))) ?e))"
    by (intro skew_ok set_venue_ok apply_book_ok e assms asset_venue_ok)
  with e show ?thesis
    by (auto simp: update_book_def Let_def mark_dirty_asset_def intro: assets_ok_upd [OF assms(1)])
qed

lemma update_trade_ok:
  assumes "assets_ok s"
  shows "assets_ok (update_trade t s)"
proof -
  let ?e = "entry_of s (ct_asset t)"
  have "venue_ok v \<Longrightarrow> venue_ok (v\<lparr>vs_trades := trim_trades (vs_trades v @ [t])\<rparr>)" for v
    by (simp add: venue_ok_def trim_trades_def trim_length)
  note t = this
  have "asset_ok (venue_state_mut (ct_venue t) ((venue_state_of ?e (ct_venue t))
      \<lparr>vs_trades := trim_trades (vs_trades (venue_state_of ?e (ct_venue t)) @ [t])\<rparr>) ?e)"
    by (intro set_venue_ok entry_ok asset_venue_ok assms t)
  then show ?thesis by (rule assets_ok_upd [OF assms]) (simp add: update_trade_def Let_def)
qed

section \<open>Fetches\<close>

lemma schedule_state: "schedule_window_open_backfill r n a v w s = (f, t) \<Longrightarrow>
    sv_state t = sv_state s \<and> sv_open_backfill_fail_cooldown_until_ms t = sv_open_backfill_fail_cooldown_until_ms s"
  by (auto simp: schedule_window_open_backfill_def Let_def split: if_splits)

text \<open>A fetch is either not started, and nothing changes, or started under a free key that does not pause.\<close>

lemma schedule_cases:
  assumes "schedule_window_open_backfill r n a v w s = (f, t)"
  obtains "f = None" "t = s"
  | k where "f = Some (a, v, w, k)" "k = backfill_key a v w" "k \<notin> sv_open_backfill_inflight s"
      "t = s\<lparr>sv_open_backfill_inflight := insert k (sv_open_backfill_inflight s)\<rparr>"
      "case sv_open_backfill_fail_cooldown_until_ms s k of None \<Rightarrow> True | Some u \<Rightarrow> u \<le> n"
proof -
  let ?k = "backfill_key a v w"
  let ?paused = "case sv_open_backfill_fail_cooldown_until_ms s ?k of None \<Rightarrow> False | Some u \<Rightarrow> n < u"
  have "f = None \<and> t = s \<or> f = Some (a, v, w, ?k) \<and> ?k \<notin> sv_open_backfill_inflight s
      \<and> t = s\<lparr>sv_open_backfill_inflight := insert ?k (sv_open_backfill_inflight s)\<rparr> \<and> \<not> ?paused"
    using assms unfolding schedule_window_open_backfill_def Let_def by (simp split: if_splits)
  moreover have "\<not> ?paused \<Longrightarrow> case sv_open_backfill_fail_cooldown_until_ms s ?k of None \<Rightarrow> True | Some u \<Rightarrow> u \<le> n"
    by (simp split: option.splits)
  ultimately show ?thesis using that by blast
qed

lemma schedule_fetches_ok:
  assumes "schedule_window_open_backfill r n a v w s = (f, t)" "fetches_ok (s, fs)"
  shows "fetches_ok (t, fs @ (case f of None \<Rightarrow> [] | Some x \<Rightarrow> [x]))"
  using assms(1)
proof (cases rule: schedule_cases)
  case 1
  with assms(2) show ?thesis by simp
next
  case (2 k)
  with assms(2) show ?thesis by (auto simp: fetches_ok_def fetch_key_def)
qed

lemma fetches_ok_cong: "fetches_ok (s, fs) \<Longrightarrow> sv_open_backfill_inflight t = sv_open_backfill_inflight s \<Longrightarrow> fetches_ok (t, fs)"
  by (simp add: fetches_ok_def)

lemma inflight_updates [simp]:
  "sv_open_backfill_inflight (update_book b s) = sv_open_backfill_inflight s"
  "sv_open_backfill_inflight (update_trade t s) = sv_open_backfill_inflight s"
  "sv_open_backfill_inflight (clear_dirty_assets A s) = sv_open_backfill_inflight s"
  "sv_open_backfill_fail_cooldown_until_ms (update_book b s) = sv_open_backfill_fail_cooldown_until_ms s"
  "sv_open_backfill_fail_cooldown_until_ms (update_trade t s) = sv_open_backfill_fail_cooldown_until_ms s"
  "sv_open_backfill_fail_cooldown_until_ms (clear_dirty_assets A s) = sv_open_backfill_fail_cooldown_until_ms s"
  by (simp_all add: update_book_def update_trade_def clear_dirty_assets_def mark_dirty_asset_def Let_def)

lemma finish_inflight [simp]:
  "sv_open_backfill_inflight (finish_window_open_backfill n f b s) = sv_open_backfill_inflight s - {fetch_key f}"
  by (cases f) (auto simp: finish_window_open_backfill_def fetch_key_def Let_def mark_dirty_asset_def split: option.split)

lemma map_remove_mid: "distinct (map f (xs @ y # ys)) \<Longrightarrow>
    distinct (map f (xs @ ys)) \<and> f ` set (xs @ ys) = f ` set (xs @ y # ys) - {f y}"
  by (auto, (metis imageI)+)

lemma remove_nth_fetch:
  assumes "n < length fs" "distinct (map fetch_key fs)"
  shows "distinct (map fetch_key (take n fs @ drop (Suc n) fs))"
    "fetch_key ` set (take n fs @ drop (Suc n) fs) = fetch_key ` set fs - {fetch_key (fs ! n)}"
  using map_remove_mid [of fetch_key "take n fs" "fs ! n" "drop (Suc n) fs"] assms(2)
    id_take_nth_drop [OF assms(1)] by simp_all

lemma finish_fetches_ok:
  assumes "n < length fs" "fetches_ok (s, fs)"
  shows "fetches_ok (finish_window_open_backfill now (fs ! n) b s, take n fs @ drop (Suc n) fs)"
proof -
  have "set (take n fs @ drop (Suc n) fs) \<subseteq> set fs" by (auto dest: in_set_takeD in_set_dropD)
  with assms show ?thesis using remove_nth_fetch [OF assms(1)]
    by (auto simp: fetches_ok_def list_all_iff simp del: set_append)
qed

lemma finish_assets_ok:
  assumes "assets_ok s"
  shows "assets_ok (finish_window_open_backfill n f b s)"
proof -
  obtain a v w k where f: "f = (a, v, w, k)" by (cases f) auto
  have p: "venue_ok u \<Longrightarrow> venue_ok (u\<lparr>vs_pinned_window_opens := g\<rparr>)" for u g by (simp add: venue_ok_def)
  have "asset_ok (venue_state_mut v ((venue_state_of (entry_of s a) v)\<lparr>vs_pinned_window_opens := g\<rparr>) (entry_of s a))" for g
    by (intro set_venue_ok p asset_venue_ok entry_ok assms)
  then show ?thesis using assms
    by (auto simp: finish_window_open_backfill_def f Let_def mark_dirty_asset_def entry_of_def assets_ok_def split: option.split)
qed

text \<open>Both parts of the invariant, over one action.\<close>

definition service_ok :: "cex_service \<times> open_fetch list \<Rightarrow> bool" where
  "service_ok x \<longleftrightarrow> assets_ok (fst x) \<and> fetches_ok x"

lemma prefetch_ok:
  "assets_ok s \<Longrightarrow> fetches_ok (s, fs @ gs) \<Longrightarrow>
   foldl (\<lambda>(fs, t) venue. case schedule_window_open_backfill r n a venue w t of
       (f, t') \<Rightarrow> (fs @ (case f of None \<Rightarrow> [] | Some x \<Rightarrow> [x]), t')) (gs, s) vs = (hs, t) \<Longrightarrow>
   assets_ok t \<and> fetches_ok (t, fs @ hs)"
proof (induction vs arbitrary: s gs)
  case (Cons v vs)
  obtain f s' where sch: "schedule_window_open_backfill r n a v w s = (f, s')" by fastforce
  have "assets_ok s'" using Cons.prems(1) schedule_state [OF sch] by (simp add: assets_ok_def)
  moreover have "fetches_ok (s', fs @ gs @ (case f of None \<Rightarrow> [] | Some x \<Rightarrow> [x]))"
    using schedule_fetches_ok [OF sch Cons.prems(2)] by simp
  ultimately show ?case using Cons.IH [of s' "gs @ (case f of None \<Rightarrow> [] | Some x \<Rightarrow> [x])"] Cons.prems(3) sch by simp
qed simp

lemma if_pair_cases: "(x, if c then p else q) = (x', f, t) \<Longrightarrow> (f, t) = p \<or> (f, t) = q"
  by (cases c) auto

lemma delta_schedules:
  assumes "asset_entry s a = Inr e" "service_venue_delta_snapshot r sm s a v w n m st = (answer, f, t)"
  shows "(f, t) = schedule_window_open_backfill r sm (to_ascii_lowercase (trim a)) v w s \<or> (f, t) = (None, s)"
  using assms(2) unfolding service_venue_delta_snapshot_def assms(1) sum.case Let_def by (rule if_pair_cases)

lemma delta_cases:
  assumes "service_venue_delta_snapshot r sm s a v w n m st = (answer, f, t)"
  obtains "f = None" "t = s" | b where "schedule_window_open_backfill r sm b v w s = (f, t)"
proof (cases "asset_entry s a")
  case (Inl e)
  then have "(Inl e, None, s) = (answer, f, t)" using assms unfolding service_venue_delta_snapshot_def by (simp only: sum.case)
  then show ?thesis using that(1) by blast
next
  case (Inr entry)
  show ?thesis using delta_schedules [OF Inr assms] that by (elim disjE; simp only: prod.inject)
qed

lemma service_ok_cong: "service_ok (s, fs) \<Longrightarrow> sv_state t = sv_state s
    \<Longrightarrow> sv_open_backfill_inflight t = sv_open_backfill_inflight s \<Longrightarrow> service_ok (t, fs)"
  by (simp add: service_ok_def assets_ok_def fetches_ok_def)

lemma book_step_ok: "service_ok (s, fs) \<Longrightarrow> is_i64 (cb_timestamp_ms b) \<Longrightarrow> service_ok (update_book b s, fs)"
  by (simp add: service_ok_def update_book_ok fetches_ok_def)

lemma trade_step_ok: "service_ok (s, fs) \<Longrightarrow> service_ok (update_trade t s, fs)"
  by (simp add: service_ok_def update_trade_ok fetches_ok_def)

lemma delta_step_ok:
  assumes "service_ok (s, fs)"
  shows "service_ok (cex_step (DeltaQuery r sm a v w n m st) (s, fs))"
proof -
  obtain answer f t where d: "service_venue_delta_snapshot r sm s a v w n m st = (answer, f, t)"
    by (cases "service_venue_delta_snapshot r sm s a v w n m st") auto
  then have "service_ok (t, fs @ (case f of None \<Rightarrow> [] | Some x \<Rightarrow> [x]))"
  proof (cases rule: delta_cases)
    case 1
    with assms show ?thesis by simp
  next
    case (2 b)
    then show ?thesis using schedule_state [OF 2] schedule_fetches_ok [OF 2, of fs] assms
      unfolding service_ok_def assets_ok_def by simp
  qed
  then show ?thesis by (simp only: cex_step.simps d prod.case)
qed

lemma prefetch_step_ok:
  assumes "service_ok (s, fs)"
  shows "service_ok (cex_step (Prefetch r n a w) (s, fs))"
proof -
  obtain gs t where p: "prefetch_cex_window_opens r n a w s = (gs, t)" by (cases "prefetch_cex_window_opens r n a w s")
  have "assets_ok t \<and> fetches_ok (t, fs @ gs)"
  proof (cases "to_ascii_lowercase (trim a) = []")
    case True
    with p assms show ?thesis by (simp add: prefetch_cex_window_opens_def Let_def service_ok_def)
  next
    case False
    with p show ?thesis
      by (intro prefetch_ok [where gs = "[]" and s = s]) (use assms in \<open>simp_all add: service_ok_def prefetch_cex_window_opens_def Let_def\<close>)
  qed
  then show ?thesis by (simp only: cex_step.simps p prod.case service_ok_def fst_conv simp_thms)
qed

lemma finish_step_ok:
  assumes "service_ok (s, fs)"
  shows "service_ok (cex_step (FetchDone n i b) (s, fs))"
  using assms finish_fetches_ok [of i fs s n b] finish_assets_ok [of s n "fs ! i" b]
  unfolding cex_step.simps service_ok_def by (simp split: if_split)

lemma step_ok: "service_ok (s, fs) \<Longrightarrow> action_ok act \<Longrightarrow> service_ok (cex_step act (s, fs))"
proof (cases act)
  case (DirtyCleared A)
  then show "service_ok (s, fs) \<Longrightarrow> ?thesis"
    by (simp only: cex_step.simps) (erule service_ok_cong; simp add: clear_dirty_assets_def)
qed (simp_all only: cex_step.simps(1,2) action_ok.simps book_step_ok trade_step_ok delta_step_ok prefetch_step_ok finish_step_ok)

lemma run_ok: "service_ok x \<Longrightarrow> list_all action_ok acts \<Longrightarrow> service_ok (run_cex acts x)"
proof (induction acts arbitrary: x)
  case (Cons act acts)
  then show ?case using step_ok [of "fst x" "snd x" act] by simp
qed simp

lemma new_ok: "service_ok (new_service, [])"
  by (simp add: service_ok_def assets_ok_def fetches_ok_def new_service_def)

section \<open>Properties\<close>

text \<open>C27: whatever books, trades, queries and fetched openings arrive in whatever order, the queues of a venue
  hold at most 4,000 books and 20,000 trades and those of an asset 4,000 skews, the latest book is the last
  of the queue, and no two fetches run for the same window of a venue.\<close>

theorem cex_service_invariant:
  assumes "list_all action_ok acts" "run_cex acts (new_service, []) = (s, fs)"
  shows "(\<forall>a e v. sv_state s a = Some e \<longrightarrow>
      length (vs_books (venue_state_of e v)) \<le> 4000 \<and> length (vs_trades (venue_state_of e v)) \<le> 20000
      \<and> length (as_skew_samples e) \<le> 4000
      \<and> vs_latest_book (venue_state_of e v) = last_opt (vs_books (venue_state_of e v)))
    \<and> distinct (map fetch_window fs)"
proof -
  have ok: "assets_ok s" "fetches_ok (s, fs)"
    using run_ok [OF new_ok assms(1)] assms(2) by (simp_all add: service_ok_def)
  have keys: "map fetch_key fs = map (\<lambda>(a, v, w). backfill_key a v w) (map fetch_window fs)"
    using ok(2) by (auto simp: fetches_ok_def fetch_key_def fetch_window_def list_all_iff)
  have "distinct (map fetch_key fs)" using ok(2) by (simp add: fetches_ok_def)
  then have "distinct (map (\<lambda>(a, v, w). backfill_key a v w) (map fetch_window fs))" by (simp only: keys)
  then have "distinct (map fetch_window fs)" by (simp only: distinct_map)
  moreover have "asset_ok e" if "sv_state s a = Some e" for a e using ok(1) that by (simp add: assets_ok_def)
  ultimately show ?thesis
    by (auto simp: asset_ok_def venue_ok_def max_book_samples_def max_trade_samples_def max_skew_samples_def)
qed

text \<open>Two prefetches of a window start the fetches of its three venues once.\<close>

definition sample_prefetch :: "cex_action list" where
  "sample_prefetch = [Prefetch True 5 ''btc'' 0, Prefetch True 6 ''btc'' 0]"

lemma backfill_keys: "backfill_key a Binance w \<noteq> backfill_key a Okx w" "backfill_key a Binance w \<noteq> backfill_key a Coinbase w"
  "backfill_key a Okx w \<noteq> backfill_key a Coinbase w"
  by (simp_all add: backfill_key_def)

lemma btc_text: "to_ascii_lowercase (trim ''btc'') = ''btc''" "active_spot_venues_for_asset ''btc'' = [Binance, Okx, Coinbase]"
  by (simp_all add: active_spot_venues_for_asset_def active_anchor_venue_for_asset_def Let_def text_eval)

lemma sample_prefetch_runs: "\<exists>s fs. run_cex sample_prefetch (new_service, []) = (s, fs)
    \<and> map fetch_window fs = [(''btc'', Binance, 0), (''btc'', Okx, 0), (''btc'', Coinbase, 0)]
    \<and> sv_state s = Map.empty"
  using backfill_keys [of "''btc''" 0]
  by (simp add: sample_prefetch_def prefetch_cex_window_opens_def btc_text Let_def schedule_window_open_backfill_def
      new_service_def has_pinned_rest_window_open_def fetch_window_def)

theorem cex_service_invariant_witness:
  "\<exists>s fs. run_cex sample_prefetch (new_service, []) = (s, fs) \<and> length fs = 3 \<and> distinct (map fetch_window fs)"
proof -
  obtain s fs where r: "run_cex sample_prefetch (new_service, []) = (s, fs)"
    "map fetch_window fs = [(''btc'', Binance, 0), (''btc'', Okx, 0), (''btc'', Coinbase, 0)]"
    using sample_prefetch_runs by (elim exE conjE) (rule that)
  have "distinct (map fetch_window fs)"
    using cex_service_invariant [OF _ r(1)] by (simp add: sample_prefetch_def)
  moreover have "length (map fetch_window fs) = 3" unfolding r(2) by simp
  then have "length fs = 3" by (simp only: length_map)
  ultimately show ?thesis using r(1) by (intro exI conjI)
qed

section \<open>The pause after a failed fetch\<close>

definition pausing :: "string \<Rightarrow> i64 \<Rightarrow> cex_service \<times> open_fetch list \<Rightarrow> bool" where
  "pausing k u x \<longleftrightarrow> sv_open_backfill_fail_cooldown_until_ms (fst x) k = Some u
     \<and> k \<notin> fetch_key ` set (snd x)"

text \<open>The time at which an action looks at the pauses.\<close>

fun schedules_before :: "i64 \<Rightarrow> cex_action \<Rightarrow> bool" where
  "schedules_before u (DeltaQuery _ schedule_ms _ _ _ _ _ _) \<longleftrightarrow> schedule_ms < u"
| "schedules_before u (Prefetch _ now_ms _ _) \<longleftrightarrow> now_ms < u"
| "schedules_before u _ \<longleftrightarrow> True"

lemma schedule_pausing:
  assumes "schedule_window_open_backfill r n a v w s = (f, t)" "pausing k u (s, fs)" "n < u"
  shows "pausing k u (t, fs @ (case f of None \<Rightarrow> [] | Some x \<Rightarrow> [x]))"
  using assms(1)
proof (cases rule: schedule_cases)
  case 1
  with assms(2) show ?thesis by simp
next
  case (2 j)
  then have "j \<noteq> k" using assms(2,3) by (auto simp: pausing_def)
  with 2 assms(2) show ?thesis by (auto simp: pausing_def fetch_key_def)
qed

lemma prefetch_pausing:
  "pausing k u (s, fs @ gs) \<Longrightarrow> n < u \<Longrightarrow>
   foldl (\<lambda>(fs, t) venue. case schedule_window_open_backfill r n a venue w t of
       (f, t') \<Rightarrow> (fs @ (case f of None \<Rightarrow> [] | Some x \<Rightarrow> [x]), t')) (gs, s) vs = (hs, t) \<Longrightarrow>
   pausing k u (t, fs @ hs)"
proof (induction vs arbitrary: s gs)
  case (Cons v vs)
  obtain f s' where sch: "schedule_window_open_backfill r n a v w s = (f, s')" by fastforce
  have "pausing k u (s', fs @ gs @ (case f of None \<Rightarrow> [] | Some x \<Rightarrow> [x]))"
    using schedule_pausing [OF sch Cons.prems(1,2)] by simp
  then show ?case using Cons.IH [of s' "gs @ (case f of None \<Rightarrow> [] | Some x \<Rightarrow> [x])"] Cons.prems(2,3) sch by simp
qed simp

lemma finish_cooldown_other:
  "fetch_key f \<noteq> k \<Longrightarrow> sv_open_backfill_fail_cooldown_until_ms (finish_window_open_backfill n f b s) k
     = sv_open_backfill_fail_cooldown_until_ms s k"
proof -
  obtain a v w j where f: "f = (a, v, w, j)" by (cases f)
  assume "fetch_key f \<noteq> k"
  then have "j \<noteq> k" by (simp add: f fetch_key_def)
  then show ?thesis by (cases b) (simp_all add: f finish_window_open_backfill_def Let_def mark_dirty_asset_def)
qed

lemma remaining_keys: "fetch_key ` set (take i fs @ drop (Suc i) fs) \<subseteq> fetch_key ` set fs"
proof (rule image_mono)
  show "set (take i fs @ drop (Suc i) fs) \<subseteq> set fs"
    unfolding set_append by (rule Un_least) (rule set_take_subset, rule set_drop_subset)
qed

lemma nth_key: "k \<notin> fetch_key ` set fs \<Longrightarrow> i < length fs \<Longrightarrow> fetch_key (fs ! i) \<noteq> k"
  by (metis imageI nth_mem)

lemma pausingI: "sv_open_backfill_fail_cooldown_until_ms s k = Some u \<Longrightarrow> k \<notin> fetch_key ` set fs \<Longrightarrow> pausing k u (s, fs)"
  and pausingD: "pausing k u (s, fs) \<Longrightarrow> sv_open_backfill_fail_cooldown_until_ms s k = Some u"
    "pausing k u (s, fs) \<Longrightarrow> k \<notin> fetch_key ` set fs"
  unfolding pausing_def fst_conv snd_conv by blast+

lemma finish_pausing:
  assumes "pausing k u (s, fs)" "i < length fs"
  shows "pausing k u (finish_window_open_backfill n (fs ! i) b s, take i fs @ drop (Suc i) fs)"
proof (rule pausingI)
  show "sv_open_backfill_fail_cooldown_until_ms (finish_window_open_backfill n (fs ! i) b s) k = Some u"
    unfolding finish_cooldown_other [OF nth_key [OF pausingD(2) [OF assms(1)] assms(2)]] by (rule pausingD(1) [OF assms(1)])
  show "k \<notin> fetch_key ` set (take i fs @ drop (Suc i) fs)"
    using pausingD(2) [OF assms(1)] remaining_keys by (rule contra_subsetD [rotated])
qed

lemma pausing_cong: "pausing k u (s, fs) \<Longrightarrow>
    sv_open_backfill_fail_cooldown_until_ms t = sv_open_backfill_fail_cooldown_until_ms s \<Longrightarrow> pausing k u (t, fs)"
  by (rule pausingI) (simp_all only: pausingD not_False_eq_True)

lemma delta_pausing:
  assumes "pausing k u (s, fs)" "sm < u"
  shows "pausing k u (cex_step (DeltaQuery r sm a v w n m st) (s, fs))"
proof -
  obtain answer f t where d: "service_venue_delta_snapshot r sm s a v w n m st = (answer, f, t)"
    by (cases "service_venue_delta_snapshot r sm s a v w n m st") auto
  then have "pausing k u (t, fs @ (case f of None \<Rightarrow> [] | Some x \<Rightarrow> [x]))"
  proof (cases rule: delta_cases)
    case 1
    with assms show ?thesis by simp
  next
    case (2 b)
    then show ?thesis by (rule schedule_pausing [OF _ assms])
  qed
  then show ?thesis by (simp only: cex_step.simps d prod.case)
qed

lemma prefetch_step_pausing:
  assumes "pausing k u (s, fs)" "n < u"
  shows "pausing k u (cex_step (Prefetch r n a w) (s, fs))"
proof -
  obtain gs t where p: "prefetch_cex_window_opens r n a w s = (gs, t)" by (cases "prefetch_cex_window_opens r n a w s")
  let ?a = "to_ascii_lowercase (trim a)"
  have "pausing k u (t, fs @ gs)"
  proof (cases "?a = []")
    case True
    then have "gs = []" "t = s" using p by (simp_all add: prefetch_cex_window_opens_def Let_def)
    then show ?thesis using assms(1) by (simp only: append_Nil2)
  next
    case False
    show ?thesis
      by (rule prefetch_pausing [of k u s fs "[]" n r ?a w "active_spot_venues_for_asset ?a", OF _ assms(2)])
        (use assms(1) p False in \<open>simp_all only: prefetch_cex_window_opens_def Let_def if_False append_Nil2\<close>)
  qed
  then show ?thesis by (simp only: cex_step.simps p prod.case)
qed

lemma step_pausing:
  assumes "pausing k u (s, fs)" "schedules_before u act"
  shows "pausing k u (cex_step act (s, fs))"
proof (cases act)
  case (BookUpdate b)
  show ?thesis unfolding BookUpdate cex_step.simps by (rule pausing_cong [OF assms(1)]) (rule inflight_updates)
next
  case (TradeUpdate t)
  show ?thesis unfolding TradeUpdate cex_step.simps by (rule pausing_cong [OF assms(1)]) (rule inflight_updates)
next
  case (DirtyCleared A)
  show ?thesis unfolding DirtyCleared cex_step.simps by (rule pausing_cong [OF assms(1)]) (rule inflight_updates)
next
  case (DeltaQuery r sm a v w n m st)
  show ?thesis using assms(2) unfolding DeltaQuery schedules_before.simps by (rule delta_pausing [OF assms(1)])
next
  case (Prefetch r n a w)
  show ?thesis using assms(2) unfolding Prefetch schedules_before.simps by (rule prefetch_step_pausing [OF assms(1)])
next
  case (FetchDone n i b)
  show ?thesis
  proof (cases "i < length fs")
    case True
    then show ?thesis using finish_pausing [OF assms(1) True] by (simp only: FetchDone cex_step.simps if_True)
  qed (use assms(1) in \<open>simp add: FetchDone\<close>)
qed

lemma run_pausing: "pausing k u x \<Longrightarrow> list_all (schedules_before u) acts \<Longrightarrow> pausing k u (run_cex acts x)"
proof (induction acts arbitrary: x)
  case (Cons act acts)
  then show ?case using step_pausing [of k u "fst x" "snd x" act] by simp
qed simp

text \<open>After the fetch of a missing opening failed, nothing that arrives starts it again for 30 seconds.\<close>

lemma failed_fetch_pauses:
  assumes "list_all action_ok before" "run_cex before (new_service, []) = (s, fs)" "i < length fs"
    "fetch_window (fs ! i) = (asset, venue, start)" "\<not> has_pinned_rest_window_open s asset venue start"
    "list_all action_ok acts" "list_all (schedules_before (now_ms + 30000)) acts"
    "run_cex (FetchDone now_ms i None # acts) (s, fs) = (t, gs)"
  shows "(asset, venue, start) \<notin> set (map fetch_window gs)"
proof -
  let ?k = "backfill_key asset venue start"
  have ok: "service_ok (s, fs)" using run_ok [OF new_ok assms(1)] assms(2) by simp
  then have f: "fs ! i = (asset, venue, start, ?k)"
    using assms(3,4) by (cases "fs ! i") (auto simp: service_ok_def fetches_ok_def list_all_length fetch_window_def)
  let ?s1 = "finish_window_open_backfill now_ms (fs ! i) None s" and ?fs1 = "take i fs @ drop (Suc i) fs"
  have "\<not> has_pinned_rest_window_open (s\<lparr>sv_open_backfill_inflight := X, sv_open_backfill_fail_cooldown_until_ms := Y\<rparr>) asset venue start"
    for X Y using assms(5) by (simp add: has_pinned_rest_window_open_def)
  then have "sv_open_backfill_fail_cooldown_until_ms ?s1 ?k = Some (now_ms + 30000)"
    by (simp add: f finish_window_open_backfill_def open_backfill_fail_cooldown_ms_def)
  moreover have "?k \<notin> fetch_key ` set ?fs1"
    using ok remove_nth_fetch(2) [OF assms(3)] by (simp add: service_ok_def fetches_ok_def f fetch_key_def)
  ultimately have paused: "pausing ?k (now_ms + 30000) (?s1, ?fs1)" by (simp add: pausing_def)
  have run: "run_cex acts (?s1, ?fs1) = (t, gs)" using assms(3,8) by simp
  have "pausing ?k (now_ms + 30000) (t, gs)" using run_pausing [OF paused assms(7)] by (simp only: run)
  moreover have "service_ok (?s1, ?fs1)" using finish_step_ok [OF ok, of now_ms i None] assms(3) by simp
  then have "service_ok (t, gs)" using run_ok [OF _ assms(6)] run by metis
  ultimately show ?thesis
    by (force simp: pausing_def service_ok_def fetches_ok_def list_all_iff fetch_key_def fetch_window_def)
qed

section \<open>Partial updates of a book\<close>

definition latest :: "cex_service \<Rightarrow> string \<Rightarrow> cex_venue \<Rightarrow> cex_book_sample option" where
  "latest s a v = vs_latest_book (venue_state_of (entry_of s a) v)"

text \<open>An update of one side of the book of \<open>v\<close>.\<close>

definition partial_update :: "string \<Rightarrow> cex_venue \<Rightarrow> cex_book_sample \<Rightarrow> bool" where
  "partial_update a v b \<longleftrightarrow> cb_source b = ''level2'' \<and> cb_asset b = a \<and> cb_venue b = v
     \<and> (cb_bid_size b = None) \<noteq> (cb_ask_size b = None) \<and> cb_bid b \<noteq> NaN \<and> cb_ask b \<noteq> NaN"

definition sized :: "f64 option \<Rightarrow> bool" where
  "sized q \<longleftrightarrow> (case q of None \<Rightarrow> False | Some n \<Rightarrow> \<not> n \<le> 0)"

definition bids :: "cex_book_sample list \<Rightarrow> f64 set" where
  "bids bs = cb_bid ` {b \<in> set bs. sized (cb_bid_size b)}"

definition asks :: "cex_book_sample list \<Rightarrow> f64 set" where
  "asks bs = cb_ask ` {b \<in> set bs. sized (cb_ask_size b)}"

lemma skew_venue [simp]: "venue_state_of (record_skew_sample e) v = venue_state_of e v"
  by (cases v) (simp_all add: record_skew_sample_def split: option.split)

lemma latest_update:
  assumes "cb_asset b = a" "cb_venue b = v"
  shows "latest (update_book b s) a v =
    (if unseeded_partial_level2_update (latest s a v) b \<or> non_improving_partial_level2_update (latest s a v) b
     then latest s a v else Some (merge_book_update (latest s a v) b))"
  using assms by (auto simp: latest_def update_book_def Let_def entry_of_def mark_dirty_asset_def apply_book_def)

lemma update_book_entry: "\<exists>e. sv_state (update_book b s) (cb_asset b) = Some e"
  by (simp add: update_book_def Let_def mark_dirty_asset_def split: if_split)

lemma partial_bid:
  assumes "partial_update a v b" "cb_bid_size b = Some q" "latest s a v = Some p"
  shows "latest (update_book b s) a v = Some (if q \<le> 0 \<or> cb_bid b < cb_bid p then p
    else b\<lparr>cb_ask := cb_ask p, cb_ask_size := cb_ask_size p\<rparr>)"
  using assms by (auto simp: latest_update partial_update_def unseeded_partial_level2_update_def
      non_improving_partial_level2_update_def merge_book_update_def split: option.splits)

lemma partial_ask:
  assumes "partial_update a v b" "cb_ask_size b = Some q" "latest s a v = Some p"
  shows "latest (update_book b s) a v = Some (if q \<le> 0 \<or> cb_ask p < cb_ask b then p
    else b\<lparr>cb_bid := cb_bid p, cb_bid_size := cb_bid_size p\<rparr>)"
  using assms by (auto simp: latest_update partial_update_def unseeded_partial_level2_update_def
      non_improving_partial_level2_update_def merge_book_update_def split: option.splits)

definition best_of :: "cex_book_sample \<Rightarrow> cex_book_sample list \<Rightarrow> cex_book_sample \<Rightarrow> bool" where
  "best_of p bs q \<longleftrightarrow> cb_bid q \<in> insert (cb_bid p) (bids bs) \<and> (\<forall>x \<in> insert (cb_bid p) (bids bs). x \<le> cb_bid q)
     \<and> cb_ask q \<in> insert (cb_ask p) (asks bs) \<and> (\<forall>x \<in> insert (cb_ask p) (asks bs). cb_ask q \<le> x)"

lemma bids_Cons: "bids (b # bs) = (if sized (cb_bid_size b) then insert (cb_bid b) (bids bs) else bids bs)"
  and asks_Cons: "asks (b # bs) = (if sized (cb_ask_size b) then insert (cb_ask b) (asks bs) else asks bs)"
  unfolding bids_def asks_def by (auto simp: image_iff)

lemma best_of_kept:
  assumes "best_of p bs q" "sized (cb_bid_size b) \<Longrightarrow> cb_bid b < cb_bid p" "sized (cb_ask_size b) \<Longrightarrow> cb_ask p < cb_ask b"
  shows "best_of p (b # bs) q"
  using assms unfolding best_of_def bids_Cons asks_Cons
  by (auto; meson f64_lt_imp_le f64_le_trans)

lemma best_of_bid:
  assumes "best_of (b\<lparr>cb_ask := cb_ask p, cb_ask_size := t\<rparr>) bs q" "sized (cb_bid_size b)" "\<not> sized (cb_ask_size b)"
    "cb_bid p \<le> cb_bid b"
  shows "best_of p (b # bs) q"
  using assms unfolding best_of_def bids_Cons asks_Cons by (auto intro: f64_le_trans)

lemma best_of_ask:
  assumes "best_of (b\<lparr>cb_bid := cb_bid p, cb_bid_size := t\<rparr>) bs q" "sized (cb_ask_size b)" "\<not> sized (cb_bid_size b)"
    "cb_ask b \<le> cb_ask p"
  shows "best_of p (b # bs) q"
  using assms unfolding best_of_def bids_Cons asks_Cons by (auto intro: f64_le_trans)

lemma partial_step:
  assumes b: "partial_update a v b" and p: "latest s a v = Some p" "cb_bid p \<noteq> NaN" "cb_ask p \<noteq> NaN"
  obtains p' where "latest (update_book b s) a v = Some p'" "cb_bid p' \<noteq> NaN" "cb_ask p' \<noteq> NaN"
    "\<And>bs q. best_of p' bs q \<Longrightarrow> best_of p (b # bs) q"
proof (cases "cb_bid_size b")
  case (Some n)
  then have sizes: "cb_ask_size b = None" "cb_bid b \<noteq> NaN" using b by (auto simp: partial_update_def)
  show ?thesis
  proof (cases "n \<le> 0 \<or> cb_bid b < cb_bid p")
    case True
    show ?thesis
    proof (rule that [of p])
      show "latest (update_book b s) a v = Some p" using partial_bid [OF b Some p(1)] True by simp
      show "best_of p (b # bs) q" if "best_of p bs q" for bs q
        using that True sizes Some by (intro best_of_kept) (auto simp: sized_def)
    qed (use p in auto)
  next
    case False
    show ?thesis
    proof (rule that)
      show "latest (update_book b s) a v = Some (b\<lparr>cb_ask := cb_ask p, cb_ask_size := cb_ask_size p\<rparr>)"
        using partial_bid [OF b Some p(1)] False by simp
      show "best_of p (b # bs) q" if "best_of (b\<lparr>cb_ask := cb_ask p, cb_ask_size := cb_ask_size p\<rparr>) bs q" for bs q
        by (rule best_of_bid [OF that]) (use False sizes Some p f64_not_lt in \<open>auto simp: sized_def\<close>)
    qed (use p sizes in auto)
  qed
next
  case None
  then obtain n where sizes: "cb_ask_size b = Some n" "cb_ask b \<noteq> NaN" using b by (auto simp: partial_update_def)
  show ?thesis
  proof (cases "n \<le> 0 \<or> cb_ask p < cb_ask b")
    case True
    show ?thesis
    proof (rule that [of p])
      show "latest (update_book b s) a v = Some p" using partial_ask [OF b sizes(1) p(1)] True by simp
      show "best_of p (b # bs) q" if "best_of p bs q" for bs q
        using that True sizes None by (intro best_of_kept) (auto simp: sized_def)
    qed (use p in auto)
  next
    case False
    show ?thesis
    proof (rule that)
      show "latest (update_book b s) a v = Some (b\<lparr>cb_bid := cb_bid p, cb_bid_size := cb_bid_size p\<rparr>)"
        using partial_ask [OF b sizes(1) p(1)] False by simp
      show "best_of p (b # bs) q" if "best_of (b\<lparr>cb_bid := cb_bid p, cb_bid_size := cb_bid_size p\<rparr>) bs q" for bs q
        by (rule best_of_ask [OF that]) (use False sizes None p f64_not_lt in \<open>auto simp: sized_def\<close>)
    qed (use p sizes in auto)
  qed
qed

text \<open>Over partial updates the book of a venue is the best that was ever offered. After any chain of updates
  of one side, its bid is the greatest of the first book and all bids of a positive size, its ask the
  least of the asks: a side only improves, and a level that was taken away stays in the book until
  the next full one.\<close>

lemma partial_updates_keep_best:
  assumes "list_all (partial_update a v) bs" "latest s a v = Some p" "cb_bid p \<noteq> NaN" "cb_ask p \<noteq> NaN"
  shows "\<exists>q. latest (foldl (\<lambda>t b. update_book b t) s bs) a v = Some q
    \<and> cb_bid q \<in> insert (cb_bid p) (bids bs) \<and> (\<forall>x \<in> insert (cb_bid p) (bids bs). x \<le> cb_bid q)
    \<and> cb_ask q \<in> insert (cb_ask p) (asks bs) \<and> (\<forall>x \<in> insert (cb_ask p) (asks bs). cb_ask q \<le> x)"
proof -
  have "\<exists>q. latest (foldl (\<lambda>t b. update_book b t) s bs) a v = Some q \<and> best_of p bs q"
    using assms
  proof (induction bs arbitrary: s p)
    case Nil
    then show ?case by (simp add: best_of_def bids_def asks_def)
  next
    case (Cons b bs)
    then have b: "partial_update a v b" "list_all (partial_update a v) bs" by simp_all
    obtain p' where "latest (update_book b s) a v = Some p'" "cb_bid p' \<noteq> NaN" "cb_ask p' \<noteq> NaN"
      "\<And>bs q. best_of p' bs q \<Longrightarrow> best_of p (b # bs) q"
      using partial_step [OF b(1) Cons.prems(2-4)] by blast
    then show ?case using Cons.IH [OF b(2), of "update_book b s" p'] unfolding foldl_Cons by blast
  qed
  then show ?thesis unfolding best_of_def .
qed

text \<open>A side of a book can be of any age. When one side of a book is updated, the price of the venue is
  reported with the age of that update, whatever the age of the other side it is computed from.\<close>

lemma stale_side_reported_fresh:
  assumes "partial_update a v b" "cb_bid_size b = Some n" "0 < n" "latest s a v = Some p" "cb_bid p \<le> cb_bid b"
    "to_ascii_lowercase (trim a) = a" "0 \<le> mc_max_book_stale_ms config"
  shows "\<exists>r. service_current_price_snapshot (update_book b s) a v (cb_timestamp_ms b) config = Inr r
    \<and> cp_book_staleness_ms r = 0 \<and> cp_ask r = cb_ask p \<and> cp_mid r = (cb_bid b + cb_ask p) div lit 2"
proof -
  let ?q = "b\<lparr>cb_ask := cb_ask p, cb_ask_size := cb_ask_size p\<rparr>"
  have accepted: "\<not> (n \<le> 0 \<or> cb_bid b < cb_bid p)"
    using f64_le_lt_contra [OF assms(5)] assms(3) by (auto dest: f64_le_lt_contra)
  then have l: "latest (update_book b s) a v = Some ?q" using partial_bid [OF assms(1,2,4)] by simp
  have "cb_asset b = a" using assms(1) by (simp add: partial_update_def)
  then obtain e where e: "sv_state (update_book b s) a = Some e" using update_book_entry by metis
  then have "vs_latest_book (venue_state_of e v) = Some ?q" using l by (simp add: latest_def entry_of_def)
  moreover have "sat_sub_i64 x x = 0" for x by (simp add: sat_sub_i64_def sat_i64_def i64_min_def i64_max_def)
  ultimately show ?thesis using assms(7)
    by (simp add: service_current_price_snapshot_def asset_entry_def assms(6) e current_price_snapshot_def Let_def
        ensure_stale_def ensure_def mid_def res_bind_def ok_or_def)
qed

section \<open>Impulses\<close>

text \<open>What a sum of non-negative values is: not NaN, and a value of the format.\<close>

definition sum_value :: "f64 \<Rightarrow> bool" where
  "sum_value x \<longleftrightarrow> x = PInf \<or> (\<exists>q. x = Fin q \<and> 0 \<le> q \<and> rr q = q)"

lemma notional_nonneg: "0 \<le> notional t"
  unfolding notional_def by (rule fmax_bounds) simp

lemma sum_value_rnd: "0 \<le> q \<Longrightarrow> sum_value (rnd q)"
  using rr_nonneg [of q] by (cases "rr q = 0") (simp_all add: sum_value_def rnd_def Let_def inf_of_def zero_of_def)

lemma sum_value_add: "sum_value x \<Longrightarrow> 0 \<le> y \<Longrightarrow> sum_value (x + y)"
proof -
  assume x: "sum_value x" and y: "0 \<le> y"
  show ?thesis
  proof (cases "is_finite x \<and> is_finite y")
    case True
    then obtain q where q: "x = Fin q" "0 \<le> q" using x by (auto simp: sum_value_def)
    have "0 \<le> fval y" using y True by (cases y) (auto simp: zero_f64_def)
    then have "sum_value (rnd (fval x + fval y))" using q by (intro sum_value_rnd) simp
    then show ?thesis using True q by (simp add: plus_f64_def f64_add_def)
  next
    case False
    then have "x = PInf \<or> y = PInf" using x y by (cases y) (auto simp: sum_value_def zero_f64_def)
    then show ?thesis using x y by (auto simp: plus_f64_def f64_add_def sum_value_def zero_f64_def)
  qed
qed

lemma sum_value_fsum: "list_all (\<lambda>x. 0 \<le> x) xs \<Longrightarrow> sum_value (fsum xs)"
proof -
  have "sum_value z \<Longrightarrow> list_all (\<lambda>x. 0 \<le> x) xs \<Longrightarrow> sum_value (foldl (+) z xs)" for z
    by (induction xs arbitrary: z) (simp_all add: sum_value_add)
  then show "list_all (\<lambda>x. 0 \<le> x) xs \<Longrightarrow> ?thesis" by (simp add: fsum_def sum_value_def zero_f64_def)
qed

lemma sum_value_side: "sum_value (side_notional w side)"
  unfolding side_notional_def by (rule sum_value_fsum) (simp add: list_all_iff notional_nonneg)

definition in_unit :: "f64 \<Rightarrow> bool" where
  "in_unit x \<longleftrightarrow> x = NaN \<or> 0 \<le> x \<and> x \<le> 1"

lemma sum_value_cases:
  assumes "sum_value a" "sum_value b"
  shows "a + b = PInf \<or> (\<exists>q r. a = Fin q \<and> b = Fin r \<and> 0 \<le> q \<and> 0 \<le> r \<and> q \<le> rr (q + r) \<and> r \<le> rr (q + r)
    \<and> (a + b = Fin (rr (q + r))))"
proof (cases "a = PInf \<or> b = PInf")
  case True
  then show ?thesis using assms by (auto simp: sum_value_def plus_f64_def f64_add_def)
next
  case False
  then obtain q r where q: "a = Fin q" "b = Fin r" "0 \<le> q" "0 \<le> r" "rr q = q" "rr r = r"
    using assms by (auto simp: sum_value_def)
  then have "q \<le> rr (q + r)" "r \<le> rr (q + r)" using rr_mono [of q "q + r"] rr_mono [of r "q + r"] by auto
  moreover have "a + b = rnd (q + r)" using q by (simp add: plus_f64_def f64_add_def)
  moreover have "rnd (q + r) = PInf \<or> rnd (q + r) = Fin (rr (q + r))"
    using q by (simp add: rnd_def Let_def inf_of_def zero_of_def)
  ultimately show ?thesis using q by auto
qed

lemma share_unit: "0 \<le> u \<Longrightarrow> u \<le> t \<Longrightarrow> in_unit (imbalance (Fin u) (Fin t))"
proof (cases "0 < t \<and> u \<noteq> 0")
  case True
  assume u: "0 \<le> u" "u \<le> t"
  then have "0 \<le> rnd (u / t)" "rnd (u / t) \<le> rnd 1" using True by (auto intro!: rnd_nonneg rnd_mono)
  moreover have "rnd 1 = 1" using rnd_int [of 1] by (simp add: one_f64_def)
  ultimately show ?thesis using True by (simp add: imbalance_def in_unit_def divide_f64_def f64_div_def zero_f64_def)
next
  case False
  assume "0 \<le> u" "u \<le> t"
  with False show ?thesis
    by (auto simp: imbalance_def in_unit_def divide_f64_def f64_div_def zero_f64_def one_f64_def sign_neg_def zero_of_def)
qed

lemma infinite_unit: "sum_value p \<Longrightarrow> in_unit (imbalance p PInf)"
  by (auto simp: imbalance_def in_unit_def divide_f64_def f64_div_def sum_value_def sign_neg_def zero_of_def zero_f64_def one_f64_def)

lemma imbalance_unit:
  assumes "sum_value x" "sum_value y"
  shows "in_unit (imbalance x (x + y))" "in_unit (imbalance y (x + y))"
  using sum_value_cases [OF assms] infinite_unit assms by (auto intro: share_unit)

lemma in_unit_fmax: "in_unit x \<Longrightarrow> in_unit y \<Longrightarrow> in_unit (fmax x y)"
  using fmax_in [of x y] by auto

text \<open>The taker imbalance of an impulse is a share, whatever the trades are: it is between 0 and 1, or not
  a number when the notionals of both sides overflow.\<close>

lemma impulse_imbalance_share:
  "ci_taker_imbalance (impulse_snapshot trades now_ms config) = NaN
    \<or> 0 \<le> ci_taker_imbalance (impulse_snapshot trades now_ms config)
      \<and> ci_taker_imbalance (impulse_snapshot trades now_ms config) \<le> 1"
proof -
  have "in_unit (ci_taker_imbalance (impulse_snapshot trades now_ms config))"
    unfolding impulse_snapshot_def Let_def
    by (simp add: empty_impulse_def in_unit_fmax imbalance_unit [OF sum_value_side sum_value_side])
      (simp add: in_unit_def zero_f64_def one_f64_def)
  then show ?thesis by (simp only: in_unit_def)
qed

section \<open>Witnesses\<close>

lemma none_pinned: "sv_state s = Map.empty \<Longrightarrow> \<not> has_pinned_rest_window_open s a v w"
  by (simp add: has_pinned_rest_window_open_def)

theorem failed_fetch_pauses_witness:
  "\<exists>s fs t gs. run_cex sample_prefetch (new_service, []) = (s, fs)
     \<and> run_cex [FetchDone 100 0 None, Prefetch True 20000 ''btc'' 0] (s, fs) = (t, gs)
     \<and> (''btc'', Binance, 0) \<notin> set (map fetch_window gs)"
proof -
  obtain s fs where r: "run_cex sample_prefetch (new_service, []) = (s, fs)"
    "map fetch_window fs = [(''btc'', Binance, 0), (''btc'', Okx, 0), (''btc'', Coinbase, 0)]" "sv_state s = Map.empty"
    using sample_prefetch_runs by (elim exE conjE) (rule that)
  obtain t gs where t: "run_cex [FetchDone 100 0 None, Prefetch True 20000 ''btc'' 0] (s, fs) = (t, gs)"
    by (cases "run_cex [FetchDone 100 0 None, Prefetch True 20000 ''btc'' 0] (s, fs)")
  have fs: "0 < length fs" "fetch_window (fs ! 0) = (''btc'', Binance, 0)" using r(2) by (auto simp: map_eq_Cons_conv)
  have "(''btc'', Binance, 0) \<notin> set (map fetch_window gs)"
    by (rule failed_fetch_pauses [OF _ r(1) fs none_pinned [OF r(3)] _ _ t]) (simp_all add: sample_prefetch_def)
  with r(1) t show ?thesis by (intro exI conjI)
qed

definition full_book :: cex_book_sample where
  "full_book = \<lparr>cb_venue = Coinbase, cb_asset = ''btc'', cb_timestamp_ms = 0, cb_bid = Fin 100, cb_ask = Fin 101,
     cb_bid_size = Some 1, cb_ask_size = Some 1, cb_source = ''level2''\<rparr>"

definition bid_update :: "i64 \<Rightarrow> rat \<Rightarrow> cex_book_sample" where
  "bid_update ms p = full_book\<lparr>cb_timestamp_ms := ms, cb_bid := Fin p, cb_ask := Fin p, cb_ask_size := None\<rparr>"

lemma full_book_latest: "latest (update_book full_book new_service) ''btc'' Coinbase = Some full_book"
proof -
  have "latest new_service ''btc'' Coinbase = None"
    by (simp add: latest_def new_service_def entry_of_def default_asset_state_def default_venue_state_def)
  then show ?thesis
    using latest_update [of full_book "''btc''" Coinbase new_service]
    by (simp add: full_book_def unseeded_partial_level2_update_def non_improving_partial_level2_update_def merge_book_update_def)
qed

text \<open>The bid rises to 102, above the ask of 101, and stays there when the market falls to 90.\<close>

theorem partial_updates_keep_best_witness:
  "\<exists>q. latest (foldl (\<lambda>t b. update_book b t) (update_book full_book new_service) [bid_update 5 102, bid_update 9 90])
      ''btc'' Coinbase = Some q \<and> cb_bid q = Fin 102 \<and> cb_ask q = Fin 101"
proof -
  let ?bs = "[bid_update 5 102, bid_update 9 90]"
  have "list_all (partial_update ''btc'' Coinbase) ?bs" "cb_bid full_book \<noteq> NaN" "cb_ask full_book \<noteq> NaN"
    by (simp_all add: partial_update_def bid_update_def full_book_def)
  then obtain q where q: "latest (foldl (\<lambda>t b. update_book b t) (update_book full_book new_service) ?bs) ''btc'' Coinbase = Some q"
    "cb_bid q \<in> insert (cb_bid full_book) (bids ?bs)" "\<forall>x \<in> insert (cb_bid full_book) (bids ?bs). x \<le> cb_bid q"
    "cb_ask q \<in> insert (cb_ask full_book) (asks ?bs)"
    using partial_updates_keep_best [OF _ full_book_latest] by metis
  have "bids ?bs = {Fin 102, Fin 90}" "asks ?bs = {}"
    unfolding bids_Cons asks_Cons
    by (simp_all add: bids_def asks_def bid_update_def full_book_def sized_def one_f64_def zero_f64_def)
  then show ?thesis using q by (intro exI [of _ q]) (auto simp: full_book_def)
qed

theorem stale_side_reported_fresh_witness:
  "\<exists>r. service_current_price_snapshot (update_book (bid_update 3600000 100) (update_book full_book new_service)) ''btc'' Coinbase
      3600000 default_snapshot_config = Inr r \<and> cp_book_staleness_ms r = 0 \<and> cp_ask r = Fin 101"
proof -
  let ?b = "bid_update 3600000 100"
  have "partial_update ''btc'' Coinbase ?b" "cb_bid_size ?b = Some 1" "cb_bid full_book \<le> cb_bid ?b"
    "cb_timestamp_ms ?b = 3600000" "cb_ask full_book = Fin 101"
    by (simp_all add: partial_update_def bid_update_def full_book_def)
  moreover have "(0::f64) < 1" "0 \<le> mc_max_book_stale_ms default_snapshot_config"
    by (simp_all add: zero_f64_def one_f64_def default_snapshot_config_def)
  ultimately show ?thesis
    using stale_side_reported_fresh [of "''btc''" Coinbase ?b 1, OF _ _ _ full_book_latest _ btc_text(1)] by metis
qed

end
