(* ===== verification/Ptb_Stop_Loss.thy ===== *)
theory Ptb_Stop_Loss
  imports Trigger Cex_Microstructure Effects "HOL-Library.AList"
begin

text \<open>
  The price-to-beat stop loss (\<open>trade_builder/ptb_stop_loss.rs\<close>, \<open>ptb_stop_loss_cex_consensus.rs\<close>,
  \<open>ptb_stop_loss_cex_median.rs\<close>, the price sources of \<open>trade_flow/guards/price_to_beat/current_price.rs\<close>):
  its rules, the gap it allows as the window of the market passes, and the decision from the prices of
  the oracle and the exchanges. What is read from outside is the environment \<open>ptb_env\<close>: the exchange
  books of \<open>Cex_Microstructure\<close>, the clock, the cached prices of the oracle and of the market.
\<close>

section \<open>Sources of the current price\<close>

datatype price_source = SrcChainlink | SrcBinance | SrcCoinbase | SrcHyperliquid | SrcBybit | SrcBinanceHyperliquid
  | SrcCexConsensus | SrcChainlinkCexConsensus | SrcChainlinkCexConsensusConfirmed | SrcCexMedianFast

definition price_source_parse :: "string option \<Rightarrow> price_source" where
  "price_source_parse raw =
    (let v = to_ascii_lowercase (unwrap_or [] (map_option trim raw))
     in if v = ''binance'' then SrcBinance
        else if v = ''coinbase'' then SrcCoinbase
        else if v = ''hyperliquid'' then SrcHyperliquid
        else if v = ''bybit'' then SrcBybit
        else if v \<in> {''binance_hyperliquid'', ''binance+hyperliquid'', ''binance_or_hyperliquid''} then SrcBinanceHyperliquid
        else if v \<in> {''cex_consensus'', ''bybit_plus_one'', ''bybit+one''} then SrcCexConsensus
        else if v \<in> {''chainlink_cex_consensus'', ''chainlink+cex_consensus'', ''chainlink_cex''} then SrcChainlinkCexConsensus
        else if v \<in> {''chainlink_cex_consensus_confirmed'', ''chainlink+cex_consensus_confirmed''} then SrcChainlinkCexConsensusConfirmed
        else if v = ''cex_median_fast'' then SrcCexMedianFast
        else SrcChainlink)"

fun as_config_str :: "price_source \<Rightarrow> string" where
  "as_config_str SrcChainlink = ''chainlink''"
| "as_config_str SrcBinance = ''binance''"
| "as_config_str SrcCoinbase = ''coinbase''"
| "as_config_str SrcHyperliquid = ''hyperliquid''"
| "as_config_str SrcBybit = ''bybit''"
| "as_config_str SrcBinanceHyperliquid = ''binance_hyperliquid''"
| "as_config_str SrcCexConsensus = ''cex_consensus''"
| "as_config_str SrcChainlinkCexConsensus = ''chainlink_cex_consensus''"
| "as_config_str SrcChainlinkCexConsensusConfirmed = ''chainlink_cex_consensus_confirmed''"
| "as_config_str SrcCexMedianFast = ''cex_median_fast''"

fun current_price_source_label :: "price_source \<Rightarrow> string" where
  "current_price_source_label SrcChainlink = ''chainlink_live_data_ws''"
| "current_price_source_label SrcBinance = ''binance_cex_ws_mid''"
| "current_price_source_label SrcCoinbase = ''coinbase_cex_ws_mid''"
| "current_price_source_label SrcHyperliquid = ''hyperliquid_l2book_mid''"
| "current_price_source_label SrcBybit = ''bybit_orderbook_mid''"
| "current_price_source_label SrcBinanceHyperliquid = ''binance_hyperliquid_ptb_stop''"
| "current_price_source_label SrcCexConsensus = ''cex_consensus_bybit_plus_one''"
| "current_price_source_label SrcChainlinkCexConsensus = ''chainlink_cex_consensus_or_hybrid''"
| "current_price_source_label SrcChainlinkCexConsensusConfirmed = ''chainlink_cex_consensus_confirmed''"
| "current_price_source_label SrcCexMedianFast = ''cex_median_fast_delta''"

definition normalize_for_asset :: "price_source \<Rightarrow> string \<Rightarrow> price_source" where
  "normalize_for_asset source asset =
    (if eq_ignore_ascii_case (trim asset) ''hype'' \<and> source \<in> {SrcBinance, SrcBinanceHyperliquid} then SrcHyperliquid else source)"

fun source_cex_venue :: "price_source \<Rightarrow> cex_venue option" where
  "source_cex_venue SrcBinance = Some Binance"
| "source_cex_venue SrcCoinbase = Some Coinbase"
| "source_cex_venue SrcHyperliquid = Some Hyperliquid"
| "source_cex_venue SrcBybit = Some Bybit"
| "source_cex_venue _ = None"

text \<open>What is read from outside. \<open>pe_chainlink\<close> is the oracle's price of an asset after the warm-up retries,
  \<open>pe_cached_reference\<close> the cached price to beat of a market, \<open>pe_timestamp_opt\<close> chrono's conversion of
  seconds, here to milliseconds, and \<open>pe_show_f64\<close> the display of a number.\<close>

record ptb_env =
  pe_service :: cex_service
  pe_now_ms :: i64
  pe_timestamp_opt :: "i64 \<Rightarrow> i64 option"
  pe_chainlink :: "string \<Rightarrow> (string, f64) result"
  pe_cached_reference :: "string \<Rightarrow> f64 option"
  pe_show_f64 :: "f64 \<Rightarrow> string"

definition unavailable_detail :: "price_source \<Rightarrow> string \<Rightarrow> string \<Rightarrow> string \<Rightarrow> string" where
  "unavailable_detail source market_slug asset current_price_error =
     ''asset='' @ asset @ ''; market_slug='' @ market_slug @ ''; primary_source='' @ current_price_source_label source
     @ ''; selected_current_price_source='' @ as_config_str source @ ''; current_price_error='' @ current_price_error"

text \<open>The mapping of an error for a price to beat that comes from the market itself.\<close>

definition map_current_price_error :: "price_source \<Rightarrow> string \<Rightarrow> string \<Rightarrow> string \<Rightarrow> string \<times> string" where
  "map_current_price_error source market_slug asset current_price_error =
     (''current_price_unavailable'', unavailable_detail source market_slug asset current_price_error)"

definition resolve_current_price_result_for_source ::
    "price_source \<Rightarrow> string \<Rightarrow> string \<Rightarrow> (string, f64) result \<Rightarrow> (string \<times> string, f64 \<times> string) result" where
  "resolve_current_price_result_for_source source market_slug asset current_result =
    (case current_result of
       Inr price \<Rightarrow> Inr (price, current_price_source_label source)
     | Inl e \<Rightarrow> Inl (map_current_price_error source market_slug asset e))"

definition composite_sources :: "price_source list" where
  "composite_sources = [SrcBinanceHyperliquid, SrcCexConsensus, SrcChainlinkCexConsensus,
     SrcChainlinkCexConsensusConfirmed, SrcCexMedianFast]"

definition resolve_price_to_beat_current_price_snapshot ::
    "ptb_env \<Rightarrow> price_source \<Rightarrow> string \<Rightarrow> string \<Rightarrow> (string \<times> string, f64 \<times> string) result" where
  "resolve_price_to_beat_current_price_snapshot env current_source market_slug asset =
    (let source = normalize_for_asset current_source asset
     in if source \<in> set composite_sources
        then Inl (''current_price_unavailable'', unavailable_detail source market_slug asset
          ''composite source is only supported by PTB stop-loss evaluation'')
        else case source_cex_venue source of
            Some venue \<Rightarrow> resolve_current_price_result_for_source source market_slug asset
              (res_bind (service_current_price_snapshot (pe_service env) asset venue (pe_now_ms env) default_snapshot_config)
                (\<lambda>snapshot. Inr (cp_mid snapshot)))
          | None \<Rightarrow> resolve_current_price_result_for_source source market_slug asset (pe_chainlink env asset))"

definition get_cex_venue_delta_snapshot ::
    "ptb_env \<Rightarrow> string \<Rightarrow> cex_venue \<Rightarrow> i64 \<Rightarrow> f64 \<Rightarrow> i64 \<Rightarrow> (string, cex_venue_delta_snapshot) result" where
  "get_cex_venue_delta_snapshot env asset venue window_start_ms min_move_usd max_book_stale_ms =
     fst (service_venue_delta_snapshot True (pe_now_ms env) (pe_service env) asset venue window_start_ms (pe_now_ms env)
       min_move_usd max_book_stale_ms)"

section \<open>Rules\<close>

datatype price_to_beat_diff_unit = Usd | Cent

definition diff_unit_parse :: "string option \<Rightarrow> price_to_beat_diff_unit option" where
  "diff_unit_parse raw =
    (let v = to_ascii_lowercase (unwrap_or [] (map_option trim raw))
     in if v \<in> {[], ''usd''} then Some Usd else if v = ''cent'' then Some Cent else None)"

fun normalize_price_to_beat_threshold_usd :: "f64 \<Rightarrow> price_to_beat_diff_unit \<Rightarrow> f64" where
  "normalize_price_to_beat_threshold_usd threshold_value Usd = threshold_value"
| "normalize_price_to_beat_threshold_usd threshold_value Cent = threshold_value div lit 100"

definition ptb_rules_text :: "nat \<Rightarrow> string \<Rightarrow> string" where
  "ptb_rules_text index msg = ''action.place_order ptbStopLossRules['' @ show_nat index @ '']'' @ msg"

text \<open>The loop over the rules; it returns the parsed rules and the total of their sizes.\<close>

fun ptb_rule_checks :: "price_to_beat_diff_unit \<Rightarrow> nat \<Rightarrow> f64 option \<Rightarrow> f64 \<Rightarrow> (f64 \<times> f64) list
    \<Rightarrow> (string, ptb_stop_loss_rule list \<times> f64) result" where
  "ptb_rule_checks gap_unit index previous_gap_usd total_size_pct [] = Inr ([], total_size_pct)"
| "ptb_rule_checks gap_unit index previous_gap_usd total_size_pct ((gap_usd, size_pct) # rules) =
    (case ensure_all
       ([(is_finite gap_usd, ptb_rules_text index ''.gapUsd must be finite''),
         (is_finite size_pct \<and> 0 < size_pct \<and> size_pct \<le> lit 100, ptb_rules_text index ''.sizePct must be in (0, 100]'')]
        @ (case previous_gap_usd of
             None \<Rightarrow> []
           | Some previous \<Rightarrow> [(gap_usd < previous,
               ''action.place_order ptbStopLossRules gapUsd values must be strictly decreasing'')])) of
       Inl e \<Rightarrow> Inl e
     | Inr _ \<Rightarrow>
        (case ptb_rule_checks gap_unit (index + 1) (Some gap_usd) (total_size_pct + size_pct) rules of
           Inl e \<Rightarrow> Inl e
         | Inr (parsed, total_size_pct) \<Rightarrow>
             Inr (\<lparr>psl_gap_usd = normalize_price_to_beat_threshold_usd gap_usd gap_unit, psl_size_pct = size_pct\<rparr> # parsed,
               total_size_pct)))"

text \<open>\<open>rules\<close> is the deserialisation of the configured array, whose own message is replaced by the context.\<close>

definition parse_action_place_order_ptb_stop_loss_rules ::
    "(string, (f64 \<times> f64) list) result option \<Rightarrow> price_to_beat_diff_unit \<Rightarrow> (string, ptb_stop_loss_rule list) result" where
  "parse_action_place_order_ptb_stop_loss_rules raw_value gap_unit =
    (case raw_value of
       None \<Rightarrow> Inr []
     | Some deserialized \<Rightarrow>
        res_bind (with_context ''action.place_order ptbStopLossRules must be an array'' deserialized) (\<lambda>rules.
        res_bind (ensure (length rules \<le> ladder_max_rules) ''action.place_order ptbStopLossRules supports at most 5 rules'') (\<lambda>_.
        res_bind (ptb_rule_checks gap_unit 0 None 0 rules) (\<lambda>(parsed, total_size_pct).
        res_bind (ensure (\<bar>total_size_pct - lit 100\<bar> \<le> lit (1 / 1000000) \<or> parsed = [])
          ''action.place_order ptbStopLossRules sizePct total must equal 100'') (\<lambda>_. Inr parsed)))))"

definition trade_builder_ptb_stop_loss_target_plan ::
    "ptb_stop_loss_rule list \<Rightarrow> f64 \<Rightarrow> f64 option \<Rightarrow> nat ladder_target_plan" where
  "trade_builder_ptb_stop_loss_target_plan rules canonical_entry_qty order_min_size =
     trade_builder_plan_weighted_ladder_targets (enumerate 0 (map psl_size_pct rules)) canonical_entry_qty order_min_size"

definition trade_builder_market_supports_ptb_stop_loss :: "string \<Rightarrow> bool" where
  "trade_builder_market_supports_ptb_stop_loss market_slug =
    (case find_updown_scope_by_slug market_slug of None \<Rightarrow> False | Some scope_def \<Rightarrow> us_timeframe scope_def \<in> {''5m'', ''15m''})"

definition trade_builder_cached_ptb_reference_price :: "ptb_env \<Rightarrow> string \<Rightarrow> f64 option" where
  "trade_builder_cached_ptb_reference_price env market_slug =
     filter_opt (\<lambda>v. is_finite v \<and> 0 < v) (pe_cached_reference env market_slug)"

record ptb_stop_loss_config =
  pc_hard_gap_usd :: "f64 option"
  pc_staged_rules :: "ptb_stop_loss_rule list"
  pc_reference_price :: "f64 option"
  pc_time_decay_mode :: "string option"
  pc_current_price_source :: price_source

text \<open>The values the node of the flow configures, as \<open>node_config_bool\<close>, \<open>node_config_f64\<close> and
  \<open>node_config_string\<close> read them.\<close>

record ptb_node =
  pn_ptb_stop_loss_enabled :: "bool option"
  pn_ptb_stop_loss_rules :: "(string, (f64 \<times> f64) list) result option"
  pn_ptb_stop_loss_gap_unit :: "string option"
  pn_ptb_stop_loss_gap_usd :: "f64 option"
  pn_ptb_stop_loss_time_decay_mode :: "string option"
  pn_ptb_stop_loss_current_price_source :: "string option"
  pn_price_to_beat_current_price_source :: "string option"

definition resolve_action_place_order_ptb_stop_loss_gap_unit :: "ptb_node \<Rightarrow> (string, price_to_beat_diff_unit) result" where
  "resolve_action_place_order_ptb_stop_loss_gap_unit node =
     ok_or ''action.place_order ptbStopLossGapUnit must be usd or cent'' (diff_unit_parse (pn_ptb_stop_loss_gap_unit node))"

definition resolve_action_place_order_ptb_stop_loss_config ::
    "ptb_env \<Rightarrow> ptb_node \<Rightarrow> string \<Rightarrow> string \<Rightarrow> (string, ptb_stop_loss_config option) result" where
  "resolve_action_place_order_ptb_stop_loss_config env node side market_slug =
    (let hard_stop_loss_enabled = unwrap_or False (pn_ptb_stop_loss_enabled node) in
     res_bind (resolve_action_place_order_ptb_stop_loss_gap_unit node) (\<lambda>gap_unit.
     res_bind (parse_action_place_order_ptb_stop_loss_rules (pn_ptb_stop_loss_rules node) gap_unit) (\<lambda>staged_rules.
     if side \<noteq> ''buy'' \<or> (\<not> hard_stop_loss_enabled \<and> staged_rules = []) then Inr None
     else
       res_bind (ensure (trade_builder_market_supports_ptb_stop_loss market_slug)
         ''action.place_order ptbStopLossEnabled only supports 5m/15m updown market slugs'') (\<lambda>_.
       let hard_gap_usd = map_option (\<lambda>v. normalize_price_to_beat_threshold_usd v gap_unit) (pn_ptb_stop_loss_gap_usd node) in
       res_bind (ensure (\<not> (hard_stop_loss_enabled \<and> hard_gap_usd = None \<and> staged_rules = []))
         ''action.place_order ptbStopLossGapUsd must be set'') (\<lambda>_.
       res_bind (case hard_gap_usd of None \<Rightarrow> Inr ()
         | Some gap_usd \<Rightarrow> ensure (is_finite gap_usd) ''action.place_order ptbStopLossGapUsd must be finite'') (\<lambda>_.
       let time_decay_mode = or_opt (filter_opt (\<lambda>v. v = ''none'' \<or> v = ''tighten'' \<or> v = ''relax'')
             (map_option (\<lambda>v. to_ascii_lowercase (trim v)) (pn_ptb_stop_loss_time_decay_mode node))) (Some ''tighten'');
           current_price_source = price_source_parse (or_opt
             (filter_opt (\<lambda>v. trim v \<noteq> []) (pn_ptb_stop_loss_current_price_source node)) (pn_price_to_beat_current_price_source node))
       in Inr (Some \<lparr>pc_hard_gap_usd = hard_gap_usd, pc_staged_rules = staged_rules,
            pc_reference_price = trade_builder_cached_ptb_reference_price env market_slug,
            pc_time_decay_mode = time_decay_mode, pc_current_price_source = current_price_source\<rparr>)))))))"

section \<open>The gap that is allowed\<close>

definition trade_builder_ptb_stop_loss_gap_usd :: "('ts, 'j) trade_builder_order \<Rightarrow> f64 option" where
  "trade_builder_ptb_stop_loss_gap_usd order = filter_opt is_finite (o_ptb_stop_loss_gap_usd order)"

definition elapsed_ratio :: "i64 \<Rightarrow> i64 \<Rightarrow> i64 \<Rightarrow> f64" where
  "elapsed_ratio now_ms window_start_ms window_seconds =
     fclamp (rnd (of_int (max (now_ms - window_start_ms) 0)) div rnd (of_int (window_seconds * 1000))) 0 1"

definition trade_builder_ptb_stop_loss_effective_gap_usd_for_market ::
    "ptb_env \<Rightarrow> string \<Rightarrow> f64 \<Rightarrow> string option \<Rightarrow> f64" where
  "trade_builder_ptb_stop_loss_effective_gap_usd_for_market env market_slug threshold_gap_usd time_decay_mode =
    (let mode = unwrap_or ''tighten'' time_decay_mode
     in if mode = ''none'' \<or> threshold_gap_usd < 0 then threshold_gap_usd
        else case find_updown_scope_by_slug market_slug of
          None \<Rightarrow> threshold_gap_usd
        | Some scope_def \<Rightarrow>
          (case start_time (pe_timestamp_opt env) market_slug of
             None \<Rightarrow> threshold_gap_usd
           | Some window_start_ms \<Rightarrow>
             let window_seconds = max (updown_scope_window_seconds scope_def) 1;
                 ratio = elapsed_ratio (pe_now_ms env) window_start_ms window_seconds
             in if mode = ''tighten'' then fmax (threshold_gap_usd * (1 - ratio)) 0
                else if mode = ''relax'' then threshold_gap_usd * (1 + ratio)
                else threshold_gap_usd))"

definition trade_builder_ptb_direction :: "string \<Rightarrow> string option" where
  "trade_builder_ptb_direction outcome_label =
    (let v = to_ascii_lowercase (trim outcome_label)
     in if v \<in> {''yes'', ''up'', ''long'', ''bull''} then Some ''up''
        else if v \<in> {''no'', ''down'', ''short'', ''bear''} then Some ''down''
        else None)"

definition trade_builder_ptb_directional_gap :: "string \<Rightarrow> f64 \<Rightarrow> f64 \<Rightarrow> f64" where
  "trade_builder_ptb_directional_gap direction ptb_reference_price current_price =
    (if direction = ''up'' then current_price - ptb_reference_price else ptb_reference_price - current_price)"

section \<open>Evaluations of the sources\<close>

text \<open>The metadata of an evaluation, whose venue deltas are an object that later insertions overwrite.\<close>

definition inserted :: "(string \<times> 'v) list \<Rightarrow> (string \<times> 'v) list" where
  "inserted kvs = foldl (\<lambda>obj (k, v). AList.update k v obj) [] kvs"

datatype venue_delta_value = DeltaSnapshot cex_venue_delta_snapshot | DeltaError "string option"

record ptb_metadata =
  pm_mode :: string
  pm_fallback_reason :: "string option"
  pm_anchor_venue :: "string option"
  pm_market_slug :: string
  pm_asset :: string
  pm_timeframe :: string
  pm_window_start_ms :: i64
  pm_sanity_band_usd :: "f64 option"
  pm_confirming_venues :: "string list"
  pm_venue_deltas :: "(string \<times> venue_delta_value) list"
  pm_selection :: "(f64 \<times> f64) option"

record ptb_source_evaluation =
  pv_config_source :: string
  pv_current_price_source :: string
  pv_current_price :: "f64 option"
  pv_directional_gap :: "f64 option"
  pv_reason_code :: string
  pv_should_trigger :: bool
  pv_error_code :: "string option"
  pv_error_detail :: "string option"
  pv_metadata :: "ptb_metadata option"

definition trade_builder_ptb_stop_loss_source_reason_code :: "price_source \<Rightarrow> bool \<Rightarrow> string" where
  "trade_builder_ptb_stop_loss_source_reason_code current_price_source should_trigger =
    (if \<not> should_trigger then ''threshold_not_met''
     else if current_price_source = SrcChainlink then ''chainlink_threshold_hit''
     else if current_price_source = SrcCexConsensus then ''cex_consensus_threshold_hit''
     else ''source_threshold_hit'')"

definition unavailable_source :: "price_source \<Rightarrow> string \<Rightarrow> string option \<Rightarrow> ptb_metadata option \<Rightarrow> ptb_source_evaluation" where
  "unavailable_source source error_code error_detail metadata =
     \<lparr>pv_config_source = as_config_str source, pv_current_price_source = current_price_source_label source,
      pv_current_price = None, pv_directional_gap = None, pv_reason_code = ''threshold_not_met'', pv_should_trigger = False,
      pv_error_code = Some error_code, pv_error_detail = error_detail, pv_metadata = metadata\<rparr>"

definition trade_builder_ptb_stop_loss_source_evaluation ::
    "ptb_env \<Rightarrow> price_source \<Rightarrow> string \<Rightarrow> string \<Rightarrow> string \<Rightarrow> f64 \<Rightarrow> f64 \<Rightarrow> ptb_source_evaluation" where
  "trade_builder_ptb_stop_loss_source_evaluation env source market_slug asset direction threshold_gap_usd ptb_reference_price =
    (case resolve_price_to_beat_current_price_snapshot env source market_slug asset of
       Inr (current_price, label) \<Rightarrow>
         let directional_gap = trade_builder_ptb_directional_gap direction ptb_reference_price current_price;
             should_trigger = (directional_gap \<le> threshold_gap_usd)
         in \<lparr>pv_config_source = as_config_str source, pv_current_price_source = label,
             pv_current_price = Some current_price, pv_directional_gap = Some directional_gap,
             pv_reason_code = trade_builder_ptb_stop_loss_source_reason_code source should_trigger,
             pv_should_trigger = should_trigger, pv_error_code = None, pv_error_detail = None, pv_metadata = None\<rparr>
     | Inl (error_code, error_detail) \<Rightarrow> unavailable_source source error_code (Some error_detail) None)"

subsection \<open>The consensus of the exchanges\<close>

definition consensus_max_book_stale_ms :: i64 where "consensus_max_book_stale_ms = 2500"
definition consensus_min_move_usd :: f64 where "consensus_min_move_usd = 1"

definition cex_consensus_decorated_delta :: "string \<Rightarrow> f64 \<Rightarrow> string \<Rightarrow> cex_venue_delta_snapshot \<Rightarrow> cex_venue_delta_snapshot" where
  "cex_consensus_decorated_delta direction threshold_gap_usd role delta_snapshot =
    (let directional_gap = (if direction = ''up'' then cv_delta_usd delta_snapshot else - cv_delta_usd delta_snapshot)
     in delta_snapshot\<lparr>cv_role := Some role, cv_directional_gap := Some directional_gap,
          cv_threshold_hit := Some (directional_gap \<le> threshold_gap_usd)\<rparr>)"

definition cex_consensus_delta_value :: "cex_venue_delta_snapshot option \<Rightarrow> string option \<Rightarrow> venue_delta_value" where
  "cex_consensus_delta_value delta_snapshot err = (case delta_snapshot of Some d \<Rightarrow> DeltaSnapshot d | None \<Rightarrow> DeltaError err)"

definition cex_consensus_error :: "string \<Rightarrow> (string, cex_venue_delta_snapshot) result \<Rightarrow> bool \<Rightarrow> string list
    \<Rightarrow> string option \<times> string option" where
  "cex_consensus_error anchor_name anchor anchor_hit confirming_venues =
    (case anchor of
       Inl err \<Rightarrow> (Some (if anchor_name = ''gateio'' then ''cex_consensus_gateio_unavailable''
          else if anchor_name = ''okx'' then ''cex_consensus_okx_unavailable'' else ''cex_consensus_anchor_unavailable''), Some err)
     | Inr _ \<Rightarrow> if anchor_hit \<and> confirming_venues = []
         then (Some ''cex_consensus_unconfirmed'', Some (anchor_name @ '' threshold hit but binance/coinbase did not confirm''))
         else (None, None))"

definition result_opt :: "('e, 'a) result \<Rightarrow> 'a option" where
  "result_opt r = (case r of Inl _ \<Rightarrow> None | Inr x \<Rightarrow> Some x)"

definition result_err :: "('e, 'a) result \<Rightarrow> 'e option" where
  "result_err r = (case r of Inl e \<Rightarrow> Some e | Inr _ \<Rightarrow> None)"

definition hit :: "cex_venue_delta_snapshot option \<Rightarrow> bool" where
  "hit delta_snapshot \<longleftrightarrow> unwrap_or False (Option.bind delta_snapshot cv_threshold_hit)"

definition cex_consensus_metadata :: "string \<Rightarrow> updown_scope_def \<Rightarrow> i64 \<Rightarrow> string \<Rightarrow> venue_delta_value \<Rightarrow> venue_delta_value
    \<Rightarrow> venue_delta_value \<Rightarrow> string list \<Rightarrow> ptb_metadata" where
  "cex_consensus_metadata market_slug scope_def window_start_ms anchor_name anchor binance coinbase confirming_venues =
     \<lparr>pm_mode = anchor_name @ ''_plus_one'', pm_fallback_reason = None, pm_anchor_venue = Some anchor_name,
      pm_market_slug = market_slug, pm_asset = us_asset scope_def, pm_timeframe = us_timeframe scope_def,
      pm_window_start_ms = window_start_ms, pm_sanity_band_usd = None, pm_confirming_venues = confirming_venues,
      pm_venue_deltas = inserted [(''anchor'', anchor), (anchor_name, anchor), (''binance'', binance), (''coinbase'', coinbase)],
      pm_selection = None\<rparr>"

definition evaluate_cex_consensus_ptb_stop_loss :: "ptb_env \<Rightarrow> string \<Rightarrow> string \<Rightarrow> f64 \<Rightarrow> f64 \<Rightarrow> ptb_source_evaluation" where
  "evaluate_cex_consensus_ptb_stop_loss env market_slug direction threshold_gap_usd ptb_reference_price =
    (case find_updown_scope_by_slug market_slug of
       None \<Rightarrow> unavailable_source SrcCexConsensus ''cex_consensus_unsupported_market''
         (Some ''market slug is not a supported updown scope'') None
     | Some scope_def \<Rightarrow>
       (case start_time (pe_timestamp_opt env) market_slug of
          None \<Rightarrow> unavailable_source SrcCexConsensus ''cex_consensus_missing_window_start'' None None
        | Some window_start_ms \<Rightarrow>
          let anchor_venue = active_anchor_venue_for_asset (us_asset scope_def);
              anchor_name = cex_venue_as_str anchor_venue;
              load = (\<lambda>venue. get_cex_venue_delta_snapshot env (us_asset scope_def) venue window_start_ms
                consensus_min_move_usd consensus_max_book_stale_ms);
              decorated = (\<lambda>role delta. map_option (cex_consensus_decorated_delta direction threshold_gap_usd role) (result_opt delta));
              anchor = load anchor_venue; binance = load Binance; coinbase = load Coinbase;
              anchor_snapshot = decorated ''lead'' anchor;
              binance_snapshot = decorated ''confirm_candidate'' binance;
              coinbase_snapshot = decorated ''confirm_candidate'' coinbase;
              anchor_hit = hit anchor_snapshot;
              confirming_venues = map fst (filter (\<lambda>(venue, delta_snapshot). venue \<noteq> anchor_name \<and> hit delta_snapshot)
                [(''binance'', binance_snapshot), (''coinbase'', coinbase_snapshot)]);
              should_trigger = (anchor_hit \<and> confirming_venues \<noteq> []);
              err = cex_consensus_error anchor_name anchor anchor_hit confirming_venues
          in \<lparr>pv_config_source = as_config_str SrcCexConsensus,
              pv_current_price_source = current_price_source_label SrcCexConsensus,
              pv_current_price = map_option (\<lambda>d. ptb_reference_price + cv_delta_usd d) anchor_snapshot,
              pv_directional_gap = Option.bind anchor_snapshot cv_directional_gap,
              pv_reason_code = trade_builder_ptb_stop_loss_source_reason_code SrcCexConsensus should_trigger,
              pv_should_trigger = should_trigger, pv_error_code = fst err, pv_error_detail = snd err,
              pv_metadata = Some (cex_consensus_metadata market_slug scope_def window_start_ms anchor_name
                (cex_consensus_delta_value anchor_snapshot (result_err anchor))
                (cex_consensus_delta_value binance_snapshot (result_err binance))
                (cex_consensus_delta_value coinbase_snapshot (result_err coinbase)) confirming_venues)\<rparr>))"

subsection \<open>The fast median\<close>

definition cex_median_fast_max_stale_ms :: i64 where "cex_median_fast_max_stale_ms = 750"

definition load_cex_median_fast_leg :: "ptb_env \<Rightarrow> string \<Rightarrow> i64 \<Rightarrow> cex_venue \<Rightarrow> (string, cex_venue_delta_snapshot) result" where
  "load_cex_median_fast_leg env asset window_start_ms venue =
     res_bind (get_cex_venue_delta_snapshot env asset venue window_start_ms 0 cex_median_fast_max_stale_ms) (\<lambda>delta_snapshot.
       if cv_book_staleness_ms delta_snapshot < cex_median_fast_max_stale_ms then Inr delta_snapshot
       else Inl (cex_venue_as_str venue @ '' book stale: age_ms='' @ show_i64 (cv_book_staleness_ms delta_snapshot)
         @ '' max_ms='' @ show_i64 cex_median_fast_max_stale_ms))"

record cex_median_fast_selection =
  ms_delta_mode :: "(f64 \<times> string) option"
  ms_error_code :: string
  ms_error_detail :: "string option"

definition select_cex_median_fast_delta :: "(f64 \<Rightarrow> string) \<Rightarrow> cex_venue_delta_snapshot list \<Rightarrow> string \<Rightarrow> f64 \<Rightarrow> cex_median_fast_selection" where
  "select_cex_median_fast_delta show_f64 valid direction sanity_band_usd =
    (case valid of
       [a, b, c] \<Rightarrow> \<lparr>ms_delta_mode = Some (sort_total (map cv_delta_usd valid) ! 1, ''median''),
         ms_error_code = ''cex_median_fast_available'', ms_error_detail = None\<rparr>
     | [a, b] \<Rightarrow>
         let left = cv_delta_usd a; right = cv_delta_usd b
         in if sanity_band_usd < \<bar>left - right\<bar>
            then \<lparr>ms_delta_mode = None, ms_error_code = ''cex_median_fast_sanity_band_exceeded'',
              ms_error_detail = Some (''two-leg delta diff exceeded sanity band: diff_usd='' @ show_f64 \<bar>left - right\<bar>
                @ '' sanity_band_usd='' @ show_f64 sanity_band_usd)\<rparr>
            else \<lparr>ms_delta_mode = Some (if direction = ''up'' then fmin left right else fmax left right, ''conservative''),
              ms_error_code = ''cex_median_fast_available'', ms_error_detail = None\<rparr>
     | _ \<Rightarrow> \<lparr>ms_delta_mode = None, ms_error_code = ''cex_median_fast_insufficient_venues'',
         ms_error_detail = Some (''valid_venue_count='' @ show_nat (length valid))\<rparr>)"

definition cex_median_fast_metadata :: "string \<Rightarrow> updown_scope_def \<Rightarrow> i64 \<Rightarrow> f64
    \<Rightarrow> (cex_venue \<times> (string, cex_venue_delta_snapshot) result) list \<Rightarrow> cex_median_fast_selection \<Rightarrow> ptb_metadata" where
  "cex_median_fast_metadata market_slug scope_def window_start_ms sanity_band_usd legs selected =
     \<lparr>pm_mode = (case ms_delta_mode selected of Some (_, mode) \<Rightarrow> mode | None \<Rightarrow> ''fallback''),
      pm_fallback_reason = then_some (ms_delta_mode selected = None) (ms_error_code selected),
      pm_anchor_venue = None, pm_market_slug = market_slug, pm_asset = us_asset scope_def,
      pm_timeframe = us_timeframe scope_def, pm_window_start_ms = window_start_ms,
      pm_sanity_band_usd = Some sanity_band_usd, pm_confirming_venues = [],
      pm_venue_deltas = inserted (map (\<lambda>(venue, leg). (cex_venue_as_str venue,
        cex_consensus_delta_value (result_opt leg) (result_err leg))) legs),
      pm_selection = None\<rparr>"

definition evaluate_cex_median_fast_ptb_stop_loss :: "ptb_env \<Rightarrow> string \<Rightarrow> string \<Rightarrow> f64 \<Rightarrow> f64 \<Rightarrow> f64 \<Rightarrow> ptb_source_evaluation" where
  "evaluate_cex_median_fast_ptb_stop_loss env market_slug direction threshold_gap_usd base_threshold_gap_usd ptb_reference_price =
    (case find_updown_scope_by_slug market_slug of
       None \<Rightarrow> unavailable_source SrcCexMedianFast ''cex_median_fast_unsupported_market'' None None
     | Some scope_def \<Rightarrow>
       (case start_time (pe_timestamp_opt env) market_slug of
          None \<Rightarrow> unavailable_source SrcCexMedianFast ''cex_median_fast_missing_window_start'' None None
        | Some window_start_ms \<Rightarrow>
          let legs = map (\<lambda>venue. (venue, load_cex_median_fast_leg env (us_asset scope_def) window_start_ms venue))
                (active_spot_venues_for_asset (us_asset scope_def));
              valid = List.map_filter (\<lambda>(_, leg). result_opt leg) legs;
              sanity_band_usd = lit 3 * \<bar>base_threshold_gap_usd\<bar>;
              selected = select_cex_median_fast_delta (pe_show_f64 env) valid direction sanity_band_usd;
              metadata = cex_median_fast_metadata market_slug scope_def window_start_ms sanity_band_usd legs selected
          in case ms_delta_mode selected of
              None \<Rightarrow> unavailable_source SrcCexMedianFast (ms_error_code selected) (ms_error_detail selected) (Some metadata)
            | Some (selected_delta_usd, mode) \<Rightarrow>
                let current_price = ptb_reference_price + selected_delta_usd;
                    directional_gap = trade_builder_ptb_directional_gap direction ptb_reference_price current_price;
                    should_trigger = (directional_gap \<le> threshold_gap_usd)
                in \<lparr>pv_config_source = as_config_str SrcCexMedianFast,
                    pv_current_price_source = current_price_source_label SrcCexMedianFast,
                    pv_current_price = Some current_price, pv_directional_gap = Some directional_gap,
                    pv_reason_code = trade_builder_ptb_stop_loss_source_reason_code SrcCexMedianFast should_trigger,
                    pv_should_trigger = should_trigger, pv_error_code = None, pv_error_detail = None,
                    pv_metadata = Some (metadata\<lparr>pm_mode := mode, pm_selection := Some (selected_delta_usd, current_price)\<rparr>)\<rparr>))"

section \<open>The decision\<close>

definition trade_builder_ptb_stop_loss_source_evaluations ::
    "ptb_env \<Rightarrow> price_source \<Rightarrow> string \<Rightarrow> string \<Rightarrow> string \<Rightarrow> f64 \<Rightarrow> f64 \<Rightarrow> f64 \<Rightarrow> ptb_source_evaluation list" where
  "trade_builder_ptb_stop_loss_source_evaluations env current_price_source market_slug asset direction threshold_gap_usd
      base_threshold_gap_usd ptb_reference_price =
    (let source = normalize_for_asset current_price_source asset;
         single = (\<lambda>src. trade_builder_ptb_stop_loss_source_evaluation env src market_slug asset direction
           threshold_gap_usd ptb_reference_price);
         consensus = evaluate_cex_consensus_ptb_stop_loss env market_slug direction threshold_gap_usd ptb_reference_price
     in if source = SrcCexMedianFast
        then [evaluate_cex_median_fast_ptb_stop_loss env market_slug direction threshold_gap_usd base_threshold_gap_usd
          ptb_reference_price, single SrcChainlink, consensus]
        else if source \<in> {SrcCexConsensus, SrcChainlinkCexConsensus, SrcChainlinkCexConsensusConfirmed}
        then [single SrcChainlink, consensus]
        else if source = SrcBinanceHyperliquid then [single SrcBinance, single SrcHyperliquid]
        else [single source])"

definition confirmed_cex_fallback_overshot :: "f64 \<Rightarrow> f64 \<Rightarrow> bool" where
  "confirmed_cex_fallback_overshot directional_gap threshold_gap_usd =
    (if threshold_gap_usd < 0 then directional_gap \<le> threshold_gap_usd * lit (5/4) else directional_gap \<le> threshold_gap_usd)"

definition confirmed_cex_backstop_should_trigger :: "ptb_source_evaluation list \<Rightarrow> f64 \<Rightarrow> bool" where
  "confirmed_cex_backstop_should_trigger evaluations threshold_gap_usd =
    (let chainlink = find (\<lambda>e. pv_config_source e = ''chainlink'') evaluations
     in if (case chainlink of Some e \<Rightarrow> pv_current_price e \<noteq> None \<and> pv_should_trigger e | None \<Rightarrow> False) then True
        else if (case chainlink of Some e \<Rightarrow> pv_current_price e \<noteq> None | None \<Rightarrow> False) then False
        else case find (\<lambda>e. pv_config_source e = ''cex_consensus'') evaluations of
            None \<Rightarrow> False
          | Some e \<Rightarrow> pv_current_price e \<noteq> None \<and> pv_should_trigger e
              \<and> (case pv_directional_gap e of Some gap \<Rightarrow> confirmed_cex_fallback_overshot gap threshold_gap_usd | None \<Rightarrow> False))"

definition trade_builder_ptb_stop_loss_final_should_trigger ::
    "price_source \<Rightarrow> ptb_source_evaluation \<Rightarrow> ptb_source_evaluation list \<Rightarrow> f64 \<Rightarrow> bool" where
  "trade_builder_ptb_stop_loss_final_should_trigger current_price_source selected_source evaluations threshold_gap_usd =
    (if current_price_source = SrcCexMedianFast
     then list_ex (\<lambda>e. pv_config_source e = ''cex_median_fast'' \<and> pv_current_price e \<noteq> None \<and> pv_should_trigger e) evaluations
        \<or> confirmed_cex_backstop_should_trigger evaluations threshold_gap_usd
     else if current_price_source \<noteq> SrcChainlinkCexConsensusConfirmed then pv_should_trigger selected_source
     else confirmed_cex_backstop_should_trigger evaluations threshold_gap_usd)"

text \<open>\<open>Iterator::min_by\<close> returns the first of several minimal elements.\<close>

fun first_min :: "('a \<Rightarrow> 'k::linorder) \<Rightarrow> 'a list \<Rightarrow> 'a option" where
  "first_min key [] = None"
| "first_min key (x # xs) = Some (foldl (\<lambda>best y. if key y < key best then y else best) x xs)"

definition trade_builder_ptb_stop_loss_select_source :: "ptb_source_evaluation list \<Rightarrow> ptb_source_evaluation option" where
  "trade_builder_ptb_stop_loss_select_source evaluations =
    (let fires = (\<lambda>e. pv_current_price e \<noteq> None \<and> pv_should_trigger e);
         has_triggering_source = list_ex fires evaluations
     in or_opt (find (\<lambda>e. pv_config_source e = ''cex_median_fast'' \<and> fires e) evaluations)
       (or_opt (find (\<lambda>e. pv_config_source e = ''chainlink'' \<and> fires e) evaluations)
         (first_min (\<lambda>e. Total (unwrap_or PInf (pv_directional_gap e)))
           (filter (\<lambda>e. pv_current_price e \<noteq> None \<and> (\<not> has_triggering_source \<or> pv_should_trigger e)) evaluations))))"

definition trade_builder_ptb_stop_loss_final_reason_code :: "price_source \<Rightarrow> ptb_source_evaluation list \<Rightarrow> bool \<Rightarrow> string" where
  "trade_builder_ptb_stop_loss_final_reason_code current_price_source evaluations should_trigger =
    (if should_trigger then ''ptb_gap_threshold_hit''
     else if current_price_source \<in> {SrcChainlinkCexConsensusConfirmed, SrcCexMedianFast}
     then let chainlink = find (\<lambda>e. pv_config_source e = ''chainlink'') evaluations;
              cex_triggered = list_ex (\<lambda>e. pv_config_source e = ''cex_consensus'' \<and> pv_current_price e \<noteq> None
                \<and> pv_should_trigger e) evaluations
          in if cex_triggered \<and> (case Option.bind chainlink pv_directional_gap of Some gap \<Rightarrow> 0 < gap | None \<Rightarrow> False)
             then ''cex_trigger_chainlink_conflict''
             else if cex_triggered then ''cex_trigger_chainlink_unconfirmed''
             else ''ptb_gap_threshold_not_met''
     else ''ptb_gap_threshold_not_met'')"

record ptb_stop_loss_evaluation =
  pl_asset :: "string option"
  pl_direction :: "string option"
  pl_threshold_gap_usd :: f64
  pl_ptb_reference_price :: "f64 option"
  pl_current_price :: "f64 option"
  pl_current_price_source :: string
  pl_current_chainlink_price :: "f64 option"
  pl_directional_gap :: "f64 option"
  pl_reason_code :: string
  pl_should_trigger :: bool
  pl_source_evaluations :: "ptb_source_evaluation list"

text \<open>An evaluation that ends without a current price.\<close>

definition undecided :: "string option \<Rightarrow> string option \<Rightarrow> f64 \<Rightarrow> f64 option \<Rightarrow> string \<Rightarrow> string \<Rightarrow> ptb_source_evaluation list
    \<Rightarrow> ptb_stop_loss_evaluation" where
  "undecided asset direction threshold_gap_usd ptb_reference_price label reason_code evaluations =
     \<lparr>pl_asset = asset, pl_direction = direction, pl_threshold_gap_usd = threshold_gap_usd,
      pl_ptb_reference_price = ptb_reference_price, pl_current_price = None, pl_current_price_source = label,
      pl_current_chainlink_price = None, pl_directional_gap = None, pl_reason_code = reason_code,
      pl_should_trigger = False, pl_source_evaluations = evaluations\<rparr>"

definition decided :: "string \<Rightarrow> string \<Rightarrow> f64 \<Rightarrow> f64 option \<Rightarrow> price_source \<Rightarrow> ptb_source_evaluation list
    \<Rightarrow> ptb_source_evaluation \<Rightarrow> ptb_stop_loss_evaluation" where
  "decided asset direction threshold_gap_usd ptb_reference_price source evaluations selected_source =
    (let should_trigger = trade_builder_ptb_stop_loss_final_should_trigger source selected_source evaluations threshold_gap_usd
     in \<lparr>pl_asset = Some asset, pl_direction = Some direction, pl_threshold_gap_usd = threshold_gap_usd,
         pl_ptb_reference_price = ptb_reference_price,
         pl_current_price = Some (unwrap_or 0 (pv_current_price selected_source)),
         pl_current_price_source = pv_current_price_source selected_source,
         pl_current_chainlink_price = Option.bind (find (\<lambda>e. pv_config_source e = ''chainlink'') evaluations) pv_current_price,
         pl_directional_gap = pv_directional_gap selected_source,
         pl_reason_code = trade_builder_ptb_stop_loss_final_reason_code source evaluations should_trigger,
         pl_should_trigger = should_trigger, pl_source_evaluations = evaluations\<rparr>)"

definition trade_builder_evaluate_ptb_stop_loss_inputs ::
    "ptb_env \<Rightarrow> string \<Rightarrow> string \<Rightarrow> f64 \<Rightarrow> f64 option \<Rightarrow> price_source \<Rightarrow> string option \<Rightarrow> ptb_stop_loss_evaluation" where
  "trade_builder_evaluate_ptb_stop_loss_inputs env market_slug outcome_label base_threshold_gap_usd ptb_reference_price
      current_price_source time_decay_mode =
    (let threshold_gap_usd = trade_builder_ptb_stop_loss_effective_gap_usd_for_market env market_slug
           base_threshold_gap_usd time_decay_mode
     in case find_updown_scope_by_slug market_slug of
          None \<Rightarrow> undecided None None threshold_gap_usd ptb_reference_price (current_price_source_label current_price_source)
            ''unsupported_market'' []
        | Some scope_def \<Rightarrow>
          let asset = us_asset scope_def;
              source = normalize_for_asset current_price_source asset;
              label = current_price_source_label source
          in if us_timeframe scope_def \<notin> {''5m'', ''15m''}
             then undecided (Some asset) None threshold_gap_usd ptb_reference_price label ''unsupported_market'' []
             else case trade_builder_ptb_direction outcome_label of
               None \<Rightarrow> undecided (Some asset) None threshold_gap_usd ptb_reference_price label ''unsupported_outcome_label'' []
             | Some direction \<Rightarrow>
               (case or_opt (filter_opt (\<lambda>v. is_finite v \<and> 0 < v) ptb_reference_price)
                    (trade_builder_cached_ptb_reference_price env market_slug) of
                  None \<Rightarrow> undecided (Some asset) (Some direction) threshold_gap_usd None label ''ptb_reference_pending'' []
                | Some reference \<Rightarrow>
                  let evaluations = trade_builder_ptb_stop_loss_source_evaluations env source market_slug asset direction
                        threshold_gap_usd base_threshold_gap_usd reference
                  in case trade_builder_ptb_stop_loss_select_source evaluations of
                      None \<Rightarrow> undecided (Some asset) (Some direction) threshold_gap_usd (Some reference) label
                        ''ptb_current_price_unavailable'' evaluations
                    | Some selected_source \<Rightarrow>
                        decided asset direction threshold_gap_usd (Some reference) source evaluations selected_source))"

definition trade_builder_evaluate_ptb_stop_loss :: "ptb_env \<Rightarrow> ('ts, 'j) trade_builder_order \<Rightarrow> ptb_stop_loss_evaluation option" where
  "trade_builder_evaluate_ptb_stop_loss env order =
     Option.bind (trade_builder_ptb_stop_loss_gap_usd order) (\<lambda>threshold_gap_usd.
       if \<not> trade_builder_is_stop_loss_child order then None
       else Some (trade_builder_evaluate_ptb_stop_loss_inputs env (o_market_slug order) (o_outcome_label order) threshold_gap_usd
         (o_ptb_reference_price order) (price_source_parse (Some (o_ptb_current_price_source order)))
         (o_ptb_stop_loss_time_decay_mode order)))"

definition trade_builder_ptb_reference_price_persist_candidate ::
    "('ts, 'j) trade_builder_order \<Rightarrow> ptb_stop_loss_evaluation \<Rightarrow> f64 option" where
  "trade_builder_ptb_reference_price_persist_candidate order evaluation =
    (if (case o_ptb_reference_price order of Some v \<Rightarrow> is_finite v \<and> 0 < v | None \<Rightarrow> False) then None
     else filter_opt (\<lambda>v. is_finite v \<and> 0 < v) (pl_ptb_reference_price evaluation))"

section \<open>The payload of its events\<close>

definition ev_opt_bool :: "bool option \<Rightarrow> event_value" where
  "ev_opt_bool b = (case b of None \<Rightarrow> EvNull | Some x \<Rightarrow> EvBool x)"

definition venue_delta_to_value :: "cex_venue_delta_snapshot \<Rightarrow> event_value" where
  "venue_delta_to_value d = EvObj
     [(''venue'', EvStr (cex_venue_as_str (cv_venue d))), (''open_mid'', EvNum (cv_open_mid d)),
      (''current_mid'', EvNum (cv_current_mid d)), (''delta_usd'', EvNum (cv_delta_usd d)), (''side'', EvOptStr (cv_side d)),
      (''role'', EvOptStr (cv_role d)), (''directional_gap'', EvOptNum (cv_directional_gap d)),
      (''threshold_hit'', ev_opt_bool (cv_threshold_hit d)), (''open_source'', EvStr (cv_open_source d)),
      (''open_timestamp_ms'', EvId (cv_open_timestamp_ms d)), (''current_timestamp_ms'', EvId (cv_current_timestamp_ms d)),
      (''open_lag_ms'', EvId (cv_open_lag_ms d)), (''book_staleness_ms'', EvId (cv_book_staleness_ms d))]"

fun delta_value_to_value :: "venue_delta_value \<Rightarrow> event_value" where
  "delta_value_to_value (DeltaSnapshot d) = venue_delta_to_value d"
| "delta_value_to_value (DeltaError e) = EvObj [(''error'', EvOptStr e)]"

definition metadata_to_value :: "ptb_metadata \<Rightarrow> event_value" where
  "metadata_to_value m =
    (let deltas = (''venue_deltas'', EvObj (map (\<lambda>(k, v). (k, delta_value_to_value v)) (pm_venue_deltas m)));
         market = [(''market_slug'', EvStr (pm_market_slug m)), (''asset'', EvStr (pm_asset m)),
           (''timeframe'', EvStr (pm_timeframe m)), (''window_start_ms'', EvId (pm_window_start_ms m))]
     in EvObj (case pm_anchor_venue m of
          Some anchor_name \<Rightarrow> [(''consensus_mode'', EvStr (pm_mode m)), (''feed_study_mode'', EvStr (pm_mode m)),
            (''anchor_venue'', EvStr anchor_name)] @ market
            @ [(''confirming_venues'', EvList (map EvStr (pm_confirming_venues m))), deltas]
        | None \<Rightarrow> [(''mode'', EvStr (pm_mode m)), (''fallback_reason'', EvOptStr (pm_fallback_reason m))] @ market
            @ [(''sanity_band_usd'', EvOptNum (pm_sanity_band_usd m)), deltas]
            @ (case pm_selection m of None \<Rightarrow> [] | Some (selected_delta_usd, effective_price) \<Rightarrow>
                [(''selected_delta_usd'', EvNum selected_delta_usd), (''effective_price'', EvNum effective_price)])))"

definition source_evaluation_to_value :: "ptb_source_evaluation \<Rightarrow> event_value" where
  "source_evaluation_to_value e = EvObj
     [(''config_source'', EvStr (pv_config_source e)), (''current_price_source'', EvStr (pv_current_price_source e)),
      (''current_price'', EvOptNum (pv_current_price e)), (''directional_gap'', EvOptNum (pv_directional_gap e)),
      (''reason_code'', EvStr (pv_reason_code e)), (''should_trigger'', EvBool (pv_should_trigger e)),
      (''error_code'', EvOptStr (pv_error_code e)), (''error_detail'', EvOptStr (pv_error_detail e)),
      (''metadata'', case pv_metadata e of None \<Rightarrow> EvNull | Some m \<Rightarrow> metadata_to_value m)]"

definition append_trade_builder_ptb_stop_loss_payload ::
    "(string \<times> event_value) list \<Rightarrow> ptb_stop_loss_evaluation \<Rightarrow> (string \<times> event_value) list" where
  "append_trade_builder_ptb_stop_loss_payload payload e = payload @ [(''ptb_stop_loss'', EvObj
     [(''reason_code'', EvStr (pl_reason_code e)), (''asset'', EvOptStr (pl_asset e)), (''direction'', EvOptStr (pl_direction e)),
      (''threshold_gap_usd'', EvNum (pl_threshold_gap_usd e)), (''ptb_reference_price'', EvOptNum (pl_ptb_reference_price e)),
      (''current_price'', EvOptNum (pl_current_price e)), (''current_price_source'', EvStr (pl_current_price_source e)),
      (''current_chainlink_price'', EvOptNum (pl_current_chainlink_price e)),
      (''directional_gap'', EvOptNum (pl_directional_gap e)), (''should_trigger'', EvBool (pl_should_trigger e)),
      (''source_evaluations'', EvList (map source_evaluation_to_value (pl_source_evaluations e)))])]"

end
