(* ===== verification/Ptb_Safety.thy ===== *)
theory Ptb_Safety
  imports Ptb_Stop_Loss
begin

text \<open>
  What holds of the price-to-beat stop loss of \<open>Ptb_Stop_Loss\<close>: how the allowed gap moves with the time, when
  each kind of source fires, and that a stop loss only fires on a measured gap.
\<close>

section \<open>The allowed gap over the time\<close>

lemma one_sub: "is_finite r \<Longrightarrow> 1 - r = rnd (1 - fval r)" and one_add: "is_finite r \<Longrightarrow> 1 + r = rnd (1 + fval r)"
  by (cases r; simp add: f64_diff plus_f64_def f64_add_def one_f64_def uminus_f64_def)+

lemma rr_fin: "0 \<le> q \<Longrightarrow> rr q < huge \<Longrightarrow> rnd q = Fin (rr q)"
  by (simp add: rnd_def Let_def rr_nonneg zero_of_def)

lemma two_lt_huge: "2 < huge"
  by (simp add: huge_def)

lemma rr_upto_two: "0 \<le> q \<Longrightarrow> q \<le> 2 \<Longrightarrow> rnd q = Fin (rr q) \<and> rr q \<le> 2"
  using rr_mono [of q 2] rr_numeral [of "num.Bit0 num.One"] two_lt_huge by (intro conjI rr_fin) auto

lemma fclamp_unit: "x \<noteq> NaN \<Longrightarrow> is_finite (fclamp x 0 1) \<and> 0 \<le> fval (fclamp x 0 1) \<and> fval (fclamp x 0 1) \<le> 1"
  by (cases x) (auto simp: fclamp_def zero_f64_def one_f64_def)

lemma fclamp_unit_mono: "x \<le> y \<Longrightarrow> fval (fclamp x 0 1) \<le> fval (fclamp y 0 1)"
  by (cases x; cases y) (auto simp: fclamp_def zero_f64_def one_f64_def)

lemma ratio_arg:
  assumes "0 < w" "w \<le> 900"
  obtains c where "0 < c" "rnd (of_int (w * 1000)) = Fin c"
proof -
  have "rnd (of_int (w * 1000)) = Fin (of_int (w * 1000))" using assms by (intro rnd_int) simp
  then show ?thesis using that [of "of_int (w * 1000)"] assms(1) by simp
qed

lemma ratio_unit:
  assumes "0 < w" "w \<le> 900"
  shows "is_finite (elapsed_ratio t s w)" "0 \<le> fval (elapsed_ratio t s w)" "fval (elapsed_ratio t s w) \<le> 1"
proof -
  obtain c where c: "0 < c" "rnd (of_int (w * 1000)) = Fin c" by (rule ratio_arg [OF assms])
  have "rnd (of_int (max (t - s) 0)) / Fin c \<noteq> NaN"
    using rnd_not_nan c(1) unfolding mul_pos_cases [OF c(1)] by (auto split: f64.split)
  then show "is_finite (elapsed_ratio t s w)" "0 \<le> fval (elapsed_ratio t s w)" "fval (elapsed_ratio t s w) \<le> 1"
    using fclamp_unit unfolding elapsed_ratio_def c(2) by blast+
qed

lemma ratio_mono:
  assumes "0 < w" "w \<le> 900" "t1 \<le> t2"
  shows "fval (elapsed_ratio t1 s w) \<le> fval (elapsed_ratio t2 s w)"
proof -
  obtain c where c: "0 < c" "rnd (of_int (w * 1000)) = Fin c" by (rule ratio_arg [OF assms(1,2)])
  have "rnd (of_int (max (t1 - s) 0)) \<le> rnd (of_int (max (t2 - s) 0))" using assms(3) by (intro rnd_mono) simp
  then show ?thesis unfolding elapsed_ratio_def c(2) by (intro fclamp_unit_mono div_pos_mono c(1))
qed

text \<open>A product of a non-negative base, up to the sign of a zero.\<close>

lemma mul_le:
  assumes "0 \<le> q" "0 \<le> u"
  shows "Fin q * Fin u \<le> c \<longleftrightarrow> rnd (q * u) \<le> c" "c \<le> Fin q * Fin u \<longleftrightarrow> c \<le> rnd (q * u)"
  using assms by (auto simp: times_f64_def f64_mul_def sign_neg_def zero_of_def)

lemma mul_eq: "0 \<le> q \<Longrightarrow> 0 \<le> u \<Longrightarrow> Fin q * Fin u = rnd (q * u)"
  by (auto simp: times_f64_def f64_mul_def sign_neg_def zero_of_def)

definition gap_at :: "ptb_env \<Rightarrow> string \<Rightarrow> f64 \<Rightarrow> string \<Rightarrow> i64 \<Rightarrow> f64" where
  "gap_at env market_slug base mode t =
     trade_builder_ptb_stop_loss_effective_gap_usd_for_market (env\<lparr>pe_now_ms := t\<rparr>) market_slug base (Some mode)"

lemma scope_window: "0 < max (updown_scope_window_seconds sc) 1" "max (updown_scope_window_seconds sc) 1 \<le> 900"
  by (simp_all add: updown_scope_window_seconds_def)

lemma decayed_bounds:
  assumes q: "0 \<le> q" "rnd q = Fin q" and r: "is_finite r" "0 \<le> fval r" "fval r \<le> 1"
    and s: "is_finite s" "fval r \<le> fval s" "fval s \<le> 1"
  shows "fmax (Fin q * (1 - s)) 0 \<le> fmax (Fin q * (1 - r)) 0" "0 \<le> fmax (Fin q * (1 - s)) 0"
    "fmax (Fin q * (1 - r)) 0 \<le> Fin q" "Fin q \<le> Fin q * (1 + r)" "Fin q * (1 + r) \<le> Fin q * (1 + s)"
    "Fin q * (1 + s) \<le> Fin q * lit 2"
proof -
  note sub = rr_upto_two [of "1 - fval r"] rr_upto_two [of "1 - fval s"] rr_upto_two [of "1 + fval r"] rr_upto_two [of "1 + fval s"]
  have eqs: "1 - r = Fin (rr (1 - fval r))" "1 - s = Fin (rr (1 - fval s))" "1 + r = Fin (rr (1 + fval r))" "1 + s = Fin (rr (1 + fval s))"
    using sub r s by (simp_all add: one_sub one_add)
  have rs: "0 \<le> rr (1 - fval s)" "rr (1 - fval s) \<le> rr (1 - fval r)" "rr (1 - fval r) \<le> 1" "1 \<le> rr (1 + fval r)"
    "rr (1 + fval r) \<le> rr (1 + fval s)" "rr (1 + fval s) \<le> 2"
    using r s sub rr_mono [of "1 - fval s" "1 - fval r"] rr_mono [of "1 - fval r" 1] rr_mono [of 1 "1 + fval r"]
      rr_mono [of "1 + fval r" "1 + fval s"] rr_nonneg [of "1 - fval s"] by auto
  have prods: "Fin q * (1 - r) = rnd (q * rr (1 - fval r))" "Fin q * (1 - s) = rnd (q * rr (1 - fval s))"
    "Fin q * (1 + r) = rnd (q * rr (1 + fval r))" "Fin q * (1 + s) = rnd (q * rr (1 + fval s))" "Fin q * lit 2 = rnd (q * 2)"
    using mul_eq [OF q(1)] eqs rs by auto
  have le: "rnd (q * rr (1 - fval s)) \<le> rnd (q * rr (1 - fval r))" "rnd (q * rr (1 - fval r)) \<le> rnd (q * 1)"
    "rnd (q * 1) \<le> rnd (q * rr (1 + fval r))" "rnd (q * rr (1 + fval r)) \<le> rnd (q * rr (1 + fval s))"
    "rnd (q * rr (1 + fval s)) \<le> rnd (q * 2)" "0 \<le> rnd (q * rr (1 - fval s))"
    by (intro rnd_mono rnd_nonneg mult_left_mono mult_nonneg_nonneg q(1) rs)+
  have nn: "0 \<le> Fin q" using q(1) by (simp add: zero_f64_def)
  show "0 \<le> fmax (Fin q * (1 - s)) 0" by (rule fmax_bounds) simp
  show "fmax (Fin q * (1 - s)) 0 \<le> fmax (Fin q * (1 - r)) 0" unfolding prods by (rule fmax_mono [OF le(1)])
  show "fmax (Fin q * (1 - r)) 0 \<le> Fin q" using le(2) q(2) nn fmax_in [of "Fin q * (1 - r)" 0] unfolding prods by auto
  show "Fin q \<le> Fin q * (1 + r)" "Fin q * (1 + r) \<le> Fin q * (1 + s)" "Fin q * (1 + s) \<le> Fin q * lit 2"
    using le q(2) unfolding prods by simp_all
qed

text \<open>Over the window of the market a tightening gap only falls, from at most the configured one to no less
  than zero, and a relaxing gap only rises, from at least the configured one to at most its double.\<close>

lemma ptb_gap_time_decay:
  assumes "0 \<le> base" "is_finite base" "is_value base" "t1 \<le> t2"
  shows "gap_at env slug base ''tighten'' t2 \<le> gap_at env slug base ''tighten'' t1
    \<and> 0 \<le> gap_at env slug base ''tighten'' t2 \<and> gap_at env slug base ''tighten'' t1 \<le> base
    \<and> base \<le> gap_at env slug base ''relax'' t1 \<and> gap_at env slug base ''relax'' t1 \<le> gap_at env slug base ''relax'' t2
    \<and> gap_at env slug base ''relax'' t2 \<le> base * lit 2"
proof -
  obtain q where q: "base = Fin q" "0 \<le> q" "rnd q = Fin q"
    using assms(1-3) by (cases base) (auto simp: is_value_def zero_f64_def)
  have pos: "\<not> base < 0" using assms(1) by (rule f64_le_lt_contra)
  show ?thesis
  proof (cases "\<exists>sc s. find_updown_scope_by_slug slug = Some sc \<and> start_time (pe_timestamp_opt env) slug = Some s")
    case True
    then obtain sc s where sc: "find_updown_scope_by_slug slug = Some sc" "start_time (pe_timestamp_opt env) slug = Some s" by blast
    let ?w = "max (updown_scope_window_seconds sc) 1"
    have g: "gap_at env slug base ''tighten'' t = fmax (Fin q * (1 - elapsed_ratio t s ?w)) 0"
      "gap_at env slug base ''relax'' t = Fin q * (1 + elapsed_ratio t s ?w)" for t
      using pos by (simp_all add: gap_at_def trade_builder_ptb_stop_loss_effective_gap_usd_for_market_def sc Let_def q(1))
    note b = decayed_bounds [OF q(2,3) ratio_unit [OF scope_window, of t1 s sc] ratio_unit(1) [OF scope_window, of t2 s sc]
        ratio_mono [OF scope_window assms(4)] ratio_unit(3) [OF scope_window, of t2 s sc]]
    show ?thesis unfolding g unfolding q(1) by (intro conjI b)
  next
    case False
    then have "gap_at env slug base m t = base" for m t
      by (auto simp: gap_at_def trade_builder_ptb_stop_loss_effective_gap_usd_for_market_def Let_def split: option.split)
    moreover have "base \<le> base * lit 2"
      using mul_eq [OF q(2), of 2] rnd_mono [of q "q * 2"] q by simp
    ultimately show ?thesis using assms(1) by (simp add: f64_le_not_nan)
  qed
qed

section \<open>The sources\<close>

lemma single_fires: "pv_should_trigger (trade_builder_ptb_stop_loss_source_evaluation env src slug asset d thr ref) \<Longrightarrow>
    \<exists>p g. pv_current_price (trade_builder_ptb_stop_loss_source_evaluation env src slug asset d thr ref) = Some p
      \<and> pv_directional_gap (trade_builder_ptb_stop_loss_source_evaluation env src slug asset d thr ref) = Some g \<and> g \<le> thr"
  by (auto simp: trade_builder_ptb_stop_loss_source_evaluation_def Let_def unavailable_source_def split: sum.splits)

lemma single_config [simp]:
  "pv_config_source (trade_builder_ptb_stop_loss_source_evaluation env src slug asset d thr ref) = as_config_str src"
  by (auto simp: trade_builder_ptb_stop_loss_source_evaluation_def Let_def unavailable_source_def split: sum.split)

lemma decorated_hit: "hit (map_option (cex_consensus_decorated_delta d thr role) x) \<Longrightarrow>
    \<exists>s g. map_option (cex_consensus_decorated_delta d thr role) x = Some s \<and> cv_directional_gap s = Some g \<and> g \<le> thr"
  by (cases x) (auto simp: hit_def cex_consensus_decorated_delta_def Let_def unwrap_or_def)

lemma consensus_fires: "pv_should_trigger (evaluate_cex_consensus_ptb_stop_loss env slug d thr ref) \<Longrightarrow>
    \<exists>p g. pv_current_price (evaluate_cex_consensus_ptb_stop_loss env slug d thr ref) = Some p
      \<and> pv_directional_gap (evaluate_cex_consensus_ptb_stop_loss env slug d thr ref) = Some g \<and> g \<le> thr"
  unfolding evaluate_cex_consensus_ptb_stop_loss_def Let_def
  by (auto simp: unavailable_source_def split: option.splits dest!: decorated_hit)

lemma consensus_config [simp]: "pv_config_source (evaluate_cex_consensus_ptb_stop_loss env slug d thr ref) = ''cex_consensus''"
  unfolding evaluate_cex_consensus_ptb_stop_loss_def Let_def by (simp add: unavailable_source_def split: option.split)

lemma median_fires: "pv_should_trigger (evaluate_cex_median_fast_ptb_stop_loss env slug d thr base ref) \<Longrightarrow>
    \<exists>p g. pv_current_price (evaluate_cex_median_fast_ptb_stop_loss env slug d thr base ref) = Some p
      \<and> pv_directional_gap (evaluate_cex_median_fast_ptb_stop_loss env slug d thr base ref) = Some g \<and> g \<le> thr"
  unfolding evaluate_cex_median_fast_ptb_stop_loss_def Let_def
  by (auto simp: unavailable_source_def split: option.splits prod.splits)

lemma median_config [simp]: "pv_config_source (evaluate_cex_median_fast_ptb_stop_loss env slug d thr base ref) = ''cex_median_fast''"
  unfolding evaluate_cex_median_fast_ptb_stop_loss_def Let_def
  by (auto simp: unavailable_source_def split: option.splits prod.splits)

text \<open>An evaluation that fires has a price and a gap within the allowed one.\<close>

definition measured :: "f64 \<Rightarrow> ptb_source_evaluation \<Rightarrow> bool" where
  "measured thr e \<longleftrightarrow> (pv_should_trigger e \<longrightarrow> (\<exists>p g. pv_current_price e = Some p \<and> pv_directional_gap e = Some g \<and> g \<le> thr))"

lemma evaluations_measured:
  "list_all (measured thr) (trade_builder_ptb_stop_loss_source_evaluations env src slug asset d thr base ref)"
  unfolding trade_builder_ptb_stop_loss_source_evaluations_def Let_def measured_def
  using single_fires consensus_fires median_fires by simp

section \<open>The selection\<close>

lemma first_min_in: "first_min key xs = Some x \<Longrightarrow> x \<in> set xs"
proof -
  have "foldl (\<lambda>best y. if key y < key best then y else best) z ys \<in> insert z (set ys)" for z and ys
    by (induction ys arbitrary: z) auto
  then show "first_min key xs = Some x \<Longrightarrow> x \<in> set xs" by (cases xs) auto
qed

lemma first_min_None [simp]: "first_min key xs = None \<longleftrightarrow> xs = []"
  by (cases xs) simp_all

definition source_fires :: "ptb_source_evaluation \<Rightarrow> bool" where
  "source_fires e \<longleftrightarrow> pv_current_price e \<noteq> None \<and> pv_should_trigger e"

lemma measured_fires: "measured thr e \<Longrightarrow> pv_should_trigger e = source_fires e"
  by (auto simp: measured_def source_fires_def)

lemma select_some:
  assumes "trade_builder_ptb_stop_loss_select_source es = Some e"
  shows "e \<in> set es" "pv_current_price e \<noteq> None" "list_ex source_fires es \<Longrightarrow> source_fires e"
proof -
  let ?rest = "filter (\<lambda>e. pv_current_price e \<noteq> None \<and> (\<not> list_ex source_fires es \<or> pv_should_trigger e)) es"
  have "find (\<lambda>e. pv_config_source e = ''cex_median_fast'' \<and> source_fires e) es = Some e
      \<or> find (\<lambda>e. pv_config_source e = ''chainlink'' \<and> source_fires e) es = Some e
      \<or> first_min (\<lambda>e. Total (unwrap_or PInf (pv_directional_gap e))) ?rest = Some e"
    using assms unfolding trade_builder_ptb_stop_loss_select_source_def Let_def source_fires_def [symmetric] or_opt_def
    by (auto simp: source_fires_def split: option.splits)
  then have "e \<in> set es \<and> source_fires e \<or> e \<in> set ?rest"
    using first_min_in [of _ ?rest e] by (auto simp: find_Some_iff)
  then show "e \<in> set es" "pv_current_price e \<noteq> None" "list_ex source_fires es \<Longrightarrow> source_fires e"
    by (auto simp: source_fires_def)
qed

lemma select_none: "trade_builder_ptb_stop_loss_select_source es = None \<Longrightarrow> \<not> list_ex source_fires es"
  unfolding trade_builder_ptb_stop_loss_select_source_def Let_def or_opt_def
  by (auto simp: source_fires_def list_ex_iff filter_empty_conv split: option.splits)

section \<open>The decision\<close>

text \<open>When a stop loss with this configured source fires, from the evaluations of the single sources.\<close>

definition ptb_fires :: "price_source \<Rightarrow> f64 \<Rightarrow> (price_source \<Rightarrow> ptb_source_evaluation) \<Rightarrow> ptb_source_evaluation
    \<Rightarrow> ptb_source_evaluation \<Rightarrow> bool" where
  "ptb_fires source thr single consensus median =
    (let oracle = single SrcChainlink;
         confirmed = (pv_should_trigger oracle \<or> pv_current_price oracle = None \<and> pv_should_trigger consensus
           \<and> confirmed_cex_fallback_overshot (the (pv_directional_gap consensus)) thr)
     in case source of
          SrcCexMedianFast \<Rightarrow> pv_should_trigger median \<or> confirmed
        | SrcChainlinkCexConsensusConfirmed \<Rightarrow> confirmed
        | SrcCexConsensus \<Rightarrow> pv_should_trigger oracle \<or> pv_should_trigger consensus
        | SrcChainlinkCexConsensus \<Rightarrow> pv_should_trigger oracle \<or> pv_should_trigger consensus
        | SrcBinanceHyperliquid \<Rightarrow> pv_should_trigger (single SrcBinance) \<or> pv_should_trigger (single SrcHyperliquid)
        | s \<Rightarrow> pv_should_trigger (single s))"

lemma backstop_fires:
  assumes "pv_config_source oracle = ''chainlink''" "pv_config_source consensus = ''cex_consensus''"
    "measured thr oracle" "measured thr consensus" "list_all (\<lambda>e. pv_config_source e = ''cex_median_fast'') es"
  shows "confirmed_cex_backstop_should_trigger (es @ [oracle, consensus]) thr \<longleftrightarrow> pv_should_trigger oracle
    \<or> pv_current_price oracle = None \<and> pv_should_trigger consensus
      \<and> confirmed_cex_fallback_overshot (the (pv_directional_gap consensus)) thr"
proof -
  have "find (\<lambda>e. pv_config_source e = ''chainlink'') (es @ [oracle, consensus]) = Some oracle"
    "find (\<lambda>e. pv_config_source e = ''cex_consensus'') (es @ [oracle, consensus]) = Some consensus"
    using assms(5) by (induction es) (simp_all add: assms(1,2))
  then show ?thesis using assms(3,4)
    by (auto simp: confirmed_cex_backstop_should_trigger_def Let_def measured_def)
qed

lemma final_fires:
  assumes "list_all (measured thr) es"
  shows "(case trade_builder_ptb_stop_loss_select_source es of None \<Rightarrow> False
    | Some e \<Rightarrow> pv_should_trigger e) \<longleftrightarrow> list_ex pv_should_trigger es"
proof -
  have eq: "pv_should_trigger e \<longleftrightarrow> source_fires e" if "e \<in> set es" for e
    using assms that measured_fires unfolding list_all_iff by blast
  then have "list_ex pv_should_trigger es \<longleftrightarrow> list_ex source_fires es" by (auto simp: list_ex_iff)
  then show ?thesis using select_some [of es] select_none [of es] eq
    by (auto split: option.split simp: list_ex_iff)
qed

lemma final_or:
  assumes "list_all (measured thr) es" "list_ex pv_should_trigger es \<or> \<not> c"
  shows "(case trade_builder_ptb_stop_loss_select_source es of None \<Rightarrow> False | Some e \<Rightarrow> c) \<longleftrightarrow> c"
  using final_fires [OF assms(1)] assms(2) by (cases "trade_builder_ptb_stop_loss_select_source es") auto

lemma confirmed_decision:
  assumes "pv_config_source oracle = ''chainlink''" "pv_config_source consensus = ''cex_consensus''"
    "measured thr oracle" "measured thr consensus"
  shows "(case trade_builder_ptb_stop_loss_select_source [oracle, consensus] of None \<Rightarrow> False
      | Some e \<Rightarrow> trade_builder_ptb_stop_loss_final_should_trigger SrcChainlinkCexConsensusConfirmed e [oracle, consensus] thr)
    \<longleftrightarrow> pv_should_trigger oracle \<or> pv_current_price oracle = None \<and> pv_should_trigger consensus
      \<and> confirmed_cex_fallback_overshot (the (pv_directional_gap consensus)) thr"
proof -
  have b: "trade_builder_ptb_stop_loss_final_should_trigger SrcChainlinkCexConsensusConfirmed e [oracle, consensus] thr
      = (pv_should_trigger oracle \<or> pv_current_price oracle = None \<and> pv_should_trigger consensus
        \<and> confirmed_cex_fallback_overshot (the (pv_directional_gap consensus)) thr)" for e
    using backstop_fires [OF assms, of "[]"] by (simp add: trade_builder_ptb_stop_loss_final_should_trigger_def)
  show ?thesis unfolding b by (rule final_or) (use assms(3,4) in auto)
qed

lemma median_decision:
  assumes "pv_config_source oracle = ''chainlink''" "pv_config_source consensus = ''cex_consensus''"
    "pv_config_source median = ''cex_median_fast''" "measured thr oracle" "measured thr consensus" "measured thr median"
  shows "(case trade_builder_ptb_stop_loss_select_source [median, oracle, consensus] of None \<Rightarrow> False
      | Some e \<Rightarrow> trade_builder_ptb_stop_loss_final_should_trigger SrcCexMedianFast e [median, oracle, consensus] thr)
    \<longleftrightarrow> pv_should_trigger median \<or> pv_should_trigger oracle \<or> pv_current_price oracle = None \<and> pv_should_trigger consensus
      \<and> confirmed_cex_fallback_overshot (the (pv_directional_gap consensus)) thr"
proof -
  have "list_all (\<lambda>e. pv_config_source e = ''cex_median_fast'') [median]" by (simp add: assms(3))
  note bf = backstop_fires [OF assms(1,2,4,5) this]
  have m: "list_ex (\<lambda>e. pv_config_source e = ''cex_median_fast'' \<and> pv_current_price e \<noteq> None \<and> pv_should_trigger e)
      [median, oracle, consensus] \<longleftrightarrow> pv_should_trigger median"
    using assms(6) by (auto simp: assms(1-3) measured_def)
  have b: "trade_builder_ptb_stop_loss_final_should_trigger SrcCexMedianFast e [median, oracle, consensus] thr
      = (pv_should_trigger median \<or> pv_should_trigger oracle \<or> pv_current_price oracle = None \<and> pv_should_trigger consensus
        \<and> confirmed_cex_fallback_overshot (the (pv_directional_gap consensus)) thr)" for e
    using bf unfolding trade_builder_ptb_stop_loss_final_should_trigger_def m by simp
  show ?thesis unfolding b by (rule final_or) (use assms(4-6) in auto)
qed

text \<open>The decision of an evaluation that gets as far as the sources.\<close>

lemma evaluation_decides:
  assumes "find_updown_scope_by_slug slug = Some sc" "us_timeframe sc \<in> {''5m'', ''15m''}"
    "trade_builder_ptb_direction outcome = Some d" "is_finite ref" "0 < ref"
    "thr = trade_builder_ptb_stop_loss_effective_gap_usd_for_market env slug base mode"
    "es = trade_builder_ptb_stop_loss_source_evaluations env (normalize_for_asset source (us_asset sc)) slug (us_asset sc) d thr base ref"
  shows "trade_builder_evaluate_ptb_stop_loss_inputs env slug outcome base (Some ref) source mode =
    (case trade_builder_ptb_stop_loss_select_source es of
       None \<Rightarrow> undecided (Some (us_asset sc)) (Some d) thr (Some ref)
         (current_price_source_label (normalize_for_asset source (us_asset sc))) ''ptb_current_price_unavailable'' es
     | Some e \<Rightarrow> decided (us_asset sc) d thr (Some ref) (normalize_for_asset source (us_asset sc)) es e)"
proof -
  have t: "(us_timeframe sc \<notin> {''5m'', ''15m''}) = False" using assms(2) by blast
  have r: "or_opt (filter_opt (\<lambda>v. is_finite v \<and> 0 < v) (Some ref)) x = Some ref" for x
    using assms(4,5) by (simp add: or_opt_def)
  show ?thesis unfolding trade_builder_evaluate_ptb_stop_loss_inputs_def Let_def assms(7)
    by (simp only: assms(1,3,6) option.case t if_False r)
qed

lemma normalize_idem [simp]: "normalize_for_asset (normalize_for_asset s a) a = normalize_for_asset s a"
  by (auto simp: normalize_for_asset_def)

text \<open>C28: which prices make a stop loss fire. It fires with the oracle or the consensus of the exchanges, in the
  confirmed mode with the oracle and only without an oracle price with a consensus that overshoots,
  in the median mode also with the median, and else with the configured exchange; without prices it does not fire.\<close>

theorem ptb_stop_loss_decision:
  assumes "find_updown_scope_by_slug slug = Some sc" "us_timeframe sc \<in> {''5m'', ''15m''}"
    "trade_builder_ptb_direction outcome = Some d" "is_finite ref" "0 < ref"
    "thr = trade_builder_ptb_stop_loss_effective_gap_usd_for_market env slug base mode"
  shows "pl_should_trigger (trade_builder_evaluate_ptb_stop_loss_inputs env slug outcome base (Some ref) source mode)
    \<longleftrightarrow> ptb_fires (normalize_for_asset source (us_asset sc)) thr
      (\<lambda>s. trade_builder_ptb_stop_loss_source_evaluation env s slug (us_asset sc) d thr ref)
      (evaluate_cex_consensus_ptb_stop_loss env slug d thr ref)
      (evaluate_cex_median_fast_ptb_stop_loss env slug d thr base ref)"
proof -
  let ?src = "normalize_for_asset source (us_asset sc)"
  let ?single = "\<lambda>s. trade_builder_ptb_stop_loss_source_evaluation env s slug (us_asset sc) d thr ref"
  let ?cons = "evaluate_cex_consensus_ptb_stop_loss env slug d thr ref"
  let ?med = "evaluate_cex_median_fast_ptb_stop_loss env slug d thr base ref"
  define es where "es = trade_builder_ptb_stop_loss_source_evaluations env ?src slug (us_asset sc) d thr base ref"
  have m: "list_all (measured thr) es" unfolding es_def by (rule evaluations_measured)
  have es: "es = (if ?src = SrcCexMedianFast then [?med, ?single SrcChainlink, ?cons]
      else if ?src \<in> {SrcCexConsensus, SrcChainlinkCexConsensus, SrcChainlinkCexConsensusConfirmed} then [?single SrcChainlink, ?cons]
      else if ?src = SrcBinanceHyperliquid then [?single SrcBinance, ?single SrcHyperliquid] else [?single ?src])"
    by (simp add: es_def trade_builder_ptb_stop_loss_source_evaluations_def Let_def)
  have mm: "measured thr (?single s)" "measured thr ?cons" "measured thr ?med" for s
    using single_fires consensus_fires median_fires by (simp_all add: measured_def)
  have final: "pl_should_trigger (trade_builder_evaluate_ptb_stop_loss_inputs env slug outcome base (Some ref) source mode)
      = (case trade_builder_ptb_stop_loss_select_source es of None \<Rightarrow> False
        | Some e \<Rightarrow> trade_builder_ptb_stop_loss_final_should_trigger ?src e es thr)"
    unfolding evaluation_decides [OF assms(1-5) assms(6) es_def] by (simp add: undecided_def decided_def Let_def split: option.split)
  consider "?src = SrcCexMedianFast" | "?src = SrcChainlinkCexConsensusConfirmed"
    | "?src \<noteq> SrcCexMedianFast" "?src \<noteq> SrcChainlinkCexConsensusConfirmed" by blast
  then show ?thesis
  proof cases
    case 1
    then have e: "es = [?med, ?single SrcChainlink, ?cons]" by (simp add: es)
    show ?thesis using median_decision [of "?single SrcChainlink" ?cons ?med, OF _ _ _ mm(1,2,3)]
      unfolding final 1 e by (simp add: ptb_fires_def Let_def)
  next
    case 2
    then have e: "es = [?single SrcChainlink, ?cons]" by (simp add: es)
    show ?thesis using confirmed_decision [of "?single SrcChainlink" ?cons, OF _ _ mm(1,2)]
      unfolding final 2 e by (simp add: ptb_fires_def Let_def)
  next
    case 3
    then have "pl_should_trigger (trade_builder_evaluate_ptb_stop_loss_inputs env slug outcome base (Some ref) source mode)
        \<longleftrightarrow> list_ex pv_should_trigger es"
      unfolding final final_fires [OF m, symmetric]
      by (simp add: trade_builder_ptb_stop_loss_final_should_trigger_def split: option.split)
    then show ?thesis using 3 unfolding es by (cases ?src) (simp_all add: ptb_fires_def Let_def)
  qed
qed

section \<open>Firing on a measured gap\<close>

lemma final_measured:
  assumes "list_all (measured thr) es" "trade_builder_ptb_stop_loss_select_source es = Some e"
    "trade_builder_ptb_stop_loss_final_should_trigger src e es thr"
  shows "\<exists>p g. pv_current_price e = Some p \<and> pv_directional_gap e = Some g \<and> g \<le> thr"
proof -
  have "source_fires x" if "x \<in> set es" "pv_current_price x \<noteq> None" "pv_should_trigger x" for x using that by (simp add: source_fires_def)
  moreover have "pv_should_trigger e \<Longrightarrow> source_fires e" using select_some(2) [OF assms(2)] by (simp add: source_fires_def)
  moreover have "e \<in> set es" by (rule select_some(1) [OF assms(2)])
  moreover have "confirmed_cex_backstop_should_trigger es thr \<Longrightarrow> \<exists>x \<in> set es. pv_current_price x \<noteq> None \<and> pv_should_trigger x"
    unfolding confirmed_cex_backstop_should_trigger_def Let_def
    by (auto simp: find_Some_iff split: option.splits if_splits)
  ultimately have "list_ex source_fires es"
    using assms(3) unfolding trade_builder_ptb_stop_loss_final_should_trigger_def list_ex_iff by (metis (no_types, lifting))
  then have "source_fires e" by (rule select_some(3) [OF assms(2)])
  then show ?thesis using assms(1) select_some(1) [OF assms(2)] by (auto simp: list_all_iff measured_def source_fires_def)
qed

text \<open>A stop loss only fires on a price: whatever is configured and whatever the sources return, when an
  evaluation fires it reports a current price and a directional gap within the gap allowed at that time.\<close>

lemma ptb_fires_on_measured_gap:
  assumes "trade_builder_evaluate_ptb_stop_loss env order = Some e" "pl_should_trigger e"
  shows "\<exists>p g. pl_current_price e = Some p \<and> pl_directional_gap e = Some g \<and> g \<le> pl_threshold_gap_usd e"
proof -
  obtain base src mode where e: "e = trade_builder_evaluate_ptb_stop_loss_inputs env (o_market_slug order) (o_outcome_label order)
      base (o_ptb_reference_price order) src mode"
    using assms(1) by (auto simp: trade_builder_evaluate_ptb_stop_loss_def bind_eq_Some_conv split: if_splits)
  have "\<exists>a d thr r s es x. e = decided a d thr r s es x \<and> list_all (measured thr) es
      \<and> trade_builder_ptb_stop_loss_select_source es = Some x"
    using assms(2) unfolding e trade_builder_evaluate_ptb_stop_loss_inputs_def Let_def
    by (auto simp: undecided_def split: option.splits if_splits intro!: exI evaluations_measured)
  then obtain a d thr r s es x where x: "e = decided a d thr r s es x" "list_all (measured thr) es"
      "trade_builder_ptb_stop_loss_select_source es = Some x" by blast
  then have "trade_builder_ptb_stop_loss_final_should_trigger s x es thr" using assms(2) by (simp add: decided_def Let_def)
  then show ?thesis using final_measured [OF x(2,3)] by (auto simp: x(1) decided_def Let_def)
qed

section \<open>The median of hype\<close>

lemma sort_total_pair: "sort_total [b, c, c] ! 1 = c"
  by (simp add: sort_total_def)

lemma rnd_not_neg: "rnd (3 * q) < Fin 0 \<Longrightarrow> 0 \<le> q \<Longrightarrow> False"
  using f64_le_lt_contra [OF rnd_nonneg [of "3 * q"]] by (simp add: zero_f64_def)

text \<open>For the asset hype the median of three exchanges is the price of one. Its anchor is Coinbase, which is
  also the third venue, so whenever Coinbase has a fresh book the current price is moved by Coinbase's
  delta, whatever Binance says; and when Binance has none, the check that two exchanges agree and the
  refusal of a single one do not apply, as Coinbase is counted twice.\<close>

lemma hype_median_is_coinbase:
  assumes "find_updown_scope_by_slug slug = Some sc" "us_asset sc = ''hype''"
    "start_time (pe_timestamp_opt env) slug = Some s" "load_cex_median_fast_leg env ''hype'' s Coinbase = Inr c"
    "is_finite (cv_delta_usd c)"
  shows "pv_current_price (evaluate_cex_median_fast_ptb_stop_loss env slug d thr base ref) = Some (ref + cv_delta_usd c)"
proof -
  let ?band = "lit 3 * \<bar>base\<bar>"
  let ?sel = "\<lambda>valid. select_cex_median_fast_delta (pe_show_f64 env) valid d ?band"
  have venues: "active_spot_venues_for_asset ''hype'' = [Binance, Coinbase, Coinbase]"
    by (simp add: active_spot_venues_for_asset_def active_anchor_venue_for_asset_def Let_def text_eval)
  have three: "\<exists>m. ms_delta_mode (?sel [b, c, c]) = Some (cv_delta_usd c, m)" for b
    using sort_total_pair by (simp add: select_cex_median_fast_delta_def)
  have "cv_delta_usd c - cv_delta_usd c = 0"
    using assms(5) by (cases "cv_delta_usd c") (auto simp: f64_diff plus_f64_def f64_add_def uminus_f64_def zero_f64_def)
  moreover have "\<not> ?band < 0"
  proof -
    have "0 \<le> \<bar>base\<bar> \<or> \<bar>base\<bar> = NaN" by (cases base) (auto simp: abs_f64_def sign_neg_def zero_f64_def)
    then show ?thesis
      by (cases "\<bar>base\<bar>") (auto simp: times_f64_def f64_mul_def sign_neg_def zero_f64_def inf_of_def zero_of_def Let_def
          dest: rnd_not_neg)
  qed
  ultimately have two: "\<exists>m. ms_delta_mode (?sel [c, c]) = Some (cv_delta_usd c, m)"
    by (simp add: select_cex_median_fast_delta_def Let_def fmin_def fmax_def abs_f64_def sign_neg_def zero_f64_def)
  have "\<exists>m. ms_delta_mode (?sel (List.map_filter (\<lambda>(_, leg). result_opt leg)
      (map (\<lambda>venue. (venue, load_cex_median_fast_leg env ''hype'' s venue)) (active_spot_venues_for_asset ''hype'')))) = Some (cv_delta_usd c, m)"
    using two three by (cases "load_cex_median_fast_leg env ''hype'' s Binance")
      (simp_all add: venues assms(4) map_filter_simps result_opt_def)
  then show ?thesis
    unfolding evaluate_cex_median_fast_ptb_stop_loss_def Let_def by (auto simp: assms(1-3))
qed

section \<open>Witnesses\<close>

text \<open>The middle of a window that starts at second 300, the oracle at 90 and no books but, for hype, one of Coinbase.\<close>

definition hype_book :: "i64 \<Rightarrow> rat \<Rightarrow> string \<Rightarrow> cex_book_sample" where
  "hype_book ms p source = \<lparr>cb_venue = Coinbase, cb_asset = ''hype'', cb_timestamp_ms = ms, cb_bid = Fin p, cb_ask = Fin p,
     cb_bid_size = None, cb_ask_size = None, cb_source = source\<rparr>"

definition hype_entry :: asset_state where
  "hype_entry = default_asset_state\<lparr>as_coinbase := default_venue_state\<lparr>vs_latest_book := Some (hype_book 450000 90 ''ticker''),
     vs_pinned_window_opens := [300000 \<mapsto> hype_book 300000 100 ''rest_open'']\<rparr>\<rparr>"

definition ptb_sample_env :: ptb_env where
  "ptb_sample_env = \<lparr>pe_service = new_service\<lparr>sv_state := [''hype'' \<mapsto> hype_entry]\<rparr>, pe_now_ms = 450000,
     pe_timestamp_opt = (\<lambda>t. Some (t * 1000)), pe_chainlink = (\<lambda>_. Inr (Fin 90)), pe_cached_reference = (\<lambda>_. None),
     pe_show_f64 = (\<lambda>_. [])\<rparr>"

lemma sample_slugs:
  "find_updown_scope_by_slug ''btc-updown-5m-300'' = Some (updown_scope ''btc'' ''5m'')"
  "find_updown_scope_by_slug ''hype-updown-5m-300'' = Some (updown_scope ''hype'' ''5m'')"
  by (simp_all add: find_updown_scope_by_slug_def supported_updown_scope_defs_def updown_scope_def text_eval Let_def)

lemma scope_fields [simp]: "us_asset (updown_scope a t) = a" "us_timeframe (updown_scope a t) = t"
  by (simp_all add: updown_scope_def)

lemma sample_start: "start_time (pe_timestamp_opt ptb_sample_env) ''hype-updown-5m-300'' = Some 300000"
proof -
  have "parse_i64 ''300'' = Some 300" by code_simp
  then show ?thesis by (simp add: start_time_def ptb_sample_env_def parse_unix_start_def)
qed

lemma rnd_ints: "rnd 4 = Fin 4" "rnd (- 10) = Fin (- 10)" "rnd 180 = Fin 180" "rnd 200 = Fin 200" "rnd 90 = Fin 90" "rnd 100 = Fin 100"
  using rnd_int [of 4] rnd_int [of "- 10"] rnd_int [of 180] rnd_int [of 200] rnd_int [of 90] rnd_int [of 100] by simp_all

theorem ptb_gap_time_decay_witness:
  "gap_at ptb_sample_env ''btc-updown-5m-300'' (Fin 4) ''tighten'' 450000 \<le> gap_at ptb_sample_env ''btc-updown-5m-300'' (Fin 4) ''tighten'' 300000
   \<and> gap_at ptb_sample_env ''btc-updown-5m-300'' (Fin 4) ''tighten'' 300000 \<le> Fin 4
   \<and> Fin 4 \<le> gap_at ptb_sample_env ''btc-updown-5m-300'' (Fin 4) ''relax'' 300000"
  using ptb_gap_time_decay [of "Fin 4" 300000 450000 ptb_sample_env "''btc-updown-5m-300''"]
  by (simp add: is_value_def rnd_ints zero_f64_def)

lemma oracle_evaluation:
  "pv_should_trigger (trade_builder_ptb_stop_loss_source_evaluation ptb_sample_env SrcChainlink slug ''btc'' ''up'' (Fin (- 5)) (Fin 100))"
proof -
  have "Fin 90 - Fin 100 = Fin (- 10)" by (simp add: f64_diff plus_f64_def f64_add_def uminus_f64_def rnd_ints)
  then show ?thesis
    by (simp add: trade_builder_ptb_stop_loss_source_evaluation_def resolve_price_to_beat_current_price_snapshot_def
        normalize_for_asset_def composite_sources_def resolve_current_price_result_for_source_def ptb_sample_env_def
        trade_builder_ptb_directional_gap_def Let_def)
qed

lemma up_direction: "trade_builder_ptb_direction ''Up'' = Some ''up''"
  by (simp add: trade_builder_ptb_direction_def text_eval Let_def)

lemma negative_gap: "trade_builder_ptb_stop_loss_effective_gap_usd_for_market env slug (Fin (- 5)) mode = Fin (- 5)"
  by (simp add: trade_builder_ptb_stop_loss_effective_gap_usd_for_market_def Let_def zero_f64_def)

lemma sample_fires: "pl_should_trigger (trade_builder_evaluate_ptb_stop_loss_inputs ptb_sample_env ''btc-updown-5m-300'' ''Up'' (Fin (- 5))
    (Some (Fin 100)) SrcChainlink None)"
proof -
  let ?single = "trade_builder_ptb_stop_loss_source_evaluation ptb_sample_env SrcChainlink ''btc-updown-5m-300'' ''btc'' ''up'' (Fin (- 5)) (Fin 100)"
  have n: "normalize_for_asset SrcChainlink a = SrcChainlink" for a by (simp add: normalize_for_asset_def)
  have es: "trade_builder_ptb_stop_loss_source_evaluations ptb_sample_env SrcChainlink ''btc-updown-5m-300'' ''btc'' ''up'' (Fin (- 5)) (Fin (- 5))
      (Fin 100) = [?single]"
    by (simp add: trade_builder_ptb_stop_loss_source_evaluations_def n)
  have "measured (Fin (- 5)) ?single" using single_fires by (simp add: measured_def)
  then have "list_ex source_fires [?single]" 
    using oracle_evaluation measured_fires [of "Fin (- 5)" ?single] by simp
  then obtain e where "trade_builder_ptb_stop_loss_select_source [?single] = Some e" using select_none by (metis option.exhaust)
  moreover from this have "e = ?single" using select_some(1) by fastforce
  ultimately show ?thesis
    using evaluation_decides [OF sample_slugs(1) _ up_direction, of "Fin 100" "Fin (- 5)" ptb_sample_env "Fin (- 5)" None _ SrcChainlink]
      oracle_evaluation [of "''btc-updown-5m-300''"]
    by (simp add: negative_gap n es decided_def trade_builder_ptb_stop_loss_final_should_trigger_def Let_def zero_f64_def)
qed

theorem ptb_stop_loss_decision_witness:
  "ptb_fires SrcChainlink (Fin (- 5))
     (\<lambda>s. trade_builder_ptb_stop_loss_source_evaluation ptb_sample_env s ''btc-updown-5m-300'' ''btc'' ''up'' (Fin (- 5)) (Fin 100))
     (evaluate_cex_consensus_ptb_stop_loss ptb_sample_env ''btc-updown-5m-300'' ''up'' (Fin (- 5)) (Fin 100))
     (evaluate_cex_median_fast_ptb_stop_loss ptb_sample_env ''btc-updown-5m-300'' ''up'' (Fin (- 5)) (Fin (- 5)) (Fin 100))"
  using ptb_stop_loss_decision [OF sample_slugs(1) _ up_direction, of "Fin 100" "Fin (- 5)" ptb_sample_env "Fin (- 5)" None SrcChainlink]
    sample_fires
  by (simp add: negative_gap normalize_for_asset_def zero_f64_def)

definition sample_stop_loss :: "(nat, nat) trade_builder_order" where
  "sample_stop_loss = sample_order\<lparr>o_market_slug := ''btc-updown-5m-300'', o_outcome_label := ''Up'',
     o_trigger_condition := Some ''cross_below'', o_ptb_stop_loss_gap_usd := Some (Fin (- 5)),
     o_ptb_reference_price := Some (Fin 100), o_ptb_current_price_source := ''chainlink''\<rparr>"

lemma sample_stop_loss_evaluation: "trade_builder_evaluate_ptb_stop_loss ptb_sample_env sample_stop_loss =
    Some (trade_builder_evaluate_ptb_stop_loss_inputs ptb_sample_env ''btc-updown-5m-300'' ''Up'' (Fin (- 5)) (Some (Fin 100)) SrcChainlink None)"
proof -
  have "price_source_parse (Some ''chainlink'') = SrcChainlink" by (simp add: price_source_parse_def text_eval Let_def)
  then show ?thesis
    by (simp add: trade_builder_evaluate_ptb_stop_loss_def trade_builder_ptb_stop_loss_gap_usd_def sample_stop_loss_def
        sample_order_def trade_builder_is_stop_loss_child_def)
qed

theorem ptb_fires_on_measured_gap_witness:
  "\<exists>e p g. trade_builder_evaluate_ptb_stop_loss ptb_sample_env sample_stop_loss = Some e \<and> pl_should_trigger e
     \<and> pl_current_price e = Some p \<and> pl_directional_gap e = Some g \<and> g \<le> pl_threshold_gap_usd e"
  using ptb_fires_on_measured_gap [OF sample_stop_loss_evaluation sample_fires] sample_stop_loss_evaluation sample_fires by blast

lemma hype_leg: "\<exists>c. load_cex_median_fast_leg ptb_sample_env ''hype'' 300000 Coinbase = Inr c \<and> cv_delta_usd c = Fin (- 10)"
proof -
  have "mid (hype_book 450000 90 source) = Fin 90" "mid (hype_book 300000 100 source) = Fin 100" for source
    by (simp_all add: mid_def hype_book_def plus_f64_def f64_add_def divide_f64_def f64_div_def sign_neg_def rnd_ints)
  moreover have "Fin 90 - Fin 100 = Fin (- 10)" by (simp add: f64_diff plus_f64_def f64_add_def uminus_f64_def rnd_ints)
  moreover have "asset_entry (pe_service ptb_sample_env) ''hype'' = Inr hype_entry"
    by (simp add: asset_entry_def ptb_sample_env_def ok_or_def text_eval Let_def)
  moreover have "cb_timestamp_ms (hype_book t p source) = t" "cb_source (hype_book t p source) = source" for t p source
    by (simp_all add: hype_book_def)
  ultimately show ?thesis
    by (simp add: load_cex_median_fast_leg_def get_cex_venue_delta_snapshot_def service_venue_delta_snapshot_def
        venue_delta_snapshot_def hype_entry_def default_venue_state_def window_open_book_def venue_requires_rest_open_def
        ptb_sample_env_def ok_or_def res_bind_def ensure_stale_def ensure_def cex_median_fast_max_stale_ms_def sat_sub_i64_def
        sat_i64_def i64_min_def i64_max_def Let_def)
qed

theorem hype_median_is_coinbase_witness:
  "pv_current_price (evaluate_cex_median_fast_ptb_stop_loss ptb_sample_env ''hype-updown-5m-300'' ''up'' (Fin (- 5)) (Fin (- 5)) (Fin 100))
     = Some (Fin 90)"
proof -
  obtain c where c: "load_cex_median_fast_leg ptb_sample_env ''hype'' 300000 Coinbase = Inr c" "cv_delta_usd c = Fin (- 10)"
    using hype_leg by blast
  have "Fin 100 + Fin (- 10) = Fin 90" by (simp add: plus_f64_def f64_add_def rnd_ints)
  then show ?thesis
    using hype_median_is_coinbase [OF sample_slugs(2) _ sample_start c(1)] c(2) by simp
qed

end
