(* ===== verification/Exit_Priority.thy ===== *)
theory Exit_Priority
  imports Exit_Sync Ptb_Stop_Loss
begin

text \<open>
  The priority of stop losses over take profits (\<open>trade_builder/exit_sibling_priority.rs\<close>) and the batch of
  exits of one parent that trigger together (\<open>trade_builder/parallel_exit_batch.rs\<close>). The state is the
  list of operations sent to the database, as in \<open>Exit_Sync\<close>. What other files answer is an argument: the parent,
  the siblings as listed, the inventory and the minimum size of the market; \<open>env\<close> is what the
  price-to-beat stop loss reads.
\<close>

section \<open>The inventory of the stop losses\<close>

record preemption_inventory_plan =
  ip_current_parent_qty :: "f64 option"
  ip_sibling_remaining_qtys :: "(i64 \<times> f64) list"

definition no_plan :: preemption_inventory_plan where
  "no_plan = \<lparr>ip_current_parent_qty = None, ip_sibling_remaining_qtys = []\<rparr>"

definition remaining_qty_for :: "preemption_inventory_plan \<Rightarrow> i64 \<Rightarrow> f64 option" where
  "remaining_qty_for plan order_id = map_option snd (find (\<lambda>(candidate_id, _). candidate_id = order_id) (ip_sibling_remaining_qtys plan))"

definition live_stop_losses :: "bool \<Rightarrow> ('ts, 'j) trade_builder_order list \<Rightarrow> ('ts, 'j) trade_builder_order list" where
  "live_stop_losses hard siblings = filter (\<lambda>s. trade_builder_is_stop_loss_child s \<and> trade_builder_is_hard_exit_child s = hard
     \<and> \<not> trade_builder_is_terminal_status (o_status s)) siblings"

definition plan_trade_builder_preempted_stop_loss_inventory ::
    "('ts, 'j) trade_builder_order list \<Rightarrow> f64 option \<Rightarrow> f64 option \<Rightarrow> preemption_inventory_plan" where
  "plan_trade_builder_preempted_stop_loss_inventory siblings current_parent_qty order_min_size =
    (case filter_opt (\<lambda>qty. exit_qty_tolerance < qty) current_parent_qty of
       None \<Rightarrow> no_plan
     | Some qty \<Rightarrow>
        \<lparr>ip_current_parent_qty = Some qty,
         ip_sibling_remaining_qtys = sort_key fst
           (map (\<lambda>s. (o_id s, round_trade_builder_share_qty qty)) (live_stop_losses True siblings)
            @ trade_builder_ladder_family_target_qtys (live_stop_losses False siblings) qty order_min_size)\<rparr>)"

definition sync_trade_builder_preempted_stop_loss_inventory :: "'ts exit_op database \<Rightarrow>
    (string, ('ts, 'j) trade_builder_order option) result \<Rightarrow> ('ts exit_op list, string, (f64 \<times> string) option) stm \<Rightarrow> f64 option
    \<Rightarrow> ('ts, 'j) trade_builder_order list \<Rightarrow> ('ts exit_op list, string, preemption_inventory_plan) stm" where
  "sync_trade_builder_preempted_stop_loss_inventory db get_parent resolve_inventory order_min_size siblings =
     st_bind (st_result get_parent) (\<lambda>parent.
       case parent of
         None \<Rightarrow> st_return no_plan
       | Some parent_order \<Rightarrow>
          st_bind resolve_inventory (\<lambda>inventory.
            let plan = plan_trade_builder_preempted_stop_loss_inventory siblings (map_option fst inventory) order_min_size
            in case ip_current_parent_qty plan of
                 None \<Rightarrow> st_return plan
               | Some qty \<Rightarrow>
                  st_then (trade_builder_sync_hard_exit_remaining_qty db (live_stop_losses True siblings) qty ''sl_priority_preempted'')
                 (st_then (trade_builder_sync_ladder_family_remaining_qty db (live_stop_losses False siblings) qty order_min_size
                    ''sl_priority_preempted'')
                 (st_return plan))))"

section \<open>One cancels the others\<close>

definition oco_skips :: "string \<Rightarrow> ('ts, 'j) trade_builder_order \<Rightarrow> bool" where
  "oco_skips why sibling \<longleftrightarrow>
     o_status sibling \<in> {''completed'', ''canceled'', ''expired'', ''filled'', ''canceled_requested''}
     \<or> trade_builder_stop_loss_latched sibling \<and> why \<noteq> ''stop_loss_latched''"

definition oco_cancel_sibling :: "'ts exit_op database \<Rightarrow> i64 \<Rightarrow> ('ts, 'j) trade_builder_order \<Rightarrow> string
    \<Rightarrow> ('ts, 'j) trade_builder_order \<Rightarrow> ('ts exit_op list, string, i64 list) stm" where
  "oco_cancel_sibling db parent_order_id order why sibling =
    (if oco_skips why sibling then st_return []
     else st_then (send db (SetTradeBuilderOrderStatus (o_id sibling) ''canceled_requested'' (Some ''oco_sibling_triggered'')))
         (st_then (send db (AppendTradeBuilderOrderEvent (o_id sibling) ''oco_cancel_requested''
            [(''parent_order_id'', EvId parent_order_id), (''triggered_by_order_id'', EvId (o_id order)),
             (''reason'', EvStr why), (''status_before'', EvStr (o_status sibling)),
             (''status_after'', EvStr ''canceled_requested''),
             (''active_exchange_order_id'', EvOptStr (o_active_exchange_order_id sibling))]))
         (st_return [o_id sibling])))"

definition request_trade_builder_oco_cancel_for_siblings :: "'ts exit_op database
    \<Rightarrow> (string, ('ts, 'j) trade_builder_order list) result \<Rightarrow> ('ts, 'j) trade_builder_order \<Rightarrow> string
    \<Rightarrow> ('ts exit_op list, string, i64 list) stm" where
  "request_trade_builder_oco_cancel_for_siblings db list_siblings order why =
    (case o_parent_order_id order of
       None \<Rightarrow> st_return []
     | Some parent_order_id \<Rightarrow>
        if o_side order \<noteq> ''sell'' then st_return []
        else st_bind (st_result list_siblings) (\<lambda>siblings.
          st_bind (st_collect (oco_cancel_sibling db parent_order_id order why) siblings) (\<lambda>sibling_order_ids.
          st_then (if sibling_order_ids \<noteq> []
              then send db (AppendTradeBuilderOrderEvent (o_id order) ''oco_siblings_cancel_requested''
                [(''parent_order_id'', EvId parent_order_id), (''sibling_order_ids'', EvIds sibling_order_ids),
                 (''reason'', EvStr why)])
              else st_return ())
          (st_return sibling_order_ids))))"

section \<open>A stop loss before a take profit\<close>

record preemption_decision =
  pd_current_price :: f64
  pd_ready_for_inline_submit :: bool
  pd_ptb_stop_loss_evaluation :: "ptb_stop_loss_evaluation option"

record preemption =
  pr_tp_preempted :: bool
  pr_ready_sl_order_ids :: "i64 list"

definition evaluate_trade_builder_preempted_stop_loss :: "ptb_env \<Rightarrow> ('ts, 'j) trade_builder_order
    \<Rightarrow> trade_builder_runtime_price \<Rightarrow> preemption_decision option" where
  "evaluate_trade_builder_preempted_stop_loss env sibling runtime_price =
    (if \<not> trade_builder_is_stop_loss_child sibling \<or> trade_builder_is_terminal_status (o_status sibling) then None
     else if (case o_sl_trigger_price_mode sibling of None \<Rightarrow> False
         | Some mode \<Rightarrow> sl_trigger_eval_price_for_mode mode runtime_price = None) then None
     else let ptb = trade_builder_evaluate_ptb_stop_loss env sibling;
              current_price = unwrap_or (trade_builder_trigger_eval_price_for_order sibling runtime_price)
                (Option.bind ptb pl_current_price);
              should_trigger = (case ptb of
                  Some evaluation \<Rightarrow> pl_should_trigger evaluation
                | None \<Rightarrow> te_should_trigger (evaluate_trade_builder_order_trigger sibling (o_last_seen_price sibling) current_price))
          in if \<not> should_trigger \<or> should_skip_trade_builder_composite_sl_bid_confirmation sibling runtime_price then None
             else Some \<lparr>pd_current_price = current_price,
               pd_ready_for_inline_submit = (o_active_exchange_order_id sibling = None \<and> o_status sibling \<noteq> ''canceled_requested''),
               pd_ptb_stop_loss_evaluation = ptb\<rparr>)"

definition exit_labels :: "('ts, 'j) trade_builder_order \<Rightarrow> (string \<times> event_value) list" where
  "exit_labels order = [(''family'', EvOptStr (trade_builder_exit_family order)),
     (''exit_mode'', EvStr (trade_builder_exit_mode order)),
     (''sibling_policy'', EvStr (trade_builder_exit_sibling_policy order))]"

text \<open>A stop loss that does not fire, and one that does: it is latched unless it is already.\<close>

definition source_missing :: "'ts exit_op database \<Rightarrow> trade_builder_runtime_price \<Rightarrow> ('ts, 'j) trade_builder_order
    \<Rightarrow> ('ts exit_op list, string, unit) stm" where
  "source_missing db runtime_price sibling =
    (case o_sl_trigger_price_mode sibling of
       None \<Rightarrow> st_return ()
     | Some mode \<Rightarrow>
        if sl_trigger_eval_price_for_mode mode runtime_price = None
        then send db (AppendTradeBuilderOrderEvent (o_id sibling) ''selected_trigger_source_missing''
          [(''sl_trigger_price_mode'', EvStr mode), (''best_bid'', EvOptNum (rp_best_bid runtime_price)),
           (''last_trade_price'', EvOptNum (rp_last_trade_price runtime_price)),
           (''context'', EvStr ''tp_preemption_check''), (''status'', EvStr (o_status sibling))])
        else st_return ())"

definition latch_sibling :: "'ts exit_op database \<Rightarrow> trade_builder_runtime_price \<Rightarrow> ('ts, 'j) trade_builder_order
    \<Rightarrow> preemption_decision \<Rightarrow> ('ts exit_op list, string, unit) stm" where
  "latch_sibling db runtime_price sibling verdict =
    (if trade_builder_stop_loss_latched sibling then st_return ()
     else let payload = [(''reason'', EvStr ''stop_loss''), (''priority_source'', EvStr ''tp_guard''),
            (''trigger_price'', EvOptNum (o_trigger_price sibling)), (''current_price'', EvNum (pd_current_price verdict)),
            (''sl_trigger_price_mode'', EvOptStr (o_sl_trigger_price_mode sibling))] @ exit_labels sibling
            @ [(''best_bid'', EvOptNum (rp_best_bid runtime_price)),
               (''last_trade_price'', EvOptNum (rp_last_trade_price runtime_price)), (''status_before'', EvStr (o_status sibling))];
          full = (case pd_ptb_stop_loss_evaluation verdict of None \<Rightarrow> payload
            | Some evaluation \<Rightarrow> append_trade_builder_ptb_stop_loss_payload payload evaluation)
      in st_then (send db (SetTradeBuilderOrderTriggerLatched (o_id sibling) True (Some ''stop_loss'')))
           (send db (AppendTradeBuilderOrderEvent (o_id sibling) ''sl_latched'' full)))"

text \<open>The loop over the stop losses collects those that fired with their decisions.\<close>

definition check_stop_loss :: "'ts exit_op database \<Rightarrow> ptb_env \<Rightarrow> trade_builder_runtime_price \<Rightarrow> ('ts, 'j) trade_builder_order
    \<Rightarrow> ('ts exit_op list, string, (i64 \<times> preemption_decision) list) stm" where
  "check_stop_loss db env runtime_price sibling =
    (case evaluate_trade_builder_preempted_stop_loss env sibling runtime_price of
       None \<Rightarrow> st_then (source_missing db runtime_price sibling) (st_return [])
     | Some verdict \<Rightarrow> st_then (latch_sibling db runtime_price sibling verdict) (st_return [(o_id sibling, verdict)]))"

definition stop_loss_takes_over :: "'ts exit_op database \<Rightarrow> ('ts, 'j) trade_builder_order \<Rightarrow> trade_builder_runtime_price
    \<Rightarrow> preemption_inventory_plan \<Rightarrow> ('ts, 'j) trade_builder_order \<Rightarrow> ('ts exit_op list, string, unit list) stm" where
  "stop_loss_takes_over db order runtime_price plan sibling =
    (let remaining_qty = or_opt (remaining_qty_for plan (o_id sibling)) (trade_builder_share_remaining_qty sibling)
     in st_then (if ip_current_parent_qty plan = None
           then send db (AppendTradeBuilderOrderEvent (o_id sibling) ''sl_inventory_sync_skipped''
             ([(''reason'', EvStr ''parent_exit_inventory_unavailable''), (''preempted_tp_order_id'', EvId (o_id order))]
              @ exit_labels sibling))
           else st_return ())
       (st_then (send db (AppendTradeBuilderOrderEvent (o_id sibling)
          (if trade_builder_is_hard_exit_child sibling then ''sl_became_sole_exit'' else ''sl_staged_exit_ready'')
          ([(''preempted_tp_order_id'', EvId (o_id order)),
            (''current_price'', EvNum (trade_builder_trigger_eval_price_for_order sibling runtime_price)),
            (''remaining_qty'', EvOptNum remaining_qty),
            (''remaining_qty_source'', EvStr (if ip_current_parent_qty plan \<noteq> None then ''parent_inventory_sync'' else ''existing_sibling_qty''))]
           @ exit_labels sibling)))
       (st_return [])))"

definition preempted_event :: "('ts, 'j) trade_builder_order \<Rightarrow> string" where
  "preempted_event order = (if o_active_exchange_order_id order \<noteq> None then ''sl_preempted_live_tp'' else ''tp_blocked_by_sl_priority'')"

definition withdraw_take_profit :: "'ts exit_op database \<Rightarrow> i64 list \<Rightarrow> f64 option \<Rightarrow> f64 option \<Rightarrow> ('ts, 'j) trade_builder_order
    \<Rightarrow> ('ts exit_op list, string, unit list) stm" where
  "withdraw_take_profit db stop_loss_sibling_ids current_price remaining_qty order =
     st_then (send db (SetTradeBuilderOrderStatus (o_id order) (cancel_status order) (Some ''sl_priority_preempted'')))
    (st_then (send db (AppendTradeBuilderOrderEvent (o_id order) (preempted_event order)
       [(''stop_loss_sibling_ids'', EvIds stop_loss_sibling_ids), (''current_price'', EvOptNum current_price),
        (''status_before'', EvStr (o_status order)), (''status_after'', EvStr (cancel_status order)),
        (''remaining_qty'', EvOptNum remaining_qty),
        (''active_exchange_order_id'', EvOptStr (o_active_exchange_order_id order))]))
    (st_return []))"

definition live_take_profits :: "('ts, 'j) trade_builder_order list \<Rightarrow> ('ts, 'j) trade_builder_order list" where
  "live_take_profits siblings =
     filter (\<lambda>s. trade_builder_is_take_profit_child s \<and> \<not> trade_builder_is_terminal_status (o_status s)) siblings"

text \<open>After a stop loss fired: the inventory goes to the stop losses; a hard one withdraws the take profits, staged ones
  only hold this one back.\<close>

definition stop_loss_preempts :: "'ts exit_op database
    \<Rightarrow> ('ts exit_op list, string, preemption_inventory_plan) stm \<Rightarrow> ('ts, 'j) trade_builder_order
    \<Rightarrow> trade_builder_runtime_price \<Rightarrow> ('ts, 'j) trade_builder_order list \<Rightarrow> (i64 \<times> preemption_decision) list
    \<Rightarrow> ('ts exit_op list, string, ('ts, 'j) trade_builder_order) stm" where
  "stop_loss_preempts db sync order runtime_price siblings fired =
    (let stop_loss_sibling_ids = map fst fired;
         stop_loss_current_price = map_option (pd_current_price \<circ> snd) (case fired of [] \<Rightarrow> None | x # _ \<Rightarrow> Some x);
         own_price = Some (unwrap_or (trade_builder_trigger_eval_price_for_order order runtime_price) stop_loss_current_price);
         of_fired = filter (\<lambda>s. o_id s \<in> set stop_loss_sibling_ids) siblings
     in st_bind sync (\<lambda>plan.
        st_then (st_collect (stop_loss_takes_over db order runtime_price plan) of_fired)
          (let own_remaining = or_opt (ip_current_parent_qty plan) (trade_builder_share_remaining_qty order)
           in if filter trade_builder_is_hard_exit_child of_fired = []
              then st_then (send db (AppendTradeBuilderOrderEvent (o_id order) ''tp_deferred_by_staged_sl''
                  ([(''stop_loss_sibling_ids'', EvIds stop_loss_sibling_ids), (''current_price'', EvOptNum own_price),
                    (''status_before'', EvStr (o_status order)), (''remaining_qty'', EvOptNum own_remaining)] @ exit_labels order)))
                (st_return order)
              else st_then (st_collect (\<lambda>s. withdraw_take_profit db stop_loss_sibling_ids stop_loss_current_price
                  (trade_builder_share_remaining_qty s) s) (live_take_profits siblings))
                (st_then (withdraw_take_profit db stop_loss_sibling_ids own_price own_remaining order)
                (st_return (order\<lparr>o_status := cancel_status order, o_last_error := Some ''sl_priority_preempted''\<rparr>))))))"

definition maybe_preempt_trade_builder_take_profit_for_stop_loss :: "'ts exit_op database \<Rightarrow> ptb_env
    \<Rightarrow> (string, ('ts, 'j) trade_builder_order list) result
    \<Rightarrow> (string, ('ts, 'j) trade_builder_order option) result \<Rightarrow> ('ts exit_op list, string, (f64 \<times> string) option) stm \<Rightarrow> f64 option
    \<Rightarrow> ('ts, 'j) trade_builder_order \<Rightarrow> trade_builder_runtime_price
    \<Rightarrow> ('ts exit_op list, string, ('ts, 'j) trade_builder_order \<times> preemption) stm" where
  "maybe_preempt_trade_builder_take_profit_for_stop_loss db env list_siblings get_parent resolve_inventory order_min_size order runtime_price =
    (if \<not> trade_builder_is_take_profit_child order \<or> o_parent_order_id order = None
     then st_return (order, \<lparr>pr_tp_preempted = False, pr_ready_sl_order_ids = []\<rparr>)
     else st_bind (st_result list_siblings) (\<lambda>siblings.
       st_bind (st_collect (check_stop_loss db env runtime_price) (filter trade_builder_is_stop_loss_child siblings)) (\<lambda>fired.
         let ready = map fst (filter (\<lambda>(_, d). pd_ready_for_inline_submit d) fired)
         in if fired = [] then st_return (order, \<lparr>pr_tp_preempted = False, pr_ready_sl_order_ids = ready\<rparr>)
            else st_bind (stop_loss_preempts db
                (sync_trade_builder_preempted_stop_loss_inventory db get_parent resolve_inventory order_min_size siblings)
                order runtime_price siblings fired)
              (\<lambda>order'. st_return (order', \<lparr>pr_tp_preempted = True, pr_ready_sl_order_ids = ready\<rparr>)))))"

section \<open>The latch of a stop loss\<close>

text \<open>\<open>annotate\<close> adds what the evaluations of the stop loss say to a payload.\<close>

definition maybe_latch_trade_builder_stop_loss :: "'ts exit_op database \<Rightarrow> 'ts
    \<Rightarrow> (string, ('ts, 'j) trade_builder_order list) result \<Rightarrow> ((string \<times> event_value) list \<Rightarrow> (string \<times> event_value) list)
    \<Rightarrow> ptb_stop_loss_evaluation option \<Rightarrow> ('ts, 'j) trade_builder_order \<Rightarrow> f64
    \<Rightarrow> ('ts exit_op list, string, ('ts, 'j) trade_builder_order) stm" where
  "maybe_latch_trade_builder_stop_loss db now list_siblings annotate ptb order current_price =
    (if \<not> trade_builder_is_stop_loss_child order \<or> trade_builder_stop_loss_latched order then st_return order
     else let with_ptb = (\<lambda>payload. case ptb of None \<Rightarrow> payload
              | Some evaluation \<Rightarrow> append_trade_builder_ptb_stop_loss_payload payload evaluation);
              payload = annotate (with_ptb ([(''reason'', EvStr ''stop_loss''), (''trigger_price'', EvOptNum (o_trigger_price order)),
                (''current_price'', EvNum current_price), (''sl_trigger_price_mode'', EvOptStr (o_sl_trigger_price_mode order))]
                @ exit_labels order @ [(''status_before'', EvStr (o_status order))]));
              latched = order\<lparr>o_trigger_latched := True, o_trigger_latched_reason := Some ''stop_loss'', o_trigger_latched_at := Some now\<rparr>
          in st_then (send db (SetTradeBuilderOrderTriggerLatched (o_id order) True (Some ''stop_loss'')))
            (st_then (send db (AppendTradeBuilderOrderEvent (o_id order) ''sl_latched'' payload))
            (if \<not> trade_builder_is_hard_exit_child latched then st_return latched
             else st_bind (request_trade_builder_oco_cancel_for_siblings db list_siblings latched ''stop_loss_latched'') (\<lambda>sibling_order_ids.
               st_then (if sibling_order_ids \<noteq> []
                   then send db (AppendTradeBuilderOrderEvent (o_id order) ''tp_preempted_by_sl''
                     (with_ptb ([(''sibling_order_ids'', EvIds sibling_order_ids), (''current_price'', EvNum current_price),
                       (''trigger_price'', EvOptNum (o_trigger_price order))] @ exit_labels order)))
                   else st_return ())
                 (st_return latched)))))"

section \<open>Exits that trigger together\<close>

record parallel_exit_batch_selection =
  bs_eligible_order_ids :: "i64 list"
  bs_selected_order_ids :: "i64 list"
  bs_stop_loss_order_ids :: "i64 list"
  bs_take_profit_order_ids :: "i64 list"
  bs_deferred_order_ids :: "i64 list"

definition trade_builder_is_parallel_exit_batch_candidate :: "('ts, 'j) trade_builder_order \<Rightarrow> bool" where
  "trade_builder_is_parallel_exit_batch_candidate order \<longleftrightarrow>
     trade_builder_is_price_exit_ladder_child order \<and> trade_builder_is_child_exit_sell order \<and> o_parent_order_id order \<noteq> None
     \<and> o_active_exchange_order_id order = None \<and> o_status order \<noteq> ''canceled_requested''
     \<and> \<not> trade_builder_is_terminal_status (o_status order) \<and> o_trigger_condition order \<noteq> None \<and> o_trigger_price order \<noteq> None"

definition batch_triggers :: "trade_builder_runtime_price \<Rightarrow> ('ts, 'j) trade_builder_order \<Rightarrow> bool" where
  "batch_triggers runtime_price order \<longleftrightarrow>
     \<not> (case o_sl_trigger_price_mode order of None \<Rightarrow> False | Some mode \<Rightarrow> sl_trigger_eval_price_for_mode mode runtime_price = None)
     \<and> te_should_trigger (evaluate_trade_builder_order_trigger order (o_last_seen_price order)
         (trade_builder_trigger_eval_price_for_order order runtime_price))
     \<and> \<not> should_skip_trade_builder_composite_sl_bid_confirmation order runtime_price"

definition trade_builder_parallel_exit_batch_selection ::
    "('ts, 'j) trade_builder_order list \<Rightarrow> trade_builder_runtime_price \<Rightarrow> parallel_exit_batch_selection" where
  "trade_builder_parallel_exit_batch_selection orders runtime_price =
    (let triggered = filter (batch_triggers runtime_price)
           (sort_key o_id (filter trade_builder_is_parallel_exit_batch_candidate orders));
         stop_losses = map o_id (filter trade_builder_is_stop_loss_child triggered);
         take_profits = map o_id (filter (\<lambda>s. \<not> trade_builder_is_stop_loss_child s \<and> trade_builder_is_take_profit_child s) triggered)
     in \<lparr>bs_eligible_order_ids = stop_losses @ take_profits,
         bs_selected_order_ids = (if stop_losses \<noteq> [] then stop_losses else take_profits),
         bs_stop_loss_order_ids = stop_losses, bs_take_profit_order_ids = take_profits,
         bs_deferred_order_ids = (if stop_losses \<noteq> [] then take_profits else [])\<rparr>)"

text \<open>The dispatch returns the selection and the orders it hands over; \<open>guards\<close> are the parents whose batch is being
  dispatched, of which this one is while the function runs.\<close>

definition maybe_dispatch_trade_builder_parallel_exit_batch :: "'ts exit_op database
    \<Rightarrow> (string, ('ts, 'j) trade_builder_order list) result \<Rightarrow> i64 set \<Rightarrow> ('ts, 'j) trade_builder_order \<Rightarrow> trade_builder_runtime_price
    \<Rightarrow> string \<Rightarrow> ('ts exit_op list, string, parallel_exit_batch_selection \<times> i64 list) stm" where
  "maybe_dispatch_trade_builder_parallel_exit_batch db list_siblings guards order runtime_price batch_path =
    (let none = \<lparr>bs_eligible_order_ids = [], bs_selected_order_ids = [], bs_stop_loss_order_ids = [],
           bs_take_profit_order_ids = [], bs_deferred_order_ids = []\<rparr>
     in if \<not> trade_builder_is_parallel_exit_batch_candidate order then st_return (none, [])
        else case o_parent_order_id order of
          None \<Rightarrow> st_return (none, [])
        | Some parent_order_id \<Rightarrow> st_bind (st_result list_siblings) (\<lambda>siblings.
          let selection = trade_builder_parallel_exit_batch_selection siblings runtime_price;
              additional_order_ids = filter (\<lambda>i. i \<noteq> o_id order) (bs_selected_order_ids selection)
          in if additional_order_ids = [] \<and> bs_deferred_order_ids selection = [] \<or> parent_order_id \<in> guards
             then st_return (selection, [])
             else st_then (send db (AppendTradeBuilderOrderEvent parent_order_id ''parallel_exit_batch_selected''
                 [(''batch_path'', EvStr batch_path), (''batch_owner_order_id'', EvId (o_id order)),
                  (''eligible_order_ids'', EvIds (bs_eligible_order_ids selection)),
                  (''selected_order_ids'', EvIds (bs_selected_order_ids selection)),
                  (''stop_loss_order_ids'', EvIds (bs_stop_loss_order_ids selection)),
                  (''take_profit_order_ids'', EvIds (bs_take_profit_order_ids selection)),
                  (''deferred_order_ids'', EvIds (bs_deferred_order_ids selection)),
                  (''best_bid'', EvOptNum (rp_best_bid runtime_price)), (''best_ask'', EvOptNum (rp_best_ask runtime_price)),
                  (''last_trade_price'', EvOptNum (rp_last_trade_price runtime_price)),
                  (''price_source'', EvStr (rp_source runtime_price))]))
               (if additional_order_ids = [] then st_return (selection, [])
                else st_then (send db (AppendTradeBuilderOrderEvent parent_order_id ''parallel_exit_batch_dispatched''
                    [(''batch_path'', EvStr batch_path), (''batch_owner_order_id'', EvId (o_id order)),
                     (''dispatched_order_ids'', EvIds additional_order_ids),
                     (''selected_order_ids'', EvIds (bs_selected_order_ids selection))]))
                  (st_return (selection, additional_order_ids)))))"

end
