(* ===== verification/Priority_Safety.thy ===== *)
theory Priority_Safety
  imports Exit_Priority
begin

text \<open>
  What the priority of stop losses of \<open>Exit_Priority\<close> does to the siblings: which orders are withdrawn, also when the
  database fails midway, and what is handed over when several exits trigger together. \<open>sends sel L m\<close> says that of the operations
  selected by \<open>sel\<close>, \<open>m\<close> sends exactly \<open>L\<close> when it succeeds and a beginning of \<open>L\<close> when it fails.
\<close>

section \<open>The selected operations of a run\<close>

definition sends :: "('op \<Rightarrow> bool) \<Rightarrow> 'op list \<Rightarrow> ('op list, 'e, 'a) stm \<Rightarrow> bool" where
  "sends sel L m \<longleftrightarrow> (\<forall>s. \<exists>new. snd (m s) = s @ new \<and> prefix (filter sel new) L
     \<and> (\<forall>x. fst (m s) = Inr x \<longrightarrow> filter sel new = L))"

lemma sends_return [simp]: "sends sel [] (st_return x)" and sends_result [simp]: "sends sel [] (st_result r)"
  by (simp_all add: sends_def st_return_def st_result_def)

lemma sends_send: "sends sel (if sel op then [op] else []) (send db op)"
  by (simp add: sends_def send_def)

lemma sends_sel: "sel op \<Longrightarrow> sends sel [op] (send db op)" and sends_other: "\<not> sel op \<Longrightarrow> sends sel [] (send db op)"
  using sends_send [of sel op db] by simp_all

lemma sends_bind_value:
  assumes "sends sel L m" "\<And>s x s'. m s = (Inr x, s') \<Longrightarrow> sends sel M (f x)"
  shows "sends sel (L @ M) (st_bind m f)"
  unfolding sends_def
proof
  fix s
  obtain r s' where m: "m s = (r, s')" by force
  obtain new where n: "s' = s @ new" "prefix (filter sel new) L" "\<And>x. r = Inr x \<Longrightarrow> filter sel new = L"
    using assms(1) m unfolding sends_def by (metis fst_conv snd_conv)
  show "\<exists>new. snd (st_bind m f s) = s @ new \<and> prefix (filter sel new) (L @ M)
      \<and> (\<forall>x. fst (st_bind m f s) = Inr x \<longrightarrow> filter sel new = L @ M)"
  proof (cases r)
    case (Inl e)
    then show ?thesis using m n by (intro exI [of _ new]) (auto simp: st_bind_def intro: prefix_prefix)
  next
    case (Inr x)
    obtain more where k: "snd (f x s') = s' @ more" "prefix (filter sel more) M"
      "\<And>y. fst (f x s') = Inr y \<Longrightarrow> filter sel more = M"
      using assms(2) [of s x s'] m Inr unfolding sends_def by metis
    then show ?thesis using m n Inr by (intro exI [of _ "new @ more"]) (auto simp: st_bind_def)
  qed
qed

lemma sends_bind: "sends sel L m \<Longrightarrow> (\<And>x. sends sel M (f x)) \<Longrightarrow> sends sel (L @ M) (st_bind m f)"
  by (rule sends_bind_value)

lemma sends_then: "sends sel L m \<Longrightarrow> sends sel M n \<Longrightarrow> sends sel (L @ M) (st_then m n)"
  unfolding st_then_def by (rule sends_bind)

lemma sends_quiet_then: "sends sel [] m \<Longrightarrow> sends sel L n \<Longrightarrow> sends sel L (st_then m n)"
  using sends_then [of sel "[]" m L n] by simp

lemma sends_quiet_bind: "sends sel [] m \<Longrightarrow> (\<And>s x s'. m s = (Inr x, s') \<Longrightarrow> sends sel L (f x)) \<Longrightarrow> sends sel L (st_bind m f)"
  using sends_bind_value [of sel "[]" m L f] by simp

lemma sends_last: "sends sel L m \<Longrightarrow> sends sel [] n \<Longrightarrow> sends sel L (st_then m n)"
  using sends_then [of sel L m "[]" n] by simp

lemma sends_collect: "(\<And>x. x \<in> set xs \<Longrightarrow> sends sel (g x) (f x)) \<Longrightarrow> sends sel (concat (map g xs)) (st_collect f xs)"
proof (induction xs)
  case (Cons x xs)
  have "sends sel (concat (map g xs) @ []) (st_bind (st_collect f xs) (\<lambda>zs. st_return (ys @ zs)))" for ys
    by (rule sends_bind) (simp_all add: Cons)
  then show ?case using Cons.prems by (simp add: sends_bind)
qed simp

lemma sends_emits: "emits (\<lambda>op. \<not> sel op) m \<Longrightarrow> sends sel [] m"
proof -
  have "list_all (\<lambda>op. \<not> sel op) new \<Longrightarrow> filter sel new = []" for new by (simp add: list_all_iff filter_empty_conv)
  then show "emits (\<lambda>op. \<not> sel op) m \<Longrightarrow> ?thesis" unfolding sends_def emits_def by (metis prefix_order.refl)
qed

lemma sends_run:
  assumes "sends sel L m" "m [] = (r, ops)"
  shows "prefix (filter sel ops) L \<and> (\<forall>x. r = Inr x \<longrightarrow> filter sel ops = L)"
  using assms unfolding sends_def by (metis append_Nil fst_conv snd_conv)

section \<open>What is withdrawn\<close>

text \<open>The operation that withdraws an order in favour of a stop loss.\<close>

fun withdraws :: "'ts exit_op \<Rightarrow> bool" where
  "withdraws (SetTradeBuilderOrderStatus _ _ why) \<longleftrightarrow> why = Some ''sl_priority_preempted''"
| "withdraws _ \<longleftrightarrow> False"

definition withdrawal :: "('ts, 'j) trade_builder_order \<Rightarrow> 'ts exit_op" where
  "withdrawal s = SetTradeBuilderOrderStatus (o_id s) (cancel_status s) (Some ''sl_priority_preempted'')"

lemma quiet_ops: "\<not> withdraws (AppendTradeBuilderOrderEvent i k d)" "\<not> withdraws (SetTradeBuilderOrderTriggerLatched i b r)"
  "\<not> withdraws (resize_op c u v)" "\<not> withdraws (SetTradeBuilderOrderWorkingState i a p t q st)"
  "\<not> withdraws (SetTradeBuilderOrderStatus i st (Some ''staged_child_skipped_due_to_min_size''))"
  by (simp_all add: resize_op_def)

lemma hard_quiet: "emits (\<lambda>op. \<not> withdraws op) (trade_builder_sync_hard_exit_remaining_qty db cs q r)"
  unfolding trade_builder_sync_hard_exit_remaining_qty_def
  by (rule emits_collect) (unfold sync_hard_child_def Let_def, intro emits_if emits_then emits_send emits_return quiet_ops)

lemma ladder_child_quiet: "emits (\<lambda>op. \<not> withdraws op) (sync_ladder_child db plan w q m r child)"
  unfolding sync_ladder_child_def Let_def
  by (intro emits_if emits_then emits_option emits_prod emits_send emits_return quiet_ops)

lemma ladder_quiet: "emits (\<lambda>op. \<not> withdraws op) (trade_builder_sync_ladder_family_remaining_qty db cs q m r)"
  unfolding trade_builder_sync_ladder_family_remaining_qty_def Let_def
  by (intro emits_if emits_collect emits_return ladder_child_quiet)

lemma sync_quiet:
  assumes "emits (\<lambda>op. \<not> withdraws op) resolve_inventory"
  shows "emits (\<lambda>op. \<not> withdraws op) (sync_trade_builder_preempted_stop_loss_inventory db get_parent resolve_inventory m siblings)"
  unfolding sync_trade_builder_preempted_stop_loss_inventory_def Let_def
  by (intro emits_bind emits_option emits_then emits_return hard_quiet ladder_quiet assms)

lemma check_quiet: "emits (\<lambda>op. \<not> withdraws op) (check_stop_loss db env rp sibling)"
  unfolding check_stop_loss_def source_missing_def latch_sibling_def Let_def
  by (intro emits_option emits_then emits_if emits_send emits_return quiet_ops)

lemma takes_over_quiet: "emits (\<lambda>op. \<not> withdraws op) (stop_loss_takes_over db order rp plan sibling)"
  unfolding stop_loss_takes_over_def Let_def
  by (intro emits_then emits_if emits_send emits_return quiet_ops)

lemma withdraw_sends: "sends withdraws [withdrawal s] (withdraw_take_profit db ids p q s)"
  unfolding withdraw_take_profit_def withdrawal_def
  by (intro sends_last [OF sends_sel] sends_quiet_then [OF sends_other] sends_return) (simp_all)

definition fired_stop_losses :: "ptb_env \<Rightarrow> trade_builder_runtime_price \<Rightarrow> ('ts, 'j) trade_builder_order list \<Rightarrow> ('ts, 'j) trade_builder_order list" where
  "fired_stop_losses env rp siblings = filter (\<lambda>s. evaluate_trade_builder_preempted_stop_loss env s rp \<noteq> None) siblings"

lemma check_stop_loss_Inr: "check_stop_loss db env rp s ops = (Inr ys, ops') \<Longrightarrow>
    ys = (case evaluate_trade_builder_preempted_stop_loss env s rp of None \<Rightarrow> [] | Some d \<Rightarrow> [(o_id s, d)])"
  by (auto simp: check_stop_loss_def st_then_Inr split: option.splits)

lemma evaluate_stop_loss: "evaluate_trade_builder_preempted_stop_loss env s rp \<noteq> None \<Longrightarrow> trade_builder_is_stop_loss_child s"
  by (auto simp: evaluate_trade_builder_preempted_stop_loss_def split: if_splits)

lemma fired_ids:
  assumes "st_collect (check_stop_loss db env rp) (filter trade_builder_is_stop_loss_child siblings) s = (Inr fired, s')"
  shows "map fst fired = map o_id (fired_stop_losses env rp siblings)"
proof -
  let ?g = "\<lambda>s. case evaluate_trade_builder_preempted_stop_loss env s rp of None \<Rightarrow> [] | Some d \<Rightarrow> [(o_id s, d)]"
  have "fired = concat (map ?g (filter trade_builder_is_stop_loss_child siblings))"
    by (rule st_collect_Inr [OF assms]) (rule check_stop_loss_Inr)
  moreover have "map fst (concat (map ?g (filter trade_builder_is_stop_loss_child siblings))) = map o_id (fired_stop_losses env rp siblings)"
  proof (induction siblings)
    case (Cons x xs)
    then show ?case using evaluate_stop_loss [of env x rp]
      by (cases "evaluate_trade_builder_preempted_stop_loss env x rp") (auto simp: fired_stop_losses_def)
  qed (simp add: fired_stop_losses_def)
  ultimately show ?thesis by simp
qed

lemma of_fired:
  assumes "distinct (map o_id siblings)" "set ids = o_id ` set (fired_stop_losses env rp siblings)"
  shows "filter (\<lambda>s. o_id s \<in> set ids) siblings = fired_stop_losses env rp siblings"
  unfolding fired_stop_losses_def
proof (rule filter_cong [OF refl])
  fix s assume "s \<in> set siblings"
  then show "(o_id s \<in> set ids) = (evaluate_trade_builder_preempted_stop_loss env s rp \<noteq> None)"
    using assms unfolding distinct_map fired_stop_losses_def by (auto dest: inj_onD)
qed

text \<open>The withdrawals a run is to make.\<close>

definition withdrawals :: "ptb_env \<Rightarrow> trade_builder_runtime_price \<Rightarrow> ('ts, 'j) trade_builder_order list
    \<Rightarrow> ('ts, 'j) trade_builder_order \<Rightarrow> 'ts exit_op list" where
  "withdrawals env rp siblings order =
    (if filter trade_builder_is_hard_exit_child (fired_stop_losses env rp siblings) = [] then []
     else map withdrawal (live_take_profits siblings @ [order]))"

lemma preempts_sends:
  assumes "emits (\<lambda>op. \<not> withdraws op) sync" "distinct (map o_id siblings)" "map fst fired = map o_id (fired_stop_losses env rp siblings)"
  shows "sends withdraws (withdrawals env rp siblings order) (stop_loss_preempts db sync order rp siblings fired)"
proof -
  have of_f: "filter (\<lambda>s. o_id s \<in> set (map fst fired)) siblings = fired_stop_losses env rp siblings"
    by (rule of_fired [OF assms(2)]) (simp only: assms(3) set_map)
  have many: "sends withdraws (map withdrawal xs) (st_collect (\<lambda>s. withdraw_take_profit db ids p (f s) s) xs)" for xs ids p f
    using sends_collect [of xs withdraws "\<lambda>s. [withdrawal s]" "\<lambda>s. withdraw_take_profit db ids p (f s) s"]
    by (simp add: withdraw_sends)
  have quiet: "sends withdraws [] (st_collect (stop_loss_takes_over db order rp plan) xs)" for plan xs
    by (intro sends_emits emits_collect takes_over_quiet)
  have event: "sends withdraws [] (send db (AppendTradeBuilderOrderEvent i k d))" for i k d
    by (rule sends_other) (rule quiet_ops)
  show ?thesis
  proof (cases "filter trade_builder_is_hard_exit_child (fired_stop_losses env rp siblings) = []")
    case True
    then show ?thesis unfolding stop_loss_preempts_def Let_def of_f withdrawals_def
      by (simp only: if_True simp_thms) (rule sends_quiet_bind [OF sends_emits [OF assms(1)]], rule sends_quiet_then [OF quiet],
        rule sends_quiet_then [OF event], rule sends_return)
  next
    case False
    have "sends withdraws (map withdrawal (live_take_profits siblings) @ [withdrawal order])
        (st_then (st_collect (\<lambda>s. withdraw_take_profit db ids p (trade_builder_share_remaining_qty s) s) (live_take_profits siblings))
          (st_then (withdraw_take_profit db ids o' q order) (st_return x)))" for ids p o' q and x :: "('a, 'b) trade_builder_order"
      by (rule sends_then [OF many]) (rule sends_last [OF withdraw_sends], simp)
    then show ?thesis using False unfolding stop_loss_preempts_def Let_def of_f withdrawals_def
      by (simp only: if_False map_append list.map) (intro sends_quiet_bind [OF sends_emits [OF assms(1)]] sends_quiet_then [OF quiet])
  qed
qed

lemma fired_Nil: "map fst fired = map o_id (fired_stop_losses env rp siblings) \<Longrightarrow> fired = [] \<longleftrightarrow> fired_stop_losses env rp siblings = []"
  by (metis map_is_Nil_conv)

text \<open>C15: a hard stop loss that fires withdraws the take profits and nothing else. When a take profit is processed and a
  hard stop loss of its parent fires, every live take profit of the parent and the order itself are
  withdrawn, each once and in this order, canceled or, with an order on the exchange, asked to cancel; a stop
  loss is never withdrawn, staged stop losses withdraw nothing, and a failure of the database leaves a beginning
  of these withdrawals. The order is preempted exactly when a stop loss fires.\<close>

theorem hard_stop_loss_withdraws_take_profits:
  assumes "trade_builder_is_take_profit_child order" "o_parent_order_id order \<noteq> None" "distinct (map o_id siblings)"
    "emits (\<lambda>op. \<not> withdraws op) resolve_inventory"
    "maybe_preempt_trade_builder_take_profit_for_stop_loss db env (Inr siblings) get_parent resolve_inventory m order rp [] = (r, ops)"
  shows "prefix (filter withdraws ops) (withdrawals env rp siblings order)
    \<and> (\<forall>order' pre. r = Inr (order', pre) \<longrightarrow> filter withdraws ops = withdrawals env rp siblings order
        \<and> (pr_tp_preempted pre \<longleftrightarrow> fired_stop_losses env rp siblings \<noteq> []))"
proof -
  let ?check = "st_collect (check_stop_loss db env rp) (filter trade_builder_is_stop_loss_child siblings)"
  let ?sync = "sync_trade_builder_preempted_stop_loss_inventory db get_parent resolve_inventory m siblings"
  let ?ready = "\<lambda>fired. map fst (filter (\<lambda>(_, d). pd_ready_for_inline_submit d) fired)"
  let ?rest = "\<lambda>fired. if fired = [] then st_return (order, \<lparr>pr_tp_preempted = False, pr_ready_sl_order_ids = ?ready fired\<rparr>)
      else st_bind (stop_loss_preempts db ?sync order rp siblings fired)
        (\<lambda>order'. st_return (order', \<lparr>pr_tp_preempted = True, pr_ready_sl_order_ids = ?ready fired\<rparr>))"
  have run: "st_bind ?check ?rest [] = (r, ops)"
    using assms(1,2,5) by (simp only: maybe_preempt_trade_builder_take_profit_for_stop_loss_def st_bind_result Let_def) simp
  have "sends withdraws (withdrawals env rp siblings order) (st_bind ?check ?rest)"
  proof (rule sends_quiet_bind)
    show "sends withdraws [] ?check" by (intro sends_emits emits_collect check_quiet)
    fix s fired s' assume c: "?check s = (Inr fired, s')"
    note ids = fired_ids [OF c]
    show "sends withdraws (withdrawals env rp siblings order) (?rest fired)"
    proof (cases "fired = []")
      case True
      then show ?thesis using fired_Nil [OF ids] by (simp add: withdrawals_def)
    next
      case False
      have "sends withdraws (withdrawals env rp siblings order @ []) (st_bind (stop_loss_preempts db ?sync order rp siblings fired)
          (\<lambda>order'. st_return (order', \<lparr>pr_tp_preempted = True, pr_ready_sl_order_ids = ?ready fired\<rparr>)))"
        by (intro sends_bind preempts_sends sync_quiet assms(3,4) ids sends_return)
      with False show ?thesis by simp
    qed
  qed
  note sent = sends_run [OF this run]
  moreover have "pr_tp_preempted pre \<longleftrightarrow> fired_stop_losses env rp siblings \<noteq> []" if "r = Inr (order', pre)" for order' pre
  proof -
    from run that obtain fired s' where c: "?check [] = (Inr fired, s')" "?rest fired s' = (Inr (order', pre), ops)"
      by (auto simp: st_bind_Inr)
    then show ?thesis using fired_Nil [OF fired_ids [OF c(1)]]
      by (cases "fired = []") (auto simp: st_return_def st_bind_Inr)
  qed
  ultimately show ?thesis by blast
qed

section \<open>The latch\<close>

text \<open>The operations that change the state of an order when a stop loss latches: the latch and the cancellations.\<close>

fun changes_order :: "'ts exit_op \<Rightarrow> bool" where
  "changes_order (SetTradeBuilderOrderTriggerLatched _ _ _) \<longleftrightarrow> True"
| "changes_order (SetTradeBuilderOrderStatus _ _ _) \<longleftrightarrow> True"
| "changes_order _ \<longleftrightarrow> False"

definition oco_request :: "('ts, 'j) trade_builder_order \<Rightarrow> 'ts exit_op" where
  "oco_request s = SetTradeBuilderOrderStatus (o_id s) ''canceled_requested'' (Some ''oco_sibling_triggered'')"

definition latch_op :: "('ts, 'j) trade_builder_order \<Rightarrow> 'ts exit_op" where
  "latch_op order = SetTradeBuilderOrderTriggerLatched (o_id order) True (Some ''stop_loss'')"

lemma event_changes: "sends changes_order [] (send db (AppendTradeBuilderOrderEvent i k d))"
  by (rule sends_other) simp

lemma oco_sibling_sends: "sends changes_order (if oco_skips why s then [] else [oco_request s]) (oco_cancel_sibling db p order why s)"
proof (cases "oco_skips why s")
  case False
  have "sends changes_order [oco_request s] (st_then (send db (SetTradeBuilderOrderStatus (o_id s) ''canceled_requested''
      (Some ''oco_sibling_triggered''))) (st_then (send db (AppendTradeBuilderOrderEvent i k d)) (st_return x)))" for i k d and x :: "i64 list"
    unfolding oco_request_def
    by (rule sends_last [OF sends_sel], simp) (rule sends_quiet_then [OF event_changes], rule sends_return)
  with False show ?thesis by (simp only: oco_cancel_sibling_def if_False)
qed (simp add: oco_cancel_sibling_def)

lemma concat_if: "concat (map (\<lambda>x. if P x then [] else [f x]) xs) = map f (filter (\<lambda>x. \<not> P x) xs)"
  by (induction xs) simp_all

lemma oco_sends:
  assumes "o_parent_order_id order = Some p" "o_side order = ''sell''"
  shows "sends changes_order (map oco_request (filter (\<lambda>s. \<not> oco_skips why s) siblings))
    (request_trade_builder_oco_cancel_for_siblings db (Inr siblings) order why)"
proof -
  let ?L = "map oco_request (filter (\<lambda>s. \<not> oco_skips why s) siblings)"
  have all: "sends changes_order ?L (st_collect (oco_cancel_sibling db p order why) siblings)"
    unfolding concat_if [symmetric] by (rule sends_collect) (rule oco_sibling_sends)
  have "sends changes_order [] (st_then (if ids \<noteq> [] then send db (AppendTradeBuilderOrderEvent i k d) else st_return ()) (st_return ids))" for ids i k d
    by (cases "ids = []") (simp_all only: if_True if_False not_not simp_thms, (rule sends_quiet_then sends_return event_changes)+)
  then have "sends changes_order (?L @ []) (st_bind (st_collect (oco_cancel_sibling db p order why) siblings) (\<lambda>ids.
      st_then (if ids \<noteq> [] then send db (AppendTradeBuilderOrderEvent (o_id order) ''oco_siblings_cancel_requested''
                [(''parent_order_id'', EvId p), (''sibling_order_ids'', EvIds ids), (''reason'', EvStr why)])
              else st_return ()) (st_return ids)))"
    by (intro sends_bind all)
  with assms show ?thesis
    by (simp only: request_trade_builder_oco_cancel_for_siblings_def option.case st_bind_result append_Nil2) simp
qed

lemma latch_sends:
  assumes "trade_builder_is_stop_loss_child order" "\<not> trade_builder_stop_loss_latched order" "o_exit_ladder_kind order = None"
  shows "sends changes_order (latch_op order # map oco_request (filter (\<lambda>s. \<not> oco_skips ''stop_loss_latched'' s) siblings))
    (maybe_latch_trade_builder_stop_loss db now (Inr siblings) annotate ptb order price)"
proof -
  let ?L = "map oco_request (filter (\<lambda>s. \<not> oco_skips ''stop_loss_latched'' s) siblings)"
  let ?latched = "order\<lparr>o_trigger_latched := True, o_trigger_latched_reason := Some ''stop_loss'', o_trigger_latched_at := Some now\<rparr>"
  have hard: "trade_builder_is_hard_exit_child ?latched"
    using assms by (auto simp: trade_builder_is_hard_exit_child_def trade_builder_is_child_exit_sell_def
        trade_builder_is_stop_loss_child_def trade_builder_exit_ladder_kind_def)
  obtain p where p: "o_parent_order_id ?latched = Some p" "o_side ?latched = ''sell''"
    using assms(1) by (auto simp: trade_builder_is_stop_loss_child_def)
  have tail: "sends changes_order [] (st_then (if ids \<noteq> [] then send db (AppendTradeBuilderOrderEvent i k d) else st_return ()) (st_return x))" for ids :: "i64 list" and i k d x
    by (cases "ids = []") (simp_all only: if_True if_False not_not simp_thms, (rule sends_quiet_then sends_return event_changes)+)
  have "sends changes_order (?L @ []) (st_bind (request_trade_builder_oco_cancel_for_siblings db (Inr siblings) ?latched ''stop_loss_latched'')
      (\<lambda>ids. st_then (if ids \<noteq> [] then send db (AppendTradeBuilderOrderEvent i k (d ids)) else st_return ()) (st_return x)))" for i k d x
    by (rule sends_bind [OF oco_sends [OF p]]) (rule tail)
  then have rest: "sends changes_order ?L (st_bind (request_trade_builder_oco_cancel_for_siblings db (Inr siblings) ?latched ''stop_loss_latched'')
      (\<lambda>ids. st_then (if ids \<noteq> [] then send db (AppendTradeBuilderOrderEvent i k (d ids)) else st_return ()) (st_return x)))" for i k d x
    by (simp only: append_Nil2)
  have "sends changes_order ([latch_op order] @ ?L) (maybe_latch_trade_builder_stop_loss db now (Inr siblings) annotate ptb order price)"
    unfolding maybe_latch_trade_builder_stop_loss_def Let_def
    by (simp only: assms(1,2) hard not_True_eq_False not_False_eq_True if_False if_True disj_not1 simp_thms)
      (rule sends_then, unfold latch_op_def, rule sends_sel, simp, rule sends_quiet_then [OF event_changes], rule rest)
  then show ?thesis by simp
qed

lemma latched_value:
  assumes "trade_builder_is_stop_loss_child order" "\<not> trade_builder_stop_loss_latched order"
    "maybe_latch_trade_builder_stop_loss db now siblings annotate ptb order price s = (Inr order', s')"
  shows "order' = order\<lparr>o_trigger_latched := True, o_trigger_latched_reason := Some ''stop_loss'', o_trigger_latched_at := Some now\<rparr>"
  using assms unfolding maybe_latch_trade_builder_stop_loss_def Let_def
  by (simp only: assms(1,2) not_True_eq_False not_False_eq_True if_False simp_thms st_then_Inr) (elim exE conjE, auto simp: st_then_Inr st_bind_Inr split: if_splits)

lemma latched_silent: "trade_builder_stop_loss_latched order
    \<Longrightarrow> maybe_latch_trade_builder_stop_loss db now siblings annotate ptb order price ops = (Inr order, ops)"
  by (simp add: maybe_latch_trade_builder_stop_loss_def st_return_def)

text \<open>A hard stop loss that latches cancels the other exits. Its latch is stored first, then each sibling that is
  not closed, canceled or asked to cancel is asked to cancel, once, in the order of the list;
  nothing else of an order changes, and a failure of the database leaves a beginning of these writes. A second call
  with the latched order writes nothing.\<close>

lemma latched_stop_loss_cancels_siblings:
  assumes "trade_builder_is_stop_loss_child order" "\<not> trade_builder_stop_loss_latched order" "o_exit_ladder_kind order = None"
    "maybe_latch_trade_builder_stop_loss db now (Inr siblings) annotate ptb order price [] = (r, ops)"
  shows "prefix (filter changes_order ops)
      (latch_op order # map oco_request (filter (\<lambda>s. \<not> oco_skips ''stop_loss_latched'' s) siblings))
    \<and> (\<forall>order'. r = Inr order' \<longrightarrow>
        filter changes_order ops = latch_op order # map oco_request (filter (\<lambda>s. \<not> oco_skips ''stop_loss_latched'' s) siblings)
        \<and> trade_builder_stop_loss_latched order'
        \<and> maybe_latch_trade_builder_stop_loss db now (Inr siblings) annotate ptb order' price ops = (Inr order', ops))"
proof -
  note sent = sends_run [OF latch_sends [OF assms(1-3)] assms(4)]
  moreover have "trade_builder_stop_loss_latched order'" if "r = Inr order'" for order'
    using latched_value [OF assms(1,2) assms(4) [unfolded that]] by (simp add: trade_builder_stop_loss_latched_def)
  ultimately show ?thesis by (simp add: latched_silent)
qed

text \<open>A latch whose event is not stored loses the cancellation of the siblings. When the write of the event
  after the latch fails, the order is latched in the database and no sibling has been asked to cancel; the next
  call reads the latched order, and it writes nothing and succeeds, so it does not make up for the cancellation.\<close>

lemma unrecorded_latch_keeps_siblings:
  assumes "trade_builder_is_stop_loss_child order" "\<not> trade_builder_stop_loss_latched order"
    "db [] (latch_op order) = None"
    "\<And>data. db [latch_op order] (AppendTradeBuilderOrderEvent (o_id order) ''sl_latched'' data) = Some e"
    "maybe_latch_trade_builder_stop_loss db now (Inr siblings) annotate ptb order price [] = (r, ops)"
    "reread = order\<lparr>o_trigger_latched := True, o_trigger_latched_reason := Some ''stop_loss''\<rparr>"
  shows "r = Inl e \<and> filter changes_order ops = [latch_op order]
    \<and> maybe_latch_trade_builder_stop_loss db' now (Inr siblings) annotate ptb reread price ops = (Inr reread, ops)"
proof -
  have "trade_builder_stop_loss_latched reread" using assms(6) by (simp add: trade_builder_stop_loss_latched_def)
  then have again: "maybe_latch_trade_builder_stop_loss db' now (Inr siblings) annotate ptb reread price ops = (Inr reread, ops)"
    by (rule latched_silent)
  have "send db (latch_op order) [] = (Inr (), [latch_op order])" using assms(3) by (simp add: send_def)
  moreover have "send db (AppendTradeBuilderOrderEvent (o_id order) ''sl_latched'' data) [latch_op order]
      = (Inl e, [latch_op order, AppendTradeBuilderOrderEvent (o_id order) ''sl_latched'' data])" for data
    using assms(4) [of data] by (simp add: send_def)
  ultimately have "st_then (send db (latch_op order)) (st_then (send db (AppendTradeBuilderOrderEvent (o_id order) ''sl_latched'' data)) m) []
      = (Inl e, [latch_op order, AppendTradeBuilderOrderEvent (o_id order) ''sl_latched'' data])" for data m
    by (simp add: st_then_def st_bind_def)
  then have "\<exists>data. (r, ops) = (Inl e, [latch_op order, AppendTradeBuilderOrderEvent (o_id order) ''sl_latched'' data])"
    using assms(5) [symmetric] assms(1,2)
    unfolding maybe_latch_trade_builder_stop_loss_def Let_def latch_op_def [symmetric]
    by (simp only: not_True_eq_False not_False_eq_True if_False simp_thms prod.inject) blast
  then show ?thesis using again by (auto simp: latch_op_def)
qed

section \<open>The batch\<close>

text \<open>Stop losses go before take profits in a batch. The orders selected are the stop losses when one of them
  triggers and the take profits otherwise; selected and deferred orders are disjoint and together the eligible ones,
  in which each id stands once, and each belongs to an order that triggers and has no order on the exchange.\<close>

lemma batch_prefers_stop_losses:
  assumes "distinct (map o_id orders)" "selection = trade_builder_parallel_exit_batch_selection orders rp"
  shows "bs_selected_order_ids selection
        = (if bs_stop_loss_order_ids selection \<noteq> [] then bs_stop_loss_order_ids selection else bs_take_profit_order_ids selection)
    \<and> mset (bs_selected_order_ids selection @ bs_deferred_order_ids selection) = mset (bs_eligible_order_ids selection)
    \<and> distinct (bs_eligible_order_ids selection)
    \<and> set (bs_eligible_order_ids selection) = {o_id s | s. s \<in> set orders \<and> trade_builder_is_parallel_exit_batch_candidate s
        \<and> batch_triggers rp s \<and> (trade_builder_is_stop_loss_child s \<or> trade_builder_is_take_profit_child s)}"
proof -
  let ?t = "filter (batch_triggers rp) (sort_key o_id (filter trade_builder_is_parallel_exit_batch_candidate orders))"
  have el: "bs_eligible_order_ids selection = map o_id (filter trade_builder_is_stop_loss_child ?t
      @ filter (\<lambda>s. \<not> trade_builder_is_stop_loss_child s \<and> trade_builder_is_take_profit_child s) ?t)"
    by (simp add: assms(2) trade_builder_parallel_exit_batch_selection_def Let_def)
  have inj: "inj_on o_id (set orders)" and "distinct orders" using assms(1) by (simp_all add: distinct_map)
  then have "distinct (sort_key o_id (filter trade_builder_is_parallel_exit_batch_candidate orders))" by simp
  then have "distinct (bs_eligible_order_ids selection)"
    unfolding el distinct_map by (auto intro: inj_on_subset [OF inj])
  moreover have "set (bs_eligible_order_ids selection) = {o_id s | s. s \<in> set orders \<and> trade_builder_is_parallel_exit_batch_candidate s
        \<and> batch_triggers rp s \<and> (trade_builder_is_stop_loss_child s \<or> trade_builder_is_take_profit_child s)}"
    unfolding el by auto
  moreover have "bs_selected_order_ids selection
        = (if bs_stop_loss_order_ids selection \<noteq> [] then bs_stop_loss_order_ids selection else bs_take_profit_order_ids selection)"
    "mset (bs_selected_order_ids selection @ bs_deferred_order_ids selection) = mset (bs_eligible_order_ids selection)"
    by (auto simp: assms(2) trade_builder_parallel_exit_batch_selection_def Let_def filter_empty_conv)
  ultimately show ?thesis by (intro conjI)
qed

section \<open>Witnesses\<close>

definition sample_stop :: "i64 \<Rightarrow> (nat, nat) trade_builder_order" where
  "sample_stop i = sample_order\<lparr>o_id := i, o_trigger_condition := Some ''cross_below''\<rparr>"

definition sample_latched :: "i64 \<Rightarrow> (nat, nat) trade_builder_order" where
  "sample_latched i = (sample_stop i)\<lparr>o_trigger_latched := True, o_trigger_latched_reason := Some ''stop_loss''\<rparr>"

definition sample_price :: trade_builder_runtime_price where
  "sample_price = \<lparr>rp_price = Fin 1, rp_source = ''book'', rp_runtime_warning = None, rp_best_bid = None,
     rp_best_ask = None, rp_last_trade_price = None\<rparr>"

definition idle_env :: ptb_env where
  "idle_env = \<lparr>pe_service = new_service, pe_now_ms = 0, pe_timestamp_opt = Some, pe_chainlink = (\<lambda>_. Inl ''no tick''),
     pe_cached_reference = (\<lambda>_. None), pe_show_f64 = (\<lambda>_. '''')\<rparr>"

lemmas sample_defs = sample_latched_def sample_stop_def sample_order_def trade_builder_is_stop_loss_child_def
  trade_builder_is_take_profit_child_def trade_builder_is_child_exit_sell_def trade_builder_stop_loss_latched_def

lemma sample_kinds: "trade_builder_is_take_profit_child sample_order" "trade_builder_is_stop_loss_child (sample_stop i)"
  "trade_builder_is_stop_loss_child (sample_latched i)" "\<not> trade_builder_stop_loss_latched (sample_stop i)"
  "\<not> trade_builder_is_take_profit_child (sample_latched i)" "trade_builder_is_hard_exit_child (sample_latched i)"
  "\<not> trade_builder_is_stop_loss_child sample_order"
  by (simp_all add: sample_defs trade_builder_is_hard_exit_child_def trade_builder_exit_ladder_kind_def)

lemma sample_fired: "fired_stop_losses env sample_price [sample_latched 8, sample_order\<lparr>o_id := 9\<rparr>] = [sample_latched 8]"
proof -
  have "evaluate_trade_builder_preempted_stop_loss env (sample_latched 8) sample_price \<noteq> None"
    by (simp add: evaluate_trade_builder_preempted_stop_loss_def trade_builder_evaluate_ptb_stop_loss_def
        trade_builder_ptb_stop_loss_gap_usd_def evaluate_trade_builder_order_trigger_def
        should_skip_trade_builder_composite_sl_bid_confirmation_def trade_builder_is_terminal_status_def sample_defs Let_def)
  moreover have "evaluate_trade_builder_preempted_stop_loss env (sample_order\<lparr>o_id := 9\<rparr>) sample_price = None"
    by (simp add: evaluate_trade_builder_preempted_stop_loss_def sample_defs)
  ultimately show ?thesis by (simp add: fired_stop_losses_def)
qed

lemma sample_withdrawals: "withdrawals env sample_price [sample_latched 8, sample_order\<lparr>o_id := 9\<rparr>] sample_order
    = [SetTradeBuilderOrderStatus 9 ''canceled'' (Some ''sl_priority_preempted''),
       SetTradeBuilderOrderStatus 7 ''canceled'' (Some ''sl_priority_preempted'')]"
  unfolding withdrawals_def sample_fired
  by (simp add: sample_kinds live_take_profits_def withdrawal_def cancel_status_def)
    (simp add: sample_defs trade_builder_is_terminal_status_def)

theorem hard_stop_loss_withdraws_take_profits_witness:
  "prefix (filter withdraws (snd (maybe_preempt_trade_builder_take_profit_for_stop_loss (\<lambda>_ _. None) idle_env
      (Inr [sample_latched 8, sample_order\<lparr>o_id := 9\<rparr>]) (Inr None) (st_return None) None sample_order sample_price [])))
    [SetTradeBuilderOrderStatus 9 ''canceled'' (Some ''sl_priority_preempted''),
     SetTradeBuilderOrderStatus 7 ''canceled'' (Some ''sl_priority_preempted'')]"
proof -
  let ?run = "maybe_preempt_trade_builder_take_profit_for_stop_loss (\<lambda>_ _. None) idle_env
      (Inr [sample_latched 8, sample_order\<lparr>o_id := 9\<rparr>]) (Inr None) (st_return None) None sample_order sample_price []"
  obtain r ops where run: "?run = (r, ops)" by (cases ?run) auto
  have "o_parent_order_id sample_order \<noteq> None" "distinct (map o_id [sample_latched 8, sample_order\<lparr>o_id := 9\<rparr>])"
    by (simp_all add: sample_defs)
  from hard_stop_loss_withdraws_take_profits [OF sample_kinds(1) this emits_return(1) run]
  show ?thesis unfolding run sample_withdrawals by simp
qed

theorem latched_stop_loss_cancels_siblings_witness:
  "prefix (filter changes_order (snd (maybe_latch_trade_builder_stop_loss (\<lambda>_ _. None) 0 (Inr [sample_order]) (\<lambda>p. p) None (sample_stop 8) 0 [])))
    [SetTradeBuilderOrderTriggerLatched 8 True (Some ''stop_loss''),
     SetTradeBuilderOrderStatus 7 ''canceled_requested'' (Some ''oco_sibling_triggered'')]"
proof -
  let ?run = "maybe_latch_trade_builder_stop_loss (\<lambda>_ _. None) 0 (Inr [sample_order]) (\<lambda>p. p) None (sample_stop 8) 0 []"
  obtain r ops where run: "?run = (r, ops)" by (cases ?run) auto
  have "o_exit_ladder_kind (sample_stop 8) = None" by (simp add: sample_defs)
  moreover have "\<not> oco_skips ''stop_loss_latched'' sample_order" by (simp add: oco_skips_def sample_defs)
  moreover have "latch_op (sample_stop 8) = SetTradeBuilderOrderTriggerLatched 8 True (Some ''stop_loss'')"
    "oco_request sample_order = SetTradeBuilderOrderStatus 7 ''canceled_requested'' (Some ''oco_sibling_triggered'')"
    by (simp_all add: latch_op_def oco_request_def sample_defs)
  ultimately show ?thesis
    using latched_stop_loss_cancels_siblings [OF sample_kinds(2,4) _ run] unfolding run by simp
qed

definition events_fail :: "nat exit_op database" where
  "events_fail ops op = (case op of AppendTradeBuilderOrderEvent i k d \<Rightarrow> Some ''connection lost'' | _ \<Rightarrow> None)"

theorem unrecorded_latch_keeps_siblings_witness:
  "fst (maybe_latch_trade_builder_stop_loss events_fail 0 (Inr [sample_order]) (\<lambda>p. p) None (sample_stop 8) 0 []) = Inl ''connection lost''
    \<and> filter changes_order (snd (maybe_latch_trade_builder_stop_loss events_fail 0 (Inr [sample_order]) (\<lambda>p. p) None (sample_stop 8) 0 []))
      = [SetTradeBuilderOrderTriggerLatched 8 True (Some ''stop_loss'')]"
proof -
  let ?run = "maybe_latch_trade_builder_stop_loss events_fail 0 (Inr [sample_order]) (\<lambda>p. p) None (sample_stop 8) 0 []"
  obtain r ops where run: "?run = (r, ops)" by (cases ?run) auto
  have db: "events_fail [] (latch_op (sample_stop 8)) = None"
    "events_fail [latch_op (sample_stop 8)] (AppendTradeBuilderOrderEvent (o_id (sample_stop 8)) ''sl_latched'' d) = Some ''connection lost''" for d
    by (simp_all add: events_fail_def latch_op_def)
  have "latch_op (sample_stop 8) = SetTradeBuilderOrderTriggerLatched 8 True (Some ''stop_loss'')"
    by (simp add: latch_op_def sample_defs)
  then show ?thesis
    using unrecorded_latch_keeps_siblings [OF sample_kinds(2,4) db run refl] unfolding run by simp
qed

lemma sample_staged: "trade_builder_is_parallel_exit_batch_candidate ((sample_latched 8)\<lparr>o_exit_ladder_kind := Some ladder_kind_sl\<rparr>)"
  "batch_triggers sample_price ((sample_latched 8)\<lparr>o_exit_ladder_kind := Some ladder_kind_sl\<rparr>)"
  by (simp_all add: trade_builder_is_parallel_exit_batch_candidate_def batch_triggers_def
      trade_builder_is_price_exit_ladder_child_def trade_builder_exit_ladder_kind_def ladder_kind_sl_def is_some_and_def text_eval
      evaluate_trade_builder_order_trigger_def should_skip_trade_builder_composite_sl_bid_confirmation_def
      trade_builder_is_terminal_status_def sample_defs Let_def)

theorem batch_prefers_stop_losses_witness:
  "8 \<in> set (bs_eligible_order_ids (trade_builder_parallel_exit_batch_selection
     [(sample_latched 8)\<lparr>o_exit_ladder_kind := Some ladder_kind_sl\<rparr>, sample_order] sample_price))"
proof -
  let ?s = "(sample_latched 8)\<lparr>o_exit_ladder_kind := Some ladder_kind_sl\<rparr>"
  have d: "distinct (map o_id [?s, sample_order])" by (simp add: sample_defs)
  have "trade_builder_is_stop_loss_child ?s" "o_id ?s = 8" by (simp_all add: sample_defs)
  then have "8 \<in> {o_id s | s. s \<in> set [?s, sample_order] \<and> trade_builder_is_parallel_exit_batch_candidate s
      \<and> batch_triggers sample_price s \<and> (trade_builder_is_stop_loss_child s \<or> trade_builder_is_take_profit_child s)}"
    using sample_staged by (intro CollectI exI [of _ ?s]) simp
  then show ?thesis using batch_prefers_stop_losses [OF d refl, of sample_price] by simp
qed

end
