(* ===== verification/Builder_World.thy ===== *)
theory Builder_World
  imports Exit_Priority Repository Json_Decimal
begin

text \<open>
  The table of builder orders and the exchange as the processing of an order sees them: the statements of
  \<open>bot-infra/src/db/trade_builder/orders.rs\<close>. The state holds the rows, the log of the statements carried out, the orders
  the exchange accepted and the number of calls made. The environment answers each call, as in \<open>Repository\<close>: a
  refused statement changes nothing, a lost one is carried out and still reports an error.
\<close>

type_synonym builder_order = "(i64, json) trade_builder_order"

section \<open>The statements\<close>

text \<open>The statements of \<open>Exit_Sync\<close> and those only the processing sends; the last one is the row of an order at the exchange.\<close>

datatype builder_op =
    ExitOp "i64 exit_op"
  | SetTradeBuilderLastSeenPrice i64 f64
  | SetTradeBuilderOrderLastError i64 "string option"
  | SetTradeBuilderOrderPtbReferencePrice i64 f64
  | SetTradeBuilderOrderFeeRateBps i64 i64
  | SetTradeBuilderOrderRetryState i64 string "string option" "f64 option" "f64 option"
  | SetTradeBuilderGuardBlockedState i64 string "f64 option" "f64 option"
  | UpdateTradeBuilderGuardNotificationReason i64 "string option"
  | ClearTradeBuilderActiveExchangeOrder i64 string
  | ClearTradeBuilderActiveExchangeOrderPreserveSizing i64 string
  | UnblockNextTradeBuilderOrder i64 string
  | UpsertOrderByExchangeId i64 string "string option" string string f64 f64 string "i64 option" "string option"
      "(string \<times> event_value) list"

record stmt_env =
  sv_answer :: "nat \<Rightarrow> answer"
  sv_now :: "nat \<Rightarrow> i64"
  sv_rfc3339 :: "i64 \<Rightarrow> string"

record builder_world =
  bw_orders :: "builder_order list"
  bw_ops :: "builder_op list"
  bw_placed :: "(i64 \<times> place_order_request \<times> string) list"
  bw_calls :: nat

type_synonym 'a bstep = "(builder_world, string, 'a) stm"

text \<open>What a statement writes into its row.\<close>

definition set_trade_builder_order_status :: "i64 \<Rightarrow> string \<Rightarrow> string option \<Rightarrow> builder_order \<Rightarrow> builder_order" where
  "set_trade_builder_order_status now status err r = r\<lparr>o_status := status, o_last_error := err, o_updated_at := now\<rparr>"

definition set_trade_builder_order_last_error :: "i64 \<Rightarrow> string option \<Rightarrow> builder_order \<Rightarrow> builder_order" where
  "set_trade_builder_order_last_error now err r = r\<lparr>o_last_error := err, o_updated_at := now\<rparr>"

definition set_trade_builder_order_fee_rate_bps :: "i64 \<Rightarrow> i64 \<Rightarrow> builder_order \<Rightarrow> builder_order" where
  "set_trade_builder_order_fee_rate_bps now bps r = r\<lparr>o_fee_rate_bps := bps, o_updated_at := now\<rparr>"

definition update_trade_builder_guard_notification_reason :: "i64 \<Rightarrow> string option \<Rightarrow> builder_order \<Rightarrow> builder_order" where
  "update_trade_builder_guard_notification_reason now why r = r\<lparr>o_last_guard_notification_reason := why, o_updated_at := now\<rparr>"

definition set_trade_builder_order_ptb_reference_price :: "i64 \<Rightarrow> f64 \<Rightarrow> builder_order \<Rightarrow> builder_order" where
  "set_trade_builder_order_ptb_reference_price now price r = r\<lparr>o_ptb_reference_price := Some price, o_updated_at := now\<rparr>"

definition set_trade_builder_order_trigger_latched :: "i64 \<Rightarrow> bool \<Rightarrow> string option \<Rightarrow> builder_order \<Rightarrow> builder_order" where
  "set_trade_builder_order_trigger_latched now latched why r =
     r\<lparr>o_trigger_latched := latched, o_trigger_latched_reason := why, o_trigger_latched_at := (if latched then Some now else None),
       o_updated_at := now\<rparr>"

definition set_trade_builder_last_seen_price :: "i64 \<Rightarrow> f64 \<Rightarrow> builder_order \<Rightarrow> builder_order" where
  "set_trade_builder_last_seen_price now price r = r\<lparr>o_last_seen_price := Some price, o_updated_at := now\<rparr>"

definition set_trade_builder_order_working_state :: "i64 \<Rightarrow> string option \<Rightarrow> f64 option \<Rightarrow> f64 option \<Rightarrow> f64 option \<Rightarrow> string
    \<Rightarrow> builder_order \<Rightarrow> builder_order" where
  "set_trade_builder_order_working_state now exchange_id price usd qty status r =
     r\<lparr>o_active_exchange_order_id := exchange_id, o_working_price := price, o_remaining_size := usd, o_remaining_qty := qty,
       o_status := status, o_last_error := None, o_fresh_submit_lease_until := None, o_updated_at := now\<rparr>"

definition set_trade_builder_order_retry_state :: "i64 \<Rightarrow> string \<Rightarrow> string option \<Rightarrow> f64 option \<Rightarrow> f64 option
    \<Rightarrow> builder_order \<Rightarrow> builder_order" where
  "set_trade_builder_order_retry_state now status err usd qty r =
     r\<lparr>o_active_exchange_order_id := None, o_working_price := None, o_remaining_size := usd, o_remaining_qty := qty,
       o_status := status, o_last_error := err, o_updated_at := now\<rparr>"

definition set_trade_builder_guard_blocked_state :: "i64 \<Rightarrow> string \<Rightarrow> f64 option \<Rightarrow> f64 option \<Rightarrow> builder_order \<Rightarrow> builder_order" where
  "set_trade_builder_guard_blocked_state now why usd qty r =
     r\<lparr>o_active_exchange_order_id := None, o_working_price := None, o_remaining_size := usd, o_remaining_qty := qty,
       o_status := ''guard_blocked'', o_last_error := Some why, o_updated_at := now\<rparr>"

definition clear_trade_builder_active_exchange_order :: "i64 \<Rightarrow> string \<Rightarrow> builder_order \<Rightarrow> builder_order" where
  "clear_trade_builder_active_exchange_order now status r =
     r\<lparr>o_active_exchange_order_id := None, o_remaining_size := None, o_remaining_qty := None, o_working_price := None,
       o_status := status, o_updated_at := now\<rparr>"

definition clear_trade_builder_active_exchange_order_preserve_sizing :: "i64 \<Rightarrow> string \<Rightarrow> builder_order \<Rightarrow> builder_order" where
  "clear_trade_builder_active_exchange_order_preserve_sizing now status r =
     r\<lparr>o_active_exchange_order_id := None, o_working_price := None, o_status := status, o_updated_at := now\<rparr>"

fun exit_op_row :: "i64 \<Rightarrow> i64 exit_op \<Rightarrow> builder_order \<Rightarrow> builder_order" where
  "exit_op_row now (SetTradeBuilderOrderStatus _ status err) r = set_trade_builder_order_status now status err r"
| "exit_op_row now (SetTradeBuilderOrderWorkingState _ exchange_id price usd qty status) r =
     set_trade_builder_order_working_state now exchange_id price usd qty status r"
| "exit_op_row now (UpdateTradeBuilderOrderSizingAndState _ basis usdc target usd qty status err after before def run key) r =
     r\<lparr>o_size_basis := basis, o_size_usdc := usdc, o_target_qty := target, o_remaining_size := usd, o_remaining_qty := qty,
       o_active_exchange_order_id := None, o_working_price := None, o_status := status, o_last_error := err,
       o_eligible_after_at := after, o_eligible_before_at := before,
       o_origin_flow_definition_id := or_opt def (o_origin_flow_definition_id r),
       o_origin_flow_run_id := or_opt run (o_origin_flow_run_id r),
       o_origin_flow_node_key := or_opt key (o_origin_flow_node_key r), o_updated_at := now\<rparr>"
| "exit_op_row now (SetTradeBuilderOrderTriggerLatched _ latched why) r = set_trade_builder_order_trigger_latched now latched why r"
| "exit_op_row now (AppendTradeBuilderOrderEvent _ _ _) r = r"

fun builder_op_order :: "builder_op \<Rightarrow> i64 option" where
  "builder_op_order (ExitOp op) = Some (op_order_id op)"
| "builder_op_order (SetTradeBuilderLastSeenPrice i _) = Some i"
| "builder_op_order (SetTradeBuilderOrderLastError i _) = Some i"
| "builder_op_order (SetTradeBuilderOrderPtbReferencePrice i _) = Some i"
| "builder_op_order (SetTradeBuilderOrderFeeRateBps i _) = Some i"
| "builder_op_order (SetTradeBuilderOrderRetryState i _ _ _ _) = Some i"
| "builder_op_order (SetTradeBuilderGuardBlockedState i _ _ _) = Some i"
| "builder_op_order (UpdateTradeBuilderGuardNotificationReason i _) = Some i"
| "builder_op_order (ClearTradeBuilderActiveExchangeOrder i _) = Some i"
| "builder_op_order (ClearTradeBuilderActiveExchangeOrderPreserveSizing i _) = Some i"
| "builder_op_order (UnblockNextTradeBuilderOrder _ _) = None"
| "builder_op_order (UpsertOrderByExchangeId _ _ _ _ _ _ _ _ _ _ _) = None"

fun write_row :: "i64 \<Rightarrow> builder_op \<Rightarrow> builder_order \<Rightarrow> builder_order" where
  "write_row now (ExitOp op) r = exit_op_row now op r"
| "write_row now (SetTradeBuilderLastSeenPrice _ price) r = set_trade_builder_last_seen_price now price r"
| "write_row now (SetTradeBuilderOrderLastError _ err) r = set_trade_builder_order_last_error now err r"
| "write_row now (SetTradeBuilderOrderPtbReferencePrice _ price) r = set_trade_builder_order_ptb_reference_price now price r"
| "write_row now (SetTradeBuilderOrderFeeRateBps _ bps) r = set_trade_builder_order_fee_rate_bps now bps r"
| "write_row now (SetTradeBuilderOrderRetryState _ status err usd qty) r = set_trade_builder_order_retry_state now status err usd qty r"
| "write_row now (SetTradeBuilderGuardBlockedState _ why usd qty) r = set_trade_builder_guard_blocked_state now why usd qty r"
| "write_row now (UpdateTradeBuilderGuardNotificationReason _ why) r = update_trade_builder_guard_notification_reason now why r"
| "write_row now (ClearTradeBuilderActiveExchangeOrder _ status) r = clear_trade_builder_active_exchange_order now status r"
| "write_row now (ClearTradeBuilderActiveExchangeOrderPreserveSizing _ status) r =
     clear_trade_builder_active_exchange_order_preserve_sizing now status r"
| "write_row now (UnblockNextTradeBuilderOrder _ _) r = r"
| "write_row now (UpsertOrderByExchangeId _ _ _ _ _ _ _ _ _ _ _) r = r"

definition op_row :: "i64 \<Rightarrow> builder_op \<Rightarrow> builder_order \<Rightarrow> builder_order" where
  "op_row now op r = (if builder_op_order op = Some (o_id r) then write_row now op r else r)"

lemmas row_defs = set_trade_builder_order_status_def set_trade_builder_order_last_error_def set_trade_builder_order_fee_rate_bps_def
  update_trade_builder_guard_notification_reason_def set_trade_builder_order_ptb_reference_price_def
  set_trade_builder_order_trigger_latched_def set_trade_builder_last_seen_price_def set_trade_builder_order_working_state_def
  set_trade_builder_order_retry_state_def set_trade_builder_guard_blocked_state_def clear_trade_builder_active_exchange_order_def
  clear_trade_builder_active_exchange_order_preserve_sizing_def

definition next_blocked :: "i64 \<Rightarrow> string \<Rightarrow> builder_order list \<Rightarrow> builder_order option" where
  "next_blocked trade_id token_id orders = find (\<lambda>r. o_trade_id r = trade_id \<and> o_token_id r = token_id \<and> o_status r = ''blocked'') (sort_key o_id orders)"

definition unblock_row :: "i64 \<Rightarrow> i64 \<Rightarrow> string \<Rightarrow> builder_order list \<Rightarrow> builder_order list" where
  "unblock_row now trade_id token_id orders = (case next_blocked trade_id token_id orders of None \<Rightarrow> orders
     | Some b \<Rightarrow> map (\<lambda>r. if o_id r = o_id b then r\<lparr>o_status := ''pending'', o_updated_at := now\<rparr> else r) orders)"

definition apply_op :: "i64 \<Rightarrow> builder_op \<Rightarrow> builder_world \<Rightarrow> builder_world" where
  "apply_op now op w = w\<lparr>bw_ops := bw_ops w @ [op],
     bw_orders := (case op of UnblockNextTradeBuilderOrder t token \<Rightarrow> unblock_row now t token (bw_orders w)
       | _ \<Rightarrow> map (op_row now op) (bw_orders w))\<rparr>"

section \<open>Calls\<close>

definition b_tick :: "builder_world \<Rightarrow> builder_world" where
  "b_tick w = w\<lparr>bw_calls := Suc (bw_calls w)\<rparr>"

definition b_write :: "stmt_env \<Rightarrow> builder_op \<Rightarrow> unit bstep" where
  "b_write sv op = (\<lambda>w. let after = apply_op (sv_now sv (bw_calls w)) op (b_tick w) in case sv_answer sv (bw_calls w) of
     Done \<Rightarrow> (Inr (), after) | Refused e \<Rightarrow> (Inl e, b_tick w) | Lost e \<Rightarrow> (Inl e, after))"

definition b_event :: "stmt_env \<Rightarrow> i64 \<Rightarrow> string \<Rightarrow> (string \<times> event_value) list \<Rightarrow> unit bstep" where
  "b_event sv i kind payload = b_write sv (ExitOp (AppendTradeBuilderOrderEvent i kind payload))"

definition b_status :: "stmt_env \<Rightarrow> i64 \<Rightarrow> string \<Rightarrow> string option \<Rightarrow> unit bstep" where
  "b_status sv i status err = b_write sv (ExitOp (SetTradeBuilderOrderStatus i status err))"

text \<open>A read of the tables, and an answer from outside that may differ from call to call.\<close>

definition b_read :: "stmt_env \<Rightarrow> (builder_world \<Rightarrow> 'a) \<Rightarrow> 'a bstep" where
  "b_read sv f = (\<lambda>w. case sv_answer sv (bw_calls w) of
     Done \<Rightarrow> (Inr (f w), b_tick w) | Refused e \<Rightarrow> (Inl e, b_tick w) | Lost e \<Rightarrow> (Inl e, b_tick w))"

definition b_ask :: "(nat \<Rightarrow> (string, 'a) result) \<Rightarrow> 'a bstep" where
  "b_ask f = (\<lambda>w. (f (bw_calls w), b_tick w))"

definition b_tell :: "(nat \<Rightarrow> 'a) \<Rightarrow> 'a bstep" where
  "b_tell f = b_ask (\<lambda>n. Inr (f n))"

definition b_now :: "stmt_env \<Rightarrow> (i64 \<Rightarrow> 'a bstep) \<Rightarrow> 'a bstep" where
  "b_now sv f = st_get (\<lambda>w. f (sv_now sv (bw_calls w)))"

definition order_row :: "i64 \<Rightarrow> builder_world \<Rightarrow> builder_order option" where
  "order_row i w = find (\<lambda>r. o_id r = i) (bw_orders w)"

definition get_trade_builder_order :: "stmt_env \<Rightarrow> i64 \<Rightarrow> (builder_order option) bstep" where
  "get_trade_builder_order sv i = b_read sv (order_row i)"

definition list_trade_builder_child_orders_by_parent :: "i64 \<Rightarrow> i64 option \<Rightarrow> builder_world \<Rightarrow> builder_order list" where
  "list_trade_builder_child_orders_by_parent parent except w =
     sort_key o_id (filter (\<lambda>r. o_parent_order_id r = Some parent \<and> Some (o_id r) \<noteq> except) (bw_orders w))"

text \<open>The siblings of an order, whose listing may fail, as an argument of the functions of \<open>Exit_Priority\<close>.\<close>

definition siblings_read :: "stmt_env \<Rightarrow> builder_order \<Rightarrow> (string, builder_order list) result \<Rightarrow> builder_world
    \<Rightarrow> (string, builder_order list) result" where
  "siblings_read sv order none w = (case o_parent_order_id order of None \<Rightarrow> none
     | Some p \<Rightarrow> (case sv_answer sv (bw_calls w) of Done \<Rightarrow> Inr (list_trade_builder_child_orders_by_parent p (Some (o_id order)) w)
         | Refused e \<Rightarrow> Inl e | Lost e \<Rightarrow> Inl e))"

text \<open>A function over the log of \<open>Exit_Sync\<close> as a step: its statements are sent one after the other.\<close>

definition b_exits :: "stmt_env \<Rightarrow> (i64 exit_op database \<Rightarrow> (i64 exit_op list, string, 'a) stm) \<Rightarrow> 'a bstep" where
  "b_exits sv m = (\<lambda>w. case m (\<lambda>ops _. case sv_answer sv (bw_calls w + length ops) of Done \<Rightarrow> None | Refused e \<Rightarrow> Some e | Lost e \<Rightarrow> Some e) [] of
     (r, ops) \<Rightarrow> (r, fold (\<lambda>op w. snd (b_write sv (ExitOp op) w)) ops w))"

section \<open>The exchange\<close>

text \<open>\<open>place\<close> is the answer of the exchange to a request. An accepted order is known under the id of the exchange, or under
  the id of the client when the exchange names none.\<close>

definition accepted_id :: "order_ack \<Rightarrow> string" where
  "accepted_id ack = unwrap_or (ak_client_order_id ack) (ak_exchange_order_id ack)"

definition accept_order :: "i64 \<Rightarrow> place_order_request \<Rightarrow> order_ack \<Rightarrow> builder_world \<Rightarrow> builder_world" where
  "accept_order i req ack w = w\<lparr>bw_placed := bw_placed w @ [(i, req, accepted_id ack)]\<rparr>"

definition b_place :: "(place_order_request \<Rightarrow> nat \<Rightarrow> (string, order_ack) result) \<Rightarrow> i64 \<Rightarrow> place_order_request
    \<Rightarrow> ((string, order_ack) result) bstep" where
  "b_place place i req = (\<lambda>w. case place req (bw_calls w) of
     Inl e \<Rightarrow> (Inr (Inl e), b_tick w) | Inr ack \<Rightarrow> (Inr (Inr ack), accept_order i req ack (b_tick w)))"

end
