(* ===== verification/Submit_Parts.thy ===== *)
theory Submit_Parts
  imports Builder_World Dual_Runtime
begin

text \<open>
  What the submission of a builder order is made of: the price of a sell (\<open>trade_builder/sell_submit_prefetch.rs\<close>), the guards
  of a buy (\<open>buy_guard_eval.rs\<close>, \<open>guard_waiting.rs\<close>), the retries of an exit (\<open>exit_retry.rs\<close>,
  \<open>stop_loss_fast_retry.rs\<close>), the market minimum (\<open>min_size_guard.rs\<close>), the type of the order (\<open>order_type.rs\<close>), the
  last look at the book (\<open>pre_submit_book_recheck.rs\<close>) and the events that wait until the exchange has answered
  (\<open>deferred_submit_events.rs\<close>). The exchange, the books and what other files decide are fields of \<open>submit_env\<close>. Decision
  logs, alerts and notifications that nobody waits for are left out.
\<close>

type_synonym payload = "(string \<times> event_value) list"

definition EvOptCount :: "nat option \<Rightarrow> event_value" where
  "EvOptCount n = (case n of None \<Rightarrow> EvNull | Some n \<Rightarrow> EvCount n)"

definition snapshot_str :: "json \<Rightarrow> string \<Rightarrow> string option" where
  "snapshot_str v key = Option.bind (json_get v key) json_str"

section \<open>The price of a sell\<close>

record book_level =
  bl_price :: f64
  bl_size :: f64

record book_snapshot =
  bk_bids :: "book_level list"
  bk_asks :: "book_level list"

record sell_submit_price =
  sp_desired_price :: f64
  sp_uncapped_desired_price :: f64
  sp_source :: string
  sp_depth_levels_used :: "nat option"
  sp_visible_bid_qty :: "f64 option"
  sp_requested_qty :: "f64 option"

definition normalize_trade_builder_visible_qty :: "f64 option \<Rightarrow> f64 option" where
  "normalize_trade_builder_visible_qty value = Option.bind value (\<lambda>value.
     if \<not> is_finite value \<or> value \<le> 0 then None else Some (round_trade_builder_share_qty value))"

definition trade_builder_order_book_visible_bid_qty :: "book_snapshot \<Rightarrow> f64 option" where
  "trade_builder_order_book_visible_bid_qty snapshot = normalize_trade_builder_visible_qty
     (Some (foldl (+) 0 (filter (\<lambda>qty. is_finite qty \<and> 0 < qty) (map bl_size (bk_bids snapshot)))))"

definition usable_level :: "book_level \<Rightarrow> bool" where
  "usable_level l \<longleftrightarrow> is_finite (bl_price l) \<and> is_finite (bl_size l) \<and> 0 < bl_price l \<and> 0 < bl_size l"

text \<open>The walk over the bids from the best one, which is the last.\<close>

fun sweep_bids :: "book_level list \<Rightarrow> f64 \<Rightarrow> f64 \<Rightarrow> nat \<Rightarrow> (f64 \<times> nat) option" where
  "sweep_bids [] requested_qty cumulative_qty depth_levels_used = None"
| "sweep_bids (l # ls) requested_qty cumulative_qty depth_levels_used =
    (if \<not> usable_level l then sweep_bids ls requested_qty cumulative_qty depth_levels_used
     else let cumulative_qty = round_trade_builder_share_qty (cumulative_qty + bl_size l)
          in if requested_qty \<le> cumulative_qty + exit_qty_tolerance then Some (clamp_probability (bl_price l), Suc depth_levels_used)
             else sweep_bids ls requested_qty cumulative_qty (Suc depth_levels_used))"

definition trade_builder_order_book_sweep_sell_price :: "book_snapshot \<Rightarrow> f64 \<Rightarrow> (f64 \<times> nat) option" where
  "trade_builder_order_book_sweep_sell_price snapshot requested_qty =
     Option.bind (normalize_trade_builder_visible_qty (Some requested_qty)) (\<lambda>requested_qty. sweep_bids (rev (bk_bids snapshot)) requested_qty 0 0)"

definition clamped_reference :: "f64 option \<Rightarrow> f64 option" where
  "clamped_reference value = map_option clamp_probability (normalize_trade_builder_reference_price value)"

definition resolve_trade_builder_sell_submit_price_with_book :: "builder_order \<Rightarrow> f64 \<Rightarrow> f64 option \<Rightarrow> f64 option \<Rightarrow> f64 option
    \<Rightarrow> book_snapshot option \<Rightarrow> sell_submit_price" where
  "resolve_trade_builder_sell_submit_price_with_book order current_price best_bid last_trade_price requested_qty book =
    (let requested = normalize_trade_builder_visible_qty requested_qty;
         visible_bid_qty = Option.bind book trade_builder_order_book_visible_bid_qty
     in case Option.bind book (\<lambda>snapshot. Option.bind requested (trade_builder_order_book_sweep_sell_price snapshot)) of
          Some (sweep_price, depth_levels_used) \<Rightarrow>
            \<lparr>sp_desired_price = trade_builder_cap_exit_sell_price order sweep_price, sp_uncapped_desired_price = sweep_price,
             sp_source = ''orderbook_depth'', sp_depth_levels_used = Some depth_levels_used,
             sp_visible_bid_qty = visible_bid_qty, sp_requested_qty = requested\<rparr>
        | None \<Rightarrow>
            let (uncapped, source) = (case clamped_reference best_bid of
                Some p \<Rightarrow> (p, ''best_bid_fallback'')
              | None \<Rightarrow> (case clamped_reference last_trade_price of
                    Some p \<Rightarrow> (p, ''last_trade_fallback'')
                  | None \<Rightarrow> (clamp_probability current_price, ''price_fallback'')))
            in \<lparr>sp_desired_price = trade_builder_cap_exit_sell_price order uncapped, sp_uncapped_desired_price = uncapped,
                sp_source = source, sp_depth_levels_used = None, sp_visible_bid_qty = visible_bid_qty, sp_requested_qty = requested\<rparr>)"

section \<open>The guards of a buy\<close>

definition trade_builder_guard_diagnostic_payload :: "bool \<Rightarrow> string \<Rightarrow> string \<Rightarrow> event_value \<Rightarrow> event_value" where
  "trade_builder_guard_diagnostic_payload configured verdict reason_code details = EvObj
     [(''configured'', EvBool configured), (''decision'', EvStr verdict), (''reason_code'', EvStr reason_code), (''details'', details)]"

record buy_guard_evaluation =
  bg_trigger_price_guard_payload :: event_value
  bg_execution_floor_payload :: event_value
  bg_max_price_payload :: event_value
  bg_trigger_guard_reference_price :: f64
  bg_trigger_guard_reference_source :: string
  bg_trigger_price_guard_blocked :: bool
  bg_execution_floor_reason :: "string option"
  bg_max_price_reference :: f64
  bg_max_price_reference_source :: string
  bg_max_price_blocked :: bool
  bg_pair_lock_market_waiting_reason :: "string option"
  bg_effective_decision :: string
  bg_effective_reason_code :: string

definition guard_payload :: "bool \<Rightarrow> (string \<times> string) option \<Rightarrow> event_value \<Rightarrow> event_value" where
  "guard_payload configured blocked details =
    (case blocked of
       Some (verdict, reason_code) \<Rightarrow> trade_builder_guard_diagnostic_payload True verdict reason_code details
     | None \<Rightarrow> if configured then trade_builder_guard_diagnostic_payload True ''passed'' ''passed'' details
         else trade_builder_guard_diagnostic_payload False ''not_configured'' ''not_configured'' EvNull)"

definition waits_or_blocks :: "bool \<Rightarrow> string" where
  "waits_or_blocks waits = (if waits then ''waiting'' else ''blocked'')"

definition floor_reason :: "f64 option \<Rightarrow> f64 option \<Rightarrow> string option" where
  "floor_reason best_ask_floor_price best_ask = (case (best_ask_floor_price, valid_ask best_ask) of
     (Some _, None) \<Rightarrow> Some ''best_ask_unavailable''
   | (Some least, Some ask) \<Rightarrow> if ask < least then Some ''below_best_ask_floor'' else None
   | (None, _) \<Rightarrow> None)"

definition pair_waiting_reason :: "string \<Rightarrow> string option \<Rightarrow> f64 option \<Rightarrow> string option" where
  "pair_waiting_reason execution_mode pair_leg_role best_ask =
    (if execution_mode = ''market'' \<and> valid_ask best_ask = None
     then if pair_leg_role = Some ''counter_candidate'' then Some ''pair_counter_best_ask_unavailable''
          else if pair_leg_role = Some ''lead_candidate'' then Some ''pair_primary_best_ask_unavailable'' else None
     else None)"

definition evaluate_trade_builder_buy_guards :: "string \<Rightarrow> string option \<Rightarrow> f64 \<Rightarrow> f64 option \<Rightarrow> f64 \<Rightarrow> f64 option \<Rightarrow> f64 option
    \<Rightarrow> f64 option \<Rightarrow> bool \<Rightarrow> bool \<Rightarrow> bool \<Rightarrow> buy_guard_evaluation" where
  "evaluate_trade_builder_buy_guards execution_mode pair_leg_role current_price best_ask desired_price guard_trigger_price max_price
      best_ask_floor_price retry_trigger retry_floor retry_max =
    (let (reference, reference_source) = (case clamped_best_ask best_ask of
            Some ask \<Rightarrow> (ask, ''best_ask'') | None \<Rightarrow> (clamped_reference_or_price current_price, ''current_price_fallback''));
         trigger_blocked = (case guard_trigger_price of None \<Rightarrow> False | Some guard \<Rightarrow> is_finite reference \<and> reference < guard);
         trigger_payload = guard_payload (guard_trigger_price \<noteq> None)
           (if trigger_blocked then Some (waits_or_blocks retry_trigger, ''below_trigger_price_guard'') else None)
           (EvObj [(''guard_trigger_price'', EvOptNum guard_trigger_price), (''current_price'', EvNum current_price),
             (''trigger_guard_reference_price'', EvNum reference), (''trigger_guard_reference_source'', EvStr reference_source)]);
         unavailable = floor_reason best_ask_floor_price best_ask;
         floor_waits = (\<lambda>why. why = ''best_ask_unavailable'' \<or> retry_floor);
         floor_payload = guard_payload (best_ask_floor_price \<noteq> None)
           (map_option (\<lambda>why. (waits_or_blocks (floor_waits why), why)) unavailable)
           (EvObj [(''best_ask_floor_price'', EvOptNum best_ask_floor_price), (''best_ask'', EvOptNum best_ask)]);
         pair_waiting = pair_waiting_reason execution_mode pair_leg_role best_ask;
         (max_reference, max_source) = (case valid_ask best_ask of
            Some ask \<Rightarrow> (ask, ''best_ask'') | None \<Rightarrow> (desired_price, ''desired_price_fallback''));
         max_blocked = (case max_price of None \<Rightarrow> False | Some threshold \<Rightarrow> is_finite max_reference \<and> threshold < max_reference);
         max_payload = guard_payload (max_price \<noteq> None)
           (if max_blocked then Some (waits_or_blocks retry_max, ''above_max_price'') else None)
           (EvObj [(''max_price'', EvOptNum max_price), (''current_price'', EvNum current_price), (''desired_price'', EvNum desired_price),
             (''reference_price'', EvNum max_reference), (''reference_price_source'', EvStr max_source)]);
         (verdict, reason_code) = (case pair_waiting of Some why \<Rightarrow> (''waiting'', why) | None \<Rightarrow>
            if trigger_blocked then (waits_or_blocks retry_trigger, ''below_trigger_price_guard'')
            else case unavailable of Some why \<Rightarrow> (waits_or_blocks (floor_waits why), why) | None \<Rightarrow>
            if max_blocked then (waits_or_blocks retry_max, ''above_max_price'') else (''passed'', ''guards_passed''))
     in \<lparr>bg_trigger_price_guard_payload = trigger_payload, bg_execution_floor_payload = floor_payload, bg_max_price_payload = max_payload,
         bg_trigger_guard_reference_price = reference, bg_trigger_guard_reference_source = reference_source,
         bg_trigger_price_guard_blocked = trigger_blocked, bg_execution_floor_reason = unavailable, bg_max_price_reference = max_reference,
         bg_max_price_reference_source = max_source, bg_max_price_blocked = max_blocked,
         bg_pair_lock_market_waiting_reason = pair_waiting, bg_effective_decision = verdict, bg_effective_reason_code = reason_code\<rparr>)"

section \<open>The snapshot of the books an order was created with\<close>

record runtime_snapshot =
  rs_captured_at :: i64
  rs_source :: string
  rs_current_price :: "f64 option"
  rs_best_bid :: "f64 option"
  rs_best_ask :: "f64 option"
  rs_last_trade_price :: "f64 option"
  rs_trigger_reference_price :: "f64 option"
  rs_guard_reference_price :: "f64 option"
  rs_fee_rate_bps :: "u64 option"
  rs_market_spec :: "trade_builder_market_spec option"

definition trade_builder_runtime_snapshot_from_order :: "(json \<Rightarrow> runtime_snapshot option) \<Rightarrow> builder_order \<Rightarrow> runtime_snapshot option" where
  "trade_builder_runtime_snapshot_from_order decode order = Option.bind (o_runtime_snapshot_json order) decode"

definition trade_builder_runtime_snapshot_age_ms :: "runtime_snapshot \<Rightarrow> i64 \<Rightarrow> i64" where
  "trade_builder_runtime_snapshot_age_ms snapshot now = max (now - rs_captured_at snapshot) 0"

definition trade_builder_runtime_snapshot_is_fresh :: "runtime_snapshot \<Rightarrow> i64 \<Rightarrow> bool" where
  "trade_builder_runtime_snapshot_is_fresh snapshot now \<longleftrightarrow> trade_builder_runtime_snapshot_age_ms snapshot now \<le> 500"

definition fresh_runtime_snapshot :: "(json \<Rightarrow> runtime_snapshot option) \<Rightarrow> builder_order \<Rightarrow> i64 \<Rightarrow> runtime_snapshot option" where
  "fresh_runtime_snapshot decode order now =
     filter_opt (\<lambda>snapshot. trade_builder_runtime_snapshot_is_fresh snapshot now) (trade_builder_runtime_snapshot_from_order decode order)"

definition trade_builder_runtime_price_from_snapshot :: "runtime_snapshot \<Rightarrow> trade_builder_runtime_price option" where
  "trade_builder_runtime_price_from_snapshot s =
     map_option (\<lambda>price. \<lparr>rp_price = price, rp_source = ''runtime_snapshot'', rp_runtime_warning = None,
        rp_best_bid = map_option clamp_probability (rs_best_bid s), rp_best_ask = map_option clamp_probability (rs_best_ask s),
        rp_last_trade_price = map_option clamp_probability (rs_last_trade_price s)\<rparr>)
       (clamped_reference (or_opt (rs_current_price s) (or_opt (rs_best_bid s) (rs_last_trade_price s))))"

definition trade_builder_cached_market_spec_for_order :: "(json \<Rightarrow> runtime_snapshot option) \<Rightarrow> (string \<Rightarrow> trade_builder_market_spec option)
    \<Rightarrow> builder_order \<Rightarrow> i64 \<Rightarrow> trade_builder_market_spec option" where
  "trade_builder_cached_market_spec_for_order decode cache order now =
     or_opt (Option.bind (fresh_runtime_snapshot decode order now) rs_market_spec)
       (Option.bind (find (\<lambda>slug. cache slug \<noteq> None) (trade_builder_market_spec_slug_candidates (o_market_slug order))) cache)"

section \<open>What surrounds a submission\<close>

text \<open>The fields that are steps are functions of other files: the check of the live gap, the abort of a pair, what is recorded of
  a submission and the finalisation of a fill. The other fields answer the n-th call.\<close>

record submit_env =
  se_stmt :: stmt_env
  se_place :: "place_order_request \<Rightarrow> nat \<Rightarrow> (string, order_ack) result"
  se_uuid :: "nat \<Rightarrow> string"
  se_book :: "string \<Rightarrow> nat \<Rightarrow> book_snapshot option"
  se_ws :: "string \<Rightarrow> nat \<Rightarrow> market_data_snapshot option"
  se_subscribed :: "string \<Rightarrow> nat \<Rightarrow> bool"
  se_available_qty :: "string \<Rightarrow> nat \<Rightarrow> f64 option"
  se_decode_snapshot :: "json \<Rightarrow> runtime_snapshot option"
  se_spec_cache :: "string \<Rightarrow> nat \<Rightarrow> trade_builder_market_spec option"
  se_market_spec :: "builder_order \<Rightarrow> nat \<Rightarrow> trade_builder_market_spec option"
  se_counter_waits :: "builder_order \<Rightarrow> nat \<Rightarrow> (string, bool) result"
  se_live_gap_blocks :: "builder_order \<Rightarrow> f64 option \<Rightarrow> f64 option \<Rightarrow> bool bstep"
  se_risk :: "builder_order \<Rightarrow> f64 \<Rightarrow> nat \<Rightarrow> (string, risk_decision) result"
  se_created_payload :: "i64 \<Rightarrow> nat \<Rightarrow> (string, json option) result"
  se_sent :: "builder_order \<Rightarrow> string \<Rightarrow> nat \<Rightarrow> bool"
  se_abort_pair :: "builder_order \<Rightarrow> string \<Rightarrow> unit bstep"
  se_latest_flow_payload :: "i64 \<Rightarrow> nat \<Rightarrow> (string, json option) result"
  se_telemetry :: "builder_order \<Rightarrow> json option \<Rightarrow> f64 \<Rightarrow> f64 \<Rightarrow> order_ack \<Rightarrow> payload"
  se_submitted_dynamic :: "builder_order \<Rightarrow> f64 \<Rightarrow> f64 \<Rightarrow> unit bstep"
  se_inventory_baseline :: "builder_order \<Rightarrow> f64 \<Rightarrow> unit bstep"
  se_submit_observation :: "builder_order \<Rightarrow> string \<Rightarrow> f64 \<Rightarrow> f64 \<Rightarrow> unit bstep"
  se_submitted_notification :: "builder_order \<Rightarrow> nat \<Rightarrow> (string, unit) result"
  se_finalize :: "builder_order \<Rightarrow> string \<Rightarrow> f64 \<Rightarrow> f64 \<Rightarrow> unit bstep"
  se_show_2 :: "f64 \<Rightarrow> string"
  se_market_window_end :: "string \<Rightarrow> string option"

text \<open>A quote taken from the books a moment before an exit fired.\<close>

record exit_fast_submit_quote =
  eq_token_id :: string
  eq_order_book :: book_snapshot
  eq_captured_at :: i64
  eq_market_updated_at_ms :: i64
  eq_best_bid :: "f64 option"
  eq_best_ask :: "f64 option"
  eq_last_trade_price :: "f64 option"

definition exit_fast_submit_quote_age_ms :: "exit_fast_submit_quote \<Rightarrow> i64 \<Rightarrow> i64" where
  "exit_fast_submit_quote_age_ms quote now = max (now - eq_captured_at quote) 0"

definition exit_fast_submit_quote_is_fresh :: "exit_fast_submit_quote \<Rightarrow> string \<Rightarrow> i64 \<Rightarrow> bool" where
  "exit_fast_submit_quote_is_fresh quote token_id now \<longleftrightarrow>
     eq_token_id quote = token_id \<and> exit_fast_submit_quote_age_ms quote now \<le> 500"

definition prefetch_trade_builder_sell_submit_inputs :: "submit_env \<Rightarrow> builder_order \<Rightarrow> f64 \<Rightarrow> f64 option \<Rightarrow> f64 option \<Rightarrow> f64 option
    \<Rightarrow> string \<Rightarrow> exit_fast_submit_quote option \<Rightarrow> (sell_submit_price option \<times> f64 option) bstep" where
  "prefetch_trade_builder_sell_submit_inputs se order current_price best_bid last_trade_price requested_qty size_basis quote =
    (let priced = (\<lambda>book. Some (resolve_trade_builder_sell_submit_price_with_book order current_price best_bid last_trade_price requested_qty book))
     in if o_side order \<noteq> ''sell'' then st_return (None, None)
        else if quote \<noteq> None then st_return (priced (map_option eq_order_book quote), None)
        else st_bind (b_tell (se_book se (o_token_id order))) (\<lambda>book.
          if size_basis \<noteq> size_basis_shares then st_return (priced book, None)
          else st_bind (b_tell (se_available_qty se (o_token_id order))) (\<lambda>available. st_return (priced book, available))))"

section \<open>Waiting and retrying\<close>

definition build_guard_notification_reason :: "string \<Rightarrow> string \<Rightarrow> string" where
  "build_guard_notification_reason scope reason_code = scope @ '':'' @ reason_code"

definition should_send_guard_transition_notification :: "builder_order \<Rightarrow> string \<Rightarrow> bool \<Rightarrow> bool" where
  "should_send_guard_transition_notification order candidate_reason notify_flag \<longleftrightarrow>
     notify_flag \<and> o_last_guard_notification_reason order \<noteq> Some candidate_reason"

definition maybe_send_guard_transition_notification :: "submit_env \<Rightarrow> builder_order \<Rightarrow> string \<Rightarrow> bool \<Rightarrow> string \<Rightarrow> bool bstep" where
  "maybe_send_guard_transition_notification se order candidate_reason notify_flag notification_type =
    (if \<not> should_send_guard_transition_notification order candidate_reason notify_flag then st_return False
     else st_bind (b_tell (se_sent se order notification_type)) (\<lambda>sent.
       if \<not> sent then st_return False
       else st_then (b_write (se_stmt se) (UpdateTradeBuilderGuardNotificationReason (o_id order) (Some candidate_reason))) (st_return True)))"

definition trade_builder_guard_blocked_status :: string where "trade_builder_guard_blocked_status = ''guard_blocked''"

definition trade_builder_is_guard_blocked_for_reason :: "builder_order \<Rightarrow> string \<Rightarrow> bool" where
  "trade_builder_is_guard_blocked_for_reason order why \<longleftrightarrow>
     o_status order = trade_builder_guard_blocked_status \<and> o_last_error order = Some why"

definition transition_trade_builder_order_to_guard_waiting :: "submit_env \<Rightarrow> builder_order \<Rightarrow> string \<Rightarrow> string \<Rightarrow> payload \<Rightarrow> f64 option
    \<Rightarrow> f64 option \<Rightarrow> string \<Rightarrow> string option \<Rightarrow> unit bstep" where
  "transition_trade_builder_order_to_guard_waiting se order why event_type payload remaining_size remaining_qty candidate_reason notification_type =
     st_then (b_write (se_stmt se) (SetTradeBuilderGuardBlockedState (o_id order) why remaining_size remaining_qty))
       (if trade_builder_is_guard_blocked_for_reason order why then st_return ()
        else st_then (b_event (se_stmt se) (o_id order) event_type payload)
          (case notification_type of None \<Rightarrow> st_return ()
           | Some t \<Rightarrow> st_then (maybe_send_guard_transition_notification se order candidate_reason True t) (st_return ())))"

definition append_trade_builder_guard_diagnostics_event :: "stmt_env \<Rightarrow> builder_order \<Rightarrow> f64 \<Rightarrow> f64 \<Rightarrow> f64 option
    \<Rightarrow> event_value \<times> event_value \<times> event_value \<Rightarrow> string option \<Rightarrow> string \<Rightarrow> string \<Rightarrow> unit bstep" where
  "append_trade_builder_guard_diagnostics_event sv order current_price desired_price best_ask guards scope verdict reason_code =
    (case guards of (trigger_price_guard, execution_floor_guard, max_price_guard) \<Rightarrow> b_event sv (o_id order) ''guard_evaluated''
       [(''market_slug'', EvStr (o_market_slug order)), (''token_id'', EvStr (o_token_id order)),
        (''outcome_label'', EvStr (o_outcome_label order)), (''status_before'', EvStr (o_status order)),
        (''current_price'', EvNum current_price), (''desired_price'', EvNum desired_price), (''best_ask'', EvOptNum best_ask),
        (''trigger_price_guard'', trigger_price_guard), (''execution_floor_guard'', execution_floor_guard),
        (''max_price_guard'', max_price_guard), (''effective_guard_scope'', EvOptStr scope),
        (''effective_decision'', EvStr verdict), (''effective_reason_code'', EvStr reason_code)])"

definition mark_trade_builder_inventory_pending :: "stmt_env \<Rightarrow> builder_order \<Rightarrow> string \<Rightarrow> f64 \<Rightarrow> f64 \<Rightarrow> f64 option \<Rightarrow> unit bstep" where
  "mark_trade_builder_inventory_pending sv order why current_price required_qty available_qty =
     st_then (if o_active_exchange_order_id order \<noteq> None
         then b_write sv (ClearTradeBuilderActiveExchangeOrderPreserveSizing (o_id order) ''inventory_pending'')
         else b_status sv (o_id order) ''inventory_pending'' (Some why))
    (st_then (b_status sv (o_id order) ''inventory_pending'' (Some why))
      (b_event sv (o_id order) ''exit_inventory_pending''
        [(''reason'', EvStr why), (''side'', EvStr (o_side order)), (''size_basis'', EvStr (o_size_basis order)),
         (''trigger_condition'', EvOptStr (o_trigger_condition order)), (''trigger_price'', EvOptNum (o_trigger_price order)),
         (''current_price'', EvNum current_price), (''required_qty'', EvNum required_qty), (''available_qty'', EvOptNum available_qty)]))"

text \<open>What a retry of an exit carries over: the quantity for the next attempt, and how it came about.\<close>

definition preserves_visible_stage :: "f64 option \<Rightarrow> exit_submit_stage option \<Rightarrow> exit_submit_stage option \<Rightarrow> bool" where
  "preserves_visible_stage override attempt_stage next_stage \<longleftrightarrow>
     override = None \<and> next_stage = Some VisibleInventory \<and> attempt_stage \<noteq> Some VisibleInventory"

definition retry_remaining_qty :: "builder_order \<Rightarrow> f64 option \<Rightarrow> f64 option \<Rightarrow> exit_submit_stage option \<Rightarrow> exit_submit_stage option
    \<Rightarrow> f64 option" where
  "retry_remaining_qty order attempted_qty override attempt_stage next_stage =
     or_opt override (or_opt (if preserves_visible_stage override attempt_stage next_stage then attempted_qty else None)
       (or_opt (Option.bind attempted_qty trade_builder_next_retry_share_qty) (o_remaining_qty order)))"

definition qty_lowered :: "f64 option \<Rightarrow> f64 option \<Rightarrow> bool" where
  "qty_lowered attempted_qty next_qty = (case (attempted_qty, next_qty) of
     (Some a, Some b) \<Rightarrow> trade_builder_retry_qty_is_lower a b | _ \<Rightarrow> False)"

definition schedule_trade_builder_exit_sell_retry :: "stmt_env \<Rightarrow> builder_order \<Rightarrow> string \<Rightarrow> string \<Rightarrow> f64 \<Rightarrow> f64 \<Rightarrow> f64 option \<Rightarrow> f64 option
    \<Rightarrow> f64 option \<Rightarrow> f64 option \<Rightarrow> exit_submit_stage option \<Rightarrow> exit_submit_stage option \<Rightarrow> unit bstep" where
  "schedule_trade_builder_exit_sell_retry sv order event_type error_text current_price desired_price requested_qty available_qty attempted_qty
      override attempt_stage next_stage =
    (let preserve = preserves_visible_stage override attempt_stage next_stage;
         next_qty = retry_remaining_qty order attempted_qty override attempt_stage next_stage;
         lowered = qty_lowered attempted_qty next_qty
     in st_then (b_write sv (SetTradeBuilderOrderRetryState (o_id order) ''triggered'' (Some (trade_builder_retry_error_text error_text next_stage))
          (map_option (\<lambda>qty. fmax (qty * desired_price) 0) next_qty) next_qty))
       (st_then (case (attempted_qty, next_qty) of
           (Some previous_qty, Some shaved_qty) \<Rightarrow>
             if override = None \<and> \<not> preserve \<and> lowered
             then b_event sv (o_id order) ''local_inventory_retry_shaved''
               [(''previous_qty'', EvNum previous_qty), (''next_qty'', EvNum shaved_qty),
                (''buffer_qty'', EvNum (trade_builder_exit_qty_buffer previous_qty)), (''reason'', EvStr error_text)]
             else st_return ()
         | _ \<Rightarrow> st_return ())
        (b_event sv (o_id order) event_type
          [(''reason'', EvStr error_text), (''status_before'', EvStr (o_status order)), (''status_after'', EvStr ''triggered''),
           (''active_exchange_order_id'', EvOptStr (o_active_exchange_order_id order)), (''current_price'', EvNum current_price),
           (''desired_price'', EvNum desired_price), (''requested_qty'', EvOptNum requested_qty), (''attempted_qty'', EvOptNum attempted_qty),
           (''available_qty'', EvOptNum available_qty), (''next_remaining_qty_override'', EvOptNum override),
           (''attempt_stage'', EvOptStr (map_option stage_as_str attempt_stage)),
           (''next_attempt_stage'', EvOptStr (map_option stage_as_str next_stage)), (''qty_changed'', EvBool lowered),
           (''qty_change_strategy'', EvStr (if override \<noteq> None then ''override'' else if preserve then ''preserve_for_visible_inventory_stage''
              else if lowered then ''auto_shave'' else ''unchanged'')),
           (''size_basis'', EvStr (o_size_basis order)), (''target_qty'', EvOptNum (o_target_qty order)), (''remaining_qty'', EvOptNum next_qty)])))"

section \<open>The quick resubmission of a stop loss\<close>

definition trade_builder_error_is_fak_no_match :: "string \<Rightarrow> bool" where
  "trade_builder_error_is_fak_no_match error_text =
    (let normalized = to_ascii_lowercase error_text
     in contains normalized ''no orders found to match'' \<or>
        (contains normalized ''fak'' \<and> contains normalized ''no match'') \<or>
        contains normalized ''partially filled or killed if no match'')"

definition trade_builder_is_fast_stop_loss_sell :: "builder_order \<Rightarrow> bool" where
  "trade_builder_is_fast_stop_loss_sell order \<longleftrightarrow> trade_builder_stop_loss_latched order \<and>
     (trade_builder_is_stop_loss_child order \<or> trade_builder_order_is_revenge_flip_stop_loss_sell snapshot_str order)"

definition trade_builder_should_use_fast_stop_loss_submit_price :: "builder_order \<Rightarrow> string \<Rightarrow> bool" where
  "trade_builder_should_use_fast_stop_loss_submit_price order size_basis \<longleftrightarrow>
     trade_builder_is_fast_stop_loss_sell order \<and> o_side order = ''sell'' \<and> size_basis = size_basis_shares"

definition trade_builder_should_fast_retry_stop_loss_submit :: "builder_order \<Rightarrow> string \<Rightarrow> string \<Rightarrow> string \<Rightarrow> bool" where
  "trade_builder_should_fast_retry_stop_loss_submit order order_type size_basis error_text \<longleftrightarrow>
     trade_builder_should_use_fast_stop_loss_submit_price order size_basis \<and>
     to_ascii_uppercase (trim order_type) \<in> {''FAK'', ''IOC''} \<and> trade_builder_error_is_fak_no_match error_text \<and>
     \<not> trade_builder_error_indicates_balance_or_allowance error_text \<and>
     \<not> trade_builder_error_is_fatal_exchange_rejection error_text"

text \<open>A price one step below the book, with the age and the source of the quote.\<close>

record fast_submit_price =
  fp_sell_submit_price :: sell_submit_price
  fp_fresh_quote_age_ms :: "i64 option"
  fp_quote_source :: string

definition trade_builder_fast_sl_retry_price :: "builder_order \<Rightarrow> f64 \<Rightarrow> f64" where
  "trade_builder_fast_sl_retry_price order desired_price =
     aggressive_price_for_side (o_side order) desired_price (o_min_price_distance_cent order)"

definition trade_builder_fast_stop_loss_submit_price :: "builder_order \<Rightarrow> sell_submit_price \<Rightarrow> i64 option \<Rightarrow> string
    \<Rightarrow> fast_submit_price" where
  "trade_builder_fast_stop_loss_submit_price order resolution fresh_quote_age_ms quote_source =
     \<lparr>fp_sell_submit_price = resolution\<lparr>sp_uncapped_desired_price := sp_desired_price resolution,
        sp_desired_price := trade_builder_fast_sl_retry_price order (sp_desired_price resolution)\<rparr>,
      fp_fresh_quote_age_ms = fresh_quote_age_ms, fp_quote_source = quote_source\<rparr>"

definition trade_builder_ws_snapshot_age_ms :: "market_data_snapshot \<Rightarrow> i64 \<Rightarrow> i64" where
  "trade_builder_ws_snapshot_age_ms snapshot now = max (sat_sub_i64 now (md_updated_at_ms snapshot)) 0"

definition trade_builder_order_book_best_bid :: "book_snapshot \<Rightarrow> f64 option" where
  "trade_builder_order_book_best_bid snapshot =
     foldl (\<lambda>best price. case best of Some current \<Rightarrow> if price \<le> current then Some current else Some price | None \<Rightarrow> Some price)
       None (map (\<lambda>l. clamp_probability (bl_price l)) (filter usable_level (bk_bids snapshot)))"

definition fast_sl_quote :: "builder_order \<Rightarrow> f64 option \<Rightarrow> book_snapshot option \<Rightarrow> market_data_snapshot option \<Rightarrow> i64
    \<Rightarrow> fast_submit_price option" where
  "fast_sl_quote order requested_qty book ws_snapshot now =
    (let fresh = filter_opt (\<lambda>snapshot. trade_builder_ws_snapshot_age_ms snapshot now \<le> 1000) ws_snapshot;
         rest_best_bid = Option.bind book trade_builder_order_book_best_bid
     in Option.bind (or_opt rest_best_bid (clamped_reference (Option.bind fresh md_best_bid))) (\<lambda>best_bid.
          Some (trade_builder_fast_stop_loss_submit_price order
            (resolve_trade_builder_sell_submit_price_with_book order best_bid (Some best_bid)
              (Option.bind fresh md_last_trade_price) requested_qty book)
            (if rest_best_bid \<noteq> None then Some 0 else map_option (\<lambda>snapshot. trade_builder_ws_snapshot_age_ms snapshot now) fresh)
            (if rest_best_bid \<noteq> None then ''rest_orderbook'' else ''ws_snapshot''))))"

definition resolve_trade_builder_fast_sl_retry_submit_price :: "submit_env \<Rightarrow> builder_order \<Rightarrow> f64 option
    \<Rightarrow> (fast_submit_price option) bstep" where
  "resolve_trade_builder_fast_sl_retry_submit_price se order requested_qty =
     st_bind (b_tell (\<lambda>n. (se_book se (o_token_id order) n, se_ws se (o_token_id order) n))) (\<lambda>(book, ws_snapshot).
       b_now (se_stmt se) (\<lambda>now. st_return (fast_sl_quote order requested_qty book ws_snapshot now)))"

text \<open>The first price of a latched stop loss, in place of the price of an ordinary sell.\<close>

datatype fast_initial = InitialNotEligible | InitialScheduledRetry | InitialResolved sell_submit_price payload

definition resolve_trade_builder_fast_stop_loss_initial_submit_price :: "submit_env \<Rightarrow> builder_order \<Rightarrow> f64 \<Rightarrow> f64 option
    \<Rightarrow> f64 option \<Rightarrow> f64 option \<Rightarrow> string \<Rightarrow> exit_fast_submit_quote option \<Rightarrow> (fast_submit_price option) bstep" where
  "resolve_trade_builder_fast_stop_loss_initial_submit_price se order current_price best_bid last_trade_price requested_qty size_basis quote =
    (if \<not> trade_builder_should_use_fast_stop_loss_submit_price order size_basis then st_return None
     else case quote of
         Some q \<Rightarrow> b_now (se_stmt se) (\<lambda>now. st_return (Some (trade_builder_fast_stop_loss_submit_price order
             (resolve_trade_builder_sell_submit_price_with_book order current_price best_bid last_trade_price requested_qty
               (Some (eq_order_book q)))
             (Some (exit_fast_submit_quote_age_ms q now)) ''exit_fast_quote'')))
       | None \<Rightarrow> resolve_trade_builder_fast_sl_retry_submit_price se order requested_qty)"


definition prepare_trade_builder_fast_stop_loss_initial_submit :: "submit_env \<Rightarrow> builder_order \<Rightarrow> i64 \<Rightarrow> f64 \<Rightarrow> f64 option
    \<Rightarrow> f64 option \<Rightarrow> f64 option \<Rightarrow> string \<Rightarrow> exit_fast_submit_quote option \<Rightarrow> fast_initial bstep" where
  "prepare_trade_builder_fast_stop_loss_initial_submit se order submit_started_at current_price best_bid last_trade_price requested_qty
      size_basis quote =
    (if \<not> trade_builder_should_use_fast_stop_loss_submit_price order size_basis then st_return InitialNotEligible
     else st_bind (resolve_trade_builder_fast_stop_loss_initial_submit_price se order current_price best_bid last_trade_price
         requested_qty size_basis quote) (\<lambda>price. case price of
       None \<Rightarrow> st_then (b_event (se_stmt se) (o_id order) ''sl_initial_quote_unavailable''
           [(''reason'', EvStr ''fresh_bid_unavailable''), (''current_price'', EvNum current_price),
            (''runtime_best_bid'', EvOptNum best_bid), (''runtime_last_trade_price'', EvOptNum last_trade_price),
            (''requested_qty'', EvOptNum requested_qty), (''exit_fast_quote_used'', EvBool (quote \<noteq> None))])
         (st_then (schedule_trade_builder_exit_sell_retry (se_stmt se) order ''submit_retry_scheduled'' ''sl_initial_quote_unavailable''
           current_price current_price requested_qty None None None None None)
         (st_return InitialScheduledRetry))
     | Some p \<Rightarrow> let resolution = fp_sell_submit_price p
         in st_return (InitialResolved resolution
           [(''sl_trigger_to_submit_ms'', EvOptId (map_option (\<lambda>latched. max (submit_started_at - latched) 0) (o_trigger_latched_at order))),
            (''sl_quote_age_ms'', EvOptId (fp_fresh_quote_age_ms p)),
            (''sl_first_submit_price'', EvNum (sp_desired_price resolution)),
            (''sl_first_submit_price_source'', EvStr (fp_quote_source p @ '':'' @ sp_source resolution)),
            (''sl_initial_quote_source'', EvStr (fp_quote_source p)),
            (''sl_initial_submit_price_source'', EvStr (sp_source resolution)),
            (''sl_initial_aggressive_ticks'', EvCount 1)])))"

text \<open>At most five more attempts after one that found no match; \<open>left\<close> counts them down.\<close>

record fast_success =
  fq_ack :: order_ack
  fq_client_order_id :: string
  fq_desired_price :: f64
  fq_sell_submit_price :: sell_submit_price
  fq_submit_started_at :: i64
  fq_submit_finished_at :: i64
  fq_attempt_payload :: payload
  fq_attempt_events :: "payload list"

datatype fast_retry = RetryNotEligible | RetryExhausted "payload list" string | RetrySuccess fast_success

definition retry_payload :: "submit_env \<Rightarrow> nat \<Rightarrow> string \<Rightarrow> f64 option \<Rightarrow> fast_submit_price \<Rightarrow> string \<Rightarrow> i64 \<Rightarrow> i64 \<Rightarrow> payload" where
  "retry_payload se attempt original requested_qty p client_order_id started finished =
    (let price = fp_sell_submit_price p
     in [(''fast_sl_retry_attempt'', EvCount attempt), (''retry_reason'', EvStr original),
         (''retry_price'', EvNum (sp_desired_price price)), (''fresh_quote_age_ms'', EvOptId (fp_fresh_quote_age_ms p)),
         (''quote_source'', EvStr (fp_quote_source p)), (''submit_price_source'', EvStr (sp_source price)),
         (''submit_price_depth_levels_used'', EvOptCount (sp_depth_levels_used price)),
         (''submit_price_visible_bid_qty'', EvOptNum (sp_visible_bid_qty price)),
         (''submit_price_requested_qty'', EvOptNum (sp_requested_qty price)), (''client_order_id'', EvStr client_order_id),
         (''requested_qty'', EvOptNum requested_qty), (''submitted_at'', EvStr (sv_rfc3339 (se_stmt se) started)),
         (''finished_at'', EvStr (sv_rfc3339 (se_stmt se) finished))])"

definition retry_without_quote :: "nat \<Rightarrow> string \<Rightarrow> payload" where
  "retry_without_quote attempt original = [(''fast_sl_retry_attempt'', EvCount attempt), (''retry_reason'', EvStr original),
     (''retry_price'', EvNull), (''fresh_quote_age_ms'', EvNull), (''quote_source'', EvStr ''unavailable''),
     (''result'', EvStr ''quote_unavailable'')]"

primrec fast_sl_attempts :: "nat \<Rightarrow> submit_env \<Rightarrow> builder_order \<Rightarrow> place_order_request \<Rightarrow> string \<Rightarrow> f64 option \<Rightarrow> payload list
    \<Rightarrow> string \<Rightarrow> fast_retry bstep" where
  "fast_sl_attempts 0 se order base_req original requested_qty events last_error = st_return (RetryExhausted events last_error)"
| "fast_sl_attempts (Suc left) se order base_req original requested_qty events last_error =
     st_bind (resolve_trade_builder_fast_sl_retry_submit_price se order requested_qty) (\<lambda>quote. case quote of
       None \<Rightarrow> st_return (RetryExhausted (events @ [retry_without_quote (5 - left) original]) last_error)
     | Some p \<Rightarrow> st_bind (b_tell (se_uuid se)) (\<lambda>uuid.
         let price = sp_desired_price (fp_sell_submit_price p); client_order_id = ''tb-'' @ uuid
         in b_now (se_stmt se) (\<lambda>started.
            st_bind (b_place (se_place se) (o_id order) (base_req\<lparr>po_price := price, po_client_order_id := client_order_id\<rparr>)) (\<lambda>placed.
            b_now (se_stmt se) (\<lambda>finished.
              let attempted = retry_payload se (5 - left) original requested_qty p client_order_id started finished
              in case placed of
                Inr ack \<Rightarrow> let done = attempted @ [(''result'', EvStr ''submitted''), (''status'', EvStr (ak_status ack)),
                     (''raw_status'', EvOptStr (ak_raw_status ack)), (''reject_reason'', EvOptStr (ak_reject_reason ack))]
                  in st_return (RetrySuccess \<lparr>fq_ack = ack, fq_client_order_id = client_order_id, fq_desired_price = price,
                    fq_sell_submit_price = fp_sell_submit_price p, fq_submit_started_at = started, fq_submit_finished_at = finished,
                    fq_attempt_payload = done, fq_attempt_events = events @ [done]\<rparr>)
              | Inl e \<Rightarrow> let failed = events @ [attempted @ [(''result'', EvStr ''error''), (''error'', EvStr e)]]
                  in if trade_builder_error_is_fak_no_match e
                     then fast_sl_attempts left se order base_req original requested_qty failed e
                     else st_return (RetryExhausted failed e))))))"

definition try_trade_builder_fast_stop_loss_retry :: "submit_env \<Rightarrow> builder_order \<Rightarrow> place_order_request \<Rightarrow> string \<Rightarrow> string \<Rightarrow> string
    \<Rightarrow> f64 option \<Rightarrow> fast_retry bstep" where
  "try_trade_builder_fast_stop_loss_retry se order base_req order_type size_basis original requested_qty =
    (if \<not> trade_builder_should_fast_retry_stop_loss_submit order order_type size_basis original then st_return RetryNotEligible
     else fast_sl_attempts 5 se order base_req original requested_qty [] original)"

end
