(* ===== verification/Submit_Checks.thy ===== *)
theory Submit_Checks
  imports Submit_Parts
begin

text \<open>
  The last checks before an order is sent: the market minimum of a sell (\<open>trade_builder/min_size_guard.rs\<close>), the events that
  wait for the answer of the exchange (\<open>deferred_submit_events.rs\<close>), the type of the order (\<open>order_type.rs\<close>) and the second
  look at the book for a market buy (\<open>pre_submit_book_recheck.rs\<close>).
\<close>

section \<open>The market minimum\<close>

definition trade_builder_next_min_size_retry_stage :: "exit_submit_stage option \<Rightarrow> exit_submit_stage option" where
  "trade_builder_next_min_size_retry_stage attempt_stage =
    (if attempt_stage \<in> {Some DynamicGross, Some EstimatedVisible} then Some VisibleInventory else attempt_stage)"

text \<open>The quantity that a deferred or blocked sell keeps.\<close>

definition below_min_requested_qty :: "builder_order \<Rightarrow> f64 option \<Rightarrow> f64 \<Rightarrow> f64 option" where
  "below_min_requested_qty order requested_qty submit_qty =
    (let known = (\<lambda>qty. normalize_trade_builder_visible_inventory_qty (Some qty))
     in or_opt (Option.bind (or_opt (or_opt requested_qty (o_remaining_qty order)) (o_target_qty order)) known) (known submit_qty))"

definition below_min_sizes :: "builder_order \<Rightarrow> f64 option \<Rightarrow> f64 \<Rightarrow> f64 option \<Rightarrow> f64 \<Rightarrow> exit_submit_stage option \<Rightarrow> payload" where
  "below_min_sizes order requested_qty submit_qty available_qty order_min_size attempt_stage =
     [(''requested_qty'', EvOptNum requested_qty), (''attempted_qty'', EvNum submit_qty), (''available_qty'', EvOptNum available_qty),
      (''order_min_size'', EvNum order_min_size), (''attempt_stage'', EvOptStr (map_option stage_as_str attempt_stage)),
      (''size_basis'', EvStr (o_size_basis order)), (''target_qty'', EvOptNum (o_target_qty order)),
      (''remaining_qty'', EvOptNum requested_qty)]"

definition below_min_soft_submit :: "submit_env \<Rightarrow> builder_order \<Rightarrow> string \<Rightarrow> string \<Rightarrow> f64 \<Rightarrow> f64 \<Rightarrow> payload \<Rightarrow> unit bstep" where
  "below_min_soft_submit se order why submit_kind current_price desired_price sizes =
    (let flip = trade_builder_order_is_revenge_flip_stop_loss_sell snapshot_str order
     in b_event (se_stmt se) (o_id order) (if flip then ''below_market_min_soft_submit'' else ''sl_below_market_min_retry'')
       ([(''reason'', EvStr (if flip then ''revenge_flip_sl_submit_below_min'' else ''latched_sl_retry_below_min'')),
         (''reason_detail'', EvStr why), (''reason_code'', EvStr ''below_market_min_size''),
         (''revenge_flip_stop_loss_sell'', EvBool flip), (''below_market_min_soft_submit'', EvBool True),
         (''status_before'', EvStr (o_status order)), (''status_after'', EvStr (o_status order)),
         (''submit_kind'', EvStr submit_kind), (''current_price'', EvNum current_price), (''desired_price'', EvNum desired_price)]
        @ sizes @ [(''market_window_end'', EvOptStr (se_market_window_end se (o_market_slug order)))]))"

definition below_min_block :: "stmt_env \<Rightarrow> builder_order \<Rightarrow> string \<Rightarrow> string \<Rightarrow> string \<Rightarrow> f64 \<Rightarrow> f64 \<Rightarrow> f64 option \<Rightarrow> payload
    \<Rightarrow> unit bstep" where
  "below_min_block sv order event_type why submit_kind current_price desired_price requested_qty sizes =
     st_then (b_write sv (SetTradeBuilderOrderRetryState (o_id order) ''blocked'' (Some why)
         (map_option (\<lambda>qty. fmax (qty * desired_price) 0) requested_qty) requested_qty))
       (b_event sv (o_id order) event_type
         ([(''reason'', EvStr why), (''reason_code'', EvStr ''below_market_min_size''), (''status_before'', EvStr (o_status order)),
           (''status_after'', EvStr ''blocked''), (''submit_kind'', EvStr submit_kind), (''current_price'', EvNum current_price),
           (''desired_price'', EvNum desired_price)] @ sizes @ [(''next_attempt_stage'', EvNull)]))"

definition maybe_handle_trade_builder_share_submit_below_market_min :: "submit_env \<Rightarrow> builder_order \<Rightarrow> string \<Rightarrow> string \<Rightarrow> f64 \<Rightarrow> f64
    \<Rightarrow> f64 option \<Rightarrow> f64 \<Rightarrow> f64 option \<Rightarrow> f64 option \<Rightarrow> exit_submit_stage option \<Rightarrow> bool bstep" where
  "maybe_handle_trade_builder_share_submit_below_market_min se order event_type submit_kind current_price desired_price requested_qty
      submit_qty available_qty order_min_size attempt_stage =
    (if o_side order \<noteq> ''sell'' \<or> normalize_trade_builder_size_basis (o_size_basis order) \<noteq> size_basis_shares then st_return False
     else case normalize_trade_builder_market_spec_number order_min_size of None \<Rightarrow> st_return False | Some least \<Rightarrow>
       (case trade_builder_share_submit_min_size_decision requested_qty submit_qty (Some least) of None \<Rightarrow> st_return False | Some verdict \<Rightarrow>
          let kept = below_min_requested_qty order requested_qty submit_qty;
              why = submit_kind @ '' size ('' @ se_show_2 se submit_qty @ '') below market minimum: '' @ se_show_2 se least;
              sizes = below_min_sizes order kept submit_qty available_qty least attempt_stage
          in if verdict = MinSizeBlock \<and> trade_builder_should_allow_stop_loss_below_market_min snapshot_str order
             then st_then (below_min_soft_submit se order why submit_kind current_price desired_price sizes) (st_return False)
             else st_then (case verdict of
                 MinSizeRetry \<Rightarrow> schedule_trade_builder_exit_sell_retry (se_stmt se) order event_type why current_price desired_price kept
                   available_qty (Some submit_qty) kept attempt_stage (trade_builder_next_min_size_retry_stage attempt_stage)
               | MinSizeBlock \<Rightarrow> below_min_block (se_stmt se) order event_type why submit_kind current_price desired_price kept sizes)
               (st_return True)))"

section \<open>Deferred events\<close>

record guard_passed =
  gp_current_price :: f64
  gp_desired_price :: f64
  gp_best_ask :: "f64 option"
  gp_guards :: "event_value \<times> event_value \<times> event_value"

record deferred_submit_events =
  de_guard_passed :: "guard_passed option"
  de_order_events :: "(string \<times> payload) list"

definition no_deferred_events :: deferred_submit_events where
  "no_deferred_events = \<lparr>de_guard_passed = None, de_order_events = []\<rparr>"

definition defer_guard_passed :: "guard_passed \<Rightarrow> deferred_submit_events \<Rightarrow> deferred_submit_events" where
  "defer_guard_passed event d = d\<lparr>de_guard_passed := Some event\<rparr>"

definition defer_order_event :: "string \<Rightarrow> payload \<Rightarrow> deferred_submit_events \<Rightarrow> deferred_submit_events" where
  "defer_order_event kind payload d = d\<lparr>de_order_events := de_order_events d @ [(kind, payload)]\<rparr>"

definition flush_deferred :: "stmt_env \<Rightarrow> builder_order \<Rightarrow> deferred_submit_events \<Rightarrow> unit bstep" where
  "flush_deferred sv order d =
     st_then (case de_guard_passed d of
         None \<Rightarrow> st_return ()
       | Some e \<Rightarrow> append_trade_builder_guard_diagnostics_event sv order (gp_current_price e) (gp_desired_price e) (gp_best_ask e)
           (gp_guards e) None ''passed'' ''guards_passed'')
       (st_fold (\<lambda>(kind, payload) _. b_event sv (o_id order) kind payload) (de_order_events d) ())"

section \<open>The type of an order\<close>

definition normalize_trade_builder_clob_order_type :: "string \<Rightarrow> string option" where
  "normalize_trade_builder_clob_order_type raw =
    (let upper = to_ascii_uppercase (trim raw)
     in if upper = ''FOK'' then Some ''FOK'' else if upper \<in> {''FAK'', ''IOC''} then Some ''FAK''
        else if upper = ''GTC'' then Some ''GTC'' else if upper = ''GTD'' then Some ''GTD'' else None)"

definition action_place_order_allow_partial_fill :: "string \<Rightarrow> bool" where
  "action_place_order_allow_partial_fill order_type \<longleftrightarrow> \<not> eq_ignore_ascii_case order_type ''FOK''"

definition trade_builder_flow_created_order_type :: "json option \<Rightarrow> string option" where
  "trade_builder_flow_created_order_type payload =
     Option.bind payload (\<lambda>p. Option.bind (snapshot_str p ''order_type'') normalize_trade_builder_clob_order_type)"

definition trade_builder_flow_created_post_only :: "json option \<Rightarrow> string \<Rightarrow> bool" where
  "trade_builder_flow_created_post_only payload order_type = (case payload of None \<Rightarrow> False
     | Some p \<Rightarrow> unwrap_or False (Option.bind (or_opt (json_get p ''post_only'') (json_get p ''postOnly'')) json_bool)
         \<and> order_type \<in> {''GTC'', ''GTD''})"

definition resolve_trade_builder_submit_order_type :: "submit_env \<Rightarrow> builder_order \<Rightarrow> string \<Rightarrow> string bstep" where
  "resolve_trade_builder_submit_order_type se order execution_mode =
     st_bind (b_ask (se_created_payload se (o_id order))) (\<lambda>payload.
       st_return (unwrap_or (clob_order_type_for_execution_mode execution_mode) (trade_builder_flow_created_order_type payload)))"

definition resolve_trade_builder_submit_post_only :: "submit_env \<Rightarrow> builder_order \<Rightarrow> string \<Rightarrow> bool bstep" where
  "resolve_trade_builder_submit_post_only se order order_type =
     st_bind (b_ask (se_created_payload se (o_id order))) (\<lambda>payload.
       st_return (trade_builder_flow_created_post_only payload order_type))"

section \<open>A second look at the book\<close>

text \<open>What a submission has settled so far.\<close>

record submit_attempt =
  at_desired_price :: f64
  at_size :: f64
  at_remaining_usdc :: "f64 option"
  at_remaining_qty :: "f64 option"
  at_available_qty :: "f64 option"
  at_partial :: bool
  at_deferred :: deferred_submit_events

datatype market_snapshot_ws_state = WsSeeded | WsStale | WsSubscribedUnseeded | WsNotSubscribed

fun ws_state_as_str :: "market_snapshot_ws_state \<Rightarrow> string" where
  "ws_state_as_str WsSeeded = ''live_ws_seeded''"
| "ws_state_as_str WsStale = ''live_ws_stale''"
| "ws_state_as_str WsSubscribedUnseeded = ''live_ws_subscribed_unseeded''"
| "ws_state_as_str WsNotSubscribed = ''live_ws_not_subscribed''"

definition inspect_market_snapshot :: "market_data_snapshot option \<Rightarrow> bool \<Rightarrow> i64 \<Rightarrow> i64 \<Rightarrow> market_snapshot_ws_state" where
  "inspect_market_snapshot snapshot desired stale_after_ms now = (case snapshot of
     Some s \<Rightarrow> if sat_sub_i64 now (md_updated_at_ms s) \<le> stale_after_ms then WsSeeded else WsStale
   | None \<Rightarrow> if desired then WsSubscribedUnseeded else WsNotSubscribed)"

definition live_gap_collector_best_ask :: "book_snapshot \<Rightarrow> f64 option" where
  "live_gap_collector_best_ask book =
     foldl (\<lambda>best price. case best of Some current \<Rightarrow> if price < current then Some price else Some current | None \<Rightarrow> Some price)
       None (filter (\<lambda>p. is_finite p \<and> 0 < p \<and> p < 1) (map bl_price (bk_asks book)))"

definition trade_builder_pre_submit_fresh_best_ask :: "submit_env \<Rightarrow> string \<Rightarrow> (f64 option \<times> string) bstep" where
  "trade_builder_pre_submit_fresh_best_ask se token_id =
     st_bind (b_tell (se_book se token_id)) (\<lambda>book. case clamped_best_ask (Option.bind book live_gap_collector_best_ask) of
       Some ask \<Rightarrow> st_return (Some ask, ''rest_order_book'')
     | None \<Rightarrow> st_bind (b_tell (\<lambda>n. (se_ws se token_id n, se_subscribed se token_id n))) (\<lambda>(snapshot, desired).
         b_now (se_stmt se) (\<lambda>now.
           let state = inspect_market_snapshot snapshot desired 500 now;
               ask = (if state = WsSeeded then clamped_best_ask (Option.bind snapshot md_best_ask) else None)
           in st_return (if ask \<noteq> None then (ask, ''fresh_ws_snapshot'') else (None, ws_state_as_str state)))))"

definition trade_builder_pre_submit_recheck_eligible :: "builder_order \<Rightarrow> string \<Rightarrow> bool" where
  "trade_builder_pre_submit_recheck_eligible order order_type \<longleftrightarrow> o_side order = ''buy'' \<and>
     normalize_trade_builder_execution_mode (o_execution_mode order) = ''market'' \<and> eq_ignore_ascii_case order_type ''FAK''"

definition trade_builder_pre_submit_notional_size :: "string \<Rightarrow> f64 \<Rightarrow> f64 \<Rightarrow> f64 option \<Rightarrow> f64 option \<Rightarrow> f64 \<times> f64 option \<times> f64 option" where
  "trade_builder_pre_submit_notional_size size_basis desired_price submit_size remaining_usdc remaining_qty =
    (if size_basis = size_basis_shares
     then (submit_size, or_opt (map_option (\<lambda>qty. fmax (qty * desired_price) 0) remaining_qty) remaining_usdc, remaining_qty)
     else let usdc = unwrap_or 0 remaining_usdc in (calc_level_size usdc desired_price, Some usdc, None))"

definition trade_builder_pre_submit_missing_best_ask_payload :: "string \<Rightarrow> f64 option \<Rightarrow> f64 \<Rightarrow> event_value" where
  "trade_builder_pre_submit_missing_best_ask_payload fresh_source previous_best_ask previous_desired_price =
     trade_builder_guard_diagnostic_payload True ''waiting'' ''submit_best_ask_unavailable''
       (EvObj [(''best_ask'', EvNull), (''fresh_best_ask_source'', EvStr fresh_source),
         (''previous_best_ask'', EvOptNum previous_best_ask), (''previous_desired_price'', EvNum previous_desired_price)])"

definition trade_builder_pre_submit_event_payload :: "builder_order \<Rightarrow> f64 \<Rightarrow> f64 option \<Rightarrow> f64 \<Rightarrow> f64 option \<times> string \<Rightarrow> f64 \<Rightarrow> f64
    \<Rightarrow> event_value \<times> event_value \<times> event_value \<Rightarrow> string option \<Rightarrow> string \<Rightarrow> string \<Rightarrow> payload" where
  "trade_builder_pre_submit_event_payload order current_price previous_best_ask previous_desired_price fresh desired_price submit_size
      guards scope verdict reason_code =
    (case (fresh, guards) of ((ask, source), (trigger_guard, floor_guard, max_guard)) \<Rightarrow>
     [(''market_slug'', EvStr (o_market_slug order)), (''token_id'', EvStr (o_token_id order)),
      (''outcome_label'', EvStr (o_outcome_label order)), (''status_before'', EvStr (o_status order)),
      (''previous_best_ask'', EvOptNum previous_best_ask), (''fresh_best_ask'', EvOptNum ask), (''fresh_best_ask_source'', EvStr source),
      (''previous_desired_price'', EvNum previous_desired_price), (''desired_price'', EvNum desired_price),
      (''submit_size'', EvNum submit_size), (''current_price'', EvNum current_price), (''price'', EvOptNum ask),
      (''best_ask'', EvOptNum ask), (''reference_price'', EvOptNum ask), (''reference_price_source'', EvStr source),
      (''trigger_guard_reference_price'', EvOptNum ask), (''trigger_guard_reference_source'', EvStr source),
      (''trigger_price'', EvOptNum (o_trigger_price order)), (''guard_trigger_price'', EvOptNum (o_guard_trigger_price order)),
      (''best_ask_floor_price'', EvOptNum (o_best_ask_floor_price order)), (''max_price'', EvOptNum (o_max_price order)),
      (''trigger_price_guard'', trigger_guard), (''execution_floor_guard'', floor_guard), (''max_price_guard'', max_guard),
      (''effective_guard_scope'', EvOptStr scope), (''effective_decision'', EvStr verdict), (''effective_reason_code'', EvStr reason_code)])"

definition trade_builder_pre_submit_waiting_event_type :: "string option \<Rightarrow> string" where
  "trade_builder_pre_submit_waiting_event_type scope =
    (if scope = Some ''max_price'' then ''max_price_waiting'' else if scope = Some ''trigger_price'' then ''trigger_price_waiting''
     else ''execution_floor_waiting'')"

text \<open>The scope, decision and reason of the second evaluation.\<close>

definition recheck_scope :: "buy_guard_evaluation \<Rightarrow> f64 option \<Rightarrow> string option" where
  "recheck_scope g fresh_best_ask =
    (if fresh_best_ask = None then Some ''execution_floor''
     else if bg_effective_decision g = ''passed'' then None
     else if bg_trigger_price_guard_blocked g then Some ''trigger_price''
     else if bg_execution_floor_reason g \<noteq> None then Some ''execution_floor''
     else if bg_max_price_blocked g then Some ''max_price'' else Some ''execution_floor'')"

definition recheck_notification :: "builder_order \<Rightarrow> string option \<Rightarrow> string option" where
  "recheck_notification order scope =
    (if scope = Some ''max_price'' \<and> o_notify_on_max_price_blocked order then Some ''max_price_waiting''
     else if scope = Some ''trigger_price'' \<and> o_notify_on_trigger_guard_blocked order then Some ''trigger_price_waiting''
     else if scope = Some ''execution_floor'' \<and> o_notify_on_execution_floor_blocked order then Some ''execution_floor_waiting'' else None)"

text \<open>Answers None when the order went to waiting, and the refreshed attempt otherwise.\<close>

definition maybe_apply_trade_builder_pre_submit_book_recheck :: "submit_env \<Rightarrow> builder_order \<Rightarrow> f64 \<Rightarrow> f64 option \<Rightarrow> string \<Rightarrow> string
    \<Rightarrow> bool \<times> bool \<times> bool \<Rightarrow> submit_attempt \<Rightarrow> (submit_attempt option) bstep" where
  "maybe_apply_trade_builder_pre_submit_book_recheck se order current_price previous_best_ask order_type size_basis retries a =
    (if \<not> trade_builder_pre_submit_recheck_eligible order order_type then st_return (Some a)
     else st_bind (trade_builder_pre_submit_fresh_best_ask se (o_token_id order)) (\<lambda>(fresh_ask, source).
       let desired_price = (case trade_builder_market_buy_execution_price order current_price fresh_ask of
             Some r \<Rightarrow> mb_price r | None \<Rightarrow> trade_builder_submit_desired_price order current_price);
           (submit_size, usdc, qty) = trade_builder_pre_submit_notional_size size_basis desired_price (at_size a)
             (at_remaining_usdc a) (at_remaining_qty a);
           g = (case retries of (retry_trigger, retry_floor, retry_max) \<Rightarrow>
             evaluate_trade_builder_buy_guards (o_execution_mode order) (o_pair_leg_role order) current_price fresh_ask desired_price
               (o_guard_trigger_price order) (o_max_price order) (o_best_ask_floor_price order) retry_trigger retry_floor retry_max);
           scope = recheck_scope g fresh_ask;
           verdict = (if fresh_ask = None then ''waiting'' else bg_effective_decision g);
           reason_code = (if fresh_ask = None then ''submit_best_ask_unavailable'' else bg_effective_reason_code g);
           floor_guard = (if fresh_ask = None
             then trade_builder_pre_submit_missing_best_ask_payload source previous_best_ask (at_desired_price a)
             else bg_execution_floor_payload g);
           payload = trade_builder_pre_submit_event_payload order current_price previous_best_ask (at_desired_price a) (fresh_ask, source)
             desired_price submit_size (bg_trigger_price_guard_payload g, floor_guard, bg_max_price_payload g) scope verdict reason_code
       in if verdict = ''passed''
          then st_return (Some (a\<lparr>at_desired_price := desired_price, at_size := submit_size, at_remaining_usdc := usdc,
            at_remaining_qty := qty, at_deferred := defer_order_event ''pre_submit_book_recheck'' payload (at_deferred a)\<rparr>))
          else st_then (flush_deferred (se_stmt se) order (at_deferred a))
              (st_then (b_event (se_stmt se) (o_id order) ''pre_submit_book_recheck'' payload)
              (st_then (transition_trade_builder_order_to_guard_waiting se order reason_code
                (trade_builder_pre_submit_waiting_event_type scope) payload usdc qty
                (build_guard_notification_reason (unwrap_or ''execution_floor'' scope) reason_code) (recheck_notification order scope))
              (st_return None)))))"

end
