(* ===== verification/Order_Submit.thy ===== *)
theory Order_Submit
  imports Submit_Checks
begin

text \<open>
  The submission of a triggered builder order, \<open>submit_trade_builder_trigger_order\<close> of \<open>trade_builder/order_submit.rs\<close>, in
  the order of its parts: prices and sizes, the guards, the risk gate, the inventory of an exit, the last checks, the
  request, and the two ways it can end. \<open>submission\<close> holds the arguments; a part that ends the submission
  answers None or True.
\<close>

record submission =
  sb_current_price :: f64
  sb_best_bid :: "f64 option"
  sb_best_ask :: "f64 option"
  sb_last_trade_price :: "f64 option"
  sb_fee_rate_bps :: u64
  sb_resolved_size_usdc :: f64
  sb_size_mode :: "string option"
  sb_size_value :: "f64 option"
  sb_size_index :: nat
  sb_quote :: "exit_fast_submit_quote option"

definition order_labels :: "builder_order \<Rightarrow> payload" where
  "order_labels order = [(''market_slug'', EvStr (o_market_slug order)), (''token_id'', EvStr (o_token_id order)),
     (''trigger_condition'', EvOptStr (o_trigger_condition order)), (''trigger_price'', EvOptNum (o_trigger_price order))]"

definition reason_payload :: "string \<Rightarrow> string \<Rightarrow> payload" where
  "reason_payload reason_code message = [(''reason_code'', EvStr reason_code), (''reason_message'', EvStr message)]"

section \<open>Prices and sizes\<close>

record submit_prices =
  pc_sell :: "sell_submit_price option"
  pc_fast_payload :: "payload option"
  pc_available_qty :: "f64 option"
  pc_market_buy :: "market_buy_execution_price option"
  pc_desired_price :: f64

definition share_basis :: "builder_order \<Rightarrow> bool" where
  "share_basis order \<longleftrightarrow> normalize_trade_builder_size_basis (o_size_basis order) = size_basis_shares"

definition settle_prices :: "submit_env \<Rightarrow> builder_order \<Rightarrow> submission \<Rightarrow> sell_submit_price option \<Rightarrow> payload option \<Rightarrow> f64 option
    \<Rightarrow> submit_prices bstep" where
  "settle_prices se order sub sell fast available =
    (let current = sb_current_price sub;
         market_buy = trade_builder_market_buy_execution_price order current (sb_best_ask sub);
         desired = trade_builder_clamp_buy_limit_price order (unwrap_or (trade_builder_submit_desired_price order current)
           (or_opt (map_option sp_desired_price sell) (map_option mb_price market_buy)));
         uncapped = unwrap_or (aggressive_price_for_side (o_side order) current (o_min_price_distance_cent order))
           (or_opt (map_option sp_uncapped_desired_price sell) (map_option mb_price market_buy))
     in st_then (if market_buy = None \<and> fast = None \<and> lit (1 / 1000000) \<le> \<bar>desired - uncapped\<bar>
          then b_event (se_stmt se) (o_id order) ''exit_price_capped''
            [(''current_price'', EvNum current), (''uncapped_desired_price'', EvNum uncapped), (''capped_desired_price'', EvNum desired),
             (''price_floor'', EvOptNum (trade_builder_exit_sell_price_floor order)), (''trigger_price'', EvOptNum (o_trigger_price order))]
          else st_return ())
        (st_return \<lparr>pc_sell = sell, pc_fast_payload = fast, pc_available_qty = available, pc_market_buy = market_buy,
          pc_desired_price = desired\<rparr>))"

definition price_submission :: "submit_env \<Rightarrow> builder_order \<Rightarrow> submission \<Rightarrow> i64 \<Rightarrow> (submit_prices option) bstep" where
  "price_submission se order sub started =
    (let size_basis = normalize_trade_builder_size_basis (o_size_basis order);
         requested_qty = (if share_basis order then trade_builder_share_request_qty order else None)
     in st_bind (prefetch_trade_builder_sell_submit_inputs se order (sb_current_price sub) (sb_best_bid sub) (sb_last_trade_price sub)
          requested_qty size_basis (sb_quote sub)) (\<lambda>(sell, available).
        st_bind (prepare_trade_builder_fast_stop_loss_initial_submit se order started (sb_current_price sub) (sb_best_bid sub)
          (sb_last_trade_price sub) requested_qty size_basis (sb_quote sub)) (\<lambda>initial. case initial of
            InitialScheduledRetry \<Rightarrow> st_return None
          | InitialNotEligible \<Rightarrow> st_bind (settle_prices se order sub sell None available) (\<lambda>p. st_return (Some p))
          | InitialResolved resolution fast \<Rightarrow>
              st_bind (settle_prices se order sub (Some resolution) (Some fast) available) (\<lambda>p. st_return (Some p)))))"

record submit_sizes =
  sz_size :: f64
  sz_remaining_usdc :: "f64 option"
  sz_remaining_qty :: "f64 option"
  sz_proposed_notional_usdc :: f64

definition size_submission :: "builder_order \<Rightarrow> submission \<Rightarrow> f64 \<Rightarrow> (string, submit_sizes) result" where
  "size_submission order sub desired_price =
     res_bind (if share_basis order
        then case trade_builder_share_request_qty order of
            None \<Rightarrow> Inl ''share-basis builder order requires target_qty or remaining_qty''
          | Some qty \<Rightarrow> let usdc = fmax (qty * desired_price) 0
              in Inr \<lparr>sz_size = qty, sz_remaining_usdc = Some usdc, sz_remaining_qty = Some qty, sz_proposed_notional_usdc = usdc\<rparr>
        else let usdc = unwrap_or (sb_resolved_size_usdc sub) (o_remaining_size order)
          in Inr \<lparr>sz_size = calc_level_size usdc desired_price, sz_remaining_usdc = Some usdc, sz_remaining_qty = None,
               sz_proposed_notional_usdc = sb_resolved_size_usdc sub\<rparr>)
       (\<lambda>z. if 0 < sz_size z then Inr z else Inl ''computed builder order size is zero'')"

section \<open>The guards\<close>

definition guard_payloads :: "buy_guard_evaluation \<Rightarrow> event_value \<times> event_value \<times> event_value" where
  "guard_payloads g = (bg_trigger_price_guard_payload g, bg_execution_floor_payload g, bg_max_price_payload g)"

text \<open>A guard that refuses: the order waits, or is canceled with the other leg of its pair.\<close>

record guard_refusal =
  gr_scope :: string
  gr_reason :: string
  gr_waits :: bool
  gr_wait_event :: string
  gr_wait_message :: string
  gr_block_event :: string
  gr_block_message :: string
  gr_details :: payload
  gr_notify :: bool
  gr_abort :: "string option"

definition refusal_payload :: "builder_order \<Rightarrow> guard_refusal \<Rightarrow> string \<Rightarrow> string \<Rightarrow> payload" where
  "refusal_payload order r message status_after = reason_payload (gr_reason r) message @ order_labels order @ gr_details r
     @ [(''status_before'', EvStr (o_status order)), (''status_after'', EvStr status_after)]"

definition guard_refuses :: "submit_env \<Rightarrow> builder_order \<Rightarrow> submission \<Rightarrow> f64 \<Rightarrow> submit_sizes \<Rightarrow> buy_guard_evaluation \<Rightarrow> guard_refusal
    \<Rightarrow> unit bstep" where
  "guard_refuses se order sub desired_price z g r =
    (let candidate = build_guard_notification_reason (gr_scope r) (gr_reason r)
     in st_then (append_trade_builder_guard_diagnostics_event (se_stmt se) order (sb_current_price sub) desired_price (sb_best_ask sub)
          (guard_payloads g) (Some (gr_scope r)) (waits_or_blocks (gr_waits r)) (gr_reason r))
       (if gr_waits r
        then transition_trade_builder_order_to_guard_waiting se order (gr_reason r) (gr_wait_event r)
          (refusal_payload order r (gr_wait_message r) trade_builder_guard_blocked_status) (sz_remaining_usdc z) (sz_remaining_qty z)
          candidate (then_some (gr_notify r) (gr_wait_event r))
        else st_then (b_status (se_stmt se) (o_id order) ''canceled'' (Some (gr_reason r)))
            (st_then (b_event (se_stmt se) (o_id order) (gr_block_event r) (refusal_payload order r (gr_block_message r) ''canceled''))
            (st_then (maybe_send_guard_transition_notification se order candidate (gr_notify r) (gr_block_event r))
              (case gr_abort r of None \<Rightarrow> st_return () | Some why \<Rightarrow> se_abort_pair se order why)))))"

definition pair_refusal :: "builder_order \<Rightarrow> submission \<Rightarrow> f64 \<Rightarrow> string \<Rightarrow> guard_refusal" where
  "pair_refusal order sub desired_price why = \<lparr>gr_scope = ''max_price'', gr_reason = why, gr_waits = True,
     gr_wait_event = ''max_price_waiting'',
     gr_wait_message = ''Pair lock market buy is waiting for best ask before max price evaluation.'',
     gr_block_event = [], gr_block_message = [],
     gr_details = [(''max_price'', EvOptNum (o_max_price order)), (''current_price'', EvNum (sb_current_price sub)),
       (''desired_price'', EvNum desired_price), (''reference_price'', EvNull), (''reference_price_source'', EvStr ''best_ask_unavailable'')],
     gr_notify = o_notify_on_max_price_blocked order, gr_abort = None\<rparr>"

definition trigger_refusal :: "builder_order \<Rightarrow> submission \<Rightarrow> f64 \<Rightarrow> buy_guard_evaluation \<Rightarrow> bool \<Rightarrow> guard_refusal" where
  "trigger_refusal order sub desired_price g waits = \<lparr>gr_scope = ''trigger_price'', gr_reason = ''below_trigger_price_guard'', gr_waits = waits,
     gr_wait_event = ''trigger_price_waiting'',
     gr_wait_message = ''Current price is below the trigger price guard floor. Order is waiting for recovery.'',
     gr_block_event = ''trigger_price_blocked'', gr_block_message = ''Current price is below the trigger price guard floor.'',
     gr_details = [(''guard_trigger_price'', EvOptNum (o_guard_trigger_price order)), (''current_price'', EvNum (sb_current_price sub)),
       (''trigger_guard_reference_price'', EvNum (bg_trigger_guard_reference_price g)),
       (''trigger_guard_reference_source'', EvStr (bg_trigger_guard_reference_source g)), (''desired_price'', EvNum desired_price)],
     gr_notify = o_notify_on_trigger_guard_blocked order, gr_abort = None\<rparr>"

definition floor_message :: "string \<Rightarrow> string" where
  "floor_message why = (if why = ''best_ask_unavailable'' then ''Best ask is unavailable, so the execution floor guard blocked the buy order.''
     else if why = ''below_best_ask_floor'' then ''Best ask is below the configured execution floor.''
     else ''Execution floor guard blocked the buy order.'')"

definition floor_refusal :: "builder_order \<Rightarrow> submission \<Rightarrow> f64 \<Rightarrow> string \<Rightarrow> bool \<Rightarrow> guard_refusal" where
  "floor_refusal order sub desired_price why waits = \<lparr>gr_scope = ''execution_floor'', gr_reason = why, gr_waits = waits,
     gr_wait_event = ''execution_floor_waiting'', gr_wait_message = ''Execution floor guard moved the order into waiting mode.'',
     gr_block_event = ''execution_floor_blocked'', gr_block_message = floor_message why,
     gr_details = [(''best_ask_floor_price'', EvOptNum (o_best_ask_floor_price order)), (''best_ask'', EvOptNum (sb_best_ask sub)),
       (''current_price'', EvNum (sb_current_price sub)), (''desired_price'', EvNum desired_price)],
     gr_notify = o_notify_on_execution_floor_blocked order, gr_abort = Some ''pair_counter_execution_floor_blocked''\<rparr>"

definition max_refusal :: "builder_order \<Rightarrow> submission \<Rightarrow> f64 \<Rightarrow> buy_guard_evaluation \<Rightarrow> bool \<Rightarrow> guard_refusal" where
  "max_refusal order sub desired_price g waits = \<lparr>gr_scope = ''max_price'', gr_reason = ''above_max_price'', gr_waits = waits,
     gr_wait_event = ''max_price_waiting'', gr_wait_message = ''Max price guard moved the order into waiting mode.'',
     gr_block_event = ''max_price_blocked'', gr_block_message = ''Reference price would exceed the configured max price.'',
     gr_details = [(''max_price'', EvOptNum (o_max_price order)), (''current_price'', EvNum (sb_current_price sub)),
       (''desired_price'', EvNum desired_price), (''reference_price'', EvNum (bg_max_price_reference g)),
       (''reference_price_source'', EvStr (bg_max_price_reference_source g))],
     gr_notify = o_notify_on_max_price_blocked order, gr_abort = Some ''pair_counter_above_max_price''\<rparr>"

text \<open>The first guard that refuses, in the order of the code.\<close>

definition first_refusal :: "builder_order \<Rightarrow> submission \<Rightarrow> f64 \<Rightarrow> buy_guard_evaluation \<Rightarrow> bool \<Rightarrow> guard_refusal option" where
  "first_refusal order sub desired_price g force =
    (case bg_pair_lock_market_waiting_reason g of Some why \<Rightarrow> Some (pair_refusal order sub desired_price why) | None \<Rightarrow>
     if bg_trigger_price_guard_blocked g
     then Some (trigger_refusal order sub desired_price g (o_retry_on_trigger_guard_block order \<or> force))
     else case bg_execution_floor_reason g of
         Some why \<Rightarrow> Some (floor_refusal order sub desired_price why (trade_builder_execution_floor_should_wait order why \<or> force))
       | None \<Rightarrow> if bg_max_price_blocked g then Some (max_refusal order sub desired_price g (o_retry_on_max_price_block order \<or> force))
           else None)"

definition submit_guards :: "builder_order \<Rightarrow> submission \<Rightarrow> f64 \<Rightarrow> bool \<Rightarrow> buy_guard_evaluation" where
  "submit_guards order sub desired_price force =
     evaluate_trade_builder_buy_guards (o_execution_mode order) (o_pair_leg_role order) (sb_current_price sub) (sb_best_ask sub) desired_price
       (o_guard_trigger_price order) (o_max_price order) (o_best_ask_floor_price order) (o_retry_on_trigger_guard_block order \<or> force)
       (o_retry_on_execution_floor_guard_block order \<or> force) (o_retry_on_max_price_block order \<or> force)"

definition show_risk_decision :: "risk_decision \<Rightarrow> string" where
  "show_risk_decision d = (case d of Allow \<Rightarrow> ''Allow'' | Block \<Rightarrow> ''Block'' | Halt \<Rightarrow> ''Halt'')"

definition risk_blocks :: "submit_env \<Rightarrow> builder_order \<Rightarrow> submission \<Rightarrow> deferred_submit_events \<Rightarrow> risk_decision \<Rightarrow> unit bstep" where
  "risk_blocks se order sub d risk =
     st_then (flush_deferred (se_stmt se) order d)
    (st_then (b_status (se_stmt se) (o_id order) ''blocked'' (Some ''risk_block''))
      (b_event (se_stmt se) (o_id order) ''blocked_by_risk''
        (reason_payload ''risk_blocked'' ''Order blocked by risk policy.'' @ [(''decision'', EvStr (show_risk_decision risk))]
         @ order_labels order @ [(''current_price'', EvNum (sb_current_price sub))])))"

text \<open>The guards, the live gap and the risk gate: the attempt as it enters the inventory checks, with whether the counter
  leg of a pair is made to wait.\<close>

definition pass_guards :: "submit_env \<Rightarrow> builder_order \<Rightarrow> submission \<Rightarrow> submit_prices \<Rightarrow> submit_sizes \<Rightarrow> ((bool \<times> submit_attempt) option) bstep" where
  "pass_guards se order sub p z =
     st_bind (b_ask (se_counter_waits se order)) (\<lambda>force.
       let desired_price = pc_desired_price p; g = submit_guards order sub desired_price force
       in case first_refusal order sub desired_price g force of
            Some r \<Rightarrow> st_then (guard_refuses se order sub desired_price z g r) (st_return None)
          | None \<Rightarrow> st_bind (se_live_gap_blocks se order (sz_remaining_usdc z) (sz_remaining_qty z)) (\<lambda>blocks.
              if blocks then st_return None
              else let d = defer_guard_passed \<lparr>gp_current_price = sb_current_price sub, gp_desired_price = desired_price,
                         gp_best_ask = sb_best_ask sub, gp_guards = guard_payloads g\<rparr> no_deferred_events
                in st_bind (b_ask (se_risk se order (sz_proposed_notional_usdc z))) (\<lambda>risk.
                  if risk \<noteq> Allow then st_then (risk_blocks se order sub d risk) (st_return None)
                  else st_return (Some (force, \<lparr>at_desired_price = desired_price, at_size = sz_size z, at_remaining_usdc = sz_remaining_usdc z,
                    at_remaining_qty = sz_remaining_qty z, at_available_qty = pc_available_qty p, at_partial = False, at_deferred = d\<rparr>)))))"

section \<open>The inventory of an exit\<close>

definition optimistic_exit_submit :: "builder_order \<Rightarrow> bool" where
  "optimistic_exit_submit order \<longleftrightarrow> share_basis order \<and> trade_builder_should_use_optimistic_exit_submit order"

definition optimistic_exit_stage :: "builder_order \<Rightarrow> exit_submit_stage option" where
  "optimistic_exit_stage order = then_some (optimistic_exit_submit order) (trade_builder_current_exit_submit_stage order)"

text \<open>An attempt whose quantity is replaced.\<close>

definition with_submit_qty :: "f64 \<Rightarrow> submit_attempt \<Rightarrow> submit_attempt" where
  "with_submit_qty qty a = a\<lparr>at_size := qty, at_remaining_qty := Some qty, at_remaining_usdc := Some (fmax (qty * at_desired_price a) 0)\<rparr>"

definition adjust_dynamic_gross :: "builder_order \<Rightarrow> f64 \<Rightarrow> submit_attempt \<Rightarrow> submit_attempt" where
  "adjust_dynamic_gross order requested a =
    (if optimistic_exit_stage order \<noteq> Some DynamicGross then a
     else case trade_builder_estimated_visible_exit_qty order requested of
         None \<Rightarrow> a
       | Some e \<Rightarrow> if lf_submit_qty e < at_size a
           then with_submit_qty (lf_submit_qty e) (a\<lparr>at_deferred := defer_order_event ''dynamic_gross_fee_adjusted''
             [(''submit_kind'', EvStr ''submit''), (''original_qty'', EvNum requested), (''adjusted_qty'', EvNum (lf_submit_qty e)),
              (''estimated_fee_qty'', EvNum (lf_estimated_fee_qty e)), (''execution_price'', EvNum (lf_execution_price e)),
              (''fee_rate_bps'', EvCount (unat (lf_fee_rate_bps e))),
              (''buffer_qty'', EvNum (trade_builder_exit_qty_buffer (unwrap_or requested (o_target_qty order))))] (at_deferred a)\<rparr>)
           else a)"

definition ensure_available_qty :: "submit_env \<Rightarrow> builder_order \<Rightarrow> submit_attempt \<Rightarrow> submit_attempt bstep" where
  "ensure_available_qty se order a =
    (if at_available_qty a \<noteq> None then st_return a
     else st_bind (b_tell (se_available_qty se (o_token_id order))) (\<lambda>qty. st_return (a\<lparr>at_available_qty := qty\<rparr>)))"

definition inventory_events :: "stmt_env \<Rightarrow> builder_order \<Rightarrow> f64 \<Rightarrow> exit_inventory_resolution \<Rightarrow> unit bstep" where
  "inventory_events sv order requested r =
     st_then (case (er_visible_qty r, er_local_fallback_qty r) of
         (Some visible, Some local) \<Rightarrow> if lit (2 / 100) \<le> \<bar>visible - local\<bar>
           then b_event sv (o_id order) ''inventory_source_mismatch''
             [(''visible_qty'', EvNum visible), (''local_fallback_qty'', EvNum local), (''requested_qty'', EvNum requested)]
           else st_return ()
       | _ \<Rightarrow> st_return ())
       (if er_local_fallback_qty r \<noteq> None \<and> unwrap_or 0 (er_visible_qty r) \<le> 0
        then b_event sv (o_id order) ''local_inventory_fallback_used''
          [(''requested_qty'', EvNum requested), (''submit_qty'', EvNum (er_submit_qty r)), (''visible_qty'', EvOptNum (er_visible_qty r)),
           (''estimated_fee_qty'', EvOptNum (er_local_fallback_fee_qty r)), (''entry_price'', EvOptNum (er_local_fallback_entry_price r)),
           (''fee_rate_bps'', case er_local_fallback_fee_rate_bps r of None \<Rightarrow> EvNull | Some bps \<Rightarrow> EvCount (unat bps))]
        else st_return ())"

definition plain_sell_inventory :: "submit_env \<Rightarrow> builder_order \<Rightarrow> submission \<Rightarrow> f64 \<Rightarrow> submit_attempt \<Rightarrow> (submit_attempt option) bstep" where
  "plain_sell_inventory se order sub requested a =
     st_bind (ensure_available_qty se order a) (\<lambda>a. case resolve_trade_builder_exit_inventory order requested (at_available_qty a) of
       None \<Rightarrow> st_then (mark_trade_builder_inventory_pending (se_stmt se) order ''exit inventory not yet available'' (sb_current_price sub)
           requested (at_available_qty a))
         (st_then (flush_deferred (se_stmt se) order (at_deferred a)) (st_return None))
     | Some r \<Rightarrow> st_then (inventory_events (se_stmt se) order requested r)
         (st_return (Some (with_submit_qty (er_submit_qty r) (a\<lparr>at_partial := er_submit_partial_visible_inventory r\<rparr>)))))"

definition visible_sell_inventory :: "submit_env \<Rightarrow> builder_order \<Rightarrow> submission \<Rightarrow> f64 \<Rightarrow> submit_attempt \<Rightarrow> (submit_attempt option) bstep" where
  "visible_sell_inventory se order sub requested a =
     st_bind (ensure_available_qty se order a) (\<lambda>a. case resolve_trade_builder_visible_inventory_submit requested (at_available_qty a) of
       None \<Rightarrow> st_then (schedule_trade_builder_exit_sell_retry (se_stmt se) order ''submit_retry_scheduled'' ''exit inventory not yet available''
           (sb_current_price sub) (at_desired_price a) (Some requested) (at_available_qty a) (Some requested) None
           (optimistic_exit_stage order) (optimistic_exit_stage order))
         (st_then (flush_deferred (se_stmt se) order (at_deferred a)) (st_return None))
     | Some r \<Rightarrow> st_return (Some (with_submit_qty (vi_submit_qty r) (a\<lparr>at_partial := vi_submit_partial_visible_inventory r\<rparr>))))"

definition clamp_to_available :: "builder_order \<Rightarrow> submit_attempt \<Rightarrow> submit_attempt" where
  "clamp_to_available order a =
    (if \<not> (o_side order = ''sell'' \<and> share_basis order) then a
     else case clamp_trade_builder_visible_share_qty (at_size a) (at_available_qty a) of
         None \<Rightarrow> a
       | Some qty \<Rightarrow> if qty < at_size a then with_submit_qty qty (a\<lparr>at_partial := True\<rparr>) else a)"

definition settle_inventory :: "submit_env \<Rightarrow> builder_order \<Rightarrow> submission \<Rightarrow> f64 \<Rightarrow> submit_attempt \<Rightarrow> (submit_attempt option) bstep" where
  "settle_inventory se order sub requested a =
     st_bind (let a = adjust_dynamic_gross order requested a
       in if o_side order = ''sell'' \<and> share_basis order \<and> \<not> optimistic_exit_submit order then plain_sell_inventory se order sub requested a
          else if o_side order = ''sell'' \<and> share_basis order \<and> optimistic_exit_stage order = Some VisibleInventory
          then visible_sell_inventory se order sub requested a
          else st_return (Some a))
       (\<lambda>settled. st_return (map_option (clamp_to_available order) settled))"

section \<open>The last checks and the request\<close>

record submit_request =
  sq_request :: place_order_request
  sq_attempt :: submit_attempt
  sq_market_spec :: "trade_builder_market_spec option"

definition top_up_payload :: "builder_order \<Rightarrow> submission \<Rightarrow> submit_attempt \<Rightarrow> string \<Rightarrow> min_notional_top_up \<Rightarrow> payload" where
  "top_up_payload order sub a order_type t = [(''submit_kind'', EvStr ''submit''), (''status_before'', EvStr (o_status order)),
     (''current_price'', EvNum (sb_current_price sub)), (''desired_price'', EvNum (at_desired_price a)), (''order_type'', EvStr order_type),
     (''size_basis'', EvStr (normalize_trade_builder_size_basis (o_size_basis order))), (''original_qty'', EvNum (tu_original_qty t)),
     (''adjusted_qty'', EvNum (tu_adjusted_qty t)), (''original_notional_usdc'', EvNum (tu_original_notional_usdc t)),
     (''adjusted_notional_usdc'', EvNum (tu_adjusted_notional_usdc t)), (''min_notional_usdc'', EvNum (tu_min_notional_usdc t)),
     (''cap_usdc'', EvNum (tu_cap_usdc t)), (''cap_tolerance_usdc'', EvNum (tu_cap_tolerance_usdc t))]"

definition apply_min_notional :: "submit_env \<Rightarrow> builder_order \<Rightarrow> submission \<Rightarrow> string \<Rightarrow> submit_attempt \<Rightarrow> (submit_attempt option) bstep" where
  "apply_min_notional se order sub order_type a =
    (let cap = fmax (fmax (o_size_usdc order) (unwrap_or 0 (at_remaining_usdc a))) (fmax (at_size a * at_desired_price a) 0)
     in case trade_builder_marketable_buy_min_notional_top_up (o_side order) order_type
            (normalize_trade_builder_size_basis (o_size_basis order)) (at_desired_price a) (at_size a) cap of
          None \<Rightarrow> st_return (Some a)
        | Some t \<Rightarrow> if tu_blocked_by_cap t
            then st_then (b_status (se_stmt se) (o_id order) ''error'' (Some ''marketable_buy_min_notional_exceeds_cap''))
                (st_then (b_event (se_stmt se) (o_id order) ''marketable_buy_min_notional_exceeds_cap'' (top_up_payload order sub a order_type t))
                (st_return None))
            else st_return (Some (a\<lparr>at_size := tu_adjusted_qty t, at_remaining_qty := Some (tu_adjusted_qty t),
              at_remaining_usdc := Some (tu_adjusted_notional_usdc t),
              at_deferred := defer_order_event ''marketable_buy_min_notional_top_up'' (top_up_payload order sub a order_type t) (at_deferred a)\<rparr>)))"

definition submit_intent :: "builder_order \<Rightarrow> string" where
  "submit_intent order = (if o_kind order = ''immediate'' then ''manual_immediate'' else ''manual_trigger'')"

definition sell_price_payload :: "sell_submit_price option \<Rightarrow> payload" where
  "sell_price_payload sell =
     [(''submit_price_source'', EvOptStr (map_option sp_source sell)),
      (''submit_price_depth_levels_used'', EvOptCount (Option.bind sell sp_depth_levels_used)),
      (''submit_price_visible_bid_qty'', EvOptNum (Option.bind sell sp_visible_bid_qty)),
      (''submit_price_requested_qty'', EvOptNum (Option.bind sell sp_requested_qty))]"

definition requested_share_qty :: "builder_order \<Rightarrow> submit_sizes \<Rightarrow> f64 option" where
  "requested_share_qty order z = then_some (share_basis order) (sz_size z)"

definition defer_optimistic :: "builder_order \<Rightarrow> submission \<Rightarrow> submit_prices \<Rightarrow> submit_sizes \<Rightarrow> submit_attempt \<Rightarrow> submit_attempt" where
  "defer_optimistic order sub p z a =
    (if \<not> optimistic_exit_submit order then a
     else a\<lparr>at_deferred := defer_order_event ''optimistic_exit_submit_used''
       ([(''submit_kind'', EvStr ''submit''), (''attempt_stage'', EvOptStr (map_option stage_as_str (optimistic_exit_stage order))),
         (''status_before'', EvStr (o_status order)), (''requested_qty'', EvOptNum (requested_share_qty order z)),
         (''attempted_qty'', EvNum (at_size a)), (''current_price'', EvNum (sb_current_price sub)),
         (''desired_price'', EvNum (at_desired_price a)),
         (''size_basis'', EvStr (normalize_trade_builder_size_basis (o_size_basis order))), (''available_qty'', EvOptNum (at_available_qty a)),
         (''precheck_skipped'', EvBool (optimistic_exit_stage order \<noteq> Some VisibleInventory))] @ sell_price_payload (pc_sell p))
       (at_deferred a)\<rparr>)"

definition build_request :: "builder_order \<Rightarrow> submission \<Rightarrow> string \<Rightarrow> bool \<Rightarrow> string \<Rightarrow> trade_builder_market_spec option \<Rightarrow> submit_attempt
    \<Rightarrow> place_order_request" where
  "build_request order sub order_type post_only client_order_id spec a =
     \<lparr>po_market = o_market_slug order, po_token_id = Some (o_token_id order), po_side = o_side order, po_price = at_desired_price a,
      po_size = at_size a, po_intent = submit_intent order, po_order_type = order_type, po_post_only = post_only,
      po_client_order_id = client_order_id, po_leg_side = None, po_fee_rate_bps = sb_fee_rate_bps sub,
      po_neg_risk = (case spec of None \<Rightarrow> False | Some m \<Rightarrow> ms_neg_risk m)\<rparr>"

text \<open>A step that may end the submission, followed by the rest of it.\<close>

definition st_unless :: "('s, 'e, 'a option) stm \<Rightarrow> ('a \<Rightarrow> ('s, 'e, 'b option) stm) \<Rightarrow> ('s, 'e, 'b option) stm" where
  "st_unless m f = st_bind m (\<lambda>x. case x of None \<Rightarrow> st_return None | Some y \<Rightarrow> f y)"

definition final_checks :: "submit_env \<Rightarrow> builder_order \<Rightarrow> submission \<Rightarrow> submit_prices \<Rightarrow> submit_sizes
    \<Rightarrow> trade_builder_market_spec option \<Rightarrow> bool \<Rightarrow> submit_attempt \<Rightarrow> (submit_request option) bstep" where
  "final_checks se order sub p z cached force a =
     st_bind (resolve_trade_builder_submit_order_type se order (normalize_trade_builder_execution_mode (o_execution_mode order))) (\<lambda>order_type.
     st_bind (resolve_trade_builder_submit_post_only se order order_type) (\<lambda>post_only.
     st_bind (b_tell (se_uuid se)) (\<lambda>uuid.
     st_bind (case cached of Some spec \<Rightarrow> st_return (Some spec) | None \<Rightarrow> b_tell (se_market_spec se order)) (\<lambda>spec.
     st_unless (maybe_apply_trade_builder_pre_submit_book_recheck se order (sb_current_price sub) (sb_best_ask sub) order_type
         (normalize_trade_builder_size_basis (o_size_basis order))
         (o_retry_on_trigger_guard_block order \<or> force, o_retry_on_execution_floor_guard_block order \<or> force, o_retry_on_max_price_block order \<or> force) a) (\<lambda>a.
     st_unless (apply_min_notional se order sub order_type
         (a\<lparr>at_desired_price := trade_builder_clamp_buy_limit_price order (at_desired_price a)\<rparr>)) (\<lambda>a.
     st_bind (maybe_handle_trade_builder_share_submit_below_market_min se order ''submit_deferred_below_market_min'' ''submit''
         (sb_current_price sub) (at_desired_price a) (requested_share_qty order z) (at_size a) (at_available_qty a)
         (trade_builder_market_min_size spec) (optimistic_exit_stage order)) (\<lambda>handled.
       if handled then st_then (flush_deferred (se_stmt se) order (at_deferred a)) (st_return None)
       else st_return (Some \<lparr>sq_request = build_request order sub order_type post_only (''tb-'' @ uuid) spec a,
         sq_attempt = defer_optimistic order sub p z a, sq_market_spec = spec\<rparr>))))))))"

section \<open>A request that was refused\<close>

record submit_outcome =
  so_ack :: order_ack
  so_client_order_id :: string
  so_sell :: "sell_submit_price option"
  so_retry_payload :: "payload option"
  so_attempt :: submit_attempt
  so_started_at :: i64

definition fatal_payload :: "builder_order \<Rightarrow> submit_request \<Rightarrow> sell_submit_price option \<Rightarrow> string \<Rightarrow> payload" where
  "fatal_payload order q sell error_text =
     [(''error'', EvStr error_text), (''status_before'', EvStr (o_status order)), (''side'', EvStr (o_side order)),
      (''market_slug'', EvStr (o_market_slug order)), (''token_id'', EvStr (o_token_id order)),
      (''attempted_qty'', EvNum (at_size (sq_attempt q))), (''desired_price'', EvNum (at_desired_price (sq_attempt q))),
      (''neg_risk'', EvBool (po_neg_risk (sq_request q))),
      (''order_price_min_tick_size'', EvOptNum (Option.bind (sq_market_spec q) ms_order_price_min_tick_size)),
      (''order_min_size'', EvOptNum (Option.bind (sq_market_spec q) ms_order_min_size))] @ sell_price_payload sell"

text \<open>A retry of the sell, with the sizes of this attempt.\<close>

definition retry_sell :: "submit_env \<Rightarrow> builder_order \<Rightarrow> submission \<Rightarrow> submit_sizes \<Rightarrow> submit_request \<Rightarrow> string \<Rightarrow> f64 option
    \<Rightarrow> exit_submit_stage option \<Rightarrow> exit_submit_stage option \<Rightarrow> unit bstep" where
  "retry_sell se order sub z q error_text available_qty attempt_stage next_stage =
     schedule_trade_builder_exit_sell_retry (se_stmt se) order ''submit_retry_scheduled'' error_text (sb_current_price sub)
       (at_desired_price (sq_attempt q)) (requested_share_qty order z) available_qty (Some (at_size (sq_attempt q))) None attempt_stage next_stage"

definition optimistic_balance_rejected :: "submit_env \<Rightarrow> builder_order \<Rightarrow> submission \<Rightarrow> submit_sizes \<Rightarrow> submit_request \<Rightarrow> string \<Rightarrow> unit bstep" where
  "optimistic_balance_rejected se order sub z q error_text =
    (let a = sq_attempt q; stage = unwrap_or DynamicGross (optimistic_exit_stage order);
         after = trade_builder_next_optimistic_exit_stage_after_balance_reject stage
     in st_then (b_event (se_stmt se) (o_id order) ''optimistic_exit_balance_rejected''
          [(''reason'', EvStr error_text), (''attempt_stage'', EvStr (stage_as_str stage)), (''next_attempt_stage'', EvStr (stage_as_str after)),
           (''status_before'', EvStr (o_status order)), (''current_price'', EvNum (sb_current_price sub)),
           (''desired_price'', EvNum (at_desired_price a)), (''requested_qty'', EvOptNum (requested_share_qty order z)),
           (''attempted_qty'', EvNum (at_size a)), (''available_qty'', EvOptNum (at_available_qty a))])
        (retry_sell se order sub z q error_text (at_available_qty a) (Some stage) (Some after)))"

definition exit_retry_or_fail :: "submit_env \<Rightarrow> builder_order \<Rightarrow> submission \<Rightarrow> submit_sizes \<Rightarrow> submit_request \<Rightarrow> string \<Rightarrow> string \<Rightarrow> f64 option
    \<Rightarrow> unit bstep" where
  "exit_retry_or_fail se order sub z q original error_text available_qty =
    (if trade_builder_should_retry_exit_sell order then retry_sell se order sub z q error_text available_qty None None
     else st_raise original)"

text \<open>The sell was refused for want of balance.\<close>

definition balance_rejected :: "submit_env \<Rightarrow> builder_order \<Rightarrow> submission \<Rightarrow> submit_sizes \<Rightarrow> submit_request \<Rightarrow> string \<Rightarrow> string \<Rightarrow> unit bstep" where
  "balance_rejected se order sub z q original error_text =
    (if optimistic_exit_submit order then optimistic_balance_rejected se order sub z q error_text
     else if trade_builder_stop_loss_latched order then retry_sell se order sub z q error_text (at_available_qty (sq_attempt q)) None None
     else st_bind (b_tell (se_available_qty se (o_token_id order))) (\<lambda>rechecked.
       if Option.bind rechecked (\<lambda>qty. clamp_trade_builder_visible_share_qty (sz_size z) (Some qty)) \<noteq> None
       then mark_trade_builder_inventory_pending (se_stmt se) order ''exchange rejected sell before inventory synced''
         (sb_current_price sub) (sz_size z) rechecked
       else exit_retry_or_fail se order sub z q original error_text rechecked))"

definition request_refused :: "submit_env \<Rightarrow> builder_order \<Rightarrow> submission \<Rightarrow> submit_prices \<Rightarrow> submit_sizes \<Rightarrow> submit_request \<Rightarrow> string \<Rightarrow> string
    \<Rightarrow> unit bstep" where
  "request_refused se order sub p z q original error_text =
    (if trade_builder_error_is_fatal_exchange_rejection error_text
     then st_then (b_status (se_stmt se) (o_id order) ''error'' (Some error_text))
       (b_event (se_stmt se) (o_id order) ''fatal_exchange_rejection'' (fatal_payload order q (pc_sell p) error_text))
     else if o_side order = ''sell'' \<and> share_basis order \<and> trade_builder_error_indicates_balance_or_allowance error_text
     then balance_rejected se order sub z q original error_text
     else exit_retry_or_fail se order sub z q original error_text (at_available_qty (sq_attempt q)))"

definition retry_attempt_events :: "stmt_env \<Rightarrow> i64 \<Rightarrow> payload list \<Rightarrow> unit bstep" where
  "retry_attempt_events sv i events = st_fold (\<lambda>payload _. b_event sv i ''fast_sl_retry_attempt'' payload) events ()"

definition after_fast_retry :: "submit_prices \<Rightarrow> submit_request \<Rightarrow> fast_success \<Rightarrow> submit_outcome" where
  "after_fast_retry p q s =
    (let a = (sq_attempt q)\<lparr>at_desired_price := fq_desired_price s, at_deferred := no_deferred_events\<rparr>
     in \<lparr>so_ack = fq_ack s, so_client_order_id = fq_client_order_id s, so_sell = Some (fq_sell_submit_price s),
         so_retry_payload = Some (fq_attempt_payload s),
         so_attempt = (case at_remaining_qty a of None \<Rightarrow> a | Some qty \<Rightarrow> a\<lparr>at_remaining_usdc := Some (fmax (qty * at_desired_price a) 0)\<rparr>),
         so_started_at = fq_submit_started_at s\<rparr>)"

text \<open>The request is sent; a stop loss that finds no match is sent again. None when the submission ended.\<close>

definition place_submission :: "submit_env \<Rightarrow> builder_order \<Rightarrow> submission \<Rightarrow> submit_prices \<Rightarrow> submit_sizes \<Rightarrow> i64 \<Rightarrow> submit_request
    \<Rightarrow> (submit_outcome option) bstep" where
  "place_submission se order sub p z started q =
     st_bind (b_place (se_place se) (o_id order) (sq_request q)) (\<lambda>placed. case placed of
       Inr ack \<Rightarrow> st_return (Some \<lparr>so_ack = ack, so_client_order_id = po_client_order_id (sq_request q), so_sell = pc_sell p,
         so_retry_payload = None, so_attempt = sq_attempt q, so_started_at = started\<rparr>)
     | Inl original \<Rightarrow>
         st_bind (try_trade_builder_fast_stop_loss_retry se order (sq_request q) (po_order_type (sq_request q))
           (normalize_trade_builder_size_basis (o_size_basis order)) original (requested_share_qty order z)) (\<lambda>retry.
         st_then (flush_deferred (se_stmt se) order (at_deferred (sq_attempt q))) (case retry of
           RetrySuccess s \<Rightarrow> st_then (retry_attempt_events (se_stmt se) (o_id order) (fq_attempt_events s))
             (st_return (Some (after_fast_retry p q s)))
         | RetryExhausted events last_error \<Rightarrow> st_then (retry_attempt_events (se_stmt se) (o_id order) events)
             (st_then (request_refused se order sub p z q original last_error) (st_return None))
         | RetryNotEligible \<Rightarrow> st_then (request_refused se order sub p z q original original) (st_return None))))"

section \<open>A request that was accepted\<close>

definition submitted_payload :: "builder_order \<Rightarrow> submission \<Rightarrow> submit_prices \<Rightarrow> submit_sizes \<Rightarrow> string \<Rightarrow> submit_outcome \<Rightarrow> payload" where
  "submitted_payload order sub p z order_type out =
    (let a = so_attempt out; ack = so_ack out; optnum = (\<lambda>k v. (k, EvOptNum v))
     in [(''builder_order_id'', EvId (o_id order)), (''client_order_id'', EvStr (ak_client_order_id ack)),
         (''exchange_order_id'', EvStr (accepted_id ack)), (''status'', EvStr (ak_status ack)),
         (''normalized_status'', EvStr (normalize_exchange_status (ak_status ack))),
         optnum ''trigger_price'' (o_trigger_price order), optnum ''max_price'' (o_max_price order),
         optnum ''guard_trigger_price'' (o_guard_trigger_price order), optnum ''best_ask_floor_price'' (o_best_ask_floor_price order),
         (''current_price'', EvNum (sb_current_price sub)), optnum ''best_ask'' (sb_best_ask sub),
         (''execution_price'', EvNum (at_desired_price a)),
         (''execution_price_source'', EvStr (unwrap_or (unwrap_or ''runtime_price'' (map_option sp_source (so_sell out)))
            (map_option mb_source (pc_market_buy p)))),
         optnum ''trigger_reference_price'' (Option.bind (pc_market_buy p) mb_trigger_reference_price)]
        @ sell_price_payload (so_sell out)
        @ [(''execution_mode'', EvStr (normalize_trade_builder_execution_mode (o_execution_mode order))),
         (''order_type'', EvStr order_type), (''allow_partial_fill'', EvBool (action_place_order_allow_partial_fill order_type)),
         (''size_basis'', EvStr (normalize_trade_builder_size_basis (o_size_basis order))), (''size'', EvNum (at_size a)),
         optnum ''requested_qty'' (requested_share_qty order z), optnum ''clamped_qty'' (at_remaining_qty a),
         (''partial_visible_inventory_submit'', EvBool (at_partial a)), optnum ''target_qty'' (o_target_qty order),
         optnum ''remaining_qty'' (at_remaining_qty a), (''size_mode'', EvOptStr (sb_size_mode sub)),
         optnum ''trigger_size_value'' (sb_size_value sub), (''trigger_size_index'', EvCount (Suc (sb_size_index sub))),
         (''resolved_size_usdc'', EvNum (sb_resolved_size_usdc sub)), optnum ''remaining_usdc'' (at_remaining_usdc a),
         optnum ''available_qty'' (at_available_qty a), (''fee_rate_bps'', EvCount (unat (sb_fee_rate_bps sub))),
         (''reject_reason'', EvOptStr (ak_reject_reason ack)), (''raw_status'', EvOptStr (ak_raw_status ack)),
         (''exchange_ts'', EvOptId (ak_exchange_ts ack)), (''exit_fast_quote_used'', EvBool (sb_quote sub \<noteq> None)),
         (''exit_fast_quote_age_ms'', EvOptId (map_option (\<lambda>q. exit_fast_submit_quote_age_ms q (so_started_at out)) (sb_quote sub))),
         (''exit_fast_quote_market_updated_at_ms'', EvOptId (map_option eq_market_updated_at_ms (sb_quote sub)))]
        @ (case pc_fast_payload p of None \<Rightarrow> [] | Some fast \<Rightarrow> (''fast_sl_initial_submit'', EvObj fast) # filter (\<lambda>(k, _). k \<in>
            {''sl_trigger_to_submit_ms'', ''sl_quote_age_ms'', ''sl_first_submit_price'', ''sl_first_submit_price_source''}) fast)
        @ (case so_retry_payload out of None \<Rightarrow> [] | Some retry \<Rightarrow> (''fast_sl_retry'', EvObj retry) # filter (\<lambda>(k, _). k \<in>
            {''fast_sl_retry_attempt'', ''fresh_quote_age_ms'', ''retry_price'', ''retry_reason''}) retry))"

definition record_submission :: "submit_env \<Rightarrow> builder_order \<Rightarrow> submission \<Rightarrow> submit_sizes \<Rightarrow> submit_outcome \<Rightarrow> payload \<Rightarrow> unit bstep" where
  "record_submission se order sub z out raw =
    (let a = so_attempt out; ack = so_ack out; sv = se_stmt se; status = normalize_exchange_status (ak_status ack)
     in st_then (b_write sv (UpsertOrderByExchangeId (o_trade_id order) (accepted_id ack) (Some (so_client_order_id out)) (submit_intent order)
          (o_side order) (at_desired_price a) (at_size a) status (ak_exchange_ts ack) (ak_reject_reason ack) raw))
       (st_then (b_write sv (ExitOp (SetTradeBuilderOrderWorkingState (o_id order) (Some (accepted_id ack)) (Some (at_desired_price a))
          (at_remaining_usdc a) (at_remaining_qty a) status)))
       (st_then (se_submitted_dynamic se order (at_size a) (at_desired_price a))
       (st_then (if at_partial a then b_event sv (o_id order) ''partial_visible_inventory_submit''
            [(''requested_qty'', EvOptNum (requested_share_qty order z)), (''available_qty'', EvOptNum (at_available_qty a)),
             (''submitted_qty'', EvNum (at_size a)),
             (''residual_qty_ignored'', EvOptNum (map_option (\<lambda>qty. fmax (qty - at_size a) 0) (requested_share_qty order z)))]
          else st_return ())
         (b_event sv (o_id order) ''submitted'' raw)))))"

definition request_accepted :: "submit_env \<Rightarrow> builder_order \<Rightarrow> submission \<Rightarrow> submit_prices \<Rightarrow> submit_sizes \<Rightarrow> string \<Rightarrow> submit_outcome \<Rightarrow> unit bstep" where
  "request_accepted se order sub p z order_type out =
    (let a = so_attempt out; ack = so_ack out
     in st_then (flush_deferred (se_stmt se) order (at_deferred a))
       (st_bind (b_ask (se_latest_flow_payload se (o_id order))) (\<lambda>flow_payload.
         let raw = submitted_payload order sub p z order_type out @ se_telemetry se order flow_payload (at_size a) (at_desired_price a) ack
         in st_then (record_submission se order sub z out raw)
           (st_then (se_inventory_baseline se order (at_desired_price a))
           (st_then (b_ask (se_submitted_notification se order))
           (st_then (se_submit_observation se order (accepted_id ack) (at_size a) (at_desired_price a))
             (if normalize_exchange_status (ak_status ack) = ''filled''
              then se_finalize se order (accepted_id ack) (at_size a) (at_desired_price a) else st_return ())))))))"

section \<open>The submission\<close>

definition submit_trade_builder_trigger_order :: "submit_env \<Rightarrow> builder_order \<Rightarrow> submission \<Rightarrow> unit bstep" where
  "submit_trade_builder_trigger_order se order sub0 =
     b_now (se_stmt se) (\<lambda>started.
     st_bind (b_tell (\<lambda>n. trade_builder_cached_market_spec_for_order (se_decode_snapshot se) (\<lambda>slug. se_spec_cache se slug n) order started)) (\<lambda>cached.
     let sub = sub0\<lparr>sb_quote := (if cached = None then None else sb_quote sub0)\<rparr>
     in st_then (st_unless (price_submission se order sub started) (\<lambda>p.
        st_bind (st_result (size_submission order sub (pc_desired_price p))) (\<lambda>z.
        st_unless (pass_guards se order sub p z) (\<lambda>(force, a).
        st_unless (settle_inventory se order sub (sz_size z) a) (\<lambda>a.
        st_unless (final_checks se order sub p z cached force a) (\<lambda>q.
        st_unless (place_submission se order sub p z started q) (\<lambda>out.
        st_then (request_accepted se order sub p z (po_order_type (sq_request q)) out) (st_return (Some ())))))))))
      (st_return ())))"

end
