(* ===== verification/Order_Processing.thy ===== *)
theory Order_Processing
  imports Order_Submit
begin

text \<open>
  The processing of a builder order (\<open>trade_builder/order_processing.rs\<close>, \<open>order_expiry.rs\<close>, \<open>trigger_sizes.rs\<close>, the fee
  rate of \<open>exit_retry.rs\<close>) and the housekeeping loop around it (\<open>lib_parts/part_020.rs\<close>). What other files answer or do
  is a field of \<open>process_env\<close>. The stop losses that a take profit gives way to are processed one after the other
  here, and concurrently in the code. Durations and log lines are left out.
\<close>

section \<open>What the processing relies on\<close>

record live_gap_evaluation =
  lg_asset :: "string option"
  lg_direction :: "string option"
  lg_threshold_gap_usd :: f64
  lg_reference_price :: "f64 option"
  lg_current_price :: "f64 option"
  lg_current_price_source :: string
  lg_current_price_ts_ms :: "i64 option"
  lg_current_price_staleness_ms :: "i64 option"
  lg_directional_gap :: "f64 option"
  lg_remaining_sec :: "i64 option"
  lg_min_remaining_sec :: i64
  lg_reason_code :: string
  lg_should_trigger :: bool

record oracle_lag_evaluation =
  ol_enabled :: bool
  ol_should_trigger :: bool
  ol_reason_code :: string
  ol_payload :: event_value

record stale_market =
  sk_detected_scope :: string
  sk_detected_asset :: string
  sk_detected_timeframe :: string
  sk_current_live_market_slug :: string
  sk_selection_reason :: string

record process_env =
  pe_submit :: submit_env
  pe_stale_market :: "string \<Rightarrow> nat \<Rightarrow> (string, stale_market option) result"
  pe_pair_lock :: "builder_order \<Rightarrow> i64 \<Rightarrow> (builder_order \<times> bool) bstep"
  pe_quote_cache :: "i64 \<Rightarrow> nat \<Rightarrow> exit_fast_submit_quote option"
  pe_fast_price :: "builder_order \<Rightarrow> exit_fast_submit_quote option \<Rightarrow> nat \<Rightarrow> (string, (string, trade_builder_runtime_price) result) result"
  pe_price :: "builder_order \<Rightarrow> nat \<Rightarrow> (string, (string, trade_builder_runtime_price) result) result"
  pe_best_ask :: "string \<Rightarrow> nat \<Rightarrow> (string, f64 option) result"
  pe_ptb :: "nat \<Rightarrow> ptb_env"
  pe_oracle_lag :: "builder_order \<Rightarrow> trade_builder_runtime_price \<Rightarrow> nat \<Rightarrow> (string, oracle_lag_evaluation option) result"
  pe_live_gap :: "builder_order \<Rightarrow> nat \<Rightarrow> (string, live_gap_evaluation option) result"
  pe_parent_inventory :: "builder_order \<Rightarrow> nat \<Rightarrow> (i64 exit_op list, string, (f64 \<times> string) option) stm"
  pe_parent_min_size :: "builder_order \<Rightarrow> nat \<Rightarrow> f64 option"
  pe_reconcile :: "builder_order \<Rightarrow> string \<Rightarrow> f64 \<Rightarrow> trade_builder_runtime_price \<Rightarrow> unit bstep"
  pe_batch_parents :: "nat \<Rightarrow> i64 set"
  pe_fee_rate :: "string \<Rightarrow> nat \<Rightarrow> (string, u64 option) result"
  pe_trigger_plan :: "i64 \<Rightarrow> nat \<Rightarrow> (string, (string option \<times> f64 list) option) result"
  pe_trade_notional :: "i64 \<Rightarrow> nat \<Rightarrow> (string, f64 option) result"
  pe_pending_observations :: "nat \<Rightarrow> (string, unit) result"
  pe_load_user :: "i64 \<Rightarrow> nat \<Rightarrow> (string, unit) result"
  pe_sync_fills :: "i64 \<Rightarrow> unit bstep"

abbreviation pe_stmt :: "process_env \<Rightarrow> stmt_env" where "pe_stmt pe \<equiv> se_stmt (pe_submit pe)"

section \<open>Which orders are processed\<close>

definition is_trade_builder_order_processable_status :: "string \<Rightarrow> bool" where
  "is_trade_builder_order_processable_status status \<longleftrightarrow>
     status \<in> {''pending'', ''armed'', ''triggered'', ''open'', ''partially_filled'', ''canceled_requested'', ''guard_blocked'',
       ''inventory_pending''}"

definition trade_builder_order_uses_ws_fast_path :: "builder_order \<Rightarrow> bool" where
  "trade_builder_order_uses_ws_fast_path order \<longleftrightarrow> o_parent_order_id order \<noteq> None \<and> o_side order = ''sell'' \<and>
     o_kind order = ''conditional'' \<and> o_status order \<in> {''armed'', ''triggered''} \<and> o_trigger_condition order \<noteq> None \<and>
     o_trigger_price order \<noteq> None"

definition trade_builder_order_requires_housekeeping :: "builder_order \<Rightarrow> bool" where
  "trade_builder_order_requires_housekeeping order =
    (if o_status order = ''error'' then trade_builder_stop_loss_latched order
     else if trade_builder_order_uses_ws_fast_path order then False
     else o_status order \<in> {''pending'', ''armed'', ''triggered'', ''open'', ''partially_filled'', ''canceled_requested'',
       ''inventory_pending'', ''guard_blocked''})"

definition processing_rank :: "builder_order \<Rightarrow> nat" where
  "processing_rank order = (if trade_builder_stop_loss_latched order then 0
     else if o_parent_order_id order \<noteq> None \<and> o_side order = ''sell'' \<and> o_trigger_condition order = Some ''cross_below'' then 1
     else if o_parent_order_id order \<noteq> None \<and> o_side order = ''sell'' \<and> o_trigger_condition order = Some ''cross_above'' then 2 else 3)"

definition list_trade_builder_orders_for_processing :: "nat \<Rightarrow> i64 \<Rightarrow> builder_world \<Rightarrow> builder_order list" where
  "list_trade_builder_orders_for_processing limit now w =
     filter trade_builder_order_requires_housekeeping (take limit (sort_key processing_rank (sort_key o_created_at
       (filter (\<lambda>r. trade_builder_order_requires_housekeeping r \<and>
          (case o_fresh_submit_lease_until r of None \<Rightarrow> True | Some lease \<Rightarrow> lease \<le> now)) (bw_orders w)))))"

datatype eligibility_window_state = WindowWait | WindowExpire | WindowAllow

definition classify_trade_builder_order_eligibility_window :: "builder_order \<Rightarrow> i64 \<Rightarrow> eligibility_window_state" where
  "classify_trade_builder_order_eligibility_window order now =
    (if o_active_exchange_order_id order \<noteq> None then WindowAllow
     else if (case o_eligible_after_at order of None \<Rightarrow> False | Some start \<Rightarrow> now < start) then WindowWait
     else if (case o_eligible_before_at order of None \<Rightarrow> False | Some until \<Rightarrow> until \<le> now) then WindowExpire
     else WindowAllow)"

definition opt_rfc3339 :: "stmt_env \<Rightarrow> i64 option \<Rightarrow> event_value" where
  "opt_rfc3339 sv t = EvOptStr (map_option (sv_rfc3339 sv) t)"

definition maybe_handle_trade_builder_order_eligibility_window :: "submit_env \<Rightarrow> builder_order \<Rightarrow> i64 \<Rightarrow> bool bstep" where
  "maybe_handle_trade_builder_order_eligibility_window se order now =
    (case classify_trade_builder_order_eligibility_window order now of
       WindowWait \<Rightarrow> st_return True
     | WindowAllow \<Rightarrow> st_return False
     | WindowExpire \<Rightarrow>
         st_then (b_status (se_stmt se) (o_id order) ''expired'' (Some ''outside_cycle_window''))
        (st_then (b_event (se_stmt se) (o_id order) ''expired''
          (reason_payload ''outside_cycle_window'' ''Builder order window closed before the order could be submitted.''
           @ [(''eligible_after_at'', opt_rfc3339 (se_stmt se) (o_eligible_after_at order)),
              (''eligible_before_at'', opt_rfc3339 (se_stmt se) (o_eligible_before_at order)),
              (''status_before'', EvStr (o_status order)), (''status_after'', EvStr ''expired'')]))
        (st_then (se_abort_pair se order ''pair_counter_expired'') (st_return True))))"

section \<open>A market whose cycle is over\<close>

definition expire_trade_builder_order_for_stale_market :: "stmt_env \<Rightarrow> stale_market \<Rightarrow> i64 option \<Rightarrow> builder_order \<Rightarrow> unit bstep" where
  "expire_trade_builder_order_for_stale_market sv stale expired_by order =
     st_then (b_status sv (o_id order) ''expired'' (Some ''stale_market_cycle''))
       (b_event sv (o_id order) ''expired''
         (reason_payload ''stale_market_cycle'' ''Rolling market cycle advanced before the builder order could be submitted.''
          @ [(''status_before'', EvStr (o_status order)), (''status_after'', EvStr ''expired''), (''side'', EvStr (o_side order)),
             (''kind'', EvStr (o_kind order)), (''original_market_slug'', EvStr (o_market_slug order)),
             (''current_live_market_slug'', EvStr (sk_current_live_market_slug stale)), (''original_token_id'', EvStr (o_token_id order)),
             (''detected_scope'', EvStr (sk_detected_scope stale)), (''detected_asset'', EvStr (sk_detected_asset stale)),
             (''detected_timeframe'', EvStr (sk_detected_timeframe stale)),
             (''current_live_selection_reason'', EvStr (sk_selection_reason stale)), (''expired_by_order_id'', EvOptId expired_by)]))"

definition expires_with :: "builder_order \<Rightarrow> builder_order \<Rightarrow> bool" where
  "expires_with order sibling \<longleftrightarrow> o_market_slug sibling = o_market_slug order \<and> o_side sibling = ''sell'' \<and>
     o_active_exchange_order_id sibling = None \<and> is_trade_builder_order_processable_status (o_status sibling)"

definition maybe_expire_trade_builder_stale_order :: "process_env \<Rightarrow> builder_order \<Rightarrow> bool bstep" where
  "maybe_expire_trade_builder_stale_order pe order =
    (if o_active_exchange_order_id order \<noteq> None then st_return False
     else st_bind (b_ask (pe_stale_market pe (o_market_slug order))) (\<lambda>stale. case stale of
       None \<Rightarrow> st_return False
     | Some stale \<Rightarrow> st_then (expire_trade_builder_order_for_stale_market (pe_stmt pe) stale None order)
         (case o_parent_order_id order of
            None \<Rightarrow> st_return True
          | Some p \<Rightarrow> st_bind (b_read (pe_stmt pe) (list_trade_builder_child_orders_by_parent p (Some (o_id order)))) (\<lambda>siblings.
              st_then (st_fold (\<lambda>sibling _. if expires_with order sibling
                  then expire_trade_builder_order_for_stale_market (pe_stmt pe) stale (Some (o_id order)) sibling else st_return ())
                siblings ()) (st_return True)))))"

section \<open>Admission\<close>

definition complete_order :: "stmt_env \<Rightarrow> builder_order \<Rightarrow> unit bstep" where
  "complete_order sv order =
     st_then (b_status sv (o_id order) ''completed'' None)
    (st_then (b_event sv (o_id order) ''max_trigger_reached''
       [(''triggers_fired'', EvId (o_triggers_fired order)), (''max_triggers'', EvId (o_max_triggers order))])
    (st_then (st_try (b_write sv (UnblockNextTradeBuilderOrder (o_trade_id order) (o_token_id order)))) (st_return ())))"

definition expire_order :: "submit_env \<Rightarrow> builder_order \<Rightarrow> i64 \<Rightarrow> unit bstep" where
  "expire_order se order expires_at =
    (if o_status order = ''expired'' \<or> o_status order = ''completed'' then st_return ()
     else st_then (b_write (se_stmt se) (ClearTradeBuilderActiveExchangeOrder (o_id order) ''expired''))
         (st_then (b_event (se_stmt se) (o_id order) ''expired'' [(''expires_at'', EvStr (sv_rfc3339 (se_stmt se) expires_at))])
           (se_abort_pair se order ''pair_counter_ttl_expired'')))"

definition admissible :: "builder_order \<Rightarrow> bool" where
  "admissible order \<longleftrightarrow> is_trade_builder_order_processable_status (o_status order) \<or>
     o_status order = ''error'' \<and> trade_builder_should_retry_after_processing_error snapshot_str order"

text \<open>The order that goes on to be priced, at the time it was admitted.\<close>

definition admit_order :: "process_env \<Rightarrow> builder_order \<Rightarrow> ((builder_order \<times> i64) option) bstep" where
  "admit_order pe order =
    (let sv = pe_stmt pe; se = pe_submit pe
     in if \<not> admissible order then st_return None
        else if o_max_triggers order \<le> o_triggers_fired order \<and> o_status order \<noteq> ''completed''
        then st_then (complete_order sv order) (st_return None)
        else b_now sv (\<lambda>now. case filter_opt (\<lambda>t. t \<le> now) (o_expires_at order) of
          Some expires_at \<Rightarrow> st_then (expire_order se order expires_at) (st_return None)
        | None \<Rightarrow>
          st_bind (maybe_handle_trade_builder_order_eligibility_window se order now) (\<lambda>ended. if ended then st_return None else
          st_bind (maybe_expire_trade_builder_stale_order pe order) (\<lambda>stale.
            if stale then st_then (se_abort_pair se order ''pair_counter_stale_market_cycle'') (st_return None)
            else st_bind (pe_pair_lock pe order now) (\<lambda>(order, held). st_return (if held then None else Some (order, now)))))))"

section \<open>The runtime price\<close>

definition trade_builder_requires_book_aware_runtime_price :: "builder_order \<Rightarrow> bool" where
  "trade_builder_requires_book_aware_runtime_price order \<longleftrightarrow> trade_builder_uses_fast_runtime_pricing order \<or>
     o_side order = ''buy'' \<and> o_kind order = ''immediate'' \<and>
     (o_max_price order \<noteq> None \<or> o_best_ask_floor_price order \<noteq> None \<or> o_guard_trigger_price order \<noteq> None \<or>
      o_last_error order \<in> {Some ''pair_primary_best_ask_unavailable'', Some ''pair_counter_best_ask_unavailable''})"

definition trade_builder_runtime_warning :: "string list \<Rightarrow> string option" where
  "trade_builder_runtime_warning errors =
    (let kept = filter (\<lambda>value. value \<noteq> []) (map trim errors) in if kept = [] then None else Some (join_with '' | '' kept))"

definition get_exit_fast_submit_quote_for_order :: "process_env \<Rightarrow> builder_order \<Rightarrow> i64 \<Rightarrow> (exit_fast_submit_quote option) bstep" where
  "get_exit_fast_submit_quote_for_order pe order now =
    (if \<not> trade_builder_is_child_exit_sell order then st_return None
     else st_bind (b_tell (pe_quote_cache pe (o_id order))) (\<lambda>quote.
       st_return (filter_opt (\<lambda>q. exit_fast_submit_quote_is_fresh q (o_token_id order) now) quote)))"

definition fetch_runtime_price :: "process_env \<Rightarrow> builder_order \<Rightarrow> runtime_snapshot option \<Rightarrow> exit_fast_submit_quote option
    \<Rightarrow> ((string, trade_builder_runtime_price) result) bstep" where
  "fetch_runtime_price pe order snapshot quote =
    (case Option.bind snapshot trade_builder_runtime_price_from_snapshot of
       Some price \<Rightarrow> st_return (Inr price)
     | None \<Rightarrow> if trade_builder_requires_book_aware_runtime_price order then b_ask (pe_fast_price pe order quote)
         else b_ask (pe_price pe order))"

definition backfill_best_ask :: "process_env \<Rightarrow> builder_order \<Rightarrow> trade_builder_runtime_price \<Rightarrow> trade_builder_runtime_price bstep" where
  "backfill_best_ask pe order rp =
    (if o_best_ask_floor_price order = None \<or> rp_best_ask rp \<noteq> None then st_return rp
     else st_bind (st_try (b_ask (pe_best_ask pe (o_token_id order)))) (\<lambda>answer. st_return (case answer of
         Inr ask \<Rightarrow> (case valid_ask ask of Some a \<Rightarrow> rp\<lparr>rp_best_ask := Some (clamp_probability a)\<rparr> | None \<Rightarrow> rp)
       | Inl e \<Rightarrow> rp\<lparr>rp_runtime_warning := trade_builder_runtime_warning
           ((case rp_runtime_warning rp of None \<Rightarrow> [] | Some w \<Rightarrow> [w]) @ [''best_ask_backfill: '' @ e])\<rparr>)))"

section \<open>The prices and the stop losses of an order\<close>

record price_view =
  vw_now :: i64
  vw_previous_price :: "f64 option"
  vw_snapshot :: "runtime_snapshot option"
  vw_quote :: "exit_fast_submit_quote option"
  vw_runtime :: trade_builder_runtime_price
  vw_trigger_price :: f64
  vw_execution_price :: f64
  vw_last_seen_price :: f64
  vw_ptb :: "ptb_stop_loss_evaluation option"
  vw_oracle_lag :: "oracle_lag_evaluation option"
  vw_live_gap :: "live_gap_evaluation option"
  vw_current_price :: f64

definition retry_without_price :: "stmt_env \<Rightarrow> builder_order \<Rightarrow> string \<Rightarrow> unit bstep" where
  "retry_without_price sv order e = b_event sv (o_id order) ''price_unavailable_retry''
     (reason_payload ''runtime_price_unavailable'' ''Runtime price was unavailable and no fallback price was present.''
      @ [(''status'', EvStr (o_status order))] @ order_labels order
      @ [(''previous_price'', EvOptNum (o_last_seen_price order)), (''working_price'', EvOptNum (o_working_price order)), (''error'', EvStr e)])"

definition warn_runtime_price :: "stmt_env \<Rightarrow> builder_order \<Rightarrow> price_view \<Rightarrow> unit bstep" where
  "warn_runtime_price sv order v =
    (let rp = vw_runtime v in case rp_runtime_warning rp of None \<Rightarrow> st_return ()
     | Some warning \<Rightarrow> b_event sv (o_id order) ''runtime_price_fallback_used''
        [(''source'', EvStr (rp_source rp)), (''current_price'', EvNum (vw_execution_price v)),
         (''trigger_eval_price'', EvNum (vw_trigger_price v)), (''previous_price'', EvOptNum (vw_previous_price v)),
         (''working_price'', EvOptNum (o_working_price order)), (''sl_trigger_price_mode'', EvOptStr (o_sl_trigger_price_mode order)),
         (''runtime_warning'', EvStr warning), (''best_bid'', EvOptNum (rp_best_bid rp)), (''best_ask'', EvOptNum (rp_best_ask rp)),
         (''last_trade_price'', EvOptNum (rp_last_trade_price rp))])"

text \<open>The evaluations of the order at its runtime price; the reference of a price-to-beat stop loss is stored when it is
  first known.\<close>

definition evaluate_order :: "process_env \<Rightarrow> builder_order \<Rightarrow> i64 \<Rightarrow> runtime_snapshot option \<Rightarrow> exit_fast_submit_quote option
    \<Rightarrow> trade_builder_runtime_price \<Rightarrow> (builder_order \<times> price_view) bstep" where
  "evaluate_order pe order now snapshot quote rp =
     st_bind (b_tell (\<lambda>n. trade_builder_evaluate_ptb_stop_loss (pe_ptb pe n) order)) (\<lambda>ptb.
     st_bind (b_ask (pe_oracle_lag pe order rp)) (\<lambda>oracle_lag.
     st_bind (b_ask (pe_live_gap pe order)) (\<lambda>live_gap.
     st_bind (case Option.bind ptb (trade_builder_ptb_reference_price_persist_candidate order) of
         None \<Rightarrow> st_return order
       | Some reference \<Rightarrow> st_then (b_write (pe_stmt pe) (SetTradeBuilderOrderPtbReferencePrice (o_id order) reference))
           (st_return (order\<lparr>o_ptb_reference_price := Some reference\<rparr>))) (\<lambda>after.
       let trigger = trade_builder_trigger_eval_price_for_order order rp;
           execution = trade_builder_execution_price_for_order order rp
       in st_return (after, \<lparr>vw_now = now, vw_previous_price = o_last_seen_price order, vw_snapshot = snapshot, vw_quote = quote,
         vw_runtime = rp, vw_trigger_price = trigger, vw_execution_price = execution,
         vw_last_seen_price = trade_builder_last_seen_price_for_order order trigger execution, vw_ptb = ptb,
         vw_oracle_lag = oracle_lag, vw_live_gap = live_gap,
         vw_current_price = unwrap_or trigger (or_opt (Option.bind live_gap lg_current_price) (Option.bind ptb pl_current_price))\<rparr>)))))"

definition price_order :: "process_env \<Rightarrow> builder_order \<Rightarrow> i64 \<Rightarrow> ((builder_order \<times> price_view) option) bstep" where
  "price_order pe order now =
     st_bind (get_exit_fast_submit_quote_for_order pe order now) (\<lambda>quote.
     let snapshot = fresh_runtime_snapshot (se_decode_snapshot (pe_submit pe)) order now
     in st_bind (fetch_runtime_price pe order snapshot quote) (\<lambda>fetched. case fetched of
          Inl e \<Rightarrow> st_then (retry_without_price (pe_stmt pe) order e) (st_return None)
        | Inr rp \<Rightarrow> st_bind (backfill_best_ask pe order rp) (\<lambda>rp.
            st_bind (evaluate_order pe order now snapshot quote rp) (\<lambda>(order, v).
              st_then (warn_runtime_price (pe_stmt pe) order v) (st_return (Some (order, v)))))))"

definition see_price :: "stmt_env \<Rightarrow> builder_order \<Rightarrow> price_view \<Rightarrow> unit bstep" where
  "see_price sv order v = b_write sv (SetTradeBuilderLastSeenPrice (o_id order) (vw_last_seen_price v))"

section \<open>Stop losses first\<close>

text \<open>The functions of \<open>Exit_Priority\<close> on the tables: what they read is fetched before.\<close>

definition siblings_of :: "stmt_env \<Rightarrow> builder_order \<Rightarrow> i64 option \<Rightarrow> ((string, builder_order list) result) bstep" where
  "siblings_of sv order except = (case o_parent_order_id order of
     None \<Rightarrow> st_return (Inr [])
   | Some p \<Rightarrow> st_try (b_read sv (list_trade_builder_child_orders_by_parent p except)))"

definition parent_of :: "stmt_env \<Rightarrow> builder_order \<Rightarrow> ((string, builder_order option) result) bstep" where
  "parent_of sv order = (case o_parent_order_id order of
     None \<Rightarrow> st_return (Inr None) | Some p \<Rightarrow> st_try (get_trade_builder_order sv p))"

definition preempt_take_profit :: "process_env \<Rightarrow> builder_order \<Rightarrow> price_view \<Rightarrow> (builder_order \<times> preemption) bstep" where
  "preempt_take_profit pe order v =
     st_bind (siblings_of (pe_stmt pe) order (Some (o_id order))) (\<lambda>siblings. st_bind (parent_of (pe_stmt pe) order) (\<lambda>parent.
     st_bind (b_tell (\<lambda>n. (pe_ptb pe n, pe_parent_inventory pe order n, pe_parent_min_size pe order n))) (\<lambda>(env, inventory, least).
       b_exits (pe_stmt pe) (\<lambda>db. maybe_preempt_trade_builder_take_profit_for_stop_loss db env siblings parent inventory least order
         (vw_runtime v)))))"

definition append_trade_builder_live_gap_stop_loss_payload :: "payload \<Rightarrow> live_gap_evaluation \<Rightarrow> payload" where
  "append_trade_builder_live_gap_stop_loss_payload payload e = payload @ [(''live_gap_stop_loss'', EvObj
     [(''reason_code'', EvStr (lg_reason_code e)), (''asset'', EvOptStr (lg_asset e)), (''direction'', EvOptStr (lg_direction e)),
      (''threshold_gap_usd'', EvNum (lg_threshold_gap_usd e)), (''reference_price'', EvOptNum (lg_reference_price e)),
      (''current_price'', EvOptNum (lg_current_price e)), (''current_price_source'', EvStr (lg_current_price_source e)),
      (''current_price_ts_ms'', EvOptId (lg_current_price_ts_ms e)),
      (''current_price_staleness_ms'', EvOptId (lg_current_price_staleness_ms e)), (''directional_gap'', EvOptNum (lg_directional_gap e)),
      (''remaining_sec'', EvOptId (lg_remaining_sec e)), (''min_remaining_sec'', EvId (lg_min_remaining_sec e)),
      (''should_trigger'', EvBool (lg_should_trigger e))])]"

definition append_trade_builder_ptb_oracle_lag_stop_payload :: "payload \<Rightarrow> oracle_lag_evaluation \<Rightarrow> payload" where
  "append_trade_builder_ptb_oracle_lag_stop_payload payload e = payload @ [(''ptb_oracle_lag_book_lead_stop'', EvObj
     [(''enabled'', EvBool (ol_enabled e)), (''should_trigger'', EvBool (ol_should_trigger e)),
      (''reason_code'', EvStr (ol_reason_code e)), (''details'', ol_payload e)])]"

definition annotate_stop_loss :: "price_view \<Rightarrow> payload \<Rightarrow> payload" where
  "annotate_stop_loss v payload =
    (let gap = (case vw_live_gap v of None \<Rightarrow> payload | Some e \<Rightarrow> append_trade_builder_live_gap_stop_loss_payload payload e)
     in case vw_oracle_lag v of None \<Rightarrow> gap | Some e \<Rightarrow> append_trade_builder_ptb_oracle_lag_stop_payload gap e)"

definition latch_stop_loss :: "process_env \<Rightarrow> builder_order \<Rightarrow> price_view \<Rightarrow> builder_order bstep" where
  "latch_stop_loss pe order v =
     st_bind (siblings_of (pe_stmt pe) order (Some (o_id order))) (\<lambda>siblings.
     b_now (pe_stmt pe) (\<lambda>now. b_exits (pe_stmt pe) (\<lambda>db.
       maybe_latch_trade_builder_stop_loss db now siblings (annotate_stop_loss v) (vw_ptb v) order (vw_current_price v))))"

definition dispatch_batch :: "process_env \<Rightarrow> builder_order \<Rightarrow> price_view \<Rightarrow> string \<Rightarrow> unit bstep" where
  "dispatch_batch pe order v path =
    (if o_active_exchange_order_id order \<noteq> None then st_return ()
     else st_bind (siblings_of (pe_stmt pe) order None) (\<lambda>siblings. st_bind (b_tell (pe_batch_parents pe)) (\<lambda>parents.
       st_then (b_exits (pe_stmt pe) (\<lambda>db. maybe_dispatch_trade_builder_parallel_exit_batch db siblings parents order (vw_runtime v) path))
         (st_return ()))))"

section \<open>The fee rate and the size of a trigger\<close>

definition trade_builder_submit_fast_lane :: "process_env \<Rightarrow> builder_order \<Rightarrow> price_view \<Rightarrow> (u64 option) bstep" where
  "trade_builder_submit_fast_lane pe order v =
     st_bind (b_tell (\<lambda>n. trade_builder_cached_market_spec_for_order (se_decode_snapshot (pe_submit pe))
         (\<lambda>slug. se_spec_cache (pe_submit pe) slug n) order (vw_now v))) (\<lambda>spec.
       let snapshot_ready = (case vw_snapshot v of None \<Rightarrow> False | Some s \<Rightarrow> rs_market_spec s \<noteq> None);
           quote_ready = (vw_quote v \<noteq> None \<and> trade_builder_is_child_exit_sell order)
       in st_return (then_some (spec \<noteq> None \<and> (snapshot_ready \<or> quote_ready))
            (unwrap_or (trade_builder_fee_rate_bps_or_default (o_fee_rate_bps order)) (Option.bind (vw_snapshot v) rs_fee_rate_bps))))"

definition u64_as_i64 :: "u64 \<Rightarrow> i64" where
  "u64_as_i64 n = sint n"

definition store_fee_rate :: "stmt_env \<Rightarrow> builder_order \<Rightarrow> u64 \<Rightarrow> builder_order bstep" where
  "store_fee_rate sv order bps =
     st_then (b_write sv (SetTradeBuilderOrderFeeRateBps (o_id order) (u64_as_i64 bps)))
       (st_return (order\<lparr>o_fee_rate_bps := u64_as_i64 bps\<rparr>))"

definition known_fee_rate :: "stmt_env \<Rightarrow> builder_order \<Rightarrow> u64 \<Rightarrow> (builder_order \<times> u64) bstep" where
  "known_fee_rate sv order bps =
     st_bind (if o_fee_rate_bps order \<noteq> u64_as_i64 bps then store_fee_rate sv order bps else st_return order)
       (\<lambda>order. st_return (order, bps))"

definition fallback_fee_rate :: "stmt_env \<Rightarrow> builder_order \<Rightarrow> payload \<Rightarrow> (builder_order \<times> u64) bstep" where
  "fallback_fee_rate sv order why =
    (let bps = trade_builder_fee_rate_bps_or_default (o_fee_rate_bps order)
     in if 0 < o_fee_rate_bps order then st_return (order, bps)
        else st_bind (store_fee_rate sv order bps) (\<lambda>order.
          st_then (b_event sv (o_id order) ''fee_rate_fallback'' (why @ [(''token_id'', EvStr (o_token_id order)),
            (''fallback_fee_rate_bps'', EvCount (unat bps))])) (st_return (order, bps))))"

definition resolve_trade_builder_order_fee_rate_bps :: "process_env \<Rightarrow> builder_order \<Rightarrow> (builder_order \<times> u64) bstep" where
  "resolve_trade_builder_order_fee_rate_bps pe order =
     b_now (pe_stmt pe) (\<lambda>now.
       case Option.bind (fresh_runtime_snapshot (se_decode_snapshot (pe_submit pe)) order now) rs_fee_rate_bps of
         Some bps \<Rightarrow> known_fee_rate (pe_stmt pe) order bps
       | None \<Rightarrow> st_bind (st_try (b_ask (pe_fee_rate pe (o_token_id order)))) (\<lambda>answer. case answer of
           Inr (Some bps) \<Rightarrow> known_fee_rate (pe_stmt pe) order bps
         | Inr None \<Rightarrow> fallback_fee_rate (pe_stmt pe) order [(''reason'', EvStr ''fee_rate_lookup_empty'')]
         | Inl e \<Rightarrow> fallback_fee_rate (pe_stmt pe) order [(''reason'', EvStr ''fee_rate_lookup_failed''), (''error'', EvStr e)]))"

record trigger_size =
  ts_resolved_size_usdc :: f64
  ts_mode :: "string option"
  ts_value :: "f64 option"
  ts_exhausted :: bool
  ts_index :: nat

definition sized_trigger :: "string \<Rightarrow> f64 \<Rightarrow> nat \<Rightarrow> f64 \<Rightarrow> trigger_size bstep" where
  "sized_trigger mode v index usdc =
    (if 0 < usdc \<and> is_finite usdc
     then st_return \<lparr>ts_resolved_size_usdc = usdc, ts_mode = Some mode, ts_value = Some v, ts_exhausted = False, ts_index = index\<rparr>
     else st_raise ''trade_builder resolved trigger size must be > 0'')"

definition resolve_trade_builder_next_trigger_size_usdc :: "process_env \<Rightarrow> builder_order \<Rightarrow> trigger_size bstep" where
  "resolve_trade_builder_next_trigger_size_usdc pe order =
    (let index = nat (o_triggers_fired order);
         plain = (\<lambda>mode. \<lparr>ts_resolved_size_usdc = o_size_usdc order, ts_mode = mode, ts_value = None, ts_exhausted = False, ts_index = index\<rparr>)
     in st_bind (b_ask (pe_trigger_plan pe (o_id order))) (\<lambda>plan. case plan of
          None \<Rightarrow> st_return (plain None)
        | Some (mode, sizes) \<Rightarrow>
            if sizes = [] then st_return (plain mode)
            else if length sizes \<le> index
            then st_return \<lparr>ts_resolved_size_usdc = 0, ts_mode = mode, ts_value = None, ts_exhausted = True, ts_index = index\<rparr>
            else let v = sizes ! index; mode = unwrap_or ''usdc'' mode
              in if mode \<noteq> ''pct'' then sized_trigger mode v index v
                 else st_bind (b_ask (pe_trade_notional pe (o_trade_id order))) (\<lambda>notional.
                   if 0 < unwrap_or 0 notional then sized_trigger mode v index (unwrap_or 0 notional * (v / lit 100))
                   else st_raise ''trade_builder pct trigger size requires source trade notional > 0'')))"

definition trigger_size_of :: "process_env \<Rightarrow> builder_order \<Rightarrow> trigger_size bstep" where
  "trigger_size_of pe order =
    (if share_basis order
     then st_return \<lparr>ts_resolved_size_usdc = o_size_usdc order, ts_mode = None, ts_value = None, ts_exhausted = False,
       ts_index = nat (o_triggers_fired order)\<rparr>
     else resolve_trade_builder_next_trigger_size_usdc pe order)"

section \<open>A trigger that is not met\<close>

definition EvTrigger :: "builder_order \<Rightarrow> price_view \<Rightarrow> payload" where
  "EvTrigger order v =
    (let rp = vw_runtime v
     in [(''side'', EvStr (o_side order))] @ order_labels order
        @ [(''previous_price'', EvOptNum (vw_previous_price v)), (''execution_price'', EvNum (vw_execution_price v)),
           (''trigger_eval_price'', EvNum (vw_trigger_price v)), (''sl_trigger_price_mode'', EvOptStr (o_sl_trigger_price_mode order)),
           (''best_bid'', EvOptNum (rp_best_bid rp)), (''last_trade_price'', EvOptNum (rp_last_trade_price rp)),
           (''status_before'', EvStr (o_status order)), (''status_after'', EvStr ''armed'')])"

definition bid_confirmation_waiting :: string where "bid_confirmation_waiting = ''composite_bid_confirmation_waiting''"

definition release_wait :: "stmt_env \<Rightarrow> builder_order \<Rightarrow> price_view \<Rightarrow> string \<Rightarrow> string \<Rightarrow> unit bstep" where
  "release_wait sv order v kind message =
     st_then (b_status sv (o_id order) ''armed'' None)
       (b_event sv (o_id order) kind (reason_payload ''trigger_recheck_failed'' message @ EvTrigger order v
          @ [(''current_price'', EvNum (vw_trigger_price v))]))"

definition arm_order :: "stmt_env \<Rightarrow> builder_order \<Rightarrow> price_view \<Rightarrow> unit bstep" where
  "arm_order sv order v =
    (let payload = reason_payload ''trigger_not_crossed'' ''Trigger condition has not crossed yet.'' @ EvTrigger order v
           @ [(''current_price'', EvNum (vw_current_price v))];
         with_ptb = (case vw_ptb v of None \<Rightarrow> payload | Some e \<Rightarrow> append_trade_builder_ptb_stop_loss_payload payload e)
     in st_then (b_status sv (o_id order) ''armed'' None) (b_event sv (o_id order) ''trigger_not_met'' (annotate_stop_loss v with_ptb)))"

definition bid_release :: "stmt_env \<Rightarrow> builder_order \<Rightarrow> price_view \<Rightarrow> string \<Rightarrow> payload \<Rightarrow> unit bstep" where
  "bid_release sv order v kind extra =
     st_then (b_write sv (SetTradeBuilderOrderLastError (o_id order) None))
       (b_event sv (o_id order) kind (extra @ [(''trigger_price'', EvOptNum (o_trigger_price order)),
          (''best_bid'', EvOptNum (rp_best_bid (vw_runtime v))), (''last_trade_price'', EvOptNum (rp_last_trade_price (vw_runtime v))),
          (''source'', EvStr ''housekeeping'')]))"

definition trigger_not_met :: "stmt_env \<Rightarrow> builder_order \<Rightarrow> price_view \<Rightarrow> unit bstep" where
  "trigger_not_met sv order v =
    (let conditional = (o_kind order = ''conditional'')
     in st_then (if conditional \<and> o_last_error order = Some bid_confirmation_waiting
          then bid_release sv order v ''composite_bid_confirmation_released''
            [(''reason_code'', EvStr ''trigger_no_longer_valid''), (''trigger_eval_price'', EvNum (vw_trigger_price v))]
          else st_return ())
       (if conditional \<and> o_status order = ''inventory_pending''
        then release_wait sv order v ''inventory_pending_released'' ''Exit trigger no longer valid while inventory was pending.''
        else if conditional \<and> o_status order = trade_builder_guard_blocked_status
        then release_wait sv order v ''guard_waiting_released'' ''Guard wait ended because the trigger condition is no longer valid.''
        else st_then (if conditional \<and> o_status order = ''pending'' then arm_order sv order v else st_return ())
          (see_price sv order v)))"

section \<open>A trigger that is met\<close>

text \<open>The evaluation of the trigger: a live gap decides alone, then the oracle lag when it fires, then the price to beat.\<close>

definition order_trigger :: "builder_order \<Rightarrow> price_view \<Rightarrow> trigger_evaluation" where
  "order_trigger order v =
    (let answer = (\<lambda>fires first. \<lparr>te_should_trigger = fires, te_first_tick_threshold_used = first\<rparr>)
     in case vw_live_gap v of Some e \<Rightarrow> answer (lg_should_trigger e) False | None \<Rightarrow>
        if (case vw_oracle_lag v of Some e \<Rightarrow> ol_should_trigger e | None \<Rightarrow> False) then answer True False
        else case vw_ptb v of
            Some e \<Rightarrow> answer (pl_should_trigger e) (pl_should_trigger e \<and> vw_previous_price v = None)
          | None \<Rightarrow> evaluate_trade_builder_order_trigger order (vw_previous_price v) (vw_trigger_price v))"

definition note_first_tick :: "stmt_env \<Rightarrow> builder_order \<Rightarrow> price_view \<Rightarrow> unit bstep" where
  "note_first_tick sv order v =
     b_event sv (o_id order) ''trigger_first_tick_threshold_used''
       ([(''status'', EvStr (o_status order)), (''side'', EvStr (o_side order))] @ order_labels order
        @ [(''previous_price'', EvOptNum (vw_previous_price v)), (''current_price'', EvNum (vw_current_price v)),
           (''execution_price'', EvNum (vw_execution_price v))])"

definition note_live_gap :: "stmt_env \<Rightarrow> builder_order \<Rightarrow> price_view \<Rightarrow> unit bstep" where
  "note_live_gap sv order v =
    (if (case vw_live_gap v of Some e \<Rightarrow> lg_should_trigger e | None \<Rightarrow> False)
     then b_event sv (o_id order) ''live_gap_stop_loss_triggered''
       [(''current_price'', EvNum (vw_current_price v)), (''execution_price'', EvNum (vw_execution_price v))]
     else st_return ())"

definition note_oracle_lag :: "stmt_env \<Rightarrow> builder_order \<Rightarrow> price_view \<Rightarrow> unit bstep" where
  "note_oracle_lag sv order v = (case filter_opt ol_should_trigger (vw_oracle_lag v) of
     None \<Rightarrow> st_return ()
   | Some e \<Rightarrow> b_event sv (o_id order) ''ptb_oracle_lag_book_lead_stop_triggered''
       [(''execution_price'', EvNum (vw_execution_price v)), (''evaluation'', ol_payload e)])"

text \<open>A composite stop loss waits until the best bid confirms it; None while it waits.\<close>

definition confirm_bid :: "stmt_env \<Rightarrow> builder_order \<Rightarrow> price_view \<Rightarrow> (builder_order option) bstep" where
  "confirm_bid sv order v =
    (let waiting = (o_last_error order = Some bid_confirmation_waiting)
     in if should_skip_trade_builder_composite_sl_bid_confirmation order (vw_runtime v)
        then st_then (if waiting then st_return ()
             else st_then (b_write sv (SetTradeBuilderOrderLastError (o_id order) (Some bid_confirmation_waiting)))
               (b_event sv (o_id order) bid_confirmation_waiting
                 [(''trigger_price'', EvOptNum (o_trigger_price order)), (''trigger_eval_price'', EvNum (vw_trigger_price v)),
                  (''best_bid'', EvOptNum (rp_best_bid (vw_runtime v))),
                  (''last_trade_price'', EvOptNum (rp_last_trade_price (vw_runtime v))), (''source'', EvStr ''housekeeping'')]))
           (st_return None)
        else if waiting
        then st_then (bid_release sv order v ''composite_bid_confirmation_confirmed'' []) (st_return (Some (order\<lparr>o_last_error := None\<rparr>)))
        else st_return (Some order))"

definition trigger_met :: "process_env \<Rightarrow> builder_order \<Rightarrow> price_view \<Rightarrow> bool \<Rightarrow> string \<Rightarrow> unit bstep" where
  "trigger_met pe order v first_tick path =
    (let sv = pe_stmt pe
     in st_then (if first_tick then note_first_tick sv order v else st_return ())
       (st_then (see_price sv order v)
       (st_then (note_live_gap sv (order\<lparr>o_last_seen_price := Some (vw_last_seen_price v)\<rparr>) v)
       (st_bind (confirm_bid sv (order\<lparr>o_last_seen_price := Some (vw_last_seen_price v)\<rparr>) v) (\<lambda>confirmed. case confirmed of
          None \<Rightarrow> st_return ()
        | Some order \<Rightarrow>
          st_bind (latch_stop_loss pe order v) (\<lambda>order.
          st_then (note_oracle_lag sv order v)
         (st_then (dispatch_batch pe order v path)
         (st_bind (trade_builder_submit_fast_lane pe order v) (\<lambda>lane.
          st_bind (case lane of Some bps \<Rightarrow> st_return (order, bps) | None \<Rightarrow> resolve_trade_builder_order_fee_rate_bps pe order) (\<lambda>(order, bps).
          st_bind (trigger_size_of pe order) (\<lambda>t.
            if ts_exhausted t
            then st_then (b_status sv (o_id order) ''completed'' None)
              (b_event sv (o_id order) ''trigger_size_exhausted''
                [(''triggers_fired'', EvId (o_triggers_fired order)), (''max_triggers'', EvId (o_max_triggers order)),
                 (''next_trigger_index'', EvCount (Suc (ts_index t)))])
            else submit_trade_builder_trigger_order (pe_submit pe) order
              \<lparr>sb_current_price = vw_execution_price v, sb_best_bid = rp_best_bid (vw_runtime v), sb_best_ask = rp_best_ask (vw_runtime v),
               sb_last_trade_price = rp_last_trade_price (vw_runtime v), sb_fee_rate_bps = bps,
               sb_resolved_size_usdc = ts_resolved_size_usdc t, sb_size_mode = ts_mode t, sb_size_value = ts_value t,
               sb_size_index = ts_index t, sb_quote = vw_quote v\<rparr>)))))))))))"

section \<open>The processing of an order\<close>

definition cancel_without_open_order :: "stmt_env \<Rightarrow> builder_order \<Rightarrow> unit bstep" where
  "cancel_without_open_order sv order =
     st_then (b_status sv (o_id order) ''canceled'' None)
       (b_event sv (o_id order) ''canceled_without_open_order''
         [(''reason'', EvStr (unwrap_or ''user_request'' (o_last_error order)))])"

definition missing_trigger_source :: "builder_order \<Rightarrow> price_view \<Rightarrow> string option" where
  "missing_trigger_source order v = filter_opt (\<lambda>mode. sl_trigger_eval_price_for_mode mode (vw_runtime v) = None)
     (if trade_builder_is_stop_loss_child order then o_sl_trigger_price_mode order else None)"

text \<open>An order with no order at the exchange, once it is priced.\<close>

definition process_idle_order :: "process_env \<Rightarrow> builder_order \<Rightarrow> price_view \<Rightarrow> string \<Rightarrow> unit bstep" where
  "process_idle_order pe order v path =
    (if o_status order = ''canceled_requested'' then cancel_without_open_order (pe_stmt pe) order
     else case missing_trigger_source order v of
       Some mode \<Rightarrow> st_then (b_event (pe_stmt pe) (o_id order) ''selected_trigger_source_missing''
           [(''sl_trigger_price_mode'', EvStr mode), (''best_bid'', EvOptNum (rp_best_bid (vw_runtime v))),
            (''last_trade_price'', EvOptNum (rp_last_trade_price (vw_runtime v))), (''status'', EvStr (o_status order))])
         (see_price (pe_stmt pe) order v)
     | None \<Rightarrow> let t = order_trigger order v
         in if te_should_trigger t then trigger_met pe order v (te_first_tick_threshold_used t) path
            else trigger_not_met (pe_stmt pe) order v)"

text \<open>\<open>again\<close> processes the stop losses that a take profit gave way to; their errors are only logged.\<close>

definition process_priced_order :: "process_env \<Rightarrow> (i64 \<Rightarrow> unit bstep) \<Rightarrow> string \<Rightarrow> builder_order \<Rightarrow> price_view \<Rightarrow> unit bstep" where
  "process_priced_order pe again path order v =
     st_bind (preempt_take_profit pe order v) (\<lambda>(order, pre).
     st_then (if pr_tp_preempted pre
         then st_fold (\<lambda>i _. st_then (st_try (again i)) (st_return ())) (pr_ready_sl_order_ids pre) () else st_return ())
      (case o_active_exchange_order_id order of
         Some exchange_order_id \<Rightarrow>
           st_then (pe_reconcile pe order exchange_order_id (vw_execution_price v) (vw_runtime v)) (see_price (pe_stmt pe) order v)
       | None \<Rightarrow> if pr_tp_preempted pre then see_price (pe_stmt pe) order v else process_idle_order pe order v path))"

definition process_trade_builder_order_with :: "process_env \<Rightarrow> (i64 \<Rightarrow> unit bstep) \<Rightarrow> i64 \<Rightarrow> string \<Rightarrow> unit bstep" where
  "process_trade_builder_order_with pe again i path =
     st_bind (get_trade_builder_order (pe_stmt pe) i) (\<lambda>row. case row of None \<Rightarrow> st_return () | Some order \<Rightarrow>
       st_bind (admit_order pe order) (\<lambda>admitted. case admitted of None \<Rightarrow> st_return () | Some (order, now) \<Rightarrow>
         st_bind (price_order pe order now) (\<lambda>priced. case priced of None \<Rightarrow> st_return () | Some (order, v) \<Rightarrow>
           process_priced_order pe again path order v)))"

text \<open>\<open>held\<close> are the orders being processed. A stop loss is no take profit, so that the stop losses a take profit hands over
  hand over none themselves.\<close>

definition try_process_trade_builder_order_by_id_with :: "process_env \<Rightarrow> (i64 set \<Rightarrow> i64 \<Rightarrow> unit bstep) \<Rightarrow> i64 set \<Rightarrow> i64 \<Rightarrow> string \<Rightarrow> unit bstep" where
  "try_process_trade_builder_order_by_id_with pe again held i path =
     st_bind (get_trade_builder_order (pe_stmt pe) i) (\<lambda>row. case row of None \<Rightarrow> st_return () | Some order \<Rightarrow>
       if i \<in> held then st_return () else process_trade_builder_order_with pe (again (insert i held)) (o_id order) path)"

definition process_handed_over :: "process_env \<Rightarrow> i64 set \<Rightarrow> i64 \<Rightarrow> unit bstep" where
  "process_handed_over pe held i =
     try_process_trade_builder_order_by_id_with pe (\<lambda>_ _. st_return ()) held i ''tp_preempted_sl''"

definition process_trade_builder_order :: "process_env \<Rightarrow> i64 set \<Rightarrow> i64 \<Rightarrow> string \<Rightarrow> unit bstep" where
  "process_trade_builder_order pe held = process_trade_builder_order_with pe (process_handed_over pe held)"

definition try_process_trade_builder_order_by_id :: "process_env \<Rightarrow> i64 set \<Rightarrow> i64 \<Rightarrow> string \<Rightarrow> unit bstep" where
  "try_process_trade_builder_order_by_id pe = try_process_trade_builder_order_by_id_with pe (process_handed_over pe)"

definition try_process_trade_builder_order :: "process_env \<Rightarrow> i64 set \<Rightarrow> builder_order \<Rightarrow> bool bstep" where
  "try_process_trade_builder_order pe held order =
    (if o_id order \<in> held then st_return False
     else st_then (process_trade_builder_order pe (insert (o_id order) held) (o_id order) ''housekeeping'') (st_return True))"

section \<open>Housekeeping\<close>

text \<open>What the loop does with an order whose processing failed; it drops the errors of its own statements.\<close>

definition processing_failed :: "stmt_env \<Rightarrow> builder_order \<Rightarrow> string \<Rightarrow> unit bstep" where
  "processing_failed sv order e =
     st_bind (st_try (get_trade_builder_order sv (o_id order))) (\<lambda>answer.
       let latest = (case answer of Inr row \<Rightarrow> row | Inl _ \<Rightarrow> None);
           retry = (case latest of None \<Rightarrow> False | Some r \<Rightarrow> trade_builder_should_retry_after_processing_error snapshot_str r)
       in st_then (st_try (b_status sv (o_id order) (if retry then ''triggered'' else ''error'') (Some e)))
         (st_then (st_try (b_event sv (o_id order) (if retry then ''processing_retry_scheduled'' else ''processing_error'') [(''error'', EvStr e)]))
           (st_return ())))"

text \<open>The turn of one order: the configuration and the executor of its user are loaded, the fills of the user are synchronised the
  first time the user comes up, and the order is processed unless it is held. \<open>synced\<close> are the users whose fills were asked for,
  also when that failed.\<close>

definition housekeep_order :: "process_env \<Rightarrow> i64 set \<Rightarrow> builder_order \<Rightarrow> i64 set \<Rightarrow> (i64 set) bstep" where
  "housekeep_order pe held order synced =
     st_bind (st_try (b_ask (pe_load_user pe (o_user_id order)))) (\<lambda>loaded. case loaded of
       Inl e \<Rightarrow> st_then (processing_failed (pe_stmt pe) order e) (st_return synced)
     | Inr _ \<Rightarrow>
         st_bind (st_try (st_then (if o_user_id order \<in> synced then st_return () else pe_sync_fills pe (o_user_id order))
             (try_process_trade_builder_order pe held order))) (\<lambda>r.
           st_then (case r of Inr _ \<Rightarrow> st_return () | Inl e \<Rightarrow> processing_failed (pe_stmt pe) order e)
             (st_return (insert (o_user_id order) synced))))"

text \<open>The loop over the orders. The observations of the inventory that are due afterwards are read before it, and left out
  themselves.\<close>

definition process_trade_builder_orders :: "process_env \<Rightarrow> i64 set \<Rightarrow> unit bstep" where
  "process_trade_builder_orders pe held =
     b_now (pe_stmt pe) (\<lambda>now.
     st_bind (b_read (pe_stmt pe) (list_trade_builder_orders_for_processing 250 now)) (\<lambda>orders.
     st_then (b_ask (pe_pending_observations pe))
       (st_then (st_fold (housekeep_order pe held) orders {}) (st_return ()))))"

end
