(* ===== verification/Order_Effects.thy ===== *)
theory Order_Effects
  imports Order_Processing
begin

text \<open>
  Relations that the submission and the processing of builder orders keep, whatever the environment answers at each call,
  also when they fail after they wrote. The locale states what a relation has to promise for a call, a statement and an
  accepted order; \<open>A\<close> says which requests may be sent for which row. Steps of other files enter as \<open>submit_env\<close> and \<open>process_env\<close>, and are assumed to keep the relation.
\<close>

text \<open>The steps of other files: the live gap, the abort of a pair, what is recorded of a submission, the finalisation of a
  fill; and for the processing also the lock of a pair.\<close>

definition keeps_submission :: "(builder_world \<Rightarrow> builder_world \<Rightarrow> bool) \<Rightarrow> submit_env \<Rightarrow> bool" where
  "keeps_submission R se \<longleftrightarrow> (\<forall>order usdc qty. preserves R (se_live_gap_blocks se order usdc qty)) \<and>
     (\<forall>order why. preserves R (se_abort_pair se order why)) \<and> (\<forall>order qty price. preserves R (se_submitted_dynamic se order qty price)) \<and>
     (\<forall>order price. preserves R (se_inventory_baseline se order price)) \<and>
     (\<forall>order i qty price. preserves R (se_submit_observation se order i qty price)) \<and>
     (\<forall>order i qty price. preserves R (se_finalize se order i qty price))"

definition keeps_processing :: "(builder_world \<Rightarrow> builder_world \<Rightarrow> bool) \<Rightarrow> process_env \<Rightarrow> bool" where
  "keeps_processing R pe \<longleftrightarrow> keeps_submission R (pe_submit pe) \<and> (\<forall>order now. preserves R (pe_pair_lock pe order now))"

text \<open>The reconciliation of an open order may replace it at the exchange, so that it is considered for each order.\<close>

definition keeps_reconciliation :: "(builder_world \<Rightarrow> builder_world \<Rightarrow> bool) \<Rightarrow> process_env \<Rightarrow> i64 \<Rightarrow> bool" where
  "keeps_reconciliation R pe i \<longleftrightarrow> (\<forall>order ex price rp. o_id order = i \<longrightarrow> preserves R (pe_reconcile pe order ex price rp))"

section \<open>Values\<close>

text \<open>What a step returns when it succeeds.\<close>

definition returns :: "('a \<Rightarrow> bool) \<Rightarrow> ('s, 'e, 'a) stm \<Rightarrow> bool" where
  "returns Q m \<longleftrightarrow> (\<forall>s. case fst (m s) of Inl _ \<Rightarrow> True | Inr x \<Rightarrow> Q x)"

lemma returns_any [simp]: "returns (\<lambda>_. True) m"
  by (simp add: returns_def split: sum.split)

lemma returns_return: "Q x \<Longrightarrow> returns Q (st_return x)" and returns_raise: "returns Q (st_raise e)"
  by (simp_all add: returns_def st_return_def st_raise_def)

lemma returnsI: "(\<And>s x s'. m s = (Inr x, s') \<Longrightarrow> Q x) \<Longrightarrow> returns Q m"
  by (simp add: returns_def split: sum.split) (metis prod.collapse)

lemma returnsD: "returns Q m \<Longrightarrow> m s = (Inr x, s') \<Longrightarrow> Q x"
  unfolding returns_def by (metis fst_conv sum.case(2))

lemma returns_after: "returns P m \<Longrightarrow> (\<And>x. P x \<Longrightarrow> returns Q (f x)) \<Longrightarrow> returns Q (st_bind m f)"
  by (rule returnsI) (auto simp: st_bind_Inr dest: returnsD)

lemma returns_bind: "(\<And>x. returns Q (f x)) \<Longrightarrow> returns Q (st_bind m f)"
  and returns_then: "returns Q n \<Longrightarrow> returns Q (st_then m n)"
  unfolding st_then_def by (rule returns_after [of "\<lambda>_. True"]; simp)+

lemma returns_now: "(\<And>t. returns Q (f t)) \<Longrightarrow> returns Q (b_now sv f)"
  by (simp add: returns_def b_now_def st_get_def)

lemma returns_if: "(c \<Longrightarrow> returns Q m) \<Longrightarrow> (\<not> c \<Longrightarrow> returns Q n) \<Longrightarrow> returns Q (if c then m else n)"
  and returns_option: "(b = None \<Longrightarrow> returns Q m) \<Longrightarrow> (\<And>x. b = Some x \<Longrightarrow> returns Q (f x)) \<Longrightarrow> returns Q (case b of None \<Rightarrow> m | Some x \<Rightarrow> f x)"
  and returns_sum: "(\<And>e. a = Inl e \<Longrightarrow> returns Q (g e)) \<Longrightarrow> (\<And>x. a = Inr x \<Longrightarrow> returns Q (h x)) \<Longrightarrow> returns Q (case a of Inl e \<Rightarrow> g e | Inr x \<Rightarrow> h x)"
  and returns_pair: "(\<And>x y. z = (x, y) \<Longrightarrow> returns Q (k x y)) \<Longrightarrow> returns Q (case z of (x, y) \<Rightarrow> k x y)"
  by (auto split: option.split sum.split prod.split)

lemma returns_let: "(\<And>x. x = a \<Longrightarrow> returns Q (f x)) \<Longrightarrow> returns Q (Let a f)"
  by simp

lemma returns_exits: "(\<And>db. returns Q (m db)) \<Longrightarrow> returns Q (b_exits sv m)"
  by (rule returnsI) (auto simp: b_exits_def split: prod.splits dest: returnsD)

lemmas returns_steps = returns_return returns_raise returns_bind returns_then returns_now returns_if returns_option returns_sum
  returns_pair returns_let

section \<open>The order that a step hands on\<close>

abbreviation of_order :: "builder_order \<Rightarrow> builder_order \<Rightarrow> bool" where
  "of_order order x \<equiv> o_id x = o_id order"

lemma confirm_bid_returns: "returns (case_option True (of_order order)) (confirm_bid sv order v)"
  unfolding confirm_bid_def by (intro returns_steps) simp_all

lemma latch_returns: "returns (of_order order) (latch_stop_loss pe order v)"
  unfolding latch_stop_loss_def maybe_latch_trade_builder_stop_loss_def Let_def by (intro returns_steps returns_exits) simp_all

lemma fee_returns: "returns (\<lambda>(x, _). of_order order x) (resolve_trade_builder_order_fee_rate_bps pe order)"
proof -
  have store: "returns (of_order order) (store_fee_rate sv order bps)" for sv bps
    unfolding store_fee_rate_def by (intro returns_steps) simp
  have known: "returns (\<lambda>(x, _). of_order order x) (known_fee_rate sv order bps)" for sv bps
    unfolding known_fee_rate_def
    by (rule returns_after [of "of_order order"]) (auto intro!: store returns_steps)
  have fallback: "returns (\<lambda>(x, _). of_order order x) (fallback_fee_rate sv order why)" for sv why
    unfolding fallback_fee_rate_def Let_def
    by (intro returns_if returns_after [OF store] returns_then returns_return) simp_all
  show ?thesis unfolding resolve_trade_builder_order_fee_rate_bps_def by (intro returns_steps known fallback)
qed

lemma preempt_returns: "returns (\<lambda>(x, pre). of_order order x \<and> o_active_exchange_order_id x = o_active_exchange_order_id order \<and>
    (pr_tp_preempted pre \<or> x = order)) (preempt_take_profit pe order v)"
proof -
  have stop: "returns (\<lambda>x. of_order order x \<and> o_active_exchange_order_id x = o_active_exchange_order_id order)
      (stop_loss_preempts db sync order rp siblings fired)" for db sync rp siblings fired
    unfolding stop_loss_preempts_def Let_def by (intro returns_steps) simp_all
  show ?thesis
    unfolding preempt_take_profit_def maybe_preempt_trade_builder_take_profit_for_stop_loss_def
    by (intro returns_bind returns_pair returns_exits returns_if returns_let returns_after [OF stop] returns_return) simp_all
qed

text \<open>An order as it was read, except for the columns that the processing writes before it decides.\<close>

definition same_standing :: "builder_order \<Rightarrow> builder_order \<Rightarrow> bool" where
  "same_standing order x \<longleftrightarrow> of_order order x \<and> o_status x = o_status order \<and>
     o_active_exchange_order_id x = o_active_exchange_order_id order"

lemma evaluate_returns: "returns (\<lambda>(x, _). same_standing order x) (evaluate_order pe order now snapshot quote rp)"
proof -
  have stored: "returns (same_standing order) (case c of None \<Rightarrow> st_return order | Some reference \<Rightarrow>
      st_then (b_write sv (w reference)) (st_return (order\<lparr>o_ptb_reference_price := Some reference\<rparr>)))" for c sv w
    by (intro returns_steps) (simp_all add: same_standing_def)
  show ?thesis unfolding evaluate_order_def
    by (intro returns_bind returns_after [OF stored] returns_let returns_return) simp
qed

lemma price_returns: "returns (case_option True (\<lambda>(x, _). same_standing order x)) (price_order pe order now)"
proof -
  have warned: "returns (case_option True (\<lambda>(x, _). same_standing order x)) (case y of (x, v) \<Rightarrow>
      st_then (warn_runtime_price sv x v) (st_return (Some (x, v))))" if "case y of (x, _) \<Rightarrow> same_standing order x" for y sv
    using that by (cases y) (auto intro!: returns_then returns_return)
  show ?thesis unfolding price_order_def
    by (intro returns_bind returns_let returns_sum returns_after [OF evaluate_returns warned] returns_then returns_return) simp_all
qed

locale order_relation = closed_relation R for R :: "builder_world \<Rightarrow> builder_world \<Rightarrow> bool" +
  fixes A :: "i64 \<Rightarrow> place_order_request \<Rightarrow> bool"
  assumes R_tick: "R w (b_tick w)"
    and R_op: "R w (apply_op now op w)"
    and R_accept: "A i req \<Longrightarrow> R w (accept_order i req ack w)"
begin

section \<open>Calls and statements\<close>

lemma bind_returns: "preserves R m \<Longrightarrow> returns Q m \<Longrightarrow> (\<And>x. Q x \<Longrightarrow> preserves R (f x)) \<Longrightarrow> preserves R (st_bind m f)"
  unfolding preserves_def
proof
  fix s
  assume m: "\<forall>s. R s (snd (m s))" and q: "returns Q m" and f: "\<And>x. Q x \<Longrightarrow> \<forall>s. R s (snd (f x s))"
  obtain r t where run: "m s = (r, t)" by force
  with m have "R s t" by (metis snd_conv)
  show "R s (snd (st_bind m f s))"
  proof (cases r)
    case (Inr x)
    with run have "Q x" using returnsD [OF q] by blast
    then have "R t (snd (f x t))" using f by blast
    with \<open>R s t\<close> show ?thesis by (simp add: st_bind_def run Inr R_trans [of s t])
  qed (simp add: st_bind_def run \<open>R s t\<close>)
qed

lemma binding: "(\<And>x. preserves R (f x)) \<Longrightarrow> preserves R (Let a f)"
  by simp

lemma bind_some: "preserves R m \<Longrightarrow> returns (case_option True Q) m \<Longrightarrow> preserves R n \<Longrightarrow> (\<And>x. Q x \<Longrightarrow> preserves R (f x)) \<Longrightarrow>
    preserves R (st_bind m (\<lambda>y. case y of None \<Rightarrow> n | Some x \<Rightarrow> f x))"
  by (erule (1) bind_returns) (auto split: option.split)

lemma bind_pair: "preserves R m \<Longrightarrow> returns (\<lambda>(x, y). Q x y) m \<Longrightarrow> (\<And>x y. Q x y \<Longrightarrow> preserves R (f x y)) \<Longrightarrow>
    preserves R (st_bind m (\<lambda>(x, y). f x y))"
  by (erule (1) bind_returns) auto

lemma written: "preserves R (b_write sv op)"
proof -
  have "R w (apply_op now op (b_tick w))" for w now by (rule R_trans [OF R_tick R_op])
  then show ?thesis by (auto simp: preserves_def b_write_def Let_def R_tick split: answer.split)
qed

lemma answered: "preserves R (b_ask f)" "preserves R (b_tell g)" "preserves R (b_read sv h)"
  by (auto simp: preserves_def b_ask_def b_tell_def b_read_def R_tick split: answer.split)

lemma timed: "(\<And>t. preserves R (f t)) \<Longrightarrow> preserves R (b_now sv f)"
  unfolding b_now_def by (rule get)

lemma sent_one_by_one: "R w (fold (\<lambda>op w. snd (b_write sv (ExitOp op) w)) ops w)"
proof (induction ops arbitrary: w)
  case (Cons op ops)
  show ?case using R_trans [OF _ Cons.IH] written [of sv "ExitOp op"] by (simp add: preserves_def)
qed (simp add: R_refl)

lemma exits: "preserves R (b_exits sv m)"
  by (auto simp: preserves_def b_exits_def sent_one_by_one split: prod.split)

lemma accept_placed: "A i req \<Longrightarrow> preserves R (b_place place i req)"
proof -
  assume "A i req"
  then have "R w (accept_order i req ack (b_tick w))" for w ack by (rule R_trans [OF R_tick R_accept])
  then show ?thesis by (simp add: preserves_def b_place_def R_tick split: sum.split)
qed

lemma row_statements: "preserves R (b_event sv i kind payload)" "preserves R (b_status sv i status err)"
  "preserves R (get_trade_builder_order sv i)"
  unfolding b_event_def b_status_def get_trade_builder_order_def by (rule written answered)+

lemmas steps = binding combinators timed written answered exits row_statements

section \<open>The parts of a submission\<close>

lemma prefetched: "preserves R (prefetch_trade_builder_sell_submit_inputs se order price bid traded qty basis quote)"
  unfolding prefetch_trade_builder_sell_submit_inputs_def by (intro steps)

lemma notified: "preserves R (maybe_send_guard_transition_notification se order why flag kind)"
  unfolding maybe_send_guard_transition_notification_def by (intro steps)

lemma made_waiting: "preserves R (transition_trade_builder_order_to_guard_waiting se order why kind payload usdc qty candidate note)"
  unfolding transition_trade_builder_order_to_guard_waiting_def by (intro steps notified)

lemma diagnosed: "preserves R (append_trade_builder_guard_diagnostics_event sv order current desired ask guards scope verdict why)"
  unfolding append_trade_builder_guard_diagnostics_event_def by (intro steps)

lemma made_pending: "preserves R (mark_trade_builder_inventory_pending sv order why current required available)"
  unfolding mark_trade_builder_inventory_pending_def by (intro steps)

lemma retry_scheduled:
  "preserves R (schedule_trade_builder_exit_sell_retry sv order kind err current desired requested available attempted override stage after)"
  unfolding schedule_trade_builder_exit_sell_retry_def by (intro steps)

lemma fast_price: "preserves R (resolve_trade_builder_fast_sl_retry_submit_price se order qty)"
  unfolding resolve_trade_builder_fast_sl_retry_submit_price_def by (intro steps)

lemma fast_initial:
  "preserves R (prepare_trade_builder_fast_stop_loss_initial_submit se order started current bid traded qty basis quote)"
  unfolding prepare_trade_builder_fast_stop_loss_initial_submit_def resolve_trade_builder_fast_stop_loss_initial_submit_price_def
  by (intro steps fast_price retry_scheduled)

lemma fast_attempts: "(\<And>p c. A (o_id order) (req\<lparr>po_price := p, po_client_order_id := c\<rparr>)) \<Longrightarrow>
    preserves R (fast_sl_attempts n se order req original qty events err)"
  by (induction n arbitrary: events err) (auto intro!: steps fast_price accept_placed)

lemma fast_retry: "(\<And>p c. trade_builder_is_fast_stop_loss_sell order \<Longrightarrow> o_side order = ''sell'' \<Longrightarrow>
      A (o_id order) (req\<lparr>po_price := p, po_client_order_id := c\<rparr>)) \<Longrightarrow>
    preserves R (try_trade_builder_fast_stop_loss_retry se order req kind basis original qty)"
  unfolding try_trade_builder_fast_stop_loss_retry_def
  by (intro steps fast_attempts)
    (simp add: trade_builder_should_fast_retry_stop_loss_submit_def trade_builder_should_use_fast_stop_loss_submit_price_def)

lemma below_min: "preserves R (maybe_handle_trade_builder_share_submit_below_market_min se order kind submit current desired requested qty
    available least stage)"
  unfolding maybe_handle_trade_builder_share_submit_below_market_min_def below_min_soft_submit_def below_min_block_def
  by (intro steps retry_scheduled) (auto split: share_submit_min_size_decision.split intro: steps retry_scheduled)

lemma flushed: "preserves R (flush_deferred sv order d)"
  unfolding flush_deferred_def by (intro steps diagnosed) (simp add: row_statements split: prod.split)

lemma typed: "preserves R (resolve_trade_builder_submit_order_type se order mode)" "preserves R (resolve_trade_builder_submit_post_only se order kind)"
  unfolding resolve_trade_builder_submit_order_type_def resolve_trade_builder_submit_post_only_def by (intro steps)+

lemma rechecked: "preserves R (maybe_apply_trade_builder_pre_submit_book_recheck se order current ask kind basis retries a)"
  unfolding maybe_apply_trade_builder_pre_submit_book_recheck_def trade_builder_pre_submit_fresh_best_ask_def
  by (intro steps flushed made_waiting)

lemmas parts = prefetched notified made_waiting diagnosed made_pending retry_scheduled fast_price fast_initial below_min flushed typed rechecked

section \<open>The submission\<close>

lemma unless: "preserves R m \<Longrightarrow> (\<And>x. preserves R (f x)) \<Longrightarrow> preserves R (st_unless m f)"
  unfolding st_unless_def by (intro steps)

lemma priced: "preserves R (price_submission se order sub started)"
  unfolding price_submission_def settle_prices_def
  by (intro steps parts) (auto split: fast_initial.split intro!: steps)

lemma refused_by_guard: "keeps_submission R se \<Longrightarrow> preserves R (guard_refuses se order sub desired z g r)"
  unfolding guard_refuses_def keeps_submission_def by (intro steps parts) auto

lemma guards_passed: "keeps_submission R se \<Longrightarrow> preserves R (pass_guards se order sub p z)"
  unfolding pass_guards_def risk_blocks_def
  by (intro steps parts refused_by_guard) (simp_all add: keeps_submission_def)

lemma inventory_settled: "preserves R (settle_inventory se order sub requested a)"
  unfolding settle_inventory_def plain_sell_inventory_def visible_sell_inventory_def ensure_available_qty_def inventory_events_def
  by (intro steps parts)

lemma finally_checked: "preserves R (final_checks se order sub p z cached force a)"
  unfolding final_checks_def apply_min_notional_def by (intro steps parts unless)

lemma refused_by_exchange: "preserves R (request_refused se order sub p z q original err)"
  unfolding request_refused_def balance_rejected_def exit_retry_or_fail_def optimistic_balance_rejected_def retry_sell_def
  by (intro steps parts)

lemma placed:
  assumes "A (o_id order) (sq_request q)"
    and "\<And>p c. o_side order = ''sell'' \<Longrightarrow> A (o_id order) ((sq_request q)\<lparr>po_price := p, po_client_order_id := c\<rparr>)"
  shows "preserves R (place_submission se order sub p z started q)"
  unfolding place_submission_def retry_attempt_events_def
  by (intro steps parts accept_placed fast_retry assms) (auto split: fast_retry.split intro!: steps refused_by_exchange)

lemma recorded: "keeps_submission R se \<Longrightarrow> preserves R (record_submission se order sub z out raw)"
  unfolding record_submission_def by (intro steps) (simp_all add: keeps_submission_def)

lemma acknowledged: "keeps_submission R se \<Longrightarrow> preserves R (request_accepted se order sub p z kind out)"
  unfolding request_accepted_def by (intro steps parts recorded) (simp_all add: keeps_submission_def)

lemma unless_returns:
  assumes "preserves R m" "returns (case_option True Q) m" "\<And>x. Q x \<Longrightarrow> preserves R (f x)"
  shows "preserves R (st_unless m f)"
  unfolding st_unless_def by (rule bind_returns [OF assms(1,2)]) (auto split: option.split simp: assms(3) return)

text \<open>Only a request that the last checks let through is sent.\<close>

lemma submitted:
  assumes "keeps_submission R se"
    and "\<And>sub p z cached force a. returns (case_option True Q) (final_checks se order sub p z cached force a)"
    and "\<And>q. Q q \<Longrightarrow> A (o_id order) (sq_request q)"
    and "\<And>q p c. Q q \<Longrightarrow> o_side order = ''sell'' \<Longrightarrow> A (o_id order) ((sq_request q)\<lparr>po_price := p, po_client_order_id := c\<rparr>)"
  shows "preserves R (submit_trade_builder_trigger_order se order sub)"
  unfolding submit_trade_builder_trigger_order_def
  by (intro steps unless priced guards_passed inventory_settled unless_returns [OF finally_checked assms(2)] placed acknowledged assms)
    (simp_all split: prod.split)

lemma submitted_any: "keeps_submission R se \<Longrightarrow> (\<And>req. A (o_id order) req) \<Longrightarrow> preserves R (submit_trade_builder_trigger_order se order sub)"
  by (rule submitted [where Q = "\<lambda>_. True"]) (simp_all add: returns_def split: sum.split option.split)

section \<open>The processing\<close>

lemma delegates: "keeps_processing R pe \<Longrightarrow> keeps_submission R (pe_submit pe)" "keeps_processing R pe \<Longrightarrow> preserves R (pe_pair_lock pe order now)"
  "keeps_processing R pe \<Longrightarrow> preserves R (se_abort_pair (pe_submit pe) order why)"
  by (simp_all add: keeps_processing_def keeps_submission_def)

lemma completed: "preserves R (complete_order sv order)"
  unfolding complete_order_def by (intro steps)

lemma expired: "keeps_processing R pe \<Longrightarrow> preserves R (expire_order (pe_submit pe) order t)"
  unfolding expire_order_def by (intro steps delegates)

lemma window_handled: "keeps_processing R pe \<Longrightarrow> preserves R (maybe_handle_trade_builder_order_eligibility_window (pe_submit pe) order now)"
  unfolding maybe_handle_trade_builder_order_eligibility_window_def
  by (cases "classify_trade_builder_order_eligibility_window order now") (auto intro!: steps delegates)

lemma stale_expired: "preserves R (maybe_expire_trade_builder_stale_order pe order)"
  unfolding maybe_expire_trade_builder_stale_order_def expire_trade_builder_order_for_stale_market_def by (intro steps)

lemma admitted: "keeps_processing R pe \<Longrightarrow> preserves R (admit_order pe order)"
  unfolding admit_order_def Let_def by (intro steps completed expired window_handled stale_expired delegates)

lemma order_priced: "preserves R (price_order pe order now)"
  unfolding price_order_def get_exit_fast_submit_quote_for_order_def fetch_runtime_price_def retry_without_price_def backfill_best_ask_def
    evaluate_order_def warn_runtime_price_def
  by (intro steps)

lemma siblings_read: "preserves R (siblings_of sv order except)" "preserves R (parent_of sv order)"
  unfolding siblings_of_def parent_of_def by (intro steps)+

lemma preempted: "preserves R (preempt_take_profit pe order v)"
  unfolding preempt_take_profit_def by (intro steps siblings_read)

lemma latched: "preserves R (latch_stop_loss pe order v)"
  unfolding latch_stop_loss_def by (intro steps siblings_read)

lemma dispatched: "preserves R (dispatch_batch pe order v path)"
  unfolding dispatch_batch_def by (intro steps siblings_read)

lemma fast_lane: "preserves R (trade_builder_submit_fast_lane pe order v)"
  unfolding trade_builder_submit_fast_lane_def by (intro steps)

lemma fee_resolved: "preserves R (resolve_trade_builder_order_fee_rate_bps pe order)"
  unfolding resolve_trade_builder_order_fee_rate_bps_def known_fee_rate_def fallback_fee_rate_def store_fee_rate_def by (intro steps)

lemma sized: "preserves R (trigger_size_of pe order)"
  unfolding trigger_size_of_def resolve_trade_builder_next_trigger_size_usdc_def sized_trigger_def by (intro steps)

lemma not_met: "preserves R (trigger_not_met sv order v)"
  unfolding trigger_not_met_def bid_release_def release_wait_def arm_order_def see_price_def by (intro steps)

lemma noted: "preserves R (note_first_tick sv order v)" "preserves R (note_live_gap sv order v)" "preserves R (note_oracle_lag sv order v)"
  "preserves R (see_price sv order v)"
  unfolding note_first_tick_def note_live_gap_def note_oracle_lag_def see_price_def by (intro steps)+

lemma bid_confirmed: "preserves R (confirm_bid sv order v)"
  unfolding confirm_bid_def bid_release_def by (intro steps)

lemmas processing_parts = order_priced preempted latched dispatched fast_lane fee_resolved sized not_met noted bid_confirmed

end

section \<open>What decides whether an order is sent\<close>

definition due_to_send :: "builder_order \<Rightarrow> i64 \<Rightarrow> bool" where
  "due_to_send order now \<longleftrightarrow> admissible order \<and> o_triggers_fired order < o_max_triggers order \<and>
     (case o_expires_at order of None \<Rightarrow> True | Some t \<Rightarrow> now < t) \<and>
     classify_trade_builder_order_eligibility_window order now = WindowAllow \<and>
     o_active_exchange_order_id order = None \<and> o_status order \<noteq> ''canceled_requested''"

text \<open>The lock of a pair may change prices and quantities of the order it lets go.\<close>

definition lock_keeps_standing :: "process_env \<Rightarrow> bool" where
  "lock_keeps_standing pe \<longleftrightarrow> (\<forall>order now. returns (\<lambda>(x, held). same_standing order x) (pe_pair_lock pe order now))"

lemma lock_kept: "lock_keeps_standing pe \<Longrightarrow> pe_pair_lock pe order now s = (Inr (x, held), s') \<Longrightarrow> same_standing order x"
  unfolding lock_keeps_standing_def by (blast dest: returnsD)

lemma window_expired_is_handled:
  "maybe_handle_trade_builder_order_eligibility_window se order now s = (Inr False, s') \<Longrightarrow>
    classify_trade_builder_order_eligibility_window order now = WindowAllow"
  by (cases "classify_trade_builder_order_eligibility_window order now")
    (auto simp: maybe_handle_trade_builder_order_eligibility_window_def st_then_Inr)

lemma admitted_order:
  assumes lock: "lock_keeps_standing pe" and run: "admit_order pe order s = (Inr (Some (x, now)), s')"
  shows "same_standing order x" "now = sv_now (pe_stmt pe) (bw_calls s)"
    "o_active_exchange_order_id x = None \<Longrightarrow> o_status x \<noteq> ''canceled_requested'' \<Longrightarrow> due_to_send order now"
proof -
  let ?now = "sv_now (pe_stmt pe) (bw_calls s)"
  have adm: "admissible order" using run by (auto simp: admit_order_def Let_def split: if_splits)
  then have "o_status order \<noteq> ''completed''"
    by (auto simp: admissible_def is_trade_builder_order_processable_status_def)
  with run adm have fired: "o_triggers_fired order < o_max_triggers order"
    by (auto simp: admit_order_def Let_def st_then_Inr split: if_splits)
  with run adm have alive: "filter_opt (\<lambda>t. t \<le> ?now) (o_expires_at order) = None"
    by (auto simp: admit_order_def Let_def st_then_Inr b_now_def st_get_def split: if_splits option.splits)
  from run adm fired alive obtain s1 s2 s3 held where
    window: "maybe_handle_trade_builder_order_eligibility_window (pe_submit pe) order ?now s = (Inr False, s1)"
    and lock_run: "pe_pair_lock pe order ?now s3 = (Inr (x, held), s2)" and now: "now = ?now"
    by (auto simp: admit_order_def Let_def st_then_Inr st_bind_Inr b_now_def st_get_def split: if_splits)
  show standing: "same_standing order x" by (rule lock_kept [OF lock lock_run])
  show "now = ?now" by (rule now)
  assume "o_active_exchange_order_id x = None" "o_status x \<noteq> ''canceled_requested''"
  with standing adm fired alive window_expired_is_handled [OF window] show "due_to_send order now"
    by (auto simp: due_to_send_def same_standing_def now filter_opt_def split: option.splits if_splits)
qed

locale tail_relation = order_relation R A for R A +
  fixes S :: "builder_world \<Rightarrow> builder_world \<Rightarrow> bool"
  assumes S_refl: "S w w"
begin

text \<open>A step that keeps \<open>R\<close> up to its last part, which keeps \<open>S\<close>.\<close>

abbreviation ends :: "(builder_world, string, 'a) stm \<Rightarrow> bool" where
  "ends m \<equiv> preserves (R OO S) m"

lemma quiet: "preserves R m \<Longrightarrow> ends m"
  by (auto simp: preserves_def intro: S_refl)

lemma end_returns:
  assumes "preserves R m" "returns Q m" "\<And>x. Q x \<Longrightarrow> ends (f x)"
  shows "ends (st_bind m f)"
  unfolding preserves_def
proof
  fix s
  obtain r t where run: "m s = (r, t)" by force
  with assms(1) have t: "R s t" unfolding preserves_def by (metis snd_conv)
  show "(R OO S) s (snd (st_bind m f s))"
  proof (cases r)
    case (Inr x)
    with run have "ends (f x)" using returnsD [OF assms(2)] assms(3) by blast
    then obtain u where "R t u" "S u (snd (f x t))" unfolding preserves_def by blast
    with t show ?thesis by (auto simp: st_bind_def run Inr intro: R_trans)
  qed (use t S_refl in \<open>auto simp: st_bind_def run\<close>)
qed

lemma end_bind: "preserves R m \<Longrightarrow> (\<And>x. ends (f x)) \<Longrightarrow> ends (st_bind m f)"
  by (rule end_returns [of _ "\<lambda>_. True"]) simp_all

lemma end_then: "preserves R m \<Longrightarrow> ends n \<Longrightarrow> ends (st_then m n)"
  unfolding st_then_def by (rule end_bind)

lemma end_some: "preserves R m \<Longrightarrow> returns (case_option True Q) m \<Longrightarrow> ends n \<Longrightarrow> (\<And>x. Q x \<Longrightarrow> ends (f x)) \<Longrightarrow>
    ends (st_bind m (\<lambda>y. case y of None \<Rightarrow> n | Some x \<Rightarrow> f x))"
  by (erule (1) end_returns) (auto split: option.split)

lemma end_pair: "preserves R m \<Longrightarrow> returns (\<lambda>(x, y). Q x y) m \<Longrightarrow> (\<And>x y. Q x y \<Longrightarrow> ends (f x y)) \<Longrightarrow>
    ends (st_bind m (\<lambda>(x, y). f x y))"
  by (erule (1) end_returns) auto

lemma met:
  assumes submit: "\<And>x sub. of_order order x \<Longrightarrow> ends (submit_trade_builder_trigger_order (pe_submit pe) x sub)"
  shows "ends (trigger_met pe order v first path)"
proof -
  have pay: "of_order order x \<Longrightarrow> preserves R (case lane of Some bps \<Rightarrow> st_return (x, bps) | None \<Rightarrow> resolve_trade_builder_order_fee_rate_bps pe x)"
    "of_order order x \<Longrightarrow> returns (\<lambda>(x, _). of_order order x)
      (case lane of Some bps \<Rightarrow> st_return (x, bps) | None \<Rightarrow> resolve_trade_builder_order_fee_rate_bps pe x)" for x lane
    using fee_returns [of x pe] by (auto intro!: steps fee_resolved returns_return split: option.split)
  have confirmed: "returns (case_option True (of_order order)) (confirm_bid sv (order\<lparr>o_last_seen_price := p\<rparr>) v)" for sv p
    using confirm_bid_returns [of "order\<lparr>o_last_seen_price := p\<rparr>"] by simp
  have latch: "of_order order x \<Longrightarrow> returns (of_order order) (latch_stop_loss pe x v)" for x
    using latch_returns [of x] by simp
  show ?thesis
    unfolding trigger_met_def Let_def
    by (intro end_then processing_parts end_some [OF bid_confirmed confirmed] end_returns [OF latched latch] end_bind [OF fast_lane]
        end_pair [OF pay] end_bind [OF sized])
      (auto intro!: branch quiet return processing_parts andthen row_statements submit)
qed

lemma idle_processed:
  assumes "o_status order \<noteq> ''canceled_requested'' \<Longrightarrow>
    (\<And>x sub. of_order order x \<Longrightarrow> ends (submit_trade_builder_trigger_order (pe_submit pe) x sub))"
  shows "ends (process_idle_order pe order v path)"
proof -
  have "ends (st_then (b_status sv i status err) (b_event sv i kind payload))" "ends (st_then (b_event sv i kind payload) (see_price sv order v))"
    for sv i status err kind payload by (intro quiet andthen row_statements noted)+
  then show ?thesis
    unfolding process_idle_order_def cancel_without_open_order_def Let_def
    by (auto split: option.split intro: met assms quiet [OF not_met])
qed

text \<open>\<open>again\<close> processes a stop loss that a take profit gives way to.\<close>

lemma priced_processed:
  assumes again: "\<And>i. preserves R (again i)"
    and reconcile: "o_active_exchange_order_id order \<noteq> None \<Longrightarrow> keeps_reconciliation R pe (o_id order)"
    and submit: "o_active_exchange_order_id order = None \<Longrightarrow> o_status order \<noteq> ''canceled_requested'' \<Longrightarrow>
      (\<And>x sub. of_order order x \<Longrightarrow> ends (submit_trade_builder_trigger_order (pe_submit pe) x sub))"
  shows "ends (process_priced_order pe again path order v)"
proof -
  have handed: "preserves R (st_fold (\<lambda>i _. st_then (st_try (again i)) (st_return ())) xs ())" for xs
    by (intro steps again)
  have idle: "o_active_exchange_order_id order = None \<Longrightarrow> ends (process_idle_order pe order v path)"
    by (rule idle_processed [OF submit])
  show ?thesis
    unfolding process_priced_order_def
    by (intro end_pair [OF preempted preempt_returns] end_then branch return handed)
      (use reconcile in \<open>auto simp: keeps_reconciliation_def split: option.split intro!: quiet andthen noted idle\<close>)
qed

lemma admitted_processed:
  assumes again: "\<And>i. preserves R (again i)"
    and reconcile: "o_active_exchange_order_id order \<noteq> None \<Longrightarrow> keeps_reconciliation R pe (o_id order)"
    and submit: "\<And>y sub. o_active_exchange_order_id order = None \<Longrightarrow> o_status order \<noteq> ''canceled_requested'' \<Longrightarrow> of_order order y \<Longrightarrow>
      ends (submit_trade_builder_trigger_order (pe_submit pe) y sub)"
  shows "ends (st_bind (price_order pe order now) (\<lambda>priced. case priced of None \<Rightarrow> st_return () | Some (x, v) \<Rightarrow>
    process_priced_order pe again path x v))"
proof (rule end_some [OF order_priced price_returns quiet [OF return]])
  fix y :: "builder_order \<times> price_view"
  assume "case y of (x, _) \<Rightarrow> same_standing order x"
  then obtain x v where y: "y = (x, v)" and same: "same_standing order x" by (cases y) auto
  have "ends (process_priced_order pe again path x v)"
    using same by (intro priced_processed again reconcile submit) (simp_all add: same_standing_def reconcile)
  then show "ends (case y of (x, v) \<Rightarrow> process_priced_order pe again path x v)" by (simp add: y)
qed

lemma order_processed:
  assumes pe: "keeps_processing R pe" and again: "\<And>i. preserves R (again i)" and lock: "lock_keeps_standing pe"
    and reconcile: "\<And>order. order_row i s = Some order \<Longrightarrow> o_active_exchange_order_id order \<noteq> None \<Longrightarrow> keeps_reconciliation R pe i"
    and submit: "\<And>order x sub. order_row i s = Some order \<Longrightarrow> due_to_send order (sv_now (pe_stmt pe) (Suc (bw_calls s))) \<Longrightarrow> o_id x = i \<Longrightarrow>
      ends (submit_trade_builder_trigger_order (pe_submit pe) x sub)"
  shows "(R OO S) s (snd (process_trade_builder_order_with pe again i path s))"
proof -
  obtain r s1 where read: "get_trade_builder_order (pe_stmt pe) i s = (r, s1)" by force
  then have s1: "R s s1" using row_statements(3) unfolding preserves_def by (metis snd_conv)
  consider (order) order where "r = Inr (Some order)" | (none) "r = Inr None" | (failed) e where "r = Inl e"
    by (cases r; cases "projr r") auto
  then show ?thesis
  proof cases
    case order
    with read have row: "order_row i s = Some order" and tick: "s1 = b_tick s"
      by (auto simp: get_trade_builder_order_def b_read_def split: answer.splits)
    have i: "o_id order = i" using row by (auto simp: order_row_def find_Some_iff)
    obtain a s2 where admission: "admit_order pe order s1 = (a, s2)" by force
    then have s2: "R s s2" using admitted [OF pe] R_trans [OF s1] unfolding preserves_def by (metis snd_conv)
    let ?rest = "\<lambda>x now. st_bind (price_order pe x now) (\<lambda>priced. case priced of None \<Rightarrow> st_return () | Some (x, v) \<Rightarrow>
      process_priced_order pe again path x v)"
    have rest: "ends (?rest x now)" if "a = Inr (Some (x, now))" for x now
    proof (rule admitted_processed [OF again])
      note admitted = admitted_order [OF lock admission [unfolded that]]
      show "keeps_reconciliation R pe (o_id x)" if "o_active_exchange_order_id x \<noteq> None"
        using that admitted(1) i reconcile [OF row] by (simp add: same_standing_def)
      fix y sub
      assume "o_active_exchange_order_id x = None" "o_status x \<noteq> ''canceled_requested''" "of_order x y"
      with admitted row tick i show "ends (submit_trade_builder_trigger_order (pe_submit pe) y sub)"
        by (intro submit [of order]) (simp_all add: same_standing_def b_tick_def)
    qed
    show ?thesis
    proof (cases "\<exists>x now. a = Inr (Some (x, now))")
      case True
      then obtain x now where a: "a = Inr (Some (x, now))" by blast
      from rest [OF a] obtain u where "R s2 u" "S u (snd (?rest x now s2))" unfolding preserves_def by blast
      with R_trans [OF s2] read order admission a show ?thesis by (auto simp: process_trade_builder_order_with_def st_bind_def)
    next
      case False
      with s2 read order admission show ?thesis
        by (cases a) (auto simp: process_trade_builder_order_with_def st_bind_def st_return_def intro: S_refl split: option.split)
    qed
  qed (use s1 read S_refl in \<open>auto simp: process_trade_builder_order_with_def st_bind_def st_return_def\<close>)
qed

end

sublocale order_relation \<subseteq> plain: tail_relation R A "(=)"
  by unfold_locales simp

context order_relation begin

section \<open>Whole runs\<close>

lemma process_kept:
  assumes "keeps_processing R pe" "lock_keeps_standing pe" "\<And>j. preserves R (again j)" "keeps_reconciliation R pe i" "\<And>req. A i req"
  shows "preserves R (process_trade_builder_order_with pe again i path)"
  unfolding preserves_def
proof
  fix s
  have "preserves (R OO (=)) (submit_trade_builder_trigger_order (pe_submit pe) x sub)" if "o_id x = i" for x sub
    using submitted_any [OF delegates(1) [OF assms(1)], of x sub] that assms(5) by (simp add: OO_eq)
  then have "(R OO (=)) s (snd (process_trade_builder_order_with pe again i path s))"
    by (intro plain.order_processed assms(1-4))
  then show "R s (snd (process_trade_builder_order_with pe again i path s))" by (simp add: OO_eq)
qed

lemma by_id_kept:
  assumes "keeps_processing R pe" "lock_keeps_standing pe" "\<And>held j. preserves R (again held j)"
    "i \<notin> held \<Longrightarrow> keeps_reconciliation R pe i" "i \<notin> held \<Longrightarrow> (\<And>req. A i req)"
  shows "preserves R (try_process_trade_builder_order_by_id_with pe again held i path)"
proof -
  have row: "returns (case_option True (\<lambda>order. o_id order = i)) (get_trade_builder_order (pe_stmt pe) i)"
    by (rule returnsI) (auto simp: get_trade_builder_order_def b_read_def order_row_def find_Some_iff split: answer.splits option.splits)
  show ?thesis
    unfolding try_process_trade_builder_order_by_id_with_def
    by (intro bind_some [OF row_statements(3) row] return branch process_kept assms(1-3)) (simp_all add: assms(4,5))
qed

lemma handed_over_kept:
  "keeps_processing R pe \<Longrightarrow> lock_keeps_standing pe \<Longrightarrow> (\<And>j. j \<notin> held \<Longrightarrow> keeps_reconciliation R pe j) \<Longrightarrow>
    (\<And>j req. j \<notin> held \<Longrightarrow> A j req) \<Longrightarrow> preserves R (process_handed_over pe held i)"
  unfolding process_handed_over_def by (intro by_id_kept return)

end

end
