(* ===== verification/Order_Safety.thy ===== *)
theory Order_Safety
  imports Order_Effects
begin

text \<open>
  What the processing of builder orders promises. The relation \<open>sends_for i P\<close> is interpreted: the exchange
  accepted for the order \<open>i\<close> only requests that satisfy \<open>P\<close>. From it: at
  most one request is accepted for an order at a time it is processed, and none unless the order is due; what is sent is
  what the row asks for, within its price limit; what is recorded; and where an accepted order is lost.
\<close>

section \<open>Accepted requests\<close>

text \<open>The requests that the exchange accepted for an order, with the ids they are known under.\<close>

definition sent :: "i64 \<Rightarrow> builder_world \<Rightarrow> (place_order_request \<times> string) list" where
  "sent i w = map snd (filter (\<lambda>(j, _). j = i) (bw_placed w))"

text \<open>More was sent for the order \<open>i\<close>, and only requests that satisfy \<open>P\<close>.\<close>

definition sends_for :: "i64 \<Rightarrow> (place_order_request \<Rightarrow> bool) \<Rightarrow> builder_world \<Rightarrow> builder_world \<Rightarrow> bool" where
  "sends_for i P s t \<longleftrightarrow> (\<exists>new. sent i t = sent i s @ new \<and> list_all (\<lambda>(req, _). P req) new)"

lemma sends_same: "sent i t = sent i s \<Longrightarrow> sends_for i P s t"
  by (simp add: sends_for_def)

lemma sends_trans:
  assumes "sends_for i P s t" "sends_for i P t u"
  shows "sends_for i P s u"
proof -
  obtain new more where "sent i t = sent i s @ new" "list_all (\<lambda>(req, _). P req) new"
    "sent i u = sent i t @ more" "list_all (\<lambda>(req, _). P req) more"
    using assms unfolding sends_for_def by blast
  then show ?thesis unfolding sends_for_def by (intro exI [of _ "new @ more"]) simp
qed

lemma op_sends_nothing [simp]: "sent i (apply_op now op w) = sent i w" "sent i (b_tick w) = sent i w"
  by (simp_all add: sent_def apply_op_def b_tick_def)

lemma sent_accept: "sent i (accept_order j req ack w) = sent i w @ (if j = i then [(req, accepted_id ack)] else [])"
  by (simp add: sent_def accept_order_def)

interpretation sent_for: order_relation "sends_for i P" "\<lambda>j req. j \<noteq> i \<or> P req" for i P
proof unfold_locales
  show "j \<noteq> i \<or> P req \<Longrightarrow> sends_for i P w (accept_order j req ack w)" for j req ack w
    by (auto simp: sends_for_def sent_accept)
qed (auto intro: sends_same sends_trans)

text \<open>At most one request more.\<close>

definition one_more :: "i64 \<Rightarrow> builder_world \<Rightarrow> builder_world \<Rightarrow> bool" where
  "one_more i s t \<longleftrightarrow> (\<exists>new. sent i t = sent i s @ new \<and> length new \<le> 1)"

definition sends_nothing :: "i64 \<Rightarrow> (builder_world, 'e, 'a) stm \<Rightarrow> bool" where
  "sends_nothing i m \<longleftrightarrow> (\<forall>s. sent i (snd (m s)) = sent i s)"

lemma sends_none: "sends_for i (\<lambda>_. False) s t \<longleftrightarrow> sent i t = sent i s"
  by (auto simp: sends_for_def list_all_iff) (metis list.set_intros(1) list.exhaust append_Nil2 surj_pair)

lemma nothing_iff: "sends_nothing i m \<longleftrightarrow> preserves (sends_for i (\<lambda>_. False)) m"
  by (simp add: sends_nothing_def preserves_def sends_none)

lemma nothingD: "sends_nothing i m \<Longrightarrow> m s = (r, t) \<Longrightarrow> sent i t = sent i s"
  unfolding sends_nothing_def by (metis snd_conv)

lemma one_more_quiet: "sends_nothing i m \<Longrightarrow> preserves (one_more i) m"
  by (simp add: sends_nothing_def preserves_def one_more_def)

lemma one_more_left:
  assumes "sends_nothing i m" "\<And>x. preserves (one_more i) (f x)"
  shows "preserves (one_more i) (st_bind m f)"
  unfolding preserves_def
proof
  fix s
  obtain r t where run: "m s = (r, t)" by force
  then have t: "sent i t = sent i s" by (rule nothingD [OF assms(1)])
  show "one_more i s (snd (st_bind m f s))"
  proof (cases r)
    case (Inr x)
    have "one_more i t (snd (f x t))" using assms(2) unfolding preserves_def by blast
    with t show ?thesis by (simp add: st_bind_def run Inr one_more_def)
  qed (simp add: st_bind_def run t one_more_def)
qed

lemma one_more_right:
  assumes "preserves (one_more i) m" "\<And>x. sends_nothing i (f x)"
  shows "preserves (one_more i) (st_bind m f)"
  unfolding preserves_def
proof
  fix s
  obtain r t where run: "m s = (r, t)" by force
  with assms(1) have "one_more i s t" unfolding preserves_def by (metis snd_conv)
  with assms(2) show "one_more i s (snd (st_bind m f s))"
    by (cases r) (auto simp: st_bind_def run sends_nothing_def one_more_def)
qed

lemma one_more_placed:
  assumes "\<And>ack. sends_nothing i (f (Inr ack))" "\<And>e. preserves (one_more i) (f (Inl e))"
  shows "preserves (one_more i) (st_bind (b_place place j req) f)"
  unfolding preserves_def
proof
  fix s
  show "one_more i s (snd (st_bind (b_place place j req) f s))"
  proof (cases "place req (bw_calls s)")
    case (Inl e)
    with assms(2) [of e] show ?thesis
      by (simp add: st_bind_def b_place_def preserves_def one_more_def) (metis op_sends_nothing(2))
  next
    case (Inr ack)
    with assms(1) [of ack] show ?thesis
      by (simp add: st_bind_def b_place_def sends_nothing_def one_more_def sent_accept)
  qed
qed

lemma one_more_cases:
  "preserves (one_more i) m \<Longrightarrow> (\<And>x. preserves (one_more i) (f x)) \<Longrightarrow> preserves (one_more i) (case a of None \<Rightarrow> m | Some x \<Rightarrow> f x)"
  "(\<And>e. preserves (one_more i) (g e)) \<Longrightarrow> (\<And>y. preserves (one_more i) (h y)) \<Longrightarrow> preserves (one_more i) (case b of Inl e \<Rightarrow> g e | Inr y \<Rightarrow> h y)"
  "(c \<Longrightarrow> preserves (one_more i) m) \<Longrightarrow> (\<not> c \<Longrightarrow> preserves (one_more i) n) \<Longrightarrow> preserves (one_more i) (if c then m else n)"
  "(\<And>v. preserves (one_more i) (k v)) \<Longrightarrow> preserves (one_more i) (Let d k)"
  "(\<And>t. preserves (one_more i) (l t)) \<Longrightarrow> preserves (one_more i) (b_now sv l)"
  by (auto split: option.split sum.split simp: preserves_def b_now_def st_get_def)

section \<open>One request for a submission\<close>

lemmas quiet_steps = sent_for.steps [where P = "\<lambda>_. False", folded nothing_iff]
lemmas quiet_parts = sent_for.parts [where P = "\<lambda>_. False", folded nothing_iff]

lemma one_more_attempts: "preserves (one_more i) (fast_sl_attempts n se order req original qty events err)"
proof (induction n arbitrary: events err)
  case (Suc n)
  have quiet: "sends_nothing i (b_tell g)" "sends_nothing i (st_return x)" "sends_nothing i (b_now sv (\<lambda>t. st_return (h t)))" for g x sv h
    by (intro quiet_steps)+
  have ret: "preserves (one_more i) (st_return x)" for x by (rule one_more_quiet [OF quiet(2)])
  show ?case unfolding fast_sl_attempts.simps
    by (rule one_more_left [OF quiet_parts(7)] one_more_cases ret one_more_left [OF quiet(1)] one_more_placed Suc
      | simp add: Let_def quiet)+
qed (simp add: one_more_quiet quiet_steps)

lemma one_more_retry: "preserves (one_more i) (try_trade_builder_fast_stop_loss_retry se order req kind basis original qty)"
  unfolding try_trade_builder_fast_stop_loss_retry_def
  by (intro one_more_cases one_more_attempts one_more_quiet quiet_steps)

lemma one_more_submission: "preserves (one_more i) (place_submission se order sub p z started q)"
proof -
  have after: "sends_nothing i (st_then (flush_deferred sv order d) (case retry of RetrySuccess s \<Rightarrow> st_then (retry_attempt_events sv k (fq_attempt_events s)) (st_return (Some (f s)))
      | RetryExhausted events last_error \<Rightarrow> st_then (retry_attempt_events sv k events) (st_then (request_refused se order sub p z q original last_error) (st_return None))
      | RetryNotEligible \<Rightarrow> st_then (request_refused se order sub p z q original original) (st_return None)))" for sv d retry k f original
    unfolding retry_attempt_events_def
    by (cases retry) (auto intro!: quiet_steps quiet_parts sent_for.refused_by_exchange [where P = "\<lambda>_. False", folded nothing_iff])
  show ?thesis unfolding place_submission_def
    by (rule one_more_placed)
      (auto intro!: one_more_right [OF one_more_retry after] quiet_steps)
qed

lemma one_more_unless: "sends_nothing i m \<Longrightarrow> (\<And>x. preserves (one_more i) (f x)) \<Longrightarrow> preserves (one_more i) (st_unless m f)"
  unfolding st_unless_def by (rule one_more_left) (auto intro: one_more_quiet quiet_steps split: option.split)

lemma one_more_unless_right: "preserves (one_more i) m \<Longrightarrow> (\<And>x. sends_nothing i (f x)) \<Longrightarrow> preserves (one_more i) (st_unless m f)"
  unfolding st_unless_def by (rule one_more_right) (auto intro: quiet_steps split: option.split)

lemma one_more_order:
  assumes "keeps_submission (sends_for i (\<lambda>_. False)) se"
  shows "preserves (one_more i) (submit_trade_builder_trigger_order se order sub)"
proof -
  note quiet = sent_for.priced [where P = "\<lambda>_. False", folded nothing_iff] sent_for.guards_passed [OF assms, folded nothing_iff]
    sent_for.inventory_settled [where P = "\<lambda>_. False", folded nothing_iff] sent_for.finally_checked [where P = "\<lambda>_. False", folded nothing_iff]
  have answered: "sends_nothing i (st_then (request_accepted se order sub p z kind out) (st_return (Some ())))" for sub p z kind out
    by (intro quiet_steps sent_for.acknowledged [OF assms, folded nothing_iff])
  have told: "sends_nothing i (b_tell g)" "sends_nothing i (st_result r)" "sends_nothing i (st_return u)" for g r u
    by (intro quiet_steps)+
  show ?thesis
    unfolding submit_trade_builder_trigger_order_def st_then_def [of _ "st_return ()"] Let_def
    by (rule one_more_cases one_more_right [OF _ told(3)] one_more_left [OF told(1)] one_more_left [OF told(2)] one_more_unless [OF quiet(1)]
        one_more_unless [OF quiet(2)] one_more_unless [OF quiet(3)] one_more_unless [OF quiet(4)]
        one_more_unless_right [OF one_more_submission answered] | (split prod.split, intro allI impI))+
qed

section \<open>What is sent\<close>

text \<open>A request for the order: its market, token and side, and for a buy a price within its limit.\<close>

definition within_limit :: "builder_order \<Rightarrow> f64 \<Rightarrow> bool" where
  "within_limit order price \<longleftrightarrow> o_side order \<noteq> ''buy'' \<or>
    (case filter_opt (\<lambda>m. is_finite m \<and> 0 < m \<and> m \<le> 1) (o_max_price order) of None \<Rightarrow> True | Some m \<Rightarrow> price \<le> m)"

definition asked_for :: "builder_order \<Rightarrow> place_order_request \<Rightarrow> bool" where
  "asked_for order req \<longleftrightarrow> po_market req = o_market_slug order \<and> po_token_id req = Some (o_token_id order) \<and>
     po_side req = o_side order \<and> po_intent req = submit_intent order \<and> within_limit order (po_price req)"

lemma clamped_within_limit: "within_limit order (trade_builder_clamp_buy_limit_price order p)"
proof -
  have "fmin p m \<le> m" if "is_finite m" for m using that by (intro fmin_bounds(1)) auto
  then show ?thesis
    by (auto simp: within_limit_def trade_builder_clamp_buy_limit_price_def filter_opt_def split: option.split)
qed

lemma unless_value: "returns (case_option True P) m \<Longrightarrow> (\<And>x. P x \<Longrightarrow> returns (case_option True Q) (f x)) \<Longrightarrow>
    returns (case_option True Q) (st_unless m f)"
  unfolding st_unless_def by (erule returns_after) (auto split: option.split intro!: returns_return)

lemma top_up_keeps_price: "returns (case_option True (\<lambda>x. at_desired_price x = at_desired_price a)) (apply_min_notional se order sub kind a)"
  unfolding apply_min_notional_def Let_def by (intro returns_steps) simp_all

lemma request_asked_for: "returns (case_option True (\<lambda>q. asked_for order (sq_request q))) (final_checks se order sub p z cached force a)"
proof -
  have asked: "at_desired_price x = trade_builder_clamp_buy_limit_price order q \<Longrightarrow>
      asked_for order (build_request order sub kind post_only c spec x)" for x q kind post_only c spec
    by (simp add: asked_for_def build_request_def clamped_within_limit)
  have any: "returns (case_option True (\<lambda>_. True)) m" for m :: "(submit_attempt option) bstep"
    by (rule returnsI) (simp split: option.split)
  have deferred: "sq_request \<lparr>sq_request = q, sq_attempt = b, sq_market_spec = m\<rparr> = q" for q b m by simp
  show ?thesis unfolding final_checks_def
    by (intro returns_bind, rule unless_value [OF any], rule unless_value [OF top_up_keeps_price],
        intro returns_bind returns_if returns_then returns_return) (simp_all only: option.case deferred, auto intro: asked)
qed

lemma preserves_mono: "preserves R m \<Longrightarrow> (\<And>s t. R s t \<Longrightarrow> R' s t) \<Longrightarrow> preserves R' m"
  by (simp add: preserves_def)

lemma keeps_submission_mono: "keeps_submission R se \<Longrightarrow> (\<And>s t. R s t \<Longrightarrow> R' s t) \<Longrightarrow> keeps_submission R' se"
  unfolding keeps_submission_def by (simp add: preserves_mono [of R _ R'])

lemma submission_asked_for:
  assumes "keeps_submission (sends_for (o_id order) (\<lambda>_. False)) se"
  shows "preserves (sends_for (o_id order) (asked_for order)) (submit_trade_builder_trigger_order se order sub)"
proof -
  have "keeps_submission (sends_for (o_id order) (asked_for order)) se"
    by (rule keeps_submission_mono [OF assms]) (simp add: sends_none sends_same)
  then show ?thesis
    by (rule sent_for.submitted [where Q = "\<lambda>q. asked_for order (sq_request q)"])
      (rule request_asked_for, simp, simp add: asked_for_def within_limit_def)
qed

text \<open>C5: A submission has at most one request accepted, whatever the exchange answers and however often a stop loss
  is sent again; the request is for the market, token and side of the order, and for a buy with a valid price limit its price is within
  the limit. The functions of other files send nothing for this order.\<close>

theorem submission_sends_one_request:
  assumes "keeps_submission (sends_for (o_id order) (\<lambda>_. False)) se"
  shows "\<exists>new. sent (o_id order) (snd (submit_trade_builder_trigger_order se order sub s)) = sent (o_id order) s @ new \<and>
    length new \<le> 1 \<and> list_all (\<lambda>(req, _). asked_for order req) new"
proof -
  have "sends_for (o_id order) (asked_for order) s (snd (submit_trade_builder_trigger_order se order sub s))"
    using submission_asked_for [OF assms] unfolding preserves_def by blast
  moreover have "one_more (o_id order) s (snd (submit_trade_builder_trigger_order se order sub s))"
    using one_more_order [OF assms] unfolding preserves_def by blast
  ultimately show ?thesis unfolding sends_for_def one_more_def by fastforce
qed

section \<open>When an order is sent\<close>

interpretation until_sent: tail_relation "sends_for i (\<lambda>_. False)" "\<lambda>j req. j \<noteq> i \<or> False" "\<lambda>s t. s = t \<or> c \<and> one_more i s t" for i c
  by unfold_locales simp

lemma keeps_mono: "keeps_processing R pe \<Longrightarrow> (\<And>s t. R s t \<Longrightarrow> R' s t) \<Longrightarrow> keeps_processing R' pe"
    "keeps_reconciliation R pe j \<Longrightarrow> (\<And>s t. R s t \<Longrightarrow> R' s t) \<Longrightarrow> keeps_reconciliation R' pe j"
  unfolding keeps_processing_def keeps_reconciliation_def using keeps_submission_mono [of R _ R'] preserves_mono [of R _ R'] by blast+

text \<open>A row with a request open at the exchange: nothing but the reconciliation sends for it.\<close>

lemma open_order_left_to_reconciliation:
  assumes pe: "keeps_processing (sends_for i P) pe" and lock: "lock_keeps_standing pe"
    and own: "\<And>j. keeps_reconciliation (sends_for i P) pe j"
    and row: "order_row i s = Some order" "o_active_exchange_order_id order \<noteq> None"
  shows "sends_for i P s (snd (process_trade_builder_order_with pe (process_handed_over pe (insert i held)) i path s))"
proof -
  have "preserves (sends_for i P) (process_handed_over pe (insert i held) j)" for j
    by (rule sent_for.handed_over_kept [OF pe lock own]) simp
  then have "(sends_for i P OO (=)) s (snd (process_trade_builder_order_with pe (process_handed_over pe (insert i held)) i path s))"
    by (intro sent_for.plain.order_processed [OF pe _ lock]) (use row own in \<open>simp_all add: due_to_send_def\<close>)
  then show ?thesis by (simp add: OO_eq)
qed

text \<open>A row without one.\<close>

lemma idle_order_sent_when_due:
  assumes pe: "keeps_processing (sends_for i (\<lambda>_. False)) pe" and lock: "lock_keeps_standing pe"
    and others: "\<And>j. j \<noteq> i \<Longrightarrow> keeps_reconciliation (sends_for i (\<lambda>_. False)) pe j"
    and row: "order_row i s = Some order" "o_active_exchange_order_id order = None"
  shows "\<exists>new. sent i (snd (process_trade_builder_order_with pe (process_handed_over pe (insert i held)) i path s)) = sent i s @ new \<and>
    length new \<le> (if due_to_send order (sv_now (pe_stmt pe) (Suc (bw_calls s))) then 1 else 0)"
proof -
  let ?c = "due_to_send order (sv_now (pe_stmt pe) (Suc (bw_calls s)))"
  have "preserves (sends_for i (\<lambda>_. False)) (process_handed_over pe (insert i held) j)" for j
    by (rule sent_for.handed_over_kept [OF pe lock]) (simp_all add: others)
  moreover have "preserves (sends_for i (\<lambda>_. False) OO (\<lambda>s t. s = t \<or> ?c \<and> one_more i s t))
      (submit_trade_builder_trigger_order (pe_submit pe) x sub)" if ?c for x sub
    using one_more_order [OF sent_for.delegates(1) [OF pe], of x sub] that
    by (auto simp: preserves_def intro!: relcomppI [of _ s s for s] sends_same)
  ultimately have "(sends_for i (\<lambda>_. False) OO (\<lambda>s t. s = t \<or> ?c \<and> one_more i s t)) s
      (snd (process_trade_builder_order_with pe (process_handed_over pe (insert i held)) i path s))"
    by (intro until_sent.order_processed [OF pe _ lock]) (use row in auto)
  then show ?thesis by (auto simp: sends_none one_more_def)
qed

text \<open>C4: Processing an order by its id sends for it at most once, and only when it is due. Without a row nothing is
  sent. For a row with no request open at the exchange at most one request is accepted, and none unless the row
  is open to processing, has triggers left, is not expired, is inside its window and is not asked to cancel. For a row with a request
  open at the exchange only the reconciliation sends: what is accepted is of the kind \<open>P\<close> that it may send. Stop losses the
  order gives way to may be sent in between. It is assumed that the steps of other files send nothing for this order, and that the lock of a
  pair keeps the order's status and its id at the exchange.\<close>

theorem due_order_sent_at_most_once:
  assumes "keeps_processing (sends_for i (\<lambda>_. False)) pe" "lock_keeps_standing pe"
    and "\<And>j. j \<noteq> i \<Longrightarrow> keeps_reconciliation (sends_for i (\<lambda>_. False)) pe j"
    and "keeps_reconciliation (sends_for i P) pe i"
  shows "\<exists>new. sent i (snd (try_process_trade_builder_order_by_id pe held i path s)) = sent i s @ new \<and>
    (case order_row i s of
       None \<Rightarrow> new = []
     | Some order \<Rightarrow> if o_active_exchange_order_id order \<noteq> None then list_all (\<lambda>(req, _). P req) new
         else length new \<le> (if due_to_send order (sv_now (pe_stmt pe) (bw_calls s + 2)) then 1 else 0))"
proof -
  let ?run = "process_trade_builder_order_with pe (process_handed_over pe (insert i held)) i path (b_tick s)"
  have row: "order_row i (b_tick s) = order_row i s" by (simp add: order_row_def b_tick_def)
  have last: "snd (try_process_trade_builder_order_by_id pe held i path s) \<in> (if order_row i s = None then {b_tick s} else {b_tick s, snd ?run})"
    by (auto simp: try_process_trade_builder_order_by_id_def try_process_trade_builder_order_by_id_with_def get_trade_builder_order_def
        b_read_def st_bind_def st_return_def order_row_def find_Some_iff split: answer.split option.split)
  have mono: "sends_for i (\<lambda>_. False) s t \<Longrightarrow> sends_for i P s t" for s t by (simp add: sends_none sends_same)
  have "keeps_reconciliation (sends_for i P) pe j" for j
    using assms(4) keeps_mono(2) [OF assms(3) mono] by (cases "j = i") auto
  note opened = open_order_left_to_reconciliation [OF keeps_mono(1) [OF assms(1) mono] assms(2) this, of "b_tick s"]
  note idle = idle_order_sent_when_due [OF assms(1-3), of "b_tick s"]
  show ?thesis
  proof (cases "order_row i s")
    case (Some order)
    have calls: "bw_calls (b_tick s) = Suc (bw_calls s)" by (simp add: b_tick_def)
    from Some last consider (quiet) "snd (try_process_trade_builder_order_by_id pe held i path s) = b_tick s"
      | (run) "snd (try_process_trade_builder_order_by_id pe held i path s) = snd ?run" by auto
    then show ?thesis
    proof cases
      case run
      then show ?thesis
        using Some row opened [of order held path] idle [of order held path]
        by (cases "o_active_exchange_order_id order") (simp_all add: sends_for_def calls)
    qed (simp add: Some split: option.split)
  qed (use last in simp)
qed

section \<open>The row of an order\<close>

lemma find_map_same: "(\<And>r. P (f r) = P r) \<Longrightarrow> find P (map f rows) = map_option f (find P rows)"
  by (induction rows) auto

lemma order_row_op:
  assumes "case op of UnblockNextTradeBuilderOrder _ _ \<Rightarrow> False | _ \<Rightarrow> True"
  shows "order_row i (apply_op now op w) = map_option (op_row now op) (order_row i w)"
proof -
  have exit: "o_id (exit_op_row now e r) = o_id r" for e r by (cases e) (simp_all add: row_defs)
  have "o_id (op_row now op r) = o_id r" for r by (cases op) (simp_all add: op_row_def row_defs exit)
  then have "find (\<lambda>r. o_id r = i) (map (op_row now op) rows) = map_option (op_row now op) (find (\<lambda>r. o_id r = i) rows)" for rows
    by (intro find_map_same) simp
  then show ?thesis using assms by (cases op) (simp_all add: order_row_def apply_op_def)
qed

lemma order_row_tick [simp]: "order_row i (b_tick w) = order_row i w"
  by (simp add: order_row_def b_tick_def)

section \<open>An example\<close>

text \<open>A buy that is due, and surroundings in which nothing fails: the exchange accepts every request, every function of another file
  does nothing.\<close>

definition entry_order :: builder_order where
  "entry_order = \<lparr>
    o_id = 7, o_trade_id = 1, o_user_id = 1, o_kind = ''immediate'', o_status = ''pending'',
    o_market_slug = ''m'', o_token_id = ''yes'', o_outcome_label = '''', o_side = ''buy'',
    o_execution_mode = ''market'', o_trigger_condition = None,
    o_trigger_price = None, o_max_price = Some (Fin (3 / 4)), o_size_basis = ''notional'',
    o_size_usdc = Fin 5, o_target_qty = None, o_min_price_distance_cent = 0,
    o_expires_at = None, o_eligible_after_at = None, o_eligible_before_at = None, o_max_triggers = 1,
    o_triggers_fired = 0, o_active_exchange_order_id = None, o_remaining_size = None,
    o_remaining_qty = None, o_working_price = None, o_last_seen_price = None, o_last_error = None,
    o_created_at = 0, o_updated_at = 0, o_parent_order_id = None,
    o_origin_flow_definition_id = None, o_origin_flow_run_id = None, o_origin_flow_node_key = None,
    o_pair_session_id = None, o_pair_leg_role = None, o_tp_enabled = False, o_tp_price = None,
    o_tp_rules_json = [], o_sl_enabled = False, o_sl_price = None, o_sl_rules_json = [],
    o_time_exit_rules_json = [], o_filled_qty = 0, o_fee_rate_bps = 0, o_trigger_latched = False,
    o_trigger_latched_reason = None, o_trigger_latched_at = None, o_submitted_dynamic_qty = None,
    o_submitted_dynamic_price = None, o_runtime_snapshot_json = None,
    o_fresh_submit_lease_until = None, o_guard_trigger_price = None, o_best_ask_floor_price = None,
    o_retry_on_trigger_guard_block = False, o_retry_on_execution_floor_guard_block = False,
    o_retry_on_max_price_block = False, o_ptb_stop_loss_gap_usd = None, o_ptb_reference_price = None,
    o_ptb_stop_loss_rules_json = [], o_ptb_stop_loss_time_decay_mode = None,
    o_ptb_current_price_source = '''', o_staged_sl_retry_only_dust = False,
    o_staged_sl_retry_dust_metric = None, o_staged_sl_retry_dust_value = None,
    o_staged_sl_reentry_use_sold_notional = False, o_staged_sl_reentry_only_after_all_stages = False,
    o_sl_trigger_price_mode = None, o_reenter_on_sl_hit = False, o_reentry_max_attempts = 0,
    o_reentry_trigger_node_key = None, o_notify_on_order_submitted = False, o_notify_on_fill = False,
    o_notify_on_order_not_filled = False, o_notify_on_trigger_guard_blocked = False,
    o_notify_on_execution_floor_blocked = False, o_notify_on_tp_hit = False,
    o_notify_on_sl_hit = False, o_notify_on_max_price_blocked = False,
    o_last_guard_notification_reason = None, o_exit_ladder_kind = None, o_exit_ladder_index = None,
    o_exit_ladder_size_pct = None\<rparr>"

definition calm_stmt :: stmt_env where
  "calm_stmt = \<lparr>sv_answer = (\<lambda>_. Done), sv_now = (\<lambda>_. 1000), sv_rfc3339 = (\<lambda>_. [])\<rparr>"

definition calm_ack :: order_ack where
  "calm_ack = \<lparr>ak_client_order_id = ''c'', ak_exchange_order_id = Some ''x'', ak_status = ''live'', ak_reject_reason = None,
    ak_raw_status = None, ak_exchange_ts = None\<rparr>"

definition calm_submit :: submit_env where
  "calm_submit = \<lparr>se_stmt = calm_stmt, se_place = (\<lambda>_ _. Inr calm_ack), se_uuid = (\<lambda>_. ''u''), se_book = (\<lambda>_ _. None),
    se_ws = (\<lambda>_ _. None), se_subscribed = (\<lambda>_ _. False), se_available_qty = (\<lambda>_ _. None), se_decode_snapshot = (\<lambda>_. None),
    se_spec_cache = (\<lambda>_ _. None), se_market_spec = (\<lambda>_ _. None), se_counter_waits = (\<lambda>_ _. Inr False),
    se_live_gap_blocks = (\<lambda>_ _ _. st_return False), se_risk = (\<lambda>_ _ _. Inr Allow), se_created_payload = (\<lambda>_ _. Inr None),
    se_sent = (\<lambda>_ _ _. False), se_abort_pair = (\<lambda>_ _. st_return ()), se_latest_flow_payload = (\<lambda>_ _. Inr None),
    se_telemetry = (\<lambda>_ _ _ _ _. []), se_submitted_dynamic = (\<lambda>_ _ _. st_return ()), se_inventory_baseline = (\<lambda>_ _. st_return ()),
    se_submit_observation = (\<lambda>_ _ _ _. st_return ()), se_submitted_notification = (\<lambda>_ _. Inr ()),
    se_finalize = (\<lambda>_ _ _ _. st_return ()), se_show_2 = (\<lambda>_. []), se_market_window_end = (\<lambda>_. None)\<rparr>"

definition calm_world :: "builder_order list \<Rightarrow> builder_world" where
  "calm_world rows = \<lparr>bw_orders = rows, bw_ops = [], bw_placed = [], bw_calls = 0\<rparr>"

definition half_price :: submission where
  "half_price = \<lparr>sb_current_price = Fin (1 / 2), sb_best_bid = None, sb_best_ask = Some (Fin (1 / 2)), sb_last_trade_price = None,
    sb_fee_rate_bps = 0, sb_resolved_size_usdc = Fin 5, sb_size_mode = None, sb_size_value = None, sb_size_index = 0, sb_quote = None\<rparr>"

text \<open>In these surroundings the buy is sent, once.\<close>

lemma entry_columns [simp]: "o_id entry_order = 7" "o_side entry_order = ''buy''" "o_kind entry_order = ''immediate''"
  "o_status entry_order = ''pending''" "o_execution_mode entry_order = ''market''" "o_max_price entry_order = Some (Fin (3 / 4))"
  "o_size_usdc entry_order = Fin 5" "o_remaining_size entry_order = None"
  "o_guard_trigger_price entry_order = None" "o_best_ask_floor_price entry_order = None" "o_pair_leg_role entry_order = None"
  "o_runtime_snapshot_json entry_order = None" "o_trigger_latched entry_order = False" "o_market_slug entry_order = ''m''"
  "o_token_id entry_order = ''yes''" "o_trigger_condition entry_order = None" "o_trigger_price entry_order = None"
  by (simp_all add: entry_order_def)

lemma calm_fields [simp]: "se_stmt calm_submit = calm_stmt"
  "se_place calm_submit = (\<lambda>_ _. Inr calm_ack)"
  "se_uuid calm_submit = (\<lambda>_. ''u'')"
  "se_spec_cache calm_submit = (\<lambda>_ _. None)"
  "se_market_spec calm_submit = (\<lambda>_ _. None)"
  "se_counter_waits calm_submit = (\<lambda>_ _. Inr False)"
  "se_live_gap_blocks calm_submit = (\<lambda>_ _ _. st_return False)"
  "se_risk calm_submit = (\<lambda>_ _ _. Inr Allow)"
  "se_created_payload calm_submit = (\<lambda>_ _. Inr None)"
  "se_decode_snapshot calm_submit = (\<lambda>_. None)"
  by (simp_all add: calm_submit_def)

lemma half_ask: "clamped_best_ask (Some (Fin (1 / 2))) = Some (Fin (1 / 2))" "valid_ask (Some (Fin (1 / 2))) = Some (Fin (1 / 2))"
  by (simp_all add: clamped_best_ask_def normalize_trade_builder_reference_price_def clamp_probability_def fclamp_def lit_def f64_eval
      valid_ask_def filter_opt_def)

lemma entry_basis: "normalize_trade_builder_size_basis (o_size_basis entry_order) = size_basis_notional_usdc"
  "size_basis_notional_usdc \<noteq> size_basis_shares"
  by (simp add: entry_order_def, code_simp) code_simp

lemma entry_price: "trade_builder_market_buy_execution_price entry_order (Fin (1 / 2)) (Some (Fin (1 / 2))) =
   Some \<lparr>mb_price = Fin (1 / 2), mb_source = ''best_ask'', mb_trigger_reference_price = trade_builder_market_buy_anchor_price entry_order\<rparr>"
  by (simp add: trade_builder_market_buy_execution_price_def half_ask trade_builder_is_market_buy_def normalize_trade_builder_execution_mode_def)

lemma entry_clamp: "trade_builder_clamp_buy_limit_price entry_order (Fin (1 / 2)) = Fin (1 / 2)"
  by (simp add: trade_builder_clamp_buy_limit_price_def filter_opt_def f64_eval)

lemma entry_size: "calc_level_size (Fin 5) (Fin (1 / 2)) = Fin 10"
  by (simp add: calc_level_size_def f64_eval lit_def)

lemma market_kind: "normalize_trade_builder_execution_mode mode = ''market''" "clob_order_type_for_execution_mode ''market'' = ''IOC''"
  "\<not> eq_ignore_ascii_case ''IOC'' ''FAK''" "eq_ignore_ascii_case ''FAK'' ''FAK''"
  by (simp add: normalize_trade_builder_execution_mode_def, code_simp+)

lemmas calm_steps = b_now_def st_get_def st_bind_def st_then_def st_return_def st_unless_def b_tell_def b_ask_def b_tick_def st_result_def Let_def

lemma calm_keeps: "(\<And>w. R w w) \<Longrightarrow> keeps_submission R calm_submit"
  by (simp add: keeps_submission_def preserves_def calm_submit_def st_return_def)

lemma calm_answered: "request_accepted calm_submit order sub p z kind out w = (r, t) \<Longrightarrow> sent 7 t = sent 7 w"
  by (erule nothingD [rotated]) (simp add: nothing_iff sent_for.acknowledged calm_keeps sends_none)

lemma entry_sent: "\<exists>x. sent 7 (snd (submit_trade_builder_trigger_order calm_submit entry_order half_price (calm_world [entry_order]))) = [x]"
  apply (simp add: submit_trade_builder_trigger_order_def calm_steps calm_world_def half_price_def trade_builder_cached_market_spec_for_order_def
    fresh_runtime_snapshot_def trade_builder_runtime_snapshot_from_order_def filter_opt_def price_submission_def
    prefetch_trade_builder_sell_submit_inputs_def prepare_trade_builder_fast_stop_loss_initial_submit_def
    trade_builder_should_use_fast_stop_loss_submit_price_def trade_builder_is_fast_stop_loss_sell_def
    trade_builder_stop_loss_latched_def settle_prices_def size_submission_def share_basis_def entry_basis entry_price entry_clamp entry_size)
  apply (simp add: pass_guards_def submit_guards_def first_refusal_def evaluate_trade_builder_buy_guards_def calm_steps half_ask pair_waiting_reason_def
    floor_reason_def f64_eval)
  apply (simp add: settle_inventory_def adjust_dynamic_gross_def optimistic_exit_stage_def optimistic_exit_submit_def share_basis_def entry_basis
    clamp_to_available_def calm_steps then_some_def)
  apply (simp add: final_checks_def calm_steps resolve_trade_builder_submit_order_type_def resolve_trade_builder_submit_post_only_def
    maybe_apply_trade_builder_pre_submit_book_recheck_def trade_builder_pre_submit_recheck_eligible_def entry_basis entry_clamp apply_min_notional_def
    maybe_handle_trade_builder_share_submit_below_market_min_def market_kind trade_builder_flow_created_order_type_def
    trade_builder_marketable_buy_min_notional_top_up_def entry_basis)
  apply (simp add: place_submission_def b_place_def calm_steps)
  apply (auto split: prod.split sum.split dest!: calm_answered simp: sent_accept)
  apply (simp_all add: sent_def)
  done

lemma submission_sends_one_request_witness:
  "\<exists>req x. sent 7 (snd (submit_trade_builder_trigger_order calm_submit entry_order half_price (calm_world [entry_order]))) = [(req, x)] \<and>
    asked_for entry_order req"
proof -
  have "keeps_submission (sends_for (o_id entry_order) (\<lambda>_. False)) calm_submit" by (rule calm_keeps) (simp add: sends_none)
  note submission_sends_one_request [OF this, of half_price "calm_world [entry_order]"]
  moreover have "sent 7 (calm_world [entry_order]) = []" by (simp add: sent_def calm_world_def)
  ultimately show ?thesis using entry_sent by auto
qed

definition calm_process :: process_env where
  "calm_process = \<lparr>pe_submit = calm_submit, pe_stale_market = (\<lambda>_ _. Inr None), pe_pair_lock = (\<lambda>order _. st_return (order, False)),
    pe_quote_cache = (\<lambda>_ _. None), pe_fast_price = (\<lambda>_ _ _. Inr (Inl [])), pe_price = (\<lambda>_ _. Inr (Inr \<lparr>rp_price = Fin (1 / 2),
      rp_source = [], rp_runtime_warning = None, rp_best_bid = None, rp_best_ask = Some (Fin (1 / 2)), rp_last_trade_price = None\<rparr>)),
    pe_best_ask = (\<lambda>_ _. Inr None), pe_ptb = (\<lambda>_. \<lparr>pe_service = new_service, pe_now_ms = 0, pe_timestamp_opt = Some,
      pe_chainlink = (\<lambda>_. Inl []), pe_cached_reference = (\<lambda>_. None), pe_show_f64 = (\<lambda>_. [])\<rparr>), pe_oracle_lag = (\<lambda>_ _ _. Inr None),
    pe_live_gap = (\<lambda>_ _. Inr None), pe_parent_inventory = (\<lambda>_ _. st_return None), pe_parent_min_size = (\<lambda>_ _. None),
    pe_reconcile = (\<lambda>_ _ _ _. st_return ()), pe_batch_parents = (\<lambda>_. {}), pe_fee_rate = (\<lambda>_ _. Inr (Some 0)),
    pe_trigger_plan = (\<lambda>_ _. Inr None), pe_trade_notional = (\<lambda>_ _. Inr None), pe_pending_observations = (\<lambda>_. Inr ()),
    pe_load_user = (\<lambda>_ _. Inr ()), pe_sync_fills = (\<lambda>_. st_return ())\<rparr>"

lemma calm_processing: "(\<And>w. R w w) \<Longrightarrow> keeps_processing R calm_process" "lock_keeps_standing calm_process"
  "(\<And>w. R w w) \<Longrightarrow> keeps_reconciliation R calm_process i"
  by (simp_all add: keeps_processing_def keeps_reconciliation_def calm_process_def calm_keeps preserves_def lock_keeps_standing_def returns_def same_standing_def st_return_def)

lemma entry_due: "order_row 7 (calm_world [entry_order]) = Some entry_order" "due_to_send entry_order 1000"
  by (simp_all add: order_row_def calm_world_def entry_order_def due_to_send_def admissible_def is_trade_builder_order_processable_status_def
      classify_trade_builder_order_eligibility_window_def)

lemma due_order_sent_at_most_once_witness:
  "due_to_send entry_order (sv_now (pe_stmt calm_process) 2) \<and>
    length (sent 7 (snd (try_process_trade_builder_order_by_id calm_process {} 7 [] (calm_world [entry_order])))) \<le> 1"
proof -
  have pe: "keeps_processing (sends_for 7 (\<lambda>_. False)) calm_process" by (rule calm_processing) (simp add: sends_none)
  have others: "keeps_reconciliation (sends_for 7 (\<lambda>_. False)) calm_process j" for j by (rule calm_processing) (simp add: sends_none)
  have "o_active_exchange_order_id entry_order = None" "sent 7 (calm_world [entry_order]) = []"
    by (simp_all add: entry_order_def sent_def calm_world_def)
  with due_order_sent_at_most_once [OF pe calm_processing(2) others others, of "{}" "[]" "calm_world [entry_order]"]
  have "\<exists>new. sent 7 (snd (try_process_trade_builder_order_by_id calm_process {} 7 [] (calm_world [entry_order]))) = new \<and> length new \<le> 1"
    by (auto simp: entry_due(1) split: if_splits)
  then show ?thesis using entry_due(2) by (auto simp: calm_process_def calm_stmt_def)
qed

section \<open>What is recorded\<close>

text \<open>The columns that tie a row to the exchange.\<close>

definition working :: "builder_order \<Rightarrow> string option \<times> f64 option \<times> f64 option \<times> f64 option \<times> string" where
  "working r = (o_active_exchange_order_id r, o_working_price r, o_remaining_size r, o_remaining_qty r, o_status r)"

lemma b_write_done: "b_write sv op s = (Inr u, t) \<longleftrightarrow> sv_answer sv (bw_calls s) = Done \<and> t = apply_op (sv_now sv (bw_calls s)) op (b_tick s)"
  by (auto simp: b_write_def Let_def split: answer.splits)

lemma silent_ops: "op_row now (ExitOp (AppendTradeBuilderOrderEvent j kind payload)) = (\<lambda>r. r)"
  "op_row now (UpsertOrderByExchangeId trade x c intent side p q status ts reject raw) = (\<lambda>r. r)"
  by (simp_all add: op_row_def fun_eq_iff)

lemma silent_rows [simp]: "order_row i (apply_op now (ExitOp (AppendTradeBuilderOrderEvent j kind payload)) w) = order_row i w"
  "order_row i (apply_op now (UpsertOrderByExchangeId trade x c intent side p q status ts reject raw) w) = order_row i w"
  by (simp_all add: order_row_op silent_ops option.map_ident)

lemma event_keeps_row: "b_event sv j kind payload s = (Inr u, t) \<Longrightarrow> order_row i t = order_row i s"
  by (auto simp: b_event_def b_write_done)

text \<open>C25: When the recording of an accepted request succeeds, the row of the order holds the id, the price and what remains
  of that request, and the status in which the exchange took it.\<close>

theorem accepted_request_recorded:
  assumes run: "record_submission se order sub z out raw s = (Inr u, t)" and row: "order_row (o_id order) s = Some r"
    and dynamic: "\<And>qty price s. map_option working (order_row (o_id order) (snd (se_submitted_dynamic se order qty price s))) =
      map_option working (order_row (o_id order) s)"
  shows "map_option working (order_row (o_id order) t) =
    Some (Some (accepted_id (so_ack out)), Some (at_desired_price (so_attempt out)), at_remaining_usdc (so_attempt out),
      at_remaining_qty (so_attempt out), normalize_exchange_status (ak_status (so_ack out)))"
proof -
  let ?i = "o_id order"
  let ?op = "ExitOp (SetTradeBuilderOrderWorkingState ?i (Some (accepted_id (so_ack out))) (Some (at_desired_price (so_attempt out)))
    (at_remaining_usdc (so_attempt out)) (at_remaining_qty (so_attempt out)) (normalize_exchange_status (ak_status (so_ack out))))"
  from run obtain now s0 s3
    where dyn: "se_submitted_dynamic se order (at_size (so_attempt out)) (at_desired_price (so_attempt out)) (apply_op now ?op s0) = (Inr (), s3)"
    and before: "order_row ?i s0 = order_row ?i s" and rest: "order_row ?i t = order_row ?i s3"
    by (auto simp: record_submission_def Let_def st_then_Inr b_write_done dest!: event_keeps_row [where i = ?i] split: if_splits)
  have "o_id r = ?i" using row by (auto simp: order_row_def find_Some_iff)
  with before row have "order_row ?i (apply_op now ?op s0) = Some (set_trade_builder_order_working_state now
      (Some (accepted_id (so_ack out))) (Some (at_desired_price (so_attempt out))) (at_remaining_usdc (so_attempt out))
      (at_remaining_qty (so_attempt out)) (normalize_exchange_status (ak_status (so_ack out))) r)"
    by (simp add: order_row_op op_row_def)
  moreover have "map_option working (order_row ?i s3) = map_option working (order_row ?i (apply_op now ?op s0))"
    using dynamic [of _ _ "apply_op now ?op s0"] dyn by (metis snd_conv)
  ultimately show ?thesis by (simp add: rest working_def set_trade_builder_order_working_state_def)
qed

definition calm_outcome :: submit_outcome where
  "calm_outcome = \<lparr>so_ack = calm_ack, so_client_order_id = ''c'', so_sell = None, so_retry_payload = None,
    so_attempt = \<lparr>at_desired_price = Fin (1 / 2), at_size = Fin 10, at_remaining_usdc = Some (Fin 5), at_remaining_qty = None,
      at_available_qty = None, at_partial = False, at_deferred = no_deferred_events\<rparr>, so_started_at = 0\<rparr>"

definition calm_sizes :: submit_sizes where
  "calm_sizes = \<lparr>sz_size = Fin 10, sz_remaining_usdc = Some (Fin 5), sz_remaining_qty = None, sz_proposed_notional_usdc = Fin 5\<rparr>"

definition calm_request :: place_order_request where
  "calm_request = build_request entry_order half_price ''IOC'' False ''c'' None (so_attempt calm_outcome)"

lemma accepted_request_recorded_witness:
  "map_option working (order_row 7 (snd (record_submission calm_submit entry_order half_price calm_sizes calm_outcome [] (calm_world [entry_order])))) =
    Some (Some ''x'', Some (Fin (1 / 2)), Some (Fin 5), None, ''open'')"
proof -
  let ?run = "record_submission calm_submit entry_order half_price calm_sizes calm_outcome [] (calm_world [entry_order])"
  have calm: "sv_answer calm_stmt n = Done" "se_submitted_dynamic calm_submit = (\<lambda>_ _ _. st_return ())" for n
    by (simp_all add: calm_stmt_def calm_submit_def)
  have "fst ?run = Inr ()"
    by (simp add: record_submission_def Let_def st_then_def st_bind_def st_return_def b_event_def b_write_def calm calm_outcome_def)
  then have run: "?run = (Inr (), snd ?run)" by (metis prod.collapse)
  have live: "normalize_exchange_status ''live'' = ''open''" by code_simp
  have row: "order_row (o_id entry_order) (calm_world [entry_order]) = Some entry_order" using entry_due(1) by simp
  from accepted_request_recorded [OF run row] show ?thesis
    by (simp add: calm st_return_def calm_outcome_def calm_ack_def accepted_id_def live)
qed

section \<open>Sells that are retried\<close>

lemma status_row: "order_row i (apply_op now (ExitOp (SetTradeBuilderOrderStatus j status err)) w) =
    (case order_row i w of None \<Rightarrow> None | Some r \<Rightarrow> Some (if j = i then set_trade_builder_order_status now status err r else r))"
proof (cases "order_row i w")
  case (Some r)
  then have "o_id r = i" by (auto simp: order_row_def find_Some_iff)
  with Some show ?thesis by (simp add: order_row_op op_row_def)
qed (simp add: order_row_op)

lemma answered_write: "sv_answer sv (bw_calls s) = Done \<Longrightarrow> b_write sv op s = (Inr (), apply_op (sv_now sv (bw_calls s)) op (b_tick s))"
  by (simp add: b_write_done)

lemma calls_counted [simp]: "bw_calls (b_tick w) = Suc (bw_calls w)" "bw_calls (apply_op now op w) = bw_calls w"
  by (simp_all add: b_tick_def apply_op_def)

text \<open>The quantity the row holds for the next attempt after one with \<open>k\<close> cents of a share.\<close>

lemma next_retry_qty:
  assumes "0 \<le> k" "k \<le> max_cents"
  shows "if k < 2 then trade_builder_next_retry_share_qty (cents k) = None
    else \<exists>j. trade_builder_next_retry_share_qty (cents k) = Some (cents j) \<and> 0 < j \<and> j < k \<and> k - 2 \<le> j"
proof (cases "k < 2")
  case False
  then have "2 \<le> k" by simp
  from forced_retry_cents [OF this assms(2)] show ?thesis
    using False unfolding trade_builder_next_retry_share_qty_def by (metis (no_types, lifting))
qed (simp add: forced_retry_end assms trade_builder_next_retry_share_qty_def)

text \<open>C32: What a scheduled retry of an exit stores. When its statements are answered the row is triggered with no order at the
  exchange, its error text names the stage of the next attempt, and its quantity is the override when there is one; the attempted
  quantity when the retry enters the stage of the visible inventory; and otherwise, after an attempt on the grid of cents, a positive quantity on the
  grid that is one or two cents lower; when there is none the quantity the order was read with is kept, so that these retries never end by
  themselves. The remaining value is that quantity at the desired price.\<close>

theorem exit_retry_stores_quantity:
  assumes "\<And>n. sv_answer sv n = Done" "order_row (o_id order) s = Some r" "0 \<le> k" "k \<le> max_cents"
  shows "\<exists>r'. order_row (o_id order) (snd (schedule_trade_builder_exit_sell_retry sv order kind why current desired requested available
      (Some (cents k)) override stage next_stage s)) = Some r' \<and>
    o_status r' = ''triggered'' \<and> o_active_exchange_order_id r' = None \<and>
    o_last_error r' = Some (trade_builder_retry_error_text why next_stage) \<and>
    o_remaining_size r' = map_option (\<lambda>q. fmax (q * desired) 0) (o_remaining_qty r') \<and>
    (case override of Some q \<Rightarrow> o_remaining_qty r' = Some q
     | None \<Rightarrow> if next_stage = Some VisibleInventory \<and> stage \<noteq> Some VisibleInventory then o_remaining_qty r' = Some (cents k)
         else if k < 2 then o_remaining_qty r' = o_remaining_qty order
         else \<exists>j. o_remaining_qty r' = Some (cents j) \<and> 0 < j \<and> j < k \<and> k - 2 \<le> j)"
proof -
  have i: "o_id r = o_id order" using assms(2) by (auto simp: order_row_def find_Some_iff)
  let ?qty = "retry_remaining_qty order (Some (cents k)) override stage next_stage"
  have "order_row (o_id order) (snd (schedule_trade_builder_exit_sell_retry sv order kind why current desired requested available
      (Some (cents k)) override stage next_stage s)) =
      Some (set_trade_builder_order_retry_state (sv_now sv (bw_calls s)) ''triggered'' (Some (trade_builder_retry_error_text why next_stage))
        (map_option (\<lambda>q. fmax (q * desired) 0) ?qty) ?qty r)"
    using assms(1,2) i
    by (auto simp: schedule_trade_builder_exit_sell_retry_def Let_def st_then_def st_bind_def st_return_def b_event_def answered_write
        order_row_op op_row_def split: option.split)
  moreover have "case override of Some q \<Rightarrow> ?qty = Some q
     | None \<Rightarrow> if next_stage = Some VisibleInventory \<and> stage \<noteq> Some VisibleInventory then ?qty = Some (cents k)
         else if k < 2 then ?qty = o_remaining_qty order
         else \<exists>j. ?qty = Some (cents j) \<and> 0 < j \<and> j < k \<and> k - 2 \<le> j"
    using next_retry_qty [OF assms(3,4)]
    by (auto simp: retry_remaining_qty_def preserves_visible_stage_def or_opt_def split: option.split if_splits)
  ultimately show ?thesis by (cases override) (auto simp: set_trade_builder_order_retry_state_def)
qed

lemma exit_retry_stores_quantity_witness:
  "\<exists>r' j. order_row 7 (snd (schedule_trade_builder_exit_sell_retry calm_stmt entry_order ''e'' ''w'' 0 0 None None (Some (cents 300)) None
     None None (calm_world [entry_order]))) = Some r' \<and> o_remaining_qty r' = Some (cents j) \<and> 298 \<le> j \<and> j < 300"
proof -
  have "order_row (o_id entry_order) (calm_world [entry_order]) = Some entry_order" "sv_answer calm_stmt n = Done" for n
    using entry_due(1) by (simp_all add: calm_stmt_def)
  from exit_retry_stores_quantity [OF this(2,1), of 300 "''e''" "''w''" 0 0 None None None None None] show ?thesis
    by (auto simp: max_cents_def)
qed

section \<open>Orders that are lost\<close>

text \<open>What the housekeeping does with an order whose processing failed, when its statements are answered.\<close>

lemma failed_row:
  assumes "\<And>n. bw_calls s \<le> n \<Longrightarrow> sv_answer sv n = Done" "order_row (o_id order) s = Some r"
    and "\<not> trade_builder_should_retry_after_processing_error snapshot_str r"
  shows "order_row (o_id order) (snd (processing_failed sv order e s)) =
      Some (set_trade_builder_order_status (sv_now sv (bw_calls s + 1)) ''error'' (Some e) r)"
    "sent i (snd (processing_failed sv order e s)) = sent i s"
    "fst (processing_failed sv order e s) = Inr ()"
proof -
  have read: "get_trade_builder_order sv (o_id order) s = (Inr (Some r), b_tick s)"
    using assms(1,2) by (simp add: get_trade_builder_order_def b_read_def)
  show "order_row (o_id order) (snd (processing_failed sv order e s)) =
      Some (set_trade_builder_order_status (sv_now sv (bw_calls s + 1)) ''error'' (Some e) r)"
    "sent i (snd (processing_failed sv order e s)) = sent i s" "fst (processing_failed sv order e s) = Inr ()"
    using assms by (simp_all add: processing_failed_def st_bind_def st_then_def st_try_def read st_return_def b_status_def b_event_def
      answered_write status_row)
qed

lemma failed_row_left:
  assumes "\<not> trade_builder_stop_loss_latched r"
  shows "\<not> trade_builder_order_requires_housekeeping (set_trade_builder_order_status now ''error'' (Some e) r)"
  using assms by (simp add: set_trade_builder_order_status_def trade_builder_order_requires_housekeeping_def trade_builder_stop_loss_latched_def)

text \<open>The end of a submission: the request is placed, and what the exchange accepted is recorded.\<close>

abbreviation send_and_record :: "submit_env \<Rightarrow> builder_order \<Rightarrow> submission \<Rightarrow> submit_prices \<Rightarrow> submit_sizes \<Rightarrow> i64 \<Rightarrow> submit_request
    \<Rightarrow> (unit option) bstep" where
  "send_and_record se order sub p z started q \<equiv> st_unless (place_submission se order sub p z started q) (\<lambda>out.
     st_then (request_accepted se order sub p z (po_order_type (sq_request q)) out) (st_return (Some ())))"

text \<open>C39: An accepted request whose first statement the database refuses is held by the exchange and known to no row. The exchange
  accepts the request of an order with no other request open, no event is deferred, and the statement that stores the request is refused:
  the submission fails with that error, the request is among those the exchange accepted, and the row of the order is what it was, without an id.
  Where the error is only logged the row stays so, and is due again if it was due before. In the housekeeping, whose statements are then
  answered, the row becomes an error without an id, and is not processed again unless it is a latched stop loss; a sell that is
  retried after an error is left out.\<close>

theorem unrecorded_request_lost:
  assumes "se_place se (sq_request q) (bw_calls s) = Inr ack" "at_deferred (sq_attempt q) = no_deferred_events"
    and "se_latest_flow_payload se (o_id order) (Suc (bw_calls s)) = Inr flow"
    and "sv_answer (se_stmt se) (bw_calls s + 2) = Refused e" "\<And>n. bw_calls s + 2 < n \<Longrightarrow> sv_answer (se_stmt se) n = Done"
    and "order_row (o_id order) s = Some r" "o_active_exchange_order_id r = None"
    and "\<not> trade_builder_should_retry_after_processing_error snapshot_str r"
  shows "\<exists>t. send_and_record se order sub p z started q s = (Inl e, t) \<and>
    sent (o_id order) t = sent (o_id order) s @ [(sq_request q, accepted_id ack)] \<and> order_row (o_id order) t = Some r \<and>
    (\<exists>r'. order_row (o_id order) (snd (processing_failed (se_stmt se) order e t)) = Some r' \<and> o_status r' = ''error'' \<and>
       o_active_exchange_order_id r' = None \<and> (trade_builder_stop_loss_latched r \<or> \<not> trade_builder_order_requires_housekeeping r') \<and>
       sent (o_id order) (snd (processing_failed (se_stmt se) order e t)) = sent (o_id order) s @ [(sq_request q, accepted_id ack)])"
proof -
  let ?i = "o_id order"
  let ?t = "b_tick (b_tick (accept_order ?i (sq_request q) ack (b_tick s)))"
  have calls: "bw_calls (accept_order i req ack w) = bw_calls w" for i req ack w by (simp add: accept_order_def)
  have run: "send_and_record se order sub p z started q s = (Inl e, ?t)"
    using assms(1-4)
    by (simp add: st_unless_def place_submission_def request_accepted_def record_submission_def flush_deferred_def no_deferred_events_def
        st_bind_def st_then_def st_return_def st_fold.simps b_place_def b_ask_def b_write_def Let_def calls)
  have row: "order_row ?i ?t = Some r" using assms(6) by (simp add: order_row_def accept_order_def b_tick_def)
  have sent: "sent ?i ?t = sent ?i s @ [(sq_request q, accepted_id ack)]" by (simp add: sent_accept)
  have later: "sv_answer (se_stmt se) n = Done" if "bw_calls ?t \<le> n" for n using assms(5) [of n] that by (simp add: calls)
  note failed = failed_row [OF later row assms(8), where e = e]
  show ?thesis
    using run row sent failed(1,2) assms(7) failed_row_left [of r]
    by (intro exI [of _ ?t]) (auto simp: set_trade_builder_order_status_def)
qed

definition refused_submit :: submit_env where
  "refused_submit = calm_submit\<lparr>se_stmt := calm_stmt\<lparr>sv_answer := (\<lambda>n. if n = 2 then Refused ''gone'' else Done)\<rparr>\<rparr>"

definition calm_checked :: submit_request where
  "calm_checked = \<lparr>sq_request = calm_request, sq_attempt = so_attempt calm_outcome, sq_market_spec = None\<rparr>"

lemma entry_not_retried: "\<not> trade_builder_stop_loss_latched entry_order"
  "\<not> trade_builder_should_retry_after_processing_error snapshot_str entry_order" "o_active_exchange_order_id entry_order = None"
  by (simp_all add: trade_builder_stop_loss_latched_def trade_builder_should_retry_after_processing_error_def
      trade_builder_should_retry_exit_sell_def entry_order_def)

lemma unrecorded_request_lost_witness:
  "\<forall>p. \<exists>t r'. send_and_record refused_submit entry_order half_price p calm_sizes 0 calm_checked (calm_world [entry_order]) = (Inl ''gone'', t) \<and>
    sent 7 t = [(calm_request, ''x'')] \<and> order_row 7 t = Some entry_order \<and>
    order_row 7 (snd (processing_failed (se_stmt refused_submit) entry_order ''gone'' t)) = Some r' \<and>
    o_status r' = ''error'' \<and> \<not> trade_builder_order_requires_housekeeping r'"
proof
  fix p
  let ?s = "calm_world [entry_order]"
  have calls: "bw_calls ?s = 0" "sent 7 ?s = []" by (simp_all add: calm_world_def sent_def)
  have place: "se_place refused_submit (sq_request calm_checked) (bw_calls ?s) = Inr calm_ack"
    "se_latest_flow_payload refused_submit (o_id entry_order) (Suc (bw_calls ?s)) = Inr None"
    by (simp_all add: refused_submit_def calm_submit_def)
  have attempt: "at_deferred (sq_attempt calm_checked) = no_deferred_events" by (simp add: calm_checked_def calm_outcome_def)
  have answers: "sv_answer (se_stmt refused_submit) (bw_calls ?s + 2) = Refused ''gone''"
    "bw_calls ?s + 2 < n \<Longrightarrow> sv_answer (se_stmt refused_submit) n = Done" for n
    by (simp_all add: refused_submit_def calls)
  have row: "order_row (o_id entry_order) ?s = Some entry_order" using entry_due(1) by simp
  from unrecorded_request_lost [OF place(1) attempt place(2) answers row entry_not_retried(3,2), where p = p and sub = half_price and
      z = calm_sizes and started = 0]
  show "\<exists>t r'. send_and_record refused_submit entry_order half_price p calm_sizes 0 calm_checked (calm_world [entry_order]) = (Inl ''gone'', t) \<and>
    sent 7 t = [(calm_request, ''x'')] \<and> order_row 7 t = Some entry_order \<and>
    order_row 7 (snd (processing_failed (se_stmt refused_submit) entry_order ''gone'' t)) = Some r' \<and>
    o_status r' = ''error'' \<and> \<not> trade_builder_order_requires_housekeeping r'"
    using entry_not_retried(1) calls(2) by (auto simp: calm_checked_def accepted_id_def calm_ack_def)
qed

text \<open>C37: A failed synchronisation of fills abandons the order whose turn it is. The first order of a user in a pass of the
  housekeeping asks for the fills of the user; when that fails, the order itself is not looked at: its row becomes an error
  that keeps its id at the exchange, nothing is sent or canceled, the user counts as synchronised, and the row is not processed again. It is assumed that the
  configuration of the user was loaded, that the statements after the failure are answered, and that the row is neither a latched stop loss nor a
  sell that is retried after an error.\<close>

theorem failed_fill_sync_abandons_order:
  assumes "pe_load_user pe (o_user_id order) (bw_calls s) = Inr ()" "o_user_id order \<notin> synced"
    and "pe_sync_fills pe (o_user_id order) (b_tick s) = (Inl e, s')" "\<And>n. bw_calls s' \<le> n \<Longrightarrow> sv_answer (pe_stmt pe) n = Done"
    and "order_row (o_id order) s' = Some r" "\<not> trade_builder_should_retry_after_processing_error snapshot_str r"
    and "\<not> trade_builder_stop_loss_latched r"
  shows "\<exists>t r'. housekeep_order pe held order synced s = (Inr (insert (o_user_id order) synced), t) \<and> order_row (o_id order) t = Some r' \<and>
    o_status r' = ''error'' \<and> o_last_error r' = Some e \<and> o_active_exchange_order_id r' = o_active_exchange_order_id r \<and>
    \<not> trade_builder_order_requires_housekeeping r' \<and> sent (o_id order) t = sent (o_id order) s'"
proof -
  note failed = failed_row [OF assms(4,5,6), where e = e]
  obtain t where t: "processing_failed (pe_stmt pe) order e s' = (Inr (), t)" using failed(3) by (metis prod.collapse)
  then have "housekeep_order pe held order synced s = (Inr (insert (o_user_id order) synced), t)"
    by (simp add: housekeep_order_def st_bind_def st_then_def st_try_def b_ask_def assms(1-3) st_return_def)
  then show ?thesis
    using failed(1,2) [unfolded t] failed_row_left [OF assms(7)] by (auto simp: set_trade_builder_order_status_def)
qed

lemma failed_fill_sync_abandons_order_witness:
  "let order = entry_order\<lparr>o_status := ''open'', o_active_exchange_order_id := Some ''x''\<rparr>;
       pe = calm_process\<lparr>pe_sync_fills := (\<lambda>_ s. (Inl ''timeout'', s))\<rparr>;
       t = snd (housekeep_order pe {} order {} (calm_world [order]))
   in map_option o_status (order_row 7 t) = Some ''error'' \<and> map_option o_active_exchange_order_id (order_row 7 t) = Some (Some ''x'')"
proof -
  let ?order = "entry_order\<lparr>o_status := ''open'', o_active_exchange_order_id := Some ''x''\<rparr>"
  let ?pe = "calm_process\<lparr>pe_sync_fills := (\<lambda>_ s. (Inl ''timeout'', s))\<rparr>"
  let ?s = "calm_world [?order]"
  have "pe_load_user ?pe (o_user_id ?order) (bw_calls ?s) = Inr ()"
    "pe_sync_fills ?pe (o_user_id ?order) (b_tick ?s) = (Inl ''timeout'', b_tick ?s)" "sv_answer (pe_stmt ?pe) n = Done" for n
    by (simp_all add: calm_process_def calm_stmt_def)
  moreover have "order_row (o_id ?order) (b_tick ?s) = Some ?order" by (simp add: order_row_def calm_world_def b_tick_def)
  moreover have "\<not> trade_builder_should_retry_after_processing_error snapshot_str ?order" "\<not> trade_builder_stop_loss_latched ?order"
    using entry_not_retried(1,2) by (simp_all add: trade_builder_stop_loss_latched_def trade_builder_should_retry_after_processing_error_def
      trade_builder_should_retry_exit_sell_def trade_builder_is_child_exit_sell_def)
  ultimately show ?thesis
    using failed_fill_sync_abandons_order [of ?pe ?order ?s "{}" "''timeout''" "b_tick ?s" ?order "{}"] by (auto simp: Let_def)
qed

text \<open>C40: An order whose time is over is marked as expired and its id at the exchange is erased, with two statements and
  nothing else: the order at the exchange is not canceled, and nothing processes the row again.\<close>

theorem expiry_forgets_open_order:
  assumes "\<And>n. sv_answer (pe_stmt pe) n = Done" "admissible order" "o_triggers_fired order < o_max_triggers order"
    and "o_expires_at order = Some e" "e \<le> sv_now (pe_stmt pe) (bw_calls s)" "order_row (o_id order) s = Some order"
    and "\<And>why. se_abort_pair (pe_submit pe) order why = st_return ()"
  shows "let t = snd (admit_order pe order s) in bw_ops t = bw_ops s @ [ClearTradeBuilderActiveExchangeOrder (o_id order) ''expired'',
      ExitOp (AppendTradeBuilderOrderEvent (o_id order) ''expired'' [(''expires_at'', EvStr (sv_rfc3339 (pe_stmt pe) e))])] \<and>
    sent (o_id order) t = sent (o_id order) s \<and> (\<exists>r. order_row (o_id order) t = Some r \<and> o_active_exchange_order_id r = None \<and>
      o_status r = ''expired'' \<and> \<not> trade_builder_order_requires_housekeeping r)"
proof -
  have "o_status order \<noteq> ''expired''" "o_status order \<noteq> ''completed''"
    using assms(2) by (auto simp: admissible_def is_trade_builder_order_processable_status_def)
  then have run: "admit_order pe order s = st_then (expire_order (pe_submit pe) order e) (st_return None) s"
    using assms(2-5) by (simp add: admit_order_def Let_def b_now_def st_get_def filter_opt_def)
  show ?thesis
    using assms(1,6,7) \<open>o_status order \<noteq> ''expired''\<close> \<open>o_status order \<noteq> ''completed''\<close>
    by (simp add: run expire_order_def st_then_def st_bind_def st_return_def b_event_def answered_write order_row_op op_row_def Let_def
        clear_trade_builder_active_exchange_order_def trade_builder_order_requires_housekeeping_def
        trade_builder_order_uses_ws_fast_path_def) (simp add: apply_op_def b_tick_def)
qed

lemma expiry_forgets_open_order_witness:
  "let order = entry_order\<lparr>o_status := ''open'', o_active_exchange_order_id := Some ''x'', o_expires_at := Some 500\<rparr>;
       t = snd (admit_order calm_process order (accept_order 7 calm_request calm_ack (calm_world [order])))
   in sent 7 t = [(calm_request, ''x'')] \<and> map_option o_active_exchange_order_id (order_row 7 t) = Some None"
proof -
  let ?order = "entry_order\<lparr>o_status := ''open'', o_active_exchange_order_id := Some ''x'', o_expires_at := Some 500\<rparr>"
  let ?s = "accept_order 7 calm_request calm_ack (calm_world [?order])"
  have "sv_answer (pe_stmt calm_process) n = Done" "500 \<le> sv_now (pe_stmt calm_process) n" "se_abort_pair (pe_submit calm_process) o' why = st_return ()"
    for n o' why by (simp_all add: calm_process_def calm_stmt_def calm_submit_def)
  moreover have "admissible ?order" "o_triggers_fired ?order < o_max_triggers ?order"
    by (simp_all add: admissible_def is_trade_builder_order_processable_status_def entry_order_def)
  moreover have "order_row (o_id ?order) ?s = Some ?order" by (simp add: order_row_def accept_order_def calm_world_def)
  moreover have "sent 7 ?s = [(calm_request, ''x'')]" by (simp add: sent_def accept_order_def calm_world_def accepted_id_def calm_ack_def)
  ultimately show ?thesis
    using expiry_forgets_open_order [of calm_process "?order" 500 "?s"] by (auto simp: Let_def)
qed

section \<open>The type of an order\<close>

text \<open>A market buy is rechecked and topped up only as FAK or FOK. A flow that asks for IOC gets FAK; the default of the
  execution mode is IOC itself, which skips both.\<close>

lemma default_ioc_unchecked:
  "normalize_trade_builder_clob_order_type ''IOC'' = Some ''FAK'' \<and>
    trade_builder_pre_submit_recheck_eligible (order\<lparr>o_side := ''buy''\<rparr>) ''FAK'' \<and>
    (let order_type = clob_order_type_for_execution_mode (normalize_trade_builder_execution_mode (o_execution_mode order))
     in order_type = ''IOC'' \<and>
       maybe_apply_trade_builder_pre_submit_book_recheck se order current_price best_ask order_type basis retries a = st_return (Some a) \<and>
       trade_builder_marketable_buy_min_notional_top_up side order_type basis price qty cap = None)"
proof -
  have "normalize_trade_builder_clob_order_type ''IOC'' = Some ''FAK''" by code_simp
  then show ?thesis
    by (simp add: market_kind maybe_apply_trade_builder_pre_submit_book_recheck_def trade_builder_pre_submit_recheck_eligible_def
        trade_builder_marketable_buy_min_notional_top_up_def)
qed

section \<open>Guards\<close>

lemma effective_guard:
  fixes order sub price force
  defines "g \<equiv> submit_guards order sub price force"
  shows "(bg_effective_decision g, bg_effective_reason_code g) = (case bg_pair_lock_market_waiting_reason g of Some why \<Rightarrow> (''waiting'', why) | None \<Rightarrow>
    if bg_trigger_price_guard_blocked g then (waits_or_blocks (o_retry_on_trigger_guard_block order \<or> force), ''below_trigger_price_guard'')
    else case bg_execution_floor_reason g of Some why \<Rightarrow> (waits_or_blocks (trade_builder_execution_floor_should_wait order why \<or> force), why)
    | None \<Rightarrow> if bg_max_price_blocked g then (waits_or_blocks (o_retry_on_max_price_block order \<or> force), ''above_max_price'')
        else (''passed'', ''guards_passed''))"
  unfolding g_def submit_guards_def evaluate_trade_builder_buy_guards_def trade_builder_execution_floor_should_wait_def
  by (simp only: Let_def case_prod_beta buy_guard_evaluation.simps prod.collapse disj_assoc)

lemma guard_diagnostics_exact:
  "case first_refusal order sub price (submit_guards order sub price force) force of
     None \<Rightarrow> bg_effective_decision (submit_guards order sub price force) = ''passed''
   | Some r \<Rightarrow> bg_effective_decision (submit_guards order sub price force) = waits_or_blocks (gr_waits r) \<and>
       bg_effective_reason_code (submit_guards order sub price force) = gr_reason r"
  using effective_guard [of order sub price force]
  by (simp add: first_refusal_def pair_refusal_def trigger_refusal_def floor_refusal_def max_refusal_def waits_or_blocks_def [of True]
      split: option.splits if_splits)

end
