(* ===== verification/Flow_State.thy ===== *)
theory Flow_State
  imports Json_Decimal Exit_Ladders "HOL-Library.AList"
begin

text \<open>
  The graphs of the flow engine and what a run keeps between its steps (\<open>lib_parts/part_010.rs\<close>, \<open>part_012.rs\<close>,
  \<open>part_019.rs\<close>, \<open>part_020.rs\<close>): the run context as a JSON value with its sections, the state of a node in it, the
  marks of a trigger that may fire once, JSON-logic conditions and the edges a step follows. What
  \<open>serde_json\<close>, \<open>f64::from_str\<close> and chrono compute from texts is the environment \<open>flow_env\<close>.
\<close>

record flow_env =
  fe_as_i64 :: "string \<Rightarrow> i64 option"
  fe_as_f64 :: "string \<Rightarrow> f64 option"
  fe_parse_f64 :: "string \<Rightarrow> f64 option"
  fe_number :: "f64 \<Rightarrow> string"
  fe_rfc3339 :: "i64 \<Rightarrow> string"
  fe_parse_rfc3339 :: "string \<Rightarrow> i64 option"

section \<open>JSON objects\<close>

fun is_object :: "json \<Rightarrow> bool" where
  "is_object (JObj _) \<longleftrightarrow> True"
| "is_object _ \<longleftrightarrow> False"

definition object_of :: "json \<Rightarrow> (string \<times> json) list" where
  "object_of v = unwrap_or [] (json_object v)"

definition obj_insert :: "string \<Rightarrow> json \<Rightarrow> json \<Rightarrow> json" where
  "obj_insert key value v = JObj (AList.update key value (object_of v))"

fun obj_remove :: "string \<Rightarrow> json \<Rightarrow> json" where
  "obj_remove key (JObj kvs) = JObj (AList.delete key kvs)"
| "obj_remove key v = v"

lemma get_insert [simp]: "json_get (obj_insert k x v) k' = (if k' = k then Some x else json_get v k')"
  by (cases v) (simp_all add: obj_insert_def object_of_def update_conv' unwrap_or_def)

lemma get_remove [simp]: "json_get (obj_remove k v) k' = (if k' = k then None else json_get v k')"
  by (cases v) (simp_all add: delete_conv')

lemma is_object_insert [simp]: "is_object (obj_insert k x v)"
  by (simp add: obj_insert_def)

lemma is_object_remove [simp]: "is_object (obj_remove k v) = is_object v"
  by (cases v) simp_all

fun number_or_text :: "json \<Rightarrow> string option" where
  "number_or_text (JStr v) = Some (trim v)"
| "number_or_text (JNum v) = Some v"
| "number_or_text _ = None"

definition non_empty :: "string option \<Rightarrow> string option" where
  "non_empty v = filter_opt (\<lambda>s. s \<noteq> []) v"

definition trimmed :: "string option \<Rightarrow> string option" where
  "trimmed v = non_empty (map_option trim v)"

text \<open>Trimming twice is trimming once.\<close>

lemma trim_with_suffix: "\<exists>p. s = p @ trim_with ws s"
proof (induction ws s rule: trim_with.induct)
  case (1 ws s)
  show ?case
  proof (cases "find (\<lambda>w. w \<noteq> [] \<and> starts_with s w) ws")
    case None
    then show ?thesis by (subst trim_with.simps) simp
  next
    case (Some w)
    then obtain t where t: "s = w @ t" by (auto simp: find_Some_iff starts_with_iff)
    from 1 [OF Some] obtain p where "drop (length w) s = p @ trim_with ws (drop (length w) s)" ..
    with t have "s = (w @ p) @ trim_with ws (drop (length w) s)" by simp
    moreover have "trim_with ws s = trim_with ws (drop (length w) s)" using Some by (subst trim_with.simps) simp
    ultimately show ?thesis by metis
  qed
qed

lemma trim_with_stays: "(\<And>w. w \<in> set ws \<Longrightarrow> w \<noteq> [] \<Longrightarrow> \<not> starts_with s w) \<Longrightarrow> trim_with ws s = s"
proof -
  assume "\<And>w. w \<in> set ws \<Longrightarrow> w \<noteq> [] \<Longrightarrow> \<not> starts_with s w"
  then have "find (\<lambda>w. w \<noteq> [] \<and> starts_with s w) ws = None" by (auto simp: find_None_iff)
  then show ?thesis by (subst trim_with.simps) simp
qed

lemma trim_trim [simp]: "trim (trim s) = trim s"
proof -
  let ?f = "trim_with white_space s"
  obtain p where p: "rev ?f = p @ rev (trim s)" using trim_with_suffix [of "rev ?f"] by (auto simp: trim_def)
  then have f: "?f = trim s @ rev p" by (metis rev_append rev_rev_ident)
  have "trim_with white_space (trim s) = trim s"
  proof (rule trim_with_stays)
    fix w assume "w \<in> set white_space" "w \<noteq> []"
    then have "\<not> starts_with ?f w" by (rule trim_with_starts)
    then show "\<not> starts_with (trim s) w" unfolding f by (auto simp: starts_with_iff)
  qed
  moreover have "trim_with (map rev white_space) (rev (trim s)) = rev (trim s)"
    by (rule trim_with_stays) (simp add: trim_def trim_with_starts)
  ultimately show ?thesis by (subst trim_def) simp
qed

lemma trimmed_trimmed: "trimmed v = Some s \<Longrightarrow> trim s = s \<and> s \<noteq> []"
  by (auto simp: trimmed_def non_empty_def filter_opt_Some)

definition f64_as_i64 :: "f64 \<Rightarrow> i64" where
  "f64_as_i64 x = (case x of Fin r \<Rightarrow> sat_i64 (if r < 0 then \<lceil>r\<rceil> else \<lfloor>r\<rfloor>) | PInf \<Rightarrow> i64_max | NInf \<Rightarrow> i64_min | _ \<Rightarrow> 0)"

fun value_truthy :: "flow_env \<Rightarrow> json \<Rightarrow> bool" where
  "value_truthy fe JNull \<longleftrightarrow> False"
| "value_truthy fe (JBool v) \<longleftrightarrow> v"
| "value_truthy fe (JNum v) \<longleftrightarrow> unwrap_or False (map_option (\<lambda>n. \<not> feq n 0) (fe_as_f64 fe v))"
| "value_truthy fe (JStr v) \<longleftrightarrow> (let normalized = to_lowercase (trim v)
     in normalized \<noteq> [] \<and> normalized \<noteq> ''false'' \<and> normalized \<noteq> ''0'')"
| "value_truthy fe (JArr v) \<longleftrightarrow> v \<noteq> []"
| "value_truthy fe (JObj v) \<longleftrightarrow> v \<noteq> []"

fun value_as_f64 :: "flow_env \<Rightarrow> json \<Rightarrow> f64 option" where
  "value_as_f64 fe (JNum v) = fe_as_f64 fe v"
| "value_as_f64 fe (JStr v) = fe_parse_f64 fe v"
| "value_as_f64 fe (JBool v) = Some (if v then 1 else 0)"
| "value_as_f64 fe _ = None"

fun value_as_i64 :: "flow_env \<Rightarrow> json \<Rightarrow> i64 option" where
  "value_as_i64 fe (JNum v) = or_opt (fe_as_i64 fe v) (map_option f64_as_i64 (fe_as_f64 fe v))"
| "value_as_i64 fe (JStr v) = parse_i64 v"
| "value_as_i64 fe _ = None"

definition json_i64 :: "i64 \<Rightarrow> json" where
  "json_i64 n = JNum (show_i64 n)"

definition json_opt :: "string option \<Rightarrow> json" where
  "json_opt v = (case v of None \<Rightarrow> JNull | Some s \<Rightarrow> JStr s)"

section \<open>Nodes and edges\<close>

record trade_flow_node =
  fn_key :: string
  fn_node_type :: string
  fn_config :: json

record trade_flow_edge =
  fd_source :: string
  fd_target :: string
  fd_edge_type :: string
  fd_condition :: "json option"

record trade_flow_graph_runtime =
  fg_context :: json
  fg_nodes :: "trade_flow_node list"
  fg_edges :: "trade_flow_edge list"

definition node_config_i64 :: "flow_env \<Rightarrow> trade_flow_node \<Rightarrow> string \<Rightarrow> i64 option" where
  "node_config_i64 fe node key = Option.bind (json_get (fn_config node) key) (value_as_i64 fe)"

definition bool_of_text :: "string \<Rightarrow> bool option" where
  "bool_of_text v = (let normalized = to_ascii_lowercase (trim v)
     in if normalized \<in> {''true'', ''1'', ''yes'', ''y'', ''on''} then Some True
        else if normalized \<in> {''false'', ''0'', ''no'', ''n'', ''off''} then Some False else None)"

fun value_as_bool :: "flow_env \<Rightarrow> json \<Rightarrow> bool option" where
  "value_as_bool fe (JBool v) = Some v"
| "value_as_bool fe (JNum v) = or_opt (map_option (\<lambda>n. n \<noteq> 0) (fe_as_i64 fe v)) (map_option (\<lambda>n. \<not> feq n 0) (fe_as_f64 fe v))"
| "value_as_bool fe (JStr v) = bool_of_text v"
| "value_as_bool fe _ = None"

definition node_config_bool :: "flow_env \<Rightarrow> trade_flow_node \<Rightarrow> string \<Rightarrow> bool option" where
  "node_config_bool fe node key = Option.bind (json_get (fn_config node) key) (value_as_bool fe)"

definition node_repeat_mode :: "trade_flow_node \<Rightarrow> string" where
  "node_repeat_mode node = unwrap_or ''loop'' (Option.bind (json_get (fn_config node) ''repeatMode'') json_str)"

definition node_market_mode :: "trade_flow_node \<Rightarrow> string" where
  "node_market_mode node =
    (if map_option (\<lambda>v. to_ascii_lowercase (trim v)) (Option.bind (json_get (fn_config node) ''marketMode'') json_str) = Some ''auto_scope''
     then ''auto_scope'' else ''fixed'')"

definition trigger_market_once_scope_version_current :: i64 where
  "trigger_market_once_scope_version_current = 2"

definition node_trigger_market_once_scope_version :: "flow_env \<Rightarrow> trade_flow_node \<Rightarrow> i64" where
  "node_trigger_market_once_scope_version fe node = unwrap_or 0 (node_config_i64 fe node ''onceScopeVersion'')"

definition is_trade_flow_market_price_once_node :: "trade_flow_node \<Rightarrow> bool" where
  "is_trade_flow_market_price_once_node node \<longleftrightarrow> fn_node_type node = ''trigger.market_price'' \<and> node_repeat_mode node = ''once''"

definition node_uses_legacy_auto_scope_once_scope :: "flow_env \<Rightarrow> trade_flow_node \<Rightarrow> bool" where
  "node_uses_legacy_auto_scope_once_scope fe node \<longleftrightarrow> is_trade_flow_market_price_once_node node
     \<and> node_market_mode node = ''auto_scope''
     \<and> node_trigger_market_once_scope_version fe node < trigger_market_once_scope_version_current"

definition node_once_scope :: "flow_env \<Rightarrow> trade_flow_node \<Rightarrow> string" where
  "node_once_scope fe node =
    (if node_uses_legacy_auto_scope_once_scope fe node then ''market''
     else if map_option (\<lambda>v. to_ascii_lowercase (trim v)) (Option.bind (json_get (fn_config node) ''onceScope'') json_str) = Some ''market''
     then ''market'' else ''run'')"

definition is_trade_flow_market_price_once_scope_market :: "flow_env \<Rightarrow> trade_flow_node \<Rightarrow> bool" where
  "is_trade_flow_market_price_once_scope_market fe node \<longleftrightarrow>
     is_trade_flow_market_price_once_node node \<and> node_once_scope fe node = ''market''"

definition flow_node :: "trade_flow_graph_runtime \<Rightarrow> string \<Rightarrow> trade_flow_node option" where
  "flow_node graph key = find (\<lambda>node. fn_key node = key) (fg_nodes graph)"

section \<open>The state of a node in the context\<close>

definition ensure_object_mut :: "json \<Rightarrow> json" where
  "ensure_object_mut v = (if is_object v then v else JObj [])"

definition add_section :: "string \<Rightarrow> json \<Rightarrow> json \<Rightarrow> json" where
  "add_section key value ctx =
    (if (case json_get ctx key of None \<Rightarrow> False | Some v \<Rightarrow> is_object v) then ctx else obj_insert key value ctx)"

definition normalize_trade_flow_context :: "json \<Rightarrow> json \<Rightarrow> json" where
  "normalize_trade_flow_context context_json graph_context =
     fold (\<lambda>key. add_section key (JObj [])) [''vars'', ''state'', ''refs'', ''nodeState'']
       (add_section ''flowContext'' (ensure_object_mut graph_context) (ensure_object_mut context_json))"

definition nested_object :: "json \<Rightarrow> string \<Rightarrow> json" where
  "nested_object v key = (case json_get v key of None \<Rightarrow> JObj [] | Some w \<Rightarrow> ensure_object_mut w)"

definition set_flow_node_state :: "string \<Rightarrow> string \<Rightarrow> json \<Rightarrow> json \<Rightarrow> json" where
  "set_flow_node_state node_key state_key value ctx =
    (let node_state = nested_object ctx ''nodeState''; node = nested_object node_state node_key
     in obj_insert ''nodeState'' (obj_insert node_key (obj_insert state_key value node) node_state) ctx)"

definition remove_flow_node_state :: "string \<Rightarrow> string \<Rightarrow> json \<Rightarrow> json" where
  "remove_flow_node_state node_key state_key ctx =
    (case json_get ctx ''nodeState'' of
       None \<Rightarrow> ctx
     | Some node_state \<Rightarrow>
        if \<not> is_object node_state then ctx
        else case json_get node_state node_key of
            None \<Rightarrow> ctx
          | Some node \<Rightarrow>
             if \<not> is_object node then ctx
             else obj_insert ''nodeState'' (obj_insert node_key (obj_remove state_key node) node_state) ctx)"

definition flow_node_state :: "json \<Rightarrow> string \<Rightarrow> string \<Rightarrow> json option" where
  "flow_node_state ctx node_key state_key =
     Option.bind (json_get ctx ''nodeState'') (\<lambda>node_state. Option.bind (json_get node_state node_key) (\<lambda>node. json_get node state_key))"

definition flow_node_state_string :: "json \<Rightarrow> string \<Rightarrow> string \<Rightarrow> string option" where
  "flow_node_state_string ctx node_key state_key = non_empty (Option.bind (flow_node_state ctx node_key state_key) number_or_text)"

definition flow_node_state_truthy :: "flow_env \<Rightarrow> json \<Rightarrow> string \<Rightarrow> string \<Rightarrow> bool" where
  "flow_node_state_truthy fe ctx node_key state_key =
     unwrap_or False (map_option (value_truthy fe) (flow_node_state ctx node_key state_key))"

definition flow_node_state_i64 :: "flow_env \<Rightarrow> json \<Rightarrow> string \<Rightarrow> string \<Rightarrow> i64 option" where
  "flow_node_state_i64 fe ctx node_key state_key =
     Option.bind (flow_node_state ctx node_key state_key) (\<lambda>v. case v of JNum n \<Rightarrow> fe_as_i64 fe n | _ \<Rightarrow> None)"

lemma nested_get: "json_get (nested_object v key) k = Option.bind (json_get v key) (\<lambda>w. json_get w k)"
  by (auto simp: nested_object_def ensure_object_mut_def split: option.split) (case_tac x2, simp_all)

lemma state_set [simp]: "flow_node_state (set_flow_node_state n k x ctx) n' k'
    = (if n' = n \<and> k' = k then Some x else flow_node_state ctx n' k')"
  by (simp add: flow_node_state_def set_flow_node_state_def Let_def nested_get Option.bind_assoc)

lemma state_remove [simp]: "flow_node_state (remove_flow_node_state n k ctx) n' k'
    = (if n' = n \<and> k' = k then None else flow_node_state ctx n' k')"
proof -
  have no: "\<not> is_object v \<Longrightarrow> json_get v i = None" for v i by (cases v) simp_all
  show ?thesis
    by (auto simp: flow_node_state_def remove_flow_node_state_def no split: option.split)
qed

lemma string_set [simp]: "flow_node_state_string (set_flow_node_state n k x ctx) n' k'
    = (if n' = n \<and> k' = k then non_empty (number_or_text x) else flow_node_state_string ctx n' k')"
  by (simp add: flow_node_state_string_def)

lemma string_remove [simp]: "flow_node_state_string (remove_flow_node_state n k ctx) n' k'
    = (if n' = n \<and> k' = k then None else flow_node_state_string ctx n' k')"
  by (simp add: flow_node_state_string_def non_empty_def filter_opt_def)

lemma truthy_set [simp]: "flow_node_state_truthy fe (set_flow_node_state n k x ctx) n' k'
    = (if n' = n \<and> k' = k then value_truthy fe x else flow_node_state_truthy fe ctx n' k')"
  by (simp add: flow_node_state_truthy_def unwrap_or_def)

lemma truthy_remove [simp]: "flow_node_state_truthy fe (remove_flow_node_state n k ctx) n' k'
    = (if n' = n \<and> k' = k then False else flow_node_state_truthy fe ctx n' k')"
  by (simp add: flow_node_state_truthy_def unwrap_or_def)

lemma i64_set [simp]: "flow_node_state_i64 fe (set_flow_node_state n k x ctx) n' k'
    = (if n' = n \<and> k' = k then (case x of JNum v \<Rightarrow> fe_as_i64 fe v | _ \<Rightarrow> None) else flow_node_state_i64 fe ctx n' k')"
  by (simp add: flow_node_state_i64_def)

lemma i64_remove [simp]: "flow_node_state_i64 fe (remove_flow_node_state n k ctx) n' k'
    = (if n' = n \<and> k' = k then None else flow_node_state_i64 fe ctx n' k')"
  by (simp add: flow_node_state_i64_def)

section \<open>Triggers that fire once\<close>

definition ns_once_fired :: string where "ns_once_fired = ''once_fired''"
definition ns_once_fired_at :: string where "ns_once_fired_at = ''once_fired_at''"
definition ns_once_fired_market_slug :: string where "ns_once_fired_market_slug = ''once_fired_market_slug''"
definition ns_once_block_logged :: string where "ns_once_block_logged = ''once_blocked_logged''"
definition ns_reentry_generation :: string where "ns_reentry_generation = ''reentry_generation''"
definition ns_reentry_attempts_used :: string where "ns_reentry_attempts_used = ''reentry_attempts_used''"
definition ns_reentry_market_slug :: string where "ns_reentry_market_slug = ''reentry_market_slug''"
definition ns_lock_market_slug :: string where "ns_lock_market_slug = ''publish_auto_scope_locked_market_slug''"

lemmas ns_defs = ns_once_fired_def ns_once_fired_at_def ns_once_fired_market_slug_def ns_once_block_logged_def
  ns_reentry_generation_def ns_reentry_attempts_used_def ns_reentry_market_slug_def ns_lock_market_slug_def

lemma ns_distinct [simp]: "distinct [ns_once_fired, ns_once_fired_at, ns_once_fired_market_slug, ns_once_block_logged,
    ns_reentry_generation, ns_reentry_attempts_used, ns_reentry_market_slug, ns_lock_market_slug]"
  by (simp add: ns_defs)

definition flow_node_reentry_generation :: "flow_env \<Rightarrow> json \<Rightarrow> string \<Rightarrow> i64" where
  "flow_node_reentry_generation fe ctx node_key = unwrap_or 0 (flow_node_state_i64 fe ctx node_key ns_reentry_generation)"

definition flow_node_reentry_attempts_used :: "flow_env \<Rightarrow> json \<Rightarrow> string \<Rightarrow> i64" where
  "flow_node_reentry_attempts_used fe ctx node_key = unwrap_or 0 (flow_node_state_i64 fe ctx node_key ns_reentry_attempts_used)"

definition flow_node_reentry_market_slug :: "json \<Rightarrow> string \<Rightarrow> string option" where
  "flow_node_reentry_market_slug ctx node_key = trimmed (flow_node_state_string ctx node_key ns_reentry_market_slug)"

definition resolve_trade_flow_reentry_attempts_for_market :: "flow_env \<Rightarrow> json \<Rightarrow> string \<Rightarrow> string \<Rightarrow> i64 \<times> string option" where
  "resolve_trade_flow_reentry_attempts_for_market fe ctx node_key market_slug =
    (let stored = flow_node_reentry_market_slug ctx node_key
     in (if stored = Some market_slug then flow_node_reentry_attempts_used fe ctx node_key else 0, stored))"

definition trade_flow_market_price_once_idempotency_key :: "i64 \<Rightarrow> string \<Rightarrow> bool \<Rightarrow> string option \<Rightarrow> i64 \<Rightarrow> string" where
  "trade_flow_market_price_once_idempotency_key run_id node_key once_scope_market market_slug generation =
    (let base = ''flow-once-fired:'' @ show_i64 run_id @ '':'' @ node_key
           @ (if once_scope_market then '':'' @ unwrap_or ''unknown-market'' (trimmed market_slug) else [])
     in if 0 < generation then base @ '':gen'' @ show_i64 generation else base)"

definition trade_flow_market_price_once_fired_for_scope :: "flow_env \<Rightarrow> json \<Rightarrow> string \<Rightarrow> bool \<Rightarrow> string option \<Rightarrow> bool" where
  "trade_flow_market_price_once_fired_for_scope fe ctx node_key once_scope_market market_slug =
    (let current = trimmed market_slug
     in if current \<noteq> None \<and> flow_node_state_string ctx node_key ns_lock_market_slug = current then True
        else if \<not> flow_node_state_truthy fe ctx node_key ns_once_fired then False
        else if \<not> once_scope_market then True
        else current \<noteq> None \<and> flow_node_state_string ctx node_key ns_once_fired_market_slug = current)"

definition clear_trade_flow_market_price_once_state :: "string \<Rightarrow> json \<Rightarrow> json" where
  "clear_trade_flow_market_price_once_state node_key ctx =
     fold (remove_flow_node_state node_key)
       [ns_once_fired, ns_once_fired_at, ns_once_fired_market_slug, ns_once_block_logged, ns_lock_market_slug] ctx"

definition clear_trade_flow_market_price_rotation_state :: "string \<Rightarrow> json \<Rightarrow> json" where
  "clear_trade_flow_market_price_rotation_state node_key ctx =
     remove_flow_node_state node_key ns_reentry_generation (clear_trade_flow_market_price_once_state node_key ctx)"

definition sync_trade_flow_market_price_once_scope_state :: "flow_env \<Rightarrow> string \<Rightarrow> bool \<Rightarrow> string option \<Rightarrow> json \<Rightarrow> json" where
  "sync_trade_flow_market_price_once_scope_state fe node_key once_scope_market market_slug ctx =
    (let current = trimmed market_slug;
         ctx1 = (case (flow_node_state_string ctx node_key ns_lock_market_slug, current) of
             (Some locked, Some c) \<Rightarrow> if c \<noteq> locked then remove_flow_node_state node_key ns_lock_market_slug ctx else ctx
           | _ \<Rightarrow> ctx)
     in if \<not> once_scope_market then ctx1
        else case current of
            None \<Rightarrow> ctx1
          | Some c \<Rightarrow>
             (case flow_node_state_string ctx1 node_key ns_once_fired_market_slug of
                None \<Rightarrow> if flow_node_state_truthy fe ctx1 node_key ns_once_fired
                  then clear_trade_flow_market_price_once_state node_key ctx1 else ctx1
              | Some last_fired \<Rightarrow> if last_fired \<noteq> c then clear_trade_flow_market_price_once_state node_key ctx1 else ctx1))"

definition mark_trade_flow_market_price_once_fired :: "flow_env \<Rightarrow> string \<Rightarrow> i64 \<Rightarrow> string option \<Rightarrow> json \<Rightarrow> json" where
  "mark_trade_flow_market_price_once_fired fe node_key fired_at market_slug ctx =
    (let ctx1 = set_flow_node_state node_key ns_once_fired_at (JStr (fe_rfc3339 fe fired_at))
           (set_flow_node_state node_key ns_once_fired (JBool True) (remove_flow_node_state node_key ns_lock_market_slug ctx));
         ctx2 = (case trimmed market_slug of
             Some slug \<Rightarrow> set_flow_node_state node_key ns_once_fired_market_slug (JStr slug) ctx1
           | None \<Rightarrow> remove_flow_node_state node_key ns_once_fired_market_slug ctx1)
     in set_flow_node_state node_key ns_once_block_logged (JBool False) ctx2)"

section \<open>Marking and clearing\<close>

lemma fired_after_mark:
  assumes "once_scope_market \<Longrightarrow> trimmed (Some slug) \<noteq> None"
  shows "trade_flow_market_price_once_fired_for_scope fe
    (mark_trade_flow_market_price_once_fired fe n t (then_some once_scope_market slug) ctx) n once_scope_market (Some slug)"
proof (cases once_scope_market)
  case True
  with assms obtain s where s: "trimmed (Some slug) = Some s" by auto
  then have "non_empty (Some s) = Some s" "trim s = s" using trimmed_trimmed [OF s] by (simp_all add: non_empty_def)
  then show ?thesis using True s ns_distinct
    by (simp add: trade_flow_market_price_once_fired_for_scope_def mark_trade_flow_market_price_once_fired_def then_some_def Let_def)
next
  case False
  then show ?thesis using ns_distinct
    by (simp add: trade_flow_market_price_once_fired_for_scope_def mark_trade_flow_market_price_once_fired_def then_some_def
        trimmed_def non_empty_def Let_def)
qed

lemma fired_other_mark: "n' \<noteq> n \<Longrightarrow> trade_flow_market_price_once_fired_for_scope fe (mark_trade_flow_market_price_once_fired fe n t slug ctx) n' scope m
    = trade_flow_market_price_once_fired_for_scope fe ctx n' scope m"
  by (simp add: trade_flow_market_price_once_fired_for_scope_def mark_trade_flow_market_price_once_fired_def Let_def split: option.split)

lemma not_fired_after_clear: "\<not> trade_flow_market_price_once_fired_for_scope fe (clear_trade_flow_market_price_once_state n ctx) n scope m"
  by (simp add: trade_flow_market_price_once_fired_for_scope_def clear_trade_flow_market_price_once_state_def Let_def) auto

lemma no_object_get: "\<not> is_object v \<Longrightarrow> json_get v k = None"
  by (cases v) simp_all

lemma add_other_section [simp]: "key \<noteq> ''nodeState'' \<Longrightarrow> flow_node_state (add_section key v ctx) n k = flow_node_state ctx n k"
  by (simp add: add_section_def flow_node_state_def)

lemma add_node_state [simp]: "flow_node_state (add_section ''nodeState'' (JObj []) ctx) n k = flow_node_state ctx n k"
  by (simp add: add_section_def flow_node_state_def no_object_get split: option.split)

lemma ensure_object_state [simp]: "flow_node_state (ensure_object_mut ctx) n k = flow_node_state ctx n k"
  by (simp add: ensure_object_mut_def flow_node_state_def no_object_get)

lemma normalize_keeps_state [simp]: "flow_node_state (normalize_trade_flow_context ctx g) n k = flow_node_state ctx n k"
  by (simp add: normalize_trade_flow_context_def)

lemma normalize_keeps_fired [simp]: "trade_flow_market_price_once_fired_for_scope fe (normalize_trade_flow_context ctx g) n scope m
    = trade_flow_market_price_once_fired_for_scope fe ctx n scope m"
  by (simp add: trade_flow_market_price_once_fired_for_scope_def flow_node_state_string_def flow_node_state_truthy_def)

end
