(* ===== verification/Flow_Logic.thy ===== *)
theory Flow_Logic
  imports Flow_State
begin

text \<open>
  Conditions of edges (\<open>lib_parts/part_020.rs\<close>, \<open>part_012.rs\<close>): the evaluator of JSON logic over the context of a run
  and the output of its step, and the targets a finished step goes on to. The second half is a typed
  language of conditions with its meaning, and the proof that its JSON form evaluates to that meaning.
\<close>

section \<open>Paths\<close>

fun split_char :: "char \<Rightarrow> string \<Rightarrow> string list" where
  "split_char c [] = [[]]"
| "split_char c (x # xs) = (if x = c then [] # split_char c xs
     else case split_char c xs of [] \<Rightarrow> [[x]] | p # ps \<Rightarrow> (x # p) # ps)"

fun lookup_parts :: "json \<Rightarrow> string list \<Rightarrow> json option" where
  "lookup_parts value [] = Some value"
| "lookup_parts value (part # parts) = (let key = trim part
     in if key = [] then lookup_parts value parts
        else case json_get value key of None \<Rightarrow> None | Some v \<Rightarrow> lookup_parts v parts)"

definition lookup_json_path :: "json \<Rightarrow> string \<Rightarrow> json option" where
  "lookup_json_path value path = lookup_parts value (split_char CHR ''.'' path)"

definition lookup_jsonlogic_path :: "json \<Rightarrow> string \<Rightarrow> json option" where
  "lookup_jsonlogic_path data path =
    (if path = [] then Some data
     else case lookup_json_path data path of
         Some value \<Rightarrow> Some value
       | None \<Rightarrow>
          if CHR ''.'' \<in> set path then None
          else fold (\<lambda>section found. case found of Some v \<Rightarrow> Some v
                 | None \<Rightarrow> Option.bind (json_get data section) (\<lambda>v. json_get v path))
               [''vars'', ''state'', ''flowContext'', ''refs''] None)"

definition resolve_jsonlogic_var :: "json \<Rightarrow> json \<Rightarrow> json" where
  "resolve_jsonlogic_var args data =
    (case args of
       JStr path \<Rightarrow> unwrap_or JNull (lookup_jsonlogic_path data path)
     | JArr list \<Rightarrow>
         let path = unwrap_or [] (Option.bind (case list of [] \<Rightarrow> None | v # _ \<Rightarrow> Some v) json_str);
             fallback = (if 1 < length list then list ! 1 else JNull)
         in unwrap_or fallback (lookup_jsonlogic_path data path)
     | _ \<Rightarrow> JNull)"

section \<open>Operators\<close>

definition values_equal :: "flow_env \<Rightarrow> json \<Rightarrow> json \<Rightarrow> bool" where
  "values_equal fe left right =
    (case (value_as_f64 fe left, value_as_f64 fe right) of
       (Some l, Some r) \<Rightarrow> \<bar>l - r\<bar> \<le> lit (1 / 10000000)
     | _ \<Rightarrow> left = right)"

definition compare_op :: "string \<Rightarrow> f64 \<Rightarrow> f64 \<Rightarrow> bool" where
  "compare_op operator left right =
    (if operator = ''>'' then right < left else if operator = ''>='' then right \<le> left
     else if operator = ''<'' then left < right else if operator = ''<='' then left \<le> right else False)"

definition fproduct :: "f64 list \<Rightarrow> f64" where
  "fproduct xs = foldl (*) 1 xs"

definition arithmetic_op :: "string \<Rightarrow> f64 list \<Rightarrow> f64 option" where
  "arithmetic_op operator xs =
    (case xs of
       [] \<Rightarrow> None
     | x # rest \<Rightarrow>
        if operator = ''+'' then Some (fsum xs)
        else if operator = ''-'' then Some (if rest = [] then - x else x - fsum rest)
        else if operator = ''*'' then Some (fproduct xs)
        else if operator = ''/'' then (if rest = [] \<or> feq (hd rest) 0 then None else Some (x div hd rest))
        else None)"

fun if_op :: "flow_env \<Rightarrow> json list \<Rightarrow> json" where
  "if_op fe (c # x # rest) = (if value_truthy fe c then x else if_op fe rest)"
| "if_op fe [x] = x"
| "if_op fe [] = JNull"

definition operator_value :: "flow_env \<Rightarrow> string \<Rightarrow> json list \<Rightarrow> json" where
  "operator_value fe operator vals =
    (if operator \<in> {''=='', ''!=''} then
       (if length vals < 2 then JBool False
        else JBool (values_equal fe (vals ! 0) (vals ! 1) = (operator = ''=='')))
     else if operator \<in> {''>'', ''>='', ''<'', ''<=''} then
       (if length vals < 2 then JBool False
        else case (value_as_f64 fe (vals ! 0), value_as_f64 fe (vals ! 1)) of
            (Some left, Some right) \<Rightarrow> JBool (compare_op operator left right)
          | _ \<Rightarrow> JBool False)
     else if operator = ''and'' then JBool (list_all (value_truthy fe) vals)
     else if operator = ''or'' then JBool (list_ex (value_truthy fe) vals)
     else if operator = ''!'' then JBool (\<not> value_truthy fe (case vals of [] \<Rightarrow> JBool False | v # _ \<Rightarrow> v))
     else if operator \<in> {''+'', ''-'', ''*'', ''/''} then
       (case arithmetic_op operator (List.map_filter (value_as_f64 fe) vals) of
          None \<Rightarrow> JNull
        | Some computed \<Rightarrow> if is_finite computed then JNum (fe_number fe computed) else JNull)
     else if operator = ''if'' then if_op fe vals
     else JNull)"

fun evaluate_jsonlogic :: "flow_env \<Rightarrow> json \<Rightarrow> json \<Rightarrow> json" where
  "evaluate_jsonlogic fe data (JObj [(operator, args)]) =
    (if operator = ''var'' then resolve_jsonlogic_var args data
     else operator_value fe operator
       (case args of JArr vs \<Rightarrow> map (evaluate_jsonlogic fe data) vs | v \<Rightarrow> [evaluate_jsonlogic fe data v]))"
| "evaluate_jsonlogic fe data (JObj kvs) = JNull"
| "evaluate_jsonlogic fe data (JArr vs) = JArr (map (evaluate_jsonlogic fe data) vs)"
| "evaluate_jsonlogic fe data v = v"

section \<open>The edges a step follows\<close>

definition resolve_trade_flow_candidate_edges :: "trade_flow_graph_runtime \<Rightarrow> string \<Rightarrow> string \<Rightarrow> trade_flow_edge list" where
  "resolve_trade_flow_candidate_edges graph source_key edge_type =
    (let edges = filter (\<lambda>e. fd_source e = source_key \<and> fd_edge_type e = edge_type) (fg_edges graph)
     in if edges = [] \<and> edge_type \<notin> {''default'', ''on_error''}
        then filter (\<lambda>e. fd_source e = source_key \<and> fd_edge_type e = ''default'') (fg_edges graph) else edges)"

definition trade_flow_edge_condition_passes :: "flow_env \<Rightarrow> trade_flow_edge \<Rightarrow> json \<Rightarrow> bool" where
  "trade_flow_edge_condition_passes fe edge eval_data =
     unwrap_or True (map_option (\<lambda>condition. value_truthy fe (evaluate_jsonlogic fe eval_data condition)) (fd_condition edge))"

definition resolve_trade_flow_targets :: "flow_env \<Rightarrow> trade_flow_graph_runtime \<Rightarrow> string \<Rightarrow> string \<Rightarrow> json \<Rightarrow> string list" where
  "resolve_trade_flow_targets fe graph source_key edge_type eval_data =
     map fd_target (filter (\<lambda>edge. trade_flow_edge_condition_passes fe edge eval_data)
       (resolve_trade_flow_candidate_edges graph source_key edge_type))"

definition insert_all :: "json \<Rightarrow> json \<Rightarrow> json" where
  "insert_all v base = fold (\<lambda>(key, value). obj_insert key value) (object_of v) base"

definition build_trade_flow_eval_data :: "json \<Rightarrow> json" where
  "build_trade_flow_eval_data ctx =
    (let root = fold (\<lambda>section root. case json_get ctx section of None \<Rightarrow> root | Some v \<Rightarrow> insert_all v root)
           [''flowContext'', ''state'', ''vars''] (JObj [])
     in fold (\<lambda>section root. case json_get ctx section of None \<Rightarrow> root | Some v \<Rightarrow> obj_insert section v root)
           [''flowContext'', ''state'', ''vars'', ''refs'', ''nodeState''] root)"

definition build_trade_flow_route_eval_data :: "json \<Rightarrow> json \<Rightarrow> json" where
  "build_trade_flow_route_eval_data ctx output =
     insert_all output (obj_insert ''output'' output (build_trade_flow_eval_data ctx))"

section \<open>The meaning of conditions\<close>

text \<open>Conditions as they are written in a flow: comparisons of variables and numbers, and their combinations.\<close>

datatype comparison = Gt | Ge | Lt | Le | Eq | Ne

datatype operand = Var string | Num string

datatype condition = Cmp comparison operand operand | All "condition list" | Any "condition list" | Not condition

fun operand_value :: "json \<Rightarrow> operand \<Rightarrow> json" where
  "operand_value data (Var path) = unwrap_or JNull (lookup_jsonlogic_path data path)"
| "operand_value data (Num n) = JNum n"

fun compares :: "comparison \<Rightarrow> f64 \<Rightarrow> f64 \<Rightarrow> bool" where
  "compares Gt x y \<longleftrightarrow> y < x" | "compares Ge x y \<longleftrightarrow> y \<le> x" | "compares Lt x y \<longleftrightarrow> x < y" | "compares Le x y \<longleftrightarrow> x \<le> y"
| "compares Eq x y \<longleftrightarrow> \<bar>x - y\<bar> \<le> lit (1 / 10000000)"
| "compares Ne x y \<longleftrightarrow> \<not> \<bar>x - y\<bar> \<le> lit (1 / 10000000)"

text \<open>Operands that are no numbers are in no order; they are equal when they are the same value.\<close>

fun holds :: "flow_env \<Rightarrow> json \<Rightarrow> condition \<Rightarrow> bool" where
  "holds fe data (Cmp c a b) =
    (case (value_as_f64 fe (operand_value data a), value_as_f64 fe (operand_value data b)) of
       (Some x, Some y) \<Rightarrow> compares c x y
     | _ \<Rightarrow> c = Eq \<and> operand_value data a = operand_value data b \<or> c = Ne \<and> operand_value data a \<noteq> operand_value data b)"
| "holds fe data (All cs) = list_all (holds fe data) cs"
| "holds fe data (Any cs) = list_ex (holds fe data) cs"
| "holds fe data (Not c) = (\<not> holds fe data c)"

fun comparison_text :: "comparison \<Rightarrow> string" where
  "comparison_text Gt = ''>''" | "comparison_text Ge = ''>=''" | "comparison_text Lt = ''<''" | "comparison_text Le = ''<=''"
| "comparison_text Eq = ''==''" | "comparison_text Ne = ''!=''"

fun operand_json :: "operand \<Rightarrow> json" where
  "operand_json (Var path) = JObj [(''var'', JStr path)]"
| "operand_json (Num n) = JNum n"

fun condition_json :: "condition \<Rightarrow> json" where
  "condition_json (Cmp c a b) = JObj [(comparison_text c, JArr [operand_json a, operand_json b])]"
| "condition_json (All cs) = JObj [(''and'', JArr (map condition_json cs))]"
| "condition_json (Any cs) = JObj [(''or'', JArr (map condition_json cs))]"
| "condition_json (Not c) = JObj [(''!'', JArr [condition_json c])]"

lemma operand_evaluates: "evaluate_jsonlogic fe data (operand_json a) = operand_value data a"
  by (cases a) (simp_all add: resolve_jsonlogic_var_def)

lemma comparison_evaluates: "operator_value fe (comparison_text c) [v, w] =
    JBool (case (value_as_f64 fe v, value_as_f64 fe w) of (Some x, Some y) \<Rightarrow> compares c x y | _ \<Rightarrow> c = Eq \<and> v = w \<or> c = Ne \<and> v \<noteq> w)"
  by (cases c) (auto simp: operator_value_def values_equal_def compare_op_def split: option.split)

lemma condition_evaluates: "evaluate_jsonlogic fe data (condition_json c) = JBool (holds fe data c)"
proof (induction c)
  case (Cmp c a b)
  have "comparison_text c \<noteq> ''var''" by (cases c) simp_all
  then show ?case by (simp add: operand_evaluates comparison_evaluates)
next
  case (All cs)
  then have "map (evaluate_jsonlogic fe data \<circ> condition_json) cs = map (\<lambda>c. JBool (holds fe data c)) cs" by simp
  then show ?case by (simp add: operator_value_def list_all_iff)
next
  case (Any cs)
  then have "map (evaluate_jsonlogic fe data \<circ> condition_json) cs = map (\<lambda>c. JBool (holds fe data c)) cs" by simp
  then show ?case by (simp add: operator_value_def list_ex_iff)
qed (simp add: operator_value_def)

text \<open>C23: a step goes on along the edges whose conditions hold. When every edge of a graph carries a written condition
  or none, the targets of a finished step are those of its outgoing edges of the given type, or of the default
  edges when it has none of this type, whose condition holds of the context and the output, in the order of
  the graph; a failed step never takes a default edge.\<close>

theorem edges_follow_conditions:
  assumes "\<And>e. e \<in> set (fg_edges graph) \<Longrightarrow> fd_condition e = map_option condition_json (written e)"
  shows "resolve_trade_flow_targets fe graph node kind data =
    map fd_target (filter (\<lambda>e. fd_source e = node
      \<and> (fd_edge_type e = kind \<or> fd_edge_type e = ''default'' \<and> kind \<noteq> ''on_error''
           \<and> filter (\<lambda>e. fd_source e = node \<and> fd_edge_type e = kind) (fg_edges graph) = [])
      \<and> (case written e of None \<Rightarrow> True | Some c \<Rightarrow> holds fe data c)) (fg_edges graph))"
proof -
  have passes: "trade_flow_edge_condition_passes fe e data = (case written e of None \<Rightarrow> True | Some c \<Rightarrow> holds fe data c)"
    if "e \<in> set (fg_edges graph)" for e
    using assms [OF that] by (auto simp: trade_flow_edge_condition_passes_def unwrap_or_def condition_evaluates split: option.split)
  show ?thesis unfolding resolve_trade_flow_targets_def resolve_trade_flow_candidate_edges_def Let_def
    by (auto simp: passes filter_empty_conv intro!: arg_cong [where f = "map fd_target"] filter_cong)
qed

definition sample_flow_env :: flow_env where
  "sample_flow_env = \<lparr>fe_as_i64 = parse_i64, fe_as_f64 = (\<lambda>s. map_option (\<lambda>n. Fin (of_int n)) (parse_i64 s)),
     fe_parse_f64 = (\<lambda>s. map_option (\<lambda>n. Fin (of_int n)) (parse_i64 s)), fe_number = (\<lambda>_. ''0''),
     fe_rfc3339 = show_i64, fe_parse_rfc3339 = parse_i64\<rparr>"

definition sample_edge :: "string \<Rightarrow> condition \<Rightarrow> trade_flow_edge" where
  "sample_edge target c = \<lparr>fd_source = ''check'', fd_target = target, fd_edge_type = ''default'', fd_condition = Some (condition_json c)\<rparr>"

definition sample_graph :: trade_flow_graph_runtime where
  "sample_graph = \<lparr>fg_context = JNull, fg_nodes = [], fg_edges =
     [sample_edge ''buy'' (Cmp Gt (Var ''price'') (Num ''5'')), sample_edge ''wait'' (Not (Cmp Gt (Var ''price'') (Num ''5'')))]\<rparr>"

theorem edges_follow_conditions_witness:
  "resolve_trade_flow_targets sample_flow_env sample_graph ''check'' ''pass'' (JObj [(''price'', JNum ''7'')]) = [''buy'']"
proof -
  let ?written = "\<lambda>e. if fd_target e = ''buy'' then Some (Cmp Gt (Var ''price'') (Num ''5'')) else Some (Not (Cmp Gt (Var ''price'') (Num ''5'')))"
  have numbers: "parse_i64 ''7'' = Some 7" "parse_i64 ''5'' = Some 5"
    by (simp_all add: parse_i64_def parse_nat_def digit_val_def upt_rec is_i64_def i64_min_def i64_max_def)
  have "lookup_jsonlogic_path (JObj [(''price'', JNum ''7'')]) ''price'' = Some (JNum ''7'')"
    by (simp add: lookup_jsonlogic_path_def lookup_json_path_def graphic_def Let_def)
  then have "holds sample_flow_env (JObj [(''price'', JNum ''7'')]) (Cmp Gt (Var ''price'') (Num ''5''))"
    by (simp add: sample_flow_env_def numbers)
  moreover have "resolve_trade_flow_targets sample_flow_env sample_graph ''check'' ''pass'' (JObj [(''price'', JNum ''7'')])
      = map fd_target (filter (\<lambda>e. fd_source e = ''check''
      \<and> (fd_edge_type e = ''pass'' \<or> fd_edge_type e = ''default'' \<and> ''pass'' \<noteq> ''on_error''
           \<and> filter (\<lambda>e. fd_source e = ''check'' \<and> fd_edge_type e = ''pass'') (fg_edges sample_graph) = [])
      \<and> (case ?written e of None \<Rightarrow> True | Some c \<Rightarrow> holds sample_flow_env (JObj [(''price'', JNum ''7'')]) c)) (fg_edges sample_graph))"
    by (rule edges_follow_conditions) (auto simp: sample_graph_def sample_edge_def)
  ultimately show ?thesis by (simp add: sample_graph_def sample_edge_def del: holds.simps(1))
qed

end
