(* ===== verification/Deferred_Once.thy ===== *)
theory Deferred_Once
  imports Flow_Logic Repository
begin

text \<open>
  The locks that hold back the mark of a once-only trigger until its order is accepted
  (\<open>trade_flow/deferred_once_lock.rs\<close>, the table behind it in \<open>bot-infra/src/db/trade_flow.rs\<close>, its callers in
  \<open>lib_parts/part_012.rs\<close>, and the reentry after a stop loss in \<open>trade_builder/fill_finalize.rs\<close>). The state is the table
  of locks in the order of their ids, the events, the idempotency keys, the runs and their steps. The environment answers each database call, as in \<open>Repository\<close>, and says the time of each call.
\<close>

section \<open>The table and the statements on it\<close>

text \<open>The states the check of the table allows.\<close>

datatype once_state = LockPending | LockConsumed | LockReleased | LockExpired

record once_lock =
  ol_lock_key :: string
  ol_state :: once_state
  ol_run_id :: i64
  ol_trigger_node_key :: string
  ol_action_node_key :: string
  ol_market_slug :: string
  ol_token_id :: string
  ol_outcome_label :: string
  ol_once_scope_market :: bool
  ol_expires_at :: i64
  ol_builder_order_id :: "i64 option"
  ol_release_reason :: "string option"
  ol_consumed_at :: "i64 option"
  ol_released_at :: "i64 option"

text \<open>The rows of the runs and of the steps, with the states their checks allow. The id of a row is its position; the
  times nothing reads are left out.\<close>

datatype run_status = RunQueued | RunRunning | RunCompleted | RunFailed | RunCanceled

record flow_run =
  fr_id :: i64
  fr_definition_id :: i64
  fr_version_id :: i64
  fr_user_id :: i64
  fr_status :: run_status
  fr_trigger_source :: "string option"
  fr_context_json :: json
  fr_last_error :: "string option"

datatype step_status = StepQueued | StepRunning | StepCompleted | StepFailed | StepSkipped | StepCanceled

record flow_step =
  fs_id :: i64
  fs_run_id :: i64
  fs_node_key :: string
  fs_node_type :: string
  fs_status :: step_status
  fs_attempt :: i64
  fs_input_json :: "json option"
  fs_output_json :: "json option"
  fs_error_text :: "string option"
  fs_started_at :: "i64 option"
  fs_ended_at :: "i64 option"
  fs_available_at :: i64
  fs_parent_step_id :: "i64 option"
  fs_idempotency_key :: "string option"
  fs_created_at :: i64

record flow_db =
  fl_locks :: "once_lock list"
  fl_events :: "(string \<times> json) list"
  fl_keys :: "string set"
  fl_runs :: "flow_run list"
  fl_steps :: "flow_step list"
  fl_calls :: nat

record once_env =
  oe_flow :: flow_env
  oe_answer :: "nat \<Rightarrow> answer"
  oe_now :: "nat \<Rightarrow> i64"

type_synonym 'a flow = "(flow_db, string, 'a) stm"

text \<open>A query and a statement; both read the clock of the database.\<close>

definition fl_read :: "once_env \<Rightarrow> (flow_db \<Rightarrow> 'a) \<Rightarrow> 'a flow" where
  "fl_read env f = (\<lambda>w. let w' = w\<lparr>fl_calls := Suc (fl_calls w)\<rparr>
     in case oe_answer env (fl_calls w) of Done \<Rightarrow> (Inr (f w), w') | Refused e \<Rightarrow> (Inl e, w') | Lost e \<Rightarrow> (Inl e, w'))"

definition fl_write :: "once_env \<Rightarrow> (i64 \<Rightarrow> flow_db \<Rightarrow> 'a \<times> flow_db) \<Rightarrow> 'a flow" where
  "fl_write env f = (\<lambda>w. let w' = w\<lparr>fl_calls := Suc (fl_calls w)\<rparr>; now = oe_now env (fl_calls w)
     in case oe_answer env (fl_calls w) of
          Done \<Rightarrow> (case f now w' of (x, v) \<Rightarrow> (Inr x, v)) | Refused e \<Rightarrow> (Inl e, w') | Lost e \<Rightarrow> (Inl e, snd (f now w')))"

definition fl_now :: "once_env \<Rightarrow> (i64 \<Rightarrow> 'a flow) \<Rightarrow> 'a flow" where
  "fl_now env f = st_get (\<lambda>w. f (oe_now env (fl_calls w)))"

definition is_pending :: "once_lock \<Rightarrow> bool" where
  "is_pending l \<longleftrightarrow> ol_state l = LockPending"

definition expired_row :: "i64 \<Rightarrow> once_lock \<Rightarrow> once_lock" where
  "expired_row now l = l\<lparr>ol_state := LockExpired, ol_release_reason := Some ''ttl_expired'', ol_released_at := Some now\<rparr>"

definition expire_where :: "(once_lock \<Rightarrow> bool) \<Rightarrow> i64 \<Rightarrow> flow_db \<Rightarrow> nat \<times> flow_db" where
  "expire_where P now w =
    (let due = (\<lambda>l. P l \<and> is_pending l \<and> ol_expires_at l \<le> now)
     in (length (filter due (fl_locks w)), w\<lparr>fl_locks := map (\<lambda>l. if due l then expired_row now l else l) (fl_locks w)\<rparr>))"

definition expire_trade_flow_deferred_once_locks_for_run :: "once_env \<Rightarrow> i64 \<Rightarrow> nat flow" where
  "expire_trade_flow_deferred_once_locks_for_run env run_id = fl_write env (expire_where (\<lambda>l. ol_run_id l = run_id))"

text \<open>The unique index on the keys of pending locks turns the insertion of a second one into nothing.\<close>

definition insert_lock :: "once_lock \<Rightarrow> i64 \<Rightarrow> flow_db \<Rightarrow> once_lock option \<times> flow_db" where
  "insert_lock row now w =
    (if list_ex (\<lambda>l. is_pending l \<and> ol_lock_key l = ol_lock_key row) (fl_locks w) then (None, w)
     else let l = row\<lparr>ol_state := LockPending, ol_builder_order_id := None, ol_release_reason := None,
            ol_consumed_at := None, ol_released_at := None\<rparr> in (Some l, w\<lparr>fl_locks := fl_locks w @ [l]\<rparr>))"

definition close_lock :: "string \<Rightarrow> (i64 \<Rightarrow> once_lock \<Rightarrow> once_lock) \<Rightarrow> i64 \<Rightarrow> flow_db \<Rightarrow> once_lock option \<times> flow_db" where
  "close_lock key close now w =
    (let hit = (\<lambda>l. is_pending l \<and> ol_lock_key l = key)
     in (map_option (close now) (find hit (fl_locks w)), w\<lparr>fl_locks := map (\<lambda>l. if hit l then close now l else l) (fl_locks w)\<rparr>))"

definition released_row :: "string \<Rightarrow> i64 \<Rightarrow> once_lock \<Rightarrow> once_lock" where
  "released_row why now l = l\<lparr>ol_state := LockReleased, ol_release_reason := Some why, ol_released_at := Some now\<rparr>"

definition consumed_row :: "i64 \<Rightarrow> i64 \<Rightarrow> once_lock \<Rightarrow> once_lock" where
  "consumed_row builder_order_id now l =
     l\<lparr>ol_state := LockConsumed, ol_builder_order_id := Some builder_order_id, ol_consumed_at := Some now\<rparr>"

definition release_trade_flow_deferred_once_lock :: "once_env \<Rightarrow> string \<Rightarrow> string \<Rightarrow> once_lock option flow" where
  "release_trade_flow_deferred_once_lock env lock_key release_reason =
     fl_write env (close_lock lock_key (released_row release_reason))"

definition consume_trade_flow_deferred_once_lock :: "once_env \<Rightarrow> string \<Rightarrow> i64 \<Rightarrow> once_lock option flow" where
  "consume_trade_flow_deferred_once_lock env lock_key builder_order_id =
     fl_write env (close_lock lock_key (consumed_row builder_order_id))"

definition consumed_locks :: "i64 \<Rightarrow> flow_db \<Rightarrow> once_lock list" where
  "consumed_locks run_id w =
     sort_key (\<lambda>l. unwrap_or 0 (ol_consumed_at l)) (filter (\<lambda>l. ol_run_id l = run_id \<and> ol_state l = LockConsumed) (fl_locks w))"

definition list_consumed_trade_flow_deferred_once_locks :: "once_env \<Rightarrow> i64 \<Rightarrow> once_lock list flow" where
  "list_consumed_trade_flow_deferred_once_locks env run_id = fl_read env (consumed_locks run_id)"

record acquire_result =
  aq_created :: bool
  aq_record :: "once_lock option"
  aq_expired_count :: nat

definition acquire_trade_flow_deferred_once_lock :: "once_env \<Rightarrow> once_lock \<Rightarrow> acquire_result flow" where
  "acquire_trade_flow_deferred_once_lock env input =
     st_bind (fl_write env (expire_where (\<lambda>l. ol_lock_key l = ol_lock_key input))) (\<lambda>expired.
     st_bind (fl_write env (insert_lock input)) (\<lambda>inserted.
       case inserted of
         Some row \<Rightarrow> st_return \<lparr>aq_created = True, aq_record = Some row, aq_expired_count = expired\<rparr>
       | None \<Rightarrow>
          st_bind (fl_read env (\<lambda>w. find (\<lambda>l. is_pending l \<and> ol_lock_key l = ol_lock_key input) (rev (fl_locks w)))) (\<lambda>held.
            st_return \<lparr>aq_created = False, aq_record = held, aq_expired_count = expired\<rparr>)))"

definition append_trade_flow_event :: "once_env \<Rightarrow> string \<Rightarrow> json \<Rightarrow> unit flow" where
  "append_trade_flow_event env kind payload = fl_write env (\<lambda>_ w. ((), w\<lparr>fl_events := fl_events w @ [(kind, payload)]\<rparr>))"

definition try_record_once_key :: "once_env \<Rightarrow> string \<Rightarrow> bool flow" where
  "try_record_once_key env key = fl_write env (\<lambda>_ w. (key \<notin> fl_keys w, w\<lparr>fl_keys := insert key (fl_keys w)\<rparr>))"

definition update_run :: "i64 \<Rightarrow> (flow_run \<Rightarrow> flow_run) \<Rightarrow> flow_db \<Rightarrow> flow_db" where
  "update_run run_id f w = w\<lparr>fl_runs := map (\<lambda>r. if fr_id r = run_id then f r else r) (fl_runs w)\<rparr>"

definition update_step :: "i64 \<Rightarrow> (flow_step \<Rightarrow> flow_step) \<Rightarrow> flow_db \<Rightarrow> flow_db" where
  "update_step step_id f w = w\<lparr>fl_steps := map (\<lambda>s. if fs_id s = step_id then f s else s) (fl_steps w)\<rparr>"

definition get_trade_flow_run :: "once_env \<Rightarrow> i64 \<Rightarrow> flow_run option flow" where
  "get_trade_flow_run env run_id = fl_read env (\<lambda>w. find (\<lambda>r. fr_id r = run_id) (fl_runs w))"

definition update_trade_flow_run_context :: "once_env \<Rightarrow> i64 \<Rightarrow> json \<Rightarrow> unit flow" where
  "update_trade_flow_run_context env run_id ctx = fl_write env (\<lambda>_ w. ((), update_run run_id (fr_context_json_update (\<lambda>_. ctx)) w))"

text \<open>A step whose idempotency key is taken is not queued again.\<close>

definition queued_step :: "i64 \<Rightarrow> i64 \<Rightarrow> string \<Rightarrow> string \<Rightarrow> i64 \<Rightarrow> json option \<Rightarrow> i64 \<Rightarrow> i64 option \<Rightarrow> string option \<Rightarrow> i64 \<Rightarrow> flow_step" where
  "queued_step step_id run_id node_key node_type attempt input_json available_at parent_step_id idempotency_key now =
     \<lparr>fs_id = step_id, fs_run_id = run_id, fs_node_key = node_key, fs_node_type = node_type, fs_status = StepQueued,
      fs_attempt = attempt, fs_input_json = input_json, fs_output_json = None, fs_error_text = None, fs_started_at = None,
      fs_ended_at = None, fs_available_at = available_at, fs_parent_step_id = parent_step_id,
      fs_idempotency_key = idempotency_key, fs_created_at = now\<rparr>"

definition enqueue_trade_flow_step :: "once_env \<Rightarrow> i64 \<Rightarrow> string \<Rightarrow> string \<Rightarrow> i64 \<Rightarrow> json option \<Rightarrow> i64 \<Rightarrow> i64 option \<Rightarrow> string option
    \<Rightarrow> i64 option flow" where
  "enqueue_trade_flow_step env run_id node_key node_type attempt input_json available_at parent_step_id idempotency_key =
     fl_write env (\<lambda>now w.
       if idempotency_key \<noteq> None \<and> list_ex (\<lambda>s. fs_run_id s = run_id \<and> fs_idempotency_key s = idempotency_key) (fl_steps w)
       then (None, w)
       else let step = queued_step (int (length (fl_steps w))) run_id node_key node_type attempt input_json available_at
              parent_step_id idempotency_key now
         in (Some (fs_id step), w\<lparr>fl_steps := fl_steps w @ [step]\<rparr>))"

text \<open>The end of a step; the copy of it in the table of snapshots is one more call, which may fail.\<close>

definition sync_trade_flow_node_runtime_snapshot_for_step :: "once_env \<Rightarrow> i64 \<Rightarrow> unit flow" where
  "sync_trade_flow_node_runtime_snapshot_for_step env step_id = fl_write env (\<lambda>_ w. ((), w))"

definition ended_step :: "step_status \<Rightarrow> json option \<Rightarrow> string option \<Rightarrow> i64 \<Rightarrow> flow_step \<Rightarrow> flow_step" where
  "ended_step status output_json error_text now s =
     s\<lparr>fs_status := status, fs_output_json := output_json, fs_error_text := error_text, fs_ended_at := Some now\<rparr>"

definition mark_trade_flow_step_completed :: "once_env \<Rightarrow> i64 \<Rightarrow> json option \<Rightarrow> unit flow" where
  "mark_trade_flow_step_completed env step_id output_json = st_then
     (fl_write env (\<lambda>now w. ((), update_step step_id (ended_step StepCompleted output_json None now) w)))
     (sync_trade_flow_node_runtime_snapshot_for_step env step_id)"

definition mark_trade_flow_step_failed :: "once_env \<Rightarrow> i64 \<Rightarrow> json option \<Rightarrow> string \<Rightarrow> unit flow" where
  "mark_trade_flow_step_failed env step_id output_json error_text = st_then
     (fl_write env (\<lambda>now w. ((), update_step step_id (ended_step StepFailed output_json (Some error_text) now) w)))
     (sync_trade_flow_node_runtime_snapshot_for_step env step_id)"

definition mark_trade_flow_step_skipped :: "once_env \<Rightarrow> i64 \<Rightarrow> json option \<Rightarrow> unit flow" where
  "mark_trade_flow_step_skipped env step_id output_json = st_then
     (fl_write env (\<lambda>now w. ((), update_step step_id (ended_step StepSkipped output_json None now) w)))
     (sync_trade_flow_node_runtime_snapshot_for_step env step_id)"

section \<open>The lock in the input of a step\<close>

record once_meta =
  om_lock_key :: string
  om_trigger_node_key :: string
  om_action_node_key :: string
  om_market_slug :: string
  om_token_id :: string
  om_outcome_label :: string
  om_once_scope_market :: bool
  om_expires_at :: i64

definition deferred_once_lock_field :: string where "deferred_once_lock_field = ''deferred_once_lock''"
definition deferred_once_default_retry_delay_ms :: i64 where "deferred_once_default_retry_delay_ms = 150"

definition trade_flow_defer_once_until_order_accepted :: "flow_env \<Rightarrow> trade_flow_node \<Rightarrow> bool" where
  "trade_flow_defer_once_until_order_accepted fe node \<longleftrightarrow> is_trade_flow_market_price_once_node node
     \<and> unwrap_or False (node_config_bool fe node ''deferOnceUntilOrderAccepted'')"

definition deferred_once_string :: "json \<Rightarrow> string list \<Rightarrow> string option" where
  "deferred_once_string value keys =
     non_empty (Option.bind (case List.map_filter (json_get value) keys of [] \<Rightarrow> None | v # _ \<Rightarrow> Some v) number_or_text)"

definition deferred_once_builder_order_id :: "flow_env \<Rightarrow> json \<Rightarrow> i64 option" where
  "deferred_once_builder_order_id fe output = filter_opt (\<lambda>n. 0 < n)
     (Option.bind (or_opt (json_get output ''builder_order_id'') (json_get output ''builderOrderId'')) (value_as_i64 fe))"

definition deferred_once_release_reason :: "json \<Rightarrow> string" where
  "deferred_once_release_reason output = unwrap_or ''terminal_no_order_block''
     (deferred_once_string output [''reason'', ''block_reason'', ''price_band_block_reason'', ''error''])"

text \<open>The products below are those of \<open>i64\<close>, which the code does not check; the configured counts are small.\<close>

definition deferred_once_expires_at :: "flow_env \<Rightarrow> i64 \<Rightarrow> trade_flow_node \<Rightarrow> json \<Rightarrow> i64" where
  "deferred_once_expires_at fe now action_node input_json =
    (let retry_delay_ms = (if unwrap_or False (node_config_bool fe action_node ''priceToBeatEarlyStaleSideEnabled'')
           then max 100 (min 60000 (unwrap_or 500 (node_config_i64 fe action_node ''priceToBeatEarlyStaleRetryCooldownMs'')))
           else deferred_once_default_retry_delay_ms);
         retry_count = max (unwrap_or 1 (node_config_i64 fe action_node ''priceToBeatEarlyStaleMaxGuardRetriesPerMarket'')) 1;
         ttl_ms = max (retry_delay_ms * retry_count + 15000) 30000;
         expires_at = now + ttl_ms
     in case Option.bind (Option.bind (json_get input_json ''cycleWindowEndAt'') json_str) (fe_parse_rfc3339 fe) of
          Some market_end \<Rightarrow> min expires_at market_end
        | None \<Rightarrow> expires_at)"

definition deferred_once_lock_expired :: "once_meta \<Rightarrow> i64 \<Rightarrow> bool" where
  "deferred_once_lock_expired meta now \<longleftrightarrow> om_expires_at meta \<le> now"

definition build_deferred_once_lock_meta ::
    "flow_env \<Rightarrow> i64 \<Rightarrow> flow_run \<Rightarrow> trade_flow_node \<Rightarrow> trade_flow_node \<Rightarrow> json \<Rightarrow> once_meta option" where
  "build_deferred_once_lock_meta fe now run source_node target_node input_json =
     Option.bind (deferred_once_string input_json [''market_slug'', ''marketSlug'']) (\<lambda>market_slug.
     Option.bind (deferred_once_string input_json [''triggered_token_id'', ''token_id'', ''tokenId'', ''triggeredTokenId'']) (\<lambda>token_id.
     Option.bind (deferred_once_string input_json
         [''triggered_outcome_label'', ''outcome_label'', ''outcomeLabel'', ''triggeredOutcomeLabel'']) (\<lambda>outcome_label.
       Some \<lparr>om_lock_key = ''flow-deferred-once:'' @ show_i64 (fr_id run) @ '':'' @ fn_key source_node @ '':''
            @ fn_key target_node @ '':'' @ market_slug @ '':'' @ token_id @ '':'' @ outcome_label,
          om_trigger_node_key = fn_key source_node, om_action_node_key = fn_key target_node,
          om_market_slug = market_slug, om_token_id = token_id, om_outcome_label = outcome_label,
          om_once_scope_market = unwrap_or (is_trade_flow_market_price_once_scope_market fe source_node)
            (map_option (\<lambda>v. v = ''market'') (Option.bind (json_get input_json ''once_scope'') json_str)),
          om_expires_at = deferred_once_expires_at fe now target_node input_json\<rparr>)))"

definition parse_deferred_once_lock_meta :: "flow_env \<Rightarrow> i64 \<Rightarrow> json \<Rightarrow> once_meta option" where
  "parse_deferred_once_lock_meta fe now input_json =
     Option.bind (json_get input_json deferred_once_lock_field) (\<lambda>lock.
     Option.bind (deferred_once_string lock [''lock_key'']) (\<lambda>lock_key.
     Option.bind (deferred_once_string lock [''trigger_node_key'']) (\<lambda>trigger_node_key.
     Option.bind (deferred_once_string lock [''action_node_key'']) (\<lambda>action_node_key.
     Option.bind (deferred_once_string lock [''market_slug'']) (\<lambda>market_slug.
     Option.bind (deferred_once_string lock [''token_id'']) (\<lambda>token_id.
     Option.bind (deferred_once_string lock [''outcome_label'']) (\<lambda>outcome_label.
       Some \<lparr>om_lock_key = lock_key, om_trigger_node_key = trigger_node_key, om_action_node_key = action_node_key,
          om_market_slug = market_slug, om_token_id = token_id, om_outcome_label = outcome_label,
          om_once_scope_market = unwrap_or True (Option.bind (json_get lock ''once_scope_market'') json_bool),
          om_expires_at = unwrap_or now
            (Option.bind (Option.bind (json_get lock ''expires_at'') json_str) (fe_parse_rfc3339 fe))\<rparr>)))))))"

definition insert_fields :: "(string \<times> json) list \<Rightarrow> json \<Rightarrow> json" where
  "insert_fields entries output = (if is_object output then fold (\<lambda>(k, v). obj_insert k v) entries output else output)"

definition annotate_deferred_once_output :: "flow_env \<Rightarrow> i64 \<Rightarrow> once_meta \<Rightarrow> string \<Rightarrow> string \<Rightarrow> string option \<Rightarrow> i64 option \<Rightarrow> i64
    \<Rightarrow> json \<Rightarrow> json" where
  "annotate_deferred_once_output fe now meta action state release_reason builder_order_id action_attempt_count =
     insert_fields
       [(''defer_once_until_order_accepted'', JBool True), (''pending_once_key'', JStr (om_lock_key meta)),
        (''pending_once_state'', JStr state), (''pending_once_action'', JStr action),
        (''pending_once_release_reason'', json_opt release_reason),
        (''pending_once_consume_reason'', if builder_order_id \<noteq> None then JStr ''order_accepted'' else JNull),
        (''once_fired_set_at'', if action = ''consumed'' then JStr (fe_rfc3339 fe now) else JNull),
        (''action_attempt_count'', json_i64 action_attempt_count),
        (''action_accepted_order_count'', json_i64 (if builder_order_id \<noteq> None then 1 else 0))]"

definition lock_object :: "flow_env \<Rightarrow> once_meta \<Rightarrow> json" where
  "lock_object fe meta = JObj
     [(''lock_key'', JStr (om_lock_key meta)), (''trigger_node_key'', JStr (om_trigger_node_key meta)),
      (''action_node_key'', JStr (om_action_node_key meta)), (''market_slug'', JStr (om_market_slug meta)),
      (''token_id'', JStr (om_token_id meta)), (''outcome_label'', JStr (om_outcome_label meta)),
      (''once_scope_market'', JBool (om_once_scope_market meta)), (''expires_at'', JStr (fe_rfc3339 fe (om_expires_at meta)))]"

definition with_deferred_once_lock_fields :: "flow_env \<Rightarrow> i64 \<Rightarrow> json \<Rightarrow> once_meta \<Rightarrow> string \<Rightarrow> string \<Rightarrow> string option
    \<Rightarrow> string option \<Rightarrow> i64 option \<Rightarrow> json" where
  "with_deferred_once_lock_fields fe now input_json meta action state release_reason consume_reason builder_order_id =
     insert_fields ((deferred_once_lock_field, lock_object fe meta)
         # (case consume_reason of None \<Rightarrow> [] | Some why \<Rightarrow> [(''pending_once_consume_reason'', JStr why)]))
       (annotate_deferred_once_output fe now meta action state release_reason builder_order_id 0 input_json)"

definition append_deferred_once_event :: "once_env \<Rightarrow> once_meta \<Rightarrow> string \<Rightarrow> string \<Rightarrow> string option \<Rightarrow> i64 option \<Rightarrow> unit flow" where
  "append_deferred_once_event env meta action state release_reason builder_order_id =
     append_trade_flow_event env ''deferred_once_lock'' (JObj
       [(''defer_once_until_order_accepted'', JBool True), (''pending_once_key'', JStr (om_lock_key meta)),
        (''pending_once_state'', JStr state), (''pending_once_action'', JStr action),
        (''pending_once_release_reason'', json_opt release_reason),
        (''pending_once_consume_reason'', if builder_order_id \<noteq> None then JStr ''order_accepted'' else JNull),
        (''trigger_node_key'', JStr (om_trigger_node_key meta)), (''action_node_key'', JStr (om_action_node_key meta)),
        (''market_slug'', JStr (om_market_slug meta)), (''token_id'', JStr (om_token_id meta)),
        (''outcome_label'', JStr (om_outcome_label meta)),
        (''expires_at'', JStr (fe_rfc3339 (oe_flow env) (om_expires_at meta))),
        (''builder_order_id'', case builder_order_id of None \<Rightarrow> JNull | Some n \<Rightarrow> json_i64 n)])"

section \<open>The handlers\<close>

text \<open>Before a step runs: its locks past their time are expired, and triggers whose lock was consumed are marked.\<close>

definition mark_consumed :: "once_env \<Rightarrow> once_lock \<Rightarrow> json \<Rightarrow> json flow" where
  "mark_consumed env l ctx =
    (if trade_flow_market_price_once_fired_for_scope (oe_flow env) ctx (ol_trigger_node_key l) (ol_once_scope_market l)
          (Some (ol_market_slug l))
     then st_return ctx
     else fl_now env (\<lambda>now. st_return (mark_trade_flow_market_price_once_fired (oe_flow env) (ol_trigger_node_key l) now
            (then_some (ol_once_scope_market l) (ol_market_slug l)) ctx)))"

definition reconcile_trade_flow_deferred_once_locks_for_run :: "once_env \<Rightarrow> flow_run \<Rightarrow> json \<Rightarrow> json flow" where
  "reconcile_trade_flow_deferred_once_locks_for_run env run ctx =
     st_bind (expire_trade_flow_deferred_once_locks_for_run env (fr_id run)) (\<lambda>expired_count.
     st_then (if 0 < expired_count
         then append_trade_flow_event env ''deferred_once_lock'' (JObj
           [(''pending_once_action'', JStr ''expired''), (''pending_once_state'', JStr ''expired''),
            (''expired_count'', json_i64 (int expired_count))])
         else st_return ())
     (st_bind (list_consumed_trade_flow_deferred_once_locks env (fr_id run)) (\<lambda>locks. st_fold (mark_consumed env) locks ctx)))"

definition lock_input :: "flow_run \<Rightarrow> once_meta \<Rightarrow> once_lock" where
  "lock_input run meta =
     \<lparr>ol_lock_key = om_lock_key meta, ol_state = LockPending, ol_run_id = fr_id run,
      ol_trigger_node_key = om_trigger_node_key meta, ol_action_node_key = om_action_node_key meta,
      ol_market_slug = om_market_slug meta, ol_token_id = om_token_id meta, ol_outcome_label = om_outcome_label meta,
      ol_once_scope_market = om_once_scope_market meta, ol_expires_at = om_expires_at meta, ol_builder_order_id = None,
      ol_release_reason = None, ol_consumed_at = None, ol_released_at = None\<rparr>"

text \<open>When a step is queued along an edge: \<open>None\<close> means that the lock is held and the step is not queued.\<close>

definition attach_lock :: "once_env \<Rightarrow> flow_run \<Rightarrow> json \<Rightarrow> once_meta \<Rightarrow> json option flow" where
  "attach_lock env run input_json meta =
     st_bind (acquire_trade_flow_deferred_once_lock env (lock_input run meta)) (\<lambda>acquired.
     st_then (if 0 < aq_expired_count acquired
         then append_deferred_once_event env meta ''expired'' ''expired'' (Some ''ttl_expired'') None else st_return ())
     (if \<not> aq_created acquired
      then st_then (append_deferred_once_event env meta ''held'' ''pending'' None None) (st_return None)
      else st_then (append_deferred_once_event env meta ''created'' ''pending'' None None)
        (fl_now env (\<lambda>now. st_return (Some
          (with_deferred_once_lock_fields (oe_flow env) now input_json meta ''created'' ''pending'' None None None))))))"

definition maybe_attach_deferred_once_lock_to_action_input ::
    "once_env \<Rightarrow> flow_run \<Rightarrow> trade_flow_graph_runtime \<Rightarrow> string \<Rightarrow> trade_flow_node \<Rightarrow> json \<Rightarrow> json option flow" where
  "maybe_attach_deferred_once_lock_to_action_input env run graph source_key target_node input_json =
    (if fn_node_type target_node \<noteq> ''action.place_order'' then st_return (Some input_json)
     else case flow_node graph source_key of
         None \<Rightarrow> st_return (Some input_json)
       | Some source_node \<Rightarrow>
          if \<not> trade_flow_defer_once_until_order_accepted (oe_flow env) source_node
             \<or> \<not> unwrap_or False (Option.bind (json_get input_json ''pass'') json_bool)
          then st_return (Some input_json)
          else fl_now env (\<lambda>now.
            case build_deferred_once_lock_meta (oe_flow env) now run source_node target_node input_json of
              None \<Rightarrow> st_return (Some input_json)
            | Some meta \<Rightarrow> attach_lock env run input_json meta))"

definition enqueue_edge_target ::
    "once_env \<Rightarrow> flow_run \<Rightarrow> trade_flow_graph_runtime \<Rightarrow> string \<Rightarrow> i64 \<Rightarrow> i64 \<Rightarrow> json \<Rightarrow> string \<Rightarrow> unit \<Rightarrow> unit flow" where
  "enqueue_edge_target env run graph source_key available_at parent_step_id input_json target_key u =
    (case flow_node graph target_key of
       None \<Rightarrow> st_return ()
     | Some target_node \<Rightarrow>
        let attempt = (if target_key = source_key
              then i64_as_i32 (max (unwrap_or 1 (Option.bind (json_get input_json ''next_attempt'') (value_as_i64 (oe_flow env)))) 1) else 1)
        in st_bind (maybe_attach_deferred_once_lock_to_action_input env run graph source_key target_node input_json) (\<lambda>target_input.
           case target_input of
             None \<Rightarrow> st_return ()
           | Some input \<Rightarrow> st_bind (enqueue_trade_flow_step env (fr_id run) (fn_key target_node) (fn_node_type target_node)
               attempt (Some input) available_at (Some parent_step_id) None) (\<lambda>_. st_return ())))"

definition enqueue_trade_flow_edges ::
    "once_env \<Rightarrow> flow_run \<Rightarrow> trade_flow_graph_runtime \<Rightarrow> string \<Rightarrow> string \<Rightarrow> i64 \<Rightarrow> i64 \<Rightarrow> json \<Rightarrow> json \<Rightarrow> unit flow" where
  "enqueue_trade_flow_edges env run graph source_key edge_type available_at parent_step_id input_json ctx =
     st_fold (enqueue_edge_target env run graph source_key available_at parent_step_id input_json)
       (resolve_trade_flow_targets (oe_flow env) graph source_key edge_type (build_trade_flow_route_eval_data ctx input_json)) ()"

record flow_execution =
  ex_output :: json
  ex_routes :: "(string \<times> i64) list"
  ex_repeat_at :: "i64 option"
  ex_repeat_idempotency_key :: "string option"

text \<open>After an action ran: a step that repeats keeps its lock, or gives it up when its time is over; an order id
  consumes the lock and marks the trigger; any other end releases it.\<close>

definition apply_deferred_once_after_node_execution :: "once_env \<Rightarrow> flow_run \<Rightarrow> trade_flow_node \<Rightarrow> flow_step
    \<Rightarrow> flow_execution \<Rightarrow> json \<Rightarrow> (flow_execution \<times> json) flow" where
  "apply_deferred_once_after_node_execution env run node step execution ctx =
    (let fe = oe_flow env in
     if fn_node_type node \<noteq> ''action.place_order'' then st_return (execution, ctx)
     else fl_now env (\<lambda>now.
       case Option.bind (fs_input_json step) (parse_deferred_once_lock_meta fe now) of
         None \<Rightarrow> st_return (execution, ctx)
       | Some meta \<Rightarrow>
          let annotate = (\<lambda>stamp ex action state why order_id.
                ex\<lparr>ex_output := annotate_deferred_once_output fe stamp meta action state why order_id (fs_attempt step) (ex_output ex)\<rparr>)
          in if ex_repeat_at execution \<noteq> None \<or> unwrap_or False (Option.bind (json_get (ex_output execution) ''retrying'') json_bool)
             then if deferred_once_lock_expired meta now
               then let why = ''deferred_once_lock_ttl_expired''
                 in st_bind (release_trade_flow_deferred_once_lock env (om_lock_key meta) why) (\<lambda>released.
                    if released = None then st_return (execution, ctx)
                    else let ended = execution\<lparr>ex_repeat_at := None, ex_output := insert_fields
                             [(''retrying'', JBool False), (''retry_expired'', JBool True)] (ex_output execution)\<rparr>
                      in st_then (append_deferred_once_event env meta ''released'' ''released'' (Some why) None)
                           (st_return (annotate now ended ''released'' ''released'' (Some why) None, ctx)))
               else st_then (append_deferred_once_event env meta ''held'' ''pending'' None None)
                 (st_return (annotate now execution ''held'' ''pending'' None None, ctx))
             else case deferred_once_builder_order_id fe (ex_output execution) of
               Some builder_order_id \<Rightarrow>
                 st_bind (consume_trade_flow_deferred_once_lock env (om_lock_key meta) builder_order_id) (\<lambda>consumed.
                   case consumed of
                     None \<Rightarrow> st_return (execution, ctx)
                   | Some l \<Rightarrow> fl_now env (\<lambda>fired_at.
                       let ctx' = mark_trade_flow_market_price_once_fired fe (ol_trigger_node_key l) fired_at
                             (then_some (ol_once_scope_market l) (ol_market_slug l)) ctx;
                           once_key = trade_flow_market_price_once_idempotency_key (fr_id run) (ol_trigger_node_key l)
                             (ol_once_scope_market l) (Some (ol_market_slug l))
                             (flow_node_reentry_generation fe ctx' (ol_trigger_node_key l))
                       in st_then (try_record_once_key env once_key)
                          (fl_now env (\<lambda>stamp. st_then (append_deferred_once_event env meta ''consumed'' ''consumed'' None (Some builder_order_id))
                          (st_return (annotate stamp execution ''consumed'' ''consumed'' None (Some builder_order_id), ctx'))))))
             | None \<Rightarrow>
                 let why = deferred_once_release_reason (ex_output execution)
                 in st_bind (release_trade_flow_deferred_once_lock env (om_lock_key meta) why) (\<lambda>released.
                    if released = None then st_return (execution, ctx)
                    else st_then (append_deferred_once_event env meta ''released'' ''released'' (Some why) None)
                      (st_return (annotate now execution ''released'' ''released'' (Some why) None, ctx)))))"

definition release_deferred_once_after_step_error :: "once_env \<Rightarrow> trade_flow_node \<Rightarrow> json option \<Rightarrow> json \<Rightarrow> string \<Rightarrow> json flow" where
  "release_deferred_once_after_step_error env node step_input output error_text =
    (if fn_node_type node \<noteq> ''action.place_order'' then st_return output
     else fl_now env (\<lambda>now.
       case Option.bind step_input (parse_deferred_once_lock_meta (oe_flow env) now) of
         None \<Rightarrow> st_return output
       | Some meta \<Rightarrow>
          let why = ''step_failed:'' @ error_text
          in st_bind (release_trade_flow_deferred_once_lock env (om_lock_key meta) why) (\<lambda>released.
             if released = None then st_return output
             else st_then (append_deferred_once_event env meta ''released'' ''released'' (Some why) None)
               (st_return (annotate_deferred_once_output (oe_flow env) now meta ''released'' ''released'' (Some why) None 0 output)))))"

section \<open>A step of a run\<close>

definition field_of :: "json \<Rightarrow> string \<Rightarrow> json" where
  "field_of v key = unwrap_or JNull (json_get v key)"

definition finish_flow_step :: "once_env \<Rightarrow> flow_run \<Rightarrow> trade_flow_graph_runtime \<Rightarrow> trade_flow_node \<Rightarrow> flow_step
    \<Rightarrow> (json \<Rightarrow> json option) \<Rightarrow> flow_execution \<Rightarrow> json \<Rightarrow> unit flow" where
  "finish_flow_step env run graph node step repeat_input execution ctx =
     st_bind (apply_deferred_once_after_node_execution env run node step execution ctx) (\<lambda>(execution, ctx).
     st_then (update_trade_flow_run_context env (fr_id run) ctx)
    (st_then (mark_trade_flow_step_completed env (fs_id step) (Some (ex_output execution)))
    (st_then (append_trade_flow_event env ''step_completed'' (JObj
       [(''step_id'', json_i64 (fs_id step)), (''node_key'', JStr (fn_key node)), (''node_type'', JStr (fn_node_type node)),
        (''routes'', JArr (map (JStr \<circ> fst) (ex_routes execution))), (''triggered'', JBool (ex_routes execution \<noteq> [])),
        (''trigger_price'', field_of (ex_output execution) ''trigger_price''),
        (''triggered_price'', field_of (ex_output execution) ''triggered_price''),
        (''max_price'', field_of (ex_output execution) ''max_price''),
        (''trigger_condition'', field_of (ex_output execution) ''triggered_condition''),
        (''current_price'', field_of (ex_output execution) ''price''),
        (''market_slug'', field_of (ex_output execution) ''market_slug'')]))
    (st_then (st_fold (\<lambda>(edge_type, available_at) u.
        enqueue_trade_flow_edges env run graph (fn_key node) edge_type available_at (fs_id step) (ex_output execution) ctx)
        (ex_routes execution) ())
    (case ex_repeat_at execution of
       None \<Rightarrow> st_return ()
     | Some repeat_at \<Rightarrow> st_bind (enqueue_trade_flow_step env (fr_id run) (fn_key node) (fn_node_type node) (fs_attempt step)
         (repeat_input (ex_output execution)) repeat_at (Some (fs_id step)) (ex_repeat_idempotency_key execution)) (\<lambda>_. st_return ()))))))"

definition fail_flow_step :: "once_env \<Rightarrow> flow_run \<Rightarrow> trade_flow_graph_runtime \<Rightarrow> trade_flow_node \<Rightarrow> flow_step
    \<Rightarrow> string \<Rightarrow> json \<Rightarrow> unit flow" where
  "fail_flow_step env run graph node step err ctx =
     st_bind (release_deferred_once_after_step_error env node (fs_input_json step)
       (JObj [(''error'', JStr err), (''node_key'', JStr (fn_key node)), (''node_type'', JStr (fn_node_type node))]) err) (\<lambda>output_json.
     st_then (mark_trade_flow_step_failed env (fs_id step) (Some output_json) err)
    (st_then (append_trade_flow_event env ''step_failed'' (JObj
       [(''step_id'', json_i64 (fs_id step)), (''node_key'', JStr (fn_key node)), (''error'', JStr err)]))
    (fl_now env (\<lambda>now. enqueue_trade_flow_edges env run graph (fn_key node) ''on_error'' now (fs_id step) output_json ctx))))"

section \<open>Reentry after a stop loss\<close>

definition ws_state_prefixes :: "string list" where
  "ws_state_prefixes = [''previous_price_'', ''cross_pending_at_'', ''cross_pending_price_'', ''cross_pending_prev_'',
     ''cycle_window_boundary_marker_'', ''cycle_window_last_eval_'']"

definition clear_trade_flow_market_price_ws_runtime_state :: "string \<Rightarrow> json \<Rightarrow> json" where
  "clear_trade_flow_market_price_ws_runtime_state node_key ctx =
    (case Option.bind (json_get ctx ''nodeState'') (\<lambda>node_state. Option.bind (json_get node_state node_key) json_object) of
       None \<Rightarrow> ctx
     | Some kvs \<Rightarrow> fold (remove_flow_node_state node_key)
         ([''last_price'', ''previous_price''] @ filter (\<lambda>key. list_ex (starts_with key) ws_state_prefixes) (map fst kvs)) ctx)"

definition reentry_context :: "flow_env \<Rightarrow> string \<Rightarrow> string \<Rightarrow> string \<Rightarrow> i64 \<Rightarrow> json \<Rightarrow> json" where
  "reentry_context fe action_node_key trigger_node_key market_slug next_generation ctx =
     clear_trade_flow_market_price_ws_runtime_state trigger_node_key
      (clear_trade_flow_market_price_once_state trigger_node_key
        (set_flow_node_state trigger_node_key ns_reentry_generation (json_i64 next_generation)
          (set_flow_node_state action_node_key ns_reentry_market_slug (JStr market_slug)
            (set_flow_node_state action_node_key ns_reentry_attempts_used (json_i64 next_generation) ctx))))"

text \<open>Whether a reentry was scheduled. \<open>available_at\<close> is the time after the cooldown, or of the next window when the current one is
  skipped; the events of the builder order are left out.\<close>

definition schedule_reentry :: "once_env \<Rightarrow> flow_run \<Rightarrow> string \<Rightarrow> string \<Rightarrow> string \<Rightarrow> i64 \<Rightarrow> i64 \<Rightarrow> bool flow" where
  "schedule_reentry env run action_node_key trigger_node_key market_slug max_attempts available_at =
    (case resolve_trade_flow_reentry_attempts_for_market (oe_flow env) (fr_context_json run) action_node_key market_slug of
       (attempts_used, _) \<Rightarrow>
         if max_attempts \<le> attempts_used then st_return False
         else let next_generation = attempts_used + 1
           in st_then (update_trade_flow_run_context env (fr_id run)
                 (reentry_context (oe_flow env) action_node_key trigger_node_key market_slug next_generation (fr_context_json run)))
              (st_bind (enqueue_trade_flow_step env (fr_id run) trigger_node_key ''trigger.market_price'' 1 None available_at None
                 (Some (''reentry:'' @ show_i64 (fr_id run) @ '':'' @ trigger_node_key @ '':gen'' @ show_i64 next_generation)))
                (\<lambda>enqueued. st_return (enqueued \<noteq> None))))"

end
