(* ===== verification/Flow_Runs.thy ===== *)
theory Flow_Runs
  imports Deferred_Once
begin

text \<open>
  The life of a run (\<open>lib_parts/part_010.rs\<close>, \<open>part_012.rs\<close>, the statements in \<open>bot-infra/src/db/trade_flow.rs\<close>): the graph of
  a published version is parsed, a run of it is started and its triggers are queued, queued steps are claimed in passes and
  processed, steps that run too long are canceled. Definitions and versions are written by another program: the
  environment says what each call reads. The execution of a node and the configuration of a user are parameters too.
\<close>

record flow_version =
  fv_id :: i64
  fv_graph_json :: json
  fv_published_at :: "i64 option"
  fv_created_at :: i64

record flow_definition =
  fdn_id :: i64
  fdn_user_id :: i64
  fdn_name :: string
  fdn_status :: string
  fdn_published_version_id :: "i64 option"

text \<open>What a call reads from the tables of definitions and versions, the configuration of a user, the texts of the database for
  times, and the order in which it returns the rows of an update.\<close>

record runs_env =
  re_once :: once_env
  re_definition :: "nat \<Rightarrow> i64 \<Rightarrow> flow_definition option"
  re_version :: "nat \<Rightarrow> i64 \<Rightarrow> flow_version option"
  re_config :: "nat \<Rightarrow> i64 \<Rightarrow> (string, unit) result"
  re_time_text :: "i64 \<Rightarrow> string"
  re_returned :: "nat \<Rightarrow> flow_step list \<Rightarrow> flow_step list"

section \<open>The graph of a version\<close>

definition text_field :: "json \<Rightarrow> string \<Rightarrow> string" where
  "text_field v key = unwrap_or [] (map_option trim (Option.bind (json_get v key) json_str))"

definition parse_flow_node :: "json \<Rightarrow> trade_flow_node option" where
  "parse_flow_node raw =
    (if \<not> is_object raw \<or> text_field raw ''key'' = [] \<or> text_field raw ''type'' = [] then None
     else Some \<lparr>fn_key = text_field raw ''key'', fn_node_type = text_field raw ''type'',
       fn_config = unwrap_or (JObj []) (json_get raw ''config'')\<rparr>)"

definition parse_flow_edge :: "json \<Rightarrow> trade_flow_edge option" where
  "parse_flow_edge raw =
    (if \<not> is_object raw \<or> text_field raw ''source'' = [] \<or> text_field raw ''target'' = [] then None
     else Some \<lparr>fd_source = text_field raw ''source'', fd_target = text_field raw ''target'',
       fd_edge_type = (if text_field raw ''type'' = [] then ''default'' else text_field raw ''type''),
       fd_condition = filter_opt is_object (json_get raw ''condition'')\<rparr>)"

definition items :: "json \<Rightarrow> string \<Rightarrow> json list" where
  "items graph_json key = unwrap_or [] (Option.bind (json_get graph_json key) json_array)"

definition parse_trade_flow_graph :: "json \<Rightarrow> (string, trade_flow_graph_runtime) result" where
  "parse_trade_flow_graph graph_json =
    (if \<not> is_object graph_json then Inl ''trade flow graph_json must be an object''
     else Inr \<lparr>fg_context = unwrap_or (JObj []) (json_get graph_json ''context''),
       fg_nodes = List.map_filter parse_flow_node (items graph_json ''nodes''),
       fg_edges = List.map_filter parse_flow_edge (items graph_json ''edges'')\<rparr>)"

section \<open>Which steps a run starts with\<close>

definition node_config_string :: "trade_flow_node \<Rightarrow> string \<Rightarrow> string option" where
  "node_config_string node key = non_empty (Option.bind (json_get (fn_config node) key) (\<lambda>v. case v of
     JBool b \<Rightarrow> Some (if b then ''true'' else ''false'') | _ \<Rightarrow> number_or_text v))"

definition action_place_order_modes :: "string list" where
  "action_place_order_modes = [''pair_lock'', ''dca_live_v1'', ''live_gap_collector_v1'', ''positive_quantity_flip_grid_v1'',
     ''positive_flip_pairlock_compression_v1'', ''revenge_flip_v1'', ''avg_rebound_pairlock_rescue_v1'',
     ''confidence_ladder_hedge_lock_v1'']"

definition action_place_order_mode :: "trade_flow_node \<Rightarrow> string" where
  "action_place_order_mode node =
    (let mode = to_ascii_lowercase (trim (unwrap_or ''single'' (node_config_string node ''mode'')))
     in if mode \<in> set action_place_order_modes then mode else ''single'')"

definition action_place_order_uses_dca_live :: "trade_flow_node \<Rightarrow> bool" where
  "action_place_order_uses_dca_live node \<longleftrightarrow> action_place_order_mode node = ''dca_live_v1''"

datatype seed_mode = SeedTrigger | SeedDcaLiveRoot

definition is_trigger :: "trade_flow_node \<Rightarrow> bool" where
  "is_trigger node \<longleftrightarrow> starts_with (fn_node_type node) ''trigger.''"

definition is_dca_live :: "trade_flow_node \<Rightarrow> bool" where
  "is_dca_live node \<longleftrightarrow> fn_node_type node = ''action.place_order'' \<and> action_place_order_uses_dca_live node"

definition collect_trade_flow_root_nodes :: "trade_flow_graph_runtime \<Rightarrow> trade_flow_node list" where
  "collect_trade_flow_root_nodes graph = filter (\<lambda>node. fn_key node \<notin> fd_target ` set (fg_edges graph)) (fg_nodes graph)"

definition select_trade_flow_initial_seed_nodes :: "trade_flow_graph_runtime \<Rightarrow> (string, seed_mode \<times> trade_flow_node list) result" where
  "select_trade_flow_initial_seed_nodes graph =
    (let trigger_nodes = filter is_trigger (fg_nodes graph); root_nodes = collect_trade_flow_root_nodes graph
     in if trigger_nodes \<noteq> [] then Inr (SeedTrigger, trigger_nodes)
        else if \<not> list_ex is_dca_live (fg_nodes graph) then Inl ''flow_missing_trigger''
        else if root_nodes \<noteq> [] \<and> list_all is_dca_live root_nodes then Inr (SeedDcaLiveRoot, root_nodes)
        else Inl ''flow_invalid_roots_without_trigger'')"

section \<open>The marks of a run when its version is published again\<close>

definition flow_state_publish_marker :: string where "flow_state_publish_marker = ''__publish_marker''"

definition trade_flow_publish_marker :: "flow_version \<Rightarrow> string" where
  "trade_flow_publish_marker version = show_i64 (fv_id version) @ '':'' @ show_i64 (unwrap_or (fv_created_at version) (fv_published_at version))"

definition set_flow_state :: "string \<Rightarrow> json \<Rightarrow> json \<Rightarrow> json" where
  "set_flow_state key value ctx =
    (let state = nested_object ctx ''state''
     in obj_insert ''state'' (if value = JNull then obj_remove key state else obj_insert key value state) ctx)"

definition flow_state_string :: "json \<Rightarrow> string \<Rightarrow> string option" where
  "flow_state_string ctx key = non_empty (Option.bind (Option.bind (json_get ctx ''state'') (\<lambda>state. json_get state key)) number_or_text)"

definition flow_context_string :: "json \<Rightarrow> string \<Rightarrow> string option" where
  "flow_context_string ctx key = non_empty (Option.bind (Option.bind (json_get ctx ''flowContext'') (\<lambda>v. json_get v key)) number_or_text)"

definition ns_auto_scope_market_slug :: string where "ns_auto_scope_market_slug = ''auto_scope_market_slug''"

definition node_auto_scope_market_slug :: "json \<Rightarrow> string \<Rightarrow> string option" where
  "node_auto_scope_market_slug ctx node_key =
     or_opt (flow_node_state_string ctx node_key ns_auto_scope_market_slug) (flow_context_string ctx ''marketSlug'')"

definition is_fixed_once_market_price_node :: "trade_flow_node \<Rightarrow> bool" where
  "is_fixed_once_market_price_node node \<longleftrightarrow> is_trade_flow_market_price_once_node node \<and> node_market_mode node = ''fixed''"

definition publish_reset_keys :: "string list" where
  "publish_reset_keys = [ns_once_fired, ns_once_fired_at, ns_once_fired_market_slug, ns_once_block_logged, ns_lock_market_slug,
     ns_auto_scope_market_slug, ''auto_scope_market_scope'', ''auto_scope_market_asset'', ''auto_scope_market_timeframe'',
     ''auto_scope_yes_token_id'', ''auto_scope_no_token_id'', ''auto_scope_resolved_token_id'',
     ''auto_scope_resolved_outcome_label'', ''auto_scope_selection_reason'', ''last_price'', ''last_ws_market_slug'', ''previous_price'']"

definition publish_reset_prefixes :: "string list" where
  "publish_reset_prefixes = [''previous_price_'', ''price_samples_'', ''cross_pending_at_'', ''cross_pending_price_'',
     ''cross_pending_prev_'', ''cycle_window_boundary_marker_'', ''cycle_window_last_eval_'']"

definition publish_reset_key :: "string \<Rightarrow> bool" where
  "publish_reset_key key \<longleftrightarrow> key \<in> set publish_reset_keys \<or> list_ex (starts_with key) publish_reset_prefixes"

definition clear_trade_flow_market_price_publish_reset_state :: "string \<Rightarrow> json \<Rightarrow> bool \<times> json" where
  "clear_trade_flow_market_price_publish_reset_state node_key ctx =
    (case Option.bind (Option.bind (json_get ctx ''nodeState'') json_object) (\<lambda>node_state.
            Option.bind (map_of node_state node_key) (\<lambda>v. map_option (Pair node_state) (json_object v))) of
       None \<Rightarrow> (False, ctx)
     | Some (node_state, kvs) \<Rightarrow>
        let kept = filter (\<lambda>(k, _). \<not> publish_reset_key k) kvs
        in (length kept < length kvs \<or> kept = [],
            obj_insert ''nodeState'' (if kept = [] then obj_remove node_key (JObj node_state)
              else obj_insert node_key (JObj kept) (JObj node_state)) ctx))"

definition lock_current_market :: "string \<Rightarrow> string \<Rightarrow> json \<Rightarrow> json" where
  "lock_current_market node_key current_market_slug ctx =
     fold (remove_flow_node_state node_key) [ns_once_fired, ns_once_fired_at, ns_once_block_logged, ns_once_fired_market_slug]
       (set_flow_node_state node_key ns_lock_market_slug (JStr current_market_slug) ctx)"

definition reset_on_publish :: "flow_env \<Rightarrow> trade_flow_node \<Rightarrow> json \<times> string list \<Rightarrow> json \<times> string list" where
  "reset_on_publish fe node acc =
    (case acc of (ctx, reset_nodes) \<Rightarrow>
     let key = fn_key node; fired = flow_node_state_truthy fe ctx key ns_once_fired
     in if \<not> is_trade_flow_market_price_once_node node then (ctx, reset_nodes)
        else if is_fixed_once_market_price_node node
          then case clear_trade_flow_market_price_publish_reset_state key ctx of
                 (changed, ctx') \<Rightarrow> (ctx', if changed then reset_nodes @ [key] else reset_nodes)
        else if node_market_mode node = ''auto_scope'' \<and> \<not> is_trade_flow_market_price_once_scope_market fe node \<and> fired
          then case trimmed (or_opt (node_auto_scope_market_slug ctx key) (flow_node_state_string ctx key ns_once_fired_market_slug)) of
                 None \<Rightarrow> (ctx, reset_nodes)
               | Some slug \<Rightarrow> (lock_current_market key slug ctx, reset_nodes @ [key])
        else if node_market_mode node = ''auto_scope'' then (ctx, reset_nodes)
        else (clear_trade_flow_market_price_once_state key ctx, if fired then reset_nodes @ [key] else reset_nodes))"

definition sync_trade_flow_once_state_for_publish ::
    "flow_env \<Rightarrow> trade_flow_graph_runtime \<Rightarrow> string \<Rightarrow> json \<Rightarrow> (string option \<times> string list) \<times> json" where
  "sync_trade_flow_once_state_for_publish fe graph publish_marker ctx =
    (let previous_marker = flow_state_string ctx flow_state_publish_marker
     in if previous_marker = Some publish_marker then ((previous_marker, []), ctx)
        else case fold (reset_on_publish fe) (fg_nodes graph) (ctx, []) of
          (ctx', reset_nodes) \<Rightarrow> ((previous_marker, reset_nodes), set_flow_state flow_state_publish_marker (JStr publish_marker) ctx'))"

section \<open>The tables of runs and steps\<close>

definition get_trade_flow_definition :: "runs_env \<Rightarrow> i64 \<Rightarrow> flow_definition option flow" where
  "get_trade_flow_definition re i = fl_read (re_once re) (\<lambda>w. re_definition re (fl_calls w) i)"

definition get_trade_flow_version :: "runs_env \<Rightarrow> i64 \<Rightarrow> flow_version option flow" where
  "get_trade_flow_version re i = fl_read (re_once re) (\<lambda>w. re_version re (fl_calls w) i)"

definition active_run :: "i64 \<Rightarrow> flow_run \<Rightarrow> bool" where
  "active_run definition_id r \<longleftrightarrow> fr_definition_id r = definition_id \<and> fr_status r = RunRunning"

definition get_active_trade_flow_run :: "runs_env \<Rightarrow> i64 \<Rightarrow> flow_run option flow" where
  "get_active_trade_flow_run re definition_id = fl_read (re_once re) (\<lambda>w. find (active_run definition_id) (rev (fl_runs w)))"

definition set_trade_flow_run_status :: "runs_env \<Rightarrow> i64 \<Rightarrow> run_status \<Rightarrow> string option \<Rightarrow> unit flow" where
  "set_trade_flow_run_status re run_id status last_error = fl_write (re_once re) (\<lambda>_ w.
     ((), update_run run_id (\<lambda>r. r\<lparr>fr_status := status, fr_last_error := last_error\<rparr>) w))"

text \<open>The unique index on the definitions of running runs refuses a second one.\<close>

definition insert_run :: "flow_run \<Rightarrow> i64 \<Rightarrow> flow_db \<Rightarrow> flow_run option \<times> flow_db" where
  "insert_run row now w = (if list_ex (active_run (fr_definition_id row)) (fl_runs w) then (None, w)
     else (Some row, w\<lparr>fl_runs := fl_runs w @ [row]\<rparr>))"

definition create_trade_flow_run :: "runs_env \<Rightarrow> flow_definition \<Rightarrow> i64 \<Rightarrow> string option \<Rightarrow> json \<Rightarrow> flow_run flow" where
  "create_trade_flow_run re d version_id trigger_source context_json =
     st_bind (fl_write (re_once re) (\<lambda>now w. insert_run
        \<lparr>fr_id = int (length (fl_runs w)), fr_definition_id = fdn_id d, fr_version_id = version_id, fr_user_id = fdn_user_id d,
         fr_status = RunRunning, fr_trigger_source = trigger_source, fr_context_json = context_json, fr_last_error = None\<rparr> now w))
       (\<lambda>created. case created of None \<Rightarrow> st_raise ''duplicate key value violates unique constraint'' | Some run \<Rightarrow> st_return run)"

definition created_by_this_pass :: "string option \<Rightarrow> flow_step \<Rightarrow> bool" where
  "created_by_this_pass processing_run_id s =
    (let runtime = Option.bind (fs_input_json s) (\<lambda>v. json_get v ''__flow_runtime'');
         text = (\<lambda>key. Option.bind (Option.bind runtime (\<lambda>v. json_get v key)) json_str)
     in processing_run_id \<noteq> None \<and> fs_node_type s = ''action.place_order'' \<and> text ''repeat_kind'' = Some ''ptb_guard_retry''
        \<and> text ''created_by_step_processing_run_id'' = processing_run_id)"

definition claimable :: "string option \<Rightarrow> i64 \<Rightarrow> flow_step \<Rightarrow> bool" where
  "claimable processing_run_id now s \<longleftrightarrow> fs_status s = StepQueued \<and> fs_available_at s \<le> now \<and> \<not> created_by_this_pass processing_run_id s"

definition started_step :: "i64 \<Rightarrow> flow_step \<Rightarrow> flow_step" where
  "started_step now s = s\<lparr>fs_status := StepRunning, fs_started_at := Some now\<rparr>"

definition claim_steps :: "nat \<Rightarrow> string option \<Rightarrow> i64 \<Rightarrow> flow_db \<Rightarrow> flow_step list \<times> flow_db" where
  "claim_steps limit processing_run_id now w =
    (let claimed = take limit (sort_key fs_available_at (filter (claimable processing_run_id now) (fl_steps w)))
     in (map (started_step now) claimed,
         w\<lparr>fl_steps := map (\<lambda>s. if fs_id s \<in> fs_id ` set claimed then started_step now s else s) (fl_steps w)\<rparr>))"

definition claim_ready_trade_flow_steps_for_processing_run :: "runs_env \<Rightarrow> nat \<Rightarrow> string option \<Rightarrow> flow_step list flow" where
  "claim_ready_trade_flow_steps_for_processing_run re limit processing_run_id = st_get (\<lambda>w0.
     st_bind (fl_write (re_once re) (claim_steps limit processing_run_id)) (\<lambda>claimed. st_return (re_returned re (fl_calls w0) claimed)))"

definition canceled_step :: "(i64 \<Rightarrow> string) \<Rightarrow> i64 \<Rightarrow> flow_step \<Rightarrow> flow_step" where
  "canceled_step time_text now s = ended_step StepCanceled
     (Some (fold (\<lambda>(k, v). obj_insert k v)
        [(''reason'', JStr ''stale_running_recovered''), (''recovery_action'', JStr ''canceled''), (''recovered_at'', JStr (time_text now)),
         (''stale_running_started_at'', case fs_started_at s of None \<Rightarrow> JNull | Some t \<Rightarrow> JStr (time_text t))]
        (unwrap_or (JObj []) (fs_output_json s))))
     (Some ''stale_running_recovered'') now s"

definition running_since :: "flow_step \<Rightarrow> i64" where
  "running_since s = unwrap_or (fs_created_at s) (fs_started_at s)"

definition recovered_event :: "(i64 \<Rightarrow> string) \<Rightarrow> flow_step \<Rightarrow> string \<times> json" where
  "recovered_event time_text s = (''step_stale_running_recovered'', JObj
     [(''step_id'', json_i64 (fs_id s)), (''node_key'', JStr (fs_node_key s)), (''node_type'', JStr (fs_node_type s)),
      (''status_after'', JStr ''canceled''), (''reason'', JStr ''stale_running_recovered''),
      (''started_at'', case fs_started_at s of None \<Rightarrow> JNull | Some t \<Rightarrow> JStr (time_text t))])"

definition recover_steps :: "(i64 \<Rightarrow> string) \<Rightarrow> i64 \<Rightarrow> nat \<Rightarrow> i64 \<Rightarrow> flow_db \<Rightarrow> nat \<times> flow_db" where
  "recover_steps time_text stale_after_ms limit now w =
    (let stale = take limit (sort_key running_since
           (filter (\<lambda>s. fs_status s = StepRunning \<and> running_since s \<le> now - stale_after_ms) (fl_steps w)));
         known = filter (\<lambda>s. list_ex (\<lambda>r. fr_id r = fs_run_id s) (fl_runs w)) stale
     in (length stale,
         w\<lparr>fl_steps := map (\<lambda>s. if fs_id s \<in> fs_id ` set stale then canceled_step time_text now s else s) (fl_steps w),
           fl_events := fl_events w @ map (recovered_event time_text) known\<rparr>))"

definition recover_stale_running_trade_flow_steps :: "runs_env \<Rightarrow> i64 \<Rightarrow> nat \<Rightarrow> nat flow" where
  "recover_stale_running_trade_flow_steps re stale_after_ms limit =
     fl_write (re_once re) (recover_steps (re_time_text re) stale_after_ms limit)"

section \<open>Starting a run\<close>

definition build_initial_trade_flow_context :: "json \<Rightarrow> json" where
  "build_initial_trade_flow_context graph_context =
     obj_insert ''flowContext'' (ensure_object_mut graph_context)
       (JObj [(''flowContext'', JObj []), (''vars'', JObj []), (''state'', JObj []), (''refs'', JObj []), (''nodeState'', JObj [])])"

definition seed_step :: "runs_env \<Rightarrow> flow_run \<Rightarrow> i64 \<Rightarrow> trade_flow_node \<Rightarrow> unit \<Rightarrow> unit flow" where
  "seed_step re run now node u = st_bind (enqueue_trade_flow_step (re_once re) (fr_id run) (fn_key node) (fn_node_type node) 1 None now None
     (Some (''seed:'' @ show_i64 (fr_id run) @ '':'' @ fn_key node))) (\<lambda>_. st_return ())"

definition seed_trade_flow_trigger_steps :: "runs_env \<Rightarrow> flow_run \<Rightarrow> trade_flow_graph_runtime \<Rightarrow> unit flow" where
  "seed_trade_flow_trigger_steps re run graph = fl_now (re_once re) (\<lambda>now.
     case select_trade_flow_initial_seed_nodes graph of
       Inl why \<Rightarrow> st_then (set_trade_flow_run_status re (fr_id run) RunFailed (Some why))
         (append_trade_flow_event (re_once re) ''run_failed'' (JObj
           [(''reason'', JStr why), (''hasDcaLiveRoot'', JBool (list_ex is_dca_live (fg_nodes graph))),
            (''rootNodes'', JArr (map (\<lambda>node. JObj [(''key'', JStr (fn_key node)), (''type'', JStr (fn_node_type node))])
               (collect_trade_flow_root_nodes graph)))]))
     | Inr (_, nodes_to_seed) \<Rightarrow> st_fold (seed_step re run now) nodes_to_seed ())"

definition start_trade_flow_run :: "runs_env \<Rightarrow> flow_definition \<Rightarrow> flow_version \<Rightarrow> trade_flow_graph_runtime \<Rightarrow> unit flow" where
  "start_trade_flow_run re d version graph =
     st_bind (get_active_trade_flow_run re (fdn_id d)) (\<lambda>stale_run.
     st_then (case stale_run of
         None \<Rightarrow> st_return ()
       | Some stale \<Rightarrow> set_trade_flow_run_status re (fr_id stale) RunCanceled (Some ''stale_run_cleanup''))
     (st_bind (create_trade_flow_run re d (fv_id version) (Some ''runner_auto_start'')
         (set_flow_state flow_state_publish_marker (JStr (trade_flow_publish_marker version))
           (build_initial_trade_flow_context (fg_context graph)))) (\<lambda>run.
      st_then (append_trade_flow_event (re_once re) ''run_started'' (JObj
         [(''run_id'', json_i64 (fr_id run)), (''version_id'', json_i64 (fv_id version)), (''definition_name'', JStr (fdn_name d))]))
      (seed_trade_flow_trigger_steps re run graph))))"

definition sync_active_run :: "runs_env \<Rightarrow> flow_version \<Rightarrow> trade_flow_graph_runtime \<Rightarrow> flow_run \<Rightarrow> unit flow" where
  "sync_active_run re version graph run =
    (case sync_trade_flow_once_state_for_publish (oe_flow (re_once re)) graph (trade_flow_publish_marker version)
            (normalize_trade_flow_context (fr_context_json run) (fg_context graph)) of
       ((previous, reset_nodes), ctx) \<Rightarrow>
         if previous = Some (trade_flow_publish_marker version) then st_return ()
         else st_then (update_trade_flow_run_context (re_once re) (fr_id run) ctx)
           (case previous of
              None \<Rightarrow> st_return ()
            | Some prev_marker \<Rightarrow> append_trade_flow_event (re_once re) ''trigger_once_reset_on_publish'' (JObj
                [(''previous_publish_marker'', JStr prev_marker), (''next_publish_marker'', JStr (trade_flow_publish_marker version)),
                 (''version_id'', json_i64 (fv_id version)), (''reset_node_keys'', JArr (map JStr reset_nodes))])))"

definition sync_trade_flow_definition_run :: "runs_env \<Rightarrow> flow_definition \<Rightarrow> unit flow" where
  "sync_trade_flow_definition_run re d =
    (case fdn_published_version_id d of
       None \<Rightarrow> st_return ()
     | Some published_version_id \<Rightarrow>
        st_bind (get_trade_flow_version re published_version_id) (\<lambda>found.
        st_bind (st_result (ok_or ''published trade flow version not found'' found)) (\<lambda>version.
        st_bind (st_result (parse_trade_flow_graph (fv_graph_json version))) (\<lambda>graph.
        st_bind (get_active_trade_flow_run re (fdn_id d)) (\<lambda>active.
          case active of
            None \<Rightarrow> start_trade_flow_run re d version graph
          | Some run \<Rightarrow>
             if fr_version_id run \<noteq> fv_id version
             then st_then (set_trade_flow_run_status re (fr_id run) RunCanceled (Some ''version_changed''))
              (st_then (append_trade_flow_event (re_once re) ''run_canceled_version_changed'' (JObj
                  [(''previous_version_id'', json_i64 (fr_version_id run)), (''next_version_id'', json_i64 (fv_id version))]))
               (start_trade_flow_run re d version graph))
             else sync_active_run re version graph run)))))"

section \<open>Processing the queue\<close>

text \<open>What a step did is undone when its run was stopped meanwhile: the order and the job it created are canceled, which is
  two calls on other tables for each.\<close>

definition other_call :: "once_env \<Rightarrow> unit flow" where
  "other_call env = fl_write env (\<lambda>_ w. ((), w))"

definition json_as_i64 :: "flow_env \<Rightarrow> json option \<Rightarrow> i64 option" where
  "json_as_i64 fe v = (case v of Some (JNum n) \<Rightarrow> fe_as_i64 fe n | _ \<Rightarrow> None)"

definition cancel_flow_step_side_effects_after_stop :: "once_env \<Rightarrow> flow_step \<Rightarrow> trade_flow_node \<Rightarrow> json \<Rightarrow> unit flow" where
  "cancel_flow_step_side_effects_after_stop env step node output =
    (let cancel = (\<lambda>key. if json_as_i64 (oe_flow env) (json_get output key) = None then st_return () else st_then (other_call env) (other_call env))
     in st_then (cancel ''builder_order_id'') (st_then (cancel ''job_id'')
       (append_trade_flow_event env ''step_canceled_run_stopped'' (JObj
         [(''step_id'', json_i64 (fs_id step)), (''node_key'', JStr (fn_key node)), (''node_type'', JStr (fn_node_type node)),
          (''reason'', JStr ''flow_run_stopped'')]))))"

text \<open>The input of a repeated step: a step that waits for its pair takes over the market it found and drops the prices of the step
  before, a step that a guard blocked carries the pass that created it, so that this pass does not claim it again.\<close>

record processing_context =
  pc_id :: string
  pc_started_at :: i64

definition repeat_quote_keys :: "string list" where
  "repeat_quote_keys = [''price'', ''currentPrice'', ''wsBestBid'', ''wsBestAsk'', ''wsLastTradePrice'', ''wsSnapshotAgeMs'',
     ''wsPriceSource'', ''wsPriceSourceDetail'', ''ws_best_bid'', ''ws_best_ask'', ''ws_last_trade_price'', ''ws_snapshot_age_ms'',
     ''ws_price_source'', ''ws_price_source_detail'', ''ws_best_bid_from_step'', ''ws_best_ask_from_step'',
     ''ws_last_trade_price_from_step'', ''ws_snapshot_age_ms_from_step'', ''ws_price_source_from_step'',
     ''ws_price_source_detail_from_step'']"

definition clear_trade_flow_repeat_quote_keys :: "json \<Rightarrow> json" where
  "clear_trade_flow_repeat_quote_keys input_json = fold obj_remove repeat_quote_keys input_json"

definition output_is_retrying_price_to_beat_guard_block :: "json \<Rightarrow> bool" where
  "output_is_retrying_price_to_beat_guard_block output \<longleftrightarrow>
     Option.bind (json_get output ''reason'') json_str = Some ''price_to_beat_guard_blocked''
     \<and> unwrap_or False (Option.bind (json_get output ''retrying'') json_bool)"

definition add_ptb_guard_retry_runtime_metadata :: "flow_env \<Rightarrow> processing_context \<Rightarrow> json \<Rightarrow> json \<Rightarrow> json" where
  "add_ptb_guard_retry_runtime_metadata fe pc output input_json = obj_insert ''__flow_runtime'' (JObj
     [(''repeat_kind'', JStr ''ptb_guard_retry''), (''guard_name'', JStr ''price_to_beat''),
      (''blocked_reason'', json_opt (or_opt
         (Option.bind (Option.bind (json_get output ''price_to_beat_guard'') (\<lambda>guard. json_get guard ''reason_code'')) json_str)
         (Option.bind (json_get output ''reason_code'') json_str))),
      (''created_by_step_processing_run_id'', JStr (pc_id pc)),
      (''created_by_step_processing_started_at'', JStr (fe_rfc3339 fe (pc_started_at pc)))]) input_json"

definition copy_text :: "json \<Rightarrow> string \<Rightarrow> string list \<Rightarrow> json \<Rightarrow> json" where
  "copy_text output key names v =
    (case trimmed (Option.bind (json_get output key) json_str) of None \<Rightarrow> v | Some x \<Rightarrow> fold (\<lambda>k. obj_insert k (JStr x)) names v)"

definition build_trade_flow_repeat_step_input :: "flow_env \<Rightarrow> processing_context \<Rightarrow> flow_step \<Rightarrow> json \<Rightarrow> json option" where
  "build_trade_flow_repeat_step_input fe pc step output =
    (case fs_input_json step of
       None \<Rightarrow> None
     | Some input_json \<Rightarrow>
        let pair_lock_waiting = (Option.bind (json_get output ''reason'') json_str = Some ''pair_lock_primary_guard_waiting'');
            ptb_guard_retry = output_is_retrying_price_to_beat_guard_block output;
            moved = (if pair_lock_waiting
              then clear_trade_flow_repeat_quote_keys
                (copy_text output ''resolved_no_token_id'' [''noTokenId''] (copy_text output ''resolved_yes_token_id'' [''yesTokenId'']
                  (copy_text output ''market_slug'' [''market_slug'', ''marketSlug'', ''wsMarketSlug''] (ensure_object_mut input_json))))
              else ensure_object_mut input_json)
        in if fs_node_type step \<noteq> ''action.place_order'' \<or> \<not> pair_lock_waiting \<and> \<not> ptb_guard_retry then Some input_json
           else Some (if ptb_guard_retry then add_ptb_guard_retry_runtime_metadata fe pc output moved else moved))"

text \<open>\<open>execute\<close> is the execution of a node: what it did or an error, and the context it leaves.\<close>

type_synonym executor = "flow_run \<Rightarrow> trade_flow_graph_runtime \<Rightarrow> trade_flow_node \<Rightarrow> flow_step \<Rightarrow> json \<Rightarrow> (string, flow_execution) result \<times> json"

definition process_flow_step :: "once_env \<Rightarrow> executor \<Rightarrow> processing_context \<Rightarrow> flow_run \<Rightarrow> trade_flow_graph_runtime \<Rightarrow> trade_flow_node
    \<Rightarrow> flow_step \<Rightarrow> unit flow" where
  "process_flow_step env execute pc run graph node step =
     st_bind (reconcile_trade_flow_deferred_once_locks_for_run env run
        (normalize_trade_flow_context (fr_context_json run) (fg_context graph))) (\<lambda>ctx.
       case execute run graph node step ctx of
         (Inr execution, ctx') \<Rightarrow> st_bind (get_trade_flow_run env (fr_id run)) (\<lambda>latest_run.
            if map_option fr_status latest_run \<noteq> Some RunRunning
            then cancel_flow_step_side_effects_after_stop env step node (ex_output execution)
            else finish_flow_step env run graph node step (build_trade_flow_repeat_step_input (oe_flow env) pc step) execution ctx')
       | (Inl err, ctx') \<Rightarrow> fail_flow_step env run graph node step err ctx')"

definition skip_canceled :: "runs_env \<Rightarrow> flow_run \<Rightarrow> flow_step \<Rightarrow> string \<Rightarrow> json option \<Rightarrow> unit flow" where
  "skip_canceled re run step why output_json = st_then (set_trade_flow_run_status re (fr_id run) RunCanceled (Some why))
     (mark_trade_flow_step_skipped (re_once re) (fs_id step) output_json)"

definition process_trade_flow_step :: "runs_env \<Rightarrow> executor \<Rightarrow> processing_context \<Rightarrow> flow_step \<Rightarrow> unit flow" where
  "process_trade_flow_step re execute pc step =
     st_bind (get_trade_flow_run (re_once re) (fs_run_id step)) (\<lambda>found. case found of
       None \<Rightarrow> mark_trade_flow_step_skipped (re_once re) (fs_id step) None
     | Some run \<Rightarrow>
        if fr_status run \<noteq> RunRunning then mark_trade_flow_step_skipped (re_once re) (fs_id step) None
        else st_bind (get_trade_flow_definition re (fr_definition_id run)) (\<lambda>d.
          st_bind (st_result (ok_or ''flow definition not found for run'' d)) (\<lambda>d.
            if fdn_status d \<noteq> ''published'' then skip_canceled re run step ''definition_not_published'' None
            else if fdn_published_version_id d \<noteq> Some (fr_version_id run)
            then let output_json = JObj [(''reason'', JStr ''version_changed''), (''run_version_id'', json_i64 (fr_version_id run)),
                   (''published_version_id'', case fdn_published_version_id d of None \<Rightarrow> JNull | Some v \<Rightarrow> json_i64 v),
                   (''node_key'', JStr (fs_node_key step)), (''node_type'', JStr (fs_node_type step))]
              in st_then (skip_canceled re run step ''version_changed'' (Some output_json))
                 (append_trade_flow_event (re_once re) ''step_skipped_version_changed'' output_json)
            else st_bind (get_trade_flow_version re (fr_version_id run)) (\<lambda>version.
              st_bind (st_result (ok_or ''flow version not found for run'' version)) (\<lambda>version.
              st_bind (st_result (parse_trade_flow_graph (fv_graph_json version))) (\<lambda>graph.
              st_bind (st_result (ok_or ''flow node not found for step'' (flow_node graph (fs_node_key step)))) (\<lambda>node.
                process_flow_step (re_once re) execute pc run graph node step)))))))"

text \<open>One claimed step: the reading of its run is the only failure that leaves the loop.\<close>

definition process_claimed_step :: "runs_env \<Rightarrow> executor \<Rightarrow> processing_context \<Rightarrow> flow_step \<Rightarrow> unit \<Rightarrow> unit flow" where
  "process_claimed_step re execute pc step u =
     st_bind (get_trade_flow_run (re_once re) (fs_run_id step)) (\<lambda>found. case found of
       None \<Rightarrow> st_then (st_try (mark_trade_flow_step_skipped (re_once re) (fs_id step) None)) (st_return ())
     | Some run \<Rightarrow> st_get (\<lambda>w.
         st_bind (st_try (st_bind (st_result (re_config re (fl_calls w) (fr_user_id run))) (\<lambda>_. process_trade_flow_step re execute pc step)))
          (\<lambda>ended. case ended of
             Inr _ \<Rightarrow> st_return ()
           | Inl err \<Rightarrow> st_then (st_try (mark_trade_flow_step_failed (re_once re) (fs_id step) (Some (JObj
               [(''error'', JStr err), (''node_key'', JStr (fs_node_key step)), (''node_type'', JStr (fs_node_type step))])) err))
               (st_return ()))))"

definition flow_step_process_limit :: nat where "flow_step_process_limit = 250"

text \<open>\<open>n\<close> is the number of passes left, two near the boundary of a market and eight otherwise.\<close>

fun claim_passes :: "runs_env \<Rightarrow> executor \<Rightarrow> processing_context \<Rightarrow> nat \<Rightarrow> unit flow" where
  "claim_passes re execute pc 0 = st_return ()"
| "claim_passes re execute pc (Suc n) =
     st_bind (claim_ready_trade_flow_steps_for_processing_run re flow_step_process_limit (Some (pc_id pc))) (\<lambda>claimed_steps.
       if claimed_steps = [] then st_return ()
       else st_then (st_fold (process_claimed_step re execute pc) claimed_steps ()) (claim_passes re execute pc n))"

definition process_trade_flow_ready_steps_inner :: "runs_env \<Rightarrow> executor \<Rightarrow> processing_context \<Rightarrow> bool \<Rightarrow> unit flow" where
  "process_trade_flow_ready_steps_inner re execute pc near_boundary =
     st_then (claim_passes re execute pc (if near_boundary then 2 else 8))
       (fl_read (re_once re) (\<lambda>_. ()))"

end
