(* ===== verification/Flow_Effects.thy ===== *)
theory Flow_Effects
  imports Flow_Runs
begin

text \<open>
  Relations that every operation of the flow engine keeps. The locale states what such a relation has to promise for the
  single statements on the tables; inside it every handler, up to the passes over the queue and the start of runs, is
  shown to keep the relation, whatever the environment answers at each call, also when it fails after it wrote.
\<close>

locale flow_relation = closed_relation R for R :: "flow_db \<Rightarrow> flow_db \<Rightarrow> bool" +
  assumes R_calls: "R w (w\<lparr>fl_calls := n\<rparr>)"
    and R_events: "R w (w\<lparr>fl_events := es\<rparr>)"
    and R_keys: "R w (w\<lparr>fl_keys := ks\<rparr>)"
    and R_expire: "R w (snd (expire_where P now w))"
    and R_lock: "R w (snd (insert_lock row now w))"
    and R_release: "R w (snd (close_lock key (released_row why) now w))"
    and R_consume: "R w (snd (close_lock key (consumed_row builder_order_id) now w))"
    and R_context: "R w (update_run i (fr_context_json_update (\<lambda>_. ctx)) w)"
    and R_status: "status \<noteq> RunRunning \<Longrightarrow> R w (update_run i (\<lambda>r. r\<lparr>fr_status := status, fr_last_error := err\<rparr>) w)"
    and R_run: "fr_id r = int (length (fl_runs w)) \<Longrightarrow> R w (snd (insert_run r now w))"
    and R_queue: "R w (w\<lparr>fl_steps := fl_steps w @ [queued_step (int (length (fl_steps w))) run key ty attempt input t parent once now]\<rparr>)"
    and R_end: "ending \<notin> {StepQueued, StepRunning} \<Longrightarrow> R w (update_step i (ended_step ending out error now) w)"
    and R_claim: "R w (snd (claim_steps limit pass now w))"
    and R_recover: "R w (snd (recover_steps text age limit now w))"
begin

lemma now: "(\<And>t. preserves R (f t)) \<Longrightarrow> preserves R (fl_now env f)"
  unfolding fl_now_def by (rule get)

lemma reads: "preserves R (fl_read env f)"
  by (auto simp: preserves_def fl_read_def Let_def R_calls split: answer.split)

lemma statement_kept:
  assumes "\<And>now w. R w (snd (f now w))"
  shows "preserves R (fl_write env f)"
  unfolding preserves_def
proof
  fix w :: flow_db
  let ?w = "w\<lparr>fl_calls := Suc (fl_calls w)\<rparr>" and ?now = "oe_now env (fl_calls w)"
  have "R w (snd (f ?now ?w))" by (rule R_trans [OF R_calls assms])
  then show "R w (snd (fl_write env f w))"
    by (auto simp: fl_write_def Let_def R_calls split: answer.split prod.split)
qed

lemmas combine = combinators now reads

lemma lock_statements:
  "preserves R (release_trade_flow_deferred_once_lock env key why)" "preserves R (consume_trade_flow_deferred_once_lock env key i)"
  "preserves R (expire_trade_flow_deferred_once_locks_for_run env run_id)"
  "preserves R (list_consumed_trade_flow_deferred_once_locks env run_id)"
  "preserves R (acquire_trade_flow_deferred_once_lock env input)"
  unfolding release_trade_flow_deferred_once_lock_def consume_trade_flow_deferred_once_lock_def
    expire_trade_flow_deferred_once_locks_for_run_def list_consumed_trade_flow_deferred_once_locks_def
    acquire_trade_flow_deferred_once_lock_def
  by (intro combine statement_kept R_release R_consume R_expire R_lock)+

lemma stored:
  "preserves R (append_trade_flow_event env kind payload)" "preserves R (try_record_once_key env once)"
  "preserves R (update_trade_flow_run_context env run_id ctx)" "preserves R (append_deferred_once_event env meta a st why i)"
  "preserves R (sync_trade_flow_node_runtime_snapshot_for_step env step_id)" "preserves R (other_call env)"
  unfolding append_trade_flow_event_def try_record_once_key_def update_trade_flow_run_context_def append_deferred_once_event_def
    sync_trade_flow_node_runtime_snapshot_for_step_def other_call_def
  by (rule statement_kept, simp add: R_events R_keys R_context R_refl)+

lemma queue_statement: "preserves R (enqueue_trade_flow_step env run_id key ty attempt input t parent once)"
  unfolding enqueue_trade_flow_step_def by (rule statement_kept) (simp add: R_refl R_queue Let_def)

lemma step_ends:
  "preserves R (mark_trade_flow_step_completed env i out)" "preserves R (mark_trade_flow_step_failed env i out err)"
  "preserves R (mark_trade_flow_step_skipped env i out)"
  unfolding mark_trade_flow_step_completed_def mark_trade_flow_step_failed_def mark_trade_flow_step_skipped_def
  by (rule andthen [OF statement_kept stored(5)], simp add: R_end)+

lemma run_statements:
  "preserves R (get_trade_flow_run env run_id)" "preserves R (get_trade_flow_definition re run_id)" "preserves R (get_trade_flow_version re run_id)"
  "preserves R (get_active_trade_flow_run re run_id)"
  unfolding get_trade_flow_run_def get_trade_flow_definition_def get_trade_flow_version_def get_active_trade_flow_run_def
  by (rule reads)+

lemma run_status: "status \<noteq> RunRunning \<Longrightarrow> preserves R (set_trade_flow_run_status re run_id status err)"
  unfolding set_trade_flow_run_status_def by (rule statement_kept) (simp add: R_status)

lemma run_created: "preserves R (create_trade_flow_run re d v source ctx)"
  unfolding create_trade_flow_run_def by (intro combine statement_kept) (rule R_run, simp)

lemma claimed: "preserves R (claim_ready_trade_flow_steps_for_processing_run re limit pass)"
  unfolding claim_ready_trade_flow_steps_for_processing_run_def by (intro combine statement_kept R_claim)

lemma recovered: "preserves R (recover_stale_running_trade_flow_steps re age limit)"
  unfolding recover_stale_running_trade_flow_steps_def by (intro statement_kept R_recover)

lemmas statements = lock_statements stored queue_statement step_ends run_statements run_created claimed recovered

lemma reconciled: "preserves R (reconcile_trade_flow_deferred_once_locks_for_run env run ctx)"
  unfolding reconcile_trade_flow_deferred_once_locks_for_run_def mark_consumed_def by (intro combine statements)

lemma attached: "preserves R (maybe_attach_deferred_once_lock_to_action_input env run graph source target input)"
  unfolding maybe_attach_deferred_once_lock_to_action_input_def attach_lock_def by (intro combine statements)

lemma edges: "preserves R (enqueue_trade_flow_edges env run graph source kind t parent input ctx)"
  unfolding enqueue_trade_flow_edges_def enqueue_edge_target_def Let_def by (intro combine statements attached)

lemma applied: "preserves R (apply_deferred_once_after_node_execution env run node step execution ctx)"
  unfolding apply_deferred_once_after_node_execution_def Let_def by (intro combine statements)

lemma released: "preserves R (release_deferred_once_after_step_error env node input output err)"
  unfolding release_deferred_once_after_step_error_def Let_def by (intro combine statements)

lemma finished: "preserves R (finish_flow_step env run graph node step input execution ctx)"
  unfolding finish_flow_step_def by (intro combine statements applied edges) (simp split: prod.split add: edges)

lemma failed: "preserves R (fail_flow_step env run graph node step err ctx)"
  unfolding fail_flow_step_def by (intro combine statements released edges)

lemma stopped: "preserves R (cancel_flow_step_side_effects_after_stop env step node output)"
  unfolding cancel_flow_step_side_effects_after_stop_def Let_def by (intro combine statements)

lemma processed: "preserves R (process_flow_step env execute pc run graph node step)"
  unfolding process_flow_step_def by (intro combine statements reconciled stopped finished failed)

lemma step_processed: "preserves R (process_trade_flow_step re execute pc step)"
  unfolding process_trade_flow_step_def skip_canceled_def Let_def by (intro combine statements processed run_status) simp_all

lemma claimed_processed: "preserves R (process_claimed_step re execute pc step u)"
  unfolding process_claimed_step_def by (intro combine statements step_processed)

lemma passes: "preserves R (claim_passes re execute pc n)"
  by (induction n) (auto intro!: combine statements claimed_processed)

lemma ready_steps: "preserves R (process_trade_flow_ready_steps_inner re execute pc near_boundary)"
  unfolding process_trade_flow_ready_steps_inner_def by (intro combine passes)

lemma seeded: "preserves R (seed_trade_flow_trigger_steps re run graph)"
  unfolding seed_trade_flow_trigger_steps_def seed_step_def by (intro combine statements run_status) simp

lemma run_started: "preserves R (start_trade_flow_run re d version graph)"
  unfolding start_trade_flow_run_def by (intro combine statements run_status seeded) simp

lemma run_synced: "preserves R (sync_active_run re version graph run)"
  unfolding sync_active_run_def by (intro combine statements)

lemma synced: "preserves R (sync_trade_flow_definition_run re d)"
  unfolding sync_trade_flow_definition_run_def by (intro combine statements run_status run_started run_synced) simp

lemma reentry: "preserves R (schedule_reentry env run action trigger market max_attempts t)"
  unfolding schedule_reentry_def Let_def by (intro combine statements)

end

text \<open>What the tasks of the engine do: a pass over the queue, the start of runs, the recovery of stale steps, a claim, a
  trigger or a reentry that is queued from a task of its own.\<close>

inductive engine_step :: "flow_db \<Rightarrow> flow_db \<Rightarrow> bool" where
  "engine_step w (snd (process_trade_flow_ready_steps_inner re execute pc near_boundary w))"
| "engine_step w (snd (claim_ready_trade_flow_steps_for_processing_run re limit pass w))"
| "engine_step w (snd (process_claimed_step re execute pc step () w))"
| "engine_step w (snd (sync_trade_flow_definition_run re d w))"
| "engine_step w (snd (recover_stale_running_trade_flow_steps re age limit w))"
| "engine_step w (snd (enqueue_trade_flow_step env run_id key ty attempt input t parent once w))"
| "engine_step w (snd (schedule_reentry env run action trigger market max_attempts t w))"

abbreviation engine :: "flow_db \<Rightarrow> flow_db \<Rightarrow> bool" where
  "engine \<equiv> engine_step\<^sup>*\<^sup>*"

context flow_relation begin

lemma one_engine_step: "engine_step w w' \<Longrightarrow> R w w'"
  by (induction rule: engine_step.induct)
    (insert ready_steps claimed claimed_processed synced recovered queue_statement reentry, simp_all add: preserves_def)

lemma engine_steps: "engine w w' \<Longrightarrow> R w w'"
  by (induction rule: rtranclp_induct) (auto intro: R_refl R_trans dest: one_engine_step)

end

end
