(* ===== verification/Once_Safety.thy ===== *)
theory Once_Safety
  imports Flow_Effects
begin

text \<open>
  What the locks of \<open>Deferred_Once\<close> guarantee: \<open>table_step\<close> is one statement on the table, and the table reached by any
  sequence of statements, of any handlers in any interleaving, has at most one pending lock of a key; the
  handlers perform nothing but such statements, whatever the database answers. After a reconciliation every trigger
  with a consumed lock is marked, which also blocks a reentry; a lock whose time is over admits a second order.
\<close>

section \<open>Statements on the table\<close>

inductive table_step :: "once_lock list \<Rightarrow> once_lock list \<Rightarrow> bool" where
  expire: "table_step ls (fl_locks (snd (expire_where P now (w\<lparr>fl_locks := ls\<rparr>))))"
| insert: "table_step ls (fl_locks (snd (insert_lock row now (w\<lparr>fl_locks := ls\<rparr>))))"
| release: "table_step ls (fl_locks (snd (close_lock key (released_row why) now (w\<lparr>fl_locks := ls\<rparr>))))"
| consume: "table_step ls (fl_locks (snd (close_lock key (consumed_row builder_order_id) now (w\<lparr>fl_locks := ls\<rparr>))))"

abbreviation table_steps :: "once_lock list \<Rightarrow> once_lock list \<Rightarrow> bool" where
  "table_steps \<equiv> table_step\<^sup>*\<^sup>*"

lemma locks_same: "w\<lparr>fl_locks := fl_locks w\<rparr> = w" by simp

lemma step_expire: "table_step (fl_locks w) (fl_locks (snd (expire_where P now w)))"
  using table_step.expire [of "fl_locks w" P now w] by (simp only: locks_same)

lemma step_insert: "table_step (fl_locks w) (fl_locks (snd (insert_lock row now w)))"
  using table_step.insert [of "fl_locks w" row now w] by (simp only: locks_same)

lemma step_release: "table_step (fl_locks w) (fl_locks (snd (close_lock key (released_row why) now w)))"
  using table_step.release [of "fl_locks w" key why now w] by (simp only: locks_same)

lemma step_consume: "table_step (fl_locks w) (fl_locks (snd (close_lock key (consumed_row i) now w)))"
  using table_step.consume [of "fl_locks w" key i now w] by (simp only: locks_same)

section \<open>The engine is a sequence of statements\<close>

definition by_statements :: "flow_db \<Rightarrow> flow_db \<Rightarrow> bool" where
  "by_statements w w' \<longleftrightarrow> table_steps (fl_locks w) (fl_locks w')"

interpretation locks: flow_relation by_statements
proof
  show "by_statements u w" if "by_statements u v" "by_statements v w" for u v w
    using that by (auto simp: by_statements_def)
qed (simp_all add: by_statements_def update_run_def update_step_def insert_run_def claim_steps_def recover_steps_def Let_def r_into_rtranclp
  step_expire step_insert step_release step_consume)

section \<open>The table\<close>

definition lock_ok :: "once_lock \<Rightarrow> bool" where
  "lock_ok l \<longleftrightarrow>
     ol_state l = LockPending \<and> ol_builder_order_id l = None \<and> ol_consumed_at l = None \<and> ol_released_at l = None
   \<or> ol_state l = LockConsumed \<and> ol_builder_order_id l \<noteq> None \<and> ol_consumed_at l \<noteq> None \<and> ol_released_at l = None
   \<or> ol_state l = LockReleased \<and> ol_builder_order_id l = None \<and> ol_consumed_at l = None \<and> ol_release_reason l \<noteq> None
   \<or> ol_state l = LockExpired \<and> ol_builder_order_id l = None \<and> (\<exists>t. ol_released_at l = Some t \<and> ol_expires_at l \<le> t)"

definition locks_ok :: "once_lock list \<Rightarrow> bool" where
  "locks_ok ls \<longleftrightarrow> distinct (map ol_lock_key (filter is_pending ls)) \<and> list_all lock_ok ls"

lemma closed_not_pending [simp]: "\<not> is_pending (expired_row t l)" "\<not> is_pending (released_row why t l)" "\<not> is_pending (consumed_row i t l)"
  by (simp_all add: is_pending_def expired_row_def released_row_def consumed_row_def)

lemma pending_ok: "lock_ok l \<Longrightarrow> is_pending l \<Longrightarrow>
    ol_builder_order_id l = None \<and> ol_consumed_at l = None \<and> ol_released_at l = None"
  by (simp add: lock_ok_def is_pending_def)

lemma closed_ok: "lock_ok l \<Longrightarrow> is_pending l \<Longrightarrow> lock_ok (released_row why t l) \<and> lock_ok (consumed_row i t l)"
  by (simp add: lock_ok_def is_pending_def released_row_def consumed_row_def)

lemma expired_ok: "lock_ok l \<Longrightarrow> is_pending l \<Longrightarrow> ol_expires_at l \<le> t \<Longrightarrow> lock_ok (expired_row t l)"
  by (simp add: lock_ok_def is_pending_def expired_row_def)

text \<open>Closing some of the rows.\<close>

lemma pending_keys_close:
  assumes "\<And>l. \<not> is_pending (close l)"
  shows "map ol_lock_key (filter is_pending (map (\<lambda>l. if P l then close l else l) ls))
    = map ol_lock_key (filter (\<lambda>l. is_pending l \<and> \<not> P l) ls)"
  using assms by (induction ls) auto

lemma distinct_more: "distinct (map f (filter P xs)) \<Longrightarrow> distinct (map f (filter (\<lambda>x. P x \<and> Q x) xs))"
  by (induction xs) (auto split: if_splits)

lemma close_ok:
  assumes "locks_ok ls" "\<And>l. \<not> is_pending (close l)" "\<And>l. l \<in> set ls \<Longrightarrow> P l \<Longrightarrow> lock_ok (close l)"
  shows "locks_ok (map (\<lambda>l. if P l then close l else l) ls)"
  using assms unfolding locks_ok_def pending_keys_close [OF assms(2)]
  by (auto simp: list_all_iff intro: distinct_more)

lemma all_ok: "locks_ok ls \<Longrightarrow> l \<in> set ls \<Longrightarrow> lock_ok l"
  by (simp add: locks_ok_def list_all_iff)

lemma table_step_ok: "table_step ls ls' \<Longrightarrow> locks_ok ls \<Longrightarrow> locks_ok ls'"
proof (induction rule: table_step.induct)
  case (expire ls P now w)
  have "locks_ok (map (\<lambda>l. if P l \<and> is_pending l \<and> ol_expires_at l \<le> now then expired_row now l else l) ls)"
    by (rule close_ok [OF expire]) (simp_all add: expired_ok all_ok [OF expire])
  then show ?case by (simp add: expire_where_def Let_def)
next
  case (insert ls row now w)
  then show ?case
    by (auto simp: insert_lock_def locks_ok_def list_all_iff list_ex_iff lock_ok_def is_pending_def Let_def)
next
  case (release ls key why now w)
  have "locks_ok (map (\<lambda>l. if is_pending l \<and> ol_lock_key l = key then released_row why now l else l) ls)"
    by (rule close_ok [OF release]) (simp_all add: closed_ok all_ok [OF release])
  then show ?case by (simp add: close_lock_def Let_def)
next
  case (consume ls key i now w)
  have "locks_ok (map (\<lambda>l. if is_pending l \<and> ol_lock_key l = key then consumed_row i now l else l) ls)"
    by (rule close_ok [OF consume]) (simp_all add: closed_ok all_ok [OF consume])
  then show ?case by (simp add: close_lock_def Let_def)
qed

lemma steps_ok: "table_steps ls ls' \<Longrightarrow> locks_ok ls \<Longrightarrow> locks_ok ls'"
  by (induction rule: rtranclp_induct) (auto dest: table_step_ok)

text \<open>What one statement leaves alone: closed rows and the keys.\<close>

definition extends :: "once_lock list \<Rightarrow> once_lock list \<Rightarrow> bool" where
  "extends ls ls' \<longleftrightarrow> length ls \<le> length ls' \<and> (\<forall>i < length ls. ol_lock_key (ls' ! i) = ol_lock_key (ls ! i)
     \<and> ol_trigger_node_key (ls' ! i) = ol_trigger_node_key (ls ! i) \<and> (is_pending (ls ! i) \<or> ls' ! i = ls ! i))"

lemma extends_map: "(\<And>l. P l \<Longrightarrow> is_pending l \<and> ol_lock_key (close l) = ol_lock_key l \<and> ol_trigger_node_key (close l) = ol_trigger_node_key l)
    \<Longrightarrow> extends ls (map (\<lambda>l. if P l then close l else l) ls)"
  by (auto simp: extends_def)

lemma step_extends: "table_step ls ls' \<Longrightarrow> extends ls ls'"
proof (induction rule: table_step.induct)
  case (insert ls row now w)
  then show ?case by (auto simp: insert_lock_def extends_def Let_def nth_append)
qed (auto simp: expire_where_def close_lock_def Let_def expired_row_def released_row_def consumed_row_def intro!: extends_map)

lemma extends_trans: "extends ls ls' \<Longrightarrow> extends ls' ls'' \<Longrightarrow> extends ls ls''"
  unfolding extends_def by (metis le_trans order_less_le_trans)

lemma steps_extend: "table_steps ls ls' \<Longrightarrow> extends ls ls'"
proof (induction rule: rtranclp_induct)
  case (step y z)
  then show ?case using step_extends extends_trans by blast
qed (simp add: extends_def)

section \<open>Marks of consumed locks\<close>

lemma read_Inr: "fl_read env f w = (Inr x, w') \<longleftrightarrow> oe_answer env (fl_calls w) = Done \<and> x = f w \<and> w' = w\<lparr>fl_calls := Suc (fl_calls w)\<rparr>"
  by (auto simp: fl_read_def Let_def split: answer.split)

lemma mark_consumed_Inr:
  assumes "mark_consumed env l ctx w = (Inr ctx', w')" "trimmed (Some (ol_market_slug l)) \<noteq> None"
  shows "w' = w" "trade_flow_market_price_once_fired_for_scope (oe_flow env) ctx' (ol_trigger_node_key l) (ol_once_scope_market l) (Some (ol_market_slug l))"
  using assms fired_after_mark
  by (auto simp: mark_consumed_def fl_now_def st_get_def st_return_def split: if_splits)

lemma mark_consumed_other:
  assumes "mark_consumed env l ctx w = (Inr ctx', w')" "n \<noteq> ol_trigger_node_key l"
  shows "w' = w" "trade_flow_market_price_once_fired_for_scope (oe_flow env) ctx' n scope m
      = trade_flow_market_price_once_fired_for_scope (oe_flow env) ctx n scope m"
  using assms fired_other_mark
  by (auto simp: mark_consumed_def fl_now_def st_get_def st_return_def split: if_splits)

lemma mark_consumed_state: "mark_consumed env l ctx w = (Inr ctx', w') \<Longrightarrow> w' = w"
  by (auto simp: mark_consumed_def fl_now_def st_get_def st_return_def split: if_splits)

lemma marks_state: "st_fold (mark_consumed env) ls ctx w = (Inr ctx', w') \<Longrightarrow> w' = w"
  by (induction ls arbitrary: ctx) (auto simp: st_bind_Inr dest: mark_consumed_state)

lemma marks_other: "st_fold (mark_consumed env) ls ctx w = (Inr ctx', w') \<Longrightarrow> n \<notin> ol_trigger_node_key ` set ls \<Longrightarrow>
    trade_flow_market_price_once_fired_for_scope (oe_flow env) ctx' n scope m
      = trade_flow_market_price_once_fired_for_scope (oe_flow env) ctx n scope m"
proof (induction ls arbitrary: ctx)
  case (Cons l ls)
  from Cons.prems(1) obtain ctx1 where c: "mark_consumed env l ctx w = (Inr ctx1, w)" "st_fold (mark_consumed env) ls ctx1 w = (Inr ctx', w')"
    by (auto simp: st_bind_Inr dest: mark_consumed_state)
  show ?case using Cons.IH [OF c(2)] mark_consumed_other(2) [OF c(1)] Cons.prems(2) by auto
qed (simp add: st_return_def)

lemma marks_last:
  assumes "st_fold (mark_consumed env) (before @ l # later) ctx w = (Inr ctx', w')" "trimmed (Some (ol_market_slug l)) \<noteq> None"
    "ol_trigger_node_key l \<notin> ol_trigger_node_key ` set later"
  shows "trade_flow_market_price_once_fired_for_scope (oe_flow env) ctx' (ol_trigger_node_key l) (ol_once_scope_market l) (Some (ol_market_slug l))"
  using assms(1)
proof (induction before arbitrary: ctx)
  case Nil
  then obtain ctx1 where c: "mark_consumed env l ctx w = (Inr ctx1, w)" "st_fold (mark_consumed env) later ctx1 w = (Inr ctx', w')"
    by (auto simp: st_bind_Inr dest: mark_consumed_state)
  show ?case using mark_consumed_Inr(2) [OF c(1) assms(2)] marks_other [OF c(2) assms(3)] by simp
next
  case (Cons b before)
  then show ?case by (auto simp: st_bind_Inr dest: mark_consumed_state)
qed

lemma consumed_locks_cong: "fl_locks w = fl_locks w' \<Longrightarrow> consumed_locks i w = consumed_locks i w'"
  by (simp add: consumed_locks_def)

lemma list_consumed_Inr: "list_consumed_trade_flow_deferred_once_locks env i w = (Inr ls, w') \<Longrightarrow>
    ls = consumed_locks i w \<and> fl_locks w' = fl_locks w"
  by (simp add: list_consumed_trade_flow_deferred_once_locks_def read_Inr)

lemma listed_marks:
  assumes "st_bind (list_consumed_trade_flow_deferred_once_locks env i) (\<lambda>ls. st_fold (mark_consumed env) ls ctx) w = (Inr ctx', w')"
  shows "\<exists>w1. st_fold (mark_consumed env) (consumed_locks i w') ctx w1 = (Inr ctx', w')"
proof -
  obtain ls w1 where l: "list_consumed_trade_flow_deferred_once_locks env i w = (Inr ls, w1)"
    and f: "st_fold (mark_consumed env) ls ctx w1 = (Inr ctx', w')"
    using assms unfolding st_bind_Inr by (elim exE conjE) (rule that)
  have "w' = w1" by (rule marks_state [OF f])
  then have "ls = consumed_locks i w'" using list_consumed_Inr [OF l] consumed_locks_cong [of w w' i] by simp
  with f show ?thesis by blast
qed

lemma reconcile_marks:
  assumes "reconcile_trade_flow_deferred_once_locks_for_run env run ctx w = (Inr ctx', w')"
  shows "\<exists>w1. st_fold (mark_consumed env) (consumed_locks (fr_id run) w') ctx w1 = (Inr ctx', w')"
proof -
  obtain n w1 where r1: "st_then (if 0 < n
         then append_trade_flow_event env ''deferred_once_lock'' (JObj
           [(''pending_once_action'', JStr ''expired''), (''pending_once_state'', JStr ''expired''),
            (''expired_count'', json_i64 (int n))])
         else st_return ())
     (st_bind (list_consumed_trade_flow_deferred_once_locks env (fr_id run)) (\<lambda>locks. st_fold (mark_consumed env) locks ctx)) w1 = (Inr ctx', w')"
    using assms unfolding reconcile_trade_flow_deferred_once_locks_for_run_def st_bind_Inr [where m = "expire_trade_flow_deferred_once_locks_for_run env (fr_id run)"]
    by (elim exE conjE) (rule that)
  then show ?thesis unfolding st_then_Inr by (elim exE conjE) (rule listed_marks)
qed

text \<open>C1: the table of locks excludes. After any statements on it, of any handlers in any interleaving, at most one lock of a
  key is pending, every lock is in a proper state (a consumed one names its order, an expired one was closed after its
  time), and a lock that is closed is never changed again.\<close>

theorem once_locks_exclude:
  assumes "table_steps [] ls" "table_steps ls ls'"
  shows "distinct (map ol_lock_key (filter is_pending ls')) \<and> list_all lock_ok ls' \<and> extends ls ls'"
  using steps_ok [OF assms(2)] steps_ok [OF assms(1)] steps_extend [OF assms(2)] by (simp add: locks_ok_def)

text \<open>The engine touches the table of locks by its statements only. Whatever nodes do, whatever the database answers at
  each call, also when it fails after it wrote, every sequence of passes over the queue, starts of runs, recoveries and
  queued triggers is a sequence of statements on the table.\<close>

lemma engine_uses_lock_statements:
  assumes "engine w w'"
  shows "table_steps (fl_locks w) (fl_locks w')"
  using locks.engine_steps [OF assms] by (simp add: by_statements_def)

text \<open>C17: after a reconciliation a trigger whose lock was consumed does not fire again. Also when the step that consumed
  the lock failed before it stored the mark, the next step of the run starts with the mark of the trigger for the
  market of the lock it consumed last.\<close>

theorem consumed_lock_blocks_trigger:
  assumes "reconcile_trade_flow_deferred_once_locks_for_run env run ctx w = (Inr ctx', w')"
    "consumed_locks (fr_id run) w' = before @ l # later" "ol_trigger_node_key l \<notin> ol_trigger_node_key ` set later"
    "trimmed (Some (ol_market_slug l)) \<noteq> None"
  shows "trade_flow_market_price_once_fired_for_scope (oe_flow env) ctx' (ol_trigger_node_key l) (ol_once_scope_market l)
    (Some (ol_market_slug l))"
proof -
  obtain w1 where "st_fold (mark_consumed env) (consumed_locks (fr_id run) w') ctx w1 = (Inr ctx', w')"
    using reconcile_marks [OF assms(1)] by (elim exE) (rule that)
  then show ?thesis unfolding assms(2) by (rule marks_last [OF _ assms(4,3)])
qed

section \<open>Reentry\<close>

lemma removed_stays: "flow_node_state ctx n k = None \<Longrightarrow> flow_node_state (fold (remove_flow_node_state n) ks ctx) n k = None"
  by (induction ks arbitrary: ctx) simp_all

lemma removed_truthy: "flow_node_state ctx n k = None \<Longrightarrow> \<not> flow_node_state_truthy fe ctx n k"
  and removed_string: "flow_node_state ctx n k = None \<Longrightarrow> flow_node_state_string ctx n k = None"
  by (simp_all add: flow_node_state_truthy_def flow_node_state_string_def non_empty_def filter_opt_def)

lemma ws_clear_stays: "flow_node_state ctx n k = None \<Longrightarrow> flow_node_state (clear_trade_flow_market_price_ws_runtime_state n ctx) n k = None"
  unfolding clear_trade_flow_market_price_ws_runtime_state_def by (simp add: removed_stays split: option.split)

lemma reentry_clears: "\<not> trade_flow_market_price_once_fired_for_scope fe (reentry_context fe action n market g ctx) n scope m"
proof -
  have "flow_node_state (reentry_context fe action n market g ctx) n k = None" if "k \<in> {ns_once_fired, ns_lock_market_slug}" for k
    unfolding reentry_context_def using that
    by (intro ws_clear_stays) (auto simp: clear_trade_flow_market_price_once_state_def)
  then show ?thesis by (simp add: trade_flow_market_price_once_fired_for_scope_def removed_truthy removed_string Let_def) auto
qed

lemma updated_run: "find (\<lambda>r. fr_id r = i) (fl_runs (update_run i f w)) = Some r \<Longrightarrow> (\<And>r. fr_id (f r) = fr_id r) \<Longrightarrow> r \<in> f ` set (fl_runs w)"
  by (auto simp: find_Some_iff update_run_def split: if_splits)

lemma scheduled_context:
  assumes "schedule_reentry env run action trigger market max_attempts t w = (Inr True, w1)" "find (\<lambda>r. fr_id r = fr_id run) (fl_runs w1) = Some run'"
  shows "\<exists>g. fr_context_json run' = reentry_context (oe_flow env) action trigger market g (fr_context_json run)"
proof -
  have "\<exists>g. fl_runs w1 = fl_runs (update_run (fr_id run)
      (fr_context_json_update (\<lambda>_. reentry_context (oe_flow env) action trigger market g (fr_context_json run))) w)"
    using assms(1)
    by (auto simp: schedule_reentry_def st_then_Inr st_bind_Inr update_trade_flow_run_context_def enqueue_trade_flow_step_def
        fl_write_def update_run_def Let_def split: prod.splits if_splits answer.splits)
  then show ?thesis using updated_run assms(2) by fastforce
qed

text \<open>C34: a consumed lock defeats the reentry after a stop loss. The reentry clears the mark of the trigger and
  queues it again, but the step that runs it finds the consumed lock of the first entry in its reconciliation and marks
  the trigger as fired for this market again, so the trigger is blocked before it looks at a price.\<close>

theorem reentry_blocked_by_consumed_lock:
  assumes "schedule_reentry env run action trigger (ol_market_slug l) max_attempts available_at w = (Inr True, w1)"
    "get_trade_flow_run env (fr_id run) w1 = (Inr (Some run'), w2)"
    "reconcile_trade_flow_deferred_once_locks_for_run env run' (normalize_trade_flow_context (fr_context_json run') graph_context) w2 = (Inr ctx, w3)"
    "consumed_locks (fr_id run') w3 = before @ l # later" "ol_trigger_node_key l = trigger"
    "trigger \<notin> ol_trigger_node_key ` set later" "trimmed (Some (ol_market_slug l)) \<noteq> None"
  shows "\<not> trade_flow_market_price_once_fired_for_scope (oe_flow env) (fr_context_json run') trigger (ol_once_scope_market l) (Some (ol_market_slug l))
    \<and> trade_flow_market_price_once_fired_for_scope (oe_flow env) ctx trigger (ol_once_scope_market l) (Some (ol_market_slug l))"
proof -
  have "find (\<lambda>r. fr_id r = fr_id run) (fl_runs w1) = Some run'" using assms(2) by (simp add: get_trade_flow_run_def read_Inr)
  then have "\<not> trade_flow_market_price_once_fired_for_scope (oe_flow env) (fr_context_json run') trigger (ol_once_scope_market l) (Some (ol_market_slug l))"
    using scheduled_context [OF assms(1)] by (auto simp: reentry_clears)
  moreover obtain w4 where "st_fold (mark_consumed env) (before @ l # later) (normalize_trade_flow_context (fr_context_json run') graph_context) w4 = (Inr ctx, w3)"
    using reconcile_marks [OF assms(3)] unfolding assms(4) by (elim exE) (rule that)
  then have "trade_flow_market_price_once_fired_for_scope (oe_flow env) ctx (ol_trigger_node_key l) (ol_once_scope_market l) (Some (ol_market_slug l))"
    using assms(5,6) by (intro marks_last [OF _ assms(7)]) simp_all
  ultimately show ?thesis using assms(5) by simp
qed

section \<open>The time of a lock\<close>

lemma write_done: "oe_answer env = (\<lambda>_. Done) \<Longrightarrow> fl_write env f w
    = (let (x, v) = f (oe_now env (fl_calls w)) (w\<lparr>fl_calls := Suc (fl_calls w)\<rparr>) in (Inr x, v))"
  by (simp add: fl_write_def Let_def)

lemma event_done: "oe_answer env = (\<lambda>_. Done) \<Longrightarrow> \<exists>w'. append_deferred_once_event env meta a st why i w = (Inr (), w') \<and> fl_locks w' = fl_locks w"
  by (simp add: append_deferred_once_event_def append_trade_flow_event_def write_done Let_def)

definition holds_key :: "string \<Rightarrow> once_lock \<Rightarrow> bool" where
  "holds_key k l \<longleftrightarrow> is_pending l \<and> ol_lock_key l = k"

lemma key_expired:
  assumes "locks_ok ls" "l \<in> set ls" "is_pending l" "ol_lock_key l = k" "ol_expires_at l \<le> now"
  shows "\<forall>x \<in> set (map (\<lambda>l. if ol_lock_key l = k \<and> is_pending l \<and> ol_expires_at l \<le> now then expired_row now l else l) ls). \<not> holds_key k x"
proof -
  have inj: "inj_on ol_lock_key (set (filter is_pending ls))" using assms(1) by (simp add: locks_ok_def distinct_map)
  have "x = l" if "x \<in> set ls" "is_pending x" "ol_lock_key x = k" for x
    by (rule inj_onD [OF inj]) (use that assms in simp_all)
  then show ?thesis using assms(5) by (auto simp: holds_key_def)
qed

lemma close_nothing:
  assumes "\<forall>x \<in> set (fl_locks w). \<not> holds_key k x"
  shows "close_lock k close now w = (None, w)"
proof -
  have "find (\<lambda>l. is_pending l \<and> ol_lock_key l = k) (fl_locks w) = None" using assms by (auto simp: find_None_iff holds_key_def)
  moreover have "map (\<lambda>l. if is_pending l \<and> ol_lock_key l = k then close now l else l) (fl_locks w) = fl_locks w"
    using assms by (intro map_idI) (auto simp: holds_key_def)
  ultimately show ?thesis by (simp add: close_lock_def Let_def)
qed

lemma find_append: "find P (xs @ ys) = (case find P xs of None \<Rightarrow> find P ys | Some x \<Rightarrow> Some x)"
  by (induction xs) simp_all

lemma close_last:
  assumes "fl_locks w = ls @ [row]" "\<forall>x \<in> set ls. \<not> holds_key k x" "holds_key k row"
  shows "close_lock k close now w = (Some (close now row), w\<lparr>fl_locks := ls @ [close now row]\<rparr>)"
proof -
  have "find (\<lambda>l. is_pending l \<and> ol_lock_key l = k) ls = None" using assms(2) by (auto simp: find_None_iff holds_key_def)
  then have "find (\<lambda>l. is_pending l \<and> ol_lock_key l = k) (ls @ [row]) = Some row"
    using assms(3) by (simp add: find_append holds_key_def)
  moreover have "map (\<lambda>l. if is_pending l \<and> ol_lock_key l = k then close now l else l) ls = ls"
    using assms(2) by (intro map_idI) (auto simp: holds_key_def)
  ultimately show ?thesis using assms(1,3) by (simp add: close_lock_def holds_key_def Let_def)
qed

lemma attach_after_time:
  assumes "oe_answer env = (\<lambda>_. Done)" "locks_ok (fl_locks w)" "l \<in> set (fl_locks w)" "holds_key (om_lock_key meta) l"
    "ol_expires_at l \<le> oe_now env (fl_calls w)"
  shows "\<exists>queued w1 ls row. attach_lock env run input meta w = (Inr (Some queued), w1) \<and> fl_locks w1 = ls @ [row]
    \<and> (\<forall>x \<in> set ls. \<not> holds_key (om_lock_key meta) x) \<and> holds_key (om_lock_key meta) row"
proof -
  let ?k = "om_lock_key meta" and ?now = "oe_now env (fl_calls w)"
  let ?ls = "map (\<lambda>l. if ol_lock_key l = ?k \<and> is_pending l \<and> ol_expires_at l \<le> ?now then expired_row ?now l else l) (fl_locks w)"
  let ?row = "lock_input run meta"
  have free: "\<forall>x \<in> set ?ls. \<not> holds_key ?k x"
    by (rule key_expired [OF assms(2,3)]) (use assms(4,5) in \<open>simp_all add: holds_key_def\<close>)
  have row: "holds_key ?k ?row" "ol_lock_key ?row = ?k" by (simp_all add: holds_key_def is_pending_def lock_input_def)
  obtain n wa where e: "fl_write env (expire_where (\<lambda>l. ol_lock_key l = ?k)) w = (Inr n, wa)" "fl_locks wa = ?ls"
    by (simp add: write_done [OF assms(1)] expire_where_def Let_def conj_assoc)
  have "\<not> list_ex (\<lambda>l. is_pending l \<and> ol_lock_key l = ?k) (fl_locks wa)"
    using free unfolding e(2) list_ex_iff holds_key_def by blast
  moreover have "?row\<lparr>ol_state := LockPending, ol_builder_order_id := None, ol_release_reason := None, ol_consumed_at := None, ol_released_at := None\<rparr> = ?row"
    by (simp add: lock_input_def)
  ultimately obtain wb where i: "fl_write env (insert_lock ?row) wa = (Inr (Some ?row), wb)" "fl_locks wb = ?ls @ [?row]"
    using e(2) row(2) by (simp add: write_done [OF assms(1)] insert_lock_def Let_def)
  have acquired: "acquire_trade_flow_deferred_once_lock env ?row w = (Inr \<lparr>aq_created = True, aq_record = Some ?row, aq_expired_count = n\<rparr>, wb)"
    using e(1) i(1) row(2) by (simp add: acquire_trade_flow_deferred_once_lock_def st_bind_def st_return_def)
  obtain wc where c: "(if 0 < n then append_deferred_once_event env meta ''expired'' ''expired'' (Some ''ttl_expired'') None else st_return ()) wb = (Inr (), wc)"
    "fl_locks wc = fl_locks wb"
    using event_done [OF assms(1), of meta "''expired''" "''expired''" "Some ''ttl_expired''" None wb] by (cases "0 < n") (auto simp: st_return_def)
  obtain wd where d: "append_deferred_once_event env meta ''created'' ''pending'' None None wc = (Inr (), wd)" "fl_locks wd = fl_locks wc"
    using event_done [OF assms(1), of meta "''created''" "''pending''" None None wc] by auto
  have "attach_lock env run input meta w = (Inr (Some (with_deferred_once_lock_fields (oe_flow env) (oe_now env (fl_calls wd)) input meta
      ''created'' ''pending'' None None None)), wd)"
    using c(1) d(1) by (simp add: attach_lock_def st_then_def st_bind_def acquired fl_now_def st_get_def st_return_def)
  moreover have "fl_locks wd = ?ls @ [?row]" using c(2) d(2) i(2) by simp
  ultimately show ?thesis using free row(1) by blast
qed

text \<open>C35: a lock whose time is over admits a second action. On a database that answers every call, when the time of a pending lock
  is over and its action has not consumed it yet, the trigger that fires again is given a new lock of the same key and the input to
  queue a second action with. If the first order is then accepted, it consumes the new lock, which is the second action's; and
  if the second order is accepted after that, it finds no pending lock of the key, so that no lock changes. Queueing the input
  and placing the orders are other functions.\<close>

theorem expired_lock_admits_second_order:
  assumes "oe_answer env = (\<lambda>_. Done)" "locks_ok (fl_locks w)" "l \<in> set (fl_locks w)" "is_pending l" "ol_lock_key l = om_lock_key meta"
    "ol_expires_at l \<le> oe_now env (fl_calls w)"
    "attach_lock env run input meta w = (r, w1)"
    "consume_trade_flow_deferred_once_lock env (om_lock_key meta) first_order w1 = (r1, w2)"
    "consume_trade_flow_deferred_once_lock env (om_lock_key meta) second_order w2 = (r2, w3)"
  shows "(\<exists>queued. r = Inr (Some queued)) \<and> (\<exists>row. r1 = Inr (Some row) \<and> ol_builder_order_id row = Some first_order)
    \<and> r2 = Inr None \<and> fl_locks w3 = fl_locks w2"
proof -
  have "holds_key (om_lock_key meta) l" using assms(4,5) by (simp add: holds_key_def)
  from attach_after_time [OF assms(1-3) this assms(6), of run input]
  obtain queued ls row where a: "r = Inr (Some queued)" "fl_locks w1 = ls @ [row]" "\<forall>x \<in> set ls. \<not> holds_key (om_lock_key meta) x"
    "holds_key (om_lock_key meta) row"
    using assms(7) by auto
  let ?row = "consumed_row first_order (oe_now env (fl_calls w1)) row"
  have "(r1, w2) = (Inr (Some ?row), w1\<lparr>fl_calls := Suc (fl_calls w1), fl_locks := ls @ [?row]\<rparr>)"
    using assms(8) close_last [of "w1\<lparr>fl_calls := Suc (fl_calls w1)\<rparr>" ls row] a(2-4)
    by (simp add: consume_trade_flow_deferred_once_lock_def write_done [OF assms(1)] Let_def)
  then have first: "r1 = Inr (Some ?row)" "fl_locks w2 = ls @ [?row]" by simp_all
  have "\<forall>x \<in> set (fl_locks w2). \<not> holds_key (om_lock_key meta) x" using a(3) first(2) by (simp add: holds_key_def)
  then have "r2 = Inr None \<and> fl_locks w3 = fl_locks w2"
    using assms(9) close_nothing [of "w2\<lparr>fl_calls := Suc (fl_calls w2)\<rparr>" "om_lock_key meta"]
    by (auto simp: consume_trade_flow_deferred_once_lock_def write_done [OF assms(1)] Let_def)
  with a(1) first(1) show ?thesis by (simp add: consumed_row_def)
qed

section \<open>The lock travels with the step\<close>

definition meta_ok :: "once_meta \<Rightarrow> bool" where
  "meta_ok m \<longleftrightarrow> list_all (\<lambda>s. trim s = s \<and> s \<noteq> []) [om_lock_key m, om_trigger_node_key m, om_action_node_key m,
     om_market_slug m, om_token_id m, om_outcome_label m]"

lemma once_string: "json_get v k = Some (JStr s) \<Longrightarrow> trim s = s \<Longrightarrow> s \<noteq> [] \<Longrightarrow> deferred_once_string v [k] = Some s"
  by (simp add: deferred_once_string_def non_empty_def filter_opt_def List.map_filter_simps)

lemma is_object_fields [simp]: "is_object (insert_fields entries v) = is_object v"
proof -
  have "is_object v \<Longrightarrow> is_object (fold (\<lambda>(k, x). obj_insert k x) entries v)" for v
    by (induction entries arbitrary: v) (auto split: prod.split)
  then show ?thesis by (auto simp: insert_fields_def)
qed

text \<open>C31: what is attached to the input of a step is what the step reads back: the lock of a trigger written into any
  object parses to itself, for proper keys and labels and a time that chrono prints and parses.\<close>

theorem lock_roundtrip:
  assumes "is_object input" "meta_ok meta" "fe_parse_rfc3339 fe (fe_rfc3339 fe (om_expires_at meta)) = Some (om_expires_at meta)"
  shows "parse_deferred_once_lock_meta fe now (with_deferred_once_lock_fields fe t input meta action state why because i) = Some meta"
proof -
  have lock: "json_get (with_deferred_once_lock_fields fe t input meta action state why because i) deferred_once_lock_field = Some (lock_object fe meta)"
    using assms(1) by (cases because)
      (simp_all add: with_deferred_once_lock_fields_def annotate_deferred_once_output_def insert_fields_def deferred_once_lock_field_def)
  let ?o = "lock_object fe meta"
  have fields: "json_get ?o ''lock_key'' = Some (JStr (om_lock_key meta))" "json_get ?o ''trigger_node_key'' = Some (JStr (om_trigger_node_key meta))"
    "json_get ?o ''action_node_key'' = Some (JStr (om_action_node_key meta))" "json_get ?o ''market_slug'' = Some (JStr (om_market_slug meta))"
    "json_get ?o ''token_id'' = Some (JStr (om_token_id meta))" "json_get ?o ''outcome_label'' = Some (JStr (om_outcome_label meta))"
    "json_get ?o ''once_scope_market'' = Some (JBool (om_once_scope_market meta))"
    "json_get ?o ''expires_at'' = Some (JStr (fe_rfc3339 fe (om_expires_at meta)))"
    by (simp_all add: lock_object_def)
  show ?thesis unfolding parse_deferred_once_lock_meta_def lock
    using assms(2,3) fields by (simp add: once_string meta_ok_def)
qed

section \<open>Applied\<close>

definition sample_meta :: once_meta where
  "sample_meta = \<lparr>om_lock_key = ''k'', om_trigger_node_key = ''t'', om_action_node_key = ''a'', om_market_slug = ''m'', om_token_id = ''1'',
     om_outcome_label = ''Up'', om_once_scope_market = True, om_expires_at = 5000\<rparr>"

definition sample_run :: flow_run where
  "sample_run = \<lparr>fr_id = 1, fr_definition_id = 1, fr_version_id = 1, fr_user_id = 1, fr_status = RunRunning,
     fr_trigger_source = None, fr_context_json = JObj [], fr_last_error = None\<rparr>"

definition sample_lock :: once_lock where
  "sample_lock = lock_input sample_run sample_meta"

definition sample_once_env :: once_env where
  "sample_once_env = \<lparr>oe_flow = sample_flow_env, oe_answer = (\<lambda>_. Done), oe_now = (\<lambda>n. 6000 + int n)\<rparr>"

definition sample_table :: "once_lock list \<Rightarrow> flow_db" where
  "sample_table ls = \<lparr>fl_locks = ls, fl_events = [], fl_keys = {}, fl_runs = [sample_run], fl_steps = [],
     fl_calls = 0\<rparr>"

lemmas samples = sample_meta_def sample_run_def sample_lock_def lock_input_def sample_once_env_def sample_table_def is_pending_def

lemma sample_done: "oe_answer sample_once_env = (\<lambda>_. Done)" by (simp add: sample_once_env_def)

lemma sample_acquired: "table_step [] [sample_lock]"
  using table_step.insert [of "[]" sample_lock 0 "sample_table []"] by (simp add: insert_lock_def samples Let_def)

theorem once_locks_exclude_witness:
  "distinct (map ol_lock_key (filter is_pending [consumed_row 7 2000 sample_lock, sample_lock]))
   \<and> list_all lock_ok [consumed_row 7 2000 sample_lock, sample_lock] \<and> extends [sample_lock] [consumed_row 7 2000 sample_lock, sample_lock]"
proof (rule once_locks_exclude)
  show "table_steps [] [sample_lock]" using sample_acquired by blast
  have "table_step [sample_lock] [consumed_row 7 2000 sample_lock]"
    using table_step.consume [of "[sample_lock]" "''k''" 7 2000 "sample_table []"] by (simp add: close_lock_def samples Let_def)
  moreover have "table_step [consumed_row 7 2000 sample_lock] [consumed_row 7 2000 sample_lock, sample_lock]"
    using table_step.insert [of "[consumed_row 7 2000 sample_lock]" sample_lock 2100 "sample_table []"]
    by (simp add: insert_lock_def samples consumed_row_def Let_def)
  ultimately show "table_steps [sample_lock] [consumed_row 7 2000 sample_lock, sample_lock]"
    by (rule converse_rtranclp_into_rtranclp [OF _ r_into_rtranclp])
qed

definition sample_step :: flow_step where
  "sample_step = queued_step 4 1 ''a'' ''action.place_order'' 1 None 0 None None 0"

definition sample_runs_env :: runs_env where
  "sample_runs_env = \<lparr>re_once = sample_once_env, re_definition = (\<lambda>_ _. None), re_version = (\<lambda>_ _. None), re_config = (\<lambda>_ _. Inr ()),
     re_time_text = show_i64, re_returned = (\<lambda>_ steps. steps)\<rparr>"

theorem engine_uses_lock_statements_witness:
  "table_steps [sample_lock] (fl_locks (snd (recover_stale_running_trade_flow_steps sample_runs_env 5 10
     (snd (process_claimed_step sample_runs_env (\<lambda>_ _ _ _ ctx. (Inl ''down'', ctx)) \<lparr>pc_id = ''p'', pc_started_at = 0\<rparr> sample_step ()
       (sample_table [sample_lock]))))))"
proof -
  have "table_steps (fl_locks (sample_table [sample_lock])) (fl_locks (snd (recover_stale_running_trade_flow_steps sample_runs_env 5 10
     (snd (process_claimed_step sample_runs_env (\<lambda>_ _ _ _ ctx. (Inl ''down'', ctx)) \<lparr>pc_id = ''p'', pc_started_at = 0\<rparr> sample_step ()
       (sample_table [sample_lock]))))))"
    by (rule engine_uses_lock_statements, rule rtranclp.rtrancl_into_rtrancl [OF r_into_rtranclp]) (rule engine_step.intros)+
  then show ?thesis by (simp add: sample_table_def)
qed

lemma mark_consumed_done: "\<exists>ctx'. mark_consumed env l ctx w = (Inr ctx', w)"
  by (simp add: mark_consumed_def fl_now_def st_get_def st_return_def)

definition sample_consumed :: once_lock where
  "sample_consumed = consumed_row 7 2000 sample_lock"

lemma sample_listed: "fl_locks w = [sample_consumed] \<Longrightarrow> consumed_locks 1 w = [] @ sample_consumed # []"
  by (simp add: consumed_locks_def sample_consumed_def consumed_row_def samples)

lemma sample_reconciled:
  assumes "fl_locks w = [sample_consumed]" "fr_id run = 1"
  shows "\<exists>ctx' w'. reconcile_trade_flow_deferred_once_locks_for_run sample_once_env run ctx w = (Inr ctx', w') \<and> fl_locks w' = [sample_consumed]"
proof -
  let ?w = "w\<lparr>fl_calls := Suc (fl_calls w)\<rparr>"
  have e: "expire_trade_flow_deferred_once_locks_for_run sample_once_env (fr_id run) w = (Inr 0, ?w)"
    using assms(1) by (simp add: expire_trade_flow_deferred_once_locks_for_run_def write_done [OF sample_done] expire_where_def Let_def
        sample_consumed_def consumed_row_def is_pending_def)
  have l: "list_consumed_trade_flow_deferred_once_locks sample_once_env (fr_id run) ?w
      = (Inr [sample_consumed], ?w\<lparr>fl_calls := Suc (fl_calls ?w)\<rparr>)"
    using sample_listed [of ?w] assms
    by (simp add: list_consumed_trade_flow_deferred_once_locks_def fl_read_def sample_done Let_def)
  obtain ctx' where "mark_consumed sample_once_env sample_consumed ctx (?w\<lparr>fl_calls := Suc (fl_calls ?w)\<rparr>) = (Inr ctx', ?w\<lparr>fl_calls := Suc (fl_calls ?w)\<rparr>)"
    using mark_consumed_done by blast
  with e l assms(1) show ?thesis
    by (simp add: reconcile_trade_flow_deferred_once_locks_for_run_def st_bind_def st_then_def st_return_def)
qed

lemma sample_label: "trimmed (Some ''m'') \<noteq> None"
  by code_simp

theorem consumed_lock_blocks_trigger_witness:
  "\<exists>ctx' w'. reconcile_trade_flow_deferred_once_locks_for_run sample_once_env sample_run (JObj []) (sample_table [sample_consumed]) = (Inr ctx', w')
    \<and> trade_flow_market_price_once_fired_for_scope sample_flow_env ctx' ''t'' True (Some ''m'')"
proof -
  obtain ctx' w' where r: "reconcile_trade_flow_deferred_once_locks_for_run sample_once_env sample_run (JObj []) (sample_table [sample_consumed]) = (Inr ctx', w')"
    and l: "fl_locks w' = [sample_consumed]"
    using sample_reconciled [of "sample_table [sample_consumed]" sample_run "JObj []"] by (auto simp: sample_table_def sample_run_def)
  have "consumed_locks (fr_id sample_run) w' = [] @ sample_consumed # []" using sample_listed [OF l] by (simp add: sample_run_def)
  from consumed_lock_blocks_trigger [OF r this] sample_label
  have "trade_flow_market_price_once_fired_for_scope (oe_flow sample_once_env) ctx' (ol_trigger_node_key sample_consumed)
      (ol_once_scope_market sample_consumed) (Some (ol_market_slug sample_consumed))"
    by (simp add: sample_consumed_def consumed_row_def samples)
  then have "trade_flow_market_price_once_fired_for_scope sample_flow_env ctx' ''t'' True (Some ''m'')"
    by (simp add: sample_consumed_def consumed_row_def samples)
  with r show ?thesis by blast
qed

lemma sample_attempts: "fst (resolve_trade_flow_reentry_attempts_for_market fe (JObj []) ''a'' ''m'') = 0"
  by (simp add: resolve_trade_flow_reentry_attempts_for_market_def flow_node_reentry_market_slug_def flow_node_state_string_def
      flow_node_state_def non_empty_def filter_opt_def trimmed_def Let_def)

theorem reentry_blocked_by_consumed_lock_witness:
  "\<exists>w1 run' w2 ctx w3. schedule_reentry sample_once_env sample_run ''a'' ''t'' ''m'' 1 9000 (sample_table [sample_consumed]) = (Inr True, w1)
    \<and> get_trade_flow_run sample_once_env 1 w1 = (Inr (Some run'), w2)
    \<and> reconcile_trade_flow_deferred_once_locks_for_run sample_once_env run' (normalize_trade_flow_context (fr_context_json run') JNull) w2 = (Inr ctx, w3)
    \<and> \<not> trade_flow_market_price_once_fired_for_scope sample_flow_env (fr_context_json run') ''t'' True (Some ''m'')
    \<and> trade_flow_market_price_once_fired_for_scope sample_flow_env ctx ''t'' True (Some ''m'')"
proof -
  have lock: "ol_market_slug sample_consumed = ''m''" "ol_trigger_node_key sample_consumed = ''t''" "ol_once_scope_market sample_consumed"
    "fr_id sample_run = 1" "oe_flow sample_once_env = sample_flow_env"
    by (simp_all add: sample_consumed_def consumed_row_def samples)
  obtain attempts stored where t: "resolve_trade_flow_reentry_attempts_for_market sample_flow_env (JObj []) ''a'' ''m'' = (attempts, stored)"
    by (metis surj_pair)
  have "\<exists>w1 run' w2. schedule_reentry sample_once_env sample_run ''a'' ''t'' ''m'' 1 9000 (sample_table [sample_consumed]) = (Inr True, w1)
      \<and> get_trade_flow_run sample_once_env 1 w1 = (Inr (Some run'), w2) \<and> fr_id run' = 1 \<and> fl_locks w2 = [sample_consumed]"
    using sample_attempts [of sample_flow_env] t lock(5)
    by (simp add: schedule_reentry_def sample_run_def st_then_def st_bind_def st_return_def update_trade_flow_run_context_def update_run_def
        enqueue_trade_flow_step_def write_done [OF sample_done] sample_table_def get_trade_flow_run_def fl_read_def sample_done Let_def)
  then obtain w1 run' w2 where s: "schedule_reentry sample_once_env sample_run ''a'' ''t'' (ol_market_slug sample_consumed) 1 9000
      (sample_table [sample_consumed]) = (Inr True, w1)" and c: "get_trade_flow_run sample_once_env (fr_id sample_run) w1 = (Inr (Some run'), w2)"
    and i: "fr_id run' = 1" and l: "fl_locks w2 = [sample_consumed]"
    using lock(1,4) by auto
  obtain ctx w3 where r: "reconcile_trade_flow_deferred_once_locks_for_run sample_once_env run' (normalize_trade_flow_context (fr_context_json run') JNull) w2 = (Inr ctx, w3)"
    and l2: "fl_locks w3 = [sample_consumed]"
    using sample_reconciled [OF l i] by blast
  have listed: "consumed_locks (fr_id run') w3 = [] @ sample_consumed # []" using sample_listed [OF l2] i by simp
  have proper: "''t'' \<notin> ol_trigger_node_key ` set []" "trimmed (Some (ol_market_slug sample_consumed)) \<noteq> None"
    using sample_label by (simp_all add: lock(1))
  from reentry_blocked_by_consumed_lock [OF s c r listed lock(2) proper] s c r show ?thesis unfolding lock using lock(3) by auto
qed

theorem lock_roundtrip_witness:
  "parse_deferred_once_lock_meta (sample_flow_env\<lparr>fe_rfc3339 := \<lambda>_. ''t'', fe_parse_rfc3339 := \<lambda>_. Some 5000\<rparr>) 9
     (with_deferred_once_lock_fields (sample_flow_env\<lparr>fe_rfc3339 := \<lambda>_. ''t'', fe_parse_rfc3339 := \<lambda>_. Some 5000\<rparr>) 8 (JObj [(''pass'', JBool True)])
       sample_meta ''created'' ''pending'' None None None) = Some sample_meta"
proof (rule lock_roundtrip)
  show "meta_ok sample_meta" by code_simp
qed (simp_all add: sample_meta_def)

theorem expired_lock_admits_second_order_witness:
  "\<exists>r w1 r1 w2 r2 w3. attach_lock sample_once_env sample_run (JObj []) sample_meta (sample_table [sample_lock]) = (r, w1)
    \<and> consume_trade_flow_deferred_once_lock sample_once_env ''k'' 7 w1 = (r1, w2)
    \<and> consume_trade_flow_deferred_once_lock sample_once_env ''k'' 8 w2 = (r2, w3)
    \<and> (\<exists>row. r1 = Inr (Some row) \<and> ol_builder_order_id row = Some 7) \<and> r2 = Inr None"
proof -
  obtain r w1 r1 w2 r2 w3 where x: "attach_lock sample_once_env sample_run (JObj []) sample_meta (sample_table [sample_lock]) = (r, w1)"
    "consume_trade_flow_deferred_once_lock sample_once_env (om_lock_key sample_meta) 7 w1 = (r1, w2)"
    "consume_trade_flow_deferred_once_lock sample_once_env (om_lock_key sample_meta) 8 w2 = (r2, w3)"
    by (metis surj_pair)
  have "locks_ok (fl_locks (sample_table [sample_lock]))" by (simp add: locks_ok_def lock_ok_def samples)
  from expired_lock_admits_second_order [OF sample_done this _ _ _ _ x]
  have "(\<exists>row. r1 = Inr (Some row) \<and> ol_builder_order_id row = Some 7) \<and> r2 = Inr None" by (simp add: samples)
  with x show ?thesis by (auto simp: sample_meta_def)
qed

end
