(* ===== verification/Runs_Safety.thy ===== *)
theory Runs_Safety
  imports Once_Safety "HOL-Library.Multiset"
begin

text \<open>
  What holds of runs and their steps (\<open>Flow_Runs\<close>), for every sequence of operations of the engine: a step is claimed at
  most once, a definition has at most one running run, what a started run begins with, and which failures leave a run
  or a claimed step behind that nothing takes up again.
\<close>

section \<open>The queue\<close>

definition ids_ok :: "flow_step list \<Rightarrow> bool" where
  "ids_ok steps \<longleftrightarrow> map fs_id steps = map int [0..<length steps]"

definition taken :: "i64 \<Rightarrow> flow_step list \<Rightarrow> bool" where
  "taken i steps \<longleftrightarrow> (\<exists>s \<in> set steps. fs_id s = i \<and> fs_status s \<noteq> StepQueued)"

text \<open>A step that was taken from the queue does not come back to it.\<close>

definition no_requeue :: "flow_db \<Rightarrow> flow_db \<Rightarrow> bool" where
  "no_requeue w w' \<longleftrightarrow> (ids_ok (fl_steps w) \<longrightarrow> ids_ok (fl_steps w')) \<and> (\<forall>i. taken i (fl_steps w) \<longrightarrow> taken i (fl_steps w'))"

lemma ids_map: "(\<And>s. fs_id (f s) = fs_id s) \<Longrightarrow> ids_ok steps \<Longrightarrow> ids_ok (map f steps)"
  by (simp add: ids_ok_def comp_def)

lemma taken_map:
  assumes "\<And>s. fs_id (f s) = fs_id s" "\<And>s. fs_status s \<noteq> StepQueued \<Longrightarrow> fs_status (f s) \<noteq> StepQueued" "taken i steps"
  shows "taken i (map f steps)"
  using assms unfolding taken_def by auto

lemma requeue_map:
  assumes "\<And>s. fs_id (f s) = fs_id s" "\<And>s. fs_status s \<noteq> StepQueued \<Longrightarrow> fs_status (f s) \<noteq> StepQueued"
    "fl_steps w' = map f (fl_steps w)"
  shows "no_requeue w w'"
  unfolding no_requeue_def assms(3) using ids_map [OF assms(1)] taken_map [OF assms(1,2)] by blast

lemma step_changes [simp]:
  "fs_id (started_step t s) = fs_id s" "fs_status (started_step t s) = StepRunning"
  "fs_id (ended_step st out e t s) = fs_id s" "fs_status (ended_step st out e t s) = st"
  "fs_id (canceled_step f t s) = fs_id s" "fs_status (canceled_step f t s) = StepCanceled"
  by (simp_all add: started_step_def ended_step_def canceled_step_def)

lemma queued_fields [simp]: "fs_id (queued_step i r k ty a input t p c n) = i" "fs_status (queued_step i r k ty a input t p c n) = StepQueued"
  "fs_run_id (queued_step i r k ty a input t p c n) = r" "fs_idempotency_key (queued_step i r k ty a input t p c n) = c"
  "fs_node_key (queued_step i r k ty a input t p c n) = k" "fs_node_type (queued_step i r k ty a input t p c n) = ty"
  by (simp_all add: queued_step_def)

lemma same_steps: "fl_steps w' = fl_steps w \<Longrightarrow> no_requeue w w'"
  by (simp add: no_requeue_def)

interpretation queue: flow_relation no_requeue
proof
  show "no_requeue u w" if "no_requeue u v" "no_requeue v w" for u v w
    using that by (simp add: no_requeue_def)
  show "no_requeue w (w\<lparr>fl_steps := fl_steps w @ [queued_step (int (length (fl_steps w))) run key ty attempt input t parent once now]\<rparr>)"
    for w run key ty attempt input t parent once now
    by (auto simp: no_requeue_def ids_ok_def taken_def)
  show "no_requeue w (update_step i (ended_step ending out error now) w)" if "ending \<notin> {StepQueued, StepRunning}" for w i ending out error now
    by (rule requeue_map [where f = "\<lambda>s. if fs_id s = i then ended_step ending out error now s else s"])
      (use that in \<open>simp_all add: update_step_def\<close>)
  show "no_requeue w (snd (claim_steps limit pass now w))" for w limit pass now
    by (rule requeue_map [where f = "\<lambda>s. if fs_id s \<in> fs_id ` set (take limit (sort_key fs_available_at (filter (claimable pass now) (fl_steps w))))
        then started_step now s else s"]) (simp_all add: claim_steps_def Let_def)
  show "no_requeue w (snd (recover_steps tx age limit now w))" for w tx age limit now
    by (rule requeue_map [where f = "\<lambda>s. if fs_id s \<in> fs_id ` set (take limit (sort_key running_since
        (filter (\<lambda>s. fs_status s = StepRunning \<and> running_since s \<le> now - age) (fl_steps w)))) then canceled_step tx now s else s"])
      (simp_all add: recover_steps_def Let_def)
qed (rule same_steps, simp add: expire_where_def insert_lock_def close_lock_def update_run_def insert_run_def Let_def)+

lemma ids_distinct: "ids_ok steps \<Longrightarrow> distinct (map fs_id steps)"
  by (simp add: ids_ok_def distinct_map)

text \<open>The steps of one claim: distinct, queued before and running afterwards.\<close>

lemma claim_steps_props:
  assumes "ids_ok (fl_steps w)" "claim_steps limit pass now w = (claimed, w')"
  shows "distinct (map fs_id claimed)" "i \<in> fs_id ` set claimed \<Longrightarrow> \<not> taken i (fl_steps w) \<and> taken i (fl_steps w')"
proof -
  let ?due = "filter (claimable pass now) (fl_steps w)" and ?picked = "take limit (sort_key fs_available_at (filter (claimable pass now) (fl_steps w)))"
  have c: "claimed = map (started_step now) ?picked"
    and w': "fl_steps w' = map (\<lambda>s. if fs_id s \<in> fs_id ` set ?picked then started_step now s else s) (fl_steps w)"
    using assms(2) by (auto simp: claim_steps_def Let_def)
  have "distinct (map fs_id ?due)" using ids_distinct [OF assms(1)] by (rule distinct_map_filter)
  then have "distinct (map fs_id (sort_key fs_available_at ?due))" by (simp add: distinct_map)
  then have "distinct (map fs_id ?picked)" by (simp only: take_map [symmetric] distinct_take)
  then show "distinct (map fs_id claimed)" by (simp add: c comp_def)
  assume "i \<in> fs_id ` set claimed"
  then obtain s where s: "s \<in> set ?picked" "fs_id s = i" by (auto simp: c)
  then have "s \<in> set ?due" using in_set_takeD [OF s(1)] by simp
  then have due: "s \<in> set (fl_steps w)" "fs_status s = StepQueued" by (simp_all add: claimable_def)
  have "x = s" if "x \<in> set (fl_steps w)" "fs_id x = i" for x
    using ids_distinct [OF assms(1)] that due(1) s(2) by (auto simp: distinct_map dest: inj_onD)
  then have "\<not> taken i (fl_steps w)" using due(2) by (auto simp: taken_def)
  moreover have "started_step now s \<in> set (fl_steps w')"
    unfolding w' set_map using due(1) s(1) by (intro image_eqI [of _ _ s]) simp_all
  then have "taken i (fl_steps w')" using s(2) unfolding taken_def by (intro bexI [of _ "started_step now s"]) simp_all
  ultimately show "\<not> taken i (fl_steps w) \<and> taken i (fl_steps w')" by simp
qed

lemma claim_Inr:
  assumes "claim_ready_trade_flow_steps_for_processing_run re limit pass w = (Inr claimed, w')" "\<And>n xs. mset (re_returned re n xs) = mset xs"
  shows "\<exists>now rows. claim_steps limit pass now (w\<lparr>fl_calls := Suc (fl_calls w)\<rparr>) = (rows, w') \<and> mset claimed = mset rows"
  using assms by (auto simp: claim_ready_trade_flow_steps_for_processing_run_def st_get_def st_bind_Inr fl_write_def Let_def st_return_def
      split: answer.splits prod.splits)

lemma same_mset_ids: "mset xs = mset ys \<Longrightarrow> distinct (map fs_id xs) = distinct (map fs_id ys) \<and> set xs = set ys"
  by (metis distinct_count_atmost_1 mset_map set_mset_mset)

lemma claimed_taken:
  assumes "ids_ok (fl_steps w)" "claim_ready_trade_flow_steps_for_processing_run re limit pass w = (Inr claimed, w')"
    "\<And>n xs. mset (re_returned re n xs) = mset xs"
  shows "distinct (map fs_id claimed)" "i \<in> fs_id ` set claimed \<Longrightarrow> \<not> taken i (fl_steps w) \<and> taken i (fl_steps w')"
proof -
  obtain now rows where r: "claim_steps limit pass now (w\<lparr>fl_calls := Suc (fl_calls w)\<rparr>) = (rows, w')" "mset claimed = mset rows"
    using claim_Inr [OF assms(2,3)] by blast
  have ok: "ids_ok (fl_steps (w\<lparr>fl_calls := Suc (fl_calls w)\<rparr>))" using assms(1) by simp
  show "distinct (map fs_id claimed)" using claim_steps_props(1) [OF ok r(1)] same_mset_ids [OF r(2)] by simp
  show "\<not> taken i (fl_steps w) \<and> taken i (fl_steps w')" if "i \<in> fs_id ` set claimed"
    using claim_steps_props(2) [OF ok r(1), of i] same_mset_ids [OF r(2)] that by simp
qed

text \<open>C11: a step is executed at most once. Whatever the engine did in between, with whatever failures, the steps of two claims are
  different, and so are those of one claim: a step that a worker has claimed is never handed to a worker again.\<close>

theorem step_claimed_once:
  assumes "ids_ok (fl_steps w)" "\<And>n xs. mset (re_returned re n xs) = mset xs" "\<And>n xs. mset (re_returned re' n xs) = mset xs"
    "claim_ready_trade_flow_steps_for_processing_run re limit pass w = (Inr claimed, w1)" "engine w1 w2"
    "claim_ready_trade_flow_steps_for_processing_run re' limit' pass' w2 = (Inr claimed', w3)"
  shows "distinct (map fs_id (claimed @ claimed'))"
proof -
  have w1: "no_requeue w w1" using queue.claimed [of re limit pass] assms(4) by (metis preserves_def snd_conv)
  have w2: "no_requeue w1 w2" by (rule queue.engine_steps [OF assms(5)])
  have "ids_ok (fl_steps w2)" using w1 w2 assms(1) by (simp add: no_requeue_def)
  note second = claimed_taken [OF this assms(6,3)] and first = claimed_taken [OF assms(1,4,2)]
  have "taken i (fl_steps w2)" if "i \<in> fs_id ` set claimed" for i using first(2) [OF that] w2 by (simp add: no_requeue_def)
  then have "fs_id ` set claimed \<inter> fs_id ` set claimed' = {}" using second(2) by blast
  then show ?thesis using first(1) second(1) by simp
qed

section \<open>Runs\<close>

definition runs_ok :: "flow_run list \<Rightarrow> bool" where
  "runs_ok runs \<longleftrightarrow> map fr_id runs = map int [0..<length runs]
     \<and> distinct (map fr_definition_id (filter (\<lambda>r. fr_status r = RunRunning) runs))"

definition keeps_runs_ok :: "flow_db \<Rightarrow> flow_db \<Rightarrow> bool" where
  "keeps_runs_ok w w' \<longleftrightarrow> (runs_ok (fl_runs w) \<longrightarrow> runs_ok (fl_runs w'))"

lemma runs_ok_map:
  assumes "\<And>r. fr_id (f r) = fr_id r" "\<And>r. fr_definition_id (f r) = fr_definition_id r"
    "\<And>r. fr_status (f r) = RunRunning \<Longrightarrow> fr_status r = RunRunning" "runs_ok runs"
  shows "runs_ok (map f runs)"
proof -
  have "map fr_definition_id (filter (\<lambda>r. fr_status r = RunRunning) (map f rs))
      = map fr_definition_id (filter (\<lambda>r. fr_status r = RunRunning \<and> fr_status (f r) = RunRunning) rs)" for rs
    using assms(2,3) by (induction rs) auto
  then show ?thesis using assms(1,4) distinct_more [of fr_definition_id "\<lambda>r. fr_status r = RunRunning" runs "\<lambda>r. fr_status (f r) = RunRunning"]
    by (simp add: runs_ok_def comp_def)
qed

interpretation runs: flow_relation keeps_runs_ok
proof
  show "keeps_runs_ok w (update_run i (fr_context_json_update (\<lambda>_. ctx)) w)" for w i ctx
    unfolding keeps_runs_ok_def update_run_def by (simp, rule impI, rule runs_ok_map) (simp_all split: if_splits)
  show "keeps_runs_ok w (update_run i (\<lambda>r. r\<lparr>fr_status := status, fr_last_error := err\<rparr>) w)" if "status \<noteq> RunRunning" for status w i err
    unfolding keeps_runs_ok_def update_run_def by (simp, rule impI, rule runs_ok_map) (use that in \<open>simp_all split: if_splits\<close>)
  show "keeps_runs_ok w (snd (insert_run r now w))" if "fr_id r = int (length (fl_runs w))" for r now w
    using that by (auto simp: keeps_runs_ok_def insert_run_def runs_ok_def list_ex_iff active_run_def)
qed (auto simp: keeps_runs_ok_def expire_where_def insert_lock_def close_lock_def update_step_def claim_steps_def recover_steps_def Let_def)

text \<open>C13: a definition has at most one running run, after any sequence of operations of the engine, also of a start that failed in
  the middle and is tried again.\<close>

theorem one_running_run:
  assumes "runs_ok (fl_runs w)" "engine w w'"
  shows "distinct (map fr_definition_id (filter (\<lambda>r. fr_status r = RunRunning) (fl_runs w')))"
  using runs.engine_steps [OF assms(2)] assms(1) by (simp add: keeps_runs_ok_def runs_ok_def)

section \<open>What a failure leaves behind\<close>

lemma read_ok: "oe_answer env (fl_calls w) = Done \<Longrightarrow> fl_read env f w = (Inr (f w), w\<lparr>fl_calls := Suc (fl_calls w)\<rparr>)"
  by (simp add: fl_read_def Let_def)

lemma write_ok: "oe_answer env (fl_calls w) = Done \<Longrightarrow> fl_write env f w
    = (case f (oe_now env (fl_calls w)) (w\<lparr>fl_calls := Suc (fl_calls w)\<rparr>) of (x, v) \<Rightarrow> (Inr x, v))"
  by (simp add: fl_write_def Let_def)

text \<open>A failed read strands the claimed steps. When the run of a claimed step cannot be read, the loop over the claimed steps is
  left at once; the steps that follow it have been claimed and stay running, and no later claim hands them out again.\<close>

lemma unread_run_strands_claimed_steps:
  assumes "ids_ok (fl_steps w)" "\<And>n xs. mset (re_returned re' n xs) = mset xs"
    "oe_answer (re_once re) (fl_calls w) = Refused e" "s \<in> set (step # later)" "taken (fs_id s) (fl_steps w)"
    "st_fold (process_claimed_step re execute pc) (step # later) () w = (r, w1)" "engine w1 w2"
    "claim_ready_trade_flow_steps_for_processing_run re' limit pass w2 = (Inr claimed, w3)"
  shows "r = Inl e \<and> fl_steps w1 = fl_steps w \<and> fs_id s \<notin> fs_id ` set claimed"
proof -
  have "process_claimed_step re execute pc step () w = (Inl e, w\<lparr>fl_calls := Suc (fl_calls w)\<rparr>)"
    by (simp add: process_claimed_step_def get_trade_flow_run_def fl_read_def st_bind_def assms(3) Let_def)
  then have r: "r = Inl e" "fl_steps w1 = fl_steps w" using assms(6) by (auto simp: st_bind_def)
  have "no_requeue w1 w2" by (rule queue.engine_steps [OF assms(7)])
  then have "ids_ok (fl_steps w2)" "taken (fs_id s) (fl_steps w2)" using assms(1,5) r(2) by (simp_all add: no_requeue_def)
  with claimed_taken(2) [OF _ assms(8,2)] r show ?thesis by blast
qed

lemma active_last: "runs_ok runs \<Longrightarrow> r \<in> set runs \<Longrightarrow> active_run i r \<Longrightarrow> find (active_run i) (rev runs) = Some r"
proof -
  assume ok: "runs_ok runs" and r: "r \<in> set runs" "active_run i r"
  obtain x where x: "find (active_run i) (rev runs) = Some x"
    using r by (cases "find (active_run i) (rev runs)") (auto simp: find_None_iff)
  then have "x \<in> set runs" "active_run i x" by (auto simp: find_Some_iff) (metis nth_mem length_rev set_rev)
  moreover have "inj_on fr_definition_id (set (filter (\<lambda>r. fr_status r = RunRunning) runs))" using ok by (simp add: runs_ok_def distinct_map)
  ultimately have "x = r" using r by (auto simp: active_run_def dest: inj_onD)
  with x show ?thesis by simp
qed

text \<open>Once the run of the published version is active, a synchronisation queues nothing.\<close>

definition current_run :: "flow_definition \<Rightarrow> i64 \<Rightarrow> flow_db \<Rightarrow> bool" where
  "current_run d version_id w \<longleftrightarrow> runs_ok (fl_runs w)
     \<and> (\<exists>r \<in> set (fl_runs w). active_run (fdn_id d) r \<and> fr_version_id r = version_id)"

lemma current_update:
  assumes "current_run d v w"
  shows "current_run d v (update_run i (fr_context_json_update (\<lambda>_. ctx)) w)"
proof -
  let ?f = "\<lambda>r. if fr_id r = i then r\<lparr>fr_context_json := ctx\<rparr> else r"
  obtain r where r: "r \<in> set (fl_runs w)" "active_run (fdn_id d) r \<and> fr_version_id r = v" and ok: "runs_ok (fl_runs w)"
    using assms by (auto simp: current_run_def)
  have "runs_ok (map ?f (fl_runs w))" by (rule runs_ok_map) (use ok in \<open>simp_all split: if_splits\<close>)
  moreover have "?f r \<in> set (map ?f (fl_runs w))" "active_run (fdn_id d) (?f r) \<and> fr_version_id (?f r) = v"
    using r by (simp_all add: active_run_def)
  ultimately show ?thesis by (auto simp: current_run_def update_run_def simp del: set_map)
qed

definition queues_nothing :: "flow_definition \<Rightarrow> i64 \<Rightarrow> 'a flow \<Rightarrow> bool" where
  "queues_nothing d v m \<longleftrightarrow> (\<forall>w. fl_steps (snd (m w)) = fl_steps w \<and> (current_run d v w \<longrightarrow> current_run d v (snd (m w))))"

lemma current_cong: "fl_runs w = fl_runs w' \<Longrightarrow> current_run d v w = current_run d v w'"
  by (simp add: current_run_def)

lemma nothing_return: "queues_nothing d v (st_return x)"
  by (simp add: queues_nothing_def st_return_def)

lemma nothing_then: "queues_nothing d v m \<Longrightarrow> queues_nothing d v n \<Longrightarrow> queues_nothing d v (st_then m n)"
  unfolding queues_nothing_def st_then_def st_bind_def by (auto split: prod.split sum.split) (metis snd_conv)+

lemma nothing_write:
  assumes "\<And>now w. fl_steps (snd (f now w)) = fl_steps w" "\<And>now w. current_run d v w \<Longrightarrow> current_run d v (snd (f now w))"
  shows "queues_nothing d v (fl_write env f)"
  unfolding queues_nothing_def
proof
  fix w :: flow_db
  let ?w = "w\<lparr>fl_calls := Suc (fl_calls w)\<rparr>" and ?now = "oe_now env (fl_calls w)"
  have w: "fl_steps ?w = fl_steps w" "current_run d v ?w = current_run d v w" by (simp_all add: current_run_def)
  show "fl_steps (snd (fl_write env f w)) = fl_steps w \<and> (current_run d v w \<longrightarrow> current_run d v (snd (fl_write env f w)))"
    using assms(1) [of ?now ?w] assms(2) [of ?w ?now] w
    by (auto simp: fl_write_def Let_def split: answer.split prod.split)
qed

lemma nothing_sync_active: "queues_nothing d v (sync_active_run re version graph run)"
proof -
  have stores: "queues_nothing d v (update_trade_flow_run_context env i ctx)" for env i ctx
    unfolding update_trade_flow_run_context_def by (rule nothing_write) (simp_all add: current_update, simp add: update_run_def)
  have event: "queues_nothing d v (append_trade_flow_event env kind payload)" for env kind payload
    unfolding append_trade_flow_event_def by (rule nothing_write) (simp_all add: current_run_def)
  show ?thesis unfolding sync_active_run_def
    by (auto split: prod.split option.split intro!: nothing_return nothing_then stores event)
qed

lemma nothing_use: "queues_nothing d v m \<Longrightarrow> current_run d v w \<Longrightarrow> fl_steps (snd (m w)) = fl_steps w \<and> current_run d v (snd (m w))"
  by (simp add: queues_nothing_def)

lemma sync_current:
  assumes "fdn_published_version_id d = Some v" "re_version re = (\<lambda>_ _. Some version)" "fv_id version = v" "current_run d v w"
  shows "fl_steps (snd (sync_trade_flow_definition_run re d w)) = fl_steps w \<and> current_run d v (snd (sync_trade_flow_definition_run re d w))"
proof -
  let ?w = "\<lambda>n. w\<lparr>fl_calls := n\<rparr>"
  have cur: "current_run d v (?w n)" for n using assms(4) by (simp add: current_run_def)
  obtain r where r: "find (active_run (fdn_id d)) (rev (fl_runs w)) = Some r" "fr_version_id r = v"
    using assms(4) active_last unfolding current_run_def by blast
  have active: "get_active_trade_flow_run re (fdn_id d) (?w n) = (case oe_answer (re_once re) n of Done \<Rightarrow> (Inr (Some r), ?w (Suc n))
          | Refused e \<Rightarrow> (Inl e, ?w (Suc n)) | Lost e \<Rightarrow> (Inl e, ?w (Suc n)))" for n
    using r(1) by (simp add: get_active_trade_flow_run_def fl_read_def Let_def split: answer.split)
  have rest: "fl_steps (snd (sync_active_run re version graph r (?w n))) = fl_steps w \<and> current_run d v (snd (sync_active_run re version graph r (?w n)))"
    for graph n using nothing_use [OF nothing_sync_active cur] by simp
  show ?thesis
    unfolding sync_trade_flow_definition_run_def assms(1) get_trade_flow_version_def assms(2)
    using cur rest
    by (simp add: fl_read_def ok_or_def st_bind_def st_result_def Let_def active r(2) assms(3) split: answer.split sum.split)
qed

lemma syncs_current:
  assumes "fdn_published_version_id d = Some v" "fv_id version = v" "current_run d v w" "\<And>re. re \<in> set later \<Longrightarrow> re_version re = (\<lambda>_ _. Some version)"
  shows "fl_steps (foldl (\<lambda>w re. snd (sync_trade_flow_definition_run re d w)) w later) = fl_steps w"
  using assms(3,4)
proof (induction later arbitrary: w)
  case (Cons re later)
  then show ?case using sync_current [OF assms(1) Cons.prems(2) assms(2) Cons.prems(1)] by simp
qed simp

section \<open>Starting a run\<close>

definition new_run :: "flow_definition \<Rightarrow> flow_version \<Rightarrow> trade_flow_graph_runtime \<Rightarrow> nat \<Rightarrow> flow_run" where
  "new_run d version graph n = \<lparr>fr_id = int n, fr_definition_id = fdn_id d, fr_version_id = fv_id version, fr_user_id = fdn_user_id d,
     fr_status = RunRunning, fr_trigger_source = Some ''runner_auto_start'',
     fr_context_json = set_flow_state flow_state_publish_marker (JStr (trade_flow_publish_marker version))
       (build_initial_trade_flow_context (fg_context graph)), fr_last_error = None\<rparr>"

lemma then_return: "st_then (st_return x) m = m"
  by (simp add: st_then_def st_bind_def st_return_def)

lemma bind_result: "st_bind (st_result (Inr x)) f = f x"
  by (simp add: st_bind_def st_result_def)

text \<open>A start up to its event, when the calls before are answered.\<close>

lemma start_until_event:
  assumes "\<not> list_ex (active_run (fdn_id d)) (fl_runs w)" "fdn_published_version_id d = Some v" "re_version re = (\<lambda>_ _. Some version)"
    "parse_trade_flow_graph (fv_graph_json version) = Inr graph" "\<And>k. k < 4 \<Longrightarrow> oe_answer (re_once re) (fl_calls w + k) = Done"
  defines "run \<equiv> new_run d version graph (length (fl_runs w))"
  shows "sync_trade_flow_definition_run re d w = st_then (append_trade_flow_event (re_once re) ''run_started'' (JObj
         [(''run_id'', json_i64 (fr_id run)), (''version_id'', json_i64 (fv_id version)), (''definition_name'', JStr (fdn_name d))]))
      (seed_trade_flow_trigger_steps re run graph) (w\<lparr>fl_calls := fl_calls w + 4, fl_runs := fl_runs w @ [run]\<rparr>)"
proof -
  have none: "find (active_run (fdn_id d)) (rev (fl_runs w)) = None" using assms(1) by (simp add: find_None_iff list_ex_iff)
  have d: "oe_answer (re_once re) (fl_calls w) = Done" "oe_answer (re_once re) (Suc (fl_calls w)) = Done"
    "oe_answer (re_once re) (Suc (Suc (fl_calls w))) = Done" "oe_answer (re_once re) (Suc (Suc (Suc (fl_calls w)))) = Done"
    using assms(5) [of 0] assms(5) [of 1] assms(5) [of 2] assms(5) [of 3] by (simp_all add: numeral_eq_Suc)
  have created: "create_trade_flow_run re d (fv_id version) (Some ''runner_auto_start'')
      (set_flow_state flow_state_publish_marker (JStr (trade_flow_publish_marker version)) (build_initial_trade_flow_context (fg_context graph)))
      (w\<lparr>fl_calls := Suc (Suc (Suc (fl_calls w)))\<rparr>) = (Inr run, w\<lparr>fl_calls := fl_calls w + 4, fl_runs := fl_runs w @ [run]\<rparr>)"
    using assms(1) d(4)
    by (simp add: create_trade_flow_run_def st_bind_def write_ok insert_run_def st_return_def run_def new_run_def numeral_eq_Suc)
  have start: "start_trade_flow_run re d version graph (w\<lparr>fl_calls := Suc (Suc (fl_calls w))\<rparr>) = st_then (append_trade_flow_event (re_once re)
         ''run_started'' (JObj [(''run_id'', json_i64 (fr_id run)), (''version_id'', json_i64 (fv_id version)), (''definition_name'', JStr (fdn_name d))]))
      (seed_trade_flow_trigger_steps re run graph) (w\<lparr>fl_calls := fl_calls w + 4, fl_runs := fl_runs w @ [run]\<rparr>)"
    unfolding start_trade_flow_run_def get_active_trade_flow_run_def
    by (simp add: st_bind_def [of "fl_read _ _"] read_ok d(3) none then_return
        st_bind_def [of "create_trade_flow_run _ _ _ _ _"] created)
  show ?thesis
    unfolding sync_trade_flow_definition_run_def assms(2) get_trade_flow_version_def get_active_trade_flow_run_def
    by (simp add: st_bind_def [of "fl_read _ _"] bind_result ok_or_def read_ok d(1,2) assms(3,4) none start)
qed

text \<open>C33: a start that fails half way is never completed. When the run is created but the write of its event fails, the run is
  running without a single step, and no later synchronisation of the definition queues one, since each finds the run active.\<close>

theorem failed_start_never_seeded:
  assumes "runs_ok (fl_runs w)" "\<not> list_ex (active_run (fdn_id d)) (fl_runs w)" "fdn_published_version_id d = Some (fv_id version)"
    "re_version re = (\<lambda>_ _. Some version)" "\<And>re'. re' \<in> set later \<Longrightarrow> re_version re' = (\<lambda>_ _. Some version)"
    "parse_trade_flow_graph (fv_graph_json version) = Inr graph" "\<And>k. k < 4 \<Longrightarrow> oe_answer (re_once re) (fl_calls w + k) = Done"
    "oe_answer (re_once re) (fl_calls w + 4) = Refused e" "sync_trade_flow_definition_run re d w = (r, w')"
  shows "r = Inl e \<and> fl_runs w' = fl_runs w @ [new_run d version graph (length (fl_runs w))]
    \<and> fl_steps (foldl (\<lambda>w re'. snd (sync_trade_flow_definition_run re' d w)) w' later) = fl_steps w"
proof -
  let ?run = "new_run d version graph (length (fl_runs w))"
  have w': "r = Inl e" "w' = w\<lparr>fl_calls := Suc (fl_calls w + 4), fl_runs := fl_runs w @ [?run]\<rparr>"
    using assms(9) start_until_event [OF assms(2,3,4,6)] assms(7)
    by (auto simp: st_then_def st_bind_def append_trade_flow_event_def fl_write_def assms(8) Let_def)
  have "runs_ok (fl_runs w @ [?run])" using assms(1,2) by (auto simp: runs_ok_def new_run_def list_ex_iff active_run_def)
  then have "current_run d (fv_id version) w'" unfolding w'(2) current_run_def by (simp add: active_run_def new_run_def)
  from syncs_current [OF assms(3) refl this assms(5)] show ?thesis using w' by simp
qed

lemma seed_keys_differ: "''seed:'' @ a @ '':'' @ x = ''seed:'' @ a @ '':'' @ y \<longleftrightarrow> x = y"
  by simp

definition seed_key :: "flow_run \<Rightarrow> trade_flow_node \<Rightarrow> string option" where
  "seed_key run node = Some (''seed:'' @ show_i64 (fr_id run) @ '':'' @ fn_key node)"

definition step_head :: "flow_step \<Rightarrow> i64 \<times> string \<times> string \<times> step_status \<times> string option" where
  "step_head s = (fs_run_id s, fs_node_key s, fs_node_type s, fs_status s, fs_idempotency_key s)"

definition seeded_head :: "flow_run \<Rightarrow> trade_flow_node \<Rightarrow> i64 \<times> string \<times> string \<times> step_status \<times> string option" where
  "seeded_head run node = (fr_id run, fn_key node, fn_node_type node, StepQueued, seed_key run node)"

lemma seed_loop:
  assumes "oe_answer (re_once re) = (\<lambda>_. Done)" "distinct (map fn_key nodes)"
    "\<And>s node. s \<in> set (fl_steps w) \<Longrightarrow> node \<in> set nodes \<Longrightarrow> fs_run_id s = fr_id run \<Longrightarrow> fs_idempotency_key s \<noteq> seed_key run node"
  shows "\<exists>w'. st_fold (seed_step re run now) nodes () w = (Inr (), w') \<and> fl_runs w' = fl_runs w
    \<and> map step_head (fl_steps w') = map step_head (fl_steps w) @ map (seeded_head run) nodes"
  using assms(2,3)
proof (induction nodes arbitrary: w)
  case (Cons node nodes)
  let ?s = "queued_step (int (length (fl_steps w))) (fr_id run) (fn_key node) (fn_node_type node) 1 None now None (seed_key run node)
    (oe_now (re_once re) (fl_calls w))"
  let ?w = "w\<lparr>fl_calls := Suc (fl_calls w), fl_steps := fl_steps w @ [?s]\<rparr>"
  have "\<not> list_ex (\<lambda>s. fs_run_id s = fr_id run \<and> fs_idempotency_key s = seed_key run node) (fl_steps w)"
    using Cons.prems(2) by (auto simp: list_ex_iff)
  then have step: "seed_step re run now node () w = (Inr (), ?w)"
    by (simp add: seed_step_def enqueue_trade_flow_step_def st_bind_def write_ok assms(1) Let_def seed_key_def st_return_def)
  have "fs_idempotency_key s \<noteq> seed_key run n" if "s \<in> set (fl_steps ?w)" "n \<in> set nodes" "fs_run_id s = fr_id run" for s n
  proof (cases "s = ?s")
    case True
    then show ?thesis using that(2) Cons.prems(1) by (auto simp: seed_key_def)
  next
    case False
    then show ?thesis using that Cons.prems(2) [of s n] by simp
  qed
  then obtain w' where w': "st_fold (seed_step re run now) nodes () ?w = (Inr (), w')" "fl_runs w' = fl_runs ?w"
    "map step_head (fl_steps w') = map step_head (fl_steps ?w) @ map (seeded_head run) nodes"
    using Cons.IH [of ?w] Cons.prems(1) by auto
  have "st_fold (seed_step re run now) (node # nodes) () w = (Inr (), w')" using step w'(1) by (simp add: st_bind_def)
  moreover have "map step_head (fl_steps w') = map step_head (fl_steps w) @ map (seeded_head run) (node # nodes)"
    using w'(3) by (simp add: step_head_def seeded_head_def)
  ultimately show ?case using w'(2) by simp
qed (simp add: st_return_def)

text \<open>C21: when the database answers every call, a published definition without a running run gets one, which starts at its triggers: the synchronisation appends one running
  run of the published version and queues exactly its seed nodes, each once and in the order of the graph.\<close>

theorem sync_starts_run:
  assumes "oe_answer (re_once re) = (\<lambda>_. Done)" "\<not> list_ex (active_run (fdn_id d)) (fl_runs w)"
    "fdn_published_version_id d = Some (fv_id version)" "re_version re = (\<lambda>_ _. Some version)"
    "parse_trade_flow_graph (fv_graph_json version) = Inr graph" "select_trade_flow_initial_seed_nodes graph = Inr (mode, nodes)"
    "distinct (map fn_key nodes)" "\<And>s. s \<in> set (fl_steps w) \<Longrightarrow> fs_run_id s < int (length (fl_runs w))"
    "sync_trade_flow_definition_run re d w = (r, w')"
  shows "r = Inr () \<and> fl_runs w' = fl_runs w @ [new_run d version graph (length (fl_runs w))]
    \<and> map step_head (fl_steps w') = map step_head (fl_steps w) @ map (seeded_head (new_run d version graph (length (fl_runs w)))) nodes"
proof -
  let ?run = "new_run d version graph (length (fl_runs w))"
  let ?w = "w\<lparr>fl_runs := fl_runs w @ [?run], fl_calls := Suc (fl_calls w + 4), fl_events := fl_events w @ [(''run_started'', JObj
    [(''run_id'', json_i64 (fr_id ?run)), (''version_id'', json_i64 (fv_id version)), (''definition_name'', JStr (fdn_name d))])]\<rparr>"
  have "fr_id ?run = int (length (fl_runs w))" by (simp add: new_run_def)
  then have fresh: "fs_idempotency_key s \<noteq> seed_key ?run node" if "s \<in> set (fl_steps ?w)" "fs_run_id s = fr_id ?run" for s node
    using assms(8) [of s] that by simp
  have "sync_trade_flow_definition_run re d w = seed_trade_flow_trigger_steps re ?run graph ?w"
    unfolding start_until_event [OF assms(2-5) fun_cong [OF assms(1)]]
    by (simp add: st_then_def st_bind_def append_trade_flow_event_def write_ok assms(1))
  also have "\<dots> = st_fold (seed_step re ?run (oe_now (re_once re) (fl_calls ?w))) nodes () ?w"
    by (simp add: seed_trade_flow_trigger_steps_def fl_now_def st_get_def assms(6))
  finally have f: "(r, w') = st_fold (seed_step re ?run (oe_now (re_once re) (fl_calls ?w))) nodes () ?w" using assms(9) by simp
  have "\<exists>w1. st_fold (seed_step re ?run (oe_now (re_once re) (fl_calls ?w))) nodes () ?w = (Inr (), w1) \<and> fl_runs w1 = fl_runs ?w
      \<and> map step_head (fl_steps w1) = map step_head (fl_steps ?w) @ map (seeded_head ?run) nodes"
    by (rule seed_loop [OF assms(1,7)]) (rule fresh)
  then show ?thesis unfolding f [symmetric] by auto
qed

section \<open>The theorems at an example\<close>

text \<open>A published definition with one trigger and an order behind it, no run yet.\<close>

definition sample_published :: trade_flow_graph_runtime where
  "sample_published = \<lparr>fg_context = JObj [],
     fg_nodes = [\<lparr>fn_key = ''t'', fn_node_type = ''trigger.market_price'', fn_config = JObj []\<rparr>,
       \<lparr>fn_key = ''a'', fn_node_type = ''action.place_order'', fn_config = JObj []\<rparr>],
     fg_edges = [\<lparr>fd_source = ''t'', fd_target = ''a'', fd_edge_type = ''pass'', fd_condition = None\<rparr>]\<rparr>"

definition sample_version :: flow_version where
  "sample_version = \<lparr>fv_id = 3, fv_graph_json = JObj
     [(''nodes'', JArr [JObj [(''key'', JStr '' t''), (''type'', JStr ''trigger.market_price'')], JNull,
        JObj [(''key'', JStr ''a''), (''type'', JStr ''action.place_order'')], JObj [(''type'', JStr ''action.notify'')]]),
      (''edges'', JArr [JObj [(''source'', JStr ''t''), (''target'', JStr ''a''), (''type'', JStr ''pass'')]])],
     fv_published_at = None, fv_created_at = 0\<rparr>"

definition sample_definition :: flow_definition where
  "sample_definition = \<lparr>fdn_id = 7, fdn_user_id = 1, fdn_name = ''flow'', fdn_status = ''published'', fdn_published_version_id = Some 3\<rparr>"

definition runs_answered :: "(nat \<Rightarrow> answer) \<Rightarrow> runs_env" where
  "runs_answered answers = sample_runs_env\<lparr>re_once := sample_once_env\<lparr>oe_answer := answers\<rparr>, re_version := (\<lambda>_ _. Some sample_version)\<rparr>"

definition sample_db :: "flow_step list \<Rightarrow> flow_db" where
  "sample_db steps = \<lparr>fl_locks = [], fl_events = [], fl_keys = {}, fl_runs = [], fl_steps = steps, fl_calls = 0\<rparr>"

definition sample_queued :: "nat \<Rightarrow> flow_step" where
  "sample_queued i = queued_step (int i) 0 ''a'' ''action.place_order'' 1 None 0 None None 0"

lemma sample_parsed: "parse_trade_flow_graph (fv_graph_json sample_version) = Inr sample_published"
  by code_simp

lemma sample_seeds: "select_trade_flow_initial_seed_nodes sample_published
    = Inr (SeedTrigger, [\<lparr>fn_key = ''t'', fn_node_type = ''trigger.market_price'', fn_config = JObj []\<rparr>])"
  by code_simp

lemmas sample_runs = sample_db_def sample_queued_def runs_answered_def sample_runs_env_def sample_once_env_def sample_definition_def

lemma sample_fields [simp]: "fl_runs (sample_db steps) = []" "fl_steps (sample_db steps) = steps" "fl_calls (sample_db steps) = 0"
  "oe_answer (re_once (runs_answered answers)) = answers" "re_version (runs_answered answers) = (\<lambda>_ _. Some sample_version)"
  "re_returned (runs_answered answers) n steps = steps" "fdn_published_version_id sample_definition = Some (fv_id sample_version)"
  by (simp_all add: sample_runs sample_version_def)

lemma sample_ids: "ids_ok [sample_queued 0, sample_queued (Suc 0)]" by (simp add: ids_ok_def sample_queued_def)

lemma sample_claims:
  "claim_ready_trade_flow_steps_for_processing_run (runs_answered (\<lambda>_. Done)) 1 None (sample_db [sample_queued 0, sample_queued 1])
    = (Inr [started_step 6000 (sample_queued 0)], sample_db [started_step 6000 (sample_queued 0), sample_queued 1]\<lparr>fl_calls := 1\<rparr>)"
  "claim_ready_trade_flow_steps_for_processing_run (runs_answered (\<lambda>_. Done)) 5 None
      (sample_db [started_step 6000 (sample_queued 0), sample_queued 1]\<lparr>fl_calls := 1\<rparr>)
    = (Inr [started_step 6001 (sample_queued 1)],
       sample_db [started_step 6000 (sample_queued 0), started_step 6001 (sample_queued 1)]\<lparr>fl_calls := 2\<rparr>)"
  by (simp_all add: claim_ready_trade_flow_steps_for_processing_run_def st_get_def st_bind_def st_return_def fl_write_def claim_steps_def
      claimable_def created_by_this_pass_def sample_runs queued_step_def started_step_def Let_def)

theorem step_claimed_once_witness:
  "\<exists>claimed w1 claimed' w3. claim_ready_trade_flow_steps_for_processing_run (runs_answered (\<lambda>_. Done)) 1 None
      (sample_db [sample_queued 0, sample_queued 1]) = (Inr claimed, w1)
    \<and> claim_ready_trade_flow_steps_for_processing_run (runs_answered (\<lambda>_. Done)) 5 None w1 = (Inr claimed', w3)
    \<and> claimed \<noteq> [] \<and> claimed' \<noteq> [] \<and> distinct (map fs_id (claimed @ claimed'))"
proof -
  let ?s = "started_step 6000 (sample_queued 0)" and ?s' = "started_step 6001 (sample_queued 1)"
  have "distinct (map fs_id ([?s] @ [?s']))"
    by (rule step_claimed_once [OF _ _ _ sample_claims(1) rtranclp.rtrancl_refl sample_claims(2)]) (simp_all add: sample_ids)
  then show ?thesis using sample_claims by fastforce
qed

theorem one_running_run_witness:
  "distinct (map fr_definition_id (filter (\<lambda>r. fr_status r = RunRunning)
     (fl_runs (snd (sync_trade_flow_definition_run (runs_answered (\<lambda>_. Done)) sample_definition (sample_db []))))))"
  by (rule one_running_run [of "sample_db []"], simp add: runs_ok_def) (rule r_into_rtranclp, rule engine_step.intros)

theorem unread_run_strands_claimed_steps_witness:
  "\<exists>r w1 claimed w3. st_fold (process_claimed_step (runs_answered (\<lambda>n. if n = 1 then Refused ''down'' else Done)) (\<lambda>_ _ _ _ ctx. (Inl ''down'', ctx))
      \<lparr>pc_id = ''p'', pc_started_at = 0\<rparr>) [started_step 6000 (sample_queued 0), sample_queued 1] ()
      (sample_db [started_step 6000 (sample_queued 0), sample_queued 1]\<lparr>fl_calls := 1\<rparr>) = (r, w1)
    \<and> claim_ready_trade_flow_steps_for_processing_run (runs_answered (\<lambda>_. Done)) 5 None w1 = (Inr claimed, w3)
    \<and> r = Inl ''down'' \<and> 0 \<notin> fs_id ` set claimed"
proof -
  let ?w = "sample_db [started_step 6000 (sample_queued 0), sample_queued 1]\<lparr>fl_calls := 1\<rparr>"
    and ?re = "runs_answered (\<lambda>n. if n = 1 then Refused ''down'' else Done)"
  obtain r w1 where f: "st_fold (process_claimed_step ?re (\<lambda>_ _ _ _ ctx. (Inl ''down'', ctx)) \<lparr>pc_id = ''p'', pc_started_at = 0\<rparr>)
      [started_step 6000 (sample_queued 0), sample_queued 1] () ?w = (r, w1)"
    by (metis surj_pair)
  obtain c w3 where c: "claim_ready_trade_flow_steps_for_processing_run (runs_answered (\<lambda>_. Done)) 5 None w1 = (Inr c, w3)"
    by (cases "claim_steps 5 None (oe_now (re_once (runs_answered (\<lambda>_. Done))) (fl_calls w1)) (w1\<lparr>fl_calls := Suc (fl_calls w1)\<rparr>)")
      (simp add: claim_ready_trade_flow_steps_for_processing_run_def st_get_def st_bind_def st_return_def write_ok)
  have "ids_ok (fl_steps ?w)" by (simp add: ids_ok_def sample_queued_def)
  from unread_run_strands_claimed_steps [OF this _ _ _ _ f rtranclp.rtrancl_refl c, of "''down''" "started_step 6000 (sample_queued 0)"]
  have "r = Inl ''down'' \<and> 0 \<notin> fs_id ` set c" by (auto simp: taken_def sample_queued_def)
  with f c show ?thesis by blast
qed

theorem failed_start_never_seeded_witness:
  "\<exists>r w'. sync_trade_flow_definition_run (runs_answered (\<lambda>n. if n = 4 then Refused ''down'' else Done)) sample_definition (sample_db []) = (r, w')
    \<and> r = Inl ''down'' \<and> fl_runs w' = [new_run sample_definition sample_version sample_published 0]
    \<and> fl_steps (snd (sync_trade_flow_definition_run (runs_answered (\<lambda>_. Done)) sample_definition w')) = []"
proof -
  let ?re = "runs_answered (\<lambda>n. if n = 4 then Refused ''down'' else Done)"
  obtain r w' where s: "sync_trade_flow_definition_run ?re sample_definition (sample_db []) = (r, w')" by (metis surj_pair)
  have "r = Inl ''down'' \<and> fl_runs w' = fl_runs (sample_db []) @ [new_run sample_definition sample_version sample_published (length (fl_runs (sample_db [])))]
      \<and> fl_steps (foldl (\<lambda>w re'. snd (sync_trade_flow_definition_run re' sample_definition w)) w' [runs_answered (\<lambda>_. Done)]) = fl_steps (sample_db [])"
    by (rule failed_start_never_seeded [OF _ _ _ _ _ sample_parsed _ _ s]) (auto simp: runs_ok_def)
  with s show ?thesis by auto
qed

theorem sync_starts_run_witness:
  "\<exists>r w'. sync_trade_flow_definition_run (runs_answered (\<lambda>_. Done)) sample_definition (sample_db []) = (r, w')
    \<and> r = Inr () \<and> fl_runs w' = [new_run sample_definition sample_version sample_published 0]
    \<and> map step_head (fl_steps w') = [(0, ''t'', ''trigger.market_price'', StepQueued, Some (''seed:'' @ show_i64 0 @ '':t''))]"
proof -
  obtain r w' where s: "sync_trade_flow_definition_run (runs_answered (\<lambda>_. Done)) sample_definition (sample_db []) = (r, w')" by (metis surj_pair)
  from sync_starts_run [OF _ _ _ _ sample_parsed sample_seeds _ _ s]
  have "r = Inr () \<and> fl_runs w' = [new_run sample_definition sample_version sample_published 0]
      \<and> map step_head (fl_steps w') = map (seeded_head (new_run sample_definition sample_version sample_published 0))
          [\<lparr>fn_key = ''t'', fn_node_type = ''trigger.market_price'', fn_config = JObj []\<rparr>]"
    by simp
  with s show ?thesis by (simp add: seeded_head_def seed_key_def new_run_def)
qed

end
