(* ===== verification/Spec2Isabelle.thy ===== *)
theory Spec2Isabelle
  imports Exit_Sync Trade_Reconcile Dual_Safety Avg_Rebound_Held Armed_Reach Parent_Inventory
    Cex_Safety Ptb_Safety Priority_Safety Order_Safety Once_Safety Runs_Safety
begin

text \<open>
  A verification development of a trading bot for prediction markets, written in Rust
  (\<open>src/crates\<close>): \<open>bot-core\<close> has the domain types and the strategies, \<open>bot-infra\<close> the configuration, the
  database and the exchange client, \<open>bot-runner\<close> the runtimes. Two kinds of trading live in \<open>bot-runner\<close>. The
  trade runtimes (\<open>lib_parts/part_004.rs\<close> to \<open>part_009.rs\<close>, \<open>part_027.rs\<close>) run one trade or one two-sided
  basket in a loop over prices. The trade builder and the flow engine (\<open>trade_builder\<close>, \<open>trade_flow\<close>,
  \<open>part_010.rs\<close> to \<open>part_022.rs\<close>) work on orders and on graphs of triggers and actions that are stored in the
  database, from tasks that interleave there and in shared caches. The development models both, each from its
  data up to the runs.

  \<^bold>\<open>How the code is modelled.\<close> Definitions keep the names of the source and are executable. An \<open>f64\<close> is an IEEE
  binary64 value with every operation rounded (\<open>F64\<close>), an \<open>i64\<close> an integer, unsigned counters are words, strings are
  lists of bytes, \<open>serde_json\<close> values a datatype whose objects are association lists and whose numbers keep
  their text. \<open>Result\<close> and \<open>anyhow\<close> are a sum type. A function that only writes to the database is a state
  transformer over the list of operations sent (\<open>Effects\<close>); a function that also reads it back has a record of the
  tables (\<open>Repository\<close>, \<open>Parent_Inventory\<close>, \<open>Avg_Rebound_Session\<close>, \<open>Builder_World\<close>, \<open>Deferred_Once\<close>). What is outside (the
  answer of a database call, the exchange, clocks, environment variables, the cipher, the texts of numbers and
  times) is a parameter, a record of functions called an environment. A database call
  may succeed, be refused, or be carried out with its answer lost, in any pattern, and the theorems quantify over
  all patterns unless they say otherwise.

  \<^bold>\<open>Foundations.\<close>
  \<^item> \<open>Prelude\<close>: the integers, fallible functions, chains of \<open>ensure!\<close>, shared lemmas and the collections
    \<open>f64_eval\<close>, \<open>text_eval\<close>, \<open>model_defs\<close>.
  \<^item> \<open>F64\<close>: binary64; rounding is monotone, exact on representable values, and of relative error \<open>2 powi -53\<close>.
  \<^item> \<open>Rust_Text\<close>: \<open>trim\<close>, \<open>to_lowercase\<close>, parsing, the other string functions the source calls.
  \<^item> \<open>Json_Decimal\<close>: JSON values, and \<open>rust_decimal\<close> numbers as rationals with an abstract rounding under the laws
    \<open>decimal_laws\<close>, which are satisfiable (the witnesses use an exact instance).
  \<^item> \<open>Effects\<close>: the operator \<open>?\<close> as \<open>st_bind\<close>, folds of effectful functions, the triples \<open>emits\<close>, \<open>keeps\<close>, \<open>hoare\<close>,
    and the locale \<open>closed_relation\<close>: a reflexive and transitive relation between states passes through every combinator.

  \<^bold>\<open>Types, configuration, shared tables.\<close>
  \<^item> \<open>Bot_Core\<close> (\<open>bot-core\<close>): types, the state machine of a trade, the risk gate, both strategies, cycle identifiers. The
    locale \<open>risk_policy\<close> is the trait of the source, interpreted by \<open>evaluate_risk\<close>.
  \<^item> \<open>Config\<close>, \<open>Config_Validate\<close> (\<open>bot-infra/src/config\<close>): the structs with their defaults, the resolution of encrypted and
    environment values, and the validation with what it guarantees.
  \<^item> \<open>Reconcile\<close>, \<open>Repository\<close> (\<open>bot-infra/src/reconcile.rs\<close>, \<open>db\<close>): the choice of a price, and the operations of the
    database the trade runtimes call.

  \<^bold>\<open>Trade runtimes.\<close>
  \<^item> \<open>Trade_Runtime\<close>: the entry and exit steps, the reconciliation of fills, the halt, the paper loop of one trade. The loop is a
    function of the list of prices it gets, so it always ends; one price is one iteration.
  \<^item> \<open>Log_Invariants\<close>, \<open>Trade_Safety\<close>, \<open>Trade_Reconcile\<close>: the locales \<open>log_invariant\<close> and \<open>reconcile_invariant\<close> say what an
    invariant of orders and fills has to promise and give it for every operation; their interpretations give that a paper run
    writes at most one round trip and nothing under the kill switch, that a fill is stored at most once, which fills are lost,
    what a halt cancels, and that a run without failures takes its profit.
  \<^item> \<open>Dual_Runtime\<close>, \<open>Dual_Safety\<close>: the two-sided paper and live loops. The locale \<open>dual_invariant\<close> extends \<open>log_invariant\<close>;
    \<open>level_limit\<close> and \<open>calm_database\<close> state the bound on levels and a quiet environment. The legs in memory are the ledger of the
    log, a leg is bought at most as often as configured, and where the live loop miscounts.

  \<^bold>\<open>Trade builder.\<close>
  \<^item> \<open>Share_Qty\<close>, \<open>Orders\<close>, \<open>Exit_Math\<close>: quantities on a grid of cents, exact below \<open>2 ^ 40\<close> cents; the order record with its
    classification; how much an exit sells when the inventory is partly visible, what it takes off for a retry, at which price.
  \<^item> \<open>Exit_Ladders\<close>, \<open>Exit_Sync\<close> (\<open>exit_ladders.rs\<close>): rules, the planner of rung quantities, which conserves and partitions, and the
    synchronisation of the exits with the inventory.
  \<^item> \<open>Trigger\<close>, \<open>Armed_Cache\<close>, \<open>Armed_Reach\<close>: when a price triggers, and the shared cache of armed exits with one step per critical
    section of its fast paths: in every interleaving an order is handed over at most once per arming.
  \<^item> \<open>Parent_Inventory\<close>: the row of a parent order that its exits sell from; fills only reduce it, and in cents exactly.
  \<^item> \<open>Cex_Microstructure\<close>, \<open>Cex_Safety\<close>, \<open>Ptb_Stop_Loss\<close>, \<open>Ptb_Safety\<close>: the books of the spot exchanges with bounded queues
    and the fetching of missing opens, and the price-to-beat stop loss over them, equal to a direct table of its sources.
  \<^item> \<open>Exit_Priority\<close>, \<open>Priority_Safety\<close>: stop losses before take profits, latches, the batch of exits that trigger together.
  \<^item> \<open>Builder_World\<close>: the table of builder orders with the statements on it (\<open>db/trade_builder/orders.rs\<close>) and the orders the
    exchange accepted. \<open>Submit_Parts\<close>, \<open>Submit_Checks\<close>, \<open>Order_Submit\<close>: the submission of a triggered order from its price to the
    record of the answer (\<open>order_submit.rs\<close> and the files it calls). \<open>Order_Processing\<close>: admission, price, trigger and submission of
    an order, and the housekeeping around them (\<open>order_processing.rs\<close>). \<open>Order_Effects\<close>: the locale \<open>order_relation\<close>, inside which
    each of these functions is shown to keep a relation between tables, and \<open>tail_relation\<close>, which singles out the last step, the
    sending of a request. \<open>Order_Safety\<close> interprets them by what is sent for an order: for an order without a request open at
    the exchange at most one request is accepted each time it is processed by its id, only when it is due and within its limit,
    and for one with an open request only the reconciliation sends; what is recorded of an accepted request, what a retried sell
    stores, and three ways in which an order at the exchange is forgotten (a refused record, an expiry, a failed synchronisation of fills).
    The steps of other files are parameters there, assumed to send nothing for the order.
  \<^item> \<open>Avg_Rebound\<close>, \<open>Avg_Rebound_Session\<close>, \<open>Avg_Rebound_Safety\<close>, \<open>Avg_Rebound_Reach\<close>, \<open>Avg_Rebound_Held\<close>: the pair-lock rescue strategy:
    quotes over an order book, which are cheapest, decisions, which secure the profit when the target leaves something to spend, and
    sessions. A step of a session is an attempt, or a change of any order the builder still processes. Every attempt places within the
    budget and no tier is bought twice; a session keeps its budget as long as no order that was held (\<open>guard_blocked\<close> and the other
    statuses an attempt does not count) is resumed, and \<open>Avg_Rebound_Held\<close> has a run in which a resumed order breaks it.

  \<^bold>\<open>Flow engine.\<close>
  \<^item> \<open>Flow_State\<close>, \<open>Flow_Logic\<close>: the context of a run, the marks of once-only triggers, JSON logic, and the edges a step follows,
    which are those whose typed condition holds.
  \<^item> \<open>Deferred_Once\<close>, \<open>Once_Safety\<close>: the locks that hold back such a mark until an order is accepted. The abstract
    specification is \<open>table_step\<close>, one statement on the table of locks.
  \<^item> \<open>Flow_Runs\<close>: the graph of a published version, the start of a run with its seed steps, the queue (claims, passes, processing,
    repetition, recovery of stale steps) and the reset of marks when a version is published again. Ids of runs and steps are
    their positions in the table; \<open>claim_passes\<close> counts the passes the code allows, two or eight.
  \<^item> \<open>Flow_Effects\<close>: the locale \<open>flow_relation\<close> states what a relation between tables has to promise for each statement; inside it
    every handler of the engine is shown to keep the relation, and with them every sequence of operations (\<open>engine\<close>).
    It is interpreted three times: by sequences of \<open>table_step\<close> (\<open>Once_Safety\<close>, a refinement), by \<open>no_requeue\<close> and by \<open>keeps_runs_ok\<close>
    (\<open>Runs_Safety\<close>: a step is claimed once, a definition has one running run, how runs start and what failed starts leave).

  \<^bold>\<open>Bounds and fuel.\<close> No definition takes fuel: loops of the source run over finite lists or are structural. Facts on cents hold below \<open>2 ^ 40\<close> cents, ten billion shares.
  Decimals are exact up to \<open>79228\<close> with 24 fractional digits; the panics of the library beyond \<open>2 ^ 96\<close> are not modelled,
  nor those of chrono at the ends of its range.

  \<^bold>\<open>Not modelled.\<close> Sleeps, log lines, metrics and notifications that change no state; the HTTP and websocket
  clients, their signatures and their reconnection; the text of SQL beyond the statements above and the concurrency control inside
  the database; the executors of the single nodes of a flow and the guards of entries (collapse, no reversal, volatility, price to beat),
  whose decisions are arguments here; the other pair-lock strategies and the flip grids of the trade builder; the reconciliation of an
  open builder order, the synchronisation and the finalisation of its fills, the observations of the inventory; auto claim; telegram; the mock exchange, the
  web frontend and the deployment. They are listed with their reasons in the manifest of the development.
\<close>

end
